(* ===== verification/Kpack_Prelude.thy ===== *)
theory Kpack_Prelude
  imports Main "HOL-Library.Char_ord" "HOL-Library.List_Lexorder" "HOL-Library.Multiset"
begin

text \<open>
  Shared vocabulary of the kpack development: Go errors and panics as values, fallible
  computations, computations that call the Kubernetes API (a history of calls is threaded
  through them), Go's string helpers, 64-bit integers, and the contract of \<open>sort.Sort\<close>.
  Every component theory imports this one.
\<close>

section \<open>Collections of facts\<close>

named_theorems kpack_defs "unfolding rules of small accessors and guards"
named_theorems io_simps "evaluation rules of computations with effects"

section \<open>Errors and fallible results\<close>

text \<open>
  An \<open>error\<close> of the source is a text and the class that the callers test with
  \<open>k8serrors.IsNotFound\<close> and friends. A nil dereference or an index out of range is a
  \<open>Panic\<close>: it stops the run as an error does, and nothing in the source recovers from it.
\<close>

datatype err_kind = Plain | NotFound | AlreadyExists | Conflict | Invalid | Permanent | NetworkErr

datatype goerr = Failed err_kind string | Panic string

type_synonym 'a res = "goerr + 'a"

fun err_text :: "goerr \<Rightarrow> string" where
  "err_text (Failed k t) = t"
| "err_text (Panic t) = t"

fun is_panic :: "goerr \<Rightarrow> bool" where
  "is_panic (Panic _) = True"
| "is_panic (Failed _ _) = False"

fun is_not_found :: "goerr \<Rightarrow> bool" where
  "is_not_found (Failed NotFound _) = True"
| "is_not_found _ = False"

fun is_permanent :: "goerr \<Rightarrow> bool" where
  "is_permanent (Failed Permanent _) = True"
| "is_permanent _ = False"

fun is_invalid :: "goerr \<Rightarrow> bool" where
  "is_invalid (Failed Invalid _) = True"
| "is_invalid _ = False"

text \<open>\<open>controller.NewPermanentError\<close> marks an error as not worth a retry and keeps its text.\<close>

fun new_permanent_error :: "goerr \<Rightarrow> goerr" where
  "new_permanent_error (Failed k t) = Failed Permanent t"
| "new_permanent_error (Panic t) = Panic t"

lemma is_panic_new_permanent_error [simp]: "is_panic (new_permanent_error e) = is_panic e"
  by (cases e) simp_all

lemma is_permanent_new_permanent_error [simp]: "is_permanent (new_permanent_error e) = (\<not> is_panic e)"
  by (cases e) simp_all

text \<open>\<open>errors.Wrap\<close> and \<open>errors.WithMessage\<close> prefix the text and keep the cause.\<close>

fun wrap_err :: "string \<Rightarrow> goerr \<Rightarrow> goerr" where
  "wrap_err m (Failed k t) = Failed k (m @ '': '' @ t)"
| "wrap_err m (Panic t) = Panic t"

text \<open>\<open>fmt.Errorf\<close> with \<open>%s\<close> renders the cause to text and drops its class.\<close>

fun errorf :: "string \<Rightarrow> goerr \<Rightarrow> goerr" where
  "errorf m (Failed k t) = Failed Plain (m @ '': '' @ t)"
| "errorf m (Panic t) = Panic t"

definition bind_res :: "'a res \<Rightarrow> ('a \<Rightarrow> 'b res) \<Rightarrow> 'b res" where
  "bind_res r f = (case r of Inl e \<Rightarrow> Inl e | Inr x \<Rightarrow> f x)"

definition map_err :: "(goerr \<Rightarrow> goerr) \<Rightarrow> 'a res \<Rightarrow> 'a res" where
  "map_err g r = (case r of Inl e \<Rightarrow> Inl (g e) | Inr x \<Rightarrow> Inr x)"

definition panics :: "'a res \<Rightarrow> bool" where
  "panics r = (case r of Inl e \<Rightarrow> is_panic e | Inr _ \<Rightarrow> False)"

lemma bind_res_simps [simp]:
  "bind_res (Inl e) f = Inl e"
  "bind_res (Inr x) f = f x"
  by (simp_all add: bind_res_def)

lemma map_err_simps [simp]:
  "map_err g (Inl e) = Inl (g e)"
  "map_err g (Inr x) = Inr x"
  by (simp_all add: map_err_def)

lemma panics_simps [simp]:
  "panics (Inl (Failed k t)) = False"
  "panics (Inl (Panic t)) = True"
  "panics (Inr x) = False"
  by (simp_all add: panics_def)

lemma bind_res_eq_Inr: "bind_res r f = Inr y \<longleftrightarrow> (\<exists>x. r = Inr x \<and> f x = Inr y)"
  by (cases r) simp_all

lemma bind_res_split:
  "P (bind_res r f) \<longleftrightarrow> (\<forall>e. r = Inl e \<longrightarrow> P (Inl e)) \<and> (\<forall>x. r = Inr x \<longrightarrow> P (f x))"
  by (cases r) simp_all

lemma is_panic_wrap_err [simp]: "is_panic (wrap_err m e) = is_panic e"
  by (cases e) simp_all

lemma is_panic_errorf [simp]: "is_panic (errorf m e) = is_panic e"
  by (cases e) simp_all

section \<open>Computations that call the API\<close>

text \<open>
  A reconciler reads listers and calls the API server. What comes back may depend on every
  call made so far, so a response is a function of the history of calls; a computation maps the
  history to its result and the longer history. The histories are the explicit sequences of
  effects that the ordering properties speak about.
\<close>

type_synonym ('e, 'a) io = "'e list \<Rightarrow> 'a res \<times> 'e list"

definition ret_io :: "'a \<Rightarrow> ('e, 'a) io" where
  "ret_io x = (\<lambda>h. (Inr x, h))"

definition fail_io :: "goerr \<Rightarrow> ('e, 'a) io" where
  "fail_io e = (\<lambda>h. (Inl e, h))"

definition lift_io :: "'a res \<Rightarrow> ('e, 'a) io" where
  "lift_io r = (\<lambda>h. (r, h))"

text \<open>A read that leaves no trace (a lister reads the informer's cache).\<close>

definition read_io :: "('e list \<Rightarrow> 'a res) \<Rightarrow> ('e, 'a) io" where
  "read_io f = (\<lambda>h. (f h, h))"

text \<open>A call: the event is recorded and the environment answers.\<close>

definition call_io :: "'e \<Rightarrow> ('e list \<Rightarrow> 'a res) \<Rightarrow> ('e, 'a) io" where
  "call_io ev f = (\<lambda>h. (f h, h @ [ev]))"

definition bind_io :: "('e, 'a) io \<Rightarrow> ('a \<Rightarrow> ('e, 'b) io) \<Rightarrow> ('e, 'b) io" where
  "bind_io m f = (\<lambda>h. case m h of (Inl e, h') \<Rightarrow> (Inl e, h') | (Inr x, h') \<Rightarrow> f x h')"

text \<open>Go code that looks at \<open>err\<close> itself; a panic is not an \<open>err\<close> and passes through.\<close>

definition attempt_io :: "('e, 'a) io \<Rightarrow> ('a res \<Rightarrow> ('e, 'b) io) \<Rightarrow> ('e, 'b) io" where
  "attempt_io m k = (\<lambda>h. case m h of
      (Inl (Panic p), h') \<Rightarrow> (Inl (Panic p), h')
    | (Inl (Failed c t), h') \<Rightarrow> k (Inl (Failed c t)) h'
    | (Inr x, h') \<Rightarrow> k (Inr x) h')"

definition map_err_io :: "(goerr \<Rightarrow> goerr) \<Rightarrow> ('e, 'a) io \<Rightarrow> ('e, 'a) io" where
  "map_err_io g m = (\<lambda>h. case m h of (r, h') \<Rightarrow> (map_err g r, h'))"

lemma ret_io_apply [simp, io_simps]: "ret_io x h = (Inr x, h)"
  by (simp add: ret_io_def)

lemma fail_io_apply [simp, io_simps]: "fail_io e h = (Inl e, h)"
  by (simp add: fail_io_def)

lemma lift_io_apply [simp, io_simps]: "lift_io r h = (r, h)"
  by (simp add: lift_io_def)

lemma read_io_apply [simp, io_simps]: "read_io f h = (f h, h)"
  by (simp add: read_io_def)

lemma call_io_apply [simp, io_simps]: "call_io ev f h = (f h, h @ [ev])"
  by (simp add: call_io_def)

lemma map_err_io_apply [io_simps]: "map_err_io g m h = (map_err g (fst (m h)), snd (m h))"
  by (simp add: map_err_io_def case_prod_beta)

lemma bind_io_apply [io_simps]:
  "bind_io m f h = (case fst (m h) of Inl e \<Rightarrow> (Inl e, snd (m h)) | Inr x \<Rightarrow> f x (snd (m h)))"
  by (cases "m h") (simp add: bind_io_def split: sum.split)

lemma attempt_io_apply [io_simps]:
  "attempt_io m k h = (case fst (m h) of
      Inl (Panic p) \<Rightarrow> (Inl (Panic p), snd (m h))
    | Inl (Failed c t) \<Rightarrow> k (Inl (Failed c t)) (snd (m h))
    | Inr x \<Rightarrow> k (Inr x) (snd (m h)))"
  by (cases "m h") (simp add: attempt_io_def split: sum.split goerr.split)

text \<open>
  Two properties that computations inherit from their parts: \<open>emits P m\<close>, every event that
  \<open>m\<close> adds to the history satisfies \<open>P\<close>; and \<open>safe m\<close>, \<open>m\<close> never panics.
\<close>

definition emits :: "('e \<Rightarrow> bool) \<Rightarrow> ('e, 'a) io \<Rightarrow> bool" where
  "emits P m \<longleftrightarrow> (\<forall>h. \<exists>es. snd (m h) = h @ es \<and> list_all P es)"

lemma emits_ret [intro, simp]: "emits P (ret_io x)"
  by (simp add: emits_def)

lemma emits_fail [intro, simp]: "emits P (fail_io e)"
  by (simp add: emits_def)

lemma emits_lift [intro, simp]: "emits P (lift_io r)"
  by (simp add: emits_def)

lemma emits_read [intro, simp]: "emits P (read_io f)"
  by (simp add: emits_def)

lemma emits_call [intro, simp]: "P ev \<Longrightarrow> emits P (call_io ev f)"
  by (simp add: emits_def)

lemma emits_obtain:
  assumes "emits P m"
  obtains es where "snd (m h) = h @ es" and "list_all P es"
  using assms unfolding emits_def by blast

lemma emits_bind [intro]:
  assumes "emits P m" and "\<And>x. emits P (f x)"
  shows "emits P (bind_io m f)"
  unfolding emits_def
proof
  fix h
  obtain es where es: "snd (m h) = h @ es" "list_all P es"
    using assms(1) by (rule emits_obtain)
  show "\<exists>es. snd (bind_io m f h) = h @ es \<and> list_all P es"
  proof (cases "fst (m h)")
    case (Inl e)
    with es show ?thesis by (simp add: bind_io_apply)
  next
    case (Inr x)
    obtain es' where "snd (f x (h @ es)) = (h @ es) @ es'" "list_all P es'"
      using assms(2) by (rule emits_obtain)
    with Inr es show ?thesis by (auto simp: bind_io_apply)
  qed
qed

lemma emits_attempt [intro]:
  assumes "emits P m" and "\<And>r. emits P (k r)"
  shows "emits P (attempt_io m k)"
  unfolding emits_def
proof
  fix h
  obtain es where es: "snd (m h) = h @ es" "list_all P es"
    using assms(1) by (rule emits_obtain)
  have k: "\<exists>es'. snd (k r (h @ es)) = h @ es' \<and> list_all P es'" for r
  proof -
    obtain es' where "snd (k r (h @ es)) = (h @ es) @ es'" "list_all P es'"
      using assms(2) by (rule emits_obtain)
    with es(2) show ?thesis by auto
  qed
  show "\<exists>es. snd (attempt_io m k h) = h @ es \<and> list_all P es"
    using es k by (auto simp: attempt_io_apply split: sum.split goerr.split)
qed

lemma emits_map_err [intro]: "emits P m \<Longrightarrow> emits P (map_err_io g m)"
  by (simp add: emits_def map_err_io_apply)

lemma emits_mono: "emits P m \<Longrightarrow> (\<And>e. P e \<Longrightarrow> Q e) \<Longrightarrow> emits Q m"
  unfolding emits_def by (metis list.pred_mono_strong)

lemma emits_filter:
  assumes "emits P m"
  shows "filter (\<lambda>e. \<not> P e) (snd (m h)) = filter (\<lambda>e. \<not> P e) h"
proof -
  obtain es where "snd (m h) = h @ es" "list_all P es" using assms by (rule emits_obtain)
  then show ?thesis by (simp add: list_all_iff)
qed

definition safe :: "('e, 'a) io \<Rightarrow> bool" where
  "safe m \<longleftrightarrow> (\<forall>h. \<not> panics (fst (m h)))"

lemma safe_ret [intro, simp]: "safe (ret_io x)"
  by (simp add: safe_def)

lemma safe_fail [intro, simp]: "\<not> is_panic e \<Longrightarrow> safe (fail_io e)"
  by (simp add: safe_def panics_def)

lemma safe_lift [intro, simp]: "\<not> panics r \<Longrightarrow> safe (lift_io r)"
  by (simp add: safe_def)

lemma safe_read [intro, simp]: "(\<And>h. \<not> panics (f h)) \<Longrightarrow> safe (read_io f)"
  by (simp add: safe_def)

lemma safe_call [intro, simp]: "(\<And>h. \<not> panics (f h)) \<Longrightarrow> safe (call_io ev f)"
  by (simp add: safe_def)

lemma panics_map_err [simp]: "(\<And>e. is_panic (g e) = is_panic e) \<Longrightarrow> panics (map_err g r) = panics r"
  by (cases r) (simp_all add: panics_def)

lemma safe_map_err [intro]: "(\<And>e. is_panic (g e) = is_panic e) \<Longrightarrow> safe m \<Longrightarrow> safe (map_err_io g m)"
  by (simp add: safe_def map_err_io_apply)

lemma safe_bind:
  assumes "safe m" and "\<And>h x. fst (m h) = Inr x \<Longrightarrow> safe (f x)"
  shows "safe (bind_io m f)"
  unfolding safe_def
proof
  fix h
  show "\<not> panics (fst (bind_io m f h))"
  proof (cases "fst (m h)")
    case (Inl e)
    moreover have "\<not> panics (fst (m h))" using assms(1) by (simp add: safe_def)
    ultimately show ?thesis by (simp add: bind_io_apply panics_def)
  next
    case (Inr x)
    with assms(2) have "safe (f x)" by blast
    with Inr show ?thesis by (simp add: bind_io_apply safe_def)
  qed
qed

lemma safe_attempt:
  assumes "safe m" and "\<And>h r. fst (m h) = r \<Longrightarrow> \<not> panics r \<Longrightarrow> safe (k r)"
  shows "safe (attempt_io m k)"
  unfolding safe_def
proof
  fix h
  have np: "\<not> panics (fst (m h))" using assms(1) by (simp add: safe_def)
  with assms(2) have k: "safe (k (fst (m h)))" by blast
  show "\<not> panics (fst (attempt_io m k h))"
  proof (cases "fst (m h)")
    case (Inl e)
    with np k show ?thesis
      by (cases e) (simp_all add: attempt_io_apply safe_def panics_def)
  next
    case (Inr x)
    with k show ?thesis by (simp add: attempt_io_apply safe_def)
  qed
qed

section \<open>Strings\<close>

text \<open>\<open>strings.Join\<close>, \<open>strings.HasPrefix\<close>, \<open>strings.HasSuffix\<close>, \<open>strings.TrimPrefix\<close>.\<close>

fun join :: "string \<Rightarrow> string list \<Rightarrow> string" where
  "join sep [] = ''''"
| "join sep [x] = x"
| "join sep (x # y # ys) = x @ sep @ join sep (y # ys)"

fun has_prefix :: "string \<Rightarrow> string \<Rightarrow> bool" where
  "has_prefix s [] = True"
| "has_prefix [] (p # ps) = False"
| "has_prefix (c # s) (p # ps) = (c = p \<and> has_prefix s ps)"

definition has_suffix :: "string \<Rightarrow> string \<Rightarrow> bool" where
  "has_suffix s suf = has_prefix (rev s) (rev suf)"

fun str_contains :: "string \<Rightarrow> string \<Rightarrow> bool" where
  "str_contains [] p = (p = [])"
| "str_contains (c # s) p = (has_prefix (c # s) p \<or> str_contains s p)"

definition trim_prefix :: "string \<Rightarrow> string \<Rightarrow> string" where
  "trim_prefix s p = (if has_prefix s p then drop (length p) s else s)"

lemma has_prefix_iff: "has_prefix s p \<longleftrightarrow> (\<exists>t. s = p @ t)"
  by (induction s p rule: has_prefix.induct) auto

lemma has_prefix_append [simp]: "has_prefix (p @ t) p"
  by (auto simp: has_prefix_iff)

lemma has_suffix_iff: "has_suffix s suf \<longleftrightarrow> (\<exists>t. s = t @ suf)"
  by (metis has_prefix_iff has_suffix_def rev_append rev_rev_ident)

lemma trim_prefix_append [simp]: "trim_prefix (p @ t) p = t"
  by (simp add: trim_prefix_def)

lemma join_eq_Nil_iff:
  "join (c # sep) xs = [] \<longleftrightarrow> xs = [] \<or> xs = [[]]"
  by (cases "(c # sep, xs)" rule: join.cases) auto

text \<open>\<open>fmt.Sprintf\<close> with a quoted \<open>%s\<close>.\<close>

definition quoted :: "string \<Rightarrow> string" where
  "quoted s = [CHR 0x27] @ s @ [CHR 0x27]"

text \<open>\<open>%q\<close>, with the escapes of printable text, tabs and line ends.\<close>

definition go_escape :: "char \<Rightarrow> string" where
  "go_escape c =
     (if c = CHR 0x22 \<or> c = CHR 0x5C then [CHR 0x5C, c]
      else if c = CHR 0x0A then [CHR 0x5C, CHR ''n'']
      else if c = CHR 0x09 then [CHR 0x5C, CHR ''t'']
      else if c = CHR 0x0D then [CHR 0x5C, CHR ''r'']
      else [c])"

definition go_quoted :: "string \<Rightarrow> string" where
  "go_quoted s = [CHR 0x22] @ concat (map go_escape s) @ [CHR 0x22]"

text \<open>\<open>strconv.Itoa\<close> / \<open>FormatInt(_, 10)\<close> and \<open>strconv.FormatBool\<close>.\<close>

definition digit :: "nat \<Rightarrow> char" where
  "digit d = char_of (48 + d)"

fun nat_to_string :: "nat \<Rightarrow> string" where
  "nat_to_string n = (if n < 10 then [digit n] else nat_to_string (n div 10) @ [digit (n mod 10)])"

declare nat_to_string.simps [simp del]

definition itoa :: "int \<Rightarrow> string" where
  "itoa n = (if n < 0 then CHR ''-'' # nat_to_string (nat (- n)) else nat_to_string (nat n))"

definition format_bool :: "bool \<Rightarrow> string" where
  "format_bool b = (if b then ''true'' else ''false'')"

text \<open>
  \<open>strconv.ParseInt(s, 10, 64)\<close> and \<open>strconv.Atoi(s)\<close>, by the name of the function: an optional sign, then one or more decimal digits, and a value
  that fits 64 bits. Everything else is an error.
\<close>

definition digit_value :: "char \<Rightarrow> nat option" where
  "digit_value c = (let n = of_char c :: nat in if 48 \<le> n \<and> n \<le> 57 then Some (n - 48) else None)"

fun parse_digits :: "nat \<Rightarrow> string \<Rightarrow> nat option" where
  "parse_digits acc [] = Some acc"
| "parse_digits acc (c # cs) =
     (case digit_value c of None \<Rightarrow> None | Some d \<Rightarrow> parse_digits (acc * 10 + d) cs)"

definition int64_max :: int where "int64_max = 2 ^ 63 - 1"
definition int64_min :: int where "int64_min = - (2 ^ 63)"

definition fits64 :: "int \<Rightarrow> bool" where
  "fits64 n \<longleftrightarrow> int64_min \<le> n \<and> n \<le> int64_max"

text \<open>64-bit addition wraps around.\<close>

definition wrap64 :: "int \<Rightarrow> int" where
  "wrap64 n = (n + 2 ^ 63) mod 2 ^ 64 - 2 ^ 63"

definition parse_unsigned :: "string \<Rightarrow> nat option" where
  "parse_unsigned s = (if s = [] then None else parse_digits 0 s)"

definition parse_number :: "string \<Rightarrow> string \<Rightarrow> int res" where
  "parse_number fn s =
     (let (neg, ds) = (case s of [] \<Rightarrow> (False, [])
                        | c # cs \<Rightarrow> if c = CHR ''-'' then (True, cs)
                                    else if c = CHR ''+'' then (False, cs) else (False, s))
      in case parse_unsigned ds of
           None \<Rightarrow> Inl (Failed Plain (fn @ '': parsing '' @ go_quoted s @ '': invalid syntax''))
         | Some n \<Rightarrow>
             (let v = (if neg then - int n else int n)
              in if fits64 v then Inr v
                 else Inl (Failed Plain (fn @ '': parsing '' @ go_quoted s @ '': value out of range''))))"

abbreviation parse_int :: "string \<Rightarrow> int res" where
  "parse_int \<equiv> parse_number ''strconv.ParseInt''"

abbreviation atoi :: "string \<Rightarrow> int res" where
  "atoi \<equiv> parse_number ''strconv.Atoi''"

lemma digit_value_digit [simp]: "d < 10 \<Longrightarrow> digit_value (digit d) = Some d"
  by (simp add: digit_value_def digit_def Let_def)

lemma digit_not_sign: "d < 10 \<Longrightarrow> digit d \<noteq> CHR ''-'' \<and> digit d \<noteq> CHR ''+''"
proof -
  assume "d < 10"
  then have "digit_value (digit d) = Some d" by simp
  moreover have "digit_value (CHR ''-'') = None" and "digit_value (CHR ''+'') = None"
    by (simp_all add: digit_value_def)
  ultimately show ?thesis by auto
qed

lemma parse_digits_append:
  "parse_digits a (xs @ ys) = (case parse_digits a xs of None \<Rightarrow> None | Some b \<Rightarrow> parse_digits b ys)"
  by (induction xs arbitrary: a) (simp_all split: option.split)

lemma nat_to_string_nonempty [simp]: "nat_to_string n \<noteq> []"
  by (subst nat_to_string.simps) simp

lemma parse_digits_nat_to_string:
  "parse_digits 0 (nat_to_string n) = Some n"
proof (induction n rule: nat_to_string.induct)
  case (1 n)
  show ?case
  proof (cases "n < 10")
    case True
    then show ?thesis by (simp add: nat_to_string.simps [of n])
  next
    case False
    with "1" have "parse_digits 0 (nat_to_string (n div 10)) = Some (n div 10)" by simp
    with False show ?thesis
      by (simp add: nat_to_string.simps [of n] parse_digits_append)
  qed
qed

lemma nat_to_string_head: "\<exists>d cs. d < 10 \<and> nat_to_string n = digit d # cs"
proof (induction n rule: nat_to_string.induct)
  case (1 n)
  show ?case
  proof (cases "n < 10")
    case True
    then show ?thesis by (auto simp: nat_to_string.simps [of n])
  next
    case False
    with "1" obtain d cs where "d < 10" "nat_to_string (n div 10) = digit d # cs" by auto
    with False show ?thesis by (auto simp: nat_to_string.simps [of n])
  qed
qed

lemma parse_int_itoa: "fits64 n \<Longrightarrow> parse_number fn (itoa n) = Inr n"
proof (cases "n < 0")
  case True
  assume "fits64 n"
  with True show ?thesis
    by (simp add: parse_number_def itoa_def parse_unsigned_def parse_digits_nat_to_string)
next
  case False
  assume fits: "fits64 n"
  obtain d cs where d: "d < 10" and hd: "nat_to_string (nat n) = digit d # cs"
    using nat_to_string_head by blast
  have "parse_unsigned (digit d # cs) = Some (nat n)"
    using hd parse_digits_nat_to_string [of "nat n"] by (simp add: parse_unsigned_def)
  with False fits hd digit_not_sign [OF d] show ?thesis
    by (simp add: parse_number_def itoa_def)
qed

lemma wrap64_id: "fits64 n \<Longrightarrow> wrap64 n = n"
  by (simp add: fits64_def wrap64_def int64_min_def int64_max_def)

lemma fits64_wrap64: "fits64 (wrap64 n)"
proof -
  have "0 \<le> (n + 2 ^ 63) mod 2 ^ 64" and "(n + 2 ^ 63) mod 2 ^ 64 < 2 ^ 64" by simp_all
  then show ?thesis
    unfolding fits64_def wrap64_def int64_min_def int64_max_def by simp
qed

lemma itoa_inj:
  assumes "fits64 m" and "fits64 n" and "itoa m = itoa n"
  shows "m = n"
proof -
  from assms(3) have "parse_int (itoa m) = parse_int (itoa n)" by simp
  with assms(1,2) show ?thesis by (simp add: parse_int_itoa)
qed

section \<open>The contract of sort.Sort\<close>

text \<open>
  \<open>sort.Sort\<close> returns a permutation of its input that is in order; where the order leaves two
  elements equal it promises nothing about their positions. Definitions that sort take the sorting
  function as an argument, and the facts below hold for every function with this contract.
\<close>

locale go_sort =
  fixes srt :: "'a list \<Rightarrow> 'a list"
    and key :: "'a \<Rightarrow> 'k::linorder"
  assumes srt_perm: "mset (srt xs) = mset xs"
    and srt_sorted: "sorted (map key (srt xs))"
begin

lemma set_srt [simp]: "set (srt xs) = set xs"
  using srt_perm [of xs] by (metis set_mset_mset)

lemma length_srt [simp]: "length (srt xs) = length xs"
  using srt_perm [of xs] by (metis size_mset)

lemma srt_Nil [simp]: "srt [] = []"
  using srt_perm [of "[]"] by simp

lemma srt_eq_Nil_iff [simp]: "srt xs = [] \<longleftrightarrow> xs = []"
  using length_srt [of xs] by (metis length_0_conv)

lemma filter_srt_length: "length (filter P (srt xs)) = length (filter P xs)"
  using srt_perm [of xs] by (metis mset_filter size_mset)

text \<open>The last element is a newest one, the first of any filtered sublist an oldest one.\<close>

lemma last_srt_max:
  assumes "x \<in> set xs"
  shows "key x \<le> key (last (srt xs))"
proof -
  from assms have ne: "srt xs \<noteq> []" by auto
  obtain ys where ys: "srt xs = ys @ [last (srt xs)]"
    using ne by (metis append_butlast_last_id)
  from assms have "x \<in> set (ys @ [last (srt xs)])" using ys set_srt by metis
  moreover have "sorted (map key (ys @ [last (srt xs)]))" using srt_sorted [of xs] ys by metis
  ultimately show ?thesis by (auto simp: sorted_append)
qed

lemma hd_filter_srt_min:
  assumes "filter P (srt xs) = y # ys" and "x \<in> set xs" and "P x"
  shows "key y \<le> key x"
proof -
  have "sorted (map key (filter P (srt xs)))"
    using srt_sorted [of xs] by (rule sorted_filter)
  moreover have "x \<in> set (filter P (srt xs))" using assms(2,3) by simp
  ultimately show ?thesis using assms(1) by auto
qed

end

end
