(* ===== verification/K8s_Types.thy ===== *)
theory K8s_Types
  imports Kpack_Prelude
begin

text \<open>
  The Kubernetes API structs that kpack fills in or reads, restricted to the fields the source
  touches, and the third-party functions it calls, collected in one record of parameters.
  Values that kpack only copies (affinity, tolerations, resource requirements, quantities) are
  kept as their serialised form, the type \<open>opaque\<close>. A nil pointer is \<open>None\<close>, a nil slice
  is the empty list, a \<open>map[string]string\<close> is a partial function.
\<close>

section \<open>Object metadata and references\<close>

type_synonym opaque = string
type_synonym str_map = "string \<rightharpoonup> string"

record owner_ref =
  owner_kind :: string
  owner_name :: string
  owner_uid :: string
  owner_controller :: bool

text \<open>A zero \<open>creationTimestamp\<close> or a missing \<open>deletionTimestamp\<close> is \<open>None\<close>.\<close>

record object_meta =
  meta_name :: string
  meta_namespace :: string
  meta_uid :: string
  meta_generation :: int
  meta_labels :: str_map
  meta_annotations :: str_map
  meta_creation :: "int option"
  meta_owners :: "owner_ref list"

definition empty_meta :: object_meta where
  "empty_meta = \<lparr>meta_name = '''', meta_namespace = '''', meta_uid = '''', meta_generation = 0,
     meta_labels = Map.empty, meta_annotations = Map.empty, meta_creation = None, meta_owners = []\<rparr>"

record namespaced_name =
  nn_namespace :: string
  nn_name :: string

record object_reference =
  oref_kind :: string
  oref_namespace :: string
  oref_name :: string

text \<open>\<open>corev1.LocalObjectReference\<close> has one field, the name.\<close>

datatype local_ref = LocalRef (lref_name: string)

section \<open>Containers, volumes, pods\<close>

record env_var =
  env_name :: string
  env_value :: string
  env_from :: "opaque option"

abbreviation plain_env :: "string \<Rightarrow> string \<Rightarrow> env_var" where
  "plain_env n v \<equiv> \<lparr>env_name = n, env_value = v, env_from = None\<rparr>"

datatype volume_source =
    EmptyDir
  | SecretSource string
  | ConfigMapSource local_ref
  | ClaimSource string
  | DownwardAPI "(string \<times> string) list"

datatype volume = Volume (vol_name: string) (vol_source: volume_source)

record volume_mount =
  mount_name :: string
  mount_path :: string
  mount_read_only :: bool
  mount_sub_path :: string

abbreviation mount_at :: "string \<Rightarrow> string \<Rightarrow> volume_mount" where
  "mount_at n p \<equiv> \<lparr>mount_name = n, mount_path = p, mount_read_only = False, mount_sub_path = ''''\<rparr>"

abbreviation mount_ro :: "string \<Rightarrow> string \<Rightarrow> volume_mount" where
  "mount_ro n p \<equiv> \<lparr>mount_name = n, mount_path = p, mount_read_only = True, mount_sub_path = ''''\<rparr>"

record security_context =
  sc_run_as_non_root :: bool
  sc_allow_privilege_escalation :: bool
  sc_privileged :: bool
  sc_seccomp :: string
  sc_drop :: "string list"

record pod_security_context =
  psc_run_as_non_root :: bool
  psc_seccomp :: string
  psc_fs_group :: "int option"
  psc_run_as_user :: "int option"
  psc_run_as_group :: "int option"

datatype termination_policy = TerminationDefault | FallbackToLogsOnError

record container =
  ctr_name :: string
  ctr_image :: string
  ctr_command :: "string list"
  ctr_args :: "string list"
  ctr_env :: "env_var list"
  ctr_resources :: opaque
  ctr_mounts :: "volume_mount list"
  ctr_security :: "security_context option"
  ctr_working_dir :: string
  ctr_pull_policy :: string
  ctr_termination_path :: string
  ctr_termination_policy :: termination_policy

text \<open>Container and pod states, as the kubelet reports them.\<close>

record terminated_state =
  term_exit_code :: int
  term_reason :: string
  term_message :: string

record waiting_state =
  wait_reason :: string
  wait_message :: string

datatype container_state =
    CsWaiting waiting_state
  | CsRunning
  | CsTerminated terminated_state
  | CsNone

record container_status =
  cs_name :: string
  cs_state :: container_state
  cs_ready :: bool

datatype pod_phase = PodUnset | PodPending | PodRunning | PodSucceeded | PodFailed | PodUnknown

record pod_status =
  ps_phase :: pod_phase
  ps_reason :: string
  ps_message :: string
  ps_init_containers :: "container_status list"
  ps_containers :: "container_status list"

record pod_spec =
  pod_restart_policy :: string
  pod_active_deadline :: "int option"
  pod_priority_class :: string
  pod_containers :: "container list"
  pod_init_containers :: "container list"
  pod_security :: pod_security_context
  pod_service_account :: string
  pod_node_selector :: str_map
  pod_tolerations :: "opaque list"
  pod_affinity :: "opaque option"
  pod_runtime_class :: "string option"
  pod_scheduler :: string
  pod_volumes :: "volume list"
  pod_pull_secrets :: "local_ref list"

record pod =
  pod_meta :: object_meta
  pod_spec_of :: pod_spec
  pod_status_of :: pod_status

record secret =
  sec_name :: string
  sec_type :: string
  sec_annotations :: str_map
  sec_data :: "string \<rightharpoonup> string"

text \<open>A missing key of a Go map reads as the zero value.\<close>

definition lookup_str :: "str_map \<Rightarrow> string \<Rightarrow> string" where
  "lookup_str m k = (case m k of None \<Rightarrow> '''' | Some v \<Rightarrow> v)"

lemma lookup_str_simps [simp]:
  "m k = Some v \<Longrightarrow> lookup_str m k = v"
  "m k = None \<Longrightarrow> lookup_str m k = ''''"
  by (simp_all add: lookup_str_def)

lemma lookup_str_upd [simp]: "lookup_str (m(k \<mapsto> v)) k' = (if k' = k then v else lookup_str m k')"
  by (simp add: lookup_str_def)

lemma lookup_str_empty [simp]: "lookup_str Map.empty k = ''''"
  by (simp add: lookup_str_def)

section \<open>The clock\<close>

text \<open>
  One reading of \<open>time.Now()\<close>: the instant, its \<open>RFC1123Z\<close> rendering, its date in the layout
  \<open>20060102\<close>, and hour, minute and second.
\<close>

record clock =
  clk_now :: int
  clk_rfc1123z :: string
  clk_date :: string
  clk_hour :: nat
  clk_minute :: nat
  clk_second :: nat

text \<open>\<open>%02d\<close>\<close>

definition two_digits :: "nat \<Rightarrow> string" where
  "two_digits n = (if n < 10 then ''0'' @ nat_to_string n else nat_to_string n)"

section \<open>Third-party functions\<close>

text \<open>
  A reference parsed by go-containerregistry (\<open>Identifier()\<close> is its tag or digest,
  \<open>Context().RegistryStr()\<close> its registry), a tag parsed by it, a version parsed by
  Masterminds/semver (\<open>Original()\<close> is the text it was parsed from).
\<close>

record image_ref =
  ref_identifier :: string
  ref_registry :: string

record image_tag =
  tag_str :: string
  tag_registry :: string
  tag_repository :: string

datatype semver = Semver (sv_original: string)

record lib =
  lib_parse_reference :: "string \<Rightarrow> image_ref res"
  lib_new_tag :: "string \<Rightarrow> image_tag res"
  lib_child_name :: "string \<Rightarrow> string \<Rightarrow> string"
  lib_semver_new :: "string \<Rightarrow> semver res"
  lib_semver_less :: "semver \<Rightarrow> semver \<Rightarrow> bool"
  lib_semver_equal :: "semver \<Rightarrow> semver \<Rightarrow> bool"

text \<open>\<open>kmeta.NewControllerRef\<close>: the object becomes the controlling owner.\<close>

definition controller_ref :: "string \<Rightarrow> object_meta \<Rightarrow> owner_ref" where
  "controller_ref kind m =
     \<lparr>owner_kind = kind, owner_name = meta_name m, owner_uid = meta_uid m, owner_controller = True\<rparr>"

end
