(* ===== verification/Core_Types.thy ===== *)
theory Core_Types
  imports K8s_Types
begin

text \<open>
  The shared API types of \<open>pkg/apis/core/v1alpha1\<close>: conditions and status
  (\<open>condition_types.go\<close>, \<open>status.go\<close>, \<open>volatile_time.go\<close>), source configurations and resolved
  sources (\<open>source_types.go\<close>), builder and buildpack descriptions (\<open>build_types.go\<close>,
  \<open>buildpack_types.go\<close>, \<open>buildpack_metadata.go\<close>), with the lemmas on condition lookup that every
  reconciler uses.
\<close>

section \<open>Conditions\<close>

datatype condition_status = ConditionTrue | ConditionFalse | ConditionUnknown

definition ConditionReady :: string where "ConditionReady = ''Ready''"
definition ConditionSucceeded :: string where "ConditionSucceeded = ''Succeeded''"

text \<open>\<open>Severity\<close> is never set in the source; its zero value means error.\<close>

record condition =
  cond_type :: string
  cond_status :: condition_status
  cond_severity :: string
  cond_time :: int
  cond_reason :: string
  cond_message :: string

definition mk_condition :: "string \<Rightarrow> condition_status \<Rightarrow> string \<Rightarrow> string \<Rightarrow> int \<Rightarrow> condition" where
  "mk_condition ty st reason msg now =
     \<lparr>cond_type = ty, cond_status = st, cond_severity = '''', cond_time = now,
      cond_reason = reason, cond_message = msg\<rparr>"

lemma mk_condition_sel [simp]:
  "cond_type (mk_condition ty st r m t) = ty"
  "cond_status (mk_condition ty st r m t) = st"
  "cond_reason (mk_condition ty st r m t) = r"
  "cond_message (mk_condition ty st r m t) = m"
  "cond_severity (mk_condition ty st r m t) = ''''"
  "cond_time (mk_condition ty st r m t) = t"
  by (simp_all add: mk_condition_def)

text \<open>The methods have pointer receivers and accept nil.\<close>

fun is_true :: "condition option \<Rightarrow> bool" where
  "is_true None = False"
| "is_true (Some c) = (cond_status c = ConditionTrue)"

fun is_false :: "condition option \<Rightarrow> bool" where
  "is_false None = False"
| "is_false (Some c) = (cond_status c = ConditionFalse)"

fun is_unknown :: "condition option \<Rightarrow> bool" where
  "is_unknown None = True"
| "is_unknown (Some c) = (cond_status c = ConditionUnknown)"

text \<open>Every condition, present or not, is in exactly one of the three states.\<close>

lemma condition_trichotomy:
  "(is_true c \<and> \<not> is_false c \<and> \<not> is_unknown c) \<or>
   (\<not> is_true c \<and> is_false c \<and> \<not> is_unknown c) \<or>
   (\<not> is_true c \<and> \<not> is_false c \<and> is_unknown c)"
proof (cases c)
  case None
  then show ?thesis by simp
next
  case (Some x)
  then show ?thesis by (cases "cond_status x") simp_all
qed

lemma not_is_unknown_iff: "\<not> is_unknown c \<longleftrightarrow> is_true c \<or> is_false c"
  using condition_trichotomy [of c] by blast

lemma is_true_not_false: "is_true c \<Longrightarrow> \<not> is_false c"
  using condition_trichotomy [of c] by blast

record status =
  st_observed_generation :: int
  st_conditions :: "condition list"

definition empty_status :: status where
  "empty_status = \<lparr>st_observed_generation = 0, st_conditions = []\<rparr>"

fun get_condition_in :: "condition list \<Rightarrow> string \<Rightarrow> condition option" where
  "get_condition_in [] t = None"
| "get_condition_in (c # cs) t = (if cond_type c = t then Some c else get_condition_in cs t)"

definition get_condition :: "status \<Rightarrow> string \<Rightarrow> condition option" where
  "get_condition s t = get_condition_in (st_conditions s) t"

lemma get_condition_in_type: "get_condition_in cs t = Some c \<Longrightarrow> cond_type c = t \<and> c \<in> set cs"
  by (induction cs) (auto split: if_splits)

lemma get_condition_in_None: "get_condition_in cs t = None \<longleftrightarrow> t \<notin> cond_type ` set cs"
  by (induction cs) auto

lemma get_condition_in_append:
  "get_condition_in (cs @ ds) t =
     (case get_condition_in cs t of None \<Rightarrow> get_condition_in ds t | Some c \<Rightarrow> Some c)"
  by (induction cs) auto

definition create_status_with_ready_condition :: "int \<Rightarrow> int \<Rightarrow> goerr option \<Rightarrow> status" where
  "create_status_with_ready_condition now generation err =
     (let msg = (case err of None \<Rightarrow> '''' | Some e \<Rightarrow> err_text e);
          condition_status = (case err of None \<Rightarrow> ConditionTrue | Some _ \<Rightarrow> ConditionFalse)
      in \<lparr>st_observed_generation = generation,
          st_conditions = [mk_condition ConditionReady condition_status '''' msg now]\<rparr>)"

lemma create_status_ready_iff:
  "is_true (get_condition (create_status_with_ready_condition now g err) ConditionReady) \<longleftrightarrow> err = None"
  by (simp add: create_status_with_ready_condition_def get_condition_def split: option.split)

text \<open>
  \<open>VolatileTime\<close> registers itself with \<open>equality.Semantic\<close> as always equal, so two conditions that
  differ in their transition time only are semantically equal: a reconcile that changes nothing
  but the clock does not write the status.
\<close>

definition volatile_time_eq :: "int \<Rightarrow> int \<Rightarrow> bool" where
  "volatile_time_eq a b = True"

definition condition_semantic_eq :: "condition \<Rightarrow> condition \<Rightarrow> bool" where
  "condition_semantic_eq a b \<longleftrightarrow>
     cond_type a = cond_type b \<and> cond_status a = cond_status b \<and>
     cond_severity a = cond_severity b \<and> volatile_time_eq (cond_time a) (cond_time b) \<and>
     cond_reason a = cond_reason b \<and> cond_message a = cond_message b"

definition status_semantic_eq :: "status \<Rightarrow> status \<Rightarrow> bool" where
  "status_semantic_eq a b \<longleftrightarrow>
     st_observed_generation a = st_observed_generation b \<and>
     list_all2 condition_semantic_eq (st_conditions a) (st_conditions b)"

lemma condition_semantic_eq_refl [simp]: "condition_semantic_eq c c"
  by (simp add: condition_semantic_eq_def volatile_time_eq_def)

lemma condition_semantic_eq_mk [simp]:
  "condition_semantic_eq (mk_condition ty st r m t) (mk_condition ty st r m t')"
  by (simp add: condition_semantic_eq_def volatile_time_eq_def)

lemma status_semantic_eq_refl [simp]: "status_semantic_eq s s"
  by (simp add: status_semantic_eq_def list_all2_refl)

lemma condition_semantic_eq_sym: "condition_semantic_eq a b \<Longrightarrow> condition_semantic_eq b a"
  by (simp add: condition_semantic_eq_def volatile_time_eq_def)

lemma status_semantic_eq_sym: "status_semantic_eq a b \<Longrightarrow> status_semantic_eq b a"
  unfolding status_semantic_eq_def
  by (metis condition_semantic_eq_sym list_all2_conv_all_nth)

section \<open>Source configurations\<close>

record git =
  git_url :: string
  git_revision :: string
  git_init_submodules :: bool

record blob =
  blob_url :: string
  blob_auth :: string
  blob_strip :: int

definition BlobAuthNone :: string where "BlobAuthNone = ''''"
definition BlobAuthHelper :: string where "BlobAuthHelper = ''helper''"
definition BlobAuthSecret :: string where "BlobAuthSecret = ''secret''"

record registry =
  reg_image :: string
  reg_pull_secrets :: "local_ref list"

record source_config =
  src_git :: "git option"
  src_blob :: "blob option"
  src_registry :: "registry option"
  src_sub_path :: string

definition empty_source :: source_config where
  "empty_source = \<lparr>src_git = None, src_blob = None, src_registry = None, src_sub_path = ''''\<rparr>"

text \<open>The interface \<open>Source\<close> and its three implementations; \<open>None\<close> is the nil interface.\<close>

datatype source = SrcGit git | SrcBlob blob | SrcRegistry registry

definition source_of :: "source_config \<Rightarrow> source option" where
  "source_of sc =
     (case src_git sc of Some g \<Rightarrow> Some (SrcGit g)
      | None \<Rightarrow> (case src_blob sc of Some b \<Rightarrow> Some (SrcBlob b)
      | None \<Rightarrow> (case src_registry sc of Some r \<Rightarrow> Some (SrcRegistry r)
      | None \<Rightarrow> None)))"

definition git_build_env_vars :: "git \<Rightarrow> env_var list" where
  "git_build_env_vars g =
     [plain_env ''GIT_URL'' (git_url g),
      plain_env ''GIT_REVISION'' (git_revision g),
      plain_env ''GIT_INITIALIZE_SUBMODULES'' (format_bool (git_init_submodules g))]"

definition git_pull_secrets_volume :: "string \<Rightarrow> volume" where
  "git_pull_secrets_volume name = Volume name EmptyDir"

definition blob_pull_secrets_volume :: "string \<Rightarrow> volume" where
  "blob_pull_secrets_volume name = Volume name EmptyDir"

definition blob_build_env_vars :: "blob \<Rightarrow> env_var list" where
  "blob_build_env_vars b =
     [plain_env ''BLOB_URL'' (blob_url b),
      plain_env ''BLOB_STRIP_COMPONENTS'' (itoa (blob_strip b)),
      plain_env ''BLOB_AUTH'' (format_bool (blob_auth b \<noteq> BlobAuthNone))]"

definition registry_pull_secrets_volume :: "registry \<Rightarrow> string \<Rightarrow> volume" where
  "registry_pull_secrets_volume r name =
     (case reg_pull_secrets r of
        s # _ \<Rightarrow> Volume name (SecretSource (lref_name s))
      | [] \<Rightarrow> Volume name EmptyDir)"

definition registry_build_env_vars :: "registry \<Rightarrow> env_var list" where
  "registry_build_env_vars r = [plain_env ''REGISTRY_IMAGE'' (reg_image r)]"

fun build_env_vars :: "source \<Rightarrow> env_var list" where
  "build_env_vars (SrcGit g) = git_build_env_vars g"
| "build_env_vars (SrcBlob b) = blob_build_env_vars b"
| "build_env_vars (SrcRegistry r) = registry_build_env_vars r"

fun image_pull_secrets_volume :: "source \<Rightarrow> string \<Rightarrow> volume" where
  "image_pull_secrets_volume (SrcGit g) n = git_pull_secrets_volume n"
| "image_pull_secrets_volume (SrcBlob b) n = blob_pull_secrets_volume n"
| "image_pull_secrets_volume (SrcRegistry r) n = registry_pull_secrets_volume r n"

lemma vol_name_image_pull_secrets_volume [simp]: "vol_name (image_pull_secrets_volume s n) = n"
  by (cases s)
     (simp_all add: git_pull_secrets_volume_def blob_pull_secrets_volume_def
        registry_pull_secrets_volume_def split: list.split)

section \<open>Resolved sources\<close>

datatype git_source_kind = GitUnknown | GitBranch | GitTag | GitCommit

record resolved_git =
  rg_url :: string
  rg_revision :: string
  rg_sub_path :: string
  rg_tree :: string
  rg_kind :: git_source_kind
  rg_init_submodules :: bool

record resolved_blob =
  rb_url :: string
  rb_auth :: string
  rb_sub_path :: string
  rb_strip :: int

record resolved_registry =
  rr_image :: string
  rr_sub_path :: string
  rr_pull_secrets :: "local_ref list"

record resolved_source_config =
  rs_git :: "resolved_git option"
  rs_blob :: "resolved_blob option"
  rs_registry :: "resolved_registry option"

definition empty_resolved :: resolved_source_config where
  "empty_resolved = \<lparr>rs_git = None, rs_blob = None, rs_registry = None\<rparr>"

datatype resolved_source =
  ResolvedGit resolved_git | ResolvedBlob resolved_blob | ResolvedRegistry resolved_registry

definition resolved_source_of :: "resolved_source_config \<Rightarrow> resolved_source option" where
  "resolved_source_of sc =
     (case rs_git sc of Some g \<Rightarrow> Some (ResolvedGit g)
      | None \<Rightarrow> (case rs_blob sc of Some b \<Rightarrow> Some (ResolvedBlob b)
      | None \<Rightarrow> (case rs_registry sc of Some r \<Rightarrow> Some (ResolvedRegistry r)
      | None \<Rightarrow> None)))"

definition git_source_config :: "resolved_git \<Rightarrow> source_config" where
  "git_source_config gs =
     \<lparr>src_git = Some \<lparr>git_url = rg_url gs, git_revision = rg_revision gs,
                      git_init_submodules = rg_init_submodules gs\<rparr>,
      src_blob = None, src_registry = None, src_sub_path = rg_sub_path gs\<rparr>"

definition git_is_unknown :: "resolved_git \<Rightarrow> bool" where
  "git_is_unknown gs \<longleftrightarrow> rg_kind gs = GitUnknown"

definition git_is_pollable :: "resolved_git \<Rightarrow> bool" where
  "git_is_pollable gs \<longleftrightarrow> rg_kind gs \<noteq> GitCommit \<and> rg_kind gs \<noteq> GitUnknown"

definition blob_source_config :: "resolved_blob \<Rightarrow> source_config" where
  "blob_source_config bs =
     \<lparr>src_git = None,
      src_blob = Some \<lparr>blob_url = rb_url bs, blob_auth = rb_auth bs, blob_strip = rb_strip bs\<rparr>,
      src_registry = None, src_sub_path = rb_sub_path bs\<rparr>"

definition registry_source_config :: "resolved_registry \<Rightarrow> source_config" where
  "registry_source_config rs =
     \<lparr>src_git = None, src_blob = None,
      src_registry = Some \<lparr>reg_image = rr_image rs, reg_pull_secrets = rr_pull_secrets rs\<rparr>,
      src_sub_path = rr_sub_path rs\<rparr>"

fun to_source_config :: "resolved_source \<Rightarrow> source_config" where
  "to_source_config (ResolvedGit g) = git_source_config g"
| "to_source_config (ResolvedBlob b) = blob_source_config b"
| "to_source_config (ResolvedRegistry r) = registry_source_config r"

fun resolved_is_unknown :: "resolved_source \<Rightarrow> bool" where
  "resolved_is_unknown (ResolvedGit g) = git_is_unknown g"
| "resolved_is_unknown (ResolvedBlob b) = False"
| "resolved_is_unknown (ResolvedRegistry r) = False"

fun resolved_is_pollable :: "resolved_source \<Rightarrow> bool" where
  "resolved_is_pollable (ResolvedGit g) = git_is_pollable g"
| "resolved_is_pollable (ResolvedBlob b) = False"
| "resolved_is_pollable (ResolvedRegistry r) = False"

lemma unknown_not_pollable: "resolved_is_unknown s \<Longrightarrow> \<not> resolved_is_pollable s"
  by (cases s) (simp_all add: git_is_unknown_def git_is_pollable_def)

text \<open>A resolved source always renders to a configuration with exactly one source.\<close>

lemma source_of_to_source_config: "source_of (to_source_config s) \<noteq> None"
  by (cases s) (simp_all add: source_of_def git_source_config_def blob_source_config_def
                  registry_source_config_def)

section \<open>Builders and buildpacks\<close>

record build_stack =
  stack_run_image :: string
  stack_id :: string

record build_builder_spec =
  bb_image :: string
  bb_pull_secrets :: "local_ref list"
  bb_ref :: "object_reference option"

record cnb_binding =
  cnb_name :: string
  cnb_metadata_ref :: "local_ref option"
  cnb_secret_ref :: "local_ref option"

record buildpack_info =
  bp_id :: string
  bp_version :: string

definition buildpack_info_string :: "buildpack_info \<Rightarrow> string" where
  "buildpack_info_string b = bp_id b @ ''@'' @ bp_version b"

record buildpack_ref =
  bpref_info :: buildpack_info
  bpref_optional :: bool

text \<open>\<open>type OrderEntry struct { Group []BuildpackRef }\<close>\<close>

datatype order_entry = OrderEntry (order_group: "buildpack_ref list")

record buildpack_stack =
  bps_id :: string
  bps_mixins :: "string list"

record buildpackage_info =
  bpkg_id :: string
  bpkg_version :: string
  bpkg_homepage :: string

record buildpack_status =
  bpst_info :: buildpack_info
  bpst_buildpackage :: buildpackage_info
  bpst_store_image :: string
  bpst_diff_id :: string
  bpst_digest :: string
  bpst_size :: int
  bpst_api :: string
  bpst_homepage :: string
  bpst_order :: "order_entry list"
  bpst_stacks :: "buildpack_stack list"

record buildpack_metadata =
  bm_id :: string
  bm_version :: string
  bm_homepage :: string

fun include_bp :: "buildpack_metadata list \<Rightarrow> buildpack_metadata \<Rightarrow> bool" where
  "include_bp [] q = False"
| "include_bp (bp # l) q =
     (if bm_id bp = bm_id q \<and> bm_version bp = bm_version q then True else include_bp l q)"

lemma include_bp_iff:
  "include_bp l q \<longleftrightarrow> (\<exists>bp \<in> set l. bm_id bp = bm_id q \<and> bm_version bp = bm_version q)"
  by (induction l) auto

record notary_v1_config =
  notary_url :: string
  notary_secret_ref :: string

text \<open>\<open>type NotaryConfig struct { V1 *NotaryV1Config }\<close>\<close>

datatype notary_config = NotaryConfig (notary_v1: "notary_v1_config option")

text \<open>\<open>type ImageTaggingStrategy string\<close>\<close>

type_synonym image_tagging_strategy = string

definition TaggingNone :: image_tagging_strategy where "TaggingNone = ''None''"
definition TaggingBuildNumber :: image_tagging_strategy where "TaggingBuildNumber = ''BuildNumber''"

end
