(* ===== verification/Api_Types.thy ===== *)
theory Api_Types
  imports Core_Types
begin

text \<open>
  The API objects of \<open>pkg/apis/build/v1alpha2\<close> that the reconcilers work on (images, builds,
  builders, source resolvers) and their small methods: \<open>image_types.go\<close>, \<open>image_lifecycle.go\<close>,
  \<open>build_types.go\<close>, \<open>build_lifecycle.go\<close>, \<open>build_priority.go\<close>, \<open>build.go\<close>, \<open>builder_types.go\<close>,
  \<open>builder_lifecycle.go\<close>, \<open>source_resolver_types.go\<close>, \<open>source_resolver.go\<close> and the builder as the
  image reconciler sees it, \<open>duckbuilder/duck_builder.go\<close>.
\<close>

section \<open>Cache, signing and last-build descriptions\<close>

type_synonym services = "object_reference list"

datatype registry_cache = RegistryCache (rcache_tag: string)

record image_volume_cache =
  ivc_size :: "opaque option"
  ivc_storage_class :: string

record image_cache_config =
  icc_volume :: "image_volume_cache option"
  icc_registry :: "registry_cache option"

datatype build_volume_cache = BuildVolumeCache (bvc_claim: string)

record build_cache_config =
  bcc_volume :: "build_volume_cache option"
  bcc_registry :: "registry_cache option"

record cosign_annotation =
  ca_name :: string
  ca_value :: string

datatype cosign_config = CosignConfig (cosign_annotations: "cosign_annotation list")

datatype build_cache = BuildCache (bcache_image: string)

record last_build =
  lb_image :: string
  lb_cache :: build_cache
  lb_stack_id :: string

section \<open>Images\<close>

record image_build =
  ib_services :: services
  ib_cnb_bindings :: "cnb_binding list"
  ib_env :: "env_var list"
  ib_resources :: opaque
  ib_tolerations :: "opaque list"
  ib_node_selector :: str_map
  ib_affinity :: "opaque option"
  ib_runtime_class :: "string option"
  ib_scheduler :: string
  ib_build_timeout :: "int option"
  ib_creation_time :: string

record image_spec =
  is_tag :: string
  is_builder :: object_reference
  is_service_account :: string
  is_source :: source_config
  is_cache :: "image_cache_config option"
  is_failed_limit :: "int option"
  is_success_limit :: "int option"
  is_tagging :: image_tagging_strategy
  is_project_descriptor :: string
  is_build :: "image_build option"
  is_notary :: "notary_config option"
  is_cosign :: "cosign_config option"
  is_default_process :: string
  is_additional_tags :: "string list"

record image_status =
  ims_status :: status
  ims_latest_build_ref :: string
  ims_latest_build_generation :: int
  ims_latest_image :: string
  ims_latest_stack :: string
  ims_build_counter :: int
  ims_build_cache_name :: string
  ims_latest_build_reason :: string

record image =
  im_meta :: object_meta
  im_spec :: image_spec
  im_status :: image_status

definition image_namespaced_name :: "image \<Rightarrow> namespaced_name" where
  "image_namespaced_name i = \<lparr>nn_namespace = meta_namespace (im_meta i), nn_name = meta_name (im_meta i)\<rparr>"

definition ConditionBuilderReady :: string where "ConditionBuilderReady = ''BuilderReady''"
definition ConditionBuilderUpToDate :: string where "ConditionBuilderUpToDate = ''BuilderUpToDate''"

definition BuilderNotFoundReason :: string where "BuilderNotFoundReason = ''BuilderNotFound''"
definition BuilderNotReadyReason :: string where "BuilderNotReadyReason = ''BuilderNotReady''"
definition BuilderReadyReason :: string where "BuilderReadyReason = ''BuilderReady''"
definition BuilderNotUpToDateReason :: string where "BuilderNotUpToDateReason = ''BuilderNotUpToDate''"
definition BuilderUpToDateReason :: string where "BuilderUpToDateReason = ''BuilderUpToDate''"

definition builder_not_found :: "int \<Rightarrow> image \<Rightarrow> condition list" where
  "builder_not_found now im =
     [mk_condition ConditionReady ConditionFalse BuilderNotFoundReason
        (''Error: Unable to find builder '' @ [CHR 0x27] @ oref_name (is_builder (im_spec im)) @ [CHR 0x27] @
         '' in namespace '' @ [CHR 0x27] @ oref_namespace (is_builder (im_spec im)) @ [CHR 0x27] @ ''.'')
        now]"

section \<open>Builds\<close>

record build_spec =
  bs_tags :: "string list"
  bs_builder :: build_builder_spec
  bs_service_account :: string
  bs_source :: source_config
  bs_cache :: "build_cache_config option"
  bs_run_image :: string
  bs_active_deadline :: "int option"
  bs_services :: services
  bs_cnb_bindings :: "cnb_binding list"
  bs_env :: "env_var list"
  bs_project_descriptor :: string
  bs_resources :: opaque
  bs_last_build :: "last_build option"
  bs_notary :: "notary_config option"
  bs_cosign :: "cosign_config option"
  bs_default_process :: string
  bs_tolerations :: "opaque list"
  bs_node_selector :: str_map
  bs_affinity :: "opaque option"
  bs_runtime_class :: "string option"
  bs_scheduler :: string
  bs_priority_class :: string
  bs_creation_time :: string

definition registry_cache_tag :: "build_spec \<Rightarrow> string" where
  "registry_cache_tag bs =
     (case bs_cache bs of None \<Rightarrow> ''''
      | Some c \<Rightarrow> (case bcc_registry c of None \<Rightarrow> '''' | Some r \<Rightarrow> rcache_tag r))"

definition bs_need_volume_cache :: "build_spec \<Rightarrow> bool" where
  "bs_need_volume_cache bs =
     (case bs_cache bs of None \<Rightarrow> False
      | Some c \<Rightarrow> (case bcc_volume c of None \<Rightarrow> False | Some v \<Rightarrow> bvc_claim v \<noteq> ''''))"

definition bs_need_registry_cache :: "build_spec \<Rightarrow> bool" where
  "bs_need_registry_cache bs =
     (case bs_cache bs of None \<Rightarrow> False
      | Some c \<Rightarrow> (case bcc_registry c of None \<Rightarrow> False | Some r \<Rightarrow> rcache_tag r \<noteq> ''''))"

record build_status =
  bst_status :: status
  bst_build_metadata :: "buildpack_metadata list"
  bst_stack :: build_stack
  bst_lifecycle_version :: string
  bst_latest_image :: string
  bst_latest_cache_image :: string
  bst_latest_attestation_image :: string
  bst_pod_name :: string
  bst_step_states :: "container_state list"
  bst_steps_completed :: "string list"

record build =
  b_meta :: object_meta
  b_spec :: build_spec
  b_status :: build_status

definition empty_build_status :: build_status where
  "empty_build_status = \<lparr>bst_status = empty_status, bst_build_metadata = [],
     bst_stack = \<lparr>stack_run_image = '''', stack_id = ''''\<rparr>, bst_lifecycle_version = '''',
     bst_latest_image = '''', bst_latest_cache_image = '''', bst_latest_attestation_image = '''',
     bst_pod_name = '''', bst_step_states = [], bst_steps_completed = []\<rparr>"

text \<open>\<open>func (bs *BuildStatus) Error(err error)\<close>\<close>

definition build_status_error :: "int \<Rightarrow> goerr \<Rightarrow> build_status \<Rightarrow> build_status" where
  "build_status_error now err bs =
     bs\<lparr>bst_status := (bst_status bs)\<lparr>st_conditions :=
         [mk_condition ConditionSucceeded ConditionFalse '''' (err_text err) now]\<rparr>\<rparr>"

subsection \<open>Labels, annotations and reasons\<close>

definition BuildNumberLabel :: string where "BuildNumberLabel = ''image.kpack.io/buildNumber''"
definition ImageLabel :: string where "ImageLabel = ''image.kpack.io/image''"
definition ImageGenerationLabel :: string where "ImageGenerationLabel = ''image.kpack.io/imageGeneration''"
definition BuildReasonAnnotation :: string where "BuildReasonAnnotation = ''image.kpack.io/reason''"
definition BuildChangesAnnotation :: string where "BuildChangesAnnotation = ''image.kpack.io/buildChanges''"
definition BuildNeededAnnotation :: string where "BuildNeededAnnotation = ''image.kpack.io/additionalBuildNeeded''"
definition BuilderNameAnnotation :: string where "BuilderNameAnnotation = ''image.kpack.io/builderName''"
definition BuilderKindAnnotation :: string where "BuilderKindAnnotation = ''image.kpack.io/builderKind''"

lemmas label_defs = BuildNumberLabel_def ImageLabel_def ImageGenerationLabel_def
  BuildReasonAnnotation_def BuildChangesAnnotation_def BuildNeededAnnotation_def
  BuilderNameAnnotation_def BuilderKindAnnotation_def

datatype build_reason = CONFIG | COMMIT | BUILDPACK | STACK | LIFECYCLE | TRIGGER

fun reason_string :: "build_reason \<Rightarrow> string" where
  "reason_string CONFIG = ''CONFIG''"
| "reason_string COMMIT = ''COMMIT''"
| "reason_string BUILDPACK = ''BUILDPACK''"
| "reason_string STACK = ''STACK''"
| "reason_string LIFECYCLE = ''LIFECYCLE''"
| "reason_string TRIGGER = ''TRIGGER''"

lemma reason_string_nonempty [simp]: "reason_string r \<noteq> []"
  by (cases r) simp_all

lemma reason_string_inj [simp]: "reason_string r = reason_string r' \<longleftrightarrow> r = r'"
  by (cases r; cases r') simp_all

subsection \<open>Priorities\<close>

type_synonym build_priority = int

definition BuildPriorityNone :: build_priority where "BuildPriorityNone = 0"
definition BuildPriorityLow :: build_priority where "BuildPriorityLow = 1"
definition BuildPriorityHigh :: build_priority where "BuildPriorityHigh = 1000"
definition BuildPriorityClassHigh :: string where "BuildPriorityClassHigh = ''kpack-build-high-priority''"
definition BuildPriorityClassLow :: string where "BuildPriorityClassLow = ''kpack-build-low-priority''"

definition PriorityClasses :: "build_priority \<rightharpoonup> string" where
  "PriorityClasses = [BuildPriorityNone \<mapsto> '''', BuildPriorityLow \<mapsto> BuildPriorityClassLow,
                      BuildPriorityHigh \<mapsto> BuildPriorityClassHigh]"

definition priority_class :: "build_priority \<Rightarrow> string" where
  "priority_class p = (case PriorityClasses p of None \<Rightarrow> '''' | Some c \<Rightarrow> c)"

lemmas priority_defs = BuildPriorityNone_def BuildPriorityLow_def BuildPriorityHigh_def

lemma priority_class_simps [simp]:
  "priority_class BuildPriorityNone = ''''"
  "priority_class BuildPriorityLow = BuildPriorityClassLow"
  "priority_class BuildPriorityHigh = BuildPriorityClassHigh"
  by (simp_all add: priority_class_def PriorityClasses_def priority_defs)

subsection \<open>Methods of a build\<close>

text \<open>
  Methods whose receiver may be nil take \<open>build option\<close>. \<open>Spec.Tags[0]\<close> panics on a build without tags.
\<close>

definition build_tag :: "build \<Rightarrow> string res" where
  "build_tag b = (case bs_tags (b_spec b) of
      t # _ \<Rightarrow> Inr t | [] \<Rightarrow> Inl (Panic ''index out of range [0] with length 0''))"

definition succeeded_condition :: "build \<Rightarrow> condition option" where
  "succeeded_condition b = get_condition (bst_status (b_status b)) ConditionSucceeded"

fun is_running :: "build option \<Rightarrow> bool" where
  "is_running None = False"
| "is_running (Some b) = is_unknown (succeeded_condition b)"

fun build_ref :: "build option \<Rightarrow> string" where
  "build_ref None = ''''"
| "build_ref (Some b) = meta_name (b_meta b)"

fun build_reason_of :: "build option \<Rightarrow> string" where
  "build_reason_of None = ''''"
| "build_reason_of (Some b) = lookup_str (meta_annotations (b_meta b)) BuildReasonAnnotation"

fun build_changes_of :: "build option \<Rightarrow> string" where
  "build_changes_of None = ''''"
| "build_changes_of (Some b) = lookup_str (meta_annotations (b_meta b)) BuildChangesAnnotation"

fun build_priority_class_name :: "build option \<Rightarrow> string" where
  "build_priority_class_name None = ''''"
| "build_priority_class_name (Some b) = bs_priority_class (b_spec b)"

fun build_image_generation :: "build option \<Rightarrow> int" where
  "build_image_generation None = 0"
| "build_image_generation (Some b) =
     (case meta_labels (b_meta b) ImageGenerationLabel of
        None \<Rightarrow> 0
      | Some g \<Rightarrow> (case atoi g of Inl _ \<Rightarrow> 0 | Inr n \<Rightarrow> n))"

fun is_success :: "build option \<Rightarrow> bool" where
  "is_success None = False"
| "is_success (Some b) = is_true (succeeded_condition b)"

fun is_failure :: "build option \<Rightarrow> bool" where
  "is_failure None = False"
| "is_failure (Some b) = is_false (succeeded_condition b)"

fun build_stack_of :: "build option \<Rightarrow> string" where
  "build_stack_of None = ''''"
| "build_stack_of (Some b) =
     (if \<not> is_success (Some b) then '''' else stack_id (bst_stack (b_status b)))"

fun built_image :: "build option \<Rightarrow> string" where
  "built_image None = ''''"
| "built_image (Some b) =
     (if \<not> is_success (Some b) then '''' else bst_latest_image (b_status b))"

fun cache_image :: "build option \<Rightarrow> string" where
  "cache_image None = ''''"
| "cache_image (Some b) =
     (if \<not> is_success (Some b) then '''' else bst_latest_cache_image (b_status b))"

definition build_finished :: "build \<Rightarrow> bool" where
  "build_finished b \<longleftrightarrow> \<not> is_unknown (succeeded_condition b)"

text \<open>A build is running, succeeded or failed, and never two of these.\<close>

lemma build_state_cases:
  "(is_running (Some b) \<and> \<not> is_success (Some b) \<and> \<not> is_failure (Some b)) \<or>
   (\<not> is_running (Some b) \<and> is_success (Some b) \<and> \<not> is_failure (Some b)) \<or>
   (\<not> is_running (Some b) \<and> \<not> is_success (Some b) \<and> is_failure (Some b))"
  using condition_trichotomy [of "succeeded_condition b"] by auto

lemma build_finished_iff: "build_finished b \<longleftrightarrow> is_success (Some b) \<or> is_failure (Some b)"
  using build_state_cases [of b] by (auto simp: build_finished_def)

lemma is_success_not_failure: "is_success b \<Longrightarrow> \<not> is_failure b"
  by (cases b) (auto dest: is_true_not_false)

lemma not_success_built_image: "\<not> is_success b \<Longrightarrow> built_image b = ''''"
  by (cases b) auto

definition pod_name_of :: "lib \<Rightarrow> build \<Rightarrow> string" where
  "pod_name_of L b = lib_child_name L (meta_name (b_meta b)) ''-build-pod''"

definition CompletionContainerName :: string where "CompletionContainerName = ''completion''"

text \<open>
  \<open>podCompletedWithActiveDeadline\<close>: a pod that hit its deadline after the completion container
  had already exited with 0.
\<close>

definition completed_ok :: "container_status \<Rightarrow> bool" where
  "completed_ok s \<longleftrightarrow> cs_name s = CompletionContainerName \<and>
     (case cs_state s of CsTerminated t \<Rightarrow> term_exit_code t = 0 | _ \<Rightarrow> False)"

definition pod_completed_with_active_deadline :: "pod \<Rightarrow> bool" where
  "pod_completed_with_active_deadline p \<longleftrightarrow>
     ps_phase (pod_status_of p) = PodFailed \<and> ps_reason (pod_status_of p) = ''DeadlineExceeded'' \<and>
     list_ex completed_ok (ps_containers (pod_status_of p))"

definition metadata_ready :: "build \<Rightarrow> pod \<Rightarrow> bool" where
  "metadata_ready b p \<longleftrightarrow> \<not> is_true (succeeded_condition b) \<and>
     (ps_phase (pod_status_of p) = PodSucceeded \<or> pod_completed_with_active_deadline p)"

definition build_notary_v1 :: "build \<Rightarrow> notary_v1_config option" where
  "build_notary_v1 b = (case bs_notary (b_spec b) of None \<Rightarrow> None | Some n \<Rightarrow> notary_v1 n)"

definition build_steps :: "string list" where
  "build_steps = [''prepare'', ''analyze'', ''detect'', ''restore'', ''build'', ''export'',
                  ''completion'', ''rebase'']"

definition is_build_step :: "string \<Rightarrow> bool" where
  "is_build_step step \<longleftrightarrow> step \<in> set build_steps"

definition rebasable :: "build \<Rightarrow> string \<Rightarrow> bool" where
  "rebasable b builder_stack =
     (case bs_last_build (b_spec b) of None \<Rightarrow> False
      | Some lb \<Rightarrow> lookup_str (meta_annotations (b_meta b)) BuildReasonAnnotation = reason_string STACK \<and>
                   lb_stack_id lb = builder_stack)"

definition built_with_stack :: "lib \<Rightarrow> build \<Rightarrow> string \<Rightarrow> bool" where
  "built_with_stack L b run_image =
     (if stack_run_image (bst_stack (b_status b)) = '''' then False
      else case lib_parse_reference L (stack_run_image (bst_stack (b_status b))) of
             Inl _ \<Rightarrow> False
           | Inr last_ref \<Rightarrow>
               (case lib_parse_reference L run_image of
                  Inl _ \<Rightarrow> False
                | Inr builder_ref \<Rightarrow> ref_identifier last_ref = ref_identifier builder_ref))"

definition additional_build_needed :: "build \<Rightarrow> bool" where
  "additional_build_needed b \<longleftrightarrow> meta_annotations (b_meta b) BuildNeededAnnotation \<noteq> None"

fun build_builder_name :: "build option \<Rightarrow> string" where
  "build_builder_name None = ''''"
| "build_builder_name (Some b) = lookup_str (meta_annotations (b_meta b)) BuilderNameAnnotation"

fun build_builder_kind :: "build option \<Rightarrow> string" where
  "build_builder_kind None = ''''"
| "build_builder_kind (Some b) = lookup_str (meta_annotations (b_meta b)) BuilderKindAnnotation"

section \<open>Builders\<close>

definition BuilderKind :: string where "BuilderKind = ''Builder''"
definition ClusterBuilderKind :: string where "ClusterBuilderKind = ''ClusterBuilder''"
definition ConditionUpToDate :: string where "ConditionUpToDate = ''UpToDate''"
definition NoLatestImageReason :: string where "NoLatestImageReason = ''NoLatestImage''"
definition NoLatestImageMessage :: string where "NoLatestImageMessage = ''Builder has no latestImage''"
definition ReconcileFailedReason :: string where "ReconcileFailedReason = ''ReconcileFailed''"

record builder_buildpack_ref =
  bbr_ref :: buildpack_ref
  bbr_object :: object_reference
  bbr_image :: string

datatype builder_order_entry = BuilderOrderEntry (border_group: "builder_buildpack_ref list")

record builder_spec =
  bds_tag :: string
  bds_stack :: object_reference
  bds_lifecycle :: object_reference
  bds_store :: object_reference
  bds_order :: "builder_order_entry list"
  bds_additional_labels :: str_map

record namespaced_builder_spec =
  nbs_builder :: builder_spec
  nbs_service_account_name :: string
  nbs_compat_service_account :: string

definition builder_service_account :: "namespaced_builder_spec \<Rightarrow> string" where
  "builder_service_account b =
     (if nbs_service_account_name b = '''' \<and> nbs_compat_service_account b \<noteq> ''''
      then nbs_compat_service_account b else nbs_service_account_name b)"

record cosign_signature =
  cosig_secret :: string
  cosig_digest :: string

record resolved_lifecycle =
  rl_image_latest :: string
  rl_image :: string
  rl_version :: string
  rl_api_buildpack :: string
  rl_api_platform :: string
  rl_buildpack_deprecated :: "string list"
  rl_buildpack_supported :: "string list"
  rl_platform_deprecated :: "string list"
  rl_platform_supported :: "string list"

record builder_status =
  bds_status :: status
  bds_metadata :: "buildpack_metadata list"
  bds_order_detected :: "order_entry list"
  bds_stack_info :: build_stack
  bds_lifecycle_info :: resolved_lifecycle
  bds_latest_image :: string
  bds_observed_stack_generation :: int
  bds_observed_store_generation :: int
  bds_os :: string
  bds_signature_paths :: "cosign_signature list"

record builder =
  bd_meta :: object_meta
  bd_spec :: namespaced_builder_spec
  bd_status :: builder_status

record builder_record =
  br_image :: string
  br_stack :: build_stack
  br_lifecycle :: resolved_lifecycle
  br_buildpacks :: "buildpack_metadata list"
  br_order :: "order_entry list"
  br_observed_store_generation :: int
  br_observed_stack_generation :: int
  br_os :: string
  br_signature_paths :: "cosign_signature list"

definition builder_record_update :: "int \<Rightarrow> builder_record \<Rightarrow> builder_status \<Rightarrow> builder_status" where
  "builder_record_update now r bs =
     bs\<lparr>bds_stack_info := br_stack r,
        bds_lifecycle_info := br_lifecycle r,
        bds_metadata := br_buildpacks r,
        bds_latest_image := br_image r,
        bds_status := (bds_status bs)\<lparr>st_conditions :=
          [mk_condition ConditionReady ConditionTrue '''' '''' now,
           mk_condition ConditionUpToDate ConditionTrue '''' '''' now]\<rparr>,
        bds_order_detected := br_order r,
        bds_observed_store_generation := br_observed_store_generation r,
        bds_observed_stack_generation := br_observed_stack_generation r,
        bds_os := br_os r,
        bds_signature_paths := br_signature_paths r\<rparr>"

definition builder_error_create :: "int \<Rightarrow> goerr \<Rightarrow> builder_status \<Rightarrow> builder_status" where
  "builder_error_create now err bs =
     (let ready = (if bds_latest_image bs = ''''
                   then mk_condition ConditionReady ConditionFalse NoLatestImageReason NoLatestImageMessage now
                   else mk_condition ConditionReady ConditionTrue '''' '''' now)
      in bs\<lparr>bds_status := \<lparr>st_observed_generation = 0,
              st_conditions = [ready, mk_condition ConditionUpToDate ConditionFalse
                                        ReconcileFailedReason (err_text err) now]\<rparr>\<rparr>)"

lemma builder_conditions_neq [simp]:
  "ConditionReady \<noteq> ConditionUpToDate" "ConditionUpToDate \<noteq> ConditionReady"
  by (simp_all add: ConditionReady_def ConditionUpToDate_def)

text \<open>
  A failed creation keeps a builder that has an image ready, marks it out of date, and keeps
  everything that describes the last image.
\<close>

lemma builder_error_create_ready:
  "is_true (get_condition (bds_status (builder_error_create now e bs)) ConditionReady)
     \<longleftrightarrow> bds_latest_image bs \<noteq> ''''"
  by (simp add: builder_error_create_def get_condition_def Let_def)

lemma builder_error_create_not_up_to_date:
  "is_false (get_condition (bds_status (builder_error_create now e bs)) ConditionUpToDate)"
  by (simp add: builder_error_create_def get_condition_def Let_def)

lemma builder_error_create_frame:
  "bds_latest_image (builder_error_create now e bs) = bds_latest_image bs"
  "bds_metadata (builder_error_create now e bs) = bds_metadata bs"
  "bds_stack_info (builder_error_create now e bs) = bds_stack_info bs"
  "bds_lifecycle_info (builder_error_create now e bs) = bds_lifecycle_info bs"
  by (simp_all add: builder_error_create_def Let_def)

subsection \<open>The builder as the image reconciler sees it\<close>

text \<open>
  \<open>DuckBuilder\<close> is the one implementation of the interface \<open>BuilderResource\<close>; its specification
  is the list of image pull secrets.
\<close>

record duck_builder =
  db_kind :: string
  db_meta :: object_meta
  db_pull_secrets :: "local_ref list"
  db_status :: builder_status

definition db_ready :: "duck_builder \<Rightarrow> bool" where
  "db_ready b \<longleftrightarrow> is_true (get_condition (bds_status (db_status b)) ConditionReady) \<and>
     meta_generation (db_meta b) = st_observed_generation (bds_status (db_status b))"

definition db_up_to_date :: "duck_builder \<Rightarrow> bool" where
  "db_up_to_date b \<longleftrightarrow> is_true (get_condition (bds_status (db_status b)) ConditionUpToDate) \<and>
     meta_generation (db_meta b) = st_observed_generation (bds_status (db_status b))"

definition db_build_builder_spec :: "duck_builder \<Rightarrow> build_builder_spec" where
  "db_build_builder_spec b =
     \<lparr>bb_image = bds_latest_image (db_status b), bb_pull_secrets = db_pull_secrets b, bb_ref = None\<rparr>"

definition db_run_image :: "duck_builder \<Rightarrow> string" where
  "db_run_image b = stack_run_image (bds_stack_info (db_status b))"

definition db_lifecycle_version :: "duck_builder \<Rightarrow> string" where
  "db_lifecycle_version b = rl_version (bds_lifecycle_info (db_status b))"

definition db_condition_ready_message :: "duck_builder \<Rightarrow> string" where
  "db_condition_ready_message b =
     (case get_condition (bds_status (db_status b)) ConditionReady of
        None \<Rightarrow> '''' | Some c \<Rightarrow> cond_message c)"

section \<open>Source resolvers\<close>

record source_resolver_spec =
  srs_service_account :: string
  srs_source :: source_config

record source_resolver_status =
  srt_status :: status
  srt_source :: resolved_source_config

record source_resolver =
  sr_meta :: object_meta
  sr_spec :: source_resolver_spec
  sr_status :: source_resolver_status

definition ActivePolling :: string where "ActivePolling = ''ActivePolling''"

text \<open>
  \<open>ResolvedSource\<close> stores what a resolver found. A nil interface makes the method call on it panic.
  An unknown source does not overwrite what an observed generation already holds.
\<close>

definition sr_resolved_source :: "resolved_source_config \<Rightarrow> source_resolver \<Rightarrow> source_resolver res" where
  "sr_resolved_source config sr =
     (case resolved_source_of config of
        None \<Rightarrow> Inl (Panic ''invalid memory address or nil pointer dereference'')
      | Some rs \<Rightarrow>
          (if resolved_is_unknown rs \<and>
              st_observed_generation (srt_status (sr_status sr)) = meta_generation (sr_meta sr)
           then Inr sr
           else Inr (sr\<lparr>sr_status := (sr_status sr)
                  \<lparr>srt_source := config,
                   srt_status := (srt_status (sr_status sr))\<lparr>st_conditions :=
                     [mk_condition ConditionReady ConditionTrue '''' '''' 0,
                      mk_condition ActivePolling
                        (if resolved_is_pollable rs then ConditionTrue else ConditionFalse) '''' '''' 0]\<rparr>\<rparr>\<rparr>)))"

definition sr_polling_ready :: "source_resolver \<Rightarrow> bool" where
  "sr_polling_ready sr = is_true (get_condition (srt_status (sr_status sr)) ActivePolling)"

definition sr_ready :: "source_resolver \<Rightarrow> bool" where
  "sr_ready sr \<longleftrightarrow> is_true (get_condition (srt_status (sr_status sr)) ConditionReady) \<and>
     meta_generation (sr_meta sr) = st_observed_generation (srt_status (sr_status sr))"

definition sr_is_git :: "source_resolver \<Rightarrow> bool" where
  "sr_is_git sr \<longleftrightarrow> src_git (srs_source (sr_spec sr)) \<noteq> None"

definition sr_is_blob :: "source_resolver \<Rightarrow> bool" where
  "sr_is_blob sr \<longleftrightarrow> src_blob (srs_source (sr_spec sr)) \<noteq> None"

definition sr_is_registry :: "source_resolver \<Rightarrow> bool" where
  "sr_is_registry sr \<longleftrightarrow> src_registry (srs_source (sr_spec sr)) \<noteq> None"

definition sr_source_config :: "source_resolver \<Rightarrow> source_config res" where
  "sr_source_config sr =
     (case resolved_source_of (srt_source (sr_status sr)) of
        None \<Rightarrow> Inl (Panic ''invalid memory address or nil pointer dereference'')
      | Some rs \<Rightarrow> Inr (to_source_config rs))"

text \<open>
  The invariant of a source resolver: a ready one has a resolved source, so \<open>SourceConfig\<close> does
  not panic. \<open>ResolvedSource\<close> establishes and keeps it.
\<close>

definition sr_wf :: "source_resolver \<Rightarrow> bool" where
  "sr_wf sr \<longleftrightarrow> (is_true (get_condition (srt_status (sr_status sr)) ConditionReady) \<longrightarrow>
     resolved_source_of (srt_source (sr_status sr)) \<noteq> None)"

lemma sr_condition_neq [simp]: "ConditionReady \<noteq> ActivePolling" "ActivePolling \<noteq> ConditionReady"
  by (simp_all add: ConditionReady_def ActivePolling_def)

lemma sr_resolved_source_wf:
  "sr_wf sr \<Longrightarrow> sr_resolved_source config sr = Inr sr' \<Longrightarrow> sr_wf sr'"
  by (auto simp: sr_resolved_source_def sr_wf_def get_condition_def split: option.splits if_splits)

lemma sr_wf_ready_source: "sr_wf sr \<Longrightarrow> sr_ready sr \<Longrightarrow> \<exists>rs. resolved_source_of (srt_source (sr_status sr)) = Some rs"
  by (auto simp: sr_wf_def sr_ready_def)

end
