(* ===== verification/Build_Change.thy ===== *)
theory Build_Change
  imports Api_Types
begin

text \<open>
  \<open>pkg/buildchange\<close>: the reasons why an image needs a new build. A \<open>change\<close> is a value of the
  interface \<open>Change\<close>, one constructor per implementation; the change processor collects the
  required ones and summarises them into a reasons string, a JSON text and a priority.
\<close>

section \<open>Changes\<close>

record config =
  cfg_env :: "env_var list"
  cfg_resources :: opaque
  cfg_services :: services
  cfg_cnb_bindings :: "cnb_binding list"
  cfg_source :: source_config

definition empty_config :: config where
  "empty_config = \<lparr>cfg_env = [], cfg_resources = '''', cfg_services = [], cfg_cnb_bindings = [],
                   cfg_source = empty_source\<rparr>"

datatype change =
    CommitChange string string
  | ConfigChange config config
  | BuildpackChange "buildpack_info list" "buildpack_info list"
  | StackChange string string "goerr option"
  | LifecycleChange string string
  | TriggerChange string

text \<open>What \<open>Old()\<close> and \<open>New()\<close> return as \<open>interface{}\<close>.\<close>

datatype payload = PString string | PConfig config | PBuildpacks "buildpack_info list"

record generic_change =
  gc_reason :: string
  gc_old :: payload
  gc_new :: payload
  gc_priority :: build_priority

text \<open>
  Library functions the package calls: \<open>equality.Semantic.DeepEqual\<close> on configurations,
  \<open>cmp.Equal\<close> on buildpack lists, \<open>json.Marshal\<close> on the collected changes.
\<close>

record change_lib =
  cl_config_equal :: "config \<Rightarrow> config \<Rightarrow> bool"
  cl_buildpacks_equal :: "buildpack_info list \<Rightarrow> buildpack_info list \<Rightarrow> bool"
  cl_marshal :: "generic_change list \<Rightarrow> string res"

text \<open>\<open>NewStackChange\<close> parses both references and keeps the parse errors for later.\<close>

definition ref_digest :: "lib \<Rightarrow> string \<Rightarrow> string" where
  "ref_digest L r = (case lib_parse_reference L r of Inl _ \<Rightarrow> '''' | Inr ref \<Rightarrow> ref_identifier ref)"

definition ref_err :: "lib \<Rightarrow> string \<Rightarrow> string list" where
  "ref_err L r = (case lib_parse_reference L r of Inl e \<Rightarrow> [err_text e] | Inr _ \<Rightarrow> [])"

definition new_stack_change :: "lib \<Rightarrow> string \<Rightarrow> string \<Rightarrow> change" where
  "new_stack_change L old_ref new_ref =
     (let err_strs = ref_err L old_ref @ ref_err L new_ref
      in StackChange (ref_digest L old_ref) (ref_digest L new_ref)
           (if err_strs \<noteq> [] then Some (Failed Plain (join ''; '' err_strs)) else None))"

definition new_trigger_change :: "string \<Rightarrow> change" where
  "new_trigger_change date_str = TriggerChange (''A new build was manually triggered on '' @ date_str)"

fun change_reason :: "change \<Rightarrow> build_reason" where
  "change_reason (CommitChange _ _) = COMMIT"
| "change_reason (ConfigChange _ _) = CONFIG"
| "change_reason (BuildpackChange _ _) = BUILDPACK"
| "change_reason (StackChange _ _ _) = STACK"
| "change_reason (LifecycleChange _ _) = LIFECYCLE"
| "change_reason (TriggerChange _) = TRIGGER"

text \<open>
  A configuration with its git revision blanked. The source writes the revision through the
  pointer, compares, and writes the old value back; the two pointers never alias, because the new
  configuration is rendered into a fresh \<open>Git\<close> value.
\<close>

definition blank_revision :: "config \<Rightarrow> config" where
  "blank_revision c =
     (case src_git (cfg_source c) of
        None \<Rightarrow> c
      | Some g \<Rightarrow> c\<lparr>cfg_source := (cfg_source c)\<lparr>src_git := Some (g\<lparr>git_revision := ''''\<rparr>)\<rparr>\<rparr>)"

definition config_change_required :: "change_lib \<Rightarrow> config \<Rightarrow> config \<Rightarrow> bool" where
  "config_change_required CL old new \<longleftrightarrow> \<not> cl_config_equal CL (blank_revision old) (blank_revision new)"

text \<open>\<open>sort.Slice\<close> by id, before the comparison.\<close>

definition sort_buildpacks :: "buildpack_info list \<Rightarrow> buildpack_info list" where
  "sort_buildpacks bps = sort_key bp_id bps"

definition buildpack_change_required :: "change_lib \<Rightarrow> buildpack_info list \<Rightarrow> buildpack_info list \<Rightarrow> bool" where
  "buildpack_change_required CL old new \<longleftrightarrow>
     \<not> cl_buildpacks_equal CL (sort_buildpacks old) (sort_buildpacks new)"

fun change_required :: "change_lib \<Rightarrow> change \<Rightarrow> bool res" where
  "change_required CL (CommitChange old new) = Inr (old \<noteq> new)"
| "change_required CL (ConfigChange old new) = Inr (config_change_required CL old new)"
| "change_required CL (BuildpackChange old new) = Inr (buildpack_change_required CL old new)"
| "change_required CL (StackChange old new err) =
     (case err of Some e \<Rightarrow> Inl e | None \<Rightarrow> Inr (old \<noteq> new))"
| "change_required CL (LifecycleChange old new) = Inr (old \<noteq> new)"
| "change_required CL (TriggerChange message) = Inr (message \<noteq> '''')"

text \<open>The slices are sorted in place, so \<open>Old()\<close> and \<open>New()\<close> report them sorted.\<close>

fun change_old :: "change \<Rightarrow> payload" where
  "change_old (CommitChange old new) = PString old"
| "change_old (ConfigChange old new) = PConfig old"
| "change_old (BuildpackChange old new) = PBuildpacks (sort_buildpacks old)"
| "change_old (StackChange old new err) = PString old"
| "change_old (LifecycleChange old new) = PString old"
| "change_old (TriggerChange message) = PString ''''"

fun change_new :: "change \<Rightarrow> payload" where
  "change_new (CommitChange old new) = PString new"
| "change_new (ConfigChange old new) = PConfig new"
| "change_new (BuildpackChange old new) = PBuildpacks (sort_buildpacks new)"
| "change_new (StackChange old new err) = PString new"
| "change_new (LifecycleChange old new) = PString new"
| "change_new (TriggerChange message) = PString message"

fun change_priority :: "change \<Rightarrow> build_priority" where
  "change_priority (CommitChange _ _) = BuildPriorityHigh"
| "change_priority (ConfigChange _ _) = BuildPriorityHigh"
| "change_priority (BuildpackChange _ _) = BuildPriorityLow"
| "change_priority (StackChange _ _ _) = BuildPriorityLow"
| "change_priority (LifecycleChange _ _) = BuildPriorityLow"
| "change_priority (TriggerChange _) = BuildPriorityHigh"

definition new_generic_change :: "change \<Rightarrow> generic_change" where
  "new_generic_change c =
     \<lparr>gc_reason = reason_string (change_reason c), gc_old = change_old c, gc_new = change_new c,
      gc_priority = change_priority c\<rparr>"

section \<open>The change processor\<close>

record change_processor =
  cp_changes :: "generic_change list"
  cp_errs :: "string list"

definition new_change_processor :: change_processor where
  "new_change_processor = \<lparr>cp_changes = [], cp_errs = []\<rparr>"

text \<open>A nil change is skipped; an error is recorded; a required change is appended.\<close>

definition process :: "change_lib \<Rightarrow> change option \<Rightarrow> change_processor \<Rightarrow> change_processor" where
  "process CL change c =
     (case change of
        None \<Rightarrow> c
      | Some ch \<Rightarrow>
          (case change_required CL ch of
             Inl e \<Rightarrow> c\<lparr>cp_errs := cp_errs c @
                       [err_text (wrap_err (''error determining if build is required for reason '' @
                                   quoted (reason_string (change_reason ch))) e)]\<rparr>
           | Inr required \<Rightarrow>
               (if required then c\<lparr>cp_changes := cp_changes c @ [new_generic_change ch]\<rparr> else c)))"

definition has_changes :: "change_processor \<Rightarrow> bool" where
  "has_changes c \<longleftrightarrow> length (cp_changes c) > 0"

definition reasons_str :: "change_processor \<Rightarrow> string" where
  "reasons_str c = (if \<not> has_changes c then '''' else join '','' (map gc_reason (cp_changes c)))"

definition changes_str :: "change_lib \<Rightarrow> change_processor \<Rightarrow> string res" where
  "changes_str CL c = (if \<not> has_changes c then Inr '''' else cl_marshal CL (cp_changes c))"

fun max_priority :: "build_priority \<Rightarrow> generic_change list \<Rightarrow> build_priority" where
  "max_priority p [] = p"
| "max_priority p (c # cs) = max_priority (if gc_priority c > p then gc_priority c else p) cs"

definition cp_priority :: "change_processor \<Rightarrow> build_priority" where
  "cp_priority c =
     (if \<not> has_changes c then BuildPriorityNone else max_priority BuildPriorityNone (cp_changes c))"

record change_summary =
  cs_has_changes :: bool
  cs_reasons :: string
  cs_changes :: string
  cs_priority :: build_priority

definition summary_is_valid :: "change_summary \<Rightarrow> bool" where
  "summary_is_valid c =
     (if cs_has_changes c then cs_reasons c \<noteq> '''' \<and> cs_changes c \<noteq> ''''
      else cs_reasons c = '''' \<and> cs_changes c = '''')"

definition summary_text :: "change_summary \<Rightarrow> string" where
  "summary_text c = ''{HasChanges:'' @ format_bool (cs_has_changes c) @ '' ReasonsStr:'' @ cs_reasons c @
     '' ChangesStr:'' @ cs_changes c @ '' Priority:'' @ itoa (cs_priority c) @ ''}''"

definition new_change_summary ::
    "bool \<Rightarrow> string \<Rightarrow> string \<Rightarrow> build_priority \<Rightarrow> change_summary \<times> goerr option" where
  "new_change_summary has reasons changes priority =
     (let cs = \<lparr>cs_has_changes = has, cs_reasons = reasons, cs_changes = changes, cs_priority = priority\<rparr>
      in if \<not> summary_is_valid cs
         then (cs, Some (Failed Plain (''invalid change summary '' @ quoted (summary_text cs))))
         else (cs, None))"

text \<open>\<open>Summarize\<close> returns the summary and, when any step failed, all errors joined by newlines.\<close>

definition summarize :: "change_lib \<Rightarrow> change_processor \<Rightarrow> change_summary \<times> goerr option" where
  "summarize CL c =
     (let (changes, errs1) = (case changes_str CL c of
                 Inl e \<Rightarrow> ('''', cp_errs c @ [err_text (wrap_err ''error generating changes string'' e)])
               | Inr s \<Rightarrow> (s, cp_errs c));
          (summary, err) = new_change_summary (has_changes c) (reasons_str c) changes (cp_priority c);
          errs2 = (case err of
                 None \<Rightarrow> errs1
               | Some e \<Rightarrow> errs1 @ [err_text (wrap_err ''error summarizing changes'' e)])
      in (summary, if length errs2 > 0 then Some (Failed Plain (join [CHR 0x0A] errs2)) else None))"

section \<open>What the processor computes\<close>

text \<open>The required changes of a list, in order, and the errors of the others.\<close>

definition required_changes :: "change_lib \<Rightarrow> change option list \<Rightarrow> change list" where
  "required_changes CL cs = [c. Some c \<leftarrow> cs, change_required CL c = Inr True]"

definition change_errors :: "change_lib \<Rightarrow> change option list \<Rightarrow> goerr list" where
  "change_errors CL cs = concat (map (\<lambda>c. case c of None \<Rightarrow> []
      | Some ch \<Rightarrow> (case change_required CL ch of Inl e \<Rightarrow> [e] | Inr _ \<Rightarrow> [])) cs)"

lemma required_changes_Nil [simp]: "required_changes CL [] = []"
  by (simp add: required_changes_def)

lemma required_changes_Cons:
  "required_changes CL (c # cs) =
     (case c of None \<Rightarrow> [] | Some ch \<Rightarrow> if change_required CL ch = Inr True then [ch] else []) @
     required_changes CL cs"
  by (simp add: required_changes_def split: option.split)

lemma change_errors_Nil [simp]: "change_errors CL [] = []"
  by (simp add: change_errors_def)

lemma change_errors_Cons:
  "change_errors CL (c # cs) =
     (case c of None \<Rightarrow> [] | Some ch \<Rightarrow>
        (case change_required CL ch of Inl e \<Rightarrow> [e] | Inr _ \<Rightarrow> [])) @ change_errors CL cs"
  by (simp add: change_errors_def)

lemma process_changes:
  "cp_changes (process CL c p) = cp_changes p @ map new_generic_change (required_changes CL [c])"
  by (auto simp: process_def required_changes_Cons split: option.split sum.split)

lemma process_errs_Nil_iff:
  "cp_errs (process CL c p) = [] \<longleftrightarrow> cp_errs p = [] \<and> change_errors CL [c] = []"
  by (auto simp: process_def change_errors_Cons split: option.split sum.split)

lemma fold_process_changes:
  "cp_changes (fold (process CL) cs p) =
     cp_changes p @ map new_generic_change (required_changes CL cs)"
proof (induction cs arbitrary: p)
  case Nil
  then show ?case by simp
next
  case (Cons c cs)
  then show ?case
    by (simp add: process_changes required_changes_Cons)
qed

lemma fold_process_errs_Nil_iff:
  "cp_errs (fold (process CL) cs p) = [] \<longleftrightarrow> cp_errs p = [] \<and> change_errors CL cs = []"
  by (induction cs arbitrary: p) (simp_all add: process_errs_Nil_iff change_errors_Cons)

lemma max_priority_ge: "p \<le> max_priority p cs"
proof (induction cs arbitrary: p)
  case Nil
  then show ?case by simp
next
  case (Cons c cs)
  have "p \<le> (if gc_priority c > p then gc_priority c else p)" by simp
  also have "\<dots> \<le> max_priority (if gc_priority c > p then gc_priority c else p) cs" by (rule Cons)
  finally show ?case by simp
qed

lemma max_priority_eq: "max_priority p cs = fold max (map gc_priority cs) p"
proof (induction cs arbitrary: p)
  case Nil
  then show ?case by simp
next
  case (Cons c cs)
  have "(if gc_priority c > p then gc_priority c else p) = max (gc_priority c) p" by simp
  with Cons show ?case by simp
qed

lemma max_priority_upper: "c \<in> set cs \<Longrightarrow> gc_priority c \<le> max_priority p cs"
proof (induction cs arbitrary: p)
  case Nil
  then show ?case by simp
next
  case (Cons d cs)
  show ?case
  proof (cases "c = d")
    case True
    let ?q = "if gc_priority d > p then gc_priority d else p"
    have "gc_priority c \<le> ?q" using True by simp
    also have "\<dots> \<le> max_priority ?q cs" by (rule max_priority_ge)
    finally show ?thesis by simp
  next
    case False
    with Cons show ?thesis by simp
  qed
qed

lemma max_priority_attained: "max_priority p cs = p \<or> (\<exists>c \<in> set cs. max_priority p cs = gc_priority c)"
proof (induction cs arbitrary: p)
  case Nil
  then show ?case by simp
next
  case (Cons c cs)
  show ?case using Cons [of "if gc_priority c > p then gc_priority c else p"]
    by (auto split: if_splits)
qed

lemma change_priority_cases:
  "change_priority c = BuildPriorityHigh \<longleftrightarrow> change_reason c \<in> {TRIGGER, COMMIT, CONFIG}"
  "change_priority c = BuildPriorityLow \<longleftrightarrow> change_reason c \<in> {BUILDPACK, STACK, LIFECYCLE}"
  by (cases c; simp add: priority_defs)+

lemma change_priority_range: "change_priority c \<in> {BuildPriorityLow, BuildPriorityHigh}"
  by (cases c) simp_all

text \<open>
  The priority of the summary: none without changes, high as soon as one change is a trigger, a
  commit or a configuration change, low otherwise.
\<close>

lemma max_priority_new_generic:
  "max_priority BuildPriorityNone (map new_generic_change cs) =
     (if cs = [] then BuildPriorityNone
      else if \<exists>c \<in> set cs. change_reason c \<in> {TRIGGER, COMMIT, CONFIG} then BuildPriorityHigh
      else BuildPriorityLow)"
proof (cases "cs = []")
  case True
  then show ?thesis by simp
next
  case False
  let ?m = "max_priority BuildPriorityNone (map new_generic_change cs)"
  have prio: "gc_priority (new_generic_change c) = change_priority c" for c
    by (simp add: new_generic_change_def)
  have upper: "\<And>c. c \<in> set cs \<Longrightarrow> change_priority c \<le> ?m"
    using max_priority_upper [of _ "map new_generic_change cs"] prio by (metis image_eqI set_map)
  from False obtain d where d: "d \<in> set cs" by (cases cs) auto
  have "BuildPriorityLow \<le> ?m"
    using upper [OF d] change_priority_range [of d] by (auto simp: priority_defs)
  then have "?m \<noteq> BuildPriorityNone" by (simp add: priority_defs)
  then obtain c where c: "c \<in> set cs" "?m = change_priority c"
    using max_priority_attained [of BuildPriorityNone "map new_generic_change cs"] prio by auto
  show ?thesis
  proof (cases "\<exists>c \<in> set cs. change_reason c \<in> {TRIGGER, COMMIT, CONFIG}")
    case True
    then obtain e where "e \<in> set cs" "change_priority e = BuildPriorityHigh"
      using change_priority_cases(1) by blast
    with upper [of e] c change_priority_range [of c] have "?m = BuildPriorityHigh"
      by (auto simp: priority_defs)
    with True False show ?thesis by simp
  next
    case no: False
    with c(1) have "change_priority c \<noteq> BuildPriorityHigh" using change_priority_cases(1) by blast
    with c change_priority_range [of c] have "?m = BuildPriorityLow" by auto
    with no False show ?thesis by simp
  qed
qed

lemma reasons_join_nonempty: "cs \<noteq> [] \<Longrightarrow> join '','' (map gc_reason (map new_generic_change cs)) \<noteq> []"
  by (cases cs) (auto simp: join_eq_Nil_iff new_generic_change_def)

text \<open>
  The specification of a whole run of the processor: when no change reports an error and the
  encoder returns a non-empty text, the summary has exactly the required changes, in the order
  they were processed.
\<close>

definition marshals :: "change_lib \<Rightarrow> bool" where
  "marshals CL \<longleftrightarrow> (\<forall>cs. cs \<noteq> [] \<longrightarrow> (\<exists>s. cl_marshal CL cs = Inr s \<and> s \<noteq> ''''))"

lemma summarize_ok:
  assumes "marshals CL" and "change_errors CL cs = []"
  defines "req \<equiv> required_changes CL cs"
  shows "\<exists>text. summarize CL (fold (process CL) cs new_change_processor) =
     (\<lparr>cs_has_changes = (req \<noteq> []),
       cs_reasons = join '','' (map (\<lambda>c. reason_string (change_reason c)) req),
       cs_changes = text,
       cs_priority = max_priority BuildPriorityNone (map new_generic_change req)\<rparr>, None)
     \<and> (text = '''' \<longleftrightarrow> req = [])"
proof -
  let ?p = "fold (process CL) cs new_change_processor"
  have changes: "cp_changes ?p = map new_generic_change req"
    by (simp add: fold_process_changes new_change_processor_def req_def)
  have errs: "cp_errs ?p = []"
    using assms(2) by (simp add: fold_process_errs_Nil_iff new_change_processor_def)
  have reasons: "gc_reason \<circ> new_generic_change = (\<lambda>c. reason_string (change_reason c))"
    by (simp add: fun_eq_iff new_generic_change_def)
  show ?thesis
  proof (cases "req = []")
    case True
    with changes errs show ?thesis
      by (simp add: summarize_def has_changes_def changes_str_def reasons_str_def cp_priority_def
          new_change_summary_def summary_is_valid_def)
  next
    case False
    then obtain s where s: "cl_marshal CL (map new_generic_change req) = Inr s" "s \<noteq> ''''"
      using assms(1) by (auto simp: marshals_def)
    have "join '','' (map gc_reason (map new_generic_change req)) \<noteq> []"
      using False by (rule reasons_join_nonempty)
    with False s changes errs reasons show ?thesis
      by (simp add: summarize_def has_changes_def changes_str_def reasons_str_def cp_priority_def
          new_change_summary_def summary_is_valid_def)
  qed
qed

text \<open>Any reported error makes the summary fail, whatever else was found.\<close>

lemma summarize_error:
  assumes "change_errors CL cs \<noteq> []"
  shows "\<exists>s e. summarize CL (fold (process CL) cs new_change_processor) = (s, Some e) \<and> \<not> is_panic e"
proof -
  let ?p = "fold (process CL) cs new_change_processor"
  have "cp_errs ?p \<noteq> []"
    using assms by (simp add: fold_process_errs_Nil_iff)
  then show ?thesis
    by (auto simp: summarize_def Let_def split: prod.split sum.split option.split)
qed

end
