(* ===== verification/Image_Builds.thy ===== *)
theory Image_Builds
  imports Api_Types
begin

text \<open>
  \<open>pkg/apis/build/v1alpha2/image_builds.go\<close>: what an image asks for. The build created for an
  image, its cache claim, its source resolver, the names of these objects, and how the result of
  the latest build is carried from one build to the next.
\<close>

section \<open>Caches\<close>

definition is_need_volume_cache :: "image_spec \<Rightarrow> bool" where
  "is_need_volume_cache s =
     (case is_cache s of None \<Rightarrow> False
      | Some c \<Rightarrow> (case icc_volume c of None \<Rightarrow> False | Some v \<Rightarrow> ivc_size v \<noteq> None))"

definition is_need_registry_cache :: "image_spec \<Rightarrow> bool" where
  "is_need_registry_cache s =
     (case is_cache s of None \<Rightarrow> False
      | Some c \<Rightarrow> (case icc_registry c of None \<Rightarrow> False | Some r \<Rightarrow> rcache_tag r \<noteq> ''''))"

definition image_registry_cache :: "image_spec \<Rightarrow> registry_cache option" where
  "image_registry_cache s = (case is_cache s of None \<Rightarrow> None | Some c \<Rightarrow> icc_registry c)"

definition get_build_cache_config :: "image \<Rightarrow> build_cache_config" where
  "get_build_cache_config im =
     \<lparr>bcc_volume = (if is_need_volume_cache (im_spec im)
                    then Some (BuildVolumeCache (ims_build_cache_name (im_status im))) else None),
      bcc_registry = (if is_need_registry_cache (im_spec im)
                      then image_registry_cache (im_spec im) else None)\<rparr>"

section \<open>What the latest build leaves to the next\<close>

text \<open>
  After a failure the next build keeps building on what the failed one was building on.
\<close>

fun last_build_of :: "build option \<Rightarrow> last_build option" where
  "last_build_of None = None"
| "last_build_of (Some b) =
     (if is_failure (Some b) then bs_last_build (b_spec b)
      else Some \<lparr>lb_image = built_image (Some b), lb_cache = BuildCache (cache_image (Some b)),
                 lb_stack_id = build_stack_of (Some b)\<rparr>)"

definition latest_for_image :: "image \<Rightarrow> build option \<Rightarrow> string" where
  "latest_for_image im b =
     (if is_success b then built_image b else ims_latest_image (im_status im))"

section \<open>Accessors that default when \<open>spec.build\<close> is absent\<close>

definition image_services :: "image \<Rightarrow> services" where
  "image_services im = (case is_build (im_spec im) of None \<Rightarrow> [] | Some b \<Rightarrow> ib_services b)"

definition image_cnb_bindings :: "image \<Rightarrow> cnb_binding list" where
  "image_cnb_bindings im = (case is_build (im_spec im) of None \<Rightarrow> [] | Some b \<Rightarrow> ib_cnb_bindings b)"

definition image_env :: "image \<Rightarrow> env_var list" where
  "image_env im = (case is_build (im_spec im) of None \<Rightarrow> [] | Some b \<Rightarrow> ib_env b)"

definition image_resources :: "image \<Rightarrow> opaque" where
  "image_resources im = (case is_build (im_spec im) of None \<Rightarrow> '''' | Some b \<Rightarrow> ib_resources b)"

definition image_tolerations :: "image \<Rightarrow> opaque list" where
  "image_tolerations im = (case is_build (im_spec im) of None \<Rightarrow> [] | Some b \<Rightarrow> ib_tolerations b)"

definition image_node_selector :: "image \<Rightarrow> str_map" where
  "image_node_selector im =
     (case is_build (im_spec im) of None \<Rightarrow> Map.empty | Some b \<Rightarrow> ib_node_selector b)"

definition image_affinity :: "image \<Rightarrow> opaque option" where
  "image_affinity im = (case is_build (im_spec im) of None \<Rightarrow> None | Some b \<Rightarrow> ib_affinity b)"

definition image_build_timeout :: "image \<Rightarrow> int option" where
  "image_build_timeout im = (case is_build (im_spec im) of None \<Rightarrow> None | Some b \<Rightarrow> ib_build_timeout b)"

definition image_runtime_class :: "image \<Rightarrow> string option" where
  "image_runtime_class im = (case is_build (im_spec im) of None \<Rightarrow> None | Some b \<Rightarrow> ib_runtime_class b)"

definition image_scheduler :: "image \<Rightarrow> string" where
  "image_scheduler im = (case is_build (im_spec im) of None \<Rightarrow> '''' | Some b \<Rightarrow> ib_scheduler b)"

definition spec_creation_time :: "image_spec \<Rightarrow> string" where
  "spec_creation_time s = (case is_build s of None \<Rightarrow> '''' | Some b \<Rightarrow> ib_creation_time b)"

section \<open>Names, tags, labels\<close>

definition cache_name :: "lib \<Rightarrow> image \<Rightarrow> string" where
  "cache_name L im = lib_child_name L (meta_name (im_meta im)) ''-cache''"

definition source_resolver_name :: "lib \<Rightarrow> image \<Rightarrow> string" where
  "source_resolver_name L im = lib_child_name L (meta_name (im_meta im)) ''-source''"

definition generate_build_name :: "lib \<Rightarrow> image \<Rightarrow> string \<Rightarrow> string" where
  "generate_build_name L im build_number =
     lib_child_name L (meta_name (im_meta im)) (''-build-'' @ build_number)"

definition combine :: "str_map \<Rightarrow> str_map \<Rightarrow> str_map" where
  "combine m1 m2 = m1 ++ m2"

lemma combine_apply: "combine m1 m2 k = (case m2 k of None \<Rightarrow> m1 k | Some v \<Rightarrow> Some v)"
  by (simp add: combine_def map_add_def)

definition disable_additional_image_names :: "image \<Rightarrow> bool" where
  "disable_additional_image_names im \<longleftrightarrow> is_tagging (im_spec im) = TaggingNone"

definition generate_tags :: "lib \<Rightarrow> clock \<Rightarrow> image \<Rightarrow> string \<Rightarrow> string list" where
  "generate_tags L clk im build_number =
     (if disable_additional_image_names im
      then [is_tag (im_spec im)] @ is_additional_tags (im_spec im)
      else case lib_new_tag L (is_tag (im_spec im)) of
             Inl _ \<Rightarrow> []
           | Inr tag \<Rightarrow>
               (let tag_name = (if tag_str tag @ ''-'' = ''latest-'' then '''' else tag_str tag @ ''-'')
                in [is_tag (im_spec im),
                    tag_registry tag @ ''/'' @ tag_repository tag @ '':'' @ tag_name @ ''b'' @
                    build_number @ ''.'' @ clk_date clk @ ''.'' @
                    two_digits (clk_hour clk) @ two_digits (clk_minute clk) @ two_digits (clk_second clk)]
                   @ is_additional_tags (im_spec im)))"

section \<open>The objects an image owns\<close>

definition build_for_image :: "lib \<Rightarrow> clock \<Rightarrow> image \<Rightarrow> source_resolver \<Rightarrow> duck_builder \<Rightarrow> build option \<Rightarrow>
    string \<Rightarrow> string \<Rightarrow> int \<Rightarrow> string \<Rightarrow> build res" where
  "build_for_image L clk im sr builder latest_build reasons changes next_build_number priority_cls =
     bind_res (sr_source_config sr) (\<lambda>src.
     (let build_number = itoa next_build_number
      in Inr \<lparr>b_meta =
           \<lparr>meta_name = generate_build_name L im build_number,
            meta_namespace = meta_namespace (im_meta im),
            meta_uid = '''', meta_generation = 0,
            meta_labels = combine (meta_labels (im_meta im))
              [BuildNumberLabel \<mapsto> build_number,
               ImageLabel \<mapsto> meta_name (im_meta im),
               ImageGenerationLabel \<mapsto> itoa (meta_generation (im_meta im))],
            meta_annotations = combine (meta_annotations (im_meta im))
              [BuildReasonAnnotation \<mapsto> reasons,
               BuildChangesAnnotation \<mapsto> changes,
               BuilderNameAnnotation \<mapsto> meta_name (db_meta builder),
               BuilderKindAnnotation \<mapsto> db_kind builder],
            meta_creation = None,
            meta_owners = [controller_ref ''Image'' (im_meta im)]\<rparr>,
         b_spec =
           \<lparr>bs_tags = generate_tags L clk im build_number,
            bs_builder = db_build_builder_spec builder,
            bs_service_account = is_service_account (im_spec im),
            bs_source = src,
            bs_cache = Some (get_build_cache_config im),
            bs_run_image = db_run_image builder,
            bs_active_deadline = image_build_timeout im,
            bs_services = image_services im,
            bs_cnb_bindings = image_cnb_bindings im,
            bs_env = image_env im,
            bs_project_descriptor = is_project_descriptor (im_spec im),
            bs_resources = image_resources im,
            bs_last_build = last_build_of latest_build,
            bs_notary = is_notary (im_spec im),
            bs_cosign = is_cosign (im_spec im),
            bs_default_process = is_default_process (im_spec im),
            bs_tolerations = image_tolerations im,
            bs_node_selector = image_node_selector im,
            bs_affinity = image_affinity im,
            bs_runtime_class = image_runtime_class im,
            bs_scheduler = image_scheduler im,
            bs_priority_class = priority_cls,
            bs_creation_time = spec_creation_time (im_spec im)\<rparr>,
         b_status = empty_build_status\<rparr>))"

text \<open>The volume claim of the build cache. Reading the size through a nil pointer panics.\<close>

record pvc =
  pvc_meta :: object_meta
  pvc_access_modes :: "string list"
  pvc_storage_request :: opaque
  pvc_storage_class :: "string option"

definition image_build_cache :: "lib \<Rightarrow> image \<Rightarrow> pvc res" where
  "image_build_cache L im =
     (case is_cache (im_spec im) of
        None \<Rightarrow> Inl (Panic ''invalid memory address or nil pointer dereference'')
      | Some c \<Rightarrow> (case icc_volume c of
          None \<Rightarrow> Inl (Panic ''invalid memory address or nil pointer dereference'')
        | Some v \<Rightarrow> (case ivc_size v of
            None \<Rightarrow> Inl (Panic ''invalid memory address or nil pointer dereference'')
          | Some sz \<Rightarrow>
              Inr \<lparr>pvc_meta = empty_meta
                     \<lparr>meta_name := cache_name L im,
                      meta_namespace := meta_namespace (im_meta im),
                      meta_owners := [controller_ref ''Image'' (im_meta im)],
                      meta_labels := meta_labels (im_meta im)\<rparr>,
                   pvc_access_modes = [''ReadWriteOnce''],
                   pvc_storage_request = sz,
                   pvc_storage_class = (if ivc_storage_class v \<noteq> '''' then Some (ivc_storage_class v)
                                        else None)\<rparr>)))"

definition image_source_resolver :: "lib \<Rightarrow> image \<Rightarrow> source_resolver" where
  "image_source_resolver L im =
     \<lparr>sr_meta = empty_meta
        \<lparr>meta_name := source_resolver_name L im,
         meta_namespace := meta_namespace (im_meta im),
         meta_owners := [controller_ref ''Image'' (im_meta im)],
         meta_labels := meta_labels (im_meta im)\<rparr>,
      sr_spec = \<lparr>srs_service_account = is_service_account (im_spec im),
                 srs_source = is_source (im_spec im)\<rparr>,
      sr_status = \<lparr>srt_status = empty_status, srt_source = empty_resolved\<rparr>\<rparr>"

section \<open>Facts about the objects\<close>

lemma image_build_cache_ok:
  "is_need_volume_cache (im_spec im) \<Longrightarrow> \<exists>p. image_build_cache L im = Inr p \<and>
     meta_name (pvc_meta p) = cache_name L im"
  by (auto simp: is_need_volume_cache_def image_build_cache_def split: option.splits)

text \<open>The labels by which the reconciler finds its builds again cannot be overridden by the image.\<close>

lemma build_for_image_labels:
  assumes "build_for_image L clk im sr bd lb reasons changes n pc = Inr b"
  shows "meta_labels (b_meta b) ImageLabel = Some (meta_name (im_meta im))"
    and "meta_labels (b_meta b) BuildNumberLabel = Some (itoa n)"
    and "meta_labels (b_meta b) ImageGenerationLabel = Some (itoa (meta_generation (im_meta im)))"
    and "meta_name (b_meta b) = generate_build_name L im (itoa n)"
    and "meta_namespace (b_meta b) = meta_namespace (im_meta im)"
    and "lookup_str (meta_annotations (b_meta b)) BuildReasonAnnotation = reasons"
    and "lookup_str (meta_annotations (b_meta b)) BuildChangesAnnotation = changes"
    and "meta_owners (b_meta b) = [controller_ref ''Image'' (im_meta im)]"
  using assms by (auto simp: build_for_image_def bind_res_eq_Inr Let_def combine_apply label_defs lookup_str_def)

lemma build_for_image_spec:
  assumes "build_for_image L clk im sr bd lb reasons changes n pc = Inr b"
  shows "sr_source_config sr = Inr (bs_source (b_spec b))"
    and "bs_env (b_spec b) = image_env im"
    and "bs_resources (b_spec b) = image_resources im"
    and "bs_services (b_spec b) = image_services im"
    and "bs_cnb_bindings (b_spec b) = image_cnb_bindings im"
    and "bs_last_build (b_spec b) = last_build_of lb"
    and "bs_run_image (b_spec b) = db_run_image bd"
    and "bs_tags (b_spec b) = generate_tags L clk im (itoa n)"
    and "bs_priority_class (b_spec b) = pc"
    and "b_status b = empty_build_status"
  using assms by (auto simp: build_for_image_def bind_res_eq_Inr Let_def)

lemma build_for_image_running:
  "build_for_image L clk im sr bd lb reasons changes n pc = Inr b \<Longrightarrow> is_running (Some b)"
  by (simp add: build_for_image_spec(10) succeeded_condition_def empty_build_status_def empty_status_def
      get_condition_def)

lemma build_for_image_annotation_needed:
  assumes "build_for_image L clk im sr bd lb reasons changes n pc = Inr b"
  shows "meta_annotations (b_meta b) BuildNeededAnnotation =
         meta_annotations (im_meta im) BuildNeededAnnotation"
  using assms by (auto simp: build_for_image_def bind_res_eq_Inr Let_def combine_apply label_defs)

lemma build_for_image_generation:
  assumes "build_for_image L clk im sr bd lb reasons changes n pc = Inr b"
    and "fits64 (meta_generation (im_meta im))"
  shows "build_image_generation (Some b) = meta_generation (im_meta im)"
  using build_for_image_labels(3) [OF assms(1)] assms(2) by (simp add: parse_int_itoa)

text \<open>
  A chain of failures does not lose the last good image: however many failed builds follow a
  successful one, the next build still starts from it.
\<close>

lemma last_build_of_failure:
  "is_failure (Some b) \<Longrightarrow> last_build_of (Some b) = bs_last_build (b_spec b)"
  by simp

lemma last_build_of_success:
  "is_success (Some b) \<Longrightarrow> last_build_of (Some b) =
     Some \<lparr>lb_image = bst_latest_image (b_status b),
           lb_cache = BuildCache (bst_latest_cache_image (b_status b)),
           lb_stack_id = stack_id (bst_stack (b_status b))\<rparr>"
  using is_success_not_failure [of "Some b"] by simp

fun failed_chain :: "build \<Rightarrow> build list \<Rightarrow> bool" where
  "failed_chain b [] = True"
| "failed_chain b (c # cs) =
     (is_failure (Some c) \<and> bs_last_build (b_spec c) = last_build_of (Some b) \<and> failed_chain c cs)"

lemma failed_chain_last_build:
  "failed_chain b cs \<Longrightarrow> last_build_of (Some (last (b # cs))) = last_build_of (Some b)"
proof (induction cs arbitrary: b)
  case Nil
  then show ?case by simp
next
  case (Cons c cs)
  then have c: "is_failure (Some c)" "bs_last_build (b_spec c) = last_build_of (Some b)"
    and chain: "failed_chain c cs" by simp_all
  have "last_build_of (Some (last (b # c # cs))) = last_build_of (Some (last (c # cs)))" by simp
  also have "\<dots> = last_build_of (Some c)" using Cons.IH chain by blast
  also have "\<dots> = last_build_of (Some b)" using c by (simp only: last_build_of_failure)
  finally show ?case .
qed

end
