(* ===== verification/Build_Required.thy ===== *)
theory Build_Required
  imports Build_Change Image_Builds
begin

text \<open>
  \<open>pkg/reconciler/image/build_required.go\<close>: whether an image needs a new build, compared with the
  latest build, its source resolver and its builder; and the theorem that a build made from an
  image is not itself a reason to build again.
\<close>

record build_required_result =
  brr_status :: condition_status
  brr_reasons :: string
  brr_changes :: string
  brr_priority_class :: string

definition new_build_required_result :: "change_summary \<Rightarrow> build_required_result" where
  "new_build_required_result s =
     \<lparr>brr_status = (if cs_has_changes s then ConditionTrue else ConditionFalse),
      brr_reasons = cs_reasons s, brr_changes = cs_changes s,
      brr_priority_class = priority_class (cs_priority s)\<rparr>"

definition trigger_change :: "clock \<Rightarrow> build option \<Rightarrow> change option" where
  "trigger_change clk last_build =
     (case last_build of
        None \<Rightarrow> None
      | Some b \<Rightarrow>
          (case meta_annotations (b_meta b) BuildNeededAnnotation of
             None \<Rightarrow> None
           | Some _ \<Rightarrow> Some (new_trigger_change (clk_rfc1123z clk))))"

definition commit_change :: "build option \<Rightarrow> source_resolver \<Rightarrow> change option" where
  "commit_change last_build sr =
     (case last_build of
        None \<Rightarrow> None
      | Some b \<Rightarrow>
          (case (src_git (bs_source (b_spec b)), rs_git (srt_source (sr_status sr))) of
             (Some g, Some rg) \<Rightarrow> Some (CommitChange (git_revision g) (rg_revision rg))
           | _ \<Rightarrow> None))"

definition build_config :: "build option \<Rightarrow> config" where
  "build_config last_build =
     (case last_build of
        None \<Rightarrow> empty_config
      | Some b \<Rightarrow> \<lparr>cfg_env = bs_env (b_spec b), cfg_resources = bs_resources (b_spec b),
                   cfg_services = bs_services (b_spec b),
                   cfg_cnb_bindings = bs_cnb_bindings (b_spec b), cfg_source = bs_source (b_spec b)\<rparr>)"

definition image_config :: "image \<Rightarrow> source_config \<Rightarrow> config" where
  "image_config img src =
     \<lparr>cfg_env = image_env img, cfg_resources = image_resources img,
      cfg_services = image_services img, cfg_cnb_bindings = image_cnb_bindings img,
      cfg_source = src\<rparr>"

text \<open>Rendering the source of a resolver without one panics.\<close>

definition config_change :: "image \<Rightarrow> build option \<Rightarrow> source_resolver \<Rightarrow> change option res" where
  "config_change img last_build sr =
     bind_res (sr_source_config sr)
       (\<lambda>src. Inr (Some (ConfigChange (build_config last_build) (image_config img src))))"

definition buildpack_change :: "build option \<Rightarrow> duck_builder \<Rightarrow> change option" where
  "buildpack_change last_build builder =
     (case last_build of
        None \<Rightarrow> None
      | Some b \<Rightarrow>
          (if \<not> is_success last_build then None
           else Some (BuildpackChange
                  (map (\<lambda>bp. \<lparr>bp_id = bm_id bp, bp_version = bm_version bp\<rparr>)
                     (filter (\<lambda>bp. \<not> include_bp (bds_metadata (db_status builder)) bp)
                        (bst_build_metadata (b_status b))))
                  [])))"

definition stack_change :: "lib \<Rightarrow> build option \<Rightarrow> duck_builder \<Rightarrow> change option" where
  "stack_change L last_build builder =
     (case last_build of
        None \<Rightarrow> None
      | Some b \<Rightarrow>
          (if \<not> is_success last_build then None
           else Some (new_stack_change L (stack_run_image (bst_stack (b_status b))) (db_run_image builder))))"

definition lifecycle_change :: "build option \<Rightarrow> duck_builder \<Rightarrow> change option" where
  "lifecycle_change last_build builder =
     (case last_build of
        None \<Rightarrow> None
      | Some b \<Rightarrow>
          (if \<not> is_success last_build then None
           else Some (LifecycleChange (bst_lifecycle_version (b_status b)) (db_lifecycle_version builder))))"

definition all_changes :: "lib \<Rightarrow> clock \<Rightarrow> image \<Rightarrow> build option \<Rightarrow> source_resolver \<Rightarrow> duck_builder \<Rightarrow>
    change option \<Rightarrow> change option list" where
  "all_changes L clk img last_build sr builder cfg =
     [trigger_change clk last_build, commit_change last_build sr, cfg,
      buildpack_change last_build builder, stack_change L last_build builder,
      lifecycle_change last_build builder]"

definition is_build_required :: "lib \<Rightarrow> change_lib \<Rightarrow> clock \<Rightarrow> image \<Rightarrow> build option \<Rightarrow>
    source_resolver \<Rightarrow> duck_builder \<Rightarrow> build_required_result res" where
  "is_build_required L CL clk img last_build sr builder =
     (if \<not> sr_ready sr \<or> \<not> db_ready builder
      then Inr \<lparr>brr_status = ConditionUnknown, brr_reasons = '''', brr_changes = '''',
                brr_priority_class = ''''\<rparr>
      else bind_res (config_change img last_build sr) (\<lambda>cfg.
           (case summarize CL (fold (process CL) (all_changes L clk img last_build sr builder cfg)
                                 new_change_processor) of
              (summary, Some e) \<Rightarrow> Inl e
            | (summary, None) \<Rightarrow> Inr (new_build_required_result summary))))"

section \<open>The specification of build_required\<close>

text \<open>
  The reasons to build, stated directly on the objects: one predicate per reason, in the order
  the code asks for them. A build that did not succeed never causes a buildpack, stack or
  lifecycle rebuild.
\<close>

definition wants_trigger :: "build option \<Rightarrow> bool" where
  "wants_trigger lb \<longleftrightarrow> (\<exists>b. lb = Some b \<and> additional_build_needed b)"

definition wants_commit :: "build option \<Rightarrow> source_resolver \<Rightarrow> bool" where
  "wants_commit lb sr \<longleftrightarrow> (\<exists>b g rg. lb = Some b \<and> src_git (bs_source (b_spec b)) = Some g \<and>
     rs_git (srt_source (sr_status sr)) = Some rg \<and> git_revision g \<noteq> rg_revision rg)"

definition wants_config :: "change_lib \<Rightarrow> image \<Rightarrow> build option \<Rightarrow> source_resolver \<Rightarrow> bool" where
  "wants_config CL img lb sr \<longleftrightarrow> (\<exists>src. sr_source_config sr = Inr src \<and>
     \<not> cl_config_equal CL (blank_revision (build_config lb)) (blank_revision (image_config img src)))"

definition wants_buildpack :: "build option \<Rightarrow> duck_builder \<Rightarrow> bool" where
  "wants_buildpack lb bd \<longleftrightarrow> (\<exists>b. lb = Some b \<and> is_success lb \<and>
     (\<exists>bp \<in> set (bst_build_metadata (b_status b)). \<not> include_bp (bds_metadata (db_status bd)) bp))"

definition wants_stack :: "lib \<Rightarrow> build option \<Rightarrow> duck_builder \<Rightarrow> bool" where
  "wants_stack L lb bd \<longleftrightarrow> (\<exists>b. lb = Some b \<and> is_success lb \<and>
     ref_digest L (stack_run_image (bst_stack (b_status b))) \<noteq> ref_digest L (db_run_image bd))"

definition wants_lifecycle :: "build option \<Rightarrow> duck_builder \<Rightarrow> bool" where
  "wants_lifecycle lb bd \<longleftrightarrow> (\<exists>b. lb = Some b \<and> is_success lb \<and>
     bst_lifecycle_version (b_status b) \<noteq> db_lifecycle_version bd)"

definition wanted_reasons :: "lib \<Rightarrow> change_lib \<Rightarrow> image \<Rightarrow> build option \<Rightarrow> source_resolver \<Rightarrow>
    duck_builder \<Rightarrow> build_reason list" where
  "wanted_reasons L CL img lb sr bd =
     (if wants_trigger lb then [TRIGGER] else []) @
     (if wants_commit lb sr then [COMMIT] else []) @
     (if wants_config CL img lb sr then [CONFIG] else []) @
     (if wants_buildpack lb bd then [BUILDPACK] else []) @
     (if wants_stack L lb bd then [STACK] else []) @
     (if wants_lifecycle lb bd then [LIFECYCLE] else [])"

text \<open>The run image references that a successful build makes the code parse.\<close>

definition run_images_parse :: "lib \<Rightarrow> build option \<Rightarrow> duck_builder \<Rightarrow> bool" where
  "run_images_parse L lb bd \<longleftrightarrow> (case lb of None \<Rightarrow> True | Some b \<Rightarrow>
     is_success lb \<longrightarrow> ref_err L (stack_run_image (bst_stack (b_status b))) = [] \<and>
                     ref_err L (db_run_image bd) = [])"

text \<open>
  Documented behaviour of \<open>cmp.Equal\<close> on slices of comparable structs: it is equality.
\<close>

definition buildpacks_equal_ok :: "change_lib \<Rightarrow> bool" where
  "buildpacks_equal_ok CL \<longleftrightarrow> (\<forall>xs ys. cl_buildpacks_equal CL xs ys \<longleftrightarrow> xs = ys)"

lemma sort_buildpacks_Nil [simp]: "sort_buildpacks [] = []"
  by (simp add: sort_buildpacks_def)

lemma sort_buildpacks_Nil_iff [simp]: "sort_buildpacks xs = [] \<longleftrightarrow> xs = []"
  by (metis length_0_conv length_sort sort_buildpacks_def)

lemma buildpack_change_required_Nil:
  "buildpacks_equal_ok CL \<Longrightarrow> buildpack_change_required CL xs [] \<longleftrightarrow> xs \<noteq> []"
  by (simp add: buildpacks_equal_ok_def buildpack_change_required_def)

definition required_reasons :: "change_lib \<Rightarrow> change option \<Rightarrow> build_reason list" where
  "required_reasons CL c = map change_reason (required_changes CL [c])"

lemma Bex_set_map_Int: "(\<exists>x \<in> set xs. f x \<in> S) \<longleftrightarrow> set (map f xs) \<inter> S \<noteq> {}"
  by auto

lemma trigger_reasons:
  "required_reasons CL (trigger_change clk lb) = (if wants_trigger lb then [TRIGGER] else [])"
  by (auto simp: required_reasons_def required_changes_Cons trigger_change_def wants_trigger_def
      additional_build_needed_def new_trigger_change_def split: option.split)

lemma commit_reasons:
  "required_reasons CL (commit_change lb sr) = (if wants_commit lb sr then [COMMIT] else [])"
  by (auto simp: required_reasons_def required_changes_Cons commit_change_def wants_commit_def
      split: option.split)

lemma config_reasons:
  "config_change img lb sr = Inr cfg \<Longrightarrow>
   required_reasons CL cfg = (if wants_config CL img lb sr then [CONFIG] else [])"
  by (auto simp: required_reasons_def required_changes_Cons config_change_def wants_config_def
      bind_res_eq_Inr config_change_required_def)

lemma buildpack_reasons:
  "buildpacks_equal_ok CL \<Longrightarrow>
   required_reasons CL (buildpack_change lb bd) = (if wants_buildpack lb bd then [BUILDPACK] else [])"
  by (auto simp: required_reasons_def required_changes_Cons buildpack_change_def wants_buildpack_def
      buildpack_change_required_Nil filter_empty_conv split: option.split)

lemma stack_reasons:
  "run_images_parse L lb bd \<Longrightarrow>
   required_reasons CL (stack_change L lb bd) = (if wants_stack L lb bd then [STACK] else [])"
  by (auto simp: required_reasons_def required_changes_Cons stack_change_def wants_stack_def
      new_stack_change_def run_images_parse_def split: option.splits if_splits)

lemma lifecycle_reasons:
  "required_reasons CL (lifecycle_change lb bd) = (if wants_lifecycle lb bd then [LIFECYCLE] else [])"
  by (auto simp: required_reasons_def required_changes_Cons lifecycle_change_def wants_lifecycle_def
      split: option.split)

lemma all_changes_reasons:
  assumes "buildpacks_equal_ok CL" and "run_images_parse L lb bd" and "config_change img lb sr = Inr cfg"
  shows "map change_reason (required_changes CL (all_changes L clk img lb sr bd cfg)) =
         wanted_reasons L CL img lb sr bd"
proof -
  have step: "map change_reason (required_changes CL (c # cs)) =
              required_reasons CL c @ map change_reason (required_changes CL cs)" for c cs
    by (simp add: required_reasons_def required_changes_Cons)
  show ?thesis
    using assms
    by (simp add: all_changes_def step trigger_reasons commit_reasons config_reasons
        buildpack_reasons stack_reasons lifecycle_reasons wanted_reasons_def)
qed

lemma all_changes_errors:
  assumes "config_change img lb sr = Inr cfg"
  shows "change_errors CL (all_changes L clk img lb sr bd cfg) = [] \<longleftrightarrow> run_images_parse L lb bd"
  using assms
  by (auto simp: all_changes_def change_errors_Cons trigger_change_def commit_change_def
      config_change_def bind_res_eq_Inr buildpack_change_def stack_change_def lifecycle_change_def
      new_trigger_change_def new_stack_change_def run_images_parse_def Let_def split: option.splits)

lemma config_change_ready:
  assumes "sr_wf sr" and "sr_ready sr"
  shows "\<exists>src. sr_source_config sr = Inr src \<and>
    config_change img lb sr = Inr (Some (ConfigChange (build_config lb) (image_config img src)))"
  using sr_wf_ready_source [OF assms] by (auto simp: sr_source_config_def config_change_def)

text \<open>A ready resolver never makes the decision panic.\<close>

lemma is_build_required_no_panic:
  assumes "sr_wf sr"
  shows "\<not> panics (is_build_required L CL clk img lb sr bd)"
proof (cases "sr_ready sr \<and> db_ready bd")
  case False
  then show ?thesis by (auto simp: is_build_required_def)
next
  case True
  obtain cfg where cfg: "config_change img lb sr = Inr cfg"
    using config_change_ready [OF assms] True by blast
  obtain s e where se: "summarize CL (fold (process CL) (all_changes L clk img lb sr bd cfg)
      new_change_processor) = (s, e)"
    by (cases "summarize CL (fold (process CL) (all_changes L clk img lb sr bd cfg) new_change_processor)") auto
  have "e = None \<or> (\<exists>x. e = Some x \<and> \<not> is_panic x)"
    using se by (auto simp: summarize_def Let_def split: prod.splits sum.splits option.splits if_splits)
  with True cfg se show ?thesis
    by (auto simp: is_build_required_def panics_def)
qed

lemma is_build_required_unknown:
  "\<not> (sr_ready sr \<and> db_ready bd) \<Longrightarrow>
   is_build_required L CL clk img lb sr bd =
     Inr \<lparr>brr_status = ConditionUnknown, brr_reasons = '''', brr_changes = '''', brr_priority_class = ''''\<rparr>"
  by (auto simp: is_build_required_def)

lemma is_build_required_summary:
  fixes img :: image
  assumes "marshals CL" and "buildpacks_equal_ok CL" and "sr_wf sr"
    and "sr_ready sr" and "db_ready bd" and "run_images_parse L lb bd"
  defines "rs \<equiv> wanted_reasons L CL img lb sr bd"
  shows "\<exists>res. is_build_required L CL clk img lb sr bd = Inr res \<and>
     brr_status res = (if rs = [] then ConditionFalse else ConditionTrue) \<and>
     brr_reasons res = join '','' (map reason_string rs) \<and>
     brr_priority_class res = (if rs = [] then '''' else if set rs \<inter> {TRIGGER, COMMIT, CONFIG} \<noteq> {}
                               then BuildPriorityClassHigh else BuildPriorityClassLow)"
proof -
  obtain cfg where cfg: "config_change img lb sr = Inr cfg"
    using config_change_ready [OF assms(3,4)] by blast
  let ?cs = "all_changes L clk img lb sr bd cfg"
  let ?req = "required_changes CL ?cs"
  have reasons: "map change_reason ?req = rs"
    unfolding rs_def using assms(2,6) cfg by (rule all_changes_reasons)
  have ne: "?req = [] \<longleftrightarrow> rs = []" using reasons by auto
  have "map (\<lambda>c. reason_string (change_reason c)) ?req = map reason_string (map change_reason ?req)"
    by simp
  then have names: "map (\<lambda>c. reason_string (change_reason c)) ?req = map reason_string rs"
    by (simp only: reasons)
  have high: "(\<exists>c \<in> set ?req. change_reason c \<in> {TRIGGER, COMMIT, CONFIG}) \<longleftrightarrow>
      set rs \<inter> {TRIGGER, COMMIT, CONFIG} \<noteq> {}"
    unfolding reasons [symmetric] by (rule Bex_set_map_Int)
  have "change_errors CL ?cs = []" using cfg assms(6) by (simp add: all_changes_errors)
  then obtain t where "summarize CL (fold (process CL) ?cs new_change_processor) =
     (\<lparr>cs_has_changes = (?req \<noteq> []), cs_reasons = join '','' (map reason_string rs),
       cs_changes = t,
       cs_priority = max_priority BuildPriorityNone (map new_generic_change ?req)\<rparr>, None)"
    using summarize_ok [OF assms(1)] names by metis
  then show ?thesis
    using assms(4,5) cfg ne high
    by (simp add: is_build_required_def new_build_required_result_def max_priority_new_generic)
qed

lemma is_build_required_parse_error:
  assumes "sr_wf sr" and "sr_ready sr" and "db_ready bd" and "\<not> run_images_parse L lb bd"
  shows "\<exists>e. is_build_required L CL clk img lb sr bd = Inl e \<and> \<not> is_panic e"
proof -
  obtain cfg where cfg: "config_change img lb sr = Inr cfg"
    using config_change_ready [OF assms(1,2)] by blast
  then have "change_errors CL (all_changes L clk img lb sr bd cfg) \<noteq> []"
    using assms(4) by (simp add: all_changes_errors)
  from summarize_error [OF this] show ?thesis
    using assms(2,3) cfg by (auto simp: is_build_required_def)
qed

section \<open>A fresh build is up to date\<close>

text \<open>
  What a finished build has to record to match the builder it ran with.
\<close>

definition reports_builder :: "lib \<Rightarrow> build \<Rightarrow> duck_builder \<Rightarrow> bool" where
  "reports_builder L b bd \<longleftrightarrow>
     (\<forall>bp \<in> set (bst_build_metadata (b_status b)). include_bp (bds_metadata (db_status bd)) bp) \<and>
     ref_digest L (stack_run_image (bst_stack (b_status b))) = ref_digest L (db_run_image bd) \<and>
     bst_lifecycle_version (b_status b) = db_lifecycle_version bd"

lemma commit_change_own_build:
  "bs_source (b_spec b) = src \<Longrightarrow> sr_source_config sr = Inr src \<Longrightarrow> \<not> wants_commit (Some b) sr"
  by (auto simp: wants_commit_def sr_source_config_def resolved_source_of_def git_source_config_def
      split: option.splits)

lemma own_build_no_reasons:
  assumes built: "build_for_image L clk im sr bd lb0 reasons changes n pc = Inr b0"
    and spec: "b_spec b = b_spec b0" and ann: "meta_annotations (b_meta b) = meta_annotations (b_meta b0)"
    and eq: "\<And>c. cl_config_equal CL c c"
    and no_trigger: "meta_annotations (im_meta im) BuildNeededAnnotation = None"
    and rep: "is_success (Some b) \<Longrightarrow> reports_builder L b bd"
  shows "wanted_reasons L CL im (Some b) sr bd = []"
proof -
  note s = build_for_image_spec [OF built]
  have "\<not> wants_trigger (Some b)"
    using build_for_image_annotation_needed [OF built] ann no_trigger
    by (simp add: wants_trigger_def additional_build_needed_def)
  moreover have "\<not> wants_commit (Some b) sr"
    using s(1) spec by (metis commit_change_own_build)
  moreover have "\<not> wants_config CL im (Some b) sr"
    using s spec eq by (auto simp: wants_config_def build_config_def image_config_def)
  moreover have "\<not> wants_buildpack (Some b) bd" "\<not> wants_stack L (Some b) bd" "\<not> wants_lifecycle (Some b) bd"
    using rep by (auto simp: wants_buildpack_def wants_stack_def wants_lifecycle_def reports_builder_def)
  ultimately show ?thesis by (simp add: wanted_reasons_def)
qed

text \<open>
  When the image itself carries the annotation that asks for an additional build, every build made
  from it inherits the annotation, and so every build asks for the next one.
\<close>

lemma annotated_image_always_triggers:
  assumes built: "build_for_image L clk im sr bd lb0 reasons changes n pc = Inr b0"
    and ann: "meta_annotations (b_meta b) = meta_annotations (b_meta b0)"
    and needed: "meta_annotations (im_meta im) BuildNeededAnnotation = Some v"
  shows "TRIGGER \<in> set (wanted_reasons L CL im (Some b) sr bd)"
  using build_for_image_annotation_needed [OF built] ann needed
  by (simp add: wanted_reasons_def wants_trigger_def additional_build_needed_def)

end
