(* ===== verification/Build_List.thy ===== *)
theory Build_List
  imports Api_Types "HOL-Library.Product_Lexorder"
begin

text \<open>
  The history of an image's builds: the order \<open>ByCreationTimestamp\<close>
  (\<open>pkg/reconciler/build/sort.go\<close>) and the list of successful, failed and latest builds
  (\<open>pkg/reconciler/image/build_list.go\<close>), over any sorting function with the contract of
  \<open>sort.Sort\<close>.
\<close>

section \<open>The order\<close>

text \<open>\<open>Less\<close>: a zero timestamp comes last, and two equal timestamps are less than each other.\<close>

definition creation_less :: "build \<Rightarrow> build \<Rightarrow> bool" where
  "creation_less x y =
     (case (meta_creation (b_meta x), meta_creation (b_meta y)) of
        (None, Some _) \<Rightarrow> False
      | (Some _, None) \<Rightarrow> True
      | (None, None) \<Rightarrow> True
      | (Some s, Some t) \<Rightarrow> if s = t then True else s < t)"

text \<open>The key that the order compares.\<close>

definition creation_key :: "build \<Rightarrow> nat \<times> int" where
  "creation_key b = (case meta_creation (b_meta b) of None \<Rightarrow> (1, 0) | Some t \<Rightarrow> (0, t))"

text \<open>
  \<open>Less\<close> is the reflexive order of the keys, not the strict one that \<open>sort.Interface\<close> asks for.
\<close>

lemma creation_less_iff: "creation_less x y \<longleftrightarrow> creation_key x \<le> creation_key y"
  by (auto simp: creation_less_def creation_key_def less_eq_prod_def split: option.split)

lemma creation_less_refl: "creation_less b b"
  by (simp add: creation_less_iff)

text \<open>
  For short slices \<open>sort.Sort\<close> is the insertion sort that moves each element left past every
  element it is less than.
\<close>

fun insert_build :: "build \<Rightarrow> build list \<Rightarrow> build list" where
  "insert_build x [] = [x]"
| "insert_build x (y # ys) = (if creation_less x y then x # y # ys else y # insert_build x ys)"

definition sort_builds :: "build list \<Rightarrow> build list" where
  "sort_builds bs = fold insert_build bs []"

lemma mset_insert_build [simp]: "mset (insert_build x ys) = add_mset x (mset ys)"
  by (induction ys) auto

lemma set_insert_build [simp]: "set (insert_build x ys) = insert x (set ys)"
  by (induction ys) auto

lemma sorted_insert_build:
  "sorted (map creation_key ys) \<Longrightarrow> sorted (map creation_key (insert_build x ys))"
proof (induction ys)
  case Nil
  then show ?case by simp
next
  case (Cons y ys)
  show ?case
  proof (cases "creation_less x y")
    case True
    with Cons.prems show ?thesis by (auto simp: creation_less_iff)
  next
    case False
    then have "creation_key y \<le> creation_key x" by (simp add: creation_less_iff)
    with False Cons show ?thesis by auto
  qed
qed

lemma mset_fold_insert_build: "mset (fold insert_build bs acc) = mset bs + mset acc"
  by (induction bs arbitrary: acc) simp_all

lemma sorted_fold_insert_build:
  "sorted (map creation_key acc) \<Longrightarrow> sorted (map creation_key (fold insert_build bs acc))"
  by (induction bs arbitrary: acc) (simp_all add: sorted_insert_build)

interpretation builds_sort: go_sort sort_builds creation_key
  by unfold_locales
     (simp_all add: sort_builds_def mset_fold_insert_build sorted_fold_insert_build)

section \<open>The build list\<close>

record build_list =
  bl_successful :: "build list"
  bl_failed :: "build list"
  bl_last :: "build option"

fun classify_builds :: "build list \<Rightarrow> build_list \<Rightarrow> build_list" where
  "classify_builds [] bl = bl"
| "classify_builds (b # bs) bl =
     classify_builds bs
       (if is_success (Some b) then bl\<lparr>bl_successful := bl_successful bl @ [b]\<rparr>
        else if is_failure (Some b) then bl\<lparr>bl_failed := bl_failed bl @ [b]\<rparr>
        else bl)"

definition new_build_list :: "(build list \<Rightarrow> build list) \<Rightarrow> build list \<Rightarrow> build_list" where
  "new_build_list srt builds =
     (let sorted_builds = srt builds;
          bl = classify_builds sorted_builds \<lparr>bl_successful = [], bl_failed = [], bl_last = None\<rparr>
      in if length sorted_builds > 0 then bl\<lparr>bl_last := Some (last sorted_builds)\<rparr> else bl)"

definition number_failed_builds :: "build_list \<Rightarrow> int" where
  "number_failed_builds l = int (length (bl_failed l))"

definition number_successful_builds :: "build_list \<Rightarrow> int" where
  "number_successful_builds l = int (length (bl_successful l))"

definition oldest_failure :: "build_list \<Rightarrow> build res" where
  "oldest_failure l = (case bl_failed l of
      b # _ \<Rightarrow> Inr b | [] \<Rightarrow> Inl (Panic ''index out of range [0] with length 0''))"

definition oldest_success :: "build_list \<Rightarrow> build res" where
  "oldest_success l = (case bl_successful l of
      b # _ \<Rightarrow> Inr b | [] \<Rightarrow> Inl (Panic ''index out of range [0] with length 0''))"

lemma classify_builds_eq:
  "classify_builds bs bl =
     bl\<lparr>bl_successful := bl_successful bl @ filter (\<lambda>b. is_success (Some b)) bs,
        bl_failed := bl_failed bl @ filter (\<lambda>b. is_failure (Some b)) bs\<rparr>"
proof (induction bs arbitrary: bl)
  case Nil
  then show ?case by simp
next
  case (Cons b bs)
  then show ?case
    using is_success_not_failure [of "Some b"] by simp
qed

lemma new_build_list_fields:
  "bl_successful (new_build_list srt bs) = filter (\<lambda>b. is_success (Some b)) (srt bs)"
  "bl_failed (new_build_list srt bs) = filter (\<lambda>b. is_failure (Some b)) (srt bs)"
  "bl_last (new_build_list srt bs) = (if srt bs = [] then None else Some (last (srt bs)))"
  by (simp_all add: new_build_list_def classify_builds_eq Let_def)

text \<open>What the reconciler relies on, for every sorting function with the contract.\<close>

context go_sort
begin

lemma hd_filter_srt_in: "filter P (srt xs) = y # ys \<Longrightarrow> y \<in> set xs \<and> P y"
proof -
  assume "filter P (srt xs) = y # ys"
  then have "y \<in> set (filter P (srt xs))" by simp
  then show ?thesis by simp
qed

end

lemma last_build_newest:
  assumes "go_sort srt creation_key" and "bl_last (new_build_list srt bs) = Some b"
  shows "b \<in> set bs \<and> (\<forall>c \<in> set bs. creation_key c \<le> creation_key b)"
proof -
  have ne: "srt bs \<noteq> []" and b: "b = last (srt bs)"
    using assms(2) by (auto simp: new_build_list_fields split: if_splits)
  have "last (srt bs) \<in> set (srt bs)" using ne by simp
  then have "b \<in> set bs" using b go_sort.set_srt [OF assms(1)] by metis
  moreover have "\<forall>c \<in> set bs. creation_key c \<le> creation_key b"
    using b go_sort.last_srt_max [OF assms(1)] by blast
  ultimately show ?thesis ..
qed

lemma last_build_None_iff:
  assumes "go_sort srt creation_key"
  shows "bl_last (new_build_list srt bs) = None \<longleftrightarrow> bs = []"
  by (simp add: new_build_list_fields go_sort.srt_eq_Nil_iff [OF assms])

lemma oldest_failure_spec:
  assumes "go_sort srt creation_key" and "oldest_failure (new_build_list srt bs) = Inr b"
  shows "b \<in> set bs \<and> is_failure (Some b) \<and>
         (\<forall>c \<in> set bs. is_failure (Some c) \<longrightarrow> creation_key b \<le> creation_key c)"
proof -
  obtain rest where rest: "filter (\<lambda>b. is_failure (Some b)) (srt bs) = b # rest"
    using assms(2) by (auto simp: oldest_failure_def new_build_list_fields split: list.splits)
  show ?thesis
    using go_sort.hd_filter_srt_in [OF assms(1) rest] go_sort.hd_filter_srt_min [OF assms(1) rest]
    by blast
qed

lemma oldest_success_spec:
  assumes "go_sort srt creation_key" and "oldest_success (new_build_list srt bs) = Inr b"
  shows "b \<in> set bs \<and> is_success (Some b) \<and>
         (\<forall>c \<in> set bs. is_success (Some c) \<longrightarrow> creation_key b \<le> creation_key c)"
proof -
  obtain rest where rest: "filter (\<lambda>b. is_success (Some b)) (srt bs) = b # rest"
    using assms(2) by (auto simp: oldest_success_def new_build_list_fields split: list.splits)
  show ?thesis
    using go_sort.hd_filter_srt_in [OF assms(1) rest] go_sort.hd_filter_srt_min [OF assms(1) rest]
    by blast
qed

lemma number_failed_builds_eq:
  assumes "go_sort srt creation_key"
  shows "number_failed_builds (new_build_list srt bs) = int (length (filter (\<lambda>b. is_failure (Some b)) bs))"
  by (simp add: number_failed_builds_def new_build_list_fields go_sort.filter_srt_length [OF assms])

lemma number_successful_builds_eq:
  assumes "go_sort srt creation_key"
  shows "number_successful_builds (new_build_list srt bs) = int (length (filter (\<lambda>b. is_success (Some b)) bs))"
  by (simp add: number_successful_builds_def new_build_list_fields go_sort.filter_srt_length [OF assms])

lemma oldest_failure_total:
  "number_failed_builds l > 0 \<Longrightarrow> \<exists>b. oldest_failure l = Inr b"
  by (auto simp: number_failed_builds_def oldest_failure_def split: list.split)

lemma oldest_success_total:
  "number_successful_builds l > 0 \<Longrightarrow> \<exists>b. oldest_success l = Inr b"
  by (auto simp: number_successful_builds_def oldest_success_def split: list.split)

end
