(* ===== verification/Api_Defaults.thy ===== *)
theory Api_Defaults
  imports Api_Types
begin

text \<open>
  The \<open>SetDefaults\<close> methods of the v1alpha2 objects, from the \<open>*_validation.go\<close> files of
  \<open>pkg/apis/build/v1alpha2\<close>. The admission webhook runs them on every write and the image
  reconciler runs them again on what it reads, so they have to be idempotent.
\<close>

definition defaultFailedBuildHistoryLimit :: int where "defaultFailedBuildHistoryLimit = 10"
definition defaultSuccessfulBuildHistoryLimit :: int where "defaultSuccessfulBuildHistoryLimit = 10"

text \<open>\<open>resource.MustParse("2G")\<close>, as text\<close>

definition defaultCacheSize :: opaque where "defaultCacheSize = ''2G''"

text \<open>The context value \<open>HasDefaultStorageClass\<close> is the boolean argument.\<close>

definition image_set_defaults :: "bool \<Rightarrow> image \<Rightarrow> image" where
  "image_set_defaults has_default_storage_class im =
     im\<lparr>im_spec := (im_spec im)
        \<lparr>is_service_account := (if is_service_account (im_spec im) = '''' then ''default''
                                else is_service_account (im_spec im)),
         is_tagging := (if is_tagging (im_spec im) = '''' then TaggingBuildNumber
                        else is_tagging (im_spec im)),
         is_failed_limit := (case is_failed_limit (im_spec im) of
             None \<Rightarrow> Some defaultFailedBuildHistoryLimit | Some n \<Rightarrow> Some n),
         is_success_limit := (case is_success_limit (im_spec im) of
             None \<Rightarrow> Some defaultSuccessfulBuildHistoryLimit | Some n \<Rightarrow> Some n),
         is_cache := (if is_cache (im_spec im) = None \<and> has_default_storage_class
             then Some \<lparr>icc_volume = Some \<lparr>ivc_size = Some defaultCacheSize, ivc_storage_class = ''''\<rparr>,
                        icc_registry = None\<rparr>
             else is_cache (im_spec im))\<rparr>\<rparr>"

definition build_set_defaults :: "build \<Rightarrow> build" where
  "build_set_defaults b =
     (if bs_service_account (b_spec b) = ''''
      then b\<lparr>b_spec := (b_spec b)\<lparr>bs_service_account := ''default''\<rparr>\<rparr> else b)"

definition ClusterStackKind :: string where "ClusterStackKind = ''ClusterStack''"
definition ClusterStoreKind :: string where "ClusterStoreKind = ''ClusterStore''"
definition ClusterLifecycleKind :: string where "ClusterLifecycleKind = ''ClusterLifecycle''"
definition DefaultLifecycleName :: string where "DefaultLifecycleName = ''default-lifecycle''"
definition BuildpackKind :: string where "BuildpackKind = ''Buildpack''"
definition ClusterBuildpackKind :: string where "ClusterBuildpackKind = ''ClusterBuildpack''"

lemmas kind_defs = ClusterStackKind_def ClusterStoreKind_def ClusterLifecycleKind_def
  DefaultLifecycleName_def BuildpackKind_def ClusterBuildpackKind_def

definition default_kind :: "string \<Rightarrow> object_reference \<Rightarrow> object_reference" where
  "default_kind k r = (if oref_kind r = '''' then r\<lparr>oref_kind := k\<rparr> else r)"

definition default_name :: "string \<Rightarrow> object_reference \<Rightarrow> object_reference" where
  "default_name n r = (if oref_name r = '''' then r\<lparr>oref_name := n\<rparr> else r)"

definition default_lifecycle :: "builder_spec \<Rightarrow> builder_spec" where
  "default_lifecycle s =
     s\<lparr>bds_lifecycle := default_kind ClusterLifecycleKind
          (default_name DefaultLifecycleName (bds_lifecycle s))\<rparr>"

definition builder_set_defaults :: "namespaced_builder_spec \<Rightarrow> namespaced_builder_spec" where
  "builder_set_defaults s =
     (let s1 = (if builder_service_account s = '''' then s\<lparr>nbs_service_account_name := ''default''\<rparr> else s);
          b1 = (nbs_builder s1)\<lparr>bds_stack := default_kind ClusterStackKind (bds_stack (nbs_builder s1))\<rparr>;
          b2 = b1\<lparr>bds_store := default_kind ClusterStoreKind (bds_store b1)\<rparr>
      in s1\<lparr>nbs_builder := default_lifecycle b2\<rparr>)"

text \<open>A cluster builder defaults its lifecycle only.\<close>

record cluster_builder_spec =
  cbs_builder :: builder_spec
  cbs_service_account_ref :: object_reference

definition cluster_builder_set_defaults :: "cluster_builder_spec \<Rightarrow> cluster_builder_spec" where
  "cluster_builder_set_defaults s = s\<lparr>cbs_builder := default_lifecycle (cbs_builder s)\<rparr>"

text \<open>\<open>BuildpackSpec\<close>: the inlined image and the service account.\<close>

record buildpack_spec =
  bps_image :: string
  bps_service_account_name :: string

definition buildpack_set_defaults :: "buildpack_spec \<Rightarrow> buildpack_spec" where
  "buildpack_set_defaults s =
     (if bps_service_account_name s = '''' then s\<lparr>bps_service_account_name := ''default''\<rparr> else s)"

section \<open>Facts\<close>

lemma image_set_defaults_frame [simp]:
  "im_meta (image_set_defaults c im) = im_meta im"
  "im_status (image_set_defaults c im) = im_status im"
  "is_builder (im_spec (image_set_defaults c im)) = is_builder (im_spec im)"
  "is_source (im_spec (image_set_defaults c im)) = is_source (im_spec im)"
  "is_build (im_spec (image_set_defaults c im)) = is_build (im_spec im)"
  "is_tag (im_spec (image_set_defaults c im)) = is_tag (im_spec im)"
  by (simp_all add: image_set_defaults_def)

lemma image_set_defaults_limits:
  "\<exists>n. is_failed_limit (im_spec (image_set_defaults c im)) = Some n"
  "\<exists>n. is_success_limit (im_spec (image_set_defaults c im)) = Some n"
  by (simp_all add: image_set_defaults_def split: option.split)

lemma image_set_defaults_idem:
  "image_set_defaults c (image_set_defaults c im) = image_set_defaults c im"
  by (simp add: image_set_defaults_def TaggingBuildNumber_def split: option.split)

lemma default_kind_idem [simp]: "default_kind k (default_kind k r) = default_kind k r"
  by (simp add: default_kind_def)

lemma default_lifecycle_idem [simp]: "default_lifecycle (default_lifecycle s) = default_lifecycle s"
  by (auto simp: default_lifecycle_def default_kind_def default_name_def)

lemma build_set_defaults_idem [simp]: "build_set_defaults (build_set_defaults b) = build_set_defaults b"
  by (simp add: build_set_defaults_def)

lemma cluster_builder_set_defaults_idem [simp]:
  "cluster_builder_set_defaults (cluster_builder_set_defaults s) = cluster_builder_set_defaults s"
  by (simp add: cluster_builder_set_defaults_def)

lemma builder_service_account_default:
  "builder_service_account (builder_set_defaults s) =
     (if builder_service_account s = '''' then ''default'' else builder_service_account s)"
  by (auto simp: builder_set_defaults_def builder_service_account_def Let_def)

lemma builder_set_defaults_idem [simp]:
  "builder_set_defaults (builder_set_defaults s) = builder_set_defaults s"
proof -
  have ne: "builder_service_account (builder_set_defaults s) \<noteq> ''''"
    by (simp add: builder_service_account_default)
  obtain b where b: "nbs_builder (builder_set_defaults s) = default_lifecycle b"
    and st: "bds_stack b = default_kind ClusterStackKind (bds_stack b)"
    and so: "bds_store b = default_kind ClusterStoreKind (bds_store b)"
    by (simp add: builder_set_defaults_def Let_def)
  have "bds_stack (default_lifecycle b) = bds_stack b" "bds_store (default_lifecycle b) = bds_store b"
    by (simp_all add: default_lifecycle_def)
  with st so have
    "default_lifecycle ((default_lifecycle b)\<lparr>bds_stack := default_kind ClusterStackKind (bds_stack (default_lifecycle b)),
       bds_store := default_kind ClusterStoreKind (bds_store (default_lifecycle b))\<rparr>) = default_lifecycle b"
    by (simp add: default_lifecycle_def default_kind_def default_name_def)
  with ne b show ?thesis
    by (subst builder_set_defaults_def) (simp add: Let_def)
qed

end
