(* ===== verification/Image_Reconciler.thy ===== *)
theory Image_Reconciler
  imports Build_Required Build_List Api_Defaults
begin

text \<open>
  The image reconciler: \<open>pkg/reconciler/image/reconcile_build.go\<close> (conditions, build counter,
  scheduling one build) and \<open>pkg/reconciler/image/image.go\<close> (the whole \<open>Reconcile\<close> run with its
  lister reads and API calls). Calls that change the cluster are events of the history.
\<close>

section \<open>Conditions of an image\<close>

definition BuildRunningReason :: string where "BuildRunningReason = ''BuildRunning''"
definition ResolverNotReadyReason :: string where "ResolverNotReadyReason = ''ResolverNotReady''"
definition UnknownStateReason :: string where "UnknownStateReason = ''UnknownState''"
definition BuildFailedReason :: string where "BuildFailedReason = ''BuildFailed''"
definition UpToDateReason :: string where "UpToDateReason = ''UpToDate''"
definition NotUpToDateMessage :: string where
  "NotUpToDateMessage = ''Builder is not up to date. The latest stack and buildpacks may not be in use.''"

definition builder_error :: "duck_builder \<Rightarrow> string" where
  "builder_error builder =
     (let error_message = ''Error: Builder '' @ quoted (meta_name (db_meta builder)) @
            '' is not ready in namespace '' @ quoted (meta_namespace (db_meta builder));
          message = db_condition_ready_message builder
      in if message \<noteq> '''' then error_message @ ''; Message: '' @ message else error_message)"

definition unknown_status_if_nil :: "condition option \<Rightarrow> condition_status" where
  "unknown_status_if_nil c = (case c of None \<Rightarrow> ConditionUnknown | Some x \<Rightarrow> cond_status x)"

definition default_message_if_nil :: "condition option \<Rightarrow> string \<Rightarrow> string" where
  "default_message_if_nil c d = (case c of None \<Rightarrow> d | Some x \<Rightarrow> cond_message x)"

definition builder_ready_condition :: "int \<Rightarrow> duck_builder \<Rightarrow> condition" where
  "builder_ready_condition now builder =
     (if \<not> db_ready builder
      then mk_condition ConditionBuilderReady ConditionFalse BuilderNotReadyReason (builder_error builder) now
      else mk_condition ConditionBuilderReady ConditionTrue BuilderReadyReason '''' now)"

definition builder_up_to_date_condition :: "int \<Rightarrow> duck_builder \<Rightarrow> condition" where
  "builder_up_to_date_condition now builder =
     (if \<not> db_up_to_date builder
      then mk_condition ConditionBuilderUpToDate ConditionFalse BuilderNotUpToDateReason NotUpToDateMessage now
      else mk_condition ConditionBuilderUpToDate ConditionTrue BuilderUpToDateReason '''' now)"

definition scheduled_build_condition :: "int \<Rightarrow> build \<Rightarrow> duck_builder \<Rightarrow> condition list" where
  "scheduled_build_condition now b builder =
     [mk_condition ConditionReady ConditionUnknown BuildRunningReason
        (''Build '' @ quoted (meta_name (b_meta b)) @ '' is executing'') now,
      mk_condition ConditionBuilderReady ConditionTrue BuilderReadyReason '''' now,
      builder_up_to_date_condition now builder]"

definition build_running_condition :: "int \<Rightarrow> build \<Rightarrow> duck_builder \<Rightarrow> condition list" where
  "build_running_condition now b builder =
     [mk_condition ConditionReady ConditionUnknown BuildRunningReason
        (default_message_if_nil (succeeded_condition b)
           (''Build '' @ quoted (meta_name (b_meta b)) @ '' is executing'')) now,
      builder_ready_condition now builder,
      builder_up_to_date_condition now builder]"

text \<open>The two latest branches read through \<open>build\<close>, which may be nil.\<close>

definition no_scheduled_build_ready :: "int \<Rightarrow> condition_status \<Rightarrow> duck_builder \<Rightarrow> build option \<Rightarrow>
    source_resolver \<Rightarrow> condition res" where
  "no_scheduled_build_ready now build_needed builder latest sr =
     (if \<not> db_ready builder then
        Inr (mk_condition ConditionReady ConditionFalse BuilderNotReadyReason (builder_error builder) now)
      else if build_needed = ConditionUnknown \<and> \<not> sr_ready sr then
        Inr (mk_condition ConditionReady ConditionUnknown ResolverNotReadyReason
               (''Error: SourceResolver '' @ quoted (meta_name (sr_meta sr)) @ '' is not ready'') now)
      else if build_needed = ConditionUnknown \<and> sr_ready sr then
        Inr (mk_condition ConditionReady ConditionUnknown UnknownStateReason ''Error: Build status unknown'' now)
      else (case latest of
          None \<Rightarrow> Inl (Panic ''invalid memory address or nil pointer dereference'')
        | Some b \<Rightarrow>
            (if is_true (succeeded_condition b) then
               Inr (mk_condition ConditionReady ConditionTrue UpToDateReason
                      (default_message_if_nil (succeeded_condition b) ''Last build succeeded'') now)
             else
               Inr (mk_condition ConditionReady (unknown_status_if_nil (succeeded_condition b)) BuildFailedReason
                      (''Error: Build '' @ quoted (meta_name (b_meta b)) @ '' in namespace '' @
                       quoted (meta_namespace (b_meta b)) @ '' failed: '' @
                       default_message_if_nil (succeeded_condition b) ''unknown error'') now))))"

definition no_scheduled_build :: "int \<Rightarrow> condition_status \<Rightarrow> duck_builder \<Rightarrow> build option \<Rightarrow>
    source_resolver \<Rightarrow> condition list res" where
  "no_scheduled_build now build_needed builder latest sr =
     bind_res (no_scheduled_build_ready now build_needed builder latest sr)
       (\<lambda>ready. Inr [ready, builder_ready_condition now builder, builder_up_to_date_condition now builder])"

text \<open>A missing label reads as the empty string, which does not parse.\<close>

definition build_counter :: "build option \<Rightarrow> int res" where
  "build_counter latest =
     (case latest of None \<Rightarrow> Inr 0
      | Some b \<Rightarrow> parse_int (lookup_str (meta_labels (b_meta b)) BuildNumberLabel))"

section \<open>The environment of a reconcile\<close>

record key =
  key_name :: namespaced_name
  key_group :: string
  key_kind :: string

definition reconciler_key_for_builder_kind :: "image \<Rightarrow> key" where
  "reconciler_key_for_builder_kind im =
     (let r = is_builder (im_spec im)
      in if oref_kind r = ClusterBuilderKind then
           \<lparr>key_name = \<lparr>nn_namespace = '''', nn_name = oref_name r\<rparr>,
            key_group = ''kpack.io'', key_kind = ClusterBuilderKind\<rparr>
         else if oref_kind r = BuilderKind then
           \<lparr>key_name = \<lparr>nn_namespace = meta_namespace (im_meta im), nn_name = oref_name r\<rparr>,
            key_group = ''kpack.io'', key_kind = BuilderKind\<rparr>
         else \<lparr>key_name = \<lparr>nn_namespace = '''', nn_name = ''''\<rparr>, key_group = '''', key_kind = ''''\<rparr>)"

datatype img_event =
    Track key namespaced_name
  | CreateSourceResolver source_resolver
  | UpdateSourceResolver source_resolver
  | DeletePvc string string string
  | CreatePvc pvc
  | UpdatePvc pvc
  | CreateBuild build
  | DeleteBuild string string
  | UpdateImageStatus image

text \<open>
  The answers of the listers and of the API server. A created or failed build comes back as a
  pair, because the generated client returns an object next to the error.
\<close>

record img_env =
  e_split_key :: "string \<Rightarrow> (string \<times> string) res"
  e_get_image :: "img_event list \<Rightarrow> string \<Rightarrow> string \<Rightarrow> image res"
  e_get_builder :: "img_event list \<Rightarrow> string \<Rightarrow> object_reference \<Rightarrow> duck_builder res"
  e_label_requirement :: "string \<Rightarrow> unit res"
  e_list_builds :: "img_event list \<Rightarrow> string \<Rightarrow> string \<Rightarrow> build list res"
  e_get_source_resolver :: "img_event list \<Rightarrow> string \<Rightarrow> string \<Rightarrow> source_resolver res"
  e_create_source_resolver :: "img_event list \<Rightarrow> source_resolver \<Rightarrow> source_resolver res"
  e_update_source_resolver :: "img_event list \<Rightarrow> source_resolver \<Rightarrow> source_resolver res"
  e_get_pvc :: "img_event list \<Rightarrow> string \<Rightarrow> string \<Rightarrow> pvc res"
  e_create_pvc :: "img_event list \<Rightarrow> pvc \<Rightarrow> pvc res"
  e_update_pvc :: "img_event list \<Rightarrow> pvc \<Rightarrow> unit res"
  e_delete_pvc :: "img_event list \<Rightarrow> string \<Rightarrow> string \<Rightarrow> string \<Rightarrow> unit res"
  e_create_build :: "img_event list \<Rightarrow> build \<Rightarrow> build \<times> goerr option"
  e_delete_build :: "img_event list \<Rightarrow> string \<Rightarrow> string \<Rightarrow> unit res"
  e_update_status :: "img_event list \<Rightarrow> image \<Rightarrow> unit res"

text \<open>The library functions and settings of the reconciler.\<close>

record img_conf =
  ic_lib :: lib
  ic_changes :: change_lib
  ic_clock :: clock
  ic_sort :: "build list \<Rightarrow> build list"
  ic_spec_equal :: "source_resolver_spec \<Rightarrow> source_resolver_spec \<Rightarrow> bool"
  ic_labels_equal :: "str_map \<Rightarrow> str_map \<Rightarrow> bool"
  ic_resources_equal :: "opaque \<Rightarrow> opaque \<Rightarrow> bool"
  ic_status_equal :: "image_status \<Rightarrow> image_status \<Rightarrow> bool"
  ic_priority_classes :: bool
  ic_default_storage_class :: bool

type_synonym 'a img_io = "(img_event, 'a) io"

section \<open>Scheduling a build\<close>

definition status_of_build :: "condition list \<Rightarrow> int \<Rightarrow> string \<Rightarrow> image \<Rightarrow> build option \<Rightarrow> build option \<Rightarrow>
    image_status" where
  "status_of_build conds counter cache im latest shown =
     \<lparr>ims_status = \<lparr>st_observed_generation = 0, st_conditions = conds\<rparr>,
      ims_latest_build_ref = build_ref shown,
      ims_latest_build_generation = build_image_generation shown,
      ims_latest_image = latest_for_image im latest,
      ims_latest_stack = build_stack_of shown,
      ims_build_counter = counter,
      ims_build_cache_name = cache,
      ims_latest_build_reason = build_reason_of shown\<rparr>"

definition create_build :: "img_conf \<Rightarrow> img_env \<Rightarrow> build \<Rightarrow> build img_io" where
  "create_build C E b = call_io (CreateBuild b) (\<lambda>h.
     (case e_create_build E h b of
        (b', None) \<Rightarrow> Inr b'
      | (b', Some e) \<Rightarrow> Inl (wrap_err (''error creating build '' @ quoted (meta_name (b_meta b')) @
                                   '' in namespace '' @ quoted (meta_namespace (b_meta b'))) e)))"

definition schedule_build :: "img_conf \<Rightarrow> img_env \<Rightarrow> image \<Rightarrow> build option \<Rightarrow> source_resolver \<Rightarrow>
    duck_builder \<Rightarrow> string \<Rightarrow> int \<Rightarrow> build_required_result \<Rightarrow> image_status img_io" where
  "schedule_build C E im latest sr builder cache counter result =
     (let priority_cls = (if ic_priority_classes C then brr_priority_class result else '''');
          next_build_number = wrap64 (counter + 1)
      in bind_io (lift_io (build_for_image (ic_lib C) (ic_clock C) im sr builder latest
                             (brr_reasons result) (brr_changes result) next_build_number priority_cls))
         (\<lambda>b. bind_io (create_build C E b)
         (\<lambda>b'. ret_io (status_of_build (scheduled_build_condition (clk_now (ic_clock C)) b' builder)
                        next_build_number cache im latest (Some b')))))"

definition reconcile_build :: "img_conf \<Rightarrow> img_env \<Rightarrow> image \<Rightarrow> build option \<Rightarrow> source_resolver \<Rightarrow>
    duck_builder \<Rightarrow> string \<Rightarrow> image_status img_io" where
  "reconcile_build C E im latest sr builder cache =
     bind_io (lift_io (map_err (wrap_err ''error parsing the image build number'') (build_counter latest)))
     (\<lambda>counter. bind_io (lift_io (map_err (wrap_err ''error determining if an image build is needed'')
         (is_build_required (ic_lib C) (ic_changes C) (ic_clock C) im latest sr builder)))
     (\<lambda>result. (case brr_status result of
          ConditionTrue \<Rightarrow> schedule_build C E im latest sr builder cache counter result
        | _ \<Rightarrow> bind_io (lift_io (no_scheduled_build (clk_now (ic_clock C)) (brr_status result) builder latest sr))
               (\<lambda>conds. ret_io (status_of_build conds counter cache im latest latest)))))"

section \<open>The objects around a build\<close>

definition fetch_all_builds :: "img_conf \<Rightarrow> img_env \<Rightarrow> image \<Rightarrow> build_list img_io" where
  "fetch_all_builds C E im =
     bind_io (lift_io (map_err (errorf ''image name requirement'') (e_label_requirement E (meta_name (im_meta im)))))
     (\<lambda>_. bind_io (map_err_io (errorf ''list builds'')
            (read_io (\<lambda>h. e_list_builds E h (meta_namespace (im_meta im)) (meta_name (im_meta im)))))
     (\<lambda>builds. ret_io (new_build_list (ic_sort C) builds)))"

definition fetch_last_build :: "img_conf \<Rightarrow> img_env \<Rightarrow> image \<Rightarrow> build option img_io" where
  "fetch_last_build C E im = bind_io (fetch_all_builds C E im) (\<lambda>l. ret_io (bl_last l))"

definition source_resolvers_equal :: "img_conf \<Rightarrow> source_resolver \<Rightarrow> source_resolver \<Rightarrow> bool" where
  "source_resolvers_equal C desired sr \<longleftrightarrow>
     ic_spec_equal C (sr_spec desired) (sr_spec sr) \<and>
     ic_labels_equal C (meta_labels (sr_meta desired)) (meta_labels (sr_meta sr))"

definition build_cache_equal :: "img_conf \<Rightarrow> pvc \<Rightarrow> pvc \<Rightarrow> bool" where
  "build_cache_equal C desired p \<longleftrightarrow>
     ic_resources_equal C (pvc_storage_request desired) (pvc_storage_request p) \<and>
     ic_labels_equal C (meta_labels (pvc_meta desired)) (meta_labels (pvc_meta p))"

definition reconcile_source_resolver :: "img_conf \<Rightarrow> img_env \<Rightarrow> image \<Rightarrow> source_resolver img_io" where
  "reconcile_source_resolver C E im =
     (let desired = image_source_resolver (ic_lib C) im
      in bind_io
         (attempt_io (read_io (\<lambda>h. e_get_source_resolver E h (meta_namespace (im_meta im))
                                     (source_resolver_name (ic_lib C) im)))
            (\<lambda>r. case r of
                 Inr sr \<Rightarrow> ret_io sr
               | Inl e \<Rightarrow>
                   (if \<not> is_not_found e then fail_io (wrap_err ''cannot retrieve source resolver'' e)
                    else map_err_io (wrap_err ''cannot create source resolver'')
                           (call_io (CreateSourceResolver desired)
                              (\<lambda>h. e_create_source_resolver E h desired)))))
         (\<lambda>sr. if source_resolvers_equal C desired sr then ret_io sr
                else (let updated = sr\<lparr>sr_spec := sr_spec desired,
                                       sr_meta := (sr_meta sr)\<lparr>meta_labels := meta_labels (sr_meta desired)\<rparr>\<rparr>
                      in call_io (UpdateSourceResolver updated)
                           (\<lambda>h. e_update_source_resolver E h updated))))"

definition reconcile_no_build_cache :: "img_conf \<Rightarrow> img_env \<Rightarrow> image \<Rightarrow> string img_io" where
  "reconcile_no_build_cache C E im =
     (let ns = meta_namespace (im_meta im); nm = cache_name (ic_lib C) im
      in attempt_io (read_io (\<lambda>h. e_get_pvc E h ns nm))
         (\<lambda>r. case r of
              Inr p \<Rightarrow>
                bind_io (call_io (DeletePvc ns nm (meta_uid (pvc_meta p)))
                           (\<lambda>h. e_delete_pvc E h ns nm (meta_uid (pvc_meta p))))
                  (\<lambda>_. ret_io '''')
            | Inl e \<Rightarrow>
                (if \<not> is_not_found e then fail_io (wrap_err ''cannot retrieve persistent volume claim'' e)
                 else ret_io '''')))"

definition reconcile_build_cache :: "img_conf \<Rightarrow> img_env \<Rightarrow> image \<Rightarrow> string img_io" where
  "reconcile_build_cache C E im =
     (if \<not> is_need_volume_cache (im_spec im) then reconcile_no_build_cache C E im
      else
        bind_io (lift_io (image_build_cache (ic_lib C) im)) (\<lambda>desired.
        (let ns = meta_namespace (im_meta im); nm = cache_name (ic_lib C) im
         in bind_io
            (attempt_io (read_io (\<lambda>h. e_get_pvc E h ns nm))
               (\<lambda>r. case r of
                    Inr p \<Rightarrow> ret_io p
                  | Inl e \<Rightarrow>
                      (if \<not> is_not_found e then fail_io (errorf ''failed to get image cache'' e)
                       else map_err_io (errorf ''failed creating image cache for build'')
                              (call_io (CreatePvc desired) (\<lambda>h. e_create_pvc E h desired)))))
            (\<lambda>p. if build_cache_equal C desired p then ret_io (meta_name (pvc_meta p))
                  else (let existing = p\<lparr>pvc_storage_request := pvc_storage_request desired,
                               pvc_meta := (pvc_meta p)\<lparr>meta_labels := meta_labels (pvc_meta desired)\<rparr>\<rparr>
                        in bind_io (map_err_io (wrap_err ''cannot update persistent volume claim'')
                                     (call_io (UpdatePvc existing) (\<lambda>h. e_update_pvc E h existing)))
                             (\<lambda>_. ret_io (meta_name (pvc_meta existing))))))))"

text \<open>\<open>*image.Spec.FailedBuildHistoryLimit\<close> reads through a pointer that the defaults set.\<close>

definition deref_limit :: "int option \<Rightarrow> int res" where
  "deref_limit l = (case l of
      None \<Rightarrow> Inl (Panic ''invalid memory address or nil pointer dereference'') | Some n \<Rightarrow> Inr n)"

definition delete_build :: "img_env \<Rightarrow> image \<Rightarrow> build \<Rightarrow> unit img_io" where
  "delete_build E im b =
     call_io (DeleteBuild (meta_namespace (im_meta im)) (meta_name (b_meta b)))
       (\<lambda>h. e_delete_build E h (meta_namespace (im_meta im)) (meta_name (b_meta b)))"

definition delete_old_failed :: "img_env \<Rightarrow> image \<Rightarrow> build_list \<Rightarrow> unit img_io" where
  "delete_old_failed E im builds =
     bind_io (lift_io (deref_limit (is_failed_limit (im_spec im)))) (\<lambda>limit.
       (if number_failed_builds builds > limit
        then bind_io (lift_io (oldest_failure builds)) (\<lambda>b.
               map_err_io (errorf ''failed deleting failed build'') (delete_build E im b))
        else ret_io ()))"

definition delete_old_successful :: "img_env \<Rightarrow> image \<Rightarrow> build_list \<Rightarrow> unit img_io" where
  "delete_old_successful E im builds =
     bind_io (lift_io (deref_limit (is_success_limit (im_spec im)))) (\<lambda>limit.
       (if number_successful_builds builds > limit
        then bind_io (lift_io (oldest_success builds)) (\<lambda>b.
               map_err_io (errorf ''failed deleting successful build'') (delete_build E im b))
        else ret_io ()))"

definition delete_old_builds :: "img_conf \<Rightarrow> img_env \<Rightarrow> image \<Rightarrow> unit img_io" where
  "delete_old_builds C E im =
     bind_io (map_err_io (errorf ''failed fetching all builds for image'') (fetch_all_builds C E im))
       (\<lambda>builds. bind_io (delete_old_failed E im builds) (\<lambda>_. delete_old_successful E im builds))"

section \<open>The whole reconcile\<close>

definition set_conditions :: "condition list \<Rightarrow> image \<Rightarrow> image" where
  "set_conditions conds im =
     im\<lparr>im_status := (im_status im)\<lparr>ims_status := (ims_status (im_status im))\<lparr>st_conditions := conds\<rparr>\<rparr>\<rparr>"

definition reconcile_rest :: "img_conf \<Rightarrow> img_env \<Rightarrow> image \<Rightarrow> duck_builder \<Rightarrow> build option \<Rightarrow> image img_io" where
  "reconcile_rest C E im builder latest =
     bind_io (reconcile_build_cache C E im) (\<lambda>cache.
     bind_io (reconcile_source_resolver C E im) (\<lambda>sr.
     bind_io (reconcile_build C E im latest sr builder cache) (\<lambda>st.
     (let im' = im\<lparr>im_status := st\<rparr>
      in bind_io (delete_old_builds C E im') (\<lambda>_. ret_io im')))))"

definition reconcile_with_builder :: "img_conf \<Rightarrow> img_env \<Rightarrow> image \<Rightarrow> duck_builder \<Rightarrow> image img_io" where
  "reconcile_with_builder C E im builder =
     bind_io (fetch_last_build C E im) (\<lambda>latest.
       (case latest of
          None \<Rightarrow> reconcile_rest C E im builder None
        | Some b \<Rightarrow>
            (if is_running (Some b)
             then ret_io (set_conditions (build_running_condition (clk_now (ic_clock C)) b builder) im)
             else reconcile_rest C E im builder (Some b))))"

definition reconcile_image :: "img_conf \<Rightarrow> img_env \<Rightarrow> image \<Rightarrow> image img_io" where
  "reconcile_image C E im =
     bind_io (call_io (Track (reconciler_key_for_builder_kind im) (image_namespaced_name im)) (\<lambda>_. Inr ()))
     (\<lambda>_. attempt_io (read_io (\<lambda>h. e_get_builder E h (meta_namespace (im_meta im)) (is_builder (im_spec im))))
       (\<lambda>r. case r of
            Inr builder \<Rightarrow> reconcile_with_builder C E im builder
          | Inl e \<Rightarrow>
              (if \<not> is_not_found e then fail_io e
               else ret_io (set_conditions (builder_not_found (clk_now (ic_clock C)) im) im))))"

definition update_status :: "img_conf \<Rightarrow> img_env \<Rightarrow> image \<Rightarrow> unit img_io" where
  "update_status C E desired0 =
     (let desired = desired0\<lparr>im_status := (im_status desired0)
            \<lparr>ims_status := (ims_status (im_status desired0))
               \<lparr>st_observed_generation := meta_generation (im_meta desired0)\<rparr>\<rparr>\<rparr>
      in bind_io (read_io (\<lambda>h. e_get_image E h (meta_namespace (im_meta desired)) (meta_name (im_meta desired))))
         (\<lambda>original. if ic_status_equal C (im_status original) (im_status desired) then ret_io ()
                      else call_io (UpdateImageStatus desired) (\<lambda>h. e_update_status E h desired)))"

definition reconcile :: "img_conf \<Rightarrow> img_env \<Rightarrow> string \<Rightarrow> unit img_io" where
  "reconcile C E k =
     bind_io (lift_io (map_err (errorf ''failed splitting meta namespace key'') (e_split_key E k)))
     (\<lambda>(ns, nm). attempt_io (read_io (\<lambda>h. e_get_image E h ns nm))
       (\<lambda>r. case r of
            Inl e \<Rightarrow> (if is_not_found e then ret_io () else fail_io e)
          | Inr im0 \<Rightarrow>
              bind_io (reconcile_image C E (image_set_defaults (ic_default_storage_class C) im0))
                (\<lambda>im. update_status C E im)))"

end
