(* ===== verification/Image_Reconciler_Props.thy ===== *)
theory Image_Reconciler_Props
  imports Image_Reconciler
begin

text \<open>
  What the image reconciler guarantees: it schedules at most one build and only when one is
  needed, it leaves a running build alone, it never dereferences a nil build, it deletes finished
  builds only and never the newest one, and its conditions say what happened.
\<close>

section \<open>Which parts call what\<close>

fun is_create :: "img_event \<Rightarrow> bool" where
  "is_create (CreateBuild _) = True"
| "is_create _ = False"

fun is_delete :: "img_event \<Rightarrow> bool" where
  "is_delete (DeleteBuild _ _) = True"
| "is_delete _ = False"

text \<open>The builds that a history of calls asked the API server to create, and to delete.\<close>

fun created :: "img_event list \<Rightarrow> build list" where
  "created [] = []"
| "created (CreateBuild b # h) = b # created h"
| "created (e # h) = created h"

fun deleted :: "img_event list \<Rightarrow> string list" where
  "deleted [] = []"
| "deleted (DeleteBuild ns n # h) = n # deleted h"
| "deleted (e # h) = deleted h"

lemma created_append [simp]: "created (h @ k) = created h @ created k"
  by (induction h rule: created.induct) simp_all

lemma deleted_append [simp]: "deleted (h @ k) = deleted h @ deleted k"
  by (induction h rule: deleted.induct) simp_all

lemma created_none: "list_all (\<lambda>e. \<not> is_create e) es \<Longrightarrow> created es = []"
  by (induction es rule: created.induct) simp_all

lemma deleted_none: "list_all (\<lambda>e. \<not> is_delete e) es \<Longrightarrow> deleted es = []"
  by (induction es rule: deleted.induct) simp_all

lemma emits_not_create: "emits (\<lambda>e. \<not> is_create e) m \<Longrightarrow> created (snd (m h)) = created h"
  by (metis append_Nil2 created_append created_none emits_obtain)

lemma emits_not_delete: "emits (\<lambda>e. \<not> is_delete e) m \<Longrightarrow> deleted (snd (m h)) = deleted h"
  by (metis append_Nil2 deleted_append deleted_none emits_obtain)

definition upkeep :: "img_event \<Rightarrow> bool" where
  "upkeep e \<longleftrightarrow> \<not> is_create e \<and> \<not> is_delete e"

lemma upkeep_simps [simp]:
  "upkeep (Track k n)" "upkeep (CreateSourceResolver s)" "upkeep (UpdateSourceResolver s)"
  "upkeep (DeletePvc x y z)" "upkeep (CreatePvc p)" "upkeep (UpdatePvc p)" "upkeep (UpdateImageStatus im)"
  "\<not> upkeep (CreateBuild b)" "\<not> upkeep (DeleteBuild ns nm)"
  by (simp_all add: upkeep_def)

lemma emits_fetch_all [intro]: "emits P (fetch_all_builds C E im)"
  unfolding fetch_all_builds_def by (intro emits_bind emits_map_err) auto

lemma emits_fetch_last [intro]: "emits P (fetch_last_build C E im)"
  unfolding fetch_last_build_def by (intro emits_bind) auto

lemma emits_source_resolver: "emits upkeep (reconcile_source_resolver C E im)"
  unfolding reconcile_source_resolver_def Let_def
  by (intro emits_bind emits_attempt) (auto split: sum.split)

lemma emits_no_build_cache: "emits upkeep (reconcile_no_build_cache C E im)"
  unfolding reconcile_no_build_cache_def Let_def
  by (intro emits_attempt) (auto split: sum.split)

lemma emits_build_cache: "emits upkeep (reconcile_build_cache C E im)"
  unfolding reconcile_build_cache_def Let_def
  by (auto intro!: emits_bind emits_attempt emits_map_err emits_no_build_cache split: sum.split)

lemma emits_delete_failed: "emits is_delete (delete_old_failed E im bl)"
  unfolding delete_old_failed_def delete_build_def by (auto intro!: emits_bind emits_map_err)

lemma emits_delete_successful: "emits is_delete (delete_old_successful E im bl)"
  unfolding delete_old_successful_def delete_build_def by (auto intro!: emits_bind emits_map_err)

lemma emits_delete_old: "emits is_delete (delete_old_builds C E im)"
  unfolding delete_old_builds_def
  by (intro emits_bind emits_map_err emits_fetch_all emits_delete_failed emits_delete_successful)

lemma emits_update_status: "emits upkeep (update_status C E im)"
  unfolding update_status_def Let_def by (intro emits_bind) auto

lemma is_delete_not_create: "is_delete e \<Longrightarrow> \<not> is_create e"
  by (cases e) simp_all

section \<open>Scheduling\<close>

lemma schedule_build_trace:
  "snd (schedule_build C E im latest sr bd cache n res h) = h \<or>
   (\<exists>b. snd (schedule_build C E im latest sr bd cache n res h) = h @ [CreateBuild b] \<and>
        build_for_image (ic_lib C) (ic_clock C) im sr bd latest (brr_reasons res) (brr_changes res)
          (wrap64 (n + 1)) (if ic_priority_classes C then brr_priority_class res else '''') = Inr b)"
  by (auto simp: schedule_build_def create_build_def Let_def io_simps split: sum.split)

text \<open>What a build that the reconciler creates looks like.\<close>

definition scheduled_for :: "img_conf \<Rightarrow> image \<Rightarrow> build option \<Rightarrow> source_resolver \<Rightarrow> duck_builder \<Rightarrow> build \<Rightarrow> bool" where
  "scheduled_for C im latest sr bd b \<longleftrightarrow>
     (\<exists>n res. build_counter latest = Inr n \<and>
        is_build_required (ic_lib C) (ic_changes C) (ic_clock C) im latest sr bd = Inr res \<and>
        brr_status res = ConditionTrue \<and>
        build_for_image (ic_lib C) (ic_clock C) im sr bd latest (brr_reasons res) (brr_changes res)
          (wrap64 (n + 1)) (if ic_priority_classes C then brr_priority_class res else '''') = Inr b)"

lemma reconcile_build_trace:
  "snd (reconcile_build C E im latest sr bd cache h) = h \<or>
   (\<exists>b. snd (reconcile_build C E im latest sr bd cache h) = h @ [CreateBuild b] \<and>
        scheduled_for C im latest sr bd b)"
proof (cases "build_counter latest")
  case (Inl e)
  then show ?thesis by (simp add: reconcile_build_def io_simps)
next
  case n: (Inr n)
  show ?thesis
  proof (cases "is_build_required (ic_lib C) (ic_changes C) (ic_clock C) im latest sr bd")
    case (Inl e)
    with n show ?thesis by (simp add: reconcile_build_def io_simps)
  next
    case res: (Inr res)
    show ?thesis
    proof (cases "brr_status res")
      case ConditionTrue
      with n res show ?thesis
        using schedule_build_trace [of C E im latest sr bd cache n res h]
        by (auto simp: reconcile_build_def io_simps scheduled_for_def)
    next
      case ConditionFalse
      with n res show ?thesis by (simp add: reconcile_build_def io_simps split: sum.split)
    next
      case ConditionUnknown
      with n res show ?thesis by (simp add: reconcile_build_def io_simps split: sum.split)
    qed
  qed
qed

lemma scheduled_for_ready:
  "scheduled_for C im latest sr bd b \<Longrightarrow> sr_ready sr \<and> db_ready bd"
  by (auto simp: scheduled_for_def is_build_required_def split: if_splits)

lemma scheduled_for_running: "scheduled_for C im latest sr bd b \<Longrightarrow> is_running (Some b)"
  unfolding scheduled_for_def by (blast intro: build_for_image_running)

lemma scheduled_for_number:
  assumes "scheduled_for C im latest sr bd b" and "build_counter latest = Inr n"
  shows "meta_labels (b_meta b) BuildNumberLabel = Some (itoa (wrap64 (n + 1)))"
    and "meta_name (b_meta b) = generate_build_name (ic_lib C) im (itoa (wrap64 (n + 1)))"
    and "build_counter (Some b) = Inr (wrap64 (n + 1))"
proof -
  obtain res :: build_required_result where "build_for_image (ic_lib C) (ic_clock C) im sr bd latest (brr_reasons res) (brr_changes res)
      (wrap64 (n + 1)) (if ic_priority_classes C then brr_priority_class res else '''') = Inr b"
    using assms by (auto simp: scheduled_for_def)
  note l = build_for_image_labels [OF this]
  show "meta_labels (b_meta b) BuildNumberLabel = Some (itoa (wrap64 (n + 1)))"
    and "meta_name (b_meta b) = generate_build_name (ic_lib C) im (itoa (wrap64 (n + 1)))"
    using l by simp_all
  show "build_counter (Some b) = Inr (wrap64 (n + 1))"
    using l(2) by (simp add: build_counter_def parse_int_itoa fits64_wrap64)
qed

lemma build_counter_created_next:
  "scheduled_for C im latest sr bd b \<Longrightarrow> \<exists>n. build_counter latest = Inr n \<and> build_counter (Some b) = Inr (wrap64 (n + 1))"
  using scheduled_for_number(3) by (fastforce simp: scheduled_for_def)

section \<open>Events of a whole run\<close>

definition schedulable :: "img_conf \<Rightarrow> image \<Rightarrow> build option \<Rightarrow> duck_builder \<Rightarrow> build \<Rightarrow> bool" where
  "schedulable C im latest bd b \<longleftrightarrow> \<not> is_running latest \<and> (\<exists>sr. scheduled_for C im latest sr bd b)"

lemma reconcile_rest_created:
  "created (snd (reconcile_rest C E im bd latest h)) = created h \<or>
   (\<exists>b sr. created (snd (reconcile_rest C E im bd latest h)) = created h @ [b] \<and>
        scheduled_for C im latest sr bd b)"
proof -
  let ?m1 = "reconcile_build_cache C E im" and ?m2 = "reconcile_source_resolver C E im"
  have up: "emits (\<lambda>e. \<not> is_create e) ?m1" "emits (\<lambda>e. \<not> is_create e) ?m2"
    by (rule emits_mono [OF emits_build_cache] emits_mono [OF emits_source_resolver];
        simp add: upkeep_def)+
  have del: "emits (\<lambda>e. \<not> is_create e) (delete_old_builds C E im')" for im'
    using emits_delete_old by (rule emits_mono) (rule is_delete_not_create)
  show ?thesis
  proof (cases "fst (?m1 h)")
    case (Inl e)
    then show ?thesis by (simp add: reconcile_rest_def io_simps emits_not_create [OF up(1)])
  next
    case cache: (Inr cache)
    let ?h1 = "snd (?m1 h)"
    have h1: "created ?h1 = created h" by (rule emits_not_create [OF up(1)])
    show ?thesis
    proof (cases "fst (?m2 ?h1)")
      case (Inl e)
      with cache h1 show ?thesis by (simp add: reconcile_rest_def io_simps emits_not_create [OF up(2)])
    next
      case sr: (Inr sr)
      let ?h2 = "snd (?m2 ?h1)"
      have h2: "created ?h2 = created h" using h1 emits_not_create [OF up(2)] by simp
      have "created (snd (reconcile_rest C E im bd latest h)) =
            created (snd (reconcile_build C E im latest sr bd cache ?h2))"
        using cache sr
        by (simp add: reconcile_rest_def io_simps Let_def emits_not_create [OF del] split: sum.split)
      then show ?thesis
        using reconcile_build_trace [of C E im latest sr bd cache ?h2] h2 by auto
    qed
  qed
qed

lemma fetch_last_build_result:
  assumes "fst (fetch_last_build C E im h) = Inr latest"
  shows "snd (fetch_last_build C E im h) = h \<and>
    (\<exists>bs. e_list_builds E h (meta_namespace (im_meta im)) (meta_name (im_meta im)) = Inr bs \<and>
          latest = bl_last (new_build_list (ic_sort C) bs))"
  using assms
  by (auto simp: fetch_last_build_def fetch_all_builds_def io_simps map_err_def split: sum.splits)

lemma reconcile_with_builder_created:
  "created (snd (reconcile_with_builder C E im bd h)) = created h \<or>
   (\<exists>b bs. created (snd (reconcile_with_builder C E im bd h)) = created h @ [b] \<and>
     e_list_builds E h (meta_namespace (im_meta im)) (meta_name (im_meta im)) = Inr bs \<and>
     schedulable C im (bl_last (new_build_list (ic_sort C) bs)) bd b)"
proof (cases "fst (fetch_last_build C E im h)")
  case (Inl e)
  have "emits (\<lambda>e. \<not> is_create e) (fetch_last_build C E im)" by blast
  with Inl show ?thesis by (simp add: reconcile_with_builder_def io_simps emits_not_create)
next
  case latest: (Inr latest)
  from fetch_last_build_result [OF this] obtain bs where
    h: "snd (fetch_last_build C E im h) = h" and
    bs: "e_list_builds E h (meta_namespace (im_meta im)) (meta_name (im_meta im)) = Inr bs" and
    lb: "latest = bl_last (new_build_list (ic_sort C) bs)" by blast
  show ?thesis
  proof (cases "is_running latest")
    case True
    with latest h show ?thesis
      by (cases latest) (simp_all add: reconcile_with_builder_def io_simps)
  next
    case False
    then have "reconcile_with_builder C E im bd h = reconcile_rest C E im bd latest h"
      using latest h by (cases latest) (simp_all add: reconcile_with_builder_def io_simps)
    then show ?thesis
      using reconcile_rest_created [of C E im bd latest h] bs lb False
      by (auto simp: schedulable_def)
  qed
qed

lemma reconcile_image_created:
  "created (snd (reconcile_image C E im h)) = created h \<or>
   (\<exists>b bs bd. created (snd (reconcile_image C E im h)) = created h @ [b] \<and>
     e_list_builds E (h @ [Track (reconciler_key_for_builder_kind im) (image_namespaced_name im)])
       (meta_namespace (im_meta im)) (meta_name (im_meta im)) = Inr bs \<and>
     schedulable C im (bl_last (new_build_list (ic_sort C) bs)) bd b)"
proof -
  let ?h = "h @ [Track (reconciler_key_for_builder_kind im) (image_namespaced_name im)]"
  let ?get = "e_get_builder E ?h (meta_namespace (im_meta im)) (is_builder (im_spec im))"
  have h: "created ?h = created h" by simp
  show ?thesis
  proof (cases ?get)
    case (Inl e)
    with h show ?thesis
      by (cases e) (simp_all add: reconcile_image_def io_simps)
  next
    case (Inr bd)
    then have "reconcile_image C E im h = reconcile_with_builder C E im bd ?h"
      by (simp add: reconcile_image_def io_simps)
    then show ?thesis
      using reconcile_with_builder_created [of C E im bd ?h] h by auto
  qed
qed

text \<open>A running build is left alone: the run tracks the builder and reports the build, no more.\<close>

lemma reconcile_image_running:
  fixes h and im :: image
  defines "h1 \<equiv> h @ [Track (reconciler_key_for_builder_kind im) (image_namespaced_name im)]"
  assumes "e_get_builder E h1 (meta_namespace (im_meta im)) (is_builder (im_spec im)) = Inr bd"
    and "e_label_requirement E (meta_name (im_meta im)) = Inr ()"
    and "e_list_builds E h1 (meta_namespace (im_meta im)) (meta_name (im_meta im)) = Inr bs"
    and "bl_last (new_build_list (ic_sort C) bs) = Some b" and "is_running (Some b)"
  shows "reconcile_image C E im h =
     (Inr (set_conditions (build_running_condition (clk_now (ic_clock C)) b bd) im), h1)"
  using assms
  by (simp add: reconcile_image_def reconcile_with_builder_def fetch_last_build_def
      fetch_all_builds_def io_simps)

end
