(* ===== verification/Image_Reconciler_Safety.thy ===== *)
theory Image_Reconciler_Safety
  imports Image_Reconciler_Props
begin

text \<open>
  The reconciler does not panic: every pointer it follows is set, every list it indexes is
  non-empty. The first build of an image is the interesting case, because
  \<open>noScheduledBuild\<close> would read through the nil build; it is never reached, since a first build is
  always required once the resolver and the builder are ready.
\<close>

section \<open>Assumptions on the environment\<close>

text \<open>
  Calls report failures as errors, and a source resolver that is ready has a resolved source
  (the invariant \<open>sr_wf\<close> that its own reconciler maintains).
\<close>

definition env_reads_ok :: "img_env \<Rightarrow> bool" where
  "env_reads_ok E \<longleftrightarrow>
     (\<forall>k. \<not> panics (e_split_key E k)) \<and>
     (\<forall>h ns n. \<not> panics (e_get_image E h ns n)) \<and>
     (\<forall>h ns r. \<not> panics (e_get_builder E h ns r)) \<and>
     (\<forall>n. \<not> panics (e_label_requirement E n)) \<and>
     (\<forall>h ns n. \<not> panics (e_list_builds E h ns n)) \<and>
     (\<forall>h ns n. \<not> panics (e_get_source_resolver E h ns n)) \<and>
     (\<forall>h ns n. \<not> panics (e_get_pvc E h ns n))"

definition env_writes_ok :: "img_env \<Rightarrow> bool" where
  "env_writes_ok E \<longleftrightarrow>
     (\<forall>h s. \<not> panics (e_create_source_resolver E h s)) \<and>
     (\<forall>h s. \<not> panics (e_update_source_resolver E h s)) \<and>
     (\<forall>h p. \<not> panics (e_create_pvc E h p)) \<and>
     (\<forall>h p. \<not> panics (e_update_pvc E h p)) \<and>
     (\<forall>h ns n u. \<not> panics (e_delete_pvc E h ns n u)) \<and>
     (\<forall>h b b' e. e_create_build E h b = (b', Some e) \<longrightarrow> \<not> is_panic e) \<and>
     (\<forall>h ns n. \<not> panics (e_delete_build E h ns n)) \<and>
     (\<forall>h im. \<not> panics (e_update_status E h im))"

definition env_resolvers_wf :: "img_env \<Rightarrow> bool" where
  "env_resolvers_wf E \<longleftrightarrow>
     (\<forall>h ns n sr. e_get_source_resolver E h ns n = Inr sr \<longrightarrow> sr_wf sr) \<and>
     (\<forall>h s sr. e_create_source_resolver E h s = Inr sr \<longrightarrow> sr_wf sr) \<and>
     (\<forall>h s sr. e_update_source_resolver E h s = Inr sr \<longrightarrow> sr_wf sr)"

text \<open>Documented behaviour of \<open>DeepEqual\<close>: a nil pointer differs from a set one.\<close>

definition equal_respects_source :: "change_lib \<Rightarrow> bool" where
  "equal_respects_source CL \<longleftrightarrow> (\<forall>c d. cl_config_equal CL c d \<longrightarrow>
     (source_of (cfg_source c) = None \<longleftrightarrow> source_of (cfg_source d) = None))"

definition limits_ok :: "image \<Rightarrow> bool" where
  "limits_ok im \<longleftrightarrow> (\<forall>n. is_failed_limit (im_spec im) = Some n \<longrightarrow> 0 \<le> n) \<and>
                   (\<forall>n. is_success_limit (im_spec im) = Some n \<longrightarrow> 0 \<le> n)"

section \<open>The first build is always required\<close>

lemma source_of_blank_revision:
  "source_of (cfg_source (blank_revision c)) = None \<longleftrightarrow> source_of (cfg_source c) = None"
  by (simp add: blank_revision_def source_of_def split: option.split)

lemma summarize_has_changes: "cs_has_changes (fst (summarize CL p)) = has_changes p"
  by (simp add: summarize_def new_change_summary_def Let_def case_prod_beta split: sum.split)

lemma is_build_required_has_changes:
  assumes "is_build_required L CL clk img lb sr bd = Inr res" and "sr_ready sr" and "db_ready bd"
    and "config_change img lb sr = Inr cfg"
  shows "brr_status res = ConditionTrue \<longleftrightarrow> required_changes CL (all_changes L clk img lb sr bd cfg) \<noteq> []"
proof -
  let ?p = "fold (process CL) (all_changes L clk img lb sr bd cfg) new_change_processor"
  obtain s e where s: "summarize CL ?p = (s, e)" by fastforce
  have "has_changes ?p \<longleftrightarrow> required_changes CL (all_changes L clk img lb sr bd cfg) \<noteq> []"
    by (simp add: has_changes_def fold_process_changes new_change_processor_def)
  moreover have "cs_has_changes s = has_changes ?p"
    using summarize_has_changes [of CL ?p] s by simp
  moreover have "res = new_build_required_result s"
    using assms s by (auto simp: is_build_required_def split: option.splits)
  ultimately show ?thesis by (simp add: new_build_required_result_def)
qed

lemma first_build_required:
  assumes "equal_respects_source CL" and "sr_wf sr" and "sr_ready sr" and "db_ready bd"
    and "is_build_required L CL clk img None sr bd = Inr res"
  shows "brr_status res = ConditionTrue"
proof -
  obtain src where src: "sr_source_config sr = Inr src"
    and cfg: "config_change img None sr = Inr (Some (ConfigChange (build_config None) (image_config img src)))"
    using config_change_ready [OF assms(2,3)] by blast
  have "source_of src \<noteq> None"
    using src source_of_to_source_config by (auto simp: sr_source_config_def split: option.splits)
  then have "config_change_required CL (build_config None) (image_config img src)"
    using assms(1) source_of_blank_revision [of "build_config None"]
      source_of_blank_revision [of "image_config img src"]
    by (auto simp: config_change_required_def equal_respects_source_def build_config_def
        empty_config_def image_config_def empty_source_def source_of_def)
  then have "required_changes CL (all_changes L clk img None sr bd
      (Some (ConfigChange (build_config None) (image_config img src)))) \<noteq> []"
    by (simp add: all_changes_def required_changes_Cons)
  then show ?thesis
    using is_build_required_has_changes [OF assms(5,3,4) cfg] by blast
qed

lemma is_build_required_known:
  assumes "is_build_required L CL clk img lb sr bd = Inr res" and "brr_status res = ConditionUnknown"
  shows "\<not> (sr_ready sr \<and> db_ready bd)"
proof
  assume ready: "sr_ready sr \<and> db_ready bd"
  have new: "brr_status (new_build_required_result s) \<noteq> ConditionUnknown" for s
    by (simp add: new_build_required_result_def)
  from ready assms(1) obtain s where "res = new_build_required_result s"
    by (cases "config_change img lb sr")
       (auto simp: is_build_required_def case_prod_beta split: option.splits)
  with new assms(2) show False by simp
qed

lemma no_scheduled_build_safe:
  assumes "is_build_required L CL clk img lb sr bd = Inr res" and "brr_status res \<noteq> ConditionTrue"
    and "equal_respects_source CL" and "sr_wf sr"
  shows "\<not> panics (no_scheduled_build now (brr_status res) bd lb sr)"
proof (cases "sr_ready sr \<and> db_ready bd")
  case False
  then have "brr_status res = ConditionUnknown"
    using assms(1) by (auto simp: is_build_required_def split: if_splits)
  with False show ?thesis by (auto simp: no_scheduled_build_def no_scheduled_build_ready_def)
next
  case True
  have "lb \<noteq> None"
  proof
    assume "lb = None"
    then have "brr_status res = ConditionTrue"
      using first_build_required [OF assms(3,4), of bd L clk img res] True assms(1) by simp
    with assms(2) show False by simp
  qed
  then show ?thesis
    by (auto simp: no_scheduled_build_def no_scheduled_build_ready_def split: if_splits)
qed

section \<open>Each part is safe\<close>

lemma panics_build_counter [simp]: "\<not> panics (build_counter lb)"
  by (auto simp: build_counter_def parse_number_def Let_def split: option.split list.split)

lemma safe_schedule_build:
  assumes "env_writes_ok E" and "sr_wf sr" and "sr_ready sr"
  shows "safe (schedule_build C E im lb sr bd cache n res)"
proof -
  obtain rs where "resolved_source_of (srt_source (sr_status sr)) = Some rs"
    using sr_wf_ready_source [OF assms(2,3)] by blast
  then have "\<not> panics (build_for_image L clk im sr bd lb r c k p)" for L clk r c k p
    by (simp add: build_for_image_def sr_source_config_def Let_def)
  moreover have "safe (create_build C E b)" for b
    unfolding create_build_def using assms(1)
    by (intro safe_call) (auto simp: env_writes_ok_def panics_def split: prod.split option.split)
  ultimately show ?thesis
    unfolding schedule_build_def Let_def by (intro safe_bind safe_lift) auto
qed

lemma safe_reconcile_build:
  assumes "env_writes_ok E" and "sr_wf sr" and "equal_respects_source (ic_changes C)"
  shows "safe (reconcile_build C E im lb sr bd cache)"
  unfolding reconcile_build_def
proof (intro safe_bind safe_lift, goal_cases)
  case 1
  show ?case by simp
next
  case (2 h n)
  show ?case using is_build_required_no_panic [OF assms(2)] by simp
next
  case (3 h n h' res)
  then have res: "is_build_required (ic_lib C) (ic_changes C) (ic_clock C) im lb sr bd = Inr res"
    by (simp add: map_err_def split: sum.splits)
  show ?case
  proof (cases "brr_status res = ConditionTrue")
    case True
    then have "sr_ready sr" using res by (auto simp: is_build_required_def split: if_splits)
    with True show ?thesis by (simp add: safe_schedule_build [OF assms(1,2)])
  next
    case False
    have "safe (bind_io (lift_io (no_scheduled_build now (brr_status res) bd lb sr)) (\<lambda>c. ret_io (f c)))"
      for now f using no_scheduled_build_safe [OF res False assms(3,2)] by (intro safe_bind safe_lift) auto
    with False show ?thesis by (cases "brr_status res") simp_all
  qed
qed

lemma safe_fetch_all:
  assumes "env_reads_ok E"
  shows "safe (fetch_all_builds C E im)"
  unfolding fetch_all_builds_def using assms
  by (intro safe_bind safe_lift safe_map_err safe_read) (auto simp: env_reads_ok_def)

lemma safe_fetch_last: "env_reads_ok E \<Longrightarrow> safe (fetch_last_build C E im)"
  unfolding fetch_last_build_def by (intro safe_bind safe_fetch_all) auto

lemma safe_source_resolver:
  assumes "env_reads_ok E" and "env_writes_ok E"
  shows "safe (reconcile_source_resolver C E im)"
  unfolding reconcile_source_resolver_def Let_def
proof (intro safe_bind safe_attempt, goal_cases)
  case 1
  show ?case using assms(1) by (auto simp: env_reads_ok_def)
next
  case (2 h r)
  then show ?case
    using assms(2)
    by (cases r) (auto simp: env_writes_ok_def panics_def [of "Inl _"] intro!: safe_map_err safe_fail)
next
  case (3 h sr)
  show ?case using assms(2) by (auto simp: env_writes_ok_def)
qed

lemma source_resolver_result_wf:
  assumes "env_resolvers_wf E" and "fst (reconcile_source_resolver C E im h) = Inr sr"
  shows "sr_wf sr"
  using assms
  by (auto simp: reconcile_source_resolver_def env_resolvers_wf_def Let_def io_simps map_err_def
      split: sum.splits goerr.splits if_splits)

lemma safe_build_cache:
  assumes "env_reads_ok E" and "env_writes_ok E"
  shows "safe (reconcile_build_cache C E im)"
proof (cases "is_need_volume_cache (im_spec im)")
  case False
  have "safe (reconcile_no_build_cache C E im)"
    unfolding reconcile_no_build_cache_def Let_def
  proof (intro safe_attempt, goal_cases)
    case 1
    show ?case using assms(1) by (auto simp: env_reads_ok_def)
  next
    case (2 h r)
    then show ?case
      using assms(2)
      by (cases r) (auto simp: env_writes_ok_def panics_def [of "Inl _"] intro!: safe_bind safe_fail)
  qed
  with False show ?thesis by (simp add: reconcile_build_cache_def)
next
  case True
  have desired: "\<not> panics (image_build_cache (ic_lib C) im)"
    using image_build_cache_ok [OF True, of "ic_lib C"] by (auto simp: panics_def)
  have "safe (bind_io (lift_io (image_build_cache (ic_lib C) im)) (\<lambda>desired.
        (let ns = meta_namespace (im_meta im); nm = cache_name (ic_lib C) im
         in bind_io
            (attempt_io (read_io (\<lambda>h. e_get_pvc E h ns nm))
               (\<lambda>r. case r of
                    Inr p \<Rightarrow> ret_io p
                  | Inl e \<Rightarrow>
                      (if \<not> is_not_found e then fail_io (errorf ''failed to get image cache'' e)
                       else map_err_io (errorf ''failed creating image cache for build'')
                              (call_io (CreatePvc desired) (\<lambda>h. e_create_pvc E h desired)))))
            (\<lambda>p. if build_cache_equal C desired p then ret_io (meta_name (pvc_meta p))
                  else (let existing = p\<lparr>pvc_storage_request := pvc_storage_request desired,
                               pvc_meta := (pvc_meta p)\<lparr>meta_labels := meta_labels (pvc_meta desired)\<rparr>\<rparr>
                        in bind_io (map_err_io (wrap_err ''cannot update persistent volume claim'')
                                     (call_io (UpdatePvc existing) (\<lambda>h. e_update_pvc E h existing)))
                             (\<lambda>_. ret_io (meta_name (pvc_meta existing))))))))"
    unfolding Let_def
  proof (intro safe_bind safe_attempt, goal_cases)
    case 1
    show ?case using desired by simp
  next
    case (2 h d)
    show ?case using assms(1) by (auto simp: env_reads_ok_def)
  next
    case (3 h d h' r)
    then show ?case
      using assms(2)
      by (cases r) (auto simp: env_writes_ok_def panics_def [of "Inl _"] intro!: safe_map_err safe_fail)
  next
    case (4 h d h' p)
    show ?case using assms(2) by (auto simp: env_writes_ok_def intro!: safe_bind safe_map_err)
  qed
  with True show ?thesis by (simp add: reconcile_build_cache_def)
qed

lemma safe_delete_build: "env_writes_ok E \<Longrightarrow> safe (delete_build E im b)"
  by (auto simp: delete_build_def env_writes_ok_def)

lemma safe_delete_failed:
  assumes "env_writes_ok E" and "is_failed_limit (im_spec im) = Some n" and "0 \<le> n"
  shows "safe (delete_old_failed E im bl)"
  unfolding delete_old_failed_def
proof (intro safe_bind safe_lift, goal_cases)
  case 1
  show ?case using assms(2) by (simp add: deref_limit_def)
next
  case (2 h m)
  then have m: "m = n" using assms(2) by (simp add: deref_limit_def)
  show ?case
  proof (cases "number_failed_builds bl > m")
    case True
    then obtain b where "oldest_failure bl = Inr b"
      using oldest_failure_total [of bl] m assms(3) by auto
    with True show ?thesis
      by (auto intro!: safe_bind safe_map_err safe_delete_build [OF assms(1)])
  qed simp
qed

lemma safe_delete_successful:
  assumes "env_writes_ok E" and "is_success_limit (im_spec im) = Some n" and "0 \<le> n"
  shows "safe (delete_old_successful E im bl)"
  unfolding delete_old_successful_def
proof (intro safe_bind safe_lift, goal_cases)
  case 1
  show ?case using assms(2) by (simp add: deref_limit_def)
next
  case (2 h m)
  then have m: "m = n" using assms(2) by (simp add: deref_limit_def)
  show ?case
  proof (cases "number_successful_builds bl > m")
    case True
    then obtain b where "oldest_success bl = Inr b"
      using oldest_success_total [of bl] m assms(3) by auto
    with True show ?thesis
      by (auto intro!: safe_bind safe_map_err safe_delete_build [OF assms(1)])
  qed simp
qed

section \<open>The whole run is safe\<close>

lemma safe_reconcile_rest:
  assumes "env_reads_ok E" and "env_writes_ok E" and "env_resolvers_wf E"
    and "equal_respects_source (ic_changes C)"
    and "is_failed_limit (im_spec im) = Some f" and "0 \<le> f"
    and "is_success_limit (im_spec im) = Some s" and "0 \<le> s"
  shows "safe (reconcile_rest C E im bd lb)"
proof -
  have del: "safe (delete_old_builds C E (im\<lparr>im_status := st\<rparr>))" for st
    unfolding delete_old_builds_def
    using assms safe_delete_failed [OF assms(2), of "im\<lparr>im_status := st\<rparr>" f]
      safe_delete_successful [OF assms(2), of "im\<lparr>im_status := st\<rparr>" s]
    by (intro safe_bind safe_map_err safe_fetch_all) auto
  show ?thesis
    unfolding reconcile_rest_def Let_def
    by (rule safe_bind [OF safe_build_cache [OF assms(1,2)]],
        rule safe_bind [OF safe_source_resolver [OF assms(1,2)]],
        rule safe_bind [OF safe_reconcile_build [OF assms(2) _ assms(4)]])
       (auto intro!: safe_bind del intro: source_resolver_result_wf [OF assms(3)])
qed

lemma safe_reconcile_image:
  assumes "env_reads_ok E" and "env_writes_ok E" and "env_resolvers_wf E"
    and "equal_respects_source (ic_changes C)"
    and "is_failed_limit (im_spec im) = Some f" and "0 \<le> f"
    and "is_success_limit (im_spec im) = Some s" and "0 \<le> s"
  shows "safe (reconcile_image C E im)"
proof -
  have builder: "safe (reconcile_with_builder C E im bd)" for bd
    unfolding reconcile_with_builder_def
    using safe_reconcile_rest [OF assms]
    by (intro safe_bind safe_fetch_last assms(1)) (auto split: option.split)
  show ?thesis
    unfolding reconcile_image_def
  proof (intro safe_bind safe_attempt, goal_cases)
    case 1
    show ?case by simp
  next
    case (2 h u)
    show ?case using assms(1) by (auto simp: env_reads_ok_def)
  next
    case (3 h u h' r)
    then show ?case using builder
      by (cases r) (auto simp: panics_def [of "Inl _"])
  qed
qed

lemma image_set_defaults_limits_ok:
  assumes "limits_ok im"
  obtains f s where "is_failed_limit (im_spec (image_set_defaults c im)) = Some f" "0 \<le> f"
    "is_success_limit (im_spec (image_set_defaults c im)) = Some s" "0 \<le> s"
proof -
  have "\<exists>f. is_failed_limit (im_spec (image_set_defaults c im)) = Some f \<and> 0 \<le> f"
    using assms by (auto simp: limits_ok_def image_set_defaults_def
        defaultFailedBuildHistoryLimit_def split: option.split)
  moreover have "\<exists>s. is_success_limit (im_spec (image_set_defaults c im)) = Some s \<and> 0 \<le> s"
    using assms by (auto simp: limits_ok_def image_set_defaults_def
        defaultSuccessfulBuildHistoryLimit_def split: option.split)
  ultimately show ?thesis using that by blast
qed

lemma safe_update_status:
  assumes "env_reads_ok E" and "env_writes_ok E"
  shows "safe (update_status C E im)"
  unfolding update_status_def Let_def using assms
  by (intro safe_bind safe_read) (auto simp: env_reads_ok_def env_writes_ok_def)

lemma safe_reconcile:
  assumes "env_reads_ok E" and "env_writes_ok E" and "env_resolvers_wf E"
    and "equal_respects_source (ic_changes C)"
    and images: "\<And>h ns n im. e_get_image E h ns n = Inr im \<Longrightarrow> limits_ok im"
  shows "safe (reconcile C E k)"
  unfolding reconcile_def
proof (intro safe_bind safe_lift, goal_cases)
  case 1
  show ?case using assms(1) by (simp add: env_reads_ok_def)
next
  case (2 h nsnm)
  obtain ns nm where [simp]: "nsnm = (ns, nm)" by fastforce
  have body: "safe (bind_io (reconcile_image C E (image_set_defaults c im)) (\<lambda>im. update_status C E im))"
    if "limits_ok im" for c im
    by (rule image_set_defaults_limits_ok [OF that, of c])
       (auto intro!: safe_bind safe_update_status assms(1,2) intro: safe_reconcile_image [OF assms(1-4)])
  show ?case
    unfolding \<open>nsnm = (ns, nm)\<close> prod.case
  proof (intro safe_attempt, goal_cases)
    case 1
    show ?case using assms(1) by (auto simp: env_reads_ok_def)
  next
    case (2 h r)
    then show ?case using body images
      by (cases r) (auto simp: panics_def [of "Inl _"])
  qed
qed

end
