(* ===== verification/Image_History.thy ===== *)
theory Image_History
  imports Image_Reconciler_Safety
begin

text \<open>
  What the image reconciler does to the history of builds and to the status: which builds
  \<open>deleteOldBuilds\<close> removes, when \<open>reconcileBuild\<close> leaves everything as it is, and what the Ready
  condition means.
\<close>

section \<open>Pruning the history\<close>

definition failed_count :: "build list \<Rightarrow> int" where
  "failed_count bs = int (length (filter (\<lambda>b. is_failure (Some b)) bs))"

definition successful_count :: "build list \<Rightarrow> int" where
  "successful_count bs = int (length (filter (\<lambda>b. is_success (Some b)) bs))"

text \<open>A build may go when its kind is over its limit and no build of its kind is older.\<close>

definition prunable :: "image \<Rightarrow> build list \<Rightarrow> build \<Rightarrow> bool" where
  "prunable im bs b \<longleftrightarrow> b \<in> set bs \<and>
     (is_failure (Some b) \<and>
        (\<exists>n. is_failed_limit (im_spec im) = Some n \<and> n < failed_count bs) \<and>
        (\<forall>c \<in> set bs. is_failure (Some c) \<longrightarrow> creation_key b \<le> creation_key c) \<or>
      is_success (Some b) \<and>
        (\<exists>n. is_success_limit (im_spec im) = Some n \<and> n < successful_count bs) \<and>
        (\<forall>c \<in> set bs. is_success (Some c) \<longrightarrow> creation_key b \<le> creation_key c))"

definition deletion :: "image \<Rightarrow> build \<Rightarrow> img_event" where
  "deletion im b = DeleteBuild (meta_namespace (im_meta im)) (meta_name (b_meta b))"

lemma delete_old_failed_events:
  assumes "go_sort srt creation_key"
  shows "\<exists>ds. snd (delete_old_failed E im (new_build_list srt bs) h) = h @ map (deletion im) ds \<and>
              length ds \<le> 1 \<and> list_all (prunable im bs) ds"
proof (cases "is_failed_limit (im_spec im)")
  case None
  then show ?thesis
    by (intro exI [of _ "[]"]) (simp add: delete_old_failed_def deref_limit_def io_simps)
next
  case (Some n)
  let ?l = "new_build_list srt bs"
  have count: "number_failed_builds ?l = failed_count bs"
    unfolding failed_count_def by (rule number_failed_builds_eq [OF assms])
  show ?thesis
  proof (cases "n < failed_count bs")
    case False
    with Some count show ?thesis
      by (intro exI [of _ "[]"]) (simp add: delete_old_failed_def deref_limit_def io_simps)
  next
    case True
    show ?thesis
    proof (cases "oldest_failure ?l")
      case (Inl e)
      with Some True count show ?thesis
        by (intro exI [of _ "[]"]) (simp add: delete_old_failed_def deref_limit_def io_simps)
    next
      case (Inr b)
      have "prunable im bs b"
        unfolding prunable_def using oldest_failure_spec [OF assms Inr] Some True by blast
      with Inr Some True count show ?thesis
        by (intro exI [of _ "[b]"])
           (simp add: delete_old_failed_def deref_limit_def delete_build_def deletion_def io_simps)
    qed
  qed
qed

lemma delete_old_successful_events:
  assumes "go_sort srt creation_key"
  shows "\<exists>ds. snd (delete_old_successful E im (new_build_list srt bs) h) = h @ map (deletion im) ds \<and>
              length ds \<le> 1 \<and> list_all (prunable im bs) ds"
proof (cases "is_success_limit (im_spec im)")
  case None
  then show ?thesis
    by (intro exI [of _ "[]"]) (simp add: delete_old_successful_def deref_limit_def io_simps)
next
  case (Some n)
  let ?l = "new_build_list srt bs"
  have count: "number_successful_builds ?l = successful_count bs"
    unfolding successful_count_def by (rule number_successful_builds_eq [OF assms])
  show ?thesis
  proof (cases "n < successful_count bs")
    case False
    with Some count show ?thesis
      by (intro exI [of _ "[]"]) (simp add: delete_old_successful_def deref_limit_def io_simps)
  next
    case True
    show ?thesis
    proof (cases "oldest_success ?l")
      case (Inl e)
      with Some True count show ?thesis
        by (intro exI [of _ "[]"]) (simp add: delete_old_successful_def deref_limit_def io_simps)
    next
      case (Inr b)
      have "prunable im bs b"
        unfolding prunable_def using oldest_success_spec [OF assms Inr] Some True by blast
      with Inr Some True count show ?thesis
        by (intro exI [of _ "[b]"])
           (simp add: delete_old_successful_def deref_limit_def delete_build_def deletion_def io_simps)
    qed
  qed
qed

lemma delete_old_builds_events:
  assumes "go_sort (ic_sort C) creation_key"
    and "e_list_builds E h (meta_namespace (im_meta im)) (meta_name (im_meta im)) = Inr bs"
  shows "\<exists>ds. snd (delete_old_builds C E im h) = h @ map (deletion im) ds \<and>
              length ds \<le> 2 \<and> list_all (prunable im bs) ds"
proof (cases "e_label_requirement E (meta_name (im_meta im))")
  case (Inl e)
  then show ?thesis
    by (intro exI [of _ "[]"]) (simp add: delete_old_builds_def fetch_all_builds_def io_simps)
next
  case (Inr u)
  let ?l = "new_build_list (ic_sort C) bs" and ?m = "delete_old_failed E im"
  obtain d1 where d1: "snd (?m ?l h) = h @ map (deletion im) d1" "length d1 \<le> 1" "list_all (prunable im bs) d1"
    using delete_old_failed_events [OF assms(1)] by blast
  obtain d2 where d2: "snd (delete_old_successful E im ?l (snd (?m ?l h))) =
      snd (?m ?l h) @ map (deletion im) d2" "length d2 \<le> 1" "list_all (prunable im bs) d2"
    using delete_old_successful_events [OF assms(1)] by blast
  have "snd (delete_old_builds C E im h) =
     (case fst (?m ?l h) of Inl e \<Rightarrow> snd (?m ?l h) | Inr x \<Rightarrow> snd (delete_old_successful E im ?l (snd (?m ?l h))))"
    using Inr assms(2)
    by (simp add: delete_old_builds_def fetch_all_builds_def io_simps split: sum.split)
  then show ?thesis
    using d1 d2
    by (cases "fst (?m ?l h)") (auto intro: exI [of _ d1] exI [of _ "d1 @ d2"])
qed

text \<open>When the list cannot be read, nothing is deleted.\<close>

lemma delete_old_builds_unread:
  assumes "e_list_builds E h (meta_namespace (im_meta im)) (meta_name (im_meta im)) = Inl e"
  shows "snd (delete_old_builds C E im h) = h"
  using assms
  by (cases "e_label_requirement E (meta_name (im_meta im))")
     (simp_all add: delete_old_builds_def fetch_all_builds_def io_simps)

lemma prunable_finished: "prunable im bs b \<Longrightarrow> \<not> is_running (Some b)"
  using build_state_cases [of b] by (auto simp: prunable_def)

definition limits_positive :: "image \<Rightarrow> bool" where
  "limits_positive im \<longleftrightarrow> (\<forall>n. is_failed_limit (im_spec im) = Some n \<longrightarrow> 1 \<le> n) \<and>
                         (\<forall>n. is_success_limit (im_spec im) = Some n \<longrightarrow> 1 \<le> n)"

lemma another_in_filter:
  assumes "1 < length (filter P bs)" and "distinct bs"
  shows "\<exists>c \<in> set bs. P c \<and> c \<noteq> b"
proof (rule ccontr)
  assume "\<not> ?thesis"
  then have "set (filter P bs) \<subseteq> {b}" by auto
  then have "card (set (filter P bs)) \<le> card {b}" by (rule card_mono [rotated]) simp
  moreover have "card (set (filter P bs)) = length (filter P bs)"
    using assms(2) distinct_card [of "filter P bs"] by (simp only: distinct_filter)
  ultimately show False using assms(1) by simp
qed

text \<open>With limits of at least one, the newest build is never pruned.\<close>

lemma prunable_not_newest:
  assumes "prunable im bs b" and "limits_positive im" and "distinct (map creation_key bs)"
  shows "\<exists>c \<in> set bs. creation_key b < creation_key c"
proof -
  have bs: "distinct bs" and inj: "inj_on creation_key (set bs)"
    using assms(3) by (simp_all add: distinct_map)
  have b: "b \<in> set bs" using assms(1) by (simp add: prunable_def)
  have other: "\<exists>c \<in> set bs. creation_key b < creation_key c"
    if n: "1 < length (filter P bs)" and min: "\<forall>c \<in> set bs. P c \<longrightarrow> creation_key b \<le> creation_key c" for P
  proof -
    obtain c where c: "c \<in> set bs" "P c" "c \<noteq> b" using another_in_filter [OF n bs] by blast
    then have "creation_key c \<noteq> creation_key b" using inj b by (auto simp: inj_on_def)
    with c min show ?thesis by (metis order_le_imp_less_or_eq)
  qed
  consider n where "is_failed_limit (im_spec im) = Some n" "n < failed_count bs"
      "\<forall>c \<in> set bs. is_failure (Some c) \<longrightarrow> creation_key b \<le> creation_key c"
    | n where "is_success_limit (im_spec im) = Some n" "n < successful_count bs"
      "\<forall>c \<in> set bs. is_success (Some c) \<longrightarrow> creation_key b \<le> creation_key c"
    using assms(1) unfolding prunable_def by blast
  then show ?thesis
  proof cases
    case 1
    then have "1 < length (filter (\<lambda>b. is_failure (Some b)) bs)"
      using assms(2) by (force simp: limits_positive_def failed_count_def)
    with 1(3) show ?thesis by (intro other)
  next
    case 2
    then have "1 < length (filter (\<lambda>b. is_success (Some b)) bs)"
      using assms(2) by (force simp: limits_positive_def successful_count_def)
    with 2(3) show ?thesis by (intro other)
  qed
qed

text \<open>
  Where a kind is over its limit and the calls succeed, its oldest build is deleted.
\<close>

lemma delete_old_failed_over:
  assumes "go_sort srt creation_key" and "is_failed_limit (im_spec im) = Some n" and "0 \<le> n"
    and "n < failed_count bs"
  shows "\<exists>b. prunable im bs b \<and> is_failure (Some b) \<and>
     snd (delete_old_failed E im (new_build_list srt bs) h) = h @ [deletion im b]"
proof -
  let ?l = "new_build_list srt bs"
  have count: "number_failed_builds ?l = failed_count bs"
    unfolding failed_count_def by (rule number_failed_builds_eq [OF assms(1)])
  then obtain b where b: "oldest_failure ?l = Inr b" using oldest_failure_total [of ?l] assms(3,4) by auto
  have "prunable im bs b \<and> is_failure (Some b)"
    unfolding prunable_def using oldest_failure_spec [OF assms(1) b] assms(2,4) by blast
  then show ?thesis
    using b count assms(2,4)
    by (intro exI [of _ b])
       (simp add: delete_old_failed_def deref_limit_def delete_build_def deletion_def io_simps)
qed

lemma delete_old_successful_over:
  assumes "go_sort srt creation_key" and "is_success_limit (im_spec im) = Some n" and "0 \<le> n"
    and "n < successful_count bs"
  shows "\<exists>b. prunable im bs b \<and> is_success (Some b) \<and>
     snd (delete_old_successful E im (new_build_list srt bs) h) = h @ [deletion im b]"
proof -
  let ?l = "new_build_list srt bs"
  have count: "number_successful_builds ?l = successful_count bs"
    unfolding successful_count_def by (rule number_successful_builds_eq [OF assms(1)])
  then obtain b where b: "oldest_success ?l = Inr b" using oldest_success_total [of ?l] assms(3,4) by auto
  have "prunable im bs b \<and> is_success (Some b)"
    unfolding prunable_def using oldest_success_spec [OF assms(1) b] assms(2,4) by blast
  then show ?thesis
    using b count assms(2,4)
    by (intro exI [of _ b])
       (simp add: delete_old_successful_def deref_limit_def delete_build_def deletion_def io_simps)
qed

section \<open>The Ready condition\<close>

lemma condition_names [simp]:
  "ConditionReady \<noteq> ConditionBuilderReady" "ConditionReady \<noteq> ConditionBuilderUpToDate"
  "ConditionBuilderReady \<noteq> ConditionReady" "ConditionBuilderUpToDate \<noteq> ConditionReady"
  by (simp_all add: ConditionReady_def ConditionBuilderReady_def ConditionBuilderUpToDate_def)

text \<open>
  The image is reported ready exactly when the builder is ready, whether a build is needed is
  known, and the latest build succeeded.
\<close>

lemma no_scheduled_build_ready_iff:
  assumes "no_scheduled_build now needed bd lb sr = Inr conds"
  shows "is_true (get_condition_in conds ConditionReady) \<longleftrightarrow>
         db_ready bd \<and> needed \<noteq> ConditionUnknown \<and> is_success lb"
  using assms
  by (auto simp: no_scheduled_build_def no_scheduled_build_ready_def bind_res_eq_Inr
      mk_condition_def unknown_status_if_nil_def split: if_splits option.splits)

section \<open>Steady state\<close>

lemma reconcile_build_idle:
  assumes "build_counter (Some b) = Inr n"
    and "is_build_required (ic_lib C) (ic_changes C) (ic_clock C) im (Some b) sr bd = Inr res"
    and "brr_status res \<noteq> ConditionTrue"
  shows "\<exists>conds. no_scheduled_build (clk_now (ic_clock C)) (brr_status res) bd (Some b) sr = Inr conds \<and>
     reconcile_build C E im (Some b) sr bd cache h =
       (Inr (status_of_build conds n cache im (Some b) (Some b)), h)"
proof -
  have "\<exists>conds. no_scheduled_build (clk_now (ic_clock C)) (brr_status res) bd (Some b) sr = Inr conds"
    by (simp add: no_scheduled_build_def no_scheduled_build_ready_def)
  then obtain conds where "no_scheduled_build (clk_now (ic_clock C)) (brr_status res) bd (Some b) sr = Inr conds" ..
  with assms show ?thesis
    by (cases "brr_status res") (auto simp: reconcile_build_def io_simps)
qed

text \<open>
  A build that was made from the image, succeeded and reports the builder it ran with leaves the
  reconciler nothing to do: no call, and the image is ready with the image that was built.
\<close>

lemma reconcile_build_converges:
  fixes im :: image
  assumes built: "scheduled_for C im lb0 sr bd b0"
    and same: "b_spec b = b_spec b0" "b_meta b = (b_meta b0)\<lparr>meta_creation := t\<rparr>"
    and success: "is_success (Some b)" and rep: "reports_builder (ic_lib C) b bd"
    and parse: "run_images_parse (ic_lib C) (Some b) bd"
    and libs: "\<And>c. cl_config_equal (ic_changes C) c c" "marshals (ic_changes C)"
      "buildpacks_equal_ok (ic_changes C)" and wf: "sr_wf sr"
    and no_trigger: "meta_annotations (im_meta im) BuildNeededAnnotation = None"
  shows "\<exists>st. reconcile_build C E im (Some b) sr bd cache h = (Inr st, h) \<and>
     is_true (get_condition (ims_status st) ConditionReady) \<and>
     ims_latest_image st = bst_latest_image (b_status b) \<and>
     build_counter (Some b) = Inr (ims_build_counter st)"
proof -
  obtain n and res0 :: build_required_result where n: "build_counter lb0 = Inr n"
    and b0: "build_for_image (ic_lib C) (ic_clock C) im sr bd lb0 (brr_reasons res0) (brr_changes res0)
      (wrap64 (n + 1)) (if ic_priority_classes C then brr_priority_class res0 else '''') = Inr b0"
    using built by (auto simp: scheduled_for_def)
  have ready: "sr_ready sr" "db_ready bd" using scheduled_for_ready [OF built] by simp_all
  have none: "wanted_reasons (ic_lib C) (ic_changes C) im (Some b) sr bd = []"
    using b0 same no_trigger rep libs(1) by (intro own_build_no_reasons [OF b0]) auto
  obtain res where res: "is_build_required (ic_lib C) (ic_changes C) (ic_clock C) im (Some b) sr bd = Inr res"
    "brr_status res = ConditionFalse"
    using is_build_required_summary [OF libs(2,3) wf ready parse, where img = im and clk = "ic_clock C"] none by auto
  have counter: "build_counter (Some b) = Inr (wrap64 (n + 1))"
    using scheduled_for_number(3) [OF built n] same(2) by (simp add: build_counter_def)
  obtain conds where conds: "no_scheduled_build (clk_now (ic_clock C)) ConditionFalse bd (Some b) sr = Inr conds"
    "reconcile_build C E im (Some b) sr bd cache h =
      (Inr (status_of_build conds (wrap64 (n + 1)) cache im (Some b) (Some b)), h)"
    using reconcile_build_idle [OF counter res(1), of E cache h] res(2) by auto
  have "is_true (get_condition_in conds ConditionReady)"
    using no_scheduled_build_ready_iff [OF conds(1)] ready(2) success by simp
  with conds(2) counter success show ?thesis
    by (simp add: status_of_build_def latest_for_image_def get_condition_def)
qed

section \<open>Writing the status\<close>

text \<open>The status is written only when it says something new.\<close>

lemma update_status_events:
  "snd (update_status C E im h) = h \<or>
   (\<exists>im'. snd (update_status C E im h) = h @ [UpdateImageStatus im'] \<and>
      im_meta im' = im_meta im \<and> im_spec im' = im_spec im \<and>
      st_observed_generation (ims_status (im_status im')) = meta_generation (im_meta im) \<and>
      (\<exists>old. e_get_image E h (meta_namespace (im_meta im)) (meta_name (im_meta im)) = Inr old \<and>
             \<not> ic_status_equal C (im_status old) (im_status im')))"
  by (auto simp: update_status_def Let_def io_simps split: sum.split)

end
