(* ===== verification/Image_Cluster.thy ===== *)
theory Image_Cluster
  imports Image_History
begin

text \<open>
  The builds of one image over time: a step relation whose steps are a reconcile of the image, which may read an
  outdated list of builds, and a change of a running build's status by the build controller. The invariant of
  every reachable state: at most one build runs, it is the newest, and build numbers are never issued twice.
\<close>

section \<open>The shape of a run\<close>

text \<open>
  The calls of one run: upkeep of the cache claim and the source resolver, then at most one
  created build, then deletions of builds that the list read at that point allows.
\<close>

definition run_shape :: "img_conf \<Rightarrow> img_env \<Rightarrow> image \<Rightarrow> img_event list \<Rightarrow> build option \<Rightarrow> img_event list \<Rightarrow>
    build list \<Rightarrow> build list \<Rightarrow> bool" where
  "run_shape C E im h latest pre cs ds \<longleftrightarrow>
     list_all upkeep pre \<and> length cs \<le> 1 \<and>
     (\<forall>b \<in> set cs. \<exists>sr bd. scheduled_for C im latest sr bd b) \<and>
     (ds \<noteq> [] \<longrightarrow> (\<exists>bs. e_list_builds E (h @ pre @ map CreateBuild cs)
        (meta_namespace (im_meta im)) (meta_name (im_meta im)) = Inr bs \<and> list_all (prunable im bs) ds))"

lemma run_shape_upkeep: "list_all upkeep pre \<Longrightarrow> run_shape C E im h latest pre [] []"
  by (simp add: run_shape_def)

lemma deletion_status [simp]: "deletion (im\<lparr>im_status := st\<rparr>) = deletion im"
  by (simp add: deletion_def fun_eq_iff)

lemma prunable_status [simp]: "prunable (im\<lparr>im_status := st\<rparr>) = prunable im"
  by (simp add: prunable_def fun_eq_iff)

lemma delete_old_builds_shape:
  assumes "go_sort (ic_sort C) creation_key"
  shows "\<exists>ds. snd (delete_old_builds C E im h) = h @ map (deletion im) ds \<and>
     (ds \<noteq> [] \<longrightarrow> (\<exists>bs. e_list_builds E h (meta_namespace (im_meta im)) (meta_name (im_meta im)) = Inr bs \<and>
        list_all (prunable im bs) ds))"
proof (cases "e_list_builds E h (meta_namespace (im_meta im)) (meta_name (im_meta im))")
  case (Inl e)
  then show ?thesis by (intro exI [of _ "[]"]) (simp add: delete_old_builds_unread)
next
  case (Inr bs)
  then show ?thesis using delete_old_builds_events [OF assms Inr] by blast
qed

lemma reconcile_rest_shape:
  assumes "go_sort (ic_sort C) creation_key"
  shows "\<exists>pre cs ds. snd (reconcile_rest C E im bd latest h) =
      h @ pre @ map CreateBuild cs @ map (deletion im) ds \<and> run_shape C E im h latest pre cs ds"
proof -
  let ?m1 = "reconcile_build_cache C E im" and ?m2 = "reconcile_source_resolver C E im"
  obtain p1 where p1: "snd (?m1 h) = h @ p1" "list_all upkeep p1"
    using emits_obtain [OF emits_build_cache] by blast
  show ?thesis
  proof (cases "fst (?m1 h)")
    case (Inl e)
    with p1 show ?thesis
      by (intro exI [of _ p1] exI [of _ "[]"]) (simp add: reconcile_rest_def io_simps run_shape_upkeep)
  next
    case cache: (Inr cache)
    obtain p2 where p2: "snd (?m2 (h @ p1)) = h @ p1 @ p2" "list_all upkeep p2"
      using emits_obtain [OF emits_source_resolver, of C E im "h @ p1"] by auto
    have up: "list_all upkeep (p1 @ p2)" using p1(2) p2(2) by simp
    show ?thesis
    proof (cases "fst (?m2 (h @ p1))")
      case (Inl e)
      with cache p1 p2 show ?thesis
        by (intro exI [of _ "p1 @ p2"] exI [of _ "[]"])
           (simp add: reconcile_rest_def io_simps run_shape_upkeep)
    next
      case sr: (Inr sr)
      let ?m3 = "reconcile_build C E im latest sr bd cache"
      obtain cs where cs: "snd (?m3 (h @ p1 @ p2)) = h @ (p1 @ p2) @ map CreateBuild cs" "length cs \<le> 1"
        "\<forall>b \<in> set cs. scheduled_for C im latest sr bd b"
      proof (cases "snd (?m3 (h @ p1 @ p2)) = h @ p1 @ p2")
        case True
        then show ?thesis using that [of "[]"] by simp
      next
        case False
        then obtain b where "snd (?m3 (h @ p1 @ p2)) = (h @ p1 @ p2) @ [CreateBuild b]"
          "scheduled_for C im latest sr bd b"
          using reconcile_build_trace [of C E im latest sr bd cache "h @ p1 @ p2"] by blast
        then show ?thesis using that [of "[b]"] by simp
      qed
      show ?thesis
      proof (cases "fst (?m3 (h @ p1 @ p2))")
        case (Inl e)
        with cache sr p1 p2 cs up show ?thesis
          by (intro exI [of _ "p1 @ p2"] exI [of _ cs] exI [of _ "[]"])
             (auto simp: reconcile_rest_def io_simps run_shape_def)
      next
        case (Inr st)
        let ?h3 = "h @ (p1 @ p2) @ map CreateBuild cs"
        obtain ds where ds: "snd (delete_old_builds C E (im\<lparr>im_status := st\<rparr>) ?h3) = ?h3 @ map (deletion im) ds"
          "ds \<noteq> [] \<longrightarrow> (\<exists>bs. e_list_builds E ?h3 (meta_namespace (im_meta im)) (meta_name (im_meta im)) = Inr bs \<and>
             list_all (prunable im bs) ds)"
          using delete_old_builds_shape [OF assms, of E "im\<lparr>im_status := st\<rparr>" ?h3] by auto
        have "snd (reconcile_rest C E im bd latest h) = ?h3 @ map (deletion im) ds"
          using cache sr p1 p2 cs(1) Inr ds(1)
          by (simp add: reconcile_rest_def io_simps Let_def split: sum.split)
        moreover have "run_shape C E im h latest (p1 @ p2) cs ds"
          using up cs ds(2) by (auto simp: run_shape_def)
        ultimately show ?thesis by (intro exI [of _ "p1 @ p2"] exI [of _ cs] exI [of _ ds]) simp
      qed
    qed
  qed
qed

text \<open>
  A whole run starts by tracking the builder. A create comes only after the list was read and its
  newest build was not running.
\<close>

lemma reconcile_image_shape:
  assumes "go_sort (ic_sort C) creation_key"
  shows "\<exists>pre cs ds latest. snd (reconcile_image C E im []) = pre @ map CreateBuild cs @ map (deletion im) ds \<and>
     run_shape C E im [] latest pre cs ds \<and>
     (cs \<noteq> [] \<longrightarrow> \<not> is_running latest \<and> (\<exists>h es bs. list_all upkeep h \<and>
        snd (reconcile_image C E im []) = h @ es \<and> e_list_builds E h (meta_namespace (im_meta im)) (meta_name (im_meta im)) = Inr bs \<and>
        latest = bl_last (new_build_list (ic_sort C) bs)))"
proof -
  let ?t = "Track (reconciler_key_for_builder_kind im) (image_namespaced_name im)"
  have idle: ?thesis if "snd (reconcile_image C E im []) = [?t]"
    using that by (intro exI [of _ "[?t]"] exI [of _ "[]"] exI [of _ None]) (simp add: run_shape_upkeep)
  show ?thesis
  proof (cases "e_get_builder E [?t] (meta_namespace (im_meta im)) (is_builder (im_spec im))")
    case (Inl e)
    then show ?thesis by (intro idle) (cases e, simp_all add: reconcile_image_def io_simps)
  next
    case bd: (Inr bd)
    then have run: "reconcile_image C E im [] = reconcile_with_builder C E im bd [?t]"
      by (simp add: reconcile_image_def io_simps)
    show ?thesis
    proof (cases "fst (fetch_last_build C E im [?t])")
      case (Inl e)
      have "emits (\<lambda>_. False) (fetch_last_build C E im)" by blast
      from emits_obtain [OF this, of "[?t]"] have "snd (fetch_last_build C E im [?t]) = [?t]"
        by (auto simp: list_all_iff)
      with Inl run show ?thesis by (intro idle) (simp add: reconcile_with_builder_def io_simps)
    next
      case (Inr latest)
      note f = fetch_last_build_result [OF Inr]
      show ?thesis
      proof (cases "is_running latest")
        case True
        with run Inr f show ?thesis
          by (intro idle) (cases latest, simp_all add: reconcile_with_builder_def io_simps)
      next
        case False
        then have "snd (reconcile_image C E im []) = snd (reconcile_rest C E im bd latest [?t])"
          using run Inr f by (cases latest) (simp_all add: reconcile_with_builder_def io_simps)
        moreover obtain pre cs ds where s: "snd (reconcile_rest C E im bd latest [?t]) =
            [?t] @ pre @ map CreateBuild cs @ map (deletion im) ds" "run_shape C E im [?t] latest pre cs ds"
          using reconcile_rest_shape [OF assms] by blast
        moreover have "run_shape C E im [] latest (?t # pre) cs ds"
          using s(2) by (simp add: run_shape_def)
        moreover have "\<exists>h es bs. list_all upkeep h \<and> snd (reconcile_image C E im []) = h @ es \<and>
            e_list_builds E h (meta_namespace (im_meta im)) (meta_name (im_meta im)) = Inr bs \<and>
            latest = bl_last (new_build_list (ic_sort C) bs)"
          using f s(1) calculation(1) by (intro exI [of _ "[?t]"] exI [of _ "pre @ map CreateBuild cs @ map (deletion im) ds"]) auto
        ultimately show ?thesis
          using False by (intro exI [of _ "?t # pre"] exI [of _ cs] exI [of _ ds] exI [of _ latest]) auto
      qed
    qed
  qed
qed

section \<open>The builds of an image in the cluster\<close>

text \<open>
  The state: the builds the API server holds for the image, the time of its last create, the numbers and the
  creation stamps of all builds ever created, and the successive contents of the server from the one the
  informer's cache has last shown on. The last of these is the present one.
\<close>

record cluster =
  cl_builds :: "build list"
  cl_now :: int
  cl_issued :: "int list"
  cl_stamps :: "int list"
  cl_views :: "build list list"

definition build_number :: "build \<Rightarrow> int" where
  "build_number b = (case build_counter (Some b) of Inl _ \<Rightarrow> 0 | Inr n \<Rightarrow> n)"

definition build_names :: "build list \<Rightarrow> string set" where
  "build_names bs = (\<lambda>b. meta_name (b_meta b)) ` set bs"

definition stamp :: "int \<Rightarrow> build \<Rightarrow> build" where
  "stamp t b = b\<lparr>b_meta := (b_meta b)\<lparr>meta_creation := Some t\<rparr>\<rparr>"

definition put_builds :: "build list \<Rightarrow> cluster \<Rightarrow> cluster" where
  "put_builds bs s = s\<lparr>cl_builds := bs, cl_views := cl_views s @ [bs]\<rparr>"

text \<open>
  The API server stamps a created build and refuses a second object of the same name. Whether a
  call takes effect at all is up to \<open>ok\<close>, whatever answer the reconciler saw (a call may time out
  after it was done).
\<close>

fun apply_event :: "(img_event \<Rightarrow> bool) \<Rightarrow> int \<Rightarrow> img_event \<Rightarrow> cluster \<Rightarrow> cluster" where
  "apply_event ok t (CreateBuild b) s =
     (if ok (CreateBuild b) \<and> meta_name (b_meta b) \<notin> build_names (cl_builds s)
      then (put_builds (cl_builds s @ [stamp t b]) s)
             \<lparr>cl_now := t, cl_issued := cl_issued s @ [build_number b], cl_stamps := cl_stamps s @ [t]\<rparr>
      else s)"
| "apply_event ok t (DeleteBuild ns n) s =
     (if ok (DeleteBuild ns n) then put_builds (filter (\<lambda>b. meta_name (b_meta b) \<noteq> n) (cl_builds s)) s else s)"
| "apply_event ok t _ s = s"

definition apply_events :: "(img_event \<Rightarrow> bool) \<Rightarrow> int \<Rightarrow> img_event list \<Rightarrow> cluster \<Rightarrow> cluster" where
  "apply_events ok t es s = fold (apply_event ok t) es s"

text \<open>
  An informer's cache shows some content the server has had. It may lag behind, by any number of changes, but it
  does not go back: the lists that a run gets are contents at positions up to \<open>q\<close> after the one shown last, the
  changes of the run itself included, and later runs see nothing older than position \<open>q\<close>. A list may also fail.
\<close>

definition reads_cache :: "nat \<Rightarrow> (img_event \<Rightarrow> bool) \<Rightarrow> int \<Rightarrow> img_conf \<Rightarrow> img_env \<Rightarrow> image \<Rightarrow> cluster \<Rightarrow> bool" where
  "reads_cache q ok t C E im s \<longleftrightarrow> (\<forall>h es bs.
     snd (reconcile_image C E im []) = h @ es \<longrightarrow>
     e_list_builds E h (meta_namespace (im_meta im)) (meta_name (im_meta im)) = Inr bs \<longrightarrow>
     (\<exists>i \<le> q. i < length (cl_views (apply_events ok t h s)) \<and> mset bs = mset (cl_views (apply_events ok t h s) ! i)))"

definition forget_views :: "nat \<Rightarrow> cluster \<Rightarrow> cluster" where
  "forget_views q s = s\<lparr>cl_views := drop q (cl_views s)\<rparr>"

text \<open>
  The image is given by its name, its specification may differ from run to run. The clock of the server does not
  go back.
\<close>

inductive cluster_step :: "img_conf \<Rightarrow> string \<Rightarrow> cluster \<Rightarrow> cluster \<Rightarrow> bool" for C :: img_conf and nm :: string where
  reconciled: "\<lbrakk>meta_name (im_meta im) = nm; limits_positive im; reads_cache q ok t C E im s; cl_now s \<le> t;
     s1 = apply_events ok t (snd (reconcile_image C E im [])) s; q < length (cl_views s1); s' = forget_views q s1\<rbrakk> \<Longrightarrow>
     cluster_step C nm s s'"
| progressed: "\<lbrakk>i < length (cl_builds s); is_running (Some (cl_builds s ! i));
     b_meta b' = b_meta (cl_builds s ! i); s' = put_builds ((cl_builds s)[i := b']) s\<rbrakk> \<Longrightarrow> cluster_step C nm s s'"

definition empty_cluster :: cluster where
  "empty_cluster = \<lparr>cl_builds = [], cl_now = 0, cl_issued = [], cl_stamps = [], cl_views = [[]]\<rparr>"

text \<open>What the name generator of the library documents: children of one object with different suffixes differ.\<close>

definition build_name_for :: "img_conf \<Rightarrow> string \<Rightarrow> int \<Rightarrow> string" where
  "build_name_for C nm n = lib_child_name (ic_lib C) nm (''-build-'' @ itoa n)"

definition distinct_build_names :: "img_conf \<Rightarrow> string \<Rightarrow> bool" where
  "distinct_build_names C nm \<longleftrightarrow> (\<forall>m n. build_name_for C nm m = build_name_for C nm n \<longrightarrow> m = n)"

section \<open>The invariant\<close>

definition newest :: "build list \<Rightarrow> build \<Rightarrow> bool" where
  "newest bs b \<longleftrightarrow> b \<in> set bs \<and> (\<forall>k \<in> set (map creation_key bs). k \<le> creation_key b)"

text \<open>The build created as number \<open>j + 1\<close>.\<close>

definition made_at :: "img_conf \<Rightarrow> string \<Rightarrow> int list \<Rightarrow> nat \<Rightarrow> build \<Rightarrow> bool" where
  "made_at C nm stamps j b \<longleftrightarrow> j < length stamps \<and> build_counter (Some b) = Inr (int (Suc j)) \<and>
     meta_creation (b_meta b) = Some (stamps ! j) \<and> meta_name (b_meta b) = build_name_for C nm (int (Suc j))"

definition top_number :: "build list \<Rightarrow> int" where
  "top_number bs = (if bs = [] then 0 else Max (set (map build_number bs)))"

text \<open>
  In terms of the numbers: the server holds the newest of the builds ever made, every content still visible
  holds at least the one before it, and a build that runs on the server is the newest and runs in every content.
\<close>

definition good_view :: "img_conf \<Rightarrow> string \<Rightarrow> int list \<Rightarrow> build list \<Rightarrow> bool" where
  "good_view C nm stamps V \<longleftrightarrow> distinct (map build_number V) \<and> (\<forall>b \<in> set V. \<exists>j. made_at C nm stamps j b)"

definition running_seen :: "build list \<Rightarrow> build list \<Rightarrow> bool" where
  "running_seen bs V \<longleftrightarrow> (\<forall>b \<in> set V. \<forall>c \<in> set bs. build_number b = build_number c \<longrightarrow>
     is_running (Some c) \<longrightarrow> is_running (Some b))"

definition cluster_inv :: "img_conf \<Rightarrow> string \<Rightarrow> nat \<Rightarrow> nat \<Rightarrow> cluster \<Rightarrow> bool" where
  "cluster_inv C nm k p s \<longleftrightarrow>
     cl_issued s = map (\<lambda>j. int (Suc j)) [0..<length (cl_stamps s)] \<and> length (cl_stamps s) \<le> k \<and>
     sorted_wrt (<) (cl_stamps s) \<and> (\<forall>t \<in> set (cl_stamps s). t \<le> cl_now s) \<and>
     cl_views s \<noteq> [] \<and> last (cl_views s) = cl_builds s \<and>
     (\<forall>V \<in> set (cl_views s). good_view C nm (cl_stamps s) V \<and> running_seen (cl_builds s) V) \<and>
     sorted (map top_number (cl_views s)) \<and> p < length (cl_views s) \<and>
     int (length (cl_stamps s)) \<le> top_number (cl_views s ! p) + 1 \<and>
     top_number (cl_builds s) = int (length (cl_stamps s)) \<and>
     (\<forall>c \<in> set (cl_builds s). is_running (Some c) \<longrightarrow> build_number c = int (length (cl_stamps s)))"

section \<open>Numbers and stamps\<close>

lemma build_counter_meta: "b_meta b = b_meta c \<Longrightarrow> build_counter (Some b) = build_counter (Some c)"
  by (simp add: build_counter_def)

lemma creation_key_stamp [simp]: "creation_key (stamp t b) = (0, t)"
  by (simp add: creation_key_def stamp_def)

lemma stamp_simps [simp]:
  "meta_name (b_meta (stamp t b)) = meta_name (b_meta b)"
  "meta_creation (b_meta (stamp t b)) = Some t"
  "build_counter (Some (stamp t b)) = build_counter (Some b)"
  "build_number (stamp t b) = build_number b"
  by (simp_all add: stamp_def build_counter_def build_number_def)

lemma made_at_number: "made_at C nm stamps j b \<Longrightarrow> build_number b = int (Suc j)"
  by (simp add: made_at_def build_number_def)

lemma made_at_key: "made_at C nm stamps j b \<Longrightarrow> creation_key b = (0, stamps ! j)"
  by (simp add: made_at_def creation_key_def)

lemma made_at_meta: "b_meta b = b_meta c \<Longrightarrow> made_at C nm stamps j b = made_at C nm stamps j c"
  by (simp add: made_at_def build_counter_def)

lemma made_at_more: "made_at C nm stamps j b \<Longrightarrow> made_at C nm (stamps @ ts) j b"
  by (auto simp: made_at_def nth_append)

lemma good_view_more: "good_view C nm stamps V \<Longrightarrow> good_view C nm (stamps @ ts) V"
  unfolding good_view_def by (blast intro: made_at_more)

lemma good_view_mset: "mset V = mset W \<Longrightarrow> good_view C nm stamps V = good_view C nm stamps W"
  unfolding good_view_def by (metis mset_eq_imp_distinct_iff mset_eq_setD mset_map)

lemma top_number_mset: "mset V = mset W \<Longrightarrow> top_number V = top_number W"
  unfolding top_number_def by (metis mset_eq_setD mset_map mset_zero_iff set_empty)

lemma good_view_order:
  assumes "good_view C nm stamps V" and "sorted_wrt (<) stamps" and "b \<in> set V" and "c \<in> set V"
  shows "creation_key b < creation_key c \<longleftrightarrow> build_number b < build_number c"
proof -
  obtain i j where i: "made_at C nm stamps i b" and j: "made_at C nm stamps j c"
    using assms unfolding good_view_def by blast
  have bounds: "i < length stamps" "j < length stamps" using i j by (simp_all add: made_at_def)
  have "stamps ! i < stamps ! j \<longleftrightarrow> i < j"
    using sorted_wrt_nth_less [OF assms(2)] bounds by (metis not_less_iff_gr_or_eq)
  then show ?thesis by (simp add: made_at_key [OF i] made_at_key [OF j] made_at_number [OF i] made_at_number [OF j])
qed

lemma good_view_distinct:
  assumes "good_view C nm stamps V" and "sorted_wrt (<) stamps"
  shows "distinct (map creation_key V)"
proof -
  have "creation_key b \<noteq> creation_key c" if "b \<in> set V" "c \<in> set V" "b \<noteq> c" for b c
  proof -
    have "build_number b \<noteq> build_number c" using assms(1) that by (auto simp: good_view_def distinct_map inj_on_def)
    then show ?thesis using good_view_order [OF assms that(1,2)] good_view_order [OF assms that(2,1)] by (metis less_irrefl neqE)
  qed
  then show ?thesis using assms(1) by (auto simp: good_view_def distinct_map inj_on_def)
qed

lemma top_number_ge: "b \<in> set V \<Longrightarrow> build_number b \<le> top_number V"
  by (auto simp: top_number_def)

lemma top_number_in: "V \<noteq> [] \<Longrightarrow> \<exists>b \<in> set V. build_number b = top_number V"
proof -
  assume "V \<noteq> []"
  then have "Max (set (map build_number V)) \<in> set (map build_number V)" by (intro Max_in) simp_all
  then have "top_number V \<in> build_number ` set V" using \<open>V \<noteq> []\<close> by (simp add: top_number_def)
  then show ?thesis by (metis imageE)
qed

lemma top_number_eq: "b \<in> set V \<Longrightarrow> (\<And>c. c \<in> set V \<Longrightarrow> build_number c \<le> build_number b) \<Longrightarrow> top_number V = build_number b"
  by (metis (no_types, lifting) antisym empty_iff set_empty top_number_ge top_number_in)

lemma good_view_top: "good_view C nm stamps V \<Longrightarrow> top_number V \<le> int (length stamps) \<and> 0 \<le> top_number V"
proof (cases "V = []")
  case False
  assume g: "good_view C nm stamps V"
  obtain b where b: "b \<in> set V" "build_number b = top_number V" using top_number_in [OF False] by blast
  then obtain j where "made_at C nm stamps j b" using g by (auto simp: good_view_def)
  then show ?thesis using b(2) made_at_number [of C nm stamps j b] by (simp add: made_at_def)
qed (simp add: top_number_def)

lemma newest_number:
  assumes "good_view C nm stamps V" and "sorted_wrt (<) stamps" and "newest V l"
  shows "build_number l = top_number V"
proof -
  have l: "l \<in> set V" using assms(3) by (simp add: newest_def)
  have "build_number c \<le> build_number l" if "c \<in> set V" for c
    using assms(3) that good_view_order [OF assms(1,2) l that] by (auto simp: newest_def not_less)
  with l top_number_eq show ?thesis by metis
qed

lemma number_newest:
  assumes "good_view C nm stamps V" and "sorted_wrt (<) stamps" and "b \<in> set V" and "build_number b = top_number V"
  shows "newest V b"
  unfolding newest_def
proof (intro conjI ballI)
  fix key assume "key \<in> set (map creation_key V)"
  then obtain c where c: "c \<in> set V" "key = creation_key c" by auto
  then have "\<not> build_number b < build_number c" using top_number_ge [OF c(1)] assms(4) by simp
  then show "key \<le> creation_key b" using good_view_order [OF assms(1,2,3) c(1)] c(2) by simp
qed (rule assms(3))

section \<open>Contents of the server\<close>

lemma apply_events_append: "apply_events ok t (es @ fs) s = apply_events ok t fs (apply_events ok t es s)"
  by (simp add: apply_events_def)

lemma apply_upkeep: "list_all upkeep es \<Longrightarrow> apply_events ok t es s = s"
proof (induction es)
  case Nil
  then show ?case by (simp add: apply_events_def)
next
  case (Cons e es)
  then show ?case by (cases e) (simp_all add: apply_events_def)
qed

lemma put_builds_simps [simp]:
  "cl_builds (put_builds bs s) = bs" "cl_now (put_builds bs s) = cl_now s" "cl_issued (put_builds bs s) = cl_issued s"
  "cl_stamps (put_builds bs s) = cl_stamps s" "cl_views (put_builds bs s) = cl_views s @ [bs]"
  by (simp_all add: put_builds_def)

lemma running_seen_same: "distinct (map build_number V) \<Longrightarrow> running_seen V V"
  by (auto simp: running_seen_def distinct_map inj_on_def)

lemma inv_views: "cluster_inv C nm k p s \<Longrightarrow> i < length (cl_views s) \<Longrightarrow>
    good_view C nm (cl_stamps s) (cl_views s ! i) \<and> running_seen (cl_builds s) (cl_views s ! i)"
  unfolding cluster_inv_def using nth_mem by blast

lemma inv_builds: "cluster_inv C nm k p s \<Longrightarrow> good_view C nm (cl_stamps s) (cl_builds s)"
  unfolding cluster_inv_def by (metis last_in_set)

text \<open>A new content that keeps the newest build and starts no build again.\<close>

lemma inv_put:
  assumes inv: "cluster_inv C nm k p s" and good: "good_view C nm (cl_stamps s) bs"
    and top: "top_number bs = int (length (cl_stamps s))"
    and run: "\<And>c. c \<in> set bs \<Longrightarrow> is_running (Some c) \<Longrightarrow>
      \<exists>d \<in> set (cl_builds s). build_number d = build_number c \<and> is_running (Some d)"
  shows "cluster_inv C nm k p (put_builds bs s)"
proof -
  have seen: "running_seen bs V" if V: "V \<in> set (cl_views s)" for V
  proof -
    have "running_seen (cl_builds s) V" using inv V unfolding cluster_inv_def by blast
    then show ?thesis unfolding running_seen_def using run by metis
  qed
  have tops: "sorted (map top_number (cl_views s @ [bs]))"
  proof -
    have "top_number V \<le> top_number bs" if "V \<in> set (cl_views s)" for V
      using inv that good_view_top [of C nm "cl_stamps s" V] top by (auto simp: cluster_inv_def)
    then show ?thesis using inv by (auto simp: cluster_inv_def sorted_append)
  qed
  have last: "is_running (Some c) \<Longrightarrow> build_number c = int (length (cl_stamps s))" if "c \<in> set bs" for c
    using run [OF that] inv by (auto simp: cluster_inv_def)
  have "running_seen bs bs" using good by (simp add: good_view_def running_seen_same)
  then show ?thesis
    using inv good top seen tops last unfolding cluster_inv_def by (auto simp: nth_append)
qed

lemma inv_mono: "cluster_inv C nm k p s \<Longrightarrow> k \<le> l \<Longrightarrow> cluster_inv C nm l p s"
  by (auto simp: cluster_inv_def)

lemma inv_forget:
  assumes inv: "cluster_inv C nm k p s" and q: "p \<le> q" "q < length (cl_views s)"
  shows "cluster_inv C nm k 0 (forget_views q s)"
proof -
  have "top_number (cl_views s ! p) \<le> top_number (cl_views s ! q)"
  proof -
    have "map top_number (cl_views s) ! p \<le> map top_number (cl_views s) ! q"
      by (rule sorted_nth_mono) (use inv q in \<open>auto simp: cluster_inv_def\<close>)
    then show ?thesis using q by simp
  qed
  then show ?thesis
    using inv q set_drop_subset [of q "cl_views s"]
    by (auto simp: cluster_inv_def forget_views_def drop_map [symmetric] sorted_wrt_drop)
qed

lemma map_update_same: "f x = f (xs ! i) \<Longrightarrow> map f (xs[i := x]) = map f xs"
  by (metis list_update_id map_update)

text \<open>A change of the status of a build that does not start it again.\<close>

lemma inv_updated:
  assumes inv: "cluster_inv C nm k p s" and i: "i < length (cl_builds s)"
    and meta: "b_meta b' = b_meta (cl_builds s ! i)"
    and run: "is_running (Some b') \<Longrightarrow> is_running (Some (cl_builds s ! i))"
  shows "cluster_inv C nm k p (put_builds ((cl_builds s)[i := b']) s)"
proof -
  let ?bs = "cl_builds s" and ?cs = "(cl_builds s)[i := b']"
  have number: "build_number b' = build_number (?bs ! i)" by (simp add: build_number_def build_counter_meta [OF meta])
  have numbers: "map build_number ?cs = map build_number ?bs" by (rule map_update_same) (rule number)
  have origin: "\<exists>d \<in> set ?bs. b_meta d = b_meta c \<and> (is_running (Some c) \<longrightarrow> is_running (Some d))" if c: "c \<in> set ?cs" for c
  proof -
    obtain j where j: "j < length ?bs" "c = ?cs ! j" using c unfolding in_set_conv_nth by auto
    show ?thesis
    proof (cases "j = i")
      case True
      with j i have "c = b'" by simp
      with i meta run show ?thesis by (metis nth_mem)
    next
      case False
      with j have "c = ?bs ! j" by simp
      with j(1) show ?thesis by (metis nth_mem)
    qed
  qed
  have "\<exists>j. made_at C nm (cl_stamps s) j c" if "c \<in> set ?cs" for c
    using origin [OF that] inv_builds [OF inv] made_at_meta unfolding good_view_def by metis
  moreover have "distinct (map build_number ?cs)" using inv_builds [OF inv] unfolding numbers good_view_def by blast
  ultimately have good: "good_view C nm (cl_stamps s) ?cs" by (simp add: good_view_def)
  have "top_number ?cs = top_number ?bs" using numbers by (simp add: top_number_def)
  then have top: "top_number ?cs = int (length (cl_stamps s))" using inv by (simp add: cluster_inv_def)
  show ?thesis
  proof (rule inv_put [OF inv good top])
    fix c assume c: "c \<in> set ?cs" "is_running (Some c)"
    obtain d where "d \<in> set ?bs" "b_meta d = b_meta c" "is_running (Some d)" using origin [OF c(1)] c(2) by blast
    then show "\<exists>d \<in> set ?bs. build_number d = build_number c \<and> is_running (Some d)"
      using build_counter_meta [of d c] by (intro bexI [of _ d]) (simp_all add: build_number_def)
  qed
qed

section \<open>Deletions\<close>

lemma inv_deleted:
  assumes inv: "cluster_inv C nm k p s" and names: "distinct_build_names C nm"
    and n: "n = build_name_for C nm m" "m < int (length (cl_stamps s))"
  shows "cluster_inv C nm k p (put_builds (filter (\<lambda>b. meta_name (b_meta b) \<noteq> n) (cl_builds s)) s)"
proof -
  let ?bs = "cl_builds s" and ?cs = "filter (\<lambda>b. meta_name (b_meta b) \<noteq> n) (cl_builds s)"
  have good: "good_view C nm (cl_stamps s) ?cs" using inv_builds [OF inv] by (auto simp: good_view_def distinct_map_filter)
  have top: "top_number ?bs = int (length (cl_stamps s))" using inv by (simp add: cluster_inv_def)
  have "top_number ?cs = int (length (cl_stamps s))"
  proof (cases "?bs = []")
    case True
    then show ?thesis using top by simp
  next
    case False
    obtain b where b: "b \<in> set ?bs" "build_number b = top_number ?bs" using top_number_in [OF False] by blast
    then obtain j where j: "made_at C nm (cl_stamps s) j b" using inv_builds [OF inv] by (auto simp: good_view_def)
    have "meta_name (b_meta b) = build_name_for C nm (top_number ?bs)"
      using j b(2) made_at_number [OF j] by (simp add: made_at_def)
    then have "meta_name (b_meta b) \<noteq> n" using names n top unfolding distinct_build_names_def by (metis less_irrefl)
    then have in_cs: "b \<in> set ?cs" using b(1) by simp
    have "top_number ?cs = build_number b"
      by (rule top_number_eq [OF in_cs]) (use top_number_ge [of _ ?bs] b(2) in auto)
    with b(2) top show ?thesis by simp
  qed
  then show ?thesis by (rule inv_put [OF inv good]) auto
qed

lemma inv_deletions:
  assumes "cluster_inv C nm k p s" and "distinct_build_names C nm"
    and "\<forall>d \<in> set ds. \<exists>m < int (length (cl_stamps s)). meta_name (b_meta d) = build_name_for C nm m"
  shows "cluster_inv C nm k p (apply_events ok t (map (deletion im) ds) s) \<and>
     length (cl_views s) \<le> length (cl_views (apply_events ok t (map (deletion im) ds) s))"
  using assms(1,3)
proof (induction ds arbitrary: s)
  case Nil
  then show ?case by (simp add: apply_events_def)
next
  case (Cons d ds)
  let ?s' = "apply_event ok t (deletion im d) s"
  have inv': "cluster_inv C nm k p ?s'"
    using inv_deleted [OF Cons.prems(1) assms(2)] Cons.prems by (auto simp: deletion_def)
  have same: "cl_stamps ?s' = cl_stamps s" "length (cl_views s) \<le> length (cl_views ?s')" by (simp_all add: deletion_def)
  have "cluster_inv C nm k p (apply_events ok t (map (deletion im) ds) ?s') \<and>
      length (cl_views ?s') \<le> length (cl_views (apply_events ok t (map (deletion im) ds) ?s'))"
    using Cons.IH [OF inv'] Cons.prems(2) same(1) by simp
  then show ?case using same(2) by (simp add: apply_events_def)
qed

text \<open>A build that pruning picks from a content, however old, is not the newest ever made.\<close>

lemma pruned_is_older:
  assumes good: "good_view C nm stamps V" and sorted: "sorted_wrt (<) stamps" and same: "mset bs = mset V"
    and lim: "limits_positive im" and d: "prunable im bs d"
  shows "\<exists>m < int (length stamps). meta_name (b_meta d) = build_name_for C nm m"
proof -
  have good': "good_view C nm stamps bs" using good_view_mset [OF same] good by simp
  obtain c where c: "c \<in> set bs" "creation_key d < creation_key c"
    using prunable_not_newest [OF d lim good_view_distinct [OF good' sorted]] by blast
  have "d \<in> set bs" using d by (simp add: prunable_def)
  then obtain j where j: "made_at C nm stamps j d" using good' by (auto simp: good_view_def)
  have "build_number d < build_number c" using good_view_order [OF good' sorted \<open>d \<in> set bs\<close> c(1)] c(2) by simp
  also have "\<dots> \<le> int (length stamps)" using top_number_ge [OF c(1)] good_view_top [OF good'] by simp
  finally show ?thesis using j made_at_number [OF j] by (auto simp: made_at_def)
qed

section \<open>Creations\<close>

lemma sorted_wrt_snoc:
  fixes xs :: "int list"
  assumes "sorted_wrt (<) xs" and "\<forall>x \<in> set xs. x \<le> t" and "t \<notin> set xs"
  shows "sorted_wrt (<) (xs @ [t])"
proof -
  have "\<forall>x \<in> set xs. x < t" using assms(2,3) by (metis order_less_le)
  with assms(1) show ?thesis by (simp add: sorted_wrt_append)
qed

lemma inv_created:
  assumes inv: "cluster_inv C nm k p s" and time: "cl_now s \<le> t" "t \<notin> set (cl_stamps s)"
    and i: "i < length (cl_views s)" "top_number (cl_views s ! i) = int (length (cl_stamps s))"
    and idle: "\<forall>c \<in> set (cl_builds s). \<not> is_running (Some c)"
    and number: "build_counter (Some b) = Inr (int (length (cl_stamps s)) + 1)"
    and name: "meta_name (b_meta b) = build_name_for C nm (int (length (cl_stamps s)) + 1)"
  shows "cluster_inv C nm (Suc k) i ((put_builds (cl_builds s @ [stamp t b]) s)
           \<lparr>cl_now := t, cl_issued := cl_issued s @ [build_number b], cl_stamps := cl_stamps s @ [t]\<rparr>)"
proof -
  let ?n = "length (cl_stamps s)" and ?ts = "cl_stamps s @ [t]" and ?bs = "cl_builds s @ [stamp t b]"
  have made: "made_at C nm ?ts ?n (stamp t b)" using number name by (simp add: made_at_def add.commute)
  have num: "build_number (stamp t b) = int ?n + 1" using made_at_number [OF made] by simp
  have old: "build_number c \<le> int ?n" if "c \<in> set (cl_builds s)" for c
    using top_number_ge [OF that] inv by (simp add: cluster_inv_def)
  have good: "good_view C nm ?ts ?bs"
  proof -
    have "good_view C nm ?ts (cl_builds s)" by (rule good_view_more [OF inv_builds [OF inv]])
    moreover have "build_number (stamp t b) \<notin> build_number ` set (cl_builds s)" using num old by force
    ultimately show ?thesis using made by (auto simp: good_view_def)
  qed
  have top: "top_number ?bs = int ?n + 1"
    using top_number_eq [of "stamp t b" ?bs] num old by force
  have views: "good_view C nm ?ts V \<and> running_seen ?bs V \<and> top_number V \<le> int ?n" if V: "V \<in> set (cl_views s)" for V
  proof -
    have V': "good_view C nm (cl_stamps s) V" using inv V by (simp add: cluster_inv_def)
    have le: "top_number V \<le> int ?n" using good_view_top [OF V'] by simp
    have "build_number c < build_number (stamp t b)" if "c \<in> set V" for c using top_number_ge [OF that] le num by simp
    then have "running_seen ?bs V" using idle by (fastforce simp: running_seen_def)
    with V' le show ?thesis by (simp add: good_view_more)
  qed
  have tops: "sorted (map top_number (cl_views s @ [?bs]))"
  proof -
    have "\<forall>V \<in> set (cl_views s). top_number V \<le> top_number ?bs" using views top by force
    then show ?thesis using inv by (auto simp: cluster_inv_def sorted_append)
  qed
  have stamps: "sorted_wrt (<) ?ts" "\<forall>u \<in> set ?ts. u \<le> t"
    using inv time by (auto simp: cluster_inv_def intro!: sorted_wrt_snoc dest: order_trans)
  have run: "build_number c = int ?n + 1" if "c \<in> set ?bs" "is_running (Some c)" for c
    using that idle num by auto
  have "running_seen ?bs ?bs" using good by (simp add: good_view_def running_seen_same)
  moreover have "build_number b = int ?n + 1" using num by simp
  ultimately show ?thesis
    using inv good top views tops stamps run i unfolding cluster_inv_def by (auto simp: nth_append)
qed

text \<open>
  What a scheduled build is, from a content at a position the cache may show: either it is the next one, and
  nothing runs; or the content is one build behind, and the server has a build of that name.
\<close>

lemma scheduled_from_view:
  assumes inv: "cluster_inv C nm k p s" and k: "fits64 (int k + 1)" and srt: "go_sort (ic_sort C) creation_key"
    and nm: "meta_name (im_meta im) = nm"
    and i: "p \<le> i" "i < length (cl_views s)" and seen: "mset bs = mset (cl_views s ! i)"
    and latest: "latest = bl_last (new_build_list (ic_sort C) bs)"
    and idle: "\<not> is_running latest" and b: "scheduled_for C im latest sr bd b"
  shows "top_number (cl_views s ! i) = int (length (cl_stamps s)) \<and> (\<forall>c \<in> set (cl_builds s). \<not> is_running (Some c)) \<and>
       build_counter (Some b) = Inr (int (length (cl_stamps s)) + 1) \<and>
       meta_name (b_meta b) = build_name_for C nm (int (length (cl_stamps s)) + 1) \<or>
     meta_name (b_meta b) \<in> build_names (cl_builds s)"
proof -
  let ?V = "cl_views s ! i" and ?n = "int (length (cl_stamps s))"
  have V: "good_view C nm (cl_stamps s) ?V" "running_seen (cl_builds s) ?V" using inv_views [OF inv i(2)] by simp_all
  have sorted: "sorted_wrt (<) (cl_stamps s)" using inv by (simp add: cluster_inv_def)
  have bs: "good_view C nm (cl_stamps s) bs" "top_number bs = top_number ?V"
    using good_view_mset [OF seen] V(1) top_number_mset [OF seen] by simp_all
  have low: "?n \<le> top_number ?V + 1"
  proof -
    have "map top_number (cl_views s) ! p \<le> map top_number (cl_views s) ! i"
      by (rule sorted_nth_mono) (use inv i in \<open>auto simp: cluster_inv_def\<close>)
    then show ?thesis using inv i by (auto simp: cluster_inv_def)
  qed
  have high: "top_number ?V \<le> ?n" "0 \<le> top_number ?V" using good_view_top [OF V(1)] by simp_all
  have counter: "build_counter latest = Inr (top_number ?V)"
  proof (cases latest)
    case None
    then have "bs = []" using latest last_build_None_iff [OF srt] by simp
    then show ?thesis using None bs(2) by (simp add: build_counter_def top_number_def)
  next
    case (Some l)
    have l: "newest bs l" using last_build_newest [OF srt, of bs l] Some latest by (simp add: newest_def)
    then obtain j where "made_at C nm (cl_stamps s) j l" using bs(1) by (auto simp: newest_def good_view_def)
    then show ?thesis using newest_number [OF bs(1) sorted l] bs(2) Some made_at_number [of C nm "cl_stamps s" j l]
      by (simp add: made_at_def)
  qed
  have "fits64 (top_number ?V + 1)"
    using high inv k by (auto simp: cluster_inv_def fits64_def int64_min_def)
  then have num: "build_counter (Some b) = Inr (top_number ?V + 1)"
    "meta_name (b_meta b) = build_name_for C nm (top_number ?V + 1)"
    using scheduled_for_number(2,3) [OF b counter] by (simp_all add: wrap64_id generate_build_name_def build_name_for_def nm)
  show ?thesis
  proof (cases "top_number ?V = ?n")
    case True
    have "\<not> is_running (Some c)" if c: "c \<in> set (cl_builds s)" for c
    proof
      assume r: "is_running (Some c)"
      then have cn: "build_number c = ?n" using inv c by (simp add: cluster_inv_def)
      obtain j where "made_at C nm (cl_stamps s) j c" using inv_builds [OF inv] c by (auto simp: good_view_def)
      then have "0 < ?n" by (auto simp: made_at_def)
      then have "bs \<noteq> []" using True bs(2) by (auto simp: top_number_def)
      then have "latest \<noteq> None" unfolding latest by (simp only: last_build_None_iff [OF srt] not_False_eq_True)
      then obtain l where l: "latest = Some l" by blast
      then have new: "newest bs l" using last_build_newest [OF srt, of bs l] latest by (simp add: newest_def)
      then have "build_number l = build_number c" using newest_number [OF bs(1) sorted new] bs(2) True cn by simp
      moreover have "l \<in> set ?V" using new seen by (metis newest_def set_mset_mset)
      ultimately have "is_running (Some l)" using V(2) c r by (auto simp: running_seen_def)
      with idle l show False by simp
    qed
    with num True show ?thesis by simp
  next
    case False
    then have less: "top_number ?V + 1 = ?n" using low high by simp
    have top: "top_number (cl_builds s) = ?n" using inv by (simp add: cluster_inv_def)
    then have "cl_builds s \<noteq> []" using less high by (auto simp: top_number_def)
    then obtain c where c: "c \<in> set (cl_builds s)" "build_number c = ?n" using top_number_in top by metis
    obtain j where j: "made_at C nm (cl_stamps s) j c" using inv_builds [OF inv] c(1) by (auto simp: good_view_def)
    then have "meta_name (b_meta c) = build_name_for C nm ?n" using made_at_number [OF j] c(2) by (simp add: made_at_def)
    then have "meta_name (b_meta b) \<in> build_names (cl_builds s)" using c(1) num(2) less by (force simp: build_names_def)
    then show ?thesis by simp
  qed
qed

lemma apply_create:
  "apply_events ok t (map CreateBuild [b]) s =
     (if ok (CreateBuild b) \<and> meta_name (b_meta b) \<notin> build_names (cl_builds s)
      then (put_builds (cl_builds s @ [stamp t b]) s)
             \<lparr>cl_now := t, cl_issued := cl_issued s @ [build_number b], cl_stamps := cl_stamps s @ [t]\<rparr>
      else s)"
  by (simp add: apply_events_def)

lemma deletions_keep:
  "cl_stamps (apply_events ok t (map (deletion im) ds) s) = cl_stamps s \<and>
   (\<exists>vs. cl_views (apply_events ok t (map (deletion im) ds) s) = cl_views s @ vs)"
proof (induction ds arbitrary: s)
  case (Cons d ds)
  have "cl_stamps (apply_event ok t (deletion im d) s) = cl_stamps s \<and> (\<exists>vs. cl_views (apply_event ok t (deletion im d) s) = cl_views s @ vs)"
    by (simp add: deletion_def)
  with Cons [of "apply_event ok t (deletion im d) s"] show ?case by (auto simp: apply_events_def)
qed (simp add: apply_events_def)

text \<open>The creation of a run, if any: after it the invariant holds from a position that the run has read.\<close>

lemma inv_create_phase:
  assumes inv: "cluster_inv C nm k 0 s" and k: "fits64 (int k + 1)" and srt: "go_sort (ic_sort C) creation_key"
    and im: "meta_name (im_meta im) = nm" and time: "cl_now s \<le> t"
    and cs: "length cs \<le> 1" "\<forall>b \<in> set cs. \<exists>sr bd. scheduled_for C im latest sr bd b"
    and create: "cs \<noteq> [] \<Longrightarrow> \<not> is_running latest \<and>
      (\<exists>bs. \<exists>i \<le> q. i < length (cl_views s) \<and> mset bs = mset (cl_views s ! i) \<and> latest = bl_last (new_build_list (ic_sort C) bs))"
    and stamps: "distinct (cl_stamps (apply_events ok t (map CreateBuild cs) s))"
  shows "\<exists>i \<le> q. cluster_inv C nm (Suc k) i (apply_events ok t (map CreateBuild cs) s)"
proof (cases cs)
  case Nil
  then show ?thesis using inv_mono [OF inv] by (intro exI [of _ 0]) (simp add: apply_events_def)
next
  case (Cons b rest)
  then have cs: "cs = [b]" using cs(1) by simp
  obtain sr bd where b: "scheduled_for C im latest sr bd b" using assms(7) cs by auto
  obtain bs i where i: "\<not> is_running latest" "i \<le> q" "i < length (cl_views s)" "mset bs = mset (cl_views s ! i)"
    "latest = bl_last (new_build_list (ic_sort C) bs)" using create Cons by auto
  show ?thesis
  proof (cases "ok (CreateBuild b) \<and> meta_name (b_meta b) \<notin> build_names (cl_builds s)")
    case True
    then have "t \<notin> set (cl_stamps s)" using stamps unfolding cs apply_create by simp
    then have "cluster_inv C nm (Suc k) i (apply_events ok t (map CreateBuild cs) s)"
      using inv_created [OF inv time _ i(3), of b] scheduled_from_view [OF inv k srt im _ i(3,4,5,1) b] True
      unfolding cs apply_create by auto
    with i(2) show ?thesis by blast
  next
    case False
    then have "apply_events ok t (map CreateBuild cs) s = s" unfolding cs apply_create by (simp only: if_False)
    then show ?thesis using inv_mono [OF inv] by (intro exI [of _ 0]) simp
  qed
qed

lemma inv_reconciled:
  assumes inv: "cluster_inv C nm k 0 s" and k: "fits64 (int k + 1)" and srt: "go_sort (ic_sort C) creation_key"
    and names: "distinct_build_names C nm" and im: "meta_name (im_meta im) = nm" and lim: "limits_positive im"
    and reads: "reads_cache q ok t C E im s" and time: "cl_now s \<le> t"
    and q: "q < length (cl_views (apply_events ok t (snd (reconcile_image C E im [])) s))"
    and stamps: "distinct (cl_stamps (apply_events ok t (snd (reconcile_image C E im [])) s))"
  shows "cluster_inv C nm (Suc k) 0 (forget_views q (apply_events ok t (snd (reconcile_image C E im [])) s))"
proof -
  obtain pre cs ds latest where run: "snd (reconcile_image C E im []) =
      pre @ map CreateBuild cs @ map (deletion im) ds" and shape: "run_shape C E im [] latest pre cs ds"
    and create: "cs \<noteq> [] \<longrightarrow> \<not> is_running latest \<and> (\<exists>h es bs. list_all upkeep h \<and>
        snd (reconcile_image C E im []) = h @ es \<and>
        e_list_builds E h (meta_namespace (im_meta im)) (meta_name (im_meta im)) = Inr bs \<and>
        latest = bl_last (new_build_list (ic_sort C) bs))"
    using reconcile_image_shape [OF srt, of E im] by blast
  have pre: "list_all upkeep pre" using shape by (simp add: run_shape_def)
  let ?s1 = "apply_events ok t (map CreateBuild cs) s"
  let ?s2 = "apply_events ok t (map (deletion im) ds) ?s1"
  have whole: "apply_events ok t (snd (reconcile_image C E im [])) s = ?s2"
    by (simp add: run apply_events_append apply_upkeep [OF pre])
  obtain i where i: "i \<le> q" "cluster_inv C nm (Suc k) i ?s1"
  proof (rule inv_create_phase [OF inv k srt im time, THEN exE])
    show "length cs \<le> 1" "\<forall>b \<in> set cs. \<exists>sr bd. scheduled_for C im latest sr bd b" using shape by (simp_all add: run_shape_def)
    show "distinct (cl_stamps ?s1)" using stamps deletions_keep [of ok t im ds ?s1] unfolding whole by simp
    show "\<not> is_running latest \<and> (\<exists>bs. \<exists>i \<le> q. i < length (cl_views s) \<and> mset bs = mset (cl_views s ! i) \<and>
        latest = bl_last (new_build_list (ic_sort C) bs))" if cs: "cs \<noteq> []"
    proof -
      obtain h es bs where h: "list_all upkeep h" "snd (reconcile_image C E im []) = h @ es"
        "e_list_builds E h (meta_namespace (im_meta im)) (meta_name (im_meta im)) = Inr bs"
        "latest = bl_last (new_build_list (ic_sort C) bs)" using create cs by blast
      then show ?thesis using create cs reads [unfolded reads_cache_def, rule_format, OF h(2,3)] apply_upkeep [OF h(1)] by auto
    qed
  qed (blast intro: that)
  have pruned: "\<exists>m < int (length (cl_stamps ?s1)). meta_name (b_meta d) = build_name_for C nm m" if d: "d \<in> set ds" for d
  proof -
    obtain bs where bs: "e_list_builds E (pre @ map CreateBuild cs) (meta_namespace (im_meta im)) (meta_name (im_meta im)) = Inr bs"
      "list_all (prunable im bs) ds" using shape d by (cases ds) (auto simp: run_shape_def)
    have "snd (reconcile_image C E im []) = (pre @ map CreateBuild cs) @ map (deletion im) ds" by (simp add: run)
    from reads [unfolded reads_cache_def, rule_format, OF this bs(1)] obtain j where j: "j < length (cl_views ?s1)"
      "mset bs = mset (cl_views ?s1 ! j)" by (auto simp: apply_events_append apply_upkeep [OF pre])
    have "sorted_wrt (<) (cl_stamps ?s1)" using i(2) by (simp add: cluster_inv_def)
    then show ?thesis
      using pruned_is_older [OF conjunct1 [OF inv_views [OF i(2) j(1)]] _ j(2) lim] bs(2) d by (simp add: list_all_iff)
  qed
  have "cluster_inv C nm (Suc k) i ?s2" using inv_deletions [OF i(2) names] pruned by blast
  then show ?thesis using inv_forget [OF _ i(1)] q unfolding whole by blast
qed

section \<open>Runs\<close>

lemma distinct_all_equal:
  assumes "distinct xs" and "\<And>x y. x \<in> set xs \<Longrightarrow> y \<in> set xs \<Longrightarrow> x = y"
  shows "length xs \<le> 1"
  using assms card_le_Suc0_iff_eq [of "set xs"] by (metis List.finite_set One_nat_def distinct_card)

lemma cluster_inv_one_running:
  assumes inv: "cluster_inv C nm k p s"
  shows "length (filter (\<lambda>b. is_running (Some b)) (cl_builds s)) \<le> 1 \<and>
     (\<forall>b \<in> set (cl_builds s). is_running (Some b) \<longrightarrow> newest (cl_builds s) b)"
proof -
  let ?f = "filter (\<lambda>b. is_running (Some b)) (cl_builds s)"
  have good: "good_view C nm (cl_stamps s) (cl_builds s)" by (rule inv_builds [OF inv])
  have sorted: "sorted_wrt (<) (cl_stamps s)" using inv by (simp add: cluster_inv_def)
  have run: "\<forall>b \<in> set (cl_builds s). is_running (Some b) \<longrightarrow> build_number b = top_number (cl_builds s)"
    using inv by (simp add: cluster_inv_def)
  have inj: "distinct (map build_number (cl_builds s))" using good by (simp add: good_view_def)
  have "length ?f \<le> 1"
  proof (rule distinct_all_equal)
    show "distinct ?f" using inj by (simp add: distinct_map)
    show "b = c" if "b \<in> set ?f" "c \<in> set ?f" for b c
    proof -
      have "b \<in> set (cl_builds s)" "c \<in> set (cl_builds s)" "build_number b = build_number c" using that run by auto
      with inj show ?thesis unfolding distinct_map by (metis inj_onD)
    qed
  qed
  with run number_newest [OF good sorted] show ?thesis by blast
qed

lemma apply_event_stamps: "\<exists>ts. cl_stamps (apply_event ok t e s) = cl_stamps s @ ts"
  by (cases e) auto

lemma apply_events_stamps: "\<exists>ts. cl_stamps (apply_events ok t es s) = cl_stamps s @ ts"
proof (induction es arbitrary: s)
  case (Cons e es)
  obtain ts where "cl_stamps (apply_event ok t e s) = cl_stamps s @ ts" using apply_event_stamps by blast
  with Cons [of "apply_event ok t e s"] show ?case by (auto simp: apply_events_def)
qed (simp add: apply_events_def)

lemma cluster_step_stamps: "cluster_step C nm s s' \<Longrightarrow> \<exists>ts. cl_stamps s' = cl_stamps s @ ts"
proof (erule cluster_step.cases)
  fix im q ok t E s0 s1 s2
  assume "s = s0" "s' = s2" "s1 = apply_events ok t (snd (reconcile_image C E im [])) s0" "s2 = forget_views q s1"
  then show ?thesis using apply_events_stamps [of ok t "snd (reconcile_image C E im [])" s0] by (simp add: forget_views_def)
qed simp

lemma cluster_step_inv:
  assumes "cluster_step C nm s s'" and "cluster_inv C nm k 0 s" and "fits64 (int k + 1)"
    and "go_sort (ic_sort C) creation_key" and "distinct_build_names C nm" and "distinct (cl_stamps s')"
  shows "cluster_inv C nm (Suc k) 0 s'"
  using assms(1)
proof cases
  case (reconciled im q ok t E s1)
  then show ?thesis using inv_reconciled [OF assms(2-5)] assms(6) by (simp add: forget_views_def)
next
  case (progressed i b')
  then show ?thesis using inv_mono [OF inv_updated [OF assms(2)]] by simp
qed

lemma empty_cluster_inv: "cluster_inv C nm 0 0 empty_cluster"
  by (simp add: cluster_inv_def empty_cluster_def good_view_def running_seen_def top_number_def)

lemma cluster_run_inv:
  assumes "(cluster_step C nm ^^ k) empty_cluster s" and "fits64 (int k)"
    and "go_sort (ic_sort C) creation_key" and "distinct_build_names C nm" and "distinct (cl_stamps s)"
  shows "cluster_inv C nm k 0 s"
  using assms(1,2,5)
proof (induction k arbitrary: s)
  case 0
  then show ?case using empty_cluster_inv by simp
next
  case (Suc k)
  then obtain s0 where run: "(cluster_step C nm ^^ k) empty_cluster s0" and step: "cluster_step C nm s0 s" by auto
  have "distinct (cl_stamps s0)" using cluster_step_stamps [OF step] Suc.prems(3) by auto
  with Suc.IH [OF run] Suc.prems(2) have "cluster_inv C nm k 0 s0" by (simp add: fits64_def int64_min_def)
  with cluster_step_inv [OF step] show ?case using Suc.prems assms(3,4) by (simp add: add.commute)
qed

end
