(* ===== verification/Samples.thy ===== *)
theory Samples
  imports Image_Cluster
begin

text \<open>
  Concrete objects at which the properties are exercised: a library of functions, an image that
  builds a git commit, its resolver and builder, and an API server that holds the given builds.
\<close>

definition sample_lib :: lib where
  "sample_lib =
     \<lparr>lib_parse_reference = (\<lambda>s. if s = '''' then Inl (Failed Plain ''could not parse reference: '')
                              else Inr \<lparr>ref_identifier = s, ref_registry = ''registry.example''\<rparr>),
      lib_new_tag = (\<lambda>s. Inr \<lparr>tag_str = ''latest'', tag_registry = ''registry.example'', tag_repository = ''app''\<rparr>),
      lib_child_name = (\<lambda>parent suffix. parent @ suffix),
      lib_semver_new = (\<lambda>s. Inr (Semver s)),
      lib_semver_less = (\<lambda>a b. length (sv_original a) < length (sv_original b)),
      lib_semver_equal = (\<lambda>a b. sv_original a = sv_original b)\<rparr>"

definition sample_changes :: change_lib where
  "sample_changes = \<lparr>cl_config_equal = (=), cl_buildpacks_equal = (=), cl_marshal = (\<lambda>_. Inr ''[]'')\<rparr>"

definition sample_clock :: clock where
  "sample_clock = \<lparr>clk_now = 100, clk_rfc1123z = ''Mon, 02 Jan 2006 15:04:05 -0700'', clk_date = ''20060102'',
     clk_hour = 15, clk_minute = 4, clk_second = 5\<rparr>"

definition sample_conf :: img_conf where
  "sample_conf = \<lparr>ic_lib = sample_lib, ic_changes = sample_changes, ic_clock = sample_clock,
     ic_sort = sort_builds, ic_spec_equal = (=), ic_labels_equal = (=), ic_resources_equal = (=),
     ic_status_equal = (=), ic_priority_classes = True, ic_default_storage_class = False\<rparr>"

definition sample_git :: git where
  "sample_git = \<lparr>git_url = ''https://git.example/app'', git_revision = ''main'', git_init_submodules = False\<rparr>"

definition sample_image :: image where
  "sample_image =
     \<lparr>im_meta = empty_meta\<lparr>meta_name := ''app'', meta_namespace := ''dev'', meta_generation := 1\<rparr>,
      im_spec = \<lparr>is_tag = ''registry.example/app'',
        is_builder = \<lparr>oref_kind = ''ClusterBuilder'', oref_namespace = '''', oref_name = ''base''\<rparr>,
        is_service_account = ''default'', is_source = empty_source\<lparr>src_git := Some sample_git\<rparr>,
        is_cache = None, is_failed_limit = Some 1, is_success_limit = Some 1,
        is_tagging = TaggingNone, is_project_descriptor = '''', is_build = None, is_notary = None,
        is_cosign = None, is_default_process = '''', is_additional_tags = []\<rparr>,
      im_status = \<lparr>ims_status = empty_status, ims_latest_build_ref = '''', ims_latest_build_generation = 0,
        ims_latest_image = '''', ims_latest_stack = '''', ims_build_counter = 0,
        ims_build_cache_name = '''', ims_latest_build_reason = ''''\<rparr>\<rparr>"

definition ready_status :: status where
  "ready_status = \<lparr>st_observed_generation = 0, st_conditions =
     [mk_condition ConditionReady ConditionTrue '''' '''' 0, mk_condition ConditionUpToDate ConditionTrue '''' '''' 0]\<rparr>"

definition sample_resolver :: source_resolver where
  "sample_resolver = (image_source_resolver sample_lib sample_image)
     \<lparr>sr_status := \<lparr>srt_status = ready_status, srt_source = empty_resolved
        \<lparr>rs_git := Some \<lparr>rg_url = ''https://git.example/app'', rg_revision = ''c0ffee'', rg_sub_path = '''',
           rg_tree = ''7'', rg_kind = GitBranch, rg_init_submodules = False\<rparr>\<rparr>\<rparr>\<rparr>"

definition sample_lifecycle :: resolved_lifecycle where
  "sample_lifecycle = \<lparr>rl_image_latest = '''', rl_image = '''', rl_version = ''0.17.0'', rl_api_buildpack = '''',
     rl_api_platform = '''', rl_buildpack_deprecated = [], rl_buildpack_supported = [''0.10''],
     rl_platform_deprecated = [], rl_platform_supported = [''0.12'']\<rparr>"

definition sample_builder_status :: builder_status where
  "sample_builder_status = \<lparr>bds_status = ready_status,
      bds_metadata = [\<lparr>bm_id = ''java'', bm_version = ''1'', bm_homepage = ''''\<rparr>], bds_order_detected = [],
      bds_stack_info = \<lparr>stack_run_image = ''run@sha256:1'', stack_id = ''jammy''\<rparr>,
      bds_lifecycle_info = sample_lifecycle, bds_latest_image = ''builder@sha256:2'',
      bds_observed_stack_generation = 0, bds_observed_store_generation = 0, bds_os = ''linux'',
      bds_signature_paths = []\<rparr>"

definition sample_builder :: duck_builder where
  "sample_builder = \<lparr>db_kind = ''ClusterBuilder'', db_meta = empty_meta\<lparr>meta_name := ''base''\<rparr>,
     db_pull_secrets = [], db_status = sample_builder_status\<rparr>"

definition sample_env :: "build list \<Rightarrow> img_env" where
  "sample_env bs = \<lparr>e_split_key = (\<lambda>_. Inr (''dev'', ''app'')),
     e_get_image = (\<lambda>_ _ _. Inr sample_image), e_get_builder = (\<lambda>_ _ _. Inr sample_builder),
     e_label_requirement = (\<lambda>_. Inr ()), e_list_builds = (\<lambda>_ _ _. Inr bs),
     e_get_source_resolver = (\<lambda>_ _ _. Inr sample_resolver),
     e_create_source_resolver = (\<lambda>_ s. Inr sample_resolver),
     e_update_source_resolver = (\<lambda>_ s. Inr sample_resolver),
     e_get_pvc = (\<lambda>_ _ _. Inl (Failed NotFound ''not found'')),
     e_create_pvc = (\<lambda>_ p. Inr p), e_update_pvc = (\<lambda>_ _. Inr ()), e_delete_pvc = (\<lambda>_ _ _ _. Inr ()),
     e_create_build = (\<lambda>_ b. (b, None)), e_delete_build = (\<lambda>_ _ _. Inr ()),
     e_update_status = (\<lambda>_ _. Inr ())\<rparr>"

lemmas sample_defs = sample_lib_def sample_changes_def sample_clock_def sample_conf_def sample_git_def
  sample_image_def ready_status_def sample_resolver_def sample_lifecycle_def sample_builder_status_def
  sample_builder_def sample_env_def

definition succeed :: "build \<Rightarrow> build" where
  "succeed b = b\<lparr>b_status := (b_status b)
     \<lparr>bst_status := \<lparr>st_observed_generation = 0,
        st_conditions = [mk_condition ConditionSucceeded ConditionTrue '''' '''' 0]\<rparr>,
      bst_stack := \<lparr>stack_run_image = ''run@sha256:1'', stack_id = ''jammy''\<rparr>,
      bst_lifecycle_version := ''0.17.0'', bst_latest_image := ''registry.example/app@sha256:3''\<rparr>\<rparr>"

section \<open>What holds of them\<close>

lemma sample_env_simps [simp]:
  "e_get_builder (sample_env bs) h ns r = Inr sample_builder"
  "e_get_source_resolver (sample_env bs) h ns n = Inr sample_resolver"
  "e_list_builds (sample_env bs) h ns n = Inr bs"
  "e_label_requirement (sample_env bs) n = Inr ()"
  "e_create_build (sample_env bs) h b = (b, None)"
  by (simp_all add: sample_env_def)

lemma sample_conf_simps [simp]:
  "ic_lib sample_conf = sample_lib" "ic_changes sample_conf = sample_changes"
  "ic_clock sample_conf = sample_clock" "ic_sort sample_conf = sort_builds"
  "ic_priority_classes sample_conf" "clk_now sample_clock = 100"
  by (simp_all add: sample_conf_def sample_clock_def)

lemma sample_resolver_equal [simp]:
  "source_resolvers_equal sample_conf (image_source_resolver sample_lib sample_image) sample_resolver"
  by (simp add: source_resolvers_equal_def sample_conf_def sample_resolver_def)

lemma sample_marshals: "marshals sample_changes"
  by (simp add: marshals_def sample_changes_def)

lemma sample_buildpacks_equal: "buildpacks_equal_ok sample_changes"
  by (simp add: buildpacks_equal_ok_def sample_changes_def)

lemma sample_ready: "sr_wf sample_resolver" "sr_ready sample_resolver" "db_ready sample_builder"
  by (simp_all add: sr_wf_def sr_ready_def db_ready_def sample_resolver_def sample_builder_def
      sample_builder_status_def ready_status_def get_condition_def mk_condition_def empty_resolved_def
      resolved_source_of_def image_source_resolver_def empty_meta_def)

lemma sample_sort: "go_sort (ic_sort sample_conf) creation_key"
  by (simp add: sample_conf_def builds_sort.go_sort_axioms)

definition sample_build :: build where
  "sample_build = projr (build_for_image sample_lib sample_clock sample_image sample_resolver sample_builder
     None ''CONFIG'' ''[]'' 1 BuildPriorityClassHigh)"

lemma sample_build_made:
  "build_for_image sample_lib sample_clock sample_image sample_resolver sample_builder None
     ''CONFIG'' ''[]'' 1 BuildPriorityClassHigh = Inr sample_build"
proof -
  have "\<exists>b. build_for_image sample_lib sample_clock sample_image sample_resolver sample_builder None
     ''CONFIG'' ''[]'' 1 BuildPriorityClassHigh = Inr b"
    by (simp add: build_for_image_def sr_source_config_def resolved_source_of_def sample_resolver_def Let_def)
  then show ?thesis by (auto simp: sample_build_def)
qed

lemma sample_build_running: "is_running (Some sample_build)"
  by (rule build_for_image_running [OF sample_build_made])

definition sample_required_result :: build_required_result where
  "sample_required_result = \<lparr>brr_status = ConditionTrue, brr_reasons = ''CONFIG'', brr_changes = ''[]'',
     brr_priority_class = BuildPriorityClassHigh\<rparr>"

lemma sample_required:
  "is_build_required sample_lib sample_changes sample_clock sample_image None sample_resolver sample_builder
     = Inr sample_required_result"
proof -
  obtain cfg where cfg: "config_change sample_image None sample_resolver = Inr (Some cfg)"
    "change_required sample_changes cfg = Inr True" "change_reason cfg = CONFIG"
    by (simp add: config_change_def sr_source_config_def resolved_source_of_def sample_resolver_def
        config_change_required_def blank_revision_def build_config_def empty_config_def image_config_def
        git_source_config_def sample_changes_def empty_source_def)
  have prio: "change_priority cfg = BuildPriorityHigh" using cfg(3) by (cases cfg) simp_all
  have "fold (process sample_changes) (all_changes sample_lib sample_clock sample_image None
      sample_resolver sample_builder (Some cfg)) new_change_processor =
    \<lparr>cp_changes = [new_generic_change cfg], cp_errs = []\<rparr>"
    by (simp add: all_changes_def trigger_change_def commit_change_def buildpack_change_def
        stack_change_def lifecycle_change_def process_def new_change_processor_def cfg)
  then show ?thesis
    using prio cfg(1,3)
    by (simp add: is_build_required_def sample_ready summarize_def changes_str_def has_changes_def
        reasons_str_def cp_priority_def new_change_summary_def summary_is_valid_def
        new_build_required_result_def new_generic_change_def sample_required_result_def
        sample_changes_def priority_defs)
       (simp add: priority_class_def PriorityClasses_def priority_defs)
qed

text \<open>The first reconcile of the sample image creates build number 1.\<close>

lemma sample_first_run:
  "snd (reconcile_image sample_conf (sample_env []) sample_image []) =
     [Track (reconciler_key_for_builder_kind sample_image) (image_namespaced_name sample_image),
      CreateBuild sample_build]"
proof -
  have cache: "reconcile_build_cache sample_conf (sample_env []) sample_image h = (Inr '''', h)" for h
    by (simp add: reconcile_build_cache_def reconcile_no_build_cache_def is_need_volume_cache_def
        sample_image_def sample_env_def io_simps)
  have sr: "reconcile_source_resolver sample_conf (sample_env []) sample_image h = (Inr sample_resolver, h)" for h
    using sample_resolver_equal by (simp add: reconcile_source_resolver_def io_simps Let_def)
  have one: "wrap64 1 = 1" by (simp add: wrap64_def)
  have build: "reconcile_build sample_conf (sample_env []) sample_image None sample_resolver sample_builder '''' h =
     (Inr (status_of_build (scheduled_build_condition 100 sample_build sample_builder) 1 '''' sample_image
        None (Some sample_build)), h @ [CreateBuild sample_build])" for h
    using sample_required sample_build_made one
    by (simp add: reconcile_build_def schedule_build_def create_build_def build_counter_def io_simps
        sample_required_result_def)
  have last: "fetch_last_build sample_conf (sample_env []) sample_image h = (Inr None, h)" for h
    by (simp add: fetch_last_build_def fetch_all_builds_def io_simps new_build_list_def sort_builds_def)
  have del: "delete_old_builds sample_conf (sample_env []) (sample_image\<lparr>im_status := st\<rparr>) h = (Inr (), h)" for st h
    by (simp add: delete_old_builds_def fetch_all_builds_def io_simps new_build_list_def
        sort_builds_def delete_old_failed_def delete_old_successful_def
        deref_limit_def sample_image_def number_failed_builds_def number_successful_builds_def)
  show ?thesis
    by (simp add: reconcile_image_def reconcile_with_builder_def last reconcile_rest_def cache sr build del
        io_simps Let_def)
qed

end
