(* ===== verification/Image_Properties.thy ===== *)
theory Image_Properties
  imports Samples
begin

text \<open>
  The properties of the image reconciler and of the builds it makes, each with an instance at the
  sample objects.
\<close>

section \<open>The builds of an image over time\<close>

definition sample_after_first :: cluster where
  "sample_after_first = apply_events (\<lambda>_. True) 1
     (snd (reconcile_image sample_conf (sample_env []) sample_image [])) empty_cluster"

lemma sample_limits: "limits_positive sample_image"
  by (simp add: limits_positive_def sample_image_def)

lemma sample_after_first_simps:
  "cl_builds sample_after_first = [stamp 1 sample_build]" "cl_stamps sample_after_first = [1]"
  "cl_views sample_after_first = [[], [stamp 1 sample_build]]" "cl_issued sample_after_first = [build_number sample_build]"
  "cl_now sample_after_first = 1"
  by (simp_all add: sample_after_first_def sample_first_run apply_events_def empty_cluster_def build_names_def put_builds_def)

text \<open>
  The cache keeps showing the empty content after the first build has been created: the step ends with the view
  of the start.
\<close>

lemma sample_reads: "reads_cache 0 (\<lambda>_. True) 1 sample_conf (sample_env []) sample_image empty_cluster"
proof -
  have "\<exists>vs. cl_views (apply_events (\<lambda>_. True) 1 h s) = cl_views s @ vs" for h s
  proof (induction h arbitrary: s)
    case (Cons e h)
    have "\<exists>vs. cl_views (apply_event (\<lambda>_. True) 1 e s) = cl_views s @ vs" by (cases e) auto
    with Cons [of "apply_event (\<lambda>_. True) 1 e s"] show ?case by (auto simp: apply_events_def)
  qed (simp add: apply_events_def)
  then have "\<exists>vs. cl_views (apply_events (\<lambda>_. True) 1 h empty_cluster) = [] # vs" for h
    by (metis append_Cons append_Nil empty_cluster_def select_convs(5))
  then have head: "0 < length (cl_views (apply_events (\<lambda>_. True) 1 h empty_cluster)) \<and>
      cl_views (apply_events (\<lambda>_. True) 1 h empty_cluster) ! 0 = []" for h
    by (metis length_greater_0_conv list.distinct(1) nth_Cons_0)
  show ?thesis unfolding reads_cache_def using head by (auto intro!: exI [of _ 0])
qed

lemma sample_first_step: "(cluster_step sample_conf ''app'' ^^ 1) empty_cluster sample_after_first"
proof -
  have "sample_after_first = forget_views 0 sample_after_first" by (simp add: forget_views_def)
  then have "cluster_step sample_conf ''app'' empty_cluster sample_after_first"
    using cluster_step.reconciled [OF _ sample_limits sample_reads _ sample_after_first_def [symmetric, THEN sym]]
    by (simp add: sample_after_first_simps empty_cluster_def sample_image_def)
  then show ?thesis by (auto simp: relcompp_apply)
qed

lemma itoa_inject: "itoa m = itoa n \<Longrightarrow> m = n"
proof -
  assume same: "itoa m = itoa n"
  have nat_inj: "nat_to_string a = nat_to_string b \<Longrightarrow> a = b" for a b
    by (metis option.inject parse_digits_nat_to_string)
  have sign: "nat_to_string a \<noteq> CHR ''-'' # cs" for a cs
    using nat_to_string_head [of a] digit_not_sign by (metis list.inject)
  show "m = n"
    using same nat_inj [of "nat (- m)" "nat (- n)"] nat_inj [of "nat m" "nat n"] sign sign [THEN not_sym]
    by (auto simp: itoa_def split: if_splits)
qed

lemma sample_names: "distinct_build_names sample_conf ''app''"
  by (auto simp: distinct_build_names_def build_name_for_def sample_lib_def intro: itoa_inject)

lemma sample_after_first_builds: "cl_builds sample_after_first = [stamp 1 sample_build]"
  by (rule sample_after_first_simps)


text \<open>
  C1: Whatever list of builds the informer's cache shows to a reconcile, up to date or any number of changes
  behind, as long as it does not go back, and whichever calls fail or take effect unseen: in every state that
  reconciles and the progress of builds can reach, at most one build of the image runs, and it is the newest.
  The history limits of the image are at least one, nobody else creates or deletes its builds, the names of
  different builds differ, no two builds were created at the same second, and the steps of the run can be counted in
  64 bits.
\<close>

theorem one_running_build:
  assumes "(cluster_step C nm ^^ k) empty_cluster s" and "fits64 (int k)"
    and "go_sort (ic_sort C) creation_key" and "distinct_build_names C nm" and "distinct (cl_stamps s)"
  shows "length (filter (\<lambda>b. is_running (Some b)) (cl_builds s)) \<le> 1 \<and>
     (\<forall>b \<in> set (cl_builds s). is_running (Some b) \<longrightarrow> newest (cl_builds s) b)"
  by (rule cluster_inv_one_running [OF cluster_run_inv [OF assms]])

theorem one_running_build_witness:
  "length (filter (\<lambda>b. is_running (Some b)) (cl_builds sample_after_first)) \<le> 1 \<and>
   newest (cl_builds sample_after_first) (stamp 1 sample_build)"
proof -
  have "is_running (Some (stamp 1 sample_build))"
    using sample_build_running by (simp add: stamp_def succeeded_condition_def)
  then show ?thesis
    using one_running_build [OF sample_first_step _ sample_sort sample_names] sample_after_first_simps
    by (simp add: fits64_def int64_min_def int64_max_def)
qed

text \<open>
  C2: Along every such run, outdated lists included, the builds ever created have the numbers 1, 2, 3 and so on: a
  number is never used twice, because a reconcile that works from an outdated list asks for a name that the
  server still holds, even when builds are pruned and calls fail. As before, the history limits are at least one,
  nobody else creates or deletes builds of the image, the names of different builds differ, no two builds were created
  at the same second, and the cache does not go back.
\<close>

theorem build_numbers_increase:
  assumes "(cluster_step C nm ^^ k) empty_cluster s" and "fits64 (int k)"
    and "go_sort (ic_sort C) creation_key" and "distinct_build_names C nm" and "distinct (cl_stamps s)"
  shows "cl_issued s = map (\<lambda>j. int (Suc j)) [0..<length (cl_issued s)]"
  using cluster_run_inv [OF assms] by (simp add: cluster_inv_def)

theorem build_numbers_increase_witness: "cl_issued sample_after_first = [1]"
  using build_numbers_increase [OF sample_first_step _ sample_sort sample_names]
  by (simp add: fits64_def int64_min_def int64_max_def sample_after_first_simps)

section \<open>One reconcile\<close>


text \<open>
  C4: When resolver and builder are ready and the references parse, the decision to build is
  exactly the list of wanted reasons: status, reasons string and priority class all follow from it.
\<close>

theorem build_required_functional:
  assumes "marshals CL" and "buildpacks_equal_ok CL" and "sr_wf sr"
    and "sr_ready sr" and "db_ready bd" and "run_images_parse L lb bd"
  shows "\<exists>res. is_build_required L CL clk img lb sr bd = Inr res \<and>
     brr_status res = (if wanted_reasons L CL img lb sr bd = [] then ConditionFalse else ConditionTrue) \<and>
     brr_reasons res = join '','' (map reason_string (wanted_reasons L CL img lb sr bd)) \<and>
     brr_priority_class res =
       (if wanted_reasons L CL img lb sr bd = [] then ''''
        else if set (wanted_reasons L CL img lb sr bd) \<inter> {TRIGGER, COMMIT, CONFIG} \<noteq> {}
        then BuildPriorityClassHigh else BuildPriorityClassLow)"
  using assms by (rule is_build_required_summary)

theorem build_required_functional_witness:
  "\<exists>res. is_build_required sample_lib sample_changes sample_clock sample_image None sample_resolver sample_builder = Inr res \<and>
     brr_reasons res = join '','' (map reason_string
       (wanted_reasons sample_lib sample_changes sample_image None sample_resolver sample_builder))"
  using build_required_functional [OF sample_marshals sample_buildpacks_equal sample_ready,
      of sample_lib None sample_clock sample_image]
  by (auto simp: run_images_parse_def)

text \<open>
  A run image reference that does not parse makes the decision fail with an error, never with
  a silent answer and never with a panic.
\<close>

theorem build_required_parse_error:
  assumes "sr_wf sr" and "sr_ready sr" and "db_ready bd" and "\<not> run_images_parse L lb bd"
  shows "\<exists>e. is_build_required L CL clk img lb sr bd = Inl e \<and> \<not> is_panic e"
  using assms by (rule is_build_required_parse_error)

definition sample_unparsable :: build where
  "sample_unparsable = (succeed sample_build)\<lparr>b_status := (b_status (succeed sample_build))
     \<lparr>bst_stack := \<lparr>stack_run_image = '''', stack_id = ''''\<rparr>\<rparr>\<rparr>"

theorem build_required_parse_error_witness:
  "\<exists>e. is_build_required sample_lib sample_changes sample_clock sample_image (Some sample_unparsable)
     sample_resolver sample_builder = Inl e"
proof -
  have "\<not> run_images_parse sample_lib (Some sample_unparsable) sample_builder"
    by (simp add: run_images_parse_def sample_unparsable_def succeed_def succeeded_condition_def
        get_condition_def mk_condition_def ref_err_def sample_lib_def)
  from build_required_parse_error [OF sample_ready this] show ?thesis by blast
qed


definition sample_done :: build where
  "sample_done = succeed (stamp 1 sample_build)"

lemma sample_done_success: "is_success (Some sample_done)"
  by (simp add: sample_done_def succeed_def succeeded_condition_def get_condition_def mk_condition_def)


text \<open>
  C6: A reconcile never panics: whatever the cluster holds, as long as its calls report errors as
  errors, stored resolvers keep their invariant and history limits are not negative.
\<close>

theorem reconcile_never_panics:
  assumes "env_reads_ok E" and "env_writes_ok E" and "env_resolvers_wf E"
    and "equal_respects_source (ic_changes C)"
    and "\<And>h ns n im. e_get_image E h ns n = Inr im \<Longrightarrow> limits_ok im"
  shows "safe (reconcile C E k)"
  using assms by (rule safe_reconcile)

theorem reconcile_never_panics_witness: "safe (reconcile sample_conf (sample_env []) ''dev/app'')"
  by (rule reconcile_never_panics)
     (simp_all add: env_reads_ok_def env_writes_ok_def env_resolvers_wf_def sample_env_def
        equal_respects_source_def sample_changes_def sample_ready limits_ok_def sample_image_def sample_conf_def)

text \<open>
  While the newest build runs, a reconcile reports it in the conditions and makes no call
  besides tracking the builder.
\<close>

theorem running_build_left_alone:
  fixes im :: image
  assumes "e_get_builder E [Track (reconciler_key_for_builder_kind im) (image_namespaced_name im)]
      (meta_namespace (im_meta im)) (is_builder (im_spec im)) = Inr bd"
    and "e_label_requirement E (meta_name (im_meta im)) = Inr ()"
    and "e_list_builds E [Track (reconciler_key_for_builder_kind im) (image_namespaced_name im)]
      (meta_namespace (im_meta im)) (meta_name (im_meta im)) = Inr bs"
    and "bl_last (new_build_list (ic_sort C) bs) = Some b" and "is_running (Some b)"
  shows "reconcile_image C E im [] =
     (Inr (set_conditions (build_running_condition (clk_now (ic_clock C)) b bd) im),
      [Track (reconciler_key_for_builder_kind im) (image_namespaced_name im)])"
  using reconcile_image_running [of E "[]" im bd bs C b] assms by simp

theorem running_build_left_alone_witness:
  "snd (reconcile_image sample_conf (sample_env [sample_build]) sample_image []) =
     [Track (reconciler_key_for_builder_kind sample_image) (image_namespaced_name sample_image)]"
proof -
  have "bl_last (new_build_list (ic_sort sample_conf) [sample_build]) = Some sample_build"
    by (simp add: new_build_list_fields sort_builds_def)
  then show ?thesis
    using running_build_left_alone [of "sample_env [sample_build]" sample_image sample_builder
        "[sample_build]" sample_conf sample_build] sample_build_running
    by simp
qed

section \<open>The history of builds\<close>

text \<open>
  Pruning deletes at most two builds, only finished ones, and with limits of at least one (as
  validation demands) never the newest build, whose number the next build counts from.
\<close>

theorem pruning_spares_newest:
  assumes "go_sort (ic_sort C) creation_key"
    and "e_list_builds E h (meta_namespace (im_meta im)) (meta_name (im_meta im)) = Inr bs"
    and "limits_positive im" and "distinct (map creation_key bs)"
  shows "\<exists>ds. snd (delete_old_builds C E im h) = h @ map (deletion im) ds \<and> length ds \<le> 2 \<and>
     (\<forall>d \<in> set ds. d \<in> set bs \<and> \<not> is_running (Some d) \<and> (\<exists>c \<in> set bs. creation_key d < creation_key c))"
proof -
  obtain ds where ds: "snd (delete_old_builds C E im h) = h @ map (deletion im) ds" "length ds \<le> 2"
    "list_all (prunable im bs) ds"
    using delete_old_builds_events [OF assms(1,2)] by blast
  have "d \<in> set bs \<and> \<not> is_running (Some d) \<and> (\<exists>c \<in> set bs. creation_key d < creation_key c)"
    if "d \<in> set ds" for d
  proof -
    have p: "prunable im bs d" using that ds(3) by (simp add: list_all_iff)
    then show ?thesis
      using prunable_finished [OF p] prunable_not_newest [OF p assms(3,4)] by (simp add: prunable_def)
  qed
  with ds(1,2) show ?thesis by blast
qed

definition sample_history :: "build list" where
  "sample_history = [succeed (stamp 2 sample_build), succeed (stamp 1 sample_build)]"

theorem pruning_spares_newest_witness:
  "\<exists>ds. snd (delete_old_builds sample_conf (sample_env sample_history) sample_image []) =
       map (deletion sample_image) ds \<and> length ds \<le> 2 \<and> list_all (\<lambda>d. \<not> is_running (Some d)) ds"
proof -
  have "distinct (map creation_key sample_history)"
    by (simp add: sample_history_def succeed_def stamp_def creation_key_def)
  then show ?thesis
    using pruning_spares_newest [OF sample_sort _ sample_limits, of "sample_env sample_history" "[]" sample_history]
    by (auto simp: list_all_iff)
qed

text \<open>
  When the successful builds exceed their limit, the oldest successful one is deleted, provided
  the failed ones are within theirs: the history shrinks back by one with every reconcile.
\<close>

theorem pruning_deletes_oldest_success:
  assumes "go_sort (ic_sort C) creation_key"
    and "e_label_requirement E (meta_name (im_meta im)) = Inr ()"
    and "e_list_builds E h (meta_namespace (im_meta im)) (meta_name (im_meta im)) = Inr bs"
    and "is_failed_limit (im_spec im) = Some f" and "failed_count bs \<le> f"
    and "is_success_limit (im_spec im) = Some n" and "0 \<le> n" and "n < successful_count bs"
  shows "\<exists>b \<in> set bs. is_success (Some b) \<and> (\<forall>c \<in> set bs. is_success (Some c) \<longrightarrow> creation_key b \<le> creation_key c) \<and>
     snd (delete_old_builds C E im h) = h @ [deletion im b]"
proof -
  have "snd (delete_old_builds C E im h) = snd (delete_old_successful E im (new_build_list (ic_sort C) bs) h)"
    using assms number_failed_builds_eq [OF assms(1), of bs]
    by (simp add: delete_old_builds_def fetch_all_builds_def delete_old_failed_def deref_limit_def
        failed_count_def io_simps)
  moreover obtain b where b: "prunable im bs b" "is_success (Some b)"
    "snd (delete_old_successful E im (new_build_list (ic_sort C) bs) h) = h @ [deletion im b]"
    using delete_old_successful_over [OF assms(1,6-8)] by blast
  moreover have "\<not> is_failure (Some b)" by (rule is_success_not_failure [OF b(2)])
  ultimately show ?thesis unfolding prunable_def by auto
qed

theorem pruning_deletes_oldest_success_witness:
  "\<exists>b \<in> set sample_history. snd (delete_old_builds sample_conf (sample_env sample_history) sample_image []) =
     [deletion sample_image b]"
proof -
  have fin: "is_success (Some (succeed b)) \<and> \<not> is_failure (Some (succeed b))" for b
    by (simp add: succeed_def succeeded_condition_def get_condition_def mk_condition_def)
  then have "successful_count sample_history = 2" "failed_count sample_history = 0"
    by (simp_all add: successful_count_def failed_count_def sample_history_def del: is_success.simps is_failure.simps)
  moreover have "is_failed_limit (im_spec sample_image) = Some 1" "is_success_limit (im_spec sample_image) = Some 1"
    by (simp_all add: sample_image_def)
  ultimately show ?thesis
    using pruning_deletes_oldest_success [OF sample_sort, of "sample_env sample_history" sample_image "[]" sample_history 1 1]
    by auto
qed

text \<open>
  However many failed builds follow a good one, the next build is still given the good build's
  image, cache image and stack as its starting point.
\<close>

theorem failures_keep_last_good_image:
  assumes "is_success (Some b)" and "failed_chain b cs"
    and "build_for_image L clk im sr bd (Some (last (b # cs))) reasons changes n pc = Inr nb"
  shows "bs_last_build (b_spec nb) =
     Some \<lparr>lb_image = bst_latest_image (b_status b),
           lb_cache = BuildCache (bst_latest_cache_image (b_status b)),
           lb_stack_id = stack_id (bst_stack (b_status b))\<rparr>"
  using build_for_image_spec(6) [OF assms(3)] failed_chain_last_build [OF assms(2)]
    last_build_of_success [OF assms(1)] by simp

definition sample_failed :: build where
  "sample_failed = sample_build
     \<lparr>b_spec := (b_spec sample_build)\<lparr>bs_last_build := last_build_of (Some sample_done)\<rparr>,
      b_status := build_status_error 0 (Failed Plain ''pod failed'') empty_build_status\<rparr>"

theorem failures_keep_last_good_image_witness:
  "\<exists>nb. build_for_image sample_lib sample_clock sample_image sample_resolver sample_builder (Some sample_failed)
      ''CONFIG'' ''[]'' 3 '''' = Inr nb \<and> bs_last_build (b_spec nb) =
     Some \<lparr>lb_image = ''registry.example/app@sha256:3'', lb_cache = BuildCache '''', lb_stack_id = ''jammy''\<rparr>"
proof -
  have "is_failure (Some sample_failed)"
    by (simp add: sample_failed_def build_status_error_def succeeded_condition_def get_condition_def mk_condition_def)
  then have chain: "failed_chain sample_done [sample_failed]"
    by (simp add: sample_failed_def del: last_build_of.simps is_failure.simps)
  obtain nb where nb: "build_for_image sample_lib sample_clock sample_image sample_resolver sample_builder
      (Some (last [sample_done, sample_failed])) ''CONFIG'' ''[]'' 3 '''' = Inr nb"
    by (simp add: build_for_image_def sr_source_config_def resolved_source_of_def sample_resolver_def Let_def)
  have "b_status sample_done = (b_status (succeed sample_build))" by (simp add: sample_done_def succeed_def stamp_def)
  then show ?thesis
    using failures_keep_last_good_image [OF sample_done_success chain nb] nb build_for_image_spec(10) [OF sample_build_made]
    by (auto simp: succeed_def empty_build_status_def)
qed

section \<open>What builds and conditions say\<close>

text \<open>
  The build of an image can always be found again: its image label, build number, generation,
  namespace, name and controlling owner are the image's, whatever labels and annotations the image
  carries itself.
\<close>

theorem build_identifies_image:
  assumes "build_for_image L clk im sr bd lb reasons changes n pc = Inr b"
  shows "meta_labels (b_meta b) ImageLabel = Some (meta_name (im_meta im)) \<and>
     meta_labels (b_meta b) BuildNumberLabel = Some (itoa n) \<and>
     meta_labels (b_meta b) ImageGenerationLabel = Some (itoa (meta_generation (im_meta im))) \<and>
     meta_name (b_meta b) = generate_build_name L im (itoa n) \<and>
     meta_namespace (b_meta b) = meta_namespace (im_meta im) \<and>
     meta_owners (b_meta b) = [controller_ref ''Image'' (im_meta im)] \<and>
     build_reason_of (Some b) = reasons \<and> build_changes_of (Some b) = changes"
  using build_for_image_labels [OF assms] by simp

theorem build_identifies_image_witness:
  "meta_labels (b_meta sample_build) BuildNumberLabel = Some (itoa 1) \<and> meta_namespace (b_meta sample_build) = ''dev''"
  using build_identifies_image [OF sample_build_made] by (simp add: sample_image_def)

text \<open>
  Without a new build, the image is reported Ready exactly when the builder is ready, it is
  known whether a build is needed, and the latest build succeeded.
\<close>

theorem ready_condition_iff:
  assumes "no_scheduled_build now needed bd lb sr = Inr conds"
  shows "is_true (get_condition_in conds ConditionReady) \<longleftrightarrow>
         db_ready bd \<and> needed \<noteq> ConditionUnknown \<and> is_success lb"
  using assms by (rule no_scheduled_build_ready_iff)

theorem ready_condition_iff_witness:
  "\<exists>conds. no_scheduled_build 0 ConditionFalse sample_builder (Some sample_done) sample_resolver = Inr conds \<and>
     is_true (get_condition_in conds ConditionReady)"
proof -
  obtain conds where c: "no_scheduled_build 0 ConditionFalse sample_builder (Some sample_done) sample_resolver = Inr conds"
    using sample_ready(3) sample_done_success by (simp add: no_scheduled_build_def no_scheduled_build_ready_def)
  then show ?thesis using ready_condition_iff [OF c] sample_ready(3) sample_done_success by auto
qed

text \<open>
  The status of the image is written at most once per reconcile and only when it differs from
  the stored one under the comparison that ignores transition times; what is written observes the
  reconciled generation.
\<close>

theorem status_written_when_changed:
  "snd (update_status C E im h) = h \<or>
   (\<exists>im' old. snd (update_status C E im h) = h @ [UpdateImageStatus im'] \<and>
      im_spec im' = im_spec im \<and>
      st_observed_generation (ims_status (im_status im')) = meta_generation (im_meta im) \<and>
      e_get_image E h (meta_namespace (im_meta im)) (meta_name (im_meta im)) = Inr old \<and>
      \<not> ic_status_equal C (im_status old) (im_status im'))"
  using update_status_events [of C E im h] by blast

text \<open>
  An image that carries the annotation asking for an additional build never settles: every
  build made from it inherits the annotation, so the next decision asks for yet another build.
\<close>

theorem annotated_image_never_settles:
  assumes "build_for_image L clk im sr bd lb0 reasons changes n pc = Inr b0"
    and "meta_annotations (b_meta b) = meta_annotations (b_meta b0)"
    and "meta_annotations (im_meta im) BuildNeededAnnotation = Some v"
  shows "TRIGGER \<in> set (wanted_reasons L CL im (Some b) sr bd)"
  using assms by (rule annotated_image_always_triggers)

definition sample_annotated :: image where
  "sample_annotated = sample_image\<lparr>im_meta := (im_meta sample_image)\<lparr>meta_annotations := [BuildNeededAnnotation \<mapsto> ''now'']\<rparr>\<rparr>"

theorem annotated_image_never_settles_witness:
  "\<exists>b. build_for_image sample_lib sample_clock sample_annotated sample_resolver sample_builder None
      ''TRIGGER'' ''[]'' 1 '''' = Inr b \<and>
     TRIGGER \<in> set (wanted_reasons sample_lib sample_changes sample_annotated (Some b) sample_resolver sample_builder)"
proof -
  obtain b where b: "build_for_image sample_lib sample_clock sample_annotated sample_resolver sample_builder None
      ''TRIGGER'' ''[]'' 1 '''' = Inr b"
    by (simp add: build_for_image_def sr_source_config_def resolved_source_of_def sample_resolver_def Let_def)
  have "meta_annotations (im_meta sample_annotated) BuildNeededAnnotation = Some ''now''"
    by (simp add: sample_annotated_def)
  from annotated_image_never_settles [OF b refl this] b show ?thesis by blast
qed

end
