(* ===== verification/Build_Pod_Parts.thy ===== *)
theory Build_Pod_Parts
  imports Image_Builds
begin

text \<open>
  The parts that \<open>pkg/apis/build/v1alpha2/build_pod.go\<close> assembles a build pod from: names, mounts,
  secrets and their arguments, image pull secrets, service bindings, the platform API version, the
  creation time, and the waiter that replaces init containers when sidecars are injected.
\<close>

section \<open>Names\<close>

definition PrepareContainerName :: string where "PrepareContainerName = ''prepare''"
definition AnalyzeContainerName :: string where "AnalyzeContainerName = ''analyze''"
definition DetectContainerName :: string where "DetectContainerName = ''detect''"
definition RestoreContainerName :: string where "RestoreContainerName = ''restore''"
definition BuildContainerName :: string where "BuildContainerName = ''build''"
definition ExportContainerName :: string where "ExportContainerName = ''export''"
definition RebaseContainerName :: string where "RebaseContainerName = ''rebase''"

definition completionTerminationMessagePath :: string where
  "completionTerminationMessagePath = ''/tmp/termination-log''"
definition ReportTOMLPath :: string where "ReportTOMLPath = ''/var/report/report.toml''"
definition BuildLabel :: string where "BuildLabel = ''kpack.io/build''"

definition cosignDockerMediaTypesAnnotationPrefix :: string where
  "cosignDockerMediaTypesAnnotationPrefix = ''kpack.io/cosign.docker-media-types''"
definition cosignRespositoryAnnotationPrefix :: string where
  "cosignRespositoryAnnotationPrefix = ''kpack.io/cosign.repository''"
definition DOCKERSecretAnnotationPrefix :: string where "DOCKERSecretAnnotationPrefix = ''kpack.io/docker''"
definition GITSecretAnnotationPrefix :: string where "GITSecretAnnotationPrefix = ''kpack.io/git''"
definition BlobSecretAnnotationPrefix :: string where "BlobSecretAnnotationPrefix = ''kpack.io/blob''"
definition IstioInject :: string where "IstioInject = ''sidecar.istio.io/inject''"
definition BuildReadyAnnotation :: string where "BuildReadyAnnotation = ''build.kpack.io/ready''"
definition cosignSecretDataCosignKey :: string where "cosignSecretDataCosignKey = ''cosign.key''"

definition cacheVolumeName :: string where "cacheVolumeName = ''cache-dir''"
definition homeVolumeName :: string where "homeVolumeName = ''home-dir''"
definition layersVolumeName :: string where "layersVolumeName = ''layers-dir''"
definition networkWaitLauncherVolumeName :: string where
  "networkWaitLauncherVolumeName = ''network-wait-launcher-dir''"
definition buildWaitVolumeName :: string where "buildWaitVolumeName = ''build-wait-dir''"
definition downwardVolumeName :: string where "downwardVolumeName = ''downward-api-dir''"
definition notaryVolumeName :: string where "notaryVolumeName = ''notary-dir''"
definition platformVolumeName :: string where "platformVolumeName = ''platform-dir''"
definition registrySourcePullSecretsVolumeName :: string where
  "registrySourcePullSecretsVolumeName = ''registry-source-pull-secrets-dir''"
definition reportVolumeName :: string where "reportVolumeName = ''report-dir''"
definition workspaceVolumeName :: string where "workspaceVolumeName = ''workspace-dir''"

lemmas volume_name_defs = cacheVolumeName_def homeVolumeName_def layersVolumeName_def
  networkWaitLauncherVolumeName_def buildWaitVolumeName_def downwardVolumeName_def notaryVolumeName_def
  platformVolumeName_def registrySourcePullSecretsVolumeName_def reportVolumeName_def workspaceVolumeName_def

definition buildChangesEnvVar :: string where "buildChangesEnvVar = ''BUILD_CHANGES''"
definition CacheTagEnvVar :: string where "CacheTagEnvVar = ''CACHE_TAG''"
definition platformApiVersionEnvVarName :: string where "platformApiVersionEnvVarName = ''CNB_PLATFORM_API''"
definition serviceBindingRootEnvVar :: string where "serviceBindingRootEnvVar = ''SERVICE_BINDING_ROOT''"
definition TerminationMessagePathEnvVar :: string where
  "TerminationMessagePathEnvVar = ''TERMINATION_MESSAGE_PATH''"
definition PlatformEnvVarPrefix :: string where "PlatformEnvVarPrefix = ''PLATFORM_ENV_''"

text \<open>The commands of the containers.\<close>

definition PrepareCommand :: string where "PrepareCommand = ''/cnb/process/build-init''"
definition AnalyzeCommand :: string where "AnalyzeCommand = ''/cnb/lifecycle/analyzer''"
definition DetectCommand :: string where "DetectCommand = ''/cnb/lifecycle/detector''"
definition RestoreCommand :: string where "RestoreCommand = ''/cnb/lifecycle/restorer''"
definition BuildCommand :: string where "BuildCommand = ''/cnb/lifecycle/builder''"
definition ExportCommand :: string where "ExportCommand = ''/cnb/lifecycle/exporter''"
definition CompletionCommand :: string where "CompletionCommand = ''/cnb/process/completion''"
definition RebaseCommand :: string where "RebaseCommand = ''/cnb/process/rebase''"

section \<open>Inputs\<close>

text \<open>
  The interface \<open>ServiceBinding\<close>: the two implementations, and any other, of which only the type
  name matters.
\<close>

datatype service_binding =
    ServiceBinding string "local_ref option"
  | CNBServiceBinding string "local_ref option" "local_ref option"
  | OtherBinding string

record build_pod_images =
  bpi_build_init :: string
  bpi_build_waiter :: string
  bpi_completion :: string
  bpi_rebase :: string

record build_pod_builder_config =
  bpc_stack_id :: string
  bpc_run_image :: string
  bpc_uid :: int
  bpc_gid :: int
  bpc_platform_apis :: "string list"
  bpc_resolved_image :: string

record build_context =
  bx_builder_config :: build_pod_builder_config
  bx_secrets :: "secret list"
  bx_bindings :: "service_binding list"
  bx_pull_secrets :: "local_ref list"
  bx_max_platform_api :: "semver option"
  bx_injected_sidecars :: bool
  bx_ssh_trust_unknown :: bool

text \<open>
  The library functions of this file: those of \<open>lib\<close>, one reading of the clock, and
  \<open>CreationTimestamp.Format\<close> with the layout \<open>20060102.150405\<close>.
\<close>

record pod_lib =
  pl_lib :: lib
  pl_clock :: clock
  pl_format_creation :: "int option \<Rightarrow> string"

section \<open>Mounts and environment\<close>

definition sourceMount :: volume_mount where "sourceMount = mount_at workspaceVolumeName ''/workspace''"
definition homeMount :: volume_mount where "homeMount = mount_at homeVolumeName ''/builder/home''"
definition platformMount :: volume_mount where "platformMount = mount_at platformVolumeName ''/platform''"
definition cacheMount :: volume_mount where "cacheMount = mount_at cacheVolumeName ''/cache''"
definition layersMount :: volume_mount where "layersMount = mount_at layersVolumeName ''/layers''"
definition projectMetadataMount :: volume_mount where
  "projectMetadataMount = mount_at layersVolumeName ''/projectMetadata''"
definition registrySourcePullSecretsMount :: volume_mount where
  "registrySourcePullSecretsMount = mount_ro registrySourcePullSecretsVolumeName ''/registrySourcePullSecrets''"
definition notaryV1Mount :: volume_mount where "notaryV1Mount = mount_ro notaryVolumeName ''/var/notary/v1''"
definition reportMount :: volume_mount where "reportMount = mount_at reportVolumeName ''/var/report''"
definition buildWaitMount :: volume_mount where "buildWaitMount = mount_at buildWaitVolumeName ''/buildWait''"
definition downwardMount :: volume_mount where "downwardMount = mount_at downwardVolumeName ''/downward''"

lemmas mount_defs = sourceMount_def homeMount_def platformMount_def cacheMount_def layersMount_def
  projectMetadataMount_def registrySourcePullSecretsMount_def notaryV1Mount_def reportMount_def
  buildWaitMount_def downwardMount_def

definition homeEnv :: env_var where "homeEnv = plain_env ''HOME'' ''/builder/home''"
definition serviceBindingRootEnv :: env_var where
  "serviceBindingRootEnv = plain_env serviceBindingRootEnvVar ''/platform/bindings''"

definition container_security_context :: security_context where
  "container_security_context = \<lparr>sc_run_as_non_root = True, sc_allow_privilege_escalation = False,
     sc_privileged = False, sc_seccomp = ''RuntimeDefault'', sc_drop = [''ALL'']\<rparr>"

definition pod_security_context_for :: "build_pod_builder_config \<Rightarrow> pod_security_context" where
  "pod_security_context_for c = \<lparr>psc_run_as_non_root = True, psc_seccomp = ''RuntimeDefault'',
     psc_fs_group = Some (bpc_gid c), psc_run_as_user = Some (bpc_uid c), psc_run_as_group = Some (bpc_gid c)\<rparr>"

text \<open>Variables with an empty name or value are left out.\<close>

definition envs :: "env_var list \<Rightarrow> env_var list \<Rightarrow> env_var list" where
  "envs es vars = es @ filter (\<lambda>e. env_name e \<noteq> '''' \<and> env_value e \<noteq> '''') vars"

section \<open>Secrets\<close>

definition SecretTypeBasicAuth :: string where "SecretTypeBasicAuth = ''kubernetes.io/basic-auth''"
definition SecretTypeSSHAuth :: string where "SecretTypeSSHAuth = ''kubernetes.io/ssh-auth''"
definition SecretTypeDockercfg :: string where "SecretTypeDockercfg = ''kubernetes.io/dockercfg''"
definition SecretTypeDockerConfigJson :: string where
  "SecretTypeDockerConfigJson = ''kubernetes.io/dockerconfigjson''"

definition git_secrets :: "secret \<Rightarrow> bool" where
  "git_secrets s \<longleftrightarrow> lookup_str (sec_annotations s) GITSecretAnnotationPrefix \<noteq> ''''"

definition blob_secrets :: "bool \<Rightarrow> secret \<Rightarrow> bool" where
  "blob_secrets include s \<longleftrightarrow> include \<and> lookup_str (sec_annotations s) BlobSecretAnnotationPrefix \<noteq> ''''"

definition docker_secrets :: "secret \<Rightarrow> bool" where
  "docker_secrets s \<longleftrightarrow> lookup_str (sec_annotations s) DOCKERSecretAnnotationPrefix \<noteq> '''' \<or>
     sec_type s = SecretTypeDockercfg \<or> sec_type s = SecretTypeDockerConfigJson"

definition build_secrets :: "bool \<Rightarrow> secret \<Rightarrow> bool" where
  "build_secrets include_blob s \<longleftrightarrow> git_secrets s \<or> blob_secrets include_blob s \<or> docker_secrets s"

text \<open>
  The switch of \<open>setupSecretVolumesAndArgs\<close>: the argument a secret contributes, \<open>None\<close> when the
  secret is skipped.
\<close>

definition secret_arg :: "(secret \<Rightarrow> bool) \<Rightarrow> secret \<Rightarrow> string option" where
  "secret_arg keep s =
     (let docker_url = lookup_str (sec_annotations s) DOCKERSecretAnnotationPrefix;
          git_url = lookup_str (sec_annotations s) GITSecretAnnotationPrefix;
          blob_url = lookup_str (sec_annotations s) BlobSecretAnnotationPrefix
      in if \<not> keep s then None
         else if sec_type s = SecretTypeBasicAuth \<and> docker_url \<noteq> ''''
           then Some (''-basic-docker='' @ sec_name s @ ''='' @ docker_url)
         else if sec_type s = SecretTypeDockerConfigJson then Some (''-dockerconfig='' @ sec_name s)
         else if sec_type s = SecretTypeDockercfg then Some (''-dockercfg='' @ sec_name s)
         else if sec_type s = SecretTypeBasicAuth \<and> git_url \<noteq> ''''
           then Some (''-basic-git='' @ sec_name s @ ''='' @ git_url)
         else if sec_type s = SecretTypeSSHAuth then Some (''-ssh-git='' @ sec_name s @ ''='' @ git_url)
         else if blob_url \<noteq> '''' then Some (''-blob='' @ sec_name s @ ''='' @ blob_url)
         else None)"

definition secret_volume_name :: "nat \<Rightarrow> string" where
  "secret_volume_name i = ''secret-volume-'' @ nat_to_string i"

definition secret_path :: "string \<Rightarrow> string" where
  "secret_path n = ''/var/build-secrets/'' @ n"

definition cosign_secret_path :: "string \<Rightarrow> string" where
  "cosign_secret_path n = ''/var/build-secrets/cosign/'' @ n"

text \<open>Volumes are numbered by the position of the secret, skipped secrets included.\<close>

fun setup_secrets_from :: "nat \<Rightarrow> (secret \<Rightarrow> bool) \<Rightarrow> secret list \<Rightarrow>
    volume list \<times> volume_mount list \<times> string list" where
  "setup_secrets_from i keep [] = ([], [], [])"
| "setup_secrets_from i keep (s # ss) =
     (let (vs, ms, args) = setup_secrets_from (Suc i) keep ss
      in case secret_arg keep s of
           None \<Rightarrow> (vs, ms, args)
         | Some a \<Rightarrow> (Volume (secret_volume_name i) (SecretSource (sec_name s)) # vs,
                      mount_at (secret_volume_name i) (secret_path (sec_name s)) # ms, a # args))"

definition setup_secret_volumes_and_args :: "secret list \<Rightarrow> (secret \<Rightarrow> bool) \<Rightarrow>
    volume list \<times> volume_mount list \<times> string list" where
  "setup_secret_volumes_and_args ss keep = setup_secrets_from 0 keep ss"

definition cosign_secret_args :: "secret \<Rightarrow> string list" where
  "cosign_secret_args s =
     (let repo = lookup_str (sec_annotations s) cosignRespositoryAnnotationPrefix;
          media = lookup_str (sec_annotations s) cosignDockerMediaTypesAnnotationPrefix
      in (if repo \<noteq> '''' then [''-cosign-repositories='' @ sec_name s @ ''='' @ repo] else []) @
         (if media \<noteq> '''' then [''-cosign-docker-media-types='' @ sec_name s @ ''='' @ media] else []))"

fun setup_cosign_from :: "nat \<Rightarrow> secret list \<Rightarrow> volume list \<times> volume_mount list \<times> string list" where
  "setup_cosign_from i [] = ([], [], [])"
| "setup_cosign_from i (s # ss) =
     (let (vs, ms, args) = setup_cosign_from (Suc i) ss
      in if lookup_str (sec_data s) cosignSecretDataCosignKey = '''' then (vs, ms, args)
         else (Volume (secret_volume_name i) (SecretSource (sec_name s)) # vs,
               mount_at (secret_volume_name i) (cosign_secret_path (sec_name s)) # ms,
               cosign_secret_args s @ args))"

definition setup_cosign_volumes :: "secret list \<Rightarrow> volume list \<times> volume_mount list \<times> string list" where
  "setup_cosign_volumes ss = setup_cosign_from 0 ss"

section \<open>Image pull secrets\<close>

text \<open>The first reference of each name is kept.\<close>

fun deduplicate_from :: "string list \<Rightarrow> local_ref list \<Rightarrow> local_ref list" where
  "deduplicate_from seen [] = []"
| "deduplicate_from seen (r # rs) =
     (if lref_name r \<in> set seen then deduplicate_from seen rs
      else r # deduplicate_from (lref_name r # seen) rs)"

definition deduplicate :: "local_ref list list \<Rightarrow> local_ref list" where
  "deduplicate ls = deduplicate_from [] (concat ls)"

definition pull_secret_volume_name :: "nat \<Rightarrow> string" where
  "pull_secret_volume_name i = ''pull-secret-volume-'' @ nat_to_string i"

definition setup_image_pull_volumes :: "build \<Rightarrow> local_ref list \<Rightarrow>
    volume list \<times> volume_mount list \<times> string list" where
  "setup_image_pull_volumes b secrets =
     (let refs = deduplicate [secrets, bb_pull_secrets (bs_builder (b_spec b))]
      in (map (\<lambda>(i, r). Volume (pull_secret_volume_name i) (SecretSource (lref_name r))) (enumerate 0 refs),
          map (\<lambda>(i, r). mount_at (pull_secret_volume_name i) (secret_path (lref_name r))) (enumerate 0 refs),
          map (\<lambda>r. ''-imagepull='' @ lref_name r) refs))"

section \<open>Service bindings\<close>

text \<open>The metadata reference of a CNB binding is read through a pointer that may be nil.\<close>

definition setup_binding :: "service_binding \<Rightarrow> (volume list \<times> volume_mount list) res" where
  "setup_binding sb =
     (case sb of
        ServiceBinding n secret_ref \<Rightarrow>
          (case secret_ref of
             None \<Rightarrow> Inr ([], [])
           | Some r \<Rightarrow> Inr ([Volume (''binding-'' @ n) (SecretSource (lref_name r))],
                            [mount_ro (''binding-'' @ n) (''/platform/bindings/'' @ n)]))
      | CNBServiceBinding n secret_ref metadata_ref \<Rightarrow>
          (case metadata_ref of
             None \<Rightarrow> Inl (Panic ''invalid memory address or nil pointer dereference'')
           | Some m \<Rightarrow>
               (let vs = [Volume (''binding-metadata-'' @ n) (ConfigMapSource m)];
                    ms = [mount_ro (''binding-metadata-'' @ n) (''/platform/bindings/'' @ n @ ''/metadata'')]
                in case secret_ref of
                     None \<Rightarrow> Inr (vs, ms)
                   | Some r \<Rightarrow> Inr (vs @ [Volume (''binding-secret-'' @ n) (SecretSource (lref_name r))],
                       ms @ [mount_ro (''binding-secret-'' @ n) (''/platform/bindings/'' @ n @ ''/secret'')])))
      | OtherBinding t \<Rightarrow> Inl (Failed Plain (''unsupported binding type: '' @ t)))"

fun setup_bindings :: "service_binding list \<Rightarrow> (volume list \<times> volume_mount list) res" where
  "setup_bindings [] = Inr ([], [])"
| "setup_bindings (sb # sbs) =
     bind_res (setup_binding sb) (\<lambda>(vs, ms).
     bind_res (setup_bindings sbs) (\<lambda>(vs', ms'). Inr (vs @ vs', ms @ ms')))"

section \<open>Platform API\<close>

text \<open>\<open>semver.MustParse\<close> panics on a text that does not parse.\<close>

fun supported_platform_apis :: "lib \<Rightarrow> string list \<Rightarrow> semver list res" where
  "supported_platform_apis L [] = Inr []"
| "supported_platform_apis L (v # vs) =
     (case lib_semver_new L v of
        Inl e \<Rightarrow> Inl (Panic (err_text e))
      | Inr sv \<Rightarrow> bind_res (supported_platform_apis L vs) (\<lambda>svs. Inr (sv # svs)))"

definition supportedPlatformAPIVersions :: "lib \<Rightarrow> semver list res" where
  "supportedPlatformAPIVersions L = supported_platform_apis L [''0.9'', ''0.8'', ''0.7'']"

text \<open>The inner loop: the first version of the builder equal to the supported one.\<close>

fun find_platform_api :: "lib \<Rightarrow> semver \<Rightarrow> string list \<Rightarrow> semver option res" where
  "find_platform_api L sv [] = Inr None"
| "find_platform_api L sv (v # vs) =
     (case lib_semver_new L v of
        Inl e \<Rightarrow> Inl (wrap_err (''unexpected platform version '' @ v) e)
      | Inr version \<Rightarrow> (if lib_semver_equal L sv version then Inr (Some version) else find_platform_api L sv vs))"

fun highest_platform_api :: "lib \<Rightarrow> build_context \<Rightarrow> semver list \<Rightarrow> semver res" where
  "highest_platform_api L bx [] =
     Inl (Failed Plain (''unsupported builder platform API versions: '' @
                        join '','' (bpc_platform_apis (bx_builder_config bx))))"
| "highest_platform_api L bx (sv # svs) =
     (if (case bx_max_platform_api bx of None \<Rightarrow> False | Some mx \<Rightarrow> lib_semver_less L mx sv)
      then highest_platform_api L bx svs
      else bind_res (find_platform_api L sv (bpc_platform_apis (bx_builder_config bx)))
             (\<lambda>found. case found of Some v \<Rightarrow> Inr v | None \<Rightarrow> highest_platform_api L bx svs))"

definition highest_supported_platform_api :: "lib \<Rightarrow> build_context \<Rightarrow> semver res" where
  "highest_supported_platform_api L bx =
     bind_res (supportedPlatformAPIVersions L) (highest_platform_api L bx)"

section \<open>Creation time\<close>

text \<open>The result is the Unix time.\<close>

definition parse_time :: "clock \<Rightarrow> string \<Rightarrow> int option res" where
  "parse_time clk t =
     (if t = '''' then Inr None
      else if t = ''now'' then Inr (Some (clk_now clk))
      else map_err (wrap_err ''parsing unix timestamp'') (bind_res (parse_int t) (\<lambda>n. Inr (Some n))))"

section \<open>Signing\<close>

definition notary_secret_volume :: "build \<Rightarrow> volume" where
  "notary_secret_volume b =
     (case build_notary_v1 b of
        None \<Rightarrow> Volume notaryVolumeName EmptyDir
      | Some c \<Rightarrow> Volume notaryVolumeName (SecretSource (notary_secret_ref c)))"

definition notary_args :: "build \<Rightarrow> string list" where
  "notary_args b = (case build_notary_v1 b of None \<Rightarrow> [] | Some c \<Rightarrow> [''-notary-v1-url='' @ notary_url c])"

definition cosign_args :: "pod_lib \<Rightarrow> build \<Rightarrow> string list" where
  "cosign_args PL b =
     [''-cosign-annotations=buildTimestamp='' @ pl_format_creation PL (meta_creation (b_meta b)),
      ''-cosign-annotations=buildNumber='' @ lookup_str (meta_labels (b_meta b)) BuildNumberLabel] @
     (case bs_cosign (b_spec b) of None \<Rightarrow> []
      | Some c \<Rightarrow> map (\<lambda>a. ''-cosign-annotations='' @ ca_name a @ ''='' @ ca_value a) (cosign_annotations c))"

definition cache_volume :: "build \<Rightarrow> volume list" where
  "cache_volume b =
     (if \<not> bs_need_volume_cache (b_spec b) then []
      else case bs_cache (b_spec b) of
             Some c \<Rightarrow> (case bcc_volume c of
                 Some v \<Rightarrow> [Volume cacheVolumeName (ClaimSource (bvc_claim v))] | None \<Rightarrow> [])
           | None \<Rightarrow> [])"

section \<open>Injected sidecars\<close>

text \<open>The command of the container is read by index.\<close>

definition set_up_build_waiter :: "container \<Rightarrow> string \<Rightarrow> container res" where
  "set_up_build_waiter c wait_file =
     (case ctr_command c of
        [] \<Rightarrow> Inl (Panic ''index out of range [0] with length 0'')
      | start # _ \<Rightarrow>
          Inr (c\<lparr>ctr_mounts := ctr_mounts c @ [buildWaitMount],
                 ctr_command := [''/buildWait/build-waiter''],
                 ctr_args := [''-mode=wait'', ''-done-file=/buildWait/'' @ ctr_name c,
                   ''-error-file=/buildWait/error'',
                   ''-execute='' @ start @ '' '' @ join '' '' (ctr_args c)] @
                   (if wait_file \<noteq> '''' then [''-wait-file='' @ wait_file] else [])\<rparr>))"

text \<open>Every container but the first waits for the one before it.\<close>

fun chain_waiters :: "string \<Rightarrow> container list \<Rightarrow> container list res" where
  "chain_waiters wait_file [] = Inr []"
| "chain_waiters wait_file (c # cs) =
     bind_res (set_up_build_waiter c wait_file) (\<lambda>c'.
     bind_res (chain_waiters (''/buildWait/'' @ ctr_name c) cs) (\<lambda>cs'. Inr (c' # cs')))"

fun add_first_mount :: "volume_mount \<Rightarrow> container list \<Rightarrow> container list" where
  "add_first_mount m [] = []"
| "add_first_mount m (c # cs) = c\<lparr>ctr_mounts := ctr_mounts c @ [m]\<rparr> # cs"

definition pre_start_container :: "build \<Rightarrow> string \<Rightarrow> container" where
  "pre_start_container b waiter_image =
     \<lparr>ctr_name = ''pre-start'', ctr_image = waiter_image, ctr_command = [],
      ctr_args = [''-mode=copy'', ''-to=/buildWait/build-waiter''], ctr_env = [],
      ctr_resources = bs_resources (b_spec b), ctr_mounts = [buildWaitMount], ctr_security = None,
      ctr_working_dir = ''/workspace'', ctr_pull_policy = ''IfNotPresent'',
      ctr_termination_path = '''', ctr_termination_policy = TerminationDefault\<rparr>"

definition use_standard_containers :: "build \<Rightarrow> string \<Rightarrow> pod \<Rightarrow> pod res" where
  "use_standard_containers b waiter_image p =
     (let spec = pod_spec_of p
      in bind_res (chain_waiters ''/downward/sidecars-ready''
              (add_first_mount downwardMount (pod_init_containers spec @ pod_containers spec)))
         (\<lambda>cs. Inr (p\<lparr>pod_spec_of := spec
             \<lparr>pod_init_containers := [pre_start_container b waiter_image],
              pod_containers := cs,
              pod_volumes := pod_volumes spec @
                [Volume buildWaitVolumeName EmptyDir,
                 Volume downwardVolumeName (DownwardAPI
                   [(''sidecars-ready'', ''metadata.annotations['' @ [CHR 0x27] @ BuildReadyAnnotation @ [CHR 0x27] @ '']'')])]\<rparr>,
             pod_meta := (pod_meta p)\<lparr>meta_annotations := (meta_annotations (pod_meta p))(IstioInject := None)\<rparr>\<rparr>)))"

end
