(* ===== verification/Build_Pod.thy ===== *)
theory Build_Pod
  imports Build_Pod_Parts
begin

text \<open>
  \<open>Build.BuildPod\<close> of \<open>pkg/apis/build/v1alpha2/build_pod.go\<close>: the pod of a full build, and the pod
  that only rebases the last image.
\<close>

section \<open>Arguments of the lifecycle phases\<close>

definition pod_run_image :: "build \<Rightarrow> build_context \<Rightarrow> string" where
  "pod_run_image b bx =
     (if bs_run_image (b_spec b) \<noteq> '''' then bs_run_image (b_spec b)
      else bpc_run_image (bx_builder_config bx))"

text \<open>The generic, the analyzer's and the exporter's cache arguments, and the cache mounts.\<close>

record cache_setup =
  cu_generic :: "string list"
  cu_analyzer :: "string list"
  cu_exporter :: "string list"
  cu_mounts :: "volume_mount list"

definition cache_setup_of :: "build \<Rightarrow> cache_setup" where
  "cache_setup_of b =
     (if bs_need_volume_cache (b_spec b) then
        \<lparr>cu_generic = [''-cache-dir=/cache''], cu_analyzer = [], cu_exporter = [''-cache-dir=/cache''],
         cu_mounts = [cacheMount]\<rparr>
      else if bs_need_registry_cache (b_spec b) then
        (let tag_arg = [''-cache-image='' @ registry_cache_tag (b_spec b)];
             generic = (case bs_last_build (b_spec b) of
                 None \<Rightarrow> tag_arg
               | Some l \<Rightarrow> (if bcache_image (lb_cache l) \<noteq> '''' then [''-cache-image='' @ bcache_image (lb_cache l)]
                            else tag_arg))
         in \<lparr>cu_generic = generic, cu_analyzer = generic, cu_exporter = tag_arg, cu_mounts = []\<rparr>)
      else \<lparr>cu_generic = [], cu_analyzer = [], cu_exporter = [], cu_mounts = []\<rparr>)"

definition extra_tag_args :: "build \<Rightarrow> string list" where
  "extra_tag_args b = map (\<lambda>t. ''-tag='' @ t) (tl (bs_tags (b_spec b)))"

definition previous_image_args :: "build \<Rightarrow> string \<Rightarrow> string list" where
  "previous_image_args b tag =
     (case bs_last_build (b_spec b) of
        None \<Rightarrow> [tag]
      | Some l \<Rightarrow> (if lb_image l \<noteq> '''' then [''-previous-image='' @ lb_image l, tag] else [tag]))"

definition process_type_args :: "build \<Rightarrow> string list" where
  "process_type_args b =
     (if bs_default_process (b_spec b) = '''' then []
      else [''-process-type='' @ bs_default_process (b_spec b)])"

definition platform_env_var :: "env_var \<Rightarrow> env_var" where
  "platform_env_var e = e\<lparr>env_name := PlatformEnvVarPrefix @ env_name e\<rparr>"

text \<open>A lifecycle container: the builder image, the build's resources, the locked-down context.\<close>

definition lifecycle_container :: "build \<Rightarrow> build_context \<Rightarrow> string \<Rightarrow> string \<Rightarrow> string list \<Rightarrow>
    env_var list \<Rightarrow> volume_mount list \<Rightarrow> container" where
  "lifecycle_container b bx nm cmd cargs cenv ms =
     \<lparr>ctr_name = nm, ctr_image = bpc_resolved_image (bx_builder_config bx), ctr_command = [cmd],
      ctr_args = cargs, ctr_env = cenv, ctr_resources = bs_resources (b_spec b), ctr_mounts = ms,
      ctr_security = Some container_security_context, ctr_working_dir = '''',
      ctr_pull_policy = ''IfNotPresent'', ctr_termination_path = '''',
      ctr_termination_policy = TerminationDefault\<rparr>"

definition workspace_mount :: "build \<Rightarrow> volume_mount" where
  "workspace_mount b = sourceMount\<lparr>mount_sub_path := src_sub_path (bs_source (b_spec b))\<rparr>"

section \<open>The containers\<close>

definition analyze_container :: "build \<Rightarrow> build_context \<Rightarrow> string \<Rightarrow> env_var \<Rightarrow> container" where
  "analyze_container b bx tag api_env =
     lifecycle_container b bx AnalyzeContainerName AnalyzeCommand
       ([''-layers=/layers'', ''-analyzed=/layers/analyzed.toml'', ''-run-image='' @ pod_run_image b bx] @
        cu_analyzer (cache_setup_of b) @ extra_tag_args b @ previous_image_args b tag)
       [homeEnv, api_env, serviceBindingRootEnv]
       [layersMount, workspace_mount b, homeMount]"

definition detect_container :: "build \<Rightarrow> build_context \<Rightarrow> env_var \<Rightarrow> volume_mount list \<Rightarrow> container" where
  "detect_container b bx api_env binding_mounts =
     lifecycle_container b bx DetectContainerName DetectCommand
       [''-app=/workspace'', ''-group=/layers/group.toml'', ''-plan=/layers/plan.toml'']
       [api_env]
       ([layersMount, platformMount, workspace_mount b] @ binding_mounts)"

definition restore_container :: "build \<Rightarrow> build_context \<Rightarrow> env_var \<Rightarrow> container" where
  "restore_container b bx api_env =
     lifecycle_container b bx RestoreContainerName RestoreCommand
       ([''-group=/layers/group.toml'', ''-layers=/layers''] @ cu_generic (cache_setup_of b) @
        [''-analyzed=/layers/analyzed.toml''])
       [homeEnv, api_env]
       ([layersMount, homeMount] @ cu_mounts (cache_setup_of b))"

definition build_container :: "build \<Rightarrow> build_context \<Rightarrow> env_var \<Rightarrow> volume_mount list \<Rightarrow> container" where
  "build_container b bx api_env binding_mounts =
     lifecycle_container b bx BuildContainerName BuildCommand
       [''-layers=/layers'', ''-app=/workspace'', ''-group=/layers/group.toml'', ''-plan=/layers/plan.toml'']
       [api_env, serviceBindingRootEnv]
       ([layersMount, platformMount, workspace_mount b] @ binding_mounts)"

definition export_container :: "build \<Rightarrow> build_context \<Rightarrow> env_var \<Rightarrow> int option \<Rightarrow> container" where
  "export_container b bx api_env date_time =
     lifecycle_container b bx ExportContainerName ExportCommand
       ([''-layers=/layers'', ''-app=/workspace'', ''-group=/layers/group.toml'',
         ''-analyzed=/layers/analyzed.toml'', ''-project-metadata=/layers/project-metadata.toml''] @
        cu_exporter (cache_setup_of b) @ process_type_args b @ [''-report='' @ ReportTOMLPath] @
        bs_tags (b_spec b))
       (envs [homeEnv, api_env]
          [(case date_time of Some n \<Rightarrow> plain_env ''SOURCE_DATE_EPOCH'' (itoa n) | None \<Rightarrow> plain_env '''' ''''),
           plain_env ''CNB_RUN_IMAGE'' (pod_run_image b bx)])
       ([layersMount, workspace_mount b, homeMount, reportMount] @ cu_mounts (cache_setup_of b))"

definition prepare_env :: "build \<Rightarrow> build_context \<Rightarrow> source \<Rightarrow> string \<Rightarrow> string \<Rightarrow> env_var list" where
  "prepare_env b bx src tag dns_host =
     build_env_vars src @ map platform_env_var (bs_env (b_spec b)) @
     [plain_env ''SOURCE_SUB_PATH'' (src_sub_path (bs_source (b_spec b))),
      plain_env ''PROJECT_DESCRIPTOR_PATH'' (bs_project_descriptor (b_spec b)),
      plain_env ''IMAGE_TAG'' tag,
      plain_env ''RUN_IMAGE'' (pod_run_image b bx),
      plain_env ''BUILDER_IMAGE'' (bb_image (bs_builder (b_spec b))),
      plain_env ''BUILDER_NAME'' (build_builder_name (Some b)),
      plain_env ''BUILDER_KIND'' (build_builder_kind (Some b)),
      plain_env ''DNS_PROBE_HOSTNAME'' dns_host,
      plain_env buildChangesEnvVar (build_changes_of (Some b)),
      plain_env ''INSECURE_SSH_TRUST_UNKNOWN_HOSTS'' (format_bool (bx_ssh_trust_unknown bx))]"

definition prepare_container :: "build \<Rightarrow> build_context \<Rightarrow> build_pod_images \<Rightarrow> source \<Rightarrow> string \<Rightarrow> string \<Rightarrow>
    string list \<Rightarrow> volume_mount list \<Rightarrow> container" where
  "prepare_container b bx images src tag dns_host cargs ms =
     \<lparr>ctr_name = PrepareContainerName, ctr_image = bpi_build_init images, ctr_command = [PrepareCommand],
      ctr_args = cargs, ctr_env = prepare_env b bx src tag dns_host,
      ctr_resources = bs_resources (b_spec b),
      ctr_mounts = ms @ [registrySourcePullSecretsMount, platformMount, sourceMount, homeMount, projectMetadataMount],
      ctr_security = Some container_security_context, ctr_working_dir = ''/workspace'',
      ctr_pull_policy = ''IfNotPresent'', ctr_termination_path = '''',
      ctr_termination_policy = TerminationDefault\<rparr>"

definition completion_container :: "build \<Rightarrow> build_pod_images \<Rightarrow> env_var list \<Rightarrow> string list \<Rightarrow>
    volume_mount list \<Rightarrow> container" where
  "completion_container b images first_env cargs ms =
     \<lparr>ctr_name = CompletionContainerName, ctr_image = bpi_completion images, ctr_command = [CompletionCommand],
      ctr_args = cargs,
      ctr_env = first_env @
        [plain_env CacheTagEnvVar (registry_cache_tag (b_spec b)),
         plain_env TerminationMessagePathEnvVar completionTerminationMessagePath],
      ctr_resources = bs_resources (b_spec b), ctr_mounts = ms,
      ctr_security = Some container_security_context, ctr_working_dir = '''',
      ctr_pull_policy = ''IfNotPresent'', ctr_termination_path = completionTerminationMessagePath,
      ctr_termination_policy = FallbackToLogsOnError\<rparr>"

section \<open>The pods\<close>

definition build_pod_meta :: "lib \<Rightarrow> build \<Rightarrow> object_meta" where
  "build_pod_meta L b = empty_meta
     \<lparr>meta_name := pod_name_of L b,
      meta_namespace := meta_namespace (b_meta b),
      meta_labels := combine (meta_labels (b_meta b)) [BuildLabel \<mapsto> meta_name (b_meta b)],
      meta_annotations := combine (meta_annotations (b_meta b)) [IstioInject \<mapsto> ''false''],
      meta_owners := [controller_ref ''Build'' (b_meta b)]\<rparr>"

definition empty_pod_status :: pod_status where
  "empty_pod_status = \<lparr>ps_phase = PodUnset, ps_reason = '''', ps_message = '''',
     ps_init_containers = [], ps_containers = []\<rparr>"

definition with_sidecars :: "build \<Rightarrow> build_context \<Rightarrow> build_pod_images \<Rightarrow> pod \<Rightarrow> pod res" where
  "with_sidecars b bx images p =
     (if bx_injected_sidecars bx then use_standard_containers b (bpi_build_waiter images) p else Inr p)"

definition rebase_pod_plain :: "pod_lib \<Rightarrow> build \<Rightarrow> last_build \<Rightarrow> build_context \<Rightarrow> build_pod_images \<Rightarrow> pod" where
  "rebase_pod_plain PL b l bx images =
     (let (secret_vols, secret_ms, secret_args) = setup_secret_volumes_and_args (bx_secrets bx) docker_secrets;
          (cosign_vols, cosign_ms, cosign_sargs) = setup_cosign_volumes (bx_secrets bx);
          (pull_vols, pull_ms, pull_args) = setup_image_pull_volumes b (bx_pull_secrets bx)
      in \<lparr>pod_meta = build_pod_meta (pl_lib PL) b,
          pod_spec_of =
            \<lparr>pod_restart_policy = ''Never'', pod_active_deadline = None,
             pod_priority_class = build_priority_class_name (Some b),
             pod_containers = [completion_container b images []
               (notary_args b @ secret_args @ cosign_args PL b @ cosign_sargs)
               ([reportMount, notaryV1Mount] @ secret_ms @ cosign_ms)],
             pod_init_containers =
               [\<lparr>ctr_name = RebaseContainerName, ctr_image = bpi_rebase images, ctr_command = [RebaseCommand],
                 ctr_args = [''--run-image'', pod_run_image b bx, ''--last-built-image'', lb_image l,
                             ''--report'', ReportTOMLPath] @ secret_args @ pull_args @ bs_tags (b_spec b),
                 ctr_env = [plain_env buildChangesEnvVar (build_changes_of (Some b))],
                 ctr_resources = bs_resources (b_spec b),
                 ctr_mounts = secret_ms @ pull_ms @ [reportMount],
                 ctr_security = Some container_security_context, ctr_working_dir = ''/workspace'',
                 ctr_pull_policy = ''IfNotPresent'', ctr_termination_path = '''',
                 ctr_termination_policy = TerminationDefault\<rparr>],
             pod_security = \<lparr>psc_run_as_non_root = True, psc_seccomp = ''RuntimeDefault'',
               psc_fs_group = None, psc_run_as_user = None, psc_run_as_group = None\<rparr>,
             pod_service_account = bs_service_account (b_spec b),
             pod_node_selector = bs_node_selector (b_spec b),
             pod_tolerations = bs_tolerations (b_spec b), pod_affinity = bs_affinity (b_spec b),
             pod_runtime_class = bs_runtime_class (b_spec b), pod_scheduler = bs_scheduler (b_spec b),
             pod_volumes = secret_vols @ cosign_vols @ pull_vols @
               [Volume reportVolumeName EmptyDir, notary_secret_volume b],
             pod_pull_secrets = []\<rparr>,
          pod_status_of = empty_pod_status\<rparr>)"

text \<open>\<open>b.Spec.LastBuild.Image\<close> is read through a pointer that \<open>rebasable\<close> has checked.\<close>

definition rebase_pod :: "pod_lib \<Rightarrow> build \<Rightarrow> build_context \<Rightarrow> build_pod_images \<Rightarrow> pod res" where
  "rebase_pod PL b bx images =
     (case bs_last_build (b_spec b) of
        None \<Rightarrow> Inl (Panic ''invalid memory address or nil pointer dereference'')
      | Some l \<Rightarrow> with_sidecars b bx images (rebase_pod_plain PL b l bx images))"

text \<open>A build uses blob secrets only when its source asks for them.\<close>

definition blob_auth_use_secrets :: "build \<Rightarrow> bool" where
  "blob_auth_use_secrets b =
     (case src_blob (bs_source (b_spec b)) of None \<Rightarrow> False | Some bl \<Rightarrow> blob_auth bl = BlobAuthSecret)"

definition build_pod_plain :: "pod_lib \<Rightarrow> build \<Rightarrow> build_context \<Rightarrow> build_pod_images \<Rightarrow> semver \<Rightarrow> string \<Rightarrow>
    string \<Rightarrow> source \<Rightarrow> volume list \<Rightarrow> volume_mount list \<Rightarrow> int option \<Rightarrow> pod" where
  "build_pod_plain PL b bx images api tag dns_host src binding_vols binding_ms date_time =
     (let (secret_vols, secret_ms, secret_args) =
            setup_secret_volumes_and_args (bx_secrets bx) (build_secrets (blob_auth_use_secrets b));
          (cosign_vols, cosign_ms, cosign_sargs) = setup_cosign_volumes (bx_secrets bx);
          (pull_vols, pull_ms, pull_args) = setup_image_pull_volumes b (bx_pull_secrets bx);
          api_env = plain_env platformApiVersionEnvVarName (sv_original api)
      in \<lparr>pod_meta = build_pod_meta (pl_lib PL) b,
          pod_spec_of =
            \<lparr>pod_restart_policy = ''Never'', pod_active_deadline = bs_active_deadline (b_spec b),
             pod_priority_class = build_priority_class_name (Some b),
             pod_containers = [completion_container b images [homeEnv]
               (notary_args b @ secret_args @ cosign_args PL b @ cosign_sargs)
               (secret_ms @ cosign_ms @ [homeMount, reportMount, notaryV1Mount])],
             pod_init_containers =
               [prepare_container b bx images src tag dns_host (secret_args @ pull_args) (secret_ms @ pull_ms),
                analyze_container b bx tag api_env,
                detect_container b bx api_env binding_ms,
                restore_container b bx api_env,
                build_container b bx api_env binding_ms,
                export_container b bx api_env date_time],
             pod_security = pod_security_context_for (bx_builder_config bx),
             pod_service_account = bs_service_account (b_spec b),
             pod_node_selector = bs_node_selector (b_spec b),
             pod_tolerations = bs_tolerations (b_spec b), pod_affinity = bs_affinity (b_spec b),
             pod_runtime_class = bs_runtime_class (b_spec b), pod_scheduler = bs_scheduler (b_spec b),
             pod_volumes = secret_vols @ cosign_vols @ pull_vols @ cache_volume b @
               [Volume layersVolumeName EmptyDir, Volume homeVolumeName EmptyDir,
                Volume workspaceVolumeName EmptyDir, Volume platformVolumeName EmptyDir,
                Volume reportVolumeName EmptyDir, Volume networkWaitLauncherVolumeName EmptyDir,
                image_pull_secrets_volume src registrySourcePullSecretsVolumeName,
                notary_secret_volume b] @ binding_vols,
             pod_pull_secrets = bb_pull_secrets (bs_builder (b_spec b))\<rparr>,
          pod_status_of = empty_pod_status\<rparr>)"

text \<open>
  The order of the checks is the order of the code: platform API, rebase, tag, source, bindings,
  creation time. A nil source panics when its method is called.
\<close>

definition build_pod :: "pod_lib \<Rightarrow> build \<Rightarrow> build_pod_images \<Rightarrow> build_context \<Rightarrow> pod res" where
  "build_pod PL b images bx =
     bind_res (highest_supported_platform_api (pl_lib PL) bx) (\<lambda>api.
     if rebasable b (bpc_stack_id (bx_builder_config bx)) then rebase_pod PL b bx images
     else
       bind_res (build_tag b) (\<lambda>tag.
       bind_res (lib_parse_reference (pl_lib PL) tag) (\<lambda>ref.
       (case source_of (bs_source (b_spec b)) of
          None \<Rightarrow> Inl (Panic ''invalid memory address or nil pointer dereference'')
        | Some src \<Rightarrow>
            bind_res (setup_bindings (bx_bindings bx)) (\<lambda>(binding_vols, binding_ms).
            bind_res (map_err (wrap_err (''parsing creation time '' @ bs_creation_time (b_spec b)))
                        (parse_time (pl_clock PL) (bs_creation_time (b_spec b)))) (\<lambda>date_time.
            with_sidecars b bx images
              (build_pod_plain PL b bx images api tag (ref_registry ref) src binding_vols binding_ms date_time)))))))"

end
