(* ===== verification/Build_Pod_Props.thy ===== *)
theory Build_Pod_Props
  imports Build_Pod
begin

text \<open>
  What holds of every build pod: each mount has its volume, the containers run one after the other
  whether or not sidecars are injected, every container is locked down, the chosen platform API is
  the highest both sides support, and the construction fails with errors, not panics.
\<close>

section \<open>Volumes and mounts come in pairs\<close>

definition paired :: "volume list \<Rightarrow> volume_mount list \<Rightarrow> bool" where
  "paired vs ms \<longleftrightarrow> map vol_name vs = map mount_name ms"

lemma paired_Nil [simp]: "paired [] []"
  by (simp add: paired_def)

lemma paired_Cons [simp]: "paired (v # vs) (m # ms) \<longleftrightarrow> vol_name v = mount_name m \<and> paired vs ms"
  by (simp add: paired_def)

lemma paired_append: "paired vs ms \<Longrightarrow> paired vs' ms' \<Longrightarrow> paired (vs @ vs') (ms @ ms')"
  by (simp add: paired_def)

lemma paired_names: "paired vs ms \<Longrightarrow> mount_name ` set ms = vol_name ` set vs"
  unfolding paired_def by (metis image_set)

lemma setup_secrets_from_paired:
  "setup_secrets_from i keep ss = (vs, ms, args) \<Longrightarrow> paired vs ms"
  by (induction i keep ss arbitrary: vs ms args rule: setup_secrets_from.induct)
     (auto split: prod.splits option.splits)

lemma setup_secrets_paired: "setup_secret_volumes_and_args ss keep = (vs, ms, args) \<Longrightarrow> paired vs ms"
  unfolding setup_secret_volumes_and_args_def by (rule setup_secrets_from_paired)

lemma setup_cosign_from_paired: "setup_cosign_from i ss = (vs, ms, args) \<Longrightarrow> paired vs ms"
  by (induction i ss arbitrary: vs ms args rule: setup_cosign_from.induct)
     (auto split: prod.splits if_splits)

lemma setup_cosign_paired: "setup_cosign_volumes ss = (vs, ms, args) \<Longrightarrow> paired vs ms"
  unfolding setup_cosign_volumes_def by (rule setup_cosign_from_paired)

lemma setup_pull_paired: "setup_image_pull_volumes b refs = (vs, ms, args) \<Longrightarrow> paired vs ms"
  by (auto simp: setup_image_pull_volumes_def paired_def Let_def)

lemma setup_binding_paired: "setup_binding sb = Inr (vs, ms) \<Longrightarrow> paired vs ms"
  by (auto simp: setup_binding_def Let_def split: service_binding.splits option.splits)

lemma setup_bindings_paired: "setup_bindings sbs = Inr (vs, ms) \<Longrightarrow> paired vs ms"
  by (induction sbs arbitrary: vs ms)
     (auto simp: bind_res_eq_Inr dest!: setup_binding_paired intro: paired_append)

section \<open>Every mount has a volume\<close>

definition mounts_in :: "string set \<Rightarrow> container \<Rightarrow> bool" where
  "mounts_in names c \<longleftrightarrow> mount_name ` set (ctr_mounts c) \<subseteq> names"

definition mounts_backed :: "pod \<Rightarrow> bool" where
  "mounts_backed p \<longleftrightarrow> list_all (mounts_in (vol_name ` set (pod_volumes (pod_spec_of p))))
     (pod_init_containers (pod_spec_of p) @ pod_containers (pod_spec_of p))"

lemma mounts_in_mono: "mounts_in A c \<Longrightarrow> A \<subseteq> B \<Longrightarrow> mounts_in B c"
  by (auto simp: mounts_in_def)

lemma set_up_build_waiter_mounts:
  "set_up_build_waiter c f = Inr c' \<Longrightarrow> ctr_mounts c' = ctr_mounts c @ [buildWaitMount]"
  by (auto simp: set_up_build_waiter_def split: list.splits)

lemma chain_waiters_mounts:
  "chain_waiters f cs = Inr cs' \<Longrightarrow> list_all (mounts_in A) cs \<Longrightarrow> buildWaitVolumeName \<in> A \<Longrightarrow>
   list_all (mounts_in A) cs'"
  by (induction cs arbitrary: f cs')
     (auto simp: bind_res_eq_Inr mounts_in_def buildWaitMount_def dest!: set_up_build_waiter_mounts)

lemma add_first_mount_mounts:
  "list_all (mounts_in A) cs \<Longrightarrow> mount_name m \<in> A \<Longrightarrow> list_all (mounts_in A) (add_first_mount m cs)"
  by (cases cs) (auto simp: mounts_in_def)

lemma use_standard_containers_backed:
  assumes "mounts_backed p" and "use_standard_containers b img p = Inr p'"
  shows "mounts_backed p'"
proof -
  let ?s = "pod_spec_of p" and ?s' = "pod_spec_of p'"
  let ?A = "vol_name ` set (pod_volumes ?s')"
  obtain cs where cs: "chain_waiters ''/downward/sidecars-ready''
      (add_first_mount downwardMount (pod_init_containers ?s @ pod_containers ?s)) = Inr cs"
    and p': "pod_containers ?s' = cs" "pod_init_containers ?s' = [pre_start_container b img]"
    and vols: "?A = vol_name ` set (pod_volumes ?s) \<union> {buildWaitVolumeName, downwardVolumeName}"
    using assms(2) by (fastforce simp: use_standard_containers_def Let_def bind_res_eq_Inr)
  have "list_all (mounts_in ?A) (pod_init_containers ?s @ pod_containers ?s)"
    using assms(1) mounts_in_mono unfolding mounts_backed_def vols list_all_iff by blast
  then have "list_all (mounts_in ?A) cs"
    using cs vols by (intro chain_waiters_mounts [OF cs] add_first_mount_mounts) (simp_all add: downwardMount_def)
  moreover have "mounts_in ?A (pre_start_container b img)"
    using vols by (simp add: mounts_in_def pre_start_container_def buildWaitMount_def)
  ultimately show ?thesis by (simp add: mounts_backed_def p')
qed

lemma with_sidecars_backed:
  "mounts_backed p \<Longrightarrow> with_sidecars b bx images p = Inr p' \<Longrightarrow> mounts_backed p'"
  by (auto simp: with_sidecars_def use_standard_containers_backed split: if_splits)

lemma cache_mounts_backed: "mount_name ` set (cu_mounts (cache_setup_of b)) = vol_name ` set (cache_volume b)"
  by (auto simp: cache_setup_of_def cache_volume_def cacheMount_def Let_def bs_need_volume_cache_def
      split: option.splits)

lemma rebase_pod_plain_backed: "mounts_backed (rebase_pod_plain PL b l bx images)"
proof -
  obtain sv sm sa where s: "setup_secret_volumes_and_args (bx_secrets bx) docker_secrets = (sv, sm, sa)"
    by (cases "setup_secret_volumes_and_args (bx_secrets bx) docker_secrets") auto
  obtain cv cm ca where c: "setup_cosign_volumes (bx_secrets bx) = (cv, cm, ca)"
    by (cases "setup_cosign_volumes (bx_secrets bx)") auto
  obtain pv pm pa where p: "setup_image_pull_volumes b (bx_pull_secrets bx) = (pv, pm, pa)"
    by (cases "setup_image_pull_volumes b (bx_pull_secrets bx)") auto
  have names: "mount_name ` set sm = vol_name ` set sv" "mount_name ` set cm = vol_name ` set cv"
    "mount_name ` set pm = vol_name ` set pv"
    using setup_secrets_paired [OF s] setup_cosign_paired [OF c] setup_pull_paired [OF p]
    by (simp_all add: paired_names)
  have notary: "vol_name (notary_secret_volume b) = notaryVolumeName"
    by (simp add: notary_secret_volume_def split: option.split)
  show ?thesis
    by (simp add: mounts_backed_def mounts_in_def rebase_pod_plain_def s c p completion_container_def
        image_Un names notary) (auto simp: reportMount_def notaryV1Mount_def)
qed

lemma build_pod_plain_backed:
  assumes "paired bv bm"
  shows "mounts_backed (build_pod_plain PL b bx images api tag dns src bv bm dt)"
proof -
  let ?keep = "build_secrets (blob_auth_use_secrets b)"
  obtain sv sm sa where s: "setup_secret_volumes_and_args (bx_secrets bx) ?keep = (sv, sm, sa)"
    by (cases "setup_secret_volumes_and_args (bx_secrets bx) ?keep") auto
  obtain cv cm ca where c: "setup_cosign_volumes (bx_secrets bx) = (cv, cm, ca)"
    by (cases "setup_cosign_volumes (bx_secrets bx)") auto
  obtain pv pm pa where p: "setup_image_pull_volumes b (bx_pull_secrets bx) = (pv, pm, pa)"
    by (cases "setup_image_pull_volumes b (bx_pull_secrets bx)") auto
  have names: "mount_name ` set sm = vol_name ` set sv" "mount_name ` set cm = vol_name ` set cv"
    "mount_name ` set pm = vol_name ` set pv" "mount_name ` set bm = vol_name ` set bv"
    using setup_secrets_paired [OF s] setup_cosign_paired [OF c] setup_pull_paired [OF p] assms
    by (simp_all add: paired_names)
  have notary: "vol_name (notary_secret_volume b) = notaryVolumeName"
    by (simp add: notary_secret_volume_def split: option.split)
  show ?thesis
    by (simp add: mounts_backed_def mounts_in_def build_pod_plain_def Let_def s c p completion_container_def
        prepare_container_def analyze_container_def detect_container_def restore_container_def
        build_container_def export_container_def lifecycle_container_def workspace_mount_def
        image_Un names notary cache_mounts_backed)
       (auto simp: mount_defs)
qed

section \<open>Inversion\<close>

text \<open>What a successful construction has gone through.\<close>

lemma build_pod_cases:
  assumes "build_pod PL b images bx = Inr p"
  obtains (rebase) api l where
      "highest_supported_platform_api (pl_lib PL) bx = Inr api"
      "rebasable b (bpc_stack_id (bx_builder_config bx))" "bs_last_build (b_spec b) = Some l"
      "with_sidecars b bx images (rebase_pod_plain PL b l bx images) = Inr p"
  | (full) api tag ref src bv bm dt where
      "highest_supported_platform_api (pl_lib PL) bx = Inr api"
      "\<not> rebasable b (bpc_stack_id (bx_builder_config bx))"
      "build_tag b = Inr tag" "lib_parse_reference (pl_lib PL) tag = Inr ref"
      "source_of (bs_source (b_spec b)) = Some src" "setup_bindings (bx_bindings bx) = Inr (bv, bm)"
      "parse_time (pl_clock PL) (bs_creation_time (b_spec b)) = Inr dt"
      "with_sidecars b bx images (build_pod_plain PL b bx images api tag (ref_registry ref) src bv bm dt) = Inr p"
proof -
  obtain api where api: "highest_supported_platform_api (pl_lib PL) bx = Inr api"
    using assms by (auto simp: build_pod_def bind_res_eq_Inr)
  show ?thesis
  proof (cases "rebasable b (bpc_stack_id (bx_builder_config bx))")
    case True
    then show ?thesis
      using assms api rebase by (auto simp: build_pod_def rebase_pod_def split: option.splits)
  next
    case False
    with assms api obtain tag ref src bv bm dt where
      "build_tag b = Inr tag" "lib_parse_reference (pl_lib PL) tag = Inr ref"
      "source_of (bs_source (b_spec b)) = Some src" "setup_bindings (bx_bindings bx) = Inr (bv, bm)"
      "map_err (wrap_err (''parsing creation time '' @ bs_creation_time (b_spec b)))
         (parse_time (pl_clock PL) (bs_creation_time (b_spec b))) = Inr dt"
      "with_sidecars b bx images (build_pod_plain PL b bx images api tag (ref_registry ref) src bv bm dt) = Inr p"
      by (auto simp: build_pod_def bind_res_eq_Inr split: option.splits)
    then show ?thesis
      using full [OF api False] by (auto simp: map_err_def split: sum.splits)
  qed
qed

lemma build_pod_backed: "build_pod PL b images bx = Inr p \<Longrightarrow> mounts_backed p"
  by (erule build_pod_cases)
     (auto intro: with_sidecars_backed rebase_pod_plain_backed build_pod_plain_backed setup_bindings_paired)

section \<open>The order of the steps\<close>

text \<open>
  A container of a pod with injected sidecars: it says it is finished in the file of its own name
  and starts when the file it waits for is there.
\<close>

definition waits_for :: "string \<Rightarrow> container \<Rightarrow> bool" where
  "waits_for f c \<longleftrightarrow> ctr_command c = [''/buildWait/build-waiter''] \<and>
     (''-wait-file='' @ f) \<in> set (ctr_args c) \<and> (''-done-file=/buildWait/'' @ ctr_name c) \<in> set (ctr_args c)"

fun chained :: "string \<Rightarrow> container list \<Rightarrow> bool" where
  "chained f [] = True"
| "chained f (c # cs) = (waits_for f c \<and> chained (''/buildWait/'' @ ctr_name c) cs)"

lemma set_up_build_waiter_waits:
  assumes "set_up_build_waiter c f = Inr c'" and "f \<noteq> ''''"
  shows "waits_for f c' \<and> ctr_name c' = ctr_name c"
  using assms by (auto simp: set_up_build_waiter_def waits_for_def split: list.splits)

lemma chain_waiters_chained:
  "chain_waiters f cs = Inr cs' \<Longrightarrow> f \<noteq> '''' \<Longrightarrow> chained f cs' \<and> map ctr_name cs' = map ctr_name cs"
proof (induction cs arbitrary: f cs')
  case Nil
  then show ?case by simp
next
  case (Cons c cs)
  then obtain c1 cs1 where c1: "set_up_build_waiter c f = Inr c1"
    "chain_waiters (''/buildWait/'' @ ctr_name c) cs = Inr cs1" "cs' = c1 # cs1"
    by (auto simp: bind_res_eq_Inr)
  with Cons.IH [OF c1(2)] set_up_build_waiter_waits [OF c1(1) Cons.prems(2)] show ?case by simp
qed

lemma chain_waiters_total:
  "list_all (\<lambda>c. ctr_command c \<noteq> []) cs \<Longrightarrow> \<exists>cs'. chain_waiters f cs = Inr cs'"
proof (induction cs arbitrary: f)
  case Nil
  then show ?case by simp
next
  case (Cons c cs)
  then obtain cs' where "chain_waiters (''/buildWait/'' @ ctr_name c) cs = Inr cs'" by fastforce
  with Cons.prems show ?case by (auto simp: set_up_build_waiter_def split: list.splits)
qed

lemma add_first_mount_names [simp]: "map ctr_name (add_first_mount m cs) = map ctr_name cs"
  by (cases cs) simp_all

lemma add_first_mount_commands [simp]:
  "list_all (\<lambda>c. ctr_command c \<noteq> []) (add_first_mount m cs) = list_all (\<lambda>c. ctr_command c \<noteq> []) cs"
  by (cases cs) simp_all

definition step_names :: "pod \<Rightarrow> string list" where
  "step_names p = map ctr_name (pod_init_containers (pod_spec_of p) @ pod_containers (pod_spec_of p))"

definition commands_set :: "pod \<Rightarrow> bool" where
  "commands_set p \<longleftrightarrow> list_all (\<lambda>c. ctr_command c \<noteq> [])
     (pod_init_containers (pod_spec_of p) @ pod_containers (pod_spec_of p))"

text \<open>
  How a pod runs: plainly, its steps are the init containers followed by the containers; with
  injected sidecars all steps are containers, chained through the files of the waiter.
\<close>

definition runs_steps :: "string list \<Rightarrow> bool \<Rightarrow> pod \<Rightarrow> bool" where
  "runs_steps names sidecars p \<longleftrightarrow>
     (if sidecars then
        map ctr_name (pod_init_containers (pod_spec_of p)) = [''pre-start''] \<and>
        map ctr_name (pod_containers (pod_spec_of p)) = names \<and>
        chained ''/downward/sidecars-ready'' (pod_containers (pod_spec_of p)) \<and>
        meta_annotations (pod_meta p) IstioInject = None
      else step_names p = names)"

lemma with_sidecars_runs:
  assumes "with_sidecars b bx images p = Inr p'"
  shows "runs_steps (step_names p) (bx_injected_sidecars bx) p'"
proof (cases "bx_injected_sidecars bx")
  case False
  with assms show ?thesis by (simp add: with_sidecars_def runs_steps_def)
next
  case True
  let ?s = "pod_spec_of p"
  obtain cs where cs: "chain_waiters ''/downward/sidecars-ready''
      (add_first_mount downwardMount (pod_init_containers ?s @ pod_containers ?s)) = Inr cs"
    and p': "pod_containers (pod_spec_of p') = cs"
      "pod_init_containers (pod_spec_of p') = [pre_start_container b (bpi_build_waiter images)]"
      "meta_annotations (pod_meta p') IstioInject = None"
    using assms True by (auto simp: with_sidecars_def use_standard_containers_def Let_def bind_res_eq_Inr)
  show ?thesis
    using chain_waiters_chained [OF cs] True p'
    by (simp add: runs_steps_def step_names_def pre_start_container_def)
qed

lemma with_sidecars_total: "commands_set p \<Longrightarrow> \<exists>p'. with_sidecars b bx images p = Inr p'"
proof -
  assume "commands_set p"
  then obtain cs where "chain_waiters ''/downward/sidecars-ready'' (add_first_mount downwardMount
      (pod_init_containers (pod_spec_of p) @ pod_containers (pod_spec_of p))) = Inr cs"
    using chain_waiters_total unfolding commands_set_def by (metis add_first_mount_commands)
  then show ?thesis by (simp add: with_sidecars_def use_standard_containers_def Let_def)
qed

lemma rebase_pod_plain_steps:
  "step_names (rebase_pod_plain PL b l bx images) = [''rebase'', ''completion'']"
  "commands_set (rebase_pod_plain PL b l bx images)"
  by (simp_all add: step_names_def commands_set_def rebase_pod_plain_def completion_container_def
      RebaseContainerName_def CompletionContainerName_def split: prod.split)

lemma build_pod_plain_steps:
  "step_names (build_pod_plain PL b bx images api tag dns src bv bm dt) =
     [''prepare'', ''analyze'', ''detect'', ''restore'', ''build'', ''export'', ''completion'']"
  "commands_set (build_pod_plain PL b bx images api tag dns src bv bm dt)"
  by (simp_all add: step_names_def commands_set_def build_pod_plain_def completion_container_def Let_def
      prepare_container_def analyze_container_def detect_container_def restore_container_def
      build_container_def export_container_def lifecycle_container_def
      PrepareContainerName_def AnalyzeContainerName_def DetectContainerName_def RestoreContainerName_def
      BuildContainerName_def ExportContainerName_def CompletionContainerName_def split: prod.split)

lemma build_pod_runs:
  assumes "build_pod PL b images bx = Inr p"
  shows "runs_steps
     (if rebasable b (bpc_stack_id (bx_builder_config bx)) then [''rebase'', ''completion'']
      else [''prepare'', ''analyze'', ''detect'', ''restore'', ''build'', ''export'', ''completion''])
     (bx_injected_sidecars bx) p"
  using assms
proof (cases rule: build_pod_cases)
  case (rebase api l)
  then show ?thesis using with_sidecars_runs [OF rebase(4)] by (simp add: rebase_pod_plain_steps)
next
  case (full api tag ref src bv bm dt)
  then show ?thesis using with_sidecars_runs [OF full(8)] by (simp add: build_pod_plain_steps)
qed

section \<open>The platform API\<close>

text \<open>Documented behaviour of semver: the constants of this file parse.\<close>

definition semver_ok :: "lib \<Rightarrow> bool" where
  "semver_ok L \<longleftrightarrow> (\<forall>v \<in> {''0.9'', ''0.8'', ''0.7''}. \<exists>sv. lib_semver_new L v = Inr sv)"

lemma find_platform_api_Some:
  assumes "find_platform_api L sv vs = Inr (Some version)"
  shows "\<exists>v \<in> set vs. lib_semver_new L v = Inr version \<and> lib_semver_equal L sv version"
  using assms by (induction vs) (auto split: sum.splits if_splits)

lemma find_platform_api_None:
  assumes "find_platform_api L sv vs = Inr None" and "v \<in> set vs"
  shows "\<exists>version. lib_semver_new L v = Inr version \<and> \<not> lib_semver_equal L sv version"
  using assms by (induction vs) (auto split: sum.splits if_splits)

definition above_maximum :: "lib \<Rightarrow> build_context \<Rightarrow> semver \<Rightarrow> bool" where
  "above_maximum L bx sv \<longleftrightarrow> (\<exists>mx. bx_max_platform_api bx = Some mx \<and> lib_semver_less L mx sv)"

text \<open>Some version of the builder equals the given one.\<close>

definition builder_supports :: "lib \<Rightarrow> build_context \<Rightarrow> semver \<Rightarrow> bool" where
  "builder_supports L bx sv \<longleftrightarrow> (\<exists>v \<in> set (bpc_platform_apis (bx_builder_config bx)). \<exists>version.
     lib_semver_new L v = Inr version \<and> lib_semver_equal L sv version)"

lemma highest_platform_api_Cons:
  "highest_platform_api L bx (sv # svs) =
     (if above_maximum L bx sv then highest_platform_api L bx svs
      else bind_res (find_platform_api L sv (bpc_platform_apis (bx_builder_config bx)))
             (\<lambda>found. case found of Some v \<Rightarrow> Inr v | None \<Rightarrow> highest_platform_api L bx svs))"
  by (auto simp: above_maximum_def split: option.splits)

lemma highest_platform_api_spec:
  assumes "highest_platform_api L bx svs = Inr version"
  shows "\<exists>pre sv post. svs = pre @ sv # post \<and> lib_semver_equal L sv version \<and> \<not> above_maximum L bx sv \<and>
    (\<exists>v \<in> set (bpc_platform_apis (bx_builder_config bx)). lib_semver_new L v = Inr version) \<and>
    (\<forall>u \<in> set pre. above_maximum L bx u \<or> \<not> builder_supports L bx u)"
  using assms
proof (induction svs)
  case Nil
  then show ?case by simp
next
  case (Cons sv svs)
  have later: ?case if rest: "highest_platform_api L bx svs = Inr version"
    and skip: "above_maximum L bx sv \<or> \<not> builder_supports L bx sv"
  proof -
    obtain pre sv' post where h: "svs = pre @ sv' # post" "lib_semver_equal L sv' version"
      "\<not> above_maximum L bx sv'"
      "\<exists>v \<in> set (bpc_platform_apis (bx_builder_config bx)). lib_semver_new L v = Inr version"
      "\<forall>u \<in> set pre. above_maximum L bx u \<or> \<not> builder_supports L bx u"
      using Cons.IH [OF rest] by blast
    then show ?thesis using skip by (intro exI [of _ "sv # pre"] exI [of _ sv'] exI [of _ post]) simp
  qed
  show ?case
  proof (cases "above_maximum L bx sv")
    case True
    with Cons.prems show ?thesis by (intro later) (simp_all add: highest_platform_api_Cons del: highest_platform_api.simps)
  next
    case False
    with Cons.prems obtain found where
      f: "find_platform_api L sv (bpc_platform_apis (bx_builder_config bx)) = Inr found"
      and r: "(case found of Some v \<Rightarrow> Inr v | None \<Rightarrow> highest_platform_api L bx svs) = Inr version"
      by (auto simp: highest_platform_api_Cons bind_res_eq_Inr simp del: highest_platform_api.simps)
    show ?thesis
    proof (cases found)
      case None
      have "\<not> builder_supports L bx sv"
        using find_platform_api_None f None by (fastforce simp: builder_supports_def)
      with r None show ?thesis by (intro later) simp_all
    next
      case (Some v)
      with r f have "find_platform_api L sv (bpc_platform_apis (bx_builder_config bx)) = Inr (Some version)" by simp
      from find_platform_api_Some [OF this] False show ?thesis
        by (intro exI [of _ "[]"] exI [of _ sv] exI [of _ svs]) auto
    qed
  qed
qed

section \<open>Lock-down\<close>

definition locked_down :: "container \<Rightarrow> bool" where
  "locked_down c \<longleftrightarrow> (\<exists>sc. ctr_security c = Some sc \<and> sc_run_as_non_root sc \<and>
     \<not> sc_allow_privilege_escalation sc \<and> \<not> sc_privileged sc \<and> sc_drop sc = [''ALL''])"

lemma locked_down_context: "ctr_security c = Some container_security_context \<Longrightarrow> locked_down c"
  by (simp add: locked_down_def container_security_context_def)

definition steps_locked :: "pod \<Rightarrow> bool" where
  "steps_locked p \<longleftrightarrow> psc_run_as_non_root (pod_security (pod_spec_of p)) \<and>
     list_all (\<lambda>c. ctr_name c = ''pre-start'' \<or> locked_down c)
       (pod_init_containers (pod_spec_of p) @ pod_containers (pod_spec_of p))"

lemma chain_waiters_locked:
  "chain_waiters f cs = Inr cs' \<Longrightarrow> list_all (\<lambda>c. ctr_name c = ''pre-start'' \<or> locked_down c) cs \<Longrightarrow>
   list_all (\<lambda>c. ctr_name c = ''pre-start'' \<or> locked_down c) cs'"
  by (induction cs arbitrary: f cs')
     (auto simp: bind_res_eq_Inr set_up_build_waiter_def locked_down_def split: list.splits)

lemma add_first_mount_locked:
  "list_all (\<lambda>c. ctr_name c = ''pre-start'' \<or> locked_down c) cs \<Longrightarrow>
   list_all (\<lambda>c. ctr_name c = ''pre-start'' \<or> locked_down c) (add_first_mount m cs)"
  by (cases cs) (simp_all add: locked_down_def)

lemma with_sidecars_locked:
  assumes "steps_locked p" and "with_sidecars b bx images p = Inr p'"
  shows "steps_locked p'"
proof (cases "bx_injected_sidecars bx")
  case False
  with assms show ?thesis by (simp add: with_sidecars_def)
next
  case True
  let ?s = "pod_spec_of p"
  obtain cs where cs: "chain_waiters ''/downward/sidecars-ready''
      (add_first_mount downwardMount (pod_init_containers ?s @ pod_containers ?s)) = Inr cs"
    and p': "pod_containers (pod_spec_of p') = cs"
      "pod_init_containers (pod_spec_of p') = [pre_start_container b (bpi_build_waiter images)]"
      "pod_security (pod_spec_of p') = pod_security ?s"
    using assms(2) True by (auto simp: with_sidecars_def use_standard_containers_def Let_def bind_res_eq_Inr)
  have "list_all (\<lambda>c. ctr_name c = ''pre-start'' \<or> locked_down c) cs"
    using assms(1) by (intro chain_waiters_locked [OF cs] add_first_mount_locked) (simp add: steps_locked_def)
  with assms(1) p' show ?thesis by (simp add: steps_locked_def pre_start_container_def)
qed

lemma rebase_pod_plain_locked: "steps_locked (rebase_pod_plain PL b l bx images)"
  by (simp add: steps_locked_def rebase_pod_plain_def completion_container_def locked_down_context split: prod.split)

lemma build_pod_plain_locked: "steps_locked (build_pod_plain PL b bx images api tag dns src bv bm dt)"
  by (simp add: steps_locked_def build_pod_plain_def completion_container_def Let_def
      prepare_container_def analyze_container_def detect_container_def restore_container_def
      build_container_def export_container_def lifecycle_container_def pod_security_context_for_def
      locked_down_context split: prod.split)

lemma build_pod_locked: "build_pod PL b images bx = Inr p \<Longrightarrow> steps_locked p"
  by (erule build_pod_cases)
     (auto intro: with_sidecars_locked rebase_pod_plain_locked build_pod_plain_locked)

section \<open>No panics\<close>

definition binding_ok :: "service_binding \<Rightarrow> bool" where
  "binding_ok sb \<longleftrightarrow> (case sb of CNBServiceBinding n s m \<Rightarrow> m \<noteq> None | _ \<Rightarrow> True)"

lemma setup_bindings_no_panic: "list_all binding_ok sbs \<Longrightarrow> \<not> panics (setup_bindings sbs)"
proof (induction sbs)
  case Nil
  then show ?case by simp
next
  case (Cons sb sbs)
  have "\<not> panics (setup_binding sb)"
    using Cons.prems by (auto simp: setup_binding_def binding_ok_def Let_def split: service_binding.splits option.splits)
  with Cons show ?case
    by (cases "setup_binding sb"; cases "setup_bindings sbs") (auto simp: panics_def)
qed

lemma find_platform_api_no_panic:
  assumes "\<And>v. \<not> panics (lib_semver_new L v)"
  shows "\<not> panics (find_platform_api L sv vs)"
proof (induction vs)
  case Nil
  then show ?case by simp
next
  case (Cons v vs)
  with assms [of v] show ?case by (cases "lib_semver_new L v") (auto simp: panics_def [of "Inl _"])
qed

lemma highest_platform_api_no_panic:
  assumes "\<And>v. \<not> panics (lib_semver_new L v)"
  shows "\<not> panics (highest_platform_api L bx svs)"
proof (induction svs)
  case Nil
  then show ?case by simp
next
  case (Cons sv svs)
  have "\<not> panics (find_platform_api L sv (bpc_platform_apis (bx_builder_config bx)))"
    using find_platform_api_no_panic assms by blast
  with Cons show ?case
    by (cases "find_platform_api L sv (bpc_platform_apis (bx_builder_config bx))")
       (auto simp: panics_def split: option.splits)
qed

lemma panics_bind: "panics (bind_res r f) \<longleftrightarrow> panics r \<or> (\<exists>x. r = Inr x \<and> panics (f x))"
  by (cases r) (simp_all add: panics_def)

lemma parse_int_no_panic [simp]: "\<not> panics (parse_int s)"
  by (auto simp: parse_number_def Let_def split: option.split list.split)

lemma build_pod_no_panic:
  assumes "bs_tags (b_spec b) \<noteq> []" and "source_of (bs_source (b_spec b)) \<noteq> None"
    and "list_all binding_ok (bx_bindings bx)" and "semver_ok (pl_lib PL)"
    and parse: "\<And>v. \<not> panics (lib_semver_new (pl_lib PL) v)" "\<And>r. \<not> panics (lib_parse_reference (pl_lib PL) r)"
  shows "\<not> panics (build_pod PL b images bx)"
proof -
  let ?L = "pl_lib PL"
  obtain svs where "supportedPlatformAPIVersions ?L = Inr svs"
    using assms(4) by (fastforce simp: supportedPlatformAPIVersions_def semver_ok_def)
  then have api: "\<not> panics (highest_supported_platform_api ?L bx)"
    using highest_platform_api_no_panic [OF parse(1)] by (simp add: highest_supported_platform_api_def)
  have tag: "\<not> panics (build_tag b)" using assms(1) by (simp add: build_tag_def split: list.split)
  have time: "\<not> panics (parse_time clk t)" for clk t
    by (simp add: parse_time_def panics_bind)
  have side: "\<not> panics (with_sidecars b bx images q)" if "commands_set q" for q
    using with_sidecars_total [OF that, of b bx images] by (auto simp: panics_def)
  have rebase: "\<not> panics (rebase_pod PL b bx images)" if "rebasable b st" for st
    using that side [OF rebase_pod_plain_steps(2)] by (auto simp: rebase_pod_def rebasable_def split: option.splits)
  show ?thesis
    using api tag time side [OF build_pod_plain_steps(2)] rebase parse(2) assms(2)
      setup_bindings_no_panic [OF assms(3)]
    by (auto simp: build_pod_def panics_bind split: option.splits)
qed

section \<open>Image pull secrets\<close>

lemma deduplicate_from_spec:
  "distinct (map lref_name (deduplicate_from seen rs)) \<and>
   lref_name ` set (deduplicate_from seen rs) = lref_name ` set rs - set seen"
  by (induction seen rs rule: deduplicate_from.induct) auto

lemma deduplicate_spec:
  "distinct (map lref_name (deduplicate ls)) \<and> lref_name ` set (deduplicate ls) = lref_name ` set (concat ls)"
  using deduplicate_from_spec [of "[]" "concat ls"] by (simp add: deduplicate_def)

section \<open>A secret that is used twice\<close>

text \<open>
  Registry secrets and signing keys number their volumes by the same positions, so a secret that is
  both gets two volumes of one name.
\<close>

lemma setup_secrets_from_name:
  "setup_secrets_from i keep ss = (vs, ms, args) \<Longrightarrow> j < length ss \<Longrightarrow> secret_arg keep (ss ! j) \<noteq> None \<Longrightarrow>
   secret_volume_name (i + j) \<in> vol_name ` set vs"
proof (induction i keep ss arbitrary: j vs ms args rule: setup_secrets_from.induct)
  case (1 i keep)
  then show ?case by simp
next
  case (2 i keep s ss)
  obtain vs' ms' args' where r: "setup_secrets_from (Suc i) keep ss = (vs', ms', args')"
    by (cases "setup_secrets_from (Suc i) keep ss") auto
  show ?case
  proof (cases j)
    case 0
    with 2 r show ?thesis by (auto split: option.splits)
  next
    case (Suc k)
    with 2 r have "secret_volume_name (Suc i + k) \<in> vol_name ` set vs'" by simp
    with 2(2) r Suc show ?thesis by (auto split: option.splits)
  qed
qed

lemma setup_cosign_from_name:
  "setup_cosign_from i ss = (vs, ms, args) \<Longrightarrow> j < length ss \<Longrightarrow>
   lookup_str (sec_data (ss ! j)) cosignSecretDataCosignKey \<noteq> '''' \<Longrightarrow>
   secret_volume_name (i + j) \<in> vol_name ` set vs"
proof (induction i ss arbitrary: j vs ms args rule: setup_cosign_from.induct)
  case (1 i)
  then show ?case by simp
next
  case (2 i s ss)
  obtain vs' ms' args' where r: "setup_cosign_from (Suc i) ss = (vs', ms', args')"
    by (cases "setup_cosign_from (Suc i) ss") auto
  show ?case
  proof (cases j)
    case 0
    with 2 r show ?thesis by (auto split: if_splits)
  next
    case (Suc k)
    with 2 r have "secret_volume_name (Suc i + k) \<in> vol_name ` set vs'" by simp
    with 2(2) r Suc show ?thesis by (auto split: if_splits)
  qed
qed

lemma shared_name_not_distinct: "x \<in> set xs \<Longrightarrow> x \<in> set ys \<Longrightarrow> \<not> distinct (xs @ ys @ zs)"
  by auto

lemma with_sidecars_volumes:
  "with_sidecars b bx images p = Inr p' \<Longrightarrow>
   \<exists>extra. pod_volumes (pod_spec_of p') = pod_volumes (pod_spec_of p) @ extra"
  by (auto simp: with_sidecars_def use_standard_containers_def Let_def bind_res_eq_Inr split: if_splits)

lemma secret_volume_clash:
  assumes "j < length ss" and "secret_arg keep (ss ! j) \<noteq> None"
    and "lookup_str (sec_data (ss ! j)) cosignSecretDataCosignKey \<noteq> ''''"
    and "setup_secret_volumes_and_args ss keep = (vs, ms, args)" and "setup_cosign_volumes ss = (vs', ms', args')"
  shows "\<not> distinct (map vol_name vs @ map vol_name vs' @ rest)"
proof (rule shared_name_not_distinct)
  show "secret_volume_name j \<in> set (map vol_name vs)"
    using setup_secrets_from_name [of 0 keep ss vs ms args j] assms by (simp add: setup_secret_volumes_and_args_def)
  show "secret_volume_name j \<in> set (map vol_name vs')"
    using setup_cosign_from_name [of 0 ss vs' ms' args' j] assms by (simp add: setup_cosign_volumes_def)
qed

lemma dockerconfig_secret_arg:
  "sec_type s = SecretTypeDockerConfigJson \<Longrightarrow> keep s \<Longrightarrow> secret_arg keep s \<noteq> None"
  by (simp add: secret_arg_def Let_def SecretTypeDockerConfigJson_def SecretTypeBasicAuth_def)

lemma build_pod_secret_clash:
  assumes "build_pod PL b images bx = Inr p" and "s \<in> set (bx_secrets bx)"
    and "sec_type s = SecretTypeDockerConfigJson" and "lookup_str (sec_data s) cosignSecretDataCosignKey \<noteq> ''''"
  shows "\<not> distinct (map vol_name (pod_volumes (pod_spec_of p)))"
proof -
  obtain j where j: "j < length (bx_secrets bx)" "bx_secrets bx ! j = s"
    using assms(2) by (metis in_set_conv_nth)
  have docker: "docker_secrets s" using assms(3) by (simp add: docker_secrets_def)
  then have keep: "secret_arg docker_secrets s \<noteq> None" "secret_arg (build_secrets w) s \<noteq> None" for w
    using dockerconfig_secret_arg [OF assms(3)] by (simp_all add: build_secrets_def)
  obtain cv cm ca where c: "setup_cosign_volumes (bx_secrets bx) = (cv, cm, ca)"
    by (cases "setup_cosign_volumes (bx_secrets bx)") auto
  note clash = secret_volume_clash [OF j(1) _ _ _ c]
  from assms(1) show ?thesis
  proof (cases rule: build_pod_cases)
    case (rebase api l)
    obtain sv sm sa where s: "setup_secret_volumes_and_args (bx_secrets bx) docker_secrets = (sv, sm, sa)"
      by (cases "setup_secret_volumes_and_args (bx_secrets bx) docker_secrets") auto
    obtain rest where "pod_volumes (pod_spec_of p) = sv @ cv @ rest"
      using with_sidecars_volumes [OF rebase(4)] s c by (auto simp: rebase_pod_plain_def split: prod.splits)
    then show ?thesis using clash [OF _ _ s, of "map vol_name rest"] keep(1) j(2) assms(4)
      by (simp only: map_append) simp
  next
    case (full api tag ref src bv bm dt)
    let ?keep = "build_secrets (blob_auth_use_secrets b)"
    obtain sv sm sa where s: "setup_secret_volumes_and_args (bx_secrets bx) ?keep = (sv, sm, sa)"
      by (cases "setup_secret_volumes_and_args (bx_secrets bx) ?keep") auto
    obtain rest where "pod_volumes (pod_spec_of p) = sv @ cv @ rest"
      using with_sidecars_volumes [OF full(8)] s c by (auto simp: build_pod_plain_def Let_def split: prod.splits)
    then show ?thesis using clash [OF _ _ s, of "map vol_name rest"] keep(2) j(2) assms(4)
      by (simp only: map_append) simp
  qed
qed

section \<open>The user's environment\<close>

definition step_env_names :: "string set" where
  "step_env_names = {''HOME'', platformApiVersionEnvVarName, serviceBindingRootEnvVar, ''SOURCE_DATE_EPOCH'',
     ''CNB_RUN_IMAGE'', CacheTagEnvVar, TerminationMessagePathEnvVar, buildChangesEnvVar}"

text \<open>
  A step's own process never sees a variable of the build specification: only the prepare container,
  which writes the prefixed ones into the platform directory.
\<close>

definition env_isolated :: "build \<Rightarrow> container \<Rightarrow> bool" where
  "env_isolated b c \<longleftrightarrow>
     (if ctr_name c = ''prepare'' then set (map platform_env_var (bs_env (b_spec b))) \<subseteq> set (ctr_env c)
      else env_name ` set (ctr_env c) \<subseteq> step_env_names)"

definition pod_env_isolated :: "build \<Rightarrow> pod \<Rightarrow> bool" where
  "pod_env_isolated b p \<longleftrightarrow> list_all (env_isolated b)
     (pod_init_containers (pod_spec_of p) @ pod_containers (pod_spec_of p))"

lemma chain_waiters_env:
  "chain_waiters f cs = Inr cs' \<Longrightarrow> list_all (env_isolated b) cs \<Longrightarrow> list_all (env_isolated b) cs'"
  by (induction cs arbitrary: f cs')
     (auto simp: bind_res_eq_Inr set_up_build_waiter_def env_isolated_def split: list.splits if_splits)

lemma add_first_mount_env: "list_all (env_isolated b) (add_first_mount m cs) = list_all (env_isolated b) cs"
  by (cases cs) (simp_all add: env_isolated_def)

lemma with_sidecars_env:
  assumes "pod_env_isolated b p" and "with_sidecars b bx images p = Inr p'"
  shows "pod_env_isolated b p'"
proof (cases "bx_injected_sidecars bx")
  case False
  with assms show ?thesis by (simp add: with_sidecars_def)
next
  case True
  let ?s = "pod_spec_of p"
  obtain cs where cs: "chain_waiters ''/downward/sidecars-ready''
      (add_first_mount downwardMount (pod_init_containers ?s @ pod_containers ?s)) = Inr cs"
    and p': "pod_containers (pod_spec_of p') = cs"
      "pod_init_containers (pod_spec_of p') = [pre_start_container b (bpi_build_waiter images)]"
    using assms(2) True by (auto simp: with_sidecars_def use_standard_containers_def Let_def bind_res_eq_Inr)
  have "list_all (env_isolated b) cs"
    using assms(1) by (intro chain_waiters_env [OF cs]) (simp add: add_first_mount_env pod_env_isolated_def)
  with p' show ?thesis by (simp add: pod_env_isolated_def pre_start_container_def env_isolated_def)
qed

lemma rebase_pod_plain_env: "pod_env_isolated b (rebase_pod_plain PL b l bx images)"
  by (simp add: pod_env_isolated_def rebase_pod_plain_def completion_container_def env_isolated_def
      RebaseContainerName_def CompletionContainerName_def step_env_names_def split: prod.split)

lemma export_container_env: "env_isolated b (export_container b bx (plain_env platformApiVersionEnvVarName v) dt)"
  by (auto simp: env_isolated_def export_container_def lifecycle_container_def ExportContainerName_def
      envs_def step_env_names_def homeEnv_def split: option.splits)

lemma build_pod_plain_env: "pod_env_isolated b (build_pod_plain PL b bx images api tag dns src bv bm dt)"
proof -
  have "env_isolated b (prepare_container b bx images src tag dns args ms)" for args ms
    by (auto simp: env_isolated_def prepare_container_def prepare_env_def PrepareContainerName_def)
  moreover have "env_isolated b (analyze_container b bx tag (plain_env platformApiVersionEnvVarName v))"
    "env_isolated b (detect_container b bx (plain_env platformApiVersionEnvVarName v) ms)"
    "env_isolated b (restore_container b bx (plain_env platformApiVersionEnvVarName v))"
    "env_isolated b (build_container b bx (plain_env platformApiVersionEnvVarName v) ms)"
    "env_isolated b (completion_container b images [homeEnv] cargs ms)" for v ms cargs
    by (simp_all add: env_isolated_def analyze_container_def detect_container_def restore_container_def
        build_container_def completion_container_def lifecycle_container_def step_env_names_def homeEnv_def
        serviceBindingRootEnv_def AnalyzeContainerName_def DetectContainerName_def RestoreContainerName_def
        BuildContainerName_def CompletionContainerName_def)
  ultimately show ?thesis
    by (simp add: pod_env_isolated_def build_pod_plain_def Let_def export_container_env split: prod.split)
qed

lemma build_pod_env: "build_pod PL b images bx = Inr p \<Longrightarrow> pod_env_isolated b p"
  by (erule build_pod_cases)
     (auto intro: with_sidecars_env rebase_pod_plain_env build_pod_plain_env)

end
