(* ===== verification/Build_Reconciler.thy ===== *)
theory Build_Reconciler
  imports Build_Pod_Props Api_Defaults
begin

text \<open>
  The build reconciler, \<open>pkg/reconciler/build/build.go\<close>: it creates the pod of a build once, reads the
  metadata the completion container left, and turns the pod's state into the build's status. Pods
  come from an interface (\<open>PodGenerator\<close>), and the attestation library, the decoder of the completion
  message and the API server answer through the environment.
\<close>

section \<open>The environment\<close>

record build_metadata =
  bmd_buildpacks :: "buildpack_metadata list"
  bmd_latest_cache_image :: string
  bmd_latest_image :: string
  bmd_stack_id :: string
  bmd_stack_run_image :: string
  bmd_lifecycle_version :: string

datatype bld_event =
    CreatePod pod
  | PatchBuildReady string string
  | PatchDeadline string string
  | UpdateBuildStatus build

text \<open>
  \<open>be_attest\<close> stands for \<open>attestBuild\<close>; the calls to the attestation libraries are made in there.
\<close>

record bld_env =
  be_split_key :: "string \<Rightarrow> (string \<times> string) res"
  be_get_build :: "bld_event list \<Rightarrow> string \<Rightarrow> string \<Rightarrow> build res"
  be_get_pod :: "bld_event list \<Rightarrow> string \<Rightarrow> string \<Rightarrow> pod res"
  be_generate :: "bld_event list \<Rightarrow> build \<Rightarrow> pod res"
  be_create_pod :: "bld_event list \<Rightarrow> pod \<Rightarrow> pod res"
  be_patch_pod :: "bld_event list \<Rightarrow> string \<Rightarrow> string \<Rightarrow> pod res"
  be_decompress :: "string \<Rightarrow> build_metadata res"
  be_attest :: "bld_event list \<Rightarrow> build \<Rightarrow> build_metadata \<Rightarrow> pod \<Rightarrow> string res"
  be_termination_message :: "pod \<Rightarrow> container_status \<Rightarrow> string"
  be_update_status :: "bld_event list \<Rightarrow> build \<Rightarrow> unit res"

record bld_conf =
  bc_lib :: lib
  bc_now :: int
  bc_status_equal :: "build_status \<Rightarrow> build_status \<Rightarrow> bool"
  bc_injected_sidecars :: bool
  bc_attestation :: bool

type_synonym 'a bld_io = "(bld_event, 'a) io"

section \<open>Reading a pod\<close>

definition build_step_completed :: "container_status \<Rightarrow> bool" where
  "build_step_completed s \<longleftrightarrow>
     (case cs_state s of CsTerminated t \<Rightarrow> term_exit_code t = 0 | _ \<Rightarrow> False) \<and> is_build_step (cs_name s)"

definition all_container_statuses :: "pod \<Rightarrow> container_status list" where
  "all_container_statuses p = ps_init_containers (pod_status_of p) @ ps_containers (pod_status_of p)"

definition steps_completed :: "pod \<Rightarrow> string list" where
  "steps_completed p = map cs_name (filter build_step_completed (all_container_statuses p))"

definition fill_message :: "container_status \<Rightarrow> container_state" where
  "fill_message s =
     (case cs_state s of
        CsTerminated t \<Rightarrow>
          (if term_message t = '''' then
             CsTerminated (t\<lparr>term_message := ''Container '' @ cs_name s @ '' terminated '' @
               (if term_exit_code t \<noteq> 0 then ''with error'' else ''successfully'')\<rparr>)
           else CsTerminated t)
      | CsWaiting w \<Rightarrow>
          (if wait_message w = '''' then CsWaiting (w\<lparr>wait_message := ''Container '' @ cs_name s @ '' waiting''\<rparr>)
           else CsWaiting w)
      | st \<Rightarrow> st)"

text \<open>
  \<open>createContainerStateForBuild\<close> writes the message through the pointers of the status it was
  given, so the pod that the later code reads has the messages filled in too: \<open>stepStates\<close> returns
  the states and leaves the pod changed.
\<close>

definition fill_status :: "container_status \<Rightarrow> container_status" where
  "fill_status s = (if is_build_step (cs_name s) then s\<lparr>cs_state := fill_message s\<rparr> else s)"

definition fill_pod :: "pod \<Rightarrow> pod" where
  "fill_pod p = p\<lparr>pod_status_of := (pod_status_of p)
     \<lparr>ps_init_containers := map fill_status (ps_init_containers (pod_status_of p)),
      ps_containers := map fill_status (ps_containers (pod_status_of p))\<rparr>\<rparr>"

definition step_states :: "pod \<Rightarrow> container_state list \<times> pod" where
  "step_states p =
     (map fill_message (filter (\<lambda>s. is_build_step (cs_name s)) (all_container_statuses p)), fill_pod p)"

definition contains_str :: "string list \<Rightarrow> string \<Rightarrow> bool" where
  "contains_str xs s \<longleftrightarrow> s \<in> set xs"

fun completion_container_exited_in :: "container_status list \<Rightarrow> bool" where
  "completion_container_exited_in [] = False"
| "completion_container_exited_in (s # ss) =
     (if cs_name s = CompletionContainerName
      then (case cs_state s of CsTerminated _ \<Rightarrow> True | _ \<Rightarrow> False)
      else completion_container_exited_in ss)"

definition completion_container_exited :: "pod \<Rightarrow> bool" where
  "completion_container_exited p = completion_container_exited_in (ps_containers (pod_status_of p))"

definition all_containers_ready :: "pod \<Rightarrow> bool" where
  "all_containers_ready p \<longleftrightarrow>
     length (filter cs_ready (ps_containers (pod_status_of p))) = length (pod_containers (pod_spec_of p))"

text \<open>
  \<open>status.State.Terminated.Message\<close> of the completion container: a nil pointer when it has not
  terminated.
\<close>

fun build_metadata_from_statuses :: "bld_env \<Rightarrow> container_status list \<Rightarrow> build_metadata res" where
  "build_metadata_from_statuses E [] = Inl (Failed Plain (CompletionContainerName @ '' container not found''))"
| "build_metadata_from_statuses E (s # ss) =
     (if cs_name s = CompletionContainerName
      then (case cs_state s of
              CsTerminated t \<Rightarrow> be_decompress E (term_message t)
            | _ \<Rightarrow> Inl (Panic ''invalid memory address or nil pointer dereference''))
      else build_metadata_from_statuses E ss)"

definition build_metadata_from_build_pod :: "bld_env \<Rightarrow> pod \<Rightarrow> build_metadata res" where
  "build_metadata_from_build_pod E p = build_metadata_from_statuses E (ps_containers (pod_status_of p))"

section \<open>The condition of a build\<close>

definition ReasonCompleted :: string where "ReasonCompleted = ''Completed''"

definition succeeded_now :: "condition_status \<Rightarrow> string \<Rightarrow> string \<Rightarrow> int \<Rightarrow> condition list" where
  "succeeded_now st reason message now = [mk_condition ConditionSucceeded st reason message now]"

text \<open>The first failed init container that left a message.\<close>

definition failed_with_message :: "container_status \<Rightarrow> bool" where
  "failed_with_message s \<longleftrightarrow>
     (case cs_state s of CsTerminated t \<Rightarrow> term_exit_code t \<noteq> 0 \<and> term_message t \<noteq> '''' | _ \<Rightarrow> False)"

fun first_waiting :: "container_status list \<Rightarrow> waiting_state option" where
  "first_waiting [] = None"
| "first_waiting (s # ss) = (case cs_state s of CsWaiting w \<Rightarrow> Some w | _ \<Rightarrow> first_waiting ss)"

definition condition_for_pod :: "bld_env \<Rightarrow> int \<Rightarrow> pod \<Rightarrow> string list \<Rightarrow> condition list" where
  "condition_for_pod E now p completed =
     (case ps_phase (pod_status_of p) of
        PodSucceeded \<Rightarrow> succeeded_now ConditionTrue ReasonCompleted '''' now
      | PodFailed \<Rightarrow>
          (if ps_reason (pod_status_of p) = ''DeadlineExceeded'' \<and> contains_str completed ''completion''
           then succeeded_now ConditionTrue ReasonCompleted '''' now
           else case find failed_with_message (ps_init_containers (pod_status_of p)) of
                  Some s \<Rightarrow> succeeded_now ConditionFalse ''Failed''
                    (''Error: '' @ ps_message (pod_status_of p) @ be_termination_message E p s) now
                | None \<Rightarrow> succeeded_now ConditionFalse ''Failed'' (ps_message (pod_status_of p)) now)
      | PodPending \<Rightarrow>
          (case first_waiting (ps_init_containers (pod_status_of p)) of
             Some w \<Rightarrow> succeeded_now ConditionUnknown (wait_reason w) (wait_message w) now
           | None \<Rightarrow> succeeded_now ConditionUnknown '''' '''' now)
      | _ \<Rightarrow> succeeded_now ConditionUnknown '''' '''' now)"

section \<open>Reconciling the pod\<close>

definition reconcile_build_pod :: "bld_conf \<Rightarrow> bld_env \<Rightarrow> build \<Rightarrow> pod bld_io" where
  "reconcile_build_pod C E b =
     attempt_io (read_io (\<lambda>h. be_get_pod E h (meta_namespace (b_meta b)) (pod_name_of (bc_lib C) b)))
       (\<lambda>r. case r of
            Inr p \<Rightarrow> ret_io p
          | Inl e \<Rightarrow>
              (if \<not> is_not_found e then fail_io e
               else bind_io (map_err_io new_permanent_error (read_io (\<lambda>h. be_generate E h b)))
                      (\<lambda>cfg. call_io (CreatePod cfg) (\<lambda>h. be_create_pod E h cfg))))"

definition set_build_ready :: "bld_env \<Rightarrow> pod \<Rightarrow> pod bld_io" where
  "set_build_ready E p =
     (if meta_annotations (pod_meta p) BuildReadyAnnotation \<noteq> None then ret_io p
      else if \<not> all_containers_ready p then ret_io p
      else call_io (PatchBuildReady (meta_namespace (pod_meta p)) (meta_name (pod_meta p)))
             (\<lambda>h. be_patch_pod E h (meta_namespace (pod_meta p)) (meta_name (pod_meta p))))"

definition cleanup_if_needed :: "bld_env \<Rightarrow> pod \<Rightarrow> pod bld_io" where
  "cleanup_if_needed E p =
     (if ps_phase (pod_status_of p) = PodRunning \<and> completion_container_exited p
      then call_io (PatchDeadline (meta_namespace (pod_meta p)) (meta_name (pod_meta p)))
             (\<lambda>h. be_patch_pod E h (meta_namespace (pod_meta p)) (meta_name (pod_meta p)))
      else ret_io p)"

definition sidecar_upkeep :: "bld_conf \<Rightarrow> bld_env \<Rightarrow> pod \<Rightarrow> pod bld_io" where
  "sidecar_upkeep C E p =
     (if bc_injected_sidecars C then bind_io (set_build_ready E p) (cleanup_if_needed E) else ret_io p)"

definition apply_metadata :: "build_metadata \<Rightarrow> string \<Rightarrow> build \<Rightarrow> build" where
  "apply_metadata md digest b = b\<lparr>b_status := (b_status b)
     \<lparr>bst_build_metadata := bmd_buildpacks md,
      bst_latest_image := bmd_latest_image md,
      bst_latest_cache_image := bmd_latest_cache_image md,
      bst_latest_attestation_image := digest,
      bst_stack := \<lparr>stack_run_image = bmd_stack_run_image md, stack_id = bmd_stack_id md\<rparr>,
      bst_lifecycle_version := bmd_lifecycle_version md\<rparr>\<rparr>"

definition read_metadata :: "bld_conf \<Rightarrow> bld_env \<Rightarrow> build \<Rightarrow> pod \<Rightarrow> build bld_io" where
  "read_metadata C E b p =
     (if metadata_ready b p then
        bind_io (lift_io (map_err (errorf ''failed to get build metadata from build pod'')
                            (build_metadata_from_build_pod E p))) (\<lambda>md.
        bind_io (if bc_attestation C
                 then map_err_io (errorf ''failed to attest build'') (read_io (\<lambda>h. be_attest E h b md p))
                 else ret_io '''') (\<lambda>digest.
        ret_io (apply_metadata md digest b)))
      else ret_io b)"

text \<open>The three assignments run in this order, so the condition is read off the changed pod.\<close>

definition apply_pod_state :: "bld_conf \<Rightarrow> bld_env \<Rightarrow> pod \<Rightarrow> build \<Rightarrow> build" where
  "apply_pod_state C E p b =
     (let (states, p') = step_states p; completed = steps_completed p'
      in b\<lparr>b_status := (b_status b)
           \<lparr>bst_pod_name := meta_name (pod_meta p),
            bst_step_states := states,
            bst_steps_completed := completed,
            bst_status := (bst_status (b_status b))\<lparr>st_conditions := condition_for_pod E (bc_now C) p' completed\<rparr>\<rparr>\<rparr>)"

definition reconcile_build_object :: "bld_conf \<Rightarrow> bld_env \<Rightarrow> build \<Rightarrow> build bld_io" where
  "reconcile_build_object C E b =
     (if build_finished b then ret_io b
      else
        bind_io (map_err_io (\<lambda>e. if is_invalid e then new_permanent_error e else e) (reconcile_build_pod C E b))
        (\<lambda>p0. bind_io (sidecar_upkeep C E p0)
        (\<lambda>p. bind_io (read_metadata C E b p)
        (\<lambda>b'. ret_io (apply_pod_state C E p b')))))"

section \<open>The whole reconcile\<close>

definition update_build_status :: "bld_conf \<Rightarrow> bld_env \<Rightarrow> build \<Rightarrow> unit bld_io" where
  "update_build_status C E desired0 =
     (let desired = desired0\<lparr>b_status := (b_status desired0)
            \<lparr>bst_status := (bst_status (b_status desired0))\<lparr>st_observed_generation := meta_generation (b_meta desired0)\<rparr>\<rparr>\<rparr>
      in bind_io (read_io (\<lambda>h. be_get_build E h (meta_namespace (b_meta desired)) (meta_name (b_meta desired))))
         (\<lambda>original. if bc_status_equal C (b_status original) (b_status desired) then ret_io ()
                      else call_io (UpdateBuildStatus desired) (\<lambda>h. be_update_status E h desired)))"

text \<open>
  A permanent error is written into the status. The build is then the one of the reconcile, without
  what the failed run had set: the pod is created before anything is set, and the other errors are
  not permanent.
\<close>

definition reconcile_build_key :: "bld_conf \<Rightarrow> bld_env \<Rightarrow> string \<Rightarrow> unit bld_io" where
  "reconcile_build_key C E k =
     bind_io (lift_io (be_split_key E k)) (\<lambda>(ns, nm).
     attempt_io (read_io (\<lambda>h. be_get_build E h ns nm))
       (\<lambda>r. case r of
            Inl e \<Rightarrow> (if is_not_found e then ret_io () else fail_io e)
          | Inr b0 \<Rightarrow>
              (let b = build_set_defaults b0
               in attempt_io (reconcile_build_object C E b)
                    (\<lambda>r. case r of
                         Inr b' \<Rightarrow> update_build_status C E b'
                       | Inl e \<Rightarrow>
                           (if is_permanent e
                            then update_build_status C E (b\<lparr>b_status := build_status_error (bc_now C) e (b_status b)\<rparr>)
                            else fail_io e)))))"

end
