(* ===== verification/Build_Reconciler_Props.thy ===== *)
theory Build_Reconciler_Props
  imports Build_Reconciler
begin

text \<open>
  What the build reconciler guarantees: a build succeeds exactly when its pod did, a successful build
  carries the metadata its completion container wrote, a finished build is left alone, and a pod is
  created only when there is none. The interface \<open>PodGenerator\<close> is a locale: a generator that names
  its pods after the build never gives a build a second pod.
\<close>

section \<open>The condition\<close>

definition pod_deadline_completed :: "pod \<Rightarrow> bool" where
  "pod_deadline_completed p \<longleftrightarrow> ps_phase (pod_status_of p) = PodFailed \<and>
     ps_reason (pod_status_of p) = ''DeadlineExceeded'' \<and> ''completion'' \<in> set (steps_completed p)"

lemma fill_status_simps [simp]:
  "cs_name (fill_status s) = cs_name s"
  "build_step_completed (fill_status s) = build_step_completed s"
  by (auto simp: fill_status_def build_step_completed_def fill_message_def split: container_state.split)

lemma fill_pod_simps [simp]:
  "ps_phase (pod_status_of (fill_pod p)) = ps_phase (pod_status_of p)"
  "ps_reason (pod_status_of (fill_pod p)) = ps_reason (pod_status_of p)"
  "ps_message (pod_status_of (fill_pod p)) = ps_message (pod_status_of p)"
  "steps_completed (fill_pod p) = steps_completed p"
proof -
  have "filter build_step_completed (map fill_status ss) = map fill_status (filter build_step_completed ss)" for ss
    by (induction ss) simp_all
  then show "steps_completed (fill_pod p) = steps_completed p"
    by (simp add: steps_completed_def all_container_statuses_def fill_pod_def comp_def)
qed (simp_all add: fill_pod_def)

lemma condition_status:
  "is_true (get_condition_in (condition_for_pod E now p (steps_completed p)) ConditionSucceeded) \<longleftrightarrow>
     ps_phase (pod_status_of p) = PodSucceeded \<or> pod_deadline_completed p"
  "is_false (get_condition_in (condition_for_pod E now p (steps_completed p)) ConditionSucceeded) \<longleftrightarrow>
     ps_phase (pod_status_of p) = PodFailed \<and> \<not> pod_deadline_completed p"
  by (auto simp: condition_for_pod_def succeeded_now_def pod_deadline_completed_def contains_str_def mk_condition_def
      split: pod_phase.split option.split)

lemma apply_pod_state_status:
  "is_success (Some (apply_pod_state C E p b)) \<longleftrightarrow>
     ps_phase (pod_status_of p) = PodSucceeded \<or> pod_deadline_completed p"
  "is_failure (Some (apply_pod_state C E p b)) \<longleftrightarrow>
     ps_phase (pod_status_of p) = PodFailed \<and> \<not> pod_deadline_completed p"
  using condition_status [of E "bc_now C" "fill_pod p"]
  by (simp_all add: apply_pod_state_def step_states_def succeeded_condition_def get_condition_def Let_def
      pod_deadline_completed_def)

lemma apply_pod_state_frame [simp]:
  "b_meta (apply_pod_state C E p b) = b_meta b"
  "b_spec (apply_pod_state C E p b) = b_spec b"
  "bst_latest_image (b_status (apply_pod_state C E p b)) = bst_latest_image (b_status b)"
  "bst_stack (b_status (apply_pod_state C E p b)) = bst_stack (b_status b)"
  "bst_build_metadata (b_status (apply_pod_state C E p b)) = bst_build_metadata (b_status b)"
  "bst_lifecycle_version (b_status (apply_pod_state C E p b)) = bst_lifecycle_version (b_status b)"
  by (simp_all add: apply_pod_state_def step_states_def Let_def)

section \<open>Success and metadata go together\<close>

text \<open>No init container of a build pod is called \<open>completion\<close>.\<close>

definition completion_is_main :: "pod \<Rightarrow> bool" where
  "completion_is_main p \<longleftrightarrow> CompletionContainerName \<notin> cs_name ` set (ps_init_containers (pod_status_of p))"

lemma deadline_completed_iff:
  "completion_is_main p \<Longrightarrow> pod_deadline_completed p \<longleftrightarrow> pod_completed_with_active_deadline p"
  by (auto simp: pod_deadline_completed_def pod_completed_with_active_deadline_def completed_ok_def
      completion_is_main_def steps_completed_def all_container_statuses_def build_step_completed_def
      list_ex_iff is_build_step_def build_steps_def CompletionContainerName_def image_iff)

definition carries_metadata :: "build_metadata \<Rightarrow> build \<Rightarrow> bool" where
  "carries_metadata md b \<longleftrightarrow>
     bst_build_metadata (b_status b) = bmd_buildpacks md \<and> bst_latest_image (b_status b) = bmd_latest_image md \<and>
     bst_stack (b_status b) = \<lparr>stack_run_image = bmd_stack_run_image md, stack_id = bmd_stack_id md\<rparr> \<and>
     bst_lifecycle_version (b_status b) = bmd_lifecycle_version md"

lemma read_metadata_ready:
  assumes "metadata_ready b p" and "fst (read_metadata C E b p h) = Inr b'"
  shows "\<exists>md. build_metadata_from_build_pod E p = Inr md \<and> carries_metadata md b'"
  using assms
  by (cases "build_metadata_from_build_pod E p")
     (auto simp: read_metadata_def io_simps apply_metadata_def carries_metadata_def split: sum.splits if_splits)

lemma read_metadata_frame:
  "fst (read_metadata C E b p h) = Inr b' \<Longrightarrow> b_meta b' = b_meta b \<and> b_spec b' = b_spec b"
  by (auto simp: read_metadata_def io_simps apply_metadata_def split: sum.splits if_splits)

text \<open>The pod that a successful run has worked on.\<close>

lemma reconcile_build_object_inv:
  assumes "fst (reconcile_build_object C E b h) = Inr b'" and "\<not> build_finished b"
  shows "\<exists>p h' b1. fst (read_metadata C E b p h') = Inr b1 \<and> b' = apply_pod_state C E p b1"
proof -
  let ?m1 = "map_err_io (\<lambda>e. if is_invalid e then new_permanent_error e else e) (reconcile_build_pod C E b)"
  have run: "reconcile_build_object C E b = bind_io ?m1 (\<lambda>p0. bind_io (sidecar_upkeep C E p0)
      (\<lambda>p. bind_io (read_metadata C E b p) (\<lambda>b'. ret_io (apply_pod_state C E p b'))))"
    using assms(2) by (simp add: reconcile_build_object_def)
  obtain p0 where p0: "fst (?m1 h) = Inr p0"
    using assms(1) run by (auto simp: bind_io_apply split: sum.splits)
  let ?h1 = "snd (?m1 h)"
  obtain p where p: "fst (sidecar_upkeep C E p0 ?h1) = Inr p"
    using assms(1) run p0 by (auto simp: bind_io_apply split: sum.splits)
  let ?h2 = "snd (sidecar_upkeep C E p0 ?h1)"
  obtain b1 where b1: "fst (read_metadata C E b p ?h2) = Inr b1"
    using assms(1) run p0 p by (auto simp: bind_io_apply split: sum.splits)
  with assms(1) run p0 p show ?thesis by (auto simp: bind_io_apply)
qed

lemma reconcile_build_object_success:
  assumes "fst (reconcile_build_object C E b h) = Inr b'" and "\<not> build_finished b"
    and "is_success (Some b')"
    and pods: "\<And>h ns n p. be_get_pod E h ns n = Inr p \<Longrightarrow> completion_is_main p"
      "\<And>h p q. be_create_pod E h p = Inr q \<Longrightarrow> completion_is_main q"
      "\<And>h ns n p. be_patch_pod E h ns n = Inr p \<Longrightarrow> completion_is_main p"
  shows "\<exists>p md. build_metadata_from_build_pod E p = Inr md \<and> carries_metadata md b'"
proof -
  let ?m1 = "map_err_io (\<lambda>e. if is_invalid e then new_permanent_error e else e) (reconcile_build_pod C E b)"
  have run: "reconcile_build_object C E b = bind_io ?m1 (\<lambda>p0. bind_io (sidecar_upkeep C E p0)
      (\<lambda>p. bind_io (read_metadata C E b p) (\<lambda>b'. ret_io (apply_pod_state C E p b'))))"
    using assms(2) by (simp add: reconcile_build_object_def)
  obtain p0 where p0: "fst (?m1 h) = Inr p0"
    using assms(1) run by (auto simp: bind_io_apply split: sum.splits)
  have main0: "completion_is_main p0"
    using p0 pods(1,2)
    by (auto simp: reconcile_build_pod_def io_simps map_err_def split: sum.splits if_splits goerr.splits)
  let ?h1 = "snd (?m1 h)"
  obtain p where p: "fst (sidecar_upkeep C E p0 ?h1) = Inr p"
    using assms(1) run p0 by (auto simp: bind_io_apply split: sum.splits)
  have main: "completion_is_main p"
    using p main0 pods(3)
    by (auto simp: sidecar_upkeep_def set_build_ready_def cleanup_if_needed_def io_simps split: if_splits sum.splits)
  let ?h2 = "snd (sidecar_upkeep C E p0 ?h1)"
  obtain b1 where b1: "fst (read_metadata C E b p ?h2) = Inr b1"
    using assms(1) run p0 p by (auto simp: bind_io_apply split: sum.splits)
  have b': "b' = apply_pod_state C E p b1"
    using assms(1) run p0 p b1 by (simp add: bind_io_apply)
  have "metadata_ready b p"
    using assms(2,3) apply_pod_state_status(1) [of C E p b1] deadline_completed_iff [OF main] build_state_cases [of b]
    by (auto simp: b' metadata_ready_def build_finished_iff)
  from read_metadata_ready [OF this b1] show ?thesis
    by (auto simp: b' carries_metadata_def)
qed

section \<open>What a run changes\<close>

text \<open>A run changes the status only; this is the progress step of the image's history.\<close>

lemma reconcile_build_object_frame:
  assumes "fst (reconcile_build_object C E b h) = Inr b'"
  shows "b_meta b' = b_meta b \<and> b_spec b' = b_spec b"
proof (cases "build_finished b")
  case True
  with assms show ?thesis by (simp add: reconcile_build_object_def)
next
  case False
  then show ?thesis
    using reconcile_build_object_inv [OF assms] read_metadata_frame by fastforce
qed

lemma reconcile_build_object_finished:
  "build_finished b \<Longrightarrow> reconcile_build_object C E b h = (Inr b, h)"
  by (simp add: reconcile_build_object_def)

section \<open>Messages\<close>

text \<open>
  For a build step the test for a message in \<open>conditionForPod\<close> always succeeds, because
  \<open>stepStates\<close> has filled in the missing messages before.
\<close>

lemma failed_with_message_filled:
  assumes "is_build_step (cs_name s)"
  shows "failed_with_message (fill_status s) \<longleftrightarrow>
     (case cs_state s of CsTerminated t \<Rightarrow> term_exit_code t \<noteq> 0 | _ \<Rightarrow> False)"
  using assms by (auto simp: failed_with_message_def fill_status_def fill_message_def split: container_state.split)

section \<open>Panics\<close>

definition pod_consistent :: "pod \<Rightarrow> bool" where
  "pod_consistent p \<longleftrightarrow> (ps_phase (pod_status_of p) = PodSucceeded \<longrightarrow>
       list_all (\<lambda>s. \<exists>t. cs_state s = CsTerminated t) (ps_containers (pod_status_of p))) \<and>
     distinct (map cs_name (ps_containers (pod_status_of p)))"

lemma build_metadata_from_statuses_no_panic:
  assumes "\<And>t. \<not> panics (be_decompress E t)"
    and "\<forall>s \<in> set ss. cs_name s = CompletionContainerName \<longrightarrow> (\<exists>t. cs_state s = CsTerminated t)"
  shows "\<not> panics (build_metadata_from_statuses E ss)"
  using assms by (induction ss) (auto simp: CompletionContainerName_def split: container_state.split)

lemma metadata_ready_terminated:
  assumes "metadata_ready b p" and "pod_consistent p"
  shows "\<forall>s \<in> set (ps_containers (pod_status_of p)). cs_name s = CompletionContainerName \<longrightarrow>
     (\<exists>t. cs_state s = CsTerminated t)"
proof (cases "ps_phase (pod_status_of p) = PodSucceeded")
  case True
  with assms(2) show ?thesis by (auto simp: pod_consistent_def list_all_iff)
next
  case False
  with assms(1) obtain s0 where s0: "s0 \<in> set (ps_containers (pod_status_of p))" "completed_ok s0"
    by (auto simp: metadata_ready_def pod_completed_with_active_deadline_def list_ex_iff)
  then obtain t where t: "cs_name s0 = CompletionContainerName" "cs_state s0 = CsTerminated t"
    by (auto simp: completed_ok_def split: container_state.splits)
  have "s = s0" if "s \<in> set (ps_containers (pod_status_of p))" "cs_name s = CompletionContainerName" for s
    using assms(2) s0(1) t(1) that by (auto simp: pod_consistent_def distinct_map inj_on_def)
  with t(2) show ?thesis by blast
qed

definition bld_env_ok :: "bld_env \<Rightarrow> bool" where
  "bld_env_ok E \<longleftrightarrow>
     (\<forall>k. \<not> panics (be_split_key E k)) \<and> (\<forall>h ns n. \<not> panics (be_get_build E h ns n)) \<and>
     (\<forall>h ns n. \<not> panics (be_get_pod E h ns n)) \<and> (\<forall>h b. \<not> panics (be_generate E h b)) \<and>
     (\<forall>h p. \<not> panics (be_create_pod E h p)) \<and> (\<forall>h ns n. \<not> panics (be_patch_pod E h ns n)) \<and>
     (\<forall>t. \<not> panics (be_decompress E t)) \<and> (\<forall>h b md p. \<not> panics (be_attest E h b md p)) \<and>
     (\<forall>h b. \<not> panics (be_update_status E h b))"

definition bld_pods_consistent :: "bld_env \<Rightarrow> bool" where
  "bld_pods_consistent E \<longleftrightarrow>
     (\<forall>h ns n p. be_get_pod E h ns n = Inr p \<longrightarrow> pod_consistent p) \<and>
     (\<forall>h p q. be_create_pod E h p = Inr q \<longrightarrow> pod_consistent q) \<and>
     (\<forall>h ns n p. be_patch_pod E h ns n = Inr p \<longrightarrow> pod_consistent p)"

lemma safe_reconcile_build_pod: "bld_env_ok E \<Longrightarrow> safe (reconcile_build_pod C E b)"
  unfolding reconcile_build_pod_def
proof (intro safe_attempt, goal_cases)
  case 1
  then show ?case by (auto simp: bld_env_ok_def)
next
  case (2 h r)
  then show ?case
    by (cases r) (auto simp: bld_env_ok_def panics_def [of "Inl _"] intro!: safe_bind safe_map_err)
qed

lemma reconcile_build_pod_consistent:
  "bld_pods_consistent E \<Longrightarrow> fst (reconcile_build_pod C E b h) = Inr p \<Longrightarrow> pod_consistent p"
  by (auto simp: reconcile_build_pod_def bld_pods_consistent_def io_simps map_err_def split: sum.splits if_splits goerr.splits)

lemma sidecar_upkeep_consistent:
  "bld_pods_consistent E \<Longrightarrow> pod_consistent p0 \<Longrightarrow> fst (sidecar_upkeep C E p0 h) = Inr p \<Longrightarrow> pod_consistent p"
  by (auto simp: sidecar_upkeep_def set_build_ready_def cleanup_if_needed_def bld_pods_consistent_def io_simps
      split: if_splits sum.splits)

lemma safe_sidecar_upkeep: "bld_env_ok E \<Longrightarrow> safe (sidecar_upkeep C E p)"
  by (auto simp: sidecar_upkeep_def set_build_ready_def cleanup_if_needed_def bld_env_ok_def intro!: safe_bind)

lemma safe_read_metadata:
  assumes "bld_env_ok E" and "pod_consistent p"
  shows "safe (read_metadata C E b p)"
proof (cases "metadata_ready b p")
  case False
  then show ?thesis by (simp add: read_metadata_def)
next
  case True
  have "\<not> panics (build_metadata_from_build_pod E p)"
    unfolding build_metadata_from_build_pod_def
    using build_metadata_from_statuses_no_panic metadata_ready_terminated [OF True assms(2)] assms(1)
    by (simp add: bld_env_ok_def)
  then have decode: "safe (lift_io (map_err (errorf m) (build_metadata_from_build_pod E p)))" for m
    by (intro safe_lift) simp
  have attest: "safe (if bc_attestation C then map_err_io (errorf m) (read_io (\<lambda>h. be_attest E h b md p)) else ret_io d)"
    for m md d using assms(1) by (auto simp: bld_env_ok_def intro!: safe_map_err)
  show ?thesis
    using True unfolding read_metadata_def by (simp only: if_True) (intro safe_bind decode attest safe_ret)
qed

lemma safe_reconcile_build_object:
  assumes "bld_env_ok E" and "bld_pods_consistent E"
  shows "safe (reconcile_build_object C E b)"
proof (cases "build_finished b")
  case True
  then show ?thesis by (simp add: reconcile_build_object_def)
next
  case False
  have pod: "safe (map_err_io (\<lambda>e. if is_invalid e then new_permanent_error e else e) (reconcile_build_pod C E b))"
    using safe_reconcile_build_pod [OF assms(1)] by (intro safe_map_err) simp_all
  have "safe (reconcile_build_object C E b)"
    unfolding reconcile_build_object_def using False
  proof (simp only: if_False, intro safe_bind, goal_cases)
    case 1
    show ?case by (rule pod)
  next
    case (2 h p0)
    show ?case by (rule safe_sidecar_upkeep [OF assms(1)])
  next
    case (3 h p0 h' p)
    then have "pod_consistent p0"
      using reconcile_build_pod_consistent [OF assms(2)] by (fastforce simp: io_simps map_err_def split: sum.splits)
    then have "pod_consistent p" using sidecar_upkeep_consistent [OF assms(2)] 3 by blast
    then show ?case by (rule safe_read_metadata [OF assms(1)])
  next
    case 4
    show ?case by simp
  qed
  then show ?thesis .
qed

section \<open>Pods are created once\<close>

text \<open>The pods a history of calls has created for a build.\<close>

definition pod_of_build :: "lib \<Rightarrow> build \<Rightarrow> pod \<Rightarrow> bool" where
  "pod_of_build L b p \<longleftrightarrow> meta_name (pod_meta p) = pod_name_of L b \<and>
     meta_namespace (pod_meta p) = meta_namespace (b_meta b)"

fun pods_created :: "bld_event list \<Rightarrow> pod list" where
  "pods_created [] = []"
| "pods_created (CreatePod p # h) = p # pods_created h"
| "pods_created (e # h) = pods_created h"

lemma pods_created_append [simp]: "pods_created (h @ k) = pods_created h @ pods_created k"
  by (induction h rule: pods_created.induct) simp_all

text \<open>The pods of a build on the server, which refuses a second pod of a name. What takes effect is up to \<open>ok\<close>.\<close>

definition same_pod_name :: "pod \<Rightarrow> pod \<Rightarrow> bool" where
  "same_pod_name p q \<longleftrightarrow> meta_name (pod_meta p) = meta_name (pod_meta q) \<and>
     meta_namespace (pod_meta p) = meta_namespace (pod_meta q)"

fun store_pods :: "(bld_event \<Rightarrow> bool) \<Rightarrow> bld_event list \<Rightarrow> pod list \<Rightarrow> pod list" where
  "store_pods ok [] ps = ps"
| "store_pods ok (CreatePod p # h) ps =
     store_pods ok h (if ok (CreatePod p) \<and> \<not> list_ex (same_pod_name p) ps then ps @ [p] else ps)"
| "store_pods ok (_ # h) ps = store_pods ok h ps"

text \<open>Reconciles of one build, one after the other, each with answers of its own.\<close>

fun pods_after :: "bld_conf \<Rightarrow> ((bld_event \<Rightarrow> bool) \<times> bld_env \<times> string) list \<Rightarrow> pod list \<Rightarrow> pod list" where
  "pods_after C [] ps = ps"
| "pods_after C ((ok, E, k) # runs) ps = pods_after C runs (store_pods ok (snd (reconcile_build_key C E k [])) ps)"

text \<open>An event that creates no pod but one named as the build's.\<close>

fun creates_named :: "lib \<Rightarrow> build \<Rightarrow> bld_event \<Rightarrow> bool" where
  "creates_named L b (CreatePod p) \<longleftrightarrow> pod_of_build L b p"
| "creates_named L b _ \<longleftrightarrow> True"

definition one_pod :: "lib \<Rightarrow> build \<Rightarrow> pod list \<Rightarrow> bool" where
  "one_pod L b ps \<longleftrightarrow> length ps \<le> 1 \<and> list_all (pod_of_build L b) ps"

lemma store_pods_one:
  "one_pod L b ps \<Longrightarrow> list_all (creates_named L b) h \<Longrightarrow> one_pod L b (store_pods ok h ps)"
proof (induction ok h ps rule: store_pods.induct)
  case (2 ok p h ps)
  have "one_pod L b (if ok (CreatePod p) \<and> \<not> list_ex (same_pod_name p) ps then ps @ [p] else ps)"
    using "2.prems" by (cases ps) (auto simp: one_pod_def same_pod_name_def pod_of_build_def)
  with "2" show ?case by simp
qed simp_all

lemma pods_after_one:
  "one_pod L b ps \<Longrightarrow> \<forall>(ok, E, k) \<in> set runs. list_all (creates_named L b) (snd (reconcile_build_key C E k [])) \<Longrightarrow>
   one_pod L b (pods_after C runs ps)"
  by (induction C runs ps rule: pods_after.induct) (auto intro: store_pods_one)

lemma pod_of_build_same:
  "meta_name (b_meta b') = meta_name (b_meta b) \<Longrightarrow> meta_namespace (b_meta b') = meta_namespace (b_meta b) \<Longrightarrow>
   pod_of_build L b' = pod_of_build L b"
  by (simp add: pod_of_build_def pod_name_of_def fun_eq_iff)

text \<open>What a lister shows of a build is some version of it.\<close>

definition lists_build :: "bld_env \<Rightarrow> build \<Rightarrow> bool" where
  "lists_build E b \<longleftrightarrow> (\<forall>h ns n b'. be_get_build E h ns n = Inr b' \<longrightarrow>
     meta_name (b_meta b') = meta_name (b_meta b) \<and> meta_namespace (b_meta b') = meta_namespace (b_meta b))"

text \<open>
  The contract of a generator: the pod of a build is found under the build's pod name.
\<close>

locale pod_generator =
  fixes L :: lib
    and gen :: "build \<Rightarrow> pod res"
  assumes gen_named: "gen b = Inr p \<Longrightarrow> pod_of_build L b p"
begin

lemma pod_named:
  assumes "\<And>h b. be_generate E h b = gen b"
  shows "emits (creates_named L b) (reconcile_build_pod C E b)"
  unfolding emits_def
proof
  fix h
  show "\<exists>es. snd (reconcile_build_pod C E b h) = h @ es \<and> list_all (creates_named L b) es"
  proof (cases "be_get_pod E h (meta_namespace (b_meta b)) (pod_name_of (bc_lib C) b)")
    case (Inl e)
    then show ?thesis
      using assms [of h b] gen_named [of b] by (cases e; cases "gen b") (auto simp: reconcile_build_pod_def io_simps)
  qed (simp add: reconcile_build_pod_def io_simps)
qed

lemma object_named:
  assumes "\<And>h b. be_generate E h b = gen b"
  shows "emits (creates_named L b) (reconcile_build_object C E b)"
  unfolding reconcile_build_object_def sidecar_upkeep_def set_build_ready_def cleanup_if_needed_def read_metadata_def
  using pod_named [OF assms, of b C] by (auto intro!: emits_bind emits_attempt emits_map_err split: sum.split)

lemma status_named: "emits (creates_named L b) (update_build_status C E b')"
  by (auto simp: update_build_status_def Let_def intro!: emits_bind)

lemma key_named:
  assumes gen: "\<And>h b. be_generate E h b = gen b" and b: "lists_build E b"
  shows "list_all (creates_named L b) (snd (reconcile_build_key C E k []))"
proof (cases "be_split_key E k")
  case (Inr key)
  obtain ns n where key: "be_split_key E k = Inr (ns, n)" using Inr by (cases key) simp
  show ?thesis
  proof (cases "be_get_build E [] ns n")
    case (Inl e)
    with key show ?thesis by (cases e) (simp_all add: reconcile_build_key_def bind_io_apply attempt_io_apply)
  next
    case get: (Inr b0)
    have same: "creates_named L (build_set_defaults b0) = creates_named L b"
    proof -
      have "pod_of_build L (build_set_defaults b0) = pod_of_build L b"
        using b get by (intro pod_of_build_same) (auto simp: lists_build_def build_set_defaults_def)
      then show ?thesis by (intro ext, rename_tac ev, case_tac ev) simp_all
    qed
    let ?m = "attempt_io (reconcile_build_object C E (build_set_defaults b0))
       (\<lambda>r. case r of
            Inr b' \<Rightarrow> update_build_status C E b'
          | Inl e \<Rightarrow> (if is_permanent e
              then update_build_status C E ((build_set_defaults b0)\<lparr>b_status :=
                build_status_error (bc_now C) e (b_status (build_set_defaults b0))\<rparr>)
              else fail_io e))"
    have "emits (creates_named L b) ?m"
      using object_named [OF gen, of "build_set_defaults b0" C] status_named unfolding same
      by (intro emits_attempt) (auto split: sum.split)
    then obtain es where "snd (?m []) = [] @ es" "list_all (creates_named L b) es" by (rule emits_obtain)
    then show ?thesis
      using key get by (simp add: reconcile_build_key_def bind_io_apply attempt_io_apply Let_def)
  qed
qed (simp add: reconcile_build_key_def bind_io_apply)

end

text \<open>A pod that the lister shows is not created again.\<close>

lemma listed_pod_kept:
  "be_get_pod E h (meta_namespace (b_meta b)) (pod_name_of (bc_lib C) b) = Inr p \<Longrightarrow>
   snd (reconcile_build_pod C E b h) = h"
  by (simp add: reconcile_build_pod_def io_simps)

end
