(* ===== verification/Cluster_Types.thy ===== *)
theory Cluster_Types
  imports Api_Defaults
begin

text \<open>
  The cluster-wide kinds of \<open>pkg/apis/build/v1alpha2\<close>: stacks, lifecycles, stores and buildpacks, and
  the reference to registry credentials of \<open>pkg/registry\<close>. Kinds are fields where the code reads
  \<open>TypeMeta.Kind\<close>.
\<close>

section \<open>Credentials\<close>

record secret_ref =
  sref_service_account :: string
  sref_namespace :: string
  sref_pull_secrets :: "local_ref list"

definition secret_ref_is_namespaced :: "secret_ref \<Rightarrow> bool" where
  "secret_ref_is_namespaced s \<longleftrightarrow> sref_namespace s \<noteq> ''''"

definition service_account_or_default :: "secret_ref \<Rightarrow> string" where
  "service_account_or_default s =
     (if sref_service_account s = '''' then ''default'' else sref_service_account s)"

definition empty_secret_ref :: secret_ref where
  "empty_secret_ref = \<lparr>sref_service_account = '''', sref_namespace = '''', sref_pull_secrets = []\<rparr>"

text \<open>What the code makes of an optional \<open>ServiceAccountRef\<close>.\<close>

definition account_secret_ref :: "object_reference option \<Rightarrow> secret_ref" where
  "account_secret_ref r =
     (case r of None \<Rightarrow> empty_secret_ref
      | Some a \<Rightarrow> empty_secret_ref\<lparr>sref_service_account := oref_name a, sref_namespace := oref_namespace a\<rparr>)"

section \<open>Stacks and lifecycles\<close>

record cluster_stack_status_image =
  csi_latest_image :: string
  csi_image :: string

record resolved_cluster_stack =
  rcs_id :: string
  rcs_build_image :: cluster_stack_status_image
  rcs_run_image :: cluster_stack_status_image
  rcs_mixins :: "string list"
  rcs_user_id :: int
  rcs_group_id :: int

record cluster_stack_spec =
  css_id :: string
  css_build_image :: string
  css_run_image :: string
  css_service_account_ref :: "object_reference option"

record cluster_stack =
  stk_meta :: object_meta
  stk_spec :: cluster_stack_spec
  stk_status :: status
  stk_resolved :: resolved_cluster_stack

record cluster_lifecycle_spec =
  cls_image :: string
  cls_service_account_ref :: "object_reference option"

record cluster_lifecycle =
  clc_meta :: object_meta
  clc_spec :: cluster_lifecycle_spec
  clc_status :: status
  clc_resolved :: resolved_lifecycle

section \<open>Buildpacks and stores\<close>

record cluster_store_spec =
  csp_sources :: "string list"
  csp_service_account_ref :: "object_reference option"

record cluster_store =
  sto_kind :: string
  sto_meta :: object_meta
  sto_spec :: cluster_store_spec
  sto_status :: status
  sto_buildpacks :: "buildpack_status list"

record buildpack =
  bpk_kind :: string
  bpk_meta :: object_meta
  bpk_spec :: buildpack_spec
  bpk_status :: status
  bpk_buildpacks :: "buildpack_status list"

record cluster_buildpack_spec =
  cbps_image :: string
  cbps_service_account_ref :: "object_reference option"

record cluster_buildpack =
  cbp_kind :: string
  cbp_meta :: object_meta
  cbp_spec :: cluster_buildpack_spec
  cbp_status :: status
  cbp_buildpacks :: "buildpack_status list"

end
