(* ===== verification/Pod_Generator.thy ===== *)
theory Pod_Generator
  imports Build_Reconciler_Props Cluster_Types
begin

text \<open>
  \<open>pkg/buildpod/generator.go\<close>: gathers what a build pod needs from the cluster (service bindings,
  secrets of the service account, the builder image and its metadata) and has the build assemble the
  pod. It provides the interface \<open>PodGenerator\<close> of the build reconciler.
\<close>

section \<open>The cluster and the registry\<close>

record service_account =
  sa_secrets :: "string list"
  sa_pull_secrets :: "local_ref list"

text \<open>What is read from the builder image: labels, the configuration's environment and OS.\<close>

record builder_image =
  bim_stack_id :: "string res"
  bim_metadata :: "(string \<times> string list \<times> string list) res"
  bim_env :: "string \<Rightarrow> string res"
  bim_os :: "string res"

text \<open>
  The answers of the cluster: what a cluster builder or a builder says is its service account
  reference and latest image; \<open>gv_provisioned\<close> reads the binding of a provisioned service; a
  keychain is opaque.
\<close>

record gen_env =
  gv_list_accounts :: "string \<Rightarrow> service_account list res"
  gv_get_account :: "string \<Rightarrow> string \<Rightarrow> service_account res"
  gv_get_secret :: "string \<Rightarrow> string \<Rightarrow> secret res"
  gv_provisioned :: "string \<Rightarrow> object_reference \<Rightarrow> local_ref option res"
  gv_cluster_builder :: "string \<Rightarrow> (object_reference \<times> string) res"
  gv_builder :: "string \<Rightarrow> string \<Rightarrow> (string \<times> string \<times> string) res"
  gv_keychain :: "secret_ref \<Rightarrow> opaque res"
  gv_fetch :: "opaque \<Rightarrow> string \<Rightarrow> builder_image res"

record gen_conf =
  gn_images :: build_pod_images
  gn_max_platform_api :: "semver option"
  gn_injected_sidecars :: bool
  gn_ssh_trust_unknown :: bool

section \<open>Service bindings\<close>

definition forbidden_secrets :: "service_account list \<Rightarrow> string list" where
  "forbidden_secrets sas = concat (map sa_secrets sas)"

definition binding_uses_forbidden_secret :: "string list \<Rightarrow> local_ref option \<Rightarrow> bool" where
  "binding_uses_forbidden_secret forbidden ref =
     (case ref of None \<Rightarrow> False | Some r \<Rightarrow> lref_name r \<in> set forbidden)"

definition opt_ref_name :: "local_ref option \<Rightarrow> string" where
  "opt_ref_name r = (case r of None \<Rightarrow> '''' | Some x \<Rightarrow> lref_name x)"

definition service_binding_of :: "gen_env \<Rightarrow> string \<Rightarrow> object_reference \<Rightarrow> local_ref option res" where
  "service_binding_of G ns s =
     (if oref_kind s = ''Secret'' then Inr (Some (LocalRef (oref_name s))) else gv_provisioned G ns s)"

fun bind_services :: "gen_env \<Rightarrow> string \<Rightarrow> string list \<Rightarrow> services \<Rightarrow> service_binding list res" where
  "bind_services G ns forbidden [] = Inr []"
| "bind_services G ns forbidden (s # ss) =
     bind_res (service_binding_of G ns s) (\<lambda>ref.
     if binding_uses_forbidden_secret forbidden ref
     then Inl (Failed Plain (''build rejected: service '' @ go_quoted (oref_name s) @ '' uses forbidden secret '' @
            go_quoted (opt_ref_name ref)))
     else bind_res (bind_services G ns forbidden ss) (\<lambda>sbs. Inr (ServiceBinding (oref_name s) ref # sbs)))"

fun bind_cnb :: "string list \<Rightarrow> cnb_binding list \<Rightarrow> service_binding list res" where
  "bind_cnb forbidden [] = Inr []"
| "bind_cnb forbidden (b # bs) =
     (if binding_uses_forbidden_secret forbidden (cnb_secret_ref b)
      then Inl (Failed Plain (''build rejected: binding '' @ go_quoted (cnb_name b) @ '' uses forbidden secret '' @
             go_quoted (opt_ref_name (cnb_secret_ref b))))
      else bind_res (bind_cnb forbidden bs)
             (\<lambda>sbs. Inr (CNBServiceBinding (cnb_name b) (cnb_secret_ref b) (cnb_metadata_ref b) # sbs)))"

text \<open>Services win over CNB bindings: when there are services, the bindings are not looked at.\<close>

definition fetch_service_bindings :: "gen_env \<Rightarrow> build \<Rightarrow> service_binding list res" where
  "fetch_service_bindings G b =
     bind_res (gv_list_accounts G (meta_namespace (b_meta b))) (\<lambda>sas.
     (let forbidden = forbidden_secrets sas
      in if bs_services (b_spec b) \<noteq> []
         then bind_services G (meta_namespace (b_meta b)) forbidden (bs_services (b_spec b))
         else bind_cnb forbidden (bs_cnb_bindings (b_spec b))))"

section \<open>Secrets\<close>

fun fetch_secrets :: "gen_env \<Rightarrow> string \<Rightarrow> string list \<Rightarrow> secret list \<Rightarrow> secret list res" where
  "fetch_secrets G ns [] acc = Inr acc"
| "fetch_secrets G ns (n # names) acc =
     (if n = '''' then Inl (Failed Plain ''ServiceAccount has invalid Secret reference'')
      else bind_res (gv_get_secret G ns n) (\<lambda>s.
             if sec_name s \<in> sec_name ` set acc then fetch_secrets G ns names acc
             else fetch_secrets G ns names (acc @ [s])))"

text \<open>One set of names covers secrets and image pull secrets.\<close>

fun fetch_pull_secrets :: "string list \<Rightarrow> local_ref list \<Rightarrow> local_ref list res" where
  "fetch_pull_secrets seen [] = Inr []"
| "fetch_pull_secrets seen (r # rs) =
     (if lref_name r = '''' then Inl (Failed Plain ''ServiceAccount has invalid ImagePullSecret reference'')
      else if lref_name r \<in> set seen then fetch_pull_secrets seen rs
      else bind_res (fetch_pull_secrets (lref_name r # seen) rs) (\<lambda>refs. Inr (r # refs)))"

definition fetch_build_secrets :: "gen_env \<Rightarrow> build \<Rightarrow> (secret list \<times> local_ref list) res" where
  "fetch_build_secrets G b =
     bind_res (gv_get_account G (meta_namespace (b_meta b)) (bs_service_account (b_spec b))) (\<lambda>sa.
     bind_res (fetch_secrets G (meta_namespace (b_meta b)) (sa_secrets sa) []) (\<lambda>secrets.
     bind_res (fetch_pull_secrets (map sec_name secrets) (sa_pull_secrets sa)) (\<lambda>refs.
     Inr (secrets, refs))))"

section \<open>The builder\<close>

definition resolve_builder_ref :: "gen_env \<Rightarrow> object_reference \<Rightarrow> (string \<times> opaque) res" where
  "resolve_builder_ref G r =
     (if oref_kind r = ClusterBuilderKind then
        bind_res (map_err (wrap_err ''unable to resolve cluster builder image'') (gv_cluster_builder G (oref_name r)))
        (\<lambda>(sa, img). bind_res (map_err (wrap_err ''unable to create builder image keychain'')
           (gv_keychain G \<lparr>sref_service_account = oref_name sa, sref_namespace = oref_namespace sa,
                           sref_pull_secrets = []\<rparr>))
        (\<lambda>kc. Inr (img, kc)))
      else if oref_kind r = BuilderKind then
        bind_res (map_err (wrap_err ''unable to resolve builder image'')
                    (gv_builder G (oref_namespace r) (oref_name r)))
        (\<lambda>(ns, sa_name, img). bind_res
           (gv_keychain G \<lparr>sref_service_account = sa_name, sref_namespace = ns, sref_pull_secrets = []\<rparr>)
        (\<lambda>kc. Inr (img, kc)))
      else Inl (Failed Plain (''unable to parse builder kind '' @ go_quoted (oref_kind r))))"

definition resolve_builder_image :: "gen_env \<Rightarrow> build \<Rightarrow> (string \<times> opaque) res" where
  "resolve_builder_image G b =
     bind_res (gv_keychain G \<lparr>sref_service_account = bs_service_account (b_spec b),
                 sref_namespace = meta_namespace (b_meta b),
                 sref_pull_secrets = bb_pull_secrets (bs_builder (b_spec b))\<rparr>)
       (\<lambda>kc. Inr (bb_image (bs_builder (b_spec b)), kc))"

definition resolve_builder :: "gen_env \<Rightarrow> build \<Rightarrow> (string \<times> opaque) res" where
  "resolve_builder G b =
     (case bb_ref (bs_builder (b_spec b)) of
        Some r \<Rightarrow> resolve_builder_ref G r
      | None \<Rightarrow> resolve_builder_image G b)"

definition parse_cnb_id :: "builder_image \<Rightarrow> string \<Rightarrow> int res" where
  "parse_cnb_id img env = bind_res (bim_env img env) parse_int"

definition fetch_builder_config :: "gen_env \<Rightarrow> build \<Rightarrow> build_pod_builder_config res" where
  "fetch_builder_config G b =
     bind_res (resolve_builder G b) (\<lambda>(image_ref, kc).
     bind_res (map_err (wrap_err ''unable to fetch remote builder image'') (gv_fetch G kc image_ref)) (\<lambda>img.
     bind_res (map_err (wrap_err ''builder image stack ID label not present'') (bim_stack_id img)) (\<lambda>stack_id.
     bind_res (map_err (wrap_err ''unable to get builder metadata'') (bim_metadata img))
     (\<lambda>(run_image, deprecated, supported).
     bind_res (parse_cnb_id img ''CNB_USER_ID'') (\<lambda>uid.
     bind_res (parse_cnb_id img ''CNB_GROUP_ID'') (\<lambda>gid.
     bind_res (bim_os img) (\<lambda>os.
     if os = ''windows'' then Inl (Failed Plain ''windows builds are not supported'')
     else Inr \<lparr>bpc_stack_id = stack_id, bpc_run_image = run_image, bpc_uid = uid, bpc_gid = gid,
               bpc_platform_apis = deprecated @ supported, bpc_resolved_image = image_ref\<rparr>)))))))"

section \<open>The generator\<close>

definition generate :: "pod_lib \<Rightarrow> gen_conf \<Rightarrow> gen_env \<Rightarrow> build \<Rightarrow> pod res" where
  "generate PL N G b =
     bind_res (fetch_service_bindings G b) (\<lambda>bindings.
     bind_res (fetch_build_secrets G b) (\<lambda>(secrets, pull_secrets).
     bind_res (fetch_builder_config G b) (\<lambda>cfg.
     build_pod PL b (gn_images N)
       \<lparr>bx_builder_config = cfg, bx_secrets = secrets, bx_bindings = bindings,
        bx_pull_secrets = pull_secrets, bx_max_platform_api = gn_max_platform_api N,
        bx_injected_sidecars = gn_injected_sidecars N, bx_ssh_trust_unknown = gn_ssh_trust_unknown N\<rparr>)))"

section \<open>Facts\<close>

fun binding_secret :: "service_binding \<Rightarrow> string option" where
  "binding_secret (ServiceBinding n s) = map_option lref_name s"
| "binding_secret (CNBServiceBinding n s m) = map_option lref_name s"
| "binding_secret (OtherBinding t) = None"

lemma bind_services_allowed:
  "bind_services G ns forbidden ss = Inr sbs \<Longrightarrow> sb \<in> set sbs \<Longrightarrow> binding_secret sb = Some n \<Longrightarrow> n \<notin> set forbidden"
  by (induction ss arbitrary: sbs)
     (auto simp: bind_res_eq_Inr binding_uses_forbidden_secret_def split: if_splits option.splits)

lemma bind_cnb_allowed:
  "bind_cnb forbidden bs = Inr sbs \<Longrightarrow> sb \<in> set sbs \<Longrightarrow> binding_secret sb = Some n \<Longrightarrow> n \<notin> set forbidden"
  by (induction bs arbitrary: sbs)
     (auto simp: bind_res_eq_Inr binding_uses_forbidden_secret_def split: if_splits option.splits)

lemma fetch_service_bindings_allowed:
  assumes "fetch_service_bindings G b = Inr sbs" and "gv_list_accounts G (meta_namespace (b_meta b)) = Inr sas"
    and "sb \<in> set sbs" and "binding_secret sb = Some n" and "sa \<in> set sas"
  shows "n \<notin> set (sa_secrets sa)"
proof -
  have "n \<notin> set (forbidden_secrets sas)"
    using assms(1-4) bind_services_allowed bind_cnb_allowed
    by (fastforce simp: fetch_service_bindings_def Let_def split: if_splits)
  with assms(5) show ?thesis by (auto simp: forbidden_secrets_def)
qed

lemma fetch_secrets_distinct:
  "fetch_secrets G ns names acc = Inr ss \<Longrightarrow> distinct (map sec_name acc) \<Longrightarrow> distinct (map sec_name ss)"
  by (induction names arbitrary: acc) (auto simp: bind_res_eq_Inr split: if_splits)

lemma fetch_pull_secrets_fresh:
  "fetch_pull_secrets seen rs = Inr refs \<Longrightarrow>
   distinct (map lref_name refs) \<and> lref_name ` set refs \<inter> set seen = {}"
  by (induction rs arbitrary: seen refs) (fastforce simp: bind_res_eq_Inr split: if_splits)+

lemma fetch_build_secrets_distinct:
  assumes "fetch_build_secrets G b = Inr (secrets, refs)"
  shows "distinct (map sec_name secrets @ map lref_name refs)"
proof -
  obtain sa :: service_account where "fetch_secrets G (meta_namespace (b_meta b)) (sa_secrets sa) [] = Inr secrets"
    and p: "fetch_pull_secrets (map sec_name secrets) (sa_pull_secrets sa) = Inr refs"
    using assms by (auto simp: fetch_build_secrets_def bind_res_eq_Inr)
  then have "distinct (map sec_name secrets)" using fetch_secrets_distinct by fastforce
  with fetch_pull_secrets_fresh [OF p] show ?thesis by auto
qed

lemma with_sidecars_named:
  "with_sidecars b bx images p = Inr p' \<Longrightarrow> pod_of_build L b p \<Longrightarrow> pod_of_build L b p'"
  by (auto simp: with_sidecars_def use_standard_containers_def Let_def bind_res_eq_Inr pod_of_build_def split: if_splits)

lemma build_pod_named: "build_pod PL b images bx = Inr p \<Longrightarrow> pod_of_build (pl_lib PL) b p"
  by (erule build_pod_cases; erule with_sidecars_named)
     (simp_all add: pod_of_build_def rebase_pod_plain_def build_pod_plain_def build_pod_meta_def Let_def split: prod.split)

lemma generate_inv:
  assumes "generate PL N G b = Inr p"
  shows "\<exists>bx. build_pod PL b (gn_images N) bx = Inr p \<and> fetch_service_bindings G b = Inr (bx_bindings bx) \<and>
     fetch_build_secrets G b = Inr (bx_secrets bx, bx_pull_secrets bx) \<and>
     fetch_builder_config G b = Inr (bx_builder_config bx)"
  using assms by (force simp: generate_def bind_res_eq_Inr)

interpretation generator: pod_generator "pl_lib PL" "generate PL N G" for PL N G
  by unfold_locales (auto dest!: generate_inv intro: build_pod_named)

end
