(* ===== verification/Build_Properties.thy ===== *)
theory Build_Properties
  imports Samples Pod_Generator
begin

text \<open>
  The properties of build pods, of the pod generator and of the build reconciler, each with an
  instance at sample objects.
\<close>

section \<open>Sample objects\<close>

definition sample_pod_lib :: pod_lib where
  "sample_pod_lib = \<lparr>pl_lib = sample_lib, pl_clock = sample_clock, pl_format_creation = (\<lambda>_. ''20060102.150405'')\<rparr>"

definition sample_images :: build_pod_images where
  "sample_images = \<lparr>bpi_build_init = ''build-init'', bpi_build_waiter = ''build-waiter'',
     bpi_completion = ''completion'', bpi_rebase = ''rebase''\<rparr>"

definition sample_secret :: secret where
  "sample_secret = \<lparr>sec_name = ''registry-key'', sec_type = SecretTypeDockerConfigJson,
     sec_annotations = Map.empty, sec_data = [cosignSecretDataCosignKey \<mapsto> ''key'']\<rparr>"

definition sample_context :: "secret list \<Rightarrow> build_context" where
  "sample_context secrets =
     \<lparr>bx_builder_config = \<lparr>bpc_stack_id = ''jammy'', bpc_run_image = ''run'', bpc_uid = 1000, bpc_gid = 1000,
        bpc_platform_apis = [''0.8'', ''0.9''], bpc_resolved_image = ''builder@sha256:2''\<rparr>,
      bx_secrets = secrets, bx_bindings = [ServiceBinding ''db'' (Some (LocalRef ''db-secret''))],
      bx_pull_secrets = [LocalRef ''pull''], bx_max_platform_api = None,
      bx_injected_sidecars = True, bx_ssh_trust_unknown = False\<rparr>"

lemma sample_platform_api:
  "highest_supported_platform_api sample_lib (sample_context ss) = Inr (Semver ''0.9'')"
  by (simp add: highest_supported_platform_api_def supportedPlatformAPIVersions_def sample_lib_def sample_context_def)

lemma sample_build_tags: "bs_tags (b_spec sample_build) = [''registry.example/app'']"
  using build_for_image_spec(8) [OF sample_build_made]
  by (simp add: generate_tags_def disable_additional_image_names_def sample_image_def)

lemma sample_build_source: "source_of (bs_source (b_spec sample_build)) \<noteq> None"
proof -
  have "sr_source_config sample_resolver = Inr (bs_source (b_spec sample_build))"
    by (rule build_for_image_spec(1) [OF sample_build_made])
  then obtain rs where "to_source_config rs = bs_source (b_spec sample_build)"
    by (auto simp: sr_source_config_def split: option.splits)
  then show ?thesis using source_of_to_source_config by metis
qed

lemma sample_build_last: "bs_last_build (b_spec sample_build) = None"
  using build_for_image_spec(6) [OF sample_build_made] by simp

lemma build_for_image_creation_time:
  "build_for_image L clk im sr bd lb reasons changes n pc = Inr b \<Longrightarrow>
   bs_creation_time (b_spec b) = spec_creation_time (im_spec im)"
  by (auto simp: build_for_image_def bind_res_eq_Inr Let_def)

lemma sample_build_time: "bs_creation_time (b_spec sample_build) = ''''"
  using build_for_image_creation_time [OF sample_build_made]
  by (simp add: spec_creation_time_def sample_image_def)

definition sample_pod :: "secret list \<Rightarrow> pod" where
  "sample_pod ss = projr (build_pod sample_pod_lib sample_build sample_images (sample_context ss))"

lemma sample_build_assembles:
  assumes "highest_supported_platform_api sample_lib bx = Inr v"
    and "setup_bindings (bx_bindings bx) = Inr vm"
  shows "\<exists>p. build_pod sample_pod_lib sample_build sample_images bx = Inr p"
proof -
  obtain src where src: "source_of (bs_source (b_spec sample_build)) = Some src"
    using sample_build_source by auto
  have parse: "lib_parse_reference sample_lib ''registry.example/app'' =
      Inr \<lparr>ref_identifier = ''registry.example/app'', ref_registry = ''registry.example''\<rparr>"
    by (simp add: sample_lib_def)
  obtain vols ms where "vm = (vols, ms)" by (cases vm)
  then show ?thesis
    using assms src parse with_sidecars_total [OF build_pod_plain_steps(2)]
    by (simp add: build_pod_def sample_pod_lib_def rebasable_def sample_build_last build_tag_def
        sample_build_tags sample_build_time parse_time_def)
qed

lemma sample_pod_made:
  "build_pod sample_pod_lib sample_build sample_images (sample_context ss) = Inr (sample_pod ss)"
proof -
  have "\<exists>vm. setup_bindings (bx_bindings (sample_context ss)) = Inr vm"
    by (simp add: sample_context_def setup_binding_def)
  with sample_build_assembles [OF sample_platform_api [of ss]] show ?thesis
    by (auto simp: sample_pod_def)
qed

section \<open>Build pods\<close>

text \<open>
  C7: Every volume mount of every container of a build pod, full or rebase, with or without
  injected sidecars, names a volume of the pod.
\<close>

theorem pod_mounts_have_volumes:
  assumes "build_pod PL b images bx = Inr p"
  shows "mounts_backed p"
  using assms by (rule build_pod_backed)

theorem pod_mounts_have_volumes_witness: "mounts_backed (sample_pod [])"
  by (rule pod_mounts_have_volumes [OF sample_pod_made])

text \<open>
  The steps of a build run one after the other: as init containers in lifecycle order before the
  completion container, or, with injected sidecars, as containers each of which waits for the file
  that its predecessor writes when it is done; the rebase pod has the two steps rebase and completion.
\<close>

theorem pod_steps_in_order:
  assumes "build_pod PL b images bx = Inr p"
  shows "runs_steps
     (if rebasable b (bpc_stack_id (bx_builder_config bx)) then [''rebase'', ''completion'']
      else [''prepare'', ''analyze'', ''detect'', ''restore'', ''build'', ''export'', ''completion''])
     (bx_injected_sidecars bx) p"
  using assms by (rule build_pod_runs)

theorem pod_steps_in_order_witness:
  "map ctr_name (pod_containers (pod_spec_of (sample_pod []))) =
     [''prepare'', ''analyze'', ''detect'', ''restore'', ''build'', ''export'', ''completion''] \<and>
   chained ''/downward/sidecars-ready'' (pod_containers (pod_spec_of (sample_pod [])))"
  using pod_steps_in_order [OF sample_pod_made [of "[]"]]
  by (simp add: runs_steps_def sample_context_def rebasable_def sample_build_last)

text \<open>
  The platform API of a build is the highest supported one that does not exceed the configured
  maximum and that the builder has: every higher supported version exceeds it or is not offered.
\<close>

theorem platform_api_is_highest:
  assumes "highest_supported_platform_api L bx = Inr version"
    and "supportedPlatformAPIVersions L = Inr svs"
  shows "\<exists>pre sv post. svs = pre @ sv # post \<and> lib_semver_equal L sv version \<and> \<not> above_maximum L bx sv \<and>
    (\<exists>v \<in> set (bpc_platform_apis (bx_builder_config bx)). lib_semver_new L v = Inr version) \<and>
    (\<forall>u \<in> set pre. above_maximum L bx u \<or> \<not> builder_supports L bx u)"
  using assms highest_platform_api_spec by (simp add: highest_supported_platform_api_def)

theorem platform_api_is_highest_witness:
  "\<exists>pre sv post. [Semver ''0.9'', Semver ''0.8'', Semver ''0.7''] = pre @ sv # post \<and>
     lib_semver_equal sample_lib sv (Semver ''0.9'')"
proof -
  have "supportedPlatformAPIVersions sample_lib = Inr [Semver ''0.9'', Semver ''0.8'', Semver ''0.7'']"
    by (simp add: supportedPlatformAPIVersions_def sample_lib_def)
  from platform_api_is_highest [OF sample_platform_api [of "[]"] this] show ?thesis by blast
qed

text \<open>
  C8: Every step of a build pod runs as non-root without privileges, without privilege escalation
  and with all capabilities dropped; only the copying container \<open>pre-start\<close> has no context of its own.
\<close>

theorem pod_steps_locked_down:
  assumes "build_pod PL b images bx = Inr p"
  shows "steps_locked p"
  using assms by (rule build_pod_locked)

theorem pod_steps_locked_down_witness: "steps_locked (sample_pod [])"
  by (rule pod_steps_locked_down [OF sample_pod_made])

text \<open>
  The environment of the build specification reaches the platform directory only: the prepare
  container gets every variable under the platform prefix, and the environment of the other
  containers consists of kpack's own variables.
\<close>

theorem user_env_stays_in_prepare:
  assumes "build_pod PL b images bx = Inr p"
  shows "pod_env_isolated b p"
  using assms by (rule build_pod_env)

theorem user_env_stays_in_prepare_witness: "pod_env_isolated sample_build (sample_pod [])"
  by (rule user_env_stays_in_prepare [OF sample_pod_made])

text \<open>
  Assembling the pod of a build that has a tag and a source never panics, as long as CNB bindings
  carry the metadata reference that validation demands: it ends with a pod or an error.
\<close>

theorem build_pod_never_panics:
  assumes "bs_tags (b_spec b) \<noteq> []" and "source_of (bs_source (b_spec b)) \<noteq> None"
    and "list_all binding_ok (bx_bindings bx)" and "semver_ok (pl_lib PL)"
    and "\<And>v. \<not> panics (lib_semver_new (pl_lib PL) v)" and "\<And>r. \<not> panics (lib_parse_reference (pl_lib PL) r)"
  shows "\<not> panics (build_pod PL b images bx)"
  using assms by (rule build_pod_no_panic)

theorem build_pod_never_panics_witness:
  "\<not> panics (build_pod sample_pod_lib sample_build sample_images (sample_context [sample_secret]))"
  by (rule build_pod_never_panics)
     (simp_all add: sample_build_tags sample_build_source [simplified] sample_context_def binding_ok_def
        sample_pod_lib_def semver_ok_def sample_lib_def)

text \<open>
  A registry secret that also holds a cosign key is mounted twice under one volume name, which
  the API server rejects: the numbering of registry and cosign volumes is shared.
\<close>

theorem signing_registry_secret_clashes:
  assumes "build_pod PL b images bx = Inr p" and "s \<in> set (bx_secrets bx)"
    and "sec_type s = SecretTypeDockerConfigJson" and "lookup_str (sec_data s) cosignSecretDataCosignKey \<noteq> ''''"
  shows "\<not> distinct (map vol_name (pod_volumes (pod_spec_of p)))"
  using assms by (rule build_pod_secret_clash)

theorem signing_registry_secret_clashes_witness:
  "\<not> distinct (map vol_name (pod_volumes (pod_spec_of (sample_pod [sample_secret]))))"
  by (rule signing_registry_secret_clashes [OF sample_pod_made, of sample_secret])
     (simp_all add: sample_context_def sample_secret_def)

section \<open>The build reconciler\<close>

text \<open>
  A build that a reconcile finds successful carries the buildpacks, image, stack and lifecycle
  version that the completion container of its pod reported.
\<close>

theorem successful_build_carries_metadata:
  assumes "fst (reconcile_build_object C E b h) = Inr b'" and "\<not> build_finished b" and "is_success (Some b')"
    and "\<And>h ns n p. be_get_pod E h ns n = Inr p \<Longrightarrow> completion_is_main p"
    and "\<And>h p q. be_create_pod E h p = Inr q \<Longrightarrow> completion_is_main q"
    and "\<And>h ns n p. be_patch_pod E h ns n = Inr p \<Longrightarrow> completion_is_main p"
  shows "\<exists>p md. build_metadata_from_build_pod E p = Inr md \<and> carries_metadata md b'"
  using assms by (rule reconcile_build_object_success)

definition sample_done_pod :: pod where
  "sample_done_pod = (sample_pod [])\<lparr>pod_status_of := \<lparr>ps_phase = PodSucceeded, ps_reason = '''', ps_message = '''',
     ps_init_containers = [], ps_containers = [\<lparr>cs_name = ''completion'',
       cs_state = CsTerminated \<lparr>term_exit_code = 0, term_reason = ''Completed'', term_message = ''blob''\<rparr>,
       cs_ready = False\<rparr>]\<rparr>\<rparr>"

definition sample_metadata :: build_metadata where
  "sample_metadata = \<lparr>bmd_buildpacks = [], bmd_latest_cache_image = '''', bmd_latest_image = ''app@sha256:3'',
     bmd_stack_id = ''jammy'', bmd_stack_run_image = ''run'', bmd_lifecycle_version = ''0.17.0''\<rparr>"

definition sample_bld_env :: bld_env where
  "sample_bld_env = \<lparr>be_split_key = (\<lambda>_. Inr (''dev'', ''app-build-1'')), be_get_build = (\<lambda>_ _ _. Inr sample_build),
     be_get_pod = (\<lambda>_ _ _. Inr sample_done_pod), be_generate = (\<lambda>_ _. Inr sample_done_pod),
     be_create_pod = (\<lambda>_ _. Inr sample_done_pod), be_patch_pod = (\<lambda>_ _ _. Inr sample_done_pod), be_decompress = (\<lambda>_. Inr sample_metadata),
     be_attest = (\<lambda>_ _ _ _. Inr ''''), be_termination_message = (\<lambda>_ _. ''''), be_update_status = (\<lambda>_ _. Inr ())\<rparr>"

definition sample_bld_conf :: bld_conf where
  "sample_bld_conf = \<lparr>bc_lib = sample_lib, bc_now = 100, bc_status_equal = (=), bc_injected_sidecars = False,
     bc_attestation = False\<rparr>"

lemma sample_done_pod_main: "completion_is_main sample_done_pod"
  by (simp add: completion_is_main_def sample_done_pod_def)

text \<open>Whatever else the API server answers, a running build whose pod is the finished one takes its results.\<close>

lemma sample_done_run:
  assumes "is_running (Some b)"
    and get: "\<And>h ns n. be_get_pod E h ns n = Inr sample_done_pod" and "be_decompress E ''blob'' = Inr sample_metadata"
  shows "reconcile_build_object sample_bld_conf E b h =
    (Inr (apply_pod_state sample_bld_conf E sample_done_pod (apply_metadata sample_metadata '''' b)), h)"
proof -
  have ready: "metadata_ready b sample_done_pod"
    using assms(1) condition_trichotomy [of "succeeded_condition b"]
    by (auto simp: metadata_ready_def sample_done_pod_def)
  have meta: "build_metadata_from_build_pod E sample_done_pod = Inr sample_metadata"
    using assms(3) by (simp add: build_metadata_from_build_pod_def sample_done_pod_def CompletionContainerName_def)
  have pod: "reconcile_build_pod sample_bld_conf E b h = (Inr sample_done_pod, h)" for h
    by (simp add: reconcile_build_pod_def get io_simps)
  have upkeep: "sidecar_upkeep sample_bld_conf E sample_done_pod h = (Inr sample_done_pod, h)" for h
    by (simp add: sidecar_upkeep_def sample_bld_conf_def io_simps)
  have attestation: "\<not> bc_attestation sample_bld_conf" by (simp add: sample_bld_conf_def)
  have read: "read_metadata sample_bld_conf E b sample_done_pod h = (Inr (apply_metadata sample_metadata '''' b), h)" for h
    by (simp add: read_metadata_def ready attestation meta io_simps)
  have "\<not> build_finished b" using assms(1) by (simp add: build_finished_def)
  then show ?thesis
    by (simp add: reconcile_build_object_def pod upkeep read io_simps)
qed

theorem successful_build_carries_metadata_witness:
  "\<exists>b' p md. fst (reconcile_build_object sample_bld_conf sample_bld_env sample_build []) = Inr b' \<and>
     is_success (Some b') \<and> build_metadata_from_build_pod sample_bld_env p = Inr md \<and> carries_metadata md b'"
proof -
  let ?b = "apply_pod_state sample_bld_conf sample_bld_env sample_done_pod (apply_metadata sample_metadata '''' sample_build)"
  have run: "fst (reconcile_build_object sample_bld_conf sample_bld_env sample_build []) = Inr ?b"
    using sample_done_run [OF sample_build_running, of sample_bld_env "[]"] by (simp add: sample_bld_env_def)
  have sample_build_unfinished: "\<not> build_finished sample_build"
    using sample_build_running by (simp add: build_finished_def)
  have success: "is_success (Some ?b)"
    by (simp only: apply_pod_state_status) (simp add: sample_done_pod_def)
  have "\<exists>p md. build_metadata_from_build_pod sample_bld_env p = Inr md \<and> carries_metadata md ?b"
    by (rule successful_build_carries_metadata [OF run sample_build_unfinished success])
       (auto simp: sample_bld_env_def sample_done_pod_main)
  with run success show ?thesis by blast
qed

text \<open>
  The status a reconcile writes mirrors the pod: success when the pod succeeded, or was killed
  by its deadline after the completion step, failure when it failed otherwise, and running in
  every other phase.
\<close>

theorem build_condition_mirrors_pod:
  "(is_success (Some (apply_pod_state C E p b)) = (ps_phase (pod_status_of p) = PodSucceeded \<or> pod_deadline_completed p)) \<and>
   (is_failure (Some (apply_pod_state C E p b)) = (ps_phase (pod_status_of p) = PodFailed \<and> \<not> pod_deadline_completed p)) \<and>
   (is_running (Some (apply_pod_state C E p b)) = (ps_phase (pod_status_of p) \<notin> {PodSucceeded, PodFailed}))"
  using apply_pod_state_status [of C E p b] build_state_cases [of "apply_pod_state C E p b"]
  by (auto simp: pod_deadline_completed_def)

text \<open>
  C9: However often a build is reconciled, with whatever answers, outdated listers and calls that fail or take effect
  unseen, the server gets at most one pod for it, under the pod name of the build: the generator gives every pod
  of a build that name, and the server refuses a second pod of a name. While the lister shows the pod, a
  reconcile does not even ask for another one.
\<close>

theorem one_pod_per_build:
  assumes "bc_lib C = pl_lib PL"
    and "\<forall>(ok, E, k) \<in> set runs. lists_build E b \<and> (\<exists>N G. \<forall>h b'. be_generate E h b' = generate PL N G b')"
  shows "length (pods_after C runs []) \<le> 1 \<and>
     (\<forall>p \<in> set (pods_after C runs []). meta_name (pod_meta p) = pod_name_of (pl_lib PL) b \<and>
        meta_namespace (pod_meta p) = meta_namespace (b_meta b)) \<and>
     (\<forall>E h p. be_get_pod E h (meta_namespace (b_meta b)) (pod_name_of (pl_lib PL) b) = Inr p \<longrightarrow>
        snd (reconcile_build_pod C E b h) = h)"
proof -
  have "list_all (creates_named (pl_lib PL) b) (snd (reconcile_build_key C E k []))" if run: "(ok, E, k) \<in> set runs" for ok E k
  proof -
    obtain N G where "\<And>h b'. be_generate E h b' = generate PL N G b'" "lists_build E b" using assms(2) run by blast
    then show ?thesis by (rule generator.key_named)
  qed
  then have "one_pod (pl_lib PL) b (pods_after C runs [])" by (intro pods_after_one) (auto simp: one_pod_def)
  then show ?thesis using listed_pod_kept assms(1) by (auto simp: one_pod_def list_all_iff pod_of_build_def)
qed

definition sample_gen_env :: gen_env where
  "sample_gen_env = \<lparr>gv_list_accounts = (\<lambda>_. Inr [\<lparr>sa_secrets = [''registry-key''], sa_pull_secrets = []\<rparr>]),
     gv_get_account = (\<lambda>_ _. Inr \<lparr>sa_secrets = [''registry-key''], sa_pull_secrets = [LocalRef ''pull'']\<rparr>),
     gv_get_secret = (\<lambda>_ _. Inr sample_secret), gv_provisioned = (\<lambda>_ _. Inr None),
     gv_cluster_builder = (\<lambda>_. Inr (\<lparr>oref_kind = '''', oref_namespace = '''', oref_name = ''''\<rparr>, ''builder'')),
     gv_builder = (\<lambda>_ _. Inr ('''', '''', ''builder'')), gv_keychain = (\<lambda>_. Inr ''''),
     gv_fetch = (\<lambda>_ _. Inr \<lparr>bim_stack_id = Inr ''jammy'', bim_metadata = Inr (''run'', [], [''0.9'']),
       bim_env = (\<lambda>_. Inr (itoa 1000)), bim_os = Inr ''linux''\<rparr>)\<rparr>"

definition sample_gen_conf :: gen_conf where
  "sample_gen_conf = \<lparr>gn_images = sample_images, gn_max_platform_api = None, gn_injected_sidecars = False,
     gn_ssh_trust_unknown = False\<rparr>"

lemma build_for_image_builder:
  "build_for_image L clk im sr bd lb reasons changes n pc = Inr b \<Longrightarrow>
   bs_builder (b_spec b) = db_build_builder_spec bd"
  by (auto simp: build_for_image_def bind_res_eq_Inr Let_def)

lemma sample_build_plain:
  "bs_services (b_spec sample_build) = []" "bs_cnb_bindings (b_spec sample_build) = []"
  "bb_ref (bs_builder (b_spec sample_build)) = None"
proof -
  show "bs_services (b_spec sample_build) = []" "bs_cnb_bindings (b_spec sample_build) = []"
    using build_for_image_spec(4,5) [OF sample_build_made]
    by (simp_all add: image_services_def image_cnb_bindings_def sample_image_def)
  show "bb_ref (bs_builder (b_spec sample_build)) = None"
    using build_for_image_builder [OF sample_build_made] by (simp add: db_build_builder_spec_def)
qed

definition sample_builder_config :: build_pod_builder_config where
  "sample_builder_config = \<lparr>bpc_stack_id = ''jammy'', bpc_run_image = ''run'', bpc_uid = 1000, bpc_gid = 1000,
     bpc_platform_apis = [''0.9''], bpc_resolved_image = bb_image (bs_builder (b_spec sample_build))\<rparr>"

lemma sample_fetches_config: "fetch_builder_config sample_gen_env sample_build = Inr sample_builder_config"
proof -
  have "parse_int (itoa 1000) = Inr 1000" by (rule parse_int_itoa) (simp add: fits64_def int64_min_def int64_max_def)
  then show ?thesis
    by (simp add: fetch_builder_config_def resolve_builder_def resolve_builder_image_def sample_build_plain
        sample_gen_env_def parse_cnb_id_def sample_builder_config_def)
qed

lemma sample_generates: "\<exists>p. generate sample_pod_lib sample_gen_conf sample_gen_env sample_build = Inr p"
proof -
  have bindings: "fetch_service_bindings sample_gen_env sample_build = Inr []"
    by (simp add: fetch_service_bindings_def sample_build_plain sample_gen_env_def)
  have secrets: "fetch_build_secrets sample_gen_env sample_build = Inr ([sample_secret], [LocalRef ''pull''])"
    by (simp add: fetch_build_secrets_def sample_gen_env_def sample_secret_def)
  let ?bx = "\<lparr>bx_builder_config = sample_builder_config, bx_secrets = [sample_secret], bx_bindings = [],
     bx_pull_secrets = [LocalRef ''pull''], bx_max_platform_api = None, bx_injected_sidecars = False,
     bx_ssh_trust_unknown = False\<rparr>"
  have "highest_supported_platform_api sample_lib ?bx = Inr (Semver ''0.9'')"
    by (simp add: highest_supported_platform_api_def supportedPlatformAPIVersions_def sample_lib_def
        sample_builder_config_def)
  moreover have "setup_bindings (bx_bindings ?bx) = Inr ([], [])" by simp
  ultimately have "\<exists>p. build_pod sample_pod_lib sample_build sample_images ?bx = Inr p"
    by (rule sample_build_assembles)
  then show ?thesis
    by (simp add: generate_def bindings secrets sample_fetches_config sample_gen_conf_def)
qed

text \<open>The lister never shows the pod: each of two reconciles asks for it.\<close>

definition sample_blind_env :: bld_env where
  "sample_blind_env = sample_bld_env
     \<lparr>be_generate := (\<lambda>_. generate sample_pod_lib sample_gen_conf sample_gen_env),
      be_get_pod := (\<lambda>_ _ _. Inl (Failed NotFound ''''))\<rparr>"

theorem one_pod_per_build_witness:
  "length (pods_after sample_bld_conf
     [(\<lambda>_. True, sample_blind_env, ''dev/app-build-1''), (\<lambda>_. True, sample_blind_env, ''dev/app-build-1'')] []) \<le> 1 \<and>
   (\<exists>p. snd (reconcile_build_pod sample_bld_conf sample_blind_env sample_build []) = [CreatePod p])"
proof -
  have "lists_build sample_blind_env sample_build" by (simp add: lists_build_def sample_blind_env_def sample_bld_env_def)
  moreover have "\<exists>N G. \<forall>h b'. be_generate sample_blind_env h b' = generate sample_pod_lib N G b'"
    by (intro exI [of _ sample_gen_conf] exI [of _ sample_gen_env]) (simp add: sample_blind_env_def)
  moreover have "\<exists>p. snd (reconcile_build_pod sample_bld_conf sample_blind_env sample_build []) = [CreatePod p]"
    using sample_generates by (auto simp: reconcile_build_pod_def io_simps sample_blind_env_def)
  ultimately show ?thesis
    using one_pod_per_build [of sample_bld_conf sample_pod_lib
        "[(\<lambda>_. True, sample_blind_env, ''dev/app-build-1''), (\<lambda>_. True, sample_blind_env, ''dev/app-build-1'')]" sample_build]
    by (simp add: sample_bld_conf_def sample_pod_lib_def)
qed

text \<open>
  C10: A build is rejected when a service binding would mount a secret of any service account of its
  namespace: whatever a generated pod is assembled from binds none of them.
\<close>

theorem no_service_account_secret_bound:
  assumes "generate PL N G b = Inr p" and "gv_list_accounts G (meta_namespace (b_meta b)) = Inr sas"
  shows "\<exists>bx. build_pod PL b (gn_images N) bx = Inr p \<and>
     (\<forall>sb \<in> set (bx_bindings bx). \<forall>n. binding_secret sb = Some n \<longrightarrow> (\<forall>sa \<in> set sas. n \<notin> set (sa_secrets sa)))"
  using generate_inv [OF assms(1)] fetch_service_bindings_allowed [OF _ assms(2)] by blast

theorem no_service_account_secret_bound_witness:
  "\<exists>p bx. generate sample_pod_lib sample_gen_conf sample_gen_env sample_build = Inr p \<and>
     build_pod sample_pod_lib sample_build sample_images bx = Inr p"
proof -
  have "\<exists>p. generate sample_pod_lib sample_gen_conf sample_gen_env sample_build = Inr p"
    by (rule sample_generates)
  then obtain p where p: "generate sample_pod_lib sample_gen_conf sample_gen_env sample_build = Inr p" ..
  then show ?thesis
    using no_service_account_secret_bound [OF p, of "[\<lparr>sa_secrets = [''registry-key''], sa_pull_secrets = []\<rparr>]"]
    by (auto simp: sample_gen_env_def sample_gen_conf_def)
qed

text \<open>
  A reconcile of a build never panics on pods as the kubelet reports them, whatever the API
  server answers.
\<close>

theorem build_reconcile_never_panics:
  assumes "bld_env_ok E" and "bld_pods_consistent E"
  shows "safe (reconcile_build_object C E b)"
  using assms by (rule safe_reconcile_build_object)

theorem build_reconcile_never_panics_witness:
  "safe (reconcile_build_object sample_bld_conf sample_bld_env sample_build)"
proof (rule build_reconcile_never_panics)
  show "bld_env_ok sample_bld_env" by (simp add: bld_env_ok_def sample_bld_env_def)
  show "bld_pods_consistent sample_bld_env"
    by (simp add: bld_pods_consistent_def sample_bld_env_def pod_consistent_def sample_done_pod_def)
qed

end
