(* ===== verification/System.thy ===== *)
theory System
  imports Image_Cluster Pod_Generator
begin

text \<open>
  The image reconciler and the build reconciler on one API server. The build reconciler is a
  concrete step here: what it writes comes from \<open>reconcile_build_key\<close>, run on the stored build.
\<close>

section \<open>What a build reconcile may do\<close>

text \<open>
  The effects allowed for a stored build: its own status is written, with the metadata untouched;
  when it is finished its conditions stay and its pod is left alone.
\<close>

definition same_outcome :: "build \<Rightarrow> build \<Rightarrow> bool" where
  "same_outcome b b' \<longleftrightarrow>
     st_conditions (bst_status (b_status b')) = st_conditions (bst_status (b_status b))"

fun build_effect :: "build \<Rightarrow> bld_event \<Rightarrow> bool" where
  "build_effect b (UpdateBuildStatus b') \<longleftrightarrow>
     b_meta b' = b_meta b \<and> b_spec b' = b_spec (build_set_defaults b) \<and>
     (build_finished b \<longrightarrow> same_outcome b b')"
| "build_effect b _ \<longleftrightarrow> \<not> build_finished b"

lemma finished_build_effect:
  "build_finished b \<Longrightarrow> build_effect b ev \<Longrightarrow> \<exists>b'. ev = UpdateBuildStatus b' \<and> same_outcome b b'"
  by (cases ev) simp_all

lemma build_set_defaults_frame [simp]:
  "b_meta (build_set_defaults b) = b_meta b" "b_status (build_set_defaults b) = b_status b"
  by (simp_all add: build_set_defaults_def)

lemma build_set_defaults_finished [simp]: "build_finished (build_set_defaults b) = build_finished b"
  by (simp add: build_finished_def succeeded_condition_def)

lemma emits_update_build_status:
  assumes "b_meta b' = b_meta b" and "b_spec b' = b_spec (build_set_defaults b)"
    and "build_finished b \<Longrightarrow> same_outcome b b'"
  shows "emits (build_effect b) (update_build_status C E b')"
  using assms by (auto simp: update_build_status_def Let_def same_outcome_def intro!: emits_bind)

lemma emits_reconcile_build_object:
  assumes "\<not> build_finished b"
  shows "emits (build_effect b) (reconcile_build_object C E (build_set_defaults b))"
  unfolding reconcile_build_object_def reconcile_build_pod_def sidecar_upkeep_def set_build_ready_def
    cleanup_if_needed_def read_metadata_def
  using assms
  by (auto simp: intro!: emits_bind emits_attempt emits_map_err split: sum.split)

lemma reconcile_build_key_cases:
  assumes "be_split_key E k = Inr (ns, nm)" and "be_get_build E h ns nm = Inr b"
  shows "reconcile_build_key C E k h =
    (let b0 = build_set_defaults b in
     attempt_io (reconcile_build_object C E b0)
       (\<lambda>r. case r of
            Inr b' \<Rightarrow> update_build_status C E b'
          | Inl e \<Rightarrow> (if is_permanent e
              then update_build_status C E (b0\<lparr>b_status := build_status_error (bc_now C) e (b_status b0)\<rparr>)
              else fail_io e)) h)"
  using assms by (simp add: reconcile_build_key_def bind_io_apply attempt_io_apply Let_def)

lemma reconcile_build_key_effects:
  assumes "be_split_key E k = Inr (ns, nm)" and "be_get_build E [] ns nm = Inr b"
  shows "list_all (build_effect b) (snd (reconcile_build_key C E k []))"
proof (cases "build_finished b")
  case True
  have "emits (build_effect b) (update_build_status C E (build_set_defaults b))"
    by (rule emits_update_build_status) (simp_all add: same_outcome_def)
  then obtain es where "snd (update_build_status C E (build_set_defaults b) []) = [] @ es"
    "list_all (build_effect b) es" by (rule emits_obtain)
  moreover have "reconcile_build_key C E k [] = update_build_status C E (build_set_defaults b) []"
    using reconcile_build_object_finished [of "build_set_defaults b" C E] True
    by (simp add: reconcile_build_key_cases [OF assms] attempt_io_apply Let_def)
  ultimately show ?thesis by simp
next
  case False
  let ?b = "build_set_defaults b"
  obtain es where es: "snd (reconcile_build_object C E ?b []) = [] @ es" "list_all (build_effect b) es"
    using emits_reconcile_build_object [OF False] by (rule emits_obtain)
  have written: "\<exists>fs. snd (update_build_status C E b' es) = es @ fs \<and> list_all (build_effect b) fs"
    if "b_meta b' = b_meta ?b" "b_spec b' = b_spec ?b" for b'
    using emits_update_build_status [of b' b C E] that False unfolding emits_def by simp
  show ?thesis
  proof (cases "fst (reconcile_build_object C E ?b [])")
    case (Inr b')
    with written [of b'] reconcile_build_object_frame [OF Inr] es show ?thesis
      by (auto simp: reconcile_build_key_cases [OF assms] attempt_io_apply Let_def)
  next
    case (Inl e)
    with written [of "?b\<lparr>b_status := build_status_error (bc_now C) e (b_status ?b)\<rparr>"] es show ?thesis
      by (cases e) (auto simp: reconcile_build_key_cases [OF assms] attempt_io_apply Let_def)
  qed
qed

section \<open>The two reconcilers together\<close>

text \<open>
  A status write of the build reconciler replaces the status of the stored build and nothing else. The server
  refuses a write that rests on an outdated object, so a write that is accepted comes from a run that started
  from the stored build; later reads of that run may show anything. Which of the writes reach the server is
  open, none may.
\<close>

inductive system_step :: "img_conf \<Rightarrow> bld_conf \<Rightarrow> string \<Rightarrow> cluster \<Rightarrow> cluster \<Rightarrow> bool"
  for C :: img_conf and D :: bld_conf and nm :: string where
  image_step: "\<lbrakk>meta_name (im_meta im) = nm; limits_positive im; reads_cache q ok t C E im s; cl_now s \<le> t;
     s1 = apply_events ok t (snd (reconcile_image C E im [])) s; q < length (cl_views s1); s' = forget_views q s1\<rbrakk> \<Longrightarrow>
     system_step C D nm s s'"
| build_step: "\<lbrakk>i < length (cl_builds s); be_split_key B k = Inr (ns, bn);
     be_get_build B [] ns bn = Inr (cl_builds s ! i);
     UpdateBuildStatus b' \<in> set (snd (reconcile_build_key D B k []));
     s' = put_builds ((cl_builds s)[i := (cl_builds s ! i)\<lparr>b_status := b_status b'\<rparr>]) s\<rbrakk> \<Longrightarrow>
     system_step C D nm s s'"
| unwritten: "system_step C D nm s s"

lemma is_running_conditions:
  "st_conditions (bst_status (b_status b')) = st_conditions (bst_status (b_status b)) \<Longrightarrow>
   is_running (Some b') = is_running (Some b)"
  by (simp add: succeeded_condition_def get_condition_def)

text \<open>A write of the build reconciler never starts a build again.\<close>

lemma build_write_settles:
  assumes "be_split_key B k = Inr (ns, bn)" and "be_get_build B [] ns bn = Inr b"
    and "UpdateBuildStatus b' \<in> set (snd (reconcile_build_key D B k []))" and "is_running (Some (b\<lparr>b_status := b_status b'\<rparr>))"
  shows "is_running (Some b)"
proof (rule ccontr)
  assume stopped: "\<not> is_running (Some b)"
  have "build_effect b (UpdateBuildStatus b')"
    using reconcile_build_key_effects [OF assms(1,2), of D] assms(3) unfolding list_all_iff by blast
  with stopped have "same_outcome b b'" by (simp add: build_finished_def)
  with stopped have "\<not> is_running (Some (b\<lparr>b_status := b_status b'\<rparr>))"
    using is_running_conditions [of "b\<lparr>b_status := b_status b'\<rparr>" b] by (simp add: same_outcome_def)
  with assms(4) show False by simp
qed

lemma system_step_stamps: "system_step C D nm s s' \<Longrightarrow> \<exists>ts. cl_stamps s' = cl_stamps s @ ts"
proof (erule system_step.cases)
  fix im q ok t E s0 s1 s2
  assume "s = s0" "s' = s2" "s1 = apply_events ok t (snd (reconcile_image C E im [])) s0" "s2 = forget_views q s1"
  then show ?thesis using apply_events_stamps [of ok t "snd (reconcile_image C E im [])" s0] by (simp add: forget_views_def)
qed simp_all

lemma system_step_inv:
  assumes "system_step C D nm s s'" and "cluster_inv C nm k 0 s" and "fits64 (int k + 1)"
    and "go_sort (ic_sort C) creation_key" and "distinct_build_names C nm" and "distinct (cl_stamps s')"
  shows "cluster_inv C nm (Suc k) 0 s'"
  using assms(1)
proof cases
  case (image_step im q ok t E s1)
  then show ?thesis using inv_reconciled [OF assms(2-5)] assms(6) by (simp add: forget_views_def)
next
  case (build_step i B k' ns bn b')
  have "cluster_inv C nm k 0 s'"
    unfolding build_step(5) by (rule inv_updated [OF assms(2) build_step(1)]) (use build_write_settles [OF build_step(2-4)] in auto)
  then show ?thesis by (rule inv_mono) simp
next
  case unwritten
  then show ?thesis using inv_mono [OF assms(2)] by simp
qed

lemma system_run_inv:
  assumes "(system_step C D nm ^^ k) empty_cluster s" and "fits64 (int k)"
    and "go_sort (ic_sort C) creation_key" and "distinct_build_names C nm" and "distinct (cl_stamps s)"
  shows "cluster_inv C nm k 0 s"
  using assms(1,2,5)
proof (induction k arbitrary: s)
  case 0
  then show ?case using empty_cluster_inv by simp
next
  case (Suc k)
  then obtain s0 where run: "(system_step C D nm ^^ k) empty_cluster s0" and step: "system_step C D nm s0 s" by auto
  have "distinct (cl_stamps s0)" using system_step_stamps [OF step] Suc.prems(3) by auto
  with Suc.IH [OF run] Suc.prems(2) have "cluster_inv C nm k 0 s0" by (simp add: fits64_def int64_min_def)
  with system_step_inv [OF step] show ?case using Suc.prems assms(3,4) by (simp add: add.commute)
qed

end
