(* ===== verification/Buildpack_Resolver.thy ===== *)
theory Buildpack_Resolver
  imports Cluster_Types
begin

text \<open>
  \<open>pkg/cnb/buildpack_resolver.go\<close> and \<open>dependency_tree.go\<close>: a reference in a builder's order is
  resolved to a buildpack of the store, of a \<open>Buildpack\<close> or of a \<open>ClusterBuildpack\<close>. Building the
  dependency tree follows references without looking for cycles, so a run may not end: a run is
  an optional result, and \<open>None\<close> is the run that does not return.
\<close>

section \<open>Runs that may not end\<close>

type_synonym 'a run = "'a res option"

definition bind_run :: "'a run \<Rightarrow> ('a \<Rightarrow> 'b run) \<Rightarrow> 'b run" where
  "bind_run m f = Option.bind m (\<lambda>r. case r of Inl e \<Rightarrow> Some (Inl e) | Inr x \<Rightarrow> f x)"

lemma bind_run_simps [simp]:
  "bind_run None f = None" "bind_run (Some (Inl e)) f = Some (Inl e)" "bind_run (Some (Inr x)) f = f x"
  by (simp_all add: bind_run_def)

lemma bind_run_eq_Inr: "bind_run m f = Some (Inr y) \<longleftrightarrow> (\<exists>x. m = Some (Inr x) \<and> f x = Some (Inr y))"
  by (cases m; cases "the m") (auto simp: bind_run_def)

lemma bind_run_ends:
  "m \<noteq> None \<Longrightarrow> (\<And>x. m = Some (Inr x) \<Longrightarrow> f x \<noteq> None) \<Longrightarrow> bind_run m f \<noteq> None"
  by (auto simp: bind_run_def split: sum.splits)

lemma bind_run_mono [partial_function_mono]:
  assumes m: "mono_option m" and f: "\<And>x. mono_option (\<lambda>g. f x g)"
  shows "mono_option (\<lambda>g. bind_run (m g) (\<lambda>x. f x g))"
  unfolding bind_run_def
proof (rule bind_mono [OF m])
  show "mono_option (\<lambda>g. case r of Inl e \<Rightarrow> Some (Inl e) | Inr x \<Rightarrow> f x g)" for r
    by (cases r) (simp_all add: option.const_mono f)
qed

section \<open>The dependency tree\<close>

datatype node = Node (node_buildpack: buildpack_status) (node_children: "node list")

definition order_refs :: "order_entry list \<Rightarrow> buildpack_ref list" where
  "order_refs order = concat (map order_group order)"

definition order_ids :: "buildpack_status \<Rightarrow> string list" where
  "order_ids bp = map (\<lambda>r. bp_id (bpref_info r)) (order_refs (bpst_order bp))"

text \<open>The map from ids to buildpacks: a later buildpack with the same id replaces an earlier one.\<close>

definition bp_lookup :: "buildpack_status list \<Rightarrow> string \<Rightarrow> buildpack_status option" where
  "bp_lookup bps i = map_of (rev (map (\<lambda>bp. (bp_id (bpst_info bp), bp)) bps)) i"

text \<open>The trees of a list of ids, from left to right. A missing id is a nil pointer that is followed.\<close>

partial_function (option) make_trees :: "(string \<Rightarrow> buildpack_status option) \<Rightarrow> string list \<Rightarrow> node list run" where
  "make_trees lookup ids =
     (case ids of
        [] \<Rightarrow> Some (Inr [])
      | i # rest \<Rightarrow>
          (case lookup i of
             None \<Rightarrow> Some (Inl (Panic ''invalid memory address or nil pointer dereference''))
           | Some bp \<Rightarrow>
               bind_run (make_trees lookup (order_ids bp)) (\<lambda>children.
               bind_run (make_trees lookup rest) (\<lambda>trees.
               Some (Inr (Node bp children # trees))))))"

definition used_ids :: "buildpack_status list \<Rightarrow> string list" where
  "used_ids bps = concat (map order_ids bps)"

definition unused_ids :: "buildpack_status list \<Rightarrow> string list" where
  "unused_ids bps = filter (\<lambda>i. i \<notin> set (used_ids bps)) (map (\<lambda>bp. bp_id (bpst_info bp)) bps)"

definition new_tree :: "buildpack_status list \<Rightarrow> node list run" where
  "new_tree bps = make_trees (bp_lookup bps) (unused_ids bps)"

section \<open>Candidates\<close>

record k8s_remote_buildpack =
  krb_buildpack :: buildpack_status
  krb_secret_ref :: secret_ref
  krb_source :: object_reference

record buildpack_resolver =
  bpr_clusterstore :: "cluster_store option"
  bpr_buildpacks :: "buildpack list"
  bpr_cluster_buildpacks :: "cluster_buildpack list"

definition cluster_store_observed_generation :: "buildpack_resolver \<Rightarrow> int" where
  "cluster_store_observed_generation R =
     (case bpr_clusterstore R of None \<Rightarrow> 0 | Some s \<Rightarrow> st_observed_generation (sto_status s))"

definition bp_source :: "string \<Rightarrow> object_meta \<Rightarrow> object_reference" where
  "bp_source kind m = \<lparr>oref_kind = kind, oref_namespace = meta_namespace m, oref_name = meta_name m\<rparr>"

definition with_id :: "string \<Rightarrow> buildpack_status list \<Rightarrow> buildpack_status list" where
  "with_id i = filter (\<lambda>s. bp_id (bpst_info s) = i)"

definition buildpack_secret_ref :: "buildpack \<Rightarrow> secret_ref" where
  "buildpack_secret_ref bp = empty_secret_ref
     \<lparr>sref_service_account := bps_service_account_name (bpk_spec bp), sref_namespace := meta_namespace (bpk_meta bp)\<rparr>"

definition of_buildpack :: "buildpack \<Rightarrow> buildpack_status \<Rightarrow> k8s_remote_buildpack" where
  "of_buildpack bp s = \<lparr>krb_buildpack = s, krb_secret_ref = buildpack_secret_ref bp,
     krb_source = bp_source (bpk_kind bp) (bpk_meta bp)\<rparr>"

definition of_cluster_buildpack :: "cluster_buildpack \<Rightarrow> buildpack_status \<Rightarrow> k8s_remote_buildpack" where
  "of_cluster_buildpack c s = \<lparr>krb_buildpack = s,
     krb_secret_ref = account_secret_ref (cbps_service_account_ref (cbp_spec c)),
     krb_source = bp_source (cbp_kind c) (cbp_meta c)\<rparr>"

definition of_cluster_store :: "cluster_store \<Rightarrow> buildpack_status \<Rightarrow> k8s_remote_buildpack" where
  "of_cluster_store st s = \<lparr>krb_buildpack = s,
     krb_secret_ref = account_secret_ref (csp_service_account_ref (sto_spec st)),
     krb_source = bp_source (sto_kind st) (sto_meta st)\<rparr>"

definition resolve_from_buildpack :: "string \<Rightarrow> buildpack list \<Rightarrow> k8s_remote_buildpack list" where
  "resolve_from_buildpack i bps = concat (map (\<lambda>bp. map (of_buildpack bp) (with_id i (bpk_buildpacks bp))) bps)"

definition resolve_from_cluster_buildpack :: "string \<Rightarrow> cluster_buildpack list \<Rightarrow> k8s_remote_buildpack list" where
  "resolve_from_cluster_buildpack i cbps =
     concat (map (\<lambda>c. map (of_cluster_buildpack c) (with_id i (cbp_buildpacks c))) cbps)"

definition resolve_from_cluster_store :: "string \<Rightarrow> cluster_store option \<Rightarrow> k8s_remote_buildpack list" where
  "resolve_from_cluster_store i store =
     (case store of None \<Rightarrow> []
      | Some st \<Rightarrow> map (of_cluster_store st) (with_id i (sto_buildpacks st)))"

text \<open>Both searches go by name only, whatever the namespace of the reference.\<close>

definition find_buildpack :: "object_reference \<Rightarrow> buildpack list \<Rightarrow> buildpack option" where
  "find_buildpack r = find (\<lambda>bp. meta_name (bpk_meta bp) = oref_name r)"

definition find_cluster_buildpack :: "object_reference \<Rightarrow> cluster_buildpack list \<Rightarrow> cluster_buildpack option" where
  "find_cluster_buildpack r = find (\<lambda>c. meta_name (cbp_meta c) = oref_name r)"

definition root_buildpack :: "(buildpack_status \<Rightarrow> k8s_remote_buildpack) \<Rightarrow> buildpack_status list \<Rightarrow>
    k8s_remote_buildpack run" where
  "root_buildpack mk bps =
     bind_run (new_tree bps) (\<lambda>trees.
       (case trees of
          [t] \<Rightarrow> Some (Inr (mk (node_buildpack t)))
        | _ \<Rightarrow> Some (Inl (Failed Plain (''unexpected number of root buildpacks: '' @ itoa (int (length trees)))))))"

definition resolve_from_object_reference :: "buildpack_resolver \<Rightarrow> object_reference \<Rightarrow> k8s_remote_buildpack run" where
  "resolve_from_object_reference R r =
     (if oref_kind r = BuildpackKind then
        (case find_buildpack r (bpr_buildpacks R) of
           None \<Rightarrow> Some (Inl (Failed Plain (''no buildpack with name '' @ quoted (oref_name r))))
         | Some bp \<Rightarrow> root_buildpack (of_buildpack bp) (bpk_buildpacks bp))
      else if oref_kind r = ClusterBuildpackKind then
        (case find_cluster_buildpack r (bpr_cluster_buildpacks R) of
           None \<Rightarrow> Some (Inl (Failed Plain (''no cluster buildpack with name '' @ quoted (oref_name r))))
         | Some c \<Rightarrow> root_buildpack (of_cluster_buildpack c) (cbp_buildpacks c))
      else Some (Inl (Failed Plain (''kind must be either '' @ BuildpackKind @ '' or '' @ ClusterBuildpackKind))))"

section \<open>The highest version\<close>

text \<open>\<open>sort.SliceStable\<close>: elements that are not less than one another keep their order.\<close>

fun stable_insert :: "('a \<Rightarrow> 'a \<Rightarrow> bool) \<Rightarrow> 'a \<Rightarrow> 'a list \<Rightarrow> 'a list" where
  "stable_insert lt x [] = [x]"
| "stable_insert lt x (y # ys) = (if lt y x then y # stable_insert lt x ys else x # y # ys)"

definition stable_sort :: "('a \<Rightarrow> 'a \<Rightarrow> bool) \<Rightarrow> 'a list \<Rightarrow> 'a list" where
  "stable_sort lt xs = foldr (stable_insert lt) xs []"

definition krb_version :: "k8s_remote_buildpack \<Rightarrow> string" where
  "krb_version b = bp_version (bpst_info (krb_buildpack b))"

definition krb_id :: "k8s_remote_buildpack \<Rightarrow> string" where
  "krb_id b = bp_id (bpst_info (krb_buildpack b))"

text \<open>\<open>semver.MustParse\<close> panics where \<open>NewVersion\<close> fails; the loop before the sort has ruled that out.\<close>

definition must_parse :: "lib \<Rightarrow> string \<Rightarrow> semver" where
  "must_parse L v = (case lib_semver_new L v of Inr s \<Rightarrow> s | Inl _ \<Rightarrow> Semver '''')"

definition version_less :: "lib \<Rightarrow> k8s_remote_buildpack \<Rightarrow> k8s_remote_buildpack \<Rightarrow> bool" where
  "version_less L a b \<longleftrightarrow> lib_semver_less L (must_parse L (krb_version a)) (must_parse L (krb_version b))"

definition invalid_version :: "lib \<Rightarrow> k8s_remote_buildpack \<Rightarrow> bool" where
  "invalid_version L b = (case lib_semver_new L (krb_version b) of Inl _ \<Rightarrow> True | Inr _ \<Rightarrow> False)"

definition highest_version :: "lib \<Rightarrow> k8s_remote_buildpack list \<Rightarrow> k8s_remote_buildpack res" where
  "highest_version L bps =
     (case find (invalid_version L) bps of
        Some b \<Rightarrow> Inl (Failed Plain (''cannot find buildpack '' @ quoted (krb_id b) @
                    '' with latest version due to invalid semver '' @ quoted (krb_version b)))
      | None \<Rightarrow> (case stable_sort (version_less L) bps of
                  [] \<Rightarrow> Inl (Panic ''index out of range [-1]'')
                | sorted_bps \<Rightarrow> Inr (last sorted_bps)))"

section \<open>Resolving a reference\<close>

definition matching_buildpacks :: "buildpack_resolver \<Rightarrow> builder_buildpack_ref \<Rightarrow> k8s_remote_buildpack list run" where
  "matching_buildpacks R r =
     (let i = bp_id (bpref_info (bbr_ref r)); obj = bbr_object r
      in if oref_kind obj = BuildpackKind \<and> i \<noteq> '''' then
           (case find_buildpack obj (bpr_buildpacks R) of
              None \<Rightarrow> Some (Inl (Failed Plain (''buildpack not found: '' @ oref_name obj)))
            | Some bp \<Rightarrow> Some (Inr (resolve_from_buildpack i [bp])))
         else if oref_kind obj = ClusterBuildpackKind \<and> i \<noteq> '''' then
           (case find_cluster_buildpack obj (bpr_cluster_buildpacks R) of
              None \<Rightarrow> Some (Inl (Failed Plain (''cluster buildpack not found: '' @ oref_name obj)))
            | Some c \<Rightarrow> Some (Inr (resolve_from_cluster_buildpack i [c])))
         else if oref_kind obj \<noteq> '''' then
           bind_run (resolve_from_object_reference R obj) (\<lambda>bp. Some (Inr [bp]))
         else if i \<noteq> '''' then
           Some (Inr (resolve_from_buildpack i (bpr_buildpacks R) @
             resolve_from_cluster_buildpack i (bpr_cluster_buildpacks R) @
             resolve_from_cluster_store i (bpr_clusterstore R)))
         else if bbr_image r \<noteq> '''' then
           Some (Inl (Failed Plain ''using images in builders not currently supported''))
         else Some (Inl (Failed Plain ''invalid buildpack reference'')))"

definition pick_buildpack :: "lib \<Rightarrow> buildpack_info \<Rightarrow> k8s_remote_buildpack list \<Rightarrow> k8s_remote_buildpack res" where
  "pick_buildpack L info ms =
     (if ms = [] then Inl (Failed Plain (''could not find buildpack with id '' @ quoted (bp_id info)))
      else if bp_version info = '''' then highest_version L ms
      else (case find (\<lambda>b. krb_version b = bp_version info) ms of
              Some b \<Rightarrow> Inr b
            | None \<Rightarrow> Inl (Failed Plain (''could not find buildpack with id '' @ quoted (bp_id info) @
                        '' and version '' @ quoted (bp_version info)))))"

definition resolve :: "lib \<Rightarrow> buildpack_resolver \<Rightarrow> builder_buildpack_ref \<Rightarrow> k8s_remote_buildpack run" where
  "resolve L R r =
     bind_run (matching_buildpacks R r) (\<lambda>ms. Some (pick_buildpack L (bpref_info (bbr_ref r)) ms))"

section \<open>Facts\<close>

text \<open>What a comparison has to be for the sort to mean anything: a strict weak order.\<close>

definition weak_order :: "('a \<Rightarrow> 'a \<Rightarrow> bool) \<Rightarrow> bool" where
  "weak_order lt \<longleftrightarrow> (\<forall>a b. lt a b \<longrightarrow> \<not> lt b a) \<and> (\<forall>a b c. lt a c \<longrightarrow> lt a b \<or> lt b c)"

lemma weak_order_irrefl: "weak_order lt \<Longrightarrow> \<not> lt a a"
  by (auto simp: weak_order_def)

lemma weak_order_version_less: "weak_order (lib_semver_less L) \<Longrightarrow> weak_order (version_less L)"
  unfolding weak_order_def version_less_def by blast

lemma set_stable_insert [simp]: "set (stable_insert lt x ys) = insert x (set ys)"
  by (induction ys) auto

lemma set_stable_sort [simp]: "set (stable_sort lt xs) = set xs"
  by (induction xs) (simp_all add: stable_sort_def)

lemma stable_insert_not_Nil [simp]: "stable_insert lt x ys \<noteq> []"
  by (cases ys) simp_all

lemma stable_insert_all: "\<forall>y \<in> set ys. lt y x \<Longrightarrow> stable_insert lt x ys = ys @ [x]"
  by (induction ys) simp_all

lemma stable_insert_last: "ys \<noteq> [] \<Longrightarrow> \<not> lt (last ys) x \<Longrightarrow> last (stable_insert lt x ys) = last ys"
  by (induction ys) auto

text \<open>The one element that a stable sort puts last: nothing after it reaches it, nothing exceeds it.\<close>

definition last_greatest :: "('a \<Rightarrow> 'a \<Rightarrow> bool) \<Rightarrow> 'a list \<Rightarrow> 'a \<Rightarrow> bool" where
  "last_greatest lt xs m \<longleftrightarrow> (\<exists>pre post. xs = pre @ m # post \<and>
     (\<forall>x \<in> set pre. \<not> lt m x) \<and> (\<forall>x \<in> set post. lt x m))"

lemma last_greatest_max:
  assumes "weak_order lt" and "last_greatest lt xs m" and "x \<in> set xs"
  shows "\<not> lt m x"
  using assms weak_order_irrefl [OF assms(1)] unfolding last_greatest_def weak_order_def by auto

lemma stable_sort_last:
  assumes wo: "weak_order lt"
  shows "xs \<noteq> [] \<Longrightarrow> last_greatest lt xs (last (stable_sort lt xs))"
proof (induction xs)
  case (Cons x xs)
  let ?s = "stable_sort lt xs"
  have step: "stable_sort lt (x # xs) = stable_insert lt x ?s" by (simp add: stable_sort_def)
  show ?case
  proof (cases "xs = []")
    case True
    then show ?thesis
      unfolding last_greatest_def by (intro exI [of _ "[]"]) (simp add: stable_sort_def)
  next
    case False
    let ?m = "last ?s"
    have IH: "last_greatest lt xs ?m" using Cons.IH False by simp
    have ne: "?s \<noteq> []" using False by (metis set_empty set_stable_sort)
    show ?thesis
    proof (cases "lt ?m x")
      case True
      then have "\<forall>y \<in> set xs. lt y x"
        using last_greatest_max [OF wo IH] wo unfolding weak_order_def by blast
      then have "last (stable_sort lt (x # xs)) = x" using step by (simp add: stable_insert_all)
      then show ?thesis
        using \<open>\<forall>y \<in> set xs. lt y x\<close> by (simp add: last_greatest_def) (metis append_Nil empty_iff list.set(1))
    next
      case False
      then have "last (stable_sort lt (x # xs)) = ?m" using step ne by (simp add: stable_insert_last)
      moreover obtain pre post where "xs = pre @ ?m # post" "\<forall>x \<in> set pre. \<not> lt ?m x" "\<forall>x \<in> set post. lt x ?m"
        using IH by (auto simp: last_greatest_def)
      ultimately show ?thesis
        using False unfolding last_greatest_def by (metis append_Cons set_ConsD)
    qed
  qed
qed simp

lemma highest_version_Inr:
  assumes "weak_order (lib_semver_less L)" and "highest_version L bps = Inr b"
  shows "last_greatest (version_less L) bps b \<and> (\<forall>x \<in> set bps. \<not> invalid_version L x)"
proof -
  have ok: "find (invalid_version L) bps = None" and ne: "bps \<noteq> []"
    and b: "b = last (stable_sort (version_less L) bps)"
    using assms(2) by (auto simp: highest_version_def stable_sort_def split: option.splits list.splits)
  then show ?thesis
    using stable_sort_last [OF weak_order_version_less [OF assms(1)]] by (auto simp: find_None_iff)
qed

lemma highest_version_no_panic: "bps \<noteq> [] \<Longrightarrow> \<not> panics (highest_version L bps)"
  using set_stable_sort [of "version_less L" bps]
  by (auto simp: highest_version_def simp del: set_stable_sort split: option.split list.split)

text \<open>References without a kind never build a tree, so resolving them always ends.\<close>

lemma resolve_by_id:
  "oref_kind (bbr_object r) = '''' \<Longrightarrow> resolve L R r \<noteq> None"
  by (auto simp: resolve_def matching_buildpacks_def Let_def kind_defs)

lemma resolve_from_ids:
  "b \<in> set (resolve_from_buildpack i bps) \<longleftrightarrow>
     (\<exists>bp \<in> set bps. \<exists>s \<in> set (bpk_buildpacks bp). bp_id (bpst_info s) = i \<and> b = of_buildpack bp s)"
  "b \<in> set (resolve_from_cluster_buildpack i cs) \<longleftrightarrow>
     (\<exists>c \<in> set cs. \<exists>s \<in> set (cbp_buildpacks c). bp_id (bpst_info s) = i \<and> b = of_cluster_buildpack c s)"
  "b \<in> set (resolve_from_cluster_store i st) \<longleftrightarrow>
     (\<exists>x s. st = Some x \<and> s \<in> set (sto_buildpacks x) \<and> bp_id (bpst_info s) = i \<and> b = of_cluster_store x s)"
  by (auto simp: resolve_from_buildpack_def resolve_from_cluster_buildpack_def resolve_from_cluster_store_def
      with_id_def split: option.splits)

subsection \<open>Dependency trees\<close>

lemma make_trees_simps [simp]:
  "make_trees lookup [] = Some (Inr [])"
  "make_trees lookup (i # rest) =
     (case lookup i of
        None \<Rightarrow> Some (Inl (Panic ''invalid memory address or nil pointer dereference''))
      | Some bp \<Rightarrow> bind_run (make_trees lookup (order_ids bp)) (\<lambda>children.
          bind_run (make_trees lookup rest) (\<lambda>trees. Some (Inr (Node bp children # trees)))))"
  by (subst make_trees.simps; simp)+

text \<open>
  Along a rank that falls from a buildpack to the buildpacks of its order the recursion ends; when
  no id is missing it ends with trees.
\<close>

definition falls :: "(string \<Rightarrow> nat) \<Rightarrow> (string \<Rightarrow> buildpack_status option) \<Rightarrow> bool" where
  "falls rank lookup \<longleftrightarrow> (\<forall>i bp j. lookup i = Some bp \<longrightarrow> j \<in> set (order_ids bp) \<longrightarrow> rank j < rank i)"

definition refs_closed :: "(string \<Rightarrow> buildpack_status option) \<Rightarrow> bool" where
  "refs_closed lookup \<longleftrightarrow> (\<forall>i bp j. lookup i = Some bp \<longrightarrow> j \<in> set (order_ids bp) \<longrightarrow> lookup j \<noteq> None)"

lemma make_trees_end:
  assumes "falls rank lookup" and "refs_closed lookup"
  shows "\<forall>i \<in> set ids. rank i \<le> n \<and> lookup i \<noteq> None \<Longrightarrow>
    \<exists>ts. make_trees lookup ids = Some (Inr ts) \<and> map node_buildpack ts = map (\<lambda>i. the (lookup i)) ids"
proof (induction n arbitrary: ids rule: less_induct)
  case (less n)
  from less.prems show ?case
  proof (induction ids)
    case (Cons i ids)
    then obtain bp where bp: "lookup i = Some bp" by auto
    have falling: "\<forall>j \<in> set (order_ids bp). rank j < rank i \<and> lookup j \<noteq> None"
      using assms bp by (auto simp: falls_def refs_closed_def)
    have "\<exists>cs. make_trees lookup (order_ids bp) = Some (Inr cs)"
    proof (cases "order_ids bp = []")
      case False
      then have "0 < rank i" using falling by (metis gr_implies_not_zero list.set_intros(1) list.exhaust neq0_conv)
      have "\<forall>j \<in> set (order_ids bp). rank j \<le> rank i - 1 \<and> lookup j \<noteq> None" using falling by fastforce
      then show ?thesis using less.IH [of "rank i - 1" "order_ids bp"] Cons.prems \<open>0 < rank i\<close> by fastforce
    qed simp
    moreover obtain ts where "make_trees lookup ids = Some (Inr ts)"
      "map node_buildpack ts = map (\<lambda>i. the (lookup i)) ids"
      using Cons by auto
    ultimately show ?case using bp by auto
  qed simp
qed

text \<open>A buildpack that its own order starts with keeps the recursion from ending.\<close>

lemma make_trees_loops_aux:
  assumes "make_trees lk ids = Some r"
  shows "lk i = Some bp \<longrightarrow> order_ids bp = i # js \<longrightarrow> (\<forall>rest. ids \<noteq> i # rest)"
proof (rule make_trees.raw_induct [where P = "\<lambda>lk ids _. lk i = Some bp \<longrightarrow> order_ids bp = i # js \<longrightarrow>
    (\<forall>rest. ids \<noteq> i # rest)", OF _ assms], intro impI allI notI)
  fix mt lk ids r rest
  assume IH: "\<And>lk ids r. mt lk ids = Some r \<Longrightarrow>
      lk i = Some bp \<longrightarrow> order_ids bp = i # js \<longrightarrow> (\<forall>rest. ids \<noteq> i # rest)"
    and run: "(case ids of [] \<Rightarrow> Some (Inr []) | i # rest \<Rightarrow> (case lk i of
        None \<Rightarrow> Some (Inl (Panic ''invalid memory address or nil pointer dereference''))
      | Some bp \<Rightarrow> bind_run (mt lk (order_ids bp)) (\<lambda>children. bind_run (mt lk rest)
          (\<lambda>trees. Some (Inr (Node bp children # trees)))))) = Some r"
    and loop: "lk i = Some bp" "order_ids bp = i # js" and ids: "ids = i # rest"
  then have "bind_run (mt lk (i # js)) (\<lambda>children. bind_run (mt lk rest)
        (\<lambda>trees. Some (Inr (Node bp children # trees)))) = Some r" by simp
  then obtain r' where "mt lk (i # js) = Some r'" by (cases "mt lk (i # js)") auto
  then show False using IH loop by blast
qed

lemma make_trees_loops:
  "lookup i = Some bp \<Longrightarrow> order_ids bp = i # js \<Longrightarrow> make_trees lookup (i # rest) = None"
  using make_trees_loops_aux by (metis not_None_eq)

end
