(* ===== verification/Buildpack_Fetcher.thy ===== *)
theory Buildpack_Fetcher
  imports Buildpack_Resolver
begin

text \<open>
  \<open>pkg/cnb/remote_buildpack_fetcher.go\<close> with the types of \<open>buildpack_metadata.go\<close> and
  \<open>remote_buildpack_metadata.go\<close>: the layers of a buildpack and of everything its order names. The
  code follows the order without looking for cycles.
\<close>

section \<open>Layers\<close>

record buildpack_layer_info =
  bli_api :: string
  bli_layer_diff_id :: string
  bli_order :: "order_entry list"
  bli_stacks :: "buildpack_stack list"
  bli_homepage :: string

record descriptive_info =
  dbi_info :: buildpack_info
  dbi_homepage :: string

text \<open>
  A layer of an image: its \<open>DiffID\<close>, its size and where its bytes come from: the registry, an
  archive that kpack writes, or an image that was fetched.
\<close>

datatype layer_source = RemoteLayer opaque string | TarLayer opaque | FetchedLayer opaque

record v1_layer =
  vl_diff_id :: "string res"
  vl_size :: int
  vl_source :: layer_source

record buildpack_layer =
  bl_layer :: v1_layer
  bl_info :: descriptive_info
  bl_layer_info :: buildpack_layer_info

record remote_buildpack_info =
  rbi_info :: descriptive_info
  rbi_layers :: "buildpack_layer list"

record remote_buildpack_ref =
  rbr_info :: descriptive_info
  rbr_optional :: bool
  rbr_layers :: "buildpack_layer list"

definition with_optional :: "bool \<Rightarrow> remote_buildpack_info \<Rightarrow> remote_buildpack_ref" where
  "with_optional opt i = \<lparr>rbr_info = rbi_info i, rbr_optional = opt, rbr_layers = rbi_layers i\<rparr>"

definition remote_buildpack_ref_ref :: "remote_buildpack_ref \<Rightarrow> buildpack_ref" where
  "remote_buildpack_ref_ref r = \<lparr>bpref_info = dbi_info (rbr_info r), bpref_optional = rbr_optional r\<rparr>"

text \<open>
  The functions of the container registry library that the code calls: \<open>Context().Name()\<close>,
  \<open>name.NewDigest\<close> and \<open>v1.NewHash\<close>, beside those of \<open>lib\<close>; and the keychain factory.
\<close>

record cnb_lib =
  cb_lib :: lib
  cb_context_name :: "image_ref \<Rightarrow> string"
  cb_new_digest :: "string \<Rightarrow> string res"
  cb_new_hash :: "string \<Rightarrow> string res"
  cb_keychain :: "secret_ref \<Rightarrow> opaque res"

definition new_lazy_mountable_layer :: "cnb_lib \<Rightarrow> opaque \<Rightarrow> buildpack_status \<Rightarrow> v1_layer res" where
  "new_lazy_mountable_layer K kc bp =
     bind_res (map_err (wrap_err (''unable to parse '' @ bpst_store_image bp))
                 (lib_parse_reference (cb_lib K) (bpst_store_image bp))) (\<lambda>ref.
     bind_res (map_err (wrap_err (''unable to construct layer digest: '' @ bpst_digest bp))
                 (cb_new_digest K (cb_context_name K ref @ ''@'' @ bpst_digest bp))) (\<lambda>fq.
     Inr \<lparr>vl_diff_id = cb_new_hash K (bpst_diff_id bp), vl_size = bpst_size bp, vl_source = RemoteLayer kc fq\<rparr>))"

section \<open>Fetching\<close>

definition descriptive_info_of :: "buildpack_status \<Rightarrow> descriptive_info" where
  "descriptive_info_of bp = \<lparr>dbi_info = bpst_info bp, dbi_homepage = bpst_homepage bp\<rparr>"

definition layer_info_of :: "buildpack_status \<Rightarrow> buildpack_layer_info" where
  "layer_info_of bp = \<lparr>bli_api = bpst_api bp, bli_layer_diff_id = bpst_diff_id bp, bli_order = bpst_order bp,
     bli_stacks = bpst_stacks bp, bli_homepage = bpst_homepage bp\<rparr>"

definition own_layer :: "cnb_lib \<Rightarrow> k8s_remote_buildpack \<Rightarrow> buildpack_layer res" where
  "own_layer K b =
     bind_res (cb_keychain K (krb_secret_ref b)) (\<lambda>kc.
     bind_res (new_lazy_mountable_layer K kc (krb_buildpack b)) (\<lambda>layer.
     Inr \<lparr>bl_layer = layer, bl_info = descriptive_info_of (krb_buildpack b),
          bl_layer_info = layer_info_of (krb_buildpack b)\<rparr>))"

definition plain_ref :: "buildpack_ref \<Rightarrow> builder_buildpack_ref" where
  "plain_ref r = \<lparr>bbr_ref = \<lparr>bpref_info = bpref_info r, bpref_optional = False\<rparr>,
     bbr_object = \<lparr>oref_kind = '''', oref_namespace = '''', oref_name = ''''\<rparr>, bbr_image = ''''\<rparr>"

text \<open>
  \<open>layersForOrder\<close> and \<open>fetch\<close> call one another; this is \<open>layersForOrder\<close> with the body of \<open>fetch\<close>
  in place, over the references of all groups in order.
\<close>

partial_function (option) layers_for_refs :: "cnb_lib \<Rightarrow> buildpack_resolver \<Rightarrow> buildpack_ref list \<Rightarrow>
    buildpack_layer list run" where
  "layers_for_refs K R refs =
     (case refs of
        [] \<Rightarrow> Some (Inr [])
      | r # rest \<Rightarrow>
          bind_run (resolve (cb_lib K) R (plain_ref r)) (\<lambda>b.
          bind_run (Some (own_layer K b)) (\<lambda>own.
          bind_run (layers_for_refs K R (order_refs (bpst_order (krb_buildpack b)))) (\<lambda>deps.
          bind_run (layers_for_refs K R rest) (\<lambda>ls.
          Some (Inr (deps @ [own] @ ls)))))))"

definition fetch_buildpack :: "cnb_lib \<Rightarrow> buildpack_resolver \<Rightarrow> k8s_remote_buildpack \<Rightarrow> remote_buildpack_info run" where
  "fetch_buildpack K R b =
     bind_run (Some (own_layer K b)) (\<lambda>own.
     bind_run (layers_for_refs K R (order_refs (bpst_order (krb_buildpack b)))) (\<lambda>deps.
     Some (Inr \<lparr>rbi_info = descriptive_info_of (krb_buildpack b), rbi_layers = deps @ [own]\<rparr>)))"

definition resolve_and_fetch :: "cnb_lib \<Rightarrow> buildpack_resolver \<Rightarrow> builder_buildpack_ref \<Rightarrow> remote_buildpack_info run" where
  "resolve_and_fetch K R r = bind_run (resolve (cb_lib K) R r) (fetch_buildpack K R)"

section \<open>Facts\<close>

lemma layers_for_refs_simps [simp]:
  "layers_for_refs K R [] = Some (Inr [])"
  "layers_for_refs K R (r # rest) =
     bind_run (resolve (cb_lib K) R (plain_ref r)) (\<lambda>b.
     bind_run (Some (own_layer K b)) (\<lambda>own.
     bind_run (layers_for_refs K R (order_refs (bpst_order (krb_buildpack b)))) (\<lambda>deps.
     bind_run (layers_for_refs K R rest) (\<lambda>ls. Some (Inr (deps @ [own] @ ls))))))"
  by (subst layers_for_refs.simps; simp)+

lemma own_layer_info:
  "own_layer K b = Inr l \<Longrightarrow> bl_info l = descriptive_info_of (krb_buildpack b) \<and>
     bl_layer_info l = layer_info_of (krb_buildpack b)"
  by (auto simp: own_layer_def bind_res_eq_Inr)

text \<open>
  A list of layers provides a reference when it has the layer of the buildpack the reference
  resolves to, and it is closed when it provides what the orders of its own buildpacks name.
\<close>

definition provides :: "cnb_lib \<Rightarrow> buildpack_resolver \<Rightarrow> buildpack_layer list \<Rightarrow> buildpack_ref \<Rightarrow> bool" where
  "provides K R ls r \<longleftrightarrow> (\<exists>b. resolve (cb_lib K) R (plain_ref r) = Some (Inr b) \<and>
     (\<exists>l \<in> set ls. bl_info l = descriptive_info_of (krb_buildpack b) \<and>
        bl_layer_info l = layer_info_of (krb_buildpack b)))"

definition closed_layers :: "cnb_lib \<Rightarrow> buildpack_resolver \<Rightarrow> buildpack_layer list \<Rightarrow> bool" where
  "closed_layers K R ls \<longleftrightarrow> (\<forall>l \<in> set ls. \<forall>r \<in> set (order_refs (bli_order (bl_layer_info l))). provides K R ls r)"

lemma provides_mono: "provides K R ls r \<Longrightarrow> set ls \<subseteq> set ms \<Longrightarrow> provides K R ms r"
  unfolding provides_def by blast

lemma closed_layers_append:
  "closed_layers K R ls \<Longrightarrow> closed_layers K R ms \<Longrightarrow> closed_layers K R (ls @ ms)"
  unfolding closed_layers_def by (fastforce intro: provides_mono)

lemma closed_layers_own:
  assumes "closed_layers K R deps" and "\<forall>r \<in> set (order_refs (bli_order (bl_layer_info own))). provides K R deps r"
  shows "closed_layers K R (deps @ [own])"
  using assms unfolding closed_layers_def by (fastforce intro: provides_mono)

lemma layers_for_refs_closed_aux:
  assumes "layers_for_refs K R refs = Some y"
  shows "\<forall>ls. y = Inr ls \<longrightarrow> closed_layers K R ls \<and> (\<forall>r \<in> set refs. provides K R ls r)"
proof (rule layers_for_refs.raw_induct [where P = "\<lambda>K R refs y. \<forall>ls. y = Inr ls \<longrightarrow>
    closed_layers K R ls \<and> (\<forall>r \<in> set refs. provides K R ls r)", OF _ assms], intro allI impI)
  fix lfr K R refs y ls
  assume IH: "\<And>K R refs y. lfr K R refs = Some y \<Longrightarrow>
      \<forall>ls. y = Inr ls \<longrightarrow> closed_layers K R ls \<and> (\<forall>r \<in> set refs. provides K R ls r)"
    and run: "(case refs of [] \<Rightarrow> Some (Inr []) | r # rest \<Rightarrow>
        bind_run (resolve (cb_lib K) R (plain_ref r)) (\<lambda>b. bind_run (Some (own_layer K b)) (\<lambda>own.
        bind_run (lfr K R (order_refs (bpst_order (krb_buildpack b)))) (\<lambda>deps.
        bind_run (lfr K R rest) (\<lambda>ls. Some (Inr (deps @ [own] @ ls))))))) = Some y"
    and y: "y = Inr ls"
  show "closed_layers K R ls \<and> (\<forall>r \<in> set refs. provides K R ls r)"
  proof (cases refs)
    case Nil
    with run y show ?thesis by (simp add: closed_layers_def)
  next
    case (Cons r rest)
    then obtain b own deps ms where b: "resolve (cb_lib K) R (plain_ref r) = Some (Inr b)"
      and own: "own_layer K b = Inr own"
      and deps: "lfr K R (order_refs (bpst_order (krb_buildpack b))) = Some (Inr deps)"
      and ms: "lfr K R rest = Some (Inr ms)" and ls: "ls = (deps @ [own]) @ ms"
      using run y by (auto simp: bind_run_eq_Inr)
    have closed: "closed_layers K R (deps @ [own])"
      using IH [OF deps] own_layer_info [OF own] by (intro closed_layers_own) (simp_all add: layer_info_of_def)
    moreover have rest: "closed_layers K R ms \<and> (\<forall>r \<in> set rest. provides K R ms r)" using IH [OF ms] by simp
    ultimately have "closed_layers K R ls" using ls closed_layers_append by blast
    moreover have "provides K R ls r" using b own_layer_info [OF own] ls unfolding provides_def by auto
    moreover have "\<forall>r \<in> set rest. provides K R ls r"
      using rest ls provides_mono [of K R ms _ ls] by auto
    ultimately show ?thesis using Cons by simp
  qed
qed

lemma layers_for_refs_closed:
  "layers_for_refs K R refs = Some (Inr ls) \<Longrightarrow> closed_layers K R ls \<and> (\<forall>r \<in> set refs. provides K R ls r)"
  using layers_for_refs_closed_aux by blast

lemma fetch_buildpack_closed:
  assumes "fetch_buildpack K R b = Some (Inr i)"
  shows "closed_layers K R (rbi_layers i) \<and> rbi_info i \<in> bl_info ` set (rbi_layers i) \<and>
     (\<forall>r \<in> set (order_refs (bpst_order (krb_buildpack b))). provides K R (rbi_layers i) r) \<and>
     rbi_info i = descriptive_info_of (krb_buildpack b)"
proof -
  obtain own deps where own: "own_layer K b = Inr own"
    and deps: "layers_for_refs K R (order_refs (bpst_order (krb_buildpack b))) = Some (Inr deps)"
    and i: "i = \<lparr>rbi_info = descriptive_info_of (krb_buildpack b), rbi_layers = deps @ [own]\<rparr>"
    using assms by (auto simp: fetch_buildpack_def bind_run_eq_Inr)
  have "closed_layers K R (deps @ [own])"
    using layers_for_refs_closed [OF deps] own_layer_info [OF own]
    by (intro closed_layers_own) (simp_all add: layer_info_of_def)
  moreover have "\<forall>r \<in> set (order_refs (bpst_order (krb_buildpack b))). provides K R (deps @ [own]) r"
    using layers_for_refs_closed [OF deps] provides_mono [of K R deps _ "deps @ [own]"] by auto
  ultimately show ?thesis using i own_layer_info [OF own] by simp
qed

text \<open>Termination: along a rank that falls from a reference to the references of its buildpack's order.\<close>

definition acyclic_refs :: "(buildpack_ref \<Rightarrow> nat) \<Rightarrow> lib \<Rightarrow> buildpack_resolver \<Rightarrow> bool" where
  "acyclic_refs rank L R \<longleftrightarrow> (\<forall>r b r'. resolve L R (plain_ref r) = Some (Inr b) \<longrightarrow>
     r' \<in> set (order_refs (bpst_order (krb_buildpack b))) \<longrightarrow> rank r' < rank r)"

lemma resolve_plain_ref: "resolve L R (plain_ref r) \<noteq> None"
  by (rule resolve_by_id) (simp add: plain_ref_def)

lemma layers_for_refs_ends:
  assumes "acyclic_refs rank (cb_lib K) R"
  shows "\<forall>r \<in> set refs. rank r < n \<Longrightarrow> layers_for_refs K R refs \<noteq> None"
proof (induction n arbitrary: refs)
  case (Suc n)
  from Suc.prems show ?case
  proof (induction refs)
    case (Cons r refs)
    have deps: "layers_for_refs K R (order_refs (bpst_order (krb_buildpack b))) \<noteq> None"
      if b: "resolve (cb_lib K) R (plain_ref r) = Some (Inr b)" for b
    proof (rule Suc.IH)
      show "\<forall>r' \<in> set (order_refs (bpst_order (krb_buildpack b))). rank r' < n"
        using assms b Cons.prems unfolding acyclic_refs_def by fastforce
    qed
    have "layers_for_refs K R refs \<noteq> None" using Cons by simp
    with deps show ?case
      unfolding layers_for_refs_simps by (intro bind_run_ends resolve_plain_ref deps; simp)
  qed simp
qed (cases refs, simp_all)

lemma layers_for_refs_loops_aux:
  assumes "layers_for_refs K R refs = Some y"
  shows "resolve (cb_lib K) R (plain_ref r) = Some (Inr b) \<and> own_layer K b = Inr own \<and>
    order_refs (bpst_order (krb_buildpack b)) = r # rs \<longrightarrow> (\<forall>rest. refs \<noteq> r # rest)"
proof (rule layers_for_refs.raw_induct [where P = "\<lambda>K R refs y.
    resolve (cb_lib K) R (plain_ref r) = Some (Inr b) \<and> own_layer K b = Inr own \<and>
    order_refs (bpst_order (krb_buildpack b)) = r # rs \<longrightarrow> (\<forall>rest. refs \<noteq> r # rest)", OF _ assms],
    intro impI allI notI, elim conjE)
  fix lfr K R refs y rest
  assume IH: "\<And>K R refs y. lfr K R refs = Some y \<Longrightarrow>
      resolve (cb_lib K) R (plain_ref r) = Some (Inr b) \<and> own_layer K b = Inr own \<and>
      order_refs (bpst_order (krb_buildpack b)) = r # rs \<longrightarrow> (\<forall>rest. refs \<noteq> r # rest)"
    and run: "(case refs of [] \<Rightarrow> Some (Inr []) | r # rest \<Rightarrow>
        bind_run (resolve (cb_lib K) R (plain_ref r)) (\<lambda>b. bind_run (Some (own_layer K b)) (\<lambda>own.
        bind_run (lfr K R (order_refs (bpst_order (krb_buildpack b)))) (\<lambda>deps.
        bind_run (lfr K R rest) (\<lambda>ls. Some (Inr (deps @ [own] @ ls))))))) = Some y"
    and loop: "resolve (cb_lib K) R (plain_ref r) = Some (Inr b)" "own_layer K b = Inr own"
      "order_refs (bpst_order (krb_buildpack b)) = r # rs" and refs: "refs = r # rest"
  then have "bind_run (lfr K R (r # rs)) (\<lambda>deps. bind_run (lfr K R rest)
      (\<lambda>ls. Some (Inr (deps @ [own] @ ls)))) = Some y" by simp
  then obtain y' where "lfr K R (r # rs) = Some y'" by (cases "lfr K R (r # rs)") auto
  from IH [OF this] loop show False by blast
qed

text \<open>
  A buildpack whose order starts with itself is fetched for ever.
\<close>

lemma fetch_buildpack_loops:
  assumes "resolve (cb_lib K) R (plain_ref r) = Some (Inr b)" and "own_layer K b = Inr own"
    and "order_refs (bpst_order (krb_buildpack b)) = r # rs"
  shows "fetch_buildpack K R b = None"
proof -
  have "layers_for_refs K R (r # rs) = None"
    using layers_for_refs_loops_aux [of K R "r # rs" _ r b own rs] assms by (metis not_None_eq)
  then show ?thesis
    unfolding fetch_buildpack_def assms(2,3) by (simp del: layers_for_refs_simps)
qed

section \<open>The interface\<close>

text \<open>
  What the creator of builder images relies on: a fetched buildpack comes with its own layer and with
  a layer for everything the orders of these layers name.
\<close>

definition names_buildpack :: "lib \<Rightarrow> buildpack_resolver \<Rightarrow> descriptive_info set \<Rightarrow> buildpack_ref \<Rightarrow> bool" where
  "names_buildpack L R infos r \<longleftrightarrow>
     (\<exists>b. resolve L R (plain_ref r) = Some (Inr b) \<and> descriptive_info_of (krb_buildpack b) \<in> infos)"

lemma provides_names: "provides K R ls r \<Longrightarrow> names_buildpack (cb_lib K) R (bl_info ` set ls) r"
  unfolding provides_def names_buildpack_def by (metis image_eqI)

locale buildpack_fetcher =
  fixes fetch :: "builder_buildpack_ref \<Rightarrow> remote_buildpack_info run"
    and covers :: "descriptive_info set \<Rightarrow> buildpack_ref \<Rightarrow> bool"
  assumes fetch_own: "fetch r = Some (Inr i) \<Longrightarrow> rbi_info i \<in> bl_info ` set (rbi_layers i)"
    and fetch_closed: "fetch r = Some (Inr i) \<Longrightarrow> l \<in> set (rbi_layers i) \<Longrightarrow>
        q \<in> set (order_refs (bli_order (bl_layer_info l))) \<Longrightarrow> covers (bl_info ` set (rbi_layers i)) q"
    and covers_mono: "covers A q \<Longrightarrow> A \<subseteq> B \<Longrightarrow> covers B q"

interpretation fetcher: buildpack_fetcher "resolve_and_fetch K R" "names_buildpack (cb_lib K) R" for K R
proof unfold_locales
  fix r i
  assume "resolve_and_fetch K R r = Some (Inr i)"
  then obtain b where b: "fetch_buildpack K R b = Some (Inr i)"
    by (auto simp: resolve_and_fetch_def bind_run_eq_Inr)
  then show "rbi_info i \<in> bl_info ` set (rbi_layers i)" using fetch_buildpack_closed by blast
  fix l q
  assume "l \<in> set (rbi_layers i)" "q \<in> set (order_refs (bli_order (bl_layer_info l)))"
  with fetch_buildpack_closed [OF b] show "names_buildpack (cb_lib K) R (bl_info ` set (rbi_layers i)) q"
    by (auto simp: closed_layers_def intro: provides_names)
next
  fix A q B
  assume "names_buildpack (cb_lib K) R A q" "A \<subseteq> B"
  then show "names_buildpack (cb_lib K) R B q" unfolding names_buildpack_def by blast
qed

end
