(* ===== verification/Builder_Image.thy ===== *)
theory Builder_Image
  imports Buildpack_Fetcher "HOL-Library.AList" "HOL-Library.List_Lexorder" "HOL-Library.Char_ord"
begin

text \<open>
  \<open>pkg/cnb/builder_builder.go\<close>, \<open>builder_layers.go\<close> and \<open>buildpack_validation.go\<close>: the image of a
  builder, put together from a stack, a lifecycle and the layers of its buildpacks.
\<close>

section \<open>Validation\<close>

definition present :: "string list \<Rightarrow> string \<Rightarrow> bool" where
  "present haystack needle \<longleftrightarrow> needle \<in> set haystack"

text \<open>\<open>strings.SplitN(needle, ":", 2)[1]\<close>, called on strings with a colon only.\<close>

definition stage_removed :: "string \<Rightarrow> string" where
  "stage_removed needle = tl (dropWhile (\<lambda>c. c \<noteq> CHR '':'') needle)"

definition mixin_present :: "string list \<Rightarrow> string \<Rightarrow> bool \<Rightarrow> bool" where
  "mixin_present mixins mixin relaxed =
     (if \<not> relaxed then present mixins mixin
      else if has_prefix mixin ''build:'' \<or> has_prefix mixin ''run:''
      then present mixins mixin \<or> present mixins (stage_removed mixin)
      else present mixins mixin \<or> present mixins (''build:'' @ mixin) \<and> present mixins (''run:'' @ mixin))"

definition validate_required_mixins :: "string list \<Rightarrow> string list \<Rightarrow> bool \<Rightarrow> unit res" where
  "validate_required_mixins provided required relaxed =
     (let missing = filter (\<lambda>m. \<not> mixin_present provided m relaxed) required
      in if length missing = 0 then Inr ()
         else Inl (Failed Plain (''stack missing mixin(s): '' @ join '', '' missing)))"

definition is_anystack :: "lib \<Rightarrow> string \<Rightarrow> semver \<Rightarrow> bool" where
  "is_anystack L stack version \<longleftrightarrow> stack = ''*'' \<and> \<not> lib_semver_less L version (must_parse L ''0.5'')"

fun supports_stacks :: "lib \<Rightarrow> string \<Rightarrow> string \<Rightarrow> string list \<Rightarrow> bool \<Rightarrow> buildpack_stack list \<Rightarrow> unit res" where
  "supports_stacks L api i mixins relaxed [] = Inl (Failed Plain (''stack '' @ i @ '' is not supported''))"
| "supports_stacks L api i mixins relaxed (s # ss) =
     bind_res (lib_semver_new L api) (\<lambda>version.
       if bps_id s = i \<or> is_anystack L (bps_id s) version
       then validate_required_mixins mixins (bps_mixins s) relaxed
       else supports_stacks L api i mixins relaxed ss)"

definition supports :: "lib \<Rightarrow> buildpack_layer_info \<Rightarrow> string list \<Rightarrow> string \<Rightarrow> string list \<Rightarrow> bool \<Rightarrow> unit res" where
  "supports L bl apis i mixins relaxed =
     (if bli_order bl \<noteq> [] then Inr ()
      else if \<not> present apis (bli_api bl)
      then Inl (Failed Plain (''unsupported buildpack api: '' @ bli_api bl @ '', expecting: '' @ join '', '' apis))
      else if bli_stacks bl = [] then Inr ()
      else supports_stacks L (bli_api bl) i mixins relaxed (bli_stacks bl))"

section \<open>Images\<close>

record lifecycle_metadata =
  lm_version :: string
  lm_api_buildpack :: string
  lm_api_platform :: string
  lm_buildpack_deprecated :: "string list"
  lm_buildpack_supported :: "string list"
  lm_platform_deprecated :: "string list"
  lm_platform_supported :: "string list"

record oci_image =
  oi_os :: string
  oi_arch :: string
  oi_variant :: string
  oi_layers :: "v1_layer list"
  oi_labels :: str_map
  oi_working_dir :: string

text \<open>\<open>map[id]map[version]BuildpackLayerInfo\<close>\<close>

type_synonym layer_metadata = "string \<rightharpoonup> (string \<rightharpoonup> buildpack_layer_info)"

definition layer_metadata_add :: "layer_metadata \<Rightarrow> buildpack_layer \<Rightarrow> layer_metadata" where
  "layer_metadata_add l layer =
     (let i = bp_id (dbi_info (bl_info layer)); v = bp_version (dbi_info (bl_info layer));
          inner = (case l i of None \<Rightarrow> Map.empty | Some m \<Rightarrow> m)
      in l(i \<mapsto> inner(v \<mapsto> bl_layer_info layer)))"

record builder_image_metadata =
  bimd_description :: string
  bimd_run_image :: string
  bimd_lifecycle :: lifecycle_metadata
  bimd_created_by :: string
  bimd_created_version :: string
  bimd_buildpacks :: "descriptive_info list"

record tar_entry =
  te_name :: string
  te_dir :: bool
  te_mode :: int
  te_uid :: int
  te_gid :: int
  te_content :: string

text \<open>
  The libraries around an image: reading a configuration, appending layers and changing the
  configuration may fail; archives, TOML and JSON are written by functions of the libraries. \<open>il_range\<close>
  is the order in which the n-th loop visits the keys of a map, and \<open>il_sort\<close> is \<open>sort.Slice\<close>.
\<close>

record image_lib =
  il_config :: "oci_image \<Rightarrow> unit res"
  il_append :: "v1_layer list \<Rightarrow> oci_image \<Rightarrow> unit res"
  il_mutate :: "oci_image \<Rightarrow> unit res"
  il_tar :: "tar_entry list \<Rightarrow> v1_layer res"
  il_toml_stack :: "string \<Rightarrow> string res"
  il_toml_order :: "(string \<times> string \<times> bool) list list \<Rightarrow> string res"
  il_json_order :: "order_entry list \<Rightarrow> string res"
  il_json_layers :: "layer_metadata \<Rightarrow> string res"
  il_json_apis :: "lifecycle_metadata \<Rightarrow> string res"
  il_json_metadata :: "builder_image_metadata \<Rightarrow> string res"
  il_range :: "nat \<Rightarrow> descriptive_info list \<Rightarrow> descriptive_info list"
  il_sort :: "(descriptive_info \<Rightarrow> descriptive_info \<Rightarrow> bool) \<Rightarrow> descriptive_info list \<Rightarrow> descriptive_info list"

definition set_string_label :: "image_lib \<Rightarrow> string \<Rightarrow> string \<Rightarrow> oci_image \<Rightarrow> oci_image res" where
  "set_string_label IL k v img =
     bind_res (il_config IL img) (\<lambda>_.
     (let img' = img\<lparr>oi_labels := (oi_labels img)(k \<mapsto> v)\<rparr>
      in bind_res (il_mutate IL img') (\<lambda>_. Inr img')))"

definition set_string_labels :: "image_lib \<Rightarrow> str_map \<Rightarrow> oci_image \<Rightarrow> oci_image res" where
  "set_string_labels IL labels img =
     bind_res (il_config IL img) (\<lambda>_.
     (let img' = img\<lparr>oi_labels := oi_labels img ++ labels\<rparr>
      in bind_res (il_mutate IL img') (\<lambda>_. Inr img')))"

text \<open>The values are marshalled one by one; a value that cannot be marshalled is an error.\<close>

fun marshal_labels :: "(string \<times> string res) list \<Rightarrow> str_map \<Rightarrow> str_map res" where
  "marshal_labels [] m = Inr m"
| "marshal_labels ((k, r) # kvs) m =
     bind_res (map_err (wrap_err (''marshalling data to JSON for label '' @ k)) r) (\<lambda>v. marshal_labels kvs (m(k \<mapsto> v)))"

definition set_labels :: "image_lib \<Rightarrow> (string \<times> string res) list \<Rightarrow> oci_image \<Rightarrow> oci_image res" where
  "set_labels IL kvs img =
     bind_res (il_config IL img) (\<lambda>_.
     bind_res (marshal_labels kvs (oi_labels img)) (\<lambda>m.
     (let img' = img\<lparr>oi_labels := m\<rparr> in bind_res (il_mutate IL img') (\<lambda>_. Inr img'))))"

definition set_working_dir :: "image_lib \<Rightarrow> string \<Rightarrow> oci_image \<Rightarrow> oci_image res" where
  "set_working_dir IL dir img =
     bind_res (il_config IL img) (\<lambda>_.
     (let img' = img\<lparr>oi_working_dir := dir\<rparr> in bind_res (il_mutate IL img') (\<lambda>_. Inr img')))"

section \<open>The builder of builders\<close>

definition workspaceDir :: string where "workspaceDir = ''/workspace''"
definition layersDir :: string where "layersDir = ''/layers''"
definition cnbDir :: string where "cnbDir = ''/cnb''"
definition platformDir :: string where "platformDir = ''/platform''"
definition platformEnvDir :: string where "platformEnvDir = platformDir @ ''/env''"
definition buildpacksDir :: string where "buildpacksDir = ''/cnb/buildpacks''"
definition orderTomlPath :: string where "orderTomlPath = ''/cnb/order.toml''"
definition stackTomlPath :: string where "stackTomlPath = ''/cnb/stack.toml''"
definition relaxedMixinMinPlatformAPI :: string where "relaxedMixinMinPlatformAPI = ''0.7''"
definition supportedPlatformApis :: "string list" where
  "supportedPlatformApis = [''0.3'', ''0.4'', ''0.5'', ''0.6'', ''0.7'', ''0.8'']"

definition buildpackOrderLabel :: string where "buildpackOrderLabel = ''io.buildpacks.buildpack.order''"
definition buildpackLayersLabel :: string where "buildpackLayersLabel = ''io.buildpacks.buildpack.layers''"
definition buildpackMetadataLabel :: string where "buildpackMetadataLabel = ''io.buildpacks.builder.metadata''"
definition lifecycleVersionLabel :: string where "lifecycleVersionLabel = ''io.buildpacks.lifecycle.version''"
definition lifecycleApisLabel :: string where "lifecycleApisLabel = ''io.buildpacks.lifecycle.apis''"

lemmas label_names = buildpackOrderLabel_def buildpackLayersLabel_def buildpackMetadataLabel_def
  lifecycleVersionLabel_def lifecycleApisLabel_def

record builder_blder =
  bb_base_image :: oci_image
  bb_lifecycle_layer :: v1_layer
  bb_lifecycle_metadata :: lifecycle_metadata
  bb_stack_id :: string
  bb_order :: "order_entry list"
  bb_buildpack_layers :: "(descriptive_info \<times> buildpack_layer) list"
  bb_cnb_user_id :: int
  bb_cnb_group_id :: int
  bb_kpack_version :: string
  bb_run_image :: string
  bb_mixins :: "string list"
  bb_os :: string
  bb_arch :: string
  bb_arch_variant :: string
  bb_additional_labels :: str_map

definition add_stack :: "image_lib \<Rightarrow> oci_image \<Rightarrow> cluster_stack \<Rightarrow> builder_blder \<Rightarrow> builder_blder res" where
  "add_stack IL base stack bb =
     bind_res (il_config IL base) (\<lambda>_.
     if oi_os base = ''windows'' then Inl (Failed Plain ''windows base images are not supported'')
     else Inr (bb\<lparr>bb_os := oi_os base, bb_arch := oi_arch base, bb_arch_variant := oi_variant base,
        bb_base_image := base, bb_stack_id := rcs_id (stk_resolved stack), bb_mixins := rcs_mixins (stk_resolved stack),
        bb_cnb_user_id := rcs_user_id (stk_resolved stack), bb_cnb_group_id := rcs_group_id (stk_resolved stack)\<rparr>))"

definition new_builder_blder :: "string \<Rightarrow> builder_blder" where
  "new_builder_blder kpack_version =
     \<lparr>bb_base_image = \<lparr>oi_os = '''', oi_arch = '''', oi_variant = '''', oi_layers = [], oi_labels = Map.empty, oi_working_dir = ''''\<rparr>,
      bb_lifecycle_layer = \<lparr>vl_diff_id = Inl (Panic ''invalid memory address or nil pointer dereference''), vl_size = 0,
        vl_source = TarLayer ''''\<rparr>,
      bb_lifecycle_metadata = \<lparr>lm_version = '''', lm_api_buildpack = '''', lm_api_platform = '''', lm_buildpack_deprecated = [],
        lm_buildpack_supported = [], lm_platform_deprecated = [], lm_platform_supported = []\<rparr>,
      bb_stack_id = '''', bb_order = [], bb_buildpack_layers = [], bb_cnb_user_id = 0, bb_cnb_group_id = 0,
      bb_kpack_version = kpack_version, bb_run_image = '''', bb_mixins = [], bb_os = '''', bb_arch = '''',
      bb_arch_variant = '''', bb_additional_labels = Map.empty\<rparr>"

definition add_run_image :: "string \<Rightarrow> builder_blder \<Rightarrow> builder_blder" where
  "add_run_image run_image bb = bb\<lparr>bb_run_image := run_image\<rparr>"

definition add_additional_labels :: "str_map \<Rightarrow> builder_blder \<Rightarrow> builder_blder" where
  "add_additional_labels labels bb = bb\<lparr>bb_additional_labels := labels\<rparr>"

definition add_lifecycle :: "v1_layer \<Rightarrow> lifecycle_metadata \<Rightarrow> builder_blder \<Rightarrow> builder_blder" where
  "add_lifecycle layer md bb = bb\<lparr>bb_lifecycle_layer := layer, bb_lifecycle_metadata := md\<rparr>"

definition put_layer :: "buildpack_layer \<Rightarrow> (descriptive_info \<times> buildpack_layer) list \<Rightarrow>
    (descriptive_info \<times> buildpack_layer) list" where
  "put_layer l m = AList.update (bl_info l) l m"

definition add_group :: "remote_buildpack_ref list \<Rightarrow> builder_blder \<Rightarrow> builder_blder" where
  "add_group buildpacks bb =
     bb\<lparr>bb_buildpack_layers := fold (\<lambda>b m. fold put_layer (rbr_layers b) m) buildpacks (bb_buildpack_layers bb),
        bb_order := bb_order bb @ [OrderEntry (map remote_buildpack_ref_ref buildpacks)]\<rparr>"

text \<open>\<open>String()\<close> of a key is its id and version, without the homepage.\<close>

definition info_string :: "descriptive_info \<Rightarrow> string" where
  "info_string i = buildpack_info_string (dbi_info i)"

definition bigger_first :: "(descriptive_info \<Rightarrow> int) \<Rightarrow> descriptive_info \<Rightarrow> descriptive_info \<Rightarrow> bool" where
  "bigger_first sizes i j =
     (if sizes i = sizes j then info_string i > info_string j else sizes i > sizes j)"

definition layer_of :: "(descriptive_info \<times> buildpack_layer) list \<Rightarrow> descriptive_info \<Rightarrow> buildpack_layer" where
  "layer_of m k = the (map_of m k)"

definition size_of :: "(descriptive_info \<times> buildpack_layer) list \<Rightarrow> descriptive_info \<Rightarrow> int" where
  "size_of m k = (case map_of m k of Some l \<Rightarrow> vl_size (bl_layer l) | None \<Rightarrow> 0)"

definition deterministic_sort_by_size :: "image_lib \<Rightarrow> nat \<Rightarrow> (descriptive_info \<times> buildpack_layer) list \<Rightarrow>
    descriptive_info list" where
  "deterministic_sort_by_size IL n m = il_sort IL (bigger_first (size_of m)) (il_range IL n (map fst m))"

definition validate_platform_apis :: "string list \<Rightarrow> unit res" where
  "validate_platform_apis apis =
     (if list_ex (present apis) supportedPlatformApis then Inr ()
      else Inl (Failed Plain (''unsupported platform apis in kpack lifecycle: '' @ join '', '' apis @
             '', expecting one of: '' @ join '', '' supportedPlatformApis)))"

text \<open>\<open>semver.MustParse\<close> panics on what \<open>NewVersion\<close> rejects; the loop stops at the first API that is high enough.\<close>

fun relaxed_mixin_contract :: "lib \<Rightarrow> string list \<Rightarrow> bool res" where
  "relaxed_mixin_contract L [] = Inr False"
| "relaxed_mixin_contract L (api # apis) =
     (case lib_semver_new L api of
        Inl e \<Rightarrow> Inl (Panic (err_text e))
      | Inr v \<Rightarrow> (if \<not> lib_semver_less L v (must_parse L relaxedMixinMinPlatformAPI) then Inr True
                  else relaxed_mixin_contract L apis))"

fun validate_buildpacks :: "lib \<Rightarrow> builder_blder \<Rightarrow> string list \<Rightarrow> string list \<Rightarrow> descriptive_info list \<Rightarrow> unit res" where
  "validate_buildpacks L bb platform_apis buildpack_apis [] = Inr ()"
| "validate_buildpacks L bb platform_apis buildpack_apis (i # is) =
     bind_res (relaxed_mixin_contract L platform_apis) (\<lambda>relaxed.
     bind_res (map_err (wrap_err (''validating buildpack '' @ info_string i))
        (supports L (bl_layer_info (layer_of (bb_buildpack_layers bb) i)) buildpack_apis
           (bb_stack_id bb) (bb_mixins bb) relaxed))
     (\<lambda>_. validate_buildpacks L bb platform_apis buildpack_apis is))"

definition validate_builder :: "lib \<Rightarrow> builder_blder \<Rightarrow> descriptive_info list \<Rightarrow> unit res" where
  "validate_builder L bb sorted_buildpacks =
     (let md = bb_lifecycle_metadata bb;
          platform_apis = lm_platform_deprecated md @ lm_platform_supported md;
          buildpack_apis = lm_buildpack_deprecated md @ lm_buildpack_supported md
      in bind_res (validate_platform_apis platform_apis)
           (\<lambda>_. validate_buildpacks L bb platform_apis buildpack_apis sorted_buildpacks))"

definition kpack_owned_dir :: "builder_blder \<Rightarrow> string \<Rightarrow> tar_entry" where
  "kpack_owned_dir bb path = \<lparr>te_name = path, te_dir = True, te_mode = 493, te_uid = bb_cnb_user_id bb,
     te_gid = bb_cnb_group_id bb, te_content = ''''\<rparr>"

definition root_owned_dir :: "string \<Rightarrow> tar_entry" where
  "root_owned_dir path = \<lparr>te_name = path, te_dir = True, te_mode = 493, te_uid = 0, te_gid = 0, te_content = ''''\<rparr>"

definition default_dirs_layer :: "image_lib \<Rightarrow> builder_blder \<Rightarrow> v1_layer res" where
  "default_dirs_layer IL bb = il_tar IL
     [kpack_owned_dir bb workspaceDir, kpack_owned_dir bb layersDir, root_owned_dir cnbDir,
      root_owned_dir buildpacksDir, root_owned_dir platformDir, root_owned_dir platformEnvDir]"

definition single_file_layer :: "image_lib \<Rightarrow> string \<Rightarrow> string \<Rightarrow> v1_layer res" where
  "single_file_layer IL file contents = il_tar IL
     [\<lparr>te_name = file, te_dir = False, te_mode = 420, te_uid = 0, te_gid = 0, te_content = contents\<rparr>]"

definition stack_layer :: "image_lib \<Rightarrow> builder_blder \<Rightarrow> v1_layer res" where
  "stack_layer IL bb = bind_res (il_toml_stack IL (bb_run_image bb)) (single_file_layer IL stackTomlPath)"

definition order_table :: "order_entry list \<Rightarrow> (string \<times> string \<times> bool) list list" where
  "order_table order = map (\<lambda>o_e. map (\<lambda>r. (bp_id (bpref_info r), bp_version (bpref_info r), bpref_optional r)) (order_group o_e)) order"

definition order_layer :: "image_lib \<Rightarrow> builder_blder \<Rightarrow> v1_layer res" where
  "order_layer IL bb = bind_res (il_toml_order IL (order_table (bb_order bb))) (single_file_layer IL orderTomlPath)"

text \<open>Layers whose \<open>DiffID\<close> cannot be read are all kept.\<close>

fun deduplicate_layers_from :: "string list \<Rightarrow> v1_layer list \<Rightarrow> v1_layer list" where
  "deduplicate_layers_from seen [] = []"
| "deduplicate_layers_from seen (l # ls) =
     (case vl_diff_id l of
        Inl e \<Rightarrow> l # deduplicate_layers_from seen ls
      | Inr d \<Rightarrow> (if d \<in> set seen then deduplicate_layers_from seen ls
                  else l # deduplicate_layers_from (d # seen) ls))"

definition deduplicate_layers :: "v1_layer list \<Rightarrow> v1_layer list" where
  "deduplicate_layers ls = deduplicate_layers_from [] ls"

definition image_labels :: "image_lib \<Rightarrow> builder_blder \<Rightarrow> descriptive_info list \<Rightarrow> (string \<times> string res) list" where
  "image_labels IL bb buildpacks =
     (let layer_md = foldl layer_metadata_add Map.empty (map (layer_of (bb_buildpack_layers bb)) buildpacks)
      in [(buildpackOrderLabel, il_json_order IL (bb_order bb)),
          (buildpackLayersLabel, il_json_layers IL layer_md),
          (lifecycleApisLabel, il_json_apis IL (bb_lifecycle_metadata bb)),
          (buildpackMetadataLabel, il_json_metadata IL
             \<lparr>bimd_description = ''Custom Builder built with kpack'', bimd_run_image = bb_run_image bb,
              bimd_lifecycle = bb_lifecycle_metadata bb, bimd_created_by = ''kpack Builder'',
              bimd_created_version = bb_kpack_version bb, bimd_buildpacks = buildpacks\<rparr>)])"

definition writeable_image :: "lib \<Rightarrow> image_lib \<Rightarrow> builder_blder \<Rightarrow> oci_image res" where
  "writeable_image L IL bb =
     (let buildpacks = deterministic_sort_by_size IL 0 (bb_buildpack_layers bb);
          buildpack_layers = map (\<lambda>k. bl_layer (layer_of (bb_buildpack_layers bb) k)) buildpacks
      in bind_res (validate_builder L bb buildpacks) (\<lambda>_.
         bind_res (default_dirs_layer IL bb) (\<lambda>default_layer.
         bind_res (stack_layer IL bb) (\<lambda>stack_l.
         bind_res (order_layer IL bb) (\<lambda>order_l.
         (let ls = deduplicate_layers ([default_layer, bb_lifecycle_layer bb] @ buildpack_layers @ [stack_l, order_l]);
              img = (bb_base_image bb)\<lparr>oi_layers := oi_layers (bb_base_image bb) @ ls\<rparr>
          in bind_res (il_append IL ls (bb_base_image bb)) (\<lambda>_.
             bind_res (set_working_dir IL layersDir img) (\<lambda>img1.
             bind_res (set_string_label IL lifecycleVersionLabel (lm_version (bb_lifecycle_metadata bb)) img1) (\<lambda>img2.
             bind_res (set_string_labels IL (bb_additional_labels bb) img2) (\<lambda>img3.
             set_labels IL (image_labels IL bb buildpacks) img3))))))))))"

section \<open>The order of the layers\<close>

text \<open>The contract of \<open>sort.Slice\<close>, and stable sorting as an instance of it.\<close>

locale slice_sort =
  fixes srt :: "('a \<Rightarrow> 'a \<Rightarrow> bool) \<Rightarrow> 'a list \<Rightarrow> 'a list"
  assumes srt_mset: "mset (srt lt xs) = mset xs"
    and srt_sorted: "weak_order lt \<Longrightarrow> sorted_wrt (\<lambda>x y. \<not> lt y x) (srt lt xs)"
begin

lemma srt_set: "set (srt lt xs) = set xs"
  by (metis set_mset_mset srt_mset)

lemma srt_distinct: "distinct (srt lt xs) = distinct xs"
  by (metis mset_eq_imp_distinct_iff srt_mset)

end

lemma mset_stable_insert: "mset (stable_insert lt x ys) = add_mset x (mset ys)"
  by (induction ys) auto

lemma mset_stable_sort: "mset (stable_sort lt xs) = mset xs"
  by (induction xs) (simp_all add: stable_sort_def mset_stable_insert)

lemma sorted_stable_insert:
  assumes "weak_order lt"
  shows "sorted_wrt (\<lambda>x y. \<not> lt y x) ys \<Longrightarrow> sorted_wrt (\<lambda>x y. \<not> lt y x) (stable_insert lt x ys)"
proof (induction ys)
  case (Cons y ys)
  show ?case
  proof (cases "lt y x")
    case True
    with Cons assms show ?thesis by (auto simp: weak_order_def)
  next
    case False
    with Cons.prems assms have "\<not> lt z x" if "z \<in> set ys" for z
      using that unfolding weak_order_def by (metis sorted_wrt.simps(2))
    with False Cons.prems show ?thesis by simp
  qed
qed simp

lemma sorted_stable_sort: "weak_order lt \<Longrightarrow> sorted_wrt (\<lambda>x y. \<not> lt y x) (stable_sort lt xs)"
  by (induction xs) (simp_all add: stable_sort_def sorted_stable_insert)

interpretation stable: slice_sort stable_sort
  by unfold_locales (rule mset_stable_sort, rule sorted_stable_sort)

lemma sorted_wrt_unique:
  assumes "sorted_wrt P xs" and "sorted_wrt P ys" and "set xs = set ys" and "distinct xs" and "distinct ys"
    and "\<And>a b. a \<in> set xs \<Longrightarrow> b \<in> set xs \<Longrightarrow> P a b \<Longrightarrow> P b a \<Longrightarrow> a = b"
  shows "xs = ys"
  using assms
proof (induction xs arbitrary: ys)
  case (Cons x xs)
  then obtain y zs where ys: "ys = y # zs" by (cases ys) auto
  have "x = y"
  proof (rule ccontr)
    assume "x \<noteq> y"
    then have "x \<in> set zs" "y \<in> set xs" using Cons.prems(3) ys by auto
    then have "P x y" "P y x" using Cons.prems(1,2) ys by auto
    with Cons.prems(6) \<open>y \<in> set xs\<close> \<open>x \<noteq> y\<close> show False by auto
  qed
  moreover from this have "set xs = set zs" using Cons.prems(3-5) ys by auto
  ultimately show ?case using Cons.IH [of zs] Cons.prems ys by simp
qed simp

lemma bigger_first_weak_order: "weak_order (bigger_first sizes)"
  unfolding weak_order_def bigger_first_def by (auto split: if_splits)

definition range_ok :: "(nat \<Rightarrow> 'a list \<Rightarrow> 'a list) \<Rightarrow> bool" where
  "range_ok rng \<longleftrightarrow> (\<forall>n ks. mset (rng n ks) = mset ks)"

lemma deterministic_sort_set:
  assumes "slice_sort (il_sort IL)" and "range_ok (il_range IL)"
  shows "set (deterministic_sort_by_size IL n m) = fst ` set m"
proof -
  have "set (il_range IL n (map fst m)) = set (map fst m)"
    using assms(2) unfolding range_ok_def by (metis set_mset_mset)
  then show ?thesis
    by (simp add: deterministic_sort_by_size_def slice_sort.srt_set [OF assms(1)])
qed

text \<open>
  Neither the order in which Go visits the map nor the sorting algorithm shows in the result, as long
  as no two keys have the same id and version.
\<close>

lemma deterministic_sort_unique:
  assumes "slice_sort (il_sort IL)" and "range_ok (il_range IL)"
    and "slice_sort (il_sort JL)" and "range_ok (il_range JL)"
    and "distinct (map fst m)" and "inj_on info_string (fst ` set m)"
  shows "deterministic_sort_by_size IL n m = deterministic_sort_by_size JL k m"
proof (rule sorted_wrt_unique)
  let ?lt = "bigger_first (size_of m)"
  show "sorted_wrt (\<lambda>x y. \<not> ?lt y x) (deterministic_sort_by_size IL n m)"
    "sorted_wrt (\<lambda>x y. \<not> ?lt y x) (deterministic_sort_by_size JL k m)"
    unfolding deterministic_sort_by_size_def
    using slice_sort.srt_sorted [OF assms(1) bigger_first_weak_order]
      slice_sort.srt_sorted [OF assms(3) bigger_first_weak_order] by blast+
  show "set (deterministic_sort_by_size IL n m) = set (deterministic_sort_by_size JL k m)"
    using deterministic_sort_set assms(1-4) by blast
  have "distinct (rng n (map fst m))" if "range_ok rng" for rng :: "nat \<Rightarrow> descriptive_info list \<Rightarrow> _" and n
    using that assms(5) unfolding range_ok_def by (metis mset_eq_imp_distinct_iff)
  then show "distinct (deterministic_sort_by_size IL n m)" "distinct (deterministic_sort_by_size JL k m)"
    using assms(2,4) by (simp_all add: deterministic_sort_by_size_def
        slice_sort.srt_distinct [OF assms(1)] slice_sort.srt_distinct [OF assms(3)])
next
  fix a b
  assume ab: "a \<in> set (deterministic_sort_by_size IL n m)" "b \<in> set (deterministic_sort_by_size IL n m)"
    and le: "\<not> bigger_first (size_of m) b a" "\<not> bigger_first (size_of m) a b"
  then have "size_of m a = size_of m b" by (auto simp: bigger_first_def split: if_splits)
  with le have "info_string a = info_string b" by (auto simp: bigger_first_def)
  with assms(6) ab deterministic_sort_set [OF assms(1,2)] show "a = b" by (auto dest: inj_onD)
qed

section \<open>What validation ensures\<close>

text \<open>The contract between a stack's mixins and what a buildpack asks for.\<close>

definition provides_mixin :: "string list \<Rightarrow> bool \<Rightarrow> string \<Rightarrow> bool" where
  "provides_mixin mixins relaxed m \<longleftrightarrow>
     m \<in> set mixins \<or>
     relaxed \<and> ((\<exists>x. (m = ''build:'' @ x \<or> m = ''run:'' @ x) \<and> x \<in> set mixins) \<or>
                (\<forall>x. m \<noteq> ''build:'' @ x \<and> m \<noteq> ''run:'' @ x) \<and> ''build:'' @ m \<in> set mixins \<and> ''run:'' @ m \<in> set mixins)"

lemma unique_stage:
  assumes "m = p @ x \<or> m = q @ x" and "\<forall>y. m = p @ y \<or> m = q @ y \<longrightarrow> y = x"
  shows "(\<exists>y. (m = p @ y \<or> m = q @ y) \<and> y \<in> S) \<longleftrightarrow> x \<in> S"
    and "(\<forall>y. m \<noteq> p @ y \<and> m \<noteq> q @ y) \<longleftrightarrow> False"
  using assms by blast+

lemma mixin_present_iff: "mixin_present mixins m relaxed = provides_mixin mixins relaxed m"
proof (cases "has_prefix m ''build:'' \<or> has_prefix m ''run:''")
  case True
  then obtain x where x: "m = ''build:'' @ x \<or> m = ''run:'' @ x"
    unfolding has_prefix_iff by blast
  then have sr: "stage_removed m = x" by (elim disjE) (simp_all add: stage_removed_def)
  from x have uniq: "\<forall>y. m = ''build:'' @ y \<or> m = ''run:'' @ y \<longrightarrow> y = x"
    by (intro allI impI) (elim disjE; simp)
  have "mixin_present mixins m relaxed \<longleftrightarrow> (if \<not> relaxed then m \<in> set mixins else m \<in> set mixins \<or> x \<in> set mixins)"
    unfolding mixin_present_def present_def sr if_P [OF True] by (rule refl)
  moreover have "provides_mixin mixins relaxed m \<longleftrightarrow> m \<in> set mixins \<or> relaxed \<and> (x \<in> set mixins \<or> False)"
    unfolding provides_mixin_def unique_stage [OF x uniq] by (simp only: simp_thms)
  ultimately show ?thesis by simp
next
  case False
  then have no: "(\<forall>x. m \<noteq> ''build:'' @ x \<and> m \<noteq> ''run:'' @ x) = True"
    and no': "(\<exists>x. (m = ''build:'' @ x \<or> m = ''run:'' @ x) \<and> x \<in> set mixins) = False"
    unfolding has_prefix_iff by blast+
  show ?thesis
    unfolding mixin_present_def provides_mixin_def present_def no no' if_not_P [OF False] by (cases relaxed) simp_all
qed

definition stack_fits :: "lib \<Rightarrow> string \<Rightarrow> string \<Rightarrow> string list \<Rightarrow> bool \<Rightarrow> buildpack_stack \<Rightarrow> bool" where
  "stack_fits L api i mixins relaxed s \<longleftrightarrow>
     (bps_id s = i \<or> (\<exists>v. lib_semver_new L api = Inr v \<and> is_anystack L (bps_id s) v)) \<and>
     (\<forall>m \<in> set (bps_mixins s). provides_mixin mixins relaxed m)"

lemma validate_required_mixins_Inr:
  "validate_required_mixins provided required relaxed = Inr u \<longleftrightarrow>
     (\<forall>m \<in> set required. provides_mixin provided relaxed m)"
  by (auto simp: validate_required_mixins_def Let_def mixin_present_iff filter_empty_conv)

lemma supports_stacks_Inr:
  "supports_stacks L api i mixins relaxed ss = Inr u \<Longrightarrow> \<exists>s \<in> set ss. stack_fits L api i mixins relaxed s"
  by (induction ss)
     (auto simp: bind_res_eq_Inr stack_fits_def validate_required_mixins_Inr split: if_splits)

definition buildpack_fits :: "lib \<Rightarrow> buildpack_layer_info \<Rightarrow> string list \<Rightarrow> string \<Rightarrow> string list \<Rightarrow> bool \<Rightarrow> bool" where
  "buildpack_fits L bl apis i mixins relaxed \<longleftrightarrow>
     bli_order bl \<noteq> [] \<or>
     (bli_api bl \<in> set apis \<and>
      (bli_stacks bl = [] \<or> (\<exists>s \<in> set (bli_stacks bl). stack_fits L (bli_api bl) i mixins relaxed s)))"

lemma supports_Inr: "supports L bl apis i mixins relaxed = Inr u \<Longrightarrow> buildpack_fits L bl apis i mixins relaxed"
  by (auto simp: supports_def buildpack_fits_def present_def split: if_splits dest: supports_stacks_Inr)

lemma map_err_eq_Inr: "map_err g r = Inr x \<longleftrightarrow> r = Inr x"
  by (cases r) (auto simp: map_err_def split: goerr.split)

lemma validate_buildpacks_Inr:
  "validate_buildpacks L bb papis bapis is = Inr u \<Longrightarrow> k \<in> set is \<Longrightarrow>
   \<exists>relaxed. relaxed_mixin_contract L papis = Inr relaxed \<and>
     buildpack_fits L (bl_layer_info (layer_of (bb_buildpack_layers bb) k)) bapis (bb_stack_id bb) (bb_mixins bb) relaxed"
  by (induction "is") (auto simp: bind_res_eq_Inr map_err_eq_Inr dest: supports_Inr)

section \<open>What the image holds\<close>

lemma marshal_labels_Inr:
  "marshal_labels kvs m = Inr m' \<Longrightarrow> distinct (map fst kvs) \<Longrightarrow>
   (\<forall>(k, r) \<in> set kvs. \<exists>v. r = Inr v \<and> m' k = Some v) \<and> (\<forall>k. k \<notin> fst ` set kvs \<longrightarrow> m' k = m k)"
proof (induction kvs arbitrary: m)
  case (Cons kv kvs)
  obtain k r where kv: "kv = (k, r)" by (cases kv)
  then obtain v where v: "r = Inr v" "marshal_labels kvs (m(k \<mapsto> v)) = Inr m'"
    using Cons.prems(1) by (auto simp: bind_res_eq_Inr map_err_def split: sum.splits)
  from Cons.IH [OF v(2)] Cons.prems(2) kv v(1) show ?case by fastforce
qed simp

lemma set_label_frames:
  "set_working_dir IL d img = Inr img' \<Longrightarrow> oi_layers img' = oi_layers img \<and> oi_os img' = oi_os img \<and> oi_working_dir img' = d"
  "set_string_label IL k v img = Inr img' \<Longrightarrow>
     oi_layers img' = oi_layers img \<and> oi_os img' = oi_os img \<and> oi_working_dir img' = oi_working_dir img"
  "set_string_labels IL ls img = Inr img' \<Longrightarrow>
     oi_layers img' = oi_layers img \<and> oi_os img' = oi_os img \<and> oi_working_dir img' = oi_working_dir img"
  "set_labels IL kvs img = Inr img' \<Longrightarrow>
     oi_layers img' = oi_layers img \<and> oi_os img' = oi_os img \<and> oi_working_dir img' = oi_working_dir img"
  by (auto simp: set_working_dir_def set_string_label_def set_string_labels_def set_labels_def Let_def bind_res_eq_Inr)

lemma set_labels_Inr:
  assumes "set_labels IL kvs img = Inr img'" and "distinct (map fst kvs)" and "(k, r) \<in> set kvs"
  shows "\<exists>v. r = Inr v \<and> oi_labels img' k = Some v"
proof -
  obtain m where "marshal_labels kvs (oi_labels img) = Inr m" "oi_labels img' = m"
    using assms(1) by (auto simp: set_labels_def Let_def bind_res_eq_Inr)
  with marshal_labels_Inr [OF this(1) assms(2)] assms(3) show ?thesis by auto
qed

text \<open>The layers of a builder, from the bottom: the stack's, then those that kpack adds, each once.\<close>

lemma writeable_image_steps:
  assumes "writeable_image L IL bb = Inr img"
  defines "keys \<equiv> deterministic_sort_by_size IL 0 (bb_buildpack_layers bb)"
  shows "validate_builder L bb keys = Inr ()"
    and "\<exists>img3. set_labels IL (image_labels IL bb keys) img3 = Inr img"
    and "\<exists>dl sl ol. default_dirs_layer IL bb = Inr dl \<and> stack_layer IL bb = Inr sl \<and> order_layer IL bb = Inr ol \<and>
      oi_layers img = oi_layers (bb_base_image bb) @ deduplicate_layers ([dl, bb_lifecycle_layer bb] @
        map (\<lambda>k. bl_layer (layer_of (bb_buildpack_layers bb) k)) keys @ [sl, ol])"
    and "oi_working_dir img = layersDir \<and> oi_os img = oi_os (bb_base_image bb)"
proof -
  let ?ls = "\<lambda>dl sl ol. deduplicate_layers ([dl, bb_lifecycle_layer bb] @
        map (\<lambda>k. bl_layer (layer_of (bb_buildpack_layers bb) k)) keys @ [sl, ol])"
  obtain dl sl ol img1 img2 img3 where valid: "validate_builder L bb keys = Inr ()"
    and layers: "default_dirs_layer IL bb = Inr dl" "stack_layer IL bb = Inr sl" "order_layer IL bb = Inr ol"
    and img1: "set_working_dir IL layersDir ((bb_base_image bb)\<lparr>oi_layers := oi_layers (bb_base_image bb) @ ?ls dl sl ol\<rparr>)
        = Inr img1"
    and img2: "set_string_label IL lifecycleVersionLabel (lm_version (bb_lifecycle_metadata bb)) img1 = Inr img2"
    and img3: "set_string_labels IL (bb_additional_labels bb) img2 = Inr img3"
    and img: "set_labels IL (image_labels IL bb keys) img3 = Inr img"
    using assms(1) unfolding writeable_image_def keys_def [symmetric] Let_def bind_res_eq_Inr by auto
  show "validate_builder L bb keys = Inr ()" by (rule valid)
  show "\<exists>img3. set_labels IL (image_labels IL bb keys) img3 = Inr img" using img by blast
  show "oi_working_dir img = layersDir \<and> oi_os img = oi_os (bb_base_image bb)"
    using set_label_frames(1) [OF img1] set_label_frames(2) [OF img2] set_label_frames(3) [OF img3]
      set_label_frames(4) [OF img] by simp
  have "oi_layers img = oi_layers (bb_base_image bb) @ ?ls dl sl ol"
    using set_label_frames(1) [OF img1] set_label_frames(2) [OF img2] set_label_frames(3) [OF img3]
      set_label_frames(4) [OF img] by simp
  with layers show "\<exists>dl sl ol. default_dirs_layer IL bb = Inr dl \<and> stack_layer IL bb = Inr sl \<and>
      order_layer IL bb = Inr ol \<and> oi_layers img = oi_layers (bb_base_image bb) @ ?ls dl sl ol" by blast
qed

lemma image_labels_distinct: "distinct (map fst (image_labels IL bb keys))"
  by (simp add: image_labels_def label_names Let_def)

text \<open>Deduplication keeps one layer for each readable \<open>DiffID\<close> and loses none.\<close>

definition diff_ids :: "v1_layer list \<Rightarrow> string list" where
  "diff_ids ls = List.map_filter (\<lambda>l. case vl_diff_id l of Inl _ \<Rightarrow> None | Inr d \<Rightarrow> Some d) ls"

lemma diff_ids_simps [simp]:
  "diff_ids [] = []"
  "diff_ids (l # ls) = (case vl_diff_id l of Inl _ \<Rightarrow> diff_ids ls | Inr d \<Rightarrow> d # diff_ids ls)"
  by (simp_all add: diff_ids_def map_filter_simps split: sum.split)

lemma deduplicate_from_facts:
  "distinct (diff_ids (deduplicate_layers_from seen ls)) \<and>
   set (diff_ids (deduplicate_layers_from seen ls)) = set (diff_ids ls) - set seen"
  by (induction seen ls rule: deduplicate_layers_from.induct) (auto split: sum.splits)

lemma deduplicate_layers_facts:
  "distinct (diff_ids (deduplicate_layers ls))" "set (diff_ids (deduplicate_layers ls)) = set (diff_ids ls)"
  using deduplicate_from_facts [of "[]" ls] by (simp_all add: deduplicate_layers_def)

subsection \<open>The layer metadata\<close>

lemma layer_metadata_add_lookup:
  "\<exists>inner. layer_metadata_add md l i = Some inner \<and> (\<exists>bl. inner v = Some bl)"
  if "i = bp_id (dbi_info (bl_info l)) \<and> v = bp_version (dbi_info (bl_info l)) \<or>
      (\<exists>inner bl. md i = Some inner \<and> inner v = Some bl)"
  using that by (auto simp: layer_metadata_add_def Let_def split: option.split)

lemma foldl_layer_metadata:
  "(\<exists>l \<in> set ls. i = bp_id (dbi_info (bl_info l)) \<and> v = bp_version (dbi_info (bl_info l))) \<or>
   (\<exists>inner bl. md i = Some inner \<and> inner v = Some bl) \<Longrightarrow>
   \<exists>inner bl. foldl layer_metadata_add md ls i = Some inner \<and> inner v = Some bl"
proof (induction ls arbitrary: md)
  case (Cons l ls)
  show ?case
  proof (cases "\<exists>l \<in> set ls. i = bp_id (dbi_info (bl_info l)) \<and> v = bp_version (dbi_info (bl_info l))")
    case True
    then show ?thesis using Cons.IH by simp
  next
    case False
    then have "\<exists>inner bl. layer_metadata_add md l i = Some inner \<and> inner v = Some bl"
      using Cons.prems layer_metadata_add_lookup [of i l v md] by auto
    then show ?thesis using Cons.IH by simp
  qed
qed simp

subsection \<open>Groups\<close>

definition layers_wf :: "(descriptive_info \<times> buildpack_layer) list \<Rightarrow> bool" where
  "layers_wf m \<longleftrightarrow> distinct (map fst m) \<and> (\<forall>(k, l) \<in> set m. bl_info l = k)"

lemma in_put_layer: "(k, x) \<in> set (put_layer l m) \<Longrightarrow> (k, x) \<in> set m \<or> (k = bl_info l \<and> x = l)"
  unfolding put_layer_def by (induction m) (auto split: if_splits)

lemma put_layer_facts:
  "layers_wf m \<Longrightarrow> layers_wf (put_layer l m)"
  "fst ` set (put_layer l m) = insert (bl_info l) (fst ` set m)"
proof -
  show "fst ` set (put_layer l m) = insert (bl_info l) (fst ` set m)"
    by (simp add: put_layer_def dom_update)
  assume "layers_wf m"
  then show "layers_wf (put_layer l m)"
    unfolding layers_wf_def using in_put_layer [of _ _ l m]
    by (fastforce simp: put_layer_def distinct_update simp del: AList.update.simps)
qed

lemma fold_put_layer:
  "fst ` set (fold put_layer ls m) = bl_info ` set ls \<union> fst ` set m"
  "layers_wf m \<Longrightarrow> layers_wf (fold put_layer ls m)"
  "snd ` set (fold put_layer ls m) \<subseteq> set ls \<union> snd ` set m"
proof -
  show "fst ` set (fold put_layer ls m) = bl_info ` set ls \<union> fst ` set m"
    by (induction ls arbitrary: m) (auto simp: put_layer_facts)
  show "layers_wf m \<Longrightarrow> layers_wf (fold put_layer ls m)"
    by (induction ls arbitrary: m) (simp_all add: put_layer_facts)
  show "snd ` set (fold put_layer ls m) \<subseteq> set ls \<union> snd ` set m"
  proof (induction ls arbitrary: m)
    case (Cons l ls)
    have "snd ` set (put_layer l m) \<subseteq> insert l (snd ` set m)" using in_put_layer by fastforce
    with Cons [of "put_layer l m"] show ?case by auto
  qed simp
qed

definition group_layers :: "remote_buildpack_ref list \<Rightarrow> buildpack_layer list" where
  "group_layers bs = concat (map rbr_layers bs)"

lemma fold_group_layers:
  "fold (\<lambda>b m. fold put_layer (rbr_layers b) m) bs m = fold put_layer (group_layers bs) m"
  by (induction bs arbitrary: m) (simp_all add: group_layers_def)

lemma add_group_facts:
  "layers_wf (bb_buildpack_layers bb) \<Longrightarrow> layers_wf (bb_buildpack_layers (add_group bs bb))"
  "fst ` set (bb_buildpack_layers (add_group bs bb)) =
     bl_info ` set (group_layers bs) \<union> fst ` set (bb_buildpack_layers bb)"
  "snd ` set (bb_buildpack_layers (add_group bs bb)) \<subseteq>
     set (group_layers bs) \<union> snd ` set (bb_buildpack_layers bb)"
  "bb_order (add_group bs bb) = bb_order bb @ [OrderEntry (map remote_buildpack_ref_ref bs)]"
  by (simp_all add: add_group_def fold_group_layers fold_put_layer)

lemma layer_of_wf: "layers_wf m \<Longrightarrow> k \<in> fst ` set m \<Longrightarrow> bl_info (layer_of m k) = k \<and> layer_of m k \<in> snd ` set m"
  by (force simp: layer_of_def layers_wf_def)

text \<open>The label with the layers of the buildpacks has an entry for each of them.\<close>

lemma layer_metadata_complete:
  assumes "layers_wf m" and "k \<in> set keys" and "set keys \<subseteq> fst ` set m"
  shows "\<exists>inner bl. foldl layer_metadata_add Map.empty (map (layer_of m) keys) (bp_id (dbi_info k)) = Some inner \<and>
     inner (bp_version (dbi_info k)) = Some bl"
proof (rule foldl_layer_metadata, rule disjI1)
  have "bl_info (layer_of m k) = k" using layer_of_wf [OF assms(1)] assms(2,3) by blast
  then show "\<exists>l \<in> set (map (layer_of m) keys). bp_id (dbi_info k) = bp_id (dbi_info (bl_info l)) \<and>
      bp_version (dbi_info k) = bp_version (dbi_info (bl_info l))"
    using assms(2) by (intro bexI [of _ "layer_of m k"]) auto
qed

end
