(* ===== verification/Create_Builder.thy ===== *)
theory Create_Builder
  imports Builder_Image
begin

text \<open>
  \<open>pkg/cnb/create_builder.go\<close>: the image of a builder is made of images fetched from the registry and
  of the buildpacks its order names, then saved and signed. The registry and the signer answer through
  the environment; fetching a buildpack may not end, so the whole creation is a run.
\<close>

section \<open>Effects of runs that may not end\<close>

type_synonym ('e, 'a) iorun = "'e list \<Rightarrow> ('a res \<times> 'e list) option"

definition run_io :: "('e, 'a) io \<Rightarrow> ('e, 'a) iorun" where
  "run_io m = (\<lambda>h. Some (m h))"

definition pure_run :: "'a run \<Rightarrow> ('e, 'a) iorun" where
  "pure_run r = (\<lambda>h. map_option (\<lambda>x. (x, h)) r)"

definition bind_ior :: "('e, 'a) iorun \<Rightarrow> ('a \<Rightarrow> ('e, 'b) iorun) \<Rightarrow> ('e, 'b) iorun" where
  "bind_ior m f = (\<lambda>h. case m h of
     None \<Rightarrow> None
   | Some (Inl e, h') \<Rightarrow> Some (Inl e, h')
   | Some (Inr x, h') \<Rightarrow> f x h')"

lemma bind_ior_eq_Inr:
  "bind_ior m f h = Some (Inr y, h'') \<longleftrightarrow> (\<exists>x h'. m h = Some (Inr x, h') \<and> f x h' = Some (Inr y, h''))"
  by (auto simp: bind_ior_def split: option.splits sum.splits)

lemma run_io_eq: "run_io m h = Some (r, h') \<longleftrightarrow> m h = (r, h')"
  by (simp add: run_io_def)

lemma pure_run_eq: "pure_run q h = Some (r, h') \<longleftrightarrow> q = Some r \<and> h' = h"
  by (cases q) (auto simp: pure_run_def)

text \<open>Every event a run adds satisfies \<open>P\<close>, whether it ends with a result or with an error.\<close>

definition emits_run :: "('e \<Rightarrow> bool) \<Rightarrow> ('e, 'a) iorun \<Rightarrow> bool" where
  "emits_run P m \<longleftrightarrow> (\<forall>h r h'. m h = Some (r, h') \<longrightarrow> (\<exists>es. h' = h @ es \<and> list_all P es))"

lemma emits_run_io [intro]: "emits P m \<Longrightarrow> emits_run P (run_io m)"
  unfolding emits_run_def emits_def run_io_eq by (metis snd_conv)

lemma emits_pure_run [intro, simp]: "emits_run P (pure_run q)"
  by (simp add: emits_run_def pure_run_eq)

lemma emits_run_bind [intro]:
  assumes "emits_run P m" and "\<And>x. emits_run P (f x)"
  shows "emits_run P (bind_ior m f)"
  unfolding emits_run_def
proof (intro allI impI)
  fix h r h''
  assume run: "bind_ior m f h = Some (r, h'')"
  then obtain q h' where q: "m h = Some (q, h')" by (auto simp: bind_ior_def split: option.splits)
  then obtain es where es: "h' = h @ es" "list_all P es" using assms(1) unfolding emits_run_def by blast
  show "\<exists>es. h'' = h @ es \<and> list_all P es"
  proof (cases q)
    case (Inl e)
    with run q es show ?thesis by (auto simp: bind_ior_def)
  next
    case (Inr x)
    with run q have "f x h' = Some (r, h'')" by (simp add: bind_ior_def)
    then obtain fs where "h'' = h' @ fs" "list_all P fs" using assms(2) unfolding emits_run_def by blast
    with es show ?thesis by (intro exI [of _ "es @ fs"]) simp
  qed
qed

section \<open>The registry\<close>

text \<open>
  A fetched image: its configuration and layers, the digests of its manifest, and its platform; the
  manifest and the configuration may be missing.
\<close>

record fetched_image =
  fi_image :: oci_image
  fi_manifest :: "string list option res"
  fi_layer_by_digest :: "string \<Rightarrow> v1_layer res"
  fi_platform :: "(string \<times> string \<times> string) option res"

datatype reg_event = SaveImage string oci_image | SignBuilder string

record reg_env =
  rge_fetch :: "reg_event list \<Rightarrow> opaque \<Rightarrow> string \<Rightarrow> fetched_image res"
  rge_save :: "reg_event list \<Rightarrow> opaque \<Rightarrow> string \<Rightarrow> oci_image \<Rightarrow> string res"
  rge_sign :: "reg_event list \<Rightarrow> string \<Rightarrow> secret list \<Rightarrow> opaque \<Rightarrow> cosign_signature list res"

section \<open>The lifecycle\<close>

definition platform_matches :: "string \<times> string \<times> string \<Rightarrow> string \<times> string \<times> string \<Rightarrow> bool" where
  "platform_matches want got =
     (case (want, got) of ((want_os, want_arch, want_variant), (got_os, got_arch, got_variant)) \<Rightarrow>
       if want_os \<noteq> got_os then False
       else if want_arch \<noteq> '''' \<and> got_arch \<noteq> '''' \<and> want_arch \<noteq> got_arch then False
       else if want_variant \<noteq> '''' \<and> got_variant \<noteq> '''' \<and> want_variant \<noteq> got_variant then False
       else True)"

definition lifecycle_metadata_of :: "resolved_lifecycle \<Rightarrow> lifecycle_metadata" where
  "lifecycle_metadata_of r =
     \<lparr>lm_version = rl_version r, lm_api_buildpack = rl_api_buildpack r, lm_api_platform = rl_api_platform r,
      lm_buildpack_deprecated = rl_buildpack_deprecated r, lm_buildpack_supported = rl_buildpack_supported r,
      lm_platform_deprecated = rl_platform_deprecated r, lm_platform_supported = rl_platform_supported r\<rparr>"

definition NilError :: string where "NilError = ''%!w(<nil>)''"

definition last_layer :: "fetched_image \<Rightarrow> v1_layer res" where
  "last_layer img =
     (case fi_manifest img of
        Inl e \<Rightarrow> Inl (wrap_err ''failed to get manifest file'' e)
      | Inr None \<Rightarrow> Inl (Failed Plain (''failed to get manifest file: '' @ NilError))
      | Inr (Some digests) \<Rightarrow>
          (if length digests < 1 then Inl (Failed Plain ''failed to find lifecycle image layers'')
           else fi_layer_by_digest img (last digests)))"

definition platform_string :: "string \<times> string \<times> string \<Rightarrow> string" where
  "platform_string p = (case p of (a, b, c) \<Rightarrow> a @ ''/'' @ b @ ''/'' @ c)"

definition check_platform :: "string \<Rightarrow> string \<times> string \<times> string \<Rightarrow> fetched_image \<Rightarrow> unit res" where
  "check_platform img_name want img =
     (case fi_platform img of
        Inl e \<Rightarrow> Inl (wrap_err ''failed to get config file'' e)
      | Inr None \<Rightarrow> Inl (Failed Plain (''failed to get config file: '' @ NilError))
      | Inr (Some got) \<Rightarrow>
          (if platform_matches want got then Inr ()
           else Inl (Failed Plain (''validating lifecycle image '' @ img_name @ '': expected platform to be '' @
                  platform_string want @ '' but got '' @ platform_string got))))"

definition get_lifecycle_layer :: "cluster_lifecycle \<Rightarrow> fetched_image \<Rightarrow> builder_blder \<Rightarrow>
    (v1_layer \<times> lifecycle_metadata) res" where
  "get_lifecycle_layer lc img bb =
     bind_res (map_err (wrap_err ''failed to find lifecycle layer'') (last_layer img)) (\<lambda>layer.
     bind_res (check_platform (cls_image (clc_spec lc)) (bb_os bb, bb_arch bb, bb_arch_variant bb) img) (\<lambda>_.
     Inr (layer, lifecycle_metadata_of (clc_resolved lc))))"

section \<open>The order\<close>

fun fetch_group :: "(builder_buildpack_ref \<Rightarrow> remote_buildpack_info run) \<Rightarrow> builder_buildpack_ref list \<Rightarrow>
    remote_buildpack_ref list run" where
  "fetch_group fetch [] = Some (Inr [])"
| "fetch_group fetch (b # bs) =
     bind_run (fetch b) (\<lambda>i. bind_run (fetch_group fetch bs)
       (\<lambda>rs. Some (Inr (with_optional (bpref_optional (bbr_ref b)) i # rs))))"

fun add_groups :: "(builder_buildpack_ref \<Rightarrow> remote_buildpack_info run) \<Rightarrow> builder_order_entry list \<Rightarrow>
    builder_blder \<Rightarrow> builder_blder run" where
  "add_groups fetch [] bb = Some (Inr bb)"
| "add_groups fetch (g # gs) bb =
     bind_run (fetch_group fetch (border_group g)) (\<lambda>rs. add_groups fetch gs (add_group rs bb))"

definition buildpack_metadata_list :: "descriptive_info list \<Rightarrow> buildpack_metadata list" where
  "buildpack_metadata_list bps = map (\<lambda>b. \<lparr>bm_id = bp_id (dbi_info b), bm_version = bp_version (dbi_info b),
     bm_homepage = dbi_homepage b\<rparr>) bps"

section \<open>Creating a builder\<close>

record keychains =
  kc_builder :: opaque
  kc_stack :: opaque
  kc_lifecycle :: opaque

text \<open>Everything up to the image: the run image is saved first, the rest only reads.\<close>

definition prepare_builder :: "image_lib \<Rightarrow> reg_env \<Rightarrow> string \<Rightarrow> keychains \<Rightarrow>
    (builder_buildpack_ref \<Rightarrow> remote_buildpack_info run) \<Rightarrow> cluster_stack \<Rightarrow> cluster_lifecycle \<Rightarrow> builder_spec \<Rightarrow>
    string \<Rightarrow> (reg_event, builder_blder \<times> string) iorun" where
  "prepare_builder IL RE kpack_version kcs fetch stack lc spec builder_ref =
     bind_ior (run_io (read_io (\<lambda>h. rge_fetch RE h (kc_stack kcs) (csi_latest_image (rcs_build_image (stk_resolved stack)))))) (\<lambda>build_image.
     bind_ior (run_io (read_io (\<lambda>h. rge_fetch RE h (kc_stack kcs) (csi_latest_image (rcs_run_image (stk_resolved stack)))))) (\<lambda>run_image.
     bind_ior (run_io (read_io (\<lambda>h. rge_fetch RE h (kc_lifecycle kcs) (rl_image_latest (clc_resolved lc))))) (\<lambda>lc_image.
     bind_ior (run_io (call_io (SaveImage (builder_ref @ ''-run-image'') (fi_image run_image))
        (\<lambda>h. rge_save RE h (kc_builder kcs) (builder_ref @ ''-run-image'') (fi_image run_image)))) (\<lambda>relocated.
     bind_ior (pure_run (Some (add_stack IL (fi_image build_image) stack
        (add_run_image relocated (new_builder_blder kpack_version))))) (\<lambda>bb1.
     bind_ior (pure_run (Some (get_lifecycle_layer lc lc_image bb1))) (\<lambda>(layer, md).
     bind_ior (pure_run (add_groups fetch (bds_order spec) (add_lifecycle layer md bb1))) (\<lambda>bb2.
     pure_run (Some (Inr (add_additional_labels (bds_additional_labels spec) bb2, relocated))))))))))"

definition builder_record_of :: "image_lib \<Rightarrow> builder_blder \<Rightarrow> cluster_stack \<Rightarrow> cluster_lifecycle \<Rightarrow> int \<Rightarrow> string \<Rightarrow>
    string \<Rightarrow> oci_image \<Rightarrow> cosign_signature list \<Rightarrow> builder_record" where
  "builder_record_of IL bb stack lc store_generation ident relocated img signatures =
     \<lparr>br_image = ident,
      br_stack = \<lparr>stack_run_image = relocated, stack_id = rcs_id (stk_resolved stack)\<rparr>,
      br_lifecycle = (clc_resolved lc)\<lparr>rl_image_latest := '''', rl_image := ''''\<rparr>,
      br_buildpacks = buildpack_metadata_list (deterministic_sort_by_size IL 1 (bb_buildpack_layers bb)),
      br_order = bb_order bb,
      br_observed_store_generation = store_generation,
      br_observed_stack_generation = st_observed_generation (stk_status stack),
      br_os = oi_os img,
      br_signature_paths = signatures\<rparr>"

definition create_builder :: "lib \<Rightarrow> image_lib \<Rightarrow> reg_env \<Rightarrow> string \<Rightarrow> keychains \<Rightarrow>
    (builder_buildpack_ref \<Rightarrow> remote_buildpack_info run) \<Rightarrow> int \<Rightarrow> cluster_stack \<Rightarrow> cluster_lifecycle \<Rightarrow> builder_spec \<Rightarrow>
    secret list \<Rightarrow> string \<Rightarrow> (reg_event, builder_record) iorun" where
  "create_builder L IL RE kpack_version kcs fetch store_generation stack lc spec secrets builder_ref =
     bind_ior (prepare_builder IL RE kpack_version kcs fetch stack lc spec builder_ref) (\<lambda>(bb, relocated).
     bind_ior (pure_run (Some (writeable_image L IL bb))) (\<lambda>img.
     bind_ior (run_io (call_io (SaveImage builder_ref img)
        (\<lambda>h. rge_save RE h (kc_builder kcs) builder_ref img))) (\<lambda>ident.
     bind_ior (pure_run (Some (il_config IL img))) (\<lambda>_.
     bind_ior (if length secrets > 0
               then run_io (call_io (SignBuilder ident)
                      (\<lambda>h. rge_sign RE h ident secrets (kc_builder kcs)))
               else pure_run (Some (Inr []))) (\<lambda>signatures.
     pure_run (Some (Inr (builder_record_of IL bb stack lc store_generation ident relocated img signatures))))))))"

section \<open>What a creation does\<close>

lemma emits_prepare_builder:
  "emits_run (\<lambda>ev. \<exists>img. ev = SaveImage (builder_ref @ ''-run-image'') img)
     (prepare_builder IL RE v kcs fetch stack lc spec builder_ref)"
  unfolding prepare_builder_def
  by (intro emits_run_bind emits_run_io emits_pure_run emits_read emits_call) (auto split: prod.split)

lemma prepare_builder_parts:
  assumes "prepare_builder IL RE v kcs fetch stack lc spec builder_ref h = Some (Inr (bb, relocated), h')"
  shows "\<exists>(build_image :: fetched_image) (lc_image :: fetched_image) bb1 lm bb2.
     add_stack IL (fi_image build_image) stack (add_run_image relocated (new_builder_blder v)) = Inr bb1 \<and>
     get_lifecycle_layer lc lc_image bb1 = Inr lm \<and>
     add_groups fetch (bds_order spec) (add_lifecycle (fst lm) (snd lm) bb1) = Some (Inr bb2) \<and>
     bb = add_additional_labels (bds_additional_labels spec) bb2"
  using assms unfolding prepare_builder_def bind_ior_eq_Inr case_prod_beta pure_run_eq
    option.inject sum.inject prod.inject
  by (elim exE conjE) (hypsubst, blast)

lemma prepare_builder_Inr:
  assumes "prepare_builder IL RE v kcs fetch stack lc spec builder_ref h = Some (Inr (bb, relocated), h')"
  shows "\<exists>bb0 bb1. add_groups fetch (bds_order spec) bb0 = Some (Inr bb1) \<and> bb_order bb0 = [] \<and>
     bb_buildpack_layers bb0 = [] \<and> bb = add_additional_labels (bds_additional_labels spec) bb1 \<and>
     bb_stack_id bb0 = rcs_id (stk_resolved stack) \<and> bb_mixins bb0 = rcs_mixins (stk_resolved stack) \<and>
     bb_lifecycle_metadata bb0 = lifecycle_metadata_of (clc_resolved lc) \<and> bb_run_image bb0 = relocated"
proof -
  from prepare_builder_parts [OF assms] obtain build_image :: fetched_image and lc_image :: fetched_image
    and bb1 lm bb2 where bb1: "add_stack IL (fi_image build_image) stack (add_run_image relocated (new_builder_blder v)) = Inr bb1"
      and lc: "get_lifecycle_layer lc lc_image bb1 = Inr lm"
      and bb2: "add_groups fetch (bds_order spec) (add_lifecycle (fst lm) (snd lm) bb1) = Some (Inr bb2)"
      and bb: "bb = add_additional_labels (bds_additional_labels spec) bb2"
    by (elim exE conjE)
  have "bb_order bb1 = [] \<and> bb_buildpack_layers bb1 = [] \<and> bb_stack_id bb1 = rcs_id (stk_resolved stack) \<and>
      bb_mixins bb1 = rcs_mixins (stk_resolved stack) \<and> bb_run_image bb1 = relocated"
    using bb1 by (auto simp: add_stack_def add_run_image_def new_builder_blder_def bind_res_eq_Inr split: if_splits)
  moreover have "snd lm = lifecycle_metadata_of (clc_resolved lc)"
    using lc by (auto simp: get_lifecycle_layer_def bind_res_eq_Inr)
  ultimately show ?thesis
    using bb2 bb by (intro exI [of _ "add_lifecycle (fst lm) (snd lm) bb1"] exI [of _ bb2]) (simp add: add_lifecycle_def)
qed

text \<open>
  The builder image is saved only when it was put together and passed validation, and it is signed only
  after it was saved and when the service account has signing secrets.
\<close>

lemma create_builder_events:
  assumes "create_builder L IL RE v kcs fetch gen stack lc spec secrets builder_ref [] = Some (r, h)"
  shows "\<exists>pre post. h = pre @ post \<and> list_all (\<lambda>ev. \<exists>img. ev = SaveImage (builder_ref @ ''-run-image'') img) pre \<and>
     (post = [] \<or> (\<exists>bb img reloc. prepare_builder IL RE v kcs fetch stack lc spec builder_ref [] = Some (Inr (bb, reloc), pre) \<and>
        writeable_image L IL bb = Inr img \<and>
        (post = [SaveImage builder_ref img] \<or>
         secrets \<noteq> [] \<and> (\<exists>ident. rge_save RE pre (kc_builder kcs) builder_ref img = Inr ident \<and>
           post = [SaveImage builder_ref img, SignBuilder ident]))))"
proof -
  let ?p = "prepare_builder IL RE v kcs fetch stack lc spec builder_ref"
  obtain q pre where pre: "?p [] = Some (q, pre)"
    using assms unfolding create_builder_def by (auto simp: bind_ior_def split: option.splits)
  then have runs: "list_all (\<lambda>ev. \<exists>img. ev = SaveImage (builder_ref @ ''-run-image'') img) pre"
    using emits_prepare_builder [of builder_ref IL RE v kcs fetch stack lc spec] unfolding emits_run_def by fastforce
  show ?thesis
  proof (cases q)
    case (Inl e)
    with assms pre have "h = pre" by (simp add: create_builder_def bind_ior_def)
    with runs show ?thesis by (intro exI [of _ pre] exI [of _ "[]"]) simp
  next
    case (Inr x)
    obtain bb reloc where x: "x = (bb, reloc)" by (cases x)
    show ?thesis
    proof (cases "writeable_image L IL bb")
      case (Inl e)
      with assms pre Inr x have "h = pre" by (simp add: create_builder_def bind_ior_def pure_run_def)
      with runs show ?thesis by (intro exI [of _ pre] exI [of _ "[]"]) simp
    next
      case img: (Inr img)
      have "h = pre @ [SaveImage builder_ref img] \<or> secrets \<noteq> [] \<and>
          (\<exists>ident. rge_save RE pre (kc_builder kcs) builder_ref img = Inr ident \<and>
             h = pre @ [SaveImage builder_ref img, SignBuilder ident])"
      proof -
        have run: "bind_ior (run_io (call_io (SaveImage builder_ref img)
            (\<lambda>h. rge_save RE h (kc_builder kcs) builder_ref img))) (\<lambda>ident.
          bind_ior (pure_run (Some (il_config IL img))) (\<lambda>_.
          bind_ior (if length secrets > 0 then run_io (call_io (SignBuilder ident)
              (\<lambda>h. rge_sign RE h ident secrets (kc_builder kcs))) else pure_run (Some (Inr []))) (\<lambda>signatures.
          pure_run (Some (Inr (builder_record_of IL bb stack lc gen ident reloc img signatures)))))) pre = Some (r, h)"
          using assms pre Inr x img unfolding create_builder_def by (simp add: bind_ior_def pure_run_def)
        show ?thesis
        proof (cases "rge_save RE pre (kc_builder kcs) builder_ref img")
          case (Inl e)
          with run show ?thesis by (simp add: bind_ior_def run_io_def)
        next
          case ident: (Inr ident)
          show ?thesis
          proof (cases "il_config IL img")
            case (Inl e)
            with run ident show ?thesis by (simp add: bind_ior_def run_io_def pure_run_def)
          next
            case (Inr u)
            with run ident show ?thesis
              by (cases "rge_sign RE (pre @ [SaveImage builder_ref img]) ident secrets (kc_builder kcs)")
                 (auto simp: bind_ior_def run_io_def pure_run_def split: if_splits)
          qed
        qed
      qed
      then show ?thesis
      proof (elim disjE conjE exE)
        assume "h = pre @ [SaveImage builder_ref img]"
        with runs pre Inr x img show ?thesis by (intro exI [of _ pre] exI [of _ "[SaveImage builder_ref img]"]) auto
      next
        fix ident
        assume "secrets \<noteq> []" "rge_save RE pre (kc_builder kcs) builder_ref img = Inr ident"
          "h = pre @ [SaveImage builder_ref img, SignBuilder ident]"
        with runs pre Inr x img show ?thesis
          by (intro exI [of _ pre] exI [of _ "[SaveImage builder_ref img, SignBuilder ident]"]) auto
      qed
    qed
  qed
qed

lemma create_builder_Inr:
  assumes "create_builder L IL RE v kcs fetch gen stack lc spec secrets builder_ref h = Some (Inr r, h')"
  shows "\<exists>bb reloc h1 img ident signatures.
     prepare_builder IL RE v kcs fetch stack lc spec builder_ref h = Some (Inr (bb, reloc), h1) \<and>
     writeable_image L IL bb = Inr img \<and> SaveImage builder_ref img \<in> set h' \<and>
     r = builder_record_of IL bb stack lc gen ident reloc img signatures"
proof -
  obtain bb reloc h1 img ident h2 signatures h3
    where p: "prepare_builder IL RE v kcs fetch stack lc spec builder_ref h = Some (Inr (bb, reloc), h1)"
    and img: "writeable_image L IL bb = Inr img"
    and save: "run_io (call_io (SaveImage builder_ref img) (\<lambda>h. rge_save RE h (kc_builder kcs) builder_ref img)) h1
        = Some (Inr ident, h2)"
    and sign: "(if length secrets > 0 then run_io (call_io (SignBuilder ident)
                      (\<lambda>h. rge_sign RE h ident secrets (kc_builder kcs)))
               else pure_run (Some (Inr []))) h2 = Some (Inr signatures, h3)"
    and r: "r = builder_record_of IL bb stack lc gen ident reloc img signatures" "h' = h3"
    using assms unfolding create_builder_def bind_ior_eq_Inr case_prod_beta pure_run_eq
    by (elim exE conjE) (auto intro: that)
  have "SaveImage builder_ref img \<in> set h2" using save by (auto simp: run_io_def)
  then have "SaveImage builder_ref img \<in> set h'"
    using sign r(2) by (auto simp: run_io_def pure_run_def split: if_splits)
  with p img r(1) show ?thesis by blast
qed

section \<open>Complete builders\<close>

text \<open>
  A builder under construction is complete when every buildpack of its order has its layer, and the
  orders of these buildpacks are covered as well.
\<close>

definition builder_complete :: "(descriptive_info set \<Rightarrow> buildpack_ref \<Rightarrow> bool) \<Rightarrow> builder_blder \<Rightarrow> bool" where
  "builder_complete covers bb \<longleftrightarrow>
     layers_wf (bb_buildpack_layers bb) \<and>
     (\<forall>o_e \<in> set (bb_order bb). \<forall>r \<in> set (order_group o_e).
        \<exists>k \<in> fst ` set (bb_buildpack_layers bb). dbi_info k = bpref_info r) \<and>
     (\<forall>l \<in> snd ` set (bb_buildpack_layers bb). \<forall>q \<in> set (order_refs (bli_order (bl_layer_info l))).
        covers (fst ` set (bb_buildpack_layers bb)) q)"

text \<open>The groups of a builder keep the versions that were resolved and which buildpacks are optional.\<close>

lemma fetch_group_facts:
  "fetch_group fetch bs = Some (Inr rs) \<Longrightarrow>
   list_all2 (\<lambda>b r. \<exists>i. fetch b = Some (Inr i) \<and> r = with_optional (bpref_optional (bbr_ref b)) i) bs rs"
  by (induction bs arbitrary: rs) (auto simp: bind_run_eq_Inr)

context buildpack_fetcher
begin

lemma fetch_group_layers:
  assumes "fetch_group fetch bs = Some (Inr rs)" and "r \<in> set rs"
  shows "rbr_info r \<in> bl_info ` set (rbr_layers r) \<and>
    (\<forall>l \<in> set (rbr_layers r). \<forall>q \<in> set (order_refs (bli_order (bl_layer_info l))). covers (bl_info ` set (rbr_layers r)) q)"
proof -
  obtain b i where "fetch b = Some (Inr i)" "r = with_optional (bpref_optional (bbr_ref b)) i"
    using fetch_group_facts [OF assms(1)] assms(2) by (auto simp: list_all2_conv_all_nth in_set_conv_nth)
  then show ?thesis using fetch_own fetch_closed by (auto simp: with_optional_def)
qed

lemma add_group_complete:
  assumes "builder_complete covers bb" and rs: "fetch_group fetch bs = Some (Inr rs)"
  shows "builder_complete covers (add_group rs bb)"
proof -
  let ?m = "bb_buildpack_layers bb" and ?m' = "bb_buildpack_layers (add_group rs bb)"
  have keys: "fst ` set ?m' = bl_info ` set (group_layers rs) \<union> fst ` set ?m" by (rule add_group_facts)
  have vals: "snd ` set ?m' \<subseteq> set (group_layers rs) \<union> snd ` set ?m" by (rule add_group_facts)
  have wf: "layers_wf ?m'" using assms(1) by (simp add: builder_complete_def add_group_facts)
  have own: "rbr_info r \<in> fst ` set ?m'" if "r \<in> set rs" for r
    using fetch_group_layers [OF rs that] that keys by (auto simp: group_layers_def)
  have orders: "\<exists>k \<in> fst ` set ?m'. dbi_info k = bpref_info r"
    if e: "o_e \<in> set (bb_order (add_group rs bb))" "r \<in> set (order_group o_e)" for o_e r
  proof (cases "o_e \<in> set (bb_order bb)")
    case True
    have "\<forall>e \<in> set (bb_order bb). \<forall>r \<in> set (order_group e). \<exists>k \<in> fst ` set ?m. dbi_info k = bpref_info r"
      using assms(1) by (simp add: builder_complete_def)
    with True e(2) obtain k where "k \<in> fst ` set ?m" "dbi_info k = bpref_info r" by blast
    then show ?thesis unfolding keys by blast
  next
    case False
    then obtain x where "x \<in> set rs" "r = remote_buildpack_ref_ref x"
      using e by (auto simp: add_group_facts)
    with own [of x] show ?thesis by (intro bexI [of _ "rbr_info x"]) (simp_all add: remote_buildpack_ref_ref_def)
  qed
  have covered: "covers (fst ` set ?m') q"
    if "l \<in> snd ` set ?m'" "q \<in> set (order_refs (bli_order (bl_layer_info l)))" for l q
  proof (cases "l \<in> set (group_layers rs)")
    case True
    then obtain r where r: "r \<in> set rs" "l \<in> set (rbr_layers r)" by (auto simp: group_layers_def)
    with fetch_group_layers [OF rs r(1)] that(2) have "covers (bl_info ` set (rbr_layers r)) q" by blast
    moreover have "bl_info ` set (rbr_layers r) \<subseteq> fst ` set ?m'" using keys r(1) by (auto simp: group_layers_def)
    ultimately show ?thesis by (rule covers_mono)
  next
    case False
    with that(1) vals have "l \<in> snd ` set ?m" by blast
    with assms(1) that(2) have "covers (fst ` set ?m) q" unfolding builder_complete_def by blast
    then show ?thesis by (rule covers_mono) (use keys in blast)
  qed
  show ?thesis unfolding builder_complete_def using wf orders covered by blast
qed

lemma add_groups_complete:
  "add_groups fetch gs bb = Some (Inr bb') \<Longrightarrow> builder_complete covers bb \<Longrightarrow> builder_complete covers bb'"
  by (induction gs arbitrary: bb) (auto simp: bind_run_eq_Inr intro: add_group_complete)

lemma prepare_builder_complete:
  assumes "prepare_builder IL RE v kcs fetch stack lc spec builder_ref h = Some (Inr (bb, reloc), h')"
  shows "builder_complete covers bb"
proof -
  obtain bb0 bb1 where "add_groups fetch (bds_order spec) bb0 = Some (Inr bb1)" "bb_order bb0 = []"
    "bb_buildpack_layers bb0 = []" "bb = add_additional_labels (bds_additional_labels spec) bb1"
    using prepare_builder_Inr [OF assms] by (elim exE conjE) (rule that)
  moreover from this have "builder_complete covers bb0"
    by (simp add: builder_complete_def layers_wf_def)
  ultimately have "builder_complete covers bb1" by (elim add_groups_complete)
  with \<open>bb = add_additional_labels _ bb1\<close> show ?thesis
    by (simp add: builder_complete_def add_additional_labels_def)
qed

end

lemma add_groups_frame:
  "add_groups fetch gs bb = Some (Inr bb') \<Longrightarrow>
   bb_stack_id bb' = bb_stack_id bb \<and> bb_mixins bb' = bb_mixins bb \<and>
   bb_lifecycle_metadata bb' = bb_lifecycle_metadata bb \<and> bb_run_image bb' = bb_run_image bb"
  by (induction gs arbitrary: bb) (fastforce simp: bind_run_eq_Inr add_group_def)+

lemma add_groups_order:
  "add_groups fetch gs bb = Some (Inr bb') \<Longrightarrow> \<exists>es. bb_order bb' = bb_order bb @ es \<and>
   list_all2 (\<lambda>g o_e. list_all2 (\<lambda>b r. \<exists>i. fetch b = Some (Inr i) \<and>
     r = \<lparr>bpref_info = dbi_info (rbi_info i), bpref_optional = bpref_optional (bbr_ref b)\<rparr>) (border_group g) (order_group o_e)) gs es"
proof (induction gs arbitrary: bb)
  case (Cons g gs)
  then obtain rs where rs: "fetch_group fetch (border_group g) = Some (Inr rs)"
    and rest: "add_groups fetch gs (add_group rs bb) = Some (Inr bb')" by (auto simp: bind_run_eq_Inr)
  have "list_all2 (\<lambda>b r. \<exists>i. fetch b = Some (Inr i) \<and>
      r = \<lparr>bpref_info = dbi_info (rbi_info i), bpref_optional = bpref_optional (bbr_ref b)\<rparr>)
      (border_group g) (map remote_buildpack_ref_ref rs)"
    using fetch_group_facts [OF rs]
    by (auto simp: list_all2_conv_all_nth remote_buildpack_ref_ref_def with_optional_def)
  moreover obtain es where "bb_order bb' = bb_order (add_group rs bb) @ es"
    "list_all2 (\<lambda>g o_e. list_all2 (\<lambda>b r. \<exists>i. fetch b = Some (Inr i) \<and>
      r = \<lparr>bpref_info = dbi_info (rbi_info i), bpref_optional = bpref_optional (bbr_ref b)\<rparr>)
      (border_group g) (order_group o_e)) gs es"
    using Cons.IH [OF rest] by blast
  ultimately show ?case
    by (intro exI [of _ "OrderEntry (map remote_buildpack_ref_ref rs) # es"]) (simp add: add_group_facts)
qed simp

end
