(* ===== verification/Cnb_Properties.thy ===== *)
theory Cnb_Properties
  imports Samples Create_Builder
begin

text \<open>
  Properties of \<open>pkg/cnb\<close>: which buildpack a reference resolves to, what is fetched with it, and what
  the image of a builder holds; with a store of three buildpacks at which they are exercised.
\<close>

section \<open>Resolving by id\<close>

text \<open>The buildpacks with an id, in the order in which the resolver looks at them.\<close>

definition candidates :: "buildpack_resolver \<Rightarrow> string \<Rightarrow> k8s_remote_buildpack list" where
  "candidates R i = resolve_from_buildpack i (bpr_buildpacks R) @
     resolve_from_cluster_buildpack i (bpr_cluster_buildpacks R) @ resolve_from_cluster_store i (bpr_clusterstore R)"

lemma candidates_id: "b \<in> set (candidates R i) \<Longrightarrow> krb_id b = i"
  unfolding candidates_def set_append Un_iff resolve_from_ids
  by (auto simp: krb_id_def of_buildpack_def of_cluster_buildpack_def of_cluster_store_def)

text \<open>
  The choice among candidates: the first with the version that was asked for, or else the last of
  the highest version, provided that all versions are semantic versions.
\<close>

definition first_with :: "('a \<Rightarrow> bool) \<Rightarrow> 'a list \<Rightarrow> 'a \<Rightarrow> bool" where
  "first_with P xs b \<longleftrightarrow> (\<exists>pre post. xs = pre @ b # post \<and> P b \<and> (\<forall>x \<in> set pre. \<not> P x))"


lemma first_with_simps [simp]:
  "\<not> first_with P [] b"
  "first_with P (x # xs) b \<longleftrightarrow> (if P x then b = x else first_with P xs b)"
proof -
  show "first_with P (x # xs) b \<longleftrightarrow> (if P x then b = x else first_with P xs b)"
  proof (cases "P x")
    case True
    then show ?thesis
      unfolding first_with_def Cons_eq_append_conv by (auto intro: exI [of _ "[]"])
  next
    case False
    have "first_with P (x # xs) b" if "first_with P xs b"
    proof -
      obtain pre post where "xs = pre @ b # post" "P b" "\<forall>y \<in> set pre. \<not> P y"
        using \<open>first_with P xs b\<close> by (auto simp: first_with_def)
      with False show ?thesis unfolding first_with_def by (intro exI [of _ "x # pre"] exI [of _ post]) simp
    qed
    with False show ?thesis unfolding first_with_def Cons_eq_append_conv by auto
  qed
qed (simp add: first_with_def)





lemma resolve_of_id:
  "oref_kind (bbr_object r) = '''' \<Longrightarrow> bp_id (bpref_info (bbr_ref r)) = i \<Longrightarrow> i \<noteq> '''' \<Longrightarrow>
   resolve L R r = Some (pick_buildpack L (bpref_info (bbr_ref r)) (candidates R i))"
  by (auto simp: resolve_def matching_buildpacks_def Let_def kind_defs candidates_def)


section \<open>A store\<close>

definition sample_info :: "string \<Rightarrow> string \<Rightarrow> buildpack_info" where
  "sample_info i v = \<lparr>bp_id = i, bp_version = v\<rparr>"

definition sample_status :: "string \<Rightarrow> string \<Rightarrow> string \<Rightarrow> order_entry list \<Rightarrow> buildpack_status" where
  "sample_status i v diff order = \<lparr>bpst_info = sample_info i v,
     bpst_buildpackage = \<lparr>bpkg_id = '''', bpkg_version = '''', bpkg_homepage = ''''\<rparr>,
     bpst_store_image = ''store'', bpst_diff_id = diff, bpst_digest = ''sha256:1'', bpst_size = 100,
     bpst_api = ''0.10'', bpst_homepage = '''', bpst_order = order,
     bpst_stacks = [\<lparr>bps_id = ''jammy'', bps_mixins = [''build:git'']\<rparr>]\<rparr>"

definition sample_ref :: "string \<Rightarrow> string \<Rightarrow> buildpack_ref" where
  "sample_ref i v = \<lparr>bpref_info = sample_info i v, bpref_optional = False\<rparr>"

definition engine_1 :: buildpack_status where "engine_1 = sample_status ''engine'' ''1'' ''diff-1'' []"
definition engine_22 :: buildpack_status where "engine_22 = sample_status ''engine'' ''22'' ''diff-22'' []"
definition nodejs_3 :: buildpack_status where
  "nodejs_3 = sample_status ''nodejs'' ''3'' ''diff-3'' [OrderEntry [sample_ref ''engine'' ''1'']]"

definition sample_store :: cluster_store where
  "sample_store = \<lparr>sto_kind = ''ClusterStore'', sto_meta = empty_meta\<lparr>meta_name := ''default''\<rparr>,
     sto_spec = \<lparr>csp_sources = [''store''], csp_service_account_ref = None\<rparr>, sto_status = empty_status,
     sto_buildpacks = [engine_22, engine_1, nodejs_3]\<rparr>"

definition sample_bpr :: buildpack_resolver where
  "sample_bpr = \<lparr>bpr_clusterstore = Some sample_store, bpr_buildpacks = [], bpr_cluster_buildpacks = []\<rparr>"

definition sample_cnb_lib :: cnb_lib where
  "sample_cnb_lib = \<lparr>cb_lib = sample_lib, cb_context_name = ref_identifier, cb_new_digest = Inr,
     cb_new_hash = Inr, cb_keychain = (\<lambda>s. Inr (service_account_or_default s))\<rparr>"

lemmas sample_buildpacks = engine_1_def engine_22_def nodejs_3_def sample_status_def sample_ref_def sample_info_def


lemma sample_candidates:
  "candidates sample_bpr i = map (of_cluster_store sample_store) (with_id i [engine_22, engine_1, nodejs_3])"
  by (simp add: candidates_def sample_bpr_def resolve_from_buildpack_def resolve_from_cluster_buildpack_def
      resolve_from_cluster_store_def sample_store_def)

lemma sample_with_id:
  "with_id ''engine'' [engine_22, engine_1, nodejs_3] = [engine_22, engine_1]"
  "with_id ''nodejs'' [engine_22, engine_1, nodejs_3] = [nodejs_3]"
  by (simp_all add: with_id_def sample_buildpacks)

lemma krb_of_cluster_store [simp]:
  "krb_version (of_cluster_store st s) = bp_version (bpst_info s)" "krb_buildpack (of_cluster_store st s) = s"
  by (simp_all add: krb_version_def of_cluster_store_def)


section \<open>Fetching\<close>

text \<open>
  C14: When no buildpack can be reached from its own order, fetching a reference by id always ends;
  what it returns holds the layer of the buildpack itself and, for every buildpack named in the order of a
  layer it holds, the layer of the buildpack that name resolves to.
\<close>

theorem fetch_ends_closed:
  assumes "acyclic_refs rank (cb_lib K) R" and "oref_kind (bbr_object r) = ''''"
  shows "\<exists>res. resolve_and_fetch K R r = Some res \<and>
     (\<forall>i. res = Inr i \<longrightarrow> rbi_info i \<in> bl_info ` set (rbi_layers i) \<and> closed_layers K R (rbi_layers i))"
proof -
  have "fetch_buildpack K R b \<noteq> None" for b
  proof -
    let ?refs = "order_refs (bpst_order (krb_buildpack b))"
    have "\<forall>q \<in> set ?refs. rank q < Suc (Max (rank ` set ?refs))" by (simp add: le_imp_less_Suc)
    then have "layers_for_refs K R ?refs \<noteq> None" by (rule layers_for_refs_ends [OF assms(1)])
    then show ?thesis unfolding fetch_buildpack_def by (intro bind_run_ends) simp_all
  qed
  then have "resolve_and_fetch K R r \<noteq> None"
    unfolding resolve_and_fetch_def by (intro bind_run_ends resolve_by_id assms(2))
  then obtain res where res: "resolve_and_fetch K R r = Some res" by blast
  moreover have "closed_layers K R (rbi_layers i)" if "res = Inr i" for i
    using res that fetch_buildpack_closed by (auto simp: resolve_and_fetch_def bind_run_eq_Inr)
  ultimately show ?thesis using fetcher.fetch_own by blast
qed

lemma highest_version_in: "highest_version L ms = Inr b \<Longrightarrow> b \<in> set ms"
proof -
  assume b: "highest_version L ms = Inr b"
  then have "stable_sort (version_less L) ms \<noteq> []" "b = last (stable_sort (version_less L) ms)"
    by (auto simp: highest_version_def split: option.splits list.splits)
  then have "b \<in> set (stable_sort (version_less L) ms)" using last_in_set by blast
  then show ?thesis by simp
qed

lemma pick_buildpack_in: "pick_buildpack L info ms = Inr b \<Longrightarrow> b \<in> set ms"
  by (auto simp: pick_buildpack_def find_Some_iff highest_version_in split: if_splits option.splits)

lemma resolve_plain_candidates:
  assumes "resolve L R (plain_ref q) = Some (Inr b)"
  shows "b \<in> set (candidates R (bp_id (bpref_info q)))"
proof (cases "bp_id (bpref_info q) = ''''")
  case True
  with assms show ?thesis
    by (simp add: resolve_def matching_buildpacks_def plain_ref_def Let_def kind_defs)
next
  case False
  have "resolve L R (plain_ref q) = Some (pick_buildpack L (bpref_info q) (candidates R (bp_id (bpref_info q))))"
    using resolve_of_id [of "plain_ref q" _ L R] False by (simp add: plain_ref_def)
  with assms show ?thesis by (intro pick_buildpack_in) simp
qed

definition sample_rank :: "buildpack_ref \<Rightarrow> nat" where
  "sample_rank q = (if bp_id (bpref_info q) = ''nodejs'' then 1 else 0)"

lemma sample_acyclic: "acyclic_refs sample_rank sample_lib sample_bpr"
  unfolding acyclic_refs_def
proof (intro allI impI)
  fix q b q'
  assume b: "resolve sample_lib sample_bpr (plain_ref q) = Some (Inr b)"
    and q': "q' \<in> set (order_refs (bpst_order (krb_buildpack b)))"
  obtain s where "b = of_cluster_store sample_store s" and s: "s \<in> set [engine_22, engine_1, nodejs_3]"
      "bp_id (bpst_info s) = bp_id (bpref_info q)"
    using resolve_plain_candidates [OF b] unfolding sample_candidates with_id_def set_map set_filter by blast
  then have s3: "krb_buildpack b = s" by simp
  have "bpst_order engine_22 = []" "bpst_order engine_1 = []"
    by (simp_all add: engine_22_def engine_1_def sample_status_def)
  moreover have "bpst_order s \<noteq> []" using q' s3 by (auto simp: order_refs_def)
  ultimately have "s = nodejs_3" using s(1) by auto
  then have "bp_id (bpref_info q) = ''nodejs''" "q' = sample_ref ''engine'' ''1''"
    using s(2) s3 q' by (simp_all add: order_refs_def nodejs_3_def sample_status_def sample_info_def)
  then show "sample_rank q' < sample_rank q"
    by (simp add: sample_rank_def sample_ref_def sample_info_def)
qed

theorem fetch_ends_closed_witness:
  "\<exists>res. resolve_and_fetch sample_cnb_lib sample_bpr (plain_ref (sample_ref ''nodejs'' ''3'')) = Some res \<and>
     (\<forall>i. res = Inr i \<longrightarrow> closed_layers sample_cnb_lib sample_bpr (rbi_layers i))"
proof -
  have "acyclic_refs sample_rank (cb_lib sample_cnb_lib) sample_bpr"
    using sample_acyclic by (simp add: sample_cnb_lib_def)
  from fetch_ends_closed [OF this, of "plain_ref (sample_ref ''nodejs'' ''3'')"] show ?thesis
    by (auto simp: plain_ref_def)
qed

section \<open>Builder images\<close>

definition sample_layer :: "string \<Rightarrow> v1_layer" where
  "sample_layer d = \<lparr>vl_diff_id = Inr d, vl_size = 1, vl_source = TarLayer d\<rparr>"

definition sample_base :: oci_image where
  "sample_base = \<lparr>oi_os = ''linux'', oi_arch = ''amd64'', oi_variant = '''', oi_layers = [sample_layer ''base''],
     oi_labels = Map.empty, oi_working_dir = ''/''\<rparr>"

definition sample_image_lib :: image_lib where
  "sample_image_lib = \<lparr>il_config = (\<lambda>_. Inr ()), il_append = (\<lambda>_ _. Inr ()), il_mutate = (\<lambda>_. Inr ()),
     il_tar = (\<lambda>es. Inr (sample_layer (te_name (hd es)))), il_toml_stack = Inr, il_toml_order = (\<lambda>_. Inr ''order''),
     il_json_order = (\<lambda>_. Inr ''[]''), il_json_layers = (\<lambda>_. Inr ''{}''), il_json_apis = (\<lambda>_. Inr ''{}''),
     il_json_metadata = (\<lambda>_. Inr ''{}''), il_range = (\<lambda>n. if n = 0 then id else rev), il_sort = stable_sort\<rparr>"

lemma sample_image_lib_ok: "slice_sort (il_sort sample_image_lib)" "range_ok (il_range sample_image_lib)"
  by (simp_all add: sample_image_lib_def range_ok_def stable.slice_sort_axioms)

lemma il_unused:
  "default_dirs_layer (IL\<lparr>il_range := rng, il_sort := srt\<rparr>) = default_dirs_layer IL"
  "stack_layer (IL\<lparr>il_range := rng, il_sort := srt\<rparr>) = stack_layer IL"
  "order_layer (IL\<lparr>il_range := rng, il_sort := srt\<rparr>) = order_layer IL"
  "set_working_dir (IL\<lparr>il_range := rng, il_sort := srt\<rparr>) = set_working_dir IL"
  "set_string_label (IL\<lparr>il_range := rng, il_sort := srt\<rparr>) = set_string_label IL"
  "set_string_labels (IL\<lparr>il_range := rng, il_sort := srt\<rparr>) = set_string_labels IL"
  "set_labels (IL\<lparr>il_range := rng, il_sort := srt\<rparr>) = set_labels IL"
  "image_labels (IL\<lparr>il_range := rng, il_sort := srt\<rparr>) = image_labels IL"
  "il_append (IL\<lparr>il_range := rng, il_sort := srt\<rparr>) = il_append IL"
  by (simp_all add: fun_eq_iff default_dirs_layer_def stack_layer_def order_layer_def single_file_layer_def [abs_def]
      set_working_dir_def set_string_label_def set_string_labels_def set_labels_def image_labels_def)

text \<open>
  C15: The image of a builder does not depend on the order in which Go visits the map of its layers
  nor on how \<open>sort.Slice\<close> treats equal elements, as long as no two buildpacks share id and version:
  the same builder always yields the same layers in the same order and the same labels.
\<close>

theorem builder_image_deterministic:
  assumes "slice_sort (il_sort IL)" and "range_ok (il_range IL)" and "slice_sort srt" and "range_ok rng"
    and "distinct (map fst (bb_buildpack_layers bb))" and "inj_on info_string (fst ` set (bb_buildpack_layers bb))"
  shows "writeable_image L (IL\<lparr>il_range := rng, il_sort := srt\<rparr>) bb = writeable_image L IL bb"
proof -
  have "deterministic_sort_by_size (IL\<lparr>il_range := rng, il_sort := srt\<rparr>) 0 (bb_buildpack_layers bb)
      = deterministic_sort_by_size IL 0 (bb_buildpack_layers bb)"
    using assms by (intro deterministic_sort_unique) simp_all
  then show ?thesis unfolding writeable_image_def il_unused by (simp only:)
qed

definition sample_descriptive :: "string \<Rightarrow> string \<Rightarrow> descriptive_info" where
  "sample_descriptive i v = \<lparr>dbi_info = sample_info i v, dbi_homepage = ''''\<rparr>"

definition sample_buildpack_layer :: "string \<Rightarrow> string \<Rightarrow> buildpack_layer" where
  "sample_buildpack_layer i v = \<lparr>bl_layer = sample_layer (i @ v), bl_info = sample_descriptive i v,
     bl_layer_info = \<lparr>bli_api = ''0.10'', bli_layer_diff_id = i @ v, bli_order = [],
       bli_stacks = [\<lparr>bps_id = ''jammy'', bps_mixins = [''build:git'']\<rparr>], bli_homepage = ''''\<rparr>\<rparr>"

definition sample_apis :: lifecycle_metadata where
  "sample_apis = lifecycle_metadata_of (sample_lifecycle\<lparr>rl_platform_supported := [''0.7'']\<rparr>)"

definition sample_bb :: builder_blder where
  "sample_bb = (new_builder_blder ''0.17'')
     \<lparr>bb_base_image := sample_base, bb_lifecycle_layer := sample_layer ''lifecycle'', bb_lifecycle_metadata := sample_apis,
      bb_stack_id := ''jammy'', bb_mixins := [''git''],
      bb_order := [OrderEntry [sample_ref ''engine'' ''1'', sample_ref ''engine'' ''22'']],
      bb_buildpack_layers := [(sample_descriptive ''engine'' ''1'', sample_buildpack_layer ''engine'' ''1''),
        (sample_descriptive ''engine'' ''22'', sample_buildpack_layer ''engine'' ''22'')]\<rparr>"

lemma sample_bb_layers:
  "distinct (map fst (bb_buildpack_layers sample_bb))" "inj_on info_string (fst ` set (bb_buildpack_layers sample_bb))"
  "layers_wf (bb_buildpack_layers sample_bb)"
  by (simp_all add: sample_bb_def sample_descriptive_def sample_info_def info_string_def buildpack_info_string_def
      layers_wf_def sample_buildpack_layer_def)

theorem builder_image_deterministic_witness:
  "writeable_image sample_lib (sample_image_lib\<lparr>il_range := (\<lambda>_. rev), il_sort := stable_sort\<rparr>) sample_bb
     = writeable_image sample_lib sample_image_lib sample_bb"
  by (rule builder_image_deterministic [OF sample_image_lib_ok stable.slice_sort_axioms _ sample_bb_layers(1,2)])
     (simp add: range_ok_def)

text \<open>Whether some platform API of the lifecycle brings the relaxed contract for mixins.\<close>

definition relaxed_apis :: "lib \<Rightarrow> string list \<Rightarrow> bool" where
  "relaxed_apis L apis \<longleftrightarrow> (\<exists>a \<in> set apis. \<exists>v. lib_semver_new L a = Inr v \<and>
     \<not> lib_semver_less L v (must_parse L relaxedMixinMinPlatformAPI))"

lemma relaxed_mixin_contract_Inr: "relaxed_mixin_contract L apis = Inr b \<Longrightarrow> b = relaxed_apis L apis"
  by (induction apis) (auto simp: relaxed_apis_def split: sum.splits if_splits)

lemma diff_ids_set: "set (diff_ids ls) = {d. \<exists>l \<in> set ls. vl_diff_id l = Inr d}"
  by (induction ls) (auto split: sum.splits)

lemma diff_ids_mono: "set ls \<subseteq> set ms \<Longrightarrow> set (diff_ids ls) \<subseteq> set (diff_ids ms)"
  unfolding diff_ids_set by blast

definition platform_apis :: "builder_blder \<Rightarrow> string list" where
  "platform_apis bb = lm_platform_deprecated (bb_lifecycle_metadata bb) @ lm_platform_supported (bb_lifecycle_metadata bb)"

definition buildpack_apis :: "builder_blder \<Rightarrow> string list" where
  "buildpack_apis bb = lm_buildpack_deprecated (bb_lifecycle_metadata bb) @ lm_buildpack_supported (bb_lifecycle_metadata bb)"

lemma remdups_snoc: "remdups (xs @ [x]) = filter (\<lambda>y. y \<noteq> x) (remdups xs) @ [x]"
  by (induction xs) auto

lemma deduplicate_from_order:
  "diff_ids (deduplicate_layers_from seen ls) = filter (\<lambda>d. d \<notin> set seen) (rev (remdups (rev (diff_ids ls))))"
proof (induction seen ls rule: deduplicate_layers_from.induct)
  case (2 seen l ls)
  then show ?case by (auto simp: remdups_snoc rev_filter filter_filter conj_commute intro: filter_cong split: sum.splits)
qed simp

text \<open>Of the layers with one diff id only the first stays, and the layers keep their order.\<close>

lemma deduplicate_layers_order: "diff_ids (deduplicate_layers ls) = rev (remdups (rev (diff_ids ls)))"
  by (simp add: deduplicate_layers_def deduplicate_from_order)

lemma deterministic_sort_sorted:
  "slice_sort (il_sort IL) \<Longrightarrow> sorted_wrt (\<lambda>x y. \<not> bigger_first (size_of m) y x) (deterministic_sort_by_size IL n m)"
  unfolding deterministic_sort_by_size_def by (rule slice_sort.srt_sorted [OF _ bigger_first_weak_order])

text \<open>
  C16: A builder image is written only when the lifecycle supports a platform API that kpack knows and
  every buildpack fits: a buildpack that is no meta-buildpack uses a supported buildpack API and, if it
  lists stacks, one of them is the builder's (or any stack) and all the mixins it asks for are provided,
  by the relaxed contract from platform API 0.7 on. The image then adds to the layers of the base image, in this
  order, the layer of the default directories, the lifecycle, the layer of each buildpack with the bigger layers first
  (and the larger id and version first among layers of one size), the run image's file and the order; a layer
  whose diff id came before is left out. It carries the four labels of kpack, which additional labels cannot replace.
\<close>

theorem builder_image_sound:
  assumes "writeable_image L IL bb = Inr img" and "slice_sort (il_sort IL)" and "range_ok (il_range IL)"
    and "layers_wf (bb_buildpack_layers bb)"
  shows "(\<exists>a \<in> set supportedPlatformApis. a \<in> set (platform_apis bb)) \<and>
    (\<forall>(k, l) \<in> set (bb_buildpack_layers bb).
       buildpack_fits L (bl_layer_info l) (buildpack_apis bb) (bb_stack_id bb) (bb_mixins bb) (relaxed_apis L (platform_apis bb))) \<and>
    (let keys = deterministic_sort_by_size IL 0 (bb_buildpack_layers bb)
     in sorted_wrt (\<lambda>x y. \<not> bigger_first (size_of (bb_buildpack_layers bb)) y x) keys \<and>
       set keys = fst ` set (bb_buildpack_layers bb) \<and>
       (\<exists>dirs stack order all added. default_dirs_layer IL bb = Inr dirs \<and> stack_layer IL bb = Inr stack \<and>
          order_layer IL bb = Inr order \<and>
          all = [dirs, bb_lifecycle_layer bb] @ map (\<lambda>k. bl_layer (layer_of (bb_buildpack_layers bb) k)) keys @ [stack, order] \<and>
          oi_layers img = oi_layers (bb_base_image bb) @ added \<and> added = deduplicate_layers all \<and>
          diff_ids added = rev (remdups (rev (diff_ids all))) \<and> distinct (diff_ids added) \<and>
          (\<forall>(k, l) \<in> set (bb_buildpack_layers bb). set (diff_ids [bl_layer l]) \<subseteq> set (diff_ids added))) \<and>
       (\<forall>(k, r) \<in> set (image_labels IL bb keys). \<exists>v. r = Inr v \<and> oi_labels img k = Some v))"
proof -
  define keys where "keys = deterministic_sort_by_size IL 0 (bb_buildpack_layers bb)"
  note steps = writeable_image_steps [OF assms(1), folded keys_def]
  have keys: "set keys = fst ` set (bb_buildpack_layers bb)"
    unfolding keys_def by (rule deterministic_sort_set [OF assms(2,3)])
  have of_key: "layer_of (bb_buildpack_layers bb) k = l \<and> k \<in> set keys" if "(k, l) \<in> set (bb_buildpack_layers bb)" for k l
    using that assms(4) keys by (force simp: layer_of_def layers_wf_def)
  have apis: "\<exists>a \<in> set supportedPlatformApis. a \<in> set (platform_apis bb)"
    using steps(1) by (auto simp: validate_builder_def validate_platform_apis_def platform_apis_def list_ex_iff
        present_def Let_def bind_res_eq_Inr split: if_splits)
  have "validate_buildpacks L bb (platform_apis bb) (buildpack_apis bb) keys = Inr ()"
    using steps(1) by (auto simp: validate_builder_def platform_apis_def buildpack_apis_def Let_def bind_res_eq_Inr)
  then have fits: "buildpack_fits L (bl_layer_info l) (buildpack_apis bb) (bb_stack_id bb) (bb_mixins bb) (relaxed_apis L (platform_apis bb))"
    if "(k, l) \<in> set (bb_buildpack_layers bb)" for k l
    using validate_buildpacks_Inr [of L bb "platform_apis bb" "buildpack_apis bb" keys "()" k] of_key [OF that]
      relaxed_mixin_contract_Inr by auto
  obtain dl sl ol where tars: "default_dirs_layer IL bb = Inr dl" "stack_layer IL bb = Inr sl" "order_layer IL bb = Inr ol"
    and layers: "oi_layers img = oi_layers (bb_base_image bb) @ deduplicate_layers ([dl, bb_lifecycle_layer bb] @
        map (\<lambda>k. bl_layer (layer_of (bb_buildpack_layers bb) k)) keys @ [sl, ol])"
    using steps(3) by blast
  let ?all = "[dl, bb_lifecycle_layer bb] @ map (\<lambda>k. bl_layer (layer_of (bb_buildpack_layers bb) k)) keys @ [sl, ol]"
  have in_all: "set (diff_ids [bl_layer l]) \<subseteq> set (diff_ids (deduplicate_layers ?all))"
    if "(k, l) \<in> set (bb_buildpack_layers bb)" for k l
    unfolding deduplicate_layers_facts using of_key [OF that] by (intro diff_ids_mono) auto
  have labels: "\<exists>v. r = Inr v \<and> oi_labels img k = Some v" if "(k, r) \<in> set (image_labels IL bb keys)" for k r
    using steps(2) set_labels_Inr [OF _ image_labels_distinct that] by blast
  have sorted: "sorted_wrt (\<lambda>x y. \<not> bigger_first (size_of (bb_buildpack_layers bb)) y x) keys"
    unfolding keys_def by (rule deterministic_sort_sorted [OF assms(2)])
  have added: "\<exists>dirs stack order all added. default_dirs_layer IL bb = Inr dirs \<and> stack_layer IL bb = Inr stack \<and>
      order_layer IL bb = Inr order \<and>
      all = [dirs, bb_lifecycle_layer bb] @ map (\<lambda>k. bl_layer (layer_of (bb_buildpack_layers bb) k)) keys @ [stack, order] \<and>
      oi_layers img = oi_layers (bb_base_image bb) @ added \<and> added = deduplicate_layers all \<and>
      diff_ids added = rev (remdups (rev (diff_ids all))) \<and> distinct (diff_ids added) \<and>
      (\<forall>(k, l) \<in> set (bb_buildpack_layers bb). set (diff_ids [bl_layer l]) \<subseteq> set (diff_ids added))"
    using tars layers in_all deduplicate_layers_order [of ?all] deduplicate_layers_facts(1) [of ?all] by blast
  show ?thesis
    unfolding Let_def keys_def [symmetric] using apis fits sorted keys added labels by blast
qed

lemma sample_bb_writes: "\<not> isl (writeable_image sample_lib sample_image_lib sample_bb)"
  by code_simp

theorem builder_image_sound_witness:
  "\<exists>img v. writeable_image sample_lib sample_image_lib sample_bb = Inr img \<and>
     oi_labels img buildpackMetadataLabel = Some v"
proof -
  obtain img where img: "writeable_image sample_lib sample_image_lib sample_bb = Inr img"
    using sample_bb_writes by (cases "writeable_image sample_lib sample_image_lib sample_bb") auto
  from builder_image_sound [OF img sample_image_lib_ok sample_bb_layers(3)] img show ?thesis
    by (auto simp: image_labels_def Let_def)
qed

section \<open>Creating a builder\<close>

text \<open>
  Creating a builder writes to the registry only the copy of the run image, then at most one
  builder image, which was validated and holds the layer of every buildpack its order names and of every
  buildpack these depend on; and a signature is added last, only when the service account has signing
  secrets, for exactly the image that was saved. On any error nothing further is written.
\<close>

theorem builder_saved_when_complete:
  assumes "create_builder L IL RE v kcs (resolve_and_fetch K R) gen stack lc spec secrets builder_ref [] = Some (r, h)"
  shows "\<exists>pre post. h = pre @ post \<and>
     (\<forall>ev \<in> set pre. \<exists>img. ev = SaveImage (builder_ref @ ''-run-image'') img) \<and>
     (post = [] \<or> (\<exists>bb img. writeable_image L IL bb = Inr img \<and>
        builder_complete (names_buildpack (cb_lib K) R) bb \<and>
        (post = [SaveImage builder_ref img] \<or>
         secrets \<noteq> [] \<and> (\<exists>ident. rge_save RE pre (kc_builder kcs) builder_ref img = Inr ident \<and>
           post = [SaveImage builder_ref img, SignBuilder ident]))))"
proof -
  obtain pre post where h: "h = pre @ post"
    and pre: "list_all (\<lambda>ev. \<exists>img. ev = SaveImage (builder_ref @ ''-run-image'') img) pre"
    and post: "post = [] \<or> (\<exists>bb img reloc. prepare_builder IL RE v kcs (resolve_and_fetch K R) stack lc spec builder_ref [] =
          Some (Inr (bb, reloc), pre) \<and> writeable_image L IL bb = Inr img \<and>
        (post = [SaveImage builder_ref img] \<or>
         secrets \<noteq> [] \<and> (\<exists>ident. rge_save RE pre (kc_builder kcs) builder_ref img = Inr ident \<and>
           post = [SaveImage builder_ref img, SignBuilder ident])))"
    using create_builder_events [OF assms] by blast
  from post have "post = [] \<or> (\<exists>bb img. writeable_image L IL bb = Inr img \<and>
        builder_complete (names_buildpack (cb_lib K) R) bb \<and>
        (post = [SaveImage builder_ref img] \<or>
         secrets \<noteq> [] \<and> (\<exists>ident. rge_save RE pre (kc_builder kcs) builder_ref img = Inr ident \<and>
           post = [SaveImage builder_ref img, SignBuilder ident])))"
    using fetcher.prepare_builder_complete by blast
  with h pre show ?thesis unfolding list_all_iff by blast
qed

lemma resolve_and_fetch_info:
  "resolve_and_fetch K R b = Some (Inr i) \<Longrightarrow>
   \<exists>x. resolve (cb_lib K) R b = Some (Inr x) \<and> dbi_info (rbi_info i) = bpst_info (krb_buildpack x)"
  unfolding resolve_and_fetch_def bind_run_eq_Inr
  using fetch_buildpack_closed by (fastforce simp: descriptive_info_of_def)

text \<open>
  C17: The record of a builder that was created agrees with its specification: its order has the
  groups of the specification, each reference with the id and version of the buildpack it resolved to and
  optional where it was; every buildpack of the order is listed among the buildpacks of the image;
  and stack, lifecycle and generations are those it was made with.
\<close>

theorem created_builder_matches_spec:
  assumes "create_builder L IL RE v kcs (resolve_and_fetch K R) gen stack lc spec secrets builder_ref h = Some (Inr rec, h')"
    and "slice_sort (il_sort IL)" and "range_ok (il_range IL)"
  shows "list_all2 (\<lambda>g o_e. list_all2 (\<lambda>b r. bpref_optional r = bpref_optional (bbr_ref b) \<and>
        (\<exists>x. resolve (cb_lib K) R b = Some (Inr x) \<and> bpref_info r = bpst_info (krb_buildpack x)))
        (border_group g) (order_group o_e)) (bds_order spec) (br_order rec) \<and>
     (\<forall>o_e \<in> set (br_order rec). \<forall>r \<in> set (order_group o_e). \<exists>m \<in> set (br_buildpacks rec).
        bm_id m = bp_id (bpref_info r) \<and> bm_version m = bp_version (bpref_info r)) \<and>
     stack_id (br_stack rec) = rcs_id (stk_resolved stack) \<and>
     rl_version (br_lifecycle rec) = rl_version (clc_resolved lc) \<and>
     br_observed_stack_generation rec = st_observed_generation (stk_status stack) \<and>
     br_observed_store_generation rec = gen"
proof -
  obtain bb reloc h1 img ident signatures
    where prep: "prepare_builder IL RE v kcs (resolve_and_fetch K R) stack lc spec builder_ref h = Some (Inr (bb, reloc), h1)"
      and rec: "rec = builder_record_of IL bb stack lc gen ident reloc img signatures"
    using create_builder_Inr [OF assms(1)] by blast
  obtain bb0 bb1 where bb1: "add_groups (resolve_and_fetch K R) (bds_order spec) bb0 = Some (Inr bb1)"
      and bb0: "bb_order bb0 = []" and bb: "bb = add_additional_labels (bds_additional_labels spec) bb1"
    using prepare_builder_Inr [OF prep] by blast
  have order: "br_order rec = bb_order bb" by (simp add: rec builder_record_of_def)
  have "list_all2 (\<lambda>g o_e. list_all2 (\<lambda>b r. bpref_optional r = bpref_optional (bbr_ref b) \<and>
        (\<exists>x. resolve (cb_lib K) R b = Some (Inr x) \<and> bpref_info r = bpst_info (krb_buildpack x)))
        (border_group g) (order_group o_e)) (bds_order spec) (bb_order bb)"
    using add_groups_order [OF bb1] unfolding bb0 bb add_additional_labels_def
    by (auto elim!: list.rel_mono_strong dest!: resolve_and_fetch_info)
  moreover have "\<exists>m \<in> set (br_buildpacks rec). bm_id m = bp_id (bpref_info r) \<and> bm_version m = bp_version (bpref_info r)"
    if listed: "o_e \<in> set (bb_order bb)" "r \<in> set (order_group o_e)" for o_e r
  proof -
    obtain k where k: "k \<in> fst ` set (bb_buildpack_layers bb)" "dbi_info k = bpref_info r"
      using fetcher.prepare_builder_complete [OF prep] listed unfolding builder_complete_def by blast
    let ?m = "\<lparr>bm_id = bp_id (dbi_info k), bm_version = bp_version (dbi_info k), bm_homepage = dbi_homepage k\<rparr>"
    have "br_buildpacks rec = buildpack_metadata_list (deterministic_sort_by_size IL 1 (bb_buildpack_layers bb))"
      by (simp add: rec builder_record_of_def)
    then have "?m \<in> set (br_buildpacks rec)"
      unfolding buildpack_metadata_list_def using k(1) deterministic_sort_set [OF assms(2,3), of 1 "bb_buildpack_layers bb"]
      by (metis (no_types, lifting) image_eqI list.set_map)
    then show ?thesis using k(2) by (intro bexI [of _ ?m]) simp_all
  qed
  ultimately show ?thesis unfolding order by (simp add: rec builder_record_of_def)
qed

definition sample_stack :: cluster_stack where
  "sample_stack = \<lparr>stk_meta = empty_meta, stk_spec = \<lparr>css_id = ''jammy'', css_build_image = ''build'', css_run_image = ''run'',
       css_service_account_ref = None\<rparr>, stk_status = empty_status,
     stk_resolved = \<lparr>rcs_id = ''jammy'', rcs_build_image = \<lparr>csi_latest_image = ''build'', csi_image = ''''\<rparr>,
       rcs_run_image = \<lparr>csi_latest_image = ''run'', csi_image = ''''\<rparr>, rcs_mixins = [''git''], rcs_user_id = 1, rcs_group_id = 1\<rparr>\<rparr>"

definition sample_cluster_lifecycle :: cluster_lifecycle where
  "sample_cluster_lifecycle = \<lparr>clc_meta = empty_meta, clc_spec = \<lparr>cls_image = ''lifecycle'', cls_service_account_ref = None\<rparr>,
     clc_status = empty_status, clc_resolved = sample_lifecycle\<lparr>rl_platform_supported := [''0.7'']\<rparr>\<rparr>"

definition sample_fetched :: fetched_image where
  "sample_fetched = \<lparr>fi_image = sample_base, fi_manifest = Inr (Some [''sha256:9'']),
     fi_layer_by_digest = (\<lambda>d. Inr (sample_layer d)), fi_platform = Inr (Some (''linux'', ''amd64'', ''''))\<rparr>"

definition sample_reg_env :: reg_env where
  "sample_reg_env = \<lparr>rge_fetch = (\<lambda>_ _ _. Inr sample_fetched), rge_save = (\<lambda>_ _ n _. Inr (n @ ''@sha256:5'')),
     rge_sign = (\<lambda>_ _ _ _. Inr [])\<rparr>"

definition sample_builder_spec :: builder_spec where
  "sample_builder_spec = \<lparr>bds_tag = ''builder'', bds_stack = \<lparr>oref_kind = '''', oref_namespace = '''', oref_name = ''''\<rparr>,
     bds_lifecycle = \<lparr>oref_kind = '''', oref_namespace = '''', oref_name = ''''\<rparr>,
     bds_store = \<lparr>oref_kind = '''', oref_namespace = '''', oref_name = ''''\<rparr>,
     bds_order = [BuilderOrderEntry [plain_ref (sample_ref ''nodejs'' ''3'')]], bds_additional_labels = Map.empty\<rparr>"

definition sample_creation :: "(builder_record res \<times> reg_event list) option" where
  "sample_creation = create_builder sample_lib sample_image_lib sample_reg_env ''0.17''
     \<lparr>kc_builder = '''', kc_stack = '''', kc_lifecycle = ''''\<rparr> (resolve_and_fetch sample_cnb_lib sample_bpr) 1 sample_stack
     sample_cluster_lifecycle sample_builder_spec [] ''builder'' []"

declare layers_for_refs_simps [code]

definition event_target :: "reg_event \<Rightarrow> string" where
  "event_target ev = (case ev of SaveImage n _ \<Rightarrow> n | SignBuilder _ \<Rightarrow> ''signature'')"

lemma sample_creation_runs:
  "case sample_creation of
     Some (Inr rec, h) \<Rightarrow> map event_target h = [''builder-run-image'', ''builder''] \<and> length (br_order rec) = 1
   | _ \<Rightarrow> False"
  by code_simp

lemma sample_creation_ok:
  obtains rec h where "sample_creation = Some (Inr rec, h)"
    and "map event_target h = [''builder-run-image'', ''builder'']" and "length (br_order rec) = 1"
  using sample_creation_runs by (auto split: option.splits prod.splits sum.splits)

theorem builder_saved_when_complete_witness:
  "\<exists>r h. sample_creation = Some (r, h) \<and> length h = 2 \<and>
     (\<exists>bb img. writeable_image sample_lib sample_image_lib bb = Inr img \<and>
        builder_complete (names_buildpack sample_lib sample_bpr) bb)"
proof -
  obtain rec h where run: "sample_creation = Some (Inr rec, h)"
    and names: "map event_target h = [''builder-run-image'', ''builder'']"
    by (rule sample_creation_ok)
  have lib: "cb_lib sample_cnb_lib = sample_lib" by (simp add: sample_cnb_lib_def)
  note saved = builder_saved_when_complete [OF run [unfolded sample_creation_def], unfolded lib]
  from saved obtain pre post where h: "h = pre @ post"
    and pre: "\<forall>ev \<in> set pre. \<exists>img. ev = SaveImage (''builder'' @ ''-run-image'') img"
    and post: "post = [] \<or> (\<exists>bb img. writeable_image sample_lib sample_image_lib bb = Inr img \<and>
        builder_complete (names_buildpack sample_lib sample_bpr) bb)"
    by blast
  have "''builder'' \<in> set (map event_target h)" unfolding names by simp
  moreover have "''builder'' \<notin> set (map event_target pre)" using pre by (auto simp: event_target_def)
  ultimately have "post \<noteq> []" using h by auto
  moreover have "length h = 2" using arg_cong [OF names, of length] by simp
  ultimately show ?thesis using run post by blast
qed

theorem created_builder_matches_spec_witness:
  "\<exists>rec h o_e. sample_creation = Some (Inr rec, h) \<and> br_order rec = [o_e] \<and>
     map bpref_info (order_group o_e) = [sample_info ''nodejs'' ''3''] \<and>
     (\<exists>m \<in> set (br_buildpacks rec). bm_id m = ''nodejs'' \<and> bm_version m = ''3'')"
proof -
  obtain rec h where run: "sample_creation = Some (Inr rec, h)" and one: "length (br_order rec) = 1"
    by (rule sample_creation_ok)
  let ?b = "plain_ref (sample_ref ''nodejs'' ''3'')"
  have lib: "cb_lib sample_cnb_lib = sample_lib" by (simp add: sample_cnb_lib_def)
  note spec = created_builder_matches_spec [OF run [unfolded sample_creation_def] sample_image_lib_ok, unfolded lib]
  from one obtain o_e where o_e: "br_order rec = [o_e]" by (auto simp: length_Suc_conv)
  from spec o_e obtain r x where r: "order_group o_e = [r]" "bpref_info r = bpst_info (krb_buildpack x)"
      and x: "resolve sample_lib sample_bpr ?b = Some (Inr x)"
    by (auto simp: sample_builder_spec_def list_all2_Cons1)
  have "x \<in> set (candidates sample_bpr ''nodejs'')"
    using resolve_plain_candidates [OF x] by (simp add: sample_ref_def sample_info_def)
  then have "bpref_info r = sample_info ''nodejs'' ''3''"
    using r(2) by (auto simp: sample_candidates sample_with_id)
      (simp add: nodejs_3_def sample_status_def)
  moreover from this spec o_e r(1) have "\<exists>m \<in> set (br_buildpacks rec). bm_id m = ''nodejs'' \<and> bm_version m = ''3''"
    by (simp add: sample_info_def)
  ultimately show ?thesis
    using run o_e r(1) by (intro exI [of _ rec] exI [of _ h] exI [of _ o_e]) simp
qed

end
