(* ===== verification/Base64.thy ===== *)
theory Base64
  imports Kpack_Prelude
begin

text \<open>
  \<open>base64.StdEncoding\<close> of the Go library, over strings of bytes: the completion step of a build encodes its
  metadata with it, and the controller decodes the termination message.
\<close>

section \<open>The alphabet\<close>

definition b64_digit :: "nat \<Rightarrow> char" where
  "b64_digit n =
     (if n < 26 then char_of (n + 65) else if n < 52 then char_of (n + 71) else if n < 62 then char_of (n - 4)
      else if n = 62 then CHR ''+'' else CHR ''/'')"

definition b64_value :: "char \<Rightarrow> nat option" where
  "b64_value c =
     (let n = of_char c :: nat
      in if 65 \<le> n \<and> n \<le> 90 then Some (n - 65)
         else if 97 \<le> n \<and> n \<le> 122 then Some (n - 71)
         else if 48 \<le> n \<and> n \<le> 57 then Some (n + 4)
         else if n = 43 then Some 62 else if n = 47 then Some 63 else None)"

lemma b64_value_digit [simp]: "n < 64 \<Longrightarrow> b64_value (b64_digit n) = Some n"
  by (auto simp: b64_value_def b64_digit_def Let_def)

lemma b64_digit_no_special: "n < 64 \<Longrightarrow> b64_digit n \<noteq> CHR ''='' \<and> b64_digit n \<noteq> CHR 0x0A \<and> b64_digit n \<noteq> CHR 0x0D"
proof -
  assume "n < 64"
  then have "b64_value (b64_digit n) \<noteq> None" by simp
  moreover have "b64_value (CHR ''='') = None" "b64_value (CHR 0x0A) = None" "b64_value (CHR 0x0D) = None"
    by (simp_all add: b64_value_def)
  ultimately show ?thesis by metis
qed

section \<open>Encoding and decoding\<close>

abbreviation byte :: "char \<Rightarrow> nat" where "byte c \<equiv> of_char c"

fun b64_encode :: "string \<Rightarrow> string" where
  "b64_encode [] = []"
| "b64_encode [a] = [b64_digit (byte a div 4), b64_digit (byte a mod 4 * 16), CHR ''='', CHR ''='']"
| "b64_encode [a, b] =
     [b64_digit (byte a div 4), b64_digit (byte a mod 4 * 16 + byte b div 16), b64_digit (byte b mod 16 * 4), CHR ''='']"
| "b64_encode (a # b # c # cs) =
     b64_digit (byte a div 4) # b64_digit (byte a mod 4 * 16 + byte b div 16) #
     b64_digit (byte b mod 16 * 4 + byte c div 64) # b64_digit (byte c mod 64) # b64_encode cs"

text \<open>Padding may only end the text; trailing bits are ignored, as the non-strict decoder does.\<close>

fun b64_decode_quads :: "string \<Rightarrow> string option" where
  "b64_decode_quads [] = Some []"
| "b64_decode_quads (w # x # y # z # cs) =
     (case (b64_value w, b64_value x) of
        (Some i, Some j) \<Rightarrow>
          (if y = CHR ''='' then (if z = CHR ''='' \<and> cs = [] then Some [char_of (i * 4 + j div 16)] else None)
           else
             (case b64_value y of
                None \<Rightarrow> None
              | Some k \<Rightarrow>
                  (if z = CHR ''='' then
                     (if cs = [] then Some [char_of (i * 4 + j div 16), char_of (j mod 16 * 16 + k div 4)] else None)
                   else
                     (case (b64_value z, b64_decode_quads cs) of
                        (Some l, Some rest) \<Rightarrow>
                          Some (char_of (i * 4 + j div 16) # char_of (j mod 16 * 16 + k div 4) # char_of (k mod 4 * 64 + l) # rest)
                      | _ \<Rightarrow> None))))
      | _ \<Rightarrow> None)"
| "b64_decode_quads _ = None"

text \<open>The decoder skips line breaks.\<close>

definition b64_decode :: "string \<Rightarrow> string res" where
  "b64_decode s =
     (case b64_decode_quads (filter (\<lambda>c. c \<noteq> CHR 0x0A \<and> c \<noteq> CHR 0x0D) s) of
        None \<Rightarrow> Inl (Failed Plain ''illegal base64 data'')
      | Some t \<Rightarrow> Inr t)"

text \<open>\<open>EncodedLen\<close>\<close>

definition encoded_len :: "nat \<Rightarrow> nat" where "encoded_len n = (n + 2) div 3 * 4"

section \<open>Round trip\<close>

lemma byte_less [simp]: "byte c < 256"
  by (rule nat_of_char_less_256)

lemma length_b64_encode: "length (b64_encode s) = encoded_len (length s)"
proof (induction s rule: b64_encode.induct)
  case (4 a b c cs)
  have "(length cs + 3 + 2) div 3 = (length cs + 2) div 3 + 1"
    using div_add_self2 [of 3 "length cs + 2"] by (simp add: ac_simps)
  then show ?case using 4 by (simp add: encoded_len_def)
qed (simp_all add: encoded_len_def)

lemma div_mod_parts:
  fixes q r n :: nat
  assumes "r < n"
  shows "(q * n + r) div n = q" "(q * n + r) mod n = r"
  using assms by simp_all

lemma sextets:
  fixes a b c :: nat
  assumes "a < 256" and "b < 256" and "c < 256"
  shows "a div 4 < 64" "a mod 4 * 16 + b div 16 < 64" "b mod 16 * 4 + c div 64 < 64" "c mod 64 < 64"
    "a mod 4 * 16 < 64" "b mod 16 * 4 < 64"
    "a div 4 * 4 + (a mod 4 * 16 + b div 16) div 16 = a"
    "(a mod 4 * 16 + b div 16) mod 16 * 16 + (b mod 16 * 4 + c div 64) div 4 = b"
    "(b mod 16 * 4 + c div 64) mod 4 * 64 + c mod 64 = c"
    "a div 4 * 4 + (a mod 4 * 16) div 16 = a"
    "(a mod 4 * 16 + b div 16) mod 16 * 16 + (b mod 16 * 4) div 4 = b"
proof -
  have lt: "a div 4 < 64" "b div 16 < 16" "c div 64 < 4" using assms by (simp_all add: less_mult_imp_div_less)
  have md: "a mod 4 < 4" "b mod 16 < 16" "c mod 64 < 64" by simp_all
  have e: "a div 4 * 4 + a mod 4 = a" "b div 16 * 16 + b mod 16 = b" "c div 64 * 64 + c mod 64 = c" by (rule div_mult_mod_eq)+
  have ab: "(a mod 4 * 16 + b div 16) div 16 = a mod 4" "(a mod 4 * 16 + b div 16) mod 16 = b div 16"
    using div_mod_parts [OF lt(2), of "a mod 4"] by simp_all
  have bc: "(b mod 16 * 4 + c div 64) div 4 = b mod 16" "(b mod 16 * 4 + c div 64) mod 4 = c div 64"
    using div_mod_parts [OF lt(3), of "b mod 16"] by simp_all
  show "a div 4 < 64" "c mod 64 < 64" by (rule lt(1), rule md(3))
  show "a mod 4 * 16 + b div 16 < 64" "a mod 4 * 16 < 64" using lt(2) md(1) by linarith+
  show "b mod 16 * 4 + c div 64 < 64" "b mod 16 * 4 < 64" using lt(3) md(2) by linarith+
  show "a div 4 * 4 + (a mod 4 * 16 + b div 16) div 16 = a" "a div 4 * 4 + (a mod 4 * 16) div 16 = a"
    using ab e(1) by simp_all
  show "(a mod 4 * 16 + b div 16) mod 16 * 16 + (b mod 16 * 4 + c div 64) div 4 = b"
    "(a mod 4 * 16 + b div 16) mod 16 * 16 + (b mod 16 * 4) div 4 = b"
    unfolding ab bc using e(2) by simp_all
  show "(b mod 16 * 4 + c div 64) mod 4 * 64 + c mod 64 = c" unfolding bc by (rule e(3))
qed

lemma b64_decode_encode_quads: "b64_decode_quads (b64_encode s) = Some s"
proof (induction s rule: b64_encode.induct)
  case (2 a)
  note bounds = sextets [OF byte_less [of a] byte_less [of a] byte_less [of a]]
  show ?case using bounds(1,5,10) by (simp del: div_mult_self2 div_mult_self1 mod_mult_self1)
next
  case (3 a b)
  note bounds = sextets [OF byte_less [of a] byte_less [of b] byte_less [of b]]
  show ?case using bounds(1,2,6,7,11) b64_digit_no_special [OF bounds(6)] by simp
next
  case (4 a b c cs)
  note bounds = sextets [OF byte_less [of a] byte_less [of b] byte_less [of c]]
  show ?case
    using 4 bounds(1-4,7-9) b64_digit_no_special [OF bounds(3)] b64_digit_no_special [OF bounds(4)] by simp
qed simp

definition alphabet :: "char set" where "alphabet = insert (CHR ''='') (b64_digit ` {..<64})"

lemma in_alphabet: "n < 64 \<Longrightarrow> b64_digit n \<in> alphabet" "CHR ''='' \<in> alphabet"
  by (auto simp: alphabet_def)

lemma b64_encode_alphabet: "set (b64_encode s) \<subseteq> alphabet"
proof (induction s rule: b64_encode.induct)
  case (2 a)
  note bounds = sextets [OF byte_less [of a] byte_less [of a] byte_less [of a]]
  show ?case using in_alphabet(1) [OF bounds(1)] in_alphabet(1) [OF bounds(5)] in_alphabet(2) by simp
next
  case (3 a b)
  note bounds = sextets [OF byte_less [of a] byte_less [of b] byte_less [of b]]
  show ?case
    using in_alphabet(1) [OF bounds(1)] in_alphabet(1) [OF bounds(2)] in_alphabet(1) [OF bounds(6)] in_alphabet(2) by simp
next
  case (4 a b c cs)
  note bounds = sextets [OF byte_less [of a] byte_less [of b] byte_less [of c]]
  show ?case
    using 4 in_alphabet(1) [OF bounds(1)] in_alphabet(1) [OF bounds(2)] in_alphabet(1) [OF bounds(3)]
      in_alphabet(1) [OF bounds(4)] by simp
qed simp

lemma b64_encode_no_breaks: "c \<in> set (b64_encode s) \<Longrightarrow> c \<noteq> CHR 0x0A \<and> c \<noteq> CHR 0x0D"
proof -
  assume "c \<in> set (b64_encode s)"
  then have "c \<in> alphabet" by (rule subsetD [OF b64_encode_alphabet])
  then consider "c = CHR ''=''" | n where "n < 64" and "c = b64_digit n"
    unfolding alphabet_def by blast
  then show ?thesis
  proof cases
    case 1
    show ?thesis unfolding 1 by simp
  next
    case 2
    show ?thesis unfolding 2(2) using b64_digit_no_special [OF 2(1)] by simp
  qed
qed

theorem b64_roundtrip: "b64_decode (b64_encode s) = Inr s"
proof -
  have "filter (\<lambda>c. c \<noteq> CHR 0x0A \<and> c \<noteq> CHR 0x0D) (b64_encode s) = b64_encode s"
    using b64_encode_no_breaks by (auto simp: filter_id_conv)
  then show ?thesis by (simp add: b64_decode_def b64_decode_encode_quads)
qed

end
