(* ===== verification/Remote_Readers.thy ===== *)
theory Remote_Readers
  imports Builder_Image Build_Reconciler Base64
begin

text \<open>
  What kpack reads from images in the registry: the stack reader, the buildpack reader and the
  lifecycle reader of \<open>pkg/cnb\<close>, and the metadata of a built image (\<open>build_metadata.go\<close>), over the label
  and environment helpers of \<open>pkg/registry/imagehelpers\<close>. JSON documents are decoded by functions of the
  library.
\<close>

section \<open>Images as they are read\<close>

record oci_config =
  cfg_labels :: str_map
  cfg_env :: "string list"
  cfg_working_dir :: string

record layer_facts =
  lf_size :: "int res"
  lf_digest :: "string res"

record remote_image =
  ri_config :: "oci_config option res"
  ri_layer_by_diff_id :: "string \<Rightarrow> layer_facts res"

text \<open>\<open>strings.Split(s, c)\<close> for a separator of one character: never empty.\<close>

fun split_on :: "char \<Rightarrow> string \<Rightarrow> string list" where
  "split_on c [] = [[]]"
| "split_on c (x # xs) =
     (if x = c then [] # split_on c xs
      else case split_on c xs of [] \<Rightarrow> [[x]] | p # ps \<Rightarrow> (x # p) # ps)"

definition config_file :: "remote_image \<Rightarrow> oci_config res" where
  "config_file img =
     (case ri_config img of
        Inl e \<Rightarrow> Inl (wrap_err ''failed to get image config'' e)
      | Inr None \<Rightarrow> Inl (Failed Plain ''got nil image config'')
      | Inr (Some c) \<Rightarrow> Inr c)"

text \<open>An entry of the environment without \<open>=\<close> that is the key itself is an index out of range.\<close>

fun find_env :: "string \<Rightarrow> string list \<Rightarrow> string res" where
  "find_env key [] = Inl (Failed Plain (''ENV '' @ key @ '' not found''))"
| "find_env key (e # es) =
     (let parts = split_on (CHR ''='') e
      in if hd parts = key
         then (if length parts < 2 then Inl (Panic ''index out of range [1] with length 1'') else Inr (parts ! 1))
         else find_env key es)"

definition get_env :: "remote_image \<Rightarrow> string \<Rightarrow> string res" where
  "get_env img key = bind_res (config_file img) (\<lambda>c. find_env key (cfg_env c))"

definition has_label :: "remote_image \<Rightarrow> string \<Rightarrow> bool res" where
  "has_label img key = bind_res (config_file img) (\<lambda>c. Inr (cfg_labels c key \<noteq> None))"

definition get_string_label :: "remote_image \<Rightarrow> string \<Rightarrow> string res" where
  "get_string_label img key =
     bind_res (config_file img) (\<lambda>c.
       case cfg_labels c key of
         None \<Rightarrow> Inl (Failed Plain (''could not find label '' @ key))
       | Some v \<Rightarrow> Inr v)"

definition get_label :: "(string \<Rightarrow> 'a res) \<Rightarrow> remote_image \<Rightarrow> string \<Rightarrow> 'a res" where
  "get_label unmarshal img key = bind_res (get_string_label img key) unmarshal"

section \<open>Stacks\<close>

definition MixinsLabel :: string where "MixinsLabel = ''io.buildpacks.stack.mixins''"
definition StackLabel :: string where "StackLabel = ''io.buildpacks.stack.id''"
definition cnbUserId :: string where "cnbUserId = ''CNB_USER_ID''"
definition cnbGroupId :: string where "cnbGroupId = ''CNB_GROUP_ID''"

type_synonym fetch_image = "opaque \<Rightarrow> string \<Rightarrow> (remote_image \<times> string) res"

definition validate_stack_id :: "string \<Rightarrow> remote_image \<Rightarrow> remote_image \<Rightarrow> unit res" where
  "validate_stack_id stack build_image run_image =
     bind_res (get_string_label build_image StackLabel) (\<lambda>build_stack.
     bind_res (get_string_label run_image StackLabel) (\<lambda>run_stack.
     if build_stack \<noteq> stack \<or> run_stack \<noteq> stack
     then Inl (Failed Plain (''invalid stack images. expected stack: '' @ stack @ '', build image stack: '' @
            build_stack @ '', run image stack: '' @ run_stack))
     else Inr ()))"

definition read_mixins :: "(string \<Rightarrow> string list res) \<Rightarrow> remote_image \<Rightarrow> string list res" where
  "read_mixins unmarshal img =
     bind_res (has_label img MixinsLabel) (\<lambda>labelled.
       if \<not> labelled then Inr [] else get_label unmarshal img MixinsLabel)"

fun classify_mixins :: "string list \<Rightarrow> string \<Rightarrow> string \<Rightarrow> string list \<times> string list \<times> string list" where
  "classify_mixins [] valid_prefix invalid_prefix = ([], [], [])"
| "classify_mixins (m # ms) valid_prefix invalid_prefix =
     (case classify_mixins ms valid_prefix invalid_prefix of
        (valid, invalid, common) \<Rightarrow>
          if has_prefix m valid_prefix then (m # valid, invalid, common)
          else if has_prefix m invalid_prefix then (valid, m # invalid, common)
          else (valid, invalid, m # common))"

definition missing_common_run_mixins :: "string list \<Rightarrow> string list \<Rightarrow> string list" where
  "missing_common_run_mixins build run = filter (\<lambda>m. \<not> present run m) build"

definition stack_mixins :: "string list \<Rightarrow> string list \<Rightarrow> string list res" where
  "stack_mixins build run =
     (case classify_mixins build ''build:'' ''run:'' of (build_stage, build_invalid, build_common) \<Rightarrow>
      if length build_invalid > 0
      then Inl (Failed Plain (''build image contains run-only mixin(s): '' @ join '', '' build_invalid))
      else
        (case classify_mixins run ''run:'' ''build:'' of (run_stage, run_invalid, run_common) \<Rightarrow>
         if length run_invalid > 0
         then Inl (Failed Plain (''run image contains build-only mixin(s): '' @ join '', '' run_invalid))
         else
           (let missing = missing_common_run_mixins build_common run_common
            in if length missing \<noteq> 0
               then Inl (Failed Plain (''runImage missing required mixin(s): '' @ join '', '' missing))
               else Inr (build_common @ build_stage @ run_stage))))"

definition stack_cnb_id :: "remote_image \<Rightarrow> string \<Rightarrow> int res" where
  "stack_cnb_id img env =
     bind_res (get_env img env) (\<lambda>v. map_err (wrap_err (''env '' @ env)) (atoi v))"

text \<open>
  When the mixins of the two images do not agree the code returns the rest of the resolved stack beside the error; its
  only caller, the reconciler of stacks, drops it then, so an error alone stands for both.
\<close>

definition read_stack :: "fetch_image \<Rightarrow> (string \<Rightarrow> string list res) \<Rightarrow> opaque \<Rightarrow> cluster_stack_spec \<Rightarrow>
    resolved_cluster_stack res" where
  "read_stack fetch unmarshal keychain spec =
     bind_res (fetch keychain (css_build_image spec)) (\<lambda>(build_image, build_identifier).
     bind_res (fetch keychain (css_run_image spec)) (\<lambda>(run_image, run_identifier).
     bind_res (validate_stack_id (css_id spec) build_image run_image) (\<lambda>_.
     bind_res (map_err (wrap_err ''validating build image'') (stack_cnb_id build_image cnbUserId)) (\<lambda>user_id.
     bind_res (map_err (wrap_err ''validating build image'') (stack_cnb_id build_image cnbGroupId)) (\<lambda>group_id.
     bind_res (read_mixins unmarshal build_image) (\<lambda>build_mixins.
     bind_res (read_mixins unmarshal run_image) (\<lambda>run_mixins.
     bind_res (stack_mixins build_mixins run_mixins) (\<lambda>mixins.
     Inr \<lparr>rcs_id = css_id spec,
          rcs_build_image = \<lparr>csi_latest_image = build_identifier, csi_image = css_build_image spec\<rparr>,
          rcs_run_image = \<lparr>csi_latest_image = run_identifier, csi_image = css_run_image spec\<rparr>,
          rcs_mixins = mixins, rcs_user_id = user_id, rcs_group_id = group_id\<rparr>))))))))"

section \<open>Lifecycles\<close>

definition lifecycleBuilderMetadataLabel :: string where
  "lifecycleBuilderMetadataLabel = ''io.buildpacks.builder.metadata''"

record lifecycle_apis =
  la_buildpack_deprecated :: "string list"
  la_buildpack_supported :: "string list"
  la_platform_deprecated :: "string list"
  la_platform_supported :: "string list"

record lifecycle_descriptor =
  ld_version :: string
  ld_api_buildpack :: string
  ld_api_platform :: string

definition read_lifecycle :: "fetch_image \<Rightarrow> (string \<Rightarrow> lifecycle_descriptor res) \<Rightarrow> (string \<Rightarrow> lifecycle_apis res) \<Rightarrow>
    opaque \<Rightarrow> cluster_lifecycle_spec \<Rightarrow> resolved_lifecycle res" where
  "read_lifecycle fetch unmarshal_descriptor unmarshal_apis keychain spec =
     bind_res (fetch keychain (cls_image spec)) (\<lambda>(img, identifier).
     bind_res (get_label unmarshal_descriptor img lifecycleBuilderMetadataLabel) (\<lambda>descriptor.
     bind_res (get_label unmarshal_apis img lifecycleApisLabel) (\<lambda>apis.
     Inr \<lparr>rl_image_latest = identifier, rl_image = cls_image spec, rl_version = ld_version descriptor,
          rl_api_buildpack = ld_api_buildpack descriptor, rl_api_platform = ld_api_platform descriptor,
          rl_buildpack_deprecated = la_buildpack_deprecated apis, rl_buildpack_supported = la_buildpack_supported apis,
          rl_platform_deprecated = la_platform_deprecated apis, rl_platform_supported = la_platform_supported apis\<rparr>)))"

section \<open>Buildpackages\<close>

definition buildpackageMetadataLabel :: string where
  "buildpackageMetadataLabel = ''io.buildpacks.buildpackage.metadata''"

text \<open>
  The layers label is a map from ids to maps from versions; it is given with the order in which the
  two loops visit it.
\<close>

type_synonym layers_document = "(string \<times> (string \<times> buildpack_layer_info) list) list"

definition document_entries :: "layers_document \<Rightarrow> (buildpack_info \<times> buildpack_layer_info) list" where
  "document_entries doc = concat (map (\<lambda>(i, vs). map (\<lambda>(v, md). (\<lparr>bp_id = i, bp_version = v\<rparr>, md)) vs) doc)"

text \<open>
  The images are read by goroutines that send on one channel: \<open>sl_arrival\<close> is the order in which the
  statuses arrive, \<open>sl_first_error\<close> the error that \<open>errgroup\<close> keeps of those that occurred.
\<close>

record store_lib =
  sl_fetch :: fetch_image
  sl_new_hash :: "string \<Rightarrow> string res"
  sl_package :: "string \<Rightarrow> buildpackage_info res"
  sl_document :: "string \<Rightarrow> layers_document res"
  sl_arrival :: "buildpack_status list \<Rightarrow> buildpack_status list"
  sl_first_error :: "goerr list \<Rightarrow> goerr"
  sl_sort :: "(buildpack_status \<Rightarrow> buildpack_status \<Rightarrow> bool) \<Rightarrow> buildpack_status list \<Rightarrow> buildpack_status list"

definition store_layer :: "store_lib \<Rightarrow> remote_image \<Rightarrow> string \<Rightarrow> buildpackage_info \<Rightarrow>
    buildpack_info \<times> buildpack_layer_info \<Rightarrow> buildpack_status res" where
  "store_layer SL img store_image package entry =
     (case entry of (info, md) \<Rightarrow>
       bind_res (map_err (wrap_err (''unable to parse layer diffId for '' @ buildpack_info_string info))
                   (sl_new_hash SL (bli_layer_diff_id md))) (\<lambda>diff_id.
       bind_res (map_err (wrap_err (''unable to get layer '' @ buildpack_info_string info))
                   (ri_layer_by_diff_id img diff_id)) (\<lambda>layer.
       bind_res (map_err (wrap_err (''unable to get layer '' @ buildpack_info_string info @ '' size'')) (lf_size layer)) (\<lambda>sz.
       bind_res (map_err (wrap_err (''unable to get layer '' @ buildpack_info_string info @ '' digest'')) (lf_digest layer)) (\<lambda>digest.
       Inr \<lparr>bpst_info = info, bpst_buildpackage = package, bpst_store_image = store_image,
            bpst_diff_id = bli_layer_diff_id md, bpst_digest = digest, bpst_size = sz, bpst_api = bli_api md,
            bpst_homepage = bli_homepage md, bpst_order = bli_order md, bpst_stacks = bli_stacks md\<rparr>)))))"

fun send_layers :: "(buildpack_info \<times> buildpack_layer_info \<Rightarrow> buildpack_status res) \<Rightarrow>
    (buildpack_info \<times> buildpack_layer_info) list \<Rightarrow> buildpack_status list \<times> goerr option" where
  "send_layers status_of [] = ([], None)"
| "send_layers status_of (e # es) =
     (case status_of e of
        Inl err \<Rightarrow> ([], Some err)
      | Inr s \<Rightarrow> (case send_layers status_of es of (ss, err) \<Rightarrow> (s # ss, err)))"

definition package_of :: "store_lib \<Rightarrow> remote_image \<Rightarrow> buildpackage_info res" where
  "package_of SL img =
     bind_res (has_label img buildpackageMetadataLabel) (\<lambda>labelled.
       if labelled then get_label (sl_package SL) img buildpackageMetadataLabel
       else Inr \<lparr>bpkg_id = '''', bpkg_version = '''', bpkg_homepage = ''''\<rparr>)"

definition read_store_image :: "store_lib \<Rightarrow> opaque \<Rightarrow> string \<Rightarrow> buildpack_status list \<times> goerr option" where
  "read_store_image SL keychain store_image =
     (case bind_res (sl_fetch SL keychain store_image) (\<lambda>(img, _).
           bind_res (package_of SL img) (\<lambda>package.
           bind_res (get_label (sl_document SL) img buildpackLayersLabel) (\<lambda>doc. Inr (img, package, doc)))) of
        Inl e \<Rightarrow> ([], Some e)
      | Inr (img, package, doc) \<Rightarrow> send_layers (store_layer SL img store_image package) (document_entries doc))"

definition status_less :: "buildpack_status \<Rightarrow> buildpack_status \<Rightarrow> bool" where
  "status_less a b =
     (if buildpack_info_string (bpst_info a) = buildpack_info_string (bpst_info b)
      then bpst_store_image a < bpst_store_image b
      else buildpack_info_string (bpst_info a) < buildpack_info_string (bpst_info b))"

definition read_buildpacks :: "store_lib \<Rightarrow> opaque \<Rightarrow> string list \<Rightarrow> buildpack_status list \<times> goerr option" where
  "read_buildpacks SL keychain store_images =
     (let outcomes = map (read_store_image SL keychain) store_images;
          errs = List.map_filter snd outcomes
      in (sl_sort SL status_less (sl_arrival SL (concat (map fst outcomes))),
          if errs = [] then None else Some (sl_first_error SL errs)))"

section \<open>Built images\<close>

record app_image =
  bi_identifier :: string
  bi_buildpacks :: "buildpack_metadata list"
  bi_stack_run_image :: string
  bi_stack_id :: string
  bi_lifecycle_version :: string

text \<open>
  The labels of the lifecycle's platform package and the documents behind them: the buildpacks and the
  launcher version of the build, the reference of the run image and the run image of the stack.
\<close>

record metadata_lib =
  ml_cnb :: cnb_lib
  ml_fetch :: fetch_image
  ml_stack_label :: string
  ml_build_label :: string
  ml_lifecycle_label :: string
  ml_build_metadata :: "string \<Rightarrow> (buildpack_metadata list \<times> string) res"
  ml_layers :: "string \<Rightarrow> (string \<times> string) res"

text \<open>An image without the stack label is no error: it is read as an image with nothing in it.\<close>

definition read_built_image :: "metadata_lib \<Rightarrow> remote_image \<Rightarrow> string \<Rightarrow> app_image res" where
  "read_built_image ML img identifier =
     (case get_string_label img (ml_stack_label ML) of
        Inl e \<Rightarrow> Inr \<lparr>bi_identifier = '''', bi_buildpacks = [], bi_stack_run_image = '''', bi_stack_id = '''',
                    bi_lifecycle_version = ''''\<rparr>
      | Inr stack \<Rightarrow>
          bind_res (get_label (ml_build_metadata ML) img (ml_build_label ML)) (\<lambda>(buildpacks, launcher).
          bind_res (get_label (ml_layers ML) img (ml_lifecycle_label ML)) (\<lambda>(reference, stack_image).
          bind_res (lib_parse_reference (cb_lib (ml_cnb ML)) reference) (\<lambda>run_image_ref.
          bind_res (lib_parse_reference (cb_lib (ml_cnb ML)) stack_image) (\<lambda>base_image_ref.
          Inr \<lparr>bi_identifier = identifier, bi_buildpacks = buildpacks,
               bi_stack_run_image = cb_context_name (ml_cnb ML) base_image_ref @ ''@'' @ ref_identifier run_image_ref,
               bi_stack_id = stack, bi_lifecycle_version = launcher\<rparr>)))))"

definition get_built_image :: "metadata_lib \<Rightarrow> string \<Rightarrow> opaque \<Rightarrow> app_image res" where
  "get_built_image ML tag keychain =
     bind_res (map_err (wrap_err ''unable to fetch app image'') (ml_fetch ML keychain tag))
       (\<lambda>(img, identifier). read_built_image ML img identifier)"

definition get_cache_image :: "metadata_lib \<Rightarrow> string \<Rightarrow> opaque \<Rightarrow> string res" where
  "get_cache_image ML cache_tag keychain =
     (if cache_tag = '''' then Inr ''''
      else bind_res (map_err (wrap_err ''unable to fetch cache image'') (ml_fetch ML keychain cache_tag))
             (\<lambda>(_, identifier). Inr identifier))"

definition get_build_metadata :: "metadata_lib \<Rightarrow> string \<Rightarrow> string \<Rightarrow> opaque \<Rightarrow> build_metadata res" where
  "get_build_metadata ML built_image_ref cache_tag keychain =
     bind_res (get_built_image ML built_image_ref keychain) (\<lambda>built.
     (let cache = (case get_cache_image ML cache_tag keychain of Inl e \<Rightarrow> '''' | Inr c \<Rightarrow> c)
      in Inr \<lparr>bmd_buildpacks = bi_buildpacks built, bmd_latest_cache_image = cache,
              bmd_latest_image = bi_identifier built, bmd_stack_id = bi_stack_id built,
              bmd_stack_run_image = bi_stack_run_image built, bmd_lifecycle_version = bi_lifecycle_version built\<rparr>))"

text \<open>The message in which the completion step hands the metadata over, at most 4096 bytes.\<close>

record codec =
  cd_marshal :: "build_metadata \<Rightarrow> string res"
  cd_unmarshal :: "string \<Rightarrow> build_metadata res"
  cd_gzip :: "string \<Rightarrow> string res"
  cd_gunzip :: "string \<Rightarrow> string res"

definition maxTerminationMessageSize :: nat where "maxTerminationMessageSize = 4096"

definition compress_build_metadata :: "codec \<Rightarrow> build_metadata \<Rightarrow> string res" where
  "compress_build_metadata CD md =
     bind_res (cd_marshal CD md) (\<lambda>data.
     bind_res (cd_gzip CD data) (\<lambda>src.
     if encoded_len (length src) > maxTerminationMessageSize
     then Inl (Failed Plain ''compressed metadata size too large'')
     else Inr (b64_encode src)))"

definition decompress_build_metadata :: "codec \<Rightarrow> string \<Rightarrow> build_metadata res" where
  "decompress_build_metadata CD compressed =
     bind_res (b64_decode compressed) (\<lambda>zip_data.
     bind_res (cd_gunzip CD zip_data) (cd_unmarshal CD))"

section \<open>Facts\<close>

lemma classify_mixins_eq:
  "classify_mixins ms p q =
     (filter (\<lambda>m. has_prefix m p) ms, filter (\<lambda>m. \<not> has_prefix m p \<and> has_prefix m q) ms,
      filter (\<lambda>m. \<not> has_prefix m p \<and> \<not> has_prefix m q) ms)"
  by (induction ms) auto

text \<open>What a mixin says about the stage it belongs to.\<close>

definition build_only :: "string \<Rightarrow> bool" where "build_only m \<longleftrightarrow> (\<exists>x. m = ''build:'' @ x)"
definition run_only :: "string \<Rightarrow> bool" where "run_only m \<longleftrightarrow> (\<exists>x. m = ''run:'' @ x)"

lemma stages_disjoint: "\<not> (build_only m \<and> run_only m)"
  by (auto simp: build_only_def run_only_def)

definition mixins_agree :: "string list \<Rightarrow> string list \<Rightarrow> bool" where
  "mixins_agree build run \<longleftrightarrow>
     (\<forall>m \<in> set build. \<not> run_only m) \<and> (\<forall>m \<in> set run. \<not> build_only m) \<and>
     (\<forall>m \<in> set build. build_only m \<or> m \<in> set run)"

lemma filter_stages:
  "filter (\<lambda>m. \<not> has_prefix m p \<and> has_prefix m q) ms = [] \<longleftrightarrow> (\<forall>m \<in> set ms. has_prefix m q \<longrightarrow> has_prefix m p)"
  by (auto simp: filter_empty_conv)

lemma stack_mixins_iff:
  "stack_mixins build run = Inr ms \<longleftrightarrow> mixins_agree build run \<and>
     ms = filter (\<lambda>m. \<not> build_only m) build @ filter build_only build @ filter run_only run"
proof -
  have stage: "has_prefix m ''build:'' = build_only m" "has_prefix m ''run:'' = run_only m" for m
    by (simp_all add: has_prefix_iff build_only_def run_only_def)
  have disj: "\<not> (build_only m \<and> run_only m)" for m by (rule stages_disjoint)
  show ?thesis
  proof (cases "(\<forall>m \<in> set build. \<not> run_only m) \<and> (\<forall>m \<in> set run. \<not> build_only m)")
    case False
    then show ?thesis
      using disj by (auto simp: stack_mixins_def classify_mixins_eq stage mixins_agree_def filter_empty_conv Let_def)
  next
    case True
    then have inv: "filter (\<lambda>m. \<not> build_only m \<and> run_only m) build = []"
        "filter (\<lambda>m. \<not> run_only m \<and> build_only m) run = []"
      and common: "filter (\<lambda>m. \<not> build_only m \<and> \<not> run_only m) build = filter (\<lambda>m. \<not> build_only m) build"
        "filter (\<lambda>m. \<not> run_only m \<and> \<not> build_only m) run = filter (\<lambda>m. \<not> run_only m) run"
      by (auto simp: filter_empty_conv intro!: filter_cong)
    have "filter (\<lambda>m. \<not> present (filter (\<lambda>m. \<not> run_only m) run) m) (filter (\<lambda>m. \<not> build_only m) build) = []
        \<longleftrightarrow> (\<forall>m \<in> set build. build_only m \<or> m \<in> set run)"
      using True by (auto simp: filter_empty_conv present_def)
    then show ?thesis
      unfolding stack_mixins_def classify_mixins_eq stage prod.case inv common missing_common_run_mixins_def mixins_agree_def
      using True by (auto simp: Let_def)
  qed
qed

lemma read_stack_Inr:
  assumes "read_stack fetch unmarshal keychain spec = Inr rs"
  shows "\<exists>bi bid ri rid bm rm. fetch keychain (css_build_image spec) = Inr (bi, bid) \<and>
    fetch keychain (css_run_image spec) = Inr (ri, rid) \<and>
    get_string_label bi StackLabel = Inr (css_id spec) \<and> get_string_label ri StackLabel = Inr (css_id spec) \<and>
    read_mixins unmarshal bi = Inr bm \<and> read_mixins unmarshal ri = Inr rm \<and> stack_mixins bm rm = Inr (rcs_mixins rs) \<and>
    rcs_id rs = css_id spec \<and> csi_latest_image (rcs_build_image rs) = bid \<and> csi_latest_image (rcs_run_image rs) = rid"
proof -
  obtain bi bid ri rid where f: "fetch keychain (css_build_image spec) = Inr (bi, bid)"
      "fetch keychain (css_run_image spec) = Inr (ri, rid)"
    and v: "validate_stack_id (css_id spec) bi ri = Inr ()"
    and rest: "\<exists>uid gid bm rm ms. read_mixins unmarshal bi = Inr bm \<and> read_mixins unmarshal ri = Inr rm \<and>
      stack_mixins bm rm = Inr ms \<and> rs = \<lparr>rcs_id = css_id spec,
          rcs_build_image = \<lparr>csi_latest_image = bid, csi_image = css_build_image spec\<rparr>,
          rcs_run_image = \<lparr>csi_latest_image = rid, csi_image = css_run_image spec\<rparr>,
          rcs_mixins = ms, rcs_user_id = uid, rcs_group_id = gid\<rparr>"
    using assms unfolding read_stack_def by (auto simp: bind_res_eq_Inr)
  have "get_string_label bi StackLabel = Inr (css_id spec)" "get_string_label ri StackLabel = Inr (css_id spec)"
    using v by (auto simp: validate_stack_id_def bind_res_eq_Inr split: if_splits)
  with f rest show ?thesis by force
qed

subsection \<open>The order of a store\<close>

lemma status_less_weak_order: "weak_order status_less"
  unfolding weak_order_def status_less_def by (auto split: if_splits)

text \<open>A sorted list is determined by its elements when elements that tie are equal.\<close>

lemma sorted_wrt_mset_unique:
  assumes "sorted_wrt P xs" and "sorted_wrt P ys" and "mset xs = mset ys"
    and "\<And>a b. a \<in> set xs \<Longrightarrow> b \<in> set xs \<Longrightarrow> P a b \<Longrightarrow> P b a \<Longrightarrow> a = b"
  shows "xs = ys"
  using assms
proof (induction xs arbitrary: ys)
  case (Cons x xs)
  then obtain y zs where ys: "ys = y # zs" by (cases ys) auto
  have sets: "set (x # xs) = set ys" using Cons.prems(3) by (metis set_mset_mset)
  have "x = y"
  proof (rule ccontr)
    assume "x \<noteq> y"
    then have "x \<in> set zs" "y \<in> set xs" using sets ys by auto
    then have "P x y" "P y x" using Cons.prems(1,2) ys by auto
    with Cons.prems(4) \<open>y \<in> set xs\<close> \<open>x \<noteq> y\<close> show False by auto
  qed
  moreover from this have "mset xs = mset zs" using Cons.prems(3) ys by simp
  ultimately show ?case using Cons.IH [of zs] Cons.prems ys by simp
qed simp

definition status_key :: "buildpack_status \<Rightarrow> string \<times> string" where
  "status_key s = (buildpack_info_string (bpst_info s), bpst_store_image s)"

lemma status_less_ties: "\<not> status_less a b \<Longrightarrow> \<not> status_less b a \<Longrightarrow> status_key a = status_key b"
  by (auto simp: status_less_def status_key_def split: if_splits)

definition arrives_all :: "store_lib \<Rightarrow> bool" where
  "arrives_all SL \<longleftrightarrow> (\<forall>xs. mset (sl_arrival SL xs) = mset xs)"

definition sent_statuses :: "store_lib \<Rightarrow> opaque \<Rightarrow> string list \<Rightarrow> buildpack_status list" where
  "sent_statuses SL kc srcs = concat (map (\<lambda>i. fst (read_store_image SL kc i)) srcs)"

lemma read_buildpacks_list:
  "fst (read_buildpacks SL kc srcs) = sl_sort SL status_less (sl_arrival SL (sent_statuses SL kc srcs))"
  by (simp add: read_buildpacks_def sent_statuses_def Let_def comp_def)

lemma read_buildpacks_error:
  "snd (read_buildpacks SL kc srcs) = None \<longleftrightarrow> (\<forall>i \<in> set srcs. snd (read_store_image SL kc i) = None)"
  by (induction srcs) (auto simp: read_buildpacks_def Let_def List.map_filter_simps split: option.split)

lemma read_buildpacks_facts:
  assumes "slice_sort (sl_sort SL)" and "arrives_all SL"
  shows "mset (fst (read_buildpacks SL kc srcs)) = mset (sent_statuses SL kc srcs)"
    and "sorted_wrt (\<lambda>a b. \<not> status_less b a) (fst (read_buildpacks SL kc srcs))"
  unfolding read_buildpacks_list
  using slice_sort.srt_mset [OF assms(1)] slice_sort.srt_sorted [OF assms(1) status_less_weak_order] assms(2)
  by (simp_all add: arrives_all_def)

lemma send_layers_all:
  "send_layers f es = (ss, None) \<Longrightarrow> list_all2 (\<lambda>e s. f e = Inr s) es ss"
  by (induction es arbitrary: ss) (auto split: sum.splits prod.splits)

lemma read_store_image_ok:
  assumes "read_store_image SL kc i = (ss, None)"
  shows "\<exists>img ident pkg doc. sl_fetch SL kc i = Inr (img, ident) \<and> package_of SL img = Inr pkg \<and>
    get_label (sl_document SL) img buildpackLayersLabel = Inr doc \<and>
    list_all2 (\<lambda>e s. store_layer SL img i pkg e = Inr s) (document_entries doc) ss"
proof -
  obtain img ident pkg doc where f: "sl_fetch SL kc i = Inr (img, ident)" "package_of SL img = Inr pkg"
      "get_label (sl_document SL) img buildpackLayersLabel = Inr doc"
    and s: "send_layers (store_layer SL img i pkg) (document_entries doc) = (ss, None)"
    using assms unfolding read_store_image_def
    by (auto simp: bind_res_eq_Inr split: sum.splits prod.splits)
  from send_layers_all [OF s] f show ?thesis by blast
qed

subsection \<open>The message with the metadata\<close>

text \<open>What the JSON and gzip codecs of the standard library promise.\<close>

definition codec_ok :: "codec \<Rightarrow> bool" where
  "codec_ok CD \<longleftrightarrow>
     (\<forall>md data. cd_marshal CD md = Inr data \<longrightarrow> cd_unmarshal CD data = Inr md) \<and>
     (\<forall>s z. cd_gzip CD s = Inr z \<longrightarrow> cd_gunzip CD z = Inr s)"

lemma compress_roundtrip:
  assumes "codec_ok CD" and "compress_build_metadata CD md = Inr msg"
  shows "decompress_build_metadata CD msg = Inr md \<and> length msg \<le> maxTerminationMessageSize"
proof -
  obtain data src where d: "cd_marshal CD md = Inr data" "cd_gzip CD data = Inr src"
      "\<not> encoded_len (length src) > maxTerminationMessageSize" "msg = b64_encode src"
    using assms(2) unfolding compress_build_metadata_def by (auto simp: bind_res_eq_Inr split: if_splits)
  with assms(1) show ?thesis
    by (simp add: codec_ok_def decompress_build_metadata_def b64_roundtrip length_b64_encode)
qed

end
