(* ===== verification/Resource_Reconcilers.thy ===== *)
theory Resource_Reconcilers
  imports Remote_Readers
begin

text \<open>
  The reconcilers of stacks, lifecycles, stores, buildpacks and cluster buildpacks
  (\<open>pkg/reconciler/clusterstack\<close>, \<open>clusterlifecycle\<close>, \<open>clusterstore\<close>, \<open>buildpack\<close>, \<open>clusterbuildpack\<close>) and the
  wrapper of \<open>network_error_reconciler.go\<close>. Each reads images with the keychain of its service account and
  reports what it read, or the error, in the status.
\<close>

section \<open>The environment\<close>

text \<open>The one call that such a reconciler makes: it writes the status of its object.\<close>

datatype 'r status_event = WriteStatus 'r

record 'r res_env =
  re_now :: int
  re_split_key :: "string \<Rightarrow> (string \<times> string) res"
  re_get :: "'r status_event list \<Rightarrow> string \<Rightarrow> string \<Rightarrow> 'r res"
  re_keychain :: "'r status_event list \<Rightarrow> secret_ref \<Rightarrow> opaque res"
  re_update :: "'r status_event list \<Rightarrow> 'r \<Rightarrow> unit res"

type_synonym ('r, 'a) res_io = "('r status_event, 'a) io"

text \<open>\<open>Reconcile\<close>, the same text in all five files: an object that is gone is no error, and an error of the
  update takes precedence over the error of the reading. Cluster-wide objects ignore the namespace of the key.\<close>

definition reconcile_resource :: "bool \<Rightarrow> 'r res_env \<Rightarrow> ('r \<Rightarrow> ('r, 'r \<times> goerr option) res_io) \<Rightarrow> ('r \<Rightarrow> ('r, unit) res_io) \<Rightarrow>
    string \<Rightarrow> ('r, unit) res_io" where
  "reconcile_resource namespaced E reconcile_status update_status key =
     bind_io (lift_io (re_split_key E key)) (\<lambda>(ns, nm).
     attempt_io (read_io (\<lambda>h. re_get E h (if namespaced then ns else '''') nm)) (\<lambda>r.
       case r of
         Inl e \<Rightarrow> (if is_not_found e then ret_io () else fail_io e)
       | Inr x \<Rightarrow>
           bind_io (reconcile_status x) (\<lambda>(x', err).
           bind_io (update_status x') (\<lambda>_.
             case err of None \<Rightarrow> ret_io () | Some e \<Rightarrow> fail_io e))))"

section \<open>Stacks\<close>

definition stack_with_status :: "status \<Rightarrow> resolved_cluster_stack \<Rightarrow> cluster_stack \<Rightarrow> cluster_stack" where
  "stack_with_status st resolved s = s\<lparr>stk_status := st, stk_resolved := resolved\<rparr>"

definition empty_resolved_stack :: resolved_cluster_stack where
  "empty_resolved_stack = \<lparr>rcs_id = '''', rcs_build_image = \<lparr>csi_latest_image = '''', csi_image = ''''\<rparr>,
     rcs_run_image = \<lparr>csi_latest_image = '''', csi_image = ''''\<rparr>, rcs_mixins = [], rcs_user_id = 0, rcs_group_id = 0\<rparr>"

definition reconcile_cluster_stack_status :: "cluster_stack res_env \<Rightarrow> (opaque \<Rightarrow> cluster_stack_spec \<Rightarrow> resolved_cluster_stack res) \<Rightarrow>
    cluster_stack \<Rightarrow> (cluster_stack, cluster_stack \<times> goerr option) res_io" where
  "reconcile_cluster_stack_status E reader s =
     (let failed = \<lambda>e. (stack_with_status (create_status_with_ready_condition (re_now E) (meta_generation (stk_meta s)) (Some e))
                          empty_resolved_stack s, Some e)
      in attempt_io (read_io (\<lambda>h. re_keychain E h (account_secret_ref (css_service_account_ref (stk_spec s))))) (\<lambda>r.
           case r of
             Inl e \<Rightarrow> ret_io (failed e)
           | Inr keychain \<Rightarrow> attempt_io (lift_io (reader keychain (stk_spec s))) (\<lambda>r.
               case r of
                 Inl e \<Rightarrow> ret_io (failed e)
               | Inr resolved \<Rightarrow> ret_io (stack_with_status
                   (create_status_with_ready_condition (re_now E) (meta_generation (stk_meta s)) None) resolved s, None))))"

definition update_cluster_stack_status :: "cluster_stack res_env \<Rightarrow> cluster_stack \<Rightarrow> (cluster_stack, unit) res_io" where
  "update_cluster_stack_status E desired0 =
     (let desired = desired0\<lparr>stk_status := (stk_status desired0)\<lparr>st_observed_generation := meta_generation (stk_meta desired0)\<rparr>\<rparr>
      in bind_io (read_io (\<lambda>h. re_get E h '''' (meta_name (stk_meta desired)))) (\<lambda>original.
           if status_semantic_eq (stk_status desired) (stk_status original) \<and> stk_resolved desired = stk_resolved original
           then ret_io ()
           else call_io (WriteStatus desired) (\<lambda>h. re_update E h desired)))"

definition reconcile_cluster_stack :: "cluster_stack res_env \<Rightarrow> (opaque \<Rightarrow> cluster_stack_spec \<Rightarrow> resolved_cluster_stack res) \<Rightarrow>
    string \<Rightarrow> (cluster_stack, unit) res_io" where
  "reconcile_cluster_stack E reader =
     reconcile_resource False E (reconcile_cluster_stack_status E reader) (update_cluster_stack_status E)"

section \<open>Lifecycles\<close>

definition lifecycle_with_status :: "status \<Rightarrow> resolved_lifecycle \<Rightarrow> cluster_lifecycle \<Rightarrow> cluster_lifecycle" where
  "lifecycle_with_status st resolved s = s\<lparr>clc_status := st, clc_resolved := resolved\<rparr>"

definition empty_resolved_lifecycle :: resolved_lifecycle where
  "empty_resolved_lifecycle = \<lparr>rl_image_latest = '''', rl_image = '''', rl_version = '''', rl_api_buildpack = '''',
     rl_api_platform = '''', rl_buildpack_deprecated = [], rl_buildpack_supported = [], rl_platform_deprecated = [],
     rl_platform_supported = []\<rparr>"

definition reconcile_cluster_lifecycle_status :: "cluster_lifecycle res_env \<Rightarrow>
    (opaque \<Rightarrow> cluster_lifecycle_spec \<Rightarrow> resolved_lifecycle res) \<Rightarrow> cluster_lifecycle \<Rightarrow>
    (cluster_lifecycle, cluster_lifecycle \<times> goerr option) res_io" where
  "reconcile_cluster_lifecycle_status E reader s =
     (let failed = \<lambda>e. (lifecycle_with_status (create_status_with_ready_condition (re_now E) (meta_generation (clc_meta s)) (Some e))
                          empty_resolved_lifecycle s, Some e)
      in attempt_io (read_io (\<lambda>h. re_keychain E h (account_secret_ref (cls_service_account_ref (clc_spec s))))) (\<lambda>r.
           case r of
             Inl e \<Rightarrow> ret_io (failed e)
           | Inr keychain \<Rightarrow> attempt_io (lift_io (reader keychain (clc_spec s))) (\<lambda>r.
               case r of
                 Inl e \<Rightarrow> ret_io (failed e)
               | Inr resolved \<Rightarrow> ret_io (lifecycle_with_status
                   (create_status_with_ready_condition (re_now E) (meta_generation (clc_meta s)) None) resolved s, None))))"

definition update_cluster_lifecycle_status :: "cluster_lifecycle res_env \<Rightarrow> cluster_lifecycle \<Rightarrow> (cluster_lifecycle, unit) res_io" where
  "update_cluster_lifecycle_status E desired0 =
     (let desired = desired0\<lparr>clc_status := (clc_status desired0)\<lparr>st_observed_generation := meta_generation (clc_meta desired0)\<rparr>\<rparr>
      in bind_io (read_io (\<lambda>h. re_get E h '''' (meta_name (clc_meta desired)))) (\<lambda>original.
           if status_semantic_eq (clc_status desired) (clc_status original) \<and> clc_resolved desired = clc_resolved original
           then ret_io ()
           else call_io (WriteStatus desired) (\<lambda>h. re_update E h desired)))"

definition reconcile_cluster_lifecycle :: "cluster_lifecycle res_env \<Rightarrow>
    (opaque \<Rightarrow> cluster_lifecycle_spec \<Rightarrow> resolved_lifecycle res) \<Rightarrow> string \<Rightarrow> (cluster_lifecycle, unit) res_io" where
  "reconcile_cluster_lifecycle E reader =
     reconcile_resource False E (reconcile_cluster_lifecycle_status E reader) (update_cluster_lifecycle_status E)"

section \<open>Stores and buildpacks\<close>

text \<open>A store reader returns what it could read and an error; with an error the buildpacks are dropped.\<close>

type_synonym store_reader = "opaque \<Rightarrow> string list \<Rightarrow> buildpack_status list \<times> goerr option"

definition reading :: "'a \<times> goerr option \<Rightarrow> 'a res" where
  "reading r = (case snd r of None \<Rightarrow> Inr (fst r) | Some e \<Rightarrow> Inl e)"

definition store_with_status :: "status \<Rightarrow> buildpack_status list \<Rightarrow> cluster_store \<Rightarrow> cluster_store" where
  "store_with_status st bps s = s\<lparr>sto_status := st, sto_buildpacks := bps\<rparr>"

definition reconcile_cluster_store_status :: "cluster_store res_env \<Rightarrow> store_reader \<Rightarrow> cluster_store \<Rightarrow>
    (cluster_store, cluster_store \<times> goerr option) res_io" where
  "reconcile_cluster_store_status E reader s =
     (let failed = \<lambda>e. (store_with_status (create_status_with_ready_condition (re_now E) (meta_generation (sto_meta s)) (Some e)) [] s, Some e)
      in attempt_io (read_io (\<lambda>h. re_keychain E h (account_secret_ref (csp_service_account_ref (sto_spec s))))) (\<lambda>r.
           case r of
             Inl e \<Rightarrow> ret_io (failed e)
           | Inr keychain \<Rightarrow> attempt_io (lift_io (reading (reader keychain (csp_sources (sto_spec s))))) (\<lambda>r.
               case r of
                 Inl e \<Rightarrow> ret_io (failed e)
               | Inr bps \<Rightarrow> ret_io (store_with_status
                   (create_status_with_ready_condition (re_now E) (meta_generation (sto_meta s)) None) bps s, None))))"

definition update_cluster_store_status :: "cluster_store res_env \<Rightarrow> cluster_store \<Rightarrow> (cluster_store, unit) res_io" where
  "update_cluster_store_status E desired0 =
     (let desired = desired0\<lparr>sto_status := (sto_status desired0)\<lparr>st_observed_generation := meta_generation (sto_meta desired0)\<rparr>\<rparr>
      in bind_io (read_io (\<lambda>h. re_get E h '''' (meta_name (sto_meta desired)))) (\<lambda>original.
           if status_semantic_eq (sto_status desired) (sto_status original) \<and> sto_buildpacks desired = sto_buildpacks original
           then ret_io ()
           else call_io (WriteStatus desired) (\<lambda>h. re_update E h desired)))"

definition reconcile_cluster_store :: "cluster_store res_env \<Rightarrow> store_reader \<Rightarrow> string \<Rightarrow> (cluster_store, unit) res_io" where
  "reconcile_cluster_store E reader =
     reconcile_resource False E (reconcile_cluster_store_status E reader) (update_cluster_store_status E)"

definition buildpack_with_status :: "status \<Rightarrow> buildpack_status list \<Rightarrow> buildpack \<Rightarrow> buildpack" where
  "buildpack_with_status st bps s = s\<lparr>bpk_status := st, bpk_buildpacks := bps\<rparr>"

text \<open>A buildpack without a service account is read with the empty reference, not that of its namespace.\<close>

definition buildpack_reader_ref :: "buildpack \<Rightarrow> secret_ref" where
  "buildpack_reader_ref s = (if bps_service_account_name (bpk_spec s) \<noteq> '''' then buildpack_secret_ref s else empty_secret_ref)"

definition reconcile_buildpack_status :: "buildpack res_env \<Rightarrow> store_reader \<Rightarrow> buildpack \<Rightarrow>
    (buildpack, buildpack \<times> goerr option) res_io" where
  "reconcile_buildpack_status E reader s =
     (let failed = \<lambda>e. (buildpack_with_status (create_status_with_ready_condition (re_now E) (meta_generation (bpk_meta s)) (Some e)) [] s, Some e)
      in attempt_io (read_io (\<lambda>h. re_keychain E h (buildpack_reader_ref s))) (\<lambda>r.
           case r of
             Inl e \<Rightarrow> ret_io (failed e)
           | Inr keychain \<Rightarrow> attempt_io (lift_io (reading (reader keychain [bps_image (bpk_spec s)]))) (\<lambda>r.
               case r of
                 Inl e \<Rightarrow> ret_io (failed e)
               | Inr bps \<Rightarrow> ret_io (buildpack_with_status
                   (create_status_with_ready_condition (re_now E) (meta_generation (bpk_meta s)) None) bps s, None))))"

definition update_buildpack_status :: "buildpack res_env \<Rightarrow> buildpack \<Rightarrow> (buildpack, unit) res_io" where
  "update_buildpack_status E desired0 =
     (let desired = desired0\<lparr>bpk_status := (bpk_status desired0)\<lparr>st_observed_generation := meta_generation (bpk_meta desired0)\<rparr>\<rparr>
      in bind_io (read_io (\<lambda>h. re_get E h (meta_namespace (bpk_meta desired)) (meta_name (bpk_meta desired)))) (\<lambda>original.
           if status_semantic_eq (bpk_status desired) (bpk_status original) \<and> bpk_buildpacks desired = bpk_buildpacks original
           then ret_io ()
           else call_io (WriteStatus desired) (\<lambda>h. re_update E h desired)))"

definition reconcile_buildpack :: "buildpack res_env \<Rightarrow> store_reader \<Rightarrow> string \<Rightarrow> (buildpack, unit) res_io" where
  "reconcile_buildpack E reader =
     reconcile_resource True E (reconcile_buildpack_status E reader) (update_buildpack_status E)"

definition cluster_buildpack_with_status :: "status \<Rightarrow> buildpack_status list \<Rightarrow> cluster_buildpack \<Rightarrow> cluster_buildpack" where
  "cluster_buildpack_with_status st bps s = s\<lparr>cbp_status := st, cbp_buildpacks := bps\<rparr>"

definition reconcile_cluster_buildpack_status :: "cluster_buildpack res_env \<Rightarrow> store_reader \<Rightarrow> cluster_buildpack \<Rightarrow>
    (cluster_buildpack, cluster_buildpack \<times> goerr option) res_io" where
  "reconcile_cluster_buildpack_status E reader s =
     (let failed = \<lambda>e. (cluster_buildpack_with_status (create_status_with_ready_condition (re_now E) (meta_generation (cbp_meta s)) (Some e)) [] s, Some e)
      in attempt_io (read_io (\<lambda>h. re_keychain E h (account_secret_ref (cbps_service_account_ref (cbp_spec s))))) (\<lambda>r.
           case r of
             Inl e \<Rightarrow> ret_io (failed e)
           | Inr keychain \<Rightarrow> attempt_io (lift_io (reading (reader keychain [cbps_image (cbp_spec s)]))) (\<lambda>r.
               case r of
                 Inl e \<Rightarrow> ret_io (failed e)
               | Inr bps \<Rightarrow> ret_io (cluster_buildpack_with_status
                   (create_status_with_ready_condition (re_now E) (meta_generation (cbp_meta s)) None) bps s, None))))"

definition update_cluster_buildpack_status :: "cluster_buildpack res_env \<Rightarrow> cluster_buildpack \<Rightarrow> (cluster_buildpack, unit) res_io" where
  "update_cluster_buildpack_status E desired0 =
     (let desired = desired0\<lparr>cbp_status := (cbp_status desired0)\<lparr>st_observed_generation := meta_generation (cbp_meta desired0)\<rparr>\<rparr>
      in bind_io (read_io (\<lambda>h. re_get E h '''' (meta_name (cbp_meta desired)))) (\<lambda>original.
           if status_semantic_eq (cbp_status desired) (cbp_status original) \<and> cbp_buildpacks desired = cbp_buildpacks original
           then ret_io ()
           else call_io (WriteStatus desired) (\<lambda>h. re_update E h desired)))"

definition reconcile_cluster_buildpack :: "cluster_buildpack res_env \<Rightarrow> store_reader \<Rightarrow> string \<Rightarrow> (cluster_buildpack, unit) res_io" where
  "reconcile_cluster_buildpack E reader =
     reconcile_resource False E (reconcile_cluster_buildpack_status E reader) (update_cluster_buildpack_status E)"

section \<open>Network errors\<close>

text \<open>Only network errors are worth another try; every other error becomes permanent.\<close>

definition network_error_reconcile :: "('e, unit) io \<Rightarrow> ('e, unit) io" where
  "network_error_reconcile m =
     attempt_io m (\<lambda>r. case r of
         Inr _ \<Rightarrow> ret_io ()
       | Inl (Failed NetworkErr t) \<Rightarrow> fail_io (Failed NetworkErr t)
       | Inl e \<Rightarrow> fail_io (new_permanent_error e))"

section \<open>What they share\<close>

text \<open>
  The interface of the five: an object with a status and a content, a reading that depends on its
  specification only, and the two steps of the reconciler written in these terms.
\<close>

lemma create_status_semantic_eq:
  "status_semantic_eq (create_status_with_ready_condition t g e) (create_status_with_ready_condition t' g e)"
  by (simp add: create_status_with_ready_condition_def status_semantic_eq_def Let_def split: option.split)

locale status_resource =
  fixes meta :: "'r \<Rightarrow> object_meta"
    and status_of :: "'r \<Rightarrow> status"
    and content :: "'r \<Rightarrow> 'c"
    and put :: "status \<Rightarrow> 'c \<Rightarrow> 'r \<Rightarrow> 'r"
    and nothing :: 'c
    and look :: "'r res_env \<Rightarrow> 'r status_event list \<Rightarrow> 'r \<Rightarrow> 'c res"
    and reconcile_status :: "'r res_env \<Rightarrow> 'r \<Rightarrow> ('r, 'r \<times> goerr option) res_io"
    and update_status :: "'r res_env \<Rightarrow> 'r \<Rightarrow> ('r, unit) res_io"
    and namespaced :: bool
    and home :: "'r \<Rightarrow> string"
  assumes meta_put: "meta (put s c x) = meta x"
    and status_put: "status_of (put s c x) = s"
    and content_put: "content (put s c x) = c"
    and put_put: "put s c (put s' c' x) = put s c x"
    and look_put: "look E h (put s c x) = look E h x"
    and look_get: "look (E\<lparr>re_get := g\<rparr>) h x = look E h x"
    and look_now: "look (E\<lparr>re_now := t\<rparr>) h x = look E h x"
    and reconcile_status_eq: "reconcile_status E x h =
      (case look E h x of
         Inl (Panic p) \<Rightarrow> (Inl (Panic p), h)
       | Inl (Failed k t) \<Rightarrow> (Inr (put (create_status_with_ready_condition (re_now E) (meta_generation (meta x)) (Some (Failed k t))) nothing x,
           Some (Failed k t)), h)
       | Inr c \<Rightarrow> (Inr (put (create_status_with_ready_condition (re_now E) (meta_generation (meta x)) None) c x, None), h))"
    and update_status_eq: "st_observed_generation (status_of x) = meta_generation (meta x) \<Longrightarrow> update_status E x h =
      (case re_get E h (home x) (meta_name (meta x)) of
         Inl e \<Rightarrow> (Inl e, h)
       | Inr original \<Rightarrow> if status_semantic_eq (status_of x) (status_of original) \<and> content x = content original then (Inr (), h)
                       else (re_update E h x, h @ [WriteStatus x]))"
begin

definition reading_error :: "'r res_env \<Rightarrow> 'r \<Rightarrow> goerr option" where
  "reading_error E x = (case look E [] x of Inl e \<Rightarrow> Some e | Inr _ \<Rightarrow> None)"

definition reading_content :: "'r res_env \<Rightarrow> 'r \<Rightarrow> 'c" where
  "reading_content E x = (case look E [] x of Inl e \<Rightarrow> nothing | Inr c \<Rightarrow> c)"

definition report :: "'r res_env \<Rightarrow> 'r \<Rightarrow> 'r" where
  "report E x = put (create_status_with_ready_condition (re_now E) (meta_generation (meta x)) (reading_error E x))
     (reading_content E x) x"

definition up_to_date :: "'r res_env \<Rightarrow> 'r \<Rightarrow> bool" where
  "up_to_date E x \<longleftrightarrow> status_semantic_eq (status_of (report E x)) (status_of x) \<and> content (report E x) = content x"

lemma report_status: "reconcile_status E x [] =
  (case look E [] x of Inl (Panic p) \<Rightarrow> (Inl (Panic p), []) | _ \<Rightarrow> (Inr (report E x, reading_error E x), []))"
  by (auto simp: reconcile_status_eq report_def reading_error_def reading_content_def split: sum.split goerr.split)


text \<open>On an object that the lister returns for any name, a reconcile writes at most the report.\<close>

abbreviation run :: "'r res_env \<Rightarrow> string \<Rightarrow> ('r, unit) res_io" where
  "run E \<equiv> reconcile_resource namespaced E (reconcile_status E) (update_status E)"

lemma update_report:
  assumes "\<And>h ns nm. re_get E h ns nm = Inr x"
  shows "snd (update_status E (report E x) h) = (if up_to_date E x then h else h @ [WriteStatus (report E x)])"
proof -
  have "st_observed_generation (status_of (report E x)) = meta_generation (meta (report E x))"
    by (simp add: report_def status_put meta_put create_status_with_ready_condition_def Let_def)
  from update_status_eq [OF this, of E] show ?thesis by (simp add: assms up_to_date_def)
qed

lemma run_trace:
  assumes "\<And>h ns nm. re_get E h ns nm = Inr x"
  shows "snd (run E key []) =
    (if (\<exists>e. re_split_key E key = Inl e) \<or> (\<exists>p. look E [] x = Inl (Panic p)) \<or> up_to_date E x then []
     else [WriteStatus (report E x)])"
proof (cases "re_split_key E key")
  case (Inl e)
  then show ?thesis by (simp add: reconcile_resource_def io_simps)
next
  case (Inr k)
  obtain ns nm where k: "k = (ns, nm)" by (cases k)
  show ?thesis
  proof (cases "\<exists>p. look E [] x = Inl (Panic p)")
    case True
    then obtain p where "look E [] x = Inl (Panic p)" by blast
    with Inr k show ?thesis by (simp add: reconcile_resource_def io_simps assms report_status)
  next
    case False
    then have status: "reconcile_status E x [] = (Inr (report E x, reading_error E x), [])"
      by (auto simp: report_status split: sum.split goerr.split)
    have "snd (run E key []) = snd (update_status E (report E x) [])"
      by (simp add: reconcile_resource_def io_simps assms status Inr k split: sum.split option.split)
    with False Inr show ?thesis by (simp add: update_report [OF assms])
  qed
qed

lemma report_up_to_date: "up_to_date (E\<lparr>re_get := g, re_now := t\<rparr>) (report E x)"
  by (simp add: up_to_date_def report_def reading_error_def reading_content_def look_put look_get look_now meta_put
      put_put status_put content_put create_status_semantic_eq)

lemma settled:
  "case snd (run (E\<lparr>re_get := \<lambda>_ _ _. Inr x\<rparr>) key []) of
     [] \<Rightarrow> True
   | [WriteStatus y] \<Rightarrow> snd (run (E\<lparr>re_get := \<lambda>_ _ _. Inr y, re_now := t\<rparr>) key' []) = []
   | _ \<Rightarrow> False"
proof -
  let ?E = "E\<lparr>re_get := \<lambda>_ _ _. Inr x\<rparr>"
  have again: "snd (run (E\<lparr>re_get := \<lambda>_ _ _. Inr (report ?E x), re_now := t\<rparr>) key' []) = []"
    using report_up_to_date [where E = ?E and g = "\<lambda>_ _ _. Inr (report ?E x)" and t = t and x = x]
    by (subst run_trace [where x = "report ?E x"]) simp_all
  then show ?thesis by (subst run_trace [where x = x]) simp_all
qed

text \<open>The written status is ready exactly when the reading succeeded, and holds what was read.\<close>

lemma written:
  assumes "\<And>h ns nm. re_get E h ns nm = Inr x" and "snd (run E key []) = [WriteStatus y]"
  shows "meta y = meta x \<and> st_observed_generation (status_of y) = meta_generation (meta x) \<and>
    content y = reading_content E x \<and>
    (is_true (get_condition (status_of y) ConditionReady) \<longleftrightarrow> reading_error E x = None) \<and>
    put (status_of x) (content x) y = put (status_of x) (content x) x"
proof -
  have "y = report E x" using assms(2) by (subst (asm) run_trace [OF assms(1)]) (auto split: if_splits)
  then show ?thesis
    by (simp add: report_def meta_put status_put content_put put_put create_status_ready_iff)
       (simp add: create_status_with_ready_condition_def Let_def)
qed

end

text \<open>The keychain and then the registry, as one reading.\<close>

definition look_with :: "('r \<Rightarrow> secret_ref) \<Rightarrow> (opaque \<Rightarrow> 'r \<Rightarrow> 'c res) \<Rightarrow> 'r res_env \<Rightarrow> 'r status_event list \<Rightarrow> 'r \<Rightarrow> 'c res" where
  "look_with secret rd E h x = bind_res (re_keychain E h (secret x)) (\<lambda>kc. rd kc x)"

lemma same_generation: "st_observed_generation s = g \<Longrightarrow> s\<lparr>st_observed_generation := g\<rparr> = s"
  by simp

lemma same_status:
  "stk_status x = s \<Longrightarrow> x\<lparr>stk_status := s\<rparr> = x" "clc_status l = s \<Longrightarrow> l\<lparr>clc_status := s\<rparr> = l"
  "sto_status t = s \<Longrightarrow> t\<lparr>sto_status := s\<rparr> = t" "bpk_status b = s \<Longrightarrow> b\<lparr>bpk_status := s\<rparr> = b"
  "cbp_status c = s \<Longrightarrow> c\<lparr>cbp_status := s\<rparr> = c"
  by simp_all

lemmas status_steps = look_with_def Let_def io_simps bind_res_def same_generation same_status

interpretation stacks: status_resource stk_meta stk_status stk_resolved stack_with_status empty_resolved_stack
    "look_with (\<lambda>s. account_secret_ref (css_service_account_ref (stk_spec s))) (\<lambda>kc s. reader kc (stk_spec s))"
    "\<lambda>E. reconcile_cluster_stack_status E reader" update_cluster_stack_status False "\<lambda>_. ''''" for reader
  by unfold_locales
    (auto simp: stack_with_status_def reconcile_cluster_stack_status_def update_cluster_stack_status_def status_steps
       split: sum.split goerr.split)

interpretation lifecycles: status_resource clc_meta clc_status clc_resolved lifecycle_with_status empty_resolved_lifecycle
    "look_with (\<lambda>s. account_secret_ref (cls_service_account_ref (clc_spec s))) (\<lambda>kc s. reader kc (clc_spec s))"
    "\<lambda>E. reconcile_cluster_lifecycle_status E reader" update_cluster_lifecycle_status False "\<lambda>_. ''''" for reader
  by unfold_locales
    (auto simp: lifecycle_with_status_def reconcile_cluster_lifecycle_status_def update_cluster_lifecycle_status_def status_steps
       split: sum.split goerr.split)

interpretation stores: status_resource sto_meta sto_status sto_buildpacks store_with_status "[]"
    "look_with (\<lambda>s. account_secret_ref (csp_service_account_ref (sto_spec s))) (\<lambda>kc s. reading (reader kc (csp_sources (sto_spec s))))"
    "\<lambda>E. reconcile_cluster_store_status E reader" update_cluster_store_status False "\<lambda>_. ''''" for reader
  by unfold_locales
    (auto simp: store_with_status_def reconcile_cluster_store_status_def update_cluster_store_status_def status_steps
       split: sum.split goerr.split)

interpretation buildpacks: status_resource bpk_meta bpk_status bpk_buildpacks buildpack_with_status "[]"
    "look_with buildpack_reader_ref (\<lambda>kc s. reading (reader kc [bps_image (bpk_spec s)]))"
    "\<lambda>E. reconcile_buildpack_status E reader" update_buildpack_status True "\<lambda>s. meta_namespace (bpk_meta s)" for reader
  by unfold_locales
    (auto simp: buildpack_with_status_def reconcile_buildpack_status_def update_buildpack_status_def status_steps
       buildpack_reader_ref_def buildpack_secret_ref_def split: sum.split goerr.split)

interpretation cluster_buildpacks: status_resource cbp_meta cbp_status cbp_buildpacks cluster_buildpack_with_status "[]"
    "look_with (\<lambda>s. account_secret_ref (cbps_service_account_ref (cbp_spec s))) (\<lambda>kc s. reading (reader kc [cbps_image (cbp_spec s)]))"
    "\<lambda>E. reconcile_cluster_buildpack_status E reader" update_cluster_buildpack_status False "\<lambda>_. ''''" for reader
  by unfold_locales
    (auto simp: cluster_buildpack_with_status_def reconcile_cluster_buildpack_status_def
       update_cluster_buildpack_status_def status_steps split: sum.split goerr.split)

end
