(* ===== verification/Builder_Reconcilers.thy ===== *)
theory Builder_Reconcilers
  imports Create_Builder Resource_Reconcilers Image_Reconciler
begin

text \<open>
  \<open>pkg/reconciler/builder\<close> and \<open>pkg/reconciler/clusterbuilder\<close>: a builder is rebuilt from its stack,
  lifecycle, store and buildpacks, all of which it tracks; the image is made by the creator of
  \<open>Create_Builder\<close>, and the outcome goes to the status.
\<close>

section \<open>The environment\<close>

text \<open>What the reconciler hands to \<open>CreateBuilder\<close>.\<close>

record creation_request =
  crq_keychains :: keychains
  crq_resolver :: buildpack_resolver
  crq_stack :: cluster_stack
  crq_lifecycle :: cluster_lifecycle
  crq_spec :: builder_spec
  crq_secrets :: "secret list"
  crq_ref :: string

datatype 'b builder_event =
    BTrack key namespaced_name
  | BTrackKind string namespaced_name
  | CreateImage creation_request
  | WriteBuilder 'b

record cluster_builder =
  cbd_meta :: object_meta
  cbd_spec :: cluster_builder_spec
  cbd_status :: builder_status

text \<open>\<open>Context().Tag(t).Name()\<close> and \<open>Name()\<close> of a parsed reference come from the registry library.\<close>

record 'b builder_env =
  bde_now :: int
  bde_lib :: lib
  bde_tag_name :: "image_ref \<Rightarrow> string \<Rightarrow> string"
  bde_ref_name :: "image_ref \<Rightarrow> string"
  bde_split_key :: "string \<Rightarrow> (string \<times> string) res"
  bde_get_builder :: "'b builder_event list \<Rightarrow> string \<Rightarrow> string \<Rightarrow> 'b res"
  bde_get_store :: "'b builder_event list \<Rightarrow> string \<Rightarrow> cluster_store res"
  bde_list_buildpacks :: "'b builder_event list \<Rightarrow> string \<Rightarrow> buildpack list res"
  bde_list_cluster_buildpacks :: "'b builder_event list \<Rightarrow> cluster_buildpack list res"
  bde_get_stack :: "'b builder_event list \<Rightarrow> string \<Rightarrow> cluster_stack res"
  bde_get_lifecycle :: "'b builder_event list \<Rightarrow> string \<Rightarrow> cluster_lifecycle res"
  bde_keychain :: "'b builder_event list \<Rightarrow> secret_ref \<Rightarrow> opaque res"
  bde_secrets :: "'b builder_event list \<Rightarrow> string \<Rightarrow> string \<Rightarrow> secret list res"
  bde_create :: "'b builder_event list \<Rightarrow> creation_request \<Rightarrow> builder_record res"
  bde_update :: "'b builder_event list \<Rightarrow> 'b \<Rightarrow> unit res"

type_synonym ('b, 'a) bd_io = "('b builder_event, 'a) io"

section \<open>Steps of both reconcilers\<close>

definition meta_namespaced_name :: "object_meta \<Rightarrow> namespaced_name" where
  "meta_namespaced_name m = \<lparr>nn_namespace = meta_namespace m, nn_name = meta_name m\<rparr>"

definition cluster_key :: "string \<Rightarrow> string \<Rightarrow> key" where
  "cluster_key kind nm = \<lparr>key_name = \<lparr>nn_namespace = '''', nn_name = nm\<rparr>, key_group = ''kpack.io'', key_kind = kind\<rparr>"

definition track_object :: "string \<Rightarrow> string \<Rightarrow> namespaced_name \<Rightarrow> ('b, unit) bd_io" where
  "track_object kind nm who = call_io (BTrack (cluster_key kind nm) who) (\<lambda>_. Inr ())"

definition track_kind :: "string \<Rightarrow> namespaced_name \<Rightarrow> ('b, unit) bd_io" where
  "track_kind kind who = call_io (BTrackKind kind who) (\<lambda>_. Inr ())"

definition lifecycle_name :: "builder_spec \<Rightarrow> string" where
  "lifecycle_name spec = (if oref_name (bds_lifecycle spec) = '''' then DefaultLifecycleName else oref_name (bds_lifecycle spec))"

definition builder_store :: "'b builder_env \<Rightarrow> builder_spec \<Rightarrow> namespaced_name \<Rightarrow> ('b, cluster_store option) bd_io" where
  "builder_store E spec who =
     (if oref_name (bds_store spec) \<noteq> ''''
      then bind_io (track_object ClusterStoreKind (oref_name (bds_store spec)) who) (\<lambda>_.
           bind_io (read_io (\<lambda>h. bde_get_store E h (oref_name (bds_store spec)))) (\<lambda>s. ret_io (Some s)))
      else ret_io None)"

text \<open>The keychain of the stack or lifecycle: that of its own service account, or else the builder's.\<close>

definition own_keychain :: "'b builder_env \<Rightarrow> opaque \<Rightarrow> object_reference option \<Rightarrow> ('b, opaque) bd_io" where
  "own_keychain E builder_keychain account =
     (case account of
        None \<Rightarrow> ret_io builder_keychain
      | Some a \<Rightarrow> read_io (\<lambda>h. bde_keychain E h (account_secret_ref (Some a))))"

definition to_lower_char :: "char \<Rightarrow> char" where
  "to_lower_char c = (let n = of_char c :: nat in if 65 \<le> n \<and> n \<le> 90 then char_of (n + 32) else c)"

definition to_lower :: "string \<Rightarrow> string" where
  "to_lower s = map to_lower_char s"

definition resolve_ref :: "'b builder_env \<Rightarrow> string \<Rightarrow> string \<Rightarrow> string res" where
  "resolve_ref E tag default_tag =
     bind_res (lib_parse_reference (bde_lib E) tag) (\<lambda>ref.
       if ref_identifier ref = ''latest'' then Inr (bde_tag_name E ref default_tag) else Inr (bde_ref_name E ref))"

text \<open>\<open>equality.Semantic.DeepEqual\<close> of two statuses does not look at the times of conditions.\<close>

definition builder_status_equal :: "builder_status \<Rightarrow> builder_status \<Rightarrow> bool" where
  "builder_status_equal a b \<longleftrightarrow> status_semantic_eq (bds_status a) (bds_status b) \<and> a\<lparr>bds_status := bds_status b\<rparr> = b"

section \<open>Builders\<close>

definition resolve_builder_image_ref :: "builder builder_env \<Rightarrow> builder \<Rightarrow> string res" where
  "resolve_builder_image_ref E b =
     resolve_ref E (bds_tag (nbs_builder (bd_spec b)))
       (to_lower BuilderKind @ ''-'' @ meta_namespace (bd_meta b) @ ''-'' @ meta_name (bd_meta b))"

definition reconcile_builder :: "builder builder_env \<Rightarrow> builder \<Rightarrow> (builder, builder_record) bd_io" where
  "reconcile_builder E b =
     (let spec = nbs_builder (bd_spec b); who = meta_namespaced_name (bd_meta b);
          ns = meta_namespace (bd_meta b); account = builder_service_account (bd_spec b)
      in bind_io (track_object ClusterStackKind (oref_name (bds_stack spec)) who) (\<lambda>_.
         bind_io (track_object ClusterLifecycleKind (lifecycle_name spec) who) (\<lambda>_.
         bind_io (builder_store E spec who) (\<lambda>store.
         bind_io (track_kind BuildpackKind who) (\<lambda>_.
         bind_io (track_kind ClusterBuildpackKind who) (\<lambda>_.
         bind_io (read_io (\<lambda>h. bde_list_buildpacks E h ns)) (\<lambda>bps.
         bind_io (read_io (\<lambda>h. bde_list_cluster_buildpacks E h)) (\<lambda>cbps.
         bind_io (read_io (\<lambda>h. bde_get_stack E h (oref_name (bds_stack spec)))) (\<lambda>stack.
         if \<not> is_true (get_condition (stk_status stack) ConditionReady)
         then fail_io (Failed Plain (''Error: clusterstack '' @ quoted (meta_name (stk_meta stack)) @ '' is not ready''))
         else
         bind_io (read_io (\<lambda>h. bde_get_lifecycle E h (lifecycle_name spec))) (\<lambda>lc.
         if \<not> is_true (get_condition (clc_status lc) ConditionReady)
         then fail_io (Failed Plain (''Error: clusterlifecycle '' @ quoted (meta_name (clc_meta lc)) @ '' is not ready''))
         else
         bind_io (read_io (\<lambda>h. bde_keychain E h (empty_secret_ref\<lparr>sref_service_account := account, sref_namespace := ns\<rparr>))) (\<lambda>kc.
         bind_io (own_keychain E kc (css_service_account_ref (stk_spec stack))) (\<lambda>stack_kc.
         bind_io (own_keychain E kc (cls_service_account_ref (clc_spec lc))) (\<lambda>lc_kc.
         bind_io (read_io (\<lambda>h. bde_secrets E h account ns)) (\<lambda>secrets.
         bind_io (lift_io (resolve_builder_image_ref E b)) (\<lambda>ref.
         (let rq = \<lparr>crq_keychains = \<lparr>kc_builder = kc, kc_stack = stack_kc, kc_lifecycle = lc_kc\<rparr>,
                crq_resolver = \<lparr>bpr_clusterstore = store, bpr_buildpacks = bps, bpr_cluster_buildpacks = cbps\<rparr>,
                crq_stack = stack, crq_lifecycle = lc, crq_spec = spec, crq_secrets = secrets, crq_ref = ref\<rparr>
          in call_io (CreateImage rq) (\<lambda>h. bde_create E h rq)))))))))))))))))"

definition update_builder_status :: "builder builder_env \<Rightarrow> builder \<Rightarrow> (builder, unit) bd_io" where
  "update_builder_status E desired0 =
     (let desired = desired0\<lparr>bd_status := (bd_status desired0)\<lparr>bds_status :=
            (bds_status (bd_status desired0))\<lparr>st_observed_generation := meta_generation (bd_meta desired0)\<rparr>\<rparr>\<rparr>
      in bind_io (read_io (\<lambda>h. bde_get_builder E h (meta_namespace (bd_meta desired)) (meta_name (bd_meta desired)))) (\<lambda>original.
           if builder_status_equal (bd_status desired) (bd_status original) then ret_io ()
           else call_io (WriteBuilder desired) (\<lambda>h. bde_update E h desired)))"

definition reconcile_builder_key :: "builder builder_env \<Rightarrow> string \<Rightarrow> (builder, unit) bd_io" where
  "reconcile_builder_key E key =
     bind_io (lift_io (bde_split_key E key)) (\<lambda>(ns, nm).
     attempt_io (read_io (\<lambda>h. bde_get_builder E h ns nm)) (\<lambda>r.
       case r of
         Inl e \<Rightarrow> (if is_not_found e then ret_io () else fail_io e)
       | Inr b \<Rightarrow> attempt_io (reconcile_builder E b) (\<lambda>r.
           case r of
             Inl e \<Rightarrow>
               bind_io (update_builder_status E (b\<lparr>bd_status := builder_error_create (bde_now E) e (bd_status b)\<rparr>))
                 (\<lambda>_. fail_io e)
           | Inr rec \<Rightarrow>
               update_builder_status E (b\<lparr>bd_status := builder_record_update (bde_now E) rec (bd_status b)\<rparr>))))"

section \<open>Cluster builders\<close>

definition resolve_cluster_builder_image_ref :: "cluster_builder builder_env \<Rightarrow> cluster_builder \<Rightarrow> string res" where
  "resolve_cluster_builder_image_ref E b =
     resolve_ref E (bds_tag (cbs_builder (cbd_spec b))) (to_lower ClusterBuilderKind @ ''-'' @ meta_name (cbd_meta b))"

definition reconcile_cluster_builder :: "cluster_builder builder_env \<Rightarrow> cluster_builder \<Rightarrow> (cluster_builder, builder_record) bd_io" where
  "reconcile_cluster_builder E b =
     (let spec = cbs_builder (cbd_spec b); who = meta_namespaced_name (cbd_meta b);
          account = cbs_service_account_ref (cbd_spec b)
      in bind_io (track_object ClusterStackKind (oref_name (bds_stack spec)) who) (\<lambda>_.
         bind_io (track_object ClusterLifecycleKind (lifecycle_name spec) who) (\<lambda>_.
         bind_io (builder_store E spec who) (\<lambda>store.
         bind_io (track_kind ClusterBuildpackKind who) (\<lambda>_.
         bind_io (read_io (\<lambda>h. bde_list_cluster_buildpacks E h)) (\<lambda>cbps.
         bind_io (read_io (\<lambda>h. bde_get_stack E h (oref_name (bds_stack spec)))) (\<lambda>stack.
         if \<not> is_true (get_condition (stk_status stack) ConditionReady)
         then fail_io (Failed Plain (''stack '' @ meta_name (stk_meta stack) @ '' is not ready''))
         else
         bind_io (read_io (\<lambda>h. bde_get_lifecycle E h (lifecycle_name spec))) (\<lambda>lc.
         if \<not> is_true (get_condition (clc_status lc) ConditionReady)
         then fail_io (Failed Plain (''Error: clusterlifecycle '' @ quoted (meta_name (clc_meta lc)) @ '' is not ready''))
         else
         bind_io (read_io (\<lambda>h. bde_keychain E h (account_secret_ref (Some account)))) (\<lambda>kc.
         bind_io (own_keychain E kc (css_service_account_ref (stk_spec stack))) (\<lambda>stack_kc.
         bind_io (own_keychain E kc (cls_service_account_ref (clc_spec lc))) (\<lambda>lc_kc.
         bind_io (read_io (\<lambda>h. bde_secrets E h (oref_name account) (oref_namespace account))) (\<lambda>secrets.
         bind_io (lift_io (resolve_cluster_builder_image_ref E b)) (\<lambda>ref.
         (let rq = \<lparr>crq_keychains = \<lparr>kc_builder = kc, kc_stack = stack_kc, kc_lifecycle = lc_kc\<rparr>,
                crq_resolver = \<lparr>bpr_clusterstore = store, bpr_buildpacks = [], bpr_cluster_buildpacks = cbps\<rparr>,
                crq_stack = stack, crq_lifecycle = lc, crq_spec = spec, crq_secrets = secrets, crq_ref = ref\<rparr>
          in call_io (CreateImage rq) (\<lambda>h. bde_create E h rq)))))))))))))))"

definition update_cluster_builder_status :: "cluster_builder builder_env \<Rightarrow>
    cluster_builder \<Rightarrow> (cluster_builder, unit) bd_io" where
  "update_cluster_builder_status E desired0 =
     (let desired = desired0\<lparr>cbd_status := (cbd_status desired0)\<lparr>bds_status :=
            (bds_status (cbd_status desired0))\<lparr>st_observed_generation := meta_generation (cbd_meta desired0)\<rparr>\<rparr>\<rparr>
      in bind_io (read_io (\<lambda>h. bde_get_builder E h '''' (meta_name (cbd_meta desired)))) (\<lambda>original.
           if builder_status_equal (cbd_status desired) (cbd_status original) then ret_io ()
           else call_io (WriteBuilder desired) (\<lambda>h. bde_update E h desired)))"

definition reconcile_cluster_builder_key :: "cluster_builder builder_env \<Rightarrow>
    string \<Rightarrow> (cluster_builder, unit) bd_io" where
  "reconcile_cluster_builder_key E key =
     bind_io (lift_io (bde_split_key E key)) (\<lambda>(_, nm).
     attempt_io (read_io (\<lambda>h. bde_get_builder E h '''' nm)) (\<lambda>r.
       case r of
         Inl e \<Rightarrow> (if is_not_found e then ret_io () else fail_io e)
       | Inr b \<Rightarrow> attempt_io (reconcile_cluster_builder E b) (\<lambda>r.
           case r of
             Inl e \<Rightarrow>
               bind_io (update_cluster_builder_status E (b\<lparr>cbd_status := builder_error_create (bde_now E) e (cbd_status b)\<rparr>))
                 (\<lambda>_. fail_io e)
           | Inr rec \<Rightarrow>
               update_cluster_builder_status E (b\<lparr>cbd_status := builder_record_update (bde_now E) rec (cbd_status b)\<rparr>))))"

section \<open>What they share\<close>

text \<open>
  The interface of the two kinds: making the image writes no status, and the outcome of making it
  decides the status that is written.
\<close>

definition reports_creation :: "builder_record res \<Rightarrow> builder_status \<Rightarrow> builder_status \<Rightarrow> bool" where
  "reports_creation r old new \<longleftrightarrow>
     (case r of
        Inl e \<Rightarrow> bds_latest_image new = bds_latest_image old \<and> bds_metadata new = bds_metadata old \<and>
          bds_stack_info new = bds_stack_info old \<and> bds_lifecycle_info new = bds_lifecycle_info old \<and>
          (is_true (get_condition (bds_status new) ConditionReady) \<longleftrightarrow> bds_latest_image old \<noteq> '''') \<and>
          is_false (get_condition (bds_status new) ConditionUpToDate)
      | Inr rec \<Rightarrow> bds_latest_image new = br_image rec \<and> bds_metadata new = br_buildpacks rec \<and>
          bds_stack_info new = br_stack rec \<and> bds_lifecycle_info new = br_lifecycle rec \<and>
          bds_order_detected new = br_order rec \<and> is_true (get_condition (bds_status new) ConditionReady) \<and>
          is_true (get_condition (bds_status new) ConditionUpToDate))"

lemma get_condition_generation [simp]:
  "get_condition (s\<lparr>st_observed_generation := g\<rparr>) = get_condition s"
  by (simp add: get_condition_def fun_eq_iff)

lemma reports_failure: "reports_creation (Inl e) old
    ((builder_error_create now e old)\<lparr>bds_status := (bds_status (builder_error_create now e old))\<lparr>st_observed_generation := g\<rparr>\<rparr>)"
  using builder_error_create_ready [of now e old] builder_error_create_not_up_to_date [of now e old]
  by (simp add: reports_creation_def builder_error_create_frame)

lemma reports_success: "reports_creation (Inr rec) old
    ((builder_record_update now rec old)\<lparr>bds_status := (bds_status (builder_record_update now rec old))\<lparr>st_observed_generation := g\<rparr>\<rparr>)"
  by (simp add: reports_creation_def builder_record_update_def get_condition_def)

locale builder_kind =
  fixes meta :: "'b \<Rightarrow> object_meta"
    and status_of :: "'b \<Rightarrow> builder_status"
    and put :: "builder_status \<Rightarrow> 'b \<Rightarrow> 'b"
    and home :: "'b \<Rightarrow> string"
    and namespaced :: bool
    and make :: "'b builder_env \<Rightarrow> 'b \<Rightarrow> ('b, builder_record) bd_io"
    and update :: "'b builder_env \<Rightarrow> 'b \<Rightarrow> ('b, unit) bd_io"
    and run :: "'b builder_env \<Rightarrow> string \<Rightarrow> ('b, unit) bd_io"
  assumes status_put: "status_of (put s x) = s"
    and meta_put: "meta (put s x) = meta x"
    and put_put: "put s (put s' x) = put s x"
    and make_emits: "emits (\<lambda>ev. \<forall>y. ev \<noteq> WriteBuilder y) (make E x)"
    and update_eq: "update E x h =
      (let d = put ((status_of x)\<lparr>bds_status := (bds_status (status_of x))\<lparr>st_observed_generation := meta_generation (meta x)\<rparr>\<rparr>) x
       in case bde_get_builder E h (home x) (meta_name (meta x)) of
            Inl e \<Rightarrow> (Inl e, h)
          | Inr original \<Rightarrow> if builder_status_equal (status_of d) (status_of original) then (Inr (), h)
                          else (bde_update E h d, h @ [WriteBuilder d]))"
    and run_eq: "run E key =
      bind_io (lift_io (bde_split_key E key)) (\<lambda>(ns, nm).
      attempt_io (read_io (\<lambda>h. bde_get_builder E h (if namespaced then ns else '''') nm)) (\<lambda>r.
       case r of
         Inl e \<Rightarrow> (if is_not_found e then ret_io () else fail_io e)
       | Inr b \<Rightarrow> attempt_io (make E b) (\<lambda>r.
           case r of
             Inl e \<Rightarrow> bind_io (update E (put (builder_error_create (bde_now E) e (status_of b)) b)) (\<lambda>_. fail_io e)
           | Inr rec \<Rightarrow> update E (put (builder_record_update (bde_now E) rec (status_of b)) b))))"
begin

definition outcome :: "'b builder_env \<Rightarrow> 'b \<Rightarrow> builder_record res \<Rightarrow> 'b" where
  "outcome E b r =
     (let st = (case r of Inl e \<Rightarrow> builder_error_create (bde_now E) e (status_of b)
                        | Inr rec \<Rightarrow> builder_record_update (bde_now E) rec (status_of b))
      in put (st\<lparr>bds_status := (bds_status st)\<lparr>st_observed_generation := meta_generation (meta b)\<rparr>\<rparr>) b)"

lemma update_outcome:
  assumes "\<And>h ns nm. bde_get_builder E h ns nm = Inr b"
    and "x = put (case r of Inl e \<Rightarrow> builder_error_create (bde_now E) e (status_of b)
                | Inr rec \<Rightarrow> builder_record_update (bde_now E) rec (status_of b)) b"
  shows "update E x h =
    (if builder_status_equal (status_of (outcome E b r)) (status_of b) then (Inr (), h)
     else (bde_update E h (outcome E b r), h @ [WriteBuilder (outcome E b r)]))"
  unfolding assms(2) by (simp add: update_eq assms(1) outcome_def status_put meta_put put_put Let_def)

text \<open>Everything a reconcile emits, and its result.\<close>

lemma run_trace:
  assumes "\<And>h ns nm. bde_get_builder E h ns nm = Inr b" and "bde_split_key E key = Inr k"
  shows "snd (run E key []) = snd (make E b []) @
    (if (\<exists>p. fst (make E b []) = Inl (Panic p)) \<or>
        builder_status_equal (status_of (outcome E b (fst (make E b [])))) (status_of b) then []
     else [WriteBuilder (outcome E b (fst (make E b [])))])"
    and "fst (make E b []) = Inl e \<Longrightarrow> \<exists>e'. fst (run E key []) = Inl e'"
proof -
  obtain ns nm where k: "k = (ns, nm)" by (cases k)
  have step: "run E key [] = attempt_io (make E b) (\<lambda>r. case r of
      Inl e \<Rightarrow> bind_io (update E (put (builder_error_create (bde_now E) e (status_of b)) b)) (\<lambda>_. fail_io e)
    | Inr rec \<Rightarrow> update E (put (builder_record_update (bde_now E) rec (status_of b)) b)) []"
    by (simp add: run_eq io_simps assms k)
  have upd: "update E (put (case r of Inl e \<Rightarrow> builder_error_create (bde_now E) e (status_of b)
        | Inr rec \<Rightarrow> builder_record_update (bde_now E) rec (status_of b)) b) h =
      (if builder_status_equal (status_of (outcome E b r)) (status_of b) then (Inr (), h)
       else (bde_update E h (outcome E b r), h @ [WriteBuilder (outcome E b r)]))" for r h
    by (rule update_outcome [OF assms(1) refl])
  show "snd (run E key []) = snd (make E b []) @
    (if (\<exists>p. fst (make E b []) = Inl (Panic p)) \<or>
        builder_status_equal (status_of (outcome E b (fst (make E b [])))) (status_of b) then []
     else [WriteBuilder (outcome E b (fst (make E b [])))])"
    unfolding step
    using upd [of "fst (make E b [])" "snd (make E b [])"]
    by (auto simp: io_simps split: sum.split goerr.split)
  show "\<exists>e'. fst (run E key []) = Inl e'" if "fst (make E b []) = Inl e"
    unfolding step using that by (auto simp: io_simps split: sum.split goerr.split)
qed

lemma outcome_facts:
  "meta (outcome E b r) = meta b" "put (status_of b) (outcome E b r) = put (status_of b) b"
  "st_observed_generation (bds_status (status_of (outcome E b r))) = meta_generation (meta b)"
  "reports_creation r (status_of b) (status_of (outcome E b r))"
  using reports_failure reports_success
  by (simp_all add: outcome_def meta_put put_put status_put Let_def split: sum.split)

lemma make_writes_nothing: "WriteBuilder y \<notin> set (snd (make E b []))"
proof
  assume "WriteBuilder y \<in> set (snd (make E b []))"
  moreover obtain es where "snd (make E b []) = [] @ es" and "list_all (\<lambda>ev. \<forall>y. ev \<noteq> WriteBuilder y) es"
    using make_emits by (rule emits_obtain)
  ultimately show False by (auto simp: list_all_iff)
qed

lemma written:
  assumes "\<And>h ns nm. bde_get_builder E h ns nm = Inr b" and "bde_split_key E key = Inr k"
    and "WriteBuilder y \<in> set (snd (run E key []))"
  shows "snd (run E key []) = snd (make E b []) @ [WriteBuilder y] \<and>
    meta y = meta b \<and> put (status_of b) y = put (status_of b) b \<and>
    st_observed_generation (bds_status (status_of y)) = meta_generation (meta b) \<and>
    reports_creation (fst (make E b [])) (status_of b) (status_of y)"
proof -
  have "snd (run E key []) = snd (make E b []) @ [WriteBuilder y] \<and> y = outcome E b (fst (make E b []))"
    using assms(3) make_writes_nothing unfolding run_trace(1) [OF assms(1,2)] by (auto split: if_splits)
  then show ?thesis by (simp add: outcome_facts)
qed

end

abbreviation writes_no_status :: "'b builder_event \<Rightarrow> bool" where
  "writes_no_status ev \<equiv> \<forall>y. ev \<noteq> WriteBuilder y"

lemma emits_if: "emits P m \<Longrightarrow> emits P n \<Longrightarrow> emits P (if c then m else n)"
  by simp

lemma emits_steps:
  "emits writes_no_status (track_object k n w)" "emits writes_no_status (track_kind k w)"
  "emits writes_no_status (builder_store E spec w)" "emits writes_no_status (own_keychain E kc a)"
  by (auto simp: track_object_def track_kind_def builder_store_def own_keychain_def split: option.split
      intro!: emits_bind emits_call)

lemma emits_reconcile_builder: "emits writes_no_status (reconcile_builder E b)"
  unfolding reconcile_builder_def Let_def
  by (intro emits_bind emits_steps emits_read emits_lift emits_fail emits_call emits_if allI) simp_all

lemma emits_reconcile_cluster_builder: "emits writes_no_status (reconcile_cluster_builder E b)"
  unfolding reconcile_cluster_builder_def Let_def
  by (intro emits_bind emits_steps emits_read emits_lift emits_fail emits_call emits_if allI) simp_all

interpretation builders: builder_kind bd_meta bd_status "\<lambda>s b. b\<lparr>bd_status := s\<rparr>" "\<lambda>b. meta_namespace (bd_meta b)" True
    reconcile_builder update_builder_status reconcile_builder_key
  by unfold_locales
    (auto simp: emits_reconcile_builder update_builder_status_def reconcile_builder_key_def io_simps Let_def split: sum.split)

interpretation cluster_builders: builder_kind cbd_meta cbd_status "\<lambda>s b. b\<lparr>cbd_status := s\<rparr>" "\<lambda>_. ''''" False
    reconcile_cluster_builder update_cluster_builder_status reconcile_cluster_builder_key
  by unfold_locales
    (auto simp: emits_reconcile_cluster_builder update_cluster_builder_status_def reconcile_cluster_builder_key_def io_simps Let_def
      split: sum.split)

section \<open>Tracking before reading\<close>

text \<open>
  Two environments agree on what is tracked when their listers give the same answers once the
  reconciler has registered for changes of what they return.
\<close>

definition agree_tracked :: "namespaced_name \<Rightarrow> 'b builder_env \<Rightarrow> 'b builder_env \<Rightarrow> bool" where
  "agree_tracked who E E' \<longleftrightarrow>
     (\<forall>h nm. BTrack (cluster_key ClusterStackKind nm) who \<in> set h \<longrightarrow> bde_get_stack E h nm = bde_get_stack E' h nm) \<and>
     (\<forall>h nm. BTrack (cluster_key ClusterLifecycleKind nm) who \<in> set h \<longrightarrow> bde_get_lifecycle E h nm = bde_get_lifecycle E' h nm) \<and>
     (\<forall>h nm. BTrack (cluster_key ClusterStoreKind nm) who \<in> set h \<longrightarrow> bde_get_store E h nm = bde_get_store E' h nm) \<and>
     (\<forall>h ns. BTrackKind BuildpackKind who \<in> set h \<longrightarrow> bde_list_buildpacks E h ns = bde_list_buildpacks E' h ns) \<and>
     (\<forall>h. BTrackKind ClusterBuildpackKind who \<in> set h \<longrightarrow> bde_list_cluster_buildpacks E h = bde_list_cluster_buildpacks E' h) \<and>
     bde_keychain E' = bde_keychain E \<and> bde_secrets E' = bde_secrets E \<and> bde_create E' = bde_create E \<and>
     bde_lib E' = bde_lib E \<and> bde_tag_name E' = bde_tag_name E \<and> bde_ref_name E' = bde_ref_name E"

lemma agree_tracked_simps:
  assumes "agree_tracked who E E'"
  shows "BTrack (cluster_key ClusterStackKind nm) who \<in> set h \<Longrightarrow> bde_get_stack E' h nm = bde_get_stack E h nm"
    "BTrack (cluster_key ClusterLifecycleKind nm) who \<in> set h \<Longrightarrow> bde_get_lifecycle E' h nm = bde_get_lifecycle E h nm"
    "BTrack (cluster_key ClusterStoreKind nm) who \<in> set h \<Longrightarrow> bde_get_store E' h nm = bde_get_store E h nm"
    "BTrackKind BuildpackKind who \<in> set h \<Longrightarrow> bde_list_buildpacks E' h ns = bde_list_buildpacks E h ns"
    "BTrackKind ClusterBuildpackKind who \<in> set h \<Longrightarrow> bde_list_cluster_buildpacks E' h = bde_list_cluster_buildpacks E h"
    "bde_keychain E' = bde_keychain E" "bde_secrets E' = bde_secrets E" "bde_create E' = bde_create E"
    "bde_lib E' = bde_lib E" "bde_tag_name E' = bde_tag_name E" "bde_ref_name E' = bde_ref_name E"
  using assms unfolding agree_tracked_def by metis+

text \<open>Two computations coincide once the events of a set have happened.\<close>

definition coincide :: "'e set \<Rightarrow> ('e, 'a) io \<Rightarrow> ('e, 'a) io \<Rightarrow> bool" where
  "coincide A m m' \<longleftrightarrow> (\<forall>h. A \<subseteq> set h \<longrightarrow> m h = m' h)"

lemma coincide_refl: "coincide A m m"
  by (simp add: coincide_def)

lemma coincide_read:
  "(\<And>h. A \<subseteq> set h \<Longrightarrow> g h = g' h) \<Longrightarrow> (\<And>x. coincide A (f x) (f' x)) \<Longrightarrow>
   coincide A (bind_io (read_io g) f) (bind_io (read_io g') f')"
  by (auto simp: coincide_def bind_io_apply split: sum.split)

lemma coincide_call:
  assumes "\<And>x. coincide (insert ev A) (f x) (f' x)"
  shows "coincide A (bind_io (call_io ev g) f) (bind_io (call_io ev g) f')"
  unfolding coincide_def
proof (intro allI impI)
  fix h
  assume "A \<subseteq> set h"
  then have "insert ev A \<subseteq> set (h @ [ev])" by auto
  with assms have "f x (h @ [ev]) = f' x (h @ [ev])" for x by (simp only: coincide_def)
  then show "bind_io (call_io ev g) f h = bind_io (call_io ev g) f' h"
    by (simp add: bind_io_apply split: sum.split)
qed

lemma coincide_bind:
  assumes "coincide A m m'" and "emits (\<lambda>_. True) m" and "\<And>x. coincide A (f x) (f' x)"
  shows "coincide A (bind_io m f) (bind_io m' f')"
  unfolding coincide_def
proof (intro allI impI)
  fix h
  assume h: "A \<subseteq> set h"
  obtain es where "snd (m h) = h @ es" using assms(2) by (rule emits_obtain)
  with h have "A \<subseteq> set (snd (m h))" by auto
  moreover have "m' h = m h" using assms(1) h by (simp add: coincide_def)
  ultimately show "bind_io m f h = bind_io m' f' h"
    using assms(3) by (simp add: bind_io_apply coincide_def split: sum.split)
qed

lemma coincide_if: "coincide A m m' \<Longrightarrow> coincide A n n' \<Longrightarrow> coincide A (if c then m else n) (if c then m' else n')"
  by simp

lemma emits_any: "emits (\<lambda>_. True) (builder_store E spec w)" "emits (\<lambda>_. True) (own_keychain E kc a)"
  by (rule emits_mono [OF emits_steps(3)], rule TrueI) (rule emits_mono [OF emits_steps(4)], rule TrueI)

lemma coincide_store:
  assumes "agree_tracked who E E'"
  shows "coincide A (builder_store E spec who) (builder_store E' spec who)"
  unfolding builder_store_def track_object_def
  by (intro coincide_if coincide_call coincide_read coincide_refl) (simp add: agree_tracked_simps [OF assms])

lemma coincide_keychain:
  assumes "agree_tracked who E E'"
  shows "coincide A (own_keychain E kc a) (own_keychain E' kc a)"
  unfolding own_keychain_def agree_tracked_simps [OF assms] by (rule coincide_refl)

lemma reconcile_builder_tracks:
  assumes "agree_tracked (meta_namespaced_name (bd_meta b)) E E'"
  shows "reconcile_builder E b [] = reconcile_builder E' b []"
proof -
  note agree = agree_tracked_simps [OF assms]
  have ref: "resolve_builder_image_ref E' b = resolve_builder_image_ref E b"
    unfolding resolve_builder_image_ref_def resolve_ref_def agree(9-11) ..
  have "coincide {} (reconcile_builder E b) (reconcile_builder E' b)"
    unfolding reconcile_builder_def Let_def track_object_def track_kind_def ref agree(8)
    by (intro coincide_call coincide_if coincide_read coincide_refl coincide_bind coincide_store [OF assms]
        coincide_keychain [OF assms] emits_any) (simp_all add: agree)
  then show ?thesis by (simp add: coincide_def)
qed

lemma reconcile_cluster_builder_tracks:
  assumes "agree_tracked (meta_namespaced_name (cbd_meta b)) E E'"
  shows "reconcile_cluster_builder E b [] = reconcile_cluster_builder E' b []"
proof -
  note agree = agree_tracked_simps [OF assms]
  have ref: "resolve_cluster_builder_image_ref E' b = resolve_cluster_builder_image_ref E b"
    unfolding resolve_cluster_builder_image_ref_def resolve_ref_def agree(9-11) ..
  have "coincide {} (reconcile_cluster_builder E b) (reconcile_cluster_builder E' b)"
    unfolding reconcile_cluster_builder_def Let_def track_object_def track_kind_def ref agree(8)
    by (intro coincide_call coincide_if coincide_read coincide_refl coincide_bind coincide_store [OF assms]
        coincide_keychain [OF assms] emits_any) (simp_all add: agree)
  then show ?thesis by (simp add: coincide_def)
qed

text \<open>An image is only asked for when the stack and the lifecycle are ready.\<close>

definition ready_request :: "'b builder_event \<Rightarrow> bool" where
  "ready_request ev = (case ev of
     CreateImage rq \<Rightarrow> is_true (get_condition (stk_status (crq_stack rq)) ConditionReady) \<and>
       is_true (get_condition (clc_status (crq_lifecycle rq)) ConditionReady)
   | _ \<Rightarrow> True)"

lemma ready_request_simps [simp]:
  "ready_request (BTrack k w)" "ready_request (BTrackKind kd w)" "ready_request (WriteBuilder y)"
  by (simp_all add: ready_request_def)

lemma emits_ready_steps:
  "emits ready_request (track_object k n w)" "emits ready_request (track_kind kd w)"
  "emits ready_request (builder_store E spec w)" "emits ready_request (own_keychain E kc a)"
  by (auto simp: track_object_def track_kind_def builder_store_def own_keychain_def split: option.split
      intro!: emits_bind emits_call)

lemma emits_guard: "(c \<Longrightarrow> emits P m) \<Longrightarrow> (\<not> c \<Longrightarrow> emits P n) \<Longrightarrow> emits P (if c then m else n)"
  by simp

lemma emits_ready_request:
  "emits ready_request (reconcile_builder E b)" "emits ready_request (reconcile_cluster_builder F c)"
  unfolding reconcile_builder_def reconcile_cluster_builder_def Let_def
  by (intro emits_bind emits_ready_steps emits_read emits_lift emits_fail emits_call emits_guard;
      simp add: ready_request_def)+

end
