(* ===== verification/Tracker.thy ===== *)
theory Tracker
  imports Builder_Reconcilers
begin

text \<open>
  \<open>pkg/tracker/tracker.go\<close> and \<open>pkg/reconciler/tracker.go\<close>: who wants to hear of changes of an object or
  of a kind of objects, each registration for the time of a lease. The mutex makes the operations
  atomic, so what goroutines do is a sequence of them.
\<close>

section \<open>Keys\<close>

text \<open>The texts of the Kubernetes types \<open>GroupKind\<close> and \<open>NamespacedName\<close> are the library's.\<close>

record key_lib =
  kl_group_kind :: "string \<Rightarrow> string \<Rightarrow> string"
  kl_namespaced_name :: "namespaced_name \<Rightarrow> string"

definition key_string :: "key_lib \<Rightarrow> key \<Rightarrow> string" where
  "key_string N k = kl_group_kind N (key_group k) (key_kind k) @ ''/'' @ kl_namespaced_name N (key_name k)"

definition with_namespace :: "key \<Rightarrow> string \<Rightarrow> key" where
  "with_namespace k ns = k\<lparr>key_name := \<lparr>nn_namespace = ns, nn_name = nn_name (key_name k)\<rparr>\<rparr>"

definition key_for_object :: "string \<Rightarrow> string \<Rightarrow> object_meta \<Rightarrow> key" where
  "key_for_object gp kind m = \<lparr>key_name = \<lparr>nn_namespace = meta_namespace m, nn_name = meta_name m\<rparr>,
     key_group = gp, key_kind = kind\<rparr>"

section \<open>The tracker\<close>

type_synonym watchers = "(namespaced_name \<times> int) list"

record tracker =
  tk_objects :: "string \<rightharpoonup> watchers"
  tk_kinds :: "string \<rightharpoonup> watchers"
  tk_lease :: int

definition new_tracker :: "int \<Rightarrow> tracker" where
  "new_tracker lease = \<lparr>tk_objects = Map.empty, tk_kinds = Map.empty, tk_lease = lease\<rparr>"

definition put_watcher :: "string \<Rightarrow> namespaced_name \<Rightarrow> int \<Rightarrow> (string \<rightharpoonup> watchers) \<Rightarrow> (string \<rightharpoonup> watchers)" where
  "put_watcher k who expiry m =
     (let l = (case m k of None \<Rightarrow> [] | Some l \<Rightarrow> l) in m(k \<mapsto> AList.update who expiry l))"

definition track :: "key_lib \<Rightarrow> int \<Rightarrow> key \<Rightarrow> namespaced_name \<Rightarrow> tracker \<Rightarrow> tracker" where
  "track N now ref who t = t\<lparr>tk_objects := put_watcher (key_string N ref) who (now + tk_lease t) (tk_objects t)\<rparr>"

definition tracker_track_kind :: "key_lib \<Rightarrow> int \<Rightarrow> string \<times> string \<Rightarrow> namespaced_name \<Rightarrow> tracker \<Rightarrow> tracker" where
  "tracker_track_kind N now gk who t =
     t\<lparr>tk_kinds := put_watcher (kl_group_kind N (fst gk) (snd gk)) who (now + tk_lease t) (tk_kinds t)\<rparr>"

definition is_expired :: "int \<Rightarrow> int \<Rightarrow> bool" where
  "is_expired now expiry \<longleftrightarrow> now > expiry"

text \<open>
  The watchers are visited in the order Go happens to choose, \<open>visit\<close>; the clock is read for each of
  them. Expired ones are deleted, the others are called back, and an empty set is removed.
\<close>

definition notify :: "(watchers \<Rightarrow> watchers) \<Rightarrow> (namespaced_name \<Rightarrow> int) \<Rightarrow> (string \<rightharpoonup> watchers) \<Rightarrow> string \<Rightarrow>
    (string \<rightharpoonup> watchers) \<times> namespaced_name list" where
  "notify visit now m k =
     (case m k of
        None \<Rightarrow> (m, [])
      | Some s \<Rightarrow>
          (let live = \<lambda>w. \<not> is_expired (now (fst w)) (snd w); s' = filter live s
           in (if s' = [] then m(k := None) else m(k \<mapsto> s'), map fst (filter live (visit s)))))"

definition on_changed :: "key_lib \<Rightarrow> (watchers \<Rightarrow> watchers) \<Rightarrow> (namespaced_name \<Rightarrow> int) \<Rightarrow> key \<Rightarrow> tracker \<Rightarrow>
    tracker \<times> namespaced_name list" where
  "on_changed N visit now k t =
     (case notify visit now (tk_objects t) (key_string N k) of (objects, calls) \<Rightarrow>
      case notify visit now (tk_kinds t) (kl_group_kind N (key_group k) (key_kind k)) of (kinds, kind_calls) \<Rightarrow>
        (t\<lparr>tk_objects := objects, tk_kinds := kinds\<rparr>, calls @ kind_calls))"

section \<open>Sequences of operations\<close>

datatype tracker_op = DoTrack key namespaced_name | DoTrackKind "string \<times> string" namespaced_name | DoChange key

definition tracker_step :: "key_lib \<Rightarrow> (watchers \<Rightarrow> watchers) \<Rightarrow> tracker \<Rightarrow> int \<times> tracker_op \<Rightarrow> tracker" where
  "tracker_step N visit t op =
     (case op of
        (now, DoTrack k who) \<Rightarrow> track N now k who t
      | (now, DoTrackKind gk who) \<Rightarrow> tracker_track_kind N now gk who t
      | (now, DoChange k) \<Rightarrow> fst (on_changed N visit (\<lambda>_. now) k t))"

definition tracker_run :: "key_lib \<Rightarrow> (watchers \<Rightarrow> watchers) \<Rightarrow> int \<Rightarrow> (int \<times> tracker_op) list \<Rightarrow> tracker" where
  "tracker_run N visit lease ops = foldl (tracker_step N visit) (new_tracker lease) ops"

section \<open>Facts\<close>

text \<open>
  A map of watchers reflects a set of registrations at a time: it holds nothing else, and for each
  registration that has not expired a watcher that expires no earlier.
\<close>

definition reflects :: "(string \<rightharpoonup> watchers) \<Rightarrow> (string \<times> namespaced_name \<times> int) set \<Rightarrow> int \<Rightarrow> bool" where
  "reflects m T now \<longleftrightarrow>
     (\<forall>k l who e. m k = Some l \<longrightarrow> (who, e) \<in> set l \<longrightarrow> (k, who, e) \<in> T) \<and>
     (\<forall>k who e. (k, who, e) \<in> T \<longrightarrow> now \<le> e \<longrightarrow> (\<exists>l e'. m k = Some l \<and> (who, e') \<in> set l \<and> e \<le> e'))"

lemma in_update: "(w, x) \<in> set (AList.update k v l) \<Longrightarrow> (w, x) = (k, v) \<or> (w, x) \<in> set l"
  by (induction l) (auto split: if_splits)

lemma update_has: "(k, v) \<in> set (AList.update k v l)"
  by (induction l) auto

lemma update_keeps: "(w, x) \<in> set l \<Longrightarrow> w \<noteq> k \<Longrightarrow> (w, x) \<in> set (AList.update k v l)"
  by (induction l) auto

lemma reflects_mono: "reflects m T now \<Longrightarrow> now \<le> now' \<Longrightarrow> reflects m T now'"
  unfolding reflects_def by (meson order_trans)

lemma reflects_put:
  assumes "reflects m T now" and latest: "\<forall>k who e'. (k, who, e') \<in> T \<longrightarrow> e' \<le> e"
  shows "reflects (put_watcher k who e m) (insert (k, who, e) T) now"
proof -
  define l where "l = (case m k of None \<Rightarrow> [] | Some l \<Rightarrow> l)"
  have put: "put_watcher k who e m = m(k \<mapsto> AList.update who e l)" by (simp add: put_watcher_def l_def Let_def)
  have old: "(k, w, x) \<in> T" if "(w, x) \<in> set l" for w x
    using that assms(1) unfolding reflects_def l_def by (cases "m k") auto
  have sound: "(k', w, x) \<in> insert (k, who, e) T" if "put_watcher k who e m k' = Some l'" "(w, x) \<in> set l'" for k' l' w x
  proof (cases "k' = k")
    case True
    with that put have "(w, x) \<in> set (AList.update who e l)" by simp
    from in_update [OF this] True old show ?thesis by auto
  next
    case False
    with that put assms(1) show ?thesis by (simp add: reflects_def)
  qed
  have complete: "\<exists>l' x'. put_watcher k who e m k' = Some l' \<and> (w, x') \<in> set l' \<and> x \<le> x'"
    if reg: "(k', w, x) \<in> insert (k, who, e) T" "now \<le> x" for k' w x
  proof (cases "k' = k \<and> w = who")
    case True
    moreover have "x \<le> e" using reg(1) latest by auto
    ultimately show ?thesis using put update_has [of who e l] by auto
  next
    case False
    then have "(k', w, x) \<in> T" using reg(1) by auto
    then obtain l' x' where l': "m k' = Some l'" "(w, x') \<in> set l'" "x \<le> x'"
      using assms(1) reg(2) unfolding reflects_def by blast
    show ?thesis
    proof (cases "k' = k")
      case True
      then have "(w, x') \<in> set (AList.update who e l)"
        using l' False by (intro update_keeps) (auto simp: l_def)
      with True l'(3) put show ?thesis by auto
    next
      case False
      with l' put show ?thesis by auto
    qed
  qed
  show ?thesis unfolding reflects_def using sound complete by blast
qed

lemma reflects_notify:
  assumes "reflects m T now"
  shows "reflects (fst (notify visit (\<lambda>_. now) m k)) T now"
proof (cases "m k")
  case None
  with assms show ?thesis by (simp add: notify_def)
next
  case (Some s)
  let ?s = "filter (\<lambda>w. \<not> is_expired now (snd w)) s"
  have m': "fst (notify visit (\<lambda>_. now) m k) = (if ?s = [] then m(k := None) else m(k \<mapsto> ?s))"
    using Some by (simp add: notify_def Let_def)
  have live: "(w, x) \<in> set s \<Longrightarrow> now \<le> x \<Longrightarrow> (w, x) \<in> set ?s" for w x by (simp add: is_expired_def)
  show ?thesis
    unfolding reflects_def m'
  proof (intro conjI allI impI)
    fix k' l w x
    assume "(if ?s = [] then m(k := None) else m(k \<mapsto> ?s)) k' = Some l" "(w, x) \<in> set l"
    then have "\<exists>l. m k' = Some l \<and> (w, x) \<in> set l" using Some by (auto split: if_splits)
    with assms show "(k', w, x) \<in> T" unfolding reflects_def by blast
  next
    fix k' w x
    assume "(k', w, x) \<in> T" "now \<le> x"
    then obtain l x' where l: "m k' = Some l" "(w, x') \<in> set l" "x \<le> x'"
      using assms unfolding reflects_def by blast
    then have "k' = k \<Longrightarrow> (w, x') \<in> set ?s" using Some \<open>now \<le> x\<close> live [of w x'] by (simp del: set_filter)
    then show "\<exists>l x'. (if ?s = [] then m(k := None) else m(k \<mapsto> ?s)) k' = Some l \<and> (w, x') \<in> set l \<and> x \<le> x'"
    proof (cases "k' = k")
      case True
      then have "(w, x') \<in> set ?s" using \<open>k' = k \<Longrightarrow> (w, x') \<in> set ?s\<close> by blast
      moreover from this have "?s \<noteq> []" by (metis empty_iff list.set(1))
      ultimately show ?thesis using True l(3) by (intro exI [of _ ?s] exI [of _ x']) simp
    next
      case False
      with l show ?thesis by (intro exI [of _ l] exI [of _ x']) simp
    qed
  qed
qed

definition visits_all :: "(watchers \<Rightarrow> watchers) \<Rightarrow> bool" where
  "visits_all visit \<longleftrightarrow> (\<forall>s. mset (visit s) = mset s)"

lemma notify_calls:
  assumes "reflects m T now" and "visits_all visit"
  shows "who \<in> set (snd (notify visit (\<lambda>_. now) m k)) \<longleftrightarrow> (\<exists>e. (k, who, e) \<in> T \<and> now \<le> e)"
proof -
  have visit: "set (visit s) = set s" for s using assms(2) by (metis set_mset_mset visits_all_def)
  have "who \<in> set (snd (notify visit (\<lambda>_. now) m k)) \<longleftrightarrow> (\<exists>s e. m k = Some s \<and> (who, e) \<in> set s \<and> now \<le> e)"
    by (force simp: notify_def visit is_expired_def Let_def split: option.split)
  also have "\<dots> \<longleftrightarrow> (\<exists>e. (k, who, e) \<in> T \<and> now \<le> e)"
    using assms(1) unfolding reflects_def by (meson order_trans)
  finally show ?thesis .
qed

text \<open>The registrations that a sequence of operations makes.\<close>

definition object_registrations :: "key_lib \<Rightarrow> int \<Rightarrow> (int \<times> tracker_op) list \<Rightarrow> (string \<times> namespaced_name \<times> int) set" where
  "object_registrations N lease ops = {(key_string N k, who, t + lease) | t k who. (t, DoTrack k who) \<in> set ops}"

definition kind_registrations :: "key_lib \<Rightarrow> int \<Rightarrow> (int \<times> tracker_op) list \<Rightarrow> (string \<times> namespaced_name \<times> int) set" where
  "kind_registrations N lease ops = {(kl_group_kind N (fst gk) (snd gk), who, t + lease) | t gk who. (t, DoTrackKind gk who) \<in> set ops}"

lemma tracker_run_snoc:
  "tracker_run N visit lease (ops @ [op]) = tracker_step N visit (tracker_run N visit lease ops) op"
  by (simp add: tracker_run_def)

lemma tracker_run_reflects:
  assumes "\<forall>op \<in> set ops. fst op \<le> now" and "sorted (map fst ops)"
  shows "tk_lease (tracker_run N visit lease ops) = lease \<and>
    reflects (tk_objects (tracker_run N visit lease ops)) (object_registrations N lease ops) now \<and>
    reflects (tk_kinds (tracker_run N visit lease ops)) (kind_registrations N lease ops) now"
  using assms
proof (induction ops arbitrary: now rule: rev_induct)
  case Nil
  show ?case
    by (simp add: tracker_run_def new_tracker_def reflects_def object_registrations_def kind_registrations_def)
next
  case (snoc op ops)
  obtain t act where op: "op = (t, act)" by (cases op)
  let ?s = "tracker_run N visit lease ops"
  have past: "\<forall>op \<in> set ops. fst op \<le> t" using snoc.prems(2) by (simp add: op sorted_append)
  have IH: "tk_lease ?s = lease" "reflects (tk_objects ?s) (object_registrations N lease ops) t"
      "reflects (tk_kinds ?s) (kind_registrations N lease ops) t"
    using snoc.IH [OF past] snoc.prems(2) by (simp_all add: sorted_append)
  have latest: "\<forall>k who e. (k, who, e) \<in> object_registrations N lease ops \<longrightarrow> e \<le> t + lease"
      "\<forall>k who e. (k, who, e) \<in> kind_registrations N lease ops \<longrightarrow> e \<le> t + lease"
    using past by (auto simp: object_registrations_def kind_registrations_def)
  have "tk_lease (tracker_step N visit ?s op) = lease \<and>
    reflects (tk_objects (tracker_step N visit ?s op)) (object_registrations N lease (ops @ [op])) t \<and>
    reflects (tk_kinds (tracker_step N visit ?s op)) (kind_registrations N lease (ops @ [op])) t"
  proof (cases act)
    case (DoTrack k who)
    then have "object_registrations N lease (ops @ [op]) =
        insert (key_string N k, who, t + lease) (object_registrations N lease ops)"
      "kind_registrations N lease (ops @ [op]) = kind_registrations N lease ops"
      by (auto simp: object_registrations_def kind_registrations_def op)
    then show ?thesis
      using IH latest(1) by (simp add: tracker_step_def op DoTrack track_def reflects_put)
  next
    case (DoTrackKind gk who)
    then have "kind_registrations N lease (ops @ [op]) =
        insert (kl_group_kind N (fst gk) (snd gk), who, t + lease) (kind_registrations N lease ops)"
      "object_registrations N lease (ops @ [op]) = object_registrations N lease ops"
      by (auto simp: object_registrations_def kind_registrations_def op) (metis prod.collapse)+
    then show ?thesis
      using IH latest(2) by (simp add: tracker_step_def op DoTrackKind tracker_track_kind_def reflects_put)
  next
    case (DoChange k)
    then have "object_registrations N lease (ops @ [op]) = object_registrations N lease ops"
      "kind_registrations N lease (ops @ [op]) = kind_registrations N lease ops"
      by (auto simp: object_registrations_def kind_registrations_def op)
    then show ?thesis
      using IH by (simp add: tracker_step_def op DoChange on_changed_def case_prod_beta reflects_notify)
  qed
  moreover have "t \<le> now" using snoc.prems(1) by (simp add: op)
  ultimately show ?case unfolding tracker_run_snoc by (auto intro: reflects_mono)
qed

end
