(* ===== verification/Operator_Properties.thy ===== *)
theory Operator_Properties
  imports Cnb_Properties Builder_Reconcilers Tracker
begin

text \<open>
  The properties of the readers of remote images, of the reconcilers of stacks, lifecycles, stores,
  buildpacks and builders, and of the tracker, each with its witness.
\<close>

section \<open>Stacks\<close>

text \<open>
  C18: A stack becomes ready only when its build image and its run image both carry the stack's id, no
  mixin of one image is reserved for the other, and every mixin of the build image that is not
  reserved for the build stage is present in the run image; the stack then lists exactly the mixins of
  the build image and those of the run image that are reserved for it.
\<close>

theorem ready_stack_consistent:
  assumes "\<And>h ns nm. re_get E h ns nm = Inr s"
    and "snd (reconcile_cluster_stack E (read_stack fetch unmarshal) key []) = [WriteStatus y]"
    and "is_true (get_condition (stk_status y) ConditionReady)"
  shows "\<exists>kc bi bid ri rid bm rm.
    fetch kc (css_build_image (stk_spec s)) = Inr (bi, bid) \<and> fetch kc (css_run_image (stk_spec s)) = Inr (ri, rid) \<and>
    get_string_label bi StackLabel = Inr (css_id (stk_spec s)) \<and> get_string_label ri StackLabel = Inr (css_id (stk_spec s)) \<and>
    read_mixins unmarshal bi = Inr bm \<and> read_mixins unmarshal ri = Inr rm \<and> mixins_agree bm rm \<and>
    set (rcs_mixins (stk_resolved y)) = set bm \<union> {m \<in> set rm. run_only m} \<and>
    rcs_id (stk_resolved y) = css_id (stk_spec s) \<and>
    csi_latest_image (rcs_build_image (stk_resolved y)) = bid \<and> csi_latest_image (rcs_run_image (stk_resolved y)) = rid"
proof -
  note written = stacks.written [where E = E and x = s and y = y, OF assms(1) assms(2) [unfolded reconcile_cluster_stack_def]]
  have "stacks.reading_error (read_stack fetch unmarshal) E s = None" using written assms(3) by blast
  then obtain kc rs where rs: "read_stack fetch unmarshal kc (stk_spec s) = Inr rs"
      and "stacks.reading_content (read_stack fetch unmarshal) E s = rs"
    by (auto simp: stacks.reading_error_def stacks.reading_content_def look_with_def bind_res_def split: sum.splits)
  with written have y: "stk_resolved y = rs" by simp
  from read_stack_Inr [OF rs] show ?thesis
    unfolding y by (fastforce simp: stack_mixins_iff)
qed

definition sample_stack_image :: "string \<Rightarrow> remote_image" where
  "sample_stack_image mixins =
     \<lparr>ri_config = Inr (Some \<lparr>cfg_labels = [StackLabel \<mapsto> ''jammy'', MixinsLabel \<mapsto> mixins],
        cfg_env = [cnbUserId @ ''=1000'', cnbGroupId @ ''=1000''], cfg_working_dir = ''''\<rparr>),
      ri_layer_by_diff_id = (\<lambda>_. Inl (Failed Plain '''')) \<rparr>"

definition sample_stack_fetch :: fetch_image where
  "sample_stack_fetch kc ref =
     (if ref = ''build'' then Inr (sample_stack_image ''build:git'', ''build@sha256:1'')
      else Inr (sample_stack_image ''run:curl'', ''run@sha256:2''))"

definition sample_stack_env :: "cluster_stack res_env" where
  "sample_stack_env = \<lparr>re_now = 100, re_split_key = (\<lambda>k. Inr ('''', k)), re_get = (\<lambda>_ _ _. Inr sample_stack),
     re_keychain = (\<lambda>_ _. Inr ''keychain''), re_update = (\<lambda>_ _. Inr ())\<rparr>"

lemma sample_stack_read:
  "case read_stack sample_stack_fetch (\<lambda>s. Inr [s]) ''keychain'' (stk_spec sample_stack) of
     Inr rs \<Rightarrow> rcs_mixins rs = [''build:git'', ''run:curl''] | Inl _ \<Rightarrow> False"
  by code_simp

lemma sample_stack_reconciled:
  obtains y where "snd (reconcile_cluster_stack sample_stack_env (read_stack sample_stack_fetch (\<lambda>s. Inr [s])) ''jammy'' []) = [WriteStatus y]"
    and "is_true (get_condition (stk_status y) ConditionReady)"
proof -
  let ?reader = "read_stack sample_stack_fetch (\<lambda>s. Inr [s])"
  let ?y = "stacks.report ?reader sample_stack_env sample_stack"
  obtain rs where rs: "?reader ''keychain'' (stk_spec sample_stack) = Inr rs"
    using sample_stack_read by (auto split: sum.splits)
  have env: "re_get sample_stack_env h ns nm = Inr sample_stack" "re_keychain sample_stack_env h r = Inr ''keychain''"
      "re_split_key sample_stack_env k = Inr ('''', k)" for h ns nm r k
    by (simp_all add: sample_stack_env_def)
  have ready: "is_true (get_condition (stk_status ?y) ConditionReady)"
    by (simp add: stacks.report_def stacks.reading_error_def look_with_def rs env stack_with_status_def create_status_ready_iff)
  then have "\<not> stacks.up_to_date ?reader sample_stack_env sample_stack"
    by (auto simp: stacks.up_to_date_def sample_stack_def empty_status_def status_semantic_eq_def get_condition_def)
  then have "snd (reconcile_cluster_stack sample_stack_env ?reader ''jammy'' []) = [WriteStatus ?y]"
    unfolding reconcile_cluster_stack_def
    by (subst stacks.run_trace [where x = sample_stack]) (simp_all add: env look_with_def rs)
  with ready show ?thesis by (rule that [rotated])
qed

theorem ready_stack_consistent_witness:
  "\<exists>y. snd (reconcile_cluster_stack sample_stack_env (read_stack sample_stack_fetch (\<lambda>s. Inr [s])) ''jammy'' []) = [WriteStatus y] \<and>
     (\<exists>bi bid. sample_stack_fetch ''keychain'' ''build'' = Inr (bi, bid) \<and> csi_latest_image (rcs_build_image (stk_resolved y)) = bid)"
proof -
  obtain y where y: "snd (reconcile_cluster_stack sample_stack_env (read_stack sample_stack_fetch (\<lambda>s. Inr [s])) ''jammy'' []) = [WriteStatus y]"
      "is_true (get_condition (stk_status y) ConditionReady)"
    by (rule sample_stack_reconciled)
  have "re_get sample_stack_env h ns nm = Inr sample_stack" for h ns nm by (simp add: sample_stack_env_def)
  from ready_stack_consistent [OF this y] y(1) show ?thesis
    by (auto simp: sample_stack_def sample_stack_fetch_def)
qed

section \<open>Stores\<close>

text \<open>
  What goroutines and maps leave open between two readings that get the same answers from the registry: the
  order in which the entries of an image's layers document are visited, the order in which statuses
  arrive, how they are sorted, and which error is kept.
\<close>

definition same_answers :: "store_lib \<Rightarrow> store_lib \<Rightarrow> bool" where
  "same_answers SL SL' \<longleftrightarrow>
     sl_fetch SL = sl_fetch SL' \<and> sl_new_hash SL = sl_new_hash SL' \<and> sl_package SL = sl_package SL' \<and>
     (\<forall>text. rel_sum (=) (\<lambda>d d'. mset (document_entries d) = mset (document_entries d'))
        (sl_document SL text) (sl_document SL' text))"

definition store_lib_ok :: "store_lib \<Rightarrow> bool" where
  "store_lib_ok SL \<longleftrightarrow> slice_sort (sl_sort SL) \<and> arrives_all SL"

lemma send_layers_permuted:
  assumes "send_layers f es = (ss, None)" and "send_layers f es' = (ss', None)" and "mset es = mset es'"
  shows "mset ss = mset ss'"
proof -
  have eq: "mset rs = image_mset (\<lambda>e. projr (f e)) (mset xs)" if "send_layers f xs = (rs, None)" for xs rs
    using send_layers_all [OF that] by (induction rule: list_all2_induct) simp_all
  show ?thesis using eq [OF assms(1)] eq [OF assms(2)] assms(3) by simp
qed

lemma same_answers_image:
  assumes "same_answers SL SL'" and "snd (read_store_image SL kc i) = None" and "snd (read_store_image SL' kc i) = None"
  shows "mset (fst (read_store_image SL kc i)) = mset (fst (read_store_image SL' kc i))"
proof -
  have eqs: "sl_fetch SL' = sl_fetch SL" "sl_new_hash SL' = sl_new_hash SL" "sl_package SL' = sl_package SL"
    and docs: "rel_sum (=) (\<lambda>d d'. mset (document_entries d) = mset (document_entries d')) (sl_document SL t) (sl_document SL' t)" for t
    using assms(1) by (simp_all add: same_answers_def)
  have layers: "store_layer SL' = store_layer SL" "package_of SL' = package_of SL"
    unfolding store_layer_def [abs_def] package_of_def [abs_def] eqs by (rule refl)+
  from assms(2,3) obtain img ident pkg doc doc' where read: "sl_fetch SL kc i = Inr (img, ident)" "package_of SL img = Inr pkg"
      "get_label (sl_document SL) img buildpackLayersLabel = Inr doc" "get_label (sl_document SL') img buildpackLayersLabel = Inr doc'"
    by (auto simp: read_store_image_def bind_res_def eqs layers split: sum.splits prod.splits)
  then obtain t where "sl_document SL t = Inr doc" "sl_document SL' t = Inr doc'"
    by (auto simp: get_label_def bind_res_eq_Inr split: sum.splits)
  with docs [of t] have "mset (document_entries doc) = mset (document_entries doc')" by simp
  moreover have "read_store_image SL kc i = send_layers (store_layer SL img i pkg) (document_entries doc)"
    "read_store_image SL' kc i = send_layers (store_layer SL img i pkg) (document_entries doc')"
    using read by (simp_all add: read_store_image_def bind_res_def eqs layers)
  ultimately show ?thesis
    using send_layers_permuted assms(2,3) by (metis prod.collapse)
qed

text \<open>
  None of this shows in a reading that succeeds: when no two statuses share name, version and image, two readings
  of the same images return the same list.
\<close>

lemma store_reading_deterministic:
  assumes "same_answers SL SL'" and "store_lib_ok SL" and "store_lib_ok SL'"
    and "inj_on status_key (set (sent_statuses SL kc images))"
    and "snd (read_buildpacks SL kc images) = snd (read_buildpacks SL' kc images)"
  shows "reading (read_buildpacks SL kc images) = reading (read_buildpacks SL' kc images)"
proof (cases "snd (read_buildpacks SL kc images)")
  case None
  have ok: "slice_sort (sl_sort SL)" "arrives_all SL" "slice_sort (sl_sort SL')" "arrives_all SL'"
    using assms(2,3) by (simp_all add: store_lib_ok_def)
  have "\<forall>i \<in> set images. snd (read_store_image SL kc i) = None" "\<forall>i \<in> set images. snd (read_store_image SL' kc i) = None"
    using None assms(5) by (simp_all only: read_buildpacks_error [symmetric])
  then have sent: "mset (sent_statuses SL kc images) = mset (sent_statuses SL' kc images)"
    unfolding sent_statuses_def by (induction images) (simp_all add: same_answers_image [OF assms(1)])
  note facts = read_buildpacks_facts [OF ok(1,2), of kc images]
    and facts' = read_buildpacks_facts [OF ok(3,4), of kc images]
  have "fst (read_buildpacks SL kc images) = fst (read_buildpacks SL' kc images)"
  proof (rule sorted_wrt_mset_unique [OF facts(2) facts'(2)])
    show "mset (fst (read_buildpacks SL kc images)) = mset (fst (read_buildpacks SL' kc images))"
      using facts(1) facts'(1) sent by simp
    show "a = b" if "a \<in> set (fst (read_buildpacks SL kc images))" "b \<in> set (fst (read_buildpacks SL kc images))"
        "\<not> status_less b a" "\<not> status_less a b" for a b
      using inj_onD [OF assms(4)] status_less_ties [OF that(4,3)] that(1,2) facts(1) by (metis mset_eq_setD)
  qed
  with None assms(5) show ?thesis by (simp add: reading_def)
next
  case (Some e)
  moreover from this have "snd (read_buildpacks SL' kc images) = Some e" using assms(5) by simp
  ultimately show ?thesis by (simp add: reading_def)
qed

definition sample_store_lib :: "(buildpack_status list \<Rightarrow> buildpack_status list) \<Rightarrow> store_lib" where
  "sample_store_lib arrival =
     \<lparr>sl_fetch = (\<lambda>kc ref. Inr (\<lparr>ri_config = Inr (Some \<lparr>cfg_labels = [buildpackLayersLabel \<mapsto> ref], cfg_env = [],
            cfg_working_dir = ''''\<rparr>), ri_layer_by_diff_id = (\<lambda>d. Inr \<lparr>lf_size = Inr 10, lf_digest = Inr d\<rparr>)\<rparr>, ref)),
      sl_new_hash = Inr, sl_package = (\<lambda>_. Inl (Failed Plain '''')),
      sl_document = (\<lambda>ref. Inr [(''from-'' @ ref, [(''1.0'', \<lparr>bli_api = ''0.9'', bli_layer_diff_id = ref, bli_order = [],
          bli_stacks = [], bli_homepage = ''''\<rparr>)])]),
      sl_arrival = arrival, sl_first_error = hd, sl_sort = stable_sort\<rparr>"

lemma sample_sent:
  "map status_key (sent_statuses (sample_store_lib f) kc [''b'', ''a'']) = [(''from-b@1.0'', ''b''), (''from-a@1.0'', ''a'')]"
  by (simp add: sent_statuses_def read_store_image_def sample_store_lib_def package_of_def has_label_def get_label_def
      get_string_label_def config_file_def document_entries_def store_layer_def status_key_def buildpack_info_string_def
      buildpackLayersLabel_def buildpackageMetadataLabel_def)

section \<open>Statuses\<close>

text \<open>
  A reconciler settles on an object: it writes at most one status, and once an object is as it was
  written a further reconcile writes nothing. The clock may have moved in between, and the second reconcile need not
  be the same function as the first: it may resolve differently what Go leaves open.
\<close>

definition settles_on :: "('r res_env \<Rightarrow> string \<Rightarrow> ('r, unit) res_io) \<Rightarrow> ('r res_env \<Rightarrow> string \<Rightarrow> ('r, unit) res_io) \<Rightarrow>
    'r res_env \<Rightarrow> 'r \<Rightarrow> bool" where
  "settles_on run again E x \<longleftrightarrow>
     (\<forall>key key' later.
        (case snd (run (E\<lparr>re_get := \<lambda>_ _ _. Inr x\<rparr>) key []) of
           [] \<Rightarrow> True
         | [WriteStatus y] \<Rightarrow> snd (again (E\<lparr>re_get := \<lambda>_ _ _. Inr y, re_now := later\<rparr>) key' []) = []
         | _ \<Rightarrow> False))"

lemma settles_onI:
  assumes "\<And>key key' later. case snd (run (E\<lparr>re_get := \<lambda>_ _ _. Inr x\<rparr>) key []) of
       [] \<Rightarrow> True
     | [WriteStatus y] \<Rightarrow> snd (run (E\<lparr>re_get := \<lambda>_ _ _. Inr y, re_now := later\<rparr>) key' []) = []
     | _ \<Rightarrow> False"
    and "\<And>key key' later y. snd (run (E\<lparr>re_get := \<lambda>_ _ _. Inr x\<rparr>) key []) = [WriteStatus y] \<Longrightarrow>
       again (E\<lparr>re_get := \<lambda>_ _ _. Inr y, re_now := later\<rparr>) key' = run (E\<lparr>re_get := \<lambda>_ _ _. Inr y, re_now := later\<rparr>) key'"
  shows "settles_on run again E x"
  unfolding settles_on_def
proof (intro allI)
  fix key key' later
  show "case snd (run (E\<lparr>re_get := \<lambda>_ _ _. Inr x\<rparr>) key []) of
       [] \<Rightarrow> True
     | [WriteStatus y] \<Rightarrow> snd (again (E\<lparr>re_get := \<lambda>_ _ _. Inr y, re_now := later\<rparr>) key' []) = []
     | _ \<Rightarrow> False"
    using assms(1) [where key = key and key' = key' and later = later] assms(2) [where key = key and key' = key' and later = later]
    by (auto split: list.splits status_event.splits)
qed

text \<open>A store reader shows in a reconcile only through its reading of the sources of the object.\<close>

lemma store_runs_agree:
  assumes "\<And>kc. reading (r kc (csp_sources (sto_spec y))) = reading (r' kc (csp_sources (sto_spec y)))"
  shows "reconcile_cluster_store (E\<lparr>re_get := \<lambda>_ _ _. Inr y, re_now := t\<rparr>) r' key = reconcile_cluster_store (E\<lparr>re_get := \<lambda>_ _ _. Inr y, re_now := t\<rparr>) r key"
proof (rule ext)
  fix h
  let ?E = "E\<lparr>re_get := \<lambda>_ _ _. Inr y, re_now := t\<rparr>"
  have "reconcile_cluster_store_status ?E r' y = reconcile_cluster_store_status ?E r y"
    by (simp add: reconcile_cluster_store_status_def assms)
  then show "reconcile_cluster_store ?E r' key h = reconcile_cluster_store ?E r key h"
    by (cases "re_split_key E key") (auto simp: reconcile_cluster_store_def reconcile_resource_def io_simps)
qed

lemma buildpack_runs_agree:
  assumes "\<And>kc. reading (r kc [bps_image (bpk_spec y)]) = reading (r' kc [bps_image (bpk_spec y)])"
  shows "reconcile_buildpack (E\<lparr>re_get := \<lambda>_ _ _. Inr y, re_now := t\<rparr>) r' key = reconcile_buildpack (E\<lparr>re_get := \<lambda>_ _ _. Inr y, re_now := t\<rparr>) r key"
proof (rule ext)
  fix h
  let ?E = "E\<lparr>re_get := \<lambda>_ _ _. Inr y, re_now := t\<rparr>"
  have "reconcile_buildpack_status ?E r' y = reconcile_buildpack_status ?E r y"
    by (simp add: reconcile_buildpack_status_def assms)
  then show "reconcile_buildpack ?E r' key h = reconcile_buildpack ?E r key h"
    by (cases "re_split_key E key") (auto simp: reconcile_buildpack_def reconcile_resource_def io_simps)
qed

lemma cluster_buildpack_runs_agree:
  assumes "\<And>kc. reading (r kc [cbps_image (cbp_spec y)]) = reading (r' kc [cbps_image (cbp_spec y)])"
  shows "reconcile_cluster_buildpack (E\<lparr>re_get := \<lambda>_ _ _. Inr y, re_now := t\<rparr>) r' key = reconcile_cluster_buildpack (E\<lparr>re_get := \<lambda>_ _ _. Inr y, re_now := t\<rparr>) r key"
proof (rule ext)
  fix h
  let ?E = "E\<lparr>re_get := \<lambda>_ _ _. Inr y, re_now := t\<rparr>"
  have "reconcile_cluster_buildpack_status ?E r' y = reconcile_cluster_buildpack_status ?E r y"
    by (simp add: reconcile_cluster_buildpack_status_def assms)
  then show "reconcile_cluster_buildpack ?E r' key h = reconcile_cluster_buildpack ?E r key h"
    by (cases "re_split_key E key") (auto simp: reconcile_cluster_buildpack_def reconcile_resource_def io_simps)
qed

text \<open>The images whose readings a property speaks about fail, if at all, with one and the same error.\<close>

definition reads_alike :: "store_lib \<Rightarrow> store_lib \<Rightarrow> string list \<Rightarrow> bool" where
  "reads_alike SL SL' images \<longleftrightarrow>
     (\<forall>kc. inj_on status_key (set (sent_statuses SL kc images)) \<and>
        snd (read_buildpacks SL kc images) = snd (read_buildpacks SL' kc images))"

text \<open>
  C19: The reconcilers of stacks, lifecycles, stores, buildpacks and cluster buildpacks all settle: a
  status is written at most once, and not again while the specification and what the registry answers
  stay the same, however the clock moves. For stores and buildpacks the second reading may visit the layers document
  in another order, get the statuses of its goroutines in another order and sort them with another algorithm. It is
  assumed that no two buildpacks read share name, version and image, and that the second reading fails
  with the error of the first, if it fails: with several failing images Go may keep another error, and then the
  status is written again.
\<close>

theorem resource_reconcilers_settle:
  assumes "same_answers SL SL'" and "store_lib_ok SL" and "store_lib_ok SL'"
  shows "settles_on (\<lambda>E. reconcile_cluster_stack E stack_reader) (\<lambda>E. reconcile_cluster_stack E stack_reader) E1 stack \<and>
   settles_on (\<lambda>E. reconcile_cluster_lifecycle E lifecycle_reader) (\<lambda>E. reconcile_cluster_lifecycle E lifecycle_reader) E2 lifecycle \<and>
   (reads_alike SL SL' (csp_sources (sto_spec store)) \<longrightarrow>
      settles_on (\<lambda>E. reconcile_cluster_store E (read_buildpacks SL)) (\<lambda>E. reconcile_cluster_store E (read_buildpacks SL')) E3 store) \<and>
   (reads_alike SL SL' [bps_image (bpk_spec bp)] \<longrightarrow>
      settles_on (\<lambda>E. reconcile_buildpack E (read_buildpacks SL)) (\<lambda>E. reconcile_buildpack E (read_buildpacks SL')) E4 bp) \<and>
   (reads_alike SL SL' [cbps_image (cbp_spec cbp)] \<longrightarrow>
      settles_on (\<lambda>E. reconcile_cluster_buildpack E (read_buildpacks SL)) (\<lambda>E. reconcile_cluster_buildpack E (read_buildpacks SL')) E5 cbp)"
proof (intro conjI impI)
  note same = store_reading_deterministic [OF assms]
  show "settles_on (\<lambda>E. reconcile_cluster_stack E stack_reader) (\<lambda>E. reconcile_cluster_stack E stack_reader) E1 stack"
    unfolding reconcile_cluster_stack_def by (rule settles_onI) (rule stacks.settled, rule refl)
  show "settles_on (\<lambda>E. reconcile_cluster_lifecycle E lifecycle_reader) (\<lambda>E. reconcile_cluster_lifecycle E lifecycle_reader) E2 lifecycle"
    unfolding reconcile_cluster_lifecycle_def by (rule settles_onI) (rule lifecycles.settled, rule refl)
  show "settles_on (\<lambda>E. reconcile_cluster_store E (read_buildpacks SL)) (\<lambda>E. reconcile_cluster_store E (read_buildpacks SL')) E3 store"
    if alike: "reads_alike SL SL' (csp_sources (sto_spec store))"
  proof (rule settles_onI, unfold reconcile_cluster_store_def, rule stores.settled, fold reconcile_cluster_store_def, rule store_runs_agree)
    fix key y kc
    assume "snd (reconcile_cluster_store (E3\<lparr>re_get := \<lambda>_ _ _. Inr store\<rparr>) (read_buildpacks SL) key []) = [WriteStatus y]"
    then have "sto_spec y = sto_spec store"
      using stores.written [of "E3\<lparr>re_get := \<lambda>_ _ _. Inr store\<rparr>" store "read_buildpacks SL" key y]
      by (auto simp: reconcile_cluster_store_def store_with_status_def dest: arg_cong [where f = sto_spec])
    with alike same show "reading (read_buildpacks SL kc (csp_sources (sto_spec y))) = reading (read_buildpacks SL' kc (csp_sources (sto_spec y)))"
      by (simp add: reads_alike_def)
  qed
  show "settles_on (\<lambda>E. reconcile_buildpack E (read_buildpacks SL)) (\<lambda>E. reconcile_buildpack E (read_buildpacks SL')) E4 bp"
    if alike: "reads_alike SL SL' [bps_image (bpk_spec bp)]"
  proof (rule settles_onI, unfold reconcile_buildpack_def, rule buildpacks.settled, fold reconcile_buildpack_def, rule buildpack_runs_agree)
    fix key y kc
    assume "snd (reconcile_buildpack (E4\<lparr>re_get := \<lambda>_ _ _. Inr bp\<rparr>) (read_buildpacks SL) key []) = [WriteStatus y]"
    then have "bpk_spec y = bpk_spec bp"
      using buildpacks.written [of "E4\<lparr>re_get := \<lambda>_ _ _. Inr bp\<rparr>" bp "read_buildpacks SL" key y]
      by (auto simp: reconcile_buildpack_def buildpack_with_status_def dest: arg_cong [where f = bpk_spec])
    with alike same show "reading (read_buildpacks SL kc [bps_image (bpk_spec y)]) = reading (read_buildpacks SL' kc [bps_image (bpk_spec y)])"
      by (simp add: reads_alike_def)
  qed
  show "settles_on (\<lambda>E. reconcile_cluster_buildpack E (read_buildpacks SL)) (\<lambda>E. reconcile_cluster_buildpack E (read_buildpacks SL')) E5 cbp"
    if alike: "reads_alike SL SL' [cbps_image (cbp_spec cbp)]"
  proof (rule settles_onI, unfold reconcile_cluster_buildpack_def, rule cluster_buildpacks.settled, fold reconcile_cluster_buildpack_def, rule cluster_buildpack_runs_agree)
    fix key y kc
    assume "snd (reconcile_cluster_buildpack (E5\<lparr>re_get := \<lambda>_ _ _. Inr cbp\<rparr>) (read_buildpacks SL) key []) = [WriteStatus y]"
    then have "cbp_spec y = cbp_spec cbp"
      using cluster_buildpacks.written [of "E5\<lparr>re_get := \<lambda>_ _ _. Inr cbp\<rparr>" cbp "read_buildpacks SL" key y]
      by (auto simp: reconcile_cluster_buildpack_def cluster_buildpack_with_status_def dest: arg_cong [where f = cbp_spec])
    with alike same show "reading (read_buildpacks SL kc [cbps_image (cbp_spec y)]) = reading (read_buildpacks SL' kc [cbps_image (cbp_spec y)])"
      by (simp add: reads_alike_def)
  qed
qed

definition sample_cluster_store :: cluster_store where
  "sample_cluster_store = \<lparr>sto_kind = '''', sto_meta = empty_meta\<lparr>meta_name := ''store'', meta_generation := 1\<rparr>,
     sto_spec = \<lparr>csp_sources = [''b'', ''a''], csp_service_account_ref = None\<rparr>,
     sto_status = \<lparr>st_observed_generation = 0, st_conditions = []\<rparr>, sto_buildpacks = []\<rparr>"

definition sample_store_env :: "cluster_store res_env" where
  "sample_store_env = \<lparr>re_now = 100, re_split_key = (\<lambda>k. Inr ('''', k)), re_get = (\<lambda>_ _ _. Inr sample_cluster_store),
     re_keychain = (\<lambda>_ _. Inr ''keychain''), re_update = (\<lambda>_ _. Inr ())\<rparr>"

lemma sample_store_ok: "store_lib_ok (sample_store_lib id)" "store_lib_ok (sample_store_lib rev)"
    "same_answers (sample_store_lib id) (sample_store_lib rev)"
    "reads_alike (sample_store_lib id) (sample_store_lib rev) (csp_sources (sto_spec sample_cluster_store))"
proof -
  have sort: "slice_sort (sl_sort (sample_store_lib f))" for f
    unfolding sample_store_lib_def store_lib.simps by (rule stable.slice_sort_axioms)
  then show "store_lib_ok (sample_store_lib id)" "store_lib_ok (sample_store_lib rev)"
    by (simp_all add: store_lib_ok_def sample_store_lib_def arrives_all_def)
  show "same_answers (sample_store_lib id) (sample_store_lib rev)"
    by (simp add: same_answers_def sample_store_lib_def)
  have keys: "inj_on status_key (set (sent_statuses (sample_store_lib id) kc [''b'', ''a'']))" for kc
    by (rule distinct_map [THEN iffD1, THEN conjunct2]) (simp add: sample_sent)
  have "snd (read_buildpacks (sample_store_lib f) kc [''b'', ''a'']) = None" for f kc
    by (simp add: read_buildpacks_error read_store_image_def sample_store_lib_def package_of_def has_label_def get_label_def
        get_string_label_def config_file_def document_entries_def store_layer_def
        buildpackLayersLabel_def buildpackageMetadataLabel_def)
  with keys show "reads_alike (sample_store_lib id) (sample_store_lib rev) (csp_sources (sto_spec sample_cluster_store))"
    by (simp add: reads_alike_def sample_cluster_store_def)
qed

theorem resource_reconcilers_settle_witness:
  "settles_on (\<lambda>E. reconcile_cluster_store E (read_buildpacks (sample_store_lib id)))
     (\<lambda>E. reconcile_cluster_store E (read_buildpacks (sample_store_lib rev))) sample_store_env sample_cluster_store"
  using resource_reconcilers_settle [OF sample_store_ok(3,1,2)] sample_store_ok(4) by blast

section \<open>The metadata of a build\<close>

text \<open>
  What the completion container of a build leaves in its termination message is what the controller
  reads: the message of the metadata decodes to the same metadata and fits the 4096 bytes of a
  termination message, with base64 as the Go library encodes it.
\<close>

theorem build_metadata_roundtrip:
  assumes "codec_ok CD" and "compress_build_metadata CD md = Inr msg"
  shows "decompress_build_metadata CD msg = Inr md \<and> length msg \<le> maxTerminationMessageSize \<and>
    (\<forall>E s ss t. be_decompress E = decompress_build_metadata CD \<longrightarrow> cs_name s = CompletionContainerName \<longrightarrow>
       cs_state s = CsTerminated t \<longrightarrow> term_message t = msg \<longrightarrow> build_metadata_from_statuses E (s # ss) = Inr md)"
  using compress_roundtrip [OF assms] by simp

definition sample_message :: build_metadata where
  "sample_message = \<lparr>bmd_buildpacks = [\<lparr>bm_id = ''java'', bm_version = ''1'', bm_homepage = ''''\<rparr>],
     bmd_latest_cache_image = '''', bmd_latest_image = ''app@sha256:1'', bmd_stack_id = ''jammy'',
     bmd_stack_run_image = ''run@sha256:2'', bmd_lifecycle_version = ''0.17.0''\<rparr>"

definition sample_codec :: codec where
  "sample_codec = \<lparr>cd_marshal = (\<lambda>md. if md = sample_message then Inr ''{}'' else Inl (Failed Plain '''')),
     cd_unmarshal = (\<lambda>s. if s = ''{}'' then Inr sample_message else Inl (Failed Plain '''')),
     cd_gzip = Inr, cd_gunzip = Inr\<rparr>"

theorem build_metadata_roundtrip_witness:
  "compress_build_metadata sample_codec sample_message = Inr ''e30='' \<and>
   decompress_build_metadata sample_codec ''e30='' = Inr sample_message"
proof -
  have ok: "codec_ok sample_codec" by (auto simp: codec_ok_def sample_codec_def split: if_splits)
  have "b64_encode ''{}'' = ''e30=''" by code_simp
  then have "compress_build_metadata sample_codec sample_message = Inr ''e30=''"
    by (simp add: compress_build_metadata_def sample_codec_def encoded_len_def maxTerminationMessageSize_def)
  with build_metadata_roundtrip [OF ok this] show ?thesis by simp
qed

section \<open>Builders\<close>

text \<open>
  A reconcile of a builder or cluster builder writes its status last and once. When the image could
  be made the builder is ready, up to date and describes that image; when it could not, the builder
  keeps the image, buildpacks, stack and lifecycle it had, stays ready exactly when it has an image, and
  is marked out of date. Name, labels and specification are left alone.
\<close>

theorem builder_reports_creation:
  "(\<forall>E b k key y. (\<forall>h ns nm. bde_get_builder E h ns nm = Inr b) \<and> bde_split_key E key = Inr k \<and>
      WriteBuilder y \<in> set (snd (reconcile_builder_key E key [])) \<longrightarrow>
      snd (reconcile_builder_key E key []) = snd (reconcile_builder E b []) @ [WriteBuilder y] \<and>
      bd_meta y = bd_meta b \<and> bd_spec y = bd_spec b \<and>
      st_observed_generation (bds_status (bd_status y)) = meta_generation (bd_meta b) \<and>
      reports_creation (fst (reconcile_builder E b [])) (bd_status b) (bd_status y)) \<and>
   (\<forall>E b k key y. (\<forall>h ns nm. bde_get_builder E h ns nm = Inr b) \<and> bde_split_key E key = Inr k \<and>
      WriteBuilder y \<in> set (snd (reconcile_cluster_builder_key E key [])) \<longrightarrow>
      snd (reconcile_cluster_builder_key E key []) = snd (reconcile_cluster_builder E b []) @ [WriteBuilder y] \<and>
      cbd_meta y = cbd_meta b \<and> cbd_spec y = cbd_spec b \<and>
      st_observed_generation (bds_status (cbd_status y)) = meta_generation (cbd_meta b) \<and>
      reports_creation (fst (reconcile_cluster_builder E b [])) (cbd_status b) (cbd_status y))"
proof (intro conjI allI impI; elim conjE)
  fix E :: "builder builder_env" and b k key y
  assume run: "\<forall>h ns nm. bde_get_builder E h ns nm = Inr b" "bde_split_key E key = Inr k"
    "WriteBuilder y \<in> set (snd (reconcile_builder_key E key []))"
  note written = builders.written [OF run(1) [rule_format] run(2,3)]
  have "bd_spec y = bd_spec b" using arg_cong [OF written [THEN conjunct2, THEN conjunct2, THEN conjunct1], of bd_spec] by simp
  with written show "snd (reconcile_builder_key E key []) = snd (reconcile_builder E b []) @ [WriteBuilder y]"
      "bd_meta y = bd_meta b" "bd_spec y = bd_spec b"
      "st_observed_generation (bds_status (bd_status y)) = meta_generation (bd_meta b)"
      "reports_creation (fst (reconcile_builder E b [])) (bd_status b) (bd_status y)"
    by simp_all
next
  fix E :: "cluster_builder builder_env" and b k key y
  assume run: "\<forall>h ns nm. bde_get_builder E h ns nm = Inr b" "bde_split_key E key = Inr k"
    "WriteBuilder y \<in> set (snd (reconcile_cluster_builder_key E key []))"
  note written = cluster_builders.written [OF run(1) [rule_format] run(2,3)]
  have "cbd_spec y = cbd_spec b" using arg_cong [OF written [THEN conjunct2, THEN conjunct2, THEN conjunct1], of cbd_spec] by simp
  with written show "snd (reconcile_cluster_builder_key E key []) = snd (reconcile_cluster_builder E b []) @ [WriteBuilder y]"
      "cbd_meta y = cbd_meta b" "cbd_spec y = cbd_spec b"
      "st_observed_generation (bds_status (cbd_status y)) = meta_generation (cbd_meta b)"
      "reports_creation (fst (reconcile_cluster_builder E b [])) (cbd_status b) (cbd_status y)"
    by simp_all
qed

definition sample_ready_stack :: cluster_stack where "sample_ready_stack = sample_stack\<lparr>stk_status := ready_status\<rparr>"

definition sample_ready_lifecycle :: cluster_lifecycle where
  "sample_ready_lifecycle = sample_cluster_lifecycle\<lparr>clc_status := ready_status\<rparr>"

definition sample_namespaced_builder :: builder where
  "sample_namespaced_builder = \<lparr>bd_meta = empty_meta\<lparr>meta_name := ''base'', meta_namespace := ''dev''\<rparr>,
     bd_spec = \<lparr>nbs_builder = sample_builder_spec, nbs_service_account_name = ''default'', nbs_compat_service_account = ''''\<rparr>,
     bd_status = sample_builder_status\<rparr>"

text \<open>The registry refuses the image.\<close>

definition sample_builder_env :: "builder builder_env" where
  "sample_builder_env = \<lparr>bde_now = 100, bde_lib = sample_lib, bde_tag_name = (\<lambda>r t. t), bde_ref_name = ref_identifier,
     bde_split_key = (\<lambda>k. Inr (''dev'', k)), bde_get_builder = (\<lambda>_ _ _. Inr sample_namespaced_builder),
     bde_get_store = (\<lambda>_ _. Inl (Failed NotFound '''')), bde_list_buildpacks = (\<lambda>_ _. Inr []),
     bde_list_cluster_buildpacks = (\<lambda>_. Inr []), bde_get_stack = (\<lambda>_ _. Inr sample_ready_stack),
     bde_get_lifecycle = (\<lambda>_ _. Inr sample_ready_lifecycle), bde_keychain = (\<lambda>_ _. Inr ''keychain''),
     bde_secrets = (\<lambda>_ _ _. Inr []), bde_create = (\<lambda>_ _. Inl (Failed Plain ''denied'')), bde_update = (\<lambda>_ _. Inr ())\<rparr>"

lemma sample_stack_ready: "is_true (get_condition ready_status ConditionReady)"
  by (simp add: ready_status_def get_condition_def)

lemma sample_creation_fails: "fst (reconcile_builder sample_builder_env sample_namespaced_builder []) = Inl (Failed Plain ''denied'')"
  by (simp add: reconcile_builder_def sample_builder_env_def sample_namespaced_builder_def sample_builder_spec_def
      io_simps track_object_def track_kind_def builder_store_def own_keychain_def sample_stack_ready sample_ready_stack_def
      sample_ready_lifecycle_def sample_stack_def sample_cluster_lifecycle_def resolve_builder_image_ref_def
      resolve_ref_def sample_lib_def Let_def)

theorem builder_reports_creation_witness:
  "\<exists>y. WriteBuilder y \<in> set (snd (reconcile_builder_key sample_builder_env ''base'' [])) \<and>
     bds_latest_image (bd_status y) = ''builder@sha256:2'' \<and>
     is_false (get_condition (bds_status (bd_status y)) ConditionUpToDate)"
proof -
  have get: "\<And>h ns nm. bde_get_builder sample_builder_env h ns nm = Inr sample_namespaced_builder"
    and key: "bde_split_key sample_builder_env ''base'' = Inr (''dev'', ''base'')"
    by (simp_all add: sample_builder_env_def)
  let ?y = "builders.outcome sample_builder_env sample_namespaced_builder (Inl (Failed Plain ''denied''))"
  have "\<not> builder_status_equal (bd_status ?y) (bd_status sample_namespaced_builder)"
    by (simp add: builder_status_equal_def builders.outcome_def builder_error_create_def sample_namespaced_builder_def
        sample_builder_status_def ready_status_def status_semantic_eq_def condition_semantic_eq_def mk_condition_def
        Let_def)
  then have writes: "WriteBuilder ?y \<in> set (snd (reconcile_builder_key sample_builder_env ''base'' []))"
    unfolding builders.run_trace(1) [OF get key] by (simp add: sample_creation_fails)
  with builder_reports_creation get key
  have "reports_creation (fst (reconcile_builder sample_builder_env sample_namespaced_builder []))
      (bd_status sample_namespaced_builder) (bd_status ?y)"
    by blast
  moreover have "bds_latest_image (bd_status sample_namespaced_builder) = ''builder@sha256:2''"
    by (simp add: sample_namespaced_builder_def sample_builder_status_def)
  ultimately show ?thesis
    using writes unfolding sample_creation_fails by (intro exI [of _ ?y]) (simp add: reports_creation_def)
qed

text \<open>
  A builder sees only what it has already registered for: two worlds that agree on every stack,
  lifecycle, store and list of buildpacks once the builder tracks it give the same image and the same
  calls. So no object it depends on can change unnoticed between registration and reading.
\<close>

theorem builder_reads_what_it_tracks:
  "(agree_tracked (meta_namespaced_name (bd_meta b)) E E' \<longrightarrow> reconcile_builder E b [] = reconcile_builder E' b []) \<and>
   (agree_tracked (meta_namespaced_name (cbd_meta c)) F F' \<longrightarrow>
      reconcile_cluster_builder F c [] = reconcile_cluster_builder F' c [])"
  using reconcile_builder_tracks reconcile_cluster_builder_tracks by blast

text \<open>A lister that gives other answers about what the builder does not track.\<close>

definition sample_elsewhere :: "builder builder_env" where
  "sample_elsewhere = sample_builder_env
     \<lparr>bde_get_stack := (\<lambda>h nm. if \<exists>who. BTrack (cluster_key ClusterStackKind nm) who \<in> set h then Inr sample_ready_stack
                              else Inl (Failed NotFound ''not found''))\<rparr>"

theorem builder_reads_what_it_tracks_witness:
  "reconcile_builder sample_elsewhere sample_namespaced_builder [] = reconcile_builder sample_builder_env sample_namespaced_builder [] \<and>
   bde_get_stack sample_elsewhere [] ''base'' \<noteq> bde_get_stack sample_builder_env [] ''base''"
proof -
  have "agree_tracked w sample_elsewhere sample_builder_env" for w
    by (auto simp: agree_tracked_def sample_elsewhere_def sample_builder_env_def)
  with builder_reads_what_it_tracks
  have "reconcile_builder sample_elsewhere sample_namespaced_builder [] = reconcile_builder sample_builder_env sample_namespaced_builder []"
    by blast
  then show ?thesis by (simp add: sample_elsewhere_def sample_builder_env_def)
qed

section \<open>The tracker\<close>

text \<open>
  C20: The tracker implements its specification: after any sequence of registrations and changes, a
  change of an object calls back exactly those who registered for that object or for its kind at most
  one lease ago. Changes in between lose no registration, and the order in which Go visits the watchers
  does not matter.
\<close>

theorem tracker_notifies_registered:
  assumes "sorted (map fst ops)" and "\<forall>op \<in> set ops. fst op \<le> now" and "visits_all visit"
  shows "who \<in> set (snd (on_changed N visit (\<lambda>_. now) k (tracker_run N visit lease ops))) \<longleftrightarrow>
    (\<exists>t k'. (t, DoTrack k' who) \<in> set ops \<and> key_string N k' = key_string N k \<and> now \<le> t + lease) \<or>
    (\<exists>t gk. (t, DoTrackKind gk who) \<in> set ops \<and>
       kl_group_kind N (fst gk) (snd gk) = kl_group_kind N (key_group k) (key_kind k) \<and> now \<le> t + lease)"
proof -
  note run = tracker_run_reflects [OF assms(2,1), of N visit lease]
  have "set (snd (on_changed N visit (\<lambda>_. now) k t)) =
      set (snd (notify visit (\<lambda>_. now) (tk_objects t) (key_string N k))) \<union>
      set (snd (notify visit (\<lambda>_. now) (tk_kinds t) (kl_group_kind N (key_group k) (key_kind k))))" for t
    by (simp add: on_changed_def case_prod_beta)
  moreover have "(\<exists>e. (j, who, e) \<in> object_registrations N lease ops \<and> now \<le> e) \<longleftrightarrow>
      (\<exists>t k'. (t, DoTrack k' who) \<in> set ops \<and> key_string N k' = j \<and> now \<le> t + lease)" for j
    unfolding object_registrations_def by blast
  moreover have "(\<exists>e. (j, who, e) \<in> kind_registrations N lease ops \<and> now \<le> e) \<longleftrightarrow>
      (\<exists>t gk. (t, DoTrackKind gk who) \<in> set ops \<and> kl_group_kind N (fst gk) (snd gk) = j \<and> now \<le> t + lease)" for j
    unfolding kind_registrations_def by blast
  ultimately show ?thesis
    by (simp only: Un_iff notify_calls [OF run [THEN conjunct2, THEN conjunct1] assms(3)]
        notify_calls [OF run [THEN conjunct2, THEN conjunct2] assms(3)])
qed

definition sample_key_lib :: key_lib where
  "sample_key_lib = \<lparr>kl_group_kind = (\<lambda>g k. k @ ''.'' @ g), kl_namespaced_name = (\<lambda>n. nn_namespace n @ ''/'' @ nn_name n)\<rparr>"

theorem tracker_notifies_registered_witness:
  "snd (on_changed sample_key_lib id (\<lambda>_. 15) (cluster_key ClusterStackKind ''jammy'')
      (tracker_run sample_key_lib id 10
         [(0, DoTrack (cluster_key ClusterStackKind ''jammy'') \<lparr>nn_namespace = ''dev'', nn_name = ''old''\<rparr>),
          (7, DoTrack (cluster_key ClusterStackKind ''jammy'') \<lparr>nn_namespace = ''dev'', nn_name = ''base''\<rparr>)])) \<noteq> []"
proof -
  let ?ops = "[(0, DoTrack (cluster_key ClusterStackKind ''jammy'') \<lparr>nn_namespace = ''dev'', nn_name = ''old''\<rparr>),
    (7, DoTrack (cluster_key ClusterStackKind ''jammy'') \<lparr>nn_namespace = ''dev'', nn_name = ''base''\<rparr>)] :: (int \<times> tracker_op) list"
  have "\<lparr>nn_namespace = ''dev'', nn_name = ''base''\<rparr> \<in> set (snd (on_changed sample_key_lib id (\<lambda>_. 15)
      (cluster_key ClusterStackKind ''jammy'') (tracker_run sample_key_lib id 10 ?ops)))"
    by (subst tracker_notifies_registered) (auto simp: visits_all_def)
  then show ?thesis by auto
qed

end
