(* ===== verification/Git_Resolver.thy ===== *)
theory Git_Resolver
  imports Remote_Readers
begin

text \<open>
  \<open>pkg/git\<close>: the credentials of a service account that match the url of a repository, and the two ways
  in which a revision is resolved, by listing the references of the remote and, for a sub path, by a
  shallow clone. Parsing of urls, keys and host files and the git protocol come from libraries.
\<close>

section \<open>Credentials\<close>

datatype host_check = IgnoreHostKey | KnownHosts opaque | DefaultHostKeys

datatype git_auth = AnonymousAuth | BasicAuth string string | SshKeys opaque host_check

text \<open>A credential with its secret, or the error of reading it.\<close>

datatype git_credential =
    GitBasic string string "(string \<times> string) res"
  | GitSsh string string bool "(string \<times> string) res"

text \<open>The scheme and the host of a parsed url, the two parsers of ssh material and the sorting of slices.\<close>

record git_keys =
  gk_parse_url :: "string \<Rightarrow> (string \<times> string) res"
  gk_public_keys :: "string \<Rightarrow> opaque res"
  gk_known_hosts :: "string \<Rightarrow> opaque res"
  gk_sort :: "(git_credential \<Rightarrow> git_credential \<Rightarrow> bool) \<Rightarrow> git_credential list \<Rightarrow> git_credential list"

text \<open>The formats \<open>%s\<close>, \<open>https://%s\<close>, \<open>http://%s\<close> and \<open>git@%s\<close>.\<close>

definition matchingDomains :: "(string \<Rightarrow> string) list" where
  "matchingDomains = [\<lambda>s. s, \<lambda>s. ''https://'' @ s, \<lambda>s. ''http://'' @ s, \<lambda>s. ''git@'' @ s]"

definition git_url_match :: "string \<Rightarrow> string \<Rightarrow> bool" where
  "git_url_match url annotated = list_ex (\<lambda>fmt. fmt url = annotated) matchingDomains"

fun cred_name :: "git_credential \<Rightarrow> string" where
  "cred_name (GitBasic domain nm s) = nm"
| "cred_name (GitSsh domain nm trust s) = nm"

fun cred_match :: "git_credential \<Rightarrow> string \<times> string \<Rightarrow> bool" where
  "cred_match (GitBasic domain nm s) (scheme, host) =
     ((scheme = ''http'' \<or> scheme = ''https'') \<and> git_url_match host domain)"
| "cred_match (GitSsh domain nm trust s) (scheme, host) = (scheme = ''ssh'' \<and> git_url_match host domain)"

fun cred_auth :: "git_keys \<Rightarrow> git_credential \<Rightarrow> git_auth res" where
  "cred_auth G (GitBasic domain nm secret) = bind_res secret (\<lambda>(user, password). Inr (BasicAuth user password))"
| "cred_auth G (GitSsh domain nm trust secret) =
     bind_res secret (\<lambda>(private_key, known_hosts).
     bind_res (gk_public_keys G private_key) (\<lambda>keys.
       if trust then Inr (SshKeys keys IgnoreHostKey)
       else if known_hosts \<noteq> '''' then
         bind_res (gk_known_hosts G known_hosts) (\<lambda>hosts. Inr (SshKeys keys (KnownHosts hosts)))
       else Inr (SshKeys keys DefaultHostKeys)))"

definition resolve_credential :: "git_keys \<Rightarrow> git_credential list \<Rightarrow> string \<Rightarrow> git_auth res" where
  "resolve_credential G creds raw_url =
     bind_res (gk_parse_url G raw_url) (\<lambda>url.
       case find (\<lambda>c. cred_match c url) (gk_sort G (\<lambda>a b. cred_name a < cred_name b) creds) of
         Some c \<Rightarrow> cred_auth G c
       | None \<Rightarrow> Inr AnonymousAuth)"

subsection \<open>Credentials of a service account\<close>

definition fetch_basic_auth :: "secret \<Rightarrow> (string \<times> string) res" where
  "fetch_basic_auth s = Inr (lookup_str (sec_data s) ''username'', lookup_str (sec_data s) ''password'')"

definition fetch_ssh_auth :: "secret \<Rightarrow> (string \<times> string) res" where
  "fetch_ssh_auth s = Inr (lookup_str (sec_data s) ''ssh-privatekey'', lookup_str (sec_data s) ''known_hosts'')"

fun credentials_of_secrets :: "bool \<Rightarrow> secret list \<Rightarrow> git_credential list" where
  "credentials_of_secrets trust [] = []"
| "credentials_of_secrets trust (s # ss) =
     (if sec_type s = SecretTypeBasicAuth
      then [GitBasic (lookup_str (sec_annotations s) GITSecretAnnotationPrefix) (sec_name s) (fetch_basic_auth s)]
      else if sec_type s = SecretTypeSSHAuth
      then [GitSsh (lookup_str (sec_annotations s) GITSecretAnnotationPrefix) (sec_name s) trust (fetch_ssh_auth s)]
      else []) @ credentials_of_secrets trust ss"

definition resolve_git_auth :: "git_keys \<Rightarrow> bool \<Rightarrow> secret list res \<Rightarrow> git \<Rightarrow> git_auth res" where
  "resolve_git_auth G trust secrets g =
     (case secrets of
        Inl e \<Rightarrow> if is_not_found e then Inr AnonymousAuth else Inl e
      | Inr ss \<Rightarrow> resolve_credential G (credentials_of_secrets trust ss) (git_url g))"

text \<open>The secrets of an account that are gone are left out; any other error stops.\<close>

fun secrets_from_service_account :: "(string \<Rightarrow> secret res) \<Rightarrow> string list \<Rightarrow> secret list res" where
  "secrets_from_service_account get [] = Inr []"
| "secrets_from_service_account get (n # ns) =
     (case get n of
        Inl e \<Rightarrow> if is_not_found e then secrets_from_service_account get ns else Inl e
      | Inr s \<Rightarrow> bind_res (secrets_from_service_account get ns) (\<lambda>ss. Inr (s # ss)))"

definition secrets_for_service_account :: "string list res \<Rightarrow> (string \<Rightarrow> secret res) \<Rightarrow> secret list res" where
  "secrets_for_service_account account get = bind_res account (secrets_from_service_account get)"

subsection \<open>Mounted credentials\<close>

definition split_pair :: "string \<Rightarrow> string list" where
  "split_pair s = split_on (CHR ''='') s"

fun mounted_credentials :: "(string \<Rightarrow> string \<Rightarrow> git_credential) \<Rightarrow> string list \<Rightarrow> git_credential list res" where
  "mounted_credentials mk [] = Inr []"
| "mounted_credentials mk (s # ss) =
     (let parts = split_pair s
      in if length parts \<noteq> 2 then Inl (Failed Plain (''could not parse git secret argument '' @ s))
         else bind_res (mounted_credentials mk ss) (\<lambda>cs. Inr (mk (parts ! 1) (parts ! 0) # cs)))"

text \<open>The secrets are read from the volume only when a credential is used.\<close>

definition new_mounted_secret_git_keychain :: "(string \<Rightarrow> (string \<times> string) res) \<Rightarrow> (string \<Rightarrow> (string \<times> string) res) \<Rightarrow>
    string list \<Rightarrow> string list \<Rightarrow> bool \<Rightarrow> git_credential list res" where
  "new_mounted_secret_git_keychain read_basic read_ssh basic_auth_secrets ssh_auth_secrets trust =
     bind_res (mounted_credentials (\<lambda>domain nm. GitBasic domain nm (read_basic nm)) basic_auth_secrets) (\<lambda>basic.
     bind_res (mounted_credentials (\<lambda>domain nm. GitSsh domain nm trust (read_ssh nm)) ssh_auth_secrets) (\<lambda>ssh.
     Inr (basic @ ssh)))"

section \<open>Resolving a revision\<close>

text \<open>A fetch changes the repository in memory, so what can be looked up depends on the fetches before.\<close>

datatype git_event = GitFetch git_auth string

record git_ref =
  gr_short :: string
  gr_hash :: string
  gr_is_branch :: bool
  gr_is_tag :: bool

record git_lib =
  gl_list :: "git_auth \<Rightarrow> string \<Rightarrow> git_ref list res"
  gl_init :: "unit res"
  gl_create_remote :: "string \<Rightarrow> unit res"
  gl_fetch :: "git_event list \<Rightarrow> string \<Rightarrow> git_auth \<Rightarrow> string \<Rightarrow> unit res"
  gl_resolve_revision :: "git_event list \<Rightarrow> string \<Rightarrow> string res"
  gl_reference :: "git_event list \<Rightarrow> string \<Rightarrow> unit res"
  gl_tag :: "git_event list \<Rightarrow> string \<Rightarrow> string res"
  gl_tag_target :: "git_event list \<Rightarrow> string \<Rightarrow> string res"
  gl_commit :: "git_event list \<Rightarrow> string \<Rightarrow> string res"
  gl_commit_tree :: "git_event list \<Rightarrow> string \<Rightarrow> opaque res"
  gl_find_entry :: "git_event list \<Rightarrow> opaque \<Rightarrow> string \<Rightarrow> string res"
  gl_new_hash :: "string \<Rightarrow> string"

definition git_source :: "source_config \<Rightarrow> git \<Rightarrow> string \<Rightarrow> string \<Rightarrow> git_source_kind \<Rightarrow> resolved_source_config" where
  "git_source sc g revision tree kind = empty_resolved\<lparr>rs_git := Some
     \<lparr>rg_url = git_url g, rg_revision = revision, rg_sub_path = src_sub_path sc, rg_tree = tree, rg_kind = kind,
      rg_init_submodules = git_init_submodules g\<rparr>\<rparr>"

definition nil_git :: "'a res" where
  "nil_git = Inl (Panic ''invalid memory address or nil pointer dereference'')"

definition source_type :: "git_ref \<Rightarrow> git_source_kind" where
  "source_type r = (if gr_is_branch r then GitBranch else if gr_is_tag r then GitTag else GitUnknown)"

definition resolve_by_listing_remote :: "git_lib \<Rightarrow> git_auth \<Rightarrow> source_config \<Rightarrow> resolved_source_config res" where
  "resolve_by_listing_remote L auth sc =
     (case src_git sc of
        None \<Rightarrow> nil_git
      | Some g \<Rightarrow>
          (case gl_list L auth (git_url g) of
             Inl (Panic p) \<Rightarrow> Inl (Panic p)
           | Inl (Failed k t) \<Rightarrow> Inr (git_source sc g (git_revision g) '''' GitUnknown)
           | Inr refs \<Rightarrow>
               (case find (\<lambda>r. gr_short r = git_revision g) refs of
                  Some r \<Rightarrow> Inr (git_source sc g (gr_hash r) '''' (source_type r))
                | None \<Rightarrow> Inr (git_source sc g (git_revision g) '''' GitCommit))))"

subsection \<open>By a shallow clone\<close>

text \<open>The regular expression \<open>^[a-f0-9]{40}$\<close>.\<close>

definition is_commit_sha :: "string \<Rightarrow> bool" where
  "is_commit_sha s \<longleftrightarrow> length s = 40 \<and> list_all (\<lambda>c. c \<in> set ''abcdef0123456789'') s"

datatype fetch_resolver = ResolveBranch | ResolveTag | ResolveRevision | LooksLikeACommit

definition allFetchResolvers :: "fetch_resolver list" where
  "allFetchResolvers = [ResolveBranch, ResolveTag, ResolveRevision, LooksLikeACommit]"

definition relevant_fetch_resolvers_for :: "string \<Rightarrow> fetch_resolver list" where
  "relevant_fetch_resolvers_for revision =
     (if has_prefix revision ''refs/heads/'' then [ResolveBranch]
      else if has_prefix revision ''refs/tags/'' then [ResolveTag]
      else if is_commit_sha revision then [ResolveRevision, LooksLikeACommit]
      else allFetchResolvers)"

text \<open>Each resolver gives the hash and its kind, nothing, or an error.\<close>

type_synonym fetched = "(string \<times> git_source_kind) option"

definition git_fetch :: "git_lib \<Rightarrow> string \<Rightarrow> git_auth \<Rightarrow> string \<Rightarrow> (git_event, unit) io" where
  "git_fetch L url auth spec =
     map_err_io (wrap_err ''fetching'') (call_io (GitFetch auth spec) (\<lambda>h. gl_fetch L h url auth spec))"

definition resolve_branch :: "git_lib \<Rightarrow> string \<Rightarrow> git_auth \<Rightarrow> string \<Rightarrow> (git_event, fetched) io" where
  "resolve_branch L url auth revision =
     (let branch = (if has_prefix revision ''refs/heads/'' then revision else ''refs/heads/'' @ revision)
      in bind_io (git_fetch L url auth (branch @ '':'' @ branch)) (\<lambda>_.
         bind_io (map_err_io (wrap_err ''resolving'') (read_io (\<lambda>h. gl_resolve_revision L h branch))) (\<lambda>hash.
         bind_io (map_err_io (wrap_err ''referencing'') (read_io (\<lambda>h. gl_reference L h branch))) (\<lambda>_.
         ret_io (Some (hash, GitBranch))))))"

definition resolve_tag :: "git_lib \<Rightarrow> string \<Rightarrow> git_auth \<Rightarrow> string \<Rightarrow> (git_event, fetched) io" where
  "resolve_tag L url auth revision =
     (let tag = trim_prefix revision ''refs/tags/''; ref = ''refs/tags/'' @ tag
      in bind_io (git_fetch L url auth (ref @ '':'' @ ref)) (\<lambda>_.
         bind_io (map_err_io (wrap_err ''tag'') (read_io (\<lambda>h. gl_tag L h tag))) (\<lambda>hash.
         ret_io (Some (hash, GitTag)))))"

definition resolve_revision :: "git_lib \<Rightarrow> string \<Rightarrow> git_auth \<Rightarrow> string \<Rightarrow> (git_event, fetched) io" where
  "resolve_revision L url auth revision =
     bind_io (git_fetch L url auth (revision @ '':refs/heads/reference'')) (\<lambda>_.
     bind_io (map_err_io (wrap_err ''lookup'') (read_io (\<lambda>h. gl_commit L h (gl_new_hash L revision)))) (\<lambda>hash.
     ret_io (Some (hash, GitCommit))))"

definition looks_like_a_commit :: "git_lib \<Rightarrow> string \<Rightarrow> (git_event, fetched) io" where
  "looks_like_a_commit L revision =
     (if \<not> is_commit_sha revision then ret_io None else ret_io (Some (gl_new_hash L revision, GitCommit)))"

fun run_resolver :: "git_lib \<Rightarrow> string \<Rightarrow> git_auth \<Rightarrow> string \<Rightarrow> fetch_resolver \<Rightarrow> (git_event, fetched) io" where
  "run_resolver L url auth revision ResolveBranch = resolve_branch L url auth revision"
| "run_resolver L url auth revision ResolveTag = resolve_tag L url auth revision"
| "run_resolver L url auth revision ResolveRevision = resolve_revision L url auth revision"
| "run_resolver L url auth revision LooksLikeACommit = looks_like_a_commit L revision"

text \<open>
  The loop over the resolvers, with the errors so far and the output of the last one: a result clears
  the errors and ends it, no result leaves them.
\<close>

fun try_resolvers :: "(fetch_resolver \<Rightarrow> (git_event, fetched) io) \<Rightarrow> fetch_resolver list \<Rightarrow> fetched \<Rightarrow> goerr list \<Rightarrow>
    (git_event, fetched \<times> goerr list) io" where
  "try_resolvers run [] output errs = ret_io (output, errs)"
| "try_resolvers run (r # rs) output errs =
     attempt_io (run r) (\<lambda>res. case res of
        Inl e \<Rightarrow> try_resolvers run rs None (errs @ [e])
      | Inr None \<Rightarrow> try_resolvers run rs None errs
      | Inr (Some out) \<Rightarrow> ret_io (Some out, []))"

fun err_message :: "goerr \<Rightarrow> string" where
  "err_message (Failed k t) = t"
| "err_message (Panic t) = t"

text \<open>\<open>errors.Join\<close>\<close>

definition join_errs :: "goerr list \<Rightarrow> goerr option" where
  "join_errs errs = (if errs = [] then None else Some (Failed Plain (join [CHR 0x0A] (map err_message errs))))"

definition trim_slashes :: "string \<Rightarrow> string" where
  "trim_slashes s = rev (dropWhile (\<lambda>c. c = CHR ''/'') (rev (dropWhile (\<lambda>c. c = CHR ''/'') s)))"

definition hash_of_subpath :: "git_lib \<Rightarrow> git_event list \<Rightarrow> string \<Rightarrow> string \<Rightarrow> string" where
  "hash_of_subpath L h sub_path hash =
     (let path = trim_slashes sub_path
      in if path = '''' then ''''
         else
           (let commit_hash = (case gl_tag_target L h hash of Inr target \<Rightarrow> target | Inl _ \<Rightarrow> hash)
            in case bind_res (gl_commit L h commit_hash) (\<lambda>c. bind_res (gl_commit_tree L h c) (\<lambda>t. gl_find_entry L h t path)) of
                 Inl _ \<Rightarrow> '''' | Inr entry \<Rightarrow> entry))"

definition resolve_by_cloning :: "git_lib \<Rightarrow> git_auth \<Rightarrow> source_config \<Rightarrow> (git_event, resolved_source_config) io" where
  "resolve_by_cloning L auth sc =
     (case src_git sc of
        None \<Rightarrow> lift_io nil_git
      | Some g \<Rightarrow>
          bind_io (lift_io (map_err (wrap_err ''initializing repository'') (gl_init L))) (\<lambda>_.
          bind_io (lift_io (map_err (wrap_err ''creating remote'') (gl_create_remote L (git_url g)))) (\<lambda>_.
          bind_io (try_resolvers (run_resolver L (git_url g) auth (git_revision g))
                     (relevant_fetch_resolvers_for (git_revision g)) None []) (\<lambda>(output, errs).
          case join_errs errs of
            Some e \<Rightarrow> fail_io (wrap_err (''revision '' @ [CHR 0x22] @ git_revision g @ [CHR 0x22] @
                         '': unable to fetch references for repository'') e)
          | None \<Rightarrow>
              (case output of
                 None \<Rightarrow> lift_io nil_git
               | Some (hash, kind) \<Rightarrow>
                   bind_io (read_io (\<lambda>h. Inr (hash_of_subpath L h (src_sub_path sc) hash))) (\<lambda>tree.
                   ret_io (git_source sc g hash tree kind)))))))"

definition resolve_remote_git :: "git_lib \<Rightarrow> bool \<Rightarrow> git_auth \<Rightarrow> source_config \<Rightarrow> (git_event, resolved_source_config) io" where
  "resolve_remote_git L shallow_clone auth sc =
     (if shallow_clone \<and> src_sub_path sc \<noteq> '''' then resolve_by_cloning L auth sc
      else lift_io (resolve_by_listing_remote L auth sc))"

text \<open>\<open>Resolver.Resolve\<close> of the git package, on a resolver whose source is a repository.\<close>

definition resolve_git :: "git_keys \<Rightarrow> bool \<Rightarrow> git_lib \<Rightarrow> bool \<Rightarrow> (string \<Rightarrow> string \<Rightarrow> secret list res) \<Rightarrow>
    source_resolver \<Rightarrow> resolved_source_config res" where
  "resolve_git G trust L shallow_clone secrets sr =
     (case src_git (srs_source (sr_spec sr)) of
        None \<Rightarrow> nil_git
      | Some g \<Rightarrow>
          bind_res (resolve_git_auth G trust (secrets (srs_service_account (sr_spec sr)) (meta_namespace (sr_meta sr))) g)
            (\<lambda>auth. fst (resolve_remote_git L shallow_clone auth (srs_source (sr_spec sr)) [])))"

section \<open>Facts\<close>

text \<open>The credential a url gets: of those that match, the one whose secret has the least name.\<close>

definition least_credential :: "git_credential list \<Rightarrow> string \<times> string \<Rightarrow> git_credential \<Rightarrow> bool" where
  "least_credential creds url c \<longleftrightarrow>
     c \<in> set creds \<and> cred_match c url \<and> (\<forall>d \<in> set creds. cred_match d url \<longrightarrow> cred_name c \<le> cred_name d)"

lemma find_sorted_least:
  assumes "sorted_wrt (\<lambda>a b. \<not> f b < (f a :: 'b :: linorder)) xs" and "find P xs = Some c"
  shows "c \<in> set xs \<and> P c \<and> (\<forall>d \<in> set xs. P d \<longrightarrow> f c \<le> f d)"
  using assms by (induction xs) (auto split: if_splits simp: not_less)

lemma cred_name_weak_order: "weak_order (\<lambda>a b. cred_name a < cred_name b)"
  by (auto simp: weak_order_def)

lemma least_credential_unique:
  assumes "distinct (map cred_name creds)" and "least_credential creds url c" and "least_credential creds url d"
  shows "d = c"
proof -
  have "cred_name d = cred_name c" using assms(2,3) by (auto simp: least_credential_def intro: order.antisym)
  then show ?thesis
    using assms(2,3) inj_onD [OF distinct_map [THEN iffD1, THEN conjunct2, OF assms(1)]] by (simp add: least_credential_def)
qed

lemma resolve_credential_least:
  assumes "slice_sort (gk_sort G)" and "gk_parse_url G raw = Inr url"
  shows "(\<exists>c. least_credential creds url c \<and> resolve_credential G creds raw = cred_auth G c) \<or>
    (\<forall>c \<in> set creds. \<not> cred_match c url) \<and> resolve_credential G creds raw = Inr AnonymousAuth"
proof -
  let ?sorted = "gk_sort G (\<lambda>a b. cred_name a < cred_name b) creds"
  have members: "set ?sorted = set creds" by (rule slice_sort.srt_set [OF assms(1)])
  have ordered: "sorted_wrt (\<lambda>a b. \<not> cred_name b < cred_name a) ?sorted"
    by (rule slice_sort.srt_sorted [OF assms(1) cred_name_weak_order])
  show ?thesis
  proof (cases "find (\<lambda>c. cred_match c url) ?sorted")
    case None
    then have "\<forall>c \<in> set creds. \<not> cred_match c url" by (simp add: find_None_iff members)
    with None assms(2) show ?thesis by (simp add: resolve_credential_def)
  next
    case (Some c)
    from find_sorted_least [OF ordered Some] have least: "least_credential creds url c"
      by (simp add: least_credential_def members)
    with Some assms(2) show ?thesis by (auto simp: resolve_credential_def)
  qed
qed

subsection \<open>Cloning\<close>

text \<open>The git library answers every call with a value or an error.\<close>

definition git_lib_ok :: "git_lib \<Rightarrow> bool" where
  "git_lib_ok L \<longleftrightarrow> \<not> panics (gl_init L) \<and> (\<forall>u. \<not> panics (gl_create_remote L u)) \<and>
     (\<forall>h u a s. \<not> panics (gl_fetch L h u a s)) \<and> (\<forall>h s. \<not> panics (gl_resolve_revision L h s)) \<and>
     (\<forall>h s. \<not> panics (gl_reference L h s)) \<and> (\<forall>h s. \<not> panics (gl_tag L h s)) \<and> (\<forall>h s. \<not> panics (gl_commit L h s))"

lemma safe_run_resolver:
  assumes "git_lib_ok L"
  shows "safe (run_resolver L url auth revision r)"
  using assms
  by (cases r)
     (auto simp: git_lib_ok_def resolve_branch_def resolve_tag_def resolve_revision_def looks_like_a_commit_def
        git_fetch_def Let_def intro!: safe_bind safe_map_err safe_call safe_read)

lemma run_resolver_nothing:
  "fst (run_resolver L url auth revision r h) = Inr None \<Longrightarrow> r = LooksLikeACommit \<and> \<not> is_commit_sha revision"
  by (cases r) (auto simp: resolve_branch_def resolve_tag_def resolve_revision_def looks_like_a_commit_def
      io_simps Let_def split: sum.splits if_splits)

text \<open>The outcome of trying resolvers: that of the first that gives a result, or else all the errors.\<close>

lemma try_resolvers_found:
  "try_resolvers run rs out errs h = (Inr (Some x, errs'), h') \<Longrightarrow> out = None \<Longrightarrow>
    \<exists>r \<in> set rs. \<exists>h0. run r h0 = (Inr (Some x), h') \<and> errs' = []"
proof (induction rs arbitrary: out errs h)
  case (Cons r rs)
  obtain res h1 where run: "run r h = (res, h1)" by (cases "run r h")
  consider (panic) p where "res = Inl (Panic p)" | (failed) k t where "res = Inl (Failed k t)"
    | (nothing) "res = Inr None" | (found) y where "res = Inr (Some y)"
    by (metis goerr.exhaust not_None_eq old.sum.exhaust)
  then show ?case
  proof cases
    case panic
    with Cons.prems(1) run show ?thesis by (simp add: attempt_io_apply)
  next
    case failed
    with Cons.prems(1) run have "try_resolvers run rs None (errs @ [Failed k t]) h1 = (Inr (Some x, errs'), h')"
      by (simp add: attempt_io_apply)
    from Cons.IH [OF this] show ?thesis by auto
  next
    case nothing
    with Cons.prems(1) run have "try_resolvers run rs None errs h1 = (Inr (Some x, errs'), h')"
      by (simp add: attempt_io_apply)
    from Cons.IH [OF this] show ?thesis by auto
  next
    case found
    with Cons.prems(1) run show ?thesis by (auto simp: attempt_io_apply)
  qed
qed simp

lemma try_resolvers_safe:
  "(\<And>r. safe (run r)) \<Longrightarrow> safe (try_resolvers run rs out errs)"
  by (induction rs arbitrary: out errs) (auto intro!: safe_attempt split: sum.split option.split)

text \<open>Errors are only dropped by a result, and every relevant list ends with a result or an error.\<close>

lemma try_resolvers_errs:
  "fst (try_resolvers run rs out errs h) = Inr (None, errs') \<Longrightarrow> errs \<noteq> [] \<Longrightarrow> errs' \<noteq> []"
proof (induction rs arbitrary: out errs h)
  case (Cons r rs)
  show ?case
    using Cons.prems Cons.IH
    by (auto simp: attempt_io_apply split: sum.splits goerr.splits option.splits)
qed simp

lemma relevant_no_nothing:
  assumes "fst (try_resolvers (run_resolver L url auth revision) (relevant_fetch_resolvers_for revision) None [] h) = Inr (None, errs)"
  shows "errs \<noteq> []"
proof -
  have "\<exists>r rs. relevant_fetch_resolvers_for revision = r # rs \<and> r \<noteq> LooksLikeACommit"
    by (simp add: relevant_fetch_resolvers_for_def allFetchResolvers_def)
  then obtain r rs where rs: "relevant_fetch_resolvers_for revision = r # rs" "r \<noteq> LooksLikeACommit" by blast
  obtain res h1 where run: "run_resolver L url auth revision r h = (res, h1)" by (cases "run_resolver L url auth revision r h")
  consider (panic) p where "res = Inl (Panic p)" | (failed) k t where "res = Inl (Failed k t)"
    | (nothing) "res = Inr None" | (found) y where "res = Inr (Some y)"
    by (metis goerr.exhaust not_None_eq old.sum.exhaust)
  then show ?thesis
  proof cases
    case failed
    with assms run rs have "fst (try_resolvers (run_resolver L url auth revision) rs None [Failed k t] h1) = Inr (None, errs)"
      by (simp add: attempt_io_apply)
    then show ?thesis by (rule try_resolvers_errs) simp
  next
    case nothing
    with run_resolver_nothing [of L url auth revision r h] run rs(2) show ?thesis by simp
  qed (use assms run rs in \<open>simp_all add: attempt_io_apply\<close>)
qed

text \<open>
  Cloning never dereferences nil, and what it gives is the hash and the kind of the first relevant
  resolver that succeeds.
\<close>

lemma safe_resolve_by_cloning:
  assumes "git_lib_ok L" and "src_git sc = Some g"
  shows "safe (resolve_by_cloning L auth sc)"
proof -
  have finish: "safe (case join_errs errs of
        Some e \<Rightarrow> fail_io (wrap_err msg e)
      | None \<Rightarrow> (case got of None \<Rightarrow> lift_io nil_git
                | Some (hash, kind) \<Rightarrow> bind_io (read_io (\<lambda>h. Inr (f h hash))) (\<lambda>tree. ret_io (k hash kind tree))))"
    if "got = None \<Longrightarrow> errs \<noteq> []" for errs msg got f and k :: "string \<Rightarrow> git_source_kind \<Rightarrow> string \<Rightarrow> resolved_source_config"
    using that by (auto simp: join_errs_def split: option.split intro!: safe_bind)
  have lib: "\<not> panics (gl_init L)" "\<not> panics (gl_create_remote L u)" for u
    using assms(1) by (simp_all add: git_lib_ok_def)
  show ?thesis
    unfolding resolve_by_cloning_def assms(2) option.case
    by (intro safe_bind safe_lift try_resolvers_safe safe_run_resolver [OF assms(1)])
       (auto simp: lib intro!: finish dest: relevant_no_nothing)
qed

lemma resolve_by_cloning_Inr:
  assumes "src_git sc = Some g" and "fst (resolve_by_cloning L auth sc h) = Inr config"
  shows "\<exists>r \<in> set (relevant_fetch_resolvers_for (git_revision g)). \<exists>h0 hash kind tree.
    fst (run_resolver L (git_url g) auth (git_revision g) r h0) = Inr (Some (hash, kind)) \<and>
    config = git_source sc g hash tree kind"
proof -
  let ?attempt = "try_resolvers (run_resolver L (git_url g) auth (git_revision g)) (relevant_fetch_resolvers_for (git_revision g)) None []"
  obtain hash kind errs where found: "fst (?attempt h) = Inr (Some (hash, kind), errs)"
      and config: "\<exists>tree. config = git_source sc g hash tree kind"
    using assms(2) unfolding resolve_by_cloning_def assms(1) option.case
    by (auto simp: io_simps nil_git_def split: sum.splits option.splits prod.splits)
  then have full: "?attempt h = (Inr (Some (hash, kind), errs), snd (?attempt h))" by (metis prod.collapse)
  from try_resolvers_found [OF full refl] obtain r h0 where r: "r \<in> set (relevant_fetch_resolvers_for (git_revision g))"
      and run: "run_resolver L (git_url g) auth (git_revision g) r h0 = (Inr (Some (hash, kind)), snd (?attempt h))" by blast
  have "fst (run_resolver L (git_url g) auth (git_revision g) r h0) = Inr (Some (hash, kind))" by (simp add: run)
  with r config show ?thesis by blast
qed

text \<open>The kind each resolver looks for.\<close>

fun resolver_kind :: "fetch_resolver \<Rightarrow> git_source_kind" where
  "resolver_kind ResolveBranch = GitBranch"
| "resolver_kind ResolveTag = GitTag"
| "resolver_kind ResolveRevision = GitCommit"
| "resolver_kind LooksLikeACommit = GitCommit"

lemma run_resolver_kind:
  "fst (run_resolver L url auth revision r h) = Inr (Some (hash, kind)) \<Longrightarrow> kind = resolver_kind r"
  by (cases r) (auto simp: resolve_branch_def resolve_tag_def resolve_revision_def looks_like_a_commit_def
      io_simps Let_def split: sum.splits if_splits)

lemma sha_no_slash: "is_commit_sha s \<Longrightarrow> \<not> has_prefix s ''refs/heads/'' \<and> \<not> has_prefix s ''refs/tags/''"
  by (auto simp: is_commit_sha_def has_prefix_iff)

lemma relevant_kinds:
  assumes "r \<in> set (relevant_fetch_resolvers_for revision)"
  shows "has_prefix revision ''refs/heads/'' \<longrightarrow> resolver_kind r = GitBranch"
    "has_prefix revision ''refs/tags/'' \<longrightarrow> resolver_kind r = GitTag"
    "is_commit_sha revision \<longrightarrow> resolver_kind r = GitCommit"
proof -
  have disjoint: "\<not> (has_prefix revision ''refs/heads/'' \<and> has_prefix revision ''refs/tags/'')"
    by (auto simp: has_prefix_iff)
  show "has_prefix revision ''refs/heads/'' \<longrightarrow> resolver_kind r = GitBranch"
    "has_prefix revision ''refs/tags/'' \<longrightarrow> resolver_kind r = GitTag"
    "is_commit_sha revision \<longrightarrow> resolver_kind r = GitCommit"
    using assms disjoint sha_no_slash [of revision] by (auto simp: relevant_fetch_resolvers_for_def split: if_splits)
qed

end
