(* ===== verification/Source_Resolvers.thy ===== *)
theory Source_Resolvers
  imports Git_Resolver
begin

text \<open>
  \<open>pkg/reconciler/sourceresolver\<close> with the resolvers of blobs and registry images: the source of an image
  is resolved to what a build can fetch, polled while it can move, and written to the status.
\<close>

section \<open>Resolvers\<close>

definition resolve_blob :: "source_resolver \<Rightarrow> resolved_source_config res" where
  "resolve_blob sr =
     (case src_blob (srs_source (sr_spec sr)) of
        None \<Rightarrow> nil_git
      | Some b \<Rightarrow> Inr (empty_resolved\<lparr>rs_blob := Some
          \<lparr>rb_url = blob_url b, rb_auth = blob_auth b, rb_sub_path = src_sub_path (srs_source (sr_spec sr)), rb_strip = 0\<rparr>\<rparr>))"

definition resolve_registry :: "source_resolver \<Rightarrow> resolved_source_config res" where
  "resolve_registry sr =
     (case src_registry (srs_source (sr_spec sr)) of
        None \<Rightarrow> nil_git
      | Some r \<Rightarrow> Inr (empty_resolved\<lparr>rs_registry := Some
          \<lparr>rr_image = reg_image r, rr_sub_path = src_sub_path (srs_source (sr_spec sr)), rr_pull_secrets = reg_pull_secrets r\<rparr>\<rparr>))"

section \<open>The reconciler\<close>

datatype sr_event = EnqueueAfter source_resolver int | WriteResolver source_resolver

record sr_env =
  sre_shallow_clone :: bool
  sre_split_key :: "string \<Rightarrow> (string \<times> string) res"
  sre_get :: "sr_event list \<Rightarrow> string \<Rightarrow> string \<Rightarrow> source_resolver res"
  sre_git :: "sr_event list \<Rightarrow> source_resolver \<Rightarrow> resolved_source_config res"
  sre_update :: "sr_event list \<Rightarrow> source_resolver \<Rightarrow> unit res"

text \<open>
  \<open>sourceReconciler\<close> picks a resolver, whose \<open>Resolve\<close> is what is modelled here; \<open>sre_git\<close> is
  \<open>resolve_git\<close> at the state of the network and of the secrets.
\<close>

definition source_reconciler :: "sr_env \<Rightarrow> source_resolver \<Rightarrow> (sr_event list \<Rightarrow> resolved_source_config res) res" where
  "source_reconciler E sr =
     (if sr_is_git sr then Inr (\<lambda>h. sre_git E h sr)
      else if sr_is_blob sr then Inr (\<lambda>h. resolve_blob sr)
      else if sr_is_registry sr then Inr (\<lambda>h. resolve_registry sr)
      else Inl (Failed Plain ''invalid source type''))"

definition retain_commit_if_tree_unchanged :: "source_resolver_status \<Rightarrow> source_resolver_status \<Rightarrow> source_resolver_status" where
  "retain_commit_if_tree_unchanged original desired =
     (case (rs_git (srt_source original), rs_git (srt_source desired)) of
        (Some og, Some dg) \<Rightarrow>
          (if rg_tree og = '''' \<or> rg_tree dg = '''' then desired
           else if rg_revision og \<noteq> rg_revision dg \<and> rg_tree og = rg_tree dg
           then desired\<lparr>srt_source := (srt_source desired)\<lparr>rs_git := Some (dg\<lparr>rg_revision := rg_revision og\<rparr>)\<rparr>\<rparr>
           else desired)
      | _ \<Rightarrow> desired)"

text \<open>\<open>equality.Semantic.DeepEqual\<close> of two statuses; times of conditions do not count.\<close>

definition resolver_status_equal :: "source_resolver_status \<Rightarrow> source_resolver_status \<Rightarrow> bool" where
  "resolver_status_equal a b \<longleftrightarrow> status_semantic_eq (srt_status a) (srt_status b) \<and> srt_source a = srt_source b"

definition update_resolver_status :: "sr_env \<Rightarrow> source_resolver \<Rightarrow> (sr_event, unit) io" where
  "update_resolver_status E desired0 =
     bind_io (read_io (\<lambda>h. sre_get E h (meta_namespace (sr_meta desired0)) (meta_name (sr_meta desired0)))) (\<lambda>original.
       (let desired = (if sre_shallow_clone E
              then desired0\<lparr>sr_status := retain_commit_if_tree_unchanged (sr_status original) (sr_status desired0)\<rparr>
              else desired0)
        in if resolver_status_equal (sr_status original) (sr_status desired) then ret_io ()
           else call_io (WriteResolver desired) (\<lambda>h. sre_update E h desired)))"

text \<open>\<open>Enqueue\<close> of the work queue: the object comes back after a minute.\<close>

definition enqueue :: "source_resolver \<Rightarrow> (sr_event, unit) io" where
  "enqueue sr = call_io (EnqueueAfter sr 60) (\<lambda>_. Inr ())"

definition reconcile_resolver_key :: "sr_env \<Rightarrow> string \<Rightarrow> (sr_event, unit) io" where
  "reconcile_resolver_key E key =
     bind_io (lift_io (sre_split_key E key)) (\<lambda>(ns, nm).
     attempt_io (read_io (\<lambda>h. sre_get E h ns nm)) (\<lambda>r.
       case r of
         Inl e \<Rightarrow> (if is_not_found e then ret_io () else fail_io e)
       | Inr sr \<Rightarrow>
           bind_io (lift_io (source_reconciler E sr)) (\<lambda>resolver.
           bind_io (read_io resolver) (\<lambda>config.
           bind_io (lift_io (sr_resolved_source config sr)) (\<lambda>sr1.
           bind_io (if sr_polling_ready sr1 then enqueue sr1 else ret_io ()) (\<lambda>_.
             update_resolver_status E (sr1\<lparr>sr_status := (sr_status sr1)\<lparr>srt_status :=
               (srt_status (sr_status sr1))\<lparr>st_observed_generation := meta_generation (sr_meta sr1)\<rparr>\<rparr>\<rparr>)))))))"

section \<open>Facts\<close>

definition observe :: "source_resolver \<Rightarrow> source_resolver" where
  "observe sr = sr\<lparr>sr_status := (sr_status sr)\<lparr>srt_status :=
     (srt_status (sr_status sr))\<lparr>st_observed_generation := meta_generation (sr_meta sr)\<rparr>\<rparr>\<rparr>"

lemma observe_simps [simp]:
  "sr_meta (observe sr) = sr_meta sr" "sr_spec (observe sr) = sr_spec sr"
  "srt_source (sr_status (observe sr)) = srt_source (sr_status sr)"
  "st_observed_generation (srt_status (sr_status (observe sr))) = meta_generation (sr_meta sr)"
  "st_conditions (srt_status (sr_status (observe sr))) = st_conditions (srt_status (sr_status sr))"
  by (simp_all add: observe_def)

definition retained :: "bool \<Rightarrow> source_resolver \<Rightarrow> source_resolver \<Rightarrow> source_resolver" where
  "retained shallow original desired =
     (if shallow then desired\<lparr>sr_status := retain_commit_if_tree_unchanged (sr_status original) (sr_status desired)\<rparr> else desired)"

text \<open>What a reconcile of \<open>sr\<close> wants the object to be, once its source resolved to \<open>config\<close>.\<close>

definition wanted :: "bool \<Rightarrow> source_resolver \<Rightarrow> source_resolver \<Rightarrow> source_resolver" where
  "wanted shallow sr sr1 = retained shallow sr (observe sr1)"

lemma reconcile_trace:
  assumes "\<And>h ns nm. sre_get E h ns nm = Inr sr" and "sre_split_key E key = Inr k"
    and "source_reconciler E sr = Inr resolver" and "resolver [] = Inr config" and "sr_resolved_source config sr = Inr sr1"
  shows "snd (reconcile_resolver_key E key []) =
    (if sr_polling_ready sr1 then [EnqueueAfter sr1 60] else []) @
    (if resolver_status_equal (sr_status sr) (sr_status (wanted (sre_shallow_clone E) sr sr1)) then []
     else [WriteResolver (wanted (sre_shallow_clone E) sr sr1)])"
  by (cases k)
     (simp add: reconcile_resolver_key_def update_resolver_status_def io_simps assms enqueue_def wanted_def
       retained_def observe_def Let_def)

lemma sr_resolved_source_frame:
  "sr_resolved_source config sr = Inr sr1 \<Longrightarrow> sr_meta sr1 = sr_meta sr \<and> sr_spec sr1 = sr_spec sr"
  by (auto simp: sr_resolved_source_def split: option.splits if_splits)

lemma wanted_frame:
  "sr_meta (wanted b sr sr1) = sr_meta sr1" "sr_spec (wanted b sr sr1) = sr_spec sr1"
  "srt_status (sr_status (wanted b sr sr1)) = (srt_status (sr_status sr1))\<lparr>st_observed_generation := meta_generation (sr_meta sr1)\<rparr>"
  by (auto simp: wanted_def retained_def observe_def retain_commit_if_tree_unchanged_def split: option.split)

text \<open>An unknown source at an observed generation changes nothing.\<close>

lemma unknown_source_kept:
  assumes "resolved_source_of config = Some rs" and "resolved_is_unknown rs"
    and "st_observed_generation (srt_status (sr_status sr)) = meta_generation (sr_meta sr)"
    and "sr_resolved_source config sr = Inr sr1"
  shows "sr1 = sr \<and> wanted b sr sr1 = sr"
proof -
  have "sr1 = sr" using assms by (simp add: sr_resolved_source_def)
  moreover have "observe sr = sr" using assms(3) by (simp add: observe_def)
  moreover have "retained b sr sr = sr" by (simp add: retained_def retain_commit_if_tree_unchanged_def split: option.split)
  ultimately show ?thesis by (simp add: wanted_def)
qed

text \<open>A resolver whose status holds a resolved repository.\<close>

definition resolves_to :: "resolved_source_config \<Rightarrow> resolved_git \<Rightarrow> source_resolver \<Rightarrow> bool" where
  "resolves_to config d sr \<longleftrightarrow> srt_source (sr_status sr) = config \<and> rs_git config = Some d \<and>
     st_conditions (srt_status (sr_status sr)) =
       [mk_condition ConditionReady ConditionTrue '''' '''' 0,
        mk_condition ActivePolling (if git_is_pollable d then ConditionTrue else ConditionFalse) '''' '''' 0]"

lemma sr_resolved_source_git:
  assumes "rs_git config = Some d" and "rg_kind d \<noteq> GitUnknown"
  shows "\<exists>sr1. sr_resolved_source config sr = Inr sr1 \<and> resolves_to config d sr1"
  using assms by (auto simp: sr_resolved_source_def resolved_source_of_def git_is_unknown_def resolves_to_def)

lemma retain_git:
  assumes "rs_git (srt_source desired) = Some d"
  shows "\<exists>rev. retain_commit_if_tree_unchanged original desired =
    desired\<lparr>srt_source := (srt_source desired)\<lparr>rs_git := Some (d\<lparr>rg_revision := rev\<rparr>)\<rparr>\<rparr>"
proof -
  have same: "desired\<lparr>srt_source := (srt_source desired)\<lparr>rs_git := Some (d\<lparr>rg_revision := rg_revision d\<rparr>)\<rparr>\<rparr> = desired"
    using assms by simp
  show ?thesis
  proof (cases "retain_commit_if_tree_unchanged original desired = desired")
    case True
    with same show ?thesis by metis
  next
    case False
    then obtain og where "rs_git (srt_source original) = Some og"
      using assms by (cases "rs_git (srt_source original)") (auto simp: retain_commit_if_tree_unchanged_def)
    with False assms show ?thesis
      by (intro exI [of _ "rg_revision og"]) (auto simp: retain_commit_if_tree_unchanged_def split: if_splits)
  qed
qed

lemma wanted_resolves:
  assumes "resolves_to config d sr1" and "rs_git config = Some d"
  shows "\<exists>rev. resolves_to (config\<lparr>rs_git := Some (d\<lparr>rg_revision := rev\<rparr>)\<rparr>) (d\<lparr>rg_revision := rev\<rparr>) (wanted b sr sr1) \<and>
    observe (wanted b sr sr1) = wanted b sr sr1"
proof -
  have source: "srt_source (sr_status (observe sr1)) = config" using assms(1) by (simp add: resolves_to_def)
  have "\<exists>rev. wanted b sr sr1 = (observe sr1)\<lparr>sr_status := (sr_status (observe sr1))
      \<lparr>srt_source := config\<lparr>rs_git := Some (d\<lparr>rg_revision := rev\<rparr>)\<rparr>\<rparr>\<rparr>"
  proof (cases b)
    case True
    with retain_git [of "sr_status (observe sr1)" d "sr_status sr"] source assms(2) show ?thesis
      by (auto simp: wanted_def retained_def)
  next
    case False
    have "config\<lparr>rs_git := Some (d\<lparr>rg_revision := rg_revision d\<rparr>)\<rparr> = config" using assms(2) by simp
    with False source show ?thesis by (intro exI [of _ "rg_revision d"]) (simp add: wanted_def retained_def)
  qed
  then show ?thesis using assms(1) by (auto simp: resolves_to_def git_is_pollable_def observe_def)
qed

lemma same_tree_wanted:
  assumes "resolves_to (config\<lparr>rs_git := Some (d\<lparr>rg_revision := old\<rparr>)\<rparr>) (d\<lparr>rg_revision := old\<rparr>) y" and "observe y = y"
    and "sr_resolved_source (config\<lparr>rs_git := Some (d\<lparr>rg_revision := r\<rparr>)\<rparr>) y = Inr y1"
    and "resolves_to (config\<lparr>rs_git := Some (d\<lparr>rg_revision := r\<rparr>)\<rparr>) (d\<lparr>rg_revision := r\<rparr>) y1"
    and "rg_tree d \<noteq> ''''"
  shows "resolver_status_equal (sr_status y) (sr_status (wanted True y y1))"
proof -
  have y: "srt_source (sr_status y) = config\<lparr>rs_git := Some (d\<lparr>rg_revision := old\<rparr>)\<rparr>" and
    y1: "srt_source (sr_status y1) = config\<lparr>rs_git := Some (d\<lparr>rg_revision := r\<rparr>)\<rparr>" and
    conds: "st_conditions (srt_status (sr_status y1)) = st_conditions (srt_status (sr_status y))"
    using assms(1,4) by (simp_all add: resolves_to_def git_is_pollable_def)
  have gen: "st_observed_generation (srt_status (sr_status y)) = meta_generation (sr_meta y1)"
    using arg_cong [OF assms(2), of "\<lambda>y. st_observed_generation (srt_status (sr_status y))"]
      sr_resolved_source_frame [OF assms(3)] by simp
  have "srt_source (sr_status (wanted True y y1)) = srt_source (sr_status y)"
    using assms(5) by (simp add: wanted_def retained_def retain_commit_if_tree_unchanged_def y y1)
  moreover have "status_semantic_eq (srt_status (sr_status y)) (srt_status (sr_status (wanted True y y1)))"
    by (simp add: wanted_frame status_semantic_eq_def gen conds list_all2_refl)
  ultimately show ?thesis by (simp add: resolver_status_equal_def)
qed

subsection \<open>What is written\<close>

lemma reconcile_writes:
  assumes "\<And>h ns nm. sre_get E h ns nm = Inr sr" and "WriteResolver y \<in> set (snd (reconcile_resolver_key E key []))"
  shows "\<exists>resolver config sr1. source_reconciler E sr = Inr resolver \<and> resolver [] = Inr config \<and>
    sr_resolved_source config sr = Inr sr1 \<and> y = wanted (sre_shallow_clone E) sr sr1"
proof -
  obtain k where key: "sre_split_key E key = Inr k"
    using assms(2) by (cases "sre_split_key E key") (auto simp: reconcile_resolver_key_def io_simps)
  obtain resolver where pick: "source_reconciler E sr = Inr resolver"
    using assms(2) key by (cases "source_reconciler E sr"; cases k) (auto simp: reconcile_resolver_key_def io_simps assms(1))
  obtain config where config: "resolver [] = Inr config"
    using assms(2) key pick by (cases "resolver []"; cases k) (auto simp: reconcile_resolver_key_def io_simps assms(1))
  obtain sr1 where sr1: "sr_resolved_source config sr = Inr sr1"
    using assms(2) key pick config
    by (cases "sr_resolved_source config sr"; cases k) (auto simp: reconcile_resolver_key_def io_simps assms(1))
  from assms(2) have "y = wanted (sre_shallow_clone E) sr sr1"
    unfolding reconcile_trace [OF assms(1) key pick config sr1] by (auto split: if_splits)
  with pick config sr1 show ?thesis by blast
qed

lemma resolve_git_source:
  assumes "src_git (srs_source (sr_spec sr)) = Some g" and "resolve_git G trust L shallow secrets sr = Inr config"
  shows "\<exists>rev tree kind. config = git_source (srs_source (sr_spec sr)) g rev tree kind"
proof -
  obtain auth where "fst (resolve_remote_git L shallow auth (srs_source (sr_spec sr)) []) = Inr config"
    using assms by (auto simp: resolve_git_def bind_res_eq_Inr)
  then show ?thesis
    using resolve_by_cloning_Inr [OF assms(1), of L auth "[]" config] assms(1)
    by (auto simp: resolve_remote_git_def resolve_by_listing_remote_def split: if_splits sum.splits goerr.splits option.splits)
qed

text \<open>Keeping a commit is the only way in which the written revision differs from the resolved one.\<close>

lemma wanted_git_revision:
  assumes "srt_source (sr_status sr1) = git_source sc g commit tree kind"
  shows "\<exists>r. srt_source (sr_status (wanted b sr sr1)) = git_source sc g r tree kind \<and>
    (r = commit \<or> b \<and> (\<exists>og. rs_git (srt_source (sr_status sr)) = Some og \<and> r = rg_revision og \<and>
       rg_tree og = tree \<and> tree \<noteq> ''''))"
  using assms
  by (cases "rs_git (srt_source (sr_status sr))")
     (auto simp: wanted_def retained_def retain_commit_if_tree_unchanged_def git_source_def)

text \<open>What the resolvers of blobs and registry images give.\<close>

definition resolved_plain :: "source_config \<Rightarrow> resolved_source_config" where
  "resolved_plain sc = empty_resolved
     \<lparr>rs_blob := map_option (\<lambda>b. \<lparr>rb_url = blob_url b, rb_auth = blob_auth b, rb_sub_path = src_sub_path sc, rb_strip = 0\<rparr>) (src_blob sc),
      rs_registry := (if src_blob sc = None
        then map_option (\<lambda>r. \<lparr>rr_image = reg_image r, rr_sub_path = src_sub_path sc, rr_pull_secrets = reg_pull_secrets r\<rparr>) (src_registry sc)
        else None)\<rparr>"

lemma wanted_plain:
  "rs_git (srt_source (sr_status sr1)) = None \<Longrightarrow> srt_source (sr_status (wanted b sr sr1)) = srt_source (sr_status sr1)"
  by (simp add: wanted_def retained_def retain_commit_if_tree_unchanged_def split: option.split)

lemma resolved_plain_git [simp]: "rs_git (resolved_plain sc) = None"
  by (simp add: resolved_plain_def empty_resolved_def)

lemma resolved_plain_source_config:
  assumes "resolved_source_of (resolved_plain sc) = Some rs"
  shows "to_source_config rs = (case src_blob sc of
      Some b \<Rightarrow> \<lparr>src_git = None, src_blob = Some (b\<lparr>blob_strip := 0\<rparr>), src_registry = None, src_sub_path = src_sub_path sc\<rparr>
    | None \<Rightarrow> \<lparr>src_git = None, src_blob = None, src_registry = src_registry sc, src_sub_path = src_sub_path sc\<rparr>)"
proof (cases "src_blob sc")
  case (Some b)
  with assms show ?thesis
    by (cases b) (auto simp: resolved_plain_def resolved_source_of_def empty_resolved_def blob_source_config_def)
next
  case None
  with assms obtain r where "src_registry sc = Some r"
    by (cases "src_registry sc") (auto simp: resolved_plain_def resolved_source_of_def empty_resolved_def)
  with None assms show ?thesis
    by (cases r) (auto simp: resolved_plain_def resolved_source_of_def empty_resolved_def registry_source_config_def)
qed

end
