(* ===== verification/Source_Properties.thy ===== *)
theory Source_Properties
  imports Source_Resolvers Samples
begin

text \<open>The properties of the resolution of sources, each with its witness.\<close>

section \<open>Credentials\<close>

text \<open>
  C21: The credential that git uses for a url does not depend on the order in which the service account
  lists its secrets nor on the sorting algorithm: it is the matching one whose secret has the least name,
  unique when names are, and without a match access is anonymous.
\<close>

theorem git_credential_is_least:
  assumes "slice_sort (gk_sort G)" and "gk_parse_url G raw = Inr url" and "distinct (map cred_name creds)"
  shows "(\<forall>c. least_credential creds url c \<longrightarrow> resolve_credential G creds raw = cred_auth G c) \<and>
    ((\<forall>c \<in> set creds. \<not> cred_match c url) \<longrightarrow> resolve_credential G creds raw = Inr AnonymousAuth) \<and>
    ((\<exists>c \<in> set creds. cred_match c url) \<longrightarrow> (\<exists>c. least_credential creds url c))"
proof -
  note chosen = resolve_credential_least [OF assms(1,2), of creds] and unique = least_credential_unique [OF assms(3)]
  have "resolve_credential G creds raw = cred_auth G c" if "least_credential creds url c" for c
    using chosen
  proof
    assume "\<exists>d. least_credential creds url d \<and> resolve_credential G creds raw = cred_auth G d"
    then show ?thesis using unique [OF that] by auto
  next
    assume "(\<forall>c \<in> set creds. \<not> cred_match c url) \<and> resolve_credential G creds raw = Inr AnonymousAuth"
    with that show ?thesis by (auto simp: least_credential_def)
  qed
  moreover have "least_credential creds url c \<Longrightarrow> \<exists>c \<in> set creds. cred_match c url" for c
    by (auto simp: least_credential_def)
  ultimately show ?thesis using chosen by blast
qed

definition sample_keys :: git_keys where
  "sample_keys = \<lparr>gk_parse_url = (\<lambda>s. Inr (''https'', ''github.com'')), gk_public_keys = Inr, gk_known_hosts = Inr,
     gk_sort = stable_sort\<rparr>"

theorem git_credential_is_least_witness:
  "resolve_credential sample_keys [GitBasic ''https://github.com'' ''b'' (Inr (''user-b'', ''pw'')),
      GitBasic ''github.com'' ''a'' (Inr (''user-a'', ''pw'')), GitBasic ''gitlab.com'' ''0'' (Inr (''other'', ''pw''))]
      ''https://github.com/org/repo'' = Inr (BasicAuth ''user-a'' ''pw'')"
proof -
  let ?creds = "[GitBasic ''https://github.com'' ''b'' (Inr (''user-b'', ''pw'')),
    GitBasic ''github.com'' ''a'' (Inr (''user-a'', ''pw'')), GitBasic ''gitlab.com'' ''0'' (Inr (''other'', ''pw''))]"
  have "least_credential ?creds (''https'', ''github.com'') (GitBasic ''github.com'' ''a'' (Inr (''user-a'', ''pw'')))"
    by (simp add: least_credential_def git_url_match_def matchingDomains_def)
  moreover have "slice_sort (gk_sort sample_keys)"
    unfolding sample_keys_def git_keys.simps by (rule stable.slice_sort_axioms)
  ultimately show ?thesis
    using git_credential_is_least [of sample_keys "''https://github.com/org/repo''" "(''https'', ''github.com'')" ?creds]
    by (simp add: sample_keys_def)
qed

section \<open>Cloning\<close>

text \<open>
  C22: Resolving a revision of a sub path by a shallow clone never panics, also when every way to fetch the
  revision fails, and a source it gives is at the hash that one of the ways relevant for the revision
  found, of the kind that way looks for: a revision under refs/heads/ is a branch, one under refs/tags/ a
  tag, and a full commit id always a commit.
\<close>

theorem git_clone_resolution:
  assumes "git_lib_ok L" and "src_git sc = Some g"
  shows "\<not> panics (fst (resolve_by_cloning L auth sc h)) \<and>
    (\<forall>config. fst (resolve_by_cloning L auth sc h) = Inr config \<longrightarrow>
       (\<exists>r h0 hash kind tree. r \<in> set (relevant_fetch_resolvers_for (git_revision g)) \<and>
          fst (run_resolver L (git_url g) auth (git_revision g) r h0) = Inr (Some (hash, kind)) \<and>
          config = git_source sc g hash tree kind \<and>
          (has_prefix (git_revision g) ''refs/heads/'' \<longrightarrow> kind = GitBranch) \<and>
          (has_prefix (git_revision g) ''refs/tags/'' \<longrightarrow> kind = GitTag) \<and>
          (is_commit_sha (git_revision g) \<longrightarrow> kind = GitCommit)))"
proof (intro conjI allI impI)
  show "\<not> panics (fst (resolve_by_cloning L auth sc h))"
    using safe_resolve_by_cloning [OF assms] by (simp add: safe_def)
next
  fix config
  assume "fst (resolve_by_cloning L auth sc h) = Inr config"
  from resolve_by_cloning_Inr [OF assms(2) this] obtain r h0 hash kind tree
    where r: "r \<in> set (relevant_fetch_resolvers_for (git_revision g))"
      and run: "fst (run_resolver L (git_url g) auth (git_revision g) r h0) = Inr (Some (hash, kind))"
      and config: "config = git_source sc g hash tree kind" by blast
  note kinds = run_resolver_kind [OF run] relevant_kinds [OF r]
  from r run config kinds show "\<exists>r h0 hash kind tree. r \<in> set (relevant_fetch_resolvers_for (git_revision g)) \<and>
          fst (run_resolver L (git_url g) auth (git_revision g) r h0) = Inr (Some (hash, kind)) \<and>
          config = git_source sc g hash tree kind \<and>
          (has_prefix (git_revision g) ''refs/heads/'' \<longrightarrow> kind = GitBranch) \<and>
          (has_prefix (git_revision g) ''refs/tags/'' \<longrightarrow> kind = GitTag) \<and>
          (is_commit_sha (git_revision g) \<longrightarrow> kind = GitCommit)"
    by (intro exI [of _ r] exI [of _ h0] exI [of _ hash] exI [of _ kind] exI [of _ tree]) auto
qed

definition sample_git_lib :: "unit res \<Rightarrow> git_lib" where
  "sample_git_lib fetched = \<lparr>gl_list = (\<lambda>_ _. Inl (Failed Plain ''unreachable'')), gl_init = Inr (), gl_create_remote = (\<lambda>_. Inr ()),
     gl_fetch = (\<lambda>_ _ _ _. fetched), gl_resolve_revision = (\<lambda>_ _. Inr ''c0ffee''), gl_reference = (\<lambda>_ _. Inr ()),
     gl_tag = (\<lambda>_ _. Inr ''7a9''), gl_tag_target = (\<lambda>_ _. Inl (Failed Plain '''')), gl_commit = (\<lambda>_ h. Inr h),
     gl_commit_tree = (\<lambda>_ c. Inr c), gl_find_entry = (\<lambda>_ _ p. Inr (''tree-of-'' @ p)), gl_new_hash = id\<rparr>"

definition sample_sub_path :: source_config where
  "sample_sub_path = empty_source\<lparr>src_git := Some (sample_git\<lparr>git_revision := ''refs/tags/v1''\<rparr>), src_sub_path := ''/app/''\<rparr>"

theorem git_clone_resolution_witness:
  "fst (resolve_by_cloning (sample_git_lib (Inr ())) AnonymousAuth sample_sub_path []) =
     Inr (git_source sample_sub_path (sample_git\<lparr>git_revision := ''refs/tags/v1''\<rparr>) ''7a9'' ''tree-of-app'' GitTag) \<and>
   \<not> panics (fst (resolve_by_cloning (sample_git_lib (Inl (Failed Plain ''no route to host''))) AnonymousAuth sample_sub_path []))"
proof -
  have ok: "git_lib_ok (sample_git_lib (Inr ()))" "git_lib_ok (sample_git_lib (Inl (Failed Plain ''no route to host'')))"
    by (simp_all add: git_lib_ok_def sample_git_lib_def panics_def)
  have g: "src_git sample_sub_path = Some (sample_git\<lparr>git_revision := ''refs/tags/v1''\<rparr>)" by (simp add: sample_sub_path_def)
  have "fst (resolve_by_cloning (sample_git_lib (Inr ())) AnonymousAuth sample_sub_path []) =
      Inr (git_source sample_sub_path (sample_git\<lparr>git_revision := ''refs/tags/v1''\<rparr>) ''7a9'' ''tree-of-app'' GitTag)"
    by code_simp
  then show ?thesis using git_clone_resolution [OF ok(1) g] git_clone_resolution [OF ok(2) g] by blast
qed

section \<open>The reconciler\<close>

text \<open>A git server that answers neither a listing of its references nor a fetch.\<close>

definition git_unreachable :: "git_lib \<Rightarrow> string \<Rightarrow> bool" where
  "git_unreachable L url \<longleftrightarrow>
     (\<forall>auth. \<exists>k t. gl_list L auth url = Inl (Failed k t)) \<and>
     (\<forall>h auth spec. \<exists>k t. gl_fetch L h url auth spec = Inl (Failed k t))"

lemma unreachable_fetch_fails:
  assumes "git_unreachable L url"
  shows "\<exists>e. fst (git_fetch L url auth spec h) = Inl e"
proof -
  obtain k t where "gl_fetch L h url auth spec = Inl (Failed k t)" using assms unfolding git_unreachable_def by blast
  then show ?thesis by (simp add: git_fetch_def io_simps)
qed

lemma bind_io_fails: "\<exists>e. fst (m h) = Inl e \<Longrightarrow> \<exists>e. fst (bind_io m f h) = Inl e"
  by (auto simp: bind_io_apply)

lemma unreachable_resolver:
  assumes "git_unreachable L url" and "r \<noteq> LooksLikeACommit"
  shows "\<exists>e. fst (run_resolver L url auth revision r h) = Inl e"
  using assms(2)
  by (cases r)
     (simp_all only: run_resolver.simps resolve_branch_def resolve_tag_def resolve_revision_def Let_def
       bind_io_fails [OF unreachable_fetch_fails [OF assms(1)]] simp_thms)

lemma no_commit_no_result:
  "\<not> is_commit_sha revision \<Longrightarrow> fst (run_resolver L url auth revision LooksLikeACommit h) = Inr None"
  by (simp add: looks_like_a_commit_def)

lemma try_resolvers_fail:
  assumes "\<And>r h. r \<in> set rs \<Longrightarrow> fst (run r h) = Inr None \<or> (\<exists>e. fst (run r h) = Inl e)"
    and "rs \<noteq> [] \<and> (\<forall>h. \<exists>e. fst (run (hd rs) h) = Inl e) \<or> errs \<noteq> []"
    and "fst (try_resolvers run rs out errs h) = Inr (found, all)"
  shows "all \<noteq> []"
  using assms
proof (induction rs arbitrary: out errs h)
  case (Cons r rs)
  have "fst (run r h) = Inr None \<or> (\<exists>e. fst (run r h) = Inl e)" using Cons.prems(1) by simp
  then show ?case
  proof
    assume none: "fst (run r h) = Inr None"
    with Cons.prems(2) have "errs \<noteq> []" by (metis Inl_Inr_False list.sel(1))
    moreover from none Cons.prems(3) have "fst (try_resolvers run rs None errs (snd (run r h))) = Inr (found, all)"
      by (simp add: attempt_io_apply)
    ultimately show ?thesis using Cons.IH [of errs None "snd (run r h)"] Cons.prems(1) by simp
  next
    assume "\<exists>e. fst (run r h) = Inl e"
    then obtain e where e: "fst (run r h) = Inl e" ..
    with Cons.prems(3) have "fst (try_resolvers run rs None (errs @ [e]) (snd (run r h))) = Inr (found, all)"
      by (cases e) (simp_all add: attempt_io_apply)
    then show ?thesis using Cons.IH [of "errs @ [e]" None "snd (run r h)"] Cons.prems(1) by simp
  qed
qed simp

lemma unreachable_clone_fails:
  assumes "git_unreachable L (git_url g)" and "src_git sc = Some g" and "\<not> is_commit_sha (git_revision g)"
  shows "\<exists>e. fst (resolve_by_cloning L auth sc h) = Inl e"
proof (rule ccontr)
  let ?run = "run_resolver L (git_url g) auth (git_revision g)"
  let ?rs = "relevant_fetch_resolvers_for (git_revision g)"
  assume "\<nexists>e. fst (resolve_by_cloning L auth sc h) = Inl e"
  then obtain config where "fst (resolve_by_cloning L auth sc h) = Inr config"
    by (cases "fst (resolve_by_cloning L auth sc h)") auto
  then obtain out where found: "fst (try_resolvers ?run ?rs None [] h) = Inr (out, [])"
    unfolding resolve_by_cloning_def assms(2) option.case
    by (auto simp: io_simps nil_git_def join_errs_def split: sum.splits option.splits prod.splits if_splits)
  have "fst (?run r h') = Inr None \<or> (\<exists>e. fst (?run r h') = Inl e)" for r h'
    using unreachable_resolver [OF assms(1)] no_commit_no_result [OF assms(3)] by (cases "r = LooksLikeACommit") auto
  moreover have "?rs \<noteq> []" "hd ?rs \<noteq> LooksLikeACommit"
    by (simp_all add: relevant_fetch_resolvers_for_def allFetchResolvers_def)
  ultimately show False
    using try_resolvers_fail [OF _ _ found] unreachable_resolver [OF assms(1)] by blast
qed

text \<open>
  C23: An outage of a git server does no harm: once a resolver has been observed at its generation, a
  reconcile during which the server answers neither a listing of the references nor a fetch writes nothing, so the
  revision it resolved to before, and with it the image, stays as it is. This holds for full clones, and
  for shallow clones of a sub path unless the revision is a full commit id, which is then taken as it is.
\<close>

theorem source_outage_changes_nothing:
  assumes "\<And>h ns nm. sre_get E h ns nm = Inr sr" and "src_git (srs_source (sr_spec sr)) = Some g"
    and "sre_git E = (\<lambda>h. resolve_git G trust L shallow secrets)"
    and "git_unreachable L (git_url g)"
    and "st_observed_generation (srt_status (sr_status sr)) = meta_generation (sr_meta sr)"
    and "shallow \<Longrightarrow> src_sub_path (srs_source (sr_spec sr)) = '''' \<or> \<not> is_commit_sha (git_revision g)"
  shows "WriteResolver y \<notin> set (snd (reconcile_resolver_key E key []))"
proof
  assume "WriteResolver y \<in> set (snd (reconcile_resolver_key E key []))"
  then obtain k where key: "sre_split_key E key = Inr k"
    by (cases "sre_split_key E key") (auto simp: reconcile_resolver_key_def io_simps)
  from \<open>WriteResolver y \<in> _\<close> reconcile_writes [OF assms(1)] obtain resolver config sr1
    where pick: "source_reconciler E sr = Inr resolver" and config: "resolver [] = Inr config"
      and sr1: "sr_resolved_source config sr = Inr sr1" by metis
  have "resolve_git G trust L shallow secrets sr = Inr config"
    using pick config assms(2,3) by (auto simp: source_reconciler_def sr_is_git_def)
  then obtain auth where clone: "fst (resolve_remote_git L shallow auth (srs_source (sr_spec sr)) []) = Inr config"
    by (auto simp: resolve_git_def assms(2) bind_res_eq_Inr)
  have listed: "fst (resolve_remote_git L shallow auth (srs_source (sr_spec sr)) []) =
      resolve_by_listing_remote L auth (srs_source (sr_spec sr))"
    using unreachable_clone_fails [OF assms(4,2), of auth "[]"] assms(6) clone
    by (auto simp: resolve_remote_git_def split: if_splits)
  obtain kd t where "gl_list L auth (git_url g) = Inl (Failed kd t)" using assms(4) unfolding git_unreachable_def by blast
  with clone listed have eq: "config = git_source (srs_source (sr_spec sr)) g (git_revision g) '''' GitUnknown"
    by (simp add: resolve_by_listing_remote_def assms(2))
  have unknown: "resolved_source_of config = Some (ResolvedGit (the (rs_git config)))"
      "resolved_is_unknown (ResolvedGit (the (rs_git config)))"
    by (simp_all add: eq git_source_def resolved_source_of_def git_is_unknown_def)
  have "wanted b sr sr1 = sr" for b using unknown_source_kept [OF unknown assms(5) sr1] by blast
  with \<open>WriteResolver y \<in> _\<close> show False
    unfolding reconcile_trace [OF assms(1) key pick config sr1]
    by (simp add: resolver_status_equal_def status_semantic_eq_refl split: if_splits)
qed

definition sample_source_env :: "resolved_source_config res \<Rightarrow> source_resolver \<Rightarrow> sr_env" where
  "sample_source_env answer sr = \<lparr>sre_shallow_clone = True, sre_split_key = (\<lambda>k. Inr (''dev'', k)),
     sre_get = (\<lambda>_ _ _. Inr sr), sre_git = (\<lambda>_ _. answer), sre_update = (\<lambda>_ _. Inr ())\<rparr>"

definition sample_observed :: source_resolver where
  "sample_observed = observe sample_resolver"

theorem source_outage_changes_nothing_witness:
  "let E = (sample_source_env (Inr empty_resolved) sample_observed)
       \<lparr>sre_git := \<lambda>h. resolve_git sample_keys False (sample_git_lib (Inl (Failed Plain ''no route to host''))) True (\<lambda>_ _. Inr [])\<rparr>
   in \<forall>y. WriteResolver y \<notin> set (snd (reconcile_resolver_key E ''app'' []))"
proof -
  let ?L = "sample_git_lib (Inl (Failed Plain ''no route to host''))"
  let ?E = "(sample_source_env (Inr empty_resolved) sample_observed)
    \<lparr>sre_git := \<lambda>h. resolve_git sample_keys False ?L True (\<lambda>_ _. Inr [])\<rparr>"
  have g: "src_git (srs_source (sr_spec sample_observed)) = Some sample_git"
    by (simp add: sample_observed_def observe_def sample_resolver_def image_source_resolver_def sample_image_def)
  have "WriteResolver y \<notin> set (snd (reconcile_resolver_key ?E ''app'' []))" for y
  proof (rule source_outage_changes_nothing)
    show "src_git (srs_source (sr_spec sample_observed)) = Some sample_git" by (rule g)
    show "git_unreachable ?L (git_url sample_git)" by (simp add: sample_git_lib_def git_unreachable_def)
    show "src_sub_path (srs_source (sr_spec sample_observed)) = '''' \<or> \<not> is_commit_sha (git_revision sample_git)"
      by (simp add: sample_git_def is_commit_sha_def)
  qed (simp_all add: sample_source_env_def sample_observed_def)
  then show ?thesis unfolding Let_def by blast
qed

text \<open>
  The status of a source resolver settles, and with shallow clones it follows only the sub path: when
  a reconcile has written what the repository resolved to, a later commit that leaves the tree of the sub
  path as it was, or no commit at all, makes no further write. So no build starts for it.
\<close>

theorem unchanged_tree_keeps_source:
  assumes "sre_shallow_clone E" and "sre_split_key E key = Inr k" and "sre_split_key E key' = Inr k'"
    and "sr_is_git sr" and "rs_git config = Some d" and "rg_tree d \<noteq> ''''" and "rg_kind d \<noteq> GitUnknown"
    and "WriteResolver y \<in> set (snd (reconcile_resolver_key
           (E\<lparr>sre_get := \<lambda>_ _ _. Inr sr, sre_git := \<lambda>_ _. Inr config\<rparr>) key []))"
  shows "WriteResolver z \<notin> set (snd (reconcile_resolver_key
     (E\<lparr>sre_get := \<lambda>_ _ _. Inr y, sre_git := \<lambda>_ _. Inr (config\<lparr>rs_git := Some (d\<lparr>rg_revision := r\<rparr>)\<rparr>)\<rparr>) key' []))"
proof -
  let ?config = "config\<lparr>rs_git := Some (d\<lparr>rg_revision := r\<rparr>)\<rparr>"
  obtain sr1 where sr1: "sr_resolved_source config sr = Inr sr1" "resolves_to config d sr1"
    using sr_resolved_source_git [OF assms(5,7)] by blast
  have "y = wanted True sr sr1"
    using assms(8) assms(1,4)
    by (subst (asm) reconcile_trace [where sr = sr and k = k and resolver = "\<lambda>_. Inr config" and config = config and ?sr1.0 = sr1])
       (auto simp: assms(2) sr1 source_reconciler_def split: if_splits)
  with wanted_resolves [OF sr1(2) assms(5), of True sr] sr_resolved_source_frame [OF sr1(1)] obtain rev
    where y: "resolves_to (config\<lparr>rs_git := Some (d\<lparr>rg_revision := rev\<rparr>)\<rparr>) (d\<lparr>rg_revision := rev\<rparr>) y" "observe y = y" "sr_is_git y"
    using assms(4) by (auto simp: sr_is_git_def wanted_frame)
  have kind: "rg_kind (d\<lparr>rg_revision := r\<rparr>) \<noteq> GitUnknown" using assms(7) by simp
  obtain y1 where y1: "sr_resolved_source ?config y = Inr y1" "resolves_to ?config (d\<lparr>rg_revision := r\<rparr>) y1"
    using sr_resolved_source_git [where config = ?config and d = "d\<lparr>rg_revision := r\<rparr>" and sr = y] kind by auto
  have same: "resolver_status_equal (sr_status y) (sr_status (wanted True y y1))"
    by (rule same_tree_wanted [OF y(1,2) y1 assms(6)])
  have "snd (reconcile_resolver_key (E\<lparr>sre_get := \<lambda>_ _ _. Inr y, sre_git := \<lambda>_ _. Inr ?config\<rparr>) key' []) =
      (if sr_polling_ready y1 then [EnqueueAfter y1 60] else [])"
    using assms(1) y(3) same
    by (subst reconcile_trace [where sr = y and k = k' and resolver = "\<lambda>_. Inr ?config" and config = ?config and ?sr1.0 = y1])
       (simp_all add: assms(3) y1 source_reconciler_def)
  then show ?thesis by simp
qed

definition sample_tree :: "string \<Rightarrow> string \<Rightarrow> resolved_git" where
  "sample_tree revision tree = \<lparr>rg_url = ''https://git.example/app'', rg_revision = revision, rg_sub_path = ''app'',
     rg_tree = tree, rg_kind = GitBranch, rg_init_submodules = False\<rparr>"

theorem unchanged_tree_keeps_source_witness:
  "\<exists>y. WriteResolver y \<in> set (snd (reconcile_resolver_key
        (sample_source_env (Inr (empty_resolved\<lparr>rs_git := Some (sample_tree ''c1'' ''8'')\<rparr>)) sample_resolver) ''app'' [])) \<and>
     (\<forall>z. WriteResolver z \<notin> set (snd (reconcile_resolver_key
        (sample_source_env (Inr (empty_resolved\<lparr>rs_git := Some (sample_tree ''c2'' ''8'')\<rparr>)) y) ''app'' [])))"
proof -
  let ?d = "sample_tree ''c1'' ''8''"
  let ?config = "empty_resolved\<lparr>rs_git := Some ?d\<rparr>"
  let ?E = "sample_source_env (Inr ?config) sample_resolver"
  have env: "?E = ?E\<lparr>sre_get := \<lambda>_ _ _. Inr sample_resolver, sre_git := \<lambda>_ _. Inr ?config\<rparr>"
    "sample_source_env (Inr (empty_resolved\<lparr>rs_git := Some (sample_tree ''c2'' ''8'')\<rparr>)) y =
     ?E\<lparr>sre_get := \<lambda>_ _ _. Inr y, sre_git := \<lambda>_ _. Inr (?config\<lparr>rs_git := Some (?d\<lparr>rg_revision := ''c2''\<rparr>)\<rparr>)\<rparr>" for y
    by (simp_all add: sample_source_env_def sample_tree_def)
  have git: "sr_is_git sample_resolver"
    by (simp add: sr_is_git_def sample_resolver_def image_source_resolver_def sample_image_def)
  have kind: "rg_kind ?d \<noteq> GitUnknown" "rg_tree ?d \<noteq> ''''" by (simp_all add: sample_tree_def)
  obtain sr1 where sr1: "sr_resolved_source ?config sample_resolver = Inr sr1" "resolves_to ?config ?d sr1"
    using sr_resolved_source_git [OF _ kind(1), of ?config] by auto
  let ?y = "wanted True sample_resolver sr1"
  have "rs_git (srt_source (sr_status ?y)) \<noteq> rs_git (srt_source (sr_status sample_resolver))"
    using sr1(2) by (simp add: wanted_def retained_def retain_commit_if_tree_unchanged_def resolves_to_def sample_resolver_def
        sample_tree_def)
  then have "\<not> resolver_status_equal (sr_status sample_resolver) (sr_status ?y)" by (auto simp: resolver_status_equal_def)
  then have "WriteResolver ?y \<in> set (snd (reconcile_resolver_key ?E ''app'' []))"
    by (subst reconcile_trace [where sr = sample_resolver and k = "(''dev'', ''app'')" and resolver = "\<lambda>_. Inr ?config"
          and config = ?config and ?sr1.0 = sr1])
       (auto simp: sample_source_env_def sr1 source_reconciler_def git)
  moreover from this unchanged_tree_keeps_source [of ?E "''app''" "(''dev'', ''app'')" "''app''" "(''dev'', ''app'')"
      sample_resolver ?config ?d ?y _ "''c2''"] kind git env
  have "WriteResolver z \<notin> set (snd (reconcile_resolver_key
        (sample_source_env (Inr (empty_resolved\<lparr>rs_git := Some (sample_tree ''c2'' ''8'')\<rparr>)) ?y) ''app'' []))" for z
    by (simp add: sample_source_env_def)
  ultimately show ?thesis by blast
qed

text \<open>A reconcile that writes has taken over what the source resolved to.\<close>

lemma written_source:
  assumes "\<And>h ns nm. sre_get E h ns nm = Inr sr" and "sre_split_key E key = Inr k"
    and "source_reconciler E sr = Inr resolver" and "resolver [] = Inr config" and "sr_resolved_source config sr = Inr sr1"
    and "WriteResolver y \<in> set (snd (reconcile_resolver_key E key []))"
  shows "srt_source (sr_status sr1) = config" and "resolved_source_of config \<noteq> None"
proof -
  obtain rs where rs: "resolved_source_of config = Some rs"
    using assms(5) by (auto simp: sr_resolved_source_def split: option.splits)
  have "\<not> (resolved_is_unknown rs \<and> st_observed_generation (srt_status (sr_status sr)) = meta_generation (sr_meta sr))"
  proof
    assume "resolved_is_unknown rs \<and> st_observed_generation (srt_status (sr_status sr)) = meta_generation (sr_meta sr)"
    then have "wanted b sr sr1 = sr" for b using unknown_source_kept [OF rs _ _ assms(5)] by blast
    with assms(6) show False
      unfolding reconcile_trace [OF assms(1-5)]
      by (simp add: resolver_status_equal_def status_semantic_eq_refl split: if_splits)
  qed
  with assms(5) rs show "srt_source (sr_status sr1) = config" "resolved_source_of config \<noteq> None"
    by (auto simp: sr_resolved_source_def)
qed

lemma resolve_git_listed:
  assumes "src_git (srs_source (sr_spec sr)) = Some g" and "resolve_git G trust L shallow secrets sr = Inr config"
  shows "shallow \<and> src_sub_path (srs_source (sr_spec sr)) \<noteq> '''' \<or>
    (\<exists>auth d. resolve_git_auth G trust (secrets (srs_service_account (sr_spec sr)) (meta_namespace (sr_meta sr))) g = Inr auth \<and>
      rs_git config = Some d \<and> rg_revision d = (case gl_list L auth (git_url g) of
        Inl _ \<Rightarrow> git_revision g
      | Inr refs \<Rightarrow> (case find (\<lambda>ref. gr_short ref = git_revision g) refs of
          Some ref \<Rightarrow> gr_hash ref | None \<Rightarrow> git_revision g)))"
proof -
  obtain auth where who: "resolve_git_auth G trust (secrets (srs_service_account (sr_spec sr)) (meta_namespace (sr_meta sr))) g = Inr auth"
    and auth: "fst (resolve_remote_git L shallow auth (srs_source (sr_spec sr)) []) = Inr config"
    using assms by (auto simp: resolve_git_def bind_res_eq_Inr)
  show ?thesis
  proof (cases "shallow \<and> src_sub_path (srs_source (sr_spec sr)) \<noteq> ''''")
    case False
    with auth have "resolve_by_listing_remote L auth (srs_source (sr_spec sr)) = Inr config"
      by (simp add: resolve_remote_git_def)
    then show ?thesis
      by (intro disjI2 exI [of _ auth])
         (auto simp: who resolve_by_listing_remote_def assms(1) git_source_def split: sum.splits goerr.splits option.splits)
  qed simp
qed

text \<open>
  C24: What a build fetches is what its image names, with one exception. The source that a reconcile writes
  for the build, in a first resolution as in every later poll, has the url, sub path, credentials and pull
  secrets of its specification. For git the revision is the one this reconcile resolved, or, with shallow clones, the
  one resolved before when the tree of the sub path is still the same; without a shallow clone the resolved revision
  is the hash the server lists, to the credentials of the service account, for the named branch or tag, and the
  revision itself if none has that name or the server lists nothing.
  The exception: the stripComponents of a blob is always 0, since the blob resolver does not copy it.
\<close>

theorem resolved_source_faithful:
  assumes "\<And>h ns nm. sre_get E h ns nm = Inr sr" and "sre_git E = (\<lambda>h. resolve_git G trust L shallow secrets)"
    and "WriteResolver y \<in> set (snd (reconcile_resolver_key E key []))"
  shows "case src_git (srs_source (sr_spec sr)) of
      Some g \<Rightarrow> \<exists>config d r. resolve_git G trust L shallow secrets sr = Inr config \<and> rs_git config = Some d \<and>
        (r = rg_revision d \<or>
         sre_shallow_clone E \<and> (\<exists>og. rs_git (srt_source (sr_status sr)) = Some og \<and> r = rg_revision og \<and>
           rg_tree og = rg_tree d \<and> rg_tree d \<noteq> '''')) \<and>
        (shallow \<and> src_sub_path (srs_source (sr_spec sr)) \<noteq> '''' \<or>
         (\<exists>auth. resolve_git_auth G trust (secrets (srs_service_account (sr_spec sr)) (meta_namespace (sr_meta sr))) g = Inr auth \<and>
            rg_revision d = (case gl_list L auth (git_url g) of
            Inl _ \<Rightarrow> git_revision g
          | Inr refs \<Rightarrow> (case find (\<lambda>ref. gr_short ref = git_revision g) refs of
              Some ref \<Rightarrow> gr_hash ref | None \<Rightarrow> git_revision g)))) \<and>
        sr_source_config y = Inr \<lparr>src_git = Some (g\<lparr>git_revision := r\<rparr>), src_blob = None, src_registry = None,
                src_sub_path = src_sub_path (srs_source (sr_spec sr))\<rparr>
    | None \<Rightarrow> sr_source_config y = Inr (case src_blob (srs_source (sr_spec sr)) of
        Some b \<Rightarrow> \<lparr>src_git = None, src_blob = Some (b\<lparr>blob_strip := 0\<rparr>), src_registry = None,
                  src_sub_path = src_sub_path (srs_source (sr_spec sr))\<rparr>
      | None \<Rightarrow> \<lparr>src_git = None, src_blob = None, src_registry = src_registry (srs_source (sr_spec sr)),
                src_sub_path = src_sub_path (srs_source (sr_spec sr))\<rparr>)"
proof -
  from reconcile_writes [OF assms(1,3)] obtain resolver config sr1
    where pick: "source_reconciler E sr = Inr resolver" and config: "resolver [] = Inr config"
      and sr1: "sr_resolved_source config sr = Inr sr1" and y: "y = wanted (sre_shallow_clone E) sr sr1" by blast
  obtain k where key: "sre_split_key E key = Inr k"
    using assms(3) by (cases "sre_split_key E key") (auto simp: reconcile_resolver_key_def io_simps)
  note source = written_source [OF assms(1) key pick config sr1 assms(3)]
  show ?thesis
  proof (cases "src_git (srs_source (sr_spec sr))")
    case (Some g)
    then have resolved: "resolve_git G trust L shallow secrets sr = Inr config"
      using pick config assms(2) by (auto simp: source_reconciler_def sr_is_git_def)
    from resolve_git_source [OF Some this] obtain rev tree kind
      where git: "config = git_source (srs_source (sr_spec sr)) g rev tree kind" by blast
    obtain d where d: "rs_git config = Some d" "rg_revision d = rev" "rg_tree d = tree"
      using git by (simp add: git_source_def)
    obtain r where r: "srt_source (sr_status y) = git_source (srs_source (sr_spec sr)) g r tree kind"
      "r = rev \<or> sre_shallow_clone E \<and> (\<exists>og. rs_git (srt_source (sr_status sr)) = Some og \<and> r = rg_revision og \<and>
         rg_tree og = tree \<and> tree \<noteq> '''')"
      unfolding y using source(1) wanted_git_revision git by blast
    have listed: "shallow \<and> src_sub_path (srs_source (sr_spec sr)) \<noteq> '''' \<or>
         (\<exists>auth. resolve_git_auth G trust (secrets (srs_service_account (sr_spec sr)) (meta_namespace (sr_meta sr))) g = Inr auth \<and>
            rev = (case gl_list L auth (git_url g) of
            Inl _ \<Rightarrow> git_revision g
          | Inr refs \<Rightarrow> (case find (\<lambda>ref. gr_short ref = git_revision g) refs of
              Some ref \<Rightarrow> gr_hash ref | None \<Rightarrow> git_revision g)))"
      using resolve_git_listed [OF Some resolved] d(1,2) by force
    have "sr_source_config y = Inr \<lparr>src_git = Some (g\<lparr>git_revision := r\<rparr>), src_blob = None, src_registry = None,
                src_sub_path = src_sub_path (srs_source (sr_spec sr))\<rparr>"
      by (cases g) (simp add: r(1) sr_source_config_def git_source_def resolved_source_of_def git_source_config_def)
    then show ?thesis unfolding Some option.case
      using resolved d(1) r(2) listed unfolding d(2,3) [symmetric] by blast
  next
    case None
    then have plain: "config = resolved_plain (srs_source (sr_spec sr))"
      using pick config by (auto simp: source_reconciler_def sr_is_git_def sr_is_blob_def sr_is_registry_def resolve_blob_def
          resolve_registry_def resolved_plain_def empty_resolved_def nil_git_def split: option.splits if_splits)
    then have "srt_source (sr_status y) = config" using source(1) wanted_plain [of sr1 "sre_shallow_clone E" sr] by (simp add: y)
    then show ?thesis using None source(2) resolved_plain_source_config plain
      by (auto simp: sr_source_config_def)
  qed
qed

definition sample_blob :: blob where
  "sample_blob = \<lparr>blob_url = ''https://blobs.example/app.zip'', blob_auth = '''', blob_strip = 2\<rparr>"

definition sample_blob_resolver :: source_resolver where
  "sample_blob_resolver = \<lparr>sr_meta = empty_meta\<lparr>meta_name := ''app'', meta_namespace := ''dev'', meta_generation := 1\<rparr>,
     sr_spec = \<lparr>srs_service_account = ''default'', srs_source = empty_source\<lparr>src_blob := Some sample_blob\<rparr>\<rparr>,
     sr_status = \<lparr>srt_status = empty_status, srt_source = empty_resolved\<rparr>\<rparr>"

theorem resolved_source_faithful_witness:
  "\<exists>y. WriteResolver y \<in> set (snd (reconcile_resolver_key
        ((sample_source_env (Inr empty_resolved) sample_blob_resolver)
           \<lparr>sre_git := \<lambda>h. resolve_git sample_keys False (sample_git_lib (Inr ())) False (\<lambda>_ _. Inr [])\<rparr>) ''app'' [])) \<and>
     sr_source_config y = Inr \<lparr>src_git = None, src_blob = Some (sample_blob\<lparr>blob_strip := 0\<rparr>), src_registry = None, src_sub_path = ''''\<rparr>"
proof -
  let ?E = "(sample_source_env (Inr empty_resolved) sample_blob_resolver)
    \<lparr>sre_git := \<lambda>h. resolve_git sample_keys False (sample_git_lib (Inr ())) False (\<lambda>_ _. Inr [])\<rparr>"
  let ?config = "resolved_plain (srs_source (sr_spec sample_blob_resolver))"
  have blob: "source_reconciler F sample_blob_resolver = Inr (\<lambda>_. Inr ?config)" for F
    by (simp add: source_reconciler_def sr_is_git_def sr_is_blob_def sample_blob_resolver_def empty_source_def
        resolve_blob_def resolved_plain_def empty_resolved_def fun_eq_iff)
  have "resolved_source_of ?config \<noteq> None"
    by (simp add: resolved_plain_def resolved_source_of_def sample_blob_resolver_def empty_source_def empty_resolved_def)
  then obtain sr1 where sr1: "sr_resolved_source ?config sample_blob_resolver = Inr sr1" "srt_source (sr_status sr1) = ?config"
    by (auto simp: sr_resolved_source_def sample_blob_resolver_def empty_status_def split: option.split)
  have "rs_blob (srt_source (sr_status (wanted True sample_blob_resolver sr1))) \<noteq> rs_blob (srt_source (sr_status sample_blob_resolver))"
    using sr1(2) wanted_plain [of sr1 True sample_blob_resolver]
    by (simp add: resolved_plain_def sample_blob_resolver_def empty_source_def empty_resolved_def)
  then have "\<not> resolver_status_equal (sr_status sample_blob_resolver) (sr_status (wanted True sample_blob_resolver sr1))"
    by (auto simp: resolver_status_equal_def)
  then have y: "WriteResolver (wanted True sample_blob_resolver sr1) \<in> set (snd (reconcile_resolver_key ?E ''app'' []))"
    by (subst reconcile_trace [where sr = sample_blob_resolver and k = "(''dev'', ''app'')" and resolver = "\<lambda>_. Inr ?config"
          and config = ?config and ?sr1.0 = sr1])
       (auto simp: sample_source_env_def sr1 blob)
  have "sr_source_config (wanted True sample_blob_resolver sr1) =
      Inr \<lparr>src_git = None, src_blob = Some (sample_blob\<lparr>blob_strip := 0\<rparr>), src_registry = None, src_sub_path = ''''\<rparr>"
  proof -
    have get: "sre_get ?E h ns nm = Inr sample_blob_resolver" for h ns nm by (simp add: sample_source_env_def)
    have git: "sre_git ?E = (\<lambda>h. resolve_git sample_keys False (sample_git_lib (Inr ())) False (\<lambda>_ _. Inr []))" by simp
    have spec: "srs_source (sr_spec sample_blob_resolver) =
        \<lparr>src_git = None, src_blob = Some sample_blob, src_registry = None, src_sub_path = ''''\<rparr>"
      by (simp add: sample_blob_resolver_def empty_source_def)
    show ?thesis
      using resolved_source_faithful [OF get git y] by (simp only: spec source_config.simps option.case simp_thms)
  qed
  with y show ?thesis by blast
qed

end
