(* ===== verification/Validation.thy ===== *)
theory Validation
  imports Cluster_Types Image_Builds
begin

text \<open>
  Admission: the \<open>Validate\<close> methods of \<open>pkg/apis/core/v1alpha1\<close> and \<open>pkg/apis/build/v1alpha2\<close> with
  the helpers of \<open>pkg/apis/validate\<close>. A \<open>FieldError\<close> of knative is the list of the errors it collects
  (nil is the empty list), a path the list of its parts before knative joins them.
\<close>

section \<open>Field errors\<close>

datatype field_problem =
    MissingField
  | InvalidValue string
  | MissingOneOf
  | MultipleOneOf
  | InvalidKeyName string
  | DisallowedFields
  | GenericProblem string

record field_error =
  fe_problem :: field_problem
  fe_paths :: "string list list"
  fe_details :: string

definition field_err :: "field_problem \<Rightarrow> string list \<Rightarrow> string \<Rightarrow> field_error list" where
  "field_err p parts details = [\<lparr>fe_problem = p, fe_paths = map (\<lambda>f. [f]) parts, fe_details = details\<rparr>]"

definition via_field :: "string \<Rightarrow> field_error list \<Rightarrow> field_error list" where
  "via_field f = map (\<lambda>e. e\<lparr>fe_paths := map (\<lambda>p. f # p) (fe_paths e)\<rparr>)"

definition index_key :: "nat \<Rightarrow> string" where
  "index_key i = ''['' @ nat_to_string i @ '']''"

definition via_index :: "nat \<Rightarrow> field_error list \<Rightarrow> field_error list" where
  "via_index i = via_field (index_key i)"

lemma via_field_Nil_iff [simp]: "via_field f es = [] \<longleftrightarrow> es = []"
  by (simp add: via_field_def)

lemma via_index_Nil_iff [simp]: "via_index i es = [] \<longleftrightarrow> es = []"
  by (simp add: via_index_def)

lemma field_err_not_Nil [simp]: "field_err p fs d \<noteq> []" "[] \<noteq> field_err p fs d"
  by (simp_all add: field_err_def)

text \<open>Errors of the elements of a list, each under its index.\<close>

fun each_index :: "nat \<Rightarrow> ('a \<Rightarrow> field_error list) \<Rightarrow> 'a list \<Rightarrow> field_error list" where
  "each_index i f [] = []"
| "each_index i f (x # xs) = via_index i (f x) @ each_index (Suc i) f xs"

lemma each_index_Nil_iff [simp]: "each_index i f xs = [] \<longleftrightarrow> (\<forall>x \<in> set xs. f x = [])"
  by (induction xs arbitrary: i) auto

section \<open>Helpers\<close>

definition field_not_empty :: "string \<Rightarrow> string \<Rightarrow> field_error list" where
  "field_not_empty v field = (if v = '''' then field_err MissingField [field] '''' else [])"

definition list_not_empty :: "string list \<Rightarrow> string \<Rightarrow> field_error list" where
  "list_not_empty v field = (if length v = 0 then field_err MissingField [field] '''' else [])"

definition immutable_field :: "string \<Rightarrow> string \<Rightarrow> string \<Rightarrow> field_error list" where
  "immutable_field original current field =
     (if original \<noteq> current
      then field_err (GenericProblem ''Immutable field changed'') [field] (''got: '' @ current @ '', want: '' @ original)
      else [])"

definition tag_field :: "lib \<Rightarrow> string \<Rightarrow> field_error list" where
  "tag_field L v =
     (if v = '''' then field_err MissingField [''tag''] ''''
      else case lib_new_tag L v of Inl _ \<Rightarrow> field_err (InvalidValue v) [''tag''] '''' | Inr _ \<Rightarrow> [])"

fun tags_from :: "lib \<Rightarrow> string \<Rightarrow> nat \<Rightarrow> string list \<Rightarrow> field_error list" where
  "tags_from L field i [] = []"
| "tags_from L field i (t # ts) =
     (case lib_new_tag L t of Inl _ \<Rightarrow> field_err (InvalidValue t) [field @ index_key i] '''' | Inr _ \<Rightarrow> []) @
     tags_from L field (Suc i) ts"

definition tags_field :: "lib \<Rightarrow> string list \<Rightarrow> string \<Rightarrow> field_error list" where
  "tags_field L tags field = tags_from L field 0 tags"

definition image_field :: "lib \<Rightarrow> string \<Rightarrow> field_error list" where
  "image_field L v =
     (if v = '''' then field_err MissingField [''image''] ''''
      else case lib_parse_reference L v of Inl _ \<Rightarrow> field_err (InvalidValue v) [''image''] '''' | Inr _ \<Rightarrow> [])"

definition strip_components_field :: "int \<Rightarrow> field_error list" where
  "strip_components_field v =
     (if v \<ge> 0 then []
      else field_err (GenericProblem (''expected positive integer got '' @ itoa v)) [''stripComponents''] '''')"

definition tag_parses :: "lib \<Rightarrow> string \<Rightarrow> bool" where
  "tag_parses L t \<longleftrightarrow> (\<exists>x. lib_new_tag L t = Inr x)"

definition ref_parses :: "lib \<Rightarrow> string \<Rightarrow> bool" where
  "ref_parses L r \<longleftrightarrow> (\<exists>x. lib_parse_reference L r = Inr x)"

lemma field_not_empty_Nil_iff [simp]: "field_not_empty v f = [] \<longleftrightarrow> v \<noteq> ''''"
  by (simp add: field_not_empty_def)

lemma list_not_empty_Nil_iff [simp]: "list_not_empty v f = [] \<longleftrightarrow> v \<noteq> []"
  by (simp add: list_not_empty_def)

lemma immutable_field_Nil_iff [simp]: "immutable_field a b f = [] \<longleftrightarrow> b = a"
  by (auto simp: immutable_field_def)

lemma tag_field_Nil_iff [simp]: "tag_field L v = [] \<longleftrightarrow> v \<noteq> '''' \<and> tag_parses L v"
  by (auto simp: tag_field_def tag_parses_def split: sum.split)

lemma tags_from_Nil_iff [simp]: "tags_from L f i ts = [] \<longleftrightarrow> (\<forall>t \<in> set ts. tag_parses L t)"
  by (induction ts arbitrary: i) (auto simp: tag_parses_def split: sum.split)

lemma tags_field_Nil_iff [simp]: "tags_field L ts f = [] \<longleftrightarrow> (\<forall>t \<in> set ts. tag_parses L t)"
  by (simp add: tags_field_def)

lemma image_field_Nil_iff [simp]: "image_field L v = [] \<longleftrightarrow> v \<noteq> '''' \<and> ref_parses L v"
  by (auto simp: image_field_def ref_parses_def split: sum.split)

lemma strip_components_Nil_iff [simp]: "strip_components_field v = [] \<longleftrightarrow> 0 \<le> v"
  by (simp add: strip_components_field_def)

section \<open>Sources, builder references, bindings, notary\<close>

definition git_validate :: "git option \<Rightarrow> field_error list" where
  "git_validate g = (case g of None \<Rightarrow> []
     | Some g \<Rightarrow> field_not_empty (git_url g) ''url'' @ field_not_empty (git_revision g) ''revision'')"

definition blob_validate :: "blob option \<Rightarrow> field_error list" where
  "blob_validate b = (case b of None \<Rightarrow> []
     | Some b \<Rightarrow>
         (if blob_auth b \<noteq> '''' \<and> blob_auth b \<noteq> ''helper'' \<and> blob_auth b \<noteq> ''secret''
          then field_err (InvalidValue (blob_auth b)) [''auth''] (''must be one of '' @ quoted '''' @ '', '' @ quoted ''helper'' @ '', or '' @ quoted ''secret'')
          else field_not_empty (blob_url b) ''url'' @ strip_components_field (blob_strip b)))"

definition registry_validate :: "lib \<Rightarrow> registry option \<Rightarrow> field_error list" where
  "registry_validate L r = (case r of None \<Rightarrow> [] | Some r \<Rightarrow> image_field L (reg_image r))"

definition source_validate :: "lib \<Rightarrow> source_config \<Rightarrow> field_error list" where
  "source_validate L s =
     (let sources = (if src_git s \<noteq> None then [''git''] else []) @ (if src_blob s \<noteq> None then [''blob''] else []) @
            (if src_registry s \<noteq> None then [''registry''] else [])
      in if length sources = 0 then field_err MissingOneOf [''git'', ''blob'', ''registry''] ''''
         else if length sources \<noteq> 1 then field_err MultipleOneOf sources ''''
         else via_field ''git'' (git_validate (src_git s)) @ via_field ''blob'' (blob_validate (src_blob s)) @
              via_field ''registry'' (registry_validate L (src_registry s)))"

definition builder_or_image_present :: "build_builder_spec \<Rightarrow> field_error list" where
  "builder_or_image_present b =
     (if bb_image b = '''' \<and> bb_ref b = None then field_err MissingField [''image'', ''ref''] '''' else [])"

definition builder_ref_and_image_exclusive :: "build_builder_spec \<Rightarrow> field_error list" where
  "builder_ref_and_image_exclusive b =
     (if bb_image b \<noteq> '''' \<and> bb_ref b \<noteq> None then field_err MultipleOneOf [''image'', ''ref''] '''' else [])"

definition builder_ref_field :: "object_reference option \<Rightarrow> field_error list" where
  "builder_ref_field r = (case r of None \<Rightarrow> []
     | Some r \<Rightarrow> field_not_empty (oref_name r) ''name'' @ field_not_empty (oref_kind r) ''kind'')"

definition optional_image_field :: "lib \<Rightarrow> string \<Rightarrow> field_error list" where
  "optional_image_field L v =
     (if v \<noteq> '''' then (case lib_parse_reference L v of Inl _ \<Rightarrow> field_err (InvalidValue v) [''image''] '''' | Inr _ \<Rightarrow> [])
      else [])"

definition build_builder_validate :: "lib \<Rightarrow> build_builder_spec \<Rightarrow> field_error list" where
  "build_builder_validate L b =
     builder_or_image_present b @ builder_ref_and_image_exclusive b @
     via_field ''ref'' (builder_ref_field (bb_ref b)) @ optional_image_field L (bb_image b)"

text \<open>The regular expression \<open>^[a-z0-9\-\.]{1,253}$\<close> of binding and service names.\<close>

definition binding_name_re :: "string \<Rightarrow> bool" where
  "binding_name_re s \<longleftrightarrow> 1 \<le> length s \<and> length s \<le> 253 \<and>
     list_all (\<lambda>c. c \<in> set ''abcdefghijklmnopqrstuvwxyz0123456789-.'') s"

definition cnb_binding_validate :: "cnb_binding \<Rightarrow> field_error list" where
  "cnb_binding_validate b =
     (if cnb_name b = '''' then field_err MissingField [''name''] ''''
      else if \<not> binding_name_re (cnb_name b) then field_err (InvalidValue (cnb_name b)) [''name''] '''' else []) @
     (case cnb_metadata_ref b of
        None \<Rightarrow> field_err MissingField [''metadataRef''] ''''
      | Some r \<Rightarrow> if lref_name r = '''' then field_err MissingField [''metadataRef.name''] '''' else []) @
     (case cnb_secret_ref b of
        None \<Rightarrow> []
      | Some r \<Rightarrow> if lref_name r = '''' then field_err MissingField [''secretRef.name''] '''' else [])"

text \<open>The loop over bindings keeps the index at which each name was last seen.\<close>

definition duplicate_name :: "string \<Rightarrow> (string \<rightharpoonup> nat) \<Rightarrow> string \<Rightarrow> nat \<Rightarrow> field_error list" where
  "duplicate_name what names nm i =
     (case names nm of None \<Rightarrow> []
      | Some n \<Rightarrow> field_err (GenericProblem (''duplicate '' @ what @ '' name '' @ go_quoted nm))
          [index_key n @ ''.name'', index_key i @ ''.name''] '''')"

fun cnb_bindings_from :: "nat \<Rightarrow> (string \<rightharpoonup> nat) \<Rightarrow> cnb_binding list \<Rightarrow> field_error list" where
  "cnb_bindings_from i names [] = []"
| "cnb_bindings_from i names (b # bs) =
     duplicate_name ''binding'' names (cnb_name b) i @ via_index i (cnb_binding_validate b) @
     cnb_bindings_from (Suc i) (names(cnb_name b \<mapsto> i)) bs"

definition cnb_bindings_validate :: "cnb_binding list \<Rightarrow> field_error list" where
  "cnb_bindings_validate bs = cnb_bindings_from 0 Map.empty bs"

definition notary_v1_validate :: "notary_v1_config option \<Rightarrow> field_error list" where
  "notary_v1_validate n = (case n of None \<Rightarrow> []
     | Some n \<Rightarrow> field_not_empty (notary_url n) ''url'' @ field_not_empty (notary_secret_ref n) ''secretRef.name'')"

definition notary_validate :: "notary_config option \<Rightarrow> field_error list" where
  "notary_validate n = (case n of None \<Rightarrow> [] | Some c \<Rightarrow> via_field ''v1'' (notary_v1_validate (notary_v1 c)))"

end
