(* ===== verification/Admission.thy ===== *)
theory Admission
  imports Validation
begin

text \<open>
  The webhook's \<open>Validate\<close> for images, builds, builders and the cluster-wide kinds
  (\<open>pkg/apis/build/v1alpha2/*_validation.go\<close>).
\<close>

section \<open>The context of a request\<close>

text \<open>
  What the context carries: the stored object when the request is an update, the user, whether a
  default storage class exists and, if that is known, whether it can be expanded.
\<close>

record 'a admission =
  adm_baseline :: "'a option"
  adm_user :: "string option"
  adm_default_storage_class :: bool
  adm_expandable :: "bool option"

text \<open>
  Functions of libraries: \<open>validation.IsValidLabelValue\<close>, \<open>Quantity.Cmp\<close>, \<open>kmp.ShortDiff\<close>, and whether
  an \<open>EnvVarSource\<close> has a \<open>SecretKeyRef\<close>.
\<close>

record checks =
  chk_label_value :: "string \<Rightarrow> string list"
  chk_quantity_cmp :: "opaque \<Rightarrow> opaque \<Rightarrow> int"
  chk_spec_diff :: "build_spec \<Rightarrow> build_spec \<Rightarrow> string res"
  chk_secret_key_ref :: "opaque \<Rightarrow> bool"

definition kpackControllerServiceAccountUsername :: string where
  "kpackControllerServiceAccountUsername = ''system:serviceaccount:kpack:controller''"

definition created_by_kpack_controller :: "string option \<Rightarrow> bool" where
  "created_by_kpack_controller user =
     (case user of None \<Rightarrow> False | Some u \<Rightarrow> u = kpackControllerServiceAccountUsername)"

definition k8sOSLabel :: string where "k8sOSLabel = ''kubernetes.io/os''"

section \<open>Parts shared by images and builds\<close>

definition node_selector_field :: "str_map \<Rightarrow> field_error list" where
  "node_selector_field m =
     (if m k8sOSLabel \<noteq> None
      then field_err (InvalidKeyName k8sOSLabel) [''nodeSelector''] ''os is determined automatically'' else [])"

fun env_secret_key_refs_from :: "checks \<Rightarrow> nat \<Rightarrow> env_var list \<Rightarrow> field_error list" where
  "env_secret_key_refs_from C i [] = []"
| "env_secret_key_refs_from C i (e # es) =
     (case env_from e of
        None \<Rightarrow> []
      | Some src \<Rightarrow>
          if chk_secret_key_ref C src
          then field_err (GenericProblem ''secretKeyRef is not supported for build environment variables'')
                 [index_key i @ ''.valueFrom.secretKeyRef''] ''''
          else []) @ env_secret_key_refs_from C (Suc i) es"

definition env_secret_key_refs_validate :: "checks \<Rightarrow> env_var list \<Rightarrow> field_error list" where
  "env_secret_key_refs_validate C env = env_secret_key_refs_from C 0 env"

definition service_validate :: "nat \<Rightarrow> object_reference \<Rightarrow> field_error list" where
  "service_validate i s =
     (if oref_name s = '''' then via_index i (field_err MissingField [''name''] '''')
      else if \<not> binding_name_re (oref_name s) then via_index i (field_err (InvalidValue (oref_name s)) [''name''] '''')
      else []) @
     (if oref_kind s = '''' then via_index i (field_err MissingField [''kind''] '''') else [])"

fun services_from :: "nat \<Rightarrow> (string \<rightharpoonup> nat) \<Rightarrow> services \<Rightarrow> field_error list" where
  "services_from i names [] = []"
| "services_from i names (s # ss) =
     duplicate_name ''service'' names (oref_name s) i @ service_validate i s @
     services_from (Suc i) (names(oref_name s \<mapsto> i)) ss"

definition services_validate :: "services \<Rightarrow> field_error list" where
  "services_validate ss = services_from 0 Map.empty ss"

definition validate_cnb_bindings :: "string option \<Rightarrow> cnb_binding list \<Rightarrow> field_error list" where
  "validate_cnb_bindings user bindings =
     (if \<not> created_by_kpack_controller user \<and> length bindings > 0
      then field_err (GenericProblem
             ''use of this field has been deprecated in v1alpha2, please use v1alpha1 for CNB bindings'') [''''] ''''
      else cnb_bindings_validate bindings)"

definition validate_notary :: "string option \<Rightarrow> notary_config option \<Rightarrow> field_error list" where
  "validate_notary user config =
     (if \<not> created_by_kpack_controller user \<and> config \<noteq> None
      then field_err (GenericProblem
             ''use of this field has been deprecated in v1alpha2, please use v1alpha1 for notary image signing'') [''''] ''''
      else notary_validate config)"

definition cosign_annotation_validate :: "cosign_annotation \<Rightarrow> field_error list" where
  "cosign_annotation_validate a = field_not_empty (ca_name a) ''name'' @ field_not_empty (ca_value a) ''value''"

fun cosign_annotations_from :: "nat \<Rightarrow> cosign_annotation list \<Rightarrow> field_error list" where
  "cosign_annotations_from i [] = []"
| "cosign_annotations_from i (a # as) =
     via_field ''annotations'' (via_index i (cosign_annotation_validate a)) @ cosign_annotations_from (Suc i) as"

definition cosign_validate :: "cosign_config option \<Rightarrow> field_error list" where
  "cosign_validate c = (case c of None \<Rightarrow> [] | Some c \<Rightarrow> cosign_annotations_from 0 (cosign_annotations c))"

section \<open>Images\<close>

definition image_validate_name :: "checks \<Rightarrow> string \<Rightarrow> field_error list" where
  "image_validate_name C image_name =
     (let msgs = chk_label_value C image_name
      in if length msgs > 0
         then field_err (GenericProblem (''invalid image name: '' @ image_name @ '', name must be a valid label''))
                [''''] (join '','' msgs)
         else [])"

definition image_validate_metadata :: "checks \<Rightarrow> image \<Rightarrow> field_error list" where
  "image_validate_metadata C im = via_field ''name'' (image_validate_name C (meta_name (im_meta im)))"

definition validate_tag :: "lib \<Rightarrow> image admission \<Rightarrow> image_spec \<Rightarrow> field_error list" where
  "validate_tag L A s =
     (case adm_baseline A of
        Some original \<Rightarrow> immutable_field (is_tag (im_spec original)) (is_tag s) ''tag''
      | None \<Rightarrow> tag_field L (is_tag s))"

fun same_registry_from :: "lib \<Rightarrow> string \<Rightarrow> string list \<Rightarrow> field_error list" where
  "same_registry_from L reg [] = []"
| "same_registry_from L reg (t # ts) =
     (case lib_new_tag L t of
        Inl _ \<Rightarrow> same_registry_from L reg ts
      | Inr add \<Rightarrow>
          if tag_registry add \<noteq> reg
          then field_err (GenericProblem ''all additionalTags must have the same registry as tag'') [''additionalTags'']
                 (''expected registry: '' @ reg @ '', got: '' @ tag_registry add)
          else same_registry_from L reg ts)"

definition validate_same_registry :: "lib \<Rightarrow> image_spec \<Rightarrow> field_error list" where
  "validate_same_registry L s =
     (case lib_new_tag L (is_tag s) of
        Inl _ \<Rightarrow> []
      | Inr tag \<Rightarrow> same_registry_from L (tag_registry tag) (is_additional_tags s))"

definition validate_additional_tags :: "lib \<Rightarrow> image_spec \<Rightarrow> field_error list" where
  "validate_additional_tags L s =
     tags_field L (is_additional_tags s) ''additionalTags'' @ validate_same_registry L s"

text \<open>The volume cache of a specification that needs one: its size and its storage class.\<close>

definition volume_of :: "image_spec \<Rightarrow> opaque \<times> string" where
  "volume_of s =
     (case is_cache s of
        Some c \<Rightarrow> (case icc_volume c of
            Some v \<Rightarrow> (case ivc_size v of Some sz \<Rightarrow> sz | None \<Rightarrow> '''', ivc_storage_class v)
          | None \<Rightarrow> ('''', ''''))
      | None \<Rightarrow> ('''', ''''))"

definition volume_without_class :: "image_spec \<Rightarrow> bool" where
  "volume_without_class s =
     (case is_cache s of None \<Rightarrow> False
      | Some c \<Rightarrow> (case icc_volume c of None \<Rightarrow> False | Some v \<Rightarrow> ivc_storage_class v = ''''))"

definition validate_volume_cache :: "checks \<Rightarrow> image admission \<Rightarrow> image_spec \<Rightarrow> field_error list" where
  "validate_volume_cache C A s =
     (if volume_without_class s \<and> \<not> adm_default_storage_class A
      then field_err (GenericProblem
        ''spec.cache.volume.size cannot be set without spec.cache.volume.storageClassName or a default StorageClass'') [] ''''
      else case adm_baseline A of
        None \<Rightarrow> []
      | Some original \<Rightarrow>
          (if is_need_volume_cache (im_spec original) \<and> is_need_volume_cache s
           then let (old_size, old_class) = volume_of (im_spec original); (new_size, new_class) = volume_of s;
                    details = ''current: '' @ old_size @ '', requested: '' @ new_size
                in if adm_expandable A = Some False \<and> chk_quantity_cmp C new_size old_size \<noteq> 0
                   then field_err (GenericProblem ''Field cannot be changed, default storage class is not expandable'')
                          [''cache.volume.size''] details
                   else if chk_quantity_cmp C new_size old_size < 0
                   then field_err (GenericProblem ''Field cannot be decreased'') [''cache.volume.size''] details
                   else immutable_field old_class new_class ''cache.volume.storageClassName''
           else []))"

definition image_build_validate :: "checks \<Rightarrow> string option \<Rightarrow> image_build option \<Rightarrow> field_error list" where
  "image_build_validate C user ib =
     (case ib of
        None \<Rightarrow> []
      | Some b \<Rightarrow>
          (if ib_node_selector b k8sOSLabel \<noteq> None
           then field_err (InvalidKeyName k8sOSLabel) [''nodeSelector''] ''os is determined automatically''
           else if ib_creation_time b \<noteq> '''' \<and> ib_creation_time b \<noteq> ''now'' \<and>
                   (case parse_int (ib_creation_time b) of Inl _ \<Rightarrow> True | Inr _ \<Rightarrow> False)
           then field_err (InvalidValue (ib_creation_time b)) [''creationTime''] ''''
           else via_field ''services'' (services_validate (ib_services b)) @
                via_field ''cnbBindings'' (validate_cnb_bindings user (ib_cnb_bindings b)) @
                via_field ''env'' (env_secret_key_refs_validate C (ib_env b))))"

definition validate_builder_ref :: "object_reference \<Rightarrow> field_error list" where
  "validate_builder_ref r =
     (if oref_name r = '''' then field_err MissingField [''name''] ''''
      else if oref_kind r = BuilderKind \<or> oref_kind r = ClusterBuilderKind then []
      else field_err (InvalidValue (oref_kind r)) [''kind''] '''')"

definition validate_build_history_limit :: "image_spec \<Rightarrow> field_error list res" where
  "validate_build_history_limit s =
     (let msg = ''build history limit must be greater than 0''
      in case is_failed_limit s of
           None \<Rightarrow> Inl (Panic ''invalid memory address or nil pointer dereference'')
         | Some f \<Rightarrow>
             (if f < 1 then Inr (field_err (GenericProblem msg) [''failedBuildHistoryLimit''] '''')
              else case is_success_limit s of
                None \<Rightarrow> Inl (Panic ''invalid memory address or nil pointer dereference'')
              | Some n \<Rightarrow>
                  (if n < 1 then Inr (field_err (GenericProblem msg) [''successBuildHistoryLimit''] '''') else Inr [])))"

definition image_cache_validate :: "image_cache_config option \<Rightarrow> field_error list" where
  "image_cache_validate c =
     (case c of None \<Rightarrow> []
      | Some c \<Rightarrow>
          (if icc_volume c \<noteq> None \<and> icc_registry c \<noteq> None
           then field_err (GenericProblem ''only one type of cache can be specified'') [''volume'', ''registry''] '''' else []))"

definition image_spec_validate :: "checks \<Rightarrow> lib \<Rightarrow> image admission \<Rightarrow> image_spec \<Rightarrow> field_error list res" where
  "image_spec_validate C L A s =
     bind_res (validate_build_history_limit s) (\<lambda>limits. Inr (
       validate_tag L A s @
       validate_additional_tags L s @
       via_field ''builder'' (validate_builder_ref (is_builder s)) @
       via_field ''source'' (source_validate L (is_source s)) @
       via_field ''build'' (image_build_validate C (adm_user A) (is_build s)) @
       via_field ''cache'' (image_cache_validate (is_cache s)) @
       validate_volume_cache C A s @
       via_field ''notary'' (validate_notary (adm_user A) (is_notary s)) @
       via_field ''cosign'' (cosign_validate (is_cosign s)) @
       limits))"

definition image_validate :: "checks \<Rightarrow> lib \<Rightarrow> image admission \<Rightarrow> image \<Rightarrow> field_error list res" where
  "image_validate C L A im =
     bind_res (image_spec_validate C L A (im_spec im)) (\<lambda>es.
       Inr (via_field ''spec'' es @ via_field ''metadata'' (image_validate_metadata C im)))"

section \<open>Builds\<close>

definition validate_immutable_fields :: "checks \<Rightarrow> build admission \<Rightarrow> build_spec \<Rightarrow> field_error list" where
  "validate_immutable_fields C A bs =
     (case adm_baseline A of
        None \<Rightarrow> []
      | Some original \<Rightarrow>
          (case chk_spec_diff C (b_spec original) bs of
             Inl e \<Rightarrow> field_err (GenericProblem ''Failed to diff Build'') [''spec''] (err_text e)
           | Inr diff \<Rightarrow>
               (if diff \<noteq> '''' then field_err (GenericProblem ''Immutable fields changed (-old +new)'') [''spec''] diff
                else [])))"

definition last_build_validate :: "lib \<Rightarrow> last_build option \<Rightarrow> field_error list" where
  "last_build_validate L lb =
     (case lb of None \<Rightarrow> [] | Some b \<Rightarrow> if lb_image b = '''' then [] else image_field L (lb_image b))"

definition build_cache_validate :: "build_cache_config option \<Rightarrow> field_error list" where
  "build_cache_validate c =
     (case c of None \<Rightarrow> []
      | Some c \<Rightarrow>
          (if bcc_volume c \<noteq> None \<and> bcc_registry c \<noteq> None
           then field_err (GenericProblem ''only one type of cache can be specified'') [''volume'', ''registry''] '''' else []))"

definition build_spec_validate :: "checks \<Rightarrow> lib \<Rightarrow> build admission \<Rightarrow> build_spec \<Rightarrow> field_error list" where
  "build_spec_validate C L A bs =
     list_not_empty (bs_tags bs) ''tags'' @
     tags_field L (bs_tags bs) ''tags'' @
     via_field ''cache'' (build_cache_validate (bs_cache bs)) @
     via_field ''builder'' (build_builder_validate L (bs_builder bs)) @
     via_field ''source'' (source_validate L (bs_source bs)) @
     via_field ''services'' (services_validate (bs_services bs)) @
     via_field ''lastBuild'' (last_build_validate L (bs_last_build bs)) @
     validate_immutable_fields C A bs @
     via_field ''cnbBindings'' (validate_cnb_bindings (adm_user A) (bs_cnb_bindings bs)) @
     node_selector_field (bs_node_selector bs) @
     via_field ''env'' (env_secret_key_refs_validate C (bs_env bs)) @
     via_field ''notary'' (validate_notary (adm_user A) (bs_notary bs))"

definition build_validate :: "checks \<Rightarrow> lib \<Rightarrow> build admission \<Rightarrow> build \<Rightarrow> field_error list" where
  "build_validate C L A b = via_field ''spec'' (build_spec_validate C L A (b_spec b))"

section \<open>Builders\<close>

definition validate_stack :: "object_reference \<Rightarrow> field_error list" where
  "validate_stack r =
     (if oref_name r = '''' then field_err MissingField [''name''] ''''
      else if oref_kind r = ClusterStackKind then []
      else field_err (InvalidValue (oref_kind r)) [''kind''] '''')"

text \<open>A kind of the list returns nil, whatever was wrong with the name.\<close>

definition validate_object_ref :: "object_reference \<Rightarrow> string list \<Rightarrow> field_error list" where
  "validate_object_ref r kinds =
     (let errs = (if oref_name r = '''' then field_err MissingField [''name''] '''' else [])
      in if list_ex (\<lambda>k. oref_kind r = k) kinds then []
         else errs @ field_err (InvalidValue (oref_kind r)) [''kind''] (''must be one of '' @ join '', '' kinds))"

definition validate_store :: "object_reference \<Rightarrow> field_error list" where
  "validate_store r =
     (if oref_name r = '''' \<and> oref_kind r = '''' then [] else validate_object_ref r [ClusterStoreKind])"

definition validate_buildpack_ref :: "builder_buildpack_ref \<Rightarrow> field_error list" where
  "validate_buildpack_ref r =
     (let nm = oref_name (bbr_object r); kd = oref_kind (bbr_object r); bpid = bp_id (bpref_info (bbr_ref r));
          errs = (if nm \<noteq> '''' \<or> kd \<noteq> ''''
                  then validate_object_ref (bbr_object r) [BuildpackKind, ClusterBuildpackKind] else [])
      in errs @
         (if bbr_image r \<noteq> '''' then field_err DisallowedFields [''image reference currently not supported''] ''''
          else if bpid \<noteq> '''' \<or> nm \<noteq> '''' \<or> kd \<noteq> '''' then []
          else field_err MissingOneOf [''image'', ''id'', ''name + kind''] ''''))"

fun group_from :: "nat \<Rightarrow> builder_buildpack_ref list \<Rightarrow> field_error list" where
  "group_from i [] = []"
| "group_from i (r # rs) = via_field ''group'' (via_index i (validate_buildpack_ref r)) @ group_from (Suc i) rs"

definition validate_group :: "builder_order_entry \<Rightarrow> field_error list" where
  "validate_group g = group_from 0 (border_group g)"

definition validate_order :: "builder_order_entry list \<Rightarrow> field_error list" where
  "validate_order order = each_index 0 validate_group order"

definition builder_spec_validate :: "lib \<Rightarrow> builder_spec \<Rightarrow> field_error list" where
  "builder_spec_validate L s =
     tag_field L (bds_tag s) @ via_field ''stack'' (validate_stack (bds_stack s)) @
     via_field ''store'' (validate_store (bds_store s)) @ via_field ''order'' (validate_order (bds_order s))"

definition namespaced_builder_spec_validate :: "lib \<Rightarrow> namespaced_builder_spec \<Rightarrow> field_error list" where
  "namespaced_builder_spec_validate L s =
     builder_spec_validate L (nbs_builder s) @ field_not_empty (builder_service_account s) ''serviceAccountName''"

definition builder_validate :: "lib \<Rightarrow> builder \<Rightarrow> field_error list" where
  "builder_validate L b = via_field ''spec'' (namespaced_builder_spec_validate L (bd_spec b))"

section \<open>Cluster-wide kinds\<close>

definition cluster_builder_spec_validate :: "lib \<Rightarrow> cluster_builder_spec \<Rightarrow> field_error list" where
  "cluster_builder_spec_validate L s =
     (let r = cbs_service_account_ref s
      in if oref_name r = '''' then via_field ''spec'' (via_field ''serviceAccountRef'' (field_err MissingField [''name''] ''''))
         else if oref_namespace r = ''''
         then via_field ''spec'' (via_field ''serviceAccountRef'' (field_err MissingField [''namespace''] ''''))
         else builder_spec_validate L (cbs_builder s))"

text \<open>The optional account of the cluster-wide kinds needs a name and a namespace.\<close>

definition account_ref_field :: "object_reference option \<Rightarrow> field_error list" where
  "account_ref_field r =
     (case r of None \<Rightarrow> []
      | Some a \<Rightarrow>
          (if oref_name a = '''' then via_field ''serviceAccountRef'' (field_err MissingField [''name''] '''')
           else if oref_namespace a = '''' then via_field ''serviceAccountRef'' (field_err MissingField [''namespace''] '''')
           else []))"

definition buildpack_validate :: "lib \<Rightarrow> buildpack \<Rightarrow> field_error list" where
  "buildpack_validate L b = via_field ''spec'' (image_field L (bps_image (bpk_spec b)))"

definition cluster_buildpack_spec_validate :: "lib \<Rightarrow> cluster_buildpack_spec \<Rightarrow> field_error list" where
  "cluster_buildpack_spec_validate L s =
     (if account_ref_field (cbps_service_account_ref s) \<noteq> [] then account_ref_field (cbps_service_account_ref s)
      else image_field L (cbps_image s))"

definition cluster_buildpack_validate :: "lib \<Rightarrow> cluster_buildpack \<Rightarrow> field_error list" where
  "cluster_buildpack_validate L b = via_field ''spec'' (cluster_buildpack_spec_validate L (cbp_spec b))"

definition cluster_stack_spec_validate :: "lib \<Rightarrow> cluster_stack_spec \<Rightarrow> field_error list" where
  "cluster_stack_spec_validate L s =
     (if account_ref_field (css_service_account_ref s) \<noteq> [] then account_ref_field (css_service_account_ref s)
      else field_not_empty (css_id s) ''id'' @ via_field ''buildImage'' (image_field L (css_build_image s)) @
           via_field ''runImage'' (image_field L (css_run_image s)))"

definition cluster_stack_validate :: "lib \<Rightarrow> cluster_stack \<Rightarrow> field_error list" where
  "cluster_stack_validate L s = via_field ''spec'' (cluster_stack_spec_validate L (stk_spec s))"

fun sources_from :: "lib \<Rightarrow> nat \<Rightarrow> string list \<Rightarrow> field_error list" where
  "sources_from L i [] = []"
| "sources_from L i (s # ss) =
     (case lib_parse_reference L s of
        Inl _ \<Rightarrow> field_err (InvalidValue s) [''sources'' @ index_key i] '''' | Inr _ \<Rightarrow> []) @ sources_from L (Suc i) ss"

definition cluster_store_spec_validate :: "lib \<Rightarrow> cluster_store_spec \<Rightarrow> field_error list" where
  "cluster_store_spec_validate L s =
     (if account_ref_field (csp_service_account_ref s) \<noteq> [] then account_ref_field (csp_service_account_ref s)
      else if length (csp_sources s) = 0 then field_err MissingField [''sources''] ''''
      else sources_from L 0 (csp_sources s))"

definition cluster_store_validate :: "lib \<Rightarrow> cluster_store \<Rightarrow> field_error list" where
  "cluster_store_validate L s = via_field ''spec'' (cluster_store_spec_validate L (sto_spec s))"

definition cluster_lifecycle_spec_validate :: "cluster_lifecycle_spec \<Rightarrow> field_error list" where
  "cluster_lifecycle_spec_validate s =
     (if account_ref_field (cls_service_account_ref s) \<noteq> [] then account_ref_field (cls_service_account_ref s)
      else field_not_empty (cls_image s) ''image'')"

definition cluster_lifecycle_validate :: "cluster_lifecycle \<Rightarrow> field_error list" where
  "cluster_lifecycle_validate c = via_field ''spec'' (cluster_lifecycle_spec_validate (clc_spec c))"

section \<open>What acceptance means\<close>

lemma index_key_not_Nil [simp]: "index_key i \<noteq> ''''"
  by (simp add: index_key_def)

lemma duplicate_name_Nil_iff [simp]: "duplicate_name w names n i = [] \<longleftrightarrow> names n = None"
  by (simp add: duplicate_name_def split: option.split)

definition binding_ok :: "cnb_binding \<Rightarrow> bool" where
  "binding_ok b \<longleftrightarrow> binding_name_re (cnb_name b) \<and>
     (\<exists>r. cnb_metadata_ref b = Some r \<and> lref_name r \<noteq> '''') \<and> cnb_secret_ref b \<noteq> Some (LocalRef '''')"

lemma binding_name_nonempty: "binding_name_re s \<Longrightarrow> s \<noteq> ''''"
  by (auto simp: binding_name_re_def)

lemma cnb_binding_validate_Nil_iff [simp]: "cnb_binding_validate b = [] \<longleftrightarrow> binding_ok b"
  by (auto simp: cnb_binding_validate_def binding_ok_def binding_name_re_def local_ref.expand split: option.split)

lemma cnb_bindings_from_Nil_iff:
  "cnb_bindings_from i names bs = [] \<longleftrightarrow>
     (\<forall>b \<in> set bs. binding_ok b \<and> names (cnb_name b) = None) \<and> distinct (map cnb_name bs)"
  by (induction bs arbitrary: i names) (auto simp: image_iff split: if_splits)

lemma cnb_bindings_validate_Nil_iff [simp]:
  "cnb_bindings_validate bs = [] \<longleftrightarrow> (\<forall>b \<in> set bs. binding_ok b) \<and> distinct (map cnb_name bs)"
  by (simp add: cnb_bindings_validate_def cnb_bindings_from_Nil_iff)

definition service_ok :: "object_reference \<Rightarrow> bool" where
  "service_ok s \<longleftrightarrow> binding_name_re (oref_name s) \<and> oref_kind s \<noteq> ''''"

lemma service_validate_Nil_iff [simp]: "service_validate i s = [] \<longleftrightarrow> service_ok s"
  by (auto simp: service_validate_def service_ok_def dest: binding_name_nonempty)

lemma services_from_Nil_iff:
  "services_from i names ss = [] \<longleftrightarrow>
     (\<forall>s \<in> set ss. service_ok s \<and> names (oref_name s) = None) \<and> distinct (map oref_name ss)"
  by (induction ss arbitrary: i names) (auto simp: image_iff split: if_splits)

lemma services_validate_Nil_iff [simp]:
  "services_validate ss = [] \<longleftrightarrow> (\<forall>s \<in> set ss. service_ok s) \<and> distinct (map oref_name ss)"
  by (simp add: services_validate_def services_from_Nil_iff)

lemma env_from_Nil_iff:
  "env_secret_key_refs_from C i es = [] \<longleftrightarrow> (\<forall>e \<in> set es. \<forall>s. env_from e = Some s \<longrightarrow> \<not> chk_secret_key_ref C s)"
  by (induction es arbitrary: i) (auto split: option.split)

lemma same_registry_Nil_iff:
  "same_registry_from L reg ts = [] \<longleftrightarrow> (\<forall>t \<in> set ts. \<forall>a. lib_new_tag L t = Inr a \<longrightarrow> tag_registry a = reg)"
  by (induction ts) (auto split: sum.split)

definition bindings_accepted :: "string option \<Rightarrow> cnb_binding list \<Rightarrow> bool" where
  "bindings_accepted user bs \<longleftrightarrow>
     (created_by_kpack_controller user \<or> bs = []) \<and> cnb_bindings_validate bs = []"

lemma validate_cnb_bindings_Nil_iff [simp]: "validate_cnb_bindings user bs = [] \<longleftrightarrow> bindings_accepted user bs"
  by (auto simp: validate_cnb_bindings_def bindings_accepted_def)

definition notary_accepted :: "string option \<Rightarrow> notary_config option \<Rightarrow> bool" where
  "notary_accepted user n \<longleftrightarrow> (created_by_kpack_controller user \<or> n = None) \<and> notary_validate n = []"

lemma validate_notary_Nil_iff [simp]: "validate_notary user n = [] \<longleftrightarrow> notary_accepted user n"
  by (auto simp: validate_notary_def notary_accepted_def notary_validate_def)

text \<open>Acceptance by the controller is the weaker one: what a user may store, the controller may copy.\<close>

lemma accepted_by_controller:
  "created_by_kpack_controller c \<Longrightarrow> bindings_accepted u bs \<Longrightarrow> bindings_accepted c bs"
  "created_by_kpack_controller c \<Longrightarrow> notary_accepted u n \<Longrightarrow> notary_accepted c n"
  by (auto simp: bindings_accepted_def notary_accepted_def)

lemma image_validate_accepts:
  assumes "image_validate C L A im = Inr []"
  shows "validate_tag L A (im_spec im) = []" and "validate_additional_tags L (im_spec im) = []"
    and "source_validate L (is_source (im_spec im)) = []"
    and "image_build_validate C (adm_user A) (is_build (im_spec im)) = []"
    and "image_cache_validate (is_cache (im_spec im)) = []" and "validate_volume_cache C A (im_spec im) = []"
    and "notary_accepted (adm_user A) (is_notary (im_spec im))"
    and "validate_builder_ref (is_builder (im_spec im)) = []"
    and "\<exists>f s. is_failed_limit (im_spec im) = Some f \<and> 1 \<le> f \<and> is_success_limit (im_spec im) = Some s \<and> 1 \<le> s"
  using assms
  by (auto simp: image_validate_def image_spec_validate_def bind_res_eq_Inr validate_build_history_limit_def Let_def
      split: option.splits if_splits)

lemma image_build_accepts:
  assumes "image_build_validate C user (is_build (im_spec im)) = []"
  shows "services_validate (image_services im) = []" and "bindings_accepted user (image_cnb_bindings im)"
    and "env_secret_key_refs_validate C (image_env im) = []" and "image_node_selector im k8sOSLabel = None"
  using assms
  by (auto simp: image_build_validate_def image_services_def image_cnb_bindings_def image_env_def
      image_node_selector_def bindings_accepted_def env_secret_key_refs_validate_def split: option.splits if_splits)

end
