(* ===== verification/Admission_Properties.thy ===== *)
theory Admission_Properties
  imports Admission Source_Resolvers Image_Reconciler_Props Samples
begin

text \<open>
  What admission promises the rest of the system: the images that reach the reconciler keep their tag
  and never shrink their cache, and the builds the reconciler makes of them are accepted in turn, up to
  the length of the tag.
\<close>

section \<open>Images as they pass admission\<close>

text \<open>An object that was accepted when it was created and at every update since.\<close>

inductive admitted :: "checks \<Rightarrow> lib \<Rightarrow> image \<Rightarrow> image \<Rightarrow> bool" for K L where
  admitted_created: "adm_baseline A = None \<Longrightarrow> image_validate K L A im = Inr [] \<Longrightarrow> admitted K L im im"
| admitted_updated: "admitted K L im0 im \<Longrightarrow> adm_baseline A = Some im \<Longrightarrow> image_validate K L A im' = Inr [] \<Longrightarrow>
    admitted K L im0 im'"

lemma admitted_tag:
  assumes "admitted K L im0 im"
  shows "is_tag (im_spec im) = is_tag (im_spec im0) \<and> tag_parses L (is_tag (im_spec im))"
  using assms
proof induction
  case (admitted_created A im)
  then show ?case using image_validate_accepts(1) [OF admitted_created(2)] by (simp add: validate_tag_def)
next
  case (admitted_updated im0 im A im')
  then show ?case using image_validate_accepts(1) [OF admitted_updated(3)] by (auto simp: validate_tag_def)
qed

lemma admitted_accepted:
  assumes "admitted K L im0 im"
  obtains A where "image_validate K L A im = Inr []"
  using assms by cases auto

section \<open>Lengths of tags\<close>

definition tag_char :: "char \<Rightarrow> bool" where
  "tag_char c = (let n = of_char c :: nat
     in 48 \<le> n \<and> n \<le> 57 \<or> 65 \<le> n \<and> n \<le> 90 \<or> 97 \<le> n \<and> n \<le> 122 \<or> n = 45 \<or> n = 46 \<or> n = 95)"

text \<open>
  What \<open>name.NewTag\<close> documents: a tag has 1 to 128 of the characters above, and in a repository that
  parsed every such tag parses.
\<close>

definition tag_law :: "lib \<Rightarrow> bool" where
  "tag_law L \<longleftrightarrow> (\<forall>t tag. lib_new_tag L t = Inr tag \<longrightarrow> list_all tag_char (tag_str tag) \<and>
     (\<forall>x. x \<noteq> '''' \<longrightarrow> list_all tag_char x \<longrightarrow>
        (tag_parses L (tag_registry tag @ ''/'' @ tag_repository tag @ '':'' @ x) \<longleftrightarrow> length x \<le> 128)))"

definition clock_ok :: "clock \<Rightarrow> bool" where
  "clock_ok c \<longleftrightarrow> length (clk_date c) = 8 \<and> list_all tag_char (clk_date c) \<and>
     clk_hour c < 24 \<and> clk_minute c < 60 \<and> clk_second c < 60"

lemma tag_char_digit: "d < 10 \<Longrightarrow> tag_char (digit d)"
  by (simp add: tag_char_def digit_def)

lemma nat_to_string_chars: "list_all tag_char (nat_to_string n)"
proof (induction n rule: nat_to_string.induct)
  case (1 n)
  then show ?case by (subst nat_to_string.simps) (simp add: tag_char_digit)
qed

lemma nat_to_string_length: "n < 10 ^ k \<Longrightarrow> 0 < k \<Longrightarrow> length (nat_to_string n) \<le> k"
proof (induction n arbitrary: k rule: nat_to_string.induct)
  case (1 n)
  show ?case
  proof (cases "n < 10")
    case True
    with "1.prems" show ?thesis by (simp add: nat_to_string.simps [of n])
  next
    case False
    obtain j where j: "k = Suc j" using "1.prems" by (cases k) simp_all
    with False "1.prems" have "0 < j" by (cases j) simp_all
    note k = j this
    with "1.prems" have "n div 10 < 10 ^ j" by (simp add: div_less_iff_less_mult mult.commute)
    with "1.IH" [OF False] k have "length (nat_to_string (n div 10)) \<le> j" by simp
    with False k show ?thesis by (simp add: nat_to_string.simps [of n])
  qed
qed

lemma itoa_chars: "list_all tag_char (itoa n)"
  by (simp add: itoa_def nat_to_string_chars tag_char_def)

lemma itoa_length: "fits64 n \<Longrightarrow> length (itoa n) \<le> 20"
proof -
  assume "fits64 n"
  then have "nat n < 10 ^ 19" "nat (- n) < 10 ^ 19" unfolding fits64_def int64_min_def int64_max_def by auto
  from this [THEN nat_to_string_length] show ?thesis by (auto simp: itoa_def)
qed

lemma two_digits_ok: "n < 100 \<Longrightarrow> length (two_digits n) = 2 \<and> list_all tag_char (two_digits n)"
proof -
  assume n: "n < 100"
  show ?thesis
  proof (cases "n < 10")
    case True
    then show ?thesis by (simp add: two_digits_def nat_to_string.simps [of n] tag_char_digit) (simp add: tag_char_def)
  next
    case False
    with n have "n div 10 < 10" by simp
    with False show ?thesis
      by (simp add: two_digits_def nat_to_string.simps [of n] nat_to_string.simps [of "n div 10"] tag_char_digit)
  qed
qed

definition short_enough :: "lib \<Rightarrow> image \<Rightarrow> string \<Rightarrow> bool" where
  "short_enough L im number \<longleftrightarrow> is_tagging (im_spec im) = TaggingNone \<or>
     (\<exists>tag. lib_new_tag L (is_tag (im_spec im)) = Inr tag \<and>
        (tag_str tag = ''latest'' \<or> length (tag_str tag) + length number \<le> 110))"

lemma generated_tags_parse:
  assumes law: "tag_law L" and clk: "clock_ok clk" and n: "fits64 n" and parses: "tag_parses L (is_tag (im_spec im))"
    and more: "\<forall>t \<in> set (is_additional_tags (im_spec im)). tag_parses L t"
  shows "generate_tags L clk im (itoa n) \<noteq> [] \<and>
    ((\<forall>t \<in> set (generate_tags L clk im (itoa n)). tag_parses L t) \<longleftrightarrow> short_enough L im (itoa n))"
proof -
  obtain tag where tag: "lib_new_tag L (is_tag (im_spec im)) = Inr tag" using parses by (auto simp: tag_parses_def)
  have chars: "list_all tag_char (tag_str tag)"
    and law': "\<And>x. x \<noteq> '''' \<Longrightarrow> list_all tag_char x \<Longrightarrow>
      tag_parses L (tag_registry tag @ ''/'' @ tag_repository tag @ '':'' @ x) \<longleftrightarrow> length x \<le> 128"
    using law tag by (auto simp: tag_law_def)
  define tag_name where "tag_name = (if tag_str tag @ ''-'' = ''latest-'' then '''' else tag_str tag @ ''-'')"
  define x where "x = tag_name @ ''b'' @ itoa n @ ''.'' @ clk_date clk @ ''.'' @
    two_digits (clk_hour clk) @ two_digits (clk_minute clk) @ two_digits (clk_second clk)"
  have time: "clk_hour clk < 100" "clk_minute clk < 100" "clk_second clk < 100" using clk by (simp_all add: clock_ok_def)
  note digits = time [THEN two_digits_ok]
  have xchars: "list_all tag_char x"
    using chars digits clk itoa_chars by (simp add: x_def tag_name_def clock_ok_def tag_char_def)
  have len: "length x = length tag_name + length (itoa n) + 17"
    using digits clk by (simp add: x_def clock_ok_def)
  have latest: "tag_str tag @ ''-'' = ''latest-'' \<longleftrightarrow> tag_str tag = ''latest''"
    using append_same_eq [of "tag_str tag" "''-''" "''latest''"] by simp
  have fits: "length x \<le> 128 \<longleftrightarrow> tag_str tag = ''latest'' \<or> length (tag_str tag) + length (itoa n) \<le> 110"
    using itoa_length [OF n] by (auto simp: len tag_name_def latest)
  have "x \<noteq> ''''" by (simp add: x_def)
  from law' [OF this xchars] fits have composed:
    "tag_parses L (tag_registry tag @ ''/'' @ tag_repository tag @ '':'' @ x) \<longleftrightarrow>
       tag_str tag = ''latest'' \<or> length (tag_str tag) + length (itoa n) \<le> 110" by simp
  have tags: "generate_tags L clk im (itoa n) =
      (if is_tagging (im_spec im) = TaggingNone then [is_tag (im_spec im)]
       else [is_tag (im_spec im), tag_registry tag @ ''/'' @ tag_repository tag @ '':'' @ x]) @ is_additional_tags (im_spec im)"
    by (simp add: generate_tags_def disable_additional_image_names_def tag x_def tag_name_def Let_def)
  have short: "short_enough L im (itoa n) \<longleftrightarrow> is_tagging (im_spec im) = TaggingNone \<or>
      tag_str tag = ''latest'' \<or> length (tag_str tag) + length (itoa n) \<le> 110"
    by (simp add: short_enough_def tag)
  show ?thesis
    unfolding tags short using parses more composed by (cases "is_tagging (im_spec im) = TaggingNone") (simp_all add: ball_Un)
qed

section \<open>The builds of an accepted image\<close>

text \<open>A resolved source that is what the image names, with a revision for a repository.\<close>

definition keeps_source :: "source_config \<Rightarrow> resolved_source_config \<Rightarrow> bool" where
  "keeps_source s r \<longleftrightarrow>
     (case source_of s of
        None \<Rightarrow> False
      | Some (SrcGit g) \<Rightarrow> (\<exists>rg. resolved_source_of r = Some (ResolvedGit rg) \<and> rg_url rg = git_url g \<and> rg_revision rg \<noteq> '''')
      | Some (SrcBlob b) \<Rightarrow> (\<exists>rb. resolved_source_of r = Some (ResolvedBlob rb) \<and> rb_url rb = blob_url b \<and>
          rb_auth rb = blob_auth b \<and> 0 \<le> rb_strip rb)
      | Some (SrcRegistry g) \<Rightarrow> (\<exists>rr. resolved_source_of r = Some (ResolvedRegistry rr) \<and> rr_image rr = reg_image g))"

lemma source_accepted_cases:
  assumes "source_validate L s = []"
  obtains g where "s = \<lparr>src_git = Some g, src_blob = None, src_registry = None, src_sub_path = src_sub_path s\<rparr>"
      and "git_url g \<noteq> ''''" and "git_revision g \<noteq> ''''"
  | b where "s = \<lparr>src_git = None, src_blob = Some b, src_registry = None, src_sub_path = src_sub_path s\<rparr>"
      and "blob_validate (Some b) = []"
  | r where "s = \<lparr>src_git = None, src_blob = None, src_registry = Some r, src_sub_path = src_sub_path s\<rparr>"
      and "reg_image r \<noteq> ''''" and "ref_parses L (reg_image r)"
  using assms
  by (cases s)
     (auto simp: source_validate_def git_validate_def registry_validate_def Let_def split: if_splits option.splits)

lemma keeps_source_accepted:
  assumes "source_validate L s = []" and "keeps_source s r" and "resolved_source_of r = Some x"
  shows "source_validate L (to_source_config x) = []"
  using assms(1)
proof (cases rule: source_accepted_cases)
  case (1 g)
  with assms(2,3) show ?thesis
    by (cases s) (auto simp: keeps_source_def source_of_def source_validate_def git_source_config_def git_validate_def
        blob_validate_def registry_validate_def)
next
  case (2 b)
  with assms(2,3) show ?thesis
    by (cases s) (auto simp: keeps_source_def source_of_def source_validate_def blob_source_config_def git_validate_def
        blob_validate_def registry_validate_def split: if_splits)
next
  case (3 g)
  with assms(2,3) show ?thesis
    by (cases s) (auto simp: keeps_source_def source_of_def source_validate_def registry_source_config_def git_validate_def
        blob_validate_def registry_validate_def)
qed

lemma build_admission:
  assumes b: "build_for_image L clk im sr bd lb reasons changes n pc = Inr b" and n: "fits64 n"
    and adm: "admitted K L im0 im" and law: "tag_law L" and clk: "clock_ok clk"
    and src: "keeps_source (is_source (im_spec im)) (srt_source (sr_status sr))"
    and builder: "bds_latest_image (db_status bd) \<noteq> ''''" "ref_parses L (bds_latest_image (db_status bd))"
    and last: "\<And>l. last_build_of lb = Some l \<Longrightarrow> lb_image l = '''' \<or> ref_parses L (lb_image l)"
    and A: "adm_baseline A = None" "created_by_kpack_controller (adm_user A)"
  shows "build_validate K L A b = [] \<longleftrightarrow> short_enough L im (itoa n)"
proof -
  obtain A0 where ok: "image_validate K L A0 im = Inr []" using adm by (rule admitted_accepted)
  note accepts = image_validate_accepts [OF ok]
  note build = image_build_accepts [OF accepts(4)]
  note spec = build_for_image_spec [OF b]
  have more: "bs_builder (b_spec b) = db_build_builder_spec bd" "bs_cache (b_spec b) = Some (get_build_cache_config im)"
      "bs_notary (b_spec b) = is_notary (im_spec im)" "bs_node_selector (b_spec b) = image_node_selector im"
    using b by (auto simp: build_for_image_def bind_res_eq_Inr Let_def)
  obtain x where x: "resolved_source_of (srt_source (sr_status sr)) = Some x" "bs_source (b_spec b) = to_source_config x"
    using spec(1) by (auto simp: sr_source_config_def split: option.splits)
  have source: "source_validate L (bs_source (b_spec b)) = []"
    unfolding x(2) by (rule keeps_source_accepted [OF accepts(3) src x(1)])
  have cache: "build_cache_validate (bs_cache (b_spec b)) = []"
    using accepts(5) by (auto simp: more build_cache_validate_def get_build_cache_config_def image_cache_validate_def
        is_need_volume_cache_def is_need_registry_cache_def split: option.splits if_splits)
  have ref: "build_builder_validate L (bs_builder (b_spec b)) = []"
    using builder by (auto simp: more build_builder_validate_def db_build_builder_spec_def builder_or_image_present_def
        builder_ref_and_image_exclusive_def builder_ref_field_def optional_image_field_def ref_parses_def)
  have previous: "last_build_validate L (bs_last_build (b_spec b)) = []"
    using last by (auto simp: spec last_build_validate_def split: option.splits)
  have rest: "services_validate (bs_services (b_spec b)) = []" "bindings_accepted (adm_user A) (bs_cnb_bindings (b_spec b))"
      "node_selector_field (bs_node_selector (b_spec b)) = []" "env_secret_key_refs_validate K (bs_env (b_spec b)) = []"
      "notary_accepted (adm_user A) (bs_notary (b_spec b))" "validate_immutable_fields K A (b_spec b) = []"
    using build accepts(7) accepted_by_controller [OF A(2)] A(1)
    by (simp_all add: spec more node_selector_field_def validate_immutable_fields_def)
  have tags: "\<forall>t \<in> set (is_additional_tags (im_spec im)). tag_parses L t"
    using accepts(2) by (simp add: validate_additional_tags_def)
  have "generate_tags L clk im (itoa n) \<noteq> [] \<and>
      ((\<forall>t \<in> set (generate_tags L clk im (itoa n)). tag_parses L t) \<longleftrightarrow> short_enough L im (itoa n))"
    by (intro generated_tags_parse law clk n tags admitted_tag [OF adm, THEN conjunct2])
  then show ?thesis
    unfolding build_validate_def build_spec_validate_def using source cache ref previous rest by (simp add: spec(8))
qed

text \<open>
  C25: Admission accepts every build that the reconciler creates for an image that passed admission, up to
  one bound: with the default tagging strategy, the tag of the image and the number of the build
  together have at most 110 characters (or the tag is \<open>latest\<close>). The hypotheses are the documented form
  of tags, a resolved source that is what the image names, references of registries that parse and the
  controller as the user. An image with a longer tag is accepted, but none of its builds is.
\<close>

theorem created_build_admission:
  assumes "admitted K (ic_lib C) im0 im" and "tag_law (ic_lib C)" and "clock_ok (ic_clock C)"
    and "keeps_source (is_source (im_spec im)) (srt_source (sr_status sr))"
    and "bds_latest_image (db_status bd) \<noteq> ''''" and "ref_parses (ic_lib C) (bds_latest_image (db_status bd))"
    and "\<And>l. last_build_of latest = Some l \<Longrightarrow> lb_image l = '''' \<or> ref_parses (ic_lib C) (lb_image l)"
    and "adm_baseline A = None" and "created_by_kpack_controller (adm_user A)"
    and created: "created (snd (reconcile_build C E im latest sr bd cache [])) = [b]"
  shows "build_validate K (ic_lib C) A b = [] \<longleftrightarrow>
    is_tagging (im_spec im) = TaggingNone \<or>
    (\<exists>tag. lib_new_tag (ic_lib C) (is_tag (im_spec im)) = Inr tag \<and>
       (tag_str tag = ''latest'' \<or>
        length (tag_str tag) + length (lookup_str (meta_labels (b_meta b)) BuildNumberLabel) \<le> 110))"
proof -
  have "scheduled_for C im latest sr bd b"
    using reconcile_build_trace [of C E im latest sr bd cache "[]"] created by auto
  then obtain n reasons changes pc where b: "build_for_image (ic_lib C) (ic_clock C) im sr bd latest reasons changes (wrap64 n) pc = Inr b"
    by (auto simp: scheduled_for_def)
  show ?thesis
    using build_admission [OF b fits64_wrap64 assms(1-9)] build_for_image_labels(2) [OF b]
    by (simp add: short_enough_def)
qed

subsection \<open>Instances\<close>

text \<open>A library whose tags obey the law: what follows the last colon is the tag.\<close>

definition tag_part :: "string \<Rightarrow> string" where
  "tag_part s = rev (takeWhile (\<lambda>c. c \<noteq> CHR '':'') (rev s))"

definition tagged_lib :: lib where
  "tagged_lib = sample_lib\<lparr>lib_new_tag := (\<lambda>s.
     if tag_part s \<noteq> '''' \<and> list_all tag_char (tag_part s) \<and> length (tag_part s) \<le> 128
     then Inr \<lparr>tag_str = tag_part s, tag_registry = ''registry.example'', tag_repository = ''app''\<rparr>
     else Inl (Failed Plain ''could not parse tag''))\<rparr>"

definition tagged_image :: "string \<Rightarrow> image" where
  "tagged_image t = sample_image\<lparr>im_spec := (im_spec sample_image)
     \<lparr>is_tag := ''registry.example/app:'' @ t, is_tagging := TaggingBuildNumber\<rparr>\<rparr>"

definition sample_checks :: checks where
  "sample_checks = \<lparr>chk_label_value = (\<lambda>s. if length s \<le> 63 then [] else [''must be no more than 63 characters'']),
     chk_quantity_cmp = (\<lambda>a b. int (length a) - int (length b)), chk_spec_diff = (\<lambda>a b. Inr ''''),
     chk_secret_key_ref = (\<lambda>s. s = ''secret'')\<rparr>"

definition create_request :: "'a admission" where
  "create_request = \<lparr>adm_baseline = None, adm_user = Some kpackControllerServiceAccountUsername,
     adm_default_storage_class = False, adm_expandable = None\<rparr>"

definition tagged_conf :: img_conf where
  "tagged_conf = sample_conf\<lparr>ic_lib := tagged_lib\<rparr>"

lemma tag_part_tag [simp]: "list_all tag_char x \<Longrightarrow> tag_part (p @ CHR '':'' # x) = x"
proof -
  assume "list_all tag_char x"
  moreover have "\<not> tag_char (CHR '':'')" by (simp add: tag_char_def)
  ultimately have "\<forall>c \<in> set (rev x). c \<noteq> CHR '':''" by (auto simp: list_all_iff)
  then show ?thesis by (simp add: tag_part_def takeWhile_append2 del: set_rev)
qed

lemmas tag_part_registry [simp] = tag_part_tag [where p = "''registry.example/app''", simplified]

lemma tagged_lib_law: "tag_law tagged_lib"
  by (auto simp: tag_law_def tagged_lib_def tag_parses_def split: if_splits)

lemma tagged_image_admitted:
  assumes "t \<noteq> ''''" and "list_all tag_char t" and "length t \<le> 128"
  shows "admitted sample_checks tagged_lib (tagged_image t) (tagged_image t)"
proof (rule admitted_created)
  show "adm_baseline (create_request :: image admission) = None" by (simp add: create_request_def)
  show "image_validate sample_checks tagged_lib create_request (tagged_image t) = Inr []"
    using assms
    by (simp add: image_validate_def image_spec_validate_def tagged_image_def sample_image_def create_request_def
        validate_build_history_limit_def validate_tag_def tagged_lib_def tag_parses_def validate_additional_tags_def
        validate_same_registry_def validate_builder_ref_def ClusterBuilderKind_def source_validate_def
        empty_source_def sample_git_def git_validate_def blob_validate_def registry_validate_def
        image_build_validate_def image_cache_validate_def validate_volume_cache_def volume_without_class_def
        notary_accepted_def notary_validate_def cosign_validate_def image_validate_metadata_def
        image_validate_name_def sample_checks_def)
qed

lemma tagged_required:
  "is_build_required L sample_changes clk (tagged_image t) None sample_resolver sample_builder = Inr sample_required_result"
proof -
  obtain cfg where cfg: "config_change (tagged_image t) None sample_resolver = Inr (Some cfg)"
    "change_required sample_changes cfg = Inr True" "change_reason cfg = CONFIG"
    by (simp add: config_change_def sr_source_config_def resolved_source_of_def sample_resolver_def
        config_change_required_def blank_revision_def build_config_def empty_config_def image_config_def
        git_source_config_def sample_changes_def empty_source_def)
  have prio: "change_priority cfg = BuildPriorityHigh" using cfg(3) by (cases cfg) simp_all
  have "fold (process sample_changes) (all_changes L clk (tagged_image t) None
      sample_resolver sample_builder (Some cfg)) new_change_processor =
    \<lparr>cp_changes = [new_generic_change cfg], cp_errs = []\<rparr>"
    by (simp add: all_changes_def trigger_change_def commit_change_def buildpack_change_def
        stack_change_def lifecycle_change_def process_def new_change_processor_def cfg)
  then show ?thesis
    using prio cfg(1,3)
    by (simp add: is_build_required_def sample_ready summarize_def changes_str_def has_changes_def
        reasons_str_def cp_priority_def new_change_summary_def summary_is_valid_def
        new_build_required_result_def new_generic_change_def sample_required_result_def
        sample_changes_def priority_defs)
       (simp add: priority_class_def PriorityClasses_def priority_defs)
qed

lemma tagged_created:
  obtains b where "created (snd (reconcile_build tagged_conf (sample_env []) (tagged_image t) None sample_resolver
      sample_builder '''' [])) = [b]" and "lookup_str (meta_labels (b_meta b)) BuildNumberLabel = ''1''"
proof -
  obtain b where b: "build_for_image tagged_lib sample_clock (tagged_image t) sample_resolver sample_builder None
      ''CONFIG'' ''[]'' 1 BuildPriorityClassHigh = Inr b"
    by (simp add: build_for_image_def sr_source_config_def resolved_source_of_def sample_resolver_def Let_def)
  have one: "wrap64 1 = 1" by (simp add: wrap64_def)
  have "itoa 1 = ''1''" by code_simp
  with build_for_image_labels(2) [OF b] have "lookup_str (meta_labels (b_meta b)) BuildNumberLabel = ''1''" by simp
  moreover have "created (snd (reconcile_build tagged_conf (sample_env []) (tagged_image t) None sample_resolver
      sample_builder '''' [])) = [b]"
    using b one
    by (simp add: reconcile_build_def schedule_build_def create_build_def build_counter_def io_simps tagged_conf_def
        tagged_required sample_required_result_def)
  ultimately show thesis by (rule that [rotated])
qed

lemma tagged_inputs:
  "clock_ok (ic_clock tagged_conf)"
  "keeps_source (is_source (im_spec (tagged_image t))) (srt_source (sr_status sample_resolver))"
  "bds_latest_image (db_status sample_builder) \<noteq> ''''"
  "ref_parses (ic_lib tagged_conf) (bds_latest_image (db_status sample_builder))"
  "adm_baseline (create_request :: build admission) = None"
  "created_by_kpack_controller (adm_user (create_request :: build admission))"
       apply (simp add: tagged_conf_def clock_ok_def sample_clock_def tag_char_def)
      apply (simp add: keeps_source_def tagged_image_def sample_image_def source_of_def empty_source_def
        sample_git_def resolved_source_of_def sample_resolver_def empty_resolved_def)
     apply (simp_all add: sample_builder_def sample_builder_status_def ref_parses_def tagged_conf_def tagged_lib_def
        sample_lib_def create_request_def created_by_kpack_controller_def)
  done

lemma tagged_conf_lib [simp]: "ic_lib tagged_conf = tagged_lib"
  by (simp add: tagged_conf_def)

lemma tagged_tag:
  assumes "t \<noteq> ''''" "list_all tag_char t" "length t \<le> 128"
  shows "lib_new_tag tagged_lib (is_tag (im_spec (tagged_image t))) =
     Inr \<lparr>tag_str = t, tag_registry = ''registry.example'', tag_repository = ''app''\<rparr>"
  using assms by (simp add: tagged_lib_def tagged_image_def)

lemma tagged_tagging: "is_tagging (im_spec (tagged_image t)) \<noteq> TaggingNone"
  by (simp add: tagged_image_def TaggingNone_def TaggingBuildNumber_def)

text \<open>The first build of \<open>app:v1\<close> is accepted; an image whose tag has 110 characters is accepted, its builds never.\<close>

theorem created_build_admission_witness:
  "(\<exists>b. created (snd (reconcile_build tagged_conf (sample_env []) (tagged_image ''v1'') None sample_resolver
      sample_builder '''' [])) = [b] \<and> build_validate sample_checks tagged_lib create_request b = []) \<and>
   (\<exists>b. created (snd (reconcile_build tagged_conf (sample_env []) (tagged_image (replicate 110 (CHR ''v''))) None
      sample_resolver sample_builder '''' [])) = [b] \<and> build_validate sample_checks tagged_lib create_request b \<noteq> [])"
proof -
  have v: "tag_char (CHR ''v'')" "tag_char (CHR ''1'')" by (simp_all add: tag_char_def)
  have accepted: "build_validate sample_checks tagged_lib create_request b = [] \<longleftrightarrow> t = ''latest'' \<or> length t \<le> 109"
    if t: "t \<noteq> ''''" "list_all tag_char t" "length t \<le> 128"
      and b: "created (snd (reconcile_build tagged_conf (sample_env []) (tagged_image t) None sample_resolver
        sample_builder '''' [])) = [b]" "lookup_str (meta_labels (b_meta b)) BuildNumberLabel = ''1''" for t b
    using created_build_admission [OF _ _ tagged_inputs(1) tagged_inputs(2) tagged_inputs(3) tagged_inputs(4) _
        tagged_inputs(5) tagged_inputs(6) b(1)] tagged_image_admitted [OF t] tagged_lib_law b(2) tagged_tag [OF t] tagged_tagging
    by (simp del: last_build_of.simps(2))
  obtain b1 where b1: "created (snd (reconcile_build tagged_conf (sample_env []) (tagged_image ''v1'') None sample_resolver
      sample_builder '''' [])) = [b1]" "lookup_str (meta_labels (b_meta b1)) BuildNumberLabel = ''1''" by (rule tagged_created)
  obtain b2 where b2: "created (snd (reconcile_build tagged_conf (sample_env []) (tagged_image (replicate 110 (CHR ''v'')))
      None sample_resolver sample_builder '''' [])) = [b2]" "lookup_str (meta_labels (b_meta b2)) BuildNumberLabel = ''1''"
    by (rule tagged_created)
  have "build_validate sample_checks tagged_lib create_request b1 = []"
    using accepted [OF _ _ _ b1] v by simp
  moreover have "build_validate sample_checks tagged_lib create_request b2 \<noteq> []"
  proof -
    have "length (replicate 110 (CHR ''v'')) \<noteq> length ''latest''" by simp
    then have "replicate 110 (CHR ''v'') \<noteq> ''latest''" by metis
    with accepted [OF _ _ _ b2] v show ?thesis by (simp add: list_all_iff)
  qed
  ultimately show ?thesis using b1(1) b2(1) by blast
qed

section \<open>Updates\<close>

text \<open>An accepted update of an image that keeps its volume cache, at one setting of the storage class.\<close>

definition cached_update :: "checks \<Rightarrow> lib \<Rightarrow> bool option \<Rightarrow> image \<Rightarrow> image \<Rightarrow> bool" where
  "cached_update K L expandable im im' \<longleftrightarrow> is_need_volume_cache (im_spec im) \<and> is_need_volume_cache (im_spec im') \<and>
     (\<exists>A. adm_baseline A = Some im \<and> adm_expandable A = expandable \<and> image_validate K L A im' = Inr [])"

text \<open>\<open>Quantity.Cmp\<close> compares by value.\<close>

definition cmp_law :: "checks \<Rightarrow> bool" where
  "cmp_law K \<longleftrightarrow> (\<exists>v :: opaque \<Rightarrow> int. \<forall>a b. chk_quantity_cmp K a b = sgn (v a - v b))"

lemma cached_update_step:
  assumes "cached_update K L expandable im im'"
  shows "is_tag (im_spec im') = is_tag (im_spec im)"
    and "snd (volume_of (im_spec im')) = snd (volume_of (im_spec im))"
    and "0 \<le> chk_quantity_cmp K (fst (volume_of (im_spec im'))) (fst (volume_of (im_spec im)))"
    and "expandable = Some False \<Longrightarrow> chk_quantity_cmp K (fst (volume_of (im_spec im'))) (fst (volume_of (im_spec im))) = 0"
proof -
  obtain A where A: "adm_baseline A = Some im" "adm_expandable A = expandable" "image_validate K L A im' = Inr []"
    and need: "is_need_volume_cache (im_spec im)" "is_need_volume_cache (im_spec im')"
    using assms by (auto simp: cached_update_def)
  note ok = image_validate_accepts(1,6) [OF A(3)]
  show "is_tag (im_spec im') = is_tag (im_spec im)" using ok(1) A(1) by (simp add: validate_tag_def)
  show "snd (volume_of (im_spec im')) = snd (volume_of (im_spec im))"
    and "0 \<le> chk_quantity_cmp K (fst (volume_of (im_spec im'))) (fst (volume_of (im_spec im)))"
    and "expandable = Some False \<Longrightarrow> chk_quantity_cmp K (fst (volume_of (im_spec im'))) (fst (volume_of (im_spec im))) = 0"
    using ok(2) A(1,2) need
    by (auto simp: validate_volume_cache_def Let_def case_prod_beta split: if_splits)
qed

text \<open>
  No sequence of accepted updates moves an image to another tag; and while the image keeps its volume
  cache, none changes the storage class or makes the cache smaller, and none makes it larger where the
  storage class cannot be expanded. Removing the cache and adding it again is the way around.
\<close>

theorem updates_keep_tag_and_cache:
  assumes "(cached_update K L expandable)\<^sup>*\<^sup>* im im'" and "cmp_law K"
  shows "is_tag (im_spec im') = is_tag (im_spec im) \<and>
    snd (volume_of (im_spec im')) = snd (volume_of (im_spec im)) \<and>
    0 \<le> chk_quantity_cmp K (fst (volume_of (im_spec im'))) (fst (volume_of (im_spec im))) \<and>
    (expandable = Some False \<longrightarrow> chk_quantity_cmp K (fst (volume_of (im_spec im'))) (fst (volume_of (im_spec im))) = 0)"
proof -
  obtain v :: "opaque \<Rightarrow> int" where v: "\<And>a b. chk_quantity_cmp K a b = sgn (v a - v b)"
    using assms(2) by (auto simp: cmp_law_def)
  define sz where "sz i = v (fst (volume_of (im_spec i)))" for i :: image
  have cmp: "0 \<le> chk_quantity_cmp K (fst (volume_of (im_spec i))) (fst (volume_of (im_spec j))) \<longleftrightarrow> sz j \<le> sz i"
      "chk_quantity_cmp K (fst (volume_of (im_spec i))) (fst (volume_of (im_spec j))) = 0 \<longleftrightarrow> sz i = sz j" for i j :: image
    by (auto simp: v sz_def sgn_if)
  from assms(1) show ?thesis
  proof induction
    case base
    then show ?case by (simp add: cmp)
  next
    case (step i j)
    show ?case using step.IH cached_update_step [OF step(2)] by (auto simp: cmp)
  qed
qed

definition sized_image :: "string \<Rightarrow> image" where
  "sized_image sz = (tagged_image ''v1'')\<lparr>im_spec := (im_spec (tagged_image ''v1''))
     \<lparr>is_cache := Some \<lparr>icc_volume = Some \<lparr>ivc_size = Some sz, ivc_storage_class = ''fast''\<rparr>, icc_registry = None\<rparr>\<rparr>\<rparr>"

definition size_checks :: checks where
  "size_checks = sample_checks\<lparr>chk_quantity_cmp := (\<lambda>a b. sgn (int (length a) - int (length b)))\<rparr>"

definition update_request :: "image \<Rightarrow> image admission" where
  "update_request im = \<lparr>adm_baseline = Some im, adm_user = None, adm_default_storage_class = False, adm_expandable = Some True\<rparr>"

theorem updates_keep_tag_and_cache_witness:
  "is_tag (im_spec (sized_image ''20G'')) = is_tag (im_spec (sized_image ''2G'')) \<and>
   0 \<le> chk_quantity_cmp size_checks ''20G'' ''2G'' \<and>
   image_validate size_checks tagged_lib (update_request (sized_image ''20G'')) (sized_image ''2G'') \<noteq> Inr []"
proof -
  have ok: "image_validate size_checks tagged_lib (update_request (sized_image a)) (sized_image b) = Inr [] \<longleftrightarrow>
      length a \<le> length b" for a b
    by (simp add: image_validate_def image_spec_validate_def sized_image_def tagged_image_def sample_image_def
        update_request_def validate_build_history_limit_def validate_tag_def tagged_lib_def tag_char_def
        validate_additional_tags_def validate_same_registry_def validate_builder_ref_def ClusterBuilderKind_def
        source_validate_def empty_source_def sample_git_def git_validate_def blob_validate_def registry_validate_def
        image_build_validate_def image_cache_validate_def validate_volume_cache_def volume_without_class_def volume_of_def
        is_need_volume_cache_def notary_accepted_def notary_validate_def cosign_validate_def image_validate_metadata_def
        image_validate_name_def sample_checks_def size_checks_def sgn_if Let_def)
  have vol: "volume_of (im_spec (sized_image a)) = (a, ''fast'')" "is_need_volume_cache (im_spec (sized_image a))" for a
    by (simp_all add: sized_image_def volume_of_def is_need_volume_cache_def)
  have "cached_update size_checks tagged_lib (Some True) (sized_image ''2G'') (sized_image ''20G'')"
    using ok [of "''2G''" "''20G''"] vol by (auto simp: cached_update_def update_request_def intro!: exI [of _ "update_request (sized_image ''2G'')"])
  then have "(cached_update size_checks tagged_lib (Some True))\<^sup>*\<^sup>* (sized_image ''2G'') (sized_image ''20G'')" by simp
  moreover have "cmp_law size_checks"
    unfolding cmp_law_def size_checks_def by (intro exI [of _ "\<lambda>s. int (length s)"]) simp
  ultimately show ?thesis
    using updates_keep_tag_and_cache [of size_checks tagged_lib "Some True" "sized_image ''2G''" "sized_image ''20G''"]
      ok [of "''20G''" "''2G''"] by (simp add: vol)
qed

section \<open>Builders\<close>

text \<open>
  What an accepted builder is, entry by entry. A stack needs a name and the kind \<open>ClusterStack\<close>, but a
  store or a buildpack whose kind is one of the allowed ones is accepted without a name: the test of the
  kind drops the error about the name.
\<close>

definition buildpack_entry_ok :: "builder_buildpack_ref \<Rightarrow> bool" where
  "buildpack_entry_ok r \<longleftrightarrow> bbr_image r = '''' \<and>
     (if oref_name (bbr_object r) \<noteq> '''' \<or> oref_kind (bbr_object r) \<noteq> ''''
      then oref_kind (bbr_object r) = BuildpackKind \<or> oref_kind (bbr_object r) = ClusterBuildpackKind
      else bp_id (bpref_info (bbr_ref r)) \<noteq> '''')"

lemma validate_buildpack_ref_Nil_iff [simp]: "validate_buildpack_ref r = [] \<longleftrightarrow> buildpack_entry_ok r"
  by (auto simp: validate_buildpack_ref_def buildpack_entry_ok_def validate_object_ref_def Let_def BuildpackKind_def
      ClusterBuildpackKind_def)

lemma group_from_Nil_iff: "group_from i rs = [] \<longleftrightarrow> (\<forall>r \<in> set rs. buildpack_entry_ok r)"
  by (induction rs arbitrary: i) auto

theorem accepted_builder:
  "builder_validate L b = [] \<longleftrightarrow>
     (let s = nbs_builder (bd_spec b) in
      bds_tag s \<noteq> '''' \<and> tag_parses L (bds_tag s) \<and>
      oref_name (bds_stack s) \<noteq> '''' \<and> oref_kind (bds_stack s) = ClusterStackKind \<and>
      (oref_kind (bds_store s) = ClusterStoreKind \<or> oref_name (bds_store s) = '''' \<and> oref_kind (bds_store s) = '''') \<and>
      list_all (\<lambda>e. list_all buildpack_entry_ok (border_group e)) (bds_order s) \<and>
      builder_service_account (bd_spec b) \<noteq> '''')"
  by (auto simp: builder_validate_def namespaced_builder_spec_validate_def builder_spec_validate_def validate_stack_def
      validate_store_def validate_object_ref_def validate_order_def validate_group_def group_from_Nil_iff Let_def
      list_all_iff ClusterStoreKind_def)

end
