(* ===== verification/V1_Types.thy ===== *)
theory V1_Types
  imports Admission
begin

text \<open>
  The API version \<open>v1alpha1\<close> of \<open>pkg/apis/build/v1alpha1\<close>: the objects that clients of the old version
  store, with their defaulting and validation. Fields shared with \<open>v1alpha2\<close> keep the types of \<open>core\<close>.
\<close>

section \<open>Objects\<close>

record image_build_v1 =
  ib1_bindings :: "cnb_binding list"
  ib1_env :: "env_var list"
  ib1_resources :: opaque

record image_spec_v1 =
  is1_tag :: string
  is1_builder :: object_reference
  is1_service_account :: string
  is1_source :: source_config
  is1_cache_size :: "opaque option"
  is1_failed_limit :: "int option"
  is1_success_limit :: "int option"
  is1_tagging :: image_tagging_strategy
  is1_build :: "image_build_v1 option"
  is1_notary :: "notary_config option"

record image_status_v1 =
  ims1_status :: status
  ims1_latest_build_ref :: string
  ims1_latest_build_generation :: int
  ims1_latest_image :: string
  ims1_latest_stack :: string
  ims1_build_counter :: int
  ims1_build_cache_name :: string
  ims1_latest_build_reason :: string

record image_v1 =
  im1_meta :: object_meta
  im1_spec :: image_spec_v1
  im1_status :: image_status_v1

record last_build_v1 =
  lb1_image :: string
  lb1_stack_id :: string

record build_spec_v1 =
  bs1_tags :: "string list"
  bs1_builder :: build_builder_spec
  bs1_service_account :: string
  bs1_source :: source_config
  bs1_cache_name :: string
  bs1_bindings :: "cnb_binding list"
  bs1_env :: "env_var list"
  bs1_resources :: opaque
  bs1_last_build :: "last_build_v1 option"
  bs1_notary :: "notary_config option"

record build_status_v1 =
  bst1_status :: status
  bst1_build_metadata :: "buildpack_metadata list"
  bst1_stack :: build_stack
  bst1_latest_image :: string
  bst1_pod_name :: string
  bst1_step_states :: "container_state list"
  bst1_steps_completed :: "string list"

record build_v1 =
  b1_meta :: object_meta
  b1_spec :: build_spec_v1
  b1_status :: build_status_v1

record builder_spec_v1 =
  bds1_tag :: string
  bds1_stack :: object_reference
  bds1_store :: object_reference
  bds1_order :: "order_entry list"

record namespaced_builder_spec_v1 =
  nbs1_builder :: builder_spec_v1
  nbs1_service_account :: string

record builder_status_v1 =
  bdt1_status :: status
  bdt1_metadata :: "buildpack_metadata list"
  bdt1_order :: "order_entry list"
  bdt1_stack :: build_stack
  bdt1_latest_image :: string
  bdt1_observed_stack_generation :: int
  bdt1_observed_store_generation :: int
  bdt1_os :: string

record builder_v1 =
  bd1_meta :: object_meta
  bd1_spec :: namespaced_builder_spec_v1
  bd1_status :: builder_status_v1

record cluster_builder_spec_v1 =
  cbs1_builder :: builder_spec_v1
  cbs1_service_account_ref :: object_reference

record cluster_builder_v1 =
  cb1_meta :: object_meta
  cb1_spec :: cluster_builder_spec_v1
  cb1_status :: builder_status_v1

record cluster_stack_spec_v1 =
  css1_id :: string
  css1_build_image :: string
  css1_run_image :: string

record cluster_stack_v1 =
  stk1_meta :: object_meta
  stk1_spec :: cluster_stack_spec_v1
  stk1_status :: status
  stk1_resolved :: resolved_cluster_stack

record cluster_store_v1 =
  sto1_meta :: object_meta
  sto1_sources :: "string list"
  sto1_status :: status
  sto1_buildpacks :: "buildpack_status list"

record source_resolver_v1 =
  sr1_meta :: object_meta
  sr1_service_account :: string
  sr1_source :: source_config
  sr1_status :: status
  sr1_resolved :: resolved_source_config

section \<open>Defaults\<close>

definition image_v1_set_defaults :: "bool \<Rightarrow> image_v1 \<Rightarrow> image_v1" where
  "image_v1_set_defaults has_default_storage_class im =
     im\<lparr>im1_spec := (im1_spec im)
        \<lparr>is1_service_account := (if is1_service_account (im1_spec im) = '''' then ''default''
                                 else is1_service_account (im1_spec im)),
         is1_tagging := (if is1_tagging (im1_spec im) = '''' then TaggingBuildNumber else is1_tagging (im1_spec im)),
         is1_failed_limit := (case is1_failed_limit (im1_spec im) of
             None \<Rightarrow> Some defaultFailedBuildHistoryLimit | Some n \<Rightarrow> Some n),
         is1_success_limit := (case is1_success_limit (im1_spec im) of
             None \<Rightarrow> Some defaultSuccessfulBuildHistoryLimit | Some n \<Rightarrow> Some n),
         is1_cache_size := (if is1_cache_size (im1_spec im) = None \<and> has_default_storage_class
             then Some defaultCacheSize else is1_cache_size (im1_spec im))\<rparr>\<rparr>"

definition build_v1_set_defaults :: "build_v1 \<Rightarrow> build_v1" where
  "build_v1_set_defaults b =
     (if bs1_service_account (b1_spec b) = ''''
      then b\<lparr>b1_spec := (b1_spec b)\<lparr>bs1_service_account := ''default''\<rparr>\<rparr> else b)"

definition builder_v1_set_defaults :: "namespaced_builder_spec_v1 \<Rightarrow> namespaced_builder_spec_v1" where
  "builder_v1_set_defaults s =
     (let s1 = (if nbs1_service_account s = '''' then s\<lparr>nbs1_service_account := ''default''\<rparr> else s);
          b1 = (nbs1_builder s1)\<lparr>bds1_stack := default_kind ClusterStackKind (bds1_stack (nbs1_builder s1))\<rparr>
      in s1\<lparr>nbs1_builder := b1\<lparr>bds1_store := default_kind ClusterStoreKind (bds1_store b1)\<rparr>\<rparr>)"

section \<open>Validation\<close>

definition image_v1_validate_name :: "checks \<Rightarrow> string \<Rightarrow> field_error list" where
  "image_v1_validate_name C image_name =
     (let msgs = chk_label_value C image_name
      in if length msgs > 0
         then field_err (GenericProblem (''invalid image name: '' @ image_name @ '', name must be a a valid label''))
                [''''] (join '','' msgs)
         else [])"

definition image_v1_validate_metadata :: "checks \<Rightarrow> image_v1 \<Rightarrow> field_error list" where
  "image_v1_validate_metadata C im = via_field ''name'' (image_v1_validate_name C (meta_name (im1_meta im)))"

definition validate_tag_v1 :: "lib \<Rightarrow> image_v1 admission \<Rightarrow> image_spec_v1 \<Rightarrow> field_error list" where
  "validate_tag_v1 L A s =
     (case adm_baseline A of
        Some original \<Rightarrow> immutable_field (is1_tag (im1_spec original)) (is1_tag s) ''tag''
      | None \<Rightarrow> tag_field L (is1_tag s))"

text \<open>An update that drops the size compares through a nil pointer.\<close>

definition validate_cache_size_v1 :: "checks \<Rightarrow> image_v1 admission \<Rightarrow> image_spec_v1 \<Rightarrow> field_error list res" where
  "validate_cache_size_v1 C A s =
     (if is1_cache_size s \<noteq> None \<and> \<not> adm_default_storage_class A
      then Inr (field_err (GenericProblem ''spec.cacheSize cannot be set with no default StorageClass'') [] '''')
      else case adm_baseline A of
        None \<Rightarrow> Inr []
      | Some original \<Rightarrow>
          (case is1_cache_size (im1_spec original) of
             None \<Rightarrow> Inr []
           | Some old_size \<Rightarrow>
               (case is1_cache_size s of
                  None \<Rightarrow> Inl (Panic ''invalid memory address or nil pointer dereference'')
                | Some new_size \<Rightarrow>
                    (let details = ''current: '' @ old_size @ '', requested: '' @ new_size
                     in if adm_expandable A = Some False \<and> chk_quantity_cmp C new_size old_size \<noteq> 0
                        then Inr (field_err (GenericProblem ''Field cannot be changed'') [''cacheSize''] details)
                        else if chk_quantity_cmp C new_size old_size < 0
                        then Inr (field_err (GenericProblem ''Field cannot be decreased'') [''cacheSize''] details)
                        else Inr []))))"

definition image_build_v1_validate :: "image_build_v1 option \<Rightarrow> field_error list" where
  "image_build_v1_validate ib =
     (case ib of None \<Rightarrow> [] | Some b \<Rightarrow> via_field ''bindings'' (cnb_bindings_validate (ib1_bindings b)))"

definition image_v1_spec_validate :: "checks \<Rightarrow> lib \<Rightarrow> image_v1 admission \<Rightarrow> image_spec_v1 \<Rightarrow> field_error list res" where
  "image_v1_spec_validate C L A s =
     bind_res (validate_cache_size_v1 C A s) (\<lambda>cache. Inr (
       validate_tag_v1 L A s @
       via_field ''builder'' (validate_builder_ref (is1_builder s)) @
       via_field ''source'' (source_validate L (is1_source s)) @
       via_field ''build'' (image_build_v1_validate (is1_build s)) @
       cache @
       via_field ''notary'' (notary_validate (is1_notary s))))"

definition image_v1_validate :: "checks \<Rightarrow> lib \<Rightarrow> image_v1 admission \<Rightarrow> image_v1 \<Rightarrow> field_error list res" where
  "image_v1_validate C L A im =
     bind_res (image_v1_spec_validate C L A (im1_spec im)) (\<lambda>es.
       Inr (via_field ''spec'' es @ via_field ''metadata'' (image_v1_validate_metadata C im)))"

definition last_build_v1_validate :: "lib \<Rightarrow> last_build_v1 option \<Rightarrow> field_error list" where
  "last_build_v1_validate L lb =
     (case lb of None \<Rightarrow> [] | Some b \<Rightarrow> if lb1_image b = '''' then [] else image_field L (lb1_image b))"

definition validate_immutable_fields_v1 :: "(build_spec_v1 \<Rightarrow> build_spec_v1 \<Rightarrow> string res) \<Rightarrow> build_v1 admission \<Rightarrow>
    build_spec_v1 \<Rightarrow> field_error list" where
  "validate_immutable_fields_v1 short_diff A bs =
     (case adm_baseline A of
        None \<Rightarrow> []
      | Some original \<Rightarrow>
          (case short_diff (b1_spec original) bs of
             Inl e \<Rightarrow> field_err (GenericProblem ''Failed to diff Build'') [''spec''] (err_text e)
           | Inr diff \<Rightarrow>
               (if diff \<noteq> '''' then field_err (GenericProblem ''Immutable fields changed (-old +new)'') [''spec''] diff
                else [])))"

definition build_v1_validate :: "(build_spec_v1 \<Rightarrow> build_spec_v1 \<Rightarrow> string res) \<Rightarrow> lib \<Rightarrow> build_v1 admission \<Rightarrow>
    build_v1 \<Rightarrow> field_error list" where
  "build_v1_validate short_diff L A b =
     (let bs = b1_spec b in via_field ''spec'' (
       list_not_empty (bs1_tags bs) ''tags'' @
       tags_field L (bs1_tags bs) ''tags'' @
       via_field ''builder'' (build_builder_validate L (bs1_builder bs)) @
       via_field ''source'' (source_validate L (bs1_source bs)) @
       via_field ''bindings'' (cnb_bindings_validate (bs1_bindings bs)) @
       via_field ''lastBuild'' (last_build_v1_validate L (bs1_last_build bs)) @
       validate_immutable_fields_v1 short_diff A bs))"

text \<open>Stacks and stores are checked alike: a name and the one kind allowed.\<close>

definition validate_store_v1 :: "object_reference \<Rightarrow> field_error list" where
  "validate_store_v1 r =
     (if oref_name r = '''' then field_err MissingField [''name''] ''''
      else if oref_kind r = ClusterStoreKind then []
      else field_err (InvalidValue (oref_kind r)) [''kind''] '''')"

definition builder_spec_v1_validate :: "lib \<Rightarrow> builder_spec_v1 \<Rightarrow> field_error list" where
  "builder_spec_v1_validate L s =
     tag_field L (bds1_tag s) @ via_field ''stack'' (validate_stack (bds1_stack s)) @
     via_field ''store'' (validate_store_v1 (bds1_store s))"

definition builder_v1_validate :: "lib \<Rightarrow> builder_v1 \<Rightarrow> field_error list" where
  "builder_v1_validate L b =
     via_field ''spec'' (builder_spec_v1_validate L (nbs1_builder (bd1_spec b)) @
       field_not_empty (nbs1_service_account (bd1_spec b)) ''serviceAccount'')"

definition cluster_builder_spec_v1_validate :: "lib \<Rightarrow> cluster_builder_spec_v1 \<Rightarrow> field_error list" where
  "cluster_builder_spec_v1_validate L s =
     (let r = cbs1_service_account_ref s
      in if oref_name r = '''' then via_field ''spec'' (via_field ''serviceAccountRef'' (field_err MissingField [''name''] ''''))
         else if oref_namespace r = ''''
         then via_field ''spec'' (via_field ''serviceAccountRef'' (field_err MissingField [''namespace''] ''''))
         else builder_spec_v1_validate L (cbs1_builder s))"

definition cluster_stack_v1_validate :: "lib \<Rightarrow> cluster_stack_v1 \<Rightarrow> field_error list" where
  "cluster_stack_v1_validate L s =
     via_field ''spec'' (field_not_empty (css1_id (stk1_spec s)) ''id'' @
       via_field ''buildImage'' (image_field L (css1_build_image (stk1_spec s))) @
       via_field ''runImage'' (image_field L (css1_run_image (stk1_spec s))))"

definition cluster_store_v1_validate :: "lib \<Rightarrow> cluster_store_v1 \<Rightarrow> field_error list" where
  "cluster_store_v1_validate L s =
     via_field ''spec''
       (if length (sto1_sources s) = 0 then field_err MissingField [''sources''] '''' else sources_from L 0 (sto1_sources s))"

end
