(* ===== verification/Conversion.thy ===== *)
theory Conversion
  imports V1_Types Builder_Reconcilers
begin

text \<open>
  The conversions between \<open>v1alpha1\<close> and \<open>v1alpha2\<close> (\<open>pkg/apis/build/v1alpha2/*_conversion.go\<close>). What the old
  version has no field for is kept in annotations, lists and structs as JSON. A conversion fills in a
  receiver; the webhook hands it an empty object.
\<close>

section \<open>JSON\<close>

record conv_json =
  cj_services :: "services \<Rightarrow> string res"
  cj_parse_services :: "string \<Rightarrow> services res"
  cj_tolerations :: "opaque list \<Rightarrow> string res"
  cj_parse_tolerations :: "string \<Rightarrow> opaque list res"
  cj_node_selector :: "str_map \<Rightarrow> string res"
  cj_parse_node_selector :: "string \<Rightarrow> str_map res"
  cj_affinity :: "opaque \<Rightarrow> string res"
  cj_parse_affinity :: "string \<Rightarrow> opaque option res"
  cj_cosign :: "cosign_annotation list \<Rightarrow> string res"
  cj_parse_cosign :: "string \<Rightarrow> cosign_annotation list res"
  cj_object_ref :: "object_reference \<Rightarrow> string res"
  cj_parse_object_ref :: "string \<Rightarrow> object_reference option res"

section \<open>Images\<close>

definition servicesConversionAnnotation :: string where "servicesConversionAnnotation = ''kpack.io/services''"
definition tolerationsConversionAnnotation :: string where "tolerationsConversionAnnotation = ''kpack.io/tolerations''"
definition nodeSelectorConversionAnnotation :: string where "nodeSelectorConversionAnnotation = ''kpack.io/nodeSelector''"
definition affinityConversionAnnotation :: string where "affinityConversionAnnotation = ''kpack.io/affinity''"
definition runtimeClassNameConversionAnnotation :: string where
  "runtimeClassNameConversionAnnotation = ''kpack.io/runtimeClassName''"
definition schedulerNameConversionAnnotation :: string where
  "schedulerNameConversionAnnotation = ''kpack.io/schedulerName''"
definition buildTimeoutConversionAnnotation :: string where "buildTimeoutConversionAnnotation = ''kpack.io/buildTimeout''"
definition storageClassNameConversionAnnotation :: string where
  "storageClassNameConversionAnnotation = ''kpack.io/cache.volume.storageClassName''"
definition registryTagConversionAnnotation :: string where "registryTagConversionAnnotation = ''kpack.io/cache.registry.tag''"
definition projectDescriptorPathConversionAnnotation :: string where
  "projectDescriptorPathConversionAnnotation = ''kpack.io/projectDescriptorPath''"
definition cosignAnnotationConversionAnnotation :: string where
  "cosignAnnotationConversionAnnotation = ''kpack.io/cosignAnnotation''"
definition defaultProcessConversionAnnotation :: string where
  "defaultProcessConversionAnnotation = ''kpack.io/defaultProcess''"

lemmas conversion_annotation_defs = servicesConversionAnnotation_def tolerationsConversionAnnotation_def
  nodeSelectorConversionAnnotation_def affinityConversionAnnotation_def runtimeClassNameConversionAnnotation_def
  schedulerNameConversionAnnotation_def buildTimeoutConversionAnnotation_def storageClassNameConversionAnnotation_def
  registryTagConversionAnnotation_def projectDescriptorPathConversionAnnotation_def
  cosignAnnotationConversionAnnotation_def defaultProcessConversionAnnotation_def

definition empty_image_build :: image_build where
  "empty_image_build = \<lparr>ib_services = [], ib_cnb_bindings = [], ib_env = [], ib_resources = '''', ib_tolerations = [],
     ib_node_selector = Map.empty, ib_affinity = None, ib_runtime_class = None, ib_scheduler = '''',
     ib_build_timeout = None, ib_creation_time = ''''\<rparr>"

definition empty_image_build_v1 :: image_build_v1 where
  "empty_image_build_v1 = \<lparr>ib1_bindings = [], ib1_env = [], ib1_resources = ''''\<rparr>"

subsection \<open>To v1alpha1\<close>

definition image_spec_convert_to :: "image_spec \<Rightarrow> image_spec_v1 \<Rightarrow> image_spec_v1" where
  "image_spec_convert_to s to = to
     \<lparr>is1_tag := is_tag s,
      is1_builder := is_builder s,
      is1_service_account := is_service_account s,
      is1_cache_size := (case is_cache s of
          Some c \<Rightarrow> (case icc_volume c of Some v \<Rightarrow> ivc_size v | None \<Rightarrow> is1_cache_size to)
        | None \<Rightarrow> is1_cache_size to),
      is1_failed_limit := is_failed_limit s,
      is1_success_limit := is_success_limit s,
      is1_tagging := is_tagging s,
      is1_source := is_source s,
      is1_notary := is_notary s,
      is1_build := (case is_build s of
          None \<Rightarrow> is1_build to
        | Some b \<Rightarrow> Some (empty_image_build_v1\<lparr>ib1_env := ib_env b, ib1_resources := ib_resources b,
                             ib1_bindings := ib_cnb_bindings b\<rparr>))\<rparr>"

definition image_status_convert_to :: "image_status \<Rightarrow> image_status_v1 \<Rightarrow> image_status_v1" where
  "image_status_convert_to s to = to
     \<lparr>ims1_latest_build_generation := ims_latest_build_generation s,
      ims1_build_counter := ims_build_counter s,
      ims1_build_cache_name := ims_build_cache_name s,
      ims1_latest_build_reason := ims_latest_build_reason s,
      ims1_latest_build_ref := ims_latest_build_ref s,
      ims1_latest_image := ims_latest_image s,
      ims1_latest_stack := ims_latest_stack s,
      ims1_status := ims_status s\<rparr>"

text \<open>One annotation: written when the condition holds, unless marshalling fails.\<close>

definition put_annotation :: "bool \<Rightarrow> string \<Rightarrow> string res \<Rightarrow> str_map \<Rightarrow> str_map res" where
  "put_annotation keep k v m = (if keep then bind_res v (\<lambda>t. Inr (m(k \<mapsto> t))) else Inr m)"

definition build_to_annotations :: "conv_json \<Rightarrow> image_build \<Rightarrow> str_map \<Rightarrow> str_map res" where
  "build_to_annotations J b m =
     bind_res (put_annotation (length (ib_services b) > 0) servicesConversionAnnotation (cj_services J (ib_services b)) m) (\<lambda>m.
     bind_res (put_annotation (length (ib_tolerations b) > 0) tolerationsConversionAnnotation
                 (cj_tolerations J (ib_tolerations b)) m) (\<lambda>m.
     bind_res (put_annotation (ib_node_selector b \<noteq> Map.empty) nodeSelectorConversionAnnotation
                 (cj_node_selector J (ib_node_selector b)) m) (\<lambda>m.
     bind_res (case ib_affinity b of
                 Some a \<Rightarrow> put_annotation True affinityConversionAnnotation (cj_affinity J a) m | None \<Rightarrow> Inr m) (\<lambda>m.
     bind_res (case ib_runtime_class b of
                 Some r \<Rightarrow> put_annotation True runtimeClassNameConversionAnnotation (Inr r) m | None \<Rightarrow> Inr m) (\<lambda>m.
     bind_res (put_annotation (ib_scheduler b \<noteq> '''') schedulerNameConversionAnnotation (Inr (ib_scheduler b)) m) (\<lambda>m.
     case ib_build_timeout b of
       Some t \<Rightarrow> put_annotation True buildTimeoutConversionAnnotation (Inr (itoa t)) m | None \<Rightarrow> Inr m))))))"

definition cache_to_annotations :: "image_cache_config \<Rightarrow> str_map \<Rightarrow> str_map res" where
  "cache_to_annotations c m =
     bind_res (case icc_volume c of
                 Some v \<Rightarrow> put_annotation (ivc_storage_class v \<noteq> '''') storageClassNameConversionAnnotation
                             (Inr (ivc_storage_class v)) m
               | None \<Rightarrow> Inr m) (\<lambda>m.
     case icc_registry c of
       Some r \<Rightarrow> put_annotation (rcache_tag r \<noteq> '''') registryTagConversionAnnotation (Inr (rcache_tag r)) m
     | None \<Rightarrow> Inr m)"

definition convert_to_annotations :: "conv_json \<Rightarrow> image_spec \<Rightarrow> str_map \<Rightarrow> str_map res" where
  "convert_to_annotations J s m =
     bind_res (case is_build s of Some b \<Rightarrow> build_to_annotations J b m | None \<Rightarrow> Inr m) (\<lambda>m.
     bind_res (case is_cache s of Some c \<Rightarrow> cache_to_annotations c m | None \<Rightarrow> Inr m) (\<lambda>m.
     bind_res (put_annotation (is_project_descriptor s \<noteq> '''') projectDescriptorPathConversionAnnotation
                 (Inr (is_project_descriptor s)) m) (\<lambda>m.
     bind_res (case is_cosign s of
                 Some c \<Rightarrow> put_annotation (length (cosign_annotations c) > 0) cosignAnnotationConversionAnnotation
                             (cj_cosign J (cosign_annotations c)) m
               | None \<Rightarrow> Inr m) (\<lambda>m.
     put_annotation (is_default_process s \<noteq> '''') defaultProcessConversionAnnotation (Inr (is_default_process s)) m))))"

definition image_convert_to :: "conv_json \<Rightarrow> image \<Rightarrow> image_v1 \<Rightarrow> image_v1 res" where
  "image_convert_to J im to =
     bind_res (convert_to_annotations J (im_spec im) (meta_annotations (im_meta im))) (\<lambda>m.
       Inr \<lparr>im1_meta = (im_meta im)\<lparr>meta_annotations := m\<rparr>,
            im1_spec = image_spec_convert_to (im_spec im) (im1_spec to),
            im1_status = image_status_convert_to (im_status im) (im1_status to)\<rparr>)"

subsection \<open>From v1alpha1\<close>

definition image_spec_convert_from :: "image_spec_v1 \<Rightarrow> image_spec \<Rightarrow> image_spec" where
  "image_spec_convert_from from s = s
     \<lparr>is_tag := is1_tag from,
      is_builder := is1_builder from,
      is_service_account := is1_service_account from,
      is_source := is1_source from,
      is_cache := (case is1_cache_size from of
          Some sz \<Rightarrow> Some \<lparr>icc_volume = Some \<lparr>ivc_size = Some sz, ivc_storage_class = ''''\<rparr>, icc_registry = None\<rparr>
        | None \<Rightarrow> is_cache s),
      is_failed_limit := is1_failed_limit from,
      is_success_limit := is1_success_limit from,
      is_tagging := is1_tagging from,
      is_notary := is1_notary from,
      is_build := (case is1_build from of
          None \<Rightarrow> is_build s
        | Some b \<Rightarrow> Some (empty_image_build\<lparr>ib_env := ib1_env b, ib_resources := ib1_resources b,
                             ib_cnb_bindings := ib1_bindings b\<rparr>))\<rparr>"

definition image_status_convert_from :: "image_status_v1 \<Rightarrow> image_status \<Rightarrow> image_status" where
  "image_status_convert_from from s = s
     \<lparr>ims_latest_build_generation := ims1_latest_build_generation from,
      ims_build_counter := ims1_build_counter from,
      ims_build_cache_name := ims1_build_cache_name from,
      ims_latest_build_reason := ims1_latest_build_reason from,
      ims_latest_build_ref := ims1_latest_build_ref from,
      ims_latest_image := ims1_latest_image from,
      ims_latest_stack := ims1_latest_stack from,
      ims_status := ims1_status from\<rparr>"

text \<open>
  One annotation on the way back: when the old object has it, the receiver is prepared, the text is
  parsed, the value set and the copied annotation deleted. A text that does not parse ends the conversion
  of annotations and leaves what was set so far.
\<close>

type_synonym annotation_step = "image \<Rightarrow> image \<times> goerr option"

definition delete_annotation :: "string \<Rightarrow> image \<Rightarrow> image" where
  "delete_annotation k im = im\<lparr>im_meta := (im_meta im)\<lparr>meta_annotations := (meta_annotations (im_meta im))(k := None)\<rparr>\<rparr>"

definition take_annotation :: "str_map \<Rightarrow> string \<Rightarrow> (image \<Rightarrow> image) \<Rightarrow> (string \<Rightarrow> 'a res) \<Rightarrow> ('a \<Rightarrow> image \<Rightarrow> image) \<Rightarrow>
    annotation_step" where
  "take_annotation from k prepare parse put im =
     (case from k of
        None \<Rightarrow> (im, None)
      | Some txt \<Rightarrow>
          (case parse txt of
             Inl e \<Rightarrow> (prepare im, Some e)
           | Inr v \<Rightarrow> (delete_annotation k (put v (prepare im)), None)))"

fun run_steps :: "annotation_step list \<Rightarrow> annotation_step" where
  "run_steps [] im = (im, None)"
| "run_steps (s # ss) im =
     (case s im of (im', Some e) \<Rightarrow> (im', Some e) | (im', None) \<Rightarrow> run_steps ss im')"

definition in_spec :: "(image_spec \<Rightarrow> image_spec) \<Rightarrow> image \<Rightarrow> image" where
  "in_spec f im = im\<lparr>im_spec := f (im_spec im)\<rparr>"

text \<open>\<open>is.Build\<close>, the volume of the cache and the registry cache are allocated when they are nil.\<close>

definition in_build :: "(image_build \<Rightarrow> image_build) \<Rightarrow> image \<Rightarrow> image" where
  "in_build f = in_spec (\<lambda>s. s\<lparr>is_build := Some (f (case is_build s of None \<Rightarrow> empty_image_build | Some b \<Rightarrow> b))\<rparr>)"

definition in_cache :: "(image_cache_config \<Rightarrow> image_cache_config) \<Rightarrow> image \<Rightarrow> image" where
  "in_cache f = in_spec (\<lambda>s. s\<lparr>is_cache := Some (f (case is_cache s of
       None \<Rightarrow> \<lparr>icc_volume = None, icc_registry = None\<rparr> | Some c \<Rightarrow> c))\<rparr>)"

definition set_storage_class :: "string \<Rightarrow> image_cache_config \<Rightarrow> image_cache_config" where
  "set_storage_class nm c = c\<lparr>icc_volume := Some ((case icc_volume c of
       None \<Rightarrow> \<lparr>ivc_size = None, ivc_storage_class = ''''\<rparr> | Some v \<Rightarrow> v)\<lparr>ivc_storage_class := nm\<rparr>)\<rparr>"

definition set_registry_tag :: "string \<Rightarrow> image_cache_config \<Rightarrow> image_cache_config" where
  "set_registry_tag t c = c\<lparr>icc_registry := Some (RegistryCache t)\<rparr>"

definition annotation_steps :: "conv_json \<Rightarrow> str_map \<Rightarrow> annotation_step list" where
  "annotation_steps J from =
     [take_annotation from servicesConversionAnnotation (in_build id) (cj_parse_services J)
        (\<lambda>v. in_build (\<lambda>b. b\<lparr>ib_services := v\<rparr>)),
      take_annotation from tolerationsConversionAnnotation (in_build id) (cj_parse_tolerations J)
        (\<lambda>v. in_build (\<lambda>b. b\<lparr>ib_tolerations := v\<rparr>)),
      take_annotation from nodeSelectorConversionAnnotation (in_build id) (cj_parse_node_selector J)
        (\<lambda>v. in_build (\<lambda>b. b\<lparr>ib_node_selector := v\<rparr>)),
      take_annotation from affinityConversionAnnotation (in_build id) (cj_parse_affinity J)
        (\<lambda>v. in_build (\<lambda>b. b\<lparr>ib_affinity := v\<rparr>)),
      take_annotation from runtimeClassNameConversionAnnotation (in_build id) Inr
        (\<lambda>v. in_build (\<lambda>b. b\<lparr>ib_runtime_class := Some v\<rparr>)),
      take_annotation from schedulerNameConversionAnnotation (in_build id) Inr
        (\<lambda>v. in_build (\<lambda>b. b\<lparr>ib_scheduler := v\<rparr>)),
      take_annotation from buildTimeoutConversionAnnotation (in_build id) parse_int
        (\<lambda>v. in_build (\<lambda>b. b\<lparr>ib_build_timeout := Some v\<rparr>)),
      take_annotation from storageClassNameConversionAnnotation id Inr (\<lambda>v. in_cache (set_storage_class v)),
      take_annotation from registryTagConversionAnnotation id Inr (\<lambda>v. in_cache (set_registry_tag v)),
      take_annotation from projectDescriptorPathConversionAnnotation id Inr
        (\<lambda>v. in_spec (\<lambda>s. s\<lparr>is_project_descriptor := v\<rparr>)),
      take_annotation from cosignAnnotationConversionAnnotation id (cj_parse_cosign J)
        (\<lambda>v. in_spec (\<lambda>s. s\<lparr>is_cosign := Some (CosignConfig v)\<rparr>)),
      take_annotation from defaultProcessConversionAnnotation id Inr
        (\<lambda>v. in_spec (\<lambda>s. s\<lparr>is_default_process := v\<rparr>))]"

definition convert_from_annotations :: "conv_json \<Rightarrow> str_map \<Rightarrow> annotation_step" where
  "convert_from_annotations J from im = run_steps (annotation_steps J from) im"

text \<open>The error of the annotations is not returned.\<close>

definition image_convert_from :: "conv_json \<Rightarrow> image_v1 \<Rightarrow> image \<Rightarrow> image" where
  "image_convert_from J from im =
     fst (convert_from_annotations J (meta_annotations (im1_meta from))
       \<lparr>im_meta = im1_meta from,
        im_spec = image_spec_convert_from (im1_spec from) (im_spec im),
        im_status = image_status_convert_from (im1_status from) (im_status im)\<rparr>)"

section \<open>Builds\<close>

definition build_spec_convert_to :: "build_spec \<Rightarrow> build_spec_v1 \<Rightarrow> build_spec_v1" where
  "build_spec_convert_to bs to = to
     \<lparr>bs1_env := bs_env bs,
      bs1_source := bs_source bs,
      bs1_resources := bs_resources bs,
      bs1_tags := bs_tags bs,
      bs1_cache_name := (case bs_cache bs of
          Some c \<Rightarrow> (case bcc_volume c of Some v \<Rightarrow> bvc_claim v | None \<Rightarrow> bs1_cache_name to)
        | None \<Rightarrow> bs1_cache_name to),
      bs1_last_build := (case bs_last_build bs of
          Some l \<Rightarrow> Some \<lparr>lb1_image = lb_image l, lb1_stack_id = lb_stack_id l\<rparr> | None \<Rightarrow> bs1_last_build to),
      bs1_service_account := bs_service_account bs,
      bs1_builder := bs_builder bs,
      bs1_notary := bs_notary bs,
      bs1_bindings := bs_cnb_bindings bs\<rparr>"

definition build_spec_convert_from :: "build_spec_v1 \<Rightarrow> build_spec \<Rightarrow> build_spec" where
  "build_spec_convert_from from bs = bs
     \<lparr>bs_env := bs1_env from,
      bs_source := bs1_source from,
      bs_cache := (if bs1_cache_name from \<noteq> ''''
          then Some \<lparr>bcc_volume = Some (BuildVolumeCache (bs1_cache_name from)), bcc_registry = None\<rparr> else bs_cache bs),
      bs_resources := bs1_resources from,
      bs_tags := bs1_tags from,
      bs_last_build := (case bs1_last_build from of
          Some l \<Rightarrow> Some \<lparr>lb_image = lb1_image l, lb_cache = BuildCache '''', lb_stack_id = lb1_stack_id l\<rparr>
        | None \<Rightarrow> bs_last_build bs),
      bs_service_account := bs1_service_account from,
      bs_builder := bs1_builder from,
      bs_notary := bs1_notary from,
      bs_cnb_bindings := bs1_bindings from\<rparr>"

definition build_status_convert_to :: "build_status \<Rightarrow> build_status_v1 \<Rightarrow> build_status_v1" where
  "build_status_convert_to s to = to
     \<lparr>bst1_status := bst_status s, bst1_build_metadata := bst_build_metadata s, bst1_stack := bst_stack s,
      bst1_latest_image := bst_latest_image s, bst1_pod_name := bst_pod_name s,
      bst1_step_states := bst_step_states s, bst1_steps_completed := bst_steps_completed s\<rparr>"

definition build_status_convert_from :: "build_status_v1 \<Rightarrow> build_status \<Rightarrow> build_status" where
  "build_status_convert_from from s = s
     \<lparr>bst_status := bst1_status from, bst_build_metadata := bst1_build_metadata from, bst_stack := bst1_stack from,
      bst_latest_image := bst1_latest_image from, bst_pod_name := bst1_pod_name from,
      bst_step_states := bst1_step_states from, bst_steps_completed := bst1_steps_completed from\<rparr>"

definition build_convert_to :: "build \<Rightarrow> build_v1 \<Rightarrow> build_v1" where
  "build_convert_to b to = \<lparr>b1_meta = b_meta b, b1_spec = build_spec_convert_to (b_spec b) (b1_spec to),
     b1_status = build_status_convert_to (b_status b) (b1_status to)\<rparr>"

definition build_convert_from :: "build_v1 \<Rightarrow> build \<Rightarrow> build" where
  "build_convert_from from b = \<lparr>b_meta = b1_meta from, b_spec = build_spec_convert_from (b1_spec from) (b_spec b),
     b_status = build_status_convert_from (b1_status from) (b_status b)\<rparr>"

section \<open>Builders\<close>

text \<open>Only entries with an id go to the old version.\<close>

definition order_convert_to :: "builder_order_entry list \<Rightarrow> order_entry list" where
  "order_convert_to order = map (\<lambda>e. OrderEntry (concat (map (\<lambda>r.
      if bp_id (bpref_info (bbr_ref r)) \<noteq> ''''
      then [\<lparr>bpref_info = \<lparr>bp_id = bp_id (bpref_info (bbr_ref r)), bp_version = bp_version (bpref_info (bbr_ref r))\<rparr>,
             bpref_optional = bpref_optional (bbr_ref r)\<rparr>]
      else []) (border_group e)))) order"

definition empty_object_ref :: object_reference where
  "empty_object_ref = \<lparr>oref_kind = '''', oref_namespace = '''', oref_name = ''''\<rparr>"

definition order_convert_from :: "order_entry list \<Rightarrow> builder_order_entry list" where
  "order_convert_from order = map (\<lambda>e. BuilderOrderEntry (map (\<lambda>r.
      \<lparr>bbr_ref = \<lparr>bpref_info = \<lparr>bp_id = bp_id (bpref_info r), bp_version = bp_version (bpref_info r)\<rparr>,
                  bpref_optional = bpref_optional r\<rparr>,
       bbr_object = empty_object_ref, bbr_image = ''''\<rparr>) (order_group e))) order"

definition builder_spec_convert_to :: "builder_spec \<Rightarrow> builder_spec_v1 \<Rightarrow> builder_spec_v1" where
  "builder_spec_convert_to s to = to
     \<lparr>bds1_tag := bds_tag s, bds1_stack := bds_stack s, bds1_store := bds_store s,
      bds1_order := bds1_order to @ order_convert_to (bds_order s)\<rparr>"

definition builder_spec_convert_from :: "builder_spec_v1 \<Rightarrow> builder_spec \<Rightarrow> builder_spec" where
  "builder_spec_convert_from from s = s
     \<lparr>bds_tag := bds1_tag from, bds_stack := bds1_stack from, bds_store := bds1_store from,
      bds_order := bds_order s @ order_convert_from (bds1_order from)\<rparr>"

definition namespaced_builder_spec_convert_to :: "namespaced_builder_spec \<Rightarrow> namespaced_builder_spec_v1 \<Rightarrow>
    namespaced_builder_spec_v1" where
  "namespaced_builder_spec_convert_to s to = to
     \<lparr>nbs1_builder := builder_spec_convert_to (nbs_builder s) (nbs1_builder to),
      nbs1_service_account := builder_service_account s\<rparr>"

definition namespaced_builder_spec_convert_from :: "namespaced_builder_spec_v1 \<Rightarrow> namespaced_builder_spec \<Rightarrow>
    namespaced_builder_spec" where
  "namespaced_builder_spec_convert_from from s = s
     \<lparr>nbs_builder := builder_spec_convert_from (nbs1_builder from) (nbs_builder s),
      nbs_service_account_name := nbs1_service_account from\<rparr>"

definition builder_status_convert_to :: "builder_status \<Rightarrow> builder_status_v1 \<Rightarrow> builder_status_v1" where
  "builder_status_convert_to s to = to
     \<lparr>bdt1_status := bds_status s, bdt1_metadata := bds_metadata s, bdt1_order := bds_order_detected s,
      bdt1_stack := bds_stack_info s, bdt1_latest_image := bds_latest_image s,
      bdt1_observed_stack_generation := bds_observed_stack_generation s,
      bdt1_observed_store_generation := bds_observed_store_generation s, bdt1_os := bds_os s\<rparr>"

definition builder_status_convert_from :: "builder_status_v1 \<Rightarrow> builder_status \<Rightarrow> builder_status" where
  "builder_status_convert_from from s = s
     \<lparr>bds_status := bdt1_status from, bds_metadata := bdt1_metadata from, bds_order_detected := bdt1_order from,
      bds_stack_info := bdt1_stack from, bds_latest_image := bdt1_latest_image from,
      bds_observed_stack_generation := bdt1_observed_stack_generation from,
      bds_observed_store_generation := bdt1_observed_store_generation from, bds_os := bdt1_os from\<rparr>"

definition builder_convert_to :: "builder \<Rightarrow> builder_v1 \<Rightarrow> builder_v1" where
  "builder_convert_to b to = \<lparr>bd1_meta = bd_meta b,
     bd1_spec = namespaced_builder_spec_convert_to (bd_spec b) (bd1_spec to),
     bd1_status = builder_status_convert_to (bd_status b) (bd1_status to)\<rparr>"

definition builder_convert_from :: "builder_v1 \<Rightarrow> builder \<Rightarrow> builder" where
  "builder_convert_from from b = \<lparr>bd_meta = bd1_meta from,
     bd_spec = namespaced_builder_spec_convert_from (bd1_spec from) (bd_spec b),
     bd_status = builder_status_convert_from (bd1_status from) (bd_status b)\<rparr>"

section \<open>Cluster-wide kinds and source resolvers\<close>

definition cluster_builder_spec_convert_to :: "cluster_builder_spec \<Rightarrow> cluster_builder_spec_v1 \<Rightarrow> cluster_builder_spec_v1" where
  "cluster_builder_spec_convert_to s to = to
     \<lparr>cbs1_builder := builder_spec_convert_to (cbs_builder s) (cbs1_builder to),
      cbs1_service_account_ref := cbs_service_account_ref s\<rparr>"

definition cluster_builder_spec_convert_from :: "cluster_builder_spec_v1 \<Rightarrow> cluster_builder_spec \<Rightarrow> cluster_builder_spec" where
  "cluster_builder_spec_convert_from from s = s
     \<lparr>cbs_builder := builder_spec_convert_from (cbs1_builder from) (cbs_builder s),
      cbs_service_account_ref := cbs1_service_account_ref from\<rparr>"

definition cluster_builder_convert_to :: "cluster_builder \<Rightarrow> cluster_builder_v1 \<Rightarrow> cluster_builder_v1" where
  "cluster_builder_convert_to b to = \<lparr>cb1_meta = cbd_meta b,
     cb1_spec = cluster_builder_spec_convert_to (cbd_spec b) (cb1_spec to),
     cb1_status = builder_status_convert_to (cbd_status b) (cb1_status to)\<rparr>"

definition cluster_builder_convert_from :: "cluster_builder_v1 \<Rightarrow> cluster_builder \<Rightarrow> cluster_builder" where
  "cluster_builder_convert_from from b = \<lparr>cbd_meta = cb1_meta from,
     cbd_spec = cluster_builder_spec_convert_from (cb1_spec from) (cbd_spec b),
     cbd_status = builder_status_convert_from (cb1_status from) (cbd_status b)\<rparr>"

definition clusterStackServiceAccountRefAnnotation :: string where
  "clusterStackServiceAccountRefAnnotation = ''kpack.io/clusterStackServiceAccountRef''"

definition clusterStoreServiceAccountRefAnnotation :: string where
  "clusterStoreServiceAccountRefAnnotation = ''kpack.io/clusterStoreServiceAccountRef''"

definition ref_to_annotations :: "conv_json \<Rightarrow> string \<Rightarrow> object_reference option \<Rightarrow> str_map \<Rightarrow> str_map res" where
  "ref_to_annotations J k r m =
     (case r of None \<Rightarrow> Inr m | Some a \<Rightarrow> put_annotation True k (cj_object_ref J a) m)"

text \<open>The reference and the annotations left on the object; an error leaves both as they were.\<close>

definition ref_from_annotations :: "conv_json \<Rightarrow> string \<Rightarrow> str_map \<Rightarrow> object_reference option \<Rightarrow> object_reference option \<times> str_map" where
  "ref_from_annotations J k m r =
     (case m k of
        None \<Rightarrow> (r, m)
      | Some txt \<Rightarrow> (case cj_parse_object_ref J txt of Inl e \<Rightarrow> (r, m) | Inr a \<Rightarrow> (a, m(k := None))))"

definition cluster_stack_spec_convert_to :: "cluster_stack_spec \<Rightarrow> cluster_stack_spec_v1 \<Rightarrow> cluster_stack_spec_v1" where
  "cluster_stack_spec_convert_to s to = to
     \<lparr>css1_id := css_id s, css1_build_image := css_build_image s, css1_run_image := css_run_image s\<rparr>"

definition cluster_stack_spec_convert_from :: "cluster_stack_spec_v1 \<Rightarrow> cluster_stack_spec \<Rightarrow> cluster_stack_spec" where
  "cluster_stack_spec_convert_from from s = s
     \<lparr>css_id := css1_id from, css_build_image := css1_build_image from, css_run_image := css1_run_image from\<rparr>"

text \<open>The status of both versions has the same fields, copied one by one.\<close>

definition stack_status_convert :: "resolved_cluster_stack \<Rightarrow> resolved_cluster_stack \<Rightarrow> resolved_cluster_stack" where
  "stack_status_convert from s = s
     \<lparr>rcs_id := rcs_id from,
      rcs_build_image := \<lparr>csi_latest_image = csi_latest_image (rcs_build_image from), csi_image = csi_image (rcs_build_image from)\<rparr>,
      rcs_run_image := \<lparr>csi_latest_image = csi_latest_image (rcs_run_image from), csi_image = csi_image (rcs_run_image from)\<rparr>,
      rcs_mixins := rcs_mixins from, rcs_user_id := rcs_user_id from, rcs_group_id := rcs_group_id from\<rparr>"

definition cluster_stack_convert_to :: "conv_json \<Rightarrow> cluster_stack \<Rightarrow> cluster_stack_v1 \<Rightarrow> cluster_stack_v1 res" where
  "cluster_stack_convert_to J s to =
     bind_res (ref_to_annotations J clusterStackServiceAccountRefAnnotation (css_service_account_ref (stk_spec s))
                 (meta_annotations (stk_meta s))) (\<lambda>m.
       Inr \<lparr>stk1_meta = (stk_meta s)\<lparr>meta_annotations := m\<rparr>,
            stk1_spec = cluster_stack_spec_convert_to (stk_spec s) (stk1_spec to),
            stk1_status = stk_status s, stk1_resolved = stack_status_convert (stk_resolved s) (stk1_resolved to)\<rparr>)"

definition cluster_stack_convert_from :: "conv_json \<Rightarrow> cluster_stack_v1 \<Rightarrow> cluster_stack \<Rightarrow> cluster_stack" where
  "cluster_stack_convert_from J from s =
     (let (r, m) = ref_from_annotations J clusterStackServiceAccountRefAnnotation (meta_annotations (stk1_meta from))
                     (css_service_account_ref (stk_spec s))
      in \<lparr>stk_meta = (stk1_meta from)\<lparr>meta_annotations := m\<rparr>,
          stk_spec = (cluster_stack_spec_convert_from (stk1_spec from) (stk_spec s))\<lparr>css_service_account_ref := r\<rparr>,
          stk_status = stk1_status from, stk_resolved = stack_status_convert (stk1_resolved from) (stk_resolved s)\<rparr>)"

definition cluster_store_convert_to :: "conv_json \<Rightarrow> cluster_store \<Rightarrow> cluster_store_v1 \<Rightarrow> cluster_store_v1 res" where
  "cluster_store_convert_to J s to =
     bind_res (ref_to_annotations J clusterStoreServiceAccountRefAnnotation (csp_service_account_ref (sto_spec s))
                 (meta_annotations (sto_meta s))) (\<lambda>m.
       Inr \<lparr>sto1_meta = (sto_meta s)\<lparr>meta_annotations := m\<rparr>, sto1_sources = csp_sources (sto_spec s),
            sto1_status = sto_status s, sto1_buildpacks = sto_buildpacks s\<rparr>)"

definition cluster_store_convert_from :: "conv_json \<Rightarrow> cluster_store_v1 \<Rightarrow> cluster_store \<Rightarrow> cluster_store" where
  "cluster_store_convert_from J from s =
     (let (r, m) = ref_from_annotations J clusterStoreServiceAccountRefAnnotation (meta_annotations (sto1_meta from))
                     (csp_service_account_ref (sto_spec s))
      in s\<lparr>sto_meta := (sto1_meta from)\<lparr>meta_annotations := m\<rparr>,
           sto_spec := \<lparr>csp_sources = sto1_sources from, csp_service_account_ref = r\<rparr>,
           sto_status := sto1_status from, sto_buildpacks := sto1_buildpacks from\<rparr>)"

definition source_resolver_convert_to :: "source_resolver \<Rightarrow> source_resolver_v1 \<Rightarrow> source_resolver_v1" where
  "source_resolver_convert_to s to = to
     \<lparr>sr1_meta := sr_meta s, sr1_source := srs_source (sr_spec s), sr1_service_account := srs_service_account (sr_spec s),
      sr1_status := srt_status (sr_status s), sr1_resolved := srt_source (sr_status s)\<rparr>"

definition source_resolver_convert_from :: "source_resolver_v1 \<Rightarrow> source_resolver \<Rightarrow> source_resolver" where
  "source_resolver_convert_from from s = s
     \<lparr>sr_meta := sr1_meta from,
      sr_spec := \<lparr>srs_service_account = sr1_service_account from, srs_source = sr1_source from\<rparr>,
      sr_status := \<lparr>srt_status = sr1_status from, srt_source = sr1_resolved from\<rparr>\<rparr>"

section \<open>Empty objects\<close>

text \<open>What \<open>new(T)\<close> gives, where a conversion leaves fields alone.\<close>

definition empty_image_spec :: image_spec where
  "empty_image_spec = \<lparr>is_tag = '''', is_builder = empty_object_ref, is_service_account = '''', is_source = empty_source,
     is_cache = None, is_failed_limit = None, is_success_limit = None, is_tagging = '''', is_project_descriptor = '''',
     is_build = None, is_notary = None, is_cosign = None, is_default_process = '''', is_additional_tags = []\<rparr>"

definition empty_image_status :: image_status where
  "empty_image_status = \<lparr>ims_status = empty_status, ims_latest_build_ref = '''', ims_latest_build_generation = 0,
     ims_latest_image = '''', ims_latest_stack = '''', ims_build_counter = 0, ims_build_cache_name = '''',
     ims_latest_build_reason = ''''\<rparr>"

definition empty_image_object :: image where
  "empty_image_object = \<lparr>im_meta = empty_meta, im_spec = empty_image_spec, im_status = empty_image_status\<rparr>"

definition empty_image_v1 :: image_v1 where
  "empty_image_v1 = \<lparr>im1_meta = empty_meta,
     im1_spec = \<lparr>is1_tag = '''', is1_builder = empty_object_ref, is1_service_account = '''', is1_source = empty_source,
       is1_cache_size = None, is1_failed_limit = None, is1_success_limit = None, is1_tagging = '''', is1_build = None,
       is1_notary = None\<rparr>,
     im1_status = \<lparr>ims1_status = empty_status, ims1_latest_build_ref = '''', ims1_latest_build_generation = 0,
       ims1_latest_image = '''', ims1_latest_stack = '''', ims1_build_counter = 0, ims1_build_cache_name = '''',
       ims1_latest_build_reason = ''''\<rparr>\<rparr>"

definition empty_builder_spec :: builder_spec where
  "empty_builder_spec = \<lparr>bds_tag = '''', bds_stack = empty_object_ref, bds_lifecycle = empty_object_ref,
     bds_store = empty_object_ref, bds_order = [], bds_additional_labels = Map.empty\<rparr>"

definition empty_builder_spec_v1 :: builder_spec_v1 where
  "empty_builder_spec_v1 = \<lparr>bds1_tag = '''', bds1_stack = empty_object_ref, bds1_store = empty_object_ref, bds1_order = []\<rparr>"

section \<open>Steps\<close>

lemma run_steps_append:
  "run_steps (xs @ ys) im = (case run_steps xs im of (im', Some e) \<Rightarrow> (im', Some e) | (im', None) \<Rightarrow> run_steps ys im')"
  by (induction xs arbitrary: im) (auto split: option.split prod.split)

text \<open>
  One annotation on an object whose remaining annotations still agree with the source: the step sets the
  field, or leaves it when there is none to set, and the key is gone.
\<close>

lemma take_annotation_step:
  fixes M :: object_meta and st :: image_status
  defines "mk m s \<equiv> \<lparr>im_meta = M\<lparr>meta_annotations := m\<rparr>, im_spec = s, im_status = st\<rparr>"
  assumes "m k = src k"
    and "src k = None \<Longrightarrow> s' = s"
    and "\<And>t. src k = Some t \<Longrightarrow> \<exists>v. parse t = Inr v \<and> put v (prepare (mk m s)) = mk m s'"
  shows "take_annotation src k prepare parse put (mk m s) = (mk (m(k := None)) s', None)"
proof (cases "src k")
  case None
  with assms(2,3) show ?thesis by (simp add: take_annotation_def mk_def fun_upd_idem)
next
  case (Some t)
  from assms(4) [OF this] obtain v where "parse t = Inr v" "put v (prepare (mk m s)) = mk m s'" by blast
  with Some show ?thesis by (simp add: take_annotation_def delete_annotation_def) (simp add: mk_def)
qed

text \<open>Writing a list of optional annotations.\<close>

definition put_opt :: "string \<Rightarrow> string option \<Rightarrow> str_map \<Rightarrow> str_map" where
  "put_opt k v m = (case v of None \<Rightarrow> m | Some t \<Rightarrow> m(k \<mapsto> t))"

fun puts :: "(string \<times> string option) list \<Rightarrow> str_map \<Rightarrow> str_map" where
  "puts [] m = m"
| "puts ((k, v) # kvs) m = puts kvs (put_opt k v m)"

lemma puts_other: "k \<notin> set (map fst kvs) \<Longrightarrow> puts kvs m k = m k"
  by (induction kvs arbitrary: m) (auto simp: put_opt_def split: option.split)

lemma puts_lookup:
  "distinct (map fst kvs) \<Longrightarrow> (k, v) \<in> set kvs \<Longrightarrow> m k = None \<Longrightarrow> puts kvs m k = v"
proof (induction kvs arbitrary: m)
  case (Cons a kvs)
  obtain k' v' where a: "a = (k', v')" by force
  show ?case
  proof (cases "k = k'")
    case True
    with Cons.prems a have "v = v'" "k \<notin> set (map fst kvs)" by (auto simp: rev_image_eqI)
    with True a Cons.prems show ?thesis by (simp add: puts_other put_opt_def split: option.split)
  next
    case False
    with Cons a show ?thesis by (auto simp: put_opt_def split: option.split)
  qed
qed simp

definition conversion_keys :: "string list" where
  "conversion_keys = [servicesConversionAnnotation, tolerationsConversionAnnotation, nodeSelectorConversionAnnotation,
     affinityConversionAnnotation, runtimeClassNameConversionAnnotation, schedulerNameConversionAnnotation,
     buildTimeoutConversionAnnotation, storageClassNameConversionAnnotation, registryTagConversionAnnotation,
     projectDescriptorPathConversionAnnotation, cosignAnnotationConversionAnnotation, defaultProcessConversionAnnotation]"

lemma conversion_keys_distinct: "distinct conversion_keys"
  by (simp add: conversion_keys_def conversion_annotation_defs)

definition empty_build_builder :: build_builder_spec where
  "empty_build_builder = \<lparr>bb_image = '''', bb_pull_secrets = [], bb_ref = None\<rparr>"

definition empty_build_object :: build where
  "empty_build_object = \<lparr>b_meta = empty_meta,
     b_spec = \<lparr>bs_tags = [], bs_builder = empty_build_builder, bs_service_account = '''', bs_source = empty_source,
       bs_cache = None, bs_run_image = '''', bs_active_deadline = None, bs_services = [], bs_cnb_bindings = [], bs_env = [],
       bs_project_descriptor = '''', bs_resources = '''', bs_last_build = None, bs_notary = None, bs_cosign = None,
       bs_default_process = '''', bs_tolerations = [], bs_node_selector = Map.empty, bs_affinity = None,
       bs_runtime_class = None, bs_scheduler = '''', bs_priority_class = '''', bs_creation_time = ''''\<rparr>,
     b_status = empty_build_status\<rparr>"

definition empty_build_v1 :: build_v1 where
  "empty_build_v1 = \<lparr>b1_meta = empty_meta,
     b1_spec = \<lparr>bs1_tags = [], bs1_builder = empty_build_builder, bs1_service_account = '''', bs1_source = empty_source,
       bs1_cache_name = '''', bs1_bindings = [], bs1_env = [], bs1_resources = '''', bs1_last_build = None, bs1_notary = None\<rparr>,
     b1_status = \<lparr>bst1_status = empty_status, bst1_build_metadata = [],
       bst1_stack = \<lparr>stack_run_image = '''', stack_id = ''''\<rparr>, bst1_latest_image = '''', bst1_pod_name = '''',
       bst1_step_states = [], bst1_steps_completed = []\<rparr>\<rparr>"

definition empty_namespaced_spec :: namespaced_builder_spec where
  "empty_namespaced_spec = \<lparr>nbs_builder = empty_builder_spec, nbs_service_account_name = '''', nbs_compat_service_account = ''''\<rparr>"

definition empty_namespaced_spec_v1 :: namespaced_builder_spec_v1 where
  "empty_namespaced_spec_v1 = \<lparr>nbs1_builder = empty_builder_spec_v1, nbs1_service_account = ''''\<rparr>"

definition empty_cluster_spec :: cluster_builder_spec where
  "empty_cluster_spec = \<lparr>cbs_builder = empty_builder_spec, cbs_service_account_ref = empty_object_ref\<rparr>"

definition empty_cluster_spec_v1 :: cluster_builder_spec_v1 where
  "empty_cluster_spec_v1 = \<lparr>cbs1_builder = empty_builder_spec_v1, cbs1_service_account_ref = empty_object_ref\<rparr>"

end
