(* ===== verification/Conversion_Properties.thy ===== *)
theory Conversion_Properties
  imports Conversion Admission_Properties
begin

text \<open>
  The two API versions as one: objects of the old version survive the way through the new one, what an
  image of the new version loses on the way through the old one, and how far the validations agree.
\<close>

section \<open>An image through the old version\<close>

text \<open>JSON gives back the values of the image it is asked to keep.\<close>

definition json_law :: "conv_json \<Rightarrow> image_spec \<Rightarrow> bool" where
  "json_law J s \<longleftrightarrow>
     (\<forall>b. is_build s = Some b \<longrightarrow>
        (\<exists>t. cj_services J (ib_services b) = Inr t \<and> cj_parse_services J t = Inr (ib_services b)) \<and>
        (\<exists>t. cj_tolerations J (ib_tolerations b) = Inr t \<and> cj_parse_tolerations J t = Inr (ib_tolerations b)) \<and>
        (\<exists>t. cj_node_selector J (ib_node_selector b) = Inr t \<and> cj_parse_node_selector J t = Inr (ib_node_selector b)) \<and>
        (\<forall>a. ib_affinity b = Some a \<longrightarrow> (\<exists>t. cj_affinity J a = Inr t \<and> cj_parse_affinity J t = Inr (Some a)))) \<and>
     (\<forall>c. is_cosign s = Some c \<longrightarrow>
        (\<exists>t. cj_cosign J (cosign_annotations c) = Inr t \<and> cj_parse_cosign J t = Inr (cosign_annotations c)))"

definition kept :: "bool \<Rightarrow> 'a \<Rightarrow> 'a option" where
  "kept p x = (if p then Some x else None)"

text \<open>The annotations of an image in the old version, in the order of \<open>conversion_keys\<close>.\<close>

definition build_values :: "conv_json \<Rightarrow> image_build \<Rightarrow> string option list" where
  "build_values J b =
     [kept (ib_services b \<noteq> []) (projr (cj_services J (ib_services b))),
      kept (ib_tolerations b \<noteq> []) (projr (cj_tolerations J (ib_tolerations b))),
      kept (ib_node_selector b \<noteq> Map.empty) (projr (cj_node_selector J (ib_node_selector b))),
      map_option (\<lambda>a. projr (cj_affinity J a)) (ib_affinity b),
      ib_runtime_class b,
      kept (ib_scheduler b \<noteq> '''') (ib_scheduler b),
      map_option itoa (ib_build_timeout b)]"

definition class_value :: "image_spec \<Rightarrow> string option" where
  "class_value s = (case is_cache s of None \<Rightarrow> None | Some c \<Rightarrow>
     (case icc_volume c of None \<Rightarrow> None | Some v \<Rightarrow> kept (ivc_storage_class v \<noteq> '''') (ivc_storage_class v)))"

definition registry_value :: "image_spec \<Rightarrow> string option" where
  "registry_value s = (case is_cache s of None \<Rightarrow> None | Some c \<Rightarrow>
     (case icc_registry c of None \<Rightarrow> None | Some r \<Rightarrow> kept (rcache_tag r \<noteq> '''') (rcache_tag r)))"

definition cosign_value :: "conv_json \<Rightarrow> image_spec \<Rightarrow> string option" where
  "cosign_value J s = (case is_cosign s of None \<Rightarrow> None | Some c \<Rightarrow>
     kept (cosign_annotations c \<noteq> []) (projr (cj_cosign J (cosign_annotations c))))"

definition annotation_values :: "conv_json \<Rightarrow> image_spec \<Rightarrow> string option list" where
  "annotation_values J s =
     (case is_build s of None \<Rightarrow> replicate 7 None | Some b \<Rightarrow> build_values J b) @
     [class_value s, registry_value s, kept (is_project_descriptor s \<noteq> '''') (is_project_descriptor s),
      cosign_value J s, kept (is_default_process s \<noteq> '''') (is_default_process s)]"

lemma put_annotation_kept [simp]: "put_annotation p k (Inr t) m = Inr (put_opt k (kept p t) m)"
  by (simp add: put_annotation_def put_opt_def kept_def)

lemma put_annotation_option [simp]:
  "(case x of None \<Rightarrow> Inr m | Some a \<Rightarrow> put_annotation True k (Inr (g a)) m) = Inr (put_opt k (map_option g x) m)"
  by (cases x) (simp_all add: put_opt_def kept_def)

lemma put_opt_None [simp]: "put_opt k None m = m"
  by (simp add: put_opt_def)

lemma convert_to_annotations_puts:
  assumes "json_law J s"
  shows "convert_to_annotations J s m = Inr (puts (zip conversion_keys (annotation_values J s)) m)"
proof -
  have build: "(case is_build s of Some b \<Rightarrow> build_to_annotations J b m | None \<Rightarrow> Inr m) =
      Inr (puts (zip (take 7 conversion_keys) (take 7 (annotation_values J s))) m)"
  proof (cases "is_build s")
    case None
    then show ?thesis by (simp add: annotation_values_def conversion_keys_def numeral_eq_Suc)
  next
    case (Some b)
    obtain t1 t2 t3 where t: "cj_services J (ib_services b) = Inr t1" "cj_tolerations J (ib_tolerations b) = Inr t2"
        "cj_node_selector J (ib_node_selector b) = Inr t3"
      using assms Some by (auto simp: json_law_def)
    have a: "(case ib_affinity b of Some a \<Rightarrow> put_annotation True affinityConversionAnnotation (cj_affinity J a) m' | None \<Rightarrow> Inr m') =
        Inr (put_opt affinityConversionAnnotation (map_option (\<lambda>a. projr (cj_affinity J a)) (ib_affinity b)) m')" for m'
      using assms Some by (auto simp: json_law_def kept_def put_opt_def split: option.split)
    show ?thesis
      using put_annotation_option [where g = id and x = "ib_runtime_class b"]
      by (simp add: Some build_to_annotations_def t a annotation_values_def build_values_def conversion_keys_def option.map_id)
  qed
  have cache: "(case is_cache s of Some c \<Rightarrow> cache_to_annotations c m' | None \<Rightarrow> Inr m') =
      Inr (put_opt registryTagConversionAnnotation (registry_value s) (put_opt storageClassNameConversionAnnotation (class_value s) m'))" for m'
    by (auto simp: cache_to_annotations_def registry_value_def class_value_def split: option.split)
  have cosign: "(case is_cosign s of
        Some c \<Rightarrow> put_annotation (length (cosign_annotations c) > 0) cosignAnnotationConversionAnnotation
                    (cj_cosign J (cosign_annotations c)) m'
      | None \<Rightarrow> Inr m') = Inr (put_opt cosignAnnotationConversionAnnotation (cosign_value J s) m')" for m'
    using assms by (auto simp: json_law_def cosign_value_def split: option.split)
  have split: "puts (zip conversion_keys (annotation_values J s)) m =
      puts (zip (drop 7 conversion_keys) (drop 7 (annotation_values J s))) (puts (zip (take 7 conversion_keys) (take 7 (annotation_values J s))) m)"
    by (simp add: annotation_values_def build_values_def conversion_keys_def numeral_eq_Suc split: option.split)
  show ?thesis
    unfolding split convert_to_annotations_def build
    by (simp add: cache cosign annotation_values_def build_values_def conversion_keys_def split: option.split)
qed

text \<open>What is left of an image of the new version after the way through the old one.\<close>

definition volume_left :: "image_cache_config \<Rightarrow> image_volume_cache option" where
  "volume_left c = (case icc_volume c of None \<Rightarrow> None
     | Some v \<Rightarrow> kept (ivc_size v \<noteq> None \<or> ivc_storage_class v \<noteq> '''') v)"

definition registry_left :: "image_cache_config \<Rightarrow> registry_cache option" where
  "registry_left c = (case icc_registry c of None \<Rightarrow> None | Some r \<Rightarrow> kept (rcache_tag r \<noteq> '''') r)"

definition cache_left :: "image_cache_config option \<Rightarrow> image_cache_config option" where
  "cache_left c = (case c of None \<Rightarrow> None
     | Some c \<Rightarrow> kept (volume_left c \<noteq> None \<or> registry_left c \<noteq> None) \<lparr>icc_volume = volume_left c, icc_registry = registry_left c\<rparr>)"

definition cosign_left :: "cosign_config option \<Rightarrow> cosign_config option" where
  "cosign_left c = (case c of None \<Rightarrow> None | Some c \<Rightarrow> kept (cosign_annotations c \<noteq> []) c)"

definition forget_spec :: "image_spec \<Rightarrow> image_spec" where
  "forget_spec s = s\<lparr>is_additional_tags := [], is_build := map_option (\<lambda>b. b\<lparr>ib_creation_time := ''''\<rparr>) (is_build s),
     is_cache := cache_left (is_cache s), is_cosign := cosign_left (is_cosign s)\<rparr>"

definition copied_build :: "image_build \<Rightarrow> image_build" where
  "copied_build b = empty_image_build\<lparr>ib_env := ib_env b, ib_resources := ib_resources b, ib_cnb_bindings := ib_cnb_bindings b\<rparr>"

lemma kept_simps [simp]: "kept True x = Some x" "kept False x = None"
  by (simp_all add: kept_def)

lemma kept_eq_Some_iff [simp]: "kept p x = Some y \<longleftrightarrow> p \<and> y = x" "Some y = kept p x \<longleftrightarrow> p \<and> y = x"
  by (auto simp: kept_def)

lemma kept_eq_None_iff [simp]: "kept p x = None \<longleftrightarrow> \<not> p" "None = kept p x \<longleftrightarrow> \<not> p"
  by (simp_all add: kept_def)

definition with_parts :: "object_meta \<Rightarrow> image_status \<Rightarrow> str_map \<Rightarrow> image_spec \<Rightarrow> image" where
  "with_parts M st m s = \<lparr>im_meta = M\<lparr>meta_annotations := m\<rparr>, im_spec = s, im_status = st\<rparr>"

lemmas annotation_step = take_annotation_step [where M = M and st = st, folded with_parts_def] for M st

lemma conversion_keys_distinct_rev: "distinct (rev conversion_keys)"
  by (simp only: distinct_rev conversion_keys_distinct)

lemmas key_neqs = conversion_keys_distinct [unfolded conversion_keys_def, simplified]
  conversion_keys_distinct_rev [unfolded conversion_keys_def, simplified]

lemma build_annotation_step:
  assumes "m k = from k" and "is_build s = Some B" and "from k = None \<Longrightarrow> B' = B"
    and "\<And>t. from k = Some t \<Longrightarrow> \<exists>v. parse t = Inr v \<and> f v B = B'"
  shows "take_annotation from k (in_build id) parse (\<lambda>v. in_build (f v)) (with_parts M st m s) =
    (with_parts M st (m(k := None)) (s\<lparr>is_build := Some B'\<rparr>), None)"
proof (rule annotation_step)
  show "m k = from k" by (rule assms(1))
next
  assume "from k = None"
  with assms(2,3) show "s\<lparr>is_build := Some B'\<rparr> = s" by simp
next
  fix t assume "from k = Some t"
  with assms(4) obtain v where "parse t = Inr v" "f v B = B'" by blast
  with assms(2) show "\<exists>v. parse t = Inr v \<and> in_build (f v) (in_build id (with_parts M st m s)) =
      with_parts M st m (s\<lparr>is_build := Some B'\<rparr>)"
    by (intro exI [of _ v]) (simp add: in_build_def in_spec_def with_parts_def)
qed

definition build_spec_agrees :: "conv_json \<Rightarrow> str_map \<Rightarrow> image_build \<Rightarrow> bool" where
  "build_spec_agrees J from b \<longleftrightarrow> map from (take 7 conversion_keys) = build_values J b"

lemma build_steps:
  assumes law: "json_law J s" and b: "is_build s = Some b" and s0: "is_build s0 = Some (copied_build b)"
    and timeout: "\<And>t. ib_build_timeout b = Some t \<Longrightarrow> fits64 t"
    and ann: "build_spec_agrees J from b"
  shows "run_steps (take 7 (annotation_steps J from)) (with_parts M st from s0) =
    (with_parts M st (fold (\<lambda>k m. m(k := None)) (take 7 conversion_keys) from)
       (s0\<lparr>is_build := Some (b\<lparr>ib_creation_time := ''''\<rparr>)\<rparr>), None)"
proof -
  obtain t1 t2 t3 where t: "cj_services J (ib_services b) = Inr t1" "cj_parse_services J t1 = Inr (ib_services b)"
      "cj_tolerations J (ib_tolerations b) = Inr t2" "cj_parse_tolerations J t2 = Inr (ib_tolerations b)"
      "cj_node_selector J (ib_node_selector b) = Inr t3" "cj_parse_node_selector J t3 = Inr (ib_node_selector b)"
    using law b by (auto simp: json_law_def)
  have aff: "\<And>a. ib_affinity b = Some a \<Longrightarrow> cj_parse_affinity J (projr (cj_affinity J a)) = Inr (Some a)"
    using law b by (auto simp: json_law_def)
  have F: "from servicesConversionAnnotation = kept (ib_services b \<noteq> []) t1"
      "from tolerationsConversionAnnotation = kept (ib_tolerations b \<noteq> []) t2"
      "from nodeSelectorConversionAnnotation = kept (ib_node_selector b \<noteq> Map.empty) t3"
      "from affinityConversionAnnotation = map_option (\<lambda>a. projr (cj_affinity J a)) (ib_affinity b)"
      "from runtimeClassNameConversionAnnotation = ib_runtime_class b"
      "from schedulerNameConversionAnnotation = kept (ib_scheduler b \<noteq> '''') (ib_scheduler b)"
      "from buildTimeoutConversionAnnotation = map_option itoa (ib_build_timeout b)"
    using ann by (simp_all add: build_spec_agrees_def conversion_keys_def build_values_def numeral_eq_Suc t)
  let ?B0 = "copied_build b"
  let ?B1 = "?B0\<lparr>ib_services := ib_services b\<rparr>" let ?B2 = "?B1\<lparr>ib_tolerations := ib_tolerations b\<rparr>"
  let ?B3 = "?B2\<lparr>ib_node_selector := ib_node_selector b\<rparr>" let ?B4 = "?B3\<lparr>ib_affinity := ib_affinity b\<rparr>"
  let ?B5 = "?B4\<lparr>ib_runtime_class := ib_runtime_class b\<rparr>" let ?B6 = "?B5\<lparr>ib_scheduler := ib_scheduler b\<rparr>"
  let ?B7 = "?B6\<lparr>ib_build_timeout := ib_build_timeout b\<rparr>"
  have last: "?B7 = b\<lparr>ib_creation_time := ''''\<rparr>" by (cases b) (simp add: copied_build_def empty_image_build_def)
  note defs = copied_build_def empty_image_build_def conversion_annotation_defs
  let ?P = "with_parts M st"
  have 1: "take_annotation from servicesConversionAnnotation (in_build id) (cj_parse_services J)
      (\<lambda>v. in_build (\<lambda>b. b\<lparr>ib_services := v\<rparr>)) (?P m s) = (?P (m(servicesConversionAnnotation := None)) (s\<lparr>is_build := Some ?B1\<rparr>), None)"
    if "is_build s = Some ?B0" "m servicesConversionAnnotation = from servicesConversionAnnotation" for s m
    using that F t by (intro build_annotation_step [where B = ?B0]) (auto simp: defs)
  have 2: "take_annotation from tolerationsConversionAnnotation (in_build id) (cj_parse_tolerations J)
      (\<lambda>v. in_build (\<lambda>b. b\<lparr>ib_tolerations := v\<rparr>)) (?P m s) = (?P (m(tolerationsConversionAnnotation := None)) (s\<lparr>is_build := Some ?B2\<rparr>), None)"
    if "is_build s = Some ?B1" "m tolerationsConversionAnnotation = from tolerationsConversionAnnotation" for s m
    using that F t by (intro build_annotation_step [where B = ?B1]) (auto simp: defs)
  have 3: "take_annotation from nodeSelectorConversionAnnotation (in_build id) (cj_parse_node_selector J)
      (\<lambda>v. in_build (\<lambda>b. b\<lparr>ib_node_selector := v\<rparr>)) (?P m s) = (?P (m(nodeSelectorConversionAnnotation := None)) (s\<lparr>is_build := Some ?B3\<rparr>), None)"
    if "is_build s = Some ?B2" "m nodeSelectorConversionAnnotation = from nodeSelectorConversionAnnotation" for s m
    using that F t by (intro build_annotation_step [where B = ?B2]) (auto simp: defs)
  have 4: "take_annotation from affinityConversionAnnotation (in_build id) (cj_parse_affinity J)
      (\<lambda>v. in_build (\<lambda>b. b\<lparr>ib_affinity := v\<rparr>)) (?P m s) = (?P (m(affinityConversionAnnotation := None)) (s\<lparr>is_build := Some ?B4\<rparr>), None)"
    if "is_build s = Some ?B3" "m affinityConversionAnnotation = from affinityConversionAnnotation" for s m
    using that F aff by (intro build_annotation_step [where B = ?B3]) (auto simp: defs)
  have 5: "take_annotation from runtimeClassNameConversionAnnotation (in_build id) Inr
      (\<lambda>v. in_build (\<lambda>b. b\<lparr>ib_runtime_class := Some v\<rparr>)) (?P m s) = (?P (m(runtimeClassNameConversionAnnotation := None)) (s\<lparr>is_build := Some ?B5\<rparr>), None)"
    if "is_build s = Some ?B4" "m runtimeClassNameConversionAnnotation = from runtimeClassNameConversionAnnotation" for s m
    using that F by (intro build_annotation_step [where B = ?B4]) (auto simp: defs)
  have 6: "take_annotation from schedulerNameConversionAnnotation (in_build id) Inr
      (\<lambda>v. in_build (\<lambda>b. b\<lparr>ib_scheduler := v\<rparr>)) (?P m s) = (?P (m(schedulerNameConversionAnnotation := None)) (s\<lparr>is_build := Some ?B6\<rparr>), None)"
    if "is_build s = Some ?B5" "m schedulerNameConversionAnnotation = from schedulerNameConversionAnnotation" for s m
    using that F by (intro build_annotation_step [where B = ?B5]) (auto simp: defs)
  have 7: "take_annotation from buildTimeoutConversionAnnotation (in_build id) parse_int
      (\<lambda>v. in_build (\<lambda>b. b\<lparr>ib_build_timeout := Some v\<rparr>)) (?P m s) = (?P (m(buildTimeoutConversionAnnotation := None)) (s\<lparr>is_build := Some ?B7\<rparr>), None)"
    if "is_build s = Some ?B6" "m buildTimeoutConversionAnnotation = from buildTimeoutConversionAnnotation" for s m
    using that F timeout by (intro build_annotation_step [where B = ?B6]) (auto simp: defs parse_int_itoa)
  show ?thesis
    unfolding last [symmetric]
    by (simp add: annotation_steps_def conversion_keys_def numeral_eq_Suc 1 2 3 4 5 6 7 s0 key_neqs)
qed

lemma absent_step:
  "m k = None \<Longrightarrow> from k = None \<Longrightarrow>
   take_annotation from k prepare parse put (with_parts M st m s) = (with_parts M st (m(k := None)) s, None)"
  by (rule annotation_step) simp_all

lemma build_steps_none:
  assumes "\<forall>k \<in> set (take 7 conversion_keys). from k = None"
  shows "run_steps (take 7 (annotation_steps J from)) (with_parts M st from s0) =
    (with_parts M st (fold (\<lambda>k m. m(k := None)) (take 7 conversion_keys) from) s0, None)"
  using assms by (simp add: annotation_steps_def conversion_keys_def numeral_eq_Suc absent_step)

text \<open>The cache before its annotations: a size is all the old version can hold.\<close>

definition sized_cache :: "image_cache_config option \<Rightarrow> image_cache_config option" where
  "sized_cache c = (case c of None \<Rightarrow> None | Some c \<Rightarrow> (case icc_volume c of None \<Rightarrow> None | Some v \<Rightarrow>
     (case ivc_size v of None \<Rightarrow> None
      | Some sz \<Rightarrow> Some \<lparr>icc_volume = Some \<lparr>ivc_size = Some sz, ivc_storage_class = ''''\<rparr>, icc_registry = None\<rparr>)))"

definition classed_cache :: "image_cache_config option \<Rightarrow> image_cache_config option" where
  "classed_cache c = (case c of None \<Rightarrow> None | Some c \<Rightarrow> (case volume_left c of None \<Rightarrow> None
     | Some v \<Rightarrow> Some \<lparr>icc_volume = Some v, icc_registry = None\<rparr>))"

lemma rest_steps:
  assumes law: "json_law J s"
    and ann: "map from (drop 7 conversion_keys) = [class_value s, registry_value s,
      kept (is_project_descriptor s \<noteq> '''') (is_project_descriptor s), cosign_value J s,
      kept (is_default_process s \<noteq> '''') (is_default_process s)]"
    and agree: "\<forall>k \<in> set (drop 7 conversion_keys). m k = from k"
    and s0: "is_cache s0 = sized_cache (is_cache s)" "is_project_descriptor s0 = ''''" "is_cosign s0 = None"
      "is_default_process s0 = ''''"
  shows "run_steps (drop 7 (annotation_steps J from)) (with_parts M st m s0) =
    (with_parts M st (fold (\<lambda>k m. m(k := None)) (drop 7 conversion_keys) m)
       (s0\<lparr>is_cache := cache_left (is_cache s), is_project_descriptor := is_project_descriptor s,
          is_cosign := cosign_left (is_cosign s), is_default_process := is_default_process s\<rparr>), None)"
proof -
  have F: "from storageClassNameConversionAnnotation = class_value s"
      "from registryTagConversionAnnotation = registry_value s"
      "from projectDescriptorPathConversionAnnotation = kept (is_project_descriptor s \<noteq> '''') (is_project_descriptor s)"
      "from cosignAnnotationConversionAnnotation = cosign_value J s"
      "from defaultProcessConversionAnnotation = kept (is_default_process s \<noteq> '''') (is_default_process s)"
    using ann by (simp_all add: conversion_keys_def)
  let ?P = "with_parts M st"
  note parts = with_parts_def in_cache_def in_spec_def set_storage_class_def set_registry_tag_def
  have 1: "take_annotation from storageClassNameConversionAnnotation id Inr (\<lambda>v. in_cache (set_storage_class v)) (?P m s') =
      (?P (m(storageClassNameConversionAnnotation := None)) (s'\<lparr>is_cache := classed_cache (is_cache s)\<rparr>), None)"
    if "is_cache s' = sized_cache (is_cache s)" "m storageClassNameConversionAnnotation = from storageClassNameConversionAnnotation" for s' m
    using that F(1)
    by (intro annotation_step)
       (auto simp: parts sized_cache_def classed_cache_def class_value_def volume_left_def kept_def split: option.splits if_splits)
  have 2: "take_annotation from registryTagConversionAnnotation id Inr (\<lambda>v. in_cache (set_registry_tag v)) (?P m s') =
      (?P (m(registryTagConversionAnnotation := None)) (s'\<lparr>is_cache := cache_left (is_cache s)\<rparr>), None)"
    if "is_cache s' = classed_cache (is_cache s)" "m registryTagConversionAnnotation = from registryTagConversionAnnotation" for s' m
    using that F(2)
    by (intro annotation_step)
       (auto simp: parts cache_left_def classed_cache_def registry_value_def registry_left_def kept_def registry_cache.expand
          split: option.splits if_splits)
  have 3: "take_annotation from projectDescriptorPathConversionAnnotation id Inr
        (\<lambda>v. in_spec (\<lambda>s. s\<lparr>is_project_descriptor := v\<rparr>)) (?P m s') =
      (?P (m(projectDescriptorPathConversionAnnotation := None)) (s'\<lparr>is_project_descriptor := is_project_descriptor s\<rparr>), None)"
    if "is_project_descriptor s' = ''''" "m projectDescriptorPathConversionAnnotation = from projectDescriptorPathConversionAnnotation" for s' m
    using that F(3) by (intro annotation_step) (auto simp: parts)
  have 4: "take_annotation from cosignAnnotationConversionAnnotation id (cj_parse_cosign J)
        (\<lambda>v. in_spec (\<lambda>s. s\<lparr>is_cosign := Some (CosignConfig v)\<rparr>)) (?P m s') =
      (?P (m(cosignAnnotationConversionAnnotation := None)) (s'\<lparr>is_cosign := cosign_left (is_cosign s)\<rparr>), None)"
    if "is_cosign s' = None" "m cosignAnnotationConversionAnnotation = from cosignAnnotationConversionAnnotation" for s' m
  proof (intro annotation_step)
    show "m cosignAnnotationConversionAnnotation = from cosignAnnotationConversionAnnotation" by (rule that(2))
    show "s'\<lparr>is_cosign := cosign_left (is_cosign s)\<rparr> = s'" if "from cosignAnnotationConversionAnnotation = None"
      using that F(4) \<open>is_cosign s' = None\<close> by (cases "is_cosign s") (simp_all add: cosign_value_def cosign_left_def)
    fix t assume "from cosignAnnotationConversionAnnotation = Some t"
    then obtain c where c: "is_cosign s = Some c" "cosign_annotations c \<noteq> []" "t = projr (cj_cosign J (cosign_annotations c))"
      using F(4) by (cases "is_cosign s") (simp_all add: cosign_value_def)
    with law have "cj_parse_cosign J t = Inr (cosign_annotations c)" unfolding json_law_def by fastforce
    with c show "\<exists>v. cj_parse_cosign J t = Inr v \<and> in_spec (\<lambda>s. s\<lparr>is_cosign := Some (CosignConfig v)\<rparr>) (id (?P m s')) =
        ?P m (s'\<lparr>is_cosign := cosign_left (is_cosign s)\<rparr>)"
      by (intro exI [of _ "cosign_annotations c"]) (simp add: parts cosign_left_def)
  qed
  have 5: "take_annotation from defaultProcessConversionAnnotation id Inr
        (\<lambda>v. in_spec (\<lambda>s. s\<lparr>is_default_process := v\<rparr>)) (?P m s') =
      (?P (m(defaultProcessConversionAnnotation := None)) (s'\<lparr>is_default_process := is_default_process s\<rparr>), None)"
    if "is_default_process s' = ''''" "m defaultProcessConversionAnnotation = from defaultProcessConversionAnnotation" for s' m
    using that F(5) by (intro annotation_step) (auto simp: parts)
  have A: "m storageClassNameConversionAnnotation = from storageClassNameConversionAnnotation"
      "m registryTagConversionAnnotation = from registryTagConversionAnnotation"
      "m projectDescriptorPathConversionAnnotation = from projectDescriptorPathConversionAnnotation"
      "m cosignAnnotationConversionAnnotation = from cosignAnnotationConversionAnnotation"
      "m defaultProcessConversionAnnotation = from defaultProcessConversionAnnotation"
    using agree by (simp_all add: conversion_keys_def)
  show ?thesis
    by (simp add: annotation_steps_def conversion_keys_def 1 2 3 4 5 s0 A key_neqs)
qed

lemma fold_delete: "fold (\<lambda>k m. m(k := None)) ks m x = (if x \<in> set ks then None else m x)"
  by (induction ks arbitrary: m) auto

lemma length_annotation_values [simp]: "length (annotation_values J s) = length conversion_keys"
  by (simp add: annotation_values_def build_values_def conversion_keys_def split: option.split)

lemma puts_values:
  assumes "\<forall>k \<in> set conversion_keys. m k = None"
  shows "map (puts (zip conversion_keys (annotation_values J s)) m) conversion_keys = annotation_values J s"
proof (rule nth_equalityI)
  fix i assume "i < length (map (puts (zip conversion_keys (annotation_values J s)) m) conversion_keys)"
  then have i: "i < length conversion_keys" by simp
  then have "(conversion_keys ! i, annotation_values J s ! i) \<in> set (zip conversion_keys (annotation_values J s))"
    by (auto simp: in_set_zip)
  moreover have "distinct (map fst (zip conversion_keys (annotation_values J s)))"
    by (simp add: conversion_keys_distinct)
  ultimately show "map (puts (zip conversion_keys (annotation_values J s)) m) conversion_keys ! i = annotation_values J s ! i"
    using assms i by (simp add: puts_lookup)
qed simp

lemma convert_from_puts:
  fixes im :: image and J
  defines "m \<equiv> meta_annotations (im_meta im)"
  defines "A \<equiv> puts (zip conversion_keys (annotation_values J (im_spec im))) m"
  assumes law: "json_law J (im_spec im)" and free: "\<forall>k \<in> set conversion_keys. m k = None"
    and timeout: "\<And>b t. is_build (im_spec im) = Some b \<Longrightarrow> ib_build_timeout b = Some t \<Longrightarrow> fits64 t"
    and s0: "is_cache s0 = sized_cache (is_cache (im_spec im))" "is_project_descriptor s0 = ''''" "is_cosign s0 = None"
      "is_default_process s0 = ''''" "is_build s0 = map_option copied_build (is_build (im_spec im))"
  shows "convert_from_annotations J A (with_parts (im_meta im) st A s0) =
    (\<lparr>im_meta = im_meta im,
      im_spec = s0\<lparr>is_build := map_option (\<lambda>b. b\<lparr>ib_creation_time := ''''\<rparr>) (is_build (im_spec im)),
        is_cache := cache_left (is_cache (im_spec im)), is_project_descriptor := is_project_descriptor (im_spec im),
        is_cosign := cosign_left (is_cosign (im_spec im)), is_default_process := is_default_process (im_spec im)\<rparr>,
      im_status = st\<rparr>, None)"
proof -
  let ?s = "im_spec im"
  let ?m1 = "fold (\<lambda>k m. m(k := None)) (take 7 conversion_keys) A"
  let ?s1 = "s0\<lparr>is_build := map_option (\<lambda>b. b\<lparr>ib_creation_time := ''''\<rparr>) (is_build ?s)\<rparr>"
  have vals: "map A conversion_keys = annotation_values J ?s" unfolding A_def using free by (rule puts_values)
  have front: "run_steps (take 7 (annotation_steps J A)) (with_parts (im_meta im) st A s0) = (with_parts (im_meta im) st ?m1 ?s1, None)"
  proof (cases "is_build ?s")
    case None
    have "map A (take 7 conversion_keys) = take 7 (annotation_values J ?s)" by (simp only: take_map [symmetric] vals)
    then have "\<forall>k \<in> set (take 7 conversion_keys). A k = None"
      by (simp add: None annotation_values_def conversion_keys_def numeral_eq_Suc)
    from build_steps_none [OF this] None s0(5) show ?thesis by (cases s0) simp
  next
    case (Some b)
    have "build_spec_agrees J A b"
      unfolding build_spec_agrees_def take_map [symmetric] vals by (simp add: Some annotation_values_def build_values_def)
    then have "run_steps (take 7 (annotation_steps J A)) (with_parts (im_meta im) st A s0) =
        (with_parts (im_meta im) st ?m1 (s0\<lparr>is_build := Some (b\<lparr>ib_creation_time := ''''\<rparr>)\<rparr>), None)"
      using s0(5) Some timeout by (intro build_steps [OF law Some]) simp_all
    with Some show ?thesis by simp
  qed
  have tail: "map A (drop 7 conversion_keys) = [class_value ?s, registry_value ?s,
      kept (is_project_descriptor ?s \<noteq> '''') (is_project_descriptor ?s), cosign_value J ?s,
      kept (is_default_process ?s \<noteq> '''') (is_default_process ?s)]"
    unfolding drop_map [symmetric] vals by (simp add: annotation_values_def build_values_def split: option.split)
  have disjoint: "\<forall>k \<in> set (drop 7 conversion_keys). k \<notin> set (take 7 conversion_keys)"
    using set_take_disj_set_drop_if_distinct [OF conversion_keys_distinct, of 7 7] by auto
  have agree: "\<forall>k \<in> set (drop 7 conversion_keys). ?m1 k = A k" using disjoint by (simp add: fold_delete)
  have others: "run_steps (drop 7 (annotation_steps J A)) (with_parts (im_meta im) st ?m1 ?s1) =
    (with_parts (im_meta im) st (fold (\<lambda>k m. m(k := None)) (drop 7 conversion_keys) ?m1)
       (?s1\<lparr>is_cache := cache_left (is_cache ?s), is_project_descriptor := is_project_descriptor ?s,
          is_cosign := cosign_left (is_cosign ?s), is_default_process := is_default_process ?s\<rparr>), None)"
    by (rule rest_steps [OF law tail agree]) (simp_all add: s0)
  have "fold (\<lambda>k m. m(k := None)) (drop 7 conversion_keys) ?m1 = m"
  proof
    fix k
    have in_keys: "k \<in> set (drop 7 conversion_keys) \<or> k \<in> set (take 7 conversion_keys) \<longleftrightarrow> k \<in> set conversion_keys"
      by (metis Un_iff append_take_drop_id set_append)
    have "A k = m k" if "k \<notin> set conversion_keys" unfolding A_def using that by (intro puts_other) simp
    then show "fold (\<lambda>k m. m(k := None)) (drop 7 conversion_keys) ?m1 k = m k"
      using in_keys free by (auto simp: fold_delete)
  qed
  then have done_meta: "with_parts (im_meta im) st (fold (\<lambda>k m. m(k := None)) (drop 7 conversion_keys) ?m1) s =
      \<lparr>im_meta = im_meta im, im_spec = s, im_status = st\<rparr>" for s
    by (simp add: with_parts_def m_def)
  have "annotation_steps J A = take 7 (annotation_steps J A) @ drop 7 (annotation_steps J A)" by simp
  then have "convert_from_annotations J A (with_parts (im_meta im) st A s0) =
      run_steps (take 7 (annotation_steps J A) @ drop 7 (annotation_steps J A)) (with_parts (im_meta im) st A s0)"
    by (simp add: convert_from_annotations_def)
  then show ?thesis unfolding run_steps_append front prod.case option.case others by (simp only: done_meta prod.case option.case)
qed

text \<open>
  C26: An image stored in the new version, without any of the annotations the conversion reserves for itself and
  with a build timeout that fits 64 bits, that a client reads and writes back in the old one keeps all but
  what neither a field nor an annotation of the old version holds: the additional tags and the creation
  time of its builds are lost, and empty caches and signing configurations become absent. Status and
  metadata come back as they were.
\<close>

theorem image_through_v1alpha1:
  assumes "json_law J (im_spec im)" and "\<forall>k \<in> set conversion_keys. meta_annotations (im_meta im) k = None"
    and "\<forall>b t. is_build (im_spec im) = Some b \<longrightarrow> ib_build_timeout b = Some t \<longrightarrow> fits64 t"
  shows "\<exists>old. image_convert_to J im empty_image_v1 = Inr old \<and>
    image_convert_from J old empty_image_object =
      im\<lparr>im_spec := (im_spec im)\<lparr>is_additional_tags := [],
           is_build := map_option (\<lambda>b. b\<lparr>ib_creation_time := ''''\<rparr>) (is_build (im_spec im)),
           is_cache := cache_left (is_cache (im_spec im)), is_cosign := cosign_left (is_cosign (im_spec im))\<rparr>\<rparr>"
proof -
  let ?A = "puts (zip conversion_keys (annotation_values J (im_spec im))) (meta_annotations (im_meta im))"
  let ?old = "\<lparr>im1_meta = (im_meta im)\<lparr>meta_annotations := ?A\<rparr>,
    im1_spec = image_spec_convert_to (im_spec im) (im1_spec empty_image_v1),
    im1_status = image_status_convert_to (im_status im) (im1_status empty_image_v1)\<rparr>"
  let ?s0 = "image_spec_convert_from (im1_spec ?old) empty_image_spec"
  have old: "image_convert_to J im empty_image_v1 = Inr ?old"
    by (simp add: image_convert_to_def convert_to_annotations_puts [OF assms(1)])
  have status: "image_status_convert_from (im1_status ?old) empty_image_status = im_status im"
    by (cases "im_status im")
       (simp add: image_status_convert_from_def image_status_convert_to_def empty_image_status_def empty_image_v1_def)
  have s0: "is_cache ?s0 = sized_cache (is_cache (im_spec im))" "is_project_descriptor ?s0 = ''''" "is_cosign ?s0 = None"
      "is_default_process ?s0 = ''''" "is_build ?s0 = map_option copied_build (is_build (im_spec im))"
    by (auto simp: image_spec_convert_from_def image_spec_convert_to_def empty_image_spec_def empty_image_v1_def
        sized_cache_def copied_build_def empty_image_build_v1_def split: option.split)
  have spec: "?s0\<lparr>is_build := x, is_cache := y, is_project_descriptor := is_project_descriptor (im_spec im),
        is_cosign := z, is_default_process := is_default_process (im_spec im)\<rparr> =
      (im_spec im)\<lparr>is_additional_tags := [], is_build := x, is_cache := y, is_cosign := z\<rparr>" for x y z
    by (cases "im_spec im")
       (simp add: image_spec_convert_from_def image_spec_convert_to_def empty_image_spec_def empty_image_v1_def)
  have "image_convert_from J ?old empty_image_object =
      fst (convert_from_annotations J ?A (with_parts (im_meta im) (im_status im) ?A ?s0))"
    using status by (simp add: image_convert_from_def with_parts_def empty_image_object_def)
  also have "\<dots> = im\<lparr>im_spec := (im_spec im)\<lparr>is_additional_tags := [],
           is_build := map_option (\<lambda>b. b\<lparr>ib_creation_time := ''''\<rparr>) (is_build (im_spec im)),
           is_cache := cache_left (is_cache (im_spec im)), is_cosign := cosign_left (is_cosign (im_spec im))\<rparr>\<rparr>"
    by (subst convert_from_puts) (use assms s0 spec in \<open>(blast | simp)+\<close>)
  finally show ?thesis using old by blast
qed

definition tagged_sample :: image where
  "tagged_sample = sample_image\<lparr>im_spec := (im_spec sample_image)
     \<lparr>is_additional_tags := [''registry.example/app:stable''],
      is_build := Some (empty_image_build\<lparr>ib_creation_time := ''now'', ib_services := [\<lparr>oref_kind = ''Secret'', oref_namespace = '''', oref_name = ''db''\<rparr>],
        ib_build_timeout := Some 600\<rparr>),
      is_cache := Some \<lparr>icc_volume = None, icc_registry = Some (RegistryCache ''registry.example/cache'')\<rparr>\<rparr>\<rparr>"

definition sample_json :: conv_json where
  "sample_json = \<lparr>cj_services = (\<lambda>_. Inr ''[{Secret db}]''),
     cj_parse_services = (\<lambda>_. Inr [\<lparr>oref_kind = ''Secret'', oref_namespace = '''', oref_name = ''db''\<rparr>]),
     cj_tolerations = (\<lambda>ts. Inr (join '','' ts)), cj_parse_tolerations = (\<lambda>_. Inr []),
     cj_node_selector = (\<lambda>_. Inr ''{}''), cj_parse_node_selector = (\<lambda>_. Inr Map.empty),
     cj_affinity = Inr, cj_parse_affinity = (\<lambda>t. Inr (Some t)),
     cj_cosign = (\<lambda>_. Inr ''[]''), cj_parse_cosign = (\<lambda>_. Inr []),
     cj_object_ref = (\<lambda>_. Inr ''{}''), cj_parse_object_ref = (\<lambda>_. Inr None)\<rparr>"

text \<open>The tag \<open>stable\<close> and the creation time of the sample are gone, its services and cache are not.\<close>

theorem image_through_v1alpha1_witness:
  "\<exists>old. image_convert_to sample_json tagged_sample empty_image_v1 = Inr old \<and>
    image_convert_from sample_json old empty_image_object =
      tagged_sample\<lparr>im_spec := (im_spec tagged_sample)\<lparr>is_additional_tags := [],
        is_build := map_option (\<lambda>b. b\<lparr>ib_creation_time := ''''\<rparr>) (is_build (im_spec tagged_sample)),
        is_cache := is_cache (im_spec tagged_sample)\<rparr>\<rparr> \<and>
    image_convert_from sample_json old empty_image_object \<noteq> tagged_sample"
proof -
  have law: "json_law sample_json (im_spec tagged_sample)"
    by (simp add: json_law_def sample_json_def tagged_sample_def empty_image_build_def sample_image_def)
  have free: "\<forall>k \<in> set conversion_keys. meta_annotations (im_meta tagged_sample) k = None"
    by (simp add: tagged_sample_def sample_image_def empty_meta_def)
  have fits: "\<forall>b t. is_build (im_spec tagged_sample) = Some b \<longrightarrow> ib_build_timeout b = Some t \<longrightarrow> fits64 t"
    by (auto simp: tagged_sample_def fits64_def int64_min_def int64_max_def)
  have same: "cache_left (is_cache (im_spec tagged_sample)) = is_cache (im_spec tagged_sample)"
      "cosign_left (is_cosign (im_spec tagged_sample)) = is_cosign (im_spec tagged_sample)"
    by (simp_all add: tagged_sample_def cache_left_def volume_left_def registry_left_def cosign_left_def sample_image_def)
  have diff: "is_additional_tags (im_spec tagged_sample) \<noteq> []" by (simp add: tagged_sample_def)
  from image_through_v1alpha1 [of sample_json tagged_sample, OF law free fits] obtain old where
    old: "image_convert_to sample_json tagged_sample empty_image_v1 = Inr old"
      "image_convert_from sample_json old empty_image_object =
        tagged_sample\<lparr>im_spec := (im_spec tagged_sample)\<lparr>is_additional_tags := [],
          is_build := map_option (\<lambda>b. b\<lparr>ib_creation_time := ''''\<rparr>) (is_build (im_spec tagged_sample)),
          is_cache := is_cache (im_spec tagged_sample), is_cosign := is_cosign (im_spec tagged_sample)\<rparr>\<rparr>"
    unfolding same by blast
  have changed: "image_convert_from sample_json old empty_image_object \<noteq> tagged_sample"
  proof
    assume "image_convert_from sample_json old empty_image_object = tagged_sample"
    then have "is_additional_tags (im_spec (image_convert_from sample_json old empty_image_object)) \<noteq> []"
      using diff by simp
    then show False unfolding old(2) by simp
  qed
  show ?thesis using old changed by (intro exI [of _ old]) simp
qed

section \<open>Old objects through the new version\<close>

lemma image_v1_survives:
  assumes "\<forall>k \<in> set conversion_keys. meta_annotations (im1_meta im) k = None"
  shows "convert_from_annotations J (meta_annotations (im1_meta im)) x = (x, None)"
    and "image_convert_to J (image_convert_from J im empty_image_object) empty_image_v1 = Inr im"
proof -
  show none: "convert_from_annotations J (meta_annotations (im1_meta im)) x = (x, None)" for x
    using assms by (simp add: convert_from_annotations_def annotation_steps_def conversion_keys_def take_annotation_def)
  let ?s = "image_spec_convert_from (im1_spec im) empty_image_spec"
  have off: "put_annotation False k v m = Inr m" for k v m by (simp add: put_annotation_def)
  have fields: "is_project_descriptor ?s = []" "is_cosign ?s = None" "is_default_process ?s = []"
    by (simp_all add: image_spec_convert_from_def empty_image_spec_def)
  have build: "(case is_build ?s of Some b \<Rightarrow> build_to_annotations J b m | None \<Rightarrow> Inr m) = Inr m" for m
    by (cases "is1_build (im1_spec im)")
       (simp_all add: image_spec_convert_from_def empty_image_spec_def build_to_annotations_def empty_image_build_def off)
  have cache: "(case is_cache ?s of Some c \<Rightarrow> cache_to_annotations c m | None \<Rightarrow> Inr m) = Inr m" for m
    by (cases "is1_cache_size (im1_spec im)")
       (simp_all add: image_spec_convert_from_def empty_image_spec_def cache_to_annotations_def off)
  have "convert_to_annotations J ?s m = Inr m" for m
    unfolding convert_to_annotations_def build cache fields by (simp add: off)
  moreover have "image_spec_convert_to ?s (im1_spec empty_image_v1) = im1_spec im"
  proof -
    have "is1_build (image_spec_convert_to ?s (im1_spec empty_image_v1)) = is1_build (im1_spec im)"
      by (cases "is1_build (im1_spec im)")
         (simp_all add: image_spec_convert_from_def image_spec_convert_to_def empty_image_spec_def empty_image_v1_def
            empty_image_build_def empty_image_build_v1_def)
    moreover have "is1_cache_size (image_spec_convert_to ?s (im1_spec empty_image_v1)) = is1_cache_size (im1_spec im)"
      by (cases "is1_cache_size (im1_spec im)")
         (simp_all add: image_spec_convert_from_def image_spec_convert_to_def empty_image_spec_def empty_image_v1_def)
    ultimately show ?thesis
      by (intro image_spec_v1.equality) (simp_all add: image_spec_convert_from_def image_spec_convert_to_def)
  qed
  moreover have "image_status_convert_to (image_status_convert_from (im1_status im) empty_image_status) (im1_status empty_image_v1) =
      im1_status im"
    by (intro image_status_v1.equality) (simp_all add: image_status_convert_from_def image_status_convert_to_def empty_image_v1_def)
  ultimately show "image_convert_to J (image_convert_from J im empty_image_object) empty_image_v1 = Inr im"
    by (simp add: image_convert_from_def none empty_image_object_def image_convert_to_def)
qed

lemma order_convert_back:
  assumes "\<forall>e \<in> set order. \<forall>r \<in> set (order_group e). bp_id (bpref_info r) \<noteq> ''''"
  shows "order_convert_to (order_convert_from order) = order"
proof -
  have entry: "order_convert_to (order_convert_from [OrderEntry rs]) = [OrderEntry rs]"
    if "\<forall>r \<in> set rs. bp_id (bpref_info r) \<noteq> []" for rs
    using that
  proof (induction rs)
    case Nil
    then show ?case by (simp add: order_convert_to_def order_convert_from_def)
  next
    case (Cons r rs)
    then show ?case by (cases r) (simp add: order_convert_to_def order_convert_from_def)
  qed
  have cons: "order_convert_to (order_convert_from (e # es)) =
      order_convert_to (order_convert_from [e]) @ order_convert_to (order_convert_from es)" for e es
    unfolding order_convert_to_def order_convert_from_def by simp
  show ?thesis
    using assms
  proof (induction order)
    case (Cons e es)
    have "order_convert_to (order_convert_from [e]) = [e]"
      using entry [of "order_group e"] Cons.prems by (cases e) simp
    with Cons show ?case by (subst cons) simp
  qed (simp add: order_convert_to_def order_convert_from_def)
qed

text \<open>
  C27: What a client of the old version stored, it reads back unchanged after the conversion to the new
  version: images, builds, builders, cluster builders, stacks, stores and source resolvers. Builders ask
  that every buildpack in their order has an id (one without is dropped from its group), images, stacks
  and stores that they do not carry the annotations that the conversion reserves for itself.
\<close>

theorem v1alpha1_objects_survive:
  assumes "\<forall>k \<in> set conversion_keys. meta_annotations (im1_meta im) k = None"
    and "\<forall>e \<in> set (bds1_order (nbs1_builder (bd1_spec bd)) @ bds1_order (cbs1_builder (cb1_spec cb))).
           \<forall>r \<in> set (order_group e). bp_id (bpref_info r) \<noteq> ''''"
    and "meta_annotations (stk1_meta stk) clusterStackServiceAccountRefAnnotation = None"
    and "meta_annotations (sto1_meta sto) clusterStoreServiceAccountRefAnnotation = None"
    and "css_service_account_ref (stk_spec stk0) = None" and "csp_service_account_ref (sto_spec sto0) = None"
  shows "image_convert_to J (image_convert_from J im empty_image_object) empty_image_v1 = Inr im \<and>
    build_convert_to (build_convert_from b empty_build_object) empty_build_v1 = b \<and>
    builder_convert_to (builder_convert_from bd \<lparr>bd_meta = m, bd_spec = empty_namespaced_spec, bd_status = st\<rparr>)
      \<lparr>bd1_meta = m, bd1_spec = empty_namespaced_spec_v1, bd1_status = st1\<rparr> = bd \<and>
    cluster_builder_convert_to (cluster_builder_convert_from cb \<lparr>cbd_meta = m, cbd_spec = empty_cluster_spec, cbd_status = st\<rparr>)
      \<lparr>cb1_meta = m, cb1_spec = empty_cluster_spec_v1, cb1_status = st1\<rparr> = cb \<and>
    cluster_stack_convert_to J (cluster_stack_convert_from J stk stk0) stk1 = Inr stk \<and>
    cluster_store_convert_to J (cluster_store_convert_from J sto sto0) sto1 = Inr sto \<and>
    source_resolver_convert_to (source_resolver_convert_from sr sr0) sr1 = sr"
proof (intro conjI)
  show "image_convert_to J (image_convert_from J im empty_image_object) empty_image_v1 = Inr im"
    using assms(1) by (rule image_v1_survives)
  show "build_convert_to (build_convert_from b empty_build_object) empty_build_v1 = b"
    by (cases b, cases "b1_spec b", cases "b1_status b")
       (auto simp: build_convert_to_def build_convert_from_def build_spec_convert_to_def build_spec_convert_from_def
          build_status_convert_to_def build_status_convert_from_def empty_build_object_def empty_build_v1_def split: option.split)
  have order: "order_convert_to (order_convert_from (bds1_order (nbs1_builder (bd1_spec bd)))) = bds1_order (nbs1_builder (bd1_spec bd))"
      "order_convert_to (order_convert_from (bds1_order (cbs1_builder (cb1_spec cb)))) = bds1_order (cbs1_builder (cb1_spec cb))"
    using assms(2) by (auto intro!: order_convert_back)
  note builders = builder_convert_to_def builder_convert_from_def namespaced_builder_spec_convert_to_def
    namespaced_builder_spec_convert_from_def builder_spec_convert_to_def builder_spec_convert_from_def
    builder_status_convert_to_def builder_status_convert_from_def cluster_builder_convert_to_def
    cluster_builder_convert_from_def cluster_builder_spec_convert_to_def cluster_builder_spec_convert_from_def
    empty_namespaced_spec_def empty_namespaced_spec_v1_def empty_cluster_spec_def empty_cluster_spec_v1_def
    empty_builder_spec_def empty_builder_spec_v1_def builder_service_account_def
  show "builder_convert_to (builder_convert_from bd \<lparr>bd_meta = m, bd_spec = empty_namespaced_spec, bd_status = st\<rparr>)
      \<lparr>bd1_meta = m, bd1_spec = empty_namespaced_spec_v1, bd1_status = st1\<rparr> = bd"
    using order by (cases bd, cases "bd1_spec bd", cases "nbs1_builder (bd1_spec bd)", cases "bd1_status bd") (simp add: builders)
  show "cluster_builder_convert_to (cluster_builder_convert_from cb \<lparr>cbd_meta = m, cbd_spec = empty_cluster_spec, cbd_status = st\<rparr>)
      \<lparr>cb1_meta = m, cb1_spec = empty_cluster_spec_v1, cb1_status = st1\<rparr> = cb"
    using order by (cases cb, cases "cb1_spec cb", cases "cbs1_builder (cb1_spec cb)", cases "cb1_status cb") (simp add: builders)
  show "cluster_stack_convert_to J (cluster_stack_convert_from J stk stk0) stk1 = Inr stk"
    using assms(3,5)
    by (cases stk, cases "stk1_spec stk", cases "stk1_resolved stk")
       (simp add: cluster_stack_convert_to_def cluster_stack_convert_from_def ref_from_annotations_def ref_to_annotations_def
          cluster_stack_spec_convert_from_def cluster_stack_spec_convert_to_def stack_status_convert_def)
  show "cluster_store_convert_to J (cluster_store_convert_from J sto sto0) sto1 = Inr sto"
    using assms(4,6)
    by (cases sto) (simp add: cluster_store_convert_to_def cluster_store_convert_from_def ref_from_annotations_def ref_to_annotations_def)
  show "source_resolver_convert_to (source_resolver_convert_from sr sr0) sr1 = sr"
    by (cases sr) (simp add: source_resolver_convert_to_def source_resolver_convert_from_def)
qed

definition old_image :: image_v1 where
  "old_image = empty_image_v1\<lparr>im1_spec := (im1_spec empty_image_v1)
     \<lparr>is1_tag := ''registry.example/app:v1'', is1_cache_size := Some ''2G'', is1_failed_limit := Some 0, is1_success_limit := Some 10,
      is1_builder := \<lparr>oref_kind = ''ClusterBuilder'', oref_namespace = '''', oref_name = ''base''\<rparr>,
      is1_source := empty_source\<lparr>src_git := Some sample_git\<rparr>\<rparr>\<rparr>"

definition old_builder_spec :: builder_spec_v1 where
  "old_builder_spec = empty_builder_spec_v1\<lparr>bds1_tag := ''registry.example/builder'',
     bds1_order := [OrderEntry [\<lparr>bpref_info = \<lparr>bp_id = ''java'', bp_version = ''1''\<rparr>, bpref_optional = True\<rparr>]]\<rparr>"

definition old_builder_status :: builder_status_v1 where
  "old_builder_status = \<lparr>bdt1_status = empty_status, bdt1_metadata = [], bdt1_order = [],
     bdt1_stack = \<lparr>stack_run_image = ''run'', stack_id = ''jammy''\<rparr>, bdt1_latest_image = ''builder@sha256:2'',
     bdt1_observed_stack_generation = 1, bdt1_observed_store_generation = 1, bdt1_os = ''linux''\<rparr>"

definition old_builder :: builder_v1 where
  "old_builder = \<lparr>bd1_meta = empty_meta, bd1_spec = \<lparr>nbs1_builder = old_builder_spec, nbs1_service_account = ''sa''\<rparr>,
     bd1_status = old_builder_status\<rparr>"

definition old_cluster_builder :: cluster_builder_v1 where
  "old_cluster_builder = \<lparr>cb1_meta = empty_meta,
     cb1_spec = \<lparr>cbs1_builder = old_builder_spec, cbs1_service_account_ref = empty_object_ref\<rparr>, cb1_status = old_builder_status\<rparr>"

definition old_resolved_stack :: resolved_cluster_stack where
  "old_resolved_stack = \<lparr>rcs_id = ''jammy'', rcs_build_image = \<lparr>csi_latest_image = ''b'', csi_image = ''b''\<rparr>,
     rcs_run_image = \<lparr>csi_latest_image = ''r'', csi_image = ''r''\<rparr>, rcs_mixins = [''mixin''], rcs_user_id = 1, rcs_group_id = 2\<rparr>"

definition old_stack :: cluster_stack_v1 where
  "old_stack = \<lparr>stk1_meta = empty_meta, stk1_spec = \<lparr>css1_id = ''jammy'', css1_build_image = ''b'', css1_run_image = ''r''\<rparr>,
     stk1_status = empty_status, stk1_resolved = old_resolved_stack\<rparr>"

definition empty_stack :: cluster_stack where
  "empty_stack = \<lparr>stk_meta = empty_meta,
     stk_spec = \<lparr>css_id = '''', css_build_image = '''', css_run_image = '''', css_service_account_ref = None\<rparr>,
     stk_status = empty_status, stk_resolved = old_resolved_stack\<lparr>rcs_id := ''''\<rparr>\<rparr>"

definition old_store :: cluster_store_v1 where
  "old_store = \<lparr>sto1_meta = empty_meta, sto1_sources = [''registry.example/store''], sto1_status = empty_status, sto1_buildpacks = []\<rparr>"

definition empty_store :: cluster_store where
  "empty_store = \<lparr>sto_kind = '''', sto_meta = empty_meta, sto_spec = \<lparr>csp_sources = [], csp_service_account_ref = None\<rparr>,
     sto_status = empty_status, sto_buildpacks = []\<rparr>"

definition old_resolver :: source_resolver_v1 where
  "old_resolver = \<lparr>sr1_meta = empty_meta, sr1_service_account = ''sa'', sr1_source = empty_source, sr1_status = empty_status,
     sr1_resolved = empty_resolved\<rparr>"

theorem v1alpha1_objects_survive_witness:
  "image_convert_to sample_json (image_convert_from sample_json old_image empty_image_object) empty_image_v1 = Inr old_image \<and>
   builder_convert_to (builder_convert_from old_builder
       \<lparr>bd_meta = empty_meta, bd_spec = empty_namespaced_spec, bd_status = sample_builder_status\<rparr>)
     \<lparr>bd1_meta = empty_meta, bd1_spec = empty_namespaced_spec_v1, bd1_status = old_builder_status\<rparr> = old_builder \<and>
   cluster_stack_convert_to sample_json (cluster_stack_convert_from sample_json old_stack empty_stack) old_stack = Inr old_stack"
  using v1alpha1_objects_survive [of old_image old_builder old_cluster_builder old_stack old_store empty_stack empty_store
      sample_json empty_build_v1 empty_meta sample_builder_status old_builder_status old_stack old_store old_resolver
      sample_resolver old_resolver]
  by (simp add: old_image_def old_builder_def old_cluster_builder_def old_builder_spec_def old_stack_def old_store_def
      empty_stack_def empty_store_def empty_image_v1_def empty_meta_def)

section \<open>Validation of the two versions\<close>

text \<open>
  C28: The two validations do not agree. Take an image of the old version that has both history limits, as
  defaulting leaves it, and none of the annotations the conversion reserves for itself. If the old version
  accepts it at creation, the new version (asked as the controller, with the same storage classes) accepts its
  conversion exactly when the history limits are positive and no variable of its build reads a secret; on everything
  else they agree.
\<close>

theorem converted_image_accepted:
  assumes old: "image_v1_validate C L A1 im = Inr []" and "adm_baseline A1 = None" and "adm_baseline A2 = None"
    and "created_by_kpack_controller (adm_user A2)" and "adm_default_storage_class A2 = adm_default_storage_class A1"
    and free: "\<forall>k \<in> set conversion_keys. meta_annotations (im1_meta im) k = None"
    and limits: "is1_failed_limit (im1_spec im) = Some f" "is1_success_limit (im1_spec im) = Some n"
  shows "image_validate C L A2 (image_convert_from J im empty_image_object) = Inr [] \<longleftrightarrow>
    1 \<le> f \<and> 1 \<le> n \<and>
    (\<forall>b. is1_build (im1_spec im) = Some b \<longrightarrow>
       (\<forall>e \<in> set (ib1_env b). \<forall>src. env_from e = Some src \<longrightarrow> \<not> chk_secret_key_ref C src))"
proof -
  let ?s1 = "im1_spec im" and ?s = "image_spec_convert_from (im1_spec im) empty_image_spec"
  have cache_ok: "is1_cache_size ?s1 = None \<or> adm_default_storage_class A1"
    and ok: "validate_tag_v1 L A1 ?s1 = []" "validate_builder_ref (is1_builder ?s1) = []" "source_validate L (is1_source ?s1) = []"
      "image_build_v1_validate (is1_build ?s1) = []" "notary_validate (is1_notary ?s1) = []" "image_v1_validate_metadata C im = []"
    using old by (auto simp: image_v1_validate_def image_v1_spec_validate_def bind_res_eq_Inr validate_cache_size_v1_def split: if_splits)
  have conv: "image_convert_from J im empty_image_object = \<lparr>im_meta = im1_meta im, im_spec = ?s,
      im_status = image_status_convert_from (im1_status im) empty_image_status\<rparr>"
    by (simp add: image_convert_from_def image_v1_survives(1) [OF free] empty_image_object_def)
  have fields: "is_tag ?s = is1_tag ?s1" "is_additional_tags ?s = []" "is_builder ?s = is1_builder ?s1" "is_source ?s = is1_source ?s1"
      "is_notary ?s = is1_notary ?s1" "is_cosign ?s = None" "is_failed_limit ?s = Some f" "is_success_limit ?s = Some n"
    by (simp_all add: image_spec_convert_from_def empty_image_spec_def limits)
  have "validate_tag L A2 ?s = []" using ok(1) assms(2,3) by (simp add: validate_tag_def validate_tag_v1_def fields)
  moreover have "validate_additional_tags L ?s = []"
    by (simp add: validate_additional_tags_def fields validate_same_registry_def split: sum.split)
  moreover have "image_cache_validate (is_cache ?s) = []" "validate_volume_cache C A2 ?s = []"
    using cache_ok assms(3,5)
    by (auto simp: image_spec_convert_from_def empty_image_spec_def image_cache_validate_def validate_volume_cache_def
        volume_without_class_def split: option.split)
  moreover have "notary_accepted (adm_user A2) (is_notary ?s)" using ok(5) assms(4) by (simp add: notary_accepted_def fields)
  moreover have "cosign_validate (is_cosign ?s) = []" by (simp add: fields cosign_validate_def)
  moreover have "image_validate_metadata C \<lparr>im_meta = im1_meta im, im_spec = ?s, im_status = st\<rparr> = []" for st
    using ok(6) by (simp add: image_validate_metadata_def image_v1_validate_metadata_def image_validate_name_def
        image_v1_validate_name_def Let_def split: if_splits)
  moreover have "image_build_validate C (adm_user A2) (is_build ?s) = [] \<longleftrightarrow>
      (\<forall>b. is1_build ?s1 = Some b \<longrightarrow> (\<forall>e \<in> set (ib1_env b). \<forall>src. env_from e = Some src \<longrightarrow> \<not> chk_secret_key_ref C src))"
    using ok(4) assms(4)
    by (auto simp: image_spec_convert_from_def empty_image_spec_def image_build_validate_def empty_image_build_def
        image_build_v1_validate_def bindings_accepted_def env_secret_key_refs_validate_def env_from_Nil_iff split: option.splits)
  ultimately show ?thesis
    using ok(2,3)
    by (simp add: conv image_validate_def image_spec_validate_def validate_build_history_limit_def fields Let_def)
qed

text \<open>An old image whose limit of failed builds is 0 was accepted and is not accepted any more.\<close>

theorem converted_image_accepted_witness:
  "image_v1_validate sample_checks tagged_lib (create_request\<lparr>adm_default_storage_class := True\<rparr>) old_image = Inr [] \<and>
   image_validate sample_checks tagged_lib (create_request\<lparr>adm_default_storage_class := True\<rparr>)
     (image_convert_from sample_json old_image empty_image_object) \<noteq> Inr []"
proof -
  have old: "image_v1_validate sample_checks tagged_lib (create_request\<lparr>adm_default_storage_class := True\<rparr>) old_image = Inr []"
    by (simp add: image_v1_validate_def image_v1_spec_validate_def validate_cache_size_v1_def old_image_def empty_image_v1_def
        create_request_def validate_tag_v1_def tagged_lib_def tag_char_def tag_parses_def validate_builder_ref_def
        ClusterBuilderKind_def source_validate_def empty_source_def sample_git_def git_validate_def blob_validate_def
        registry_validate_def image_build_v1_validate_def notary_validate_def image_v1_validate_metadata_def
        image_v1_validate_name_def sample_checks_def empty_meta_def)
  have "\<not> image_validate sample_checks tagged_lib (create_request\<lparr>adm_default_storage_class := True\<rparr>)
     (image_convert_from sample_json old_image empty_image_object) = Inr []"
    using converted_image_accepted [OF old, of "create_request\<lparr>adm_default_storage_class := True\<rparr>" 0 10 sample_json]
    by (simp add: create_request_def created_by_kpack_controller_def old_image_def empty_image_v1_def empty_meta_def)
  with old show ?thesis by simp
qed

end
