(* ===== verification/Waiter.thy ===== *)
theory Waiter
  imports Build_Pod_Props Remote_Readers
begin

text \<open>
  The build waiter (\<open>cmd/build-waiter/main.go\<close>), the program that runs each step of a build pod with
  injected sidecars: the flags, one waiter as a step relation over the files of the shared volume, and
  the waiters of a pod interleaved. Commands are assumed to leave the files of the waiters alone.
\<close>

section \<open>Flags\<close>

record wait_flags =
  wf_mode :: string
  wf_to :: string
  wf_wait_file :: string
  wf_done_file :: string
  wf_execute :: string
  wf_error_file :: string

definition default_flags :: wait_flags where
  "default_flags = \<lparr>wf_mode = ''wait'', wf_to = '''', wf_wait_file = '''', wf_done_file = '''', wf_execute = '''',
     wf_error_file = ''''\<rparr>"

definition set_flag :: "string \<Rightarrow> string \<Rightarrow> wait_flags \<Rightarrow> wait_flags option" where
  "set_flag nm v f =
     (if nm = ''mode'' then Some (f\<lparr>wf_mode := v\<rparr>)
      else if nm = ''to'' then Some (f\<lparr>wf_to := v\<rparr>)
      else if nm = ''wait-file'' then Some (f\<lparr>wf_wait_file := v\<rparr>)
      else if nm = ''done-file'' then Some (f\<lparr>wf_done_file := v\<rparr>)
      else if nm = ''execute'' then Some (f\<lparr>wf_execute := v\<rparr>)
      else if nm = ''error-file'' then Some (f\<lparr>wf_error_file := v\<rparr>)
      else None)"

text \<open>
  \<open>flag.Parse\<close> for flags that take a string: \<open>-name=value\<close> or \<open>-name value\<close>, with one dash or two,
  up to the first argument that is no flag.
\<close>

definition flag_name :: "string \<Rightarrow> string" where
  "flag_name s = (case s of _ # c # t \<Rightarrow> if c = CHR ''-'' then t else c # t | _ \<Rightarrow> '''')"

definition no_such_flag :: "string \<Rightarrow> goerr" where
  "no_such_flag nm = Failed Plain (''flag provided but not defined: -'' @ nm)"

function parse_flags :: "string list \<Rightarrow> wait_flags \<Rightarrow> wait_flags res" where
  "parse_flags [] f = Inr f"
| "parse_flags (s # rest) f =
     (if length s < 2 \<or> hd s \<noteq> CHR ''-'' \<or> s = ''--'' then Inr f
      else let body = flag_name s in
        if body = '''' \<or> hd body = CHR ''-'' \<or> hd body = CHR ''='' then Inl (Failed Plain (''bad flag syntax: '' @ s))
        else
          let nm = takeWhile (\<lambda>c. c \<noteq> CHR ''='') body; val = dropWhile (\<lambda>c. c \<noteq> CHR ''='') body in
          (case val of
             _ # v \<Rightarrow> (case set_flag nm v f of None \<Rightarrow> Inl (no_such_flag nm) | Some f' \<Rightarrow> parse_flags rest f')
           | [] \<Rightarrow>
               (if set_flag nm '''' f = None then Inl (no_such_flag nm)
                else case rest of
                  [] \<Rightarrow> Inl (Failed Plain (''flag needs an argument: -'' @ nm))
                | v # rest' \<Rightarrow> (case set_flag nm v f of None \<Rightarrow> Inl (no_such_flag nm) | Some f' \<Rightarrow> parse_flags rest' f'))))"
  by pat_completeness auto
termination by (relation "measure (length \<circ> fst)") auto

section \<open>One waiter\<close>

text \<open>The files a waiter looks at, by path.\<close>

type_synonym files = "string \<Rightarrow> string option"

text \<open>
  Where a waiter is: about to check its flags, in \<open>waitForStep\<close>, about to run the command, running it,
  back from it, with the done file created and still empty, in \<open>exitWithError\<close>, with the error file
  created and still empty, or gone with a status.
\<close>

datatype waiter_pc = Begin | Polling | Ready | Executing | Executed | Opened | Dying string | Marking string | Exited nat

datatype waiter_act = Silent | Start "string list" | Finish bool

definition waiter_argv :: "wait_flags \<Rightarrow> string list" where
  "waiter_argv f = split_on (CHR '' '') (wf_execute f)"

text \<open>\<open>wait\<close> up to its loop, given what \<open>exists(doneFile)\<close> answers.\<close>

definition begin_wait :: "wait_flags \<Rightarrow> bool res \<Rightarrow> waiter_pc" where
  "begin_wait f done_exists =
     (if wf_execute f = '''' then Dying ''need -execute with -mode=wait''
      else case done_exists of
        Inl e \<Rightarrow> Dying (err_text e)
      | Inr True \<Rightarrow> Dying ''file specified for writing already exists''
      | Inr False \<Rightarrow> (if wf_wait_file f \<noteq> '''' then Polling else Ready))"

text \<open>
  The steps of a waiter. \<open>os.WriteFile\<close> creates an empty file and then writes it, so two steps; each can
  fail, and a write that fails may have written a part. The goroutine \<open>watchForErrors\<close> ends the process as
  soon as the error file exists.
\<close>

inductive wait_step :: "wait_flags \<Rightarrow> files \<Rightarrow> waiter_pc \<Rightarrow> waiter_act \<Rightarrow> files \<Rightarrow> waiter_pc \<Rightarrow> bool" for f where
  copy_to_nothing: "wf_mode f = ''copy'' \<Longrightarrow> wf_to f = '''' \<Longrightarrow> wait_step f F Begin Silent F (Exited 1)"
| copy_binary: "wf_mode f = ''copy'' \<Longrightarrow> wf_to f \<noteq> '''' \<Longrightarrow> wait_step f F Begin Silent (F(wf_to f \<mapsto> bin)) (Exited 0)"
| copy_fails: "wf_mode f = ''copy'' \<Longrightarrow> wf_to f \<noteq> '''' \<Longrightarrow> c = F (wf_to f) \<or> c = None \<or> c = Some part \<Longrightarrow>
    wait_step f F Begin Silent (F(wf_to f := c)) (Dying m)"
| no_mode: "wf_mode f \<noteq> ''copy'' \<Longrightarrow> wf_mode f \<noteq> ''wait'' \<Longrightarrow> wait_step f F Begin Silent F (Exited 0)"
| begin_checks: "wf_mode f = ''wait'' \<Longrightarrow> r = Inl e \<or> r = Inr (F (wf_done_file f) \<noteq> None) \<Longrightarrow>
    wait_step f F Begin Silent F (begin_wait f r)"
| poll: "F (wf_wait_file f) = Some c \<Longrightarrow> c \<noteq> '''' \<Longrightarrow> wait_step f F Polling Silent F Ready"
| start: "wait_step f F Ready (Start (waiter_argv f)) F Executing"
| run_ok: "wait_step f F Executing (Finish True) F Executed"
| run_fails: "wait_step f F Executing (Finish False) F (Dying (''error running command '' @ m))"
| no_done_file: "wf_done_file f = '''' \<Longrightarrow> wait_step f F Executed Silent F (Exited 0)"
| open_done: "wf_done_file f \<noteq> '''' \<Longrightarrow> wait_step f F Executed Silent (F(wf_done_file f \<mapsto> '''')) Opened"
| open_fails: "wf_done_file f \<noteq> '''' \<Longrightarrow> wait_step f F Executed Silent F (Dying (''error writing file '' @ m))"
| write_done: "wait_step f F Opened Silent (F(wf_done_file f \<mapsto> ''done'')) (Exited 0)"
| write_fails: "wait_step f F Opened Silent (F(wf_done_file f \<mapsto> take k ''done'')) (Dying (''error writing file '' @ m))"
| mark: "wf_error_file f \<noteq> '''' \<Longrightarrow> wait_step f F (Dying m) Silent (F(wf_error_file f \<mapsto> '''')) (Marking m)"
| no_mark: "wait_step f F (Dying m) Silent F (Exited 1)"
| mark_written: "wait_step f F (Marking m) Silent (F(wf_error_file f \<mapsto> take k m)) (Exited 1)"
| watch: "wf_mode f = ''wait'' \<Longrightarrow> wf_error_file f \<noteq> '''' \<Longrightarrow> F (wf_error_file f) \<noteq> None \<Longrightarrow> (\<And>n. pc \<noteq> Exited n) \<Longrightarrow>
    wait_step f F pc Silent F (Exited 1)"

inductive_cases wait_stepE: "wait_step f F pc a F' pc'"
inductive_simps wait_step_exited: "wait_step f F (Exited n) a F' pc'"

section \<open>The waiters of a pod\<close>

datatype wait_event = SidecarsReady | Started nat "string list" | Ended nat bool

record wait_pod =
  wp_files :: files
  wp_pcs :: "waiter_pc list"
  wp_log :: "wait_event list"

definition note_act :: "nat \<Rightarrow> waiter_act \<Rightarrow> wait_event list" where
  "note_act i a = (case a of Silent \<Rightarrow> [] | Start argv \<Rightarrow> [Started i argv] | Finish ok \<Rightarrow> [Ended i ok])"

definition sidecarsReadyFile :: string where "sidecarsReadyFile = ''/downward/sidecars-ready''"

text \<open>
  A step of one of the waiters, or of the kubelet, which writes the file behind the annotation
  \<open>build.kpack.io/ready\<close>. The log has the newest event first.
\<close>

inductive proc_step :: "wait_flags list \<Rightarrow> wait_pod \<Rightarrow> wait_pod \<Rightarrow> bool" for fl where
  proc: "i < length fl \<Longrightarrow> wait_step (fl ! i) (wp_files s) (wp_pcs s ! i) a F' pc' \<Longrightarrow>
    proc_step fl s \<lparr>wp_files = F', wp_pcs = (wp_pcs s)[i := pc'], wp_log = note_act i a @ wp_log s\<rparr>"

inductive wait_pod_step :: "wait_flags list \<Rightarrow> wait_pod \<Rightarrow> wait_pod \<Rightarrow> bool" for fl where
  process: "proc_step fl s t \<Longrightarrow> wait_pod_step fl s t"
| kubelet: "wait_pod_step fl s (s\<lparr>wp_files := (wp_files s)(sidecarsReadyFile \<mapsto> c),
    wp_log := (if c = '''' then [] else [SidecarsReady]) @ wp_log s\<rparr>)"

text \<open>The volumes when the containers start: the waiter copied by \<open>pre-start\<close> and the annotation not set.\<close>

definition start_pod :: "string \<Rightarrow> nat \<Rightarrow> wait_pod" where
  "start_pod bin n = \<lparr>wp_files = [''/buildWait/build-waiter'' \<mapsto> bin, sidecarsReadyFile \<mapsto> ''''],
     wp_pcs = replicate n Begin, wp_log = []\<rparr>"

lemma pre_start_leaves_binary:
  assumes "parse_flags (ctr_args (pre_start_container b img)) default_flags = Inr f"
  shows "wait_step f F Begin Silent (F(''/buildWait/build-waiter'' \<mapsto> bin)) (Exited 0)"
proof -
  have "wf_mode f = ''copy''" "wf_to f = ''/buildWait/build-waiter''"
    using assms by (auto simp: pre_start_container_def default_flags_def flag_name_def set_flag_def)
  then show ?thesis using copy_binary [of f F bin] by simp
qed

section \<open>The chain\<close>

text \<open>The flags of the steps of a pod, each waiting for the one before it.\<close>

fun chain_flags :: "string \<Rightarrow> (string \<times> string) list \<Rightarrow> wait_flags list" where
  "chain_flags w [] = []"
| "chain_flags w ((nm, exec) # rest) =
     \<lparr>wf_mode = ''wait'', wf_to = '''', wf_wait_file = w, wf_done_file = ''/buildWait/'' @ nm, wf_execute = exec,
      wf_error_file = ''/buildWait/error''\<rparr> # chain_flags (''/buildWait/'' @ nm) rest"

lemma chain_flags_length [simp]: "length (chain_flags w xs) = length xs"
  by (induction w xs rule: chain_flags.induct) simp_all

lemma chain_flags_nth:
  "i < length xs \<Longrightarrow> chain_flags w xs ! i =
     \<lparr>wf_mode = ''wait'', wf_to = '''', wf_wait_file = (case i of 0 \<Rightarrow> w | Suc j \<Rightarrow> ''/buildWait/'' @ fst (xs ! j)),
      wf_done_file = ''/buildWait/'' @ fst (xs ! i), wf_execute = snd (xs ! i), wf_error_file = ''/buildWait/error''\<rparr>"
proof (induction w xs arbitrary: i rule: chain_flags.induct)
  case (2 w nm exec rest)
  then show ?case by (cases i) (auto split: nat.split)
qed simp

text \<open>A waiter reads back the flags that \<open>setUpBuildWaiter\<close> writes.\<close>

lemma waiter_flags_of:
  assumes "set_up_build_waiter c w = Inr c'" and "w \<noteq> ''''"
  shows "parse_flags (ctr_args c') default_flags =
     Inr \<lparr>wf_mode = ''wait'', wf_to = '''', wf_wait_file = w, wf_done_file = ''/buildWait/'' @ ctr_name c,
          wf_execute = hd (ctr_command c) @ '' '' @ join '' '' (ctr_args c), wf_error_file = ''/buildWait/error''\<rparr>"
  using assms
  by (auto simp: set_up_build_waiter_def default_flags_def flag_name_def set_flag_def Let_def split: list.splits)

definition exec_of :: "container \<Rightarrow> string" where
  "exec_of c = hd (ctr_command c) @ '' '' @ join '' '' (ctr_args c)"

lemma chain_waiters_flags:
  "chain_waiters w cs = Inr cs' \<Longrightarrow> w \<noteq> '''' \<Longrightarrow>
     map (\<lambda>c. parse_flags (ctr_args c) default_flags) cs' = map Inr (chain_flags w (map (\<lambda>c. (ctr_name c, exec_of c)) cs))"
proof (induction cs arbitrary: w cs')
  case (Cons c cs)
  then obtain c1 cs1 where c1: "set_up_build_waiter c w = Inr c1"
    "chain_waiters (''/buildWait/'' @ ctr_name c) cs = Inr cs1" "cs' = c1 # cs1"
    by (auto simp: bind_res_eq_Inr)
  with Cons.IH [OF c1(2)] waiter_flags_of [OF c1(1) Cons.prems(2)] show ?case by (simp add: exec_of_def)
qed simp

section \<open>Order\<close>

text \<open>
  What a log says: a command starts at most once, after the sidecars are ready and every command before
  it has succeeded, and ends after it started.
\<close>

definition was_started :: "nat \<Rightarrow> wait_event list \<Rightarrow> bool" where
  "was_started i es \<longleftrightarrow> (\<exists>argv. Started i argv \<in> set es)"

definition may_start :: "nat \<Rightarrow> wait_event list \<Rightarrow> bool" where
  "may_start i es \<longleftrightarrow> SidecarsReady \<in> set es \<and> (\<forall>j < i. Ended j True \<in> set es)"

fun log_in_order :: "wait_flags list \<Rightarrow> wait_event list \<Rightarrow> bool" where
  "log_in_order fl [] = True"
| "log_in_order fl (Started i argv # es) =
     (log_in_order fl es \<and> i < length fl \<and> argv = waiter_argv (fl ! i) \<and> \<not> was_started i es \<and> may_start i es)"
| "log_in_order fl (Ended i ok # es) = (log_in_order fl es \<and> i < length fl \<and> was_started i es)"
| "log_in_order fl (SidecarsReady # es) = log_in_order fl es"

lemma was_started_Cons [simp]:
  "was_started i (Started j argv # es) = (i = j \<or> was_started i es)"
  "was_started i (Ended j ok # es) = was_started i es"
  "was_started i (SidecarsReady # es) = was_started i es"
  "\<not> was_started i []"
  by (auto simp: was_started_def)

lemma may_start_mono: "may_start i es \<Longrightarrow> may_start i (ev # es)"
  by (auto simp: may_start_def)

lemma started_in_order:
  "log_in_order fl (post @ Started i argv # pre) \<Longrightarrow>
     i < length fl \<and> argv = waiter_argv (fl ! i) \<and> \<not> was_started i pre \<and> may_start i pre"
  by (induction fl post rule: log_in_order.induct) simp_all

lemma started_may_start: "log_in_order fl es \<Longrightarrow> was_started i es \<Longrightarrow> may_start i es"
  by (induction fl es rule: log_in_order.induct) (auto intro: may_start_mono)

text \<open>A step of a waiter in mode \<open>wait\<close>: it moves on in silence, starts its command or sees it end.\<close>

definition silent_move :: "wait_flags \<Rightarrow> files \<Rightarrow> waiter_pc \<Rightarrow> files \<Rightarrow> waiter_pc \<Rightarrow> bool" where
  "silent_move f F pc F' pc' \<longleftrightarrow>
     (\<forall>p. p \<noteq> wf_done_file f \<longrightarrow> p \<noteq> wf_error_file f \<longrightarrow> F' p = F p) \<and>
     (F' (wf_done_file f) \<noteq> None \<longrightarrow> F (wf_done_file f) \<noteq> None \<or> pc \<in> {Executed, Opened}) \<and>
     (pc' = Ready \<longrightarrow> pc = Polling \<and> (\<exists>c. F (wf_wait_file f) = Some c \<and> c \<noteq> '''')) \<and>
     (pc' \<in> {Begin, Polling} \<longrightarrow> pc = Begin) \<and> pc' \<noteq> Executing \<and>
     (pc' \<in> {Executed, Opened, Exited 0} \<longrightarrow> pc \<in> {Executed, Opened})"

lemma silent_move_files: "silent_move f F pc F' pc' \<Longrightarrow> p \<noteq> wf_done_file f \<Longrightarrow> p \<noteq> wf_error_file f \<Longrightarrow> F' p = F p"
  by (simp add: silent_move_def)

lemma wait_step_moves:
  assumes "wait_step f F pc a F' pc'"
    and "wf_mode f = ''wait''" "wf_wait_file f \<noteq> ''''" "wf_done_file f \<noteq> wf_error_file f"
  shows "(a = Silent \<and> silent_move f F pc F' pc') \<or>
     (a = Start (waiter_argv f) \<and> pc = Ready \<and> F' = F \<and> pc' = Executing) \<or>
     (a = Finish True \<and> pc = Executing \<and> F' = F \<and> pc' = Executed) \<or>
     (a = Finish False \<and> pc = Executing \<and> F' = F \<and> (\<exists>m. pc' = Dying m))"
  using assms(1)
proof cases
  case (begin_checks r e)
  then show ?thesis using assms(3)
    by (auto simp: silent_move_def begin_wait_def split: sum.split bool.split)
qed (use assms(2-4) in \<open>auto simp: silent_move_def\<close>)

locale wait_chain =
  fixes names :: "string list"
  assumes distinct_names: "distinct names" and no_error: "''error'' \<notin> set names" and no_binary: "''build-waiter'' \<notin> set names"
begin

text \<open>The invariant of the pod: the files and the places of the waiters agree with the log.\<close>

definition waiter_fits :: "nat \<Rightarrow> wait_event list \<Rightarrow> waiter_pc \<Rightarrow> bool" where
  "waiter_fits i es pc \<longleftrightarrow>
     (pc \<in> {Begin, Polling, Ready} \<longrightarrow> \<not> was_started i es) \<and>
     (pc = Ready \<longrightarrow> may_start i es) \<and>
     (pc = Executing \<longrightarrow> was_started i es) \<and>
     (pc \<in> {Executed, Opened, Exited 0} \<longrightarrow> Ended i True \<in> set es)"

definition chain_inv :: "wait_flags list \<Rightarrow> wait_pod \<Rightarrow> bool" where
  "chain_inv fl s \<longleftrightarrow>
     length (wp_pcs s) = length fl \<and> log_in_order fl (wp_log s) \<and>
     (\<forall>i < length fl. waiter_fits i (wp_log s) (wp_pcs s ! i)) \<and>
     (\<forall>i < length fl. wp_files s (wf_done_file (fl ! i)) \<noteq> None \<longrightarrow> Ended i True \<in> set (wp_log s)) \<and>
     (\<forall>i < length fl. Ended i True \<in> set (wp_log s) \<longrightarrow> may_start i (wp_log s)) \<and>
     (\<forall>c. wp_files s sidecarsReadyFile = Some c \<longrightarrow> c \<noteq> '''' \<longrightarrow> SidecarsReady \<in> set (wp_log s))"

lemma flags_apart:
  assumes "fl = chain_flags sidecarsReadyFile (zip names execs)" and "length execs = length names" and i: "i < length fl"
  shows "wf_mode (fl ! i) = ''wait''" "wf_wait_file (fl ! i) \<noteq> ''''"
    "wf_done_file (fl ! i) \<noteq> wf_error_file (fl ! i)" "wf_done_file (fl ! i) \<noteq> sidecarsReadyFile"
    "wf_error_file (fl ! i) \<noteq> sidecarsReadyFile" "wf_done_file (fl ! i) \<noteq> ''/buildWait/build-waiter''"
    "wf_done_file (fl ! i) \<noteq> ''''" "wf_error_file (fl ! i) = ''/buildWait/error''"
proof -
  have "i < length names" using assms by simp
  then have "names ! i \<in> set names" by simp
  then have "names ! i \<noteq> ''error''" "names ! i \<noteq> ''build-waiter''" using no_error no_binary by metis+
  then show "wf_mode (fl ! i) = ''wait''" "wf_wait_file (fl ! i) \<noteq> ''''"
    "wf_done_file (fl ! i) \<noteq> wf_error_file (fl ! i)" "wf_done_file (fl ! i) \<noteq> sidecarsReadyFile"
    "wf_error_file (fl ! i) \<noteq> sidecarsReadyFile" "wf_done_file (fl ! i) \<noteq> ''/buildWait/build-waiter''"
    "wf_done_file (fl ! i) \<noteq> ''''" "wf_error_file (fl ! i) = ''/buildWait/error''"
    using assms by (simp_all add: chain_flags_nth sidecarsReadyFile_def split: nat.split)
qed

lemma done_files_apart:
  assumes "fl = chain_flags sidecarsReadyFile (zip names execs)" and "length execs = length names"
    and "i < length fl" "j < length fl" "i \<noteq> j"
  shows "wf_done_file (fl ! i) \<noteq> wf_done_file (fl ! j)" "wf_done_file (fl ! i) \<noteq> wf_error_file (fl ! j)"
proof -
  have "names ! i \<noteq> names ! j" using assms distinct_names by (simp add: nth_eq_iff_index_eq)
  then show "wf_done_file (fl ! i) \<noteq> wf_done_file (fl ! j)" using assms by (simp add: chain_flags_nth)
  show "wf_done_file (fl ! i) \<noteq> wf_error_file (fl ! j)"
    using flags_apart(3,8) [OF assms(1,2,3)] flags_apart(8) [OF assms(1,2,4)] by simp
qed

lemma waits_for_previous:
  assumes "fl = chain_flags sidecarsReadyFile (zip names execs)" and "length execs = length names" and "i < length fl"
  shows "wf_wait_file (fl ! i) = (case i of 0 \<Rightarrow> sidecarsReadyFile | Suc j \<Rightarrow> wf_done_file (fl ! j))"
  using assms by (simp add: chain_flags_nth split: nat.split)

lemma chain_inv_start:
  assumes "fl = chain_flags sidecarsReadyFile (zip names execs)" and "length execs = length names"
  shows "chain_inv fl (start_pod bin (length fl))"
  using flags_apart(4,6) [OF assms]
  by (auto simp: chain_inv_def start_pod_def waiter_fits_def sidecarsReadyFile_def split: if_splits)

lemma silent_fits:
  assumes "silent_move f F pc F' pc'" and "waiter_fits i es pc" and "pc' = Ready \<Longrightarrow> may_start i es"
  shows "waiter_fits i es pc'"
proof -
  have "\<not> was_started i es" if "pc' \<in> {Begin, Polling, Ready}"
    using that assms(1,2) by (cases pc') (simp_all add: silent_move_def waiter_fits_def)
  moreover have "Ended i True \<in> set es" if "pc' \<in> {Executed, Opened, Exited 0}"
  proof -
    from that assms(1) have "pc \<in> {Executed, Opened}" unfolding silent_move_def by blast
    with assms(2) show ?thesis unfolding waiter_fits_def by blast
  qed
  moreover have "pc' \<noteq> Executing" using assms(1) by (simp add: silent_move_def)
  ultimately show ?thesis using assms(3) by (simp add: waiter_fits_def)
qed

lemma waiter_fits_other:
  "waiter_fits i es pc \<Longrightarrow> i \<noteq> j \<Longrightarrow> waiter_fits i (note_act j a @ es) pc"
  by (cases a) (auto simp: waiter_fits_def note_act_def may_start_def)

lemma proc_step_inv:
  assumes fl: "fl = chain_flags sidecarsReadyFile (zip names execs)" "length execs = length names"
    and inv: "chain_inv fl s" and step: "proc_step fl s t"
  shows "chain_inv fl t"
  using step
proof cases
  case (proc i a F' pc')
  let ?F = "wp_files s" and ?es = "wp_log s" and ?pc = "wp_pcs s ! i" and ?f = "fl ! i"
  note apart = flags_apart [OF fl proc(2)]
  have fits: "waiter_fits i ?es ?pc" and len: "length (wp_pcs s) = length fl" and order: "log_in_order fl ?es"
    and done_files: "\<And>j. j < length fl \<Longrightarrow> ?F (wf_done_file (fl ! j)) \<noteq> None \<Longrightarrow> Ended j True \<in> set ?es"
    and ended: "\<And>j. j < length fl \<Longrightarrow> Ended j True \<in> set ?es \<Longrightarrow> may_start j ?es"
    and ready: "\<And>c. ?F sidecarsReadyFile = Some c \<Longrightarrow> c \<noteq> '''' \<Longrightarrow> SidecarsReady \<in> set ?es"
    and others: "\<And>j. j < length fl \<Longrightarrow> waiter_fits j ?es (wp_pcs s ! j)"
    using inv proc(2) by (auto simp: chain_inv_def)
  have step_cases: "(a = Silent \<and> silent_move ?f ?F ?pc F' pc') \<or>
     (a = Start (waiter_argv ?f) \<and> ?pc = Ready \<and> F' = ?F \<and> pc' = Executing) \<or>
     (a = Finish True \<and> ?pc = Executing \<and> F' = ?F \<and> pc' = Executed) \<or>
     (a = Finish False \<and> ?pc = Executing \<and> F' = ?F \<and> (\<exists>m. pc' = Dying m))"
    by (rule wait_step_moves [OF proc(3) apart(1,2,3)])
  have other_pcs: "waiter_fits j (note_act i a @ ?es) (wp_pcs t ! j)" if "j < length fl" "j \<noteq> i" for j
    using waiter_fits_other [OF others [OF that(1)] that(2)] that proc(1) by simp
  have fits': "\<forall>j < length fl. waiter_fits j (note_act i a @ ?es) (wp_pcs t ! j)"
    if self: "waiter_fits i (note_act i a @ ?es) pc'"
  proof (intro allI impI)
    fix j assume "j < length fl"
    with self other_pcs [of j] proc(1) len show "waiter_fits j (note_act i a @ ?es) (wp_pcs t ! j)"
      by (cases "j = i") simp_all
  qed
  have ended': "may_start j (note_act i a @ ?es)" if "j < length fl" "Ended j True \<in> set ?es" for j
    using ended [OF that] by (auto simp: may_start_def)
  from step_cases show ?thesis
  proof (elim disjE conjE exE)
    assume a: "a = Silent" and m: "silent_move ?f ?F ?pc F' pc'"
    have self: "waiter_fits i ?es pc'"
    proof -
      have "may_start i ?es" if "pc' = Ready"
      proof (cases i)
        case 0
        then have "wf_wait_file ?f = sidecarsReadyFile" using waits_for_previous [OF fl proc(2)] by simp
        then show ?thesis using m that ready 0 by (auto simp: silent_move_def may_start_def)
      next
        case (Suc j)
        then have w: "wf_wait_file ?f = wf_done_file (fl ! j)" using waits_for_previous [OF fl proc(2)] by simp
        have "Ended j True \<in> set ?es" using m that done_files [of j] proc(2) Suc w by (auto simp: silent_move_def)
        with ended [of j] proc(2) Suc show ?thesis by (auto simp: may_start_def less_Suc_eq)
      qed
      with silent_fits [OF m fits] show ?thesis by blast
    qed
    have "?F (wf_done_file (fl ! j)) \<noteq> None \<or> Ended j True \<in> set ?es"
      if "j < length fl" "F' (wf_done_file (fl ! j)) \<noteq> None" for j
    proof (cases "j = i")
      case True
      with m that fits show ?thesis by (auto simp: silent_move_def waiter_fits_def)
    next
      case False
      with done_files_apart [OF fl that(1) proc(2)] m that show ?thesis by (simp add: silent_move_def)
    qed
    moreover have "F' sidecarsReadyFile = ?F sidecarsReadyFile" using m apart(4,5) by (simp add: silent_move_def)
    ultimately show ?thesis
      using a proc(1) fits' self len order done_files ended ready
      by (auto simp: chain_inv_def note_act_def)
  next
    assume *: "a = Start (waiter_argv ?f)" "?pc = Ready" "F' = ?F" "pc' = Executing"
    then have "waiter_fits i (note_act i a @ ?es) pc'" by (simp add: waiter_fits_def note_act_def)
    from fits' [OF this] * show ?thesis
      using proc(1,2) fits len order done_files ended' ready
      by (auto simp: chain_inv_def note_act_def waiter_fits_def)
  next
    assume *: "a = Finish True" "?pc = Executing" "F' = ?F" "pc' = Executed"
    then have started: "was_started i ?es" using fits by (simp add: waiter_fits_def)
    have "waiter_fits i (note_act i a @ ?es) pc'" using * by (simp add: waiter_fits_def note_act_def)
    from fits' [OF this] * show ?thesis
      using proc(1,2) len order done_files ended' ready started may_start_mono [OF started_may_start [OF order started]]
      by (auto simp: chain_inv_def note_act_def)
  next
    fix m
    assume *: "a = Finish False" "?pc = Executing" "F' = ?F" "pc' = Dying m"
    then have "waiter_fits i (note_act i a @ ?es) pc'" by (simp add: waiter_fits_def note_act_def)
    from fits' [OF this] * show ?thesis
      using proc(1,2) fits len order done_files ended' ready
      by (auto simp: chain_inv_def note_act_def waiter_fits_def)
  qed
qed

lemma kubelet_inv:
  assumes fl: "fl = chain_flags sidecarsReadyFile (zip names execs)" "length execs = length names" and inv: "chain_inv fl s"
  shows "chain_inv fl (s\<lparr>wp_files := (wp_files s)(sidecarsReadyFile \<mapsto> c),
    wp_log := (if c = '''' then [] else [SidecarsReady]) @ wp_log s\<rparr>)"
  using inv flags_apart(4) [OF fl]
  by (auto simp: chain_inv_def waiter_fits_def may_start_def)

lemma chain_inv_run:
  assumes fl: "fl = chain_flags sidecarsReadyFile (zip names execs)" "length execs = length names"
    and run: "(wait_pod_step fl)\<^sup>*\<^sup>* (start_pod bin (length fl)) s"
  shows "chain_inv fl s"
  using run
proof induction
  case base
  show ?case by (rule chain_inv_start [OF fl])
next
  case (step s t)
  from step.hyps(2) show ?case
  proof cases
    case process
    then show ?thesis by (rule proc_step_inv [OF fl step.IH])
  next
    case (kubelet c)
    with kubelet_inv [OF fl step.IH] show ?thesis by simp
  qed
qed

text \<open>A waiter that ended well has left its file, and nothing takes it away.\<close>

definition done_kept :: "wait_flags list \<Rightarrow> wait_pod \<Rightarrow> bool" where
  "done_kept fl s \<longleftrightarrow> length (wp_pcs s) = length fl \<and>
     (\<forall>i < length fl. wp_pcs s ! i = Exited 0 \<longrightarrow> wp_files s (wf_done_file (fl ! i)) = Some ''done'')"

lemma proc_step_done_kept:
  assumes fl: "fl = chain_flags sidecarsReadyFile (zip names execs)" "length execs = length names"
    and kept: "done_kept fl s" and step: "proc_step fl s t"
  shows "done_kept fl t"
  using step
proof cases
  case (proc i a F' pc')
  note apart = flags_apart [OF fl proc(2)]
  have own: "pc' = Exited 0 \<Longrightarrow> F' (wf_done_file (fl ! i)) = Some ''done''"
    using proc(3) apart(1,7) by cases (auto simp: begin_wait_def split: sum.splits bool.splits if_splits)
  have other: "F' (wf_done_file (fl ! j)) = wp_files s (wf_done_file (fl ! j))" if "j < length fl" "j \<noteq> i" for j
    using wait_step_moves [OF proc(3) apart(1,2,3)] done_files_apart [OF fl that(1) proc(2) that(2)]
    by (elim disjE conjE exE) (simp_all add: silent_move_files)
  show ?thesis
    unfolding done_kept_def
  proof (intro conjI allI impI)
    show "length (wp_pcs t) = length fl" using kept proc(1) by (simp add: done_kept_def)
  next
    fix j assume j: "j < length fl" "wp_pcs t ! j = Exited 0"
    show "wp_files t (wf_done_file (fl ! j)) = Some ''done''"
      using own other [OF j(1)] j kept proc(1) by (cases "j = i") (auto simp: done_kept_def)
  qed
qed

lemma done_kept_run:
  assumes fl: "fl = chain_flags sidecarsReadyFile (zip names execs)" "length execs = length names"
    and run: "(wait_pod_step fl)\<^sup>*\<^sup>* (start_pod bin (length fl)) s"
  shows "done_kept fl s"
  using run
proof induction
  case base
  show ?case by (auto simp: done_kept_def start_pod_def)
next
  case (step s t)
  from step.hyps(2) show ?case
  proof cases
    case process
    then show ?thesis by (rule proc_step_done_kept [OF fl step.IH])
  next
    case (kubelet c)
    with step.IH flags_apart(4) [OF fl] show ?thesis by (auto simp: done_kept_def)
  qed
qed

text \<open>What a waiter that cannot move is doing.\<close>

lemma stuck_waiter:
  assumes fl: "fl = chain_flags sidecarsReadyFile (zip names execs)" "length execs = length names"
    and i: "i < length fl" and stuck: "\<nexists>t. proc_step fl s t"
  shows "(\<exists>n. wp_pcs s ! i = Exited n) \<or>
    (wp_pcs s ! i = Polling \<and> wp_files s ''/buildWait/error'' = None \<and> wp_files s (wf_wait_file (fl ! i)) \<in> {None, Some ''''})"
proof -
  have no: "\<not> wait_step (fl ! i) (wp_files s) (wp_pcs s ! i) a F' pc'" for a F' pc'
    using stuck proc [OF i] by blast
  note apart = flags_apart [OF fl i]
  show ?thesis
  proof (cases "wp_pcs s ! i")
    case Begin
    with no begin_checks [OF apart(1)] show ?thesis by metis
  next
    case Polling
    have "wp_files s ''/buildWait/error'' = None"
      using no [of Silent "wp_files s" "Exited 1"] watch [OF apart(1), of "wp_files s" Polling] Polling apart(8)
      by (metis list.discI waiter_pc.distinct(29))
    moreover have "wp_files s (wf_wait_file (fl ! i)) \<in> {None, Some ''''}"
      using no poll [of "wp_files s" "fl ! i"] Polling by (cases "wp_files s (wf_wait_file (fl ! i))") auto
    ultimately show ?thesis using Polling by simp
  next
    case Ready
    with no start show ?thesis by metis
  next
    case Executing
    with no run_ok show ?thesis by metis
  next
    case Executed
    with no open_done [OF apart(7)] show ?thesis by metis
  next
    case Opened
    with no write_done show ?thesis by metis
  next
    case (Dying m)
    with no no_mark show ?thesis by metis
  next
    case (Marking m)
    with no mark_written show ?thesis by metis
  qed simp
qed

text \<open>
  Once the sidecars are ready the waiters can always move until all have gone, unless one of them has
  failed and could not write the error file.
\<close>

lemma stuck_pod:
  assumes fl: "fl = chain_flags sidecarsReadyFile (zip names execs)" "length execs = length names"
    and kept: "done_kept fl s" and ready: "wp_files s sidecarsReadyFile = Some c" "c \<noteq> ''''"
    and stuck: "\<nexists>t. proc_step fl s t"
  shows "(\<forall>i < length fl. \<exists>n. wp_pcs s ! i = Exited n) \<or>
    (wp_files s ''/buildWait/error'' = None \<and> (\<exists>i < length fl. \<exists>n. n \<noteq> 0 \<and> wp_pcs s ! i = Exited n))"
proof (rule ccontr)
  assume not: "\<not> ?thesis"
  then obtain i where i: "i < length fl" "\<nexists>n. wp_pcs s ! i = Exited n" by blast
  then have none: "wp_files s ''/buildWait/error'' = None" using stuck_waiter [OF fl i(1) stuck] by blast
  let ?P = "\<lambda>j. j < length fl \<and> wp_pcs s ! j \<noteq> Exited 0"
  define k where "k = (LEAST j. ?P j)"
  have "?P i" using i by blast
  then have "?P k" unfolding k_def by (rule LeastI)
  then have k: "k < length fl" "wp_pcs s ! k \<noteq> Exited 0" by simp_all
  have before: "wp_pcs s ! j = Exited 0" if "j < k" for j
  proof -
    have "\<not> ?P j" using that unfolding k_def by (rule not_less_Least)
    with that k(1) show ?thesis by simp
  qed
  from stuck_waiter [OF fl k(1) stuck] show False
  proof (elim disjE conjE exE)
    fix n assume n: "wp_pcs s ! k = Exited n"
    then have "n \<noteq> 0" using k(2) by simp
    with n k(1) not none show False by blast
  next
    assume w: "wp_files s (wf_wait_file (fl ! k)) \<in> {None, Some ''''}"
    show False
    proof (cases k)
      case 0
      with w ready waits_for_previous [OF fl k(1)] show False by auto
    next
      case (Suc j)
      with w before [of j] kept k(1) waits_for_previous [OF fl k(1)] show False by (auto simp: done_kept_def)
    qed
  qed
qed

end

section \<open>Every waiter ends\<close>

fun pc_rank :: "waiter_pc \<Rightarrow> nat" where
  "pc_rank Begin = 8"
| "pc_rank Polling = 7"
| "pc_rank Ready = 6"
| "pc_rank Executing = 5"
| "pc_rank Executed = 4"
| "pc_rank Opened = 3"
| "pc_rank (Dying _) = 2"
| "pc_rank (Marking _) = 1"
| "pc_rank (Exited _) = 0"

lemma wait_step_rank: "wait_step f F pc a F' pc' \<Longrightarrow> pc_rank pc' < pc_rank pc"
proof (induction rule: wait_step.induct)
  case (begin_checks r e F)
  then show ?case by (auto simp: begin_wait_def split: sum.split bool.split)
next
  case (watch F pc)
  then show ?case by (cases pc) auto
qed simp_all

section \<open>A pod in which every command succeeds\<close>

definition set_pc :: "nat \<Rightarrow> waiter_pc \<Rightarrow> files \<Rightarrow> wait_event list \<Rightarrow> wait_pod \<Rightarrow> wait_pod" where
  "set_pc i pc F es s = \<lparr>wp_files = F, wp_pcs = (wp_pcs s)[i := pc], wp_log = es @ wp_log s\<rparr>"

lemma set_pc_again [simp]: "set_pc i pc' F' es' (set_pc i pc F es s) = set_pc i pc' F' (es' @ es) s"
  by (simp add: set_pc_def)

lemma set_pc_step:
  assumes "(wait_pod_step fl)\<^sup>*\<^sup>* s0 (set_pc i pc F es s)" and "i < length fl" "length (wp_pcs s) = length fl"
    and "wait_step (fl ! i) F pc a F' pc'"
  shows "(wait_pod_step fl)\<^sup>*\<^sup>* s0 (set_pc i pc' F' (note_act i a @ es) s)"
proof -
  have "wait_pod_step fl (set_pc i pc F es s) (set_pc i pc' F' (note_act i a) (set_pc i pc F es s))"
  proof (rule wait_pod_step.process)
    have "wait_step (fl ! i) (wp_files (set_pc i pc F es s)) (wp_pcs (set_pc i pc F es s) ! i) a F' pc'"
      using assms(2-4) by (simp add: set_pc_def)
    from proc_step.proc [OF assms(2) this]
    show "proc_step fl (set_pc i pc F es s) (set_pc i pc' F' (note_act i a) (set_pc i pc F es s))"
      by (simp add: set_pc_def)
  qed
  with assms(1) show ?thesis by (simp add: rtranclp.rtrancl_into_rtrancl)
qed

lemma waiter_completes:
  assumes run: "(wait_pod_step fl)\<^sup>*\<^sup>* s0 s" and i: "i < length fl" "length (wp_pcs s) = length fl" "wp_pcs s ! i = Begin"
    and f: "wf_mode (fl ! i) = ''wait''" "wf_execute (fl ! i) \<noteq> ''''" "wf_wait_file (fl ! i) \<noteq> ''''" "wf_done_file (fl ! i) \<noteq> ''''"
    and F: "wp_files s (wf_done_file (fl ! i)) = None" "wp_files s (wf_wait_file (fl ! i)) = Some c" "c \<noteq> ''''"
  shows "(wait_pod_step fl)\<^sup>*\<^sup>* s0 (set_pc i (Exited 0) ((wp_files s)(wf_done_file (fl ! i) \<mapsto> ''done''))
    [Ended i True, Started i (waiter_argv (fl ! i))] s)"
proof -
  let ?F = "wp_files s" and ?f = "fl ! i" and ?R = "(wait_pod_step fl)\<^sup>*\<^sup>* s0"
  note go = set_pc_step [OF _ i(1,2)]
  have "(wp_pcs s)[i := Begin] = wp_pcs s" using i(3) by (metis list_update_id)
  then have "set_pc i Begin ?F [] s = s" by (simp add: set_pc_def)
  with run have "?R (set_pc i Begin ?F [] s)" by simp
  moreover have "wait_step ?f ?F Begin Silent ?F Polling"
    using begin_checks [OF f(1), of "Inr False" undefined ?F] F(1) f(2,3) by (simp add: begin_wait_def)
  ultimately have "?R (set_pc i Polling ?F (note_act i Silent @ []) s)" by (rule go)
  then have "?R (set_pc i Polling ?F [] s)" by (simp add: note_act_def)
  moreover have "wait_step ?f ?F Polling Silent ?F Ready" by (rule poll [where c = c]) (use F in simp_all)
  ultimately have "?R (set_pc i Ready ?F (note_act i Silent @ []) s)" by (rule go)
  then have "?R (set_pc i Ready ?F [] s)" by (simp add: note_act_def)
  from go [OF this start] have "?R (set_pc i Executing ?F [Started i (waiter_argv ?f)] s)" by (simp add: note_act_def)
  from go [OF this run_ok] have "?R (set_pc i Executed ?F [Ended i True, Started i (waiter_argv ?f)] s)" by (simp add: note_act_def)
  from go [OF this open_done [OF f(4)]]
  have "?R (set_pc i Opened (?F(wf_done_file ?f \<mapsto> '''')) [Ended i True, Started i (waiter_argv ?f)] s)" by (simp add: note_act_def)
  from go [OF this write_done] show ?thesis by (simp add: note_act_def)
qed

definition happy_pod :: "wait_flags list \<Rightarrow> string \<Rightarrow> nat \<Rightarrow> wait_pod" where
  "happy_pod fl bin k =
     \<lparr>wp_files = (\<lambda>p. if p \<in> wf_done_file ` set (take k fl) then Some ''done''
        else if p = sidecarsReadyFile then Some ''true'' else wp_files (start_pod bin (length fl)) p),
      wp_pcs = replicate k (Exited 0) @ replicate (length fl - k) Begin,
      wp_log = concat (map (\<lambda>j. [Ended j True, Started j (waiter_argv (fl ! j))]) (rev [0..<k])) @ [SidecarsReady]\<rparr>"

context wait_chain
begin

lemma happy_run:
  assumes fl: "fl = chain_flags sidecarsReadyFile (zip names execs)" "length execs = length names"
    and execs: "'''' \<notin> set execs" and k: "k \<le> length fl"
  shows "(wait_pod_step fl)\<^sup>*\<^sup>* (start_pod bin (length fl)) (happy_pod fl bin k)"
  using k
proof (induction k)
  case 0
  have "happy_pod fl bin 0 = (start_pod bin (length fl))\<lparr>wp_files := (wp_files (start_pod bin (length fl)))(sidecarsReadyFile \<mapsto> ''true''),
      wp_log := (if ''true'' = '''' then [] else [SidecarsReady]) @ wp_log (start_pod bin (length fl))\<rparr>"
    by (auto simp: happy_pod_def start_pod_def)
  then show ?case using wait_pod_step.kubelet by (metis r_into_rtranclp)
next
  case (Suc k)
  let ?s = "happy_pod fl bin k" and ?f = "fl ! k"
  from Suc.prems have k: "k < length fl" by simp
  note apart = flags_apart [OF fl k]
  have run: "(wait_pod_step fl)\<^sup>*\<^sup>* (start_pod bin (length fl)) ?s" using Suc by simp
  have fresh: "wf_done_file ?f \<notin> wf_done_file ` set (take k fl)"
  proof
    assume "wf_done_file ?f \<in> wf_done_file ` set (take k fl)"
    then obtain j where "j < k" "wf_done_file ?f = wf_done_file (fl ! j)" using k by (auto simp: in_set_conv_nth)
    with done_files_apart(1) [OF fl k, of j] k show False by simp
  qed
  then have none: "wp_files ?s (wf_done_file ?f) = None"
    using apart(4,6) by (simp add: happy_pod_def start_pod_def)
  have waits: "\<exists>c. wp_files ?s (wf_wait_file ?f) = Some c \<and> c \<noteq> ''''"
  proof (cases k)
    case 0
    then show ?thesis using waits_for_previous [OF fl k] by (simp add: happy_pod_def)
  next
    case (Suc j)
    then have "fl ! j \<in> set (take k fl)" using k by (auto simp: in_set_conv_nth)
    with Suc show ?thesis using waits_for_previous [OF fl k] by (simp add: happy_pod_def)
  qed
  then obtain c where c: "wp_files ?s (wf_wait_file ?f) = Some c" "c \<noteq> ''''" by blast
  have exec: "wf_execute ?f \<noteq> ''''"
    using fl execs k by (simp add: chain_flags_nth) (metis nth_mem)
  have pcs: "length (wp_pcs ?s) = length fl" "wp_pcs ?s ! k = Begin" using k by (simp_all add: happy_pod_def nth_append)
  have "set_pc k (Exited 0) ((wp_files ?s)(wf_done_file ?f \<mapsto> ''done'')) [Ended k True, Started k (waiter_argv ?f)] ?s =
      happy_pod fl bin (Suc k)"
    using k by (auto simp: set_pc_def happy_pod_def take_Suc_conv_app_nth list_update_append Suc_diff_Suc [symmetric]
        replicate_append_same)
  with waiter_completes [OF run k pcs apart(1) exec apart(2,7) none c] show ?case by simp
qed

end

end
