(* ===== verification/Prepare_Files.thy ===== *)
theory Prepare_Files
  imports Git_Resolver "HOL-Library.Word"
begin

text \<open>
  What the prepare container touches outside its memory: file paths with the rules of \<open>path/filepath\<close>,
  the calls on files and networks it makes, in order, and \<open>pkg/archive\<close>, which unpacks source code.
\<close>

section \<open>Paths\<close>

text \<open>One component of a path on the stack of those before it, the last one first.\<close>

fun clean_component :: "bool \<Rightarrow> string list \<Rightarrow> string \<Rightarrow> string list" where
  "clean_component rooted st c =
     (if c = '''' \<or> c = ''.'' then st
      else if c = ''..'' then
        (case st of
           [] \<Rightarrow> if rooted then [] else [''..'']
         | t # rest \<Rightarrow> if t = ''..'' then ''..'' # st else rest)
      else c # st)"

definition path_rooted :: "string \<Rightarrow> bool" where
  "path_rooted s = (case s of c # _ \<Rightarrow> c = CHR ''/'' | [] \<Rightarrow> False)"

definition clean_components :: "bool \<Rightarrow> string list \<Rightarrow> string list \<Rightarrow> string list" where
  "clean_components rooted st cs = foldl (clean_component rooted) st cs"

text \<open>\<open>filepath.Clean\<close> and \<open>filepath.Join\<close>.\<close>

definition path_clean :: "string \<Rightarrow> string" where
  "path_clean s =
     (if s = '''' then ''.''
      else
        (let cs = rev (clean_components (path_rooted s) [] (split_on (CHR ''/'') s))
         in if path_rooted s then ''/'' @ join ''/'' cs
            else if cs = [] then ''.'' else join ''/'' cs))"

definition path_join :: "string list \<Rightarrow> string" where
  "path_join es = (case dropWhile (\<lambda>e. e = '''') es of [] \<Rightarrow> '''' | es' \<Rightarrow> path_clean (join ''/'' es'))"

text \<open>\<open>filepath.Dir\<close>: everything up to the last slash, cleaned.\<close>

definition path_dir :: "string \<Rightarrow> string" where
  "path_dir s = path_clean (rev (dropWhile (\<lambda>c. c \<noteq> CHR ''/'') (rev s)))"

text \<open>A path below a directory, or the directory itself.\<close>

definition inside :: "string \<Rightarrow> string \<Rightarrow> bool" where
  "inside dir p \<longleftrightarrow> p = dir \<or> has_prefix p (dir @ ''/'')"

subsection \<open>Joining below a directory\<close>

lemma split_on_nonempty [simp]: "split_on c s \<noteq> []"
  by (cases "(c, s)" rule: split_on.cases) (auto split: list.splits)

lemma split_on_no_sep: "c \<notin> set s \<Longrightarrow> split_on c s = [s]"
  by (induction s) auto

lemma split_on_append: "split_on c (s @ c # t) = split_on c s @ split_on c t"
  by (induction s) (auto split: list.split)

lemma split_on_parts: "w \<in> set (split_on c s) \<Longrightarrow> c \<notin> set w"
  by (induction s arbitrary: w) (auto split: if_splits list.splits)

lemma split_on_join: "xs \<noteq> [] \<Longrightarrow> \<forall>x \<in> set xs. c \<notin> set x \<Longrightarrow> split_on c (join [c] xs) = xs"
  by (induction "[c]" xs rule: join.induct) (simp_all add: split_on_no_sep split_on_append)

lemma clean_components_append: "clean_components r st (xs @ ys) = clean_components r (clean_components r st xs) ys"
  by (simp add: clean_components_def)

lemma clean_components_simps [simp]:
  "clean_components r st [] = st"
  "clean_components r st (c # cs) = clean_components r (clean_component r st c) cs"
  by (simp_all add: clean_components_def)

text \<open>Without \<open>..\<close> nothing is taken off the stack.\<close>

lemma clean_components_push:
  "''..'' \<notin> set cs \<Longrightarrow> clean_components r st cs = rev (filter (\<lambda>c. c \<noteq> '''' \<and> c \<noteq> ''.'') cs) @ st"
  by (induction cs arbitrary: st) auto

lemma join_append: "xs \<noteq> [] \<Longrightarrow> ys \<noteq> [] \<Longrightarrow> join sep (xs @ ys) = join sep xs @ sep @ join sep ys"
  by (induction sep xs rule: join.induct) (auto, (cases ys; simp)+)

text \<open>A directory given by a clean absolute path.\<close>

definition clean_dir :: "string \<Rightarrow> bool" where
  "clean_dir dir \<longleftrightarrow> (\<exists>cs. cs \<noteq> [] \<and> dir = ''/'' @ join ''/'' cs \<and>
     (\<forall>c \<in> set cs. c \<noteq> '''' \<and> c \<noteq> ''.'' \<and> c \<noteq> ''..'' \<and> CHR ''/'' \<notin> set c))"

lemma path_join_inside:
  assumes "clean_dir dir" and "''..'' \<notin> set (split_on (CHR ''/'') p)"
  shows "inside dir (path_join [dir, p])"
proof -
  obtain cs where cs: "cs \<noteq> []" "dir = ''/'' @ join ''/'' cs"
    "\<forall>c \<in> set cs. c \<noteq> '''' \<and> c \<noteq> ''.'' \<and> c \<noteq> ''..'' \<and> CHR ''/'' \<notin> set c"
    using assms(1) by (auto simp: clean_dir_def)
  let ?rest = "filter (\<lambda>c. c \<noteq> '''' \<and> c \<noteq> ''.'') (split_on (CHR ''/'') p)"
  have whole: "join ''/'' [dir, p] = [] @ CHR ''/'' # (join ''/'' cs @ CHR ''/'' # p)" using cs(2) by simp
  have split: "split_on (CHR ''/'') (join ''/'' [dir, p]) = '''' # cs @ split_on (CHR ''/'') p"
    unfolding whole split_on_append using split_on_join [OF cs(1), of "CHR ''/''"] cs(3) by simp
  have keep: "filter (\<lambda>c. c \<noteq> '''' \<and> c \<noteq> ''.'') cs = cs" using cs(3) by (simp add: filter_id_conv)
  have no_up: "''..'' \<notin> set ('''' # cs @ split_on (CHR ''/'') p)" using assms(2) cs(3) by auto
  define w where "w = join ''/'' [dir, p]"
  have w: "path_rooted w" "w \<noteq> ''''" "split_on (CHR ''/'') w = '''' # cs @ split_on (CHR ''/'') p"
    using cs(2) split by (simp_all add: path_rooted_def w_def)
  have "path_join [dir, p] = path_clean w" using cs(2) by (simp add: path_join_def w_def)
  also have "\<dots> = ''/'' @ join ''/'' (cs @ ?rest)"
    using w clean_components_push [OF no_up, of True "[]"] keep by (simp add: path_clean_def Let_def del: clean_components_simps)
  finally have eq: "path_join [dir, p] = ''/'' @ join ''/'' (cs @ ?rest)" .
  show ?thesis
  proof (cases "?rest = []")
    case True
    then show ?thesis using eq cs(2) by (simp add: inside_def)
  next
    case False
    then have "path_join [dir, p] = (dir @ ''/'') @ join ''/'' ?rest" using eq cs(1,2) by (simp add: join_append)
    then show ?thesis by (simp only: inside_def has_prefix_append simp_thms)
  qed
qed

section \<open>Keychains\<close>

text \<open>Credentials by registry, and the keychains that \<open>NewMultiKeychain\<close> asks in turn.\<close>

record auth_config =
  ac_username :: string
  ac_password :: string
  ac_auth :: string

type_synonym docker_creds = "(string \<times> auth_config) list"

datatype keychain = CredsKeychain "docker_creds option" | LibraryKeychain opaque | MultiKeychain "keychain list"

section \<open>Calls\<close>

text \<open>Keys and options that the signing libraries are called with, and the targets of a notary.\<close>

record key_opts =
  ko_key_ref :: string
  ko_password :: string

record sign_options =
  so_kubernetes_keychain :: bool
  so_keychain :: "keychain option"
  so_annotations :: "string list"
  so_upload :: bool
  so_recursive :: bool
  so_tlog_upload :: bool

record notary_target =
  nt_name :: string
  nt_hash :: string
  nt_length :: int

text \<open>The calls of the programs in a build pod, with the contents and modes they carry.\<close>

datatype prep_event =
    MkdirAll string opaque
  | OpenFile string opaque
  | WriteTo string string
  | CloseFile string
  | RemoveFile string
  | RemoveTree string
  | HttpGet string str_map
  | PullImage keychain string
  | GitInit string
  | MadeTemp string
  | GitCreateRemote string string
  | GitFetchRef string git_auth string
  | GitCheckout string string
  | GitUpdateSubmodule string git_auth string
  | CheckPush opaque string
  | CheckRead opaque string
  | SetEnv string string
  | UnsetEnv string
  | SignImage key_opts sign_options string
  | StageTarget notary_target "string list"
  | PublishTargets string
  | HttpSend string string str_map
  | RebaseImage string string "string list"
  | PushImage string opaque
  | TagImage string opaque

record prep_env =
  pe_do :: "prep_event list \<Rightarrow> prep_event \<Rightarrow> unit res"

definition do_call :: "prep_env \<Rightarrow> prep_event \<Rightarrow> (prep_event, unit) io" where
  "do_call E ev = call_io ev (\<lambda>h. pe_do E h ev)"

lemma emits_do_call [intro]: "P ev \<Longrightarrow> emits P (do_call E ev)"
  by (auto simp: do_call_def)

text \<open>What follows a value or a read is looked at for the values that can come only.\<close>

lemma emits_bind_lift: "(\<And>x. r = Inr x \<Longrightarrow> emits P (f x)) \<Longrightarrow> emits P (bind_io (lift_io r) f)"
  by (cases r) (auto simp: emits_def bind_io_apply)

lemma emits_bind_read: "(\<And>h x. g h = Inr x \<Longrightarrow> emits P (f x)) \<Longrightarrow> emits P (bind_io (read_io g) f)"
  by (auto simp: emits_def bind_io_apply split: sum.split)

lemma emits_bind_result:
  assumes "emits P m" and "\<And>h x. fst (m h) = Inr x \<Longrightarrow> emits P (f x)"
  shows "emits P (bind_io m f)"
  unfolding emits_def
proof
  fix h
  obtain es where es: "snd (m h) = h @ es" "list_all P es" using assms(1) by (rule emits_obtain)
  show "\<exists>es. snd (bind_io m f h) = h @ es \<and> list_all P es"
  proof (cases "fst (m h)")
    case (Inl e)
    with es show ?thesis by (simp add: bind_io_apply)
  next
    case (Inr x)
    obtain es' where "snd (f x (h @ es)) = (h @ es) @ es'" "list_all P es'"
      using assms(2) [OF Inr] by (rule emits_obtain)
    with Inr es show ?thesis by (auto simp: bind_io_apply)
  qed
qed

definition osModePerm :: opaque where "osModePerm = ''0777''"

section \<open>Archives\<close>

text \<open>
  \<open>stripPath\<close>: the name without its first components, empty when there are no more. A negative number
  slices out of range.
\<close>

definition strip_path :: "string \<Rightarrow> int \<Rightarrow> string res" where
  "strip_path source n =
     (let components = split_on (CHR ''/'') source
      in if int (length components) \<le> n then Inr ''''
         else if n < 0 then Inl (Panic ''slice bounds out of range'')
         else Inr (path_join (drop (nat n) components)))"

datatype tar_kind = TarDir | TarReg | TarOther

record tar_entry =
  te_name :: string
  te_kind :: tar_kind
  te_mode :: opaque
  te_content :: "string res"

text \<open>Opening, copying and closing one file.\<close>

definition write_out :: "prep_env \<Rightarrow> string \<Rightarrow> opaque \<Rightarrow> string res \<Rightarrow> (prep_event, unit) io" where
  "write_out E p mode content =
     bind_io (do_call E (MkdirAll (path_dir p) osModePerm)) (\<lambda>_.
     bind_io (do_call E (OpenFile p mode)) (\<lambda>_.
     bind_io (lift_io content) (\<lambda>txt.
     bind_io (do_call E (WriteTo p txt)) (\<lambda>_.
     do_call E (CloseFile p)))))"

text \<open>The entries as the reader gives them; an error of \<open>Next\<close> other than the end of the file stops.\<close>

fun extract_tar :: "prep_env \<Rightarrow> string \<Rightarrow> int \<Rightarrow> tar_entry res list \<Rightarrow> (prep_event, unit) io" where
  "extract_tar E dir n [] = ret_io ()"
| "extract_tar E dir n (Inl e # rest) = fail_io e"
| "extract_tar E dir n (Inr t # rest) =
     bind_io (lift_io (strip_path (te_name t) n)) (\<lambda>stripped.
       if stripped = '''' then extract_tar E dir n rest
       else
         bind_io (case te_kind t of
             TarDir \<Rightarrow> do_call E (MkdirAll (path_join [dir, stripped]) (te_mode t))
           | TarReg \<Rightarrow> write_out E (path_join [dir, stripped]) (te_mode t) (te_content t)
           | TarOther \<Rightarrow> ret_io ()) (\<lambda>_. extract_tar E dir n rest))"

definition extract_tar_gz :: "prep_env \<Rightarrow> string \<Rightarrow> int \<Rightarrow> tar_entry res list res \<Rightarrow> (prep_event, unit) io" where
  "extract_tar_gz E dir n gz = bind_io (lift_io gz) (extract_tar E dir n)"

record zip_entry =
  ze_name :: string
  ze_is_dir :: bool
  ze_mode :: opaque
  ze_creator :: "16 word"
  ze_open :: "string res res"

text \<open>The first byte of the creator version is 0 for FAT and 14 for VFAT.\<close>

definition is_fat_file :: "zip_entry \<Rightarrow> bool" where
  "is_fat_file z = (let b = drop_bit 8 (ze_creator z) in b = 0 \<or> b = 14)"

fun extract_zip_files :: "prep_env \<Rightarrow> string \<Rightarrow> int \<Rightarrow> zip_entry list \<Rightarrow> (prep_event, unit) io" where
  "extract_zip_files E dir n [] = ret_io ()"
| "extract_zip_files E dir n (z # rest) =
     bind_io (lift_io (strip_path (ze_name z) n)) (\<lambda>stripped.
       if stripped = '''' then extract_zip_files E dir n rest
       else
         (let p = path_join [dir, stripped]; mode = (if is_fat_file z then osModePerm else ze_mode z)
          in bind_io
               (if ze_is_dir z then do_call E (MkdirAll p mode)
                else
                  bind_io (do_call E (MkdirAll (path_dir p) osModePerm)) (\<lambda>_.
                  bind_io (do_call E (OpenFile p mode)) (\<lambda>_.
                  bind_io (lift_io (ze_open z)) (\<lambda>content.
                  bind_io (lift_io content) (\<lambda>txt.
                  bind_io (do_call E (WriteTo p txt)) (\<lambda>_.
                  do_call E (CloseFile p)))))))
             (\<lambda>_. extract_zip_files E dir n rest)))"

definition extract_zip :: "prep_env \<Rightarrow> string \<Rightarrow> int \<Rightarrow> zip_entry list res \<Rightarrow> (prep_event, unit) io" where
  "extract_zip E dir n r = bind_io (lift_io r) (extract_zip_files E dir n)"

subsection \<open>Paths of entries\<close>

text \<open>Names that can be components of a clean path.\<close>

definition plain_name :: "string \<Rightarrow> bool" where
  "plain_name c \<longleftrightarrow> c \<noteq> '''' \<and> c \<noteq> ''.'' \<and> c \<noteq> ''..'' \<and> CHR ''/'' \<notin> set c"

lemma clean_dir_iff: "clean_dir d \<longleftrightarrow> (\<exists>cs. cs \<noteq> [] \<and> d = ''/'' @ join ''/'' cs \<and> (\<forall>c \<in> set cs. plain_name c))"
  by (simp add: clean_dir_def plain_name_def)

lemma plain_filter:
  assumes "\<forall>c \<in> set cs. plain_name c"
  shows "filter (\<lambda>c. c \<noteq> '''' \<and> c \<noteq> ''.'') cs = cs" and "''..'' \<notin> set cs" and "\<forall>c \<in> set cs. CHR ''/'' \<notin> set c"
  using assms by (auto simp: plain_name_def filter_id_conv)

text \<open>A path without \<open>..\<close> goes down only.\<close>

definition goes_down :: "string \<Rightarrow> bool" where
  "goes_down p \<longleftrightarrow> ''..'' \<notin> set (split_on (CHR ''/'') p)"

lemma strip_path_goes_down:
  assumes "goes_down source" and "strip_path source n = Inr p"
  shows "goes_down p"
proof -
  let ?cs = "drop (nat n) (split_on (CHR ''/'') source)"
  let ?es = "dropWhile (\<lambda>e. e = '''') ?cs"
  have up: "''..'' \<notin> set ?es"
    using assms(1) set_dropWhileD in_set_dropD unfolding goes_down_def by metis
  have parts: "\<forall>c \<in> set ?es. CHR ''/'' \<notin> set c"
    using split_on_parts set_dropWhileD in_set_dropD by metis
  have "p = '''' \<or> p = path_join ?cs"
    using assms(2) by (auto simp: strip_path_def Let_def split: if_splits)
  moreover have "path_join ?cs = ''''" if "?es = []" using that by (simp only: path_join_def list.case)
  ultimately consider "p = ''''" | "p = path_join ?cs" "?es \<noteq> []" by blast
  then show ?thesis
  proof cases
    case 1
    then show ?thesis by (simp add: goes_down_def)
  next
    case 2
    let ?w = "join ''/'' ?es" and ?rest = "filter (\<lambda>c. c \<noteq> '''' \<and> c \<noteq> ''.'') ?es"
    obtain e es where es: "?es = e # es" using 2(2) by (cases ?es) auto
    then have e: "e \<noteq> ''''" using hd_dropWhile [OF 2(2)] by simp
    then obtain c e' where c: "e = c # e'" by (cases e) auto
    have "c \<noteq> CHR ''/''" using parts es c by auto
    moreover have w: "\<exists>t. ?w = c # t" using es c by (cases es) auto
    ultimately have w': "?w \<noteq> ''''" "\<not> path_rooted ?w" by (auto simp: path_rooted_def)
    have "p = path_clean ?w" using 2 es by (simp add: path_join_def)
    also have "\<dots> = (if ?rest = [] then ''.'' else join ''/'' ?rest)"
      using w' clean_components_push [OF up, of False "[]"]
      by (simp add: path_clean_def Let_def split_on_join [OF 2(2) parts] del: clean_components_simps)
    finally have p: "p = (if ?rest = [] then ''.'' else join ''/'' ?rest)" .
    show ?thesis
    proof (cases "?rest = []")
      case True
      then show ?thesis unfolding p by (simp add: goes_down_def)
    next
      case False
      have "split_on (CHR ''/'') (join ''/'' ?rest) = ?rest" by (rule split_on_join [OF False]) (use parts in auto)
      with False up show ?thesis unfolding p goes_down_def by simp
    qed
  qed
qed

text \<open>Joined below a clean directory such a path is a clean path again, and its directory is one, or the parent.\<close>

lemma path_join_clean:
  assumes "clean_dir dir" and "goes_down p"
  shows "clean_dir (path_join [dir, p])" and "inside dir (path_join [dir, p])"
proof -
  show "inside dir (path_join [dir, p])" by (rule path_join_inside) (use assms in \<open>simp_all add: goes_down_def\<close>)
  obtain cs where cs: "cs \<noteq> []" "dir = ''/'' @ join ''/'' cs" "\<forall>c \<in> set cs. plain_name c"
    using assms(1) by (auto simp: clean_dir_iff)
  let ?rest = "filter (\<lambda>c. c \<noteq> '''' \<and> c \<noteq> ''.'') (split_on (CHR ''/'') p)"
  have w: "join ''/'' [dir, p] = [] @ CHR ''/'' # (join ''/'' cs @ CHR ''/'' # p)" using cs(2) by simp
  have split: "split_on (CHR ''/'') (join ''/'' [dir, p]) = '''' # cs @ split_on (CHR ''/'') p"
    unfolding w split_on_append using split_on_join [OF cs(1), of "CHR ''/''"] plain_filter [OF cs(3)] by simp
  have no_up: "''..'' \<notin> set ('''' # cs @ split_on (CHR ''/'') p)"
    using assms(2) plain_filter [OF cs(3)] by (simp add: goes_down_def)
  have "path_join [dir, p] = path_clean (join ''/'' [dir, p])" using cs(2) by (simp add: path_join_def)
  also have "\<dots> = ''/'' @ join ''/'' (cs @ ?rest)"
    using clean_components_push [OF no_up, of True "[]"] plain_filter [OF cs(3)] split
    unfolding path_clean_def w by (simp add: path_rooted_def Let_def del: clean_components_simps)
  finally have "path_join [dir, p] = ''/'' @ join ''/'' (cs @ ?rest)" .
  moreover have "\<forall>c \<in> set (cs @ ?rest). plain_name c"
    using cs(3) assms(2) split_on_parts by (auto simp: plain_name_def goes_down_def)
  ultimately show "clean_dir (path_join [dir, p])" using cs(1) unfolding clean_dir_iff by blast
qed

lemma path_dir_clean:
  assumes "\<forall>c \<in> set (cs @ [c]). plain_name c"
  shows "path_dir (''/'' @ join ''/'' (cs @ [c])) = (if cs = [] then ''/'' else ''/'' @ join ''/'' cs)"
proof -
  define pre where "pre = (if cs = [] then '''' else ''/'' @ join ''/'' cs)"
  have "''/'' @ join ''/'' (cs @ [c]) = pre @ CHR ''/'' # c"
    by (cases "cs = []") (simp_all add: pre_def join_append)
  moreover have "dropWhile (\<lambda>x. x \<noteq> CHR ''/'') (rev c @ CHR ''/'' # rev pre) = CHR ''/'' # rev pre"
  proof -
    have "\<forall>x \<in> set (rev c). x \<noteq> CHR ''/''" using assms by (auto simp: plain_name_def)
    then show ?thesis by (subst dropWhile_append2) auto
  qed
  ultimately have dir: "path_dir (''/'' @ join ''/'' (cs @ [c])) = path_clean (pre @ ''/'')"
    unfolding path_dir_def by simp
  show ?thesis
  proof (cases "cs = []")
    case True
    then show ?thesis unfolding dir pre_def by (simp add: path_clean_def path_rooted_def clean_components_def)
  next
    case False
    have cs: "\<forall>c \<in> set cs. plain_name c" using assms by simp
    have "split_on (CHR ''/'') (pre @ ''/'') = '''' # cs @ ['''']"
      using False split_on_append [of "CHR ''/''" pre "''''"] split_on_join [OF False, of "CHR ''/''"] plain_filter [OF cs]
      by (simp add: pre_def)
    moreover have no_up: "''..'' \<notin> set ('''' # cs @ [''''])" using plain_filter [OF cs] by simp
    moreover have "path_rooted (pre @ ''/'')" using False by (simp add: pre_def path_rooted_def)
    ultimately have "path_clean (pre @ ''/'') = ''/'' @ join ''/'' cs"
      using clean_components_push [OF no_up, of True "[]"] plain_filter [OF cs]
      by (simp add: path_clean_def Let_def del: clean_components_simps)
    with False dir show ?thesis by simp
  qed
qed

lemma path_dir_inside:
  assumes "clean_dir dir" and "clean_dir p" and "inside dir p"
  shows "inside dir (path_dir p) \<or> path_dir p = path_dir dir"
proof (cases "p = dir")
  case True
  then show ?thesis by simp
next
  case False
  then obtain t where t: "p = dir @ ''/'' @ t"
    using assms(3) by (auto simp: inside_def has_prefix_iff)
  obtain cs where cs: "cs \<noteq> []" "dir = ''/'' @ join ''/'' cs" "\<forall>c \<in> set cs. plain_name c"
    using assms(1) by (auto simp: clean_dir_iff)
  obtain ds where ds: "ds \<noteq> []" "p = ''/'' @ join ''/'' ds" "\<forall>c \<in> set ds. plain_name c"
    using assms(2) by (auto simp: clean_dir_iff)
  have "'''' # ds = split_on (CHR ''/'') p"
    using ds(2) split_on_join [OF ds(1), of "CHR ''/''"] plain_filter [OF ds(3)] by simp
  also have "\<dots> = split_on (CHR ''/'') dir @ split_on (CHR ''/'') t"
    using t split_on_append [of "CHR ''/''" dir t] by simp
  also have "split_on (CHR ''/'') dir = '''' # cs"
    using cs(2) split_on_join [OF cs(1), of "CHR ''/''"] plain_filter [OF cs(3)] by simp
  finally have eq: "ds = cs @ split_on (CHR ''/'') t" by simp
  obtain es e where es: "split_on (CHR ''/'') t = es @ [e]" by (metis rev_exhaust split_on_nonempty)
  have "path_dir p = ''/'' @ join ''/'' (cs @ es)"
    using path_dir_clean [of "cs @ es" e] ds(2,3) eq es cs(1) by simp
  moreover have "\<dots> = dir \<or> (\<exists>u. \<dots> = (dir @ ''/'') @ u)"
    using cs(1,2) by (cases "es = []") (simp_all add: join_append)
  ultimately show ?thesis by (metis has_prefix_append inside_def)
qed

end
