(* ===== verification/Waiter_Properties.thy ===== *)
theory Waiter_Properties
  imports Waiter Prepare_Files Build_Properties
begin

text \<open>
  The waiters of the two pods of a build: their steps run in the order of the plain pod, with the
  commands of the plain pod, and come to an end.
\<close>

section \<open>The plain pod behind a pod with sidecars\<close>

text \<open>
  The waiter cuts the text of its command at blanks: it runs the command of the container exactly when
  there are arguments and no word holds a blank.
\<close>

lemma exec_of_split:
  "split_on (CHR '' '') (exec_of c) = hd (ctr_command c) # ctr_args c \<longleftrightarrow>
     ctr_args c \<noteq> [] \<and> (\<forall>w \<in> set (hd (ctr_command c) # ctr_args c). CHR '' '' \<notin> set w)"
proof
  assume eq: "split_on (CHR '' '') (exec_of c) = hd (ctr_command c) # ctr_args c"
  then have free: "\<forall>w \<in> set (hd (ctr_command c) # ctr_args c). CHR '' '' \<notin> set w"
    using split_on_parts by metis
  have "ctr_args c \<noteq> []"
  proof
    assume "ctr_args c = []"
    with eq free split_on_append [of "CHR '' ''" "hd (ctr_command c)" "''''"] split_on_no_sep [of "CHR '' ''" "hd (ctr_command c)"] show False
      by (simp add: exec_of_def)
  qed
  with free show "ctr_args c \<noteq> [] \<and> (\<forall>w \<in> set (hd (ctr_command c) # ctr_args c). CHR '' '' \<notin> set w)" by simp
next
  assume "ctr_args c \<noteq> [] \<and> (\<forall>w \<in> set (hd (ctr_command c) # ctr_args c). CHR '' '' \<notin> set w)"
  then show "split_on (CHR '' '') (exec_of c) = hd (ctr_command c) # ctr_args c"
    by (simp add: exec_of_def split_on_append split_on_join split_on_no_sep)
qed

definition without_sidecars :: "build_context \<Rightarrow> build_context" where
  "without_sidecars bx = bx\<lparr>bx_injected_sidecars := False\<rparr>"

lemma without_sidecars_sel [simp]:
  "bx_builder_config (without_sidecars bx) = bx_builder_config bx"
  "bx_secrets (without_sidecars bx) = bx_secrets bx"
  "bx_bindings (without_sidecars bx) = bx_bindings bx"
  "bx_pull_secrets (without_sidecars bx) = bx_pull_secrets bx"
  "bx_max_platform_api (without_sidecars bx) = bx_max_platform_api bx"
  "bx_ssh_trust_unknown (without_sidecars bx) = bx_ssh_trust_unknown bx"
  "\<not> bx_injected_sidecars (without_sidecars bx)"
  by (simp_all add: without_sidecars_def)

lemma without_sidecars_api: "highest_supported_platform_api L (without_sidecars bx) = highest_supported_platform_api L bx"
proof -
  have "highest_platform_api L (without_sidecars bx) svs = highest_platform_api L bx svs" for svs
    by (induction svs) (auto intro: arg_cong2 [where f = bind_res] split: option.split)
  then have "highest_platform_api L (without_sidecars bx) = highest_platform_api L bx" by (rule ext)
  then show ?thesis by (simp add: highest_supported_platform_api_def)
qed

lemma without_sidecars_rebase: "rebase_pod_plain PL b l (without_sidecars bx) images = rebase_pod_plain PL b l bx images"
  by (simp add: rebase_pod_plain_def pod_run_image_def)

lemma without_sidecars_containers:
  "prepare_container b (without_sidecars bx) images src tag dns cargs ms = prepare_container b bx images src tag dns cargs ms"
  "analyze_container b (without_sidecars bx) tag e = analyze_container b bx tag e"
  "detect_container b (without_sidecars bx) e bm = detect_container b bx e bm"
  "restore_container b (without_sidecars bx) e = restore_container b bx e"
  "build_container b (without_sidecars bx) e bm = build_container b bx e bm"
  "export_container b (without_sidecars bx) e dt = export_container b bx e dt"
  by (simp_all only: analyze_container_def detect_container_def restore_container_def build_container_def
      export_container_def prepare_container_def prepare_env_def lifecycle_container_def pod_run_image_def without_sidecars_sel)

lemma without_sidecars_build:
  "build_pod_plain PL b (without_sidecars bx) images api tag dns src bv bm dt = build_pod_plain PL b bx images api tag dns src bv bm dt"
  unfolding build_pod_plain_def by (simp only: without_sidecars_containers without_sidecars_sel)

text \<open>The steps of a plain pod in order, and the flags of the waiters of a pod with sidecars.\<close>

definition plain_steps :: "pod \<Rightarrow> container list" where
  "plain_steps p = pod_init_containers (pod_spec_of p) @ pod_containers (pod_spec_of p)"

definition waiters_of :: "pod \<Rightarrow> wait_flags list \<Rightarrow> bool" where
  "waiters_of p fl \<longleftrightarrow> map (\<lambda>c. parse_flags (ctr_args c) default_flags) (pod_containers (pod_spec_of p)) = map Inr fl"

definition build_step_names :: "build \<Rightarrow> build_context \<Rightarrow> string list" where
  "build_step_names b bx =
     (if rebasable b (bpc_stack_id (bx_builder_config bx)) then [''rebase'', ''completion'']
      else [''prepare'', ''analyze'', ''detect'', ''restore'', ''build'', ''export'', ''completion''])"

lemma with_sidecars_waiters:
  assumes "with_sidecars b bx images p0 = Inr p" and "bx_injected_sidecars bx"
  shows "waiters_of p (chain_flags sidecarsReadyFile (map (\<lambda>c. (ctr_name c, exec_of c)) (plain_steps p0)))"
proof -
  have first: "map (\<lambda>c. (ctr_name c, exec_of c)) (add_first_mount m cs) = map (\<lambda>c. (ctr_name c, exec_of c)) cs" for m cs
    by (cases cs) (simp_all add: exec_of_def)
  obtain cs where cs: "chain_waiters sidecarsReadyFile (add_first_mount downwardMount (plain_steps p0)) = Inr cs"
    and p: "pod_containers (pod_spec_of p) = cs"
    using assms by (auto simp: with_sidecars_def use_standard_containers_def Let_def bind_res_eq_Inr plain_steps_def
        sidecarsReadyFile_def)
  from chain_waiters_flags [OF cs] p first show ?thesis by (simp add: waiters_of_def sidecarsReadyFile_def)
qed

lemma plain_pod_behind:
  assumes made: "build_pod PL b images bx = Inr p" and "bx_injected_sidecars bx"
  obtains p0 where "build_pod PL b images (without_sidecars bx) = Inr p0"
    "map ctr_name (plain_steps p0) = build_step_names b bx"
    "waiters_of p (chain_flags sidecarsReadyFile (map (\<lambda>c. (ctr_name c, exec_of c)) (plain_steps p0)))"
  using made
proof (cases rule: build_pod_cases)
  case (rebase api l)
  then show ?thesis
    using that [of "rebase_pod_plain PL b l bx images"] with_sidecars_waiters [OF rebase(4) assms(2)]
      rebase_pod_plain_steps(1) [of PL b l bx images]
    by (simp add: build_pod_def rebase_pod_def without_sidecars_api without_sidecars_rebase with_sidecars_def
        build_step_names_def plain_steps_def step_names_def)
next
  case (full api tag ref src bv bm dt)
  then show ?thesis
    using that [of "build_pod_plain PL b bx images api tag (ref_registry ref) src bv bm dt"]
      with_sidecars_waiters [OF full(8) assms(2)] build_pod_plain_steps(1) [of PL b bx images api tag "ref_registry ref" src bv bm dt]
    by (simp add: build_pod_def without_sidecars_api without_sidecars_build with_sidecars_def
        build_step_names_def plain_steps_def step_names_def)
qed

section \<open>The two chains of kpack\<close>

interpretation full_chain: wait_chain "[''prepare'', ''analyze'', ''detect'', ''restore'', ''build'', ''export'', ''completion'']"
  by unfold_locales simp_all

interpretation rebase_chain: wait_chain "[''rebase'', ''completion'']"
  by unfold_locales simp_all

lemma waiters_unique: "waiters_of p fl \<Longrightarrow> waiters_of p fl' \<Longrightarrow> fl = fl'"
  unfolding waiters_of_def by (metis inj_def map_injective sum.inject(2))

lemma build_chain_inv:
  assumes "map ctr_name (plain_steps p0) = build_step_names b bx"
    and fl: "fl = chain_flags sidecarsReadyFile (map (\<lambda>c. (ctr_name c, exec_of c)) (plain_steps p0))"
    and run: "(wait_pod_step fl)\<^sup>*\<^sup>* (start_pod bin (length fl)) s"
  shows "log_in_order fl (wp_log s) \<and> length (wp_pcs s) = length fl \<and>
    (\<forall>i < length fl. wp_pcs s ! i = Exited 0 \<longrightarrow> Ended i True \<in> set (wp_log s))"
    and "wp_files s sidecarsReadyFile = Some c \<Longrightarrow> c \<noteq> '''' \<Longrightarrow> \<nexists>t. proc_step fl s t \<Longrightarrow>
      (\<forall>i < length fl. \<exists>n. wp_pcs s ! i = Exited n) \<or>
      (wp_files s ''/buildWait/error'' = None \<and> (\<exists>i < length fl. \<exists>n. n \<noteq> 0 \<and> wp_pcs s ! i = Exited n))"
proof -
  have zip: "map (\<lambda>c. (ctr_name c, exec_of c)) cs = zip (map ctr_name cs) (map exec_of cs)" for cs
    by (induction cs) simp_all
  have fl': "fl = chain_flags sidecarsReadyFile (zip (build_step_names b bx) (map exec_of (plain_steps p0)))"
    "length (map exec_of (plain_steps p0)) = length (build_step_names b bx)"
    using fl assms(1) zip by (simp, metis length_map)
  show "log_in_order fl (wp_log s) \<and> length (wp_pcs s) = length fl \<and>
    (\<forall>i < length fl. wp_pcs s ! i = Exited 0 \<longrightarrow> Ended i True \<in> set (wp_log s))"
  proof (cases "rebasable b (bpc_stack_id (bx_builder_config bx))")
    case True
    from rebase_chain.chain_inv_run [OF _ _ run] fl' True show ?thesis
      by (simp add: build_step_names_def rebase_chain.chain_inv_def rebase_chain.waiter_fits_def)
  next
    case False
    from full_chain.chain_inv_run [OF _ _ run] fl' False show ?thesis
      by (simp add: build_step_names_def full_chain.chain_inv_def full_chain.waiter_fits_def)
  qed
  show "(\<forall>i < length fl. \<exists>n. wp_pcs s ! i = Exited n) \<or>
      (wp_files s ''/buildWait/error'' = None \<and> (\<exists>i < length fl. \<exists>n. n \<noteq> 0 \<and> wp_pcs s ! i = Exited n))"
    if ready: "wp_files s sidecarsReadyFile = Some c" "c \<noteq> ''''" and stuck: "\<nexists>t. proc_step fl s t"
  proof (cases "rebasable b (bpc_stack_id (bx_builder_config bx))")
    case True
    with fl' have f: "fl = chain_flags sidecarsReadyFile (zip [''rebase'', ''completion''] (map exec_of (plain_steps p0)))"
      "length (map exec_of (plain_steps p0)) = length [''rebase'', ''completion'']"
      by (simp_all add: build_step_names_def)
    show ?thesis by (rule rebase_chain.stuck_pod [OF f rebase_chain.done_kept_run [OF f run] ready stuck])
  next
    case False
    with fl' have f: "fl = chain_flags sidecarsReadyFile
        (zip [''prepare'', ''analyze'', ''detect'', ''restore'', ''build'', ''export'', ''completion''] (map exec_of (plain_steps p0)))"
      "length (map exec_of (plain_steps p0)) =
        length [''prepare'', ''analyze'', ''detect'', ''restore'', ''build'', ''export'', ''completion'']"
      by (simp_all add: build_step_names_def)
    show ?thesis by (rule full_chain.stuck_pod [OF f full_chain.done_kept_run [OF f run] ready stuck])
  qed
qed

section \<open>Properties\<close>

lemma sample_waiters:
  obtains fl where "waiters_of (sample_pod []) fl" "length fl = 7"
    "\<forall>bin k. k \<le> 7 \<longrightarrow> (wait_pod_step fl)\<^sup>*\<^sup>* (start_pod bin 7) (happy_pod fl bin k)"
proof -
  have side: "bx_injected_sidecars (sample_context [])" by (simp add: sample_context_def)
  obtain p0 where names: "map ctr_name (plain_steps p0) = build_step_names sample_build (sample_context [])"
    and fl: "waiters_of (sample_pod []) (chain_flags sidecarsReadyFile (map (\<lambda>c. (ctr_name c, exec_of c)) (plain_steps p0)))"
    by (rule plain_pod_behind [OF sample_pod_made [of "[]"] side])
  have names7: "map ctr_name (plain_steps p0) = [''prepare'', ''analyze'', ''detect'', ''restore'', ''build'', ''export'', ''completion'']"
    using names by (simp add: build_step_names_def rebasable_def sample_build_last)
  let ?fl = "chain_flags sidecarsReadyFile (map (\<lambda>c. (ctr_name c, exec_of c)) (plain_steps p0))"
  have zip: "map (\<lambda>c. (ctr_name c, exec_of c)) cs = zip (map ctr_name cs) (map exec_of cs)" for cs
    by (induction cs) simp_all
  have fl': "?fl = chain_flags sidecarsReadyFile
      (zip [''prepare'', ''analyze'', ''detect'', ''restore'', ''build'', ''export'', ''completion''] (map exec_of (plain_steps p0)))"
    by (simp only: zip names7)
  have len: "length (map exec_of (plain_steps p0)) =
      length [''prepare'', ''analyze'', ''detect'', ''restore'', ''build'', ''export'', ''completion'']"
    using names7 by (metis length_map)
  have "'''' \<notin> set (map exec_of (plain_steps p0))" by (auto simp: exec_of_def)
  note run = full_chain.happy_run [OF fl' len this]
  have len7: "length ?fl = 7" using len by simp
  show ?thesis
    using that [OF fl len7] run len7 by simp
qed

text \<open>
  C29: The steps of a pod with injected sidecars are those of the plain pod of the same build and run in its order,
  however the waiters, the kubelet and their failures interleave: what starts as step number i is the command of
  container number i of the plain pod, with its arguments as long as none of these words holds a blank (the
  waiter cuts its command at blanks); it starts only after the sidecars are ready and every step before it has
  succeeded, and it starts once.
\<close>

theorem sidecar_steps_in_order:
  assumes "build_pod PL b images bx = Inr p" and "bx_injected_sidecars bx" and "waiters_of p fl"
    and "(wait_pod_step fl)\<^sup>*\<^sup>* (start_pod bin (length fl)) s"
    and "wp_log s = later @ Started i argv # earlier"
  shows "\<exists>p0. build_pod PL b images (without_sidecars bx) = Inr p0 \<and>
    length (plain_steps p0) = length fl \<and> i < length (plain_steps p0) \<and>
    map ctr_name (plain_steps p0) = build_step_names b bx \<and>
    argv = split_on (CHR '' '') (exec_of (plain_steps p0 ! i)) \<and>
    (ctr_args (plain_steps p0 ! i) \<noteq> [] \<longrightarrow>
     (\<forall>w \<in> set (hd (ctr_command (plain_steps p0 ! i)) # ctr_args (plain_steps p0 ! i)). CHR '' '' \<notin> set w) \<longrightarrow>
     argv = hd (ctr_command (plain_steps p0 ! i)) # ctr_args (plain_steps p0 ! i)) \<and>
    SidecarsReady \<in> set earlier \<and> (\<forall>j < i. Ended j True \<in> set earlier) \<and> \<not> was_started i earlier"
proof -
  obtain p0 where p0: "build_pod PL b images (without_sidecars bx) = Inr p0"
    "map ctr_name (plain_steps p0) = build_step_names b bx"
    "waiters_of p (chain_flags sidecarsReadyFile (map (\<lambda>c. (ctr_name c, exec_of c)) (plain_steps p0)))"
    by (rule plain_pod_behind [OF assms(1,2)])
  note fl = waiters_unique [OF assms(3) p0(3)]
  have len: "length (plain_steps p0) = length fl" using fl by (simp only: chain_flags_length length_map)
  have order: "log_in_order fl (later @ Started i argv # earlier)"
    using build_chain_inv(1) [OF p0(2) fl assms(4)] assms(5) by simp
  note started = started_in_order [OF order]
  then have i: "i < length (plain_steps p0)" using len by simp
  have argv: "argv = split_on (CHR '' '') (exec_of (plain_steps p0 ! i))"
    using started i unfolding fl
    by (simp only: chain_flags_length length_map chain_flags_nth nth_map waiter_argv_def wait_flags.simps snd_conv)
  show ?thesis
    using p0(1,2) len i argv exec_of_split [of "plain_steps p0 ! i"] started unfolding may_start_def by metis
qed

theorem sidecar_steps_in_order_witness:
  "\<exists>fl argv. waiters_of (sample_pod []) fl \<and>
     wp_log (happy_pod fl ''bin'' 7) = [Ended 6 True, Started 6 argv] @ wp_log (happy_pod fl ''bin'' 6) \<and>
     (\<forall>j < 6. Ended j True \<in> set (wp_log (happy_pod fl ''bin'' 6)))"
proof -
  obtain fl where fl: "waiters_of (sample_pod []) fl" "length fl = 7"
    "\<forall>bin k. k \<le> 7 \<longrightarrow> (wait_pod_step fl)\<^sup>*\<^sup>* (start_pod bin 7) (happy_pod fl bin k)"
    by (rule sample_waiters)
  have side: "bx_injected_sidecars (sample_context [])" by (simp add: sample_context_def)
  have log: "wp_log (happy_pod fl ''bin'' 7) = [Ended 6 True] @ Started 6 (waiter_argv (fl ! 6)) # wp_log (happy_pod fl ''bin'' 6)"
    by (simp add: happy_pod_def eval_nat_numeral)
  have "(wait_pod_step fl)\<^sup>*\<^sup>* (start_pod ''bin'' (length fl)) (happy_pod fl ''bin'' 7)" using fl(2,3) by simp
  from sidecar_steps_in_order [OF sample_pod_made [of "[]"] side fl(1) this log]
  have "\<forall>j < 6. Ended j True \<in> set (wp_log (happy_pod fl ''bin'' 6))" by blast
  with fl(1) log show ?thesis by auto
qed

text \<open>
  The waiters of a pod with injected sidecars stand for the containers of the plain pod of the same
  build, one by one; a waiter runs the command and the arguments of its container exactly when there are
  arguments and none of these words holds a blank.
\<close>

theorem sidecar_commands_agree:
  assumes "build_pod PL b images bx = Inr p" and "bx_injected_sidecars bx"
  shows "\<exists>p0 fl. build_pod PL b images (without_sidecars bx) = Inr p0 \<and> waiters_of p fl \<and>
    list_all2 (\<lambda>f c. waiter_argv f = hd (ctr_command c) # ctr_args c \<longleftrightarrow>
        ctr_args c \<noteq> [] \<and> (\<forall>w \<in> set (hd (ctr_command c) # ctr_args c). CHR '' '' \<notin> set w)) fl (plain_steps p0)"
proof -
  obtain p0 where p0: "build_pod PL b images (without_sidecars bx) = Inr p0"
    "waiters_of p (chain_flags sidecarsReadyFile (map (\<lambda>c. (ctr_name c, exec_of c)) (plain_steps p0)))"
    by (rule plain_pod_behind [OF assms])
  let ?fl = "chain_flags sidecarsReadyFile (map (\<lambda>c. (ctr_name c, exec_of c)) (plain_steps p0))"
  have "list_all2 (\<lambda>f c. waiter_argv f = hd (ctr_command c) # ctr_args c \<longleftrightarrow>
        ctr_args c \<noteq> [] \<and> (\<forall>w \<in> set (hd (ctr_command c) # ctr_args c). CHR '' '' \<notin> set w)) ?fl (plain_steps p0)"
    by (rule list_all2_all_nthI) (simp_all only: chain_flags_length length_map chain_flags_nth nth_map waiter_argv_def
      wait_flags.simps snd_conv exec_of_split)
  with p0 show ?thesis by blast
qed

theorem sidecar_commands_agree_witness:
  "\<exists>p0 fl. build_pod sample_pod_lib sample_build sample_images (without_sidecars (sample_context [])) = Inr p0 \<and>
     waiters_of (sample_pod []) fl \<and> length fl = length (plain_steps p0)"
proof -
  have "bx_injected_sidecars (sample_context [])" by (simp add: sample_context_def)
  from sidecar_commands_agree [OF sample_pod_made this] show ?thesis by (meson list_all2_lengthD)
qed

section \<open>The end of a pod\<close>

text \<open>
  A run of the pod with the waiters that moved in it, in the order in which they did; between their moves the kubelet
  may write its file.
\<close>

inductive waiter_run :: "wait_flags list \<Rightarrow> wait_pod \<Rightarrow> nat list \<Rightarrow> wait_pod \<Rightarrow> bool" for fl s where
  start: "waiter_run fl s [] s"
| moves: "waiter_run fl s ms t \<Longrightarrow> i < length fl \<Longrightarrow> wait_step (fl ! i) (wp_files t) (wp_pcs t ! i) a F' pc' \<Longrightarrow>
    waiter_run fl s (ms @ [i]) \<lparr>wp_files = F', wp_pcs = (wp_pcs t)[i := pc'], wp_log = note_act i a @ wp_log t\<rparr>"
| between: "waiter_run fl s ms t \<Longrightarrow> wait_pod_step fl t u \<Longrightarrow> wp_pcs u = wp_pcs t \<Longrightarrow> waiter_run fl s ms u"

lemma waiter_run_steps: "waiter_run fl s ms t \<Longrightarrow> (wait_pod_step fl)\<^sup>*\<^sup>* s t"
proof (induction rule: waiter_run.induct)
  case (moves ms t i a F' pc')
  from wait_pod_step.process [OF proc_step.proc [OF moves.hyps(2,3)]] moves.IH show ?case
    by (rule rtranclp.rtrancl_into_rtrancl [rotated])
qed simp_all

lemma steps_waiter_run: "(wait_pod_step fl)\<^sup>*\<^sup>* s t \<Longrightarrow> \<exists>ms. waiter_run fl s ms t"
proof (induction rule: rtranclp_induct)
  case base
  show ?case using waiter_run.start by blast
next
  case (step t u)
  then obtain ms where run: "waiter_run fl s ms t" by blast
  from step.hyps(2) show ?case
  proof cases
    case process
    then show ?thesis using waiter_run.moves [OF run] by (cases rule: proc_step.cases) blast
  next
    case (kubelet c)
    then show ?thesis using waiter_run.between [OF run step.hyps(2)] by auto
  qed
qed

text \<open>Every move of a waiter brings it closer to its exit, and nothing else moves it.\<close>

lemma waiter_run_count:
  "waiter_run fl s ms t \<Longrightarrow> length (wp_pcs s) = length fl \<Longrightarrow>
   length (wp_pcs t) = length fl \<and> set ms \<subseteq> {..<length fl} \<and>
   (\<forall>i < length fl. count_list ms i + pc_rank (wp_pcs t ! i) \<le> pc_rank (wp_pcs s ! i))"
proof (induction rule: waiter_run.induct)
  case (moves ms t i a F' pc')
  have "count_list (ms @ [i]) j + pc_rank ((wp_pcs t)[i := pc'] ! j) \<le> pc_rank (wp_pcs s ! j)" if "j < length fl" for j
    using moves.IH [OF moves.prems] wait_step_rank [OF moves.hyps(3)] that by (cases "j = i") fastforce+
  then show ?case using moves.IH [OF moves.prems] moves.hyps(2) by simp
qed simp_all

lemma waiter_run_bound:
  assumes "waiter_run fl s ms t" and "length (wp_pcs s) = length fl"
  shows "\<forall>i < length fl. count_list ms i \<le> 8" and "length ms \<le> 8 * length fl"
proof -
  note count = waiter_run_count [OF assms]
  have "pc_rank p \<le> 8" for p by (cases p) simp_all
  then show each: "\<forall>i < length fl. count_list ms i \<le> 8" using count by (meson add_leD1 le_trans)
  have "length ms = (\<Sum>i<length fl. count_list ms i)" using count by (intro sum_count_set [symmetric]) auto
  also have "\<dots> \<le> (\<Sum>i<length fl. 8)" using each by (intro sum_mono) simp
  finally show "length ms \<le> 8 * length fl" by simp
qed

text \<open>
  C30: A pod with injected sidecars ends: however the moves of the waiters and the writes of the kubelet interleave,
  each waiter moves at most eight times, and when the sidecars are ready and no waiter can move, all have exited, or one
  has failed without being able to write the error file. A waiter that exits with status 0 has seen its
  command succeed.
\<close>

theorem sidecar_pod_ends:
  assumes "build_pod PL b images bx = Inr p" and "bx_injected_sidecars bx" and "waiters_of p fl"
    and "waiter_run fl (start_pod bin (length fl)) moves t"
  shows "(\<forall>i < length fl. count_list moves i \<le> 8) \<and> length moves \<le> 8 * length fl \<and>
    (\<forall>i < length fl. wp_pcs t ! i = Exited 0 \<longrightarrow> Ended i True \<in> set (wp_log t)) \<and>
    (wp_files t sidecarsReadyFile \<notin> {None, Some ''''} \<longrightarrow> (\<nexists>u. proc_step fl t u) \<longrightarrow>
      (\<forall>i < length fl. \<exists>n. wp_pcs t ! i = Exited n) \<or>
      (wp_files t ''/buildWait/error'' = None \<and> (\<exists>i < length fl. \<exists>n. n \<noteq> 0 \<and> wp_pcs t ! i = Exited n)))"
proof -
  obtain p0 where p0: "map ctr_name (plain_steps p0) = build_step_names b bx"
    "waiters_of p (chain_flags sidecarsReadyFile (map (\<lambda>c. (ctr_name c, exec_of c)) (plain_steps p0)))"
    by (rule plain_pod_behind [OF assms(1,2)])
  note fl = waiters_unique [OF assms(3) p0(2)] and run = waiter_run_steps [OF assms(4)]
  have "length (wp_pcs (start_pod bin (length fl))) = length fl" by (simp add: start_pod_def)
  note bound = waiter_run_bound [OF assms(4) this]
  have "(\<forall>i < length fl. \<exists>n. wp_pcs t ! i = Exited n) \<or>
      (wp_files t ''/buildWait/error'' = None \<and> (\<exists>i < length fl. \<exists>n. n \<noteq> 0 \<and> wp_pcs t ! i = Exited n))"
    if "wp_files t sidecarsReadyFile \<notin> {None, Some ''''}" "\<nexists>u. proc_step fl t u"
  proof -
    from that(1) obtain c where "wp_files t sidecarsReadyFile = Some c" "c \<noteq> ''''" by auto
    from build_chain_inv(2) [OF p0(1) fl run this that(2)] show ?thesis .
  qed
  with bound build_chain_inv(1) [OF p0(1) fl run] show ?thesis by blast
qed

theorem sidecar_pod_ends_witness:
  "\<exists>fl moves. waiters_of (sample_pod []) fl \<and> waiter_run fl (start_pod ''bin'' 7) moves (happy_pod fl ''bin'' 7) \<and>
     length moves \<le> 56 \<and> (\<forall>i < length fl. Ended i True \<in> set (wp_log (happy_pod fl ''bin'' 7)))"
proof -
  obtain fl where fl: "waiters_of (sample_pod []) fl" "length fl = 7"
    "\<forall>bin k. k \<le> 7 \<longrightarrow> (wait_pod_step fl)\<^sup>*\<^sup>* (start_pod bin 7) (happy_pod fl bin k)"
    by (rule sample_waiters)
  have side: "bx_injected_sidecars (sample_context [])" by (simp add: sample_context_def)
  have "(wait_pod_step fl)\<^sup>*\<^sup>* (start_pod ''bin'' (length fl)) (happy_pod fl ''bin'' 7)" using fl(2,3) by simp
  then obtain moves where run: "waiter_run fl (start_pod ''bin'' (length fl)) moves (happy_pod fl ''bin'' 7)"
    using steps_waiter_run by blast
  from sidecar_pod_ends [OF sample_pod_made [of "[]"] side fl(1) run]
  have "length moves \<le> 8 * length fl"
    "\<forall>i < length fl. wp_pcs (happy_pod fl ''bin'' 7) ! i = Exited 0 \<longrightarrow> Ended i True \<in> set (wp_log (happy_pod fl ''bin'' 7))"
    by blast+
  moreover have "\<forall>i < length fl. wp_pcs (happy_pod fl ''bin'' 7) ! i = Exited 0"
    using fl(2) by (simp add: happy_pod_def nth_append)
  ultimately show ?thesis using fl(1,2) run by (intro exI [of _ fl] exI [of _ moves]) simp
qed

end
