(* ===== verification/Source_Fetch.thy ===== *)
theory Source_Fetch
  imports Prepare_Files Base64
begin

text \<open>
  How the prepare container gets source code: \<open>pkg/blob\<close> (keychains and fetcher), \<open>pkg/registry/fetch.go\<close>
  and \<open>pkg/git/fetch.go\<close>. Parsers, digests, archives readers and tokens come from libraries and services.
\<close>

section \<open>Libraries\<close>

datatype project_md =
    GitProject string string string
  | BlobProject string string
  | ImageProject string string

text \<open>
  Of a url its host with its path, and its host name; the answer of the server, with the part of the body that could be
  read and the error of reading the rest; the name of a new temporary file; the file readers.
\<close>

record source_lib =
  sl_parse_url :: "string \<Rightarrow> (string \<times> string) res"
  sl_hostname :: "string \<Rightarrow> string res"
  sl_http :: "prep_event list \<Rightarrow> string \<Rightarrow> str_map \<Rightarrow> (int \<times> string \<times> goerr option) res"
  sl_status_text :: "int \<Rightarrow> string"
  sl_temp_file :: "prep_event list \<Rightarrow> string res"
  sl_reopen :: "prep_event list \<Rightarrow> bool"
  sl_detect :: "string \<Rightarrow> string"
  sl_sha256 :: "string \<Rightarrow> string"
  sl_zip :: "string \<Rightarrow> zip_entry list res"
  sl_gunzip :: "string \<Rightarrow> tar_entry res list res"
  sl_tar :: "string \<Rightarrow> tar_entry res list"
  sl_toml :: "project_md \<Rightarrow> string res"

section \<open>Temporary files\<close>

text \<open>
  A file or directory that the process makes in the temporary directory, under a name of its own, and the deferred
  removal, which happens whatever the work in between gives.
\<close>

definition make_temp :: "(prep_event list \<Rightarrow> string res) \<Rightarrow> (prep_event, string) io" where
  "make_temp new_name =
     bind_io (read_io new_name) (\<lambda>tmp. bind_io (call_io (MadeTemp tmp) (\<lambda>_. Inr ())) (\<lambda>_. ret_io tmp))"

definition remove_after :: "prep_env \<Rightarrow> string \<Rightarrow> (prep_event, unit) io \<Rightarrow> (prep_event, unit) io" where
  "remove_after E tmp work =
     attempt_io work (\<lambda>r. attempt_io (do_call E (RemoveTree tmp)) (\<lambda>_. lift_io r))"

lemma make_temp_result: "fst (make_temp f h) = Inr tmp \<Longrightarrow> \<exists>h. f h = Inr tmp"
  by (auto simp: make_temp_def bind_io_apply split: sum.splits)

section \<open>Keychains of blobs\<close>

text \<open>What \<open>Resolve\<close> of a keychain returns: the header, more headers and an error beside them.\<close>

type_synonym blob_auth_result = "string \<times> str_map \<times> goerr option"

definition no_blob_auth :: "string \<Rightarrow> blob_auth_result" where
  "no_blob_auth msg = ('''', Map.empty, Some (Failed Plain msg))"

text \<open>The first keychain that gives a header, whatever its error.\<close>

fun multi_keychain_resolve :: "(string \<Rightarrow> blob_auth_result) list \<Rightarrow> string \<Rightarrow> blob_auth_result" where
  "multi_keychain_resolve [] url = no_blob_auth (''no keychain matched for '' @ quoted url)"
| "multi_keychain_resolve (k # ks) url =
     (case k url of (t, h, err) \<Rightarrow> if t \<noteq> '''' then (t, h, err) else multi_keychain_resolve ks url)"

text \<open>
  The service in \<open>.*[a-z0-9]+\.([a-z]+)\.core\.windows\.net\/.*\<close>: \<open>.*\<close> is greedy, so the last place in
  the url where the rest matches.
\<close>

definition lower_letter :: "char \<Rightarrow> bool" where
  "lower_letter c \<longleftrightarrow> c \<in> set ''abcdefghijklmnopqrstuvwxyz''"

definition service_before :: "string \<Rightarrow> string option" where
  "service_before prefix =
     (let w = takeWhile lower_letter (rev prefix); rest = drop (length w) (rev prefix)
      in case rest of
           d # c # _ \<Rightarrow> (if w \<noteq> '''' \<and> d = CHR ''.'' \<and> (lower_letter c \<or> c \<in> set ''0123456789'') then Some (rev w) else None)
         | _ \<Rightarrow> None)"

fun azure_service_from :: "string \<Rightarrow> string \<Rightarrow> string option" where
  "azure_service_from seen [] = None"
| "azure_service_from seen (c # cs) =
     (case azure_service_from (seen @ [c]) cs of
        Some s \<Rightarrow> Some s
      | None \<Rightarrow> (if has_prefix (c # cs) ''.core.windows.net/'' then service_before seen else None))"

definition azure_service :: "string \<Rightarrow> string option" where
  "azure_service url = azure_service_from '''' url"

record cloud_lib =
  cl_az_token :: "string res"
  cl_az_date :: string
  cl_az_file_version :: string
  cl_az_blob_version :: string
  cl_gcp_token :: "string res"

definition az_keychain_resolve :: "cloud_lib \<Rightarrow> string \<Rightarrow> blob_auth_result" where
  "az_keychain_resolve K url =
     (case azure_service url of
        None \<Rightarrow> no_blob_auth ''not an azure url''
      | Some service \<Rightarrow>
          (case cl_az_token K of
             Inl e \<Rightarrow> ('''', Map.empty, Some e)
           | Inr token \<Rightarrow>
               (if service = ''file''
                then (''Bearer '' @ token, [''x-ms-date'' \<mapsto> cl_az_date K, ''x-ms-version'' \<mapsto> cl_az_file_version K,
                        ''x-ms-file-request-intent'' \<mapsto> ''backup''], None)
                else if service = ''blob''
                then (''Bearer '' @ token, [''x-ms-date'' \<mapsto> cl_az_date K, ''x-ms-version'' \<mapsto> cl_az_blob_version K], None)
                else no_blob_auth ''only azure blob and filestore are supported'')))"

definition gcp_keychain_resolve :: "cloud_lib \<Rightarrow> string \<Rightarrow> blob_auth_result" where
  "gcp_keychain_resolve K url =
     (case cl_gcp_token K of Inl e \<Rightarrow> ('''', Map.empty, Some e) | Inr token \<Rightarrow> (''Bearer '' @ token, Map.empty, None))"

definition default_keychain :: "cloud_lib \<Rightarrow> string \<Rightarrow> blob_auth_result" where
  "default_keychain K = multi_keychain_resolve [az_keychain_resolve K, gcp_keychain_resolve K]"

subsection \<open>Mounted secrets\<close>

record file_credential =
  fcr_domain :: string
  fcr_secret_name :: string
  fcr_username :: string
  fcr_password :: string
  fcr_bearer :: string
  fcr_authorization :: string

text \<open>The files of a mounted directory: whether there is one and its text.\<close>

record mounts =
  mt_stat :: "string \<Rightarrow> string \<Rightarrow> unit res"
  mt_read :: "string \<Rightarrow> string \<Rightarrow> string res"

definition read_file :: "mounts \<Rightarrow> string \<Rightarrow> string \<Rightarrow> string res" where
  "read_file M dir nm =
     (case mt_stat M dir nm of
        Inl e \<Rightarrow> if is_not_found e then Inr '''' else Inl e
      | Inr _ \<Rightarrow> mt_read M dir nm)"

definition read_file_credential :: "mounts \<Rightarrow> string \<Rightarrow> string \<Rightarrow> string \<Rightarrow> file_credential res" where
  "read_file_credential M volume nm domain =
     (let dir = path_join [volume, nm]
      in bind_res (read_file M dir ''username'') (\<lambda>username.
         bind_res (read_file M dir ''password'') (\<lambda>password.
         bind_res (read_file M dir ''bearer'') (\<lambda>bearer.
         bind_res (read_file M dir ''authorization'') (\<lambda>authorization.
         Inr \<lparr>fcr_domain = domain, fcr_secret_name = nm, fcr_username = username, fcr_password = password,
              fcr_bearer = bearer, fcr_authorization = authorization\<rparr>)))))"

fun new_mounted_secret_blob_keychain :: "mounts \<Rightarrow> string \<Rightarrow> string list \<Rightarrow> file_credential list res" where
  "new_mounted_secret_blob_keychain M volume [] = Inr []"
| "new_mounted_secret_blob_keychain M volume (s # ss) =
     (let parts = split_pair s
      in if length parts \<noteq> 2 then Inl (Failed Plain (''could not parse blob secret argument '' @ s))
         else bind_res (read_file_credential M volume (parts ! 0) (parts ! 1)) (\<lambda>c.
              bind_res (new_mounted_secret_blob_keychain M volume ss) (\<lambda>cs. Inr (c # cs))))"

definition auth_headers_of :: "file_credential \<Rightarrow> string list" where
  "auth_headers_of c =
     (if fcr_username c \<noteq> '''' \<or> fcr_password c \<noteq> ''''
      then [''Basic '' @ b64_encode (fcr_username c @ '':'' @ fcr_password c)] else []) @
     (if fcr_bearer c \<noteq> '''' then [''Bearer '' @ fcr_bearer c] else []) @
     (if fcr_authorization c \<noteq> '''' then [fcr_authorization c] else [])"

definition file_creds_resolve :: "source_lib \<Rightarrow> file_credential list \<Rightarrow> string \<Rightarrow> blob_auth_result" where
  "file_creds_resolve L creds url =
     (case sl_hostname L url of
        Inl e \<Rightarrow> no_blob_auth (''invalid url '' @ quoted url @ '': <nil>'')
      | Inr host \<Rightarrow>
          (case find (\<lambda>c. fcr_domain c = host) creds of
             None \<Rightarrow> no_blob_auth (''no secrets matched for '' @ quoted host)
           | Some c \<Rightarrow>
               (case auth_headers_of c of
                  [] \<Rightarrow> no_blob_auth (''no auths found for '' @ quoted (fcr_secret_name c))
                | [h] \<Rightarrow> (h, Map.empty, None)
                | _ \<Rightarrow> no_blob_auth (''multiple auths found for '' @ quoted (fcr_secret_name c) @
                         '', only one of username/password, bearer, authorization is allowed''))))"

section \<open>Blobs\<close>

definition failed_blob :: "string \<Rightarrow> int \<Rightarrow> string \<Rightarrow> goerr" where
  "failed_blob url status rest = Failed Plain (''failed to get blob '' @ url @ '': '' @ itoa status @ '' '' @ rest)"

text \<open>
  The body of the response, saved in a temporary file: what arrives of it is copied, also when reading it fails half
  way, and then the file stays. (Rewinding the open file is taken not to fail.)
\<close>

definition download_blob :: "prep_env \<Rightarrow> source_lib \<Rightarrow> string \<Rightarrow> str_map \<Rightarrow> (prep_event, string \<times> string) io" where
  "download_blob E L url headers =
     bind_io (call_io (HttpGet url headers) (\<lambda>h. sl_http L h url headers)) (\<lambda>(status, body, err).
       if status \<noteq> 200
       then fail_io (failed_blob url status (case err of
              Some _ \<Rightarrow> sl_status_text L status
            | None \<Rightarrow> sl_status_text L status @ '': '' @ body))
       else bind_io (make_temp (sl_temp_file L)) (\<lambda>file.
            bind_io (do_call E (WriteTo file body)) (\<lambda>_.
            case err of Some e \<Rightarrow> fail_io e | None \<Rightarrow> ret_io (file, body))))"

text \<open>The first 512 bytes, filled up with zeros; an empty file is an error of the read.\<close>

definition classify_file :: "source_lib \<Rightarrow> string \<Rightarrow> string res" where
  "classify_file L content =
     (if content = '''' then Inl (Failed Plain ''EOF'')
      else Inr (sl_detect L (take 512 content @ replicate (512 - length content) (CHR 0x00))))"

definition errUnexpectedBlobType :: goerr where
  "errUnexpectedBlobType = Failed Plain ''unexpected blob file type, must be one of .zip, .tar.gz, .tar, .jar''"

definition is_tar :: "source_lib \<Rightarrow> prep_event list \<Rightarrow> string \<Rightarrow> bool" where
  "is_tar L h content =
     (sl_reopen L h \<and> (case sl_tar L content of Inr _ # _ \<Rightarrow> True | _ \<Rightarrow> False))"

definition is_zip :: "source_lib \<Rightarrow> prep_event list \<Rightarrow> string \<Rightarrow> bool" where
  "is_zip L h content =
     (sl_reopen L h \<and> classify_file L content = Inr ''application/zip'')"

definition extract_blob :: "prep_env \<Rightarrow> source_lib \<Rightarrow> string \<Rightarrow> int \<Rightarrow> string \<Rightarrow> string \<Rightarrow> (prep_event, unit) io" where
  "extract_blob E L dir strip media_type content =
     (if media_type = ''application/zip'' then extract_zip E dir strip (sl_zip L content)
      else if media_type = ''application/x-gzip'' then extract_tar_gz E dir strip (sl_gunzip L content)
      else if media_type = ''application/octet-stream'' then
        bind_io (read_io (\<lambda>h. Inr (is_tar L h content))) (\<lambda>tar.
          if tar then extract_tar E dir strip (sl_tar L content) else fail_io errUnexpectedBlobType)
      else fail_io errUnexpectedBlobType)"

text \<open>The file that ends up in a label of the image.\<close>

definition project_metadata_path :: "string \<Rightarrow> string" where
  "project_metadata_path metadata_dir = path_join [metadata_dir, ''project-metadata.toml'']"

definition write_project :: "(string \<Rightarrow> goerr \<Rightarrow> goerr) \<Rightarrow> prep_env \<Rightarrow> source_lib \<Rightarrow> string \<Rightarrow> string \<Rightarrow> string \<Rightarrow> project_md \<Rightarrow> (prep_event, unit) io" where
  "write_project wrap E L metadata_dir what_create what_encode md =
     (let p = project_metadata_path metadata_dir;
          invalid = (\<lambda>what. ''invalid metadata destination '' @ quoted (metadata_dir @ ''/project-metadata.toml'') @
            '' for '' @ what)
      in bind_io (map_err_io (wrap (invalid what_create)) (do_call E (OpenFile p ''0666''))) (\<lambda>_.
         map_err_io (wrap (invalid what_encode)) (bind_io (lift_io (sl_toml L md)) (\<lambda>txt. do_call E (WriteTo p txt)))))"

definition fetch_blob :: "prep_env \<Rightarrow> source_lib \<Rightarrow> (string \<Rightarrow> blob_auth_result) option \<Rightarrow> string \<Rightarrow> string \<Rightarrow> int \<Rightarrow> string \<Rightarrow>
    (prep_event, unit) io" where
  "fetch_blob E L keychain dir url strip metadata_dir =
     bind_io (lift_io (sl_parse_url L url)) (\<lambda>_.
     bind_io (lift_io (case keychain of
         None \<Rightarrow> Inr Map.empty
       | Some k \<Rightarrow> (case k url of
             (auth, headers, Some e) \<Rightarrow> Inl (errorf ''failed to resolve creds'' e)
           | (auth, headers, None) \<Rightarrow> Inr (headers(''Authorization'' \<mapsto> auth))))) (\<lambda>headers.
     bind_io (download_blob E L url headers) (\<lambda>(file, content).
     remove_after E file
       (bind_io (lift_io (classify_file L content)) (\<lambda>media_type.
        bind_io (extract_blob E L dir strip media_type content) (\<lambda>_.
        write_project errorf E L metadata_dir (''blob '' @ quoted url) (''blob '' @ quoted url)
          (BlobProject url (sl_sha256 L content))))))))"

section \<open>Source images\<close>

record source_image =
  si_labels :: "str_map option res"
  si_layers :: "tar_entry res list res list res"

text \<open>The client of the registry and the temporary directory the archive in an image goes through.\<close>

record image_source =
  ims_fetch :: "prep_event list \<Rightarrow> keychain \<Rightarrow> string \<Rightarrow> (source_image \<times> string) res"
  ims_temp_dir :: "prep_event list \<Rightarrow> string res"
  ims_read_dir :: "prep_event list \<Rightarrow> string \<Rightarrow> string list res"
  ims_open :: "prep_event list \<Rightarrow> string \<Rightarrow> string res"

definition ContentTypeLabelKey :: string where "ContentTypeLabelKey = ''source.contenttype.kpack.io''"

definition get_content_type :: "source_image \<Rightarrow> string res" where
  "get_content_type img =
     bind_res (si_labels img) (\<lambda>labels.
       case labels of None \<Rightarrow> Inr '''' | Some m \<Rightarrow> Inr (lookup_str m ContentTypeLabelKey))"

definition fetch_layer :: "prep_env \<Rightarrow> tar_entry res list res \<Rightarrow> string \<Rightarrow> (prep_event, unit) io" where
  "fetch_layer E layer dir = bind_io (lift_io layer) (extract_tar E dir 0)"

fun fetch_layers :: "prep_env \<Rightarrow> string \<Rightarrow> tar_entry res list res list \<Rightarrow> (prep_event, unit) io" where
  "fetch_layers E dir [] = ret_io ()"
| "fetch_layers E dir (l # ls) = bind_io (fetch_layer E l dir) (\<lambda>_. fetch_layers E dir ls)"

definition handle_source :: "prep_env \<Rightarrow> source_image \<Rightarrow> string \<Rightarrow> (prep_event, unit) io" where
  "handle_source E img dir = bind_io (lift_io (si_layers img)) (fetch_layers E dir)"

text \<open>The name and the text of the one file in the one layer.\<close>

definition get_source_file :: "prep_env \<Rightarrow> image_source \<Rightarrow> source_image \<Rightarrow> string \<Rightarrow> (prep_event, string \<times> string) io" where
  "get_source_file E I img dir =
     bind_io (lift_io (si_layers img)) (\<lambda>layers.
       case layers of
         [layer] \<Rightarrow>
           bind_io (fetch_layer E layer dir) (\<lambda>_.
           bind_io (read_io (\<lambda>h. ims_read_dir I h dir)) (\<lambda>infos.
             case infos of
               [nm] \<Rightarrow> bind_io (read_io (\<lambda>h. ims_open I h (path_join [dir, nm]))) (\<lambda>txt. ret_io (path_join [dir, nm], txt))
             | _ \<Rightarrow> fail_io (Failed Plain ''expected layer to have exactly one file'')))
       | _ \<Rightarrow> fail_io (Failed Plain ''expected image to have exactly one layer''))"

text \<open>The archive goes through a temporary directory, which is removed whatever happens.\<close>

definition through_temp_dir :: "prep_env \<Rightarrow> image_source \<Rightarrow> (string \<Rightarrow> (prep_event, unit) io) \<Rightarrow> (prep_event, unit) io" where
  "through_temp_dir E I body =
     bind_io (make_temp (ims_temp_dir I)) (\<lambda>tmp. remove_after E tmp (body tmp))"

definition handle_zip :: "prep_env \<Rightarrow> source_lib \<Rightarrow> image_source \<Rightarrow> source_image \<Rightarrow> string \<Rightarrow> (prep_event, unit) io" where
  "handle_zip E L I img dir = through_temp_dir E I (\<lambda>tmp.
     bind_io (get_source_file E I img tmp) (\<lambda>(nm, content).
     bind_io (read_io (\<lambda>h. Inr (is_zip L h content))) (\<lambda>zip.
       if \<not> zip then fail_io (Failed Plain (''expected file '' @ quoted nm @ '' to be a zip archive''))
       else extract_zip E dir 0 (sl_zip L content))))"

definition handle_tar :: "prep_env \<Rightarrow> source_lib \<Rightarrow> image_source \<Rightarrow> source_image \<Rightarrow> string \<Rightarrow> (prep_event, unit) io" where
  "handle_tar E L I img dir = through_temp_dir E I (\<lambda>tmp.
     bind_io (get_source_file E I img tmp) (\<lambda>(nm, content).
     bind_io (read_io (\<lambda>h. Inr (is_tar L h content))) (\<lambda>tar.
       if \<not> tar then fail_io (Failed Plain (''expected file '' @ quoted nm @ '' to be a tar archive''))
       else extract_tar E dir 0 (sl_tar L content))))"

definition handle_tar_gz :: "prep_env \<Rightarrow> source_lib \<Rightarrow> image_source \<Rightarrow> source_image \<Rightarrow> string \<Rightarrow> (prep_event, unit) io" where
  "handle_tar_gz E L I img dir = through_temp_dir E I (\<lambda>tmp.
     bind_io (get_source_file E I img tmp) (\<lambda>(nm, content). extract_tar_gz E dir 0 (sl_gunzip L content)))"

definition fetch_image_source :: "prep_env \<Rightarrow> source_lib \<Rightarrow> image_source \<Rightarrow> keychain \<Rightarrow> string \<Rightarrow> string \<Rightarrow> string \<Rightarrow>
    (prep_event, unit) io" where
  "fetch_image_source E L I keychain dir registry_image metadata_dir =
     bind_io (call_io (PullImage keychain registry_image) (\<lambda>h. ims_fetch I h keychain registry_image)) (\<lambda>(img, identifier).
     bind_io (lift_io (case dropWhile (\<lambda>c. c \<noteq> CHR ''@'') identifier of
         [] \<Rightarrow> Inl (Panic ''index out of range [1] with length 1'')
       | _ # digest \<Rightarrow> Inr (takeWhile (\<lambda>c. c \<noteq> CHR ''@'') identifier, digest))) (\<lambda>(ref, digest).
     bind_io (lift_io (get_content_type img)) (\<lambda>c_type.
     bind_io
       (if c_type \<in> {''zip'', ''jar'', ''war''} then handle_zip E L I img dir
        else if c_type = ''tar'' then handle_tar E L I img dir
        else if c_type = ''tar.gz'' then handle_tar_gz E L I img dir
        else handle_source E img dir) (\<lambda>_.
     write_project wrap_err E L metadata_dir (''image: '' @ registry_image) (''image: '' @ registry_image)
       (ImageProject ref digest)))))"

section \<open>Repositories\<close>

record git_work =
  gw_is_auth_required :: "goerr \<Rightarrow> bool"
  gw_submodules :: "prep_event list \<Rightarrow> string list res"

fun update_submodules :: "prep_env \<Rightarrow> string \<Rightarrow> (string \<Rightarrow> git_auth res) \<Rightarrow> string list \<Rightarrow> (prep_event, unit) io" where
  "update_submodules E dir keychain [] = ret_io ()"
| "update_submodules E dir keychain (url # urls) =
     bind_io (lift_io (keychain url)) (\<lambda>auth.
     bind_io (map_err_io (wrap_err ''updating submodules'') (do_call E (GitUpdateSubmodule dir auth url))) (\<lambda>_.
     update_submodules E dir keychain urls))"

text \<open>
  The fetcher resolves the revision again, by listing the references of the remote. The remote, the worktree and its
  submodules belong to the repository initialized in \<open>dir\<close>, which their calls therefore name.
\<close>

definition fetch_git :: "prep_env \<Rightarrow> source_lib \<Rightarrow> git_lib \<Rightarrow> git_work \<Rightarrow> (string \<Rightarrow> git_auth res) \<Rightarrow> bool \<Rightarrow> string \<Rightarrow> string \<Rightarrow>
    string \<Rightarrow> string \<Rightarrow> (prep_event, unit) io" where
  "fetch_git E L G W keychain init_submodules dir url revision metadata_dir =
     bind_io (lift_io (keychain url)) (\<lambda>auth.
     bind_io (map_err_io (wrap_err ''initializing repo'') (do_call E (GitInit dir))) (\<lambda>_.
     bind_io (map_err_io (wrap_err ''creating remote'') (do_call E (GitCreateRemote dir url))) (\<lambda>_.
     bind_io (lift_io (map_err (wrap_err ''resolving source config'')
         (resolve_by_listing_remote G auth (empty_source\<lparr>src_git := Some
            \<lparr>git_url = url, git_revision = revision, git_init_submodules = init_submodules\<rparr>\<rparr>)))) (\<lambda>resolved.
     case rs_git resolved of
       None \<Rightarrow> fail_io (Panic ''invalid memory address or nil pointer dereference'')
     | Some rg \<Rightarrow>
         bind_io (map_err_io (\<lambda>e. wrap_err (if gw_is_auth_required W e then ''invalid credentials for repository''
                      else ''unable to fetch references for repository'') e)
                    (do_call E (GitFetchRef dir auth (rg_revision rg @ '':'' @ rg_revision rg)))) (\<lambda>_.
         (let hash = gl_new_hash G (rg_revision rg)
          in bind_io (map_err_io (wrap_err ''checking out revision'') (do_call E (GitCheckout dir hash))) (\<lambda>_.
             bind_io
               (if init_submodules then
                  bind_io (map_err_io (wrap_err ''getting submodules'') (read_io (gw_submodules W)))
                    (update_submodules E dir keychain)
                else ret_io ()) (\<lambda>_.
             write_project wrap_err E L metadata_dir (''git repository: '' @ url) (''git repository: '' @ revision)
               (GitProject url revision hash)))))))))"

end
