(* ===== verification/Docker_Creds.thy ===== *)
theory Docker_Creds
  imports Source_Fetch
begin

text \<open>
  \<open>pkg/dockercreds\<close>: credentials of registries, their merging and lookup, where they are read from (mounted
  secrets in a build pod, secrets of a service account in the controller), the checks of access, and
  \<open>pkg/secret\<close>, the secrets with signing keys. A Go map is a list of its entries in the order of a range
  over it, which Go leaves open.
\<close>

section \<open>Matching\<close>

datatype authenticator = AnonymousRegistry | FromConfig auth_config

text \<open>The constants of the registry library, and the host of a parsed url.\<close>

record docker_lib =
  dl_default_registry :: string
  dl_default_auth_key :: string
  dl_url_host :: "string \<Rightarrow> string res"

definition registryDomains :: "(string \<Rightarrow> string) list" where
  "registryDomains = [\<lambda>s. s, \<lambda>s. ''https://'' @ s, \<lambda>s. ''http://'' @ s, \<lambda>s. ''https://'' @ s @ ''/v1/'',
     \<lambda>s. ''http://'' @ s @ ''/v1/'', \<lambda>s. ''https://'' @ s @ ''/v2/'', \<lambda>s. ''http://'' @ s @ ''/v2/'']"

definition registry_string :: "docker_lib \<Rightarrow> string \<Rightarrow> string" where
  "registry_string D reg = (if reg = dl_default_registry D then dl_default_auth_key D else reg)"

definition registry_match :: "docker_lib \<Rightarrow> string \<Rightarrow> string \<Rightarrow> bool" where
  "registry_match D registry reg = list_ex (\<lambda>fmt. fmt (registry_string D reg) = registry) registryDomains"

section \<open>Credentials\<close>

text \<open>The map can be nil.\<close>

definition entries_of :: "docker_creds option \<Rightarrow> docker_creds" where
  "entries_of c = (case c of None \<Rightarrow> [] | Some es \<Rightarrow> es)"

definition docker_resolve :: "docker_lib \<Rightarrow> docker_creds option \<Rightarrow> string \<Rightarrow> authenticator" where
  "docker_resolve D c reg =
     (case find (\<lambda>e. registry_match D (fst e) reg) (entries_of c) of
        Some (k, cfg) \<Rightarrow> FromConfig cfg
      | None \<Rightarrow> AnonymousRegistry)"

definition docker_contains :: "docker_lib \<Rightarrow> docker_creds \<Rightarrow> string \<Rightarrow> bool res" where
  "docker_contains D c reg =
     (let reg' = (if \<not> has_prefix reg ''http://'' \<and> \<not> has_prefix reg ''https://'' then ''//'' @ reg else reg)
      in bind_res (dl_url_host D reg') (\<lambda>host. Inr (list_ex (\<lambda>e. registry_match D (fst e) host) c)))"

fun append_missing :: "docker_lib \<Rightarrow> docker_creds \<Rightarrow> docker_creds \<Rightarrow> docker_creds res" where
  "append_missing D c [] = Inr c"
| "append_missing D c ((k, v) # a) =
     bind_res (docker_contains D c k) (\<lambda>there. append_missing D (if there then c else AList.update k v c) a)"

definition docker_append :: "docker_lib \<Rightarrow> docker_creds option \<Rightarrow> docker_creds option \<Rightarrow> docker_creds option res" where
  "docker_append D c a =
     (case c of
        None \<Rightarrow> Inr a
      | Some cs \<Rightarrow> (case a of None \<Rightarrow> Inr c | Some as \<Rightarrow> bind_res (append_missing D cs as) (\<lambda>r. Inr (Some r))))"

text \<open>\<open>Save\<close>, with the JSON of the configuration.\<close>

definition docker_save :: "prep_env \<Rightarrow> (docker_creds option \<Rightarrow> string res) \<Rightarrow> docker_creds option \<Rightarrow> string \<Rightarrow> (prep_event, unit) io" where
  "docker_save E json c p =
     bind_io (map_err_io (wrap_err (''error creating '' @ path_dir p)) (do_call E (MkdirAll (path_dir p) osModePerm))) (\<lambda>_.
     bind_io (do_call E (OpenFile p ''0666'')) (\<lambda>_.
     bind_io (lift_io (json c)) (\<lambda>txt. do_call E (WriteTo p txt))))"

section \<open>Mounted secrets\<close>

text \<open>JSON of the two kinds of secrets; \<open>null\<close> leaves a nil map.\<close>

record creds_json =
  cj_dockercfg :: "string \<Rightarrow> docker_creds option res"
  cj_dockerconfig :: "string \<Rightarrow> docker_creds option res"

text \<open>A file whose status cannot be read counts as missing.\<close>

definition file_exists :: "mounts \<Rightarrow> string \<Rightarrow> string \<Rightarrow> bool" where
  "file_exists M dir nm = (case mt_stat M dir nm of Inl _ \<Rightarrow> False | Inr _ \<Rightarrow> True)"

definition parse_docker_cfg :: "creds_json \<Rightarrow> mounts \<Rightarrow> string \<Rightarrow> docker_creds option res" where
  "parse_docker_cfg J M dir =
     (if file_exists M dir ''.dockercfg'' then bind_res (mt_read M dir ''.dockercfg'') (cj_dockercfg J) else Inr None)"

definition parse_docker_config_json :: "creds_json \<Rightarrow> mounts \<Rightarrow> string \<Rightarrow> docker_creds option res" where
  "parse_docker_config_json J M dir =
     (if file_exists M dir ''.dockerconfigjson'' then bind_res (mt_read M dir ''.dockerconfigjson'') (cj_dockerconfig J)
      else Inr (Some []))"

definition parse_docker_config_secret :: "docker_lib \<Rightarrow> creds_json \<Rightarrow> mounts \<Rightarrow> string \<Rightarrow> docker_creds option res" where
  "parse_docker_config_secret D J M dir =
     bind_res (parse_docker_cfg J M dir) (\<lambda>cfg.
     bind_res (parse_docker_config_json J M dir) (docker_append D cfg))"

definition read_basic_auth_secret :: "mounts \<Rightarrow> string \<Rightarrow> string \<Rightarrow> (string \<times> string) res" where
  "read_basic_auth_secret M volume nm =
     (let dir = volume @ ''/'' @ nm
      in bind_res (mt_read M dir ''username'') (\<lambda>username.
         bind_res (mt_read M dir ''password'') (\<lambda>password. Inr (username, password))))"

definition read_ssh_secret :: "mounts \<Rightarrow> string \<Rightarrow> string \<Rightarrow> (string \<times> string) res" where
  "read_ssh_secret M volume nm =
     (let dir = volume @ ''/'' @ nm
      in bind_res (mt_read M dir ''ssh-privatekey'') (\<lambda>private_key.
         bind_res (case mt_stat M dir ''known_hosts'' of
             Inl e \<Rightarrow> if is_not_found e then Inr '''' else mt_read M dir ''known_hosts''
           | Inr _ \<Rightarrow> mt_read M dir ''known_hosts'') (\<lambda>known_hosts. Inr (private_key, known_hosts))))"

fun parse_basic_auth_from :: "mounts \<Rightarrow> string \<Rightarrow> docker_creds \<Rightarrow> string list \<Rightarrow> docker_creds option res" where
  "parse_basic_auth_from M volume c [] = Inr (Some c)"
| "parse_basic_auth_from M volume c (s # ss) =
     (let parts = split_pair s
      in if length parts \<noteq> 2 then Inl (Failed Plain (''could not parse docker secret argument '' @ s))
         else bind_res (read_basic_auth_secret M volume (parts ! 0)) (\<lambda>(username, password).
              parse_basic_auth_from M volume
                (AList.update (parts ! 1) \<lparr>ac_username = username, ac_password = password, ac_auth = ''''\<rparr> c) ss))"

definition parse_basic_auth_secrets :: "mounts \<Rightarrow> string \<Rightarrow> string list \<Rightarrow> docker_creds option res" where
  "parse_basic_auth_secrets M volume secrets = parse_basic_auth_from M volume [] secrets"

definition SecretFilePathEnv :: string where "SecretFilePathEnv = ''CREDENTIAL_PROVIDER_SECRET_PATH''"

definition new_volume_secret_keychain :: "docker_lib \<Rightarrow> creds_json \<Rightarrow> mounts \<Rightarrow> (string \<Rightarrow> string option) \<Rightarrow> docker_creds option res" where
  "new_volume_secret_keychain D J M lookup_env =
     (case lookup_env SecretFilePathEnv of
        None \<Rightarrow> Inr (Some [])
      | Some folder \<Rightarrow> parse_docker_config_secret D J M folder)"

section \<open>Keychains of the controller\<close>

record keychain_lib =
  kl_no_client :: "opaque res"
  kl_k8s_chain :: "string \<Rightarrow> string \<Rightarrow> string list \<Rightarrow> opaque res"
  kl_azure_file :: opaque

fun creds_from_secrets :: "docker_lib \<Rightarrow> creds_json \<Rightarrow> docker_creds option \<Rightarrow> secret list \<Rightarrow> docker_creds option res" where
  "creds_from_secrets D J c [] = Inr c"
| "creds_from_secrets D J c (s # ss) =
     bind_res
       (if sec_type s = SecretTypeBasicAuth then
          (case sec_annotations s DOCKERSecretAnnotationPrefix of
             None \<Rightarrow> Inr c
           | Some registry \<Rightarrow> docker_append D c (Some [(registry,
               \<lparr>ac_username = lookup_str (sec_data s) ''username'', ac_password = lookup_str (sec_data s) ''password'',
                ac_auth = ''''\<rparr>)]))
        else if sec_type s = SecretTypeDockerConfigJson then
          bind_res (cj_dockerconfig J (lookup_str (sec_data s) ''.dockerconfigjson'')) (docker_append D c)
        else if sec_type s = SecretTypeDockercfg then
          bind_res (cj_dockercfg J (lookup_str (sec_data s) ''.dockercfg'')) (docker_append D c)
        else Inr c)
       (\<lambda>c'. creds_from_secrets D J c' ss)"

definition keychain_from_service_account :: "docker_lib \<Rightarrow> creds_json \<Rightarrow> secret list res \<Rightarrow> docker_creds option res" where
  "keychain_from_service_account D J secrets =
     (case secrets of
        Inl e \<Rightarrow> if is_not_found e then Inr None else Inl e
      | Inr ss \<Rightarrow> creds_from_secrets D J None ss)"

definition keychain_for_secret_ref :: "docker_lib \<Rightarrow> creds_json \<Rightarrow> keychain_lib \<Rightarrow> (string \<Rightarrow> string \<Rightarrow> secret list res) \<Rightarrow>
    docker_creds option \<Rightarrow> secret_ref \<Rightarrow> keychain res" where
  "keychain_for_secret_ref D J K secrets volume_keychain r =
     (if \<not> secret_ref_is_namespaced r then
        bind_res (kl_no_client K) (\<lambda>k8s.
          Inr (MultiKeychain [CredsKeychain volume_keychain, LibraryKeychain k8s, LibraryKeychain (kl_azure_file K)]))
      else
        bind_res (keychain_from_service_account D J (secrets (service_account_or_default r) (sref_namespace r))) (\<lambda>creds.
        bind_res (kl_k8s_chain K (sref_namespace r) (sref_service_account r) (map lref_name (sref_pull_secrets r))) (\<lambda>k8s.
        Inr (MultiKeychain [CredsKeychain creds, CredsKeychain volume_keychain, LibraryKeychain k8s,
              LibraryKeychain (kl_azure_file K)]))))"

text \<open>The factory that remembers the keychains it made; the pull secrets are not part of the key.\<close>

definition make_key :: "secret_ref \<Rightarrow> string" where
  "make_key r = sref_namespace r @ ''/'' @ sref_service_account r"

definition cached_keychain :: "(secret_ref \<Rightarrow> 'k res) \<Rightarrow> (string \<rightharpoonup> 'k) \<Rightarrow> secret_ref \<Rightarrow> 'k res \<times> (string \<rightharpoonup> 'k)" where
  "cached_keychain create cache r =
     (case cache (make_key r) of
        Some k \<Rightarrow> (Inr k, cache)
      | None \<Rightarrow>
          (case create r of
             Inl e \<Rightarrow> (Inl e, cache)
           | Inr k \<Rightarrow> (Inr k, cache(make_key r \<mapsto> k))))"

section \<open>Access\<close>

text \<open>An error of the transport has a status and the diagnostics of the registry.\<close>

datatype access_error = TransportError int "string list" goerr | OtherError goerr

definition diagnose_if_transport_error :: "string \<Rightarrow> access_error \<Rightarrow> goerr" where
  "diagnose_if_transport_error unauthorized e =
     (case e of
        OtherError err \<Rightarrow> err
      | TransportError status msgs err \<Rightarrow>
          (if status = 401 then Failed Plain unauthorized
           else if length msgs = 0 then err
           else Failed Plain (concat (map (\<lambda>m. m @ ''. '') msgs))))"

record access_lib =
  al_unauthorized_code :: string
  al_parse_reference :: "string \<Rightarrow> opaque res"
  al_check_push :: "prep_event list \<Rightarrow> opaque \<Rightarrow> keychain \<Rightarrow> access_error option"
  al_get :: "prep_event list \<Rightarrow> opaque \<Rightarrow> keychain \<Rightarrow> access_error option"

definition checked :: "access_lib \<Rightarrow> access_error option \<Rightarrow> unit res" where
  "checked A e = (case e of None \<Rightarrow> Inr () | Some err \<Rightarrow> Inl (diagnose_if_transport_error (al_unauthorized_code A) err))"

definition verify_write_access :: "access_lib \<Rightarrow> keychain \<Rightarrow> string \<Rightarrow> (prep_event, unit) io" where
  "verify_write_access A k tag =
     bind_io (lift_io (map_err (wrap_err (''Error parsing reference '' @ go_quoted tag)) (al_parse_reference A tag))) (\<lambda>ref.
     call_io (CheckPush ref tag) (\<lambda>h. checked A (al_check_push A h ref k)))"

definition verify_read_access :: "access_lib \<Rightarrow> keychain \<Rightarrow> string \<Rightarrow> (prep_event, unit) io" where
  "verify_read_access A k tag =
     bind_io (lift_io (map_err (wrap_err (''Error parsing reference '' @ go_quoted tag)) (al_parse_reference A tag))) (\<lambda>ref.
     call_io (CheckRead ref tag) (\<lambda>h. checked A (al_get A h ref k)))"

section \<open>Signing secrets\<close>

datatype key_type = CosignKeyType | PKCS8KeyType

record signing_key =
  sk_secret_name :: string
  sk_key :: string
  sk_password :: string
  sk_type :: key_type

definition CosignSecretPrivateKey :: string where "CosignSecretPrivateKey = ''cosign.key''"
definition CosignSecretPassword :: string where "CosignSecretPassword = ''cosign.password''"
definition PKCS8SecretKey :: string where "PKCS8SecretKey = ''ssh-privatekey''"
definition SLSASecretAnnotation :: string where "SLSASecretAnnotation = ''kpack.io/slsa''"

definition filter_cosign_secrets :: "string \<Rightarrow> 'a secret_scheme list \<Rightarrow> 'a secret_scheme list" where
  "filter_cosign_secrets annotation = filter (\<lambda>s.
     sec_data s CosignSecretPassword \<noteq> None \<and> sec_data s CosignSecretPrivateKey \<noteq> None \<and>
     (annotation = '''' \<or> sec_annotations s annotation \<noteq> None))"

definition filter_private_key_secrets :: "string \<Rightarrow> 'a secret_scheme list \<Rightarrow> 'a secret_scheme list" where
  "filter_private_key_secrets annotation = filter (\<lambda>s.
     sec_data s PKCS8SecretKey \<noteq> None \<and> (annotation = '''' \<or> sec_annotations s annotation \<noteq> None))"

definition filter_cosign_signing_secrets :: "'a secret_scheme list \<Rightarrow> 'a secret_scheme list" where
  "filter_cosign_signing_secrets = filter_cosign_secrets ''''"

fun get_keys :: "string \<Rightarrow> string \<Rightarrow> key_type \<Rightarrow> 'a secret_scheme list \<Rightarrow> signing_key list res" where
  "get_keys key_field pass_field t [] = Inr []"
| "get_keys key_field pass_field t (s # ss) =
     (case sec_data s key_field of
        None \<Rightarrow> Inl (Failed Plain (''missing '' @ quoted key_field @ '' field: '' @ sec_name s))
      | Some key \<Rightarrow> bind_res (get_keys key_field pass_field t ss) (\<lambda>ks.
          Inr (\<lparr>sk_secret_name = sec_name s, sk_key = key, sk_password = lookup_str (sec_data s) pass_field,
                sk_type = t\<rparr> # ks)))"

definition extract_attestation_keys :: "'a secret_scheme list \<Rightarrow> 'a secret_scheme list \<Rightarrow> signing_key list res" where
  "extract_attestation_keys cosign_secrets pkcs8_secrets =
     bind_res (map_err (errorf ''getting cosign keys'')
         (get_keys CosignSecretPrivateKey CosignSecretPassword CosignKeyType cosign_secrets)) (\<lambda>cosign_keys.
     bind_res (map_err (errorf ''getting pkcs#8 keys'') (get_keys PKCS8SecretKey '''' PKCS8KeyType pkcs8_secrets)) (\<lambda>pkcs8_keys.
     Inr (cosign_keys @ pkcs8_keys)))"

definition filter_and_extract_slsa_secrets :: "'a secret_scheme list \<Rightarrow> signing_key list res" where
  "filter_and_extract_slsa_secrets ss =
     extract_attestation_keys (filter_cosign_secrets SLSASecretAnnotation ss) (filter_private_key_secrets SLSASecretAnnotation ss)"

section \<open>Facts about credentials\<close>

text \<open>The keys under which a registry may be written, other than the default one, which has one form.\<close>

definition keys_for :: "docker_lib \<Rightarrow> string \<Rightarrow> string list" where
  "keys_for D h = (if h = dl_default_registry D then [dl_default_auth_key D] else map (\<lambda>fmt. fmt h) registryDomains)"

text \<open>
  Documented behaviour of the library and of \<open>url.Parse\<close>, for a set of host names: the key of the default
  registry is its \<open>https\<close> address with version 1, and the host of each key is its registry.
\<close>

definition docker_law :: "docker_lib \<Rightarrow> string set \<Rightarrow> bool" where
  "docker_law D H \<longleftrightarrow>
     dl_default_auth_key D = ''https://'' @ dl_default_registry D @ ''/v1/'' \<and>
     (\<forall>h \<in> insert (dl_default_registry D) H. h \<noteq> '''' \<and> CHR ''/'' \<notin> set h) \<and>
     (\<forall>h \<in> H. \<forall>k \<in> set (keys_for D h).
        dl_url_host D (if \<not> has_prefix k ''http://'' \<and> \<not> has_prefix k ''https://'' then ''//'' @ k else k) = Inr h)"

definition well_keyed :: "docker_lib \<Rightarrow> string set \<Rightarrow> docker_creds \<Rightarrow> bool" where
  "well_keyed D H c \<longleftrightarrow> (\<forall>e \<in> set c. \<exists>h \<in> H. fst e \<in> set (keys_for D h))"

text \<open>At most one key for each registry.\<close>

definition unambiguous :: "docker_lib \<Rightarrow> string set \<Rightarrow> docker_creds \<Rightarrow> bool" where
  "unambiguous D H c \<longleftrightarrow>
     (\<forall>reg \<in> H. \<forall>e \<in> set c. \<forall>e' \<in> set c. registry_match D (fst e) reg \<longrightarrow> registry_match D (fst e') reg \<longrightarrow> e = e')"

text \<open>Cut at slashes, a key tells its registry.\<close>

lemma key_parts:
  assumes "CHR ''/'' \<notin> set h"
  shows "k \<in> set (map (\<lambda>fmt. fmt h) registryDomains) \<Longrightarrow>
    split_on (CHR ''/'') k \<in> {[h], [''https:'', '''', h], [''http:'', '''', h], [''https:'', '''', h, ''v1'', ''''],
      [''http:'', '''', h, ''v1'', ''''], [''https:'', '''', h, ''v2'', ''''], [''http:'', '''', h, ''v2'', '''']}"
  using assms split_on_append [of "CHR ''/''" h] by (auto simp: registryDomains_def split_on_no_sep)

lemma registry_match_key:
  assumes law: "docker_law D H" and h: "h \<in> H" and reg: "reg \<in> H" and k: "k \<in> set (keys_for D h)"
  shows "registry_match D k reg \<longleftrightarrow> reg = h"
proof -
  let ?d = "dl_default_registry D"
  have slash: "CHR ''/'' \<notin> set h" "CHR ''/'' \<notin> set reg" "CHR ''/'' \<notin> set ?d"
    and auth: "dl_default_auth_key D = ''https://'' @ ?d @ ''/v1/''"
    using law h reg by (auto simp: docker_law_def)
  have m: "registry_match D k reg \<longleftrightarrow> k \<in> set (map (\<lambda>fmt. fmt (registry_string D reg)) registryDomains)"
    by (auto simp: registry_match_def list_ex_iff)
  have auth_parts: "split_on (CHR ''/'') (dl_default_auth_key D) = [''https:'', '''', ?d, ''v1'', '''']"
    using key_parts [OF slash(3), of "dl_default_auth_key D"] split_on_append [of "CHR ''/''" ?d] slash(3) auth
    by (simp add: split_on_no_sep)
  have k_parts: "split_on (CHR ''/'') k \<in> (if h = ?d then {[''https:'', '''', ?d, ''v1'', '''']}
      else {[h], [''https:'', '''', h], [''http:'', '''', h], [''https:'', '''', h, ''v1'', ''''],
        [''http:'', '''', h, ''v1'', ''''], [''https:'', '''', h, ''v2'', ''''], [''http:'', '''', h, ''v2'', '''']})"
    using k key_parts [OF slash(1), of k] auth_parts by (auto simp: keys_for_def)
  show ?thesis
  proof (cases "reg = ?d")
    case True
    have long: "k = dl_default_auth_key D" if "registry_match D k reg"
    proof -
      have "k \<in> set (map (\<lambda>fmt. fmt (dl_default_auth_key D)) registryDomains)" using that m True by (simp add: registry_string_def)
      then have "k = dl_default_auth_key D \<or> length (split_on (CHR ''/'') k) > 5"
        using auth_parts split_on_append [of "CHR ''/''" "dl_default_auth_key D"] by (auto simp: registryDomains_def)
      then show ?thesis using k_parts by (auto split: if_splits)
    qed
    have "registry_match D k reg" if "k = dl_default_auth_key D"
      using that m True by (simp add: registry_string_def registryDomains_def)
    with long k_parts auth_parts True k slash(1) show ?thesis
      by (auto simp: keys_for_def split: if_splits)
  next
    case False
    then have m': "registry_match D k reg \<longleftrightarrow> k \<in> set (map (\<lambda>fmt. fmt reg) registryDomains)"
      using m by (simp add: registry_string_def)
    have "reg = h" if "registry_match D k reg"
    proof -
      have "split_on (CHR ''/'') k \<in> {[reg], [''https:'', '''', reg], [''http:'', '''', reg], [''https:'', '''', reg, ''v1'', ''''],
          [''http:'', '''', reg, ''v1'', ''''], [''https:'', '''', reg, ''v2'', ''''], [''http:'', '''', reg, ''v2'', '''']}"
        using that m' by (intro key_parts [OF slash(2)]) simp
      with k_parts False show ?thesis by (auto split: if_splits)
    qed
    moreover have "registry_match D k h" if "h = reg"
      using that False k m' by (simp add: keys_for_def)
    ultimately show ?thesis by blast
  qed
qed

lemma docker_contains_key:
  assumes law: "docker_law D H" and h: "h \<in> H" and k: "k \<in> set (keys_for D h)"
  shows "docker_contains D c k = Inr (\<exists>e \<in> set c. registry_match D (fst e) h)"
proof -
  have "dl_url_host D (if \<not> has_prefix k ''http://'' \<and> \<not> has_prefix k ''https://'' then ''//'' @ k else k) = Inr h"
    using law h k by (simp add: docker_law_def)
  then show ?thesis by (simp add: docker_contains_def list_ex_iff Let_def)
qed

text \<open>What is appended changes nothing for a registry that was there, and is looked up like its source otherwise.\<close>

lemma append_missing_find:
  assumes law: "docker_law D H" and reg: "reg \<in> H"
  shows "append_missing D c a = Inr r \<Longrightarrow> well_keyed D H c \<Longrightarrow> well_keyed D H a \<Longrightarrow>
    find (\<lambda>e. registry_match D (fst e) reg) r =
      (case find (\<lambda>e. registry_match D (fst e) reg) c of
         Some e \<Rightarrow> Some e | None \<Rightarrow> find (\<lambda>e. registry_match D (fst e) reg) a) \<and>
    well_keyed D H r \<and> (unambiguous D H c \<longrightarrow> unambiguous D H r)"
proof (induction a arbitrary: c)
  case Nil
  then show ?case by (simp split: option.split)
next
  case (Cons kv a)
  obtain k v where kv: "kv = (k, v)" by force
  let ?P = "\<lambda>e. registry_match D (fst e) reg"
  obtain h where h: "h \<in> H" "k \<in> set (keys_for D h)" using Cons.prems(3) kv by (auto simp: well_keyed_def)
  have a: "well_keyed D H a" using Cons.prems(3) by (simp add: well_keyed_def)
  have own: "registry_match D k g \<longleftrightarrow> g = h" if "g \<in> H" for g by (rule registry_match_key [OF law h(1) that h(2)])
  show ?case
  proof (cases "\<exists>e \<in> set c. registry_match D (fst e) h")
    case True
    then have "append_missing D c a = Inr r"
      using Cons.prems(1) docker_contains_key [OF law h(1,2), of c] kv by simp
    note IH = Cons.IH [OF this Cons.prems(2) a]
    have "find ?P c \<noteq> None" if "registry_match D k reg"
      using True own [OF reg] that by (auto simp: find_None_iff)
    with IH kv show ?thesis by (cases "find ?P c") auto
  next
    case False
    then have "k \<notin> fst ` set c" using own [OF h(1)] by auto
    then have upd: "AList.update k v c = c @ [(k, v)]" by (induction c) auto
    then have r: "append_missing D (c @ [(k, v)]) a = Inr r"
      using Cons.prems(1) False docker_contains_key [OF law h(1,2), of c] kv by simp
    have wk: "well_keyed D H (c @ [(k, v)])" using Cons.prems(2) h by (auto simp: well_keyed_def)
    have un: "unambiguous D H (c @ [(k, v)])" if "unambiguous D H c"
      unfolding unambiguous_def
    proof (intro ballI impI)
      fix g e e' assume *: "g \<in> H" "e \<in> set (c @ [(k, v)])" "e' \<in> set (c @ [(k, v)])"
        "registry_match D (fst e) g" "registry_match D (fst e') g"
      show "e = e'"
      proof (cases "g = h")
        case True
        with * False show ?thesis by auto
      next
        case no: False
        with * own [OF *(1)] have "e \<in> set c" "e' \<in> set c" by auto
        with * that show ?thesis unfolding unambiguous_def by blast
      qed
    qed
    have "find ?P (c @ [(k, v)]) = (case find ?P c of Some e \<Rightarrow> Some e | None \<Rightarrow> if ?P (k, v) then Some (k, v) else None)"
      by (induction c) auto
    with Cons.IH [OF r wk a] un kv show ?thesis by (auto split: option.splits if_splits)
  qed
qed

lemma docker_append_resolve:
  assumes law: "docker_law D H" and reg: "reg \<in> H"
    and c: "well_keyed D H c" and a: "well_keyed D H (entries_of a)" and r: "docker_append D (Some c) a = Inr r"
  shows "docker_resolve D r reg =
      (if \<exists>e \<in> set c. registry_match D (fst e) reg then docker_resolve D (Some c) reg else docker_resolve D a reg)"
    and "\<exists>r'. r = Some r' \<and> well_keyed D H r' \<and> (unambiguous D H c \<longrightarrow> unambiguous D H r')"
proof -
  let ?P = "\<lambda>e. registry_match D (fst e) reg"
  obtain r' where r': "r = Some r'" "find ?P r' = (case find ?P c of Some e \<Rightarrow> Some e | None \<Rightarrow> find ?P (entries_of a))"
    "well_keyed D H r'" "unambiguous D H c \<longrightarrow> unambiguous D H r'"
  proof (cases a)
    case None
    have e: "find ?P c = (case find ?P c of Some e \<Rightarrow> Some e | None \<Rightarrow> find ?P (entries_of a))"
      by (cases "find ?P c") (simp_all add: None entries_of_def)
    have "r = Some c" using None r by (simp add: docker_append_def)
    then show ?thesis by (rule that [OF _ e c impI])
  next
    case (Some es)
    then obtain r' where m: "append_missing D c es = Inr r'" and r': "r = Some r'"
      using r by (auto simp: docker_append_def bind_res_eq_Inr)
    have es: "entries_of a = es" using Some by (simp add: entries_of_def)
    note f = append_missing_find [OF law reg m c a [unfolded es]]
    show ?thesis by (rule that [OF r'], unfold es) (use f in blast)+
  qed
  have "find ?P c = None \<longleftrightarrow> \<not> (\<exists>e \<in> set c. ?P e)" by (auto simp: find_None_iff)
  with r'(1,2) show "docker_resolve D r reg =
      (if \<exists>e \<in> set c. registry_match D (fst e) reg then docker_resolve D (Some c) reg else docker_resolve D a reg)"
    by (auto simp: docker_resolve_def entries_of_def split: option.splits)
  show "\<exists>r'. r = Some r' \<and> well_keyed D H r' \<and> (unambiguous D H c \<longrightarrow> unambiguous D H r')" using r' by blast
qed

text \<open>With one key for each registry the order of a range makes no difference.\<close>

lemma unambiguous_order:
  assumes "unambiguous D H c" and "set c' = set c" and "reg \<in> H"
  shows "docker_resolve D (Some c') reg = docker_resolve D (Some c) reg"
proof -
  let ?P = "\<lambda>e. registry_match D (fst e) reg"
  have "find ?P c' = find ?P c"
  proof (cases "find ?P c")
    case None
    then have "find ?P c' = None" using assms(2) unfolding find_None_iff by simp
    with None show ?thesis by simp
  next
    case (Some e)
    then have e: "e \<in> set c" "?P e" by (auto simp: find_Some_iff)
    then obtain e' where e': "find ?P c' = Some e'" using assms(2) by (metis find_None_iff option.exhaust)
    then have "e' \<in> set c" "?P e'" using assms(2) by (auto simp: find_Some_iff)
    with e assms(1,3) e' Some show ?thesis unfolding unambiguous_def by metis
  qed
  then show ?thesis by (simp add: docker_resolve_def entries_of_def)
qed

end
