(* ===== verification/Project_Descriptor.thy ===== *)
theory Project_Descriptor
  imports Prepare_Files
begin

text \<open>
  The project descriptor of an application (\<open>pkg/cnb/project_descriptor.go\<close>): the files it keeps, and the
  variables that go to the directory of the platform (\<open>env_vars.go\<close>, \<open>platform_env_vars_setup.go\<close>).
\<close>

section \<open>Variables of the platform\<close>

type_synonym env_variable = "string \<times> string"

text \<open>\<open>os.WriteFile\<close> closes the file whatever the write gives, and reports the first error.\<close>

definition write_file :: "prep_env \<Rightarrow> string \<Rightarrow> string \<Rightarrow> opaque \<Rightarrow> (prep_event, unit) io" where
  "write_file E p txt mode =
     bind_io (do_call E (OpenFile p mode)) (\<lambda>_.
     attempt_io (do_call E (WriteTo p txt)) (\<lambda>r.
     attempt_io (do_call E (CloseFile p)) (\<lambda>r'.
     lift_io (case r of Inl e \<Rightarrow> Inl e | Inr _ \<Rightarrow> r'))))"

fun write_env_vars :: "prep_env \<Rightarrow> string \<Rightarrow> env_variable list \<Rightarrow> (prep_event, unit) io" where
  "write_env_vars E folder [] = ret_io ()"
| "write_env_vars E folder ((nm, v) # vs) =
     bind_io (write_file E (path_join [folder, nm]) v osModePerm) (\<lambda>_. write_env_vars E folder vs)"

definition serialize_env_vars :: "prep_env \<Rightarrow> env_variable list \<Rightarrow> string \<Rightarrow> (prep_event, unit) io" where
  "serialize_env_vars E vs platform_dir =
     (let folder = path_join [platform_dir, ''env'']
      in bind_io (do_call E (MkdirAll folder osModePerm)) (\<lambda>_. write_env_vars E folder vs))"

text \<open>The variables in the environment of the process, which is a list of strings, with the prefix.\<close>

definition platform_env_of :: "string \<Rightarrow> string list \<Rightarrow> env_variable list" where
  "platform_env_of prefix environ =
     List.map_filter (\<lambda>s.
       case dropWhile (\<lambda>c. c \<noteq> CHR ''='') s of
         [] \<Rightarrow> None
       | _ # val \<Rightarrow>
           (let key = takeWhile (\<lambda>c. c \<noteq> CHR ''='') s
            in if has_prefix key prefix then Some (drop (length prefix) key, val) else None)) environ"

definition setup_platform_env_vars :: "prep_env \<Rightarrow> string \<Rightarrow> string list \<Rightarrow> string \<Rightarrow> (prep_event, unit) io" where
  "setup_platform_env_vars E prefix environ dir = serialize_env_vars E (platform_env_of prefix environ) dir"

section \<open>The descriptor\<close>

text \<open>A value of TOML as the decoder gives it for a field of any type.\<close>

datatype toml_value =
    TomlString string
  | TomlTable "(string \<times> toml_value) list"
  | TomlTables "(string \<times> toml_value) list list"
  | TomlOther

fun build_env :: "(string \<times> toml_value) list list \<Rightarrow> env_variable list res" where
  "build_env [] = Inr []"
| "build_env (t # ts) =
     (case map_of t ''name'' of
        Some (TomlString nm) \<Rightarrow>
          (case map_of t ''value'' of
             Some (TomlString v) \<Rightarrow> bind_res (build_env ts) (\<lambda>vs. Inr ((nm, v) # vs))
           | _ \<Rightarrow> Inl (Failed Plain (''environment variable '' @ quoted nm @ '' is not a string value'')))
      | _ \<Rightarrow> Inl (Failed Plain (''environment variable '' @ quoted ''name'' @ '' is not a string'')))"

definition unmarshal_env_build :: "toml_value \<Rightarrow> env_variable list res" where
  "unmarshal_env_build v =
     (case v of
        TomlTable t \<Rightarrow> (case map_of t ''build'' of Some (TomlTables ts) \<Rightarrow> build_env ts | _ \<Rightarrow> Inr [])
      | TomlTables ts \<Rightarrow> build_env ts
      | _ \<Rightarrow> Inl (Failed Plain ''environment variables in project descriptor could not be parsed''))"

text \<open>The fields of the two versions; a list that is missing is nil.\<close>

record proj_build =
  pb_include :: "string list option"
  pb_exclude :: "string list option"
  pb_builder :: string

record proj_buildpack =
  pbp_id :: string
  pbp_version :: string
  pbp_uri :: string

record descriptor_v2 =
  d2_schema :: string
  d2_build :: proj_build
  d2_build_env :: "env_variable list option"
  d2_env_build :: "env_variable list option"
  d2_group :: "proj_buildpack list option"

record descriptor_v1 =
  d1_build :: proj_build
  d1_buildpacks :: "proj_buildpack list option"
  d1_env :: "env_variable list option"

definition empty_descriptor :: descriptor_v2 where
  "empty_descriptor = \<lparr>d2_schema = '''', d2_build = \<lparr>pb_include = None, pb_exclude = None, pb_builder = ''''\<rparr>,
     d2_build_env = None, d2_env_build = None, d2_group = None\<rparr>"

text \<open>
  What the decoder reads from a file: the second version with the field \<open>env\<close> still raw, and the first
  version. The walk visits a directory before what is in it, and gives paths below the walked directory.
\<close>

record walk_entry =
  we_components :: "string list"
  we_is_dir :: bool
  we_error :: "goerr option"

record project_lib =
  pl_stat :: "prep_event list \<Rightarrow> string \<Rightarrow> unit res"
  pl_decode_v2 :: "prep_event list \<Rightarrow> string \<Rightarrow> (descriptor_v2 \<times> toml_value option) res"
  pl_decode_v1 :: "prep_event list \<Rightarrow> string \<Rightarrow> descriptor_v1 res"
  pl_matches :: "string list \<Rightarrow> string \<Rightarrow> bool"
  pl_walk :: "prep_event list \<Rightarrow> string \<Rightarrow> walk_entry list"

definition decode_v2 :: "project_lib \<Rightarrow> string \<Rightarrow> (prep_event, descriptor_v2) io" where
  "decode_v2 P file =
     bind_io (read_io (\<lambda>h. pl_decode_v2 P h file)) (\<lambda>(d, raw).
       case raw of
         None \<Rightarrow> ret_io (d\<lparr>d2_env_build := None\<rparr>)
       | Some v \<Rightarrow> bind_io (lift_io (unmarshal_env_build v)) (\<lambda>vs.
           ret_io (d\<lparr>d2_env_build := (if vs = [] then None else Some vs)\<rparr>)))"

definition v1_to_v2 :: "descriptor_v1 \<Rightarrow> descriptor_v2" where
  "v1_to_v2 d = empty_descriptor\<lparr>d2_build := d1_build d, d2_group := d1_buildpacks d, d2_build_env := d1_env d\<rparr>"

definition parse_project_descriptor :: "project_lib \<Rightarrow> string \<Rightarrow> (prep_event, descriptor_v2) io" where
  "parse_project_descriptor P file =
     bind_io (decode_v2 P file) (\<lambda>d.
       if d2_schema d = ''0.2'' then ret_io d
       else if d2_schema d = '''' then
         bind_io (read_io (\<lambda>h. pl_decode_v1 P h file)) (\<lambda>d1. ret_io (v1_to_v2 d1))
       else ret_io empty_descriptor)"

definition descriptor_env :: "descriptor_v2 \<Rightarrow> env_variable list" where
  "descriptor_env d =
     (case d2_build_env d of
        Some vs \<Rightarrow> vs
      | None \<Rightarrow> (case d2_env_build d of Some vs \<Rightarrow> vs | None \<Rightarrow> []))"

section \<open>Files kept\<close>

definition get_file_filter :: "project_lib \<Rightarrow> proj_build \<Rightarrow> (string \<Rightarrow> bool) option res" where
  "get_file_filter P d =
     (if pb_exclude d \<noteq> None \<and> pb_include d \<noteq> None
      then Inl (Failed Plain ''project descriptor cannot have both include and exclude defined'')
      else case (pb_exclude d, pb_include d) of
        (Some (x # xs), _) \<Rightarrow> Inr (Some (\<lambda>f. \<not> pl_matches P (x # xs) f))
      | (_, Some (i # is)) \<Rightarrow> Inr (Some (pl_matches P (i # is)))
      | _ \<Rightarrow> Inr None)"

text \<open>\<open>filepath.Rel\<close> of a path of the walk.\<close>

definition rel_path :: "walk_entry \<Rightarrow> string" where
  "rel_path w = (if we_components w = [] then ''.'' else join ''/'' (we_components w))"

fun remove_unmatched :: "prep_env \<Rightarrow> (string \<Rightarrow> bool) \<Rightarrow> string \<Rightarrow> walk_entry list \<Rightarrow> (prep_event, unit) io" where
  "remove_unmatched E keep dir [] = ret_io ()"
| "remove_unmatched E keep dir (w # ws) =
     (case we_error w of
        Some e \<Rightarrow> fail_io e
      | None \<Rightarrow>
          bind_io (if \<not> keep (rel_path w) \<and> \<not> we_is_dir w
                   then do_call E (RemoveFile (path_join (dir # we_components w))) else ret_io ())
            (\<lambda>_. remove_unmatched E keep dir ws))"

definition process_files :: "prep_env \<Rightarrow> project_lib \<Rightarrow> string \<Rightarrow> proj_build \<Rightarrow> (prep_event, unit) io" where
  "process_files E P app_dir d =
     bind_io (lift_io (get_file_filter P d)) (\<lambda>flt.
       case flt of
         None \<Rightarrow> ret_io ()
       | Some keep \<Rightarrow> bind_io (read_io (\<lambda>h. Inr (pl_walk P h app_dir))) (remove_unmatched E keep app_dir))"

definition process_project_descriptor :: "prep_env \<Rightarrow> project_lib \<Rightarrow> string \<Rightarrow> string \<Rightarrow> string \<Rightarrow> (prep_event, unit) io" where
  "process_project_descriptor E P app_dir descriptor_path platform_dir =
     (let file = path_join [app_dir, if descriptor_path \<noteq> '''' then descriptor_path else ''project.toml'']
      in attempt_io (read_io (\<lambda>h. pl_stat P h file)) (\<lambda>r.
         case r of
           Inl e \<Rightarrow>
             (if is_not_found e then
                (if descriptor_path \<noteq> ''''
                 then fail_io (Failed Plain (''project descriptor path set but no file found: '' @ descriptor_path))
                 else ret_io ())
              else fail_io (errorf ''unable to determine if project descriptor file exists'' e))
         | Inr _ \<Rightarrow>
             bind_io (parse_project_descriptor P file) (\<lambda>d.
             bind_io (process_files E P app_dir (d2_build d)) (\<lambda>_.
             serialize_env_vars E (descriptor_env d) platform_dir))))"

end
