(* ===== verification/Build_Init.thy ===== *)
theory Build_Init
  imports Docker_Creds Project_Descriptor Build_Pod
begin

text \<open>
  The program of the prepare container (\<open>cmd/build-init/main.go\<close>): its flags, which take their defaults
  from the environment, and its run, which loads credentials, checks access, gets the source code, applies
  the project descriptor and saves the credentials. Lines of the log are left out; \<open>logger.Fatal\<close> is an error.
\<close>

section \<open>Environment\<close>

text \<open>The strings of the environment are \<open>name=value\<close>; the first of a name counts.\<close>

definition getenv :: "string list \<Rightarrow> string \<Rightarrow> string option" where
  "getenv environ key =
     (case find (\<lambda>s. CHR ''='' \<in> set s \<and> takeWhile (\<lambda>c. c \<noteq> CHR ''='') s = key) environ of
        None \<Rightarrow> None
      | Some s \<Rightarrow> Some (tl (dropWhile (\<lambda>c. c \<noteq> CHR ''='') s)))"

definition getenv_str :: "string list \<Rightarrow> string \<Rightarrow> string" where
  "getenv_str environ key = (case getenv environ key of None \<Rightarrow> '''' | Some v \<Rightarrow> v)"

text \<open>\<open>strconv.ParseBool\<close>, with no text of its error.\<close>

definition parse_bool :: "string \<Rightarrow> bool option" where
  "parse_bool s =
     (if s \<in> {''1'', ''t'', ''T'', ''TRUE'', ''true'', ''True''} then Some True
      else if s \<in> {''0'', ''f'', ''F'', ''FALSE'', ''false'', ''False''} then Some False
      else None)"

definition getenv_bool :: "string list \<Rightarrow> string \<Rightarrow> bool" where
  "getenv_bool environ key = (case parse_bool (getenv_str environ key) of Some b \<Rightarrow> b | None \<Rightarrow> False)"

definition get_env_bool :: "string list \<Rightarrow> string \<Rightarrow> bool \<Rightarrow> bool" where
  "get_env_bool environ key default_value =
     (let s = getenv_str environ key
      in if s = '''' then default_value else case parse_bool s of Some b \<Rightarrow> b | None \<Rightarrow> default_value)"

definition getenv_int :: "string list \<Rightarrow> string \<Rightarrow> int \<Rightarrow> int" where
  "getenv_int environ key default_value =
     (case atoi (getenv_str environ key) of Inr n \<Rightarrow> n | Inl _ \<Rightarrow> default_value)"

section \<open>Flags\<close>

datatype flag_value = StringFlag string | BoolFlag bool | IntFlag int | ListFlag "string list"

type_synonym flag_set = "string \<rightharpoonup> flag_value"

definition build_init_flags :: "string list \<Rightarrow> flag_set" where
  "build_init_flags environ =
     [''imageTag'' \<mapsto> StringFlag (getenv_str environ ''IMAGE_TAG''),
      ''runImage'' \<mapsto> StringFlag (getenv_str environ ''RUN_IMAGE''),
      ''git-url'' \<mapsto> StringFlag (getenv_str environ ''GIT_URL''),
      ''git-revision'' \<mapsto> StringFlag (getenv_str environ ''GIT_REVISION''),
      ''git-initialize-submodules'' \<mapsto> BoolFlag (getenv_bool environ ''GIT_INITIALIZE_SUBMODULES''),
      ''blob-url'' \<mapsto> StringFlag (getenv_str environ ''BLOB_URL''),
      ''blob-auth'' \<mapsto> BoolFlag (getenv_bool environ ''BLOB_AUTH''),
      ''strip-components'' \<mapsto> IntFlag (getenv_int environ ''BLOB_STRIP_COMPONENTS'' 0),
      ''registry-image'' \<mapsto> StringFlag (getenv_str environ ''REGISTRY_IMAGE''),
      ''source-sub-path'' \<mapsto> StringFlag (getenv_str environ ''SOURCE_SUB_PATH''),
      ''build-changes'' \<mapsto> StringFlag (getenv_str environ ''BUILD_CHANGES''),
      ''project-descriptor-path'' \<mapsto> StringFlag (getenv_str environ ''PROJECT_DESCRIPTOR_PATH''),
      ''builder-image'' \<mapsto> StringFlag (getenv_str environ ''BUILDER_IMAGE''),
      ''builder-name'' \<mapsto> StringFlag (getenv_str environ ''BUILDER_NAME''),
      ''builder-kind'' \<mapsto> StringFlag (getenv_str environ ''BUILDER_KIND''),
      ''insecure-ssh-trust-unknown-hosts'' \<mapsto>
        BoolFlag (get_env_bool environ ''INSECURE_SSH_TRUST_UNKNOWN_HOSTS'' True),
      ''basic-git'' \<mapsto> ListFlag [], ''ssh-git'' \<mapsto> ListFlag [], ''blob'' \<mapsto> ListFlag [],
      ''basic-docker'' \<mapsto> ListFlag [], ''dockercfg'' \<mapsto> ListFlag [], ''dockerconfig'' \<mapsto> ListFlag [],
      ''imagepull'' \<mapsto> ListFlag []]"

text \<open>
  \<open>Set\<close> of each kind of flag. An integer of the command line has a base prefix as in Go, which the flag
  library reads; it is an argument.
\<close>

definition set_flag_value :: "(string \<Rightarrow> int option) \<Rightarrow> string \<Rightarrow> flag_value \<Rightarrow> flag_value option" where
  "set_flag_value read_int v f =
     (case f of
        StringFlag _ \<Rightarrow> Some (StringFlag v)
      | BoolFlag _ \<Rightarrow> map_option BoolFlag (parse_bool v)
      | IntFlag _ \<Rightarrow> map_option IntFlag (read_int v)
      | ListFlag vs \<Rightarrow> Some (ListFlag (vs @ [v])))"

definition is_bool_flag :: "flag_value \<Rightarrow> bool" where
  "is_bool_flag f = (case f of BoolFlag _ \<Rightarrow> True | _ \<Rightarrow> False)"

text \<open>One flag with its value.\<close>

definition assign_flag :: "(string \<Rightarrow> int option) \<Rightarrow> string \<Rightarrow> string \<Rightarrow> flag_set \<Rightarrow> flag_set res" where
  "assign_flag read_int nm v fs =
     (case fs nm of
        None \<Rightarrow> Inl (Failed Plain (''flag provided but not defined: -'' @ nm))
      | Some f \<Rightarrow>
          (case set_flag_value read_int v f of
             None \<Rightarrow> Inl (Failed Plain (''invalid value '' @ go_quoted v @ '' for flag -'' @ nm))
           | Some f' \<Rightarrow> Inr (fs(nm \<mapsto> f'))))"

text \<open>The flags, and the arguments that are left.\<close>

function flag_parse :: "(string \<Rightarrow> int option) \<Rightarrow> string list \<Rightarrow> flag_set \<Rightarrow> (flag_set \<times> string list) res" where
  "flag_parse read_int [] fs = Inr (fs, [])"
| "flag_parse read_int (s # rest) fs =
     (if length s < 2 \<or> hd s \<noteq> CHR ''-'' then Inr (fs, s # rest)
      else if s = ''--'' then Inr (fs, rest)
      else let body = (if has_prefix s ''--'' then drop 2 s else tl s) in
        if body = '''' \<or> hd body = CHR ''-'' \<or> hd body = CHR ''='' then Inl (Failed Plain (''bad flag syntax: '' @ s))
        else
          let nm = hd body # takeWhile (\<lambda>c. c \<noteq> CHR ''='') (tl body); val = dropWhile (\<lambda>c. c \<noteq> CHR ''='') (tl body) in
          if fs nm = None \<and> nm \<in> {''help'', ''h''} then Inl (Failed Plain ''flag: help requested'')
          else case val of
            _ # v \<Rightarrow> bind_res (assign_flag read_int nm v fs) (\<lambda>fs'. flag_parse read_int rest fs')
          | [] \<Rightarrow>
              (case fs nm of
                 None \<Rightarrow> Inl (Failed Plain (''flag provided but not defined: -'' @ nm))
               | Some f \<Rightarrow>
                   if is_bool_flag f
                   then bind_res (assign_flag read_int nm ''true'' fs) (\<lambda>fs'. flag_parse read_int rest fs')
                   else case rest of
                     [] \<Rightarrow> Inl (Failed Plain (''flag needs an argument: -'' @ nm))
                   | v # rest' \<Rightarrow> bind_res (assign_flag read_int nm v fs) (\<lambda>fs'. flag_parse read_int rest' fs')))"
  by pat_completeness auto
termination by (relation "measure (\<lambda>(r, args, fs). length args)") auto

fun flag_string :: "flag_set \<Rightarrow> string \<Rightarrow> string" where
  "flag_string fs nm = (case fs nm of Some (StringFlag s) \<Rightarrow> s | _ \<Rightarrow> '''')"

fun flag_bool :: "flag_set \<Rightarrow> string \<Rightarrow> bool" where
  "flag_bool fs nm = (case fs nm of Some (BoolFlag b) \<Rightarrow> b | _ \<Rightarrow> False)"

fun flag_int :: "flag_set \<Rightarrow> string \<Rightarrow> int" where
  "flag_int fs nm = (case fs nm of Some (IntFlag n) \<Rightarrow> n | _ \<Rightarrow> 0)"

fun flag_list :: "flag_set \<Rightarrow> string \<Rightarrow> string list" where
  "flag_list fs nm = (case fs nm of Some (ListFlag vs) \<Rightarrow> vs | _ \<Rightarrow> [])"

section \<open>The run\<close>

definition secretsHome :: string where "secretsHome = ''/builder/home''"
definition appDir :: string where "appDir = ''/workspace''"
definition initPlatformDir :: string where "initPlatformDir = ''/platform''"
definition buildSecretsDir :: string where "buildSecretsDir = ''/var/build-secrets''"
definition registrySourcePullSecretsDir :: string where "registrySourcePullSecretsDir = ''/registrySourcePullSecrets''"
definition projectMetadataDir :: string where "projectMetadataDir = ''/projectMetadata''"

text \<open>Everything the program reaches: files, secrets, registries, repositories and the libraries it uses.\<close>

record init_world =
  iw_env :: prep_env
  iw_docker :: docker_lib
  iw_json :: creds_json
  iw_mounts :: mounts
  iw_keychains :: keychain_lib
  iw_access :: access_lib
  iw_source :: source_lib
  iw_cloud :: cloud_lib
  iw_images :: image_source
  iw_git :: git_lib
  iw_git_keys :: git_keys
  iw_git_work :: git_work
  iw_project :: project_lib
  iw_read_int :: "string \<Rightarrow> int option"
  iw_save_json :: "docker_creds option \<Rightarrow> string res"

fun fatalf :: "string \<Rightarrow> goerr \<Rightarrow> goerr" where
  "fatalf msg (Failed k t) = Failed Plain (msg @ t)"
| "fatalf msg (Panic t) = Panic t"

fun append_secrets :: "init_world \<Rightarrow> (goerr \<Rightarrow> goerr) \<Rightarrow> docker_creds option \<Rightarrow> string list \<Rightarrow> docker_creds option res" where
  "append_secrets W wrap creds [] = Inr creds"
| "append_secrets W wrap creds (c # cs) =
     bind_res (parse_docker_config_secret (iw_docker W) (iw_json W) (iw_mounts W) (path_join [buildSecretsDir, c])) (\<lambda>a.
     bind_res (map_err wrap (docker_append (iw_docker W) creds a)) (\<lambda>creds'.
     append_secrets W wrap creds' cs))"

definition fetch_source :: "init_world \<Rightarrow> flag_set \<Rightarrow> keychain \<Rightarrow> (prep_event, unit) io" where
  "fetch_source W fs k =
     (if flag_string fs ''git-url'' \<noteq> '''' then
        bind_io (lift_io (new_mounted_secret_git_keychain (read_basic_auth_secret (iw_mounts W) buildSecretsDir)
            (read_ssh_secret (iw_mounts W) buildSecretsDir) (flag_list fs ''basic-git'') (flag_list fs ''ssh-git'')
            (flag_bool fs ''insecure-ssh-trust-unknown-hosts''))) (\<lambda>creds.
        fetch_git (iw_env W) (iw_source W) (iw_git W) (iw_git_work W) (resolve_credential (iw_git_keys W) creds)
          (flag_bool fs ''git-initialize-submodules'') appDir (flag_string fs ''git-url'')
          (flag_string fs ''git-revision'') projectMetadataDir)
      else if flag_string fs ''blob-url'' \<noteq> '''' then
        bind_io (if flag_bool fs ''blob-auth'' then
                   (if flag_list fs ''blob'' = [] then ret_io (Some (default_keychain (iw_cloud W)))
                    else bind_io (lift_io (new_mounted_secret_blob_keychain (iw_mounts W) buildSecretsDir (flag_list fs ''blob'')))
                           (\<lambda>creds. ret_io (Some (file_creds_resolve (iw_source W) creds))))
                 else ret_io None) (\<lambda>blob_keychain.
        fetch_blob (iw_env W) (iw_source W) blob_keychain appDir (flag_string fs ''blob-url'')
          (flag_int fs ''strip-components'') projectMetadataDir)
      else if flag_string fs ''registry-image'' \<noteq> '''' then
        bind_io (lift_io (parse_docker_config_secret (iw_docker W) (iw_json W) (iw_mounts W) registrySourcePullSecretsDir)) (\<lambda>pull.
        fetch_image_source (iw_env W) (iw_source W) (iw_images W) (MultiKeychain [CredsKeychain pull, k]) appDir
          (flag_string fs ''registry-image'') projectMetadataDir)
      else fail_io (Failed Plain ''no git url, blob url, or registry image provided''))"

text \<open>What is done once access to the tag and to the run image has been checked.\<close>

definition prepare_app :: "init_world \<Rightarrow> string list \<Rightarrow> flag_set \<Rightarrow> docker_creds option \<Rightarrow> keychain \<Rightarrow> (prep_event, unit) io" where
  "prepare_app W environ fs creds k =
     bind_io (fetch_source W fs k) (\<lambda>_.
     bind_io (map_err_io (fatalf ''error while processing the project descriptor: '')
         (process_project_descriptor (iw_env W) (iw_project W) (path_join [appDir, flag_string fs ''source-sub-path''])
           (flag_string fs ''project-descriptor-path'') initPlatformDir)) (\<lambda>_.
     bind_io (map_err_io (fatalf ''error setting up platform env vars '')
         (setup_platform_env_vars (iw_env W) PlatformEnvVarPrefix environ initPlatformDir)) (\<lambda>_.
     map_err_io (fatalf ''error writing docker creds '')
       (docker_save (iw_env W) (iw_save_json W) creds (path_join [secretsHome, ''.docker'', ''config.json''])))))"

definition build_init :: "init_world \<Rightarrow> string list \<Rightarrow> string list \<Rightarrow> (prep_event, unit) io" where
  "build_init W environ args =
     bind_io (lift_io (flag_parse (iw_read_int W) args (build_init_flags environ))) (\<lambda>(fs, _).
     bind_io (lift_io (parse_basic_auth_secrets (iw_mounts W) buildSecretsDir (flag_list fs ''basic-docker''))) (\<lambda>basic.
     bind_io (lift_io (append_secrets W (\<lambda>e. e) basic (flag_list fs ''dockercfg'' @ flag_list fs ''dockerconfig''))) (\<lambda>creds.
     bind_io (lift_io (kl_no_client (iw_keychains W))) (\<lambda>node.
     bind_io (map_err_io (wrap_err (''Error verifying write access to '' @ go_quoted (flag_string fs ''imageTag'')))
         (verify_write_access (iw_access W) (MultiKeychain [CredsKeychain creds, LibraryKeychain node]) (flag_string fs ''imageTag''))) (\<lambda>_.
     bind_io (lift_io (append_secrets W (fatalf ''error appending image pull creds '') creds (flag_list fs ''imagepull''))) (\<lambda>creds'.
     bind_io (map_err_io (wrap_err (''Error verifying read access to run image '' @ go_quoted (flag_string fs ''runImage'')))
         (verify_read_access (iw_access W) (MultiKeychain [CredsKeychain creds', LibraryKeychain node]) (flag_string fs ''runImage''))) (\<lambda>_.
     prepare_app W environ fs creds' (MultiKeychain [CredsKeychain creds', LibraryKeychain node]))))))))"

end
