(* ===== verification/Prepare_Properties.thy ===== *)
theory Prepare_Properties
  imports Build_Init Build_Pod_Props
begin

text \<open>
  What the prepare container guarantees: where it writes, in which order it works, which credentials it
  uses, and that it reads back what the controller put in its pod.
\<close>

section \<open>Where files are written\<close>

text \<open>The directories a call may change; the parent of one of them can be asked for again.\<close>

definition writes_in :: "string list \<Rightarrow> prep_event \<Rightarrow> bool" where
  "writes_in ds ev =
     (case ev of
        MkdirAll p m \<Rightarrow> list_ex (\<lambda>d. inside d p \<or> p = path_dir d) ds
      | OpenFile p m \<Rightarrow> list_ex (\<lambda>d. inside d p) ds
      | WriteTo p txt \<Rightarrow> list_ex (\<lambda>d. inside d p) ds
      | CloseFile p \<Rightarrow> list_ex (\<lambda>d. inside d p) ds
      | RemoveFile p \<Rightarrow> list_ex (\<lambda>d. inside d p) ds
      | RemoveTree p \<Rightarrow> list_ex (\<lambda>d. inside d p) ds
      | GitInit p \<Rightarrow> list_ex (\<lambda>d. inside d p) ds
      | GitCreateRemote p url \<Rightarrow> list_ex (\<lambda>d. inside d p) ds
      | GitFetchRef p auth spec \<Rightarrow> list_ex (\<lambda>d. inside d p) ds
      | GitCheckout p hash \<Rightarrow> list_ex (\<lambda>d. inside d p) ds
      | GitUpdateSubmodule p auth url \<Rightarrow> list_ex (\<lambda>d. inside d p) ds
      | MadeTemp p \<Rightarrow> list_ex (\<lambda>d. inside d p) ds
      | _ \<Rightarrow> True)"

lemma writes_in_paths:
  assumes "clean_dir d" and "d \<in> set ds" and "goes_down p"
  shows "writes_in ds (MkdirAll (path_join [d, p]) m)" and "writes_in ds (MkdirAll (path_dir (path_join [d, p])) m)"
    and "writes_in ds (OpenFile (path_join [d, p]) m)" and "writes_in ds (WriteTo (path_join [d, p]) txt)"
    and "writes_in ds (CloseFile (path_join [d, p]))"
  using path_join_clean [OF assms(1,3)] path_dir_inside [OF assms(1) path_join_clean [OF assms(1,3)]] assms(2)
  by (auto simp: writes_in_def list_ex_iff)

definition tame_tar :: "tar_entry res list \<Rightarrow> bool" where
  "tame_tar es \<longleftrightarrow> (\<forall>e \<in> set es. case e of Inl _ \<Rightarrow> True | Inr t \<Rightarrow> goes_down (te_name t))"

definition tame_zip :: "zip_entry list \<Rightarrow> bool" where
  "tame_zip zs \<longleftrightarrow> (\<forall>z \<in> set zs. goes_down (ze_name z))"

lemma write_out_writes:
  assumes "clean_dir d" and "d \<in> set ds" and "goes_down p"
  shows "emits (writes_in ds) (write_out E (path_join [d, p]) mode content)"
  unfolding write_out_def using writes_in_paths [OF assms] by (intro emits_bind emits_do_call emits_lift)

lemma extract_tar_writes:
  assumes d: "clean_dir d" "d \<in> set ds"
  shows "tame_tar es \<Longrightarrow> emits (writes_in ds) (extract_tar E d n es)"
proof (induction es)
  case (Cons e es)
  then have rest: "emits (writes_in ds) (extract_tar E d n es)" by (simp add: tame_tar_def)
  show ?case
  proof (cases e)
    case (Inr t)
    then have name: "goes_down (te_name t)" using Cons.prems by (simp add: tame_tar_def)
    have "emits (writes_in ds) (case te_kind t of
        TarDir \<Rightarrow> do_call E (MkdirAll (path_join [d, p]) (te_mode t))
      | TarReg \<Rightarrow> write_out E (path_join [d, p]) (te_mode t) (te_content t)
      | TarOther \<Rightarrow> ret_io ())" if "goes_down p" for p
      using writes_in_paths(1) [OF d that] write_out_writes [OF d that]
      by (cases "te_kind t") (auto intro!: emits_do_call)
    with rest strip_path_goes_down [OF name] Inr show ?thesis
      by (auto intro!: emits_bind_lift emits_bind)
  qed (simp only: extract_tar.simps emits_fail)
qed simp

lemma extract_zip_files_writes:
  assumes d: "clean_dir d" "d \<in> set ds"
  shows "tame_zip zs \<Longrightarrow> emits (writes_in ds) (extract_zip_files E d n zs)"
proof (induction zs)
  case (Cons z zs)
  then have rest: "emits (writes_in ds) (extract_zip_files E d n zs)" and name: "goes_down (ze_name z)"
    by (simp_all add: tame_zip_def)
  note w = writes_in_paths [OF d strip_path_goes_down [OF name]]
  show ?case unfolding extract_zip_files.simps Let_def
    by (rule emits_bind_lift) (auto intro!: emits_bind emits_do_call emits_lift rest w)
qed simp

text \<open>The archives a library reads, the content of a blob or of an image, all with tame names.\<close>

definition tame_archives :: "source_lib \<Rightarrow> bool" where
  "tame_archives L \<longleftrightarrow>
     (\<forall>txt. tame_tar (sl_tar L txt)) \<and> (\<forall>txt zs. sl_zip L txt = Inr zs \<longrightarrow> tame_zip zs) \<and>
     (\<forall>txt es. sl_gunzip L txt = Inr es \<longrightarrow> tame_tar es)"

definition tame_image :: "source_image \<Rightarrow> bool" where
  "tame_image img \<longleftrightarrow> (\<forall>ls. si_layers img = Inr ls \<longrightarrow> (\<forall>l \<in> set ls. \<forall>es. l = Inr es \<longrightarrow> tame_tar es))"

lemma extract_writes:
  assumes "clean_dir d" and "d \<in> set ds" and "tame_archives L"
  shows "emits (writes_in ds) (extract_zip E d n (sl_zip L txt))"
    and "emits (writes_in ds) (extract_tar E d n (sl_tar L txt))"
    and "emits (writes_in ds) (extract_tar_gz E d n (sl_gunzip L txt))"
proof -
  have tame: "\<And>zs. sl_zip L txt = Inr zs \<Longrightarrow> tame_zip zs" "tame_tar (sl_tar L txt)"
    "\<And>es. sl_gunzip L txt = Inr es \<Longrightarrow> tame_tar es"
    using assms(3) unfolding tame_archives_def by blast+
  show "emits (writes_in ds) (extract_zip E d n (sl_zip L txt))" unfolding extract_zip_def
    by (rule emits_bind_lift) (rule extract_zip_files_writes [OF assms(1,2) tame(1)])
  show "emits (writes_in ds) (extract_tar E d n (sl_tar L txt))"
    by (rule extract_tar_writes [OF assms(1,2) tame(2)])
  show "emits (writes_in ds) (extract_tar_gz E d n (sl_gunzip L txt))" unfolding extract_tar_gz_def
    by (rule emits_bind_lift) (rule extract_tar_writes [OF assms(1,2) tame(3)])
qed

lemma emits_either: "(c \<Longrightarrow> emits P a) \<Longrightarrow> (\<not> c \<Longrightarrow> emits P b) \<Longrightarrow> emits P (if c then a else b)"
  by simp

lemma extract_blob_writes:
  assumes "clean_dir d" and "d \<in> set ds" and "tame_archives L"
  shows "emits (writes_in ds) (extract_blob E L d n media txt)"
  unfolding extract_blob_def
  by (intro emits_either emits_bind emits_read emits_fail extract_writes [OF assms])

text \<open>The project metadata is written in its own directory.\<close>

lemma write_project_writes:
  assumes "clean_dir m" and "m \<in> set ds"
  shows "emits (writes_in ds) (write_project wrap E L m a b md)"
proof -
  have "goes_down ''project-metadata.toml''" by (simp add: goes_down_def)
  from writes_in_paths [OF assms this] show ?thesis
    unfolding write_project_def Let_def project_metadata_path_def
    by (intro emits_bind emits_map_err emits_do_call emits_lift)
qed

lemma make_temp_writes:
  assumes "\<And>h tmp. f h = Inr tmp \<Longrightarrow> tmp \<in> set ds"
  shows "emits (writes_in ds) (make_temp f)"
  unfolding make_temp_def using assms
  by (intro emits_bind_read emits_bind emits_call emits_ret) (auto simp: writes_in_def list_ex_iff inside_def)

lemma remove_after_writes: "tmp \<in> set ds \<Longrightarrow> emits (writes_in ds) m \<Longrightarrow> emits (writes_in ds) (remove_after E tmp m)"
  unfolding remove_after_def
  by (intro emits_attempt emits_do_call emits_lift) (auto simp: writes_in_def list_ex_iff inside_def)

lemma download_blob_writes:
  assumes "\<And>h tmp. sl_temp_file L h = Inr tmp \<Longrightarrow> tmp \<in> set ds"
  shows "emits (writes_in ds) (download_blob E L url headers)"
proof -
  have copy: "emits (writes_in ds) (bind_io (make_temp (sl_temp_file L)) (\<lambda>file.
      bind_io (do_call E (WriteTo file body)) (\<lambda>_. case err of Some e \<Rightarrow> fail_io e | None \<Rightarrow> ret_io (file, body))))" for body err
  proof (rule emits_bind_result [OF make_temp_writes [OF assms]])
    fix h tmp assume "fst (make_temp (sl_temp_file L) h) = Inr tmp"
    then have "tmp \<in> set ds" using make_temp_result assms by blast
    then show "emits (writes_in ds) (bind_io (do_call E (WriteTo tmp body)) (\<lambda>_. case err of Some e \<Rightarrow> fail_io e | None \<Rightarrow> ret_io (tmp, body)))"
      by (intro emits_bind emits_do_call) (auto simp: writes_in_def list_ex_iff inside_def split: option.split)
  qed
  show ?thesis
    unfolding download_blob_def
    by (intro emits_bind emits_call) (auto simp: writes_in_def copy split: prod.split)
qed

lemma downloaded_file:
  assumes "fst (download_blob E L url headers h) = Inr (file, content)"
  shows "\<exists>h. sl_temp_file L h = Inr file"
  using assms make_temp_result
  by (fastforce simp: download_blob_def bind_io_apply split: sum.splits prod.splits if_splits option.splits)

lemma fetch_blob_writes:
  assumes "clean_dir d" and "d \<in> set ds" and "tame_archives L" and "clean_dir m" and "m \<in> set ds"
    and "\<And>h tmp. sl_temp_file L h = Inr tmp \<Longrightarrow> tmp \<in> set ds"
  shows "emits (writes_in ds) (fetch_blob E L k d url n m)"
proof -
  let ?work = "\<lambda>content. bind_io (lift_io (classify_file L content)) (\<lambda>media_type.
      bind_io (extract_blob E L d n media_type content) (\<lambda>_.
      write_project errorf E L m (''blob '' @ quoted url) (''blob '' @ quoted url) (BlobProject url (sl_sha256 L content))))"
  have work: "emits (writes_in ds) (remove_after E tmp (?work content))" if "tmp \<in> set ds" for tmp content
    using that
    by (intro remove_after_writes emits_bind emits_lift extract_blob_writes [OF assms(1-3)] write_project_writes [OF assms(4,5)])
  have "emits (writes_in ds) (bind_io (download_blob E L url headers) (\<lambda>(tmp, content). remove_after E tmp (?work content)))"
    for headers
  proof (rule emits_bind_result [OF download_blob_writes [OF assms(6)]])
    fix h x assume "fst (download_blob E L url headers h) = Inr x"
    then have "fst x \<in> set ds" using downloaded_file assms(6) by (metis prod.collapse)
    from work [OF this] show "emits (writes_in ds) (case x of (tmp, content) \<Rightarrow> remove_after E tmp (?work content))"
      by (simp add: case_prod_beta)
  qed
  then show ?thesis unfolding fetch_blob_def by (rule emits_bind [OF emits_lift emits_bind [OF emits_lift]])
qed

lemma fetch_layer_writes:
  assumes "clean_dir d" and "d \<in> set ds" and "\<forall>es. l = Inr es \<longrightarrow> tame_tar es"
  shows "emits (writes_in ds) (fetch_layer E l d)"
  unfolding fetch_layer_def by (rule emits_bind_lift) (rule extract_tar_writes [OF assms(1,2)], use assms(3) in blast)

lemma fetch_layers_writes:
  assumes "clean_dir d" and "d \<in> set ds"
  shows "\<forall>l \<in> set ls. \<forall>es. l = Inr es \<longrightarrow> tame_tar es \<Longrightarrow> emits (writes_in ds) (fetch_layers E d ls)"
proof (induction ls)
  case (Cons l ls)
  then show ?case using fetch_layer_writes [OF assms] by (simp add: emits_bind)
qed simp

lemma get_source_file_writes:
  assumes "clean_dir d" and "d \<in> set ds" and "tame_image img"
  shows "emits (writes_in ds) (get_source_file E I img d)"
  unfolding get_source_file_def
proof (rule emits_bind_lift)
  fix ls assume ls: "si_layers img = Inr ls"
  show "emits (writes_in ds) (case ls of [layer] \<Rightarrow>
      bind_io (fetch_layer E layer d) (\<lambda>_. bind_io (read_io (\<lambda>h. ims_read_dir I h d)) (\<lambda>infos.
        case infos of [nm] \<Rightarrow> bind_io (read_io (\<lambda>h. ims_open I h (path_join [d, nm]))) (\<lambda>txt. ret_io (path_join [d, nm], txt))
        | _ \<Rightarrow> fail_io (Failed Plain ''expected layer to have exactly one file'')))
      | _ \<Rightarrow> fail_io (Failed Plain ''expected image to have exactly one layer''))"
  proof (cases "\<exists>l. ls = [l]")
    case True
    then obtain l where l: "ls = [l]" by blast
    have "emits (writes_in ds) (fetch_layer E l d)"
      by (rule fetch_layer_writes [OF assms(1,2)]) (use assms(3) ls l in \<open>simp add: tame_image_def\<close>)
    then show ?thesis unfolding l list.case
      by (intro emits_bind emits_read) (auto split: list.split intro!: emits_bind)
  next
    case False
    then show ?thesis by (cases ls; cases "tl ls") auto
  qed
qed

text \<open>An archive in an image goes through a temporary directory of the list.\<close>

lemma through_temp_dir_writes:
  assumes "\<And>h tmp. ims_temp_dir I h = Inr tmp \<Longrightarrow> tmp \<in> set ds"
    and "\<And>h tmp. ims_temp_dir I h = Inr tmp \<Longrightarrow> emits (writes_in ds) (body tmp)"
  shows "emits (writes_in ds) (through_temp_dir E I body)"
  unfolding through_temp_dir_def
proof (rule emits_bind_result [OF make_temp_writes [OF assms(1)]])
  fix h tmp assume "fst (make_temp (ims_temp_dir I) h) = Inr tmp"
  then obtain h' where "ims_temp_dir I h' = Inr tmp" using make_temp_result by blast
  then show "emits (writes_in ds) (remove_after E tmp (body tmp))"
    using assms by (intro remove_after_writes) blast+
qed

lemma fetch_image_source_writes:
  assumes d: "clean_dir d" "d \<in> set ds" and L: "tame_archives L" and m: "clean_dir m" "m \<in> set ds"
    and tmp: "\<And>h tmp. ims_temp_dir I h = Inr tmp \<Longrightarrow> clean_dir tmp \<and> tmp \<in> set ds"
    and img: "\<And>h img i. ims_fetch I h k image_name = Inr (img, i) \<Longrightarrow> tame_image img"
  shows "emits (writes_in ds) (fetch_image_source E L I k d image_name m)"
  unfolding fetch_image_source_def
proof (rule emits_bind_result)
  show "emits (writes_in ds) (call_io (PullImage k image_name) (\<lambda>h. ims_fetch I h k image_name))"
    by (rule emits_call) (simp add: writes_in_def)
  fix h x assume "fst (call_io (PullImage k image_name) (\<lambda>h. ims_fetch I h k image_name) h) = Inr x"
  then obtain img i where x: "x = (img, i)" and tame: "tame_image img" using assms(7) by (cases x) auto
  have src: "emits (writes_in ds) (get_source_file E I img t)" if "ims_temp_dir I h = Inr t" for t h
    using get_source_file_writes tmp [OF that] tame by blast
  have handlers: "emits (writes_in ds) (handle_zip E L I img d)" "emits (writes_in ds) (handle_tar E L I img d)"
    "emits (writes_in ds) (handle_tar_gz E L I img d)" "emits (writes_in ds) (handle_source E img d)"
  proof -
    show "emits (writes_in ds) (handle_zip E L I img d)" unfolding handle_zip_def
      by (intro through_temp_dir_writes) (auto simp: tmp intro!: emits_bind src extract_writes [OF d L])
    show "emits (writes_in ds) (handle_tar E L I img d)" unfolding handle_tar_def
      by (intro through_temp_dir_writes) (auto simp: tmp intro!: emits_bind src extract_writes [OF d L])
    show "emits (writes_in ds) (handle_tar_gz E L I img d)" unfolding handle_tar_gz_def
      by (intro through_temp_dir_writes) (auto simp: tmp intro!: emits_bind src extract_writes [OF d L])
    show "emits (writes_in ds) (handle_source E img d)" unfolding handle_source_def
      by (rule emits_bind_lift, rule fetch_layers_writes [OF d]) (use tame in \<open>simp add: tame_image_def\<close>)
  qed
  show "emits (writes_in ds) (case x of (img, identifier) \<Rightarrow>
      bind_io (lift_io (case dropWhile (\<lambda>c. c \<noteq> CHR ''@'') identifier of
          [] \<Rightarrow> Inl (Panic ''index out of range [1] with length 1'')
        | _ # digest \<Rightarrow> Inr (takeWhile (\<lambda>c. c \<noteq> CHR ''@'') identifier, digest))) (\<lambda>(ref, digest).
      bind_io (lift_io (get_content_type img)) (\<lambda>c_type.
      bind_io
        (if c_type \<in> {''zip'', ''jar'', ''war''} then handle_zip E L I img d
         else if c_type = ''tar'' then handle_tar E L I img d
         else if c_type = ''tar.gz'' then handle_tar_gz E L I img d
         else handle_source E img d) (\<lambda>_.
      write_project wrap_err E L m (''image: '' @ image_name) (''image: '' @ image_name) (ImageProject ref digest)))))"
    unfolding x prod.case
    by (intro emits_bind emits_lift) (auto split: prod.split intro!: emits_bind emits_lift handlers write_project_writes [OF m])
qed

lemma update_submodules_writes:
  assumes "d \<in> set ds"
  shows "emits (writes_in ds) (update_submodules E d k urls)"
proof (induction urls)
  case (Cons url urls)
  then show ?case
    unfolding update_submodules.simps
    using assms by (intro emits_bind emits_lift emits_map_err emits_do_call) (auto simp: writes_in_def list_ex_iff inside_def)
qed (simp only: update_submodules.simps emits_ret)

lemma fetch_git_writes:
  assumes "d \<in> set ds" and "clean_dir m" and "m \<in> set ds"
  shows "emits (writes_in ds) (fetch_git E L G W k sub d url rv m)"
proof -
  have calls: "writes_in ds (GitInit d)" "writes_in ds (GitCreateRemote d u)" "writes_in ds (GitFetchRef d a u)"
    "writes_in ds (GitCheckout d u)" for a u
    using assms(1) by (auto simp: writes_in_def list_ex_iff inside_def)
  show ?thesis
    unfolding fetch_git_def Let_def
    by (intro emits_bind emits_lift emits_map_err emits_do_call calls)
      (auto split: option.split
         intro!: emits_bind emits_map_err emits_do_call calls update_submodules_writes [OF assms(1)] write_project_writes [OF assms(2,3)])
qed

lemma clean_dirs: "clean_dir appDir" "clean_dir projectMetadataDir"
proof -
  have "clean_dir (''/'' @ c)" if "plain_name c" for c
    unfolding clean_dir_iff using that by (intro exI [of _ "[c]"]) simp
  from this [of "''workspace''"] this [of "''projectMetadata''"]
  show "clean_dir appDir" "clean_dir projectMetadataDir"
    by (simp_all add: appDir_def projectMetadataDir_def plain_name_def)
qed

text \<open>
  C34: Getting the source code changes files below the workspace and the directory of the project metadata, and
  the temporary files and directories it makes, which are the file a blob is downloaded to and the directory an archive from
  an image goes through, provided that no entry of an archive has a component \<open>..\<close>: the code does not check
  the names it unpacks (see \<open>archive_entry_escapes\<close>). A repository is initialized in the workspace, and only its
  remote, its worktree and its submodules are asked to do work; that these stay in its directory is the
  library's affair, and so is the file that the credentials of ssh hold known hosts in while they are read.
\<close>

theorem source_stays_in_workspace:
  assumes "tame_archives (iw_source W)"
    and "\<forall>h tmp. ims_temp_dir (iw_images W) h = Inr tmp \<longrightarrow> clean_dir tmp \<and> tmp \<in> set tmps"
    and "\<forall>h tmp. sl_temp_file (iw_source W) h = Inr tmp \<longrightarrow> tmp \<in> set tmps"
    and "\<forall>h k nm img i. ims_fetch (iw_images W) h k nm = Inr (img, i) \<longrightarrow> tame_image img"
  shows "list_all (writes_in (appDir # projectMetadataDir # tmps)) (snd (fetch_source W fs k []))"
proof -
  let ?ds = "appDir # projectMetadataDir # tmps"
  have blob: "emits (writes_in ?ds) (fetch_blob (iw_env W) (iw_source W) bk appDir url n projectMetadataDir)" for bk url n
    by (rule fetch_blob_writes [OF clean_dirs(1) _ assms(1) clean_dirs(2)]) (use assms(3) in auto)
  have git: "emits (writes_in ?ds) (fetch_git (iw_env W) (iw_source W) (iw_git W) (iw_git_work W) gk sub appDir url rv
      projectMetadataDir)" for gk sub url rv
    by (rule fetch_git_writes [OF _ clean_dirs(2)]) simp_all
  have img: "emits (writes_in ?ds) (fetch_image_source (iw_env W) (iw_source W) (iw_images W) ik appDir nm
      projectMetadataDir)" for ik nm
  proof (rule fetch_image_source_writes [OF clean_dirs(1) _ assms(1) clean_dirs(2)])
    show "clean_dir tmp \<and> tmp \<in> set ?ds" if "ims_temp_dir (iw_images W) h = Inr tmp" for h tmp
      using assms(2) that by (meson list.set_intros(2))
    show "tame_image img" if "ims_fetch (iw_images W) h ik nm = Inr (img, i)" for h img i
      using assms(4) that by blast
  qed simp_all
  have "emits (writes_in ?ds) (fetch_source W fs k)"
    unfolding fetch_source_def
    by (intro emits_either emits_bind emits_lift emits_fail emits_ret git blob img)
  then show ?thesis by (auto simp: emits_def dest: spec [of _ "[]"])
qed

text \<open>An entry that goes up is written outside of the directory.\<close>

lemma archive_entry_escapes:
  assumes "\<And>h ev. pe_do E h ev = Inr ()"
  shows "snd (extract_tar E ''/workspace'' 0
      [Inr \<lparr>te_name = ''../platform/env/PATH'', te_kind = TarReg, te_mode = ''0644'', te_content = Inr ''x''\<rparr>] []) =
    [MkdirAll ''/platform/env'' osModePerm, OpenFile ''/platform/env/PATH'' ''0644'',
     WriteTo ''/platform/env/PATH'' ''x'', CloseFile ''/platform/env/PATH'']"
  using assms
  by (simp add: strip_path_def path_join_def path_clean_def path_rooted_def clean_components_def path_dir_def write_out_def
      do_call_def bind_io_apply Let_def)

section \<open>The order of the work\<close>

text \<open>Calls are only added to the history.\<close>

abbreviation grows :: "(prep_event, 'a) io \<Rightarrow> bool" where
  "grows m \<equiv> emits (\<lambda>_. True) m"

lemmas grow_rules = emits_bind emits_either emits_lift emits_fail emits_ret emits_read emits_call emits_map_err emits_attempt
  emits_do_call TrueI

text \<open>Unpacking and writing metadata call for files only.\<close>

definition file_call :: "prep_event \<Rightarrow> bool" where
  "file_call ev = (case ev of MkdirAll p m \<Rightarrow> True | OpenFile p m \<Rightarrow> True | WriteTo p s \<Rightarrow> True | CloseFile p \<Rightarrow> True | _ \<Rightarrow> False)"

lemma file_calls [simp]: "file_call (MkdirAll p m)" "file_call (OpenFile p m)" "file_call (WriteTo p s)" "file_call (CloseFile p)"
  by (simp_all add: file_call_def)

lemma files_extract: "emits file_call (extract_tar E d n es)" "emits file_call (extract_zip_files E d n zs)"
proof -
  show "emits file_call (extract_tar E d n es)"
  proof (induction es)
    case (Cons e es)
    have one: "emits file_call (case te_kind t of TarDir \<Rightarrow> do_call E (MkdirAll p (te_mode t))
        | TarReg \<Rightarrow> write_out E p m c | TarOther \<Rightarrow> ret_io ())" for t p m c
      by (cases "te_kind t") (simp_all only: tar_kind.case write_out_def, (intro grow_rules file_calls)+)
    show ?case
    proof (cases e)
      case (Inr t)
      show ?thesis unfolding Inr extract_tar.simps by (intro grow_rules one Cons.IH)
    qed (simp only: extract_tar.simps emits_fail)
  qed (simp only: extract_tar.simps emits_ret)
  show "emits file_call (extract_zip_files E d n zs)"
    by (induction zs) (simp_all only: extract_zip_files.simps Let_def, (intro grow_rules file_calls | assumption)+)
qed

lemma files_archives:
  "emits file_call (extract_zip E d n zr)" "emits file_call (extract_tar_gz E d n gr)"
  "emits file_call (extract_blob E L d n media txt)"
  unfolding extract_blob_def extract_zip_def extract_tar_gz_def by (intro grow_rules files_extract)+

lemma files_write_project: "emits file_call (write_project wrap E L m a b md)"
  unfolding write_project_def Let_def by (intro grow_rules file_calls)

lemma files_grow: "emits file_call m \<Longrightarrow> grows m"
  by (rule emits_mono) simp_all

lemmas grows_extract = files_extract [THEN files_grow] and grows_archives = files_archives [THEN files_grow]
  and grows_write_project = files_write_project [THEN files_grow]

lemma grows_make_temp: "grows (make_temp f)"
  unfolding make_temp_def by (intro grow_rules)

lemma grows_remove_after: "grows m \<Longrightarrow> grows (remove_after E tmp m)"
  unfolding remove_after_def by (intro grow_rules)

lemma grows_fetch_blob: "grows (fetch_blob E L k d url n m)"
proof -
  have parts: "grows (case x of (a, b) \<Rightarrow> f a b)" if "\<And>a b. grows (f a b)"
    for x :: "'x \<times> 'y" and f :: "'x \<Rightarrow> 'y \<Rightarrow> (prep_event, 'c) io"
    using that by (cases x) simp
  have result: "grows (case err of Some e \<Rightarrow> fail_io e | None \<Rightarrow> ret_io r)" for err :: "goerr option" and r :: 'r
    by (cases err) (simp_all only: option.case, (intro grow_rules)+)
  show ?thesis
    unfolding fetch_blob_def download_blob_def
    by (intro grow_rules parts result grows_make_temp grows_remove_after grows_archives grows_write_project)
qed

lemma grows_fetch_layer: "grows (fetch_layer E l d)"
  unfolding fetch_layer_def by (intro grow_rules grows_extract)

lemma grows_fetch_layers: "grows (fetch_layers E d ls)"
  by (induction ls) (simp_all only: fetch_layers.simps, (intro grow_rules grows_fetch_layer | assumption)+)

lemma grows_get_source_file: "grows (get_source_file E I img d)"
proof -
  have one: "grows (case infos of [nm] \<Rightarrow> bind_io (read_io (\<lambda>h. ims_open I h (path_join [d, nm]))) (\<lambda>txt. ret_io (path_join [d, nm], txt))
      | _ \<Rightarrow> fail_io e)" for infos e
    by (cases infos; cases "tl infos") (auto intro!: emits_bind)
  have "grows (case ls of [layer] \<Rightarrow> bind_io (fetch_layer E layer d) (\<lambda>_. m) | _ \<Rightarrow> fail_io e)" if "grows m"
    for ls :: "tar_entry res list res list" and e and m :: "(prep_event, string \<times> string) io"
    using that grows_fetch_layer by (cases ls; cases "tl ls") (auto intro!: emits_bind)
  note this [OF emits_bind [OF emits_read one]]
  then show ?thesis unfolding get_source_file_def by (intro grow_rules)
qed

lemma grows_through_temp_dir: "(\<And>tmp. grows (body tmp)) \<Longrightarrow> grows (through_temp_dir E I body)"
  unfolding through_temp_dir_def by (intro grow_rules grows_make_temp grows_remove_after)

lemma grows_fetch_image_source: "grows (fetch_image_source E L I k d nm m)"
proof -
  have split: "grows (case x of (a, b) \<Rightarrow> f a b)" if "\<And>a b. grows (f a b)"
    for x :: "'x \<times> 'y" and f :: "'x \<Rightarrow> 'y \<Rightarrow> (prep_event, 'c) io"
    using that by (cases x) simp
  show ?thesis
    unfolding fetch_image_source_def handle_zip_def handle_tar_def handle_tar_gz_def handle_source_def
    by (intro grow_rules split grows_through_temp_dir grows_get_source_file grows_archives grows_extract grows_fetch_layers
        grows_write_project)
qed

lemma grows_fetch_git: "grows (fetch_git E L G W k sub d url rv m)"
proof -
  have sub: "grows (update_submodules E d k urls)" for urls
    by (induction urls) (simp_all only: update_submodules.simps, (intro grow_rules | assumption)+)
  have opt: "grows (case g of None \<Rightarrow> a | Some x \<Rightarrow> f x)" if "grows a" "\<And>x. grows (f x)"
    for g :: "'x option" and a :: "(prep_event, 'c) io" and f
    using that by (cases g) simp_all
  show ?thesis
    unfolding fetch_git_def Let_def by (intro grow_rules opt sub grows_write_project)
qed

lemma grows_fetch_source: "grows (fetch_source W fs k)"
  unfolding fetch_source_def by (intro grow_rules grows_fetch_git grows_fetch_blob grows_fetch_image_source)

lemma grows_serialize: "grows (serialize_env_vars E vs dir)"
proof -
  have "grows (write_env_vars E folder vs)" for folder
    by (induction vs) (auto simp only: write_env_vars.simps write_file_def, (intro grow_rules | assumption)+)
  then show ?thesis unfolding serialize_env_vars_def Let_def by (intro grow_rules)
qed

lemma grows_descriptor: "grows (process_project_descriptor E P dir path platform)"
proof -
  have removes: "grows (remove_unmatched E keep dir ws)" for keep ws
  proof (induction ws)
    case (Cons w ws)
    then show ?case by (cases "we_error w") (simp_all only: remove_unmatched.simps option.case, (intro grow_rules | assumption)+)
  qed (simp only: remove_unmatched.simps emits_ret)
  have files: "grows (process_files E P dir d)" for d
    unfolding process_files_def
  proof (intro emits_bind emits_lift)
    fix flt show "grows (case flt of None \<Rightarrow> ret_io ()
        | Some keep \<Rightarrow> bind_io (read_io (\<lambda>h. Inr (pl_walk P h dir))) (remove_unmatched E keep dir))"
      by (cases flt) (simp_all only: option.case, (intro grow_rules removes)+)
  qed
  have decode: "grows (decode_v2 P f)" for f
    unfolding decode_v2_def
  proof (intro emits_bind emits_read)
    fix x show "grows (case x of (d, raw) \<Rightarrow> (case raw of None \<Rightarrow> ret_io (d\<lparr>d2_env_build := None\<rparr>)
        | Some v \<Rightarrow> bind_io (lift_io (unmarshal_env_build v)) (\<lambda>vs. ret_io (d\<lparr>d2_env_build := (if vs = [] then None else Some vs)\<rparr>))))"
      by (cases x; cases "snd x") (simp_all only: prod.case option.case snd_conv, (intro grow_rules)+)
  qed
  show ?thesis
    unfolding process_project_descriptor_def Let_def
  proof (intro emits_attempt emits_read)
    fix r show "grows (case r of Inl e \<Rightarrow>
        (if is_not_found e then
           (if path \<noteq> '''' then fail_io (Failed Plain (''project descriptor path set but no file found: '' @ path)) else ret_io ())
         else fail_io (errorf ''unable to determine if project descriptor file exists'' e))
      | Inr u \<Rightarrow> bind_io (parse_project_descriptor P (path_join [dir, if path \<noteq> '''' then path else ''project.toml''])) (\<lambda>d.
          bind_io (process_files E P dir (d2_build d)) (\<lambda>_. serialize_env_vars E (descriptor_env d) platform)))"
      by (cases r) (simp_all only: sum.case parse_project_descriptor_def,
        (intro grow_rules decode files grows_serialize)+)
  qed
qed

lemma grows_prepare_app: "grows (prepare_app W environ fs creds k)"
  unfolding prepare_app_def setup_platform_env_vars_def docker_save_def
  by (intro grow_rules grows_fetch_source grows_descriptor grows_serialize)

lemma verify_access_apply:
  "verify_write_access A k tag h =
     (case al_parse_reference A tag of
        Inl e \<Rightarrow> (Inl (wrap_err (''Error parsing reference '' @ go_quoted tag) e), h)
      | Inr ref \<Rightarrow> (checked A (al_check_push A h ref k), h @ [CheckPush ref tag]))"
  "verify_read_access A k tag h =
     (case al_parse_reference A tag of
        Inl e \<Rightarrow> (Inl (wrap_err (''Error parsing reference '' @ go_quoted tag) e), h)
      | Inr ref \<Rightarrow> (checked A (al_get A h ref k), h @ [CheckRead ref tag]))"
  by (simp_all add: verify_write_access_def verify_read_access_def bind_io_apply map_err_def split: sum.split)

lemma checked_ok [simp]: "checked A e = Inr u \<longleftrightarrow> e = None"
  by (cases e) (simp_all add: checked_def)

lemma map_err_ok [simp]: "map_err f r = Inr x \<longleftrightarrow> r = Inr x"
  by (cases r) (simp_all add: map_err_def)

lemma bind_io_lift: "bind_io (lift_io r) f h = (case r of Inl e \<Rightarrow> (Inl e, h) | Inr x \<Rightarrow> f x h)"
  by (cases r) (simp_all add: bind_io_apply)

lemma prepare_app_saves:
  assumes "prepare_app W environ fs creds k h = (r, es)"
  shows "\<exists>es'. es = h @ es'"
    and "r = Inr () \<Longrightarrow> \<exists>txt es'. iw_save_json W creds = Inr txt \<and> es = es' @ [WriteTo ''/builder/home/.docker/config.json'' txt]"
proof -
  show "\<exists>es'. es = h @ es'" by (rule emits_obtain [OF grows_prepare_app, of W environ fs creds k h]) (use assms in auto)
  have p: "path_join [secretsHome, ''.docker'', ''config.json''] = ''/builder/home/.docker/config.json''"
    by (simp add: secretsHome_def path_join_def path_clean_def path_rooted_def clean_components_def Let_def)
  show "r = Inr () \<Longrightarrow> \<exists>txt es'. iw_save_json W creds = Inr txt \<and> es = es' @ [WriteTo ''/builder/home/.docker/config.json'' txt]"
    using assms unfolding prepare_app_def docker_save_def p
    by (auto simp: bind_io_apply map_err_io_apply do_call_def map_err_def split: sum.splits)
qed

definition checked_in_order :: "access_lib \<Rightarrow> string \<Rightarrow> string \<Rightarrow> prep_event list \<Rightarrow> bool" where
  "checked_in_order A tag run es \<longleftrightarrow>
     (case es of
        [] \<Rightarrow> True
      | push # rest \<Rightarrow>
          \<exists>ref. al_parse_reference A tag = Inr ref \<and> push = CheckPush ref tag \<and>
            (case rest of
               [] \<Rightarrow> True
             | get # rest' \<Rightarrow>
                 (\<exists>k. al_check_push A [] ref k = None) \<and>
                 (\<exists>ref'. al_parse_reference A run = Inr ref' \<and> get = CheckRead ref' run \<and>
                    (rest' \<noteq> [] \<longrightarrow> (\<exists>k. al_get A [push] ref' k = None)))))"

text \<open>
  C31: Nothing is done before the tag can be written and the run image read: the first call asks to push the tag,
  the second one, made when the registry accepts, to read the run image, and only when this is granted too
  others follow. A run that succeeds has passed both and ends with writing the credentials to the home directory.
\<close>

theorem access_checked_first:
  assumes "flag_parse (iw_read_int W) args (build_init_flags environ) = Inr (fs, left)"
    and "build_init W environ args [] = (r, es)"
  shows "checked_in_order (iw_access W) (flag_string fs ''imageTag'') (flag_string fs ''runImage'') es \<and>
    (r = Inr () \<longrightarrow> 2 < length es \<and> (\<exists>creds txt. iw_save_json W creds = Inr txt \<and>
       last es = WriteTo ''/builder/home/.docker/config.json'' txt))"
proof -
  let ?A = "iw_access W" and ?tag = "flag_string fs ''imageTag''" and ?run = "flag_string fs ''runImage''"
  let ?goal = "checked_in_order ?A ?tag ?run es \<and> (r = Inr () \<longrightarrow> 2 < length es \<and>
    (\<exists>creds txt. iw_save_json W creds = Inr txt \<and> last es = WriteTo ''/builder/home/.docker/config.json'' txt))"
  have stop: ?goal if "es = []" "r \<noteq> Inr ()" using that by (simp add: checked_in_order_def)
  note run = assms(2) [unfolded build_init_def assms(1) bind_io_lift sum.case prod.case]
  show ?goal
  proof (cases "\<exists>basic creds node ref.
      parse_basic_auth_secrets (iw_mounts W) buildSecretsDir (flag_list fs ''basic-docker'') = Inr basic \<and>
      append_secrets W (\<lambda>e. e) basic (flag_list fs ''dockercfg'' @ flag_list fs ''dockerconfig'') = Inr creds \<and>
      kl_no_client (iw_keychains W) = Inr node \<and> al_parse_reference ?A ?tag = Inr ref")
    case False
    with run show ?thesis
      by (intro stop) (auto simp: verify_access_apply bind_io_apply map_err_io_apply map_err_def split: sum.splits)
  next
    case True
    then obtain basic creds node ref where pre: "parse_basic_auth_secrets (iw_mounts W) buildSecretsDir (flag_list fs ''basic-docker'') = Inr basic"
      "append_secrets W (\<lambda>e. e) basic (flag_list fs ''dockercfg'' @ flag_list fs ''dockerconfig'') = Inr creds"
      "kl_no_client (iw_keychains W) = Inr node" "al_parse_reference ?A ?tag = Inr ref" by blast
    let ?k = "MultiKeychain [CredsKeychain creds, LibraryKeychain node]" and ?push = "CheckPush ref ?tag"
    note run = run [unfolded pre(1-3) sum.case]
    show ?thesis
    proof (cases "\<exists>creds' ref'. al_check_push ?A [] ref ?k = None \<and>
        append_secrets W (fatalf ''error appending image pull creds '') creds (flag_list fs ''imagepull'') = Inr creds' \<and>
        al_parse_reference ?A ?run = Inr ref'")
      case False
      with run pre(4) have "es = [?push]" "r \<noteq> Inr ()"
        by (auto simp: verify_access_apply bind_io_apply map_err_io_apply map_err_def split: sum.splits)
      with pre(4) show ?thesis by (simp add: checked_in_order_def)
    next
      case True
      then obtain creds' ref' where mid: "al_check_push ?A [] ref ?k = None"
        "append_secrets W (fatalf ''error appending image pull creds '') creds (flag_list fs ''imagepull'') = Inr creds'"
        "al_parse_reference ?A ?run = Inr ref'" by blast
      let ?k' = "MultiKeychain [CredsKeychain creds', LibraryKeychain node]" and ?read = "CheckRead ref' ?run"
      show ?thesis
      proof (cases "al_get ?A [?push] ref' ?k'")
        case (Some e)
        with run pre(4) mid have "es = [?push, ?read]" "r \<noteq> Inr ()"
          by (auto simp: verify_access_apply bind_io_apply map_err_io_apply map_err_def checked_def)
        with pre(4) mid show ?thesis by (auto simp: checked_in_order_def)
      next
        case None
        with run pre(4) mid have app: "prepare_app W environ fs creds' ?k' [?push, ?read] = (r, es)"
          by (simp add: verify_access_apply bind_io_apply map_err_io_apply map_err_def checked_def)
        obtain es' where es: "es = [?push, ?read] @ es'" using prepare_app_saves(1) [OF app] by blast
        have "\<exists>txt es''. iw_save_json W creds' = Inr txt \<and> es = es'' @ [WriteTo ''/builder/home/.docker/config.json'' txt]"
          if "r = Inr ()" by (rule prepare_app_saves(2) [OF app that])
        moreover have "2 < length es \<and> last es = WriteTo p c" if eq: "es = es'' @ [WriteTo p c]" for es'' p c
        proof -
          have l: "last es = WriteTo p c" unfolding eq by simp
          have "es' \<noteq> []" by (rule notI) (use l es in simp)
          with l es show ?thesis by simp
        qed
        ultimately have "r = Inr () \<longrightarrow> 2 < length es \<and>
            (\<exists>creds txt. iw_save_json W creds = Inr txt \<and> last es = WriteTo ''/builder/home/.docker/config.json'' txt)"
          by blast
        moreover have "checked_in_order ?A ?tag ?run es"
          using pre(4) mid None unfolding es checked_in_order_def by auto
        ultimately show ?thesis by blast
      qed
    qed
  qed
qed

section \<open>Credentials\<close>

lemma mounted_blob_credentials:
  "new_mounted_secret_blob_keychain M volume ss = Inr cs \<Longrightarrow> c \<in> set cs \<Longrightarrow>
     \<exists>s \<in> set ss. split_pair s = [fcr_secret_name c, fcr_domain c]"
proof (induction ss arbitrary: cs)
  case (Cons s ss)
  have two: "split_pair s = [split_pair s ! 0, split_pair s ! 1]" if "length (split_pair s) = 2"
    using that by (cases "split_pair s"; cases "tl (split_pair s)") auto
  obtain c' cs' where c': "length (split_pair s) = 2" "read_file_credential M volume (split_pair s ! 0) (split_pair s ! 1) = Inr c'"
    "new_mounted_secret_blob_keychain M volume ss = Inr cs'" "cs = c' # cs'"
    using Cons.prems(1) by (auto simp: bind_res_eq_Inr Let_def split: if_splits)
  have "fcr_secret_name c' = split_pair s ! 0" "fcr_domain c' = split_pair s ! 1"
    using c'(2) by (auto simp: read_file_credential_def bind_res_eq_Inr Let_def)
  with two [OF c'(1)] Cons.IH [OF c'(3)] Cons.prems(2) c'(4) show ?case by auto
qed simp

lemma file_creds_resolve_own:
  assumes "file_creds_resolve L creds url = (auth, hs, None)"
  shows "hs = Map.empty \<and> (\<exists>c \<in> set creds. sl_hostname L url = Inr (fcr_domain c) \<and> auth_headers_of c = [auth])"
  using assms
  by (auto simp: file_creds_resolve_def no_blob_auth_def find_Some_iff split: sum.splits option.splits list.splits)

text \<open>
  C35: A blob secret goes only to the server it is for: the one request of a fetch with mounted secrets asks for the
  url of the blob, and its only header is the one authorization of a credential whose domain, named with the
  secret in an argument, is the host name of the url.
\<close>

theorem blob_secret_for_its_host:
  assumes "new_mounted_secret_blob_keychain M volume secrets = Inr creds"
    and "HttpGet u hs \<in> set (snd (fetch_blob E L (Some (file_creds_resolve L creds)) d url n m []))"
  shows "u = url \<and> (\<exists>c \<in> set creds. \<exists>auth. sl_hostname L url = Inr (fcr_domain c) \<and> auth_headers_of c = [auth] \<and>
    hs = [''Authorization'' \<mapsto> auth] \<and> (\<exists>s \<in> set secrets. split_pair s = [fcr_secret_name c, fcr_domain c]))"
proof -
  define ok where "ok ev \<longleftrightarrow> (case ev of
      HttpGet u hs \<Rightarrow> u = url \<and> (\<exists>c \<in> set creds. \<exists>auth. sl_hostname L url = Inr (fcr_domain c) \<and> auth_headers_of c = [auth] \<and>
        hs = [''Authorization'' \<mapsto> auth])
    | _ \<Rightarrow> True)" for ev
  have files: "emits ok m" if "emits file_call m" for m :: "(prep_event, unit) io"
    using that by (rule emits_mono) (auto simp: ok_def file_call_def split: prep_event.splits)
  have get: "emits ok (download_blob E L url hs)" if "ok (HttpGet url hs)" for hs
    unfolding download_blob_def make_temp_def
    by (intro emits_bind emits_call that)
       (auto simp: ok_def split: prod.split option.split intro!: emits_bind emits_call emits_do_call)
  have "emits ok (fetch_blob E L (Some (file_creds_resolve L creds)) d url n m)"
    unfolding fetch_blob_def option.case
  proof (intro emits_bind_lift)
    fix x headers
    assume "(case file_creds_resolve L creds url of
        (auth, headers, None) \<Rightarrow> Inr (headers(''Authorization'' \<mapsto> auth))
      | (auth, headers, Some e) \<Rightarrow> Inl (errorf ''failed to resolve creds'' e)) = Inr headers"
    then obtain auth hs where "file_creds_resolve L creds url = (auth, hs, None)" "headers = hs(''Authorization'' \<mapsto> auth)"
      by (auto split: prod.splits option.splits)
    with file_creds_resolve_own have "ok (HttpGet url headers)" unfolding ok_def by fastforce
    note this [THEN get]
    moreover have removes: "emits ok (remove_after E tmp work)" if "emits ok work" for tmp work
      unfolding remove_after_def using that by (intro emits_attempt emits_do_call emits_lift) (simp_all add: ok_def)
    have "emits ok (bind_io (lift_io (classify_file L content)) (\<lambda>media_type.
        bind_io (extract_blob E L d n media_type content) (\<lambda>_.
        write_project errorf E L m (''blob '' @ quoted url) (''blob '' @ quoted url) (BlobProject url (sl_sha256 L content)))))" for content
      by (intro emits_bind emits_lift files files_archives files_write_project)
    note removes [OF this]
    ultimately show "emits ok (bind_io (download_blob E L url headers) (\<lambda>(file, content).
        remove_after E file (bind_io (lift_io (classify_file L content)) (\<lambda>media_type.
        bind_io (extract_blob E L d n media_type content) (\<lambda>_.
        write_project errorf E L m (''blob '' @ quoted url) (''blob '' @ quoted url) (BlobProject url (sl_sha256 L content)))))))"
      by (intro emits_bind) (auto split: prod.split)
  qed
  then have "ok (HttpGet u hs)" using assms(2) by (auto simp: emits_def list_all_iff dest: spec [of _ "[]"])
  with mounted_blob_credentials [OF assms(1)] show ?thesis unfolding ok_def by fastforce
qed

text \<open>
  Registry credentials are merged without overruling: after \<open>Append\<close> a registry that had a credential keeps it
  and another one gets the appended credential, whatever form its key has; and when the credentials had one key
  for each registry, the order in which Go ranges over the merged map makes no difference to a lookup.
\<close>

theorem first_credential_wins:
  assumes "docker_law D H" and "reg \<in> H" and "well_keyed D H c" and "well_keyed D H (entries_of a)"
    and "docker_append D (Some c) a = Inr r"
  shows "docker_resolve D r reg =
      (if \<exists>e \<in> set c. registry_match D (fst e) reg then docker_resolve D (Some c) reg else docker_resolve D a reg) \<and>
    (unambiguous D H c \<longrightarrow> (\<forall>es. set es = set (entries_of r) \<longrightarrow> docker_resolve D (Some es) reg = docker_resolve D r reg))"
proof (intro conjI impI allI)
  note r = docker_append_resolve [OF assms]
  show "docker_resolve D r reg =
      (if \<exists>e \<in> set c. registry_match D (fst e) reg then docker_resolve D (Some c) reg else docker_resolve D a reg)"
    by (rule r(1))
  fix es assume "unambiguous D H c" and es: "set es = set (entries_of r)"
  with r(2) obtain r' where "r = Some r'" "unambiguous D H r'" by blast
  with es unambiguous_order [of D H r' es reg] assms(2) show "docker_resolve D (Some es) reg = docker_resolve D r reg"
    by (simp add: entries_of_def)
qed

section \<open>Samples\<close>

definition sample_docker :: docker_lib where
  "sample_docker = \<lparr>dl_default_registry = ''index.docker.io'', dl_default_auth_key = ''https://index.docker.io/v1/'',
     dl_url_host = (\<lambda>s. Inr (takeWhile (\<lambda>c. c \<noteq> CHR ''/'') (drop 2 (dropWhile (\<lambda>c. c \<noteq> CHR ''/'') s))))\<rparr>"

definition sample_auth :: "string \<Rightarrow> auth_config" where
  "sample_auth user = \<lparr>ac_username = user, ac_password = ''pw'', ac_auth = ''''\<rparr>"

theorem first_credential_wins_witness:
  "\<exists>r. docker_append sample_docker (Some [(''https://gcr.io'', sample_auth ''a'')]) (Some [(''gcr.io'', sample_auth ''b'')]) = Inr r \<and>
     docker_resolve sample_docker r ''gcr.io'' = FromConfig (sample_auth ''a'')"
proof -
  let ?c = "[(''https://gcr.io'', sample_auth ''a'')]" and ?a = "Some [(''gcr.io'', sample_auth ''b'')]"
  have law: "docker_law sample_docker {''gcr.io''}"
    by (simp add: docker_law_def sample_docker_def keys_for_def registryDomains_def)
  have keyed: "well_keyed sample_docker {''gcr.io''} ?c" "well_keyed sample_docker {''gcr.io''} (entries_of ?a)"
    by (simp_all add: well_keyed_def keys_for_def registryDomains_def sample_docker_def entries_of_def)
  obtain r where r: "docker_append sample_docker (Some ?c) ?a = Inr r"
    by (simp add: docker_append_def docker_contains_def sample_docker_def Let_def)
  have "docker_resolve sample_docker (Some ?c) ''gcr.io'' = FromConfig (sample_auth ''a'')"
    "registry_match sample_docker ''https://gcr.io'' ''gcr.io''"
    by (simp_all add: docker_resolve_def entries_of_def registry_match_def registry_string_def registryDomains_def sample_docker_def)
  with first_credential_wins [OF law _ keyed r, of "''gcr.io''"] r show ?thesis by simp
qed

definition sample_source :: source_lib where
  "sample_source = \<lparr>sl_parse_url = (\<lambda>u. Inr (''blobs.example'', ''/app.zip'')), sl_hostname = (\<lambda>u. Inr ''blobs.example''),
     sl_http = (\<lambda>h u hs. Inr (200, ''zip'', None)), sl_status_text = (\<lambda>n. ''OK''), sl_temp_file = (\<lambda>h. Inr ''/tmp/blob''),
     sl_reopen = (\<lambda>h. True), sl_detect = (\<lambda>s. ''application/zip''), sl_sha256 = (\<lambda>s. ''abc''),
     sl_zip = (\<lambda>s. Inr [\<lparr>ze_name = ''src/main.go'', ze_is_dir = False, ze_mode = ''0644'', ze_creator = 0, ze_open = Inr (Inr ''package main'')\<rparr>]),
     sl_gunzip = (\<lambda>s. Inr []), sl_tar = (\<lambda>s. []), sl_toml = (\<lambda>md. Inr ''toml'')\<rparr>"

definition sample_mounts :: mounts where
  "sample_mounts = \<lparr>mt_stat = (\<lambda>d f. if f = ''bearer'' then Inr () else Inl (Failed NotFound ''missing'')),
     mt_read = (\<lambda>d f. Inr ''token'')\<rparr>"

definition sample_prep_env :: prep_env where
  "sample_prep_env = \<lparr>pe_do = \<lambda>h ev. Inr ()\<rparr>"

lemma sample_blob_fetch:
  assumes "k url = (auth, Map.empty, None)"
  shows "fetch_blob sample_prep_env sample_source (Some k) ''/workspace'' url 1 ''/projectMetadata'' h =
    (Inr (), h @ [HttpGet url [''Authorization'' \<mapsto> auth], MadeTemp ''/tmp/blob'', WriteTo ''/tmp/blob'' ''zip'',
       MkdirAll ''/workspace'' osModePerm, OpenFile ''/workspace/main.go'' osModePerm,
       WriteTo ''/workspace/main.go'' ''package main'', CloseFile ''/workspace/main.go'',
       OpenFile ''/projectMetadata/project-metadata.toml'' ''0666'', WriteTo ''/projectMetadata/project-metadata.toml'' ''toml'',
       RemoveTree ''/tmp/blob''])"
proof -
  have paths: "path_join [''main.go''] = ''main.go''" "path_join [''/workspace'', ''main.go''] = ''/workspace/main.go''"
    "path_dir ''/workspace/main.go'' = ''/workspace''"
    "path_join [''/projectMetadata'', ''project-metadata.toml''] = ''/projectMetadata/project-metadata.toml''"
    by (simp_all add: path_join_def path_clean_def path_rooted_def clean_components_def path_dir_def Let_def)
  show ?thesis
    by (simp add: fetch_blob_def download_blob_def make_temp_def remove_after_def attempt_io_apply classify_file_def extract_blob_def extract_zip_def strip_path_def
      write_project_def project_metadata_path_def do_call_def bind_io_apply map_err_io_apply map_err_def is_fat_file_def
      sample_prep_env_def sample_source_def Let_def paths assms)
qed

theorem blob_secret_for_its_host_witness:
  "\<exists>creds. new_mounted_secret_blob_keychain sample_mounts ''/var/build-secrets'' [''key=blobs.example''] = Inr creds \<and>
     HttpGet ''https://blobs.example/app.zip'' [''Authorization'' \<mapsto> ''Bearer token''] \<in>
       set (snd (fetch_blob sample_prep_env sample_source (Some (file_creds_resolve sample_source creds)) ''/workspace''
         ''https://blobs.example/app.zip'' 1 ''/projectMetadata'' [])) \<and>
     (\<exists>c \<in> set creds. sl_hostname sample_source ''https://blobs.example/app.zip'' = Inr (fcr_domain c) \<and>
        split_pair ''key=blobs.example'' = [fcr_secret_name c, fcr_domain c])"
proof -
  obtain creds where creds: "new_mounted_secret_blob_keychain sample_mounts ''/var/build-secrets'' [''key=blobs.example''] = Inr creds"
    "creds = [\<lparr>fcr_domain = ''blobs.example'', fcr_secret_name = ''key'', fcr_username = '''', fcr_password = '''',
       fcr_bearer = ''token'', fcr_authorization = ''''\<rparr>]"
    by (simp add: read_file_credential_def read_file_def sample_mounts_def split_pair_def Let_def)
  have "file_creds_resolve sample_source creds ''https://blobs.example/app.zip'' = (''Bearer token'', Map.empty, None)"
    by (simp add: file_creds_resolve_def creds(2) sample_source_def auth_headers_of_def)
  note run = sample_blob_fetch [where k = "file_creds_resolve sample_source creds", OF this]
  have get: "HttpGet ''https://blobs.example/app.zip'' [''Authorization'' \<mapsto> ''Bearer token''] \<in>
      set (snd (fetch_blob sample_prep_env sample_source (Some (file_creds_resolve sample_source creds)) ''/workspace''
        ''https://blobs.example/app.zip'' 1 ''/projectMetadata'' []))"
    unfolding run by simp
  from blob_secret_for_its_host [OF creds(1) get] get creds(1) show ?thesis by auto
qed

definition sample_world :: init_world where
  "sample_world = \<lparr>iw_env = sample_prep_env, iw_docker = sample_docker,
     iw_json = \<lparr>cj_dockercfg = (\<lambda>s. Inr None), cj_dockerconfig = (\<lambda>s. Inr (Some []))\<rparr>, iw_mounts = sample_mounts,
     iw_keychains = \<lparr>kl_no_client = Inr ''node'', kl_k8s_chain = (\<lambda>ns sa ps. Inr ''k8s''), kl_azure_file = ''azure''\<rparr>,
     iw_access = \<lparr>al_unauthorized_code = ''UNAUTHORIZED'', al_parse_reference = Inr, al_check_push = (\<lambda>h ref k. None),
       al_get = (\<lambda>h ref k. None)\<rparr>,
     iw_source = sample_source,
     iw_cloud = \<lparr>cl_az_token = Inr ''az'', cl_az_date = ''now'', cl_az_file_version = ''1'', cl_az_blob_version = ''1'',
       cl_gcp_token = Inr ''gcp''\<rparr>,
     iw_images = \<lparr>ims_fetch = (\<lambda>h k nm. Inl (Failed Plain ''no image'')), ims_temp_dir = (\<lambda>h. Inr ''/tmp/x''),
       ims_read_dir = (\<lambda>h d. Inr []), ims_open = (\<lambda>h p. Inr '''')\<rparr>,
     iw_git = \<lparr>gl_list = (\<lambda>a u. Inr []), gl_init = Inr (), gl_create_remote = (\<lambda>u. Inr ()), gl_fetch = (\<lambda>h u a r. Inr ()),
       gl_resolve_revision = (\<lambda>h r. Inr r), gl_reference = (\<lambda>h r. Inr ()), gl_tag = (\<lambda>h r. Inr r), gl_tag_target = (\<lambda>h r. Inr r),
       gl_commit = (\<lambda>h r. Inr r), gl_commit_tree = (\<lambda>h r. Inr r), gl_find_entry = (\<lambda>h t p. Inr p), gl_new_hash = (\<lambda>r. r)\<rparr>,
     iw_git_keys = \<lparr>gk_parse_url = (\<lambda>u. Inr (''https'', ''git.example'')), gk_public_keys = Inr, gk_known_hosts = Inr,
       gk_sort = (\<lambda>less cs. cs)\<rparr>,
     iw_git_work = \<lparr>gw_is_auth_required = (\<lambda>e. False), gw_submodules = (\<lambda>h. Inr [])\<rparr>,
     iw_project = \<lparr>pl_stat = (\<lambda>h p. Inl (Failed NotFound ''missing'')), pl_decode_v2 = (\<lambda>h p. Inl (Failed Plain ''bad'')),
       pl_decode_v1 = (\<lambda>h p. Inl (Failed Plain ''bad'')), pl_matches = (\<lambda>ps p. False), pl_walk = (\<lambda>h d. [])\<rparr>,
     iw_read_int = (\<lambda>s. None), iw_save_json = (\<lambda>c. Inr ''{}'')\<rparr>"

theorem source_stays_in_workspace_witness:
  "list_all (writes_in [''/workspace'', ''/projectMetadata'', ''/tmp/x'', ''/tmp/blob''])
     (snd (fetch_source sample_world [''blob-url'' \<mapsto> StringFlag ''https://blobs.example/app.zip'',
        ''strip-components'' \<mapsto> IntFlag 1] (MultiKeychain []) []))"
proof -
  have "tame_archives (iw_source sample_world)"
    by (simp add: tame_archives_def sample_world_def sample_source_def tame_tar_def tame_zip_def goes_down_def)
  moreover have "clean_dir ''/tmp/x''"
    unfolding clean_dir_iff by (intro exI [of _ "[''tmp'', ''x'']"]) (simp add: plain_name_def)
  then have "\<forall>h tmp. ims_temp_dir (iw_images sample_world) h = Inr tmp \<longrightarrow> clean_dir tmp \<and> tmp \<in> set [''/tmp/x'', ''/tmp/blob'']"
    by (simp add: sample_world_def)
  moreover have "\<forall>h tmp. sl_temp_file (iw_source sample_world) h = Inr tmp \<longrightarrow> tmp \<in> set [''/tmp/x'', ''/tmp/blob'']"
    by (simp add: sample_world_def sample_source_def)
  moreover have "\<forall>h k nm img i. ims_fetch (iw_images sample_world) h k nm = Inr (img, i) \<longrightarrow> tame_image img"
    by (simp add: sample_world_def)
  ultimately show ?thesis
    using source_stays_in_workspace [of sample_world "[''/tmp/x'', ''/tmp/blob'']"] by (simp add: appDir_def projectMetadataDir_def)
qed

definition sample_environ :: "string list" where
  "sample_environ = [''IMAGE_TAG=registry.example/app'', ''RUN_IMAGE=registry.example/run'', ''BLOB_URL=https://blobs.example/app.zip'',
     ''BLOB_AUTH=true'', ''BLOB_STRIP_COMPONENTS=1'']"

definition sample_flags :: flag_set where "sample_flags = build_init_flags sample_environ"

lemma sample_flags_simps:
  "flag_string sample_flags ''imageTag'' = ''registry.example/app''" "flag_string sample_flags ''runImage'' = ''registry.example/run''"
  "flag_string sample_flags ''git-url'' = ''''" "flag_string sample_flags ''blob-url'' = ''https://blobs.example/app.zip''"
  "flag_bool sample_flags ''blob-auth''" "flag_int sample_flags ''strip-components'' = 1"
  "flag_string sample_flags ''source-sub-path'' = ''''" "flag_string sample_flags ''project-descriptor-path'' = ''''"
  "flag_list sample_flags ''blob'' = []" "flag_list sample_flags ''basic-docker'' = []" "flag_list sample_flags ''dockercfg'' = []"
  "flag_list sample_flags ''dockerconfig'' = []" "flag_list sample_flags ''imagepull'' = []"
  by (simp_all add: sample_flags_def sample_environ_def build_init_flags_def getenv_str_def getenv_def getenv_bool_def
      getenv_int_def parse_bool_def parse_number_def parse_unsigned_def digit_value_def fits64_def int64_max_def int64_min_def)

text \<open>The default keychain sends the token of the node to any url.\<close>

lemma default_keychain_any_url:
  "default_keychain (iw_cloud sample_world) ''https://blobs.example/app.zip'' = (''Bearer gcp'', Map.empty, None)"
  by (simp add: default_keychain_def az_keychain_resolve_def azure_service_def gcp_keychain_resolve_def no_blob_auth_def sample_world_def)

lemma sample_fetch: "fst (fetch_source sample_world sample_flags k h) = Inr ()"
proof -
  note run = sample_blob_fetch [where k = "default_keychain (iw_cloud sample_world)", OF default_keychain_any_url]
  have env: "iw_env sample_world = sample_prep_env" "iw_source sample_world = sample_source"
    by (simp_all add: sample_world_def)
  show ?thesis
    unfolding fetch_source_def sample_flags_simps env appDir_def projectMetadataDir_def
    by (simp add: bind_io_apply run sample_flags_simps del: flag_bool.simps flag_list.simps)
qed

lemma sample_run: "fst (build_init sample_world sample_environ [] []) = Inr ()"
proof -
  have app: "fst (prepare_app sample_world sample_environ sample_flags c k h) = Inr ()" for c k h
  proof -
    have descriptor: "process_project_descriptor (iw_env sample_world) (iw_project sample_world) d '''' p h = (Inr (), h)" for d p h
      by (simp add: process_project_descriptor_def sample_world_def attempt_io_apply Let_def)
    have vars: "platform_env_of PlatformEnvVarPrefix sample_environ = []"
      by (simp add: platform_env_of_def sample_environ_def PlatformEnvVarPrefix_def List.map_filter_simps)
    have calls: "do_call (iw_env sample_world) ev h = (Inr (), h @ [ev])" for ev h
      by (simp add: do_call_def sample_world_def sample_prep_env_def)
    have json: "iw_save_json sample_world c = Inr ''{}''" by (simp add: sample_world_def)
    show ?thesis
      unfolding prepare_app_def setup_platform_env_vars_def serialize_env_vars_def docker_save_def sample_flags_simps vars json
      by (simp add: bind_io_apply map_err_io_apply map_err_def sample_fetch descriptor calls Let_def)
  qed
  have secrets: "kl_no_client (iw_keychains sample_world) = Inr ''node''"
    and access: "iw_access sample_world = \<lparr>al_unauthorized_code = ''UNAUTHORIZED'', al_parse_reference = Inr,
      al_check_push = (\<lambda>h ref k. None), al_get = (\<lambda>h ref k. None)\<rparr>"
    by (simp_all add: sample_world_def)
  show ?thesis
    unfolding build_init_def sample_flags_def [symmetric] flag_parse.simps(1)
    by (simp add: bind_io_apply map_err_io_apply map_err_def verify_access_apply checked_def sample_flags_simps secrets access app
        parse_basic_auth_secrets_def del: flag_string.simps flag_list.simps)
qed

theorem access_checked_first_witness:
  "\<exists>es. build_init sample_world sample_environ [] [] = (Inr (), es) \<and> 2 < length es \<and>
     checked_in_order (iw_access sample_world) ''registry.example/app'' ''registry.example/run'' es \<and>
     last es = WriteTo ''/builder/home/.docker/config.json'' ''{}''"
proof -
  obtain es where es: "build_init sample_world sample_environ [] [] = (Inr (), es)"
    using sample_run by (metis prod.collapse)
  have parse: "flag_parse (iw_read_int sample_world) [] (build_init_flags sample_environ) = Inr (sample_flags, [])"
    by (simp add: sample_flags_def)
  have "iw_save_json sample_world c = Inr ''{}''" for c by (simp add: sample_world_def)
  with access_checked_first [OF parse es] es show ?thesis unfolding sample_flags_simps by auto
qed

end
