(* ===== verification/Prepare_Pod.thy ===== *)
theory Prepare_Pod
  imports Build_Init Waiter_Properties
begin

text \<open>
  The pod of a build and the program of its prepare container together: the arguments and the environment
  that the controller writes are read back as the source, the images and the credentials of the build.
\<close>

section \<open>Arguments\<close>

text \<open>The secret's flag and its value, and the argument the two make.\<close>

definition secret_flag :: "(secret \<Rightarrow> bool) \<Rightarrow> secret \<Rightarrow> (string \<times> string) option" where
  "secret_flag keep s =
     (let url = (\<lambda>prefix. lookup_str (sec_annotations s) prefix);
          named = (\<lambda>prefix. sec_name s @ ''='' @ url prefix)
      in if \<not> keep s then None
         else if sec_type s = SecretTypeBasicAuth \<and> url DOCKERSecretAnnotationPrefix \<noteq> ''''
           then Some (''basic-docker'', named DOCKERSecretAnnotationPrefix)
         else if sec_type s = SecretTypeDockerConfigJson then Some (''dockerconfig'', sec_name s)
         else if sec_type s = SecretTypeDockercfg then Some (''dockercfg'', sec_name s)
         else if sec_type s = SecretTypeBasicAuth \<and> url GITSecretAnnotationPrefix \<noteq> ''''
           then Some (''basic-git'', named GITSecretAnnotationPrefix)
         else if sec_type s = SecretTypeSSHAuth then Some (''ssh-git'', named GITSecretAnnotationPrefix)
         else if url BlobSecretAnnotationPrefix \<noteq> '''' then Some (''blob'', named BlobSecretAnnotationPrefix)
         else None)"

lemma secret_flag_no_pull: "secret_flag keep s \<noteq> Some (''imagepull'', v)"
  by (simp add: secret_flag_def Let_def)

definition flag_arg :: "string \<times> string \<Rightarrow> string" where
  "flag_arg p = ''-'' @ fst p @ ''='' @ snd p"

lemma secret_arg_flag: "secret_arg keep s = map_option flag_arg (secret_flag keep s)"
  by (simp add: secret_arg_def secret_flag_def flag_arg_def Let_def SecretTypeBasicAuth_def SecretTypeSSHAuth_def
      SecretTypeDockercfg_def SecretTypeDockerConfigJson_def)

lemma setup_secrets_args:
  "setup_secrets_from i keep ss = (vs, ms, args) \<Longrightarrow>
     args = map flag_arg (List.map_filter (secret_flag keep) ss) \<and>
     (\<forall>s \<in> set ss. secret_flag keep s \<noteq> None \<longrightarrow> (\<exists>m \<in> set ms. mount_path m = secret_path (sec_name s)))"
proof (induction ss arbitrary: i vs ms args)
  case (Cons s ss)
  obtain vs' ms' args' where rest: "setup_secrets_from (Suc i) keep ss = (vs', ms', args')" by (metis prod_cases3)
  show ?case
    using Cons.IH [OF rest] Cons.prems rest
    by (auto simp: secret_arg_flag List.map_filter_simps split: option.splits)
qed (simp add: List.map_filter_simps)

definition credential_flags :: "string list" where
  "credential_flags = [''basic-git'', ''ssh-git'', ''blob'', ''basic-docker'', ''dockercfg'', ''dockerconfig'', ''imagepull'']"

lemma secret_flag_name: "secret_flag keep s = Some (nm, v) \<Longrightarrow> nm \<in> set credential_flags"
  by (auto simp: secret_flag_def credential_flags_def Let_def split: if_splits)

definition add_to_flag :: "flag_set \<Rightarrow> string \<times> string \<Rightarrow> flag_set" where
  "add_to_flag fs p = fs(fst p \<mapsto> ListFlag (flag_list fs (fst p) @ [snd p]))"

text \<open>A name that a flag can have, and the flags of a program that collect values.\<close>

definition named_flag :: "string \<Rightarrow> bool" where
  "named_flag nm \<longleftrightarrow> nm \<noteq> '''' \<and> hd nm \<noteq> CHR ''-'' \<and> hd nm \<noteq> CHR ''='' \<and> CHR ''='' \<notin> set (tl nm)"

definition has_lists :: "string list \<Rightarrow> flag_set \<Rightarrow> bool" where
  "has_lists nms fs \<longleftrightarrow> (\<forall>nm \<in> set nms. named_flag nm \<and> (\<exists>vs. fs nm = Some (ListFlag vs)))"

lemma add_to_flag_has_lists: "has_lists nms fs \<Longrightarrow> has_lists nms (add_to_flag fs p)"
  by (simp add: has_lists_def add_to_flag_def)

lemma flag_parse_assigned:
  assumes "named_flag nm" and "assign_flag ri nm v fs = Inr fs'"
  shows "flag_parse ri (flag_arg (nm, v) # rest) fs = flag_parse ri rest fs'"
proof -
  obtain f where there: "fs nm = Some f" using assms(2) by (cases "fs nm") (auto simp: assign_flag_def)
  have nm: "nm \<noteq> ''''" "hd nm \<noteq> CHR ''-''" "hd nm \<noteq> CHR ''=''" "CHR ''='' \<notin> set (tl nm)"
    using assms(1) by (simp_all add: named_flag_def)
  then obtain c cs where c: "nm = c # cs" by (cases nm) auto
  have cut: "takeWhile (\<lambda>x. x \<noteq> CHR ''='') (cs @ CHR ''='' # v) = cs" "dropWhile (\<lambda>x. x \<noteq> CHR ''='') (cs @ CHR ''='' # v) = CHR ''='' # v"
  proof -
    have "x \<noteq> CHR ''=''" if "x \<in> set cs" for x using nm(4) c that by auto
    then show "takeWhile (\<lambda>x. x \<noteq> CHR ''='') (cs @ CHR ''='' # v) = cs"
      "dropWhile (\<lambda>x. x \<noteq> CHR ''='') (cs @ CHR ''='' # v) = CHR ''='' # v"
      by (simp_all add: takeWhile_append2 dropWhile_append2)
  qed
  have dash: "\<not> has_prefix (flag_arg (nm, v)) ''--''" "flag_arg (nm, v) \<noteq> ''--''" "length (flag_arg (nm, v)) \<ge> 2"
    "hd (flag_arg (nm, v)) = CHR ''-''" "tl (flag_arg (nm, v)) = nm @ CHR ''='' # v"
    using nm c by (simp_all add: flag_arg_def)
  show ?thesis
    using dash nm there assms(2) cut unfolding flag_parse.simps(2) Let_def dash(5) c by simp
qed

lemma flag_parse_credential:
  assumes "has_lists nms fs" and "fst p \<in> set nms"
  shows "flag_parse ri (flag_arg p # rest) fs = flag_parse ri rest (add_to_flag fs p)"
proof -
  obtain nm v where p: "p = (nm, v)" by force
  obtain vs where "named_flag nm" and "fs nm = Some (ListFlag vs)" using assms by (auto simp: has_lists_def p)
  then show ?thesis
    unfolding p by (intro flag_parse_assigned) (simp_all add: assign_flag_def set_flag_value_def add_to_flag_def)
qed

lemma flag_parse_credentials:
  "has_lists nms fs \<Longrightarrow> \<forall>p \<in> set ps. fst p \<in> set nms \<Longrightarrow>
     flag_parse ri (map flag_arg ps) fs = Inr (foldl add_to_flag fs ps, [])"
proof (induction ps arbitrary: fs)
  case (Cons p ps)
  then show ?case
    using flag_parse_credential [OF Cons.prems(1), of p ri] add_to_flag_has_lists by simp
qed simp

lemma foldl_add_to_flag:
  "flag_list (foldl add_to_flag fs ps) nm = flag_list fs nm @ map snd (filter (\<lambda>p. fst p = nm) ps)"
  "nm \<notin> fst ` set ps \<Longrightarrow> foldl add_to_flag fs ps nm = fs nm"
  by (induction ps arbitrary: fs) (auto simp: add_to_flag_def)

section \<open>Environment\<close>

text \<open>
  What the kubelet promises for a container: the last entry of a name, when it has a value of its own, is in the
  environment, and a variable that build-init reads and the pod does not set is unset.
\<close>

definition init_variables :: "string list" where
  "init_variables = [''IMAGE_TAG'', ''RUN_IMAGE'', ''GIT_URL'', ''GIT_REVISION'', ''GIT_INITIALIZE_SUBMODULES'', ''BLOB_URL'',
     ''BLOB_AUTH'', ''BLOB_STRIP_COMPONENTS'', ''REGISTRY_IMAGE'', ''SOURCE_SUB_PATH'', ''BUILD_CHANGES'',
     ''PROJECT_DESCRIPTOR_PATH'', ''BUILDER_IMAGE'', ''BUILDER_NAME'', ''BUILDER_KIND'', ''INSECURE_SSH_TRUST_UNKNOWN_HOSTS'']"

definition source_variables :: "string list" where
  "source_variables = [''GIT_URL'', ''GIT_REVISION'', ''GIT_INITIALIZE_SUBMODULES'', ''BLOB_URL'', ''BLOB_AUTH'',
     ''BLOB_STRIP_COMPONENTS'', ''REGISTRY_IMAGE'']"

fun last_entry :: "env_var list \<Rightarrow> string \<Rightarrow> env_var option" where
  "last_entry [] nm = None"
| "last_entry (e # es) nm =
     (case last_entry es nm of Some e' \<Rightarrow> Some e' | None \<Rightarrow> if env_name e = nm then Some e else None)"

definition delivers_all :: "string list \<Rightarrow> env_var list \<Rightarrow> string list \<Rightarrow> bool" where
  "delivers_all nms es environ \<longleftrightarrow>
     (\<forall>nm \<in> set nms.
        case last_entry es nm of
          None \<Rightarrow> getenv environ nm = None
        | Some e \<Rightarrow> env_from e = None \<longrightarrow> getenv environ nm = Some (env_value e))"

definition delivers :: "env_var list \<Rightarrow> string list \<Rightarrow> bool" where
  "delivers es environ \<longleftrightarrow> delivers_all init_variables es environ"

lemma last_entry_append: "last_entry (es @ es') nm = (case last_entry es' nm of None \<Rightarrow> last_entry es nm | Some e \<Rightarrow> Some e)"
  by (induction es) (auto split: option.splits)

lemma last_entry_in: "last_entry es nm = Some e \<Longrightarrow> e \<in> set es"
  by (induction es) (auto split: option.splits if_splits)

lemma last_entry_None: "nm \<notin> set (map env_name es) \<Longrightarrow> last_entry es nm = None"
  by (induction es) auto

lemma last_entry_platform: "nm \<in> set init_variables \<Longrightarrow> last_entry (map platform_env_var es) nm = None"
  by (induction es) (auto simp: platform_env_var_def PlatformEnvVarPrefix_def init_variables_def)

lemma prepare_getenv:
  assumes "delivers (prepare_env b bx src tag dns) environ"
  shows "getenv_str environ ''IMAGE_TAG'' = tag" "getenv_str environ ''RUN_IMAGE'' = pod_run_image b bx"
    and "getenv_str environ ''SOURCE_SUB_PATH'' = src_sub_path (bs_source (b_spec b))"
    and "getenv_str environ ''PROJECT_DESCRIPTOR_PATH'' = bs_project_descriptor (b_spec b)"
    and "getenv_str environ ''INSECURE_SSH_TRUST_UNKNOWN_HOSTS'' = format_bool (bx_ssh_trust_unknown bx)"
    and "nm \<in> set source_variables \<Longrightarrow>
      getenv_str environ nm = (case last_entry (build_env_vars src) nm of None \<Rightarrow> '''' | Some e \<Rightarrow> env_value e)"
proof -
  define own where "own = [plain_env ''SOURCE_SUB_PATH'' (src_sub_path (bs_source (b_spec b))),
      plain_env ''PROJECT_DESCRIPTOR_PATH'' (bs_project_descriptor (b_spec b)), plain_env ''IMAGE_TAG'' tag,
      plain_env ''RUN_IMAGE'' (pod_run_image b bx), plain_env ''BUILDER_IMAGE'' (bb_image (bs_builder (b_spec b))),
      plain_env ''BUILDER_NAME'' (build_builder_name (Some b)), plain_env ''BUILDER_KIND'' (build_builder_kind (Some b)),
      plain_env ''DNS_PROBE_HOSTNAME'' dns, plain_env buildChangesEnvVar (build_changes_of (Some b)),
      plain_env ''INSECURE_SSH_TRUST_UNKNOWN_HOSTS'' (format_bool (bx_ssh_trust_unknown bx))]"
  have env: "prepare_env b bx src tag dns = build_env_vars src @ map platform_env_var (bs_env (b_spec b)) @ own"
    by (simp add: prepare_env_def own_def)
  have plain: "env_from e = None" if "e \<in> set (build_env_vars src) \<union> set own" for e
    using that
    by (cases src) (auto simp: git_build_env_vars_def blob_build_env_vars_def registry_build_env_vars_def own_def)
  have entry: "last_entry (prepare_env b bx src tag dns) nm =
      (case last_entry own nm of Some e \<Rightarrow> Some e | None \<Rightarrow> last_entry (build_env_vars src) nm)" if "nm \<in> set init_variables" for nm
    unfolding env last_entry_append last_entry_platform [OF that] by (cases "last_entry own nm") simp_all
  have get: "getenv_str environ nm = (case last_entry own nm of Some e \<Rightarrow> env_value e
      | None \<Rightarrow> (case last_entry (build_env_vars src) nm of None \<Rightarrow> '''' | Some e \<Rightarrow> env_value e))"
    if nm: "nm \<in> set init_variables" for nm
  proof -
    have "env_from e = None" if "last_entry (prepare_env b bx src tag dns) nm = Some e" for e
      using that plain unfolding entry [OF nm] by (auto split: option.splits dest: last_entry_in)
    then show ?thesis
      using assms nm entry [OF nm] unfolding delivers_def delivers_all_def getenv_str_def by (force split: option.splits)
  qed
  show "getenv_str environ ''IMAGE_TAG'' = tag" "getenv_str environ ''RUN_IMAGE'' = pod_run_image b bx"
    "getenv_str environ ''SOURCE_SUB_PATH'' = src_sub_path (bs_source (b_spec b))"
    "getenv_str environ ''PROJECT_DESCRIPTOR_PATH'' = bs_project_descriptor (b_spec b)"
    "getenv_str environ ''INSECURE_SSH_TRUST_UNKNOWN_HOSTS'' = format_bool (bx_ssh_trust_unknown bx)"
    by (simp_all add: get init_variables_def own_def buildChangesEnvVar_def)
  show "getenv_str environ nm = (case last_entry (build_env_vars src) nm of None \<Rightarrow> '''' | Some e \<Rightarrow> env_value e)"
    if "nm \<in> set source_variables"
  proof -
    have "\<forall>nm \<in> set source_variables. nm \<in> set init_variables"
      by (simp add: source_variables_def init_variables_def)
    moreover have "\<forall>nm \<in> set source_variables. nm \<notin> set (map env_name own)"
      unfolding source_variables_def own_def buildChangesEnvVar_def list.map env_var.simps by simp
    ultimately have "nm \<in> set init_variables" and none: "last_entry own nm = None"
      using that last_entry_None by metis+
    from get [OF this(1)] show ?thesis unfolding none option.case .
  qed
qed

text \<open>What the flags say of the source.\<close>

fun source_flags :: "flag_set \<Rightarrow> source \<Rightarrow> bool" where
  "source_flags fs (SrcGit g) \<longleftrightarrow>
     flag_string fs ''git-url'' = git_url g \<and> flag_string fs ''git-revision'' = git_revision g \<and>
     flag_bool fs ''git-initialize-submodules'' = git_init_submodules g"
| "source_flags fs (SrcBlob bl) \<longleftrightarrow>
     flag_string fs ''git-url'' = '''' \<and> flag_string fs ''blob-url'' = blob_url bl \<and>
     flag_int fs ''strip-components'' = blob_strip bl \<and> flag_bool fs ''blob-auth'' = (blob_auth bl \<noteq> BlobAuthNone)"
| "source_flags fs (SrcRegistry r) \<longleftrightarrow>
     flag_string fs ''git-url'' = '''' \<and> flag_string fs ''blob-url'' = '''' \<and> flag_string fs ''registry-image'' = reg_image r"

lemma parse_bool_format [simp]: "parse_bool (format_bool x) = Some x"
  by (simp add: parse_bool_def format_bool_def)

lemma init_flag_lookups:
  "build_init_flags environ ''imageTag'' = Some (StringFlag (getenv_str environ ''IMAGE_TAG''))"
  "build_init_flags environ ''runImage'' = Some (StringFlag (getenv_str environ ''RUN_IMAGE''))"
  "build_init_flags environ ''git-url'' = Some (StringFlag (getenv_str environ ''GIT_URL''))"
  "build_init_flags environ ''git-revision'' = Some (StringFlag (getenv_str environ ''GIT_REVISION''))"
  "build_init_flags environ ''git-initialize-submodules'' = Some (BoolFlag (getenv_bool environ ''GIT_INITIALIZE_SUBMODULES''))"
  "build_init_flags environ ''blob-url'' = Some (StringFlag (getenv_str environ ''BLOB_URL''))"
  "build_init_flags environ ''blob-auth'' = Some (BoolFlag (getenv_bool environ ''BLOB_AUTH''))"
  "build_init_flags environ ''strip-components'' = Some (IntFlag (getenv_int environ ''BLOB_STRIP_COMPONENTS'' 0))"
  "build_init_flags environ ''registry-image'' = Some (StringFlag (getenv_str environ ''REGISTRY_IMAGE''))"
  "build_init_flags environ ''source-sub-path'' = Some (StringFlag (getenv_str environ ''SOURCE_SUB_PATH''))"
  "build_init_flags environ ''project-descriptor-path'' = Some (StringFlag (getenv_str environ ''PROJECT_DESCRIPTOR_PATH''))"
  "build_init_flags environ ''insecure-ssh-trust-unknown-hosts'' =
     Some (BoolFlag (get_env_bool environ ''INSECURE_SSH_TRUST_UNKNOWN_HOSTS'' True))"
  by (simp_all add: build_init_flags_def)

lemma source_variables_in:
  "''GIT_URL'' \<in> set source_variables" "''GIT_REVISION'' \<in> set source_variables"
  "''GIT_INITIALIZE_SUBMODULES'' \<in> set source_variables" "''BLOB_URL'' \<in> set source_variables"
  "''BLOB_AUTH'' \<in> set source_variables" "''BLOB_STRIP_COMPONENTS'' \<in> set source_variables"
  "''REGISTRY_IMAGE'' \<in> set source_variables"
  by (simp_all add: source_variables_def)

lemma source_flags_default:
  assumes "delivers (prepare_env b bx src tag dns) environ"
    and "\<forall>bl. src = SrcBlob bl \<longrightarrow> fits64 (blob_strip bl)"
  shows "source_flags (build_init_flags environ) src"
proof -
  note get = source_variables_in [THEN prepare_getenv(6) [OF assms(1)]]
  show ?thesis
  proof (cases src)
    case (SrcGit g)
    then show ?thesis using get(1-3) by (simp add: init_flag_lookups git_build_env_vars_def getenv_bool_def)
  next
    case (SrcBlob bl)
    then show ?thesis using get(1,4-6) assms(2)
      by (simp add: init_flag_lookups blob_build_env_vars_def getenv_bool_def getenv_int_def parse_int_itoa)
  next
    case (SrcRegistry r)
    then show ?thesis using get(1,4,7) by (simp add: init_flag_lookups registry_build_env_vars_def)
  qed
qed

section \<open>The round trip\<close>

lemma prepare_container_of:
  assumes "build_pod PL b images bx = Inr p" and "\<not> bx_injected_sidecars bx"
    and "\<not> rebasable b (bpc_stack_id (bx_builder_config bx))"
  obtains tag dns src ms where "build_tag b = Inr tag" "source_of (bs_source (b_spec b)) = Some src"
    "hd (pod_init_containers (pod_spec_of p)) = prepare_container b bx images src tag dns
       (map flag_arg (List.map_filter (secret_flag (build_secrets (blob_auth_use_secrets b))) (bx_secrets bx)) @
        map (\<lambda>r. ''-imagepull='' @ lref_name r) (deduplicate [bx_pull_secrets bx, bb_pull_secrets (bs_builder (b_spec b))])) ms"
    "\<forall>s \<in> set (bx_secrets bx). secret_flag (build_secrets (blob_auth_use_secrets b)) s \<noteq> None \<longrightarrow>
       (\<exists>m \<in> set ms. mount_path m = secret_path (sec_name s))"
    "\<forall>r \<in> set (deduplicate [bx_pull_secrets bx, bb_pull_secrets (bs_builder (b_spec b))]).
       \<exists>m \<in> set ms. mount_path m = secret_path (lref_name r)"
  using assms(1)
proof (cases rule: build_pod_cases)
  case (full api tag ref src bv bm dt)
  let ?keep = "build_secrets (blob_auth_use_secrets b)"
  obtain vs sms args where secs: "setup_secret_volumes_and_args (bx_secrets bx) ?keep = (vs, sms, args)" by (metis prod_cases3)
  obtain cvs cms cargs where cos: "setup_cosign_volumes (bx_secrets bx) = (cvs, cms, cargs)" by (metis prod_cases3)
  let ?refs = "deduplicate [bx_pull_secrets bx, bb_pull_secrets (bs_builder (b_spec b))]"
  let ?pms = "map (\<lambda>(i, r). mount_at (pull_secret_volume_name i) (secret_path (lref_name r))) (enumerate 0 ?refs)"
  have p: "p = build_pod_plain PL b bx images api tag (ref_registry ref) src bv bm dt"
    using full(8) assms(2) by (simp add: with_sidecars_def)
  have hd: "hd (pod_init_containers (pod_spec_of p)) = prepare_container b bx images src tag (ref_registry ref)
      (args @ map (\<lambda>r. ''-imagepull='' @ lref_name r) ?refs) (sms @ ?pms)"
    unfolding p by (simp add: build_pod_plain_def secs cos setup_image_pull_volumes_def Let_def)
  note args = setup_secrets_args [OF secs [unfolded setup_secret_volumes_and_args_def]]
  have pulls: "\<exists>m \<in> set ?pms. mount_path m = secret_path (lref_name r)" if r: "r \<in> set ?refs" for r
  proof -
    obtain i where "i < length ?refs" "?refs ! i = r" using r by (auto simp: in_set_conv_nth)
    then have "(i, r) \<in> set (enumerate 0 ?refs)" by (auto simp: in_set_enumerate_eq)
    then show ?thesis by force
  qed
  show ?thesis
  proof (rule that [OF full(3,5) hd [unfolded args [THEN conjunct1]]])
    show "\<forall>s \<in> set (bx_secrets bx). secret_flag ?keep s \<noteq> None \<longrightarrow> (\<exists>m \<in> set (sms @ ?pms). mount_path m = secret_path (sec_name s))"
      using args [THEN conjunct2] unfolding set_append by blast
    show "\<forall>r \<in> set ?refs. \<exists>m \<in> set (sms @ ?pms). mount_path m = secret_path (lref_name r)"
      using pulls unfolding set_append by blast
  qed
qed (use assms(3) in simp)

text \<open>
  C32: In a pod without injected sidecars that is no rebase, what the program of the prepare container reads is what
  the controller wrote (with sidecars a waiter starts the program and cuts its arguments at blanks). When the
  kubelet passes on the variables of the container and the number of components to strip from a blob fits 64 bits,
  its flags give back the tag, the run image, the source, the sub-path and the descriptor of the build, and for each
  secret kept for the build its credential, under the flag of its kind and in the order of the secrets; and every
  credential is mounted at the path where the program looks for it.
\<close>

theorem prepare_reads_its_pod:
  assumes "build_pod PL b images bx = Inr p" and "\<not> bx_injected_sidecars bx"
    and "\<not> rebasable b (bpc_stack_id (bx_builder_config bx))"
    and "delivers (ctr_env (hd (pod_init_containers (pod_spec_of p)))) environ"
    and "\<forall>bl. src_blob (bs_source (b_spec b)) = Some bl \<longrightarrow> fits64 (blob_strip bl)"
  shows "\<exists>fs src. flag_parse ri (ctr_args (hd (pod_init_containers (pod_spec_of p)))) (build_init_flags environ) = Inr (fs, []) \<and>
    build_tag b = Inr (flag_string fs ''imageTag'') \<and> flag_string fs ''runImage'' = pod_run_image b bx \<and>
    source_of (bs_source (b_spec b)) = Some src \<and> source_flags fs src \<and>
    flag_string fs ''source-sub-path'' = src_sub_path (bs_source (b_spec b)) \<and>
    flag_string fs ''project-descriptor-path'' = bs_project_descriptor (b_spec b) \<and>
    flag_bool fs ''insecure-ssh-trust-unknown-hosts'' = bx_ssh_trust_unknown bx \<and>
    (\<forall>nm \<in> set credential_flags. flag_list fs nm =
       (if nm = ''imagepull'' then map lref_name (deduplicate [bx_pull_secrets bx, bb_pull_secrets (bs_builder (b_spec b))])
        else [v. (nm', v) \<leftarrow> List.map_filter (secret_flag (build_secrets (blob_auth_use_secrets b))) (bx_secrets bx), nm' = nm])) \<and>
    (\<forall>s \<in> set (bx_secrets bx). secret_flag (build_secrets (blob_auth_use_secrets b)) s \<noteq> None \<longrightarrow>
       (\<exists>m \<in> set (ctr_mounts (hd (pod_init_containers (pod_spec_of p)))). mount_path m = buildSecretsDir @ ''/'' @ sec_name s))"
proof -
  let ?keep = "build_secrets (blob_auth_use_secrets b)"
  let ?ps = "List.map_filter (secret_flag ?keep) (bx_secrets bx)"
  let ?refs = "deduplicate [bx_pull_secrets bx, bb_pull_secrets (bs_builder (b_spec b))]"
  obtain tag dns src ms where c: "build_tag b = Inr tag" "source_of (bs_source (b_spec b)) = Some src"
    "hd (pod_init_containers (pod_spec_of p)) = prepare_container b bx images src tag dns
       (map flag_arg ?ps @ map (\<lambda>r. ''-imagepull='' @ lref_name r) ?refs) ms"
    and mounts: "\<forall>s \<in> set (bx_secrets bx). secret_flag ?keep s \<noteq> None \<longrightarrow> (\<exists>m \<in> set ms. mount_path m = secret_path (sec_name s))"
    by (rule prepare_container_of [OF assms(1-3)])
  let ?qs = "?ps @ map (\<lambda>r. (''imagepull'', lref_name r)) ?refs"
  let ?fs = "foldl add_to_flag (build_init_flags environ) ?qs"
  have args: "map flag_arg ?ps @ map (\<lambda>r. ''-imagepull='' @ lref_name r) ?refs = map flag_arg ?qs"
    by (simp add: flag_arg_def)
  have names: "\<forall>q \<in> set ?qs. fst q \<in> set credential_flags"
  proof -
    have "fst q \<in> set credential_flags" if q: "q \<in> set ?ps" for q
    proof -
      obtain s where "secret_flag ?keep s = Some q" using q by (auto simp: List.map_filter_def)
      then show ?thesis using secret_flag_name by (cases q) simp
    qed
    moreover have "''imagepull'' \<in> set credential_flags" by (simp add: credential_flags_def)
    ultimately show ?thesis by auto
  qed
  have lists: "has_lists credential_flags (build_init_flags environ)" "\<forall>nm \<in> set credential_flags. flag_list (build_init_flags environ) nm = []"
    by (simp_all add: has_lists_def named_flag_def credential_flags_def build_init_flags_def)
  have parse: "flag_parse ri (ctr_args (prepare_container b bx images src tag dns (map flag_arg ?qs) ms))
      (build_init_flags environ) = Inr (?fs, [])"
    using flag_parse_credentials [OF lists(1) names] by (simp only: prepare_container_def container.simps)
  have env: "delivers (prepare_env b bx src tag dns) environ" using assms(4) c(3) by (simp add: prepare_container_def)
  have keep: "?fs nm = build_init_flags environ nm" if "nm \<notin> set credential_flags" for nm
    using foldl_add_to_flag(2) names that by (metis (no_types, lifting) imageE)
  define fs where "fs = ?fs"
  have same: "fs ''imageTag'' = build_init_flags environ ''imageTag''"
    "fs ''runImage'' = build_init_flags environ ''runImage''"
    "fs ''git-url'' = build_init_flags environ ''git-url''"
    "fs ''git-revision'' = build_init_flags environ ''git-revision''"
    "fs ''git-initialize-submodules'' = build_init_flags environ ''git-initialize-submodules''"
    "fs ''blob-url'' = build_init_flags environ ''blob-url''"
    "fs ''blob-auth'' = build_init_flags environ ''blob-auth''"
    "fs ''strip-components'' = build_init_flags environ ''strip-components''"
    "fs ''registry-image'' = build_init_flags environ ''registry-image''"
    "fs ''source-sub-path'' = build_init_flags environ ''source-sub-path''"
    "fs ''project-descriptor-path'' = build_init_flags environ ''project-descriptor-path''"
    "fs ''insecure-ssh-trust-unknown-hosts'' = build_init_flags environ ''insecure-ssh-trust-unknown-hosts''"
    unfolding fs_def by (rule keep, simp add: credential_flags_def)+
  have src: "source_flags fs src"
  proof -
    have "source_flags (build_init_flags environ) src"
      by (rule source_flags_default [OF env]) (use assms(5) c(2) in \<open>auto simp: source_of_def split: option.splits\<close>)
    then show ?thesis by (cases src) (simp_all only: source_flags.simps flag_string.simps flag_bool.simps flag_int.simps same)
  qed
  have creds: "flag_list fs nm = (if nm = ''imagepull'' then map lref_name ?refs else [v. (nm', v) \<leftarrow> ?ps, nm' = nm])"
    if nm: "nm \<in> set credential_flags" for nm
  proof -
    have "flag_list fs nm = map snd (filter (\<lambda>q. fst q = nm) ?qs)"
      using foldl_add_to_flag(1) [of "build_init_flags environ" ?qs nm] lists(2) nm unfolding fs_def by (simp only:) simp
    moreover have "filter (\<lambda>q. fst q = ''imagepull'') ?ps = []"
      using secret_flag_no_pull by (auto simp: filter_empty_conv List.map_filter_def)
    moreover have "[v. (nm', v) \<leftarrow> ps, nm' = nm] = map snd (filter (\<lambda>q. fst q = nm) ps)" for ps :: "(string \<times> string) list"
      by (induction ps) auto
    moreover have "map snd (filter (\<lambda>q. fst q = nm) (map (\<lambda>r. (''imagepull'', lref_name r)) rs)) =
        (if nm = ''imagepull'' then map lref_name rs else [])" for rs
      by (induction rs) auto
    ultimately show ?thesis by simp
  qed
  have flags: "flag_string fs ''imageTag'' = tag" "flag_string fs ''runImage'' = pod_run_image b bx"
    "flag_string fs ''source-sub-path'' = src_sub_path (bs_source (b_spec b))"
    "flag_string fs ''project-descriptor-path'' = bs_project_descriptor (b_spec b)"
    "flag_bool fs ''insecure-ssh-trust-unknown-hosts'' = bx_ssh_trust_unknown bx"
  proof -
    have "format_bool x \<noteq> ''''" for x by (simp add: format_bool_def)
    then show "flag_string fs ''imageTag'' = tag" "flag_string fs ''runImage'' = pod_run_image b bx"
      "flag_string fs ''source-sub-path'' = src_sub_path (bs_source (b_spec b))"
      "flag_string fs ''project-descriptor-path'' = bs_project_descriptor (b_spec b)"
      "flag_bool fs ''insecure-ssh-trust-unknown-hosts'' = bx_ssh_trust_unknown bx"
      using prepare_getenv(1-5) [OF env] by (simp_all add: same init_flag_lookups get_env_bool_def)
  qed
  have path: "secret_path nm = buildSecretsDir @ ''/'' @ nm" for nm by (simp add: secret_path_def buildSecretsDir_def)
  show ?thesis
    unfolding c(3) args
    by (rule exI [of _ fs], rule exI [of _ src])
      (use parse c(1,2) src creds flags mounts in \<open>simp add: fs_def path prepare_container_def\<close>)
qed

section \<open>Variables of the build\<close>

lemma platform_env_of_entry:
  assumes "CHR ''='' \<notin> set nm"
  shows "platform_env_of prefix [nm @ ''='' @ v] = (if has_prefix nm prefix then [(drop (length prefix) nm, v)] else [])"
proof -
  have "x \<noteq> CHR ''=''" if "x \<in> set nm" for x using assms that by auto
  then have "takeWhile (\<lambda>c. c \<noteq> CHR ''='') (nm @ ''='' @ v) = nm" "dropWhile (\<lambda>c. c \<noteq> CHR ''='') (nm @ ''='' @ v) = CHR ''='' # v"
    by (simp_all add: takeWhile_append2 dropWhile_append2)
  then show ?thesis by (simp add: platform_env_of_def List.map_filter_simps Let_def)
qed

lemma platform_env_of_set: "set (platform_env_of prefix environ) = (\<Union>s \<in> set environ. set (platform_env_of prefix [s]))"
  by (induction environ) (auto simp: platform_env_of_def List.map_filter_simps split: option.splits)

lemma platform_env_of_prefix: "x \<in> set (platform_env_of prefix [s]) \<Longrightarrow> has_prefix s prefix"
proof -
  have "s = takeWhile P s @ dropWhile P s" for P by simp
  moreover assume "x \<in> set (platform_env_of prefix [s])"
  ultimately show ?thesis
    unfolding platform_env_of_def has_prefix_iff
    by (auto simp: List.map_filter_simps has_prefix_iff Let_def split: list.splits option.splits if_splits)
      (metis append.assoc takeWhile_dropWhile_id)
qed

lemma prepare_env_prefix:
  "e \<in> set (prepare_env b bx src tag dns) \<Longrightarrow>
     e \<in> platform_env_var ` set (bs_env (b_spec b)) \<or> \<not> has_prefix (env_name e @ ''='' @ v) PlatformEnvVarPrefix"
  by (cases src) (auto simp: prepare_env_def git_build_env_vars_def blob_build_env_vars_def registry_build_env_vars_def
      PlatformEnvVarPrefix_def buildChangesEnvVar_def)

lemma write_env_vars_writes:
  assumes "\<And>h ev. pe_do E h ev = Inr ()"
  shows "write_env_vars E folder vs h =
    (Inr (), h @ concat (map (\<lambda>(nm, v). [OpenFile (path_join [folder, nm]) osModePerm, WriteTo (path_join [folder, nm]) v,
        CloseFile (path_join [folder, nm])]) vs))"
  by (induction vs arbitrary: h) (auto simp: write_file_def do_call_def assms bind_io_apply attempt_io_apply)

lemma platform_env_path: "plain_name nm \<Longrightarrow> path_join [''/platform/env'', nm] = ''/platform/env/'' @ nm"
proof -
  assume nm: "plain_name nm"
  then have "split_on (CHR ''/'') nm = [nm]" by (simp add: plain_name_def split_on_no_sep)
  with nm show ?thesis
    by (simp add: path_join_def path_clean_def path_rooted_def Let_def clean_components_def plain_name_def)
qed

text \<open>
  C33: The environment a build asks for reaches its buildpacks, in a pod without injected sidecars that is no rebase.
  Let every variable of the build specification have a value of its own (none read from a secret or a field) and a
  name without slash and equals sign that is neither empty nor \<open>.\<close> or \<open>..\<close>. When the kubelet passes on the variables of
  the container and every call succeeds, the step of the prepare container that sets up the platform
  environment writes, for each variable of the specification, a file with its name below the directory \<open>env\<close> of the
  platform and its value, and writes no other file. (A project descriptor, read before, may have left its own.)
\<close>

theorem build_env_reaches_platform:
  assumes "build_pod PL b images bx = Inr p" and "\<not> bx_injected_sidecars bx"
    and "\<not> rebasable b (bpc_stack_id (bx_builder_config bx))"
    and "\<forall>e \<in> set (bs_env (b_spec b)). env_from e = None \<and> plain_name (env_name e) \<and> CHR ''='' \<notin> set (env_name e)"
    and "\<forall>s. has_prefix s PlatformEnvVarPrefix \<longrightarrow>
      (s \<in> set environ \<longleftrightarrow> (\<exists>e \<in> set (ctr_env (hd (pod_init_containers (pod_spec_of p)))). s = env_name e @ ''='' @ env_value e))"
    and "\<forall>h ev. pe_do E h ev = Inr ()"
  shows "fst (setup_platform_env_vars E PlatformEnvVarPrefix environ initPlatformDir []) = Inr () \<and>
    {(f, v). WriteTo f v \<in> set (snd (setup_platform_env_vars E PlatformEnvVarPrefix environ initPlatformDir []))} =
      (\<lambda>e. (''/platform/env/'' @ env_name e, env_value e)) ` set (bs_env (b_spec b))"
proof -
  obtain tag dns src ms args where c: "hd (pod_init_containers (pod_spec_of p)) = prepare_container b bx images src tag dns args ms"
    by (rule prepare_container_of [OF assms(1-3)]) blast
  let ?vs = "platform_env_of PlatformEnvVarPrefix environ"
  have entry: "platform_env_of PlatformEnvVarPrefix [PlatformEnvVarPrefix @ env_name e @ ''='' @ env_value e] = [(env_name e, env_value e)]"
    if "e \<in> set (bs_env (b_spec b))" for e
    using platform_env_of_entry [of "PlatformEnvVarPrefix @ env_name e" PlatformEnvVarPrefix "env_value e"] assms(4) that
    by (simp add: PlatformEnvVarPrefix_def)
  have vars: "set ?vs = (\<lambda>e. (env_name e, env_value e)) ` set (bs_env (b_spec b))"
  proof (rule set_eqI, rule iffI)
    fix x assume "x \<in> set ?vs"
    then obtain s where s: "s \<in> set environ" "x \<in> set (platform_env_of PlatformEnvVarPrefix [s])"
      unfolding platform_env_of_set [of _ environ] by blast
    then obtain e where e: "e \<in> set (prepare_env b bx src tag dns)" "s = env_name e @ ''='' @ env_value e"
      using assms(5) platform_env_of_prefix [OF s(2)] unfolding c by (auto simp: prepare_container_def)
    then have "e \<in> platform_env_var ` set (bs_env (b_spec b))"
      using prepare_env_prefix [OF e(1)] platform_env_of_prefix [OF s(2)] by blast
    then obtain e' where e': "e' \<in> set (bs_env (b_spec b))" "e = platform_env_var e'" by blast
    then have "s = PlatformEnvVarPrefix @ env_name e' @ ''='' @ env_value e'" using e(2) by (simp add: platform_env_var_def)
    with entry [OF e'(1)] s(2) e'(1) show "x \<in> (\<lambda>e. (env_name e, env_value e)) ` set (bs_env (b_spec b))" by simp
  next
    fix x assume "x \<in> (\<lambda>e. (env_name e, env_value e)) ` set (bs_env (b_spec b))"
    then obtain e where e: "e \<in> set (bs_env (b_spec b))" "x = (env_name e, env_value e)" by blast
    let ?s = "PlatformEnvVarPrefix @ env_name e @ ''='' @ env_value e"
    have "platform_env_var e \<in> set (ctr_env (hd (pod_init_containers (pod_spec_of p))))"
      using e(1) unfolding c by (simp add: prepare_container_def prepare_env_def)
    moreover have "?s = env_name (platform_env_var e) @ ''='' @ env_value (platform_env_var e)"
      by (simp add: platform_env_var_def)
    ultimately have "?s \<in> set environ" using assms(5) has_prefix_append by blast
    with entry [OF e(1)] e(2) show "x \<in> set ?vs" unfolding platform_env_of_set [of _ environ] by force
  qed
  have folder: "path_join [initPlatformDir, ''env''] = ''/platform/env''"
    by (simp add: initPlatformDir_def path_join_def path_clean_def path_rooted_def clean_components_def Let_def)
  have run: "setup_platform_env_vars E PlatformEnvVarPrefix environ initPlatformDir [] =
      (Inr (), MkdirAll ''/platform/env'' osModePerm # concat (map (\<lambda>(nm, v). [OpenFile (path_join [''/platform/env'', nm]) osModePerm,
        WriteTo (path_join [''/platform/env'', nm]) v, CloseFile (path_join [''/platform/env'', nm])]) ?vs))"
    using write_env_vars_writes [of E "''/platform/env''"] assms(6)
    by (simp add: setup_platform_env_vars_def serialize_env_vars_def folder do_call_def bind_io_apply Let_def)
  have "WriteTo f v \<in> set (snd (setup_platform_env_vars E PlatformEnvVarPrefix environ initPlatformDir [])) \<longleftrightarrow>
      (\<exists>(nm, w) \<in> set ?vs. f = path_join [''/platform/env'', nm] \<and> v = w)" for f v
    unfolding run by auto
  also have "(\<exists>(nm, w) \<in> set ?vs. f = path_join [''/platform/env'', nm] \<and> v = w) \<longleftrightarrow>
      (f, v) \<in> (\<lambda>e. (''/platform/env/'' @ env_name e, env_value e)) ` set (bs_env (b_spec b))" for f v
    unfolding vars using assms(4) platform_env_path by auto
  finally show ?thesis using run by auto
qed

section \<open>Samples\<close>

text \<open>An environment that a kubelet may give a container.\<close>

definition environ_for :: "env_var list \<Rightarrow> string list \<Rightarrow> string list" where
  "environ_for es nms = concat (map (\<lambda>nm. case last_entry es nm of None \<Rightarrow> [] | Some e \<Rightarrow> [nm @ ''='' @ env_value e]) nms)"

lemma environ_for_getenv:
  "\<forall>nm \<in> set nms. CHR ''='' \<notin> set nm \<Longrightarrow> distinct nms \<Longrightarrow> CHR ''='' \<notin> set nm \<Longrightarrow>
     getenv (environ_for es nms) nm = (if nm \<in> set nms then map_option env_value (last_entry es nm) else None)"
proof (induction nms)
  case (Cons n nms)
  have cut: "takeWhile (\<lambda>c. c \<noteq> CHR ''='') (n @ ''='' @ v) = n" "dropWhile (\<lambda>c. c \<noteq> CHR ''='') (n @ ''='' @ v) = CHR ''='' # v" for v
  proof -
    have "x \<noteq> CHR ''=''" if "x \<in> set n" for x using Cons.prems(1) that by auto
    then show "takeWhile (\<lambda>c. c \<noteq> CHR ''='') (n @ ''='' @ v) = n"
      "dropWhile (\<lambda>c. c \<noteq> CHR ''='') (n @ ''='' @ v) = CHR ''='' # v"
      by (simp_all add: takeWhile_append2 dropWhile_append2)
  qed
  show ?case
  proof (cases "last_entry es n")
    case None
    then have "environ_for es (n # nms) = environ_for es nms" by (simp add: environ_for_def)
    with Cons None show ?thesis by auto
  next
    case (Some e)
    then have "environ_for es (n # nms) = (n @ ''='' @ env_value e) # environ_for es nms" by (simp add: environ_for_def)
    with Cons Some cut show ?thesis by (auto simp: getenv_def)
  qed
qed (simp add: environ_for_def getenv_def)

lemma environ_for_delivers: "delivers es (environ_for es init_variables)"
proof -
  have "\<forall>nm \<in> set init_variables. CHR ''='' \<notin> set nm" "distinct init_variables" by (simp_all add: init_variables_def)
  then show ?thesis by (auto simp: delivers_def delivers_all_def environ_for_getenv split: option.split)
qed

definition sample_plain_context :: "secret list \<Rightarrow> build_context" where
  "sample_plain_context ss = without_sidecars (sample_context ss)"

definition sample_env_build :: build where
  "sample_env_build = sample_build\<lparr>b_spec := (b_spec sample_build)\<lparr>bs_env := [plain_env ''LOG_LEVEL'' ''debug'']\<rparr>\<rparr>"

definition sample_annotated_build :: build where
  "sample_annotated_build = sample_build\<lparr>b_spec := (b_spec sample_build)
     \<lparr>bs_cosign := Some (CosignConfig [\<lparr>ca_name = ''query'', ca_value = ''a=b''\<rparr>])\<rparr>\<rparr>"

definition sample_numbered_build :: build where
  "sample_numbered_build = sample_build\<lparr>b_meta := (b_meta sample_build)\<lparr>meta_labels := [BuildNumberLabel \<mapsto> ''1'']\<rparr>,
     b_spec := (b_spec sample_build)\<lparr>bs_cosign := Some (CosignConfig [\<lparr>ca_name = ''team'', ca_value = ''payments''\<rparr>])\<rparr>\<rparr>"

lemma sample_plain_pod:
  assumes "b \<in> {sample_build, sample_env_build, sample_annotated_build, sample_numbered_build}"
  shows "\<exists>p. build_pod sample_pod_lib b sample_images (sample_plain_context ss) = Inr p"
proof -
  obtain src where src: "source_of (bs_source (b_spec sample_build)) = Some src"
    using sample_build_source by auto
  have parse: "lib_parse_reference sample_lib ''registry.example/app'' =
      Inr \<lparr>ref_identifier = ''registry.example/app'', ref_registry = ''registry.example''\<rparr>"
    by (simp add: sample_lib_def)
  have api: "highest_supported_platform_api sample_lib (sample_plain_context ss) = Inr (Semver ''0.9'')"
    by (simp add: highest_supported_platform_api_def supportedPlatformAPIVersions_def sample_lib_def sample_context_def
        sample_plain_context_def without_sidecars_def)
  have binds: "\<exists>vols ms. setup_bindings (bx_bindings (sample_plain_context ss)) = Inr (vols, ms)"
    by (simp add: sample_context_def sample_plain_context_def setup_binding_def)
  show ?thesis
    using assms api binds src parse
    by (auto simp: build_pod_def sample_pod_lib_def rebasable_def sample_build_last build_tag_def sample_env_build_def sample_annotated_build_def
        sample_numbered_build_def
        sample_build_tags sample_build_time parse_time_def with_sidecars_def sample_plain_context_def)
qed

theorem prepare_reads_its_pod_witness:
  "\<exists>p environ fs. build_pod sample_pod_lib sample_build sample_images (sample_plain_context [sample_secret]) = Inr p \<and>
     flag_parse (\<lambda>_. None) (ctr_args (hd (pod_init_containers (pod_spec_of p)))) (build_init_flags environ) = Inr (fs, []) \<and>
     flag_string fs ''imageTag'' = ''registry.example/app'' \<and> flag_list fs ''dockerconfig'' = [''registry-key'']"
proof -
  obtain p where p: "build_pod sample_pod_lib sample_build sample_images (sample_plain_context [sample_secret]) = Inr p"
    using sample_plain_pod by blast
  let ?environ = "environ_for (ctr_env (hd (pod_init_containers (pod_spec_of p)))) init_variables"
  have blob: "src_blob (bs_source (b_spec sample_build)) = None"
  proof -
    obtain g where "sr_source_config sample_resolver = Inr (git_source_config g)"
      by (auto simp: sr_source_config_def resolved_source_of_def sample_resolver_def)
    then have "bs_source (b_spec sample_build) = git_source_config g"
      using build_for_image_spec(1) [OF sample_build_made] by simp
    then show ?thesis by (simp add: git_source_config_def)
  qed
  have tag: "build_tag sample_build = Inr ''registry.example/app''" by (simp add: build_tag_def sample_build_tags)
  have flag: "secret_flag (build_secrets (blob_auth_use_secrets sample_build)) sample_secret = Some (''dockerconfig'', ''registry-key'')"
    by (simp add: secret_flag_def sample_secret_def build_secrets_def docker_secrets_def SecretTypeDockerConfigJson_def
        SecretTypeBasicAuth_def Let_def lookup_str_def)
  obtain fs where fs: "flag_parse (\<lambda>_. None) (ctr_args (hd (pod_init_containers (pod_spec_of p)))) (build_init_flags ?environ) = Inr (fs, [])"
    "build_tag sample_build = Inr (flag_string fs ''imageTag'')"
    "\<forall>nm \<in> set credential_flags. flag_list fs nm =
       (if nm = ''imagepull'' then map lref_name (deduplicate [bx_pull_secrets (sample_plain_context [sample_secret]),
          bb_pull_secrets (bs_builder (b_spec sample_build))])
        else [v. (nm', v) \<leftarrow> List.map_filter (secret_flag (build_secrets (blob_auth_use_secrets sample_build)))
               (bx_secrets (sample_plain_context [sample_secret])), nm' = nm])"
    using prepare_reads_its_pod [OF p _ _ environ_for_delivers, of "\<lambda>_. None"] blob
    by (force simp: sample_plain_context_def rebasable_def sample_build_last)
  have "flag_list fs ''dockerconfig'' = [''registry-key'']"
    using fs(3) flag by (simp add: credential_flags_def sample_plain_context_def sample_context_def List.map_filter_simps)
  with p fs(1,2) tag show ?thesis by auto
qed

theorem build_env_reaches_platform_witness:
  "{(f, v). WriteTo f v \<in> set (snd (setup_platform_env_vars \<lparr>pe_do = \<lambda>_ _. Inr ()\<rparr> PlatformEnvVarPrefix
       [''HOME=/root'', ''PLATFORM_ENV_LOG_LEVEL=debug''] initPlatformDir []))} = {(''/platform/env/LOG_LEVEL'', ''debug'')}"
proof -
  obtain p where p: "build_pod sample_pod_lib sample_env_build sample_images (sample_plain_context []) = Inr p"
    using sample_plain_pod by blast
  have side: "\<not> bx_injected_sidecars (sample_plain_context [])" by (simp add: sample_plain_context_def)
  have full: "\<not> rebasable sample_env_build (bpc_stack_id (bx_builder_config (sample_plain_context [])))"
    by (simp add: rebasable_def sample_build_last sample_env_build_def)
  have env: "bs_env (b_spec sample_env_build) = [plain_env ''LOG_LEVEL'' ''debug'']" by (simp add: sample_env_build_def)
  obtain tag dns src ms args where c: "hd (pod_init_containers (pod_spec_of p)) =
      prepare_container sample_env_build (sample_plain_context []) sample_images src tag dns args ms"
    by (rule prepare_container_of [OF p side full]) blast
  have user: "\<forall>e \<in> set (bs_env (b_spec sample_env_build)). env_from e = None \<and> plain_name (env_name e) \<and> CHR ''='' \<notin> set (env_name e)"
    by (simp add: env plain_name_def)
  have given: "\<forall>s. has_prefix s PlatformEnvVarPrefix \<longrightarrow> (s \<in> set [''HOME=/root'', ''PLATFORM_ENV_LOG_LEVEL=debug''] \<longleftrightarrow>
      (\<exists>e \<in> set (ctr_env (hd (pod_init_containers (pod_spec_of p)))). s = env_name e @ ''='' @ env_value e))"
  proof (intro allI impI)
    fix s assume s: "has_prefix s PlatformEnvVarPrefix"
    let ?e = "platform_env_var (plain_env ''LOG_LEVEL'' ''debug'')"
    have spelled: "env_name ?e @ ''='' @ env_value ?e = ''PLATFORM_ENV_LOG_LEVEL=debug''"
      by (simp add: platform_env_var_def PlatformEnvVarPrefix_def)
    have mem: "?e \<in> set (ctr_env (hd (pod_init_containers (pod_spec_of p))))"
      unfolding c by (simp add: prepare_container_def prepare_env_def env)
    have only: "e = ?e" if "e \<in> set (ctr_env (hd (pod_init_containers (pod_spec_of p))))" "s = env_name e @ ''='' @ env_value e" for e
    proof -
      have "e \<in> set (prepare_env sample_env_build (sample_plain_context []) src tag dns)"
        using that(1) unfolding c by (simp add: prepare_container_def)
      from prepare_env_prefix [OF this, of "env_value e"] s that(2) env show ?thesis by auto
    qed
    have "s \<noteq> ''HOME=/root''" using s by (auto simp: PlatformEnvVarPrefix_def)
    then have "s \<in> set [''HOME=/root'', ''PLATFORM_ENV_LOG_LEVEL=debug''] \<longleftrightarrow> s = env_name ?e @ ''='' @ env_value ?e"
      unfolding spelled by simp
    also have "\<dots> \<longleftrightarrow> (\<exists>e \<in> set (ctr_env (hd (pod_init_containers (pod_spec_of p)))). s = env_name e @ ''='' @ env_value e)"
      using mem only by blast
    finally show "s \<in> set [''HOME=/root'', ''PLATFORM_ENV_LOG_LEVEL=debug''] \<longleftrightarrow>
        (\<exists>e \<in> set (ctr_env (hd (pod_init_containers (pod_spec_of p)))). s = env_name e @ ''='' @ env_value e)"
      .
  qed
  from build_env_reaches_platform [OF p side full user given, of "\<lparr>pe_do = \<lambda>_ _. Inr ()\<rparr>"] env
  show ?thesis by simp
qed

end
