(* ===== verification/Signing.thy ===== *)
theory Signing
  imports Docker_Creds
begin

text \<open>
  The signers of images: \<open>pkg/cosign\<close>, which hands its settings to the signing library in the environment
  of the process, and \<open>pkg/notary\<close>, which publishes the tags of an image as targets of one repository. The
  libraries, the files and the registry answer through records; the variables of the process are read off
  the calls made so far.
\<close>

section \<open>The environment of the process\<close>

fun env_step :: "prep_event \<Rightarrow> str_map \<Rightarrow> str_map" where
  "env_step (SetEnv k v) m = m(k \<mapsto> v)"
| "env_step (UnsetEnv k) m = m(k := None)"
| "env_step _ m = m"

definition env_after :: "str_map \<Rightarrow> prep_event list \<Rightarrow> str_map" where
  "env_after m h = foldl (\<lambda>m ev. env_step ev m) m h"

text \<open>\<open>os.Setenv\<close> refuses names and values that the system cannot hold; \<open>os.Unsetenv\<close> of a name succeeds.\<close>

definition setenv :: "string \<Rightarrow> string \<Rightarrow> (prep_event, unit) io" where
  "setenv k v =
     (if k = '''' \<or> CHR ''='' \<in> set k \<or> CHR 0x00 \<in> set (k @ v) then fail_io (Failed Plain ''setenv: invalid argument'')
      else call_io (SetEnv k v) (\<lambda>_. Inr ()))"

definition unsetenv :: "string \<Rightarrow> (prep_event, unit) io" where
  "unsetenv k = call_io (UnsetEnv k) (\<lambda>_. Inr ())"

text \<open>A deferred call comes last, whatever the body returns; a panic runs it too.\<close>

definition deferring :: "'e \<Rightarrow> ('e, 'a) io \<Rightarrow> ('e, 'a) io" where
  "deferring ev m = (\<lambda>h. case m h of (r, h') \<Rightarrow> (r, h' @ [ev]))"

definition with_env :: "string \<Rightarrow> string option \<Rightarrow> (prep_event, 'a) io \<Rightarrow> (prep_event, 'a) io" where
  "with_env k v body =
     (case v of
        None \<Rightarrow> body
      | Some x \<Rightarrow> bind_io (map_err_io (errorf (''failed setting '' @ k @ '' env variable'')) (setenv k x))
                    (\<lambda>_. deferring (UnsetEnv k) body))"

section \<open>Cosign\<close>

definition CosignRepositoryEnv :: string where "CosignRepositoryEnv = ''COSIGN_REPOSITORY''"
definition CosignDockerMediaTypesEnv :: string where "CosignDockerMediaTypesEnv = ''COSIGN_DOCKER_MEDIA_TYPES''"
definition CosignDockerMediaTypesAnnotation :: string where
  "CosignDockerMediaTypesAnnotation = ''kpack.io/cosign.docker-media-types''"
definition CosignRepositoryAnnotation :: string where "CosignRepositoryAnnotation = ''kpack.io/cosign.repository''"

text \<open>Of the report that the lifecycle leaves, the tags and the digest of the image.\<close>

record final_report =
  rep_tags :: "string list"
  rep_digest :: string

text \<open>
  \<open>sw_sign\<close> is the signing function of the library. It reads the environment of the process, which is
  determined by the calls so far. \<open>sw_range\<close> is the order in which a range visits a map.
\<close>

record signing_world =
  sw_environ :: str_map
  sw_read_dir :: "string \<Rightarrow> (string \<times> bool) list res"
  sw_mounts :: mounts
  sw_range :: "(string \<times> string) list \<Rightarrow> (string \<times> string) list"
  sw_sign :: "prep_event list \<Rightarrow> key_opts \<Rightarrow> sign_options \<Rightarrow> string \<Rightarrow> unit res"
  sw_parse_reference :: "string \<Rightarrow> opaque res"
  sw_client_opts :: "keychain \<Rightarrow> opaque res"
  sw_signature_tag :: "prep_event list \<Rightarrow> opaque \<Rightarrow> opaque \<Rightarrow> string res"
  sw_fetch_digest :: "prep_event list \<Rightarrow> keychain \<Rightarrow> string \<Rightarrow> string res res"
  sw_tag_digest :: "string \<Rightarrow> string \<Rightarrow> string"

text \<open>The directories at the place of the secrets, one for each key.\<close>

definition find_cosign_secrets :: "signing_world \<Rightarrow> string \<Rightarrow> string list res" where
  "find_cosign_secrets W location = bind_res (sw_read_dir W location) (\<lambda>es. Inr (map fst (filter snd es)))"

definition key_file :: "string \<Rightarrow> string \<Rightarrow> string" where
  "key_file location nm = location @ ''/'' @ nm @ ''/cosign.key''"

text \<open>Without a file the password is empty.\<close>

definition file_password :: "signing_world \<Rightarrow> string \<Rightarrow> string \<Rightarrow> string" where
  "file_password W location nm =
     (case mt_read (sw_mounts W) (location @ ''/'' @ nm) ''cosign.password'' of Inl _ \<Rightarrow> '''' | Inr content \<Rightarrow> content)"

definition file_sign_options :: "signing_world \<Rightarrow> (string \<times> string) list \<Rightarrow> sign_options" where
  "file_sign_options W annotations =
     \<lparr>so_kubernetes_keychain = True, so_keychain = None,
      so_annotations = map (\<lambda>(k, v). k @ ''='' @ v) (sw_range W annotations),
      so_upload = True, so_recursive = False, so_tlog_upload = False\<rparr>"

definition sign_with_key :: "signing_world \<Rightarrow> string \<Rightarrow> string \<Rightarrow> (string \<times> string) list \<Rightarrow> str_map \<Rightarrow> str_map \<Rightarrow> string \<Rightarrow>
    (prep_event, unit) io" where
  "sign_with_key W img location annotations repositories media_types nm =
     (let ko = \<lparr>ko_key_ref = key_file location nm, ko_password = file_password W location nm\<rparr>;
          so = file_sign_options W annotations
      in with_env CosignRepositoryEnv (repositories nm)
           (with_env CosignDockerMediaTypesEnv (media_types nm)
              (map_err_io (errorf (''unable to sign image with '' @ key_file location nm))
                 (call_io (SignImage ko so img) (\<lambda>h. sw_sign W h ko so img)))))"

fun sign_with_keys :: "signing_world \<Rightarrow> string \<Rightarrow> string \<Rightarrow> (string \<times> string) list \<Rightarrow> str_map \<Rightarrow> str_map \<Rightarrow> string list \<Rightarrow>
    (prep_event, unit) io" where
  "sign_with_keys W img location annotations repositories media_types [] = ret_io ()"
| "sign_with_keys W img location annotations repositories media_types (nm # nms) =
     bind_io (sign_with_key W img location annotations repositories media_types nm) (\<lambda>_.
     sign_with_keys W img location annotations repositories media_types nms)"

fun no_keys_error :: "goerr \<Rightarrow> goerr" where
  "no_keys_error (Failed k t) = Failed Plain (''no keys found for cosign signing: '' @ t @ [CHR 0x0A])"
| "no_keys_error (Panic t) = Panic t"

definition image_to_sign :: "final_report \<Rightarrow> string" where
  "image_to_sign r = hd (rep_tags r) @ (if rep_digest r \<noteq> '''' then ''@'' @ rep_digest r else '''')"

definition cosign_sign :: "signing_world \<Rightarrow> final_report \<Rightarrow> string \<Rightarrow> (string \<times> string) list \<Rightarrow> str_map \<Rightarrow> str_map \<Rightarrow>
    (prep_event, unit) io" where
  "cosign_sign W r location annotations repositories media_types =
     bind_io (lift_io (map_err no_keys_error (find_cosign_secrets W location))) (\<lambda>nms.
       if length nms = 0 then fail_io (Failed Plain ''no keys found for cosign signing'')
       else if length (rep_tags r) = 0 then fail_io (Failed Plain ''no image found in report to sign'')
       else sign_with_keys W (image_to_sign r) location annotations repositories media_types nms)"

subsection \<open>Builders\<close>

text \<open>A secret with its namespace. The settings are set without a deferred call and unset at the end of each round.\<close>

record ns_secret = secret + sec_namespace :: string

definition k8s_key_ref :: "ns_secret \<Rightarrow> string" where
  "k8s_key_ref s = ''k8s://'' @ sec_namespace s @ ''/'' @ sec_name s"

definition set_from_annotation :: "string \<Rightarrow> string option \<Rightarrow> (prep_event, unit) io" where
  "set_from_annotation k v =
     (case v of
        None \<Rightarrow> ret_io ()
      | Some x \<Rightarrow> map_err_io (wrap_err (''failed setting '' @ k @ '' env variable'')) (setenv k x))"

definition unset_if_found :: "signing_world \<Rightarrow> string \<Rightarrow> (prep_event, unit) io" where
  "unset_if_found W k =
     bind_io (read_io (\<lambda>h. Inr (env_after (sw_environ W) h k \<noteq> None))) (\<lambda>found.
       if found then unsetenv k else ret_io ())"

definition builder_sign_options :: "keychain \<Rightarrow> sign_options" where
  "builder_sign_options kc =
     \<lparr>so_kubernetes_keychain = True, so_keychain = Some kc, so_annotations = [],
      so_upload = True, so_recursive = False, so_tlog_upload = False\<rparr>"

fun sign_builder_failed :: "ns_secret \<Rightarrow> goerr \<Rightarrow> goerr" where
  "sign_builder_failed s e =
     wrap_err (''unable to sign image with specified key from secret '' @ sec_name s @ '' in namespace '' @ sec_namespace s) e"

text \<open>One round: sign; then find the signature, clean up, and name it by its digest.\<close>

definition record_signature :: "signing_world \<Rightarrow> string \<Rightarrow> keychain \<Rightarrow> string \<Rightarrow> (prep_event, cosign_signature) io" where
  "record_signature W img kc key_ref =
     bind_io (lift_io (map_err (wrap_err ''failed to parse reference'') (sw_parse_reference W img))) (\<lambda>ref.
     bind_io (lift_io (sw_client_opts W kc)) (\<lambda>opts.
     bind_io (read_io (\<lambda>h. sw_signature_tag W h ref opts)) (\<lambda>tag.
     bind_io (call_io (PullImage kc tag) (\<lambda>h. sw_fetch_digest W h kc tag)) (\<lambda>image.
     bind_io (lift_io image) (\<lambda>digest.
     bind_io (unset_if_found W CosignDockerMediaTypesEnv) (\<lambda>_.
     bind_io (unset_if_found W CosignRepositoryEnv) (\<lambda>_.
     ret_io \<lparr>cosig_secret = key_ref, cosig_digest = sw_tag_digest W tag digest\<rparr>)))))))"

definition sign_builder_with :: "signing_world \<Rightarrow> string \<Rightarrow> keychain \<Rightarrow> ns_secret \<Rightarrow> (prep_event, cosign_signature) io" where
  "sign_builder_with W img kc s =
     (let ko = \<lparr>ko_key_ref = k8s_key_ref s, ko_password = lookup_str (sec_data s) CosignSecretPassword\<rparr>;
          so = builder_sign_options kc
      in bind_io (set_from_annotation CosignRepositoryEnv (sec_annotations s CosignRepositoryAnnotation)) (\<lambda>_.
         bind_io (set_from_annotation CosignDockerMediaTypesEnv (sec_annotations s CosignDockerMediaTypesAnnotation)) (\<lambda>_.
         bind_io (map_err_io (sign_builder_failed s) (call_io (SignImage ko so img) (\<lambda>h. sw_sign W h ko so img))) (\<lambda>_.
         record_signature W img kc (k8s_key_ref s)))))"

fun sign_builder_from :: "signing_world \<Rightarrow> string \<Rightarrow> keychain \<Rightarrow> cosign_signature list \<Rightarrow> ns_secret list \<Rightarrow>
    (prep_event, cosign_signature list) io" where
  "sign_builder_from W img kc paths [] = ret_io paths"
| "sign_builder_from W img kc paths (s # ss) =
     bind_io (sign_builder_with W img kc s) (\<lambda>sig. sign_builder_from W img kc (paths @ [sig]) ss)"

definition sign_builder :: "signing_world \<Rightarrow> string \<Rightarrow> ns_secret list \<Rightarrow> keychain \<Rightarrow> (prep_event, cosign_signature list) io" where
  "sign_builder W img secrets kc = sign_builder_from W img kc [] (filter_cosign_signing_secrets secrets)"

end
