(* ===== verification/Notary.thy ===== *)
theory Notary
  imports Signing
begin

text \<open>
  \<open>pkg/notary\<close>: the tags of an image become targets of one trusted repository, each published under the
  roles that the signing key may use, and requests to the server fetch a token when it asks for one.
\<close>

section \<open>Hexadecimal and query texts\<close>

text \<open>\<open>hex.DecodeString\<close>\<close>

definition hex_value :: "char \<Rightarrow> nat option" where
  "hex_value c =
     (let n = of_char c :: nat
      in if 48 \<le> n \<and> n \<le> 57 then Some (n - 48)
         else if 97 \<le> n \<and> n \<le> 102 then Some (n - 87)
         else if 65 \<le> n \<and> n \<le> 70 then Some (n - 55) else None)"

fun hex_decode :: "string \<Rightarrow> string res" where
  "hex_decode [] = Inr []"
| "hex_decode [c] =
     (if hex_value c = None then Inl (Failed Plain ''encoding/hex: invalid byte'')
      else Inl (Failed Plain ''encoding/hex: odd length hex string''))"
| "hex_decode (a # b # cs) =
     (case (hex_value a, hex_value b) of
        (Some i, Some j) \<Rightarrow> bind_res (hex_decode cs) (\<lambda>t. Inr (char_of (i * 16 + j) # t))
      | _ \<Rightarrow> Inl (Failed Plain ''encoding/hex: invalid byte''))"

text \<open>\<open>url.QueryEscape\<close>, byte by byte, and \<open>Encode\<close>, which sorts by key.\<close>

definition upper_hex :: "nat \<Rightarrow> char" where
  "upper_hex n = (if n < 10 then char_of (n + 48) else char_of (n + 55))"

definition query_escape_char :: "char \<Rightarrow> string" where
  "query_escape_char c =
     (let n = of_char c :: nat
      in if (48 \<le> n \<and> n \<le> 57) \<or> (65 \<le> n \<and> n \<le> 90) \<or> (97 \<le> n \<and> n \<le> 122) \<or> c \<in> set ''-_.~'' then [c]
         else if c = CHR '' '' then ''+''
         else [CHR 0x25, upper_hex (n div 16), upper_hex (n mod 16)])"

definition query_escape :: "string \<Rightarrow> string" where
  "query_escape s = concat (map query_escape_char s)"

definition token_query :: "string \<Rightarrow> string \<Rightarrow> string" where
  "token_query service scope =
     join ''&'' [''client_id='' @ query_escape ''kpack'', ''scope='' @ query_escape scope, ''service='' @ query_escape service]"

section \<open>Tokens\<close>

record http_request =
  rq_method :: string
  rq_url :: string
  rq_headers :: str_map

record http_response =
  rs_status :: int
  rs_challenge :: string
  rs_token :: "string option res"

text \<open>
  The server, the parts of urls and the credentials of a keychain. \<open>rs_token\<close> is the field \<open>token\<close> of the
  body read as JSON.
\<close>

record auth_world =
  aw_send :: "prep_event list \<Rightarrow> http_request \<Rightarrow> http_response res"
  aw_new_request :: "string \<Rightarrow> unit res"
  aw_with_query :: "string \<Rightarrow> string \<Rightarrow> string"
  aw_url_host :: "string \<Rightarrow> string res"
  aw_resolve :: "string \<Rightarrow> auth_config res"

definition send :: "auth_world \<Rightarrow> http_request \<Rightarrow> (prep_event, http_response) io" where
  "send A rq = call_io (HttpSend (rq_method rq) (rq_url rq) (rq_headers rq)) (\<lambda>h. aw_send A h rq)"

text \<open>The first place where the option begins; the value ends at the next quote.\<close>

fun after_first :: "string \<Rightarrow> string \<Rightarrow> string option" where
  "after_first p [] = (if p = [] then Some [] else None)"
| "after_first p (c # cs) = (if has_prefix (c # cs) p then Some (drop (length p) (c # cs)) else after_first p cs)"

definition extract_bearer_option :: "string \<Rightarrow> string \<Rightarrow> string res" where
  "extract_bearer_option kind s =
     (let failed = Inl (Failed Plain (''failed to parse '' @ quoted kind @ '' from bearer response''))
      in case after_first (kind @ ''='' @ [CHR 0x22]) s of
           None \<Rightarrow> failed
         | Some t \<Rightarrow> (if CHR 0x22 \<in> set t then Inr (takeWhile (\<lambda>c. c \<noteq> CHR 0x22) t) else failed))"

text \<open>\<open>strings.SplitN(header, " ", 2)\<close>, and the second part: there is none without a space.\<close>

definition challenge_parameters :: "string \<Rightarrow> string res" where
  "challenge_parameters header =
     (case dropWhile (\<lambda>c. c \<noteq> CHR '' '') header of
        [] \<Rightarrow> Inl (Panic ''index out of range [1] with length 1'')
      | _ # t \<Rightarrow> Inr t)"

definition with_bearer :: "string \<Rightarrow> http_request \<Rightarrow> http_request" where
  "with_bearer token rq = rq\<lparr>rq_headers := (rq_headers rq)(''Authorization'' \<mapsto> ''Bearer '' @ token)\<rparr>"

definition token_request :: "auth_world \<Rightarrow> string \<Rightarrow> http_request res" where
  "token_request A header =
     bind_res (challenge_parameters header) (\<lambda>params.
     bind_res (extract_bearer_option ''realm'' params) (\<lambda>realm.
     bind_res (extract_bearer_option ''service'' params) (\<lambda>service.
     bind_res (extract_bearer_option ''scope'' params) (\<lambda>scope.
     bind_res (aw_new_request A realm) (\<lambda>_.
     bind_res (aw_url_host A realm) (\<lambda>host.
     bind_res (aw_resolve A host) (\<lambda>cfg.
     Inr \<lparr>rq_method = ''GET'', rq_url = aw_with_query A realm (token_query service scope),
          rq_headers = [''Authorization'' \<mapsto> ''Basic '' @ b64_encode (ac_username cfg @ '':'' @ ac_password cfg)]\<rparr>)))))))"

definition fetch_token :: "auth_world \<Rightarrow> string \<Rightarrow> (prep_event, string) io" where
  "fetch_token A header =
     bind_io (lift_io (token_request A header)) (\<lambda>rq.
     bind_io (send A rq) (\<lambda>resp.
       if rs_status resp \<noteq> 200
       then fail_io (Failed Plain (''received status code '' @ quoted (itoa (rs_status resp))))
       else bind_io (lift_io (rs_token resp)) (\<lambda>tok.
         case tok of
           None \<Rightarrow> fail_io (Failed Plain ''failed to retrieve token from auth response'')
         | Some t \<Rightarrow> ret_io t)))"

text \<open>
  One request. The token that was there is returned beside the answer; it is kept from the moment a new one
  was fetched, whatever becomes of the request.
\<close>

definition round_trip :: "auth_world \<Rightarrow> string \<Rightarrow> http_request \<Rightarrow> (prep_event, http_response res \<times> string) io" where
  "round_trip A token rq =
     (if token \<noteq> '''' then attempt_io (send A (with_bearer token rq)) (\<lambda>r. ret_io (r, token))
      else attempt_io (send A rq) (\<lambda>r.
        case r of
          Inl e \<Rightarrow> ret_io (Inl e, token)
        | Inr resp \<Rightarrow>
            (if rs_status resp \<noteq> 401 then ret_io (Inr resp, token)
             else attempt_io (fetch_token A (rs_challenge resp)) (\<lambda>t.
               case t of
                 Inl e \<Rightarrow> ret_io (Inl e, token)
               | Inr token' \<Rightarrow> attempt_io (send A (with_bearer token' rq)) (\<lambda>r. ret_io (r, token'))))))"

section \<open>Targets\<close>

record delegation =
  dg_name :: string
  dg_covers :: "string \<Rightarrow> bool"
  dg_key_ids :: "string list"

text \<open>
  The notary library: references, repositories with their delegations, and the ids of the keys that a store
  with one named key lists.
\<close>

record notary_world =
  nw_parse_weak :: "string \<Rightarrow> (string \<times> string) res"
  nw_fetch_size :: "prep_event list \<Rightarrow> keychain \<Rightarrow> string \<Rightarrow> int res res"
  nw_new_store :: "string \<Rightarrow> string \<Rightarrow> unit res"
  nw_read_dir :: "string \<Rightarrow> string list res"
  nw_mounts :: mounts
  nw_store_key :: "string \<Rightarrow> string \<Rightarrow> unit res"
  nw_new_repository :: "prep_event list \<Rightarrow> string \<Rightarrow> string \<Rightarrow> unit res"
  nw_delegations :: "prep_event list \<Rightarrow> delegation list res"
  nw_key_ids :: "string \<Rightarrow> string \<Rightarrow> string list"
  nw_targets_role :: string
  nw_do :: "prep_event list \<Rightarrow> prep_event \<Rightarrow> unit res"

definition target_of :: "notary_world \<Rightarrow> keychain \<Rightarrow> string \<Rightarrow> string \<Rightarrow> (prep_event, string \<times> notary_target) io" where
  "target_of N kc digest tag =
     bind_io (lift_io (nw_parse_weak N tag)) (\<lambda>(context, identifier).
     bind_io (call_io (PullImage kc (context @ ''@'' @ digest)) (\<lambda>h. nw_fetch_size N h kc (context @ ''@'' @ digest))) (\<lambda>sz.
     bind_io (lift_io sz) (\<lambda>n.
     bind_io (lift_io (hex_decode (trim_prefix digest ''sha256:''))) (\<lambda>hash.
     ret_io (context, \<lparr>nt_name = identifier, nt_hash = hash, nt_length = n\<rparr>)))))"

fun targets_from :: "notary_world \<Rightarrow> keychain \<Rightarrow> string \<Rightarrow> string \<Rightarrow> notary_target list \<Rightarrow> string list \<Rightarrow>
    (prep_event, string \<times> notary_target list) io" where
  "targets_from N kc digest gun ts [] = ret_io (gun, ts)"
| "targets_from N kc digest gun ts (tag # tags) =
     bind_io (target_of N kc digest tag) (\<lambda>(cur, t).
       if gun \<noteq> '''' \<and> gun \<noteq> cur then fail_io (Failed Plain ''signing to multiple registries is not supported'')
       else targets_from N kc digest (if gun = '''' then cur else gun) (ts @ [t]) tags)"

definition make_gun_and_targets :: "notary_world \<Rightarrow> final_report \<Rightarrow> keychain \<Rightarrow> (prep_event, string \<times> notary_target list) io" where
  "make_gun_and_targets N r kc = targets_from N kc (rep_digest r) '''' [] (rep_tags r)"

text \<open>The name and the text of the first private key in the directory.\<close>

definition make_crypto_service :: "notary_world \<Rightarrow> string \<Rightarrow> (string \<times> string) res" where
  "make_crypto_service N dir =
     bind_res (nw_read_dir N dir) (\<lambda>nms.
       case find (\<lambda>nm. has_suffix nm ''.key'') nms of
         None \<Rightarrow> Inl (Failed Plain ''failed to find private key'')
       | Some nm \<Rightarrow>
           bind_res (mt_read (nw_mounts N) dir nm) (\<lambda>buf.
           (let key = take (length nm - length ''.key'') nm
            in bind_res (nw_store_key N key buf) (\<lambda>_. Inr (key, buf)))))"

text \<open>\<open>k8sSecretPassRetriever\<close>: the text of the file \<open>password\<close> without the white space around it, and the error of the read.\<close>

definition is_space :: "char \<Rightarrow> bool" where
  "is_space c \<longleftrightarrow> c = CHR '' '' \<or> c \<in> {CHR 0x09, CHR 0x0A, CHR 0x0B, CHR 0x0C, CHR 0x0D}"

definition trim_space :: "string \<Rightarrow> string" where
  "trim_space s = rev (dropWhile is_space (rev (dropWhile is_space s)))"

definition secret_pass :: "notary_world \<Rightarrow> string \<Rightarrow> string \<times> goerr option" where
  "secret_pass N dir =
     (case mt_read (nw_mounts N) dir ''password'' of
        Inl e \<Rightarrow> ('''', Some e)
      | Inr buf \<Rightarrow> (trim_space buf, None))"

section \<open>Publishing\<close>

definition role_usable :: "notary_world \<Rightarrow> string list \<Rightarrow> string \<Rightarrow> delegation \<Rightarrow> bool" where
  "role_usable N keys target d \<longleftrightarrow>
     path_dir (dg_name d) = nw_targets_role N \<and> dg_covers d target \<and> list_ex (\<lambda>k. k \<in> set keys) (dg_key_ids d)"

definition get_roles :: "notary_world \<Rightarrow> string list \<Rightarrow> string \<Rightarrow> (prep_event, string list) io" where
  "get_roles N keys target =
     bind_io (read_io (nw_delegations N)) (\<lambda>ds.
       if length ds = 0 then ret_io [nw_targets_role N]
       else if length keys \<noteq> 1
       then fail_io (Failed Plain (''expected exactly one signing key but got '' @ itoa (int (length keys))))
       else
         (let roles = map dg_name (filter (role_usable N keys target) ds)
          in if length roles = 0 then fail_io (Failed Plain ''no delegation roles found'') else ret_io roles))"

definition notary_call :: "notary_world \<Rightarrow> prep_event \<Rightarrow> (prep_event, unit) io" where
  "notary_call N ev = call_io ev (\<lambda>h. nw_do N h ev)"

definition publish_target :: "notary_world \<Rightarrow> string \<Rightarrow> string list \<Rightarrow> notary_target \<Rightarrow> (prep_event, unit) io" where
  "publish_target N gun keys t =
     bind_io (get_roles N keys (nt_name t)) (\<lambda>roles.
     bind_io (notary_call N (StageTarget t roles)) (\<lambda>_.
     notary_call N (PublishTargets gun)))"

fun publish_all :: "notary_world \<Rightarrow> string \<Rightarrow> string \<Rightarrow> string list \<Rightarrow> notary_target list \<Rightarrow> (prep_event, unit) io" where
  "publish_all N url gun keys [] = ret_io ()"
| "publish_all N url gun keys (t # ts) =
     bind_io (read_io (\<lambda>h. nw_new_repository N h url gun)) (\<lambda>_.
     bind_io (publish_target N gun keys t) (\<lambda>_.
     publish_all N url gun keys ts))"

definition notary_sign :: "notary_world \<Rightarrow> string \<Rightarrow> string \<Rightarrow> final_report \<Rightarrow> keychain \<Rightarrow> (prep_event, unit) io" where
  "notary_sign N url dir r kc =
     bind_io (make_gun_and_targets N r kc) (\<lambda>(gun, targets).
     bind_io (lift_io (nw_new_store N url gun)) (\<lambda>_.
     bind_io (lift_io (make_crypto_service N dir)) (\<lambda>(key, buf).
     publish_all N url gun (nw_key_ids N key buf) targets)))"

end
