(* ===== verification/Signing_Properties.thy ===== *)
theory Signing_Properties
  imports Notary
begin

text \<open>
  What the signers promise: each key signs once, in order, and sees the settings of its own secret; what a
  failed signing of a builder leaves behind; and what is published for the tags of an image.
\<close>

section \<open>What the signing library sees\<close>

text \<open>Of each signing its key, the password, the image, and the two settings in the environment of the process.\<close>

type_synonym signing = "string \<times> string \<times> string \<times> string option \<times> string option"

fun signings :: "str_map \<Rightarrow> prep_event list \<Rightarrow> signing list" where
  "signings m [] = []"
| "signings m (ev # es) =
     (case ev of
        SignImage ko so img \<Rightarrow> [(ko_key_ref ko, ko_password ko, img, m CosignRepositoryEnv, m CosignDockerMediaTypesEnv)]
      | _ \<Rightarrow> []) @ signings (env_step ev m) es"

definition unset_settings :: "str_map \<Rightarrow> bool" where
  "unset_settings m \<longleftrightarrow> m CosignRepositoryEnv = None \<and> m CosignDockerMediaTypesEnv = None"

lemma env_after_simps [simp]:
  "env_after m [] = m"
  "env_after m (h @ es) = env_after (env_after m h) es"
  "env_after m (ev # es) = env_after (env_step ev m) es"
  by (simp_all add: env_after_def)

lemma signings_append [simp]: "signings m (es @ fs) = signings m es @ signings (env_after m es) fs"
  by (induction es arbitrary: m) (auto split: prep_event.split)

lemma settings_neq [simp]: "CosignRepositoryEnv \<noteq> CosignDockerMediaTypesEnv" "CosignDockerMediaTypesEnv \<noteq> CosignRepositoryEnv"
  by (simp_all add: CosignRepositoryEnv_def CosignDockerMediaTypesEnv_def)

text \<open>A value that the system can hold.\<close>

definition storable :: "string option \<Rightarrow> bool" where
  "storable v \<longleftrightarrow> (case v of None \<Rightarrow> True | Some x \<Rightarrow> CHR 0x00 \<notin> set x)"

definition env_setting :: "string \<Rightarrow> string option \<Rightarrow> prep_event list" where
  "env_setting k v = (case v of None \<Rightarrow> [] | Some x \<Rightarrow> [SetEnv k x])"

definition env_unsetting :: "string \<Rightarrow> string option \<Rightarrow> prep_event list" where
  "env_unsetting k v = (case v of None \<Rightarrow> [] | Some x \<Rightarrow> [UnsetEnv k])"

definition setting_name :: "string \<Rightarrow> bool" where
  "setting_name k \<longleftrightarrow> k = CosignRepositoryEnv \<or> k = CosignDockerMediaTypesEnv"

lemma setenv_setting: "setting_name k \<Longrightarrow> setenv k x =
    (if CHR 0x00 \<in> set x then fail_io (Failed Plain ''setenv: invalid argument'') else call_io (SetEnv k x) (\<lambda>_. Inr ()))"
  by (auto simp: setting_name_def setenv_def CosignRepositoryEnv_def CosignDockerMediaTypesEnv_def)

lemma with_env_run:
  assumes "setting_name k"
  shows "with_env k v body h =
    (if storable v then (fst (body (h @ env_setting k v)), snd (body (h @ env_setting k v)) @ env_unsetting k v)
     else (Inl (Failed Plain (''failed setting '' @ k @ '' env variable: setenv: invalid argument'')), h))"
  by (cases v)
    (auto simp: with_env_def storable_def env_setting_def env_unsetting_def deferring_def setenv_setting [OF assms]
      io_simps case_prod_beta)

lemma setting_env:
  "env_after m (env_setting k v) = (case v of None \<Rightarrow> m | Some x \<Rightarrow> m(k \<mapsto> x))"
  "env_after m (env_unsetting k v) = (case v of None \<Rightarrow> m | Some x \<Rightarrow> m(k := None))"
  "signings m (env_setting k v) = []" "signings m (env_unsetting k v) = []"
  by (auto simp: env_setting_def env_unsetting_def split: option.split)

section \<open>Images\<close>

lemma sign_with_key_run:
  assumes "unset_settings (env_after (sw_environ W) h)"
  shows "\<exists>es. snd (sign_with_key W img location ann reps media nm h) = h @ es \<and>
    unset_settings (env_after (sw_environ W) (h @ es)) \<and>
    (signings (env_after (sw_environ W) h) es = [(key_file location nm, file_password W location nm, img, reps nm, media nm)] \<or>
     signings (env_after (sw_environ W) h) es = [] \<and> fst (sign_with_key W img location ann reps media nm h) \<noteq> Inr ())"
proof -
  let ?ko = "\<lparr>ko_key_ref = key_file location nm, ko_password = file_password W location nm\<rparr>"
  let ?so = "file_sign_options W ann"
  let ?R = "CosignRepositoryEnv" and ?M = "CosignDockerMediaTypesEnv"
  have names: "setting_name ?R" "setting_name ?M" by (simp_all add: setting_name_def)
  consider "\<not> storable (reps nm)" | "storable (reps nm)" "\<not> storable (media nm)" | "storable (reps nm)" "storable (media nm)" by blast
  then show ?thesis
  proof cases
    case 1
    then show ?thesis using assms by (intro exI [of _ "[]"]) (simp add: sign_with_key_def Let_def with_env_run [OF names(1)])
  next
    case 2
    then show ?thesis using assms
      by (intro exI [of _ "env_setting ?R (reps nm) @ env_unsetting ?R (reps nm)"])
        (auto simp: sign_with_key_def Let_def with_env_run [OF names(1)] with_env_run [OF names(2)] setting_env unset_settings_def
          split: option.split)
  next
    case 3
    then show ?thesis using assms
      by (intro exI [of _ "env_setting ?R (reps nm) @ env_setting ?M (media nm) @ [SignImage ?ko ?so img] @
            env_unsetting ?M (media nm) @ env_unsetting ?R (reps nm)"])
        (auto simp: sign_with_key_def Let_def with_env_run [OF names(1)] with_env_run [OF names(2)] setting_env unset_settings_def
          map_err_io_apply split: option.split)
  qed
qed

lemma sign_with_keys_run:
  assumes "unset_settings (env_after (sw_environ W) h)"
  shows "\<exists>es n. snd (sign_with_keys W img location ann reps media nms h) = h @ es \<and>
    unset_settings (env_after (sw_environ W) (h @ es)) \<and>
    signings (env_after (sw_environ W) h) es =
      map (\<lambda>nm. (key_file location nm, file_password W location nm, img, reps nm, media nm)) (take n nms) \<and>
    (fst (sign_with_keys W img location ann reps media nms h) = Inr () \<longrightarrow> n = length nms)"
  using assms
proof (induction nms arbitrary: h)
  case Nil
  then show ?case by (intro exI [of _ "[]"] exI [of _ 0]) simp
next
  case (Cons nm nms)
  let ?one = "sign_with_key W img location ann reps media nm"
  let ?sig = "\<lambda>nm. (key_file location nm, file_password W location nm, img, reps nm, media nm)"
  obtain es where es: "snd (?one h) = h @ es" "unset_settings (env_after (sw_environ W) (h @ es))"
    "signings (env_after (sw_environ W) h) es = [?sig nm] \<or>
     signings (env_after (sw_environ W) h) es = [] \<and> fst (?one h) \<noteq> Inr ()"
    using sign_with_key_run [OF Cons.prems] by blast
  show ?case
  proof (cases "fst (?one h)")
    case (Inl e)
    then have run: "sign_with_keys W img location ann reps media (nm # nms) h = (Inl e, h @ es)"
      using es(1) by (simp add: bind_io_apply)
    from es(3) consider "signings (env_after (sw_environ W) h) es = [?sig nm]" | "signings (env_after (sw_environ W) h) es = []" by blast
    then show ?thesis
    proof cases
      case 1
      then show ?thesis using es(2) run by (intro exI [of _ es] exI [of _ 1]) simp
    next
      case 2
      then show ?thesis using es(2) run by (intro exI [of _ es] exI [of _ 0]) simp
    qed
  next
    case (Inr u)
    then have run: "sign_with_keys W img location ann reps media (nm # nms) h = sign_with_keys W img location ann reps media nms (h @ es)"
      using es(1) by (simp add: bind_io_apply)
    have one: "signings (env_after (sw_environ W) h) es = [?sig nm]" using es(3) Inr by simp
    obtain fs n where fs: "snd (sign_with_keys W img location ann reps media nms (h @ es)) = (h @ es) @ fs"
      "unset_settings (env_after (sw_environ W) ((h @ es) @ fs))"
      "signings (env_after (sw_environ W) (h @ es)) fs = map ?sig (take n nms)"
      "fst (sign_with_keys W img location ann reps media nms (h @ es)) = Inr () \<longrightarrow> n = length nms"
      using Cons.IH [OF es(2)] by blast
    show ?thesis unfolding run
      by (rule exI [of _ "es @ fs"], rule exI [of _ "Suc n"]) (use fs one in simp)
  qed
qed

lemma sign_with_keys_ok:
  assumes "\<And>nm. storable (reps nm)" and "\<And>nm. storable (media nm)" and "\<And>g ko so. sw_sign W g ko so img = Inr ()"
  shows "fst (sign_with_keys W img location ann reps media nms h) = Inr ()"
proof (induction nms arbitrary: h)
  case (Cons nm nms)
  have "fst (sign_with_key W img location ann reps media nm h) = Inr ()"
    using assms by (simp add: sign_with_key_def Let_def with_env_run setting_name_def map_err_io_apply)
  with Cons show ?case by (simp add: bind_io_apply)
qed simp

lemma sign_with_all_keys_of:
  assumes "unset_settings (env_after (sw_environ W) h)" and "find_cosign_secrets W location = Inr nms"
    and "cosign_sign W r location ann reps media h = (Inr (), h')"
  shows "\<exists>es. h' = h @ es \<and> nms \<noteq> [] \<and>
    signings (env_after (sw_environ W) h) es =
      map (\<lambda>nm. (key_file location nm, file_password W location nm, image_to_sign r, reps nm, media nm)) nms"
proof -
  have "nms \<noteq> []" and run: "sign_with_keys W (image_to_sign r) location ann reps media nms h = (Inr (), h')"
    using assms(2,3) by (auto simp: cosign_sign_def bind_io_apply split: if_splits)
  then show ?thesis
    using sign_with_keys_run [OF assms(1), of "image_to_sign r" location ann reps media nms] by auto
qed

text \<open>
  C39: Every key in the directory signs the image once, in order, with its own password, and while it signs the
  environment holds the repository and the media types of its own secret and of no other. When a signing
  fails the keys after it do not sign; in either case the settings are gone from the environment at the end.
\<close>

theorem each_key_signs_with_its_settings:
  assumes "unset_settings (env_after (sw_environ W) h)" and "find_cosign_secrets W location = Inr nms"
    and "cosign_sign W r location ann reps media h = (res, h')"
  shows "\<exists>es n. h' = h @ es \<and> unset_settings (env_after (sw_environ W) h') \<and>
    signings (env_after (sw_environ W) h) es =
      map (\<lambda>nm. (key_file location nm, file_password W location nm, image_to_sign r, reps nm, media nm)) (take n nms) \<and>
    (res = Inr () \<longrightarrow> n = length nms \<and> nms \<noteq> [] \<and> rep_tags r \<noteq> [])"
proof (cases "nms = [] \<or> rep_tags r = []")
  case True
  then have "h' = h" "res \<noteq> Inr ()" using assms(2,3) by (auto simp: cosign_sign_def bind_io_apply split: if_splits)
  with assms(1) show ?thesis by (intro exI [of _ "[]"] exI [of _ 0]) simp
next
  case False
  then have run: "sign_with_keys W (image_to_sign r) location ann reps media nms h = (res, h')"
    using assms(2,3) by (simp add: cosign_sign_def bind_io_apply)
  show ?thesis
    using sign_with_keys_run [OF assms(1), of "image_to_sign r" location ann reps media nms] False unfolding run by auto
qed

definition sample_signing :: signing_world where
  "sample_signing = \<lparr>sw_environ = Map.empty,
     sw_read_dir = (\<lambda>_. Inr [(''release'', True), (''..data'', False), (''audit'', True)]),
     sw_mounts = \<lparr>mt_stat = (\<lambda>_ _. Inr ()), mt_read = (\<lambda>d f. if d = ''keys/release'' then Inr ''s3cret'' else Inl (Failed NotFound f))\<rparr>,
     sw_range = (\<lambda>xs. xs), sw_sign = (\<lambda>_ _ _ _. Inr ()), sw_parse_reference = (\<lambda>s. Inr s), sw_client_opts = (\<lambda>_. Inr ''''),
     sw_signature_tag = (\<lambda>_ ref _. Inr (ref @ ''.sig'')), sw_fetch_digest = (\<lambda>_ _ _. Inr (Inr ''sha256:9'')),
     sw_tag_digest = (\<lambda>tag d. tag @ ''@'' @ d)\<rparr>"

definition sample_report :: final_report where
  "sample_report = \<lparr>rep_tags = [''reg.io/app:1'', ''reg.io/app:2''], rep_digest = ''sha256:0a1b''\<rparr>"

definition sample_sign_run :: "unit res \<times> prep_event list" where
  "sample_sign_run = cosign_sign sample_signing sample_report ''keys'' [] [''release'' \<mapsto> ''reg.io/sigs''] Map.empty []"

lemma sample_unset: "unset_settings (env_after (sw_environ sample_signing) [])"
  by (simp add: unset_settings_def sample_signing_def)

lemma sample_keys: "find_cosign_secrets sample_signing ''keys'' = Inr [''release'', ''audit'']"
  by (simp add: find_cosign_secrets_def sample_signing_def)

theorem each_key_signs_with_its_settings_witness:
  "fst sample_sign_run = Inr () \<and> (\<exists>es. snd sample_sign_run = es \<and> signings Map.empty es =
     [(''keys/release/cosign.key'', ''s3cret'', ''reg.io/app:1@sha256:0a1b'', Some ''reg.io/sigs'', None),
      (''keys/audit/cosign.key'', '''', ''reg.io/app:1@sha256:0a1b'', None, None)])"
proof -
  have ok: "fst sample_sign_run = Inr ()"
  proof -
    have "storable ([''release'' \<mapsto> ''reg.io/sigs''] nm)" for nm by (simp add: storable_def)
    then have "fst (sign_with_keys sample_signing img ''keys'' [] [''release'' \<mapsto> ''reg.io/sigs''] Map.empty nms h) = Inr ()" for img nms h
      by (rule sign_with_keys_ok) (simp_all add: storable_def sample_signing_def)
    moreover have "rep_tags sample_report \<noteq> []" by (simp add: sample_report_def)
    ultimately show ?thesis by (simp add: sample_sign_run_def cosign_sign_def sample_keys bind_io_apply del: sign_with_keys.simps)
  qed
  have env: "sw_environ sample_signing = Map.empty" by (simp add: sample_signing_def)
  obtain es n where es: "snd sample_sign_run = [] @ es"
    "signings (env_after (sw_environ sample_signing) []) es =
      map (\<lambda>nm. (key_file ''keys'' nm, file_password sample_signing ''keys'' nm, image_to_sign sample_report,
        [''release'' \<mapsto> ''reg.io/sigs''] nm, Map.empty nm)) (take n [''release'', ''audit''])" "n = length [''release'', ''audit'']"
    using each_key_signs_with_its_settings [OF sample_unset sample_keys,
        of sample_report "[]" "[''release'' \<mapsto> ''reg.io/sigs'']" Map.empty "fst sample_sign_run" "snd sample_sign_run"] ok
    by (auto simp: sample_sign_run_def)
  have pw: "file_password sample_signing ''keys'' ''release'' = ''s3cret''" "file_password sample_signing ''keys'' ''audit'' = ''''"
    by (simp_all add: file_password_def sample_signing_def)
  show ?thesis using ok es env pw by (simp add: key_file_def image_to_sign_def sample_report_def)
qed

section \<open>Builders\<close>

definition builder_signing :: "string \<Rightarrow> ns_secret \<Rightarrow> signing" where
  "builder_signing img s = (k8s_key_ref s, lookup_str (sec_data s) CosignSecretPassword, img,
     sec_annotations s CosignRepositoryAnnotation, sec_annotations s CosignDockerMediaTypesAnnotation)"

lemma set_from_annotation_run:
  assumes "setting_name k"
  shows "set_from_annotation k v h =
    (if storable v then (Inr (), h @ env_setting k v)
     else (Inl (Failed Plain (''failed setting '' @ k @ '' env variable: setenv: invalid argument'')), h))"
  by (cases v) (auto simp: set_from_annotation_def storable_def env_setting_def setenv_setting [OF assms] io_simps)

definition set_both :: "ns_secret \<Rightarrow> prep_event list" where
  "set_both s = env_setting CosignRepositoryEnv (sec_annotations s CosignRepositoryAnnotation) @
     env_setting CosignDockerMediaTypesEnv (sec_annotations s CosignDockerMediaTypesAnnotation)"

text \<open>A round up to the signing: what was set stays, and the library sees it.\<close>

lemma sign_builder_with_starts:
  fixes s :: ns_secret
  defines "ko \<equiv> \<lparr>ko_key_ref = k8s_key_ref s, ko_password = lookup_str (sec_data s) CosignSecretPassword\<rparr>"
    and "a \<equiv> sec_annotations s CosignRepositoryAnnotation" and "b \<equiv> sec_annotations s CosignDockerMediaTypesAnnotation"
  assumes "storable a" and "storable b"
  shows "sign_builder_with W img kc s h =
    (let g = h @ set_both s; h1 = g @ [SignImage ko (builder_sign_options kc) img] in
     case sw_sign W g ko (builder_sign_options kc) img of
       Inl e \<Rightarrow> (Inl (sign_builder_failed s e), h1)
     | Inr u \<Rightarrow> record_signature W img kc (k8s_key_ref s) h1)"
proof -
  have names: "setting_name CosignRepositoryEnv" "setting_name CosignDockerMediaTypesEnv" by (simp_all add: setting_name_def)
  note set1 = set_from_annotation_run [OF names(1), of a] and set2 = set_from_annotation_run [OF names(2), of b]
  show ?thesis
    using assms(4,5)
    by (cases "sw_sign W (h @ set_both s) ko (builder_sign_options kc) img")
      (simp_all add: sign_builder_with_def Let_def bind_io_apply map_err_io_apply set1 [unfolded a_def] set2 [unfolded b_def]
        set_both_def ko_def a_def b_def del: sign_builder_failed.simps)
qed

lemma env_after_set_both:
  assumes "unset_settings m"
  shows "env_after m (set_both s) CosignRepositoryEnv = sec_annotations s CosignRepositoryAnnotation"
    and "env_after m (set_both s) CosignDockerMediaTypesEnv = sec_annotations s CosignDockerMediaTypesAnnotation"
    and "signings m (set_both s) = []"
  using assms by (auto simp: set_both_def setting_env unset_settings_def split: option.split)

lemma unset_if_found_run:
  "\<exists>es. unset_if_found W k h = (Inr (), h @ es) \<and> (\<forall>m. signings m es = []) \<and>
     env_after (sw_environ W) (h @ es) = (env_after (sw_environ W) h)(k := None)"
proof (cases "env_after (sw_environ W) h k")
  case None
  then have "(env_after (sw_environ W) h)(k := None) = env_after (sw_environ W) h" by auto
  with None show ?thesis by (intro exI [of _ "[]"]) (simp add: unset_if_found_def io_simps)
next
  case (Some v)
  then show ?thesis by (intro exI [of _ "[UnsetEnv k]"]) (simp add: unset_if_found_def unsetenv_def io_simps)
qed

text \<open>What follows the signing in a round signs nothing, and unsets both settings when it comes to an end.\<close>

lemma record_signature_run:
  "\<exists>es. snd (record_signature W img kc nm h) = h @ es \<and> (\<forall>m. signings m es = []) \<and>
    (\<forall>sig. fst (record_signature W img kc nm h) = Inr sig \<longrightarrow>
       cosig_secret sig = nm \<and> unset_settings (env_after (sw_environ W) (h @ es)))"
proof -
  let ?E = "env_after (sw_environ W)"
  note run = record_signature_def bind_io_apply
  show ?thesis
  proof (cases "map_err (wrap_err ''failed to parse reference'') (sw_parse_reference W img)")
    case (Inl e)
    then show ?thesis by (intro exI [of _ "[]"]) (simp add: run)
  next
    case ref: (Inr ref)
    show ?thesis
    proof (cases "sw_client_opts W kc")
      case (Inl e)
      then show ?thesis using ref by (intro exI [of _ "[]"]) (simp add: run)
    next
      case opts: (Inr opts)
      show ?thesis
      proof (cases "sw_signature_tag W h ref opts")
        case (Inl e)
        then show ?thesis using ref opts by (intro exI [of _ "[]"]) (simp add: run)
      next
        case tag: (Inr tag)
        let ?h = "h @ [PullImage kc tag]"
        show ?thesis
        proof (cases "sw_fetch_digest W h kc tag")
          case (Inl e)
          then show ?thesis using ref opts tag by (intro exI [of _ "[PullImage kc tag]"]) (simp add: run)
        next
          case image: (Inr image)
          show ?thesis
          proof (cases image)
            case (Inl e)
            then show ?thesis using ref opts tag image by (intro exI [of _ "[PullImage kc tag]"]) (simp add: run)
          next
            case digest: (Inr digest)
            obtain es where es: "unset_if_found W CosignDockerMediaTypesEnv ?h = (Inr (), ?h @ es)" "\<forall>m. signings m es = []"
              "?E (?h @ es) = (?E ?h)(CosignDockerMediaTypesEnv := None)"
              using unset_if_found_run [of W CosignDockerMediaTypesEnv ?h] by blast
            obtain fs where fs: "unset_if_found W CosignRepositoryEnv (?h @ es) = (Inr (), (?h @ es) @ fs)" "\<forall>m. signings m fs = []"
              "?E ((?h @ es) @ fs) = (?E (?h @ es))(CosignRepositoryEnv := None)"
              using unset_if_found_run [of W CosignRepositoryEnv "?h @ es"] by blast
            have sig: "record_signature W img kc nm h = (Inr \<lparr>cosig_secret = nm, cosig_digest = sw_tag_digest W tag digest\<rparr>, (?h @ es) @ fs)"
              using ref opts tag image digest es(1) fs(1) by (simp add: run)
            have unset: "unset_settings (?E ((?h @ es) @ fs))" unfolding fs(3) es(3) by (simp add: unset_settings_def)
            show ?thesis unfolding sig
              by (rule exI [of _ "[PullImage kc tag] @ es @ fs"]) (use es(2) fs(2) unset in simp)
          qed
        qed
      qed
    qed
  qed
qed

lemma sign_builder_with_run:
  fixes s :: ns_secret
  assumes "unset_settings (env_after (sw_environ W) h)"
  shows "\<exists>es. snd (sign_builder_with W img kc s h) = h @ es \<and>
    (signings (env_after (sw_environ W) h) es = [builder_signing img s] \<or>
     signings (env_after (sw_environ W) h) es = [] \<and> \<not> (\<exists>sig. fst (sign_builder_with W img kc s h) = Inr sig)) \<and>
    (\<forall>sig. fst (sign_builder_with W img kc s h) = Inr sig \<longrightarrow>
       cosig_secret sig = k8s_key_ref s \<and> unset_settings (env_after (sw_environ W) (h @ es)))"
proof -
  let ?a = "sec_annotations s CosignRepositoryAnnotation" and ?b = "sec_annotations s CosignDockerMediaTypesAnnotation"
  let ?ko = "\<lparr>ko_key_ref = k8s_key_ref s, ko_password = lookup_str (sec_data s) CosignSecretPassword\<rparr>"
  let ?so = "builder_sign_options kc"
  let ?g = "h @ set_both s"
  let ?h1 = "?g @ [SignImage ?ko ?so img]"
  have names: "setting_name CosignRepositoryEnv" "setting_name CosignDockerMediaTypesEnv" by (simp_all add: setting_name_def)
  have sig: "signings (env_after (sw_environ W) h) (set_both s @ [SignImage ?ko ?so img]) = [builder_signing img s]"
    using env_after_set_both [OF assms, of s] by (simp add: builder_signing_def)
  consider "\<not> storable ?a" | "storable ?a" "\<not> storable ?b" | "storable ?a" "storable ?b" by blast
  then show ?thesis
  proof cases
    case 1
    then show ?thesis
      by (intro exI [of _ "[]"]) (simp add: sign_builder_with_def Let_def bind_io_apply set_from_annotation_run [OF names(1)])
  next
    case 2
    then show ?thesis
      by (intro exI [of _ "env_setting CosignRepositoryEnv ?a"])
        (simp add: sign_builder_with_def Let_def bind_io_apply set_from_annotation_run [OF names(1)]
          set_from_annotation_run [OF names(2)] setting_env)
  next
    case 3
    note starts = sign_builder_with_starts [OF 3, of W img kc h]
    show ?thesis
    proof (cases "sw_sign W ?g ?ko ?so img")
      case (Inl e)
      then have run: "sign_builder_with W img kc s h = (Inl (sign_builder_failed s e), ?h1)" using starts by (simp add: Let_def)
      show ?thesis by (rule exI [of _ "set_both s @ [SignImage ?ko ?so img]"]) (use run sig in simp)
    next
      case (Inr u)
      let ?rest = "record_signature W img kc (k8s_key_ref s)"
      have run: "sign_builder_with W img kc s h = ?rest ?h1" using starts Inr by (simp add: Let_def)
      obtain fs where fs: "snd (?rest ?h1) = ?h1 @ fs" "\<forall>m. signings m fs = []"
        "\<forall>sig. fst (?rest ?h1) = Inr sig \<longrightarrow> cosig_secret sig = k8s_key_ref s \<and> unset_settings (env_after (sw_environ W) (?h1 @ fs))"
        using record_signature_run [of W img kc "k8s_key_ref s" ?h1] by blast
      show ?thesis unfolding run
        by (rule exI [of _ "set_both s @ [SignImage ?ko ?so img] @ fs"]) (use fs sig in simp)
    qed
  qed
qed

lemma sign_builder_from_run:
  assumes "unset_settings (env_after (sw_environ W) h)"
  shows "\<exists>es n. snd (sign_builder_from W img kc paths ss h) = h @ es \<and>
    signings (env_after (sw_environ W) h) es = map (builder_signing img) (take n ss) \<and>
    (\<forall>sigs. fst (sign_builder_from W img kc paths ss h) = Inr sigs \<longrightarrow>
       n = length ss \<and> map cosig_secret sigs = map cosig_secret paths @ map k8s_key_ref ss \<and>
       unset_settings (env_after (sw_environ W) (h @ es)))"
  using assms
proof (induction ss arbitrary: h paths)
  case Nil
  then show ?case by (intro exI [of _ "[]"] exI [of _ 0]) simp
next
  case (Cons s ss)
  let ?one = "sign_builder_with W img kc s"
  obtain es where es: "snd (?one h) = h @ es"
    "signings (env_after (sw_environ W) h) es = [builder_signing img s] \<or>
     signings (env_after (sw_environ W) h) es = [] \<and> \<not> (\<exists>sig. fst (?one h) = Inr sig)"
    "\<forall>sig. fst (?one h) = Inr sig \<longrightarrow> cosig_secret sig = k8s_key_ref s \<and> unset_settings (env_after (sw_environ W) (h @ es))"
    using sign_builder_with_run [OF Cons.prems] by blast
  show ?case
  proof (cases "fst (?one h)")
    case (Inl e)
    then have run: "sign_builder_from W img kc paths (s # ss) h = (Inl e, h @ es)"
      using es(1) by (simp add: bind_io_apply)
    have "\<exists>n. signings (env_after (sw_environ W) h) es = map (builder_signing img) (take n (s # ss))"
      using es(2) by (metis list.simps(8,9) take_0 take_Suc_Cons)
    with run show ?thesis by auto
  next
    case (Inr sig)
    then have run: "sign_builder_from W img kc paths (s # ss) h = sign_builder_from W img kc (paths @ [sig]) ss (h @ es)"
      using es(1) by (simp add: bind_io_apply)
    have one: "signings (env_after (sw_environ W) h) es = [builder_signing img s]" using es(2) Inr by blast
    have sig: "cosig_secret sig = k8s_key_ref s" and unset: "unset_settings (env_after (sw_environ W) (h @ es))"
      using es(3) Inr by blast+
    obtain fs n where fs: "snd (sign_builder_from W img kc (paths @ [sig]) ss (h @ es)) = (h @ es) @ fs"
      "signings (env_after (sw_environ W) (h @ es)) fs = map (builder_signing img) (take n ss)"
      "\<forall>sigs. fst (sign_builder_from W img kc (paths @ [sig]) ss (h @ es)) = Inr sigs \<longrightarrow>
         n = length ss \<and> map cosig_secret sigs = map cosig_secret (paths @ [sig]) @ map k8s_key_ref ss \<and>
         unset_settings (env_after (sw_environ W) ((h @ es) @ fs))"
      using Cons.IH [OF unset] by blast
    show ?thesis unfolding run
      by (rule exI [of _ "es @ fs"], rule exI [of _ "Suc n"]) (use fs one sig in simp)
  qed
qed

lemma emits_sign_builder_from:
  "emits (\<lambda>_. True) (sign_builder_from W img kc paths ss)"
proof -
  have "emits (\<lambda>_. True) (set_from_annotation k v)" for k v
    by (cases v) (auto simp: set_from_annotation_def setenv_def)
  moreover have "emits (\<lambda>_. True) (unset_if_found W k)" for k
    unfolding unset_if_found_def unsetenv_def by (auto intro!: emits_bind)
  ultimately have "emits (\<lambda>_. True) (sign_builder_with W img kc s)" for s
    unfolding sign_builder_with_def record_signature_def Let_def
    by (intro emits_bind emits_map_err emits_call emits_lift emits_read emits_ret TrueI)
  then show ?thesis by (induction ss arbitrary: paths) (auto intro!: emits_bind)
qed

text \<open>
  From an environment without settings, the signing secrets of a service account sign a builder in order, each
  under its own annotations. A success leaves one signature for each of them and no settings; a failure
  leaves the signatures of the secrets before.
\<close>

theorem builder_signed_by_each_secret:
  fixes secrets :: "ns_secret list"
  assumes "unset_settings (env_after (sw_environ W) h)" and "sign_builder W img secrets kc h = (res, h')"
  shows "\<exists>es n. h' = h @ es \<and>
    signings (env_after (sw_environ W) h) es = map (builder_signing img) (take n (filter_cosign_signing_secrets secrets)) \<and>
    (\<forall>sigs. res = Inr sigs \<longrightarrow>
       signings (env_after (sw_environ W) h) es = map (builder_signing img) (filter_cosign_signing_secrets secrets) \<and>
       map cosig_secret sigs = map k8s_key_ref (filter_cosign_signing_secrets secrets) \<and>
       unset_settings (env_after (sw_environ W) h'))"
proof -
  let ?ss = "filter_cosign_signing_secrets secrets"
  obtain es n where es: "h' = h @ es" "signings (env_after (sw_environ W) h) es = map (builder_signing img) (take n ?ss)"
    "\<forall>sigs. res = Inr sigs \<longrightarrow> n = length ?ss \<and> map cosig_secret sigs = map k8s_key_ref ?ss \<and>
       unset_settings (env_after (sw_environ W) (h @ es))"
    using sign_builder_from_run [OF assms(1), of img kc "[]" ?ss] assms(2) by (auto simp: sign_builder_def)
  show ?thesis by (rule exI [of _ es], rule exI [of _ n]) (use es in auto)
qed

text \<open>
  A signing that fails leaves its settings in the environment of the controller: the next builder, whose
  secret asks for no repository, is signed into the repository of the failed one.
\<close>

theorem failed_signing_leaks_repository:
  fixes s s' :: ns_secret
  assumes unset: "unset_settings (env_after (sw_environ W) h)"
    and first: "filter_cosign_signing_secrets secrets = s # ss"
    and repo: "sec_annotations s CosignRepositoryAnnotation = Some repo" "CHR 0x00 \<notin> set repo"
    and media: "sec_annotations s CosignDockerMediaTypesAnnotation = None"
    and fails: "\<And>g ko so. ko_key_ref ko = k8s_key_ref s \<Longrightarrow> sw_sign W g ko so img = Inl e"
    and "next": "filter_cosign_signing_secrets secrets' = s' # ss'"
    and plain: "sec_annotations s' CosignRepositoryAnnotation = None" "sec_annotations s' CosignDockerMediaTypesAnnotation = None"
  shows "\<exists>h1 es. sign_builder W img secrets kc h = (Inl (sign_builder_failed s e), h1) \<and>
    snd (sign_builder W img' secrets' kc' h1) = h1 @ es \<and>
    hd (signings (env_after (sw_environ W) h1) es) =
      (k8s_key_ref s', lookup_str (sec_data s') CosignSecretPassword, img', Some repo, None)"
proof -
  let ?ko = "\<lparr>ko_key_ref = k8s_key_ref s, ko_password = lookup_str (sec_data s) CosignSecretPassword\<rparr>"
  let ?ko' = "\<lparr>ko_key_ref = k8s_key_ref s', ko_password = lookup_str (sec_data s') CosignSecretPassword\<rparr>"
  let ?ev = "SignImage ?ko (builder_sign_options kc) img" and ?ev' = "SignImage ?ko' (builder_sign_options kc') img'"
  let ?h1 = "h @ set_both s @ [?ev]"
  let ?m = "env_after (sw_environ W) ?h1"
  have st: "storable (sec_annotations s CosignRepositoryAnnotation)" "storable (sec_annotations s CosignDockerMediaTypesAnnotation)"
    using repo media by (simp_all add: storable_def)
  have run: "sign_builder W img secrets kc h = (Inl (sign_builder_failed s e), ?h1)"
    using sign_builder_with_starts [OF st, of W img kc h] first fails [of ?ko]
    by (simp add: sign_builder_def bind_io_apply Let_def)
  have m: "?m CosignRepositoryEnv = Some repo" "?m CosignDockerMediaTypesEnv = None"
    using env_after_set_both [OF unset, of s] repo(1) media by simp_all
  have st': "storable (sec_annotations s' CosignRepositoryAnnotation)" "storable (sec_annotations s' CosignDockerMediaTypesAnnotation)"
    using plain by (simp_all add: storable_def)
  have both: "set_both s' = []" using plain by (simp add: set_both_def env_setting_def)
  obtain gs where gs: "snd (sign_builder_with W img' kc' s' ?h1) = ?h1 @ ?ev' # gs"
  proof -
    have "\<exists>gs. snd (sign_builder_with W img' kc' s' ?h1) = (?h1 @ [?ev']) @ gs"
      using sign_builder_with_starts [OF st', of W img' kc' ?h1] both
        record_signature_run [of W img' kc' "k8s_key_ref s'" "?h1 @ [?ev']"]
      by (auto simp: Let_def split: sum.splits)
    with that show ?thesis by auto
  qed
  obtain fs where fs: "snd (sign_builder W img' secrets' kc' ?h1) = ?h1 @ ?ev' # fs"
  proof (cases "fst (sign_builder_with W img' kc' s' ?h1)")
    case (Inl x)
    with gs "next" that show ?thesis by (simp add: sign_builder_def bind_io_apply)
  next
    case (Inr sig)
    have "\<exists>ks. snd (sign_builder_from W img' kc' [sig] ss' g) = g @ ks" for g
      using emits_sign_builder_from [of W img' kc' "[sig]" ss'] by (auto simp: emits_def)
    then obtain ks where "snd (sign_builder_from W img' kc' [sig] ss' (?h1 @ ?ev' # gs)) = (?h1 @ ?ev' # gs) @ ks" by blast
    with Inr gs "next" that show ?thesis by (simp add: sign_builder_def bind_io_apply)
  qed
  show ?thesis
    by (rule exI [of _ ?h1], rule exI [of _ "?ev' # fs"]) (use run fs m in simp)
qed

definition sample_signing_secret :: "string \<Rightarrow> str_map \<Rightarrow> ns_secret" where
  "sample_signing_secret nm annotations = \<lparr>sec_name = nm, sec_type = ''Opaque'', sec_annotations = annotations,
     sec_data = [CosignSecretPrivateKey \<mapsto> ''key'', CosignSecretPassword \<mapsto> ''pw''], sec_namespace = ''dev''\<rparr>"

abbreviation sample_release :: ns_secret where
  "sample_release \<equiv> sample_signing_secret ''release'' [CosignRepositoryAnnotation \<mapsto> ''reg.io/sigs'']"

abbreviation sample_audit :: ns_secret where
  "sample_audit \<equiv> sample_signing_secret ''audit'' Map.empty"

lemma sample_signing_filter: "filter_cosign_signing_secrets (map (\<lambda>(n, a). sample_signing_secret n a) nas) = map (\<lambda>(n, a). sample_signing_secret n a) nas"
  by (induction nas)
    (auto simp: filter_cosign_signing_secrets_def filter_cosign_secrets_def sample_signing_secret_def
      CosignSecretPassword_def CosignSecretPrivateKey_def)

lemma sample_signing_filters:
  "filter_cosign_signing_secrets [sample_release] = [sample_release]"
  "filter_cosign_signing_secrets [sample_audit] = [sample_audit]"
  "filter_cosign_signing_secrets [sample_release, sample_audit] = [sample_release, sample_audit]"
  using sample_signing_filter [of "[(''release'', [CosignRepositoryAnnotation \<mapsto> ''reg.io/sigs''])]"]
    sample_signing_filter [of "[(''audit'', Map.empty)]"]
    sample_signing_filter [of "[(''release'', [CosignRepositoryAnnotation \<mapsto> ''reg.io/sigs'']), (''audit'', Map.empty)]"]
  by simp_all

lemma sample_annotations [simp]:
  "sec_annotations (sample_signing_secret n a) = a" "sec_name (sample_signing_secret n a) = n"
  by (simp_all add: sample_signing_secret_def)

theorem builder_signed_by_each_secret_witness:
  "\<exists>es. signings Map.empty es = [builder_signing ''reg.io/b'' sample_release, builder_signing ''reg.io/b'' sample_audit] \<and>
     snd (sign_builder sample_signing ''reg.io/b'' [sample_release, sample_audit] (LibraryKeychain '''') []) = es \<and>
     unset_settings (env_after Map.empty es)"
proof -
  let ?kc = "LibraryKeychain ''''"
  have one: "\<exists>h1. sign_builder_with sample_signing ''reg.io/b'' ?kc (sample_signing_secret n a) h =
      (Inr \<lparr>cosig_secret = k8s_key_ref (sample_signing_secret n a), cosig_digest = ''reg.io/b.sig@sha256:9''\<rparr>, h1)"
    if "storable (a CosignRepositoryAnnotation)" "storable (a CosignDockerMediaTypesAnnotation)" for n a h
  proof -
    have "\<exists>h1. record_signature sample_signing ''reg.io/b'' ?kc nm g =
        (Inr \<lparr>cosig_secret = nm, cosig_digest = ''reg.io/b.sig@sha256:9''\<rparr>, h1)" for nm g
      by (simp add: record_signature_def sample_signing_def io_simps unset_if_found_def unsetenv_def)
    then show ?thesis
      using that by (subst sign_builder_with_starts) (simp_all add: Let_def, simp add: sample_signing_def)
  qed
  have st: "storable ([CosignRepositoryAnnotation \<mapsto> ''reg.io/sigs''] k)" "storable (Map.empty k)" for k
    by (simp_all add: storable_def)
  obtain h1 where h1: "sign_builder_with sample_signing ''reg.io/b'' ?kc sample_release [] =
      (Inr \<lparr>cosig_secret = k8s_key_ref sample_release, cosig_digest = ''reg.io/b.sig@sha256:9''\<rparr>, h1)"
    using one [where n = "''release''" and h = "[]" and a = "[CosignRepositoryAnnotation \<mapsto> ''reg.io/sigs'']", OF st(1) st(1)] by blast
  obtain h2 where h2: "sign_builder_with sample_signing ''reg.io/b'' ?kc sample_audit h1 =
      (Inr \<lparr>cosig_secret = k8s_key_ref sample_audit, cosig_digest = ''reg.io/b.sig@sha256:9''\<rparr>, h2)"
    using one [where n = "''audit''" and h = h1 and a = Map.empty, OF st(2) st(2)] by blast
  obtain sigs where run: "sign_builder sample_signing ''reg.io/b'' [sample_release, sample_audit] ?kc [] = (Inr sigs, h2)"
    using h1 h2 by (simp add: sign_builder_def sample_signing_filters bind_io_apply)
  have env: "sw_environ sample_signing = Map.empty" by (simp add: sample_signing_def)
  show ?thesis
    using builder_signed_by_each_secret [OF sample_unset run] run env by (auto simp: sample_signing_filters)
qed

theorem failed_signing_leaks_repository_witness:
  "\<exists>h1 es. snd (sign_builder (sample_signing\<lparr>sw_sign := (\<lambda>_ ko _ _. if ko_key_ref ko = ''k8s://dev/release'' then Inl (Failed Plain ''denied'') else Inr ())\<rparr>)
       ''reg.io/b'' [sample_release] (LibraryKeychain '''') []) = h1 \<and>
     hd (signings (env_after Map.empty h1) es) = (''k8s://dev/audit'', ''pw'', ''reg.io/c'', Some ''reg.io/sigs'', None)"
proof -
  let ?W = "sample_signing\<lparr>sw_sign := (\<lambda>_ ko _ _. if ko_key_ref ko = ''k8s://dev/release'' then Inl (Failed Plain ''denied'') else Inr ())\<rparr>"
  have env: "sw_environ ?W = Map.empty" by (simp add: sample_signing_def)
  have unset: "unset_settings (env_after (sw_environ ?W) [])" using env by (simp add: unset_settings_def)
  have ann: "sec_annotations sample_release CosignRepositoryAnnotation = Some ''reg.io/sigs''"
    "sec_annotations sample_release CosignDockerMediaTypesAnnotation = None"
    "sec_annotations sample_audit CosignRepositoryAnnotation = None" "sec_annotations sample_audit CosignDockerMediaTypesAnnotation = None"
    by (simp_all add: CosignRepositoryAnnotation_def CosignDockerMediaTypesAnnotation_def)
  have ref: "k8s_key_ref sample_release = ''k8s://dev/release''" "k8s_key_ref sample_audit = ''k8s://dev/audit''"
    by (simp_all add: k8s_key_ref_def sample_signing_secret_def)
  have pw: "lookup_str (sec_data sample_audit) CosignSecretPassword = ''pw''"
    by (simp add: sample_signing_secret_def lookup_str_def)
  obtain h1 es where "snd (sign_builder ?W ''reg.io/b'' [sample_release] (LibraryKeychain '''') []) = h1"
    "hd (signings (env_after (sw_environ ?W) h1) es) =
      (k8s_key_ref sample_audit, lookup_str (sec_data sample_audit) CosignSecretPassword, ''reg.io/c'', Some ''reg.io/sigs'', None)"
    using failed_signing_leaks_repository [where W = ?W and img = "''reg.io/b''" and e = "Failed Plain ''denied''" and
        kc = "LibraryKeychain ''''" and img' = "''reg.io/c''" and kc' = "LibraryKeychain ''''",
        OF unset sample_signing_filters(1) ann(1) _ ann(2) _ sample_signing_filters(2) ann(3,4)] ref
    by auto
  then show ?thesis unfolding env ref pw by blast
qed

section \<open>Targets of a notary\<close>

text \<open>What was staged, with its roles.\<close>

fun staged :: "prep_event list \<Rightarrow> (notary_target \<times> string list) list" where
  "staged [] = []"
| "staged (StageTarget t roles # es) = (t, roles) # staged es"
| "staged (_ # es) = staged es"

lemma staged_append [simp]: "staged (es @ fs) = staged es @ staged fs"
  by (induction es rule: staged.induct) auto

definition stages_none :: "prep_event \<Rightarrow> bool" where
  "stages_none ev \<longleftrightarrow> staged [ev] = []"

lemma staged_none: "list_all stages_none es \<Longrightarrow> staged es = []"
proof (induction es)
  case (Cons ev es)
  have "staged (ev # es) = staged [ev] @ staged es" using staged_append [of "[ev]" es] by simp
  with Cons show ?case by (simp add: stages_none_def)
qed simp

text \<open>The target that a tag makes: its identifier, and the bytes of the digest of the image.\<close>

definition target_for :: "notary_world \<Rightarrow> string \<Rightarrow> string \<Rightarrow> string \<Rightarrow> notary_target \<Rightarrow> bool" where
  "target_for N digest gun tag t \<longleftrightarrow>
     nw_parse_weak N tag = Inr (gun, nt_name t) \<and> hex_decode (trim_prefix digest ''sha256:'') = Inr (nt_hash t)"

lemma target_of_ok:
  assumes "target_of N kc digest tag h = (Inr (cur, t), h')"
  shows "target_for N digest cur tag t"
proof -
  obtain c i where "nw_parse_weak N tag = Inr (c, i)"
    using assms by (auto simp: target_of_def bind_io_apply split: sum.splits)
  with assms show ?thesis by (auto simp: target_of_def target_for_def bind_io_apply split: sum.splits)
qed

definition names_contexts :: "notary_world \<Rightarrow> bool" where
  "names_contexts N \<longleftrightarrow> (\<forall>tag c i. nw_parse_weak N tag = Inr (c, i) \<longrightarrow> c \<noteq> '''')"

lemma targets_from_ok:
  assumes "names_contexts N"
  shows "targets_from N kc digest gun ts tags h = (Inr (gun', ts'), h') \<Longrightarrow>
    (gun \<noteq> '''' \<longrightarrow> gun' = gun) \<and> (\<exists>us. ts' = ts @ us \<and> list_all2 (target_for N digest gun') tags us)"
proof (induction tags arbitrary: gun ts h)
  case (Cons tag tags)
  obtain cur t h1 where one: "target_of N kc digest tag h = (Inr (cur, t), h1)"
    using Cons.prems by (cases "target_of N kc digest tag h") (auto simp: bind_io_apply split: sum.splits)
  have same: "gun = '''' \<or> gun = cur" and
    rest: "targets_from N kc digest (if gun = '''' then cur else gun) (ts @ [t]) tags h1 = (Inr (gun', ts'), h')"
    using Cons.prems one by (auto simp: bind_io_apply split: if_splits)
  have cur: "cur \<noteq> ''''" using assms target_of_ok [OF one] by (auto simp: names_contexts_def target_for_def)
  have "(if gun = '''' then cur else gun) = cur" using same by auto
  with Cons.IH [OF rest] cur obtain us where us: "gun' = cur" "ts' = (ts @ [t]) @ us" "list_all2 (target_for N digest gun') tags us" by auto
  have "list_all2 (target_for N digest gun') (tag # tags) (t # us)" using us target_of_ok [OF one] by simp
  with us same show ?case by auto
qed simp

lemma emits_targets_from: "emits stages_none (targets_from N kc digest gun ts tags)"
proof -
  have "emits stages_none (target_of N kc digest tag)" for tag
    unfolding target_of_def
    by (auto intro!: emits_bind simp: stages_none_def)
  then show ?thesis by (induction tags arbitrary: gun ts) (auto intro!: emits_bind)
qed

text \<open>A role under which a target may be staged: the root of all targets when nothing is delegated, or a usable delegation.\<close>

definition role_allowed :: "notary_world \<Rightarrow> string list \<Rightarrow> string \<Rightarrow> string \<Rightarrow> bool" where
  "role_allowed N keys target role \<longleftrightarrow>
     (\<exists>g ds. nw_delegations N g = Inr ds \<and>
       (ds = [] \<and> role = nw_targets_role N \<or> (\<exists>d \<in> set ds. role_usable N keys target d \<and> dg_name d = role)))"

definition staged_well :: "notary_world \<Rightarrow> string list \<Rightarrow> notary_target \<times> string list \<Rightarrow> bool" where
  "staged_well N keys p \<longleftrightarrow> snd p \<noteq> [] \<and> (\<forall>role \<in> set (snd p). role_allowed N keys (nt_name (fst p)) role)"

lemma get_roles_result:
  assumes "get_roles N keys target h = (r, h')"
  shows "h' = h" and "r = Inr roles \<Longrightarrow> roles \<noteq> [] \<and> (\<forall>role \<in> set roles. role_allowed N keys target role)"
proof -
  show "h' = h" using assms by (auto simp: get_roles_def bind_io_apply Let_def split: sum.splits if_splits)
  assume r: "r = Inr roles"
  then obtain ds where ds: "nw_delegations N h = Inr ds"
    using assms by (auto simp: get_roles_def bind_io_apply split: sum.splits)
  have "roles = (if ds = [] then [nw_targets_role N] else map dg_name (filter (role_usable N keys target) ds)) \<and> roles \<noteq> []"
    using assms r ds by (auto simp: get_roles_def bind_io_apply Let_def split: if_splits)
  with ds show "roles \<noteq> [] \<and> (\<forall>role \<in> set roles. role_allowed N keys target role)"
    unfolding role_allowed_def by (cases "ds = []") auto
qed

lemma publish_target_run:
  "\<exists>es. snd (publish_target N gun keys t h) = h @ es \<and>
    (staged es = [] \<and> (\<exists>e. fst (publish_target N gun keys t h) = Inl e) \<or>
     (\<exists>roles. staged es = [(t, roles)] \<and> staged_well N keys (t, roles)))"
proof -
  obtain r h' where roles: "get_roles N keys (nt_name t) h = (r, h')" by force
  have h': "h' = h" by (rule get_roles_result(1) [OF roles])
  show ?thesis
  proof (cases r)
    case (Inl e)
    then show ?thesis using roles h' by (intro exI [of _ "[]"]) (simp add: publish_target_def bind_io_apply)
  next
    case (Inr rs)
    have well: "staged_well N keys (t, rs)" using get_roles_result(2) [OF roles Inr] by (simp add: staged_well_def)
    show ?thesis
    proof (cases "nw_do N h (StageTarget t rs)")
      case (Inl e)
      then show ?thesis using roles h' Inr well
        by (intro exI [of _ "[StageTarget t rs]"]) (simp add: publish_target_def notary_call_def bind_io_apply)
    next
      case ok: (Inr u)
      then show ?thesis using roles h' Inr well
        by (intro exI [of _ "[StageTarget t rs, PublishTargets gun]"]) (simp add: publish_target_def notary_call_def bind_io_apply)
    qed
  qed
qed

lemma publish_all_run:
  "\<exists>es n. snd (publish_all N url gun keys ts h) = h @ es \<and> map fst (staged es) = take n ts \<and>
    list_all (staged_well N keys) (staged es) \<and> (fst (publish_all N url gun keys ts h) = Inr () \<longrightarrow> n = length ts)"
proof (induction ts arbitrary: h)
  case Nil
  then show ?case by (intro exI [of _ "[]"] exI [of _ 0]) simp
next
  case (Cons t ts)
  show ?case
  proof (cases "nw_new_repository N h url gun")
    case (Inl e)
    then show ?thesis by (intro exI [of _ "[]"] exI [of _ 0]) (simp add: bind_io_apply)
  next
    case new: (Inr u)
    obtain es where es: "snd (publish_target N gun keys t h) = h @ es"
      "staged es = [] \<and> (\<exists>e. fst (publish_target N gun keys t h) = Inl e) \<or>
       (\<exists>roles. staged es = [(t, roles)] \<and> staged_well N keys (t, roles))"
      using publish_target_run by blast
    show ?thesis
    proof (cases "fst (publish_target N gun keys t h)")
      case (Inl e)
      then have run: "publish_all N url gun keys (t # ts) h = (Inl e, h @ es)" using new es(1) by (simp add: bind_io_apply)
      have "\<exists>n. map fst (staged es) = take n (t # ts)"
        using es(2) by (metis fst_conv list.simps(8,9) take_0 take_Suc_Cons)
      moreover have "list_all (staged_well N keys) (staged es)" using es(2) by auto
      ultimately show ?thesis using run by auto
    next
      case (Inr v)
      then have run: "publish_all N url gun keys (t # ts) h = publish_all N url gun keys ts (h @ es)"
        using new es(1) by (simp add: bind_io_apply)
      obtain roles where one: "staged es = [(t, roles)]" "staged_well N keys (t, roles)" using es(2) Inr by auto
      obtain fs n where fs: "snd (publish_all N url gun keys ts (h @ es)) = (h @ es) @ fs" "map fst (staged fs) = take n ts"
        "list_all (staged_well N keys) (staged fs)" "fst (publish_all N url gun keys ts (h @ es)) = Inr () \<longrightarrow> n = length ts"
        using Cons.IH by blast
      show ?thesis unfolding run
        by (rule exI [of _ "es @ fs"], rule exI [of _ "Suc n"]) (use fs one in simp)
    qed
  qed
qed

text \<open>
  C40: Notary signing publishes for every tag of the report its name with the digest of the image, in order, and
  under roles that its key may use. It stages nothing before all tags have been resolved, nothing without a
  private key, and nothing at all when the tags are of more than one repository.
\<close>

theorem notary_publishes_every_tag:
  assumes "names_contexts N" and "notary_sign N url dir r kc h = (res, h')"
  shows "\<exists>es. h' = h @ es \<and>
    (staged es = [] \<and> (res = Inr () \<longrightarrow> rep_tags r = []) \<or>
     (\<exists>gun ts key buf n. list_all2 (target_for N (rep_digest r) gun) (rep_tags r) ts \<and>
        make_crypto_service N dir = Inr (key, buf) \<and> map fst (staged es) = take n ts \<and>
        list_all (staged_well N (nw_key_ids N key buf)) (staged es) \<and> (res = Inr () \<longrightarrow> n = length ts)))"
proof -
  obtain q h1 where targets: "targets_from N kc (rep_digest r) '''' [] (rep_tags r) h = (q, h1)" by force
  obtain es where es: "h1 = h @ es" "staged es = []"
    using emits_targets_from [of N kc "rep_digest r" "''''" "[]" "rep_tags r"] targets staged_none
    by (metis emits_def snd_conv)
  show ?thesis
  proof (cases q)
    case (Inl e)
    then have "res \<noteq> Inr () \<and> h' = h1" using assms(2) targets by (auto simp: notary_sign_def make_gun_and_targets_def bind_io_apply)
    with es show ?thesis by auto
  next
    case (Inr p)
    obtain gun ts where p: "p = (gun, ts)" by force
    have ok: "list_all2 (target_for N (rep_digest r) gun) (rep_tags r) ts"
      using targets_from_ok [OF assms(1) targets [unfolded Inr p]] by simp
    show ?thesis
    proof (cases "bind_res (nw_new_store N url gun) (\<lambda>_. make_crypto_service N dir)")
      case (Inl e)
      then have "res \<noteq> Inr () \<and> h' = h1"
        using assms(2) targets Inr p
        by (auto simp: notary_sign_def make_gun_and_targets_def bind_io_apply bind_res_def split: sum.splits)
      with es show ?thesis by auto
    next
      case svc: (Inr kb)
      obtain key buf where kb: "kb = (key, buf)" by force
      have crypto: "make_crypto_service N dir = Inr (key, buf)" using svc kb by (auto simp: bind_res_eq_Inr)
      have run: "publish_all N url gun (nw_key_ids N key buf) ts h1 = (res, h')"
        using assms(2) targets Inr p svc kb
        by (auto simp: notary_sign_def make_gun_and_targets_def bind_io_apply bind_res_eq_Inr split: sum.splits)
      obtain fs n where "h' = h1 @ fs" "map fst (staged fs) = take n ts"
        "list_all (staged_well N (nw_key_ids N key buf)) (staged fs)" "res = Inr () \<longrightarrow> n = length ts"
        using publish_all_run [of N url gun "nw_key_ids N key buf" ts h1] run by auto
      with es ok crypto show ?thesis by (intro exI [of _ "es @ fs"]) auto
    qed
  qed
qed

definition sample_notary :: notary_world where
  "sample_notary = \<lparr>nw_parse_weak = (\<lambda>t. Inr (''reg.io/app'', drop 11 t)), nw_fetch_size = (\<lambda>_ _ _. Inr (Inr 7)),
     nw_new_store = (\<lambda>_ _. Inr ()), nw_read_dir = (\<lambda>_. Inr [''password'', ''root.key'']),
     nw_mounts = \<lparr>mt_stat = (\<lambda>_ _. Inr ()), mt_read = (\<lambda>_ _. Inr ''text'')\<rparr>, nw_store_key = (\<lambda>_ _. Inr ()),
     nw_new_repository = (\<lambda>_ _ _. Inr ()),
     nw_delegations = (\<lambda>_. Inr [\<lparr>dg_name = ''targets/ci'', dg_covers = (\<lambda>_. True), dg_key_ids = [''root'']\<rparr>]),
     nw_key_ids = (\<lambda>key _. [key]), nw_targets_role = ''targets'', nw_do = (\<lambda>_ _. Inr ())\<rparr>"

lemma sample_roles: "get_roles sample_notary [''root''] t h = (Inr [''targets/ci''], h)"
proof -
  have "path_dir ''targets/ci'' = ''targets''" by code_simp
  then show ?thesis
    by (simp add: get_roles_def sample_notary_def role_usable_def bind_io_apply Let_def)
qed

theorem notary_publishes_every_tag_witness:
  "\<exists>es ts. snd (notary_sign sample_notary ''notary.io'' ''/keys'' sample_report (LibraryKeychain '''') []) = es \<and>
     map (\<lambda>t. (nt_name t, nt_hash t)) ts = [(''1'', [CHR 0x0A, CHR 0x1B]), (''2'', [CHR 0x0A, CHR 0x1B])] \<and> map fst (staged es) = ts"
proof -
  let ?kc = "LibraryKeychain ''''"
  have hash: "hex_decode (trim_prefix ''sha256:0a1b'' ''sha256:'') = Inr [CHR 0x0A, CHR 0x1B]" by code_simp
  have names: "names_contexts sample_notary" by (simp add: names_contexts_def sample_notary_def)
  have crypto: "make_crypto_service sample_notary ''/keys'' = Inr (''root'', ''text'')"
  proof -
    have "find (\<lambda>nm. has_suffix nm ''.key'') [''password'', ''root.key''] = Some ''root.key''" by code_simp
    then show ?thesis by (simp add: make_crypto_service_def sample_notary_def)
  qed
  have target: "target_of sample_notary ?kc ''sha256:0a1b'' tag h =
      (Inr (''reg.io/app'', \<lparr>nt_name = drop 11 tag, nt_hash = [CHR 0x0A, CHR 0x1B], nt_length = 7\<rparr>),
       h @ [PullImage ?kc ''reg.io/app@sha256:0a1b''])" for tag h
    using hash by (simp add: target_of_def) (simp add: sample_notary_def bind_io_apply)
  have publish: "\<exists>h'. publish_all sample_notary url gun [''root''] ts h = (Inr (), h')" for url gun ts h
  proof (induction ts arbitrary: h)
    case (Cons t ts)
    have new: "nw_new_repository sample_notary g url gun = Inr ()" "nw_do sample_notary g ev = Inr ()" for g ev
      by (simp_all add: sample_notary_def)
    have "publish_target sample_notary gun [''root''] t h = (Inr (), h @ [StageTarget t [''targets/ci''], PublishTargets gun])"
      using sample_roles new by (simp add: bind_io_apply publish_target_def notary_call_def)
    with Cons new show ?case by (simp add: bind_io_apply)
  qed simp
  obtain h' where run: "notary_sign sample_notary ''notary.io'' ''/keys'' sample_report ?kc [] = (Inr (), h')"
  proof -
    have "nw_key_ids sample_notary ''root'' ''text'' = [''root'']" "nw_new_store sample_notary url gun = Inr ()" for url gun
      by (simp_all add: sample_notary_def)
    moreover obtain ts h1 where "make_gun_and_targets sample_notary sample_report ?kc [] = (Inr (''reg.io/app'', ts), h1)"
      by (simp add: make_gun_and_targets_def sample_report_def bind_io_apply target)
    moreover obtain h' where "publish_all sample_notary ''notary.io'' ''reg.io/app'' [''root''] ts h1 = (Inr (), h')"
      using publish by blast
    ultimately show ?thesis
      using that crypto by (simp add: notary_sign_def bind_io_apply)
  qed
  obtain gun ts n where t: "list_all2 (target_for sample_notary (rep_digest sample_report) gun) (rep_tags sample_report) ts"
    "map fst (staged h') = take n ts" "n = length ts"
    using notary_publishes_every_tag [OF names run] by (auto simp: sample_report_def)
  then obtain t1 t2 where ts: "ts = [t1, t2]" by (auto simp: sample_report_def list_all2_Cons1)
  with t(1) hash have "nt_name t1 = ''1''" "nt_hash t1 = [CHR 0x0A, CHR 0x1B]" "nt_name t2 = ''2''" "nt_hash t2 = [CHR 0x0A, CHR 0x1B]"
    by (auto simp: sample_report_def target_for_def sample_notary_def)
  with t ts run show ?thesis by (intro exI [of _ h'] exI [of _ ts]) simp
qed

section \<open>Tokens\<close>

definition answers_plainly :: "auth_world \<Rightarrow> bool" where
  "answers_plainly A \<longleftrightarrow>
     (\<forall>h rq. \<not> panics (aw_send A h rq)) \<and> (\<forall>h rq resp. aw_send A h rq = Inr resp \<longrightarrow> \<not> panics (rs_token resp)) \<and>
     (\<forall>u. \<not> panics (aw_new_request A u) \<and> \<not> panics (aw_url_host A u) \<and> \<not> panics (aw_resolve A u))"

lemma panics_bind_res: "panics (bind_res r f) \<longleftrightarrow> panics r \<or> (\<exists>x. r = Inr x \<and> panics (f x))"
  by (cases r) (simp_all add: panics_def)

lemma extract_bearer_option_no_panic: "\<not> panics (extract_bearer_option kind s)"
  by (simp add: extract_bearer_option_def Let_def split: option.split)

lemma fetch_token_panics:
  assumes "answers_plainly A"
  shows "panics (fst (fetch_token A header h)) \<longleftrightarrow> CHR '' '' \<notin> set header"
proof -
  have space: "panics (challenge_parameters header) \<longleftrightarrow> CHR '' '' \<notin> set header"
  proof (cases "dropWhile (\<lambda>c. c \<noteq> CHR '' '') header")
    case Nil
    then have "CHR '' '' \<notin> set header" unfolding dropWhile_eq_Nil_conv by blast
    then show ?thesis unfolding challenge_parameters_def Nil by simp
  next
    case (Cons c cs)
    then have "dropWhile (\<lambda>c. c \<noteq> CHR '' '') header \<noteq> []" by simp
    then have "CHR '' '' \<in> set header" unfolding dropWhile_eq_Nil_conv by blast
    then show ?thesis unfolding challenge_parameters_def Cons by simp
  qed
  have "panics (token_request A header) \<longleftrightarrow> panics (challenge_parameters header)"
    using assms extract_bearer_option_no_panic by (auto simp: token_request_def panics_bind_res answers_plainly_def)
  moreover have "panics (fst (fetch_token A header h)) \<longleftrightarrow> panics (token_request A header)"
    using assms
    by (cases "token_request A header")
      (auto simp: fetch_token_def send_def bind_io_apply answers_plainly_def panics_def split: sum.splits option.splits)
  ultimately show ?thesis using space by simp
qed

text \<open>
  The round tripper of notary requests panics in one case: with no token yet, when the server answers
  401 with a challenge that has no parameters. Every other failure is an error.
\<close>

theorem challenge_without_parameters_panics:
  assumes "answers_plainly A"
  shows "panics (fst (round_trip A token rq h)) \<longleftrightarrow>
    token = '''' \<and> (\<exists>resp. aw_send A h rq = Inr resp \<and> rs_status resp = 401 \<and> CHR '' '' \<notin> set (rs_challenge resp))"
proof -
  have attempt: "panics (fst (attempt_io m k g)) \<longleftrightarrow> panics (fst (m g)) \<or> \<not> panics (fst (m g)) \<and> panics (fst (k (fst (m g)) (snd (m g))))"
    for m :: "(prep_event, 'x) io" and k :: "'x res \<Rightarrow> (prep_event, 'y) io" and g
    by (auto simp: attempt_io_apply panics_def split: sum.split goerr.split)
  have send: "\<not> panics (fst (send A q g))" "fst (send A q g) = aw_send A g q" for q g
    using assms by (simp_all add: send_def answers_plainly_def)
  show ?thesis
  proof (cases "aw_send A h rq")
    case (Inl e)
    then have "\<not> panics (Inl e :: http_response res)" using assms unfolding answers_plainly_def by metis
    with Inl send show ?thesis by (simp add: round_trip_def attempt)
  next
    case (Inr resp)
    with send fetch_token_panics [OF assms, of "rs_challenge resp"] show ?thesis
      by (auto simp: round_trip_def attempt split: sum.split)
  qed
qed

definition sample_server :: auth_world where
  "sample_server = \<lparr>aw_send = (\<lambda>_ _. Inr \<lparr>rs_status = 401, rs_challenge = ''Bearer'', rs_token = Inr None\<rparr>),
     aw_new_request = (\<lambda>_. Inr ()), aw_with_query = (\<lambda>u q. u @ ''?'' @ q), aw_url_host = (\<lambda>u. Inr u),
     aw_resolve = (\<lambda>_. Inr \<lparr>ac_username = '''', ac_password = '''', ac_auth = ''''\<rparr>)\<rparr>"

theorem challenge_without_parameters_panics_witness:
  "panics (fst (round_trip sample_server '''' \<lparr>rq_method = ''GET'', rq_url = ''u'', rq_headers = Map.empty\<rparr> []))"
  by (subst challenge_without_parameters_panics) (simp_all add: answers_plainly_def sample_server_def)

end
