(* ===== verification/Completion.thy ===== *)
theory Completion
  imports Notary Build_Init Remote_Readers
begin

text \<open>
  The programs that end a build: \<open>cmd/completion\<close>, which signs the image and leaves the metadata of the
  build as its termination message, and \<open>cmd/rebase\<close>, which puts the layers of an image on a new run image.
  Lines of the log are left out; \<open>log.Fatal\<close> is an error.
\<close>

section \<open>Completion\<close>

definition registrySecretsDir :: string where "registrySecretsDir = ''/var/build-secrets''"
definition notarySecretDir :: string where "notarySecretDir = ''/var/notary/v1''"
definition cosignSecretLocation :: string where "cosignSecretLocation = ''/var/build-secrets/cosign''"

definition completion_flags :: "string list \<Rightarrow> flag_set" where
  "completion_flags environ =
     [''cache-tag'' \<mapsto> StringFlag (getenv_str environ ''CACHE_TAG''),
      ''termination-message-path'' \<mapsto> StringFlag (getenv_str environ ''TERMINATION_MESSAGE_PATH''),
      ''notary-v1-url'' \<mapsto> StringFlag '''',
      ''basic-docker'' \<mapsto> ListFlag [], ''dockercfg'' \<mapsto> ListFlag [], ''dockerconfig'' \<mapsto> ListFlag [],
      ''basic-git'' \<mapsto> ListFlag [], ''ssh-git'' \<mapsto> ListFlag [], ''blob'' \<mapsto> ListFlag [],
      ''cosign-annotations'' \<mapsto> ListFlag [], ''cosign-repositories'' \<mapsto> ListFlag [],
      ''cosign-docker-media-types'' \<mapsto> ListFlag []]"

text \<open>
  Everything the program reaches. \<open>fw_opaque\<close> is a keychain as the readers of metadata take it;
  \<open>fw_has_cosign\<close> says that the status of the directory with the keys is anything but an error that it does
  not exist.
\<close>

record final_world =
  fw_init :: init_world
  fw_report :: "final_report res"
  fw_has_cosign :: bool
  fw_temp_dir :: "prep_event list \<Rightarrow> string res"
  fw_signing :: signing_world
  fw_notary :: notary_world
  fw_metadata :: metadata_lib
  fw_opaque :: "keychain \<Rightarrow> opaque"
  fw_codec :: codec

fun map_key_values_from :: "(string \<times> string) list \<Rightarrow> string list \<Rightarrow> (string \<times> string) list res" where
  "map_key_values_from overrides [] = Inr overrides"
| "map_key_values_from overrides (arg # args) =
     (let parts = split_pair arg
      in if length parts \<noteq> 2 then Inl (Failed Plain (''argument not formatted as -arg=key=value: '' @ arg))
         else map_key_values_from (AList.update (parts ! 0) (parts ! 1) overrides) args)"

definition map_key_value_args :: "string list \<Rightarrow> (string \<times> string) list res" where
  "map_key_value_args args = map_key_values_from [] args"

definition sign_image :: "final_world \<Rightarrow> flag_set \<Rightarrow> final_report \<Rightarrow> keychain \<Rightarrow> (prep_event, unit) io" where
  "sign_image F fs r kc =
     bind_io
       (if fw_has_cosign F then
          bind_io (lift_io (map_key_value_args (flag_list fs ''cosign-annotations''))) (\<lambda>annotations.
          bind_io (lift_io (map_key_value_args (flag_list fs ''cosign-repositories''))) (\<lambda>repositories.
          bind_io (lift_io (map_key_value_args (flag_list fs ''cosign-docker-media-types''))) (\<lambda>media_types.
          map_err_io (wrap_err ''cosign sign'')
            (cosign_sign (fw_signing F) r cosignSecretLocation annotations (map_of repositories) (map_of media_types)))))
        else ret_io ()) (\<lambda>_.
     if flag_string fs ''notary-v1-url'' \<noteq> ''''
     then notary_sign (fw_notary F) (flag_string fs ''notary-v1-url'') notarySecretDir r kc
     else ret_io ())"

text \<open>The signing libraries find the credentials in a file that an environment variable names.\<close>

definition sign_if_wanted :: "final_world \<Rightarrow> flag_set \<Rightarrow> final_report \<Rightarrow> docker_creds option \<Rightarrow> keychain \<Rightarrow> (prep_event, unit) io" where
  "sign_if_wanted F fs r creds kc =
     (if fw_has_cosign F \<or> flag_string fs ''notary-v1-url'' \<noteq> '''' then
        bind_io (map_err_io (wrap_err ''error creating temprary directory'') (read_io (fw_temp_dir F))) (\<lambda>tmp.
        bind_io (map_err_io (wrap_err ''error writing docker creds'')
          (docker_save (iw_env (fw_init F)) (iw_save_json (fw_init F)) creds (path_join [tmp, ''.docker'', ''config.json'']))) (\<lambda>_.
        bind_io (map_err_io (wrap_err ''error setting DOCKER_CONFIG env'')
          (setenv ''DOCKER_CONFIG'' (path_join [tmp, ''.docker'']))) (\<lambda>_.
        sign_image F fs r kc)))
      else ret_io ())"

definition leave_metadata :: "final_world \<Rightarrow> flag_set \<Rightarrow> final_report \<Rightarrow> keychain \<Rightarrow> (prep_event, unit) io" where
  "leave_metadata F fs r kc =
     bind_io (lift_io (get_build_metadata (fw_metadata F) (hd (rep_tags r) @ ''@'' @ rep_digest r)
        (flag_string fs ''cache-tag'') (fw_opaque F kc))) (\<lambda>md.
     bind_io (lift_io (compress_build_metadata (fw_codec F) md)) (\<lambda>data.
     bind_io (do_call (iw_env (fw_init F)) (MkdirAll (path_dir (flag_string fs ''termination-message-path'')) osModePerm)) (\<lambda>_.
     write_file (iw_env (fw_init F)) (flag_string fs ''termination-message-path'') data ''0666'')))"

definition completion :: "final_world \<Rightarrow> string list \<Rightarrow> string list \<Rightarrow> (prep_event, unit) io" where
  "completion F environ args =
     (let W = fw_init F in
     bind_io (lift_io (flag_parse (iw_read_int W) args (completion_flags environ))) (\<lambda>(fs, _).
     bind_io (lift_io (fw_report F)) (\<lambda>r.
     bind_io (lift_io (kl_no_client (iw_keychains W))) (\<lambda>node.
     bind_io (lift_io (parse_basic_auth_secrets (iw_mounts W) registrySecretsDir (flag_list fs ''basic-docker''))) (\<lambda>basic.
     bind_io (lift_io (append_secrets W (\<lambda>e. e) basic (flag_list fs ''dockercfg'' @ flag_list fs ''dockerconfig''))) (\<lambda>creds.
     if length (rep_tags r) = 0 then fail_io (Failed Plain ''no image found in report'')
     else
       bind_io (sign_if_wanted F fs r creds (MultiKeychain [LibraryKeychain node, CredsKeychain creds])) (\<lambda>_.
       leave_metadata F fs r (MultiKeychain [LibraryKeychain node, CredsKeychain creds]))))))))"

section \<open>Rebase\<close>

definition rebase_flags :: "string list \<Rightarrow> flag_set" where
  "rebase_flags environ =
     [''run-image'' \<mapsto> StringFlag (getenv_str environ ''RUN_IMAGE''),
      ''last-built-image'' \<mapsto> StringFlag (getenv_str environ ''LAST_BUILT_IMAGE''),
      ''build-changes'' \<mapsto> StringFlag (getenv_str environ ''BUILD_CHANGES''),
      ''report'' \<mapsto> StringFlag (getenv_str environ ''REPORT_FILE_PATH''),
      ''basic-docker'' \<mapsto> ListFlag [], ''dockercfg'' \<mapsto> ListFlag [], ''dockerconfig'' \<mapsto> ListFlag [],
      ''imagepull'' \<mapsto> ListFlag []]"

text \<open>
  The lifecycle's images and rebaser: an image by name on top of a base image, with whether it was found; the
  report of the rebase as TOML. An exit code of the lifecycle beside the error is dropped.
\<close>

record rebase_world =
  rw_new_image :: "keychain \<Rightarrow> string \<Rightarrow> string \<Rightarrow> bool res"
  rw_image_name :: "string \<Rightarrow> string"
  rw_rebase :: "prep_event list \<Rightarrow> string \<Rightarrow> string \<Rightarrow> string list \<Rightarrow> final_report res"
  rw_encode :: "final_report \<Rightarrow> string res"

definition write_report :: "init_world \<Rightarrow> rebase_world \<Rightarrow> string \<Rightarrow> final_report \<Rightarrow> (prep_event, unit) io" where
  "write_report W R p r =
     (if p = '''' then ret_io ()
      else bind_io (lift_io (rw_encode R r)) (\<lambda>txt. write_file (iw_env W) p txt ''0777''))"

definition rebase_image :: "init_world \<Rightarrow> rebase_world \<Rightarrow> flag_set \<Rightarrow> string list \<Rightarrow> (prep_event, unit) io" where
  "rebase_image W R fs tags =
     (if length tags < 1 then fail_io (Failed Plain ''must provide one or more image tags'')
      else
        bind_io (lift_io (kl_no_client (iw_keychains W))) (\<lambda>node.
        bind_io (lift_io (parse_basic_auth_secrets (iw_mounts W) buildSecretsDir (flag_list fs ''basic-docker''))) (\<lambda>basic.
        bind_io (lift_io (append_secrets W (\<lambda>e. e) basic
          (flag_list fs ''dockercfg'' @ flag_list fs ''dockerconfig'' @ flag_list fs ''imagepull''))) (\<lambda>creds.
        (let kc = MultiKeychain [CredsKeychain creds, LibraryKeychain node];
             last_built = flag_string fs ''last-built-image''; run_image = flag_string fs ''run-image''
         in bind_io (lift_io (rw_new_image R kc (hd tags) last_built)) (\<lambda>found.
            if \<not> found then fail_io (Failed Plain (''could not access previous image: '' @ last_built))
            else bind_io (lift_io (rw_new_image R kc run_image run_image)) (\<lambda>found_run.
              if \<not> found_run then fail_io (Failed Plain (''could not access run image: '' @ run_image))
              else
                bind_io (call_io (RebaseImage (rw_image_name R (hd tags)) run_image (tl tags))
                  (\<lambda>h. rw_rebase R h (rw_image_name R (hd tags)) run_image (tl tags))) (\<lambda>r.
                write_report W R (flag_string fs ''report'') r))))))))"

definition rebase_main :: "init_world \<Rightarrow> rebase_world \<Rightarrow> string list \<Rightarrow> string list \<Rightarrow> (prep_event, unit) io" where
  "rebase_main W R environ args =
     bind_io (lift_io (flag_parse (iw_read_int W) args (rebase_flags environ))) (\<lambda>(fs, tags).
     rebase_image W R fs tags)"

end
