(* ===== verification/Completion_Properties.thy ===== *)
theory Completion_Properties
  imports Completion Signing_Properties Prepare_Pod Prepare_Properties Operator_Properties Cnb_Properties
begin

text \<open>
  What the completion step promises: it signs with every key before it reports, what it reports is what the
  controller reads, and the settings of a key are those of its secret in the cluster.
\<close>

declare flag_string.simps [simp del] flag_list.simps [simp del]

section \<open>Calls that do not sign\<close>

text \<open>A call that neither signs nor touches the settings of a signing.\<close>

definition quiet :: "prep_event \<Rightarrow> bool" where
  "quiet ev \<longleftrightarrow>
     (case ev of
        SignImage ko so img \<Rightarrow> False
      | SetEnv k v \<Rightarrow> \<not> setting_name k
      | UnsetEnv k \<Rightarrow> \<not> setting_name k
      | _ \<Rightarrow> True)"

lemma quiet_env:
  assumes "list_all quiet es"
  shows "signings m es = []" and "unset_settings (env_after m es) = unset_settings m"
proof -
  have "signings m es = [] \<and> unset_settings (env_after m es) = unset_settings m"
    using assms
  proof (induction es arbitrary: m)
    case (Cons ev es)
    then have q: "quiet ev" by simp
    then have "unset_settings (env_step ev m) = unset_settings m"
      by (cases ev) (auto simp: quiet_def unset_settings_def setting_name_def)
    moreover have "signings m (ev # es) = signings (env_step ev m) es"
      using q by (cases ev) (simp_all add: quiet_def)
    ultimately show ?case using Cons by simp
  qed simp
  then show "signings m es = []" "unset_settings (env_after m es) = unset_settings m" by simp_all
qed

lemma quiet_simps [simp]:
  "quiet (MkdirAll p m)" "quiet (OpenFile p m)" "quiet (WriteTo p t)" "quiet (CloseFile p)" "quiet (PullImage k n)"
  "quiet (StageTarget u r)" "quiet (PublishTargets g)"
  by (simp_all add: quiet_def)

lemma quiet_docker_save: "emits quiet (docker_save E json c p)"
  unfolding docker_save_def by (intro emits_bind emits_map_err emits_do_call emits_lift quiet_simps)

lemma quiet_setenv: "\<not> setting_name k \<Longrightarrow> emits quiet (setenv k v)"
  by (auto simp: setenv_def quiet_def)

lemma quiet_notary_sign: "emits quiet (notary_sign N url dir r kc)"
proof -
  have one: "emits quiet (target_of N kc d tag)" for d tag
    unfolding target_of_def by (auto intro!: emits_bind)
  have "emits quiet (targets_from N kc d gun ts tags)" for d gun ts tags
    using one by (induction tags arbitrary: gun ts) (auto intro!: emits_bind)
  moreover have "emits quiet (get_roles N keys t)" for keys t
    unfolding get_roles_def by (auto intro!: emits_bind simp: Let_def)
  then have "emits quiet (publish_target N gun keys t)" for gun keys t
    unfolding publish_target_def notary_call_def by (auto intro!: emits_bind)
  then have "emits quiet (publish_all N url gun keys ts)" for gun keys ts
    by (induction ts) (auto intro!: emits_bind)
  ultimately show ?thesis
    unfolding notary_sign_def make_gun_and_targets_def by (auto intro!: emits_bind)
qed

section \<open>The report\<close>

text \<open>What a file holds after the calls.\<close>

fun last_write :: "string \<Rightarrow> prep_event list \<Rightarrow> string option" where
  "last_write p [] = None"
| "last_write p (ev # es) =
     (case last_write p es of
        Some c \<Rightarrow> Some c
      | None \<Rightarrow> (case ev of WriteTo q c \<Rightarrow> (if q = p then Some c else None) | _ \<Rightarrow> None))"

lemma last_write_append: "last_write p (es @ fs) = (case last_write p fs of None \<Rightarrow> last_write p es | Some c \<Rightarrow> Some c)"
  by (induction es) (auto split: option.splits)

lemma write_file_ok:
  "write_file E p txt mode h = (Inr (), h') \<Longrightarrow> h' = h @ [OpenFile p mode, WriteTo p txt, CloseFile p]"
  by (auto simp: write_file_def do_call_def io_simps attempt_io_apply split: sum.splits goerr.splits)

lemma leave_metadata_ok:
  assumes "leave_metadata F fs r kc h = (Inr (), h')"
  obtains md msg es where "h' = h @ es" and "list_all quiet es"
    and "get_build_metadata (fw_metadata F) (hd (rep_tags r) @ ''@'' @ rep_digest r) (flag_string fs ''cache-tag'') (fw_opaque F kc) = Inr md"
    and "compress_build_metadata (fw_codec F) md = Inr msg"
    and "last_write (flag_string fs ''termination-message-path'') es = Some msg"
proof -
  let ?p = "flag_string fs ''termination-message-path''"
  obtain md where md: "get_build_metadata (fw_metadata F) (hd (rep_tags r) @ ''@'' @ rep_digest r) (flag_string fs ''cache-tag'') (fw_opaque F kc) = Inr md"
    using assms by (auto simp: leave_metadata_def bind_io_apply split: sum.splits)
  then obtain msg where msg: "compress_build_metadata (fw_codec F) md = Inr msg"
    using assms by (auto simp: leave_metadata_def bind_io_apply split: sum.splits)
  have "write_file (iw_env (fw_init F)) ?p msg ''0666'' (h @ [MkdirAll (path_dir ?p) osModePerm]) = (Inr (), h')"
    using assms md msg by (auto simp: leave_metadata_def bind_io_apply do_call_def split: sum.splits)
  then have h': "h' = h @ [MkdirAll (path_dir ?p) osModePerm, OpenFile ?p ''0666'', WriteTo ?p msg, CloseFile ?p]"
    using write_file_ok by force
  show ?thesis by (rule that [OF h' _ md msg]) simp_all
qed

definition key_signing :: "signing_world \<Rightarrow> final_report \<Rightarrow> (string \<times> string) list \<Rightarrow> (string \<times> string) list \<Rightarrow> string \<Rightarrow> signing" where
  "key_signing W r repositories media_types nm =
     (key_file cosignSecretLocation nm, file_password W cosignSecretLocation nm, image_to_sign r,
      map_of repositories nm, map_of media_types nm)"

text \<open>The keys, and the settings that the flags give them.\<close>

definition signs_with_all_keys :: "final_world \<Rightarrow> flag_set \<Rightarrow> final_report \<Rightarrow> signing list \<Rightarrow> bool" where
  "signs_with_all_keys F fs r made \<longleftrightarrow>
     (if fw_has_cosign F then
        \<exists>nms repositories media_types. nms \<noteq> [] \<and> find_cosign_secrets (fw_signing F) cosignSecretLocation = Inr nms \<and>
          map_key_value_args (flag_list fs ''cosign-repositories'') = Inr repositories \<and>
          map_key_value_args (flag_list fs ''cosign-docker-media-types'') = Inr media_types \<and>
          made = map (key_signing (fw_signing F) r repositories media_types) nms
      else made = [])"

lemma sign_image_ok:
  assumes "sign_image F fs r kc h = (Inr (), h')" and "unset_settings (env_after (sw_environ (fw_signing F)) h)"
  shows "\<exists>es. h' = h @ es \<and> signs_with_all_keys F fs r (signings (env_after (sw_environ (fw_signing F)) h) es)"
proof -
  let ?E = "env_after (sw_environ (fw_signing F))"
  let ?rest = "if flag_string fs ''notary-v1-url'' \<noteq> ''''
     then notary_sign (fw_notary F) (flag_string fs ''notary-v1-url'') notarySecretDir r kc else ret_io ()"
  have rest: "\<exists>gs. snd (?rest g) = g @ gs \<and> list_all quiet gs" for g
    using quiet_notary_sign emits_ret by (auto elim!: emits_obtain simp: emits_def)
  show ?thesis
  proof (cases "fw_has_cosign F")
    case False
    then have "?rest h = (Inr (), h')" using assms(1) by (simp add: sign_image_def bind_io_apply)
    then obtain gs where "h' = h @ gs" "list_all quiet gs" using rest [of h] by (auto)
    with False show ?thesis by (auto simp: signs_with_all_keys_def quiet_env)
  next
    case True
    obtain ann reps media where flags: "map_key_value_args (flag_list fs ''cosign-annotations'') = Inr ann"
      "map_key_value_args (flag_list fs ''cosign-repositories'') = Inr reps"
      "map_key_value_args (flag_list fs ''cosign-docker-media-types'') = Inr media"
      using assms(1) True by (auto simp: sign_image_def bind_io_apply split: sum.splits)
    let ?sign = "cosign_sign (fw_signing F) r cosignSecretLocation ann (map_of reps) (map_of media)"
    obtain h1 where sign: "?sign h = (Inr (), h1)" and tail: "?rest h1 = (Inr (), h')"
      using assms(1) True flags
      by (cases "?sign h")
        (auto simp: sign_image_def bind_io_apply map_err_io_apply map_err_def split: sum.splits)
    obtain nms where nms: "find_cosign_secrets (fw_signing F) cosignSecretLocation = Inr nms"
      using sign by (auto simp: cosign_sign_def bind_io_apply split: sum.splits)
    obtain es where es: "h1 = h @ es" "nms \<noteq> []"
      "signings (?E h) es = map (key_signing (fw_signing F) r reps media) nms"
      using sign_with_all_keys_of [OF assms(2) nms sign] by (auto simp: key_signing_def)
    obtain gs where gs: "h' = h1 @ gs" "list_all quiet gs" using rest [of h1] tail by auto
    have "signings (?E h) (es @ gs) = map (key_signing (fw_signing F) r reps media) nms"
      using es(3) quiet_env(1) [OF gs(2)] by simp
    with True nms es flags gs show ?thesis unfolding signs_with_all_keys_def by (intro exI [of _ "es @ gs"]) auto
  qed
qed

text \<open>Of the environment only the settings matter for what the library sees.\<close>

lemma signings_cong:
  assumes "m CosignRepositoryEnv = m' CosignRepositoryEnv" and "m CosignDockerMediaTypesEnv = m' CosignDockerMediaTypesEnv"
  shows "signings m es = signings m' es"
  using assms
proof (induction es arbitrary: m m')
  case (Cons ev es)
  have "env_step ev m CosignRepositoryEnv = env_step ev m' CosignRepositoryEnv"
    "env_step ev m CosignDockerMediaTypesEnv = env_step ev m' CosignDockerMediaTypesEnv"
    using Cons.prems by (cases ev; simp)+
  then have "signings (env_step ev m) es = signings (env_step ev m') es" by (rule Cons.IH)
  with Cons.prems show ?case by (cases ev) simp_all
qed simp

lemma signs_depend: "unset_settings m \<Longrightarrow> unset_settings m' \<Longrightarrow> signings m es = signings m' es"
  by (rule signings_cong) (simp_all add: unset_settings_def)

lemma sign_if_wanted_ok:
  assumes "sign_if_wanted F fs r creds kc h = (Inr (), h')" and "unset_settings (env_after (sw_environ (fw_signing F)) h)"
  shows "\<exists>es. h' = h @ es \<and> signs_with_all_keys F fs r (signings (env_after (sw_environ (fw_signing F)) h) es)"
proof (cases "fw_has_cosign F \<or> flag_string fs ''notary-v1-url'' \<noteq> ''''")
  case False
  with assms(1) show ?thesis
    by (intro exI [of _ "[]"]) (simp add: sign_if_wanted_def signs_with_all_keys_def)
next
  case True
  let ?E = "env_after (sw_environ (fw_signing F))"
  obtain tmp where tmp: "fw_temp_dir F h = Inr tmp"
    using assms(1) True by (auto simp: sign_if_wanted_def bind_io_apply map_err_io_apply split: sum.splits)
  let ?save = "docker_save (iw_env (fw_init F)) (iw_save_json (fw_init F)) creds (path_join [tmp, ''.docker'', ''config.json''])"
  let ?set = "setenv ''DOCKER_CONFIG'' (path_join [tmp, ''.docker''])"
  obtain es where es: "snd (?save h) = h @ es" "list_all quiet es" using quiet_docker_save by (rule emits_obtain)
  have "\<not> setting_name ''DOCKER_CONFIG''"
    by (simp add: setting_name_def CosignRepositoryEnv_def CosignDockerMediaTypesEnv_def)
  then obtain fs' where fs': "snd (?set (h @ es)) = (h @ es) @ fs'" "list_all quiet fs'"
    using quiet_setenv by (blast elim: emits_obtain)
  have run: "sign_image F fs r kc ((h @ es) @ fs') = (Inr (), h')"
    using assms(1) True tmp es(1) fs'(1)
    by (auto simp: sign_if_wanted_def bind_io_apply map_err_io_apply map_err_def split: sum.splits)
  have unset: "unset_settings (?E ((h @ es) @ fs'))" using assms(2) quiet_env(2) es(2) fs'(2) by simp
  obtain gs where "h' = ((h @ es) @ fs') @ gs" "signs_with_all_keys F fs r (signings (?E ((h @ es) @ fs')) gs)"
    using sign_image_ok [OF run unset] by blast
  then show ?thesis
    using quiet_env(1) [OF es(2), of "?E h"] quiet_env(1) [OF fs'(2), of "?E (h @ es)"]
      signs_depend [OF assms(2) unset [unfolded append_assoc]]
    by (intro exI [of _ "es @ fs' @ gs"]) simp
qed

text \<open>The completion container of a pod ended with a message.\<close>

definition ended_with :: "pod \<Rightarrow> string \<Rightarrow> bool" where
  "ended_with p msg \<longleftrightarrow>
     (\<exists>s t. find (\<lambda>s. cs_name s = CompletionContainerName) (ps_containers (pod_status_of p)) = Some s \<and>
        cs_state s = CsTerminated t \<and> term_message t = msg)"

lemma ended_with_metadata: "ended_with p msg \<Longrightarrow> build_metadata_from_build_pod E p = be_decompress E msg"
proof -
  have "find (\<lambda>s. cs_name s = CompletionContainerName) ss = Some s \<Longrightarrow> cs_state s = CsTerminated t \<Longrightarrow>
      build_metadata_from_statuses E ss = be_decompress E (term_message t)" for s t ss
    by (induction ss) (auto split: if_splits)
  then show "ended_with p msg \<Longrightarrow> build_metadata_from_build_pod E p = be_decompress E msg"
    unfolding ended_with_def build_metadata_from_build_pod_def by blast
qed

lemma completion_ok:
  assumes "completion F environ args h = (Inr (), h')"
  obtains fs rest r creds kc h1 where "flag_parse (iw_read_int (fw_init F)) args (completion_flags environ) = Inr (fs, rest)"
    "fw_report F = Inr r" "rep_tags r \<noteq> []" "sign_if_wanted F fs r creds kc h = (Inr (), h1)"
    "leave_metadata F fs r kc h1 = (Inr (), h')"
proof -
  let ?W = "fw_init F"
  obtain fs rest where parse: "flag_parse (iw_read_int ?W) args (completion_flags environ) = Inr (fs, rest)"
    using assms by (auto simp: completion_def Let_def bind_io_apply split: sum.splits)
  obtain r where report: "fw_report F = Inr r"
    using assms parse by (auto simp: completion_def Let_def bind_io_apply split: sum.splits)
  obtain node where node: "kl_no_client (iw_keychains ?W) = Inr node"
    using assms parse report by (auto simp: completion_def Let_def bind_io_apply split: sum.splits)
  obtain basic where basic: "parse_basic_auth_secrets (iw_mounts ?W) registrySecretsDir (flag_list fs ''basic-docker'') = Inr basic"
    using assms parse report node by (auto simp: completion_def Let_def bind_io_apply split: sum.splits)
  obtain creds where creds: "append_secrets ?W (\<lambda>e. e) basic (flag_list fs ''dockercfg'' @ flag_list fs ''dockerconfig'') = Inr creds"
    using assms parse report node basic
    by (auto simp: completion_def Let_def bind_io_apply split: sum.splits)
  let ?kc = "MultiKeychain [LibraryKeychain node, CredsKeychain creds]"
  have tags: "rep_tags r \<noteq> []"
    using assms parse report node basic creds
    by (auto simp: completion_def Let_def bind_io_apply split: if_splits)
  obtain h1 where sign: "sign_if_wanted F fs r creds ?kc h = (Inr (), h1)" and leave: "leave_metadata F fs r ?kc h1 = (Inr (), h')"
    using assms parse report node basic creds tags
    by (cases "sign_if_wanted F fs r creds ?kc h")
      (auto simp: completion_def Let_def bind_io_apply split: sum.splits)
  show ?thesis by (rule that [OF parse report tags sign leave])
qed

text \<open>
  C36: When the completion step succeeds, every cosign key has signed the first tag of the report at its digest, each
  with the settings its flags give it, and only then the metadata of that image was written as the termination
  message. The message fits the limit of the kubelet, and the build reconciler that finds it in the status of
  the pod reads exactly that metadata.
\<close>

theorem completion_reports_signed_image:
  assumes "completion F environ args h = (Inr (), h')" and "codec_ok (fw_codec F)"
    and "unset_settings (env_after (sw_environ (fw_signing F)) h)"
  shows "\<exists>fs rest r kc es es' md msg. flag_parse (iw_read_int (fw_init F)) args (completion_flags environ) = Inr (fs, rest) \<and>
    fw_report F = Inr r \<and> rep_tags r \<noteq> [] \<and> h' = h @ es @ es' \<and>
    signs_with_all_keys F fs r (signings (env_after (sw_environ (fw_signing F)) h) es) \<and> list_all quiet es' \<and>
    last_write (flag_string fs ''termination-message-path'') es' = Some msg \<and> length msg \<le> maxTerminationMessageSize \<and>
    get_build_metadata (fw_metadata F) (hd (rep_tags r) @ ''@'' @ rep_digest r) (flag_string fs ''cache-tag'') kc = Inr md \<and>
    (\<forall>E p. be_decompress E = decompress_build_metadata (fw_codec F) \<longrightarrow> ended_with p msg \<longrightarrow>
       build_metadata_from_build_pod E p = Inr md)"
proof -
  obtain fs rest r creds kc h1 where parse: "flag_parse (iw_read_int (fw_init F)) args (completion_flags environ) = Inr (fs, rest)"
    and report: "fw_report F = Inr r" and tags: "rep_tags r \<noteq> []" and sign: "sign_if_wanted F fs r creds kc h = (Inr (), h1)"
    and leave: "leave_metadata F fs r kc h1 = (Inr (), h')"
    using assms(1) by (rule completion_ok)
  obtain es where es: "h1 = h @ es" "signs_with_all_keys F fs r (signings (env_after (sw_environ (fw_signing F)) h) es)"
    using sign_if_wanted_ok [OF sign assms(3)] by blast
  obtain md msg es' where es': "h' = h1 @ es'" "list_all quiet es'"
    "get_build_metadata (fw_metadata F) (hd (rep_tags r) @ ''@'' @ rep_digest r) (flag_string fs ''cache-tag'') (fw_opaque F kc) = Inr md"
    "compress_build_metadata (fw_codec F) md = Inr msg"
    "last_write (flag_string fs ''termination-message-path'') es' = Some msg"
    using leave by (rule leave_metadata_ok)
  note trip = compress_roundtrip [OF assms(2) es'(4)]
  have "\<forall>E p. be_decompress E = decompress_build_metadata (fw_codec F) \<longrightarrow> ended_with p msg \<longrightarrow>
       build_metadata_from_build_pod E p = Inr md"
    using trip by (auto simp: ended_with_metadata)
  with parse report tags es es'(1-3,5) trip show ?thesis unfolding es'(1) es(1) append_assoc by blast
qed

definition sample_metadata_lib :: metadata_lib where
  "sample_metadata_lib = \<lparr>ml_cnb = sample_cnb_lib,
     ml_fetch = (\<lambda>_ _. Inr (\<lparr>ri_config = Inr (Some \<lparr>cfg_labels = [''stack'' \<mapsto> ''jammy'', ''build'' \<mapsto> ''{}'', ''layers'' \<mapsto> ''{}''],
         cfg_env = [], cfg_working_dir = ''''\<rparr>), ri_layer_by_diff_id = (\<lambda>d. Inl (Failed Plain d))\<rparr>, ''app@sha256:1'')),
     ml_stack_label = ''stack'', ml_build_label = ''build'', ml_lifecycle_label = ''layers'',
     ml_build_metadata = (\<lambda>_. Inr ([\<lparr>bm_id = ''java'', bm_version = ''1'', bm_homepage = ''''\<rparr>], ''0.17.0'')),
     ml_layers = (\<lambda>_. Inr (''sha256:2'', ''run''))\<rparr>"

lemma sample_get_metadata: "get_build_metadata sample_metadata_lib ref '''' kc = Inr sample_message"
  by (simp add: get_build_metadata_def get_built_image_def get_cache_image_def read_built_image_def get_string_label_def
      get_label_def config_file_def sample_metadata_lib_def sample_cnb_lib_def sample_lib_def sample_message_def)

definition sample_final :: final_world where
  "sample_final = \<lparr>fw_init = sample_world, fw_report = Inr sample_report, fw_has_cosign = True,
     fw_temp_dir = (\<lambda>_. Inr ''/tmp/x''), fw_signing = sample_signing, fw_notary = sample_notary,
     fw_metadata = sample_metadata_lib, fw_opaque = (\<lambda>_. ''keychain''), fw_codec = sample_codec\<rparr>"

abbreviation sample_final_environ :: "string list" where
  "sample_final_environ \<equiv> [''TERMINATION_MESSAGE_PATH=/tmp/termination-log'']"

lemma sample_completion_flags:
  "flag_string (completion_flags sample_final_environ) ''cache-tag'' = ''''"
  "flag_string (completion_flags sample_final_environ) ''notary-v1-url'' = ''''"
  "flag_string (completion_flags sample_final_environ) ''termination-message-path'' = ''/tmp/termination-log''"
  "flag_list (completion_flags sample_final_environ) ''basic-docker'' = []" "flag_list (completion_flags sample_final_environ) ''dockercfg'' = []"
  "flag_list (completion_flags sample_final_environ) ''dockerconfig'' = []"
  "flag_list (completion_flags sample_final_environ) ''cosign-annotations'' = []"
  "flag_list (completion_flags sample_final_environ) ''cosign-repositories'' = []"
  "flag_list (completion_flags sample_final_environ) ''cosign-docker-media-types'' = []"
  by (simp_all add: completion_flags_def getenv_str_def getenv_def flag_string.simps flag_list.simps)

lemma sample_sign_ok: "fst (sign_if_wanted sample_final (completion_flags sample_final_environ) sample_report creds kc h) = Inr ()"
proof -
  have calls: "do_call (iw_env sample_world) ev h = (Inr (), h @ [ev])" "iw_save_json sample_world c = Inr ''{}''" for ev h c
    by (simp_all add: do_call_def sample_world_def sample_prep_env_def)
  have keys: "find_cosign_secrets sample_signing cosignSecretLocation = Inr [''release'', ''audit'']"
    using sample_keys by (simp add: find_cosign_secrets_def sample_signing_def)
  have sign: "fst (sign_with_keys sample_signing img location ann Map.empty Map.empty nms g) = Inr ()" for img location ann nms g
    by (rule sign_with_keys_ok) (simp_all add: storable_def sample_signing_def)
  have tags: "rep_tags sample_report \<noteq> []" by (simp add: sample_report_def)
  have cosign: "fst (cosign_sign sample_signing sample_report cosignSecretLocation [] Map.empty Map.empty g) = Inr ()" for g
    using sign tags by (simp add: cosign_sign_def keys bind_io_apply del: sign_with_keys.simps)
  have image: "fst (sign_image sample_final (completion_flags sample_final_environ) sample_report kc g) = Inr ()" for g
    using cosign
    by (simp add: sign_image_def bind_io_apply map_err_io_apply sample_completion_flags map_key_value_args_def sample_final_def)
  have "path_join [''/tmp/x'', ''.docker''] = ''/tmp/x/.docker''" by code_simp
  then have set: "fst (setenv ''DOCKER_CONFIG'' (path_join [''/tmp/x'', ''.docker'']) g) = Inr ()" for g
    by (simp add: setenv_def)
  have save: "fst (docker_save (iw_env sample_world) (iw_save_json sample_world) creds p g) = Inr ()" for p g
    by (simp add: docker_save_def bind_io_apply map_err_io_apply calls)
  have f: "fw_has_cosign sample_final" "fw_temp_dir sample_final = (\<lambda>_. Inr ''/tmp/x'')" "fw_init sample_final = sample_world"
    by (simp_all add: sample_final_def)
  show ?thesis
    by (simp add: sign_if_wanted_def f bind_io_apply map_err_io_apply save set image)
qed

lemma sample_completes: "fst (completion sample_final sample_final_environ [] []) = Inr ()"
proof -
  let ?fs = "completion_flags sample_final_environ"
  have f: "fw_init sample_final = sample_world" "fw_report sample_final = Inr sample_report"
    "fw_metadata sample_final = sample_metadata_lib" "fw_codec sample_final = sample_codec"
    "kl_no_client (iw_keychains sample_world) = Inr ''node''"
    by (simp_all add: sample_final_def sample_world_def)
  have calls: "do_call (iw_env sample_world) ev h = (Inr (), h @ [ev])" for ev h
    by (simp add: do_call_def sample_world_def sample_prep_env_def)
  have msg: "\<exists>msg. compress_build_metadata sample_codec sample_message = Inr msg"
    by (simp add: compress_build_metadata_def sample_codec_def encoded_len_def maxTerminationMessageSize_def)
  have leave: "fst (leave_metadata sample_final ?fs sample_report kc h) = Inr ()" for kc h
    using msg by (auto simp: leave_metadata_def bind_io_apply sample_completion_flags f sample_get_metadata write_file_def
        attempt_io_apply calls)
  have tags: "rep_tags sample_report \<noteq> []" by (simp add: sample_report_def)
  show ?thesis
    by (simp add: completion_def Let_def bind_io_apply f sample_completion_flags parse_basic_auth_secrets_def tags
        sample_sign_ok leave)
qed

theorem completion_reports_signed_image_witness:
  "\<exists>es es' msg. snd (completion sample_final sample_final_environ [] []) = es @ es' \<and> length (signings Map.empty es) = 2 \<and>
     last_write ''/tmp/termination-log'' es' = Some msg \<and> decompress_build_metadata sample_codec msg = Inr sample_message"
proof -
  have ok: "codec_ok (fw_codec sample_final)"
    by (auto simp: codec_ok_def sample_codec_def sample_final_def split: if_splits)
  have f: "sw_environ (fw_signing sample_final) = Map.empty" "fw_has_cosign sample_final" "fw_metadata sample_final = sample_metadata_lib"
    "fw_report sample_final = Inr sample_report" "fw_signing sample_final = sample_signing" "fw_codec sample_final = sample_codec"
    by (simp_all add: sample_final_def sample_signing_def)
  have unset: "unset_settings (env_after (sw_environ (fw_signing sample_final)) [])"
    by (simp add: unset_settings_def sample_final_def sample_signing_def)
  have run: "completion sample_final sample_final_environ [] [] = (Inr (), snd (completion sample_final sample_final_environ [] []))"
    using sample_completes by (simp add: prod_eq_iff)
  have keys: "find_cosign_secrets sample_signing cosignSecretLocation = Inr [''release'', ''audit'']"
    using sample_keys by (simp add: find_cosign_secrets_def sample_signing_def)
  obtain fs rest r kc es es' md msg where
    c: "flag_parse (iw_read_int (fw_init sample_final)) [] (completion_flags sample_final_environ) = Inr (fs, rest)"
    "snd (completion sample_final sample_final_environ [] []) = [] @ es @ es'"
    "signs_with_all_keys sample_final fs r (signings (env_after (sw_environ (fw_signing sample_final)) []) es)"
    "last_write (flag_string fs ''termination-message-path'') es' = Some msg"
    "get_build_metadata (fw_metadata sample_final) (hd (rep_tags r) @ ''@'' @ rep_digest r) (flag_string fs ''cache-tag'') kc = Inr md"
    "\<forall>E p. be_decompress E = decompress_build_metadata (fw_codec sample_final) \<longrightarrow> ended_with p msg \<longrightarrow>
       build_metadata_from_build_pod E p = Inr md"
    using completion_reports_signed_image [OF run ok unset] by blast
  have fs: "fs = completion_flags sample_final_environ" using c(1) by simp
  have md: "md = sample_message" using c(5) sample_get_metadata by (simp add: fs sample_completion_flags f)
  have "length (signings Map.empty es) = 2"
    using c(3) keys f(1) by (auto simp: signs_with_all_keys_def f(2,5))
  moreover have "decompress_build_metadata sample_codec msg = Inr md"
  proof -
    let ?E = "sample_bld_env\<lparr>be_decompress := decompress_build_metadata sample_codec\<rparr>"
    let ?s = "\<lparr>cs_name = CompletionContainerName, cs_state = CsTerminated \<lparr>term_exit_code = 0, term_reason = '''', term_message = msg\<rparr>,
        cs_ready = False\<rparr>"
    let ?p = "sample_done_pod\<lparr>pod_status_of := (pod_status_of sample_done_pod)\<lparr>ps_containers := [?s]\<rparr>\<rparr>"
    have ended: "ended_with ?p msg" by (simp add: ended_with_def)
    have "build_metadata_from_build_pod ?E ?p = Inr md" using c(6) ended by (simp add: f)
    with ended_with_metadata [OF ended, of ?E] show ?thesis by simp
  qed
  ultimately show ?thesis using c(2,4) md by (auto simp: fs sample_completion_flags)
qed

section \<open>The arguments of the completion container\<close>

definition completion_lists :: "string list" where
  "completion_lists = [''basic-docker'', ''dockercfg'', ''dockerconfig'', ''basic-git'', ''ssh-git'', ''blob'', ''cosign-annotations'',
     ''cosign-repositories'', ''cosign-docker-media-types'']"

lemma completion_has_lists: "has_lists completion_lists (completion_flags environ)"
  by (simp add: has_lists_def named_flag_def completion_lists_def completion_flags_def)

lemma completion_lists_empty: "\<forall>nm \<in> set completion_lists. flag_list (completion_flags environ) nm = []"
  by (simp add: completion_lists_def completion_flags_def flag_list.simps)

lemma secret_flag_completion: "secret_flag keep s = Some (nm, v) \<Longrightarrow> nm \<in> set completion_lists"
  by (auto simp: secret_flag_def completion_lists_def Let_def split: if_splits)

text \<open>A setting of a secret, as an annotation gives it, and the pairs of names and values behind the flags.\<close>

definition has_key :: "secret \<Rightarrow> bool" where
  "has_key s \<longleftrightarrow> lookup_str (sec_data s) cosignSecretDataCosignKey \<noteq> ''''"

definition setting_of :: "string \<Rightarrow> secret \<Rightarrow> string option" where
  "setting_of annotation s = (let v = lookup_str (sec_annotations s) annotation in if v = '''' then None else Some v)"

definition setting_pairs :: "string \<Rightarrow> secret list \<Rightarrow> (string \<times> string) list" where
  "setting_pairs annotation ss =
     List.map_filter (\<lambda>s. map_option (Pair (sec_name s)) (setting_of annotation s)) (filter has_key ss)"

definition cosign_flags :: "secret \<Rightarrow> (string \<times> string) list" where
  "cosign_flags s =
     map (\<lambda>(n, v). (''cosign-repositories'', n @ ''='' @ v)) (setting_pairs CosignRepositoryAnnotation [s]) @
     map (\<lambda>(n, v). (''cosign-docker-media-types'', n @ ''='' @ v)) (setting_pairs CosignDockerMediaTypesAnnotation [s])"

definition own_pair :: "string \<Rightarrow> secret \<Rightarrow> (string \<times> string) list" where
  "own_pair annotation s =
     (if has_key s then case setting_of annotation s of None \<Rightarrow> [] | Some v \<Rightarrow> [(sec_name s, v)] else [])"

lemma setting_pairs_simps:
  "setting_pairs a [] = []"
  "setting_pairs a (s # ss) = own_pair a s @ setting_pairs a ss"
  by (simp_all add: setting_pairs_def own_pair_def List.map_filter_simps split: option.split)

lemma cosign_secret_args_flags: "has_key s \<Longrightarrow> cosign_secret_args s = map flag_arg (cosign_flags s)"
  by (simp add: cosign_secret_args_def cosign_flags_def setting_pairs_def setting_of_def List.map_filter_simps flag_arg_def Let_def
      cosignRespositoryAnnotationPrefix_def cosignDockerMediaTypesAnnotationPrefix_def
      CosignRepositoryAnnotation_def CosignDockerMediaTypesAnnotation_def)

lemma setup_cosign_args:
  "setup_cosign_from i ss = (vs, ms, args) \<Longrightarrow> args = map flag_arg (concat (map cosign_flags ss)) \<and>
     (\<forall>s \<in> set ss. has_key s \<longrightarrow> (\<exists>m \<in> set ms. mount_path m = cosign_secret_path (sec_name s)))"
proof (induction ss arbitrary: i vs ms args)
  case (Cons s ss)
  obtain vs' ms' args' where rest: "setup_cosign_from (Suc i) ss = (vs', ms', args')" by (metis prod_cases3)
  show ?case
  proof (cases "has_key s")
    case True
    then show ?thesis
      using Cons.IH [OF rest] Cons.prems rest cosign_secret_args_flags [OF True] by (auto simp: has_key_def)
  next
    case False
    then have "cosign_flags s = []" by (simp add: cosign_flags_def setting_pairs_def List.map_filter_simps)
    with False show ?thesis using Cons.IH [OF rest] Cons.prems rest by (auto simp: has_key_def)
  qed
qed simp

definition flag_values :: "string \<Rightarrow> (string \<times> string) list \<Rightarrow> string list" where
  "flag_values nm ps = map snd (filter (\<lambda>p. fst p = nm) ps)"

lemma flag_values_simps:
  "flag_values nm [] = []" "flag_values nm (ps @ qs) = flag_values nm ps @ flag_values nm qs"
  "flag_values nm (map (\<lambda>(n, v). (k, f n v)) ps) = (if k = nm then map (\<lambda>(n, v). f n v) ps else [])"
  by (simp_all add: flag_values_def) (induction ps; auto)

lemma cosign_flags_values:
  "flag_values ''cosign-repositories'' (concat (map cosign_flags ss)) =
     map (\<lambda>(n, v). n @ ''='' @ v) (setting_pairs CosignRepositoryAnnotation ss)"
  "flag_values ''cosign-docker-media-types'' (concat (map cosign_flags ss)) =
     map (\<lambda>(n, v). n @ ''='' @ v) (setting_pairs CosignDockerMediaTypesAnnotation ss)"
  by (induction ss) (simp_all add: setting_pairs_simps cosign_flags_def flag_values_simps)

text \<open>With plain names and values, distinct names, the pairs are read back.\<close>

lemma split_pair_plain: "CHR ''='' \<notin> set n \<Longrightarrow> CHR ''='' \<notin> set v \<Longrightarrow> split_pair (n @ ''='' @ v) = [n, v]"
  using split_on_append [of "CHR ''=''" n v] by (simp add: split_pair_def split_on_no_sep)

lemma map_key_values_plain:
  "\<forall>(n, v) \<in> set ps. CHR ''='' \<notin> set n \<and> CHR ''='' \<notin> set v \<Longrightarrow>
     map_key_values_from acc (map (\<lambda>(n, v). n @ ''='' @ v) ps) = Inr (foldl (\<lambda>m (n, v). AList.update n v m) acc ps)"
proof (induction ps arbitrary: acc)
  case (Cons p ps)
  obtain n v where p: "p = (n, v)" by force
  then have "split_pair (n @ ''='' @ v) = [n, v]" using Cons.prems by (intro split_pair_plain) auto
  then show ?case using Cons p by simp
qed simp

lemma foldl_update_distinct:
  "distinct (map fst ps) \<Longrightarrow> map_of (foldl (\<lambda>m (n, v). AList.update n v m) acc ps) = map_of acc ++ map_of ps"
proof (induction ps arbitrary: acc)
  case (Cons p ps)
  obtain n v where p: "p = (n, v)" by force
  then have none: "map_of ps n = None" using Cons.prems by (simp add: map_of_eq_None_iff)
  have "map_of (AList.update n v acc) ++ map_of ps = map_of acc ++ map_of ((n, v) # ps)"
  proof
    fix x
    show "(map_of (AList.update n v acc) ++ map_of ps) x = (map_of acc ++ map_of ((n, v) # ps)) x"
      using none by (cases "x = n") (simp_all add: update_conv' map_add_def split: option.split)
  qed
  then show ?case using Cons p by (simp only: foldl_Cons list.map fst_conv distinct.simps prod.case)
qed simp

lemma foldl_update_last: "map_of (foldl (\<lambda>m (n, v). AList.update n v m) acc ps) = map_of (rev ps @ acc)"
proof (induction ps arbitrary: acc)
  case (Cons p ps)
  obtain n v where p: "p = (n, v)" by force
  have "map_of (rev ps @ AList.update n v acc) = map_of (rev ps @ (n, v) # acc)"
    by (simp add: map_of_append update_conv fun_eq_iff map_add_def split: option.split)
  with Cons p show ?case by simp
qed simp

lemma own_pair_map_of: "map_of (own_pair a s) n = (if n = sec_name s \<and> has_key s then setting_of a s else None)"
  by (cases "setting_of a s"; cases "has_key s"; simp add: own_pair_def)

lemma own_pair_names: "set (map fst (own_pair a s)) \<subseteq> {sec_name s} \<and> distinct (map fst (own_pair a s))"
  by (cases "setting_of a s"; cases "has_key s"; simp add: own_pair_def)

lemma map_of_setting_pairs:
  assumes "distinct (map sec_name ss)" and "s \<in> set ss" and "has_key s"
  shows "map_of (setting_pairs a ss) (sec_name s) = setting_of a s"
proof -
  have other: "map_of (setting_pairs a ss) n = None" if "n \<notin> sec_name ` set ss" for n ss
    using that by (induction ss) (simp_all add: setting_pairs_simps own_pair_map_of map_add_def)
  show ?thesis
    using assms
  proof (induction ss)
    case (Cons u ss)
    show ?case
    proof (cases "u = s")
      case True
      then show ?thesis using Cons.prems other [of "sec_name s" ss]
        by (simp add: setting_pairs_simps own_pair_map_of map_add_def split: option.split)
    next
      case False
      then have "sec_name u \<noteq> sec_name s" "s \<in> set ss" using Cons.prems by auto
      with Cons show ?thesis by (simp add: setting_pairs_simps own_pair_map_of map_add_def split: option.split)
    qed
  qed simp
qed

lemma distinct_setting_pairs: "distinct (map sec_name ss) \<Longrightarrow> distinct (map fst (setting_pairs a ss))"
proof (induction ss)
  case (Cons s ss)
  have "set (map fst (setting_pairs a ss)) \<subseteq> sec_name ` set ss"
    by (auto simp: setting_pairs_def List.map_filter_def)
  moreover have "sec_name s \<notin> sec_name ` set ss" using Cons.prems by simp
  ultimately have "set (map fst (own_pair a s)) \<inter> set (map fst (setting_pairs a ss)) = {}" using own_pair_names [of a s] by blast
  moreover have "distinct (map fst (setting_pairs a ss))" using Cons.IH Cons.prems by simp
  ultimately show ?case using own_pair_names [of a s] by (simp only: setting_pairs_simps map_append distinct_append simp_thms)
qed (simp add: setting_pairs_simps)

definition signing_annotations :: "pod_lib \<Rightarrow> build \<Rightarrow> (string \<times> string) list" where
  "signing_annotations PL b =
     [(''buildTimestamp'', pl_format_creation PL (meta_creation (b_meta b))),
      (''buildNumber'', lookup_str (meta_labels (b_meta b)) BuildNumberLabel)] @
     (case bs_cosign (b_spec b) of None \<Rightarrow> [] | Some c \<Rightarrow> map (\<lambda>a. (ca_name a, ca_value a)) (cosign_annotations c))"

lemma cosign_args_flags:
  "cosign_args PL b = map flag_arg (map (\<lambda>(n, v). (''cosign-annotations'', n @ ''='' @ v)) (signing_annotations PL b))"
  by (simp add: cosign_args_def signing_annotations_def flag_arg_def split: option.split)

definition completion_keep :: "build \<Rightarrow> build_context \<Rightarrow> secret \<Rightarrow> bool" where
  "completion_keep b bx =
     (if rebasable b (bpc_stack_id (bx_builder_config bx)) then docker_secrets else build_secrets (blob_auth_use_secrets b))"

definition completion_pairs :: "pod_lib \<Rightarrow> build \<Rightarrow> build_context \<Rightarrow> (string \<times> string) list" where
  "completion_pairs PL b bx =
     List.map_filter (secret_flag (completion_keep b bx)) (bx_secrets bx) @
     map (\<lambda>(n, v). (''cosign-annotations'', n @ ''='' @ v)) (signing_annotations PL b) @
     concat (map cosign_flags (bx_secrets bx))"

lemma completion_container_of:
  assumes "build_pod PL b images bx = Inr p" and "\<not> bx_injected_sidecars bx"
  obtains first ms where "set first \<subseteq> {homeEnv}"
    "hd (pod_containers (pod_spec_of p)) =
       completion_container b images first (notary_args b @ map flag_arg (completion_pairs PL b bx)) ms"
    "\<forall>s \<in> set (bx_secrets bx). has_key s \<longrightarrow> (\<exists>m \<in> set ms. mount_path m = cosign_secret_path (sec_name s))"
proof -
  obtain cvs cms cargs where cos: "setup_cosign_volumes (bx_secrets bx) = (cvs, cms, cargs)" by (metis prod_cases3)
  note cargs = setup_cosign_args [OF cos [unfolded setup_cosign_volumes_def]]
  obtain vs sms args where secs: "setup_secret_volumes_and_args (bx_secrets bx) (completion_keep b bx) = (vs, sms, args)"
    by (metis prod_cases3)
  note args = setup_secrets_args [OF secs [unfolded setup_secret_volumes_and_args_def]]
  have all: "args @ cosign_args PL b @ cargs = map flag_arg (completion_pairs PL b bx)"
    using args cargs by (simp add: completion_pairs_def cosign_args_flags)
  show ?thesis
    using assms(1)
  proof (cases rule: build_pod_cases)
    case (rebase api l)
    then have "p = rebase_pod_plain PL b l bx images" and "completion_keep b bx = docker_secrets"
      using assms(2) by (simp_all add: with_sidecars_def completion_keep_def)
    then have "hd (pod_containers (pod_spec_of p)) =
        completion_container b images [] (notary_args b @ map flag_arg (completion_pairs PL b bx)) ([reportMount, notaryV1Mount] @ sms @ cms)"
      using secs cos all by (simp add: rebase_pod_plain_def setup_image_pull_volumes_def Let_def)
    then show ?thesis by (rule that [rotated]) (use cargs in auto)
  next
    case (full api tag ref src bv bm dt)
    then have "p = build_pod_plain PL b bx images api tag (ref_registry ref) src bv bm dt"
      and "completion_keep b bx = build_secrets (blob_auth_use_secrets b)"
      using assms(2) by (simp_all add: with_sidecars_def completion_keep_def)
    then have "hd (pod_containers (pod_spec_of p)) =
        completion_container b images [homeEnv] (notary_args b @ map flag_arg (completion_pairs PL b bx))
          (sms @ cms @ [homeMount, reportMount, notaryV1Mount])"
      using secs cos all by (simp add: build_pod_plain_def setup_image_pull_volumes_def Let_def)
    then show ?thesis by (rule that [rotated]) (use cargs in auto)
  qed
qed

lemma completion_pairs_names: "\<forall>q \<in> set (completion_pairs PL b bx). fst q \<in> set completion_lists"
proof -
  have "''cosign-annotations'' \<in> set completion_lists" "''cosign-repositories'' \<in> set completion_lists"
    "''cosign-docker-media-types'' \<in> set completion_lists"
    by (simp_all add: completion_lists_def)
  moreover have "fst q \<in> set completion_lists" if q: "q \<in> set (List.map_filter (secret_flag k) ss)" for q k ss
  proof -
    obtain s where "secret_flag k s = Some q" using q by (auto simp: List.map_filter_def)
    then show ?thesis using secret_flag_completion by (cases q) simp
  qed
  ultimately show ?thesis unfolding completion_pairs_def cosign_flags_def by (auto simp: case_prod_beta)
qed

lemma secret_flags_values:
  assumes "nm \<in> {''cosign-annotations'', ''cosign-repositories'', ''cosign-docker-media-types''}"
  shows "flag_values nm (List.map_filter (secret_flag keep) ss) = []"
proof -
  have "secret_flag keep s \<noteq> Some (nm, v)" for s v using assms by (auto simp: secret_flag_def Let_def)
  then show ?thesis by (auto simp: flag_values_def filter_empty_conv List.map_filter_def)
qed

lemma completion_pairs_values:
  "flag_values ''cosign-annotations'' (completion_pairs PL b bx) = map (\<lambda>(n, v). n @ ''='' @ v) (signing_annotations PL b)"
  "flag_values ''cosign-repositories'' (completion_pairs PL b bx) =
     map (\<lambda>(n, v). n @ ''='' @ v) (setting_pairs CosignRepositoryAnnotation (bx_secrets bx))"
  "flag_values ''cosign-docker-media-types'' (completion_pairs PL b bx) =
     map (\<lambda>(n, v). n @ ''='' @ v) (setting_pairs CosignDockerMediaTypesAnnotation (bx_secrets bx))"
proof -
  have none: "flag_values ''cosign-annotations'' (concat (map cosign_flags ss)) = []" for ss
    by (induction ss) (simp_all add: cosign_flags_def flag_values_simps)
  show "flag_values ''cosign-annotations'' (completion_pairs PL b bx) = map (\<lambda>(n, v). n @ ''='' @ v) (signing_annotations PL b)"
    by (simp add: completion_pairs_def flag_values_simps secret_flags_values none)
  show "flag_values ''cosign-repositories'' (completion_pairs PL b bx) =
     map (\<lambda>(n, v). n @ ''='' @ v) (setting_pairs CosignRepositoryAnnotation (bx_secrets bx))"
    "flag_values ''cosign-docker-media-types'' (completion_pairs PL b bx) =
     map (\<lambda>(n, v). n @ ''='' @ v) (setting_pairs CosignDockerMediaTypesAnnotation (bx_secrets bx))"
    by (simp_all add: completion_pairs_def flag_values_simps secret_flags_values cosign_flags_values)
qed

definition plain_pairs :: "(string \<times> string) list \<Rightarrow> bool" where
  "plain_pairs ps \<longleftrightarrow> (\<forall>(n, v) \<in> set ps. CHR ''='' \<notin> set n \<and> CHR ''='' \<notin> set v)"

lemma read_plain_pairs:
  "plain_pairs ps \<Longrightarrow> \<exists>r. map_key_value_args (map (\<lambda>(n, v). n @ ''='' @ v) ps) = Inr r \<and> map_of r = map_of (rev ps)"
  using map_key_values_plain [of ps "[]"] foldl_update_last [of "[]" ps] by (simp add: map_key_value_args_def plain_pairs_def)

text \<open>The settings of a secret that flags of the form \<open>name=value\<close> can carry.\<close>

definition plain_settings :: "secret list \<Rightarrow> bool" where
  "plain_settings ss \<longleftrightarrow>
     (\<forall>s \<in> set ss. CHR ''='' \<notin> set (sec_name s) \<and> CHR ''='' \<notin> set (lookup_str (sec_annotations s) CosignRepositoryAnnotation) \<and>
        CHR ''='' \<notin> set (lookup_str (sec_annotations s) CosignDockerMediaTypesAnnotation))"

lemma plain_setting_pairs:
  "plain_settings ss \<Longrightarrow> a = CosignRepositoryAnnotation \<or> a = CosignDockerMediaTypesAnnotation \<Longrightarrow>
     \<forall>(n, v) \<in> set (setting_pairs a ss). CHR ''='' \<notin> set n \<and> CHR ''='' \<notin> set v"
  by (auto simp: plain_settings_def setting_pairs_def setting_of_def List.map_filter_def Let_def split: if_splits)

lemma read_setting_pairs:
  assumes "distinct (map sec_name ss)" and "plain_settings ss" and "a = CosignRepositoryAnnotation \<or> a = CosignDockerMediaTypesAnnotation"
  shows "\<exists>r. map_key_value_args (map (\<lambda>(n, v). n @ ''='' @ v) (setting_pairs a ss)) = Inr r \<and>
    (\<forall>s \<in> set ss. has_key s \<longrightarrow> map_of r (sec_name s) = setting_of a s)"
  using map_key_values_plain [OF plain_setting_pairs [OF assms(2,3)], of "[]"]
    foldl_update_distinct [OF distinct_setting_pairs [OF assms(1)], of "[]" a] map_of_setting_pairs [OF assms(1)]
  by (simp add: map_key_value_args_def)

lemma last_entry_completion:
  assumes "set first \<subseteq> {homeEnv}"
  shows "last_entry (ctr_env (completion_container b images first cargs ms)) ''CACHE_TAG'' =
      Some (plain_env ''CACHE_TAG'' (registry_cache_tag (b_spec b)))"
    "last_entry (ctr_env (completion_container b images first cargs ms)) ''TERMINATION_MESSAGE_PATH'' =
      Some (plain_env ''TERMINATION_MESSAGE_PATH'' completionTerminationMessagePath)"
  by (simp_all add: completion_container_def last_entry_append CacheTagEnvVar_def TerminationMessagePathEnvVar_def)

definition final_variables :: "string list" where
  "final_variables = [''CACHE_TAG'', ''TERMINATION_MESSAGE_PATH'']"

definition wanted_url :: "build \<Rightarrow> string" where
  "wanted_url b = (case build_notary_v1 b of None \<Rightarrow> '''' | Some c \<Rightarrow> notary_url c)"

text \<open>The flags that the notary argument leaves.\<close>

lemma parse_notary_args:
  "\<exists>fs. flag_parse ri (notary_args b @ rest) (completion_flags environ) = flag_parse ri rest fs \<and>
     has_lists completion_lists fs \<and> (\<forall>nm \<in> set completion_lists. flag_list fs nm = []) \<and>
     fs ''notary-v1-url'' = Some (StringFlag (wanted_url b)) \<and>
     fs ''cache-tag'' = Some (StringFlag (getenv_str environ ''CACHE_TAG'')) \<and>
     fs ''termination-message-path'' = Some (StringFlag (getenv_str environ ''TERMINATION_MESSAGE_PATH''))"
proof -
  let ?lists = "\<lambda>fs. has_lists completion_lists fs \<and> (\<forall>nm \<in> set completion_lists. flag_list fs nm = [])"
  let ?strings = "\<lambda>fs. fs ''cache-tag'' = Some (StringFlag (getenv_str environ ''CACHE_TAG'')) \<and>
     fs ''termination-message-path'' = Some (StringFlag (getenv_str environ ''TERMINATION_MESSAGE_PATH''))"
  have start: "?lists (completion_flags environ)" "?strings (completion_flags environ)"
    using completion_has_lists [of environ] completion_lists_empty [of environ] by (simp_all add: completion_flags_def)
  show ?thesis
  proof (cases "build_notary_v1 b")
    case None
    have "completion_flags environ ''notary-v1-url'' = Some (StringFlag '''')" by (simp add: completion_flags_def)
    with None start show ?thesis by (intro exI [of _ "completion_flags environ"]) (simp add: notary_args_def wanted_url_def)
  next
    case (Some c)
    let ?fs = "(completion_flags environ)(''notary-v1-url'' \<mapsto> StringFlag (notary_url c))"
    have "assign_flag ri ''notary-v1-url'' (notary_url c) (completion_flags environ) = Inr ?fs"
      by (simp add: assign_flag_def set_flag_value_def completion_flags_def)
    then have "flag_parse ri (flag_arg (''notary-v1-url'', notary_url c) # rest) (completion_flags environ) = flag_parse ri rest ?fs"
      by (intro flag_parse_assigned) (simp_all add: named_flag_def)
    moreover have "''notary-v1-url'' \<notin> set completion_lists" by (simp add: completion_lists_def)
    then have "?lists ?fs" using start(1) by (auto simp: has_lists_def flag_list.simps)
    ultimately show ?thesis
      using Some start(2) by (intro exI [of _ ?fs]) (simp add: notary_args_def wanted_url_def flag_arg_def)
  qed
qed

lemma completion_flags_of_pod:
  assumes "build_pod PL b images bx = Inr p" and "\<not> bx_injected_sidecars bx"
  obtains fs where "flag_parse ri (ctr_args (hd (pod_containers (pod_spec_of p)))) (completion_flags environ) = Inr (fs, [])"
    "flag_string fs ''notary-v1-url'' = wanted_url b"
    "delivers_all final_variables (ctr_env (hd (pod_containers (pod_spec_of p)))) environ \<longrightarrow>
       flag_string fs ''cache-tag'' = registry_cache_tag (b_spec b) \<and>
       flag_string fs ''termination-message-path'' = ctr_termination_path (hd (pod_containers (pod_spec_of p)))"
    "\<forall>nm \<in> set completion_lists. flag_list fs nm = flag_values nm (completion_pairs PL b bx)"
    "\<forall>s \<in> set (bx_secrets bx). has_key s \<longrightarrow>
       (\<exists>m \<in> set (ctr_mounts (hd (pod_containers (pod_spec_of p)))). mount_path m = cosignSecretLocation @ ''/'' @ sec_name s)"
proof -
  obtain first ms where first: "set first \<subseteq> {homeEnv}"
    and c: "hd (pod_containers (pod_spec_of p)) =
       completion_container b images first (notary_args b @ map flag_arg (completion_pairs PL b bx)) ms"
    and mounts: "\<forall>s \<in> set (bx_secrets bx). has_key s \<longrightarrow> (\<exists>m \<in> set ms. mount_path m = cosign_secret_path (sec_name s))"
    by (rule completion_container_of [OF assms(1,2)])
  let ?ps = "completion_pairs PL b bx"
  obtain fs0 where fs0: "flag_parse ri (notary_args b @ map flag_arg ?ps) (completion_flags environ) = flag_parse ri (map flag_arg ?ps) fs0"
      "has_lists completion_lists fs0" "\<forall>nm \<in> set completion_lists. flag_list fs0 nm = []"
      "fs0 ''notary-v1-url'' = Some (StringFlag (wanted_url b))"
      "fs0 ''cache-tag'' = Some (StringFlag (getenv_str environ ''CACHE_TAG''))"
      "fs0 ''termination-message-path'' = Some (StringFlag (getenv_str environ ''TERMINATION_MESSAGE_PATH''))"
    using parse_notary_args by blast
  define fs where "fs = foldl add_to_flag fs0 ?ps"
  have parse: "flag_parse ri (notary_args b @ map flag_arg ?ps) (completion_flags environ) = Inr (fs, [])"
    using flag_parse_credentials [OF fs0(2) completion_pairs_names] fs0(1) by (simp add: fs_def)
  have same: "fs nm = fs0 nm" if "nm \<notin> set completion_lists" for nm
    unfolding fs_def by (rule foldl_add_to_flag(2)) (use completion_pairs_names that in fastforce)
  have strings: "flag_string fs ''notary-v1-url'' = wanted_url b" "flag_string fs ''cache-tag'' = getenv_str environ ''CACHE_TAG''"
      "flag_string fs ''termination-message-path'' = getenv_str environ ''TERMINATION_MESSAGE_PATH''"
    using fs0(4-6) by (simp_all add: same completion_lists_def flag_string.simps)
  have env: "delivers_all final_variables (ctr_env (hd (pod_containers (pod_spec_of p)))) environ \<longrightarrow>
      getenv_str environ ''CACHE_TAG'' = registry_cache_tag (b_spec b) \<and>
      getenv_str environ ''TERMINATION_MESSAGE_PATH'' = completionTerminationMessagePath"
    using last_entry_completion [OF first, of b images "notary_args b @ map flag_arg ?ps" ms]
    by (simp add: delivers_all_def final_variables_def c getenv_str_def)
  have lists: "flag_list fs nm = flag_values nm ?ps" if "nm \<in> set completion_lists" for nm
    unfolding fs_def flag_values_def using foldl_add_to_flag(1) [of fs0 ?ps nm] fs0(3) that by simp
  have path: "cosign_secret_path nm = cosignSecretLocation @ ''/'' @ nm" for nm
    by (simp add: cosign_secret_path_def cosignSecretLocation_def)
  show ?thesis
    by (rule that [of fs])
      (use parse strings env lists mounts in \<open>simp_all add: c path completion_container_def\<close>)
qed

text \<open>
  C37: In a pod without injected sidecars (there a waiter starts the program and cuts its arguments at blanks) the
  program of the completion container reads what the controller wrote. Let the kubelet pass on the variables of the
  container, let no two secrets share a name, and let no name of a secret, none of its settings for signatures and no
  annotation of the signature contain an equals sign. Then the flags give back the tag of the cache, the file whose
  contents the kubelet takes as the termination message, and the notary server of the build; the annotations of the
  signature are the time and the number of the build and those that the build asks for, the last of a name
  overruling; and the repository and the media types that the annotations of a secret with a key ask for arrive
  under the name of its key, whose directory is mounted where the program looks for keys.
\<close>

theorem completion_reads_its_pod:
  assumes "build_pod PL b images bx = Inr p" and "\<not> bx_injected_sidecars bx"
    and "distinct (map sec_name (bx_secrets bx))" and "plain_settings (bx_secrets bx)" and "plain_pairs (signing_annotations PL b)"
    and "delivers_all final_variables (ctr_env (hd (pod_containers (pod_spec_of p)))) environ"
  shows "\<exists>fs annotations repositories media_types.
    flag_parse ri (ctr_args (hd (pod_containers (pod_spec_of p)))) (completion_flags environ) = Inr (fs, []) \<and>
    flag_string fs ''cache-tag'' = registry_cache_tag (b_spec b) \<and>
    flag_string fs ''termination-message-path'' = ctr_termination_path (hd (pod_containers (pod_spec_of p))) \<and>
    flag_string fs ''notary-v1-url'' = wanted_url b \<and>
    map_key_value_args (flag_list fs ''cosign-annotations'') = Inr annotations \<and>
    map_of annotations = map_of (rev (signing_annotations PL b)) \<and>
    map_key_value_args (flag_list fs ''cosign-repositories'') = Inr repositories \<and>
    map_key_value_args (flag_list fs ''cosign-docker-media-types'') = Inr media_types \<and>
    (\<forall>s \<in> set (bx_secrets bx). has_key s \<longrightarrow>
       map_of repositories (sec_name s) = setting_of CosignRepositoryAnnotation s \<and>
       map_of media_types (sec_name s) = setting_of CosignDockerMediaTypesAnnotation s \<and>
       (\<exists>m \<in> set (ctr_mounts (hd (pod_containers (pod_spec_of p)))). mount_path m = cosignSecretLocation @ ''/'' @ sec_name s))"
proof -
  obtain fs where fs: "flag_parse ri (ctr_args (hd (pod_containers (pod_spec_of p)))) (completion_flags environ) = Inr (fs, [])"
    "flag_string fs ''notary-v1-url'' = wanted_url b"
    "delivers_all final_variables (ctr_env (hd (pod_containers (pod_spec_of p)))) environ \<longrightarrow>
       flag_string fs ''cache-tag'' = registry_cache_tag (b_spec b) \<and>
       flag_string fs ''termination-message-path'' = ctr_termination_path (hd (pod_containers (pod_spec_of p)))"
    "\<forall>nm \<in> set completion_lists. flag_list fs nm = flag_values nm (completion_pairs PL b bx)"
    "\<forall>s \<in> set (bx_secrets bx). has_key s \<longrightarrow>
       (\<exists>m \<in> set (ctr_mounts (hd (pod_containers (pod_spec_of p)))). mount_path m = cosignSecretLocation @ ''/'' @ sec_name s)"
    by (rule completion_flags_of_pod [OF assms(1,2), of ri environ])
  have flags: "flag_list fs ''cosign-annotations'' = map (\<lambda>(n, v). n @ ''='' @ v) (signing_annotations PL b)"
    "flag_list fs ''cosign-repositories'' = map (\<lambda>(n, v). n @ ''='' @ v) (setting_pairs CosignRepositoryAnnotation (bx_secrets bx))"
    "flag_list fs ''cosign-docker-media-types'' =
       map (\<lambda>(n, v). n @ ''='' @ v) (setting_pairs CosignDockerMediaTypesAnnotation (bx_secrets bx))"
    using fs(4) by (simp_all add: completion_pairs_values completion_lists_def)
  obtain annotations where "map_key_value_args (flag_list fs ''cosign-annotations'') = Inr annotations"
      "map_of annotations = map_of (rev (signing_annotations PL b))"
    using read_plain_pairs [OF assms(5)] flags(1) by metis
  moreover obtain reps where "map_key_value_args (flag_list fs ''cosign-repositories'') = Inr reps"
      "\<forall>s \<in> set (bx_secrets bx). has_key s \<longrightarrow> map_of reps (sec_name s) = setting_of CosignRepositoryAnnotation s"
    using read_setting_pairs [OF assms(3,4)] flags(2) by metis
  moreover obtain media where "map_key_value_args (flag_list fs ''cosign-docker-media-types'') = Inr media"
      "\<forall>s \<in> set (bx_secrets bx). has_key s \<longrightarrow> map_of media (sec_name s) = setting_of CosignDockerMediaTypesAnnotation s"
    using read_setting_pairs [OF assms(3,4)] flags(3) by metis
  ultimately show ?thesis
    using fs(1,2,5) fs(3) [THEN mp, OF assms(6)]
    by (intro exI [of _ fs] exI [of _ annotations] exI [of _ reps] exI [of _ media]) simp
qed

definition sample_key_secret :: secret where
  "sample_key_secret = \<lparr>sec_name = ''release'', sec_type = ''Opaque'',
     sec_annotations = [CosignRepositoryAnnotation \<mapsto> ''registry.example/signatures''],
     sec_data = [cosignSecretDataCosignKey \<mapsto> ''key'']\<rparr>"

lemma sample_key_setting:
  "has_key sample_key_secret" "setting_of CosignRepositoryAnnotation sample_key_secret = Some ''registry.example/signatures''"
  "setting_of CosignDockerMediaTypesAnnotation sample_key_secret = None" "sec_name sample_key_secret = ''release''"
  "plain_settings [sample_key_secret]"
  by (simp_all add: has_key_def setting_of_def sample_key_secret_def lookup_str_def plain_settings_def
      CosignRepositoryAnnotation_def CosignDockerMediaTypesAnnotation_def)

lemma environ_for_final: "delivers_all final_variables es (environ_for es final_variables)"
proof -
  have "\<forall>nm \<in> set final_variables. CHR ''='' \<notin> set nm" "distinct final_variables" by (simp_all add: final_variables_def)
  then show ?thesis by (auto simp: delivers_all_def environ_for_getenv split: option.split)
qed

lemma sample_plain_annotations: "plain_pairs (signing_annotations sample_pod_lib sample_numbered_build)"
  by (simp add: plain_pairs_def signing_annotations_def sample_pod_lib_def sample_numbered_build_def lookup_str_def)

theorem completion_reads_its_pod_witness:
  "\<exists>p environ fs annotations repositories. build_pod sample_pod_lib sample_numbered_build sample_images (sample_plain_context [sample_key_secret]) = Inr p \<and>
     flag_parse (\<lambda>_. None) (ctr_args (hd (pod_containers (pod_spec_of p)))) (completion_flags environ) = Inr (fs, []) \<and>
     map_key_value_args (flag_list fs ''cosign-annotations'') = Inr annotations \<and> map_of annotations ''team'' = Some ''payments'' \<and>
     map_key_value_args (flag_list fs ''cosign-repositories'') = Inr repositories \<and>
     map_of repositories ''release'' = Some ''registry.example/signatures''"
proof -
  obtain p where p: "build_pod sample_pod_lib sample_numbered_build sample_images (sample_plain_context [sample_key_secret]) = Inr p"
    using sample_plain_pod by blast
  have bx: "bx_secrets (sample_plain_context [sample_key_secret]) = [sample_key_secret]"
    "\<not> bx_injected_sidecars (sample_plain_context [sample_key_secret])"
    by (simp_all add: sample_plain_context_def sample_context_def)
  have names: "distinct (map sec_name (bx_secrets (sample_plain_context [sample_key_secret])))" by (simp add: bx)
  have plain: "plain_settings (bx_secrets (sample_plain_context [sample_key_secret]))" using sample_key_setting by (simp add: bx)
  obtain fs annotations reps where
    "flag_parse (\<lambda>_. None) (ctr_args (hd (pod_containers (pod_spec_of p))))
       (completion_flags (environ_for (ctr_env (hd (pod_containers (pod_spec_of p)))) final_variables)) = Inr (fs, [])"
    "map_key_value_args (flag_list fs ''cosign-annotations'') = Inr annotations"
    "map_of annotations = map_of (rev (signing_annotations sample_pod_lib sample_numbered_build))"
    "map_key_value_args (flag_list fs ''cosign-repositories'') = Inr reps"
    "\<forall>s \<in> set [sample_key_secret]. has_key s \<longrightarrow> map_of reps (sec_name s) = setting_of CosignRepositoryAnnotation s"
    using completion_reads_its_pod [OF p bx(2) names plain sample_plain_annotations environ_for_final, of "\<lambda>_. None", unfolded bx] by blast
  moreover from this(3) have "map_of annotations ''team'' = Some ''payments''"
    by (simp add: signing_annotations_def sample_numbered_build_def)
  moreover have "map_of reps ''release'' = Some ''registry.example/signatures''"
    using calculation(5) sample_key_setting by simp
  ultimately show ?thesis using p by blast
qed

section \<open>A setting with an equals sign\<close>

lemma map_key_values_bad:
  "length (split_pair a) \<noteq> 2 \<Longrightarrow> a \<in> set args \<Longrightarrow> \<exists>e. map_key_values_from acc args = Inl e"
proof (induction args arbitrary: acc)
  case (Cons b args)
  then show ?case by (cases "length (split_pair b) = 2") (auto simp: Let_def)
qed simp

lemma split_pair_parts: "CHR ''='' \<in> set v \<Longrightarrow> length (split_pair (n @ ''='' @ v)) \<noteq> 2"
proof -
  assume "CHR ''='' \<in> set v"
  then obtain xs ys where v: "v = xs @ CHR ''='' # ys" by (metis split_list)
  have "length (split_on c zs) \<ge> 1" for c zs by (induction zs) (auto split: list.splits)
  from this [of "CHR ''=''" n] this [of "CHR ''=''" xs] this [of "CHR ''=''" ys] show ?thesis
    by (simp add: split_pair_def v split_on_append)
qed

lemma sign_if_wanted_pairs:
  assumes "sign_if_wanted F fs r creds kc h = (Inr (), h')" and "fw_has_cosign F"
  shows "\<exists>annotations. map_key_value_args (flag_list fs ''cosign-annotations'') = Inr annotations"
  using assms by (auto simp: sign_if_wanted_def sign_image_def bind_io_apply split: sum.splits prod.splits)

text \<open>
  C38: An annotation for the signature whose value contains an equals sign ends a build whose pod has no injected
  sidecars: when the pod has keys, its completion step fails, whatever the registry, the other secrets and the rest of the world hold.
\<close>

theorem equals_sign_ends_build:
  assumes "build_pod PL b images bx = Inr p" and "\<not> bx_injected_sidecars bx"
    and "bs_cosign (b_spec b) = Some c" and "a \<in> set (cosign_annotations c)" and "CHR ''='' \<in> set (ca_value a)"
    and "fw_has_cosign F"
  shows "fst (completion F environ (ctr_args (hd (pod_containers (pod_spec_of p)))) h) \<noteq> Inr ()"
proof
  let ?args = "ctr_args (hd (pod_containers (pod_spec_of p)))"
  assume "fst (completion F environ ?args h) = Inr ()"
  then obtain h' where ran: "completion F environ ?args h = (Inr (), h')" by (metis prod.collapse)
  obtain fs rest r creds kc h1 where run: "flag_parse (iw_read_int (fw_init F)) ?args (completion_flags environ) = Inr (fs, rest)"
    "sign_if_wanted F fs r creds kc h = (Inr (), h1)"
    using ran by (rule completion_ok)
  obtain fs' where "flag_parse (iw_read_int (fw_init F)) ?args (completion_flags environ) = Inr (fs', [])"
    "\<forall>nm \<in> set completion_lists. flag_list fs' nm = flag_values nm (completion_pairs PL b bx)"
    by (rule completion_flags_of_pod [OF assms(1,2), of "iw_read_int (fw_init F)" environ])
  with run(1) have flags: "flag_list fs ''cosign-annotations'' = map (\<lambda>(n, v). n @ ''='' @ v) (signing_annotations PL b)"
    by (simp add: completion_pairs_values completion_lists_def)
  have "(ca_name a, ca_value a) \<in> set (signing_annotations PL b)"
    using assms(3,4) by (simp add: signing_annotations_def)
  then have "ca_name a @ ''='' @ ca_value a \<in> set (flag_list fs ''cosign-annotations'')" unfolding flags by force
  with split_pair_parts [OF assms(5)] obtain e where "map_key_value_args (flag_list fs ''cosign-annotations'') = Inl e"
    unfolding map_key_value_args_def by (metis map_key_values_bad)
  with sign_if_wanted_pairs [OF run(2) assms(6)] show False by simp
qed

theorem equals_sign_ends_build_witness:
  "\<exists>p. build_pod sample_pod_lib sample_annotated_build sample_images (sample_plain_context []) = Inr p \<and>
     fst (completion sample_final [] (ctr_args (hd (pod_containers (pod_spec_of p)))) []) \<noteq> Inr ()"
proof -
  obtain p where p: "build_pod sample_pod_lib sample_annotated_build sample_images (sample_plain_context []) = Inr p"
    using sample_plain_pod by blast
  have "\<not> bx_injected_sidecars (sample_plain_context [])" by (simp add: sample_plain_context_def)
  moreover have "bs_cosign (b_spec sample_annotated_build) = Some (CosignConfig [\<lparr>ca_name = ''query'', ca_value = ''a=b''\<rparr>])"
    by (simp add: sample_annotated_build_def)
  moreover have "fw_has_cosign sample_final" by (simp add: sample_final_def)
  ultimately have "fst (completion sample_final [] (ctr_args (hd (pod_containers (pod_spec_of p)))) []) \<noteq> Inr ()"
    by (intro equals_sign_ends_build [OF p]) auto
  with p show ?thesis by blast
qed

end
