(* ===== verification/Spec2Isabelle.thy ===== *)
theory Spec2Isabelle
  imports Image_Properties Build_Properties System Cnb_Properties Operator_Properties Source_Properties Admission_Properties Conversion_Properties Waiter_Properties Prepare_Properties Prepare_Pod Signing_Properties Completion_Properties
begin

text \<open>
  kpack builds container images from source code on Kubernetes. Users create \<open>Image\<close> objects; the
  image reconciler resolves their source, decides whether a build is needed and creates \<open>Build\<close>
  objects; the build reconciler runs each build as one pod whose containers are the phases of the
  buildpack lifecycle, between a step that prepares the workspace and one that reports. The builders
  those phases come from are images kpack makes of stacks, lifecycles and buildpacks. This library models
  the Go code under \<open>src/pkg\<close> and \<open>src/cmd\<close> as definitions translated from it, and proves what the
  controllers, the webhook and the programs of a build pod promise, alone and together.

  \<^bold>\<open>Conventions\<close> (\<open>Kpack_Prelude\<close>, \<open>K8s_Types\<close>). A Go struct is a record with the fields the code
  reads or writes; a nil pointer is \<open>None\<close>; a function that may fail returns \<open>goerr + 'a\<close>, where
  \<open>Failed\<close> carries the kind and text of a Go error and \<open>Panic\<close> a runtime panic (a nil dereference or
  an index out of range), which \<open>attempt_io\<close> cannot catch. Code with effects is a computation
  \<open>('event, 'a) io\<close>: it reads the answers of the world (the API server, a registry, files) from an
  environment record, as a function of the calls made so far, and appends the calls it makes to the
  history. So every answer, every error and every order of events is covered. Machine integers are
  \<open>int\<close> with \<open>wrap64\<close> and \<open>fits64\<close> where they may overflow; \<open>itoa\<close> and \<open>parse_int\<close> are proved
  inverse. Go maps are HOL maps, or lists of entries where the order of a range shows; quantities,
  affinities and other values the code only copies are opaque strings. Image references, tags, semantic
  versions, JSON and TOML come from libraries outside the repository: they are functions of records such
  as \<open>lib\<close>, \<open>cnb_lib\<close> or \<open>source_lib\<close>, and a property that needs anything of them says so.

  \<^bold>\<open>Types\<close>. \<open>Core_Types\<close> holds \<open>pkg/apis/core/v1alpha1\<close> (conditions, statuses, sources);
  \<open>Api_Types\<close> the images, builds, builders and source resolvers of \<open>pkg/apis/build/v1alpha2\<close>,
  \<open>Cluster_Types\<close> its stacks, lifecycles, stores and buildpacks; \<open>Api_Defaults\<close> their defaulting;
  \<open>Image_Builds\<close> is \<open>image_builds.go\<close>, the objects an image owns; \<open>V1_Types\<close> the version \<open>v1alpha1\<close>.

  \<^bold>\<open>Admission and versions\<close>. \<open>Validation\<close> and \<open>Admission\<close> are the \<open>Validate\<close> methods the webhook runs;
  \<open>Admission_Properties\<close> shows that admitted images give builds that are admitted in turn, as far as
  the length of their tags allows. \<open>Conversion\<close> is \<open>*_conversion.go\<close>, what the old version cannot hold
  going through annotations; \<open>Conversion_Properties\<close> what survives the way there and back.

  \<^bold>\<open>Deciding on a build\<close>. \<open>Build_Change\<close> is \<open>pkg/buildchange\<close>: the changes and the processor that
  collects reasons, errors and priority. \<open>Build_Required\<close> is \<open>image/build_required.go\<close>, refined by
  its specification. \<open>Build_List\<close> is \<open>image/build_list.go\<close> with the interface of Go's sort
  (a permutation, ordered for strict keys) as the locale \<open>go_sort\<close>.

  \<^bold>\<open>The image reconciler\<close>. \<open>Image_Reconciler\<close> is \<open>image.go\<close> and \<open>reconcile_build.go\<close>.
  \<open>Image_Reconciler_Props\<close> and \<open>Image_Reconciler_Safety\<close> describe what a reconcile emits and
  that it does not panic; \<open>Image_History\<close> the deletion of old builds and the statuses;
  \<open>Image_Cluster\<close> the builds of one image over time as a step relation with its invariant: the cache shows a
  reconcile any content of the server since the one it showed last, so lists may be outdated by any number of
  changes, and a creation that rests on an outdated list meets a name the server holds;
  \<open>Image_Properties\<close> states the properties with instances on the objects of \<open>Samples\<close>.

  \<^bold>\<open>Build pods\<close>. \<open>Build_Pod_Parts\<close> and \<open>Build_Pod\<close> are \<open>build_pod.go\<close>, the containers, volumes and
  arguments of the full and the rebase pod and their rewriting for injected sidecars;
  \<open>Build_Pod_Props\<close> their structure (every mount has its volume, the steps are ordered, no
  step has privileges, the environment of the user stays apart).

  \<^bold>\<open>The build reconciler\<close>. \<open>Build_Reconciler\<close> is \<open>build/build.go\<close>; pods come from the locale
  \<open>pod_generator\<close>, whose law (a pod carries the name of its build) \<open>Pod_Generator\<close>
  (\<open>pkg/buildpod/generator.go\<close>) is shown to satisfy. \<open>Build_Reconciler_Props\<close> and \<open>Build_Properties\<close> say
  that a build has one pod over any sequence of reconciles, ends once, and mounts no secret its user did not name.

  \<^bold>\<open>Inside the pod\<close>. \<open>Waiter\<close> is \<open>cmd/build-waiter\<close>, which orders the containers of a pod with
  sidecars: a step relation over the files of the shared volume, with invariants by rule induction and a
  measure for termination (\<open>Waiter_Properties\<close>). \<open>Prepare_Files\<close> holds paths, archives and the calls of
  the prepare container; \<open>Source_Fetch\<close> the fetchers of \<open>pkg/git\<close>, \<open>pkg/blob\<close> and \<open>pkg/registry\<close>;
  \<open>Docker_Creds\<close> is \<open>pkg/dockercreds\<close> and \<open>pkg/secret\<close>; \<open>Project_Descriptor\<close> the descriptor and the
  environment files of \<open>pkg/cnb\<close>; \<open>Build_Init\<close> the program \<open>cmd/build-init\<close> with its flags.
  \<open>Prepare_Properties\<close> says where it writes, what it checks first and which credentials it uses;
  \<open>Prepare_Pod\<close> runs it with the arguments and the environment that \<open>Build_Pod\<close> gives its container.

  \<^bold>\<open>The end of a build\<close>. \<open>Signing\<close> is \<open>pkg/cosign\<close>, which passes settings in the environment of the
  process (read off the history of calls); \<open>Notary\<close> is \<open>pkg/notary\<close>, its token dance included;
  \<open>Completion\<close> holds the programs \<open>cmd/completion\<close> and \<open>cmd/rebase\<close>. \<open>Signing_Properties\<close> says which
  settings each key signs with and what notary publishes; \<open>Completion_Properties\<close> that a finished build is
  signed before it is reported, and that the program reads what \<open>Build_Pod\<close> wrote for it.

  \<^bold>\<open>Builders\<close>. \<open>Buildpack_Resolver\<close> is \<open>buildpack_resolver.go\<close> and \<open>dependency_tree.go\<close>,
  \<open>Buildpack_Fetcher\<close> \<open>remote_buildpack_fetcher.go\<close>, \<open>Builder_Image\<close> \<open>builder_builder.go\<close> and
  \<open>builder_layers.go\<close>, \<open>Create_Builder\<close> \<open>create_builder.go\<close>, all of \<open>pkg/cnb\<close>; \<open>Cnb_Properties\<close> says
  which buildpack a reference means, that what is fetched is closed, and that an image is determined by its
  inputs. \<open>Remote_Readers\<close> (with \<open>Base64\<close>) reads stacks, lifecycles, buildpackages and built images.
  \<open>Resource_Reconcilers\<close> and \<open>Builder_Reconcilers\<close> are the reconcilers of those kinds, \<open>Tracker\<close> is
  \<open>pkg/tracker\<close>; \<open>Operator_Properties\<close> holds their properties.

  \<^bold>\<open>Sources\<close>. \<open>Git_Resolver\<close> is \<open>pkg/git\<close> (credentials, listing, cloning), \<open>Source_Resolvers\<close> the
  reconciler of source resolvers; \<open>Source_Properties\<close> says which credential is used, when an error of the
  remote changes nothing, and that what is resolved is what was asked for.

  \<^bold>\<open>Together\<close>. \<open>System\<close> interleaves the image and the build reconciler on one API server: every status
  write of the build reconciler is either progress of a running build or leaves the outcome of a finished
  one as it was, so the invariant of the image reconciler holds of the whole system (theorems below).

  \<^bold>\<open>Bounds\<close>. No definition uses fuel: loops follow the lists they run over. The dependency tree of
  buildpacks and the fetch of their layers may not end in Go; they are partial functions whose
  value is \<open>None\<close> then, and \<open>fetch_ends_closed\<close> says when they end. Each waiter of a pod moves at most eight
  times, however the others move in between. Runs of the system are of any length; the properties about build numbers
  ask that the length of the run fits in 64 bits, which bounds the counter.

  \<^bold>\<open>Not modelled\<close>. The wiring of informers and controllers (\<open>NewController\<close>, \<open>cmd/controller\<close>,
  \<open>cmd/webhook\<close>), which registers callbacks and starts threads; log lines, progress output, the diff
  of changes for a terminal (\<open>pkg/differ\<close>) and the streaming of logs (\<open>pkg/logs\<close>), which are output
  only; the wire protocols of git, registries and blob servers and the formats JSON, TOML, tar and gzip,
  which are libraries; deep copies, clients and schemas, which are generated; the attestations of finished builds
  (\<open>pkg/slsa\<close>), a feature that is off by default.
\<close>

section \<open>Both reconcilers together\<close>

definition sample_stored_env :: bld_env where
  "sample_stored_env = sample_bld_env\<lparr>be_get_build := (\<lambda>_ _ _. Inr (stamp 1 sample_build))\<rparr>"

definition sample_settled_build :: build where
  "sample_settled_build =
     (let b = apply_pod_state sample_bld_conf sample_stored_env sample_done_pod
                (apply_metadata sample_metadata '''' (build_set_defaults (stamp 1 sample_build)))
      in b\<lparr>b_status := (b_status b)\<lparr>bst_status := (bst_status (b_status b))\<lparr>st_observed_generation := meta_generation (b_meta b)\<rparr>\<rparr>\<rparr>)"

lemma stamp_running: "is_running (Some (stamp t b)) = is_running (Some b)"
  by (simp add: stamp_def succeeded_condition_def)

lemma sample_settled_success: "is_success (Some sample_settled_build)"
proof -
  have "is_success (Some (apply_pod_state sample_bld_conf sample_stored_env sample_done_pod b))" for b
    by (simp only: apply_pod_state_status) (simp add: sample_done_pod_def)
  then show ?thesis by (simp add: sample_settled_build_def Let_def succeeded_condition_def get_condition_def)
qed

lemma sample_settles:
  "snd (reconcile_build_key sample_bld_conf sample_stored_env ''dev/app-build-1'' []) = [UpdateBuildStatus sample_settled_build]"
proof -
  let ?b = "build_set_defaults (stamp 1 sample_build)"
  have running: "is_running (Some ?b)"
    using sample_build_running by (simp add: stamp_def succeeded_condition_def)
  have key: "be_split_key sample_stored_env ''dev/app-build-1'' = Inr (''dev'', ''app-build-1'')"
    by (simp add: sample_stored_env_def sample_bld_env_def)
  have get: "be_get_build sample_stored_env h ns n = Inr (stamp 1 sample_build)" for h ns n
    by (simp add: sample_stored_env_def)
  have run: "reconcile_build_object sample_bld_conf sample_stored_env ?b h =
     (Inr (apply_pod_state sample_bld_conf sample_stored_env sample_done_pod (apply_metadata sample_metadata '''' ?b)), h)" for h
    by (rule sample_done_run [OF running])
       (simp_all add: sample_stored_env_def sample_bld_env_def)
  have "b_status (stamp 1 sample_build) \<noteq> b_status sample_settled_build"
    using sample_settled_success sample_build_running stamp_running [of 1 sample_build]
      condition_trichotomy [of "succeeded_condition sample_settled_build"]
    by (auto simp: succeeded_condition_def)
  then have changed: "\<not> bc_status_equal sample_bld_conf (b_status (stamp 1 sample_build)) (b_status sample_settled_build)"
    by (simp add: sample_bld_conf_def)
  then show ?thesis
    by (simp add: reconcile_build_key_cases [OF key get] attempt_io_apply run Let_def update_build_status_def
        bind_io_apply get sample_settled_build_def)
qed

definition sample_after_second :: cluster where
  "sample_after_second = put_builds [(stamp 1 sample_build)\<lparr>b_status := b_status sample_settled_build\<rparr>] sample_after_first"

lemma sample_system_run: "(system_step sample_conf sample_bld_conf ''app'' ^^ 2) empty_cluster sample_after_second"
proof -
  have "sample_after_first = forget_views 0 sample_after_first" by (simp add: forget_views_def)
  then have first: "system_step sample_conf sample_bld_conf ''app'' empty_cluster sample_after_first"
    using image_step [OF _ sample_limits sample_reads _ sample_after_first_def [symmetric, THEN sym]]
    by (simp add: sample_after_first_simps empty_cluster_def sample_image_def)
  have key: "be_split_key sample_stored_env ''dev/app-build-1'' = Inr (''dev'', ''app-build-1'')"
    by (simp add: sample_stored_env_def sample_bld_env_def)
  have get: "be_get_build sample_stored_env [] ns n = Inr (cl_builds sample_after_first ! 0)" for ns n
    by (simp add: sample_stored_env_def sample_after_first_simps)
  have "system_step sample_conf sample_bld_conf ''app'' sample_after_first sample_after_second"
    by (rule build_step [where i = 0 and b' = sample_settled_build, OF _ key get])
       (simp_all add: sample_after_first_simps sample_settles sample_after_second_def)
  with first show ?thesis by (auto simp: numeral_2_eq_2)
qed

text \<open>
  C11: With both reconcilers at work on one API server, interleaved in any order, whatever lists the informer's
  cache shows without going back, and whichever calls fail, at most one build of an image runs, it is the newest,
  and the builds ever created have the numbers 1, 2, 3 and so on. The history limits of the image are at least
  one, nobody else creates or deletes its builds, the names of different builds differ, and no two builds were
  created at the same second; the server refuses a status write that rests on an outdated build.
\<close>

theorem system_one_running_build:
  assumes "(system_step C D nm ^^ k) empty_cluster s" and "fits64 (int k)"
    and "go_sort (ic_sort C) creation_key" and "distinct_build_names C nm" and "distinct (cl_stamps s)"
  shows "length (filter (\<lambda>b. is_running (Some b)) (cl_builds s)) \<le> 1 \<and>
     (\<forall>b \<in> set (cl_builds s). is_running (Some b) \<longrightarrow> newest (cl_builds s) b) \<and>
     cl_issued s = map (\<lambda>j. int (Suc j)) [0..<length (cl_issued s)]"
proof -
  have inv: "cluster_inv C nm k 0 s" by (rule system_run_inv [OF assms])
  with cluster_inv_one_running [OF inv] show ?thesis by (simp add: cluster_inv_def)
qed

theorem system_one_running_build_witness:
  "length (filter (\<lambda>b. is_running (Some b)) (cl_builds sample_after_second)) \<le> 1 \<and>
   is_success (Some (cl_builds sample_after_second ! 0))"
proof -
  have "is_success (Some (cl_builds sample_after_second ! 0))"
    using sample_settled_success by (simp add: sample_after_second_def succeeded_condition_def)
  with system_one_running_build [OF sample_system_run _ sample_sort sample_names] show ?thesis
    by (simp add: fits64_def int64_min_def int64_max_def sample_after_second_def sample_after_first_simps)
qed

text \<open>
  C12: The outcome of a build is final: a reconcile of a finished build neither creates nor patches
  a pod, and whatever status it writes has the conditions the build had.
\<close>

theorem finished_build_is_final:
  assumes "build_finished b" and "be_split_key E key = Inr (ns, nm)" and "be_get_build E [] ns nm = Inr b"
  shows "list_all (\<lambda>ev. \<exists>b'. ev = UpdateBuildStatus b' \<and> same_outcome b b')
     (snd (reconcile_build_key D E key []))"
proof -
  have "list_all (build_effect b) (snd (reconcile_build_key D E key []))"
    by (rule reconcile_build_key_effects [OF assms(2,3)])
  then show ?thesis
    using finished_build_effect [OF assms(1)] by (rule list.pred_mono_strong)
qed

theorem finished_build_is_final_witness:
  "list_all (\<lambda>ev. \<exists>b'. ev = UpdateBuildStatus b' \<and> same_outcome (succeed sample_build) b')
     (snd (reconcile_build_key sample_bld_conf
        (sample_bld_env\<lparr>be_get_build := (\<lambda>_ _ _. Inr (succeed sample_build))\<rparr>) ''dev/app-build-1'' []))"
  by (rule finished_build_is_final [of _ _ _ "''dev''" "''app-build-1''"])
     (simp_all add: sample_bld_env_def build_finished_def succeed_def succeeded_condition_def get_condition_def
       mk_condition_def)

end
